(* ===== verification/Prelude.thy ===== *)
theory Prelude
  imports Main "HOL-Library.Word"
begin

text \<open>
  Shared material of the development: the machine types, C character buffers and the
  \<^verbatim>\<open>snprintf\<close>/\<^verbatim>\<open>strncpy\<close> family on them, the arguments of \<^verbatim>\<open>printf\<close>-like calls, and
  the generic facts on lists and words that the component theories use.
\<close>

unbundle bit_operations_syntax

section \<open>Types and collections\<close>

type_synonym ptraddr = "64 word"
type_synonym uintmax = "64 word"

named_theorems buf_simps \<open>facts on fixed-size C character buffers\<close>
named_theorems prog_simps \<open>execution of test-process statements\<close>
named_theorems passes_simps \<open>when a test body declares success\<close>
named_theorems cap_simps \<open>the CHERI C intrinsics on capabilities\<close>

section \<open>C character buffers\<close>

abbreviation NUL :: char where
  "NUL \<equiv> CHR 0x00"

text \<open>The string a reader of a buffer sees: the bytes before the first NUL.\<close>

definition c_str :: "char list \<Rightarrow> string" where
  "c_str buf = takeWhile (\<lambda>c. c \<noteq> NUL) buf"

text \<open>
  \<^verbatim>\<open>snprintf(buf, sizeof(buf), ...)\<close> of an already formatted text: at most
  \<^verbatim>\<open>sizeof(buf) - 1\<close> bytes and a terminating NUL; the rest of the buffer is untouched.
\<close>

definition snprintf_buf :: "char list \<Rightarrow> string \<Rightarrow> char list" where
  "snprintf_buf buf s =
     (if buf = [] then []
      else let t = take (length buf - 1) s in t @ [NUL] @ drop (length t + 1) buf)"

text \<open>\<^verbatim>\<open>strncpy(buf, s, sizeof(buf))\<close>: the rest of the buffer is filled with NULs.\<close>

definition strncpy_buf :: "char list \<Rightarrow> string \<Rightarrow> char list" where
  "strncpy_buf buf s = take (length buf) s @ replicate (length buf - length s) NUL"

text \<open>\<^verbatim>\<open>strncmp(s, p, strlen(p)) == 0\<close>: \<open>s\<close> begins with \<open>p\<close>.\<close>

definition begins_with :: "string \<Rightarrow> string \<Rightarrow> bool" where
  "begins_with s p = (take (length p) s = p)"

text \<open>\<^verbatim>\<open>strrchr(s, c)\<close>: the part before the last occurrence of \<open>c\<close>, if there is one.\<close>

definition before_last :: "char \<Rightarrow> string \<Rightarrow> string option" where
  "before_last c s =
     (if c \<in> set s then Some (rev (tl (dropWhile (\<lambda>x. x \<noteq> c) (rev s)))) else None)"

lemma length_snprintf_buf [simp, buf_simps]: "length (snprintf_buf buf s) = length buf"
  by (cases buf) (auto simp: snprintf_buf_def Let_def min_def)

lemma length_strncpy_buf [simp, buf_simps]: "length (strncpy_buf buf s) = length buf"
  by (auto simp: strncpy_buf_def min_def)

lemma takeWhile_no_NUL: "NUL \<notin> set s \<Longrightarrow> takeWhile (\<lambda>c. c \<noteq> NUL) s = s"
  by (induction s) auto

lemma c_str_append: "NUL \<notin> set s \<Longrightarrow> c_str (s @ t) = s @ c_str t"
  by (induction s) (auto simp: c_str_def)

lemma c_str_NUL [simp]: "c_str (NUL # t) = []"
  by (simp add: c_str_def)

lemma c_str_replicate [simp]: "c_str (replicate n NUL) = []"
  by (cases n) (auto simp: c_str_def)

lemma c_str_no_NUL: "NUL \<notin> set s \<Longrightarrow> c_str s = s"
  by (simp add: c_str_def takeWhile_no_NUL)

lemma NUL_notin_take: "NUL \<notin> set s \<Longrightarrow> NUL \<notin> set (take n s)"
  by (meson in_set_takeD)

lemma NUL_notin_c_str [simp]: "NUL \<notin> set (c_str buf)"
  by (auto simp: c_str_def dest: set_takeWhileD)

lemma c_str_snprintf_buf [buf_simps]:
  assumes "buf \<noteq> []" and "NUL \<notin> set s"
  shows "c_str (snprintf_buf buf s) = take (length buf - 1) s"
  using assms by (simp add: snprintf_buf_def Let_def c_str_append NUL_notin_take)

lemma c_str_strncpy_short:
  assumes "NUL \<notin> set s" and "length s \<le> length buf"
  shows "c_str (strncpy_buf buf s) = s"
  using assms by (simp add: strncpy_buf_def c_str_append)

text \<open>Overwriting the last byte by NUL, as the code does to terminate a buffer.\<close>

definition terminate_buf :: "char list \<Rightarrow> char list" where
  "terminate_buf buf = buf[length buf - 1 := NUL]"

lemma length_terminate_buf [simp, buf_simps]: "length (terminate_buf buf) = length buf"
  by (simp add: terminate_buf_def)

lemma terminate_buf_NUL_mem: "buf \<noteq> [] \<Longrightarrow> NUL \<in> set (terminate_buf buf)"
  by (simp add: terminate_buf_def set_update_memI)

lemma c_str_length_less: "NUL \<in> set buf \<Longrightarrow> length (c_str buf) < length buf"
  by (induction buf) (auto simp: c_str_def)

text \<open>A terminated buffer always holds a string shorter than itself.\<close>

lemma c_str_terminate_buf_less: "buf \<noteq> [] \<Longrightarrow> length (c_str (terminate_buf buf)) < length buf"
  using c_str_length_less [OF terminate_buf_NUL_mem] by fastforce

lemma terminate_strncpy [buf_simps]:
  assumes "buf \<noteq> []" and "NUL \<notin> set s"
  shows "c_str (terminate_buf (strncpy_buf buf s)) = take (length buf - 1) s"
proof (cases "length s < length buf")
  case True
  define k where "k = length buf - length s - 1"
  have k: "length buf - length s = Suc k" using True by (simp add: k_def)
  have b: "strncpy_buf buf s = s @ NUL # replicate k NUL"
    using True by (simp add: strncpy_buf_def k)
  have "terminate_buf (strncpy_buf buf s) = s @ (NUL # replicate k NUL)[length buf - 1 - length s := NUL]"
  proof -
    have "\<not> length buf - 1 < length s" and "length (s @ NUL # replicate k NUL) = length buf"
      using True by (auto simp: k_def)
    then show ?thesis by (simp add: terminate_buf_def b list_update_append)
  qed
  also have "\<dots> = s @ NUL # replicate k NUL"
    by (metis list_update_id nth_replicate replicate_Suc list_update_beyond not_less length_replicate)
  finally show ?thesis
    using assms True by (simp add: c_str_append)
next
  case False
  then have b: "strncpy_buf buf s = take (length buf) s" by (simp add: strncpy_buf_def)
  obtain m where m: "length buf = Suc m" using assms by (cases buf) auto
  have "terminate_buf (strncpy_buf buf s) = take m s @ [NUL]"
    using False by (simp add: terminate_buf_def b m take_Suc_conv_app_nth list_update_append)
  then show ?thesis
    using assms by (simp add: m c_str_append NUL_notin_take)
qed

section \<open>Arguments of printf-like calls\<close>

text \<open>
  Messages are built by the C library's formatter. The format string and the arguments are
  kept as the source writes them; the formatter itself belongs to the C library and is a
  field of the platform (see \<^verbatim>\<open>Platform\<close>).
\<close>

datatype 'p farg = FInt int | FWord uintmax | FStr string | FPtr 'p | FBool bool

section \<open>Words and alignment\<close>

text \<open>
  \<^verbatim>\<open>__builtin_align_down\<close>, \<^verbatim>\<open>__builtin_align_up\<close> and \<^verbatim>\<open>__builtin_is_aligned\<close> for a power
  of two; the rounding up wraps around at the top of the address space.
\<close>

definition align_down :: "ptraddr \<Rightarrow> ptraddr \<Rightarrow> ptraddr" where
  "align_down x a = x AND NOT (a - 1)"

definition align_up :: "ptraddr \<Rightarrow> ptraddr \<Rightarrow> ptraddr" where
  "align_up x a = (x + (a - 1)) AND NOT (a - 1)"

definition is_aligned :: "ptraddr \<Rightarrow> ptraddr \<Rightarrow> bool" where
  "is_aligned x a \<longleftrightarrow> x AND (a - 1) = 0"

lemma is_aligned_align_up [simp]: "is_aligned (align_up x a) a"
  by (simp add: is_aligned_def align_up_def and.assoc)

lemma is_aligned_align_down [simp]: "is_aligned (align_down x a) a"
  by (simp add: is_aligned_def align_down_def and.assoc)

lemma align_down_le: "align_down x a \<le> x"
  by (simp add: align_down_def word_and_le1 word_and_le2)

lemma unat_and_mask_mod: "unat (x AND (2 ^ n - 1) :: ptraddr) = unat x mod 2 ^ n"
proof -
  have t: "x AND (2 ^ n - 1) = take_bit n x"
    by (simp only: take_bit_eq_mask mask_eq_exp_minus_1)
  show ?thesis unfolding t unsigned_take_bit_eq by (rule take_bit_eq_mod)
qed

lemma is_aligned_pow2: "n < 64 \<Longrightarrow> is_aligned x (2 ^ n) \<longleftrightarrow> unat x mod 2 ^ n = 0"
  unfolding is_aligned_def
  by (metis unat_and_mask_mod unat_eq_zero)

lemma and_not_zero_imp: "d AND NOT c = 0 \<Longrightarrow> d AND c = (d :: uintmax)"
  by (simp add: bit_eq_iff bit_simps) blast

text \<open>
  For a power of two the result of rounding up is the least aligned address that is not below,
  unless the rounding wraps, and then it is zero.
\<close>

lemma and_not_sub: "y AND NOT m = y - (y AND m)" for y m :: ptraddr
proof -
  have "y - (y AND m) = y AND NOT (y AND m)"
    by (rule disjunctive_diff_eq_and_not) (simp add: and.assoc [symmetric])
  then show ?thesis by (simp add: and.assoc bit.conj_disj_distrib)
qed

lemma unat_pow2_minus_1:
  assumes n: "n < 64"
  shows "unat (2 ^ n - 1 :: ptraddr) = 2 ^ n - 1"
proof -
  have "(2 ^ n - 1 :: ptraddr) = of_nat (2 ^ n - 1)"
    by (simp add: of_nat_diff)
  moreover have "(2 ^ n - 1 :: nat) < 2 ^ LENGTH(64)"
  proof -
    have "(2 :: nat) ^ n < 2 ^ 64" using n by (rule power_strict_increasing) simp
    then show ?thesis by simp
  qed
  ultimately show ?thesis by (metis unat_of_nat mod_less)
qed

lemma unat_align_up:
  assumes n: "n < 64"
  shows "unat (align_up x (2 ^ n)) = (if unat x + (2 ^ n - 1) < 2 ^ 64
           then (unat x + (2 ^ n - 1)) div 2 ^ n * 2 ^ n else 0)"
proof -
  let ?m = "2 ^ n - 1 :: ptraddr"
  let ?y = "x + ?m"
  have le: "?y AND ?m \<le> ?y" by (rule word_and_le2)
  have um: "unat ?m = 2 ^ n - 1"
    using n by (rule unat_pow2_minus_1)
  have "unat (align_up x (2 ^ n)) = unat ?y - unat (?y AND ?m)"
    using le by (simp add: align_up_def and_not_sub unat_sub)
  also have "\<dots> = unat ?y - unat ?y mod 2 ^ n"
    by (simp add: unat_and_mask_mod)
  also have "\<dots> = unat ?y div 2 ^ n * 2 ^ n"
    by (simp add: minus_mod_eq_div_mult)
  finally have a: "unat (align_up x (2 ^ n)) = unat ?y div 2 ^ n * 2 ^ n" .
  show ?thesis
  proof (cases "unat x + (2 ^ n - 1) < 2 ^ 64")
    case True
    then have "unat ?y = unat x + (2 ^ n - 1)"
      using um by (subst unat_word_ariths) simp
    with a True show ?thesis by simp
  next
    case False
    have x: "unat x < 2 ^ 64" using unsigned_less [of x] by simp
    have "unat ?y = (unat x + (2 ^ n - 1)) mod 2 ^ 64"
      using um by (subst unat_word_ariths) simp
    also have "\<dots> = unat x + (2 ^ n - 1) - 2 ^ 64"
    proof -
      have "(2 :: nat) ^ n < 2 ^ 64" using n by (rule power_strict_increasing) simp
      with False x show ?thesis by (subst mod_if, subst mod_less) auto
    qed
    finally have "unat ?y < 2 ^ n" using x False by simp
    with a False show ?thesis by simp
  qed
qed

lemma align_up_ge:
  assumes "n < 64" and "align_up x (2 ^ n) \<noteq> 0"
  shows "x \<le> align_up x (2 ^ n)"
proof -
  have c: "unat x + (2 ^ n - 1) < 2 ^ 64"
    using assms unat_align_up [OF assms(1), of x] by (auto simp: unat_eq_zero split: if_splits)
  have "unat x \<le> (unat x + (2 ^ n - 1)) div 2 ^ n * 2 ^ n"
  proof -
    let ?k = "unat x + (2 ^ n - 1)"
    have "?k mod 2 ^ n < 2 ^ n" by simp
    moreover have "?k div 2 ^ n * 2 ^ n + ?k mod 2 ^ n = ?k" by (rule div_mult_mod_eq)
    ultimately show ?thesis by linarith
  qed
  with c show ?thesis by (simp add: word_le_nat_alt unat_align_up [OF assms(1)])
qed

section \<open>Sets of bits\<close>

text \<open>Facts on permission masks: unions, disjointness, subsets, removal.\<close>

fun pairwise_disjoint :: "uintmax list \<Rightarrow> bool" where
  "pairwise_disjoint [] = True"
| "pairwise_disjoint (p # ps) = (p \<noteq> 0 \<and> list_all (\<lambda>q. p AND q = 0) ps \<and> pairwise_disjoint ps)"

definition or_list :: "uintmax list \<Rightarrow> uintmax" where
  "or_list ps = foldr (OR) ps 0"

lemma or_list_simps [simp]: "or_list [] = 0" "or_list (p # ps) = p OR or_list ps"
  by (simp_all add: or_list_def)

lemma or_list_absent: "list_all (\<lambda>q. q AND p = 0 \<or> p AND q = 0) ps \<Longrightarrow> or_list ps AND p = 0"
  by (induction ps) (auto simp: bit.conj_disj_distrib2, simp add: and.commute)

lemma or_list_subset: "p \<in> set ps \<Longrightarrow> p AND NOT (or_list ps) = 0"
proof (induction ps)
  case (Cons q ps)
  then show ?case
    by (cases "p = q") (auto simp: bit_eq_iff bit_simps)
qed simp

lemma or_subset: "p AND NOT a = 0 \<Longrightarrow> p AND NOT (a OR b) = (0 :: uintmax)"
  by (auto simp: bit_eq_iff bit_simps)

lemma sub_absent: "q AND NOT r = 0 \<Longrightarrow> r AND p = 0 \<Longrightarrow> q AND p = (0 :: uintmax)"
  by (auto simp: bit_eq_iff bit_simps)

lemma mask_absent: "e AND p = 0 \<Longrightarrow> (e AND NOT x) AND p = (0 :: uintmax)"
  by (auto simp: bit_eq_iff bit_simps)

lemma mask_inter:
  "h AND w = 0 \<Longrightarrow> ((h OR s) AND NOT x) AND w = (s AND w) AND NOT (x :: uintmax)"
  by (auto simp: bit_eq_iff bit_simps)

lemma mask_keeps: "p AND NOT e = 0 \<Longrightarrow> p AND x = 0 \<Longrightarrow> p AND NOT (e AND NOT x) = (0 :: uintmax)"
  by (auto simp: bit_eq_iff bit_simps)

lemma subset_present: "p AND NOT v = 0 \<Longrightarrow> p \<noteq> 0 \<Longrightarrow> v AND p \<noteq> (0 :: uintmax)"
  by (auto simp: bit_eq_iff bit_simps)

end
