(* ===== verification/Platform.thy ===== *)
theory Platform
  imports Prelude
begin

text \<open>
  The build configuration a test binary is compiled for, and CHERI capabilities with the
  CHERI C intrinsics the suite uses on them.

  The operating system, architecture, ABI and the macros derived from them
  (\<^verbatim>\<open>HAS_CHERI_PERM_*\<close> and \<^verbatim>\<open>CHERITEST_CHERI_*\<close> of \<^verbatim>\<open>cheri/cherireg.h\<close>,
  \<^verbatim>\<open>arm64/cheriostest_md.h\<close> and \<^verbatim>\<open>riscv/cheriostest_md.h\<close>) are modelled from the source.
  What the compiler's and the kernel's own headers supply (the values of the permission bits,
  of the object types, the address-space constants), the C library's formatter and
  \<^verbatim>\<open>strerror\<close>, and the bounds compression of the architecture are fields of the record
  \<open>platform\<close>: every definition takes a platform, every theorem holds for all of them or says
  what it needs.
\<close>

section \<open>Capabilities\<close>

text \<open>
  A capability: validity tag, address, bounds (base and length; the length of a capability to
  the whole address space is \<open>2 ^ 64\<close>, hence \<open>nat\<close>), permissions, object type, flags.
\<close>

record cap =
  cap_tag :: bool
  cap_addr :: ptraddr
  cap_base :: ptraddr
  cap_len :: nat
  cap_perms :: uintmax
  cap_otype :: uintmax
  cap_flags :: uintmax

section \<open>The build configuration\<close>

datatype os_flavour = CheriBSD | UpstreamFreeBSD | CheriLinux
datatype arch = Morello | RISCV_xcheri | RISCV_zcheripurecap
datatype abi = Purecap | PurecapBenchmark | Hybrid

record platform =
  pl_os :: os_flavour
  pl_arch :: arch
  pl_abi :: abi
  pl_c18n :: bool \<comment> \<open>\<^verbatim>\<open>CHERIOSTEST_C18N_TESTS\<close>\<close>
  pl_zcherilevels :: bool
  pl_PROG :: string \<comment> \<open>\<^verbatim>\<open>PROG\<close>, \<^verbatim>\<open>PROG_SUFFIX\<close> and \<^verbatim>\<open>CHERIOSTEST_HELPER_RELDIR\<close> of the build\<close>
  pl_PROG_SUFFIX :: string
  pl_HELPER_RELDIR :: string
  \<comment> \<open>constants of the compiler's and the kernel's headers\<close>
  CHERI_PERM_GLOBAL :: uintmax
  CHERI_PERM_EXECUTE :: uintmax
  CHERI_PERM_LOAD :: uintmax
  CHERI_PERM_STORE :: uintmax
  CHERI_PERM_LOAD_CAP :: uintmax
  CHERI_PERM_STORE_CAP :: uintmax
  CHERI_PERM_CAP :: uintmax
  CHERI_PERM_STORE_LOCAL_CAP :: uintmax
  CHERI_PERM_LOAD_MUTABLE :: uintmax
  CHERI_PERM_SEAL :: uintmax
  CHERI_PERM_INVOKE :: uintmax
  CHERI_PERM_UNSEAL :: uintmax
  CHERI_PERM_SYSTEM_REGS :: uintmax
  CHERI_PERM_SW_VMEM :: uintmax
  CHERI_PERM_SYSCALL :: "uintmax option" \<comment> \<open>undefined on Linux\<close>
  ARM_CAP_PERMISSION_EXECUTIVE :: uintmax
  xcheri_PERMS_SW :: "uintmax list" \<comment> \<open>\<^verbatim>\<open>CHERI_PERM_SW0\<close> \<dots> \<^verbatim>\<open>CHERI_PERM_SW3\<close> of the xcheri headers\<close>
  xcheri_PERMS_USERSPACE_CODE :: uintmax
  xcheri_PERMS_USERSPACE_DATA :: uintmax
  xcheri_PERMS_USERSPACE_SEALCAP :: uintmax
  xcheri_OTYPE_USER_MIN :: uintmax
  xcheri_OTYPE_USER_MAX :: uintmax
  CHERI_OTYPE_UNSEALED :: uintmax
  CHERI_OTYPE_SENTRY :: uintmax
  CHERI_CAP_USER_CODE_BASE :: uintmax
  CHERI_CAP_USER_CODE_LENGTH :: uintmax
  CHERI_CAP_USER_DATA_LENGTH :: uintmax
  CHERI_CAP_USER_DATA_OFFSET :: uintmax
  \<comment> \<open>bounds compression of the architecture\<close>
  cheri_representable_length :: "uintmax \<Rightarrow> uintmax"
  cheri_representable_alignment_mask :: "uintmax \<Rightarrow> uintmax"
  arch_representable :: "cap \<Rightarrow> ptraddr \<Rightarrow> bool" \<comment> \<open>may a capability's address be moved there\<close>
  arch_round_bounds :: "ptraddr \<Rightarrow> nat \<Rightarrow> ptraddr \<times> nat" \<comment> \<open>bounds granted for requested ones\<close>
  arch_valid_otype :: "uintmax \<Rightarrow> bool" \<comment> \<open>may an object type have that value\<close>
  \<comment> \<open>the C library\<close>
  lc_vformat :: "string \<Rightarrow> cap farg list \<Rightarrow> string option" \<comment> \<open>\<^verbatim>\<open>None\<close>: encoding error\<close>
  lc_strerror :: "int \<Rightarrow> string"
  lc_strerror_r :: "int \<Rightarrow> string option" \<comment> \<open>\<^verbatim>\<open>None\<close>: it fails\<close>

definition is_FreeBSD :: "platform \<Rightarrow> bool" where
  "is_FreeBSD pl \<longleftrightarrow> pl_os pl \<noteq> CheriLinux"

definition is_linux :: "platform \<Rightarrow> bool" where
  "is_linux pl \<longleftrightarrow> pl_os pl = CheriLinux"

definition is_purecap :: "platform \<Rightarrow> bool" where
  "is_purecap pl \<longleftrightarrow> pl_abi pl \<noteq> Hybrid"

lemma not_FreeBSD [simp]: "\<not> is_FreeBSD pl \<longleftrightarrow> is_linux pl"
  by (simp add: is_FreeBSD_def is_linux_def)

text \<open>The feature macros of \<^verbatim>\<open>cheriostest_md.h\<close>, per architecture.\<close>

definition HAS_CHERI_PERM_LOAD_STORE_CAP :: "platform \<Rightarrow> bool" where
  "HAS_CHERI_PERM_LOAD_STORE_CAP pl =
     (case pl_arch pl of Morello \<Rightarrow> True | RISCV_xcheri \<Rightarrow> True | RISCV_zcheripurecap \<Rightarrow> False)"

definition HAS_CHERI_PERM_CAP :: "platform \<Rightarrow> bool" where
  "HAS_CHERI_PERM_CAP pl =
     (case pl_arch pl of Morello \<Rightarrow> False | RISCV_xcheri \<Rightarrow> False | RISCV_zcheripurecap \<Rightarrow> True)"

definition HAS_CHERI_PERM_LOAD_MUTABLE :: "platform \<Rightarrow> bool" where
  "HAS_CHERI_PERM_LOAD_MUTABLE pl =
     (case pl_arch pl of Morello \<Rightarrow> True | RISCV_xcheri \<Rightarrow> False | RISCV_zcheripurecap \<Rightarrow> True)"

definition HAS_CHERI_PERM_SEAL :: "platform \<Rightarrow> bool" where
  "HAS_CHERI_PERM_SEAL pl =
     (case pl_arch pl of Morello \<Rightarrow> True | RISCV_xcheri \<Rightarrow> True | RISCV_zcheripurecap \<Rightarrow> False)"

definition HAS_CHERI_PERM_EXECUTIVE :: "platform \<Rightarrow> bool" where
  "HAS_CHERI_PERM_EXECUTIVE pl = (pl_arch pl = Morello)"

definition CHERI_SEAL_VIOLATION_EXCEPTION :: "platform \<Rightarrow> bool" where
  "CHERI_SEAL_VIOLATION_EXCEPTION pl \<longleftrightarrow> pl_arch pl \<noteq> Morello"

lemmas feature_defs =
  HAS_CHERI_PERM_LOAD_STORE_CAP_def HAS_CHERI_PERM_CAP_def HAS_CHERI_PERM_LOAD_MUTABLE_def
  HAS_CHERI_PERM_SEAL_def HAS_CHERI_PERM_EXECUTIVE_def CHERI_SEAL_VIOLATION_EXCEPTION_def

text \<open>The permission sets of \<^verbatim>\<open>cheri/cherireg.h\<close>.\<close>

definition CHERITEST_CHERI_PERMS_SWALL :: "platform \<Rightarrow> uintmax" where
  "CHERITEST_CHERI_PERMS_SWALL pl =
     (case pl_arch pl of
        Morello \<Rightarrow> push_bit 2 1 OR push_bit 3 1 OR push_bit 4 1 OR push_bit 5 1
      | RISCV_zcheripurecap \<Rightarrow> push_bit 6 1 OR push_bit 7 1 OR push_bit 8 1 OR push_bit 9 1
      | RISCV_xcheri \<Rightarrow> fold (OR) (xcheri_PERMS_SW pl) 0)"

definition CHERITEST_CHERI_PERMS_FIRST_RESERVED_BLOCK :: "platform \<Rightarrow> uintmax" where
  "CHERITEST_CHERI_PERMS_FIRST_RESERVED_BLOCK pl =
     (case pl_arch pl of
        RISCV_zcheripurecap \<Rightarrow> push_bit 2 1 OR push_bit 3 1 OR push_bit 4 1
      | _ \<Rightarrow> 0)"

definition CHERITEST_CHERI_PERMS_SW_USERSPACE :: "platform \<Rightarrow> uintmax" where
  "CHERITEST_CHERI_PERMS_SW_USERSPACE pl =
     (case CHERI_PERM_SYSCALL pl of
        Some sysc \<Rightarrow> CHERITEST_CHERI_PERMS_SWALL pl AND NOT (CHERI_PERM_SW_VMEM pl OR sysc)
      | None \<Rightarrow> CHERITEST_CHERI_PERMS_SWALL pl AND NOT (CHERI_PERM_SW_VMEM pl))"

definition CHERITEST_CHERI_PERMS_SW_USERSPACE_CODE :: "platform \<Rightarrow> uintmax" where
  "CHERITEST_CHERI_PERMS_SW_USERSPACE_CODE pl =
     (case CHERI_PERM_SYSCALL pl of
        Some sysc \<Rightarrow> CHERITEST_CHERI_PERMS_SW_USERSPACE pl OR sysc
      | None \<Rightarrow> CHERITEST_CHERI_PERMS_SW_USERSPACE pl)"

text \<open>\<^verbatim>\<open>CHERITEST_CHERI_PERMS_USERSPACE\<close> is defined for Morello only.\<close>

definition CHERITEST_CHERI_PERMS_USERSPACE :: "platform \<Rightarrow> uintmax" where
  "CHERITEST_CHERI_PERMS_USERSPACE pl =
     CHERI_PERM_GLOBAL pl OR CHERI_PERM_LOAD pl OR CHERI_PERM_LOAD_CAP pl OR
     CHERI_PERM_INVOKE pl OR CHERITEST_CHERI_PERMS_SW_USERSPACE pl"

definition CHERITEST_CHERI_PERMS_USERSPACE_CODE :: "platform \<Rightarrow> uintmax" where
  "CHERITEST_CHERI_PERMS_USERSPACE_CODE pl =
     (case pl_arch pl of
        Morello \<Rightarrow>
          CHERITEST_CHERI_PERMS_USERSPACE pl OR CHERI_PERM_EXECUTE pl OR
          ARM_CAP_PERMISSION_EXECUTIVE pl OR CHERI_PERM_LOAD_MUTABLE pl OR
          CHERITEST_CHERI_PERMS_SW_USERSPACE_CODE pl
      | RISCV_xcheri \<Rightarrow> xcheri_PERMS_USERSPACE_CODE pl
      | RISCV_zcheripurecap \<Rightarrow>
          CHERI_PERM_GLOBAL pl OR CHERI_PERM_LOAD pl OR CHERI_PERM_EXECUTE pl OR
          CHERI_PERM_CAP pl OR CHERI_PERM_LOAD_MUTABLE pl)"

definition CHERITEST_CHERI_CAP_USER_DATA_PERMS :: "platform \<Rightarrow> uintmax" where
  "CHERITEST_CHERI_CAP_USER_DATA_PERMS pl =
     (case pl_arch pl of
        Morello \<Rightarrow>
          CHERITEST_CHERI_PERMS_USERSPACE pl OR CHERI_PERM_STORE pl OR CHERI_PERM_STORE_CAP pl OR
          CHERI_PERM_STORE_LOCAL_CAP pl OR CHERI_PERM_LOAD_MUTABLE pl
      | RISCV_xcheri \<Rightarrow> xcheri_PERMS_USERSPACE_DATA pl
      | RISCV_zcheripurecap \<Rightarrow>
          CHERI_PERM_STORE pl OR CHERI_PERM_LOAD pl OR CHERI_PERM_CAP pl OR
          CHERI_PERM_LOAD_MUTABLE pl OR CHERITEST_CHERI_PERMS_FIRST_RESERVED_BLOCK pl)"

definition CHERITEST_CHERI_SEALCAP_USERSPACE_PERMS :: "platform \<Rightarrow> uintmax" where
  "CHERITEST_CHERI_SEALCAP_USERSPACE_PERMS pl =
     (case pl_arch pl of
        Morello \<Rightarrow> CHERI_PERM_GLOBAL pl OR CHERI_PERM_SEAL pl OR CHERI_PERM_UNSEAL pl
      | _ \<Rightarrow> xcheri_PERMS_USERSPACE_SEALCAP pl)"

definition CHERITEST_CHERI_OTYPE_USER_MIN :: "platform \<Rightarrow> uintmax" where
  "CHERITEST_CHERI_OTYPE_USER_MIN pl =
     (case pl_arch pl of Morello \<Rightarrow> 4 | _ \<Rightarrow> xcheri_OTYPE_USER_MIN pl)"

definition CHERITEST_CHERI_OTYPE_USER_MAX :: "platform \<Rightarrow> uintmax" where
  "CHERITEST_CHERI_OTYPE_USER_MAX pl =
     (case pl_arch pl of Morello \<Rightarrow> push_bit (14 - 1) 1 - 1 | _ \<Rightarrow> xcheri_OTYPE_USER_MAX pl)"

definition CHERITEST_CHERI_SEALCAP_USERSPACE_LENGTH :: "platform \<Rightarrow> uintmax" where
  "CHERITEST_CHERI_SEALCAP_USERSPACE_LENGTH pl =
     CHERITEST_CHERI_OTYPE_USER_MAX pl - CHERITEST_CHERI_OTYPE_USER_MIN pl + 1"

lemmas permset_defs =
  CHERITEST_CHERI_PERMS_SWALL_def CHERITEST_CHERI_PERMS_FIRST_RESERVED_BLOCK_def
  CHERITEST_CHERI_PERMS_SW_USERSPACE_def CHERITEST_CHERI_PERMS_SW_USERSPACE_CODE_def
  CHERITEST_CHERI_PERMS_USERSPACE_def CHERITEST_CHERI_PERMS_USERSPACE_CODE_def
  CHERITEST_CHERI_CAP_USER_DATA_PERMS_def CHERITEST_CHERI_SEALCAP_USERSPACE_PERMS_def
  CHERITEST_CHERI_OTYPE_USER_MIN_def CHERITEST_CHERI_OTYPE_USER_MAX_def
  CHERITEST_CHERI_SEALCAP_USERSPACE_LENGTH_def

text \<open>\<^verbatim>\<open>CHERITEST_CHERI_REPRESENTABLE_ALIGNMENT\<close> and \<^verbatim>\<open>CHERITEST_CHERI_ALIGN_MASK\<close> of \<^verbatim>\<open>cheric.h\<close>.\<close>

definition CHERITEST_CHERI_REPRESENTABLE_ALIGNMENT :: "platform \<Rightarrow> uintmax \<Rightarrow> uintmax" where
  "CHERITEST_CHERI_REPRESENTABLE_ALIGNMENT pl len =
     NOT (cheri_representable_alignment_mask pl len) + 1"

definition CHERITEST_CHERI_ALIGN_MASK :: "platform \<Rightarrow> uintmax \<Rightarrow> uintmax" where
  "CHERITEST_CHERI_ALIGN_MASK pl len = NOT (cheri_representable_alignment_mask pl len)"

end
