(* ===== verification/Capability.thy ===== *)
theory Capability
  imports Platform
begin

text \<open>
  The CHERI C intrinsics the suite uses (\<^verbatim>\<open>cheriintrin.h\<close>), as functions on capabilities, and
  the in-bounds test of \<^verbatim>\<open>cheri/cheric.h\<close>. Derivations never set a tag; a derivation that the
  architecture refuses clears it. Comparing pointers with \<^verbatim>\<open>==\<close> compares addresses only, as
  CHERI C defines it; \<^verbatim>\<open>cheri_is_equal_exact\<close> compares everything.
\<close>

section \<open>Reading a capability\<close>

definition cheri_tag_get :: "cap \<Rightarrow> bool" where
  "cheri_tag_get c = cap_tag c"

definition cheri_address_get :: "cap \<Rightarrow> ptraddr" where
  "cheri_address_get c = cap_addr c"

definition cheri_base_get :: "cap \<Rightarrow> ptraddr" where
  "cheri_base_get c = cap_base c"

text \<open>The length of a capability to the whole address space is reported as the largest word.\<close>

definition cheri_length_get :: "cap \<Rightarrow> uintmax" where
  "cheri_length_get c = of_nat (min (cap_len c) (2 ^ 64 - 1))"

definition cheri_offset_get :: "cap \<Rightarrow> uintmax" where
  "cheri_offset_get c = cap_addr c - cap_base c"

definition cheri_perms_get :: "cap \<Rightarrow> uintmax" where
  "cheri_perms_get c = cap_perms c"

definition cheri_type_get :: "cap \<Rightarrow> uintmax" where
  "cheri_type_get c = cap_otype c"

definition cheri_flags_get :: "cap \<Rightarrow> uintmax" where
  "cheri_flags_get c = cap_flags c"

definition cheri_is_sealed :: "platform \<Rightarrow> cap \<Rightarrow> bool" where
  "cheri_is_sealed pl c \<longleftrightarrow> cap_otype c \<noteq> CHERI_OTYPE_UNSEALED pl"

definition cheri_is_equal_exact :: "cap \<Rightarrow> cap \<Rightarrow> bool" where
  "cheri_is_equal_exact c d \<longleftrightarrow> c = d"

text \<open>C's \<^verbatim>\<open>==\<close> on pointers.\<close>

definition ptr_eq :: "cap \<Rightarrow> cap \<Rightarrow> bool" where
  "ptr_eq c d \<longleftrightarrow> cap_addr c = cap_addr d"

lemmas [cap_simps] =
  cheri_tag_get_def cheri_address_get_def cheri_base_get_def cheri_offset_get_def
  cheri_perms_get_def cheri_type_get_def cheri_flags_get_def cheri_is_sealed_def
  cheri_is_equal_exact_def ptr_eq_def

section \<open>Deriving capabilities\<close>

definition cap_null :: "platform \<Rightarrow> cap" where
  "cap_null pl = \<lparr>cap_tag = False, cap_addr = 0, cap_base = 0, cap_len = 2 ^ 64, cap_perms = 0,
     cap_otype = CHERI_OTYPE_UNSEALED pl, cap_flags = 0\<rparr>"

text \<open>\<^verbatim>\<open>NULL_DERIVED_VOIDP\<close>: an untagged, NULL-derived capability with a given address.\<close>

definition NULL_DERIVED_VOIDP :: "platform \<Rightarrow> cap \<Rightarrow> cap" where
  "NULL_DERIVED_VOIDP pl c = (cap_null pl)\<lparr>cap_addr := cheri_address_get c\<rparr>"

definition cheri_tag_clear :: "cap \<Rightarrow> cap" where
  "cheri_tag_clear c = c\<lparr>cap_tag := False\<rparr>"

definition cheri_perms_and :: "platform \<Rightarrow> cap \<Rightarrow> uintmax \<Rightarrow> cap" where
  "cheri_perms_and pl c m =
     c\<lparr>cap_tag := cap_tag c \<and> \<not> cheri_is_sealed pl c, cap_perms := cap_perms c AND m\<rparr>"

definition cheri_address_set :: "platform \<Rightarrow> cap \<Rightarrow> ptraddr \<Rightarrow> cap" where
  "cheri_address_set pl c a =
     c\<lparr>cap_tag := cap_tag c \<and> \<not> cheri_is_sealed pl c \<and> arch_representable pl c a, cap_addr := a\<rparr>"

definition cheri_offset_set :: "platform \<Rightarrow> cap \<Rightarrow> uintmax \<Rightarrow> cap" where
  "cheri_offset_set pl c off = cheri_address_set pl c (cap_base c + off)"

text \<open>Pointer arithmetic, also \<^verbatim>\<open>__builtin_cheri_offset_increment\<close>.\<close>

definition cheri_offset_increment :: "platform \<Rightarrow> cap \<Rightarrow> uintmax \<Rightarrow> cap" where
  "cheri_offset_increment pl c n = cheri_address_set pl c (cap_addr c + n)"

definition cap_top :: "cap \<Rightarrow> nat" where
  "cap_top c = unat (cap_base c) + cap_len c"

text \<open>Whether an access of \<open>n\<close> bytes at the capability's address is within its bounds.\<close>

definition access_in_bounds :: "cap \<Rightarrow> nat \<Rightarrow> bool" where
  "access_in_bounds c n \<longleftrightarrow>
     unat (cap_base c) \<le> unat (cap_addr c) \<and> unat (cap_addr c) + n \<le> cap_top c"

definition cheri_bounds_set :: "platform \<Rightarrow> cap \<Rightarrow> nat \<Rightarrow> cap" where
  "cheri_bounds_set pl c len =
     (let (b, l) = arch_round_bounds pl (cap_addr c) len
      in c\<lparr>cap_tag := cap_tag c \<and> \<not> cheri_is_sealed pl c \<and> access_in_bounds c len \<and>
             cap_base c \<le> b \<and> unat b + l \<le> cap_top c,
           cap_base := b, cap_len := l\<rparr>)"

definition may_seal :: "platform \<Rightarrow> cap \<Rightarrow> cap \<Rightarrow> bool" where
  "may_seal pl c k \<longleftrightarrow>
     cap_tag c \<and> \<not> cheri_is_sealed pl c \<and> cap_tag k \<and> \<not> cheri_is_sealed pl k \<and>
     cap_perms k AND CHERI_PERM_SEAL pl \<noteq> 0 \<and> access_in_bounds k 1 \<and>
     arch_valid_otype pl (cap_addr k)"

definition cheri_seal :: "platform \<Rightarrow> cap \<Rightarrow> cap \<Rightarrow> cap" where
  "cheri_seal pl c k = c\<lparr>cap_tag := may_seal pl c k, cap_otype := cap_addr k\<rparr>"

definition may_unseal :: "platform \<Rightarrow> cap \<Rightarrow> cap \<Rightarrow> bool" where
  "may_unseal pl c k \<longleftrightarrow>
     cap_tag c \<and> cheri_is_sealed pl c \<and> cap_tag k \<and> \<not> cheri_is_sealed pl k \<and>
     cap_otype c = cap_addr k \<and> cap_perms k AND CHERI_PERM_UNSEAL pl \<noteq> 0 \<and> access_in_bounds k 1"

text \<open>Unsealing through a local authority gives a local capability.\<close>

definition cheri_unseal :: "platform \<Rightarrow> cap \<Rightarrow> cap \<Rightarrow> cap" where
  "cheri_unseal pl c k =
     c\<lparr>cap_tag := may_unseal pl c k, cap_otype := CHERI_OTYPE_UNSEALED pl,
       cap_perms := (if cap_perms k AND CHERI_PERM_GLOBAL pl = 0
                     then cap_perms c AND NOT (CHERI_PERM_GLOBAL pl) else cap_perms c)\<rparr>"

text \<open>\<^verbatim>\<open>cheri_ptr\<close> and \<^verbatim>\<open>cheri_ptrperm\<close> of \<^verbatim>\<open>cheriostest.h\<close>.\<close>

definition cheri_ptr :: "platform \<Rightarrow> cap \<Rightarrow> nat \<Rightarrow> cap" where
  "cheri_ptr pl p len = cheri_bounds_set pl p len"

definition cheri_ptrperm :: "platform \<Rightarrow> cap \<Rightarrow> nat \<Rightarrow> uintmax \<Rightarrow> cap" where
  "cheri_ptrperm pl p len perm = cheri_perms_and pl (cheri_ptr pl p len) (perm OR CHERI_PERM_GLOBAL pl)"

text \<open>\<^verbatim>\<open>cheri_ptr_equal_exact\<close>: in hybrid code a \<^verbatim>\<open>void *\<close> is just an address.\<close>

definition cheri_ptr_equal_exact :: "platform \<Rightarrow> cap \<Rightarrow> cap \<Rightarrow> bool" where
  "cheri_ptr_equal_exact pl x y =
     (if is_purecap pl then cheri_is_equal_exact x y else ptr_eq x y)"

text \<open>\<^verbatim>\<open>cheritest_cheri_is_address_inbounds\<close> of \<^verbatim>\<open>cheri/cheric.h\<close>: the top is computed in 64 bits.\<close>

definition cheritest_cheri_is_address_inbounds :: "cap \<Rightarrow> ptraddr \<Rightarrow> bool" where
  "cheritest_cheri_is_address_inbounds c addr \<longleftrightarrow>
     addr \<ge> cheri_base_get c \<and> addr < cheri_base_get c + cheri_length_get c"

section \<open>Monotonicity: what every derivation keeps\<close>

text \<open>\<open>cap_le d c\<close>: \<open>d\<close> conveys no more authority than \<open>c\<close>.\<close>

definition cap_le :: "cap \<Rightarrow> cap \<Rightarrow> bool" where
  "cap_le d c \<longleftrightarrow>
     (cap_tag d \<longrightarrow>
        cap_tag c \<and> cap_base c \<le> cap_base d \<and> cap_top d \<le> cap_top c \<and>
        cap_perms d AND NOT (cap_perms c) = 0)"

text \<open>
  The interface between the tests and the capability derivations: an operation that takes a
  capability and never gives back more authority than it was given.
\<close>

locale derivation =
  fixes derive :: "cap \<Rightarrow> cap"
  assumes derive_le: "cap_le (derive c) c"
begin

lemma derive_untagged: "\<not> cap_tag c \<Longrightarrow> \<not> cap_tag (derive c)"
  using derive_le [of c] by (auto simp: cap_le_def)

lemma derive_perms:
  "cap_tag (derive c) \<Longrightarrow> cap_perms c AND p = 0 \<Longrightarrow> cap_perms (derive c) AND p = 0"
proof -
  assume t: "cap_tag (derive c)" and p: "cap_perms c AND p = 0"
  let ?d = "cap_perms (derive c)" and ?c = "cap_perms c"
  have z: "?d AND NOT ?c = 0" using derive_le [of c] t by (simp add: cap_le_def)
  have "?d AND p = (?d AND ?c) AND p" by (simp add: and_not_zero_imp [OF z])
  then show "?d AND p = 0" using p by (simp add: and.assoc)
qed

end

lemma and_self_not [simp]: "p AND NOT p = (0 :: uintmax)"
  by simp

lemma and_and_not [simp]: "(p AND q) AND NOT p = (0 :: uintmax)"
  by (metis and.assoc and.commute and.right_neutral and_zero_eq bit.conj_cancel_right)

interpretation tag_clear: derivation cheri_tag_clear
  by unfold_locales (simp add: cheri_tag_clear_def cap_le_def)

interpretation perms_and: derivation "\<lambda>c. cheri_perms_and pl c m" for pl m
  by unfold_locales (auto simp: cheri_perms_and_def cap_le_def cap_top_def)

interpretation address_set: derivation "\<lambda>c. cheri_address_set pl c a" for pl a
  by unfold_locales (auto simp: cheri_address_set_def cap_le_def cap_top_def)

interpretation bounds_set: derivation "\<lambda>c. cheri_bounds_set pl c n" for pl n
  by unfold_locales (auto simp: cheri_bounds_set_def cap_le_def cap_top_def split: prod.splits)

interpretation seal: derivation "\<lambda>c. cheri_seal pl c k" for pl k
  by unfold_locales (auto simp: cheri_seal_def may_seal_def cap_le_def cap_top_def)

interpretation unseal: derivation "\<lambda>c. cheri_unseal pl c k" for pl k
  by unfold_locales (auto simp: cheri_unseal_def may_unseal_def cap_le_def cap_top_def)

text \<open>Sealing and then unsealing with the same authority.\<close>

lemma cheri_unseal_seal:
  assumes "may_seal pl c k" and "cap_addr k \<noteq> CHERI_OTYPE_UNSEALED pl"
    and "cap_perms k AND CHERI_PERM_UNSEAL pl \<noteq> 0" and "cap_perms k AND CHERI_PERM_GLOBAL pl \<noteq> 0"
  shows "cheri_unseal pl (cheri_seal pl c k) k = c"
  using assms
  by (simp add: cheri_unseal_def cheri_seal_def may_unseal_def may_seal_def cheri_is_sealed_def)

lemma cheri_length_get_small: "cap_len c < 2 ^ 64 \<Longrightarrow> unat (cheri_length_get c) = cap_len c"
  by (simp add: cheri_length_get_def unat_of_nat)

end
