(* ===== verification/Process.thy ===== *)
theory Process
  imports Capability
begin

text \<open>
  A test process as a state machine: the page it shares with the controller
  (\<^verbatim>\<open>struct cheriostest_child_state\<close> of \<^verbatim>\<open>cheriostest.h\<close>), its statements, and the API by which
  a test ends (\<^verbatim>\<open>cheriostest_util.c\<close>). A program takes the process state and gives an outcome
  and the new state; the parameter \<open>'w\<close> is whatever else the program touches (its memory, the
  operating system).
\<close>

section \<open>The shared page\<close>

definition TESTRESULT_STR_LEN :: nat where "TESTRESULT_STR_LEN = 1024"
definition TESTRESULT_UNKNOWN :: int where "TESTRESULT_UNKNOWN = 0"
definition TESTRESULT_SUCCESS :: int where "TESTRESULT_SUCCESS = 1"
definition TESTRESULT_FAILURE :: int where "TESTRESULT_FAILURE = 2"

definition EX_OK :: int where "EX_OK = 0"
definition EX_USAGE :: int where "EX_USAGE = 64"
definition EX_SOFTWARE :: int where "EX_SOFTWARE = 70"
definition EX_OSERR :: int where "EX_OSERR = 71"

lemmas harness_consts =
  TESTRESULT_STR_LEN_def TESTRESULT_UNKNOWN_def TESTRESULT_SUCCESS_def TESTRESULT_FAILURE_def
  EX_OK_def EX_USAGE_def EX_SOFTWARE_def EX_OSERR_def

record child_state =
  ccs_signum :: int
  ccs_si_code :: int
  ccs_si_trapno :: int
  ccs_si_addr :: cap
  ccs_si_addr_tag :: bool
  ccs_testresult :: int
  ccs_testresult_str :: "char list"
  ccs_si_addr_expected :: cap
  ccs_si_addr_expected_tag :: bool
  ccs_warn :: bool

text \<open>\<^verbatim>\<open>bzero(ccsp, sizeof(*ccsp))\<close>.\<close>

definition ccs_zero :: "platform \<Rightarrow> child_state" where
  "ccs_zero pl = \<lparr>ccs_signum = 0, ccs_si_code = 0, ccs_si_trapno = 0, ccs_si_addr = cap_null pl,
     ccs_si_addr_tag = False, ccs_testresult = TESTRESULT_UNKNOWN,
     ccs_testresult_str = replicate TESTRESULT_STR_LEN NUL, ccs_si_addr_expected = cap_null pl,
     ccs_si_addr_expected_tag = False, ccs_warn = False\<rparr>"

text \<open>The message buffer is an array of \<^verbatim>\<open>TESTRESULT_STR_LEN\<close> bytes.\<close>

definition ccs_wf :: "child_state \<Rightarrow> bool" where
  "ccs_wf c \<longleftrightarrow> length (ccs_testresult_str c) = TESTRESULT_STR_LEN"

lemma ccs_wf_zero [simp]: "ccs_wf (ccs_zero pl)"
  by (simp add: ccs_wf_def ccs_zero_def)

section \<open>Processes and statements\<close>

record siginfo =
  si_signo :: int
  si_code :: int
  si_trapno :: int
  si_addr :: cap

text \<open>How a signal is disposed of: by default, ignored, or by the harness's handler.\<close>

datatype disposition = SigDfl | SigIgn | SigHarness

record 'w pstate =
  p_ccsp :: "child_state option" \<comment> \<open>\<^verbatim>\<open>ccsp\<close>; \<open>None\<close> is \<^verbatim>\<open>NULL\<close>\<close>
  p_errno :: int
  p_stderr :: string
  p_stdout :: string
  p_sigaction :: "int \<Rightarrow> disposition"
  p_world :: 'w

text \<open>
  A statement returns, ends the process by \<^verbatim>\<open>exit\<close>, receives a signal, or does something C gives
  no meaning to (here: a store through the \<^verbatim>\<open>NULL\<close> pointer \<^verbatim>\<open>ccsp\<close>).
\<close>

datatype 'a outcome = Return 'a | Exited int | Trapped siginfo | Undefined

type_synonym ('w, 'a) prog = "'w pstate \<Rightarrow> 'a outcome \<times> 'w pstate"

definition ret :: "'a \<Rightarrow> ('w, 'a) prog" where
  "ret x = (\<lambda>s. (Return x, s))"

definition bindP :: "('w, 'a) prog \<Rightarrow> ('a \<Rightarrow> ('w, 'b) prog) \<Rightarrow> ('w, 'b) prog" where
  "bindP p f = (\<lambda>s. case p s of
      (Return x, t) \<Rightarrow> f x t
    | (Exited n, t) \<Rightarrow> (Exited n, t)
    | (Trapped i, t) \<Rightarrow> (Trapped i, t)
    | (Undefined, t) \<Rightarrow> (Undefined, t))"

text \<open>A C block: statements in order, until one does not return.\<close>

fun block :: "('w, unit) prog list \<Rightarrow> ('w, unit) prog" where
  "block [] = ret ()"
| "block (p # ps) = bindP p (\<lambda>_. block ps)"

text \<open>Code under \<^verbatim>\<open>#if\<close>: the statements are there or not.\<close>

definition only_if :: "bool \<Rightarrow> 'a list \<Rightarrow> 'a list" where
  "only_if b xs = (if b then xs else [])"

lemma only_if_simps [simp]: "only_if True xs = xs" "only_if False xs = []"
  by (simp_all add: only_if_def)

definition get_world :: "('w, 'w) prog" where
  "get_world = (\<lambda>s. (Return (p_world s), s))"

definition upd_world :: "('w \<Rightarrow> 'w) \<Rightarrow> ('w, unit) prog" where
  "upd_world f = (\<lambda>s. (Return (), s\<lparr>p_world := f (p_world s)\<rparr>))"

definition trap :: "siginfo \<Rightarrow> ('w, 'a) prog" where
  "trap i = (\<lambda>s. (Trapped i, s))"

lemma bindP_ret [simp, prog_simps]: "bindP (ret x) f = f x"
  by (simp add: bindP_def ret_def)

lemma bindP_ret_right [simp]: "bindP p ret = p"
  by (rule ext) (auto simp: bindP_def ret_def split: prod.splits outcome.splits)

lemma bindP_assoc: "bindP (bindP p f) g = bindP p (\<lambda>x. bindP (f x) g)"
  by (rule ext) (simp add: bindP_def split: prod.splits outcome.splits)

lemma block_single: "block [p] = p"
  using bindP_ret_right [of p] by (simp add: fun_eq_iff bindP_def split: prod.splits outcome.splits)

lemma block_append: "block (ps @ qs) = bindP (block ps) (\<lambda>_. block qs)"
  by (induction ps) (simp_all add: bindP_assoc)

section \<open>Ending a test\<close>

text \<open>\<^verbatim>\<open>vsnprintf\<close> into a buffer; an encoding error leaves it as it was.\<close>

definition vsnprintf_buf :: "platform \<Rightarrow> char list \<Rightarrow> string \<Rightarrow> cap farg list \<Rightarrow> char list" where
  "vsnprintf_buf pl buf msg ap =
     (case lc_vformat pl msg ap of None \<Rightarrow> buf | Some t \<Rightarrow> snprintf_buf buf t)"

definition print_stderr :: "platform \<Rightarrow> string \<Rightarrow> cap farg list \<Rightarrow> 'w pstate \<Rightarrow> 'w pstate" where
  "print_stderr pl msg ap s =
     s\<lparr>p_stderr := p_stderr s @ (case lc_vformat pl msg ap of None \<Rightarrow> [] | Some t \<Rightarrow> t) @ [CHR 0x0A]\<rparr>"

definition vcheriostest_failure_errx ::
  "platform \<Rightarrow> string \<Rightarrow> cap farg list \<Rightarrow> 'w pstate \<Rightarrow> 'w pstate" where
  "vcheriostest_failure_errx pl msg ap s =
     (case p_ccsp s of
        None \<Rightarrow> print_stderr pl msg ap s
      | Some c \<Rightarrow> s\<lparr>p_ccsp := Some (c\<lparr>ccs_warn := False, ccs_testresult := TESTRESULT_FAILURE,
          ccs_testresult_str := vsnprintf_buf pl (ccs_testresult_str c) msg ap\<rparr>)\<rparr>)"

text \<open>The message followed by \<^verbatim>\<open>": "\<close> and the error text, as far as the buffer has room.\<close>

definition errc_buf :: "platform \<Rightarrow> int \<Rightarrow> char list \<Rightarrow> string \<Rightarrow> cap farg list \<Rightarrow> char list" where
  "errc_buf pl code buf msg ap =
     (case lc_vformat pl msg ap of
        None \<Rightarrow> buf
      | Some t \<Rightarrow>
          (let b = snprintf_buf buf t; len = length t
           in if len \<ge> length buf then b
              else take len b @ snprintf_buf (drop len b) ('': '' @ lc_strerror pl code)))"

definition vcheriostest_failure_errc ::
  "platform \<Rightarrow> int \<Rightarrow> string \<Rightarrow> cap farg list \<Rightarrow> 'w pstate \<Rightarrow> 'w pstate" where
  "vcheriostest_failure_errc pl code msg ap s =
     (case p_ccsp s of
        None \<Rightarrow> print_stderr pl msg ap s
      | Some c \<Rightarrow> s\<lparr>p_ccsp := Some (c\<lparr>ccs_warn := False, ccs_testresult := TESTRESULT_FAILURE,
          ccs_testresult_str := errc_buf pl code (ccs_testresult_str c) msg ap\<rparr>)\<rparr>)"

definition cheriostest_failure_errx ::
  "platform \<Rightarrow> string \<Rightarrow> cap farg list \<Rightarrow> ('w, 'a) prog" where
  "cheriostest_failure_errx pl msg ap =
     (\<lambda>s. (Exited EX_SOFTWARE, vcheriostest_failure_errx pl msg ap s))"

definition cheriostest_failure_errc ::
  "platform \<Rightarrow> int \<Rightarrow> string \<Rightarrow> cap farg list \<Rightarrow> ('w, 'a) prog" where
  "cheriostest_failure_errc pl code msg ap =
     (\<lambda>s. (Exited EX_SOFTWARE, vcheriostest_failure_errc pl code msg ap s))"

definition cheriostest_failure_err ::
  "platform \<Rightarrow> string \<Rightarrow> cap farg list \<Rightarrow> ('w, 'a) prog" where
  "cheriostest_failure_err pl msg ap =
     (\<lambda>s. (Exited EX_SOFTWARE, vcheriostest_failure_errc pl (p_errno s) msg ap s))"

definition cheriostest_success :: "('w, 'a) prog" where
  "cheriostest_success = (\<lambda>s. case p_ccsp s of
      None \<Rightarrow> (Undefined, s)
    | Some c \<Rightarrow> (Exited 0, s\<lparr>p_ccsp := Some (c\<lparr>ccs_testresult := TESTRESULT_SUCCESS,
                                             ccs_warn := False\<rparr>)\<rparr>))"

definition cheriostest_success_with_warn :: "string \<Rightarrow> ('w, 'a) prog" where
  "cheriostest_success_with_warn msg = (\<lambda>s. case p_ccsp s of
      None \<Rightarrow> (Undefined, s)
    | Some c \<Rightarrow> (Exited 0, s\<lparr>p_ccsp := Some (c\<lparr>
        ccs_testresult_str := terminate_buf (strncpy_buf (ccs_testresult_str c) msg),
        ccs_warn := True, ccs_testresult := TESTRESULT_SUCCESS\<rparr>)\<rparr>))"

definition cheriostest_set_expected_si_addr :: "platform \<Rightarrow> cap \<Rightarrow> ('w, unit) prog" where
  "cheriostest_set_expected_si_addr pl addr = (\<lambda>s. case p_ccsp s of
      None \<Rightarrow> (Undefined, s)
    | Some c \<Rightarrow> (Return (), s\<lparr>p_ccsp := Some (
        if is_purecap pl
        then c\<lparr>ccs_si_addr_expected := cheri_tag_clear addr,
               ccs_si_addr_expected_tag := cheri_tag_get addr\<rparr>
        else c\<lparr>ccs_si_addr_expected := addr, ccs_si_addr_expected_tag := False\<rparr>)\<rparr>))"

text \<open>The \<^verbatim>\<open>ct_check_skip\<close> predicates of \<^verbatim>\<open>cheriostest_util.c\<close>: \<open>None\<close> is "do not skip".\<close>

definition skip_need_cheri_revoke :: "platform \<Rightarrow> bool \<Rightarrow> string option" where
  "skip_need_cheri_revoke pl feature_present_cheri_revoke =
     (if is_FreeBSD pl
      then (if \<not> feature_present_cheri_revoke then Some ''Kernel does not support revocation'' else None)
      else Some ''Revocation is not supported'')"

text \<open>The sysctl either fails (\<open>None\<close>) or gives a value.\<close>

definition skip_need_default_cheri_revoke :: "platform \<Rightarrow> int option \<Rightarrow> string option" where
  "skip_need_default_cheri_revoke pl runtime_revocation_default =
     (if is_FreeBSD pl
      then (case runtime_revocation_default of
              None \<Rightarrow> Some ''System does not support revocation''
            | Some v \<Rightarrow> if v = 0 then Some ''System disables revocation'' else None)
      else Some ''Revocation is not supported'')"

end
