(* ===== verification/Checks.thy ===== *)
theory Checks
  imports Process
begin

text \<open>
  The check macros of \<^verbatim>\<open>cheriostest.h\<close> as statements, the contract of the calls that end a test
  (an interface between the test bodies and the controller), and the calculus that says when a
  body made of checks declares success.
\<close>

section \<open>The check macros\<close>

text \<open>\<^verbatim>\<open>if (cond) cheriostest_failure_errx(msg, ...)\<close>, the form most tests write out.\<close>

definition fail_if :: "platform \<Rightarrow> bool \<Rightarrow> string \<Rightarrow> cap farg list \<Rightarrow> ('w, unit) prog" where
  "fail_if pl cond msg ap = (if cond then cheriostest_failure_errx pl msg ap else ret ())"

definition CHERIOSTEST_VERIFY2 :: "platform \<Rightarrow> bool \<Rightarrow> string \<Rightarrow> cap farg list \<Rightarrow> ('w, unit) prog" where
  "CHERIOSTEST_VERIFY2 pl cond msg ap =
     (if \<not> cond then cheriostest_failure_errx pl msg ap else ret ())"

text \<open>The text of the condition is part of the message.\<close>

definition CHERIOSTEST_VERIFY :: "platform \<Rightarrow> bool \<Rightarrow> string \<Rightarrow> ('w, unit) prog" where
  "CHERIOSTEST_VERIFY pl cond cond_text =
     CHERIOSTEST_VERIFY2 pl cond ''%s'' [FStr ([CHR 0x27] @ cond_text @ [CHR 0x27] @ '' is FALSE!'')]"

definition CHERIOSTEST_CHECK_EQ ::
  "platform \<Rightarrow> string \<Rightarrow> 'a \<Rightarrow> 'a \<Rightarrow> ('a \<Rightarrow> cap farg) \<Rightarrow> string \<Rightarrow> string \<Rightarrow> ('w, unit) prog" where
  "CHERIOSTEST_CHECK_EQ pl fmt a b arg a_str b_str =
     CHERIOSTEST_VERIFY2 pl (a = b) (''%s ('' @ fmt @ '') == %s ('' @ fmt @ '') failed!'')
       [FStr a_str, arg a, FStr b_str, arg b]"

text \<open>One attribute of two capabilities compared by \<^verbatim>\<open>CHECK_CAP_ATTR\<close>.\<close>

definition CHECK_CAP_ATTR ::
  "platform \<Rightarrow> string \<Rightarrow> string \<Rightarrow> (cap \<Rightarrow> uintmax) \<Rightarrow> cap \<Rightarrow> cap \<Rightarrow> string \<Rightarrow> string \<Rightarrow> ('w, unit) prog" where
  "CHECK_CAP_ATTR pl name fmt accessor a b a_str b_str =
     CHERIOSTEST_VERIFY2 pl (accessor a = accessor b)
       (name @ ''(%s) ('' @ fmt @ '') == '' @ name @ ''(%s) ('' @ fmt @ '') failed!'')
       [FStr a_str, FWord (accessor a), FStr b_str, FWord (accessor b)]"

definition cheriostest_check_cap_eq ::
  "platform \<Rightarrow> cap \<Rightarrow> cap \<Rightarrow> string \<Rightarrow> string \<Rightarrow> ('w, unit) prog" where
  "cheriostest_check_cap_eq pl a b a_str b_str = block [
     CHECK_CAP_ATTR pl ''cheri_address_get'' ''0x%lx'' cheri_address_get a b a_str b_str,
     CHECK_CAP_ATTR pl ''cheri_tag_get'' ''%d'' (\<lambda>c. of_bool (cheri_tag_get c)) a b a_str b_str,
     CHECK_CAP_ATTR pl ''cheri_offset_get'' ''0x%lx'' cheri_offset_get a b a_str b_str,
     CHECK_CAP_ATTR pl ''cheri_length_get'' ''0x%lx'' cheri_length_get a b a_str b_str,
     CHECK_CAP_ATTR pl ''cheri_perms_get'' ''0x%x'' cheri_perms_get a b a_str b_str,
     CHECK_CAP_ATTR pl ''cheri_type_get'' ''%ld'' cheri_type_get a b a_str b_str,
     CHECK_CAP_ATTR pl ''cheri_flags_get'' ''0x%lx'' cheri_flags_get a b a_str b_str]"

definition cheriostest_check_cap_bounds_precise ::
  "platform \<Rightarrow> cap \<Rightarrow> uintmax \<Rightarrow> ('w, unit) prog" where
  "cheriostest_check_cap_bounds_precise pl c expected_len =
     (let offset = cheri_offset_get c; len = cheri_length_get c in block [
        CHERIOSTEST_VERIFY2 pl (offset = 0) ''offset (%jd) not zero: %#lp'' [FWord offset, FPtr c],
        CHERIOSTEST_VERIFY2 pl (len = expected_len) ''length (%jd) not expected %jd: %#lp''
          [FWord len, FWord expected_len, FPtr c]])"

text \<open>\<^verbatim>\<open>CHERIOSTEST_CHECK_SYSCALL2\<close>: the value of the call, unless it is -1.\<close>

definition CHERIOSTEST_CHECK_SYSCALL2 ::
  "platform \<Rightarrow> ('w, int) prog \<Rightarrow> string \<Rightarrow> cap farg list \<Rightarrow> ('w, int) prog" where
  "CHERIOSTEST_CHECK_SYSCALL2 pl call msg ap =
     bindP call (\<lambda>r. if r = - 1 then cheriostest_failure_err pl msg ap else ret r)"

definition cheriostest_check_errno :: "platform \<Rightarrow> string \<Rightarrow> int \<Rightarrow> int \<Rightarrow> ('w, unit) prog" where
  "cheriostest_check_errno pl ctxt actual expected =
     (if expected = actual then ret ()
      else case lc_strerror_r pl actual of
        None \<Rightarrow> cheriostest_failure_err pl ''sterror_r(%d)'' [FInt actual]
      | Some actual_str \<Rightarrow>
          (case lc_strerror_r pl expected of
             None \<Rightarrow> cheriostest_failure_err pl ''sterror_r(%d)'' [FInt expected]
           | Some expected_str \<Rightarrow>
               cheriostest_failure_errx pl ''%s errno %d (%s) != expected errno %d (%s)''
                 [FStr ctxt, FInt actual, FStr actual_str, FInt expected, FStr expected_str]))"

text \<open>\<^verbatim>\<open>CHERIOSTEST_CHECK_CALL_ERROR\<close>: the call must return -1 and set \<^verbatim>\<open>errno\<close>.\<close>

definition CHERIOSTEST_CHECK_CALL_ERROR ::
  "platform \<Rightarrow> string \<Rightarrow> ('w, int) prog \<Rightarrow> int \<Rightarrow> ('w, unit) prog" where
  "CHERIOSTEST_CHECK_CALL_ERROR pl call_text call expected_errno =
     bindP (\<lambda>s. (Return (), s\<lparr>p_errno := 0\<rparr>)) (\<lambda>_.
     bindP call (\<lambda>r.
     bindP (\<lambda>s. (Return (p_errno s), s)) (\<lambda>call_errno. block [
       CHERIOSTEST_VERIFY2 pl (r = - 1) (call_text @ '' unexpectedly returned %d'') [FInt r],
       cheriostest_check_errno pl call_text call_errno expected_errno])))"

section \<open>The contract of the calls that end a test\<close>

text \<open>
  What the controller relies on: a call that ends the test leaves the process by \<^verbatim>\<open>exit\<close> with one
  of the two codes the controller accepts, sets \<^verbatim>\<open>ccs_testresult\<close>, keeps the message buffer's
  size and NUL-terminates it, and leaves the fields of the signal handler alone.
\<close>

definition same_signal :: "child_state \<Rightarrow> child_state \<Rightarrow> bool" where
  "same_signal c d \<longleftrightarrow>
     ccs_signum c = ccs_signum d \<and> ccs_si_code c = ccs_si_code d \<and> ccs_si_trapno c = ccs_si_trapno d \<and>
     ccs_si_addr c = ccs_si_addr d \<and> ccs_si_addr_tag c = ccs_si_addr_tag d"

locale test_end =
  fixes ender :: "('w, 'a) prog" and code :: int and result :: int
  assumes ends: "p_ccsp s = Some c \<Longrightarrow> ccs_wf c \<Longrightarrow>
      \<exists>d. ender s = (Exited code, s\<lparr>p_ccsp := Some d\<rparr>) \<and> ccs_wf d \<and>
          ccs_testresult d = result \<and> same_signal c d"
    and code_ok: "code = 0 \<or> code = EX_SOFTWARE"
begin

lemma no_fallthrough: "p_ccsp s = Some c \<Longrightarrow> ccs_wf c \<Longrightarrow> bindP ender f s = (Exited code, snd (ender s))"
  using ends [of s c] by (auto simp: bindP_def)

lemma result_set:
  "p_ccsp s = Some c \<Longrightarrow> ccs_wf c \<Longrightarrow>
   \<exists>d. p_ccsp (snd (ender s)) = Some d \<and> ccs_testresult d = result \<and> ccs_signum d = ccs_signum c"
  using ends [of s c] by (auto simp: same_signal_def)

end

lemma length_vsnprintf_buf [simp, buf_simps]: "length (vsnprintf_buf pl buf msg ap) = length buf"
  by (simp add: vsnprintf_buf_def split: option.splits)

lemma length_errc_buf [simp, buf_simps]: "length (errc_buf pl code buf msg ap) = length buf"
  by (auto simp: errc_buf_def Let_def split: option.splits)

interpretation failure_errx: test_end "cheriostest_failure_errx pl msg ap" EX_SOFTWARE TESTRESULT_FAILURE
  for pl msg ap
  by unfold_locales (auto simp: cheriostest_failure_errx_def vcheriostest_failure_errx_def
      ccs_wf_def same_signal_def)

interpretation failure_errc: test_end "cheriostest_failure_errc pl cd msg ap" EX_SOFTWARE TESTRESULT_FAILURE
  for pl cd msg ap
  by unfold_locales (auto simp: cheriostest_failure_errc_def vcheriostest_failure_errc_def
      ccs_wf_def same_signal_def)

interpretation failure_err: test_end "cheriostest_failure_err pl msg ap" EX_SOFTWARE TESTRESULT_FAILURE
  for pl msg ap
  by unfold_locales (auto simp: cheriostest_failure_err_def vcheriostest_failure_errc_def
      ccs_wf_def same_signal_def)

interpretation success: test_end cheriostest_success 0 TESTRESULT_SUCCESS
  by unfold_locales (auto simp: cheriostest_success_def ccs_wf_def same_signal_def)

interpretation success_with_warn: test_end "cheriostest_success_with_warn msg" 0 TESTRESULT_SUCCESS
  for msg
  by unfold_locales (auto simp: cheriostest_success_with_warn_def ccs_wf_def same_signal_def)

section \<open>When a body declares success\<close>

definition declares_success :: "('w, 'a) prog \<Rightarrow> 'w pstate \<Rightarrow> bool" where
  "declares_success p s \<longleftrightarrow>
     fst (p s) = Exited 0 \<and>
     (case p_ccsp (snd (p s)) of None \<Rightarrow> False | Some c \<Rightarrow> ccs_testresult c = TESTRESULT_SUCCESS)"

definition declares_failure :: "('w, 'a) prog \<Rightarrow> 'w pstate \<Rightarrow> bool" where
  "declares_failure p s \<longleftrightarrow>
     fst (p s) = Exited EX_SOFTWARE \<and>
     (case p_ccsp (snd (p s)) of None \<Rightarrow> False | Some c \<Rightarrow> ccs_testresult c = TESTRESULT_FAILURE)"

lemma success_not_failure: "declares_success p s \<Longrightarrow> \<not> declares_failure p s"
  by (simp add: declares_success_def declares_failure_def EX_SOFTWARE_def)

lemma bindP_failure_errx [simp, prog_simps]:
  "bindP (cheriostest_failure_errx pl m a) f = cheriostest_failure_errx pl m a"
  by (simp add: bindP_def cheriostest_failure_errx_def)

lemma bindP_failure_err [simp, prog_simps]:
  "bindP (cheriostest_failure_err pl m a) f = cheriostest_failure_err pl m a"
  by (simp add: bindP_def cheriostest_failure_err_def)

lemma bindP_success [simp, prog_simps]: "bindP cheriostest_success f = cheriostest_success"
  by (rule ext) (simp add: bindP_def cheriostest_success_def split: option.splits)

lemma bindP_success_with_warn [simp, prog_simps]:
  "bindP (cheriostest_success_with_warn m) f = cheriostest_success_with_warn m"
  by (rule ext) (simp add: bindP_def cheriostest_success_with_warn_def split: option.splits)

lemma bindP_trap [simp, prog_simps]: "bindP (trap i) f = trap i"
  by (simp add: bindP_def trap_def)

lemma bindP_fail_if [prog_simps]:
  "bindP (fail_if pl b m a) f = (if b then cheriostest_failure_errx pl m a else f ())"
  by (simp add: fail_if_def)

lemma bindP_VERIFY2 [prog_simps]:
  "bindP (CHERIOSTEST_VERIFY2 pl b m a) f = (if b then f () else cheriostest_failure_errx pl m a)"
  by (simp add: CHERIOSTEST_VERIFY2_def)

lemma bindP_VERIFY [prog_simps]:
  "bindP (CHERIOSTEST_VERIFY pl b t) f = (if b then f () else
     cheriostest_failure_errx pl ''%s'' [FStr ([CHR 0x27] @ t @ [CHR 0x27] @ '' is FALSE!'')])"
  by (simp add: CHERIOSTEST_VERIFY_def bindP_VERIFY2)

lemma declares_success_errx [simp, passes_simps]: "\<not> declares_success (cheriostest_failure_errx pl m a) s"
  by (simp add: declares_success_def cheriostest_failure_errx_def EX_SOFTWARE_def)

lemma declares_success_err [simp, passes_simps]: "\<not> declares_success (cheriostest_failure_err pl m a) s"
  by (simp add: declares_success_def cheriostest_failure_err_def EX_SOFTWARE_def)

lemma declares_success_ret [simp, passes_simps]: "\<not> declares_success (ret x) s"
  by (simp add: declares_success_def ret_def)

lemma declares_success_trap [simp, passes_simps]: "\<not> declares_success (trap i) s"
  by (simp add: declares_success_def trap_def)

lemma declares_success_success [passes_simps]:
  "declares_success cheriostest_success s \<longleftrightarrow> p_ccsp s \<noteq> None"
  by (auto simp: declares_success_def cheriostest_success_def split: option.splits)

lemma declares_success_with_warn [passes_simps]:
  "declares_success (cheriostest_success_with_warn m) s \<longleftrightarrow> p_ccsp s \<noteq> None"
  by (auto simp: declares_success_def cheriostest_success_with_warn_def split: option.splits)

lemma declares_failure_errx [passes_simps]:
  "declares_failure (cheriostest_failure_errx pl m a) s \<longleftrightarrow> p_ccsp s \<noteq> None"
  by (auto simp: declares_failure_def cheriostest_failure_errx_def vcheriostest_failure_errx_def
      print_stderr_def split: option.splits)

lemma declares_failure_err [passes_simps]:
  "declares_failure (cheriostest_failure_err pl m a) s \<longleftrightarrow> p_ccsp s \<noteq> None"
  by (auto simp: declares_failure_def cheriostest_failure_err_def vcheriostest_failure_errc_def
      print_stderr_def split: option.splits)

lemma declares_success_if [passes_simps]:
  "declares_success (if b then p else q) s \<longleftrightarrow> (if b then declares_success p s else declares_success q s)"
  by simp

text \<open>A check in front of a continuation: the body succeeds iff the check passes and the rest does.\<close>

lemma declares_success_fail_if [passes_simps]:
  "declares_success (bindP (fail_if pl b m a) f) s \<longleftrightarrow> \<not> b \<and> declares_success (f ()) s"
  by (simp add: bindP_fail_if)

lemma declares_success_VERIFY2 [passes_simps]:
  "declares_success (bindP (CHERIOSTEST_VERIFY2 pl b m a) f) s \<longleftrightarrow> b \<and> declares_success (f ()) s"
  by (simp add: bindP_VERIFY2)

lemma declares_success_VERIFY [passes_simps]:
  "declares_success (bindP (CHERIOSTEST_VERIFY pl b t) f) s \<longleftrightarrow> b \<and> declares_success (f ()) s"
  by (simp add: bindP_VERIFY)

lemma declares_success_CAP_ATTR [passes_simps]:
  "declares_success (bindP (CHECK_CAP_ATTR pl n fm acc a b x y) f) s \<longleftrightarrow>
     acc a = acc b \<and> declares_success (f ()) s"
  by (simp add: CHECK_CAP_ATTR_def declares_success_VERIFY2)

lemma declares_success_only_if [passes_simps]:
  "declares_success (block (only_if b ps @ qs)) s \<longleftrightarrow>
     (if b then declares_success (block (ps @ qs)) s else declares_success (block qs) s)"
  by (simp add: only_if_def)

text \<open>\<^verbatim>\<open>_cheriostest_check_cap_eq\<close> lets through exactly the pairs that agree on seven attributes.\<close>

definition cap_attrs_eq :: "cap \<Rightarrow> cap \<Rightarrow> bool" where
  "cap_attrs_eq a b \<longleftrightarrow>
     cap_addr a = cap_addr b \<and> cap_tag a = cap_tag b \<and> cap_base a = cap_base b \<and>
     cheri_length_get a = cheri_length_get b \<and> cap_perms a = cap_perms b \<and>
     cap_otype a = cap_otype b \<and> cap_flags a = cap_flags b"

lemma declares_success_check_cap_eq [passes_simps]:
  "declares_success (bindP (cheriostest_check_cap_eq pl a b x y) f) s \<longleftrightarrow>
     cap_attrs_eq a b \<and> declares_success (f ()) s"
  by (auto simp: cheriostest_check_cap_eq_def bindP_assoc passes_simps cap_attrs_eq_def cap_simps)

lemma declares_success_bounds_precise [passes_simps]:
  "declares_success (bindP (cheriostest_check_cap_bounds_precise pl c n) f) s \<longleftrightarrow>
     cap_addr c = cap_base c \<and> cheri_length_get c = n \<and> declares_success (f ()) s"
  by (auto simp: cheriostest_check_cap_bounds_precise_def Let_def bindP_assoc passes_simps cap_simps)

section \<open>Statements that check\<close>

text \<open>
  Functions made of checks alone either return or declare failure: \<open>is_check pl p b\<close> says that \<open>p\<close> returns, having
  changed nothing, if \<open>b\<close> holds, and fails with some message otherwise.
\<close>

definition is_check :: "platform \<Rightarrow> ('w, unit) prog \<Rightarrow> bool \<Rightarrow> bool" where
  "is_check pl p b \<longleftrightarrow> (b \<longrightarrow> p = ret ()) \<and> (\<not> b \<longrightarrow> (\<exists>m ap. p = cheriostest_failure_errx pl m ap))"

lemma is_check_fail_if [intro]: "is_check pl (fail_if pl b m ap) (\<not> b)"
  by (auto simp: is_check_def fail_if_def)

lemma is_check_VERIFY2 [intro]: "is_check pl (CHERIOSTEST_VERIFY2 pl b m ap) b"
  by (auto simp: is_check_def CHERIOSTEST_VERIFY2_def)

lemma is_check_ret [intro]: "is_check pl (ret ()) True"
  by (simp add: is_check_def)

lemma is_check_errx [intro]: "is_check pl (cheriostest_failure_errx pl m ap) False"
  by (auto simp: is_check_def)

lemma is_check_bind: "is_check pl p b \<Longrightarrow> (b \<Longrightarrow> is_check pl q c) \<Longrightarrow> is_check pl (bindP p (\<lambda>_. q)) (b \<and> c)"
  unfolding is_check_def using bindP_failure_errx [of pl _ _ "\<lambda>_. q"] by (cases b) (auto, metis)

lemma is_check_block: "list_all2 (is_check pl) ps bs \<Longrightarrow> is_check pl (block ps) (list_all id bs)"
  by (induction rule: list_all2_induct) (auto intro: is_check_bind)

lemma errx_not_ret [simp]: "cheriostest_failure_errx pl m ap \<noteq> (ret () :: ('w, unit) prog)"
  by (simp add: cheriostest_failure_errx_def ret_def fun_eq_iff)

lemma is_check_iff: "is_check pl p b \<Longrightarrow> p = ret () \<longleftrightarrow> b"
  by (cases b) (auto simp: is_check_def)

text \<open>In front of a body, such a statement adds its condition.\<close>

lemma is_check_success: "is_check pl p b \<Longrightarrow> declares_success (bindP p f) s \<longleftrightarrow> b \<and> declares_success (f ()) s"
  by (cases b) (auto simp: is_check_def)

lemma is_check_failure: "is_check pl p False \<Longrightarrow> declares_failure (bindP p f) s \<longleftrightarrow> p_ccsp s \<noteq> None"
  by (auto simp: is_check_def declares_failure_errx)

section \<open>Running statements\<close>

text \<open>A group of statements comes back and keeps a property of the state.\<close>

definition keeps :: "('w pstate \<Rightarrow> bool) \<Rightarrow> ('w, unit) prog list \<Rightarrow> bool" where
  "keeps P ps \<longleftrightarrow> (\<forall>s. P s \<longrightarrow> (\<exists>s'. block ps s = (Return (), s') \<and> P s'))"

lemma keeps_Nil [simp]: "keeps P []"
  by (simp add: keeps_def ret_def)

lemma keeps_append: "keeps P ps \<Longrightarrow> keeps P qs \<Longrightarrow> keeps P (ps @ qs)"
  unfolding keeps_def block_append bindP_def by fastforce

lemma keeps_concat: "(\<And>ps. ps \<in> set pss \<Longrightarrow> keeps P ps) \<Longrightarrow> keeps P (concat pss)"
  by (induction pss) (auto intro: keeps_append)

lemma keeps_Cons: "keeps P [p] \<Longrightarrow> keeps P ps \<Longrightarrow> keeps P (p # ps)"
  using keeps_append [of P "[p]" ps] by simp

lemma keeps_map: "(\<And>x. x \<in> set xs \<Longrightarrow> keeps P [f x]) \<Longrightarrow> keeps P (map f xs)"
  by (induction xs) (auto intro: keeps_Cons)

lemma keeps_block: "keeps P ps \<Longrightarrow> keeps P [block ps]"
  by (simp add: keeps_def)

lemma keeps_one: "(\<And>s. P s \<Longrightarrow> \<exists>s'. p s = (Return (), s') \<and> P s') \<Longrightarrow> keeps P [p]"
  by (simp add: keeps_def)

lemma keeps_success:
  assumes "keeps P ps" "P s" "\<And>s. P s \<Longrightarrow> p_ccsp s \<noteq> None"
  shows "declares_success (block (ps @ [cheriostest_success])) s"
proof -
  obtain s' where "block ps s = (Return (), s')" "P s'" using assms(1,2) unfolding keeps_def by blast
  then have "block (ps @ [cheriostest_success]) s = cheriostest_success s'" by (simp add: block_append bindP_def [of "block _"])
  then show ?thesis using declares_success_success [of s'] assms(3) [OF \<open>P s'\<close>] by (simp add: declares_success_def)
qed

lemma block_step: "p s = (Return (), s') \<Longrightarrow> block (p # ps) s = block ps s'"
  by (simp add: bindP_def)

lemma bindP_get_world: "bindP get_world f s = f (p_world s) s"
  by (simp add: bindP_def get_world_def)

lemma block_rets: "(\<And>p. p \<in> set ps \<Longrightarrow> p = ret ()) \<Longrightarrow> block ps = ret ()"
  by (induction ps) auto

lemma keeps_then_success:
  assumes "block ps s = (Return (), s1)" "P s1" "keeps P qs" "\<And>s. P s \<Longrightarrow> p_ccsp s \<noteq> None"
  shows "declares_success (block (ps @ qs @ [cheriostest_success])) s"
proof -
  obtain s2 where "block qs s1 = (Return (), s2)" "P s2"
    using assms(2,3) unfolding keeps_def by blast
  then have "block (ps @ qs @ [cheriostest_success]) s = cheriostest_success s2"
    using assms(1) by (simp add: block_append bindP_def [of "block _"])
  then show ?thesis
    using declares_success_success [of s2] assms(4) [OF \<open>P s2\<close>] by (simp add: declares_success_def)
qed

end
