(* ===== verification/Instances.thy ===== *)
theory Instances
  imports Process
begin

text \<open>
  Concrete platforms, at which the theorems with hypotheses are applied: the Morello permission
  bits, with the software permissions as CheriBSD and CHERI Linux use them, precise bounds, and a
  formatter that gives the format string back. A fresh process state with an empty shared page.
\<close>

definition morello_purecap :: platform where
  "morello_purecap = \<lparr>
     pl_os = CheriBSD, pl_arch = Morello, pl_abi = Purecap, pl_c18n = False, pl_zcherilevels = False,
     pl_PROG = ''cheriostest-purecap'', pl_PROG_SUFFIX = ''-purecap'', pl_HELPER_RELDIR = ''../libexec'',
     CHERI_PERM_GLOBAL = 0x1, CHERI_PERM_EXECUTE = 0x8000, CHERI_PERM_LOAD = 0x20000,
     CHERI_PERM_STORE = 0x10000, CHERI_PERM_LOAD_CAP = 0x4000, CHERI_PERM_STORE_CAP = 0x2000,
     CHERI_PERM_CAP = 0, CHERI_PERM_STORE_LOCAL_CAP = 0x1000, CHERI_PERM_LOAD_MUTABLE = 0x40,
     CHERI_PERM_SEAL = 0x800, CHERI_PERM_INVOKE = 0x100, CHERI_PERM_UNSEAL = 0x400,
     CHERI_PERM_SYSTEM_REGS = 0x200, CHERI_PERM_SW_VMEM = 0x8, CHERI_PERM_SYSCALL = Some 0x4,
     ARM_CAP_PERMISSION_EXECUTIVE = 0x2, xcheri_PERMS_SW = [], xcheri_PERMS_USERSPACE_CODE = 0,
     xcheri_PERMS_USERSPACE_DATA = 0, xcheri_PERMS_USERSPACE_SEALCAP = 0,
     xcheri_OTYPE_USER_MIN = 0, xcheri_OTYPE_USER_MAX = 0,
     CHERI_OTYPE_UNSEALED = 0, CHERI_OTYPE_SENTRY = 1,
     CHERI_CAP_USER_CODE_BASE = 0, CHERI_CAP_USER_CODE_LENGTH = 0x1000000000000,
     CHERI_CAP_USER_DATA_LENGTH = 0x1000000000000, CHERI_CAP_USER_DATA_OFFSET = 0,
     cheri_representable_length = (\<lambda>n. n), cheri_representable_alignment_mask = (\<lambda>_. - 1),
     arch_representable = (\<lambda>_ _. True), arch_round_bounds = (\<lambda>b n. (b, n)),
     arch_valid_otype = (\<lambda>t. t < 0x8000),
     lc_vformat = (\<lambda>m _. Some m), lc_strerror = (\<lambda>_. ''error''), lc_strerror_r = (\<lambda>_. Some ''error'')\<rparr>"

definition morello_linux :: platform where
  "morello_linux = morello_purecap\<lparr>pl_os := CheriLinux, CHERI_PERM_SYSCALL := None\<rparr>"

definition morello_hybrid :: platform where
  "morello_hybrid = morello_purecap\<lparr>pl_abi := Hybrid\<rparr>"

definition fresh_process :: "platform \<Rightarrow> 'w \<Rightarrow> 'w pstate" where
  "fresh_process pl w = \<lparr>p_ccsp = Some (ccs_zero pl), p_errno = 0, p_stderr = [], p_stdout = [],
     p_sigaction = (\<lambda>_. SigDfl), p_world = w\<rparr>"

lemma fresh_process_ccsp [simp]: "p_ccsp (fresh_process pl w) = Some (ccs_zero pl)"
  by (simp add: fresh_process_def)

end
