(* ===== verification/Registers.thy ===== *)
theory Registers
  imports Checks Instances
begin

text \<open>
  \<^verbatim>\<open>cheriostest_registers.c\<close>: the tests of the capabilities a process starts with. The registers
  (\<^verbatim>\<open>$pcc\<close>, \<^verbatim>\<open>$ddc\<close>, the stack pointer, the return address) are arguments of the test bodies; the
  two values the Linux build reads from the system (\<^verbatim>\<open>/proc/sys/vm/mmap_min_addr\<close> and the stack
  limit) are fields of \<open>reg_env\<close>, with \<open>None\<close> where the call fails.
\<close>

section \<open>What the tests read from the system\<close>

record reg_env =
  re_mmap_min_addr :: "uintmax option" \<comment> \<open>\<^verbatim>\<open>fscanf\<close> of \<^verbatim>\<open>mmap_min_addr\<close>\<close>
  re_stack_rlim_max :: "uintmax option" \<comment> \<open>\<^verbatim>\<open>getrlimit(RLIMIT_STACK)\<close>\<close>
  re_user_data_base :: uintmax \<comment> \<open>\<^verbatim>\<open>CHERI_CAP_USER_DATA_BASE\<close> of the FreeBSD headers\<close>
  re_maxssiz :: uintmax \<comment> \<open>\<^verbatim>\<open>MAXSSIZ\<close> of the FreeBSD headers\<close>

definition get_minuser_address :: "platform \<Rightarrow> reg_env \<Rightarrow> ('w, uintmax) prog" where
  "get_minuser_address pl re =
     (case re_mmap_min_addr re of
        None \<Rightarrow> cheriostest_failure_errx pl ''fscanf call failed'' []
      | Some a \<Rightarrow> ret a)"

definition get_max_stack_size :: "platform \<Rightarrow> reg_env \<Rightarrow> ('w, uintmax) prog" where
  "get_max_stack_size pl re =
     (case re_stack_rlim_max re of
        None \<Rightarrow> cheriostest_failure_errx pl ''getrlimit call failed'' []
      | Some a \<Rightarrow> ret a)"

definition CHERI_CAP_USER_DATA_BASE :: "platform \<Rightarrow> reg_env \<Rightarrow> ('w, uintmax) prog" where
  "CHERI_CAP_USER_DATA_BASE pl re =
     (if is_linux pl then get_minuser_address pl re else ret (re_user_data_base re))"

definition MAXSSIZ :: "platform \<Rightarrow> reg_env \<Rightarrow> ('w, uintmax) prog" where
  "MAXSSIZ pl re = (if is_linux pl then get_max_stack_size pl re else ret (re_maxssiz re))"

section \<open>Permission checks\<close>

text \<open>The two forms of the overt permission checks.\<close>

definition perm_missing :: "platform \<Rightarrow> uintmax \<Rightarrow> uintmax \<Rightarrow> string \<Rightarrow> ('w, unit) prog" where
  "perm_missing pl v p name = fail_if pl (v AND p = 0) (''perms %jx ('' @ name @ '' missing)'') [FWord v]"

definition perm_present :: "platform \<Rightarrow> uintmax \<Rightarrow> uintmax \<Rightarrow> string \<Rightarrow> ('w, unit) prog" where
  "perm_present pl v p name = fail_if pl (v AND p \<noteq> 0) (''perms %jx ('' @ name @ '' present)'') [FWord v]"

text \<open>\<^verbatim>\<open>expect\<close> for the software permissions of a code capability.\<close>

definition code_swperms_expect :: "platform \<Rightarrow> uintmax" where
  "code_swperms_expect pl =
     (let e = (if is_FreeBSD pl then CHERITEST_CHERI_PERMS_SWALL pl AND NOT (CHERI_PERM_SW_VMEM pl) else 0)
      in if pl_c18n pl \<and> pl_abi pl \<noteq> PurecapBenchmark \<and> \<not> is_linux pl
         then e AND NOT (case CHERI_PERM_SYSCALL pl of None \<Rightarrow> 0 | Some p \<Rightarrow> p) else e)"

text \<open>\<^verbatim>\<open>expect\<close> for all permissions of a code capability.\<close>

definition code_perms_expect :: "platform \<Rightarrow> uintmax" where
  "code_perms_expect pl =
     (let e = CHERITEST_CHERI_PERMS_USERSPACE_CODE pl
      in if pl_c18n pl \<and> pl_abi pl \<noteq> PurecapBenchmark
         then (let e1 = (if \<not> is_linux pl
                         then e AND NOT (case CHERI_PERM_SYSCALL pl of None \<Rightarrow> 0 | Some p \<Rightarrow> p) else e)
               in if pl_arch pl = Morello then e1 AND NOT (ARM_CAP_PERMISSION_EXECUTIVE pl) else e1)
         else e)"

definition check_initreg_code_bounds :: "platform \<Rightarrow> cap \<Rightarrow> ('w, unit) prog list" where
  "check_initreg_code_bounds pl c =
     (if is_purecap pl \<and> pl_abi pl \<noteq> PurecapBenchmark
      then (let upper_bound = cheri_representable_length pl (cheri_address_get c + 0x1000000) in [
        CHERIOSTEST_VERIFY2 pl (cheri_base_get c \<noteq> 0) ''code base should be nonzero'' [],
        CHERIOSTEST_VERIFY2 pl (cheri_length_get c < upper_bound)
          ''code length 0x%jx should be < than 0x%jx)'' [FWord (cheri_length_get c), FWord upper_bound]])
      else [
        CHERIOSTEST_VERIFY2 pl (cheri_base_get c = CHERI_CAP_USER_CODE_BASE pl)
          ''code base 0x%jx (expected 0x%jx)''
          [FWord (cheri_base_get c), FWord (CHERI_CAP_USER_CODE_BASE pl)],
        CHERIOSTEST_VERIFY2 pl (cheri_length_get c = CHERI_CAP_USER_CODE_LENGTH pl)
          ''code length 0x%jx should be 0x%jx''
          [FWord (cheri_length_get c), FWord (CHERI_CAP_USER_CODE_LENGTH pl)]])"

definition check_initreg_code_perms :: "platform \<Rightarrow> uintmax \<Rightarrow> ('w, unit) prog list" where
  "check_initreg_code_perms pl v =
     [perm_missing pl v (CHERI_PERM_GLOBAL pl) ''global'',
      perm_missing pl v (CHERI_PERM_EXECUTE pl) ''execute'',
      perm_missing pl v (CHERI_PERM_LOAD pl) ''load'',
      perm_present pl v (CHERI_PERM_STORE pl) ''store''] @
     only_if (HAS_CHERI_PERM_LOAD_STORE_CAP pl)
      [perm_missing pl v (CHERI_PERM_LOAD_CAP pl) ''loadcap'',
       perm_present pl v (CHERI_PERM_STORE_CAP pl) ''storecap''] @
     only_if (HAS_CHERI_PERM_CAP pl) [perm_missing pl v (CHERI_PERM_CAP pl) ''cap''] @
     [perm_present pl v (CHERI_PERM_STORE_LOCAL_CAP pl) ''store_local_cap''] @
     only_if (HAS_CHERI_PERM_LOAD_MUTABLE pl)
      [perm_missing pl v (CHERI_PERM_LOAD_MUTABLE pl) ''load mutable''] @
     only_if (HAS_CHERI_PERM_SEAL pl)
      [perm_present pl v (CHERI_PERM_SEAL pl) ''seal'',
       (if is_FreeBSD pl then perm_missing pl v (CHERI_PERM_INVOKE pl) ''invoke''
        else fail_if pl (v AND CHERI_PERM_INVOKE pl = 1) ''perms %jx (invoke set)'' [FWord v]),
       perm_present pl v (CHERI_PERM_UNSEAL pl) ''unseal''] @
     [perm_present pl v (CHERI_PERM_SYSTEM_REGS pl) ''system_regs'',
      fail_if pl (v AND CHERITEST_CHERI_PERMS_SWALL pl \<noteq> code_swperms_expect pl)
        ''swperms %jx (expected swperms %jx)''
        [FWord (v AND CHERITEST_CHERI_PERMS_SWALL pl), FWord (code_swperms_expect pl)],
      fail_if pl (v \<noteq> code_perms_expect pl) ''perms %jx (expected %jx)''
        [FWord v, FWord (code_perms_expect pl)]]"

definition check_initreg_code :: "platform \<Rightarrow> cap \<Rightarrow> ('w, unit) prog" where
  "check_initreg_code pl c = block (
     check_initreg_code_bounds pl c @
     [CHERIOSTEST_VERIFY pl (cheri_offset_get c = 0) ''cheri_offset_get(c) == 0''] @
     only_if (HAS_CHERI_PERM_SEAL pl)
      [fail_if pl (cheri_type_get c \<noteq> CHERI_OTYPE_UNSEALED pl) ''otype %jx (expected %jx)''
        [FWord (cheri_type_get c), FWord (CHERI_OTYPE_UNSEALED pl)]] @
     [fail_if pl (cheri_is_sealed pl c) ''sealed %jx (expected 0)'' [FBool (cheri_is_sealed pl c)],
      fail_if pl (\<not> cheri_tag_get c) ''tag %jx (expected 1)'' [FBool (cheri_tag_get c)]] @
     check_initreg_code_perms pl (cheri_perms_get c) @
     [cheriostest_success])"

text \<open>The default capability of the hybrid ABI: the whole user address space.\<close>

definition check_initreg_data_full_addrspace :: "platform \<Rightarrow> reg_env \<Rightarrow> cap \<Rightarrow> ('w, unit) prog" where
  "check_initreg_data_full_addrspace pl re c =
     (let v = cheri_perms_get c;
          sysc = (case CHERI_PERM_SYSCALL pl of None \<Rightarrow> 0 | Some p \<Rightarrow> p);
          expect = CHERITEST_CHERI_CAP_USER_DATA_PERMS pl OR CHERI_PERM_SW_VMEM pl OR sysc;
          swall = CHERITEST_CHERI_PERMS_SWALL pl
      in bindP (CHERI_CAP_USER_DATA_BASE pl re) (\<lambda>base. block (
     [fail_if pl (cheri_base_get c \<noteq> base) ''base %jx (expected %jx)'' [FWord (cheri_base_get c), FWord base],
      fail_if pl (cheri_length_get c > CHERI_CAP_USER_DATA_LENGTH pl) ''length 0x%jx (expected <= 0x%jx)''
        [FWord (cheri_length_get c), FWord (CHERI_CAP_USER_DATA_LENGTH pl)],
      fail_if pl (cheri_offset_get c \<noteq> CHERI_CAP_USER_DATA_OFFSET pl) ''offset %jx (expected %jx)''
        [FWord (cheri_offset_get c), FWord (CHERI_CAP_USER_DATA_OFFSET pl)]] @
     only_if (HAS_CHERI_PERM_SEAL pl)
      [fail_if pl (cheri_type_get c \<noteq> CHERI_OTYPE_UNSEALED pl) ''otype %jx (expected %jx)''
        [FWord (cheri_type_get c), FWord (CHERI_OTYPE_UNSEALED pl)]] @
     [fail_if pl (v \<noteq> expect) ''perms %jx (expected %jx)'' [FWord v, FWord expect],
      perm_missing pl v (CHERI_PERM_GLOBAL pl) ''global'',
      perm_present pl v (CHERI_PERM_EXECUTE pl) ''execute'',
      perm_missing pl v (CHERI_PERM_LOAD pl) ''load'',
      perm_missing pl v (CHERI_PERM_STORE pl) ''store''] @
     only_if (HAS_CHERI_PERM_LOAD_STORE_CAP pl)
      [perm_missing pl v (CHERI_PERM_LOAD_CAP pl) ''loadcap'',
       perm_missing pl v (CHERI_PERM_STORE_CAP pl) ''storecap''] @
     only_if (HAS_CHERI_PERM_CAP pl) [perm_missing pl v (CHERI_PERM_CAP pl) ''cap''] @
     [perm_missing pl v (CHERI_PERM_STORE_LOCAL_CAP pl) ''store_local_cap''] @
     only_if (HAS_CHERI_PERM_LOAD_MUTABLE pl)
      [perm_missing pl v (CHERI_PERM_LOAD_MUTABLE pl) ''load mutable''] @
     only_if (HAS_CHERI_PERM_SEAL pl)
      [perm_present pl v (CHERI_PERM_SEAL pl) ''seal'',
       perm_missing pl v (CHERI_PERM_INVOKE pl) ''invoke'',
       perm_present pl v (CHERI_PERM_UNSEAL pl) ''unseal''] @
     [perm_present pl v (CHERI_PERM_SYSTEM_REGS pl) ''system_regs'',
      fail_if pl (v AND swall \<noteq> swall) ''swperms %jx (expected swperms %x)''
        [FWord (v AND swall), FWord swall],
      fail_if pl (cheri_is_sealed pl c) ''sealed %jx (expected 0)'' [FBool (cheri_is_sealed pl c)],
      fail_if pl (\<not> cheri_tag_get c) ''tag %jx (expected 1)'' [FBool (cheri_tag_get c)],
      cheriostest_success])))"

section \<open>The tests\<close>

definition initregs_default :: "platform \<Rightarrow> reg_env \<Rightarrow> cap \<Rightarrow> ('w, unit) prog" where
  "initregs_default pl re ddc =
     (if is_purecap pl
      then (if ptr_eq ddc (cap_null pl) then cheriostest_success
            else cheriostest_failure_errx pl ''Expected NULL $ddc but was %-#p'' [FPtr ddc])
      else check_initreg_data_full_addrspace pl re ddc)"

definition CHERI_STACK_USE_MAX :: uintmax where
  "CHERI_STACK_USE_MAX = 256 * 1024"

definition initregs_stack_user_perms :: "platform \<Rightarrow> cap \<Rightarrow> ('w, unit) prog" where
  "initregs_stack_user_perms pl stack =
     (let v = cheri_perms_get stack; swall = CHERITEST_CHERI_PERMS_SWALL pl in block [
       fail_if pl (v AND swall \<noteq> CHERITEST_CHERI_PERMS_SW_USERSPACE pl)
         ''swperms %jx (expected swperms %x)''
         [FWord (v AND swall), FWord (CHERITEST_CHERI_PERMS_SW_USERSPACE pl)],
       cheriostest_success])"

definition initregs_stack :: "platform \<Rightarrow> reg_env \<Rightarrow> cap \<Rightarrow> ('w, unit) prog" where
  "initregs_stack pl re c =
     (let v = cheri_perms_get c; room = cheri_length_get c - cheri_offset_get c
      in bindP (CHERI_CAP_USER_DATA_BASE pl re) (\<lambda>base.
         bindP (fail_if pl (cheri_base_get c = base) ''base 0x%jx (did not expect 0x%jx)''
                  [FWord (cheri_base_get c), FWord base]) (\<lambda>_.
         bindP (MAXSSIZ pl re) (\<lambda>maxssiz. block (
     [fail_if pl (cheri_length_get c > maxssiz) ''length 0x%jx (> MAXSSIZ 0x%jx)''
        [FWord (cheri_length_get c), FWord maxssiz],
      fail_if pl (room > CHERI_STACK_USE_MAX) ''offset more then 0x%jx from top (0x%jx)''
        [FWord CHERI_STACK_USE_MAX, FWord room]] @
     only_if (HAS_CHERI_PERM_SEAL pl)
      [fail_if pl (cheri_type_get c \<noteq> CHERI_OTYPE_UNSEALED pl) ''otype 0x%jx (expected 0x%jx)''
        [FWord (cheri_type_get c), FWord (CHERI_OTYPE_UNSEALED pl)]] @
     [perm_present pl v (CHERI_PERM_EXECUTE pl) ''execute'',
      perm_missing pl v (CHERI_PERM_LOAD pl) ''load'',
      perm_missing pl v (CHERI_PERM_STORE pl) ''store''] @
     only_if (HAS_CHERI_PERM_LOAD_STORE_CAP pl)
      [perm_missing pl v (CHERI_PERM_LOAD_CAP pl) ''loadcap'',
       perm_missing pl v (CHERI_PERM_STORE_CAP pl) ''storecap''] @
     only_if (HAS_CHERI_PERM_CAP pl) [perm_missing pl v (CHERI_PERM_CAP pl) ''cap''] @
     [perm_missing pl v (CHERI_PERM_GLOBAL pl) ''global'',
      perm_missing pl v (CHERI_PERM_STORE_LOCAL_CAP pl) ''store_local_cap''] @
     only_if (HAS_CHERI_PERM_LOAD_MUTABLE pl)
      [perm_missing pl v (CHERI_PERM_LOAD_MUTABLE pl) ''load mutable''] @
     only_if (HAS_CHERI_PERM_SEAL pl)
      [perm_present pl v (CHERI_PERM_SEAL pl) ''seal'',
       perm_missing pl v (CHERI_PERM_INVOKE pl) ''invoke'',
       perm_present pl v (CHERI_PERM_UNSEAL pl) ''unseal''] @
     [perm_present pl v (CHERI_PERM_SYSTEM_REGS pl) ''system_regs'',
      fail_if pl (v \<noteq> CHERITEST_CHERI_CAP_USER_DATA_PERMS pl) ''perms %jx (expected %jx)''
        [FWord v, FWord (CHERITEST_CHERI_CAP_USER_DATA_PERMS pl)],
      fail_if pl (cheri_is_sealed pl c) ''sealed %jx (expected 0)'' [FBool (cheri_is_sealed pl c)],
      fail_if pl (\<not> cheri_tag_get c) ''tag %jx (expected 1)'' [FBool (cheri_tag_get c)],
      cheriostest_success])))))"

text \<open>\<^verbatim>\<open>__builtin_extract_return_addr\<close> is the identity on these architectures, given as \<open>extract\<close>.\<close>

definition initregs_returncap :: "platform \<Rightarrow> (cap \<Rightarrow> cap) \<Rightarrow> cap \<Rightarrow> ('w, unit) prog" where
  "initregs_returncap pl extract c =
     (let v = cheri_perms_get c; ty = cheri_type_get c in block (
     [CHERIOSTEST_VERIFY pl (cheri_tag_get c) ''cheri_tag_get(c)'',
      CHERIOSTEST_VERIFY2 pl (v AND CHERI_PERM_EXECUTE pl = CHERI_PERM_EXECUTE pl)
        ''perms %jx (execute missing)'' [FWord v],
      CHERIOSTEST_VERIFY2 pl (v AND CHERI_PERM_STORE pl = 0) ''perms %jx (store present)'' [FWord v]] @
     only_if (HAS_CHERI_PERM_LOAD_STORE_CAP pl)
      [CHERIOSTEST_VERIFY2 pl (v AND CHERI_PERM_STORE_CAP pl = 0) ''perms %jx (storecap present)'' [FWord v]] @
     only_if (HAS_CHERI_PERM_CAP pl)
      [CHERIOSTEST_VERIFY2 pl (v AND CHERI_PERM_CAP pl \<noteq> 0) ''perms %jx (cap missing)'' [FWord v]] @
     [CHERIOSTEST_VERIFY2 pl (v AND CHERI_PERM_STORE_LOCAL_CAP pl = 0)
        ''perms %jx (store_local_cap present)'' [FWord v],
      CHERIOSTEST_VERIFY2 pl (ty = CHERI_OTYPE_SENTRY pl) ''otype %jx (expected %jx)''
        [FWord ty, FWord (CHERI_OTYPE_SENTRY pl)],
      cheriostest_check_cap_eq pl c (extract c) ''c'' ''__builtin_extract_return_addr(c)'',
      cheriostest_success]))"

text \<open>\<^verbatim>\<open>$pcc\<close> includes the program counter, so its offset is cleared before the checks.\<close>

definition initregs_pcc :: "platform \<Rightarrow> cap \<Rightarrow> ('w, unit) prog" where
  "initregs_pcc pl pcc = check_initreg_code pl (cheri_offset_set pl pcc 0)"

text \<open>
  \<^verbatim>\<open>initregs_restricted_default\<close>, \<^verbatim>\<open>_stack\<close> and \<^verbatim>\<open>_thread\<close> (Morello only) have the same body,
  on \<^verbatim>\<open>rddc_el0\<close>, \<^verbatim>\<open>rcsp_el0\<close> and \<^verbatim>\<open>rctpidr_el0\<close>.
\<close>

definition initregs_restricted_default :: "platform \<Rightarrow> cap \<Rightarrow> ('w, unit) prog" where
  "initregs_restricted_default pl rddc =
     block [cheriostest_check_cap_eq pl rddc (cap_null pl) ''c'' ''NULL'', cheriostest_success]"

definition initregs_restricted_stack :: "platform \<Rightarrow> cap \<Rightarrow> ('w, unit) prog" where
  "initregs_restricted_stack pl rcsp =
     block [cheriostest_check_cap_eq pl rcsp (cap_null pl) ''c'' ''NULL'', cheriostest_success]"

definition initregs_restricted_thread :: "platform \<Rightarrow> cap \<Rightarrow> ('w, unit) prog" where
  "initregs_restricted_thread pl rctpidr =
     block [cheriostest_check_cap_eq pl rctpidr (cap_null pl) ''c'' ''NULL'', cheriostest_success]"

section \<open>What the tests accept\<close>

text \<open>
  The kernel's and compiler's headers for Morello: every permission is a non-empty set of bits of
  its own, apart from the software permissions, which are split between the kernel's uses.
\<close>

definition morello_perms :: "platform \<Rightarrow> uintmax list" where
  "morello_perms pl =
     [CHERI_PERM_GLOBAL pl, CHERI_PERM_EXECUTE pl, CHERI_PERM_LOAD pl, CHERI_PERM_STORE pl,
      CHERI_PERM_LOAD_CAP pl, CHERI_PERM_STORE_CAP pl, CHERI_PERM_STORE_LOCAL_CAP pl,
      CHERI_PERM_LOAD_MUTABLE pl, CHERI_PERM_SEAL pl, CHERI_PERM_INVOKE pl, CHERI_PERM_UNSEAL pl,
      CHERI_PERM_SYSTEM_REGS pl, ARM_CAP_PERMISSION_EXECUTIVE pl, CHERITEST_CHERI_PERMS_SWALL pl]"

definition morello_headers :: "platform \<Rightarrow> bool" where
  "morello_headers pl \<longleftrightarrow>
     pl_arch pl = Morello \<and> pairwise_disjoint (morello_perms pl) \<and>
     (case CHERI_PERM_SYSCALL pl of None \<Rightarrow> True
      | Some p \<Rightarrow> p AND NOT (CHERITEST_CHERI_PERMS_SWALL pl) = 0 \<and> p AND CHERI_PERM_SW_VMEM pl = 0)"

text \<open>The hardware permissions of a code capability; the rest of it are software permissions.\<close>

definition code_hw :: "platform \<Rightarrow> uintmax list" where
  "code_hw pl =
     [CHERI_PERM_GLOBAL pl, CHERI_PERM_LOAD pl, CHERI_PERM_LOAD_CAP pl, CHERI_PERM_INVOKE pl,
      CHERI_PERM_EXECUTE pl, ARM_CAP_PERMISSION_EXECUTIVE pl, CHERI_PERM_LOAD_MUTABLE pl]"

definition code_sw :: "platform \<Rightarrow> uintmax" where
  "code_sw pl = CHERITEST_CHERI_PERMS_SW_USERSPACE pl OR CHERITEST_CHERI_PERMS_SW_USERSPACE_CODE pl"

definition sysc_perm :: "platform \<Rightarrow> uintmax" where
  "sysc_perm pl = (case CHERI_PERM_SYSCALL pl of None \<Rightarrow> 0 | Some p \<Rightarrow> p)"

text \<open>What compartmentalisation takes away from a code capability.\<close>

definition c18n_removed :: "platform \<Rightarrow> uintmax" where
  "c18n_removed pl =
     (if pl_c18n pl \<and> pl_abi pl \<noteq> PurecapBenchmark
      then (if is_linux pl then 0 else sysc_perm pl) OR
           (if pl_arch pl = Morello then ARM_CAP_PERMISSION_EXECUTIVE pl else 0)
      else 0)"

lemma userspace_code_split:
  "pl_arch pl = Morello \<Longrightarrow>
   CHERITEST_CHERI_PERMS_USERSPACE_CODE pl = or_list (code_hw pl) OR code_sw pl"
  by (simp add: CHERITEST_CHERI_PERMS_USERSPACE_CODE_def CHERITEST_CHERI_PERMS_USERSPACE_def
      code_hw_def code_sw_def or.assoc or.left_commute)

lemma code_perms_expect_split:
  assumes "pl_arch pl = Morello"
  shows "code_perms_expect pl = (or_list (code_hw pl) OR code_sw pl) AND NOT (c18n_removed pl)"
  using assms
  by (simp add: code_perms_expect_def userspace_code_split c18n_removed_def sysc_perm_def Let_def
      and.assoc split: option.splits)

lemma sw_below:
  assumes "morello_headers pl"
  shows "code_sw pl AND NOT (CHERITEST_CHERI_PERMS_SWALL pl) = 0"
    and "sysc_perm pl AND NOT (CHERITEST_CHERI_PERMS_SWALL pl) = 0"
    and "sysc_perm pl AND CHERI_PERM_SW_VMEM pl = 0"
proof -
  show s: "sysc_perm pl AND NOT (CHERITEST_CHERI_PERMS_SWALL pl) = 0"
    and "sysc_perm pl AND CHERI_PERM_SW_VMEM pl = 0"
    using assms by (auto simp: morello_headers_def sysc_perm_def split: option.splits)
  show "code_sw pl AND NOT (CHERITEST_CHERI_PERMS_SWALL pl) = 0"
    using s by (auto simp: code_sw_def CHERITEST_CHERI_PERMS_SW_USERSPACE_def
        CHERITEST_CHERI_PERMS_SW_USERSPACE_CODE_def sysc_perm_def bit.conj_disj_distrib2
        split: option.splits)
qed

lemma code_hw_disjoint:
  assumes "morello_headers pl"
    and "p \<in> {CHERI_PERM_STORE pl, CHERI_PERM_STORE_CAP pl, CHERI_PERM_STORE_LOCAL_CAP pl,
        CHERI_PERM_SEAL pl, CHERI_PERM_UNSEAL pl, CHERI_PERM_SYSTEM_REGS pl, CHERITEST_CHERI_PERMS_SWALL pl}"
  shows "or_list (code_hw pl) AND p = 0"
  using assms by (intro or_list_absent) (auto simp: morello_headers_def morello_perms_def code_hw_def)

lemma swall_disjoint:
  assumes "morello_headers pl"
    and "p \<in> set (butlast (morello_perms pl))"
  shows "CHERITEST_CHERI_PERMS_SWALL pl AND p = 0"
  using assms by (auto simp: morello_headers_def morello_perms_def and.commute)

text \<open>Every permission a code capability must not have is absent from the header's set \<dots>\<close>

lemma code_expect_absent:
  assumes h: "morello_headers pl"
    and p: "p \<in> {CHERI_PERM_STORE pl, CHERI_PERM_STORE_CAP pl, CHERI_PERM_STORE_LOCAL_CAP pl,
        CHERI_PERM_SEAL pl, CHERI_PERM_UNSEAL pl, CHERI_PERM_SYSTEM_REGS pl}"
  shows "code_perms_expect pl AND p = 0"
proof -
  have a: "pl_arch pl = Morello" using h by (simp add: morello_headers_def)
  have "or_list (code_hw pl) AND p = 0" using code_hw_disjoint [OF h, of p] p by blast
  moreover have "code_sw pl AND p = 0"
  proof (rule sub_absent [OF sw_below(1) [OF h]])
    show "CHERITEST_CHERI_PERMS_SWALL pl AND p = 0"
      using p by (intro swall_disjoint [OF h]) (auto simp: morello_perms_def)
  qed
  ultimately show ?thesis
    by (simp add: code_perms_expect_split [OF a] mask_absent bit.conj_disj_distrib2)
qed

text \<open>\<dots> and every one it must have is there.\<close>

lemma code_expect_present:
  assumes h: "morello_headers pl"
    and p: "p \<in> {CHERI_PERM_GLOBAL pl, CHERI_PERM_EXECUTE pl, CHERI_PERM_LOAD pl,
        CHERI_PERM_LOAD_CAP pl, CHERI_PERM_LOAD_MUTABLE pl, CHERI_PERM_INVOKE pl}"
  shows "code_perms_expect pl AND p \<noteq> 0"
proof -
  have a: "pl_arch pl = Morello" using h by (simp add: morello_headers_def)
  have nz: "p \<noteq> 0" and e: "p AND ARM_CAP_PERMISSION_EXECUTIVE pl = 0"
    using h p by (auto simp: morello_headers_def morello_perms_def and.commute)
  have s: "p AND sysc_perm pl = 0"
  proof -
    have "CHERITEST_CHERI_PERMS_SWALL pl AND p = 0"
      using p by (intro swall_disjoint [OF h]) (auto simp: morello_perms_def)
    from sub_absent [OF sw_below(2) [OF h] this] show ?thesis by (simp add: and.commute)
  qed
  have "p AND c18n_removed pl = 0"
    using e s by (simp add: c18n_removed_def bit.conj_disj_distrib)
  moreover have "p AND NOT (or_list (code_hw pl) OR code_sw pl) = 0"
    using p by (intro or_subset or_list_subset) (auto simp: code_hw_def)
  ultimately show ?thesis
    by (simp add: code_perms_expect_split [OF a] subset_present [OF mask_keeps] nz)
qed

lemma code_expect_sw:
  assumes h: "morello_headers pl" and f: "is_FreeBSD pl"
  shows "code_perms_expect pl AND CHERITEST_CHERI_PERMS_SWALL pl = code_swperms_expect pl"
proof -
  have a: "pl_arch pl = Morello" using h by (simp add: morello_headers_def)
  let ?sw = "CHERITEST_CHERI_PERMS_SWALL pl" and ?vm = "CHERI_PERM_SW_VMEM pl"
  have hw: "or_list (code_hw pl) AND ?sw = 0" using code_hw_disjoint [OF h] by blast
  have e: "ARM_CAP_PERMISSION_EXECUTIVE pl AND ?sw = 0"
    using swall_disjoint [OF h, of "ARM_CAP_PERMISSION_EXECUTIVE pl"]
    by (simp add: morello_perms_def and.commute)
  have sw: "code_sw pl AND ?sw = ?sw AND NOT ?vm"
    using sw_below [OF h]
    by (cases "CHERI_PERM_SYSCALL pl")
      (auto simp: code_sw_def sysc_perm_def CHERITEST_CHERI_PERMS_SW_USERSPACE_def
        CHERITEST_CHERI_PERMS_SW_USERSPACE_CODE_def bit_eq_iff bit_simps)
  have "code_perms_expect pl AND ?sw = (?sw AND NOT ?vm) AND NOT (c18n_removed pl)"
    unfolding code_perms_expect_split [OF a] mask_inter [OF hw] sw ..
  also have "\<dots> = code_swperms_expect pl"
    using e f a by (auto simp: c18n_removed_def code_swperms_expect_def sysc_perm_def Let_def is_FreeBSD_def
        is_linux_def bit_eq_iff bit_simps split: option.splits)
  finally show ?thesis .
qed

text \<open>The specification of \<^verbatim>\<open>check_initreg_code\<close>: bounds, offset, seal, tag and permissions.\<close>

definition code_bounds_ok :: "platform \<Rightarrow> cap \<Rightarrow> bool" where
  "code_bounds_ok pl c \<longleftrightarrow>
     (if is_purecap pl \<and> pl_abi pl \<noteq> PurecapBenchmark
      then cap_base c \<noteq> 0 \<and>
           cheri_length_get c < cheri_representable_length pl (cap_addr c + 0x1000000)
      else cap_base c = CHERI_CAP_USER_CODE_BASE pl \<and>
           cheri_length_get c = CHERI_CAP_USER_CODE_LENGTH pl)"

lemma perm_missing_passes [passes_simps]:
  "declares_success (bindP (perm_missing pl v p n) f) s \<longleftrightarrow> v AND p \<noteq> 0 \<and> declares_success (f ()) s"
  by (simp add: perm_missing_def passes_simps)

lemma perm_present_passes [passes_simps]:
  "declares_success (bindP (perm_present pl v p n) f) s \<longleftrightarrow> v AND p = 0 \<and> declares_success (f ()) s"
  by (simp add: perm_present_def passes_simps)

text \<open>The last permission check subsumes the others, which the header's set satisfies.\<close>

lemma check_initreg_code_perms_passes:
  assumes h: "morello_headers pl" and f: "is_FreeBSD pl"
  shows "declares_success (block (check_initreg_code_perms pl v @ ps)) s \<longleftrightarrow>
    v = code_perms_expect pl \<and> declares_success (block ps) s"
proof (cases "v = code_perms_expect pl")
  case True
  have a: "pl_arch pl = Morello" using h by (simp add: morello_headers_def)
  show ?thesis
    using f code_expect_absent [OF h] code_expect_present [OF h] code_expect_sw [OF h f]
    by (simp add: check_initreg_code_perms_def True passes_simps feature_defs a)
next
  case False
  then show ?thesis
    by (auto simp: check_initreg_code_perms_def passes_simps only_if_def)
qed


section \<open>Data capabilities\<close>

definition data_hw :: "platform \<Rightarrow> uintmax list" where
  "data_hw pl =
     [CHERI_PERM_GLOBAL pl, CHERI_PERM_LOAD pl, CHERI_PERM_LOAD_CAP pl, CHERI_PERM_INVOKE pl,
      CHERI_PERM_STORE pl, CHERI_PERM_STORE_CAP pl, CHERI_PERM_STORE_LOCAL_CAP pl,
      CHERI_PERM_LOAD_MUTABLE pl]"

lemma user_data_split:
  "pl_arch pl = Morello \<Longrightarrow>
   CHERITEST_CHERI_CAP_USER_DATA_PERMS pl = or_list (data_hw pl) OR CHERITEST_CHERI_PERMS_SW_USERSPACE pl"
  by (simp add: CHERITEST_CHERI_CAP_USER_DATA_PERMS_def CHERITEST_CHERI_PERMS_USERSPACE_def
      data_hw_def or.assoc or.left_commute or.commute)

lemma data_absent:
  assumes h: "morello_headers pl"
    and p: "p \<in> {CHERI_PERM_EXECUTE pl, CHERI_PERM_SEAL pl, CHERI_PERM_UNSEAL pl, CHERI_PERM_SYSTEM_REGS pl}"
  shows "CHERITEST_CHERI_CAP_USER_DATA_PERMS pl AND p = 0"
proof -
  have a: "pl_arch pl = Morello" using h by (simp add: morello_headers_def)
  have "or_list (data_hw pl) AND p = 0"
    using h p by (intro or_list_absent) (auto simp: morello_headers_def morello_perms_def data_hw_def)
  moreover have "CHERITEST_CHERI_PERMS_SW_USERSPACE pl AND p = 0"
  proof (rule sub_absent)
    show "CHERITEST_CHERI_PERMS_SW_USERSPACE pl AND NOT (CHERITEST_CHERI_PERMS_SWALL pl) = 0"
      by (simp add: CHERITEST_CHERI_PERMS_SW_USERSPACE_def split: option.splits)
    show "CHERITEST_CHERI_PERMS_SWALL pl AND p = 0"
      using p by (intro swall_disjoint [OF h]) (auto simp: morello_perms_def)
  qed
  ultimately show ?thesis by (simp add: user_data_split [OF a] bit.conj_disj_distrib2)
qed

lemma data_present:
  assumes h: "morello_headers pl" and p: "p \<in> set (data_hw pl)"
  shows "CHERITEST_CHERI_CAP_USER_DATA_PERMS pl AND p \<noteq> 0"
proof -
  have a: "pl_arch pl = Morello" using h by (simp add: morello_headers_def)
  have "p \<noteq> 0" using h p by (auto simp: morello_headers_def morello_perms_def data_hw_def)
  moreover have "p AND NOT (CHERITEST_CHERI_CAP_USER_DATA_PERMS pl) = 0"
    unfolding user_data_split [OF a] using p by (intro or_subset or_list_subset)
  ultimately show ?thesis by (rule subset_present [rotated])
qed

section \<open>Properties\<close>


definition pcc_example :: cap where
  "pcc_example = \<lparr>cap_tag = True, cap_addr = 0x100000, cap_base = 0x100000, cap_len = 0x40000,
     cap_perms = 0x2C177, cap_otype = 0, cap_flags = 0\<rparr>"

lemma morello_purecap_headers: "morello_headers morello_purecap"
  by (simp add: morello_headers_def morello_perms_def morello_purecap_def permset_defs)

lemma morello_purecap_FreeBSD: "is_FreeBSD morello_purecap"
  by (simp add: morello_purecap_def is_FreeBSD_def)

lemma morello_code_perms: "code_perms_expect morello_purecap = 0x2C177"
  by (simp add: code_perms_expect_def morello_purecap_def permset_defs)


text \<open>
  The test of the stack capability declares success exactly for a tagged, unsealed capability
  that is not the whole data space, no longer than the stack limit, used less than 256 KiB from
  its top, with exactly the header's data permissions (so never executable).
\<close>

theorem initregs_stack_iff:
  assumes h: "morello_headers pl" and f: "is_FreeBSD pl" and s: "p_ccsp s \<noteq> None"
  shows "declares_success (initregs_stack pl re c) s \<longleftrightarrow>
     cap_base c \<noteq> re_user_data_base re \<and> cheri_length_get c \<le> re_maxssiz re \<and>
     cheri_length_get c - cheri_offset_get c \<le> CHERI_STACK_USE_MAX \<and>
     cap_otype c = CHERI_OTYPE_UNSEALED pl \<and> cap_tag c \<and>
     cap_perms c = CHERITEST_CHERI_CAP_USER_DATA_PERMS pl"
proof -
  have a: "pl_arch pl = Morello" and l: "\<not> is_linux pl"
    using h f by (auto simp: morello_headers_def is_FreeBSD_def is_linux_def)
  note unfolds = initregs_stack_def CHERI_CAP_USER_DATA_BASE_def MAXSSIZ_def l Let_def a
    passes_simps feature_defs cap_simps not_less
  show ?thesis
  proof (cases "cap_perms c = CHERITEST_CHERI_CAP_USER_DATA_PERMS pl")
    case True
    show ?thesis
      using s data_absent [OF h] data_present [OF h, unfolded data_hw_def]
      by (simp add: unfolds True)
  next
    case False
    then show ?thesis by (simp add: unfolds)
  qed
qed

definition stack_example :: cap where
  "stack_example = \<lparr>cap_tag = True, cap_addr = 0x7FFFF000, cap_base = 0x40000000, cap_len = 0x40000000,
     cap_perms = 0x37171, cap_otype = 0, cap_flags = 0\<rparr>"

definition reg_env_example :: reg_env where
  "reg_env_example = \<lparr>re_mmap_min_addr = None, re_stack_rlim_max = None, re_user_data_base = 0,
     re_maxssiz = 0x40000000\<rparr>"

theorem initregs_stack_iff_witness:
  "declares_success (initregs_stack morello_purecap reg_env_example stack_example)
     (fresh_process morello_purecap ())"
  using initregs_stack_iff [OF morello_purecap_headers morello_purecap_FreeBSD,
      of "fresh_process morello_purecap ()" reg_env_example stack_example]
  by (simp add: stack_example_def reg_env_example_def cheri_length_get_def cheri_offset_get_def
      CHERI_STACK_USE_MAX_def)
    (simp add: morello_purecap_def permset_defs)

text \<open>
  No capability passes \<^verbatim>\<open>check_initreg_code\<close> on Morello Linux unless the kernel's own software
  permission covers all four of them: the software permissions are first required to be absent
  and then required to be those of \<^verbatim>\<open>CHERITEST_CHERI_PERMS_USERSPACE_CODE\<close>.
\<close>

theorem check_initreg_code_morello_linux:
  assumes "pl_arch pl = Morello" and "is_linux pl"
    and "ARM_CAP_PERMISSION_EXECUTIVE pl AND CHERITEST_CHERI_PERMS_SWALL pl = 0"
    and "CHERITEST_CHERI_PERMS_SW_USERSPACE pl \<noteq> 0"
  shows "\<not> declares_success (check_initreg_code pl c) s"
proof
  let ?sw = "CHERITEST_CHERI_PERMS_SWALL pl" and ?us = "CHERITEST_CHERI_PERMS_SW_USERSPACE pl"
  assume "declares_success (check_initreg_code pl c) s"
  then have e: "cap_perms c = code_perms_expect pl" and z: "cap_perms c AND ?sw = 0"
    using assms(2)
    by (auto simp: check_initreg_code_def check_initreg_code_bounds_def check_initreg_code_perms_def
        passes_simps Let_def only_if_def cap_simps code_swperms_expect_def is_linux_def is_FreeBSD_def
        split: if_splits)
  have us: "?us AND NOT ?sw = 0"
    by (simp add: CHERITEST_CHERI_PERMS_SW_USERSPACE_def split: option.splits)
  have "?us AND c18n_removed pl = 0"
    using sub_absent [OF us, of "ARM_CAP_PERMISSION_EXECUTIVE pl"] assms(2,3)
    by (simp add: c18n_removed_def and.commute)
  moreover have "?us AND NOT (or_list (code_hw pl) OR code_sw pl) = 0"
    by (auto simp: code_sw_def bit_eq_iff bit_simps)
  ultimately have "?us AND NOT (code_perms_expect pl) = 0"
    unfolding code_perms_expect_split [OF assms(1)] by (rule mask_keeps [rotated])
  then have "?us AND NOT (cap_perms c) = 0" by (simp add: e)
  moreover have "cap_perms c AND ?us = 0"
    using sub_absent [OF us, of "cap_perms c"] z by (simp add: and.commute)
  ultimately show False using assms(4) by (metis and.commute subset_present)
qed

theorem check_initreg_code_morello_linux_witness:
  "\<not> declares_success (check_initreg_code morello_linux pcc_example) (fresh_process morello_linux ())"
  by (rule check_initreg_code_morello_linux)
    (simp_all add: morello_linux_def morello_purecap_def is_linux_def permset_defs)

text \<open>
  In pure-capability code \<^verbatim>\<open>initregs_default\<close> compares \<^verbatim>\<open>$ddc\<close> with \<^verbatim>\<open>NULL\<close> by \<^verbatim>\<open>==\<close>, which looks
  at the address only: a tagged default capability with every permission over the whole address
  space is accepted as \<^verbatim>\<open>NULL\<close>.
\<close>

theorem initregs_default_accepts_root:
  assumes "is_purecap pl" and "p_ccsp s \<noteq> None"
  shows "declares_success (initregs_default pl re
           \<lparr>cap_tag = True, cap_addr = 0, cap_base = 0, cap_len = 2 ^ 64, cap_perms = - 1,
            cap_otype = CHERI_OTYPE_UNSEALED pl, cap_flags = 0\<rparr>) s"
  using assms by (simp add: initregs_default_def ptr_eq_def cap_null_def passes_simps)

theorem initregs_default_accepts_root_witness:
  "declares_success (initregs_default morello_purecap reg_env_example
      \<lparr>cap_tag = True, cap_addr = 0, cap_base = 0, cap_len = 2 ^ 64, cap_perms = - 1,
       cap_otype = 0, cap_flags = 0\<rparr>) (fresh_process morello_purecap ())"
  using initregs_default_accepts_root [of morello_purecap "fresh_process morello_purecap ()" reg_env_example]
  by (simp add: is_purecap_def morello_purecap_def)

end
