(* ===== verification/Sealcap.thy ===== *)
theory Sealcap
  imports Registers
begin

text \<open>
  \<^verbatim>\<open>cheriostest_sealcap.c\<close>: the tests of the userspace sealing capability. What the kernel hands
  out (the sysctl on FreeBSD, the auxiliary vector on Linux) is the argument \<open>kernel_sealcap\<close>;
  the sysctl may fail.
\<close>

section \<open>The tests\<close>

text \<open>\<open>None\<close>: the sysctl fails. On Linux the pointer is moved to the first user object type.\<close>

definition get_sealcap :: "platform \<Rightarrow> cap option \<Rightarrow> ('w, cap) prog" where
  "get_sealcap pl kernel_sealcap =
     (if is_FreeBSD pl
      then (case kernel_sealcap of
              None \<Rightarrow> cheriostest_failure_err pl
                ''Call 'sysctlbyname(\"security.cheri.sealcap\", &sealcap, &sealcap_size, NULL, 0)' failed'' []
            | Some c \<Rightarrow> ret c)
      else (let sealcap = cheri_offset_increment pl
                  (case kernel_sealcap of None \<Rightarrow> cap_null pl | Some c \<Rightarrow> c)
                  (CHERITEST_CHERI_OTYPE_USER_MIN pl)
            in if \<not> cheri_tag_get sealcap then cheriostest_failure_err pl ''getauxptr failed'' []
               else ret sealcap))"

definition sealcap_sysctl :: "platform \<Rightarrow> cap option \<Rightarrow> ('w, unit) prog" where
  "sealcap_sysctl pl kernel_sealcap = bindP (get_sealcap pl kernel_sealcap) (\<lambda>sealcap.
     (let v = cheri_perms_get sealcap in block (
     [fail_if pl (cheri_base_get sealcap \<noteq> CHERITEST_CHERI_OTYPE_USER_MIN pl) ''base %jx (expected %jx)''
        [FWord (cheri_base_get sealcap), FWord (CHERITEST_CHERI_OTYPE_USER_MIN pl)],
      fail_if pl (cheri_length_get sealcap \<noteq> CHERITEST_CHERI_SEALCAP_USERSPACE_LENGTH pl)
        ''length 0x%jx (expected 0x%jx)''
        [FWord (cheri_length_get sealcap), FWord (CHERITEST_CHERI_SEALCAP_USERSPACE_LENGTH pl)],
      fail_if pl (cheri_offset_get sealcap \<noteq> 0) ''offset %jx (expected %jx)''
        [FWord (cheri_offset_get sealcap), FWord 0],
      fail_if pl (cheri_type_get sealcap \<noteq> CHERI_OTYPE_UNSEALED pl) ''otype %jx (expected %jx)''
        [FWord (cheri_type_get sealcap), FWord (CHERI_OTYPE_UNSEALED pl)],
      fail_if pl (v \<noteq> CHERITEST_CHERI_SEALCAP_USERSPACE_PERMS pl) ''perms %jx (expected %jx)''
        [FWord v, FWord (CHERITEST_CHERI_SEALCAP_USERSPACE_PERMS pl)],
      perm_missing pl v (CHERI_PERM_GLOBAL pl) ''global'',
      perm_present pl v (CHERI_PERM_EXECUTE pl) ''execute'',
      perm_present pl v (CHERI_PERM_LOAD pl) ''load'',
      perm_present pl v (CHERI_PERM_STORE pl) ''store''] @
     only_if (HAS_CHERI_PERM_LOAD_STORE_CAP pl)
      [perm_present pl v (CHERI_PERM_LOAD_CAP pl) ''loadcap'',
       perm_present pl v (CHERI_PERM_STORE_CAP pl) ''storecap''] @
     only_if (HAS_CHERI_PERM_CAP pl) [perm_present pl v (CHERI_PERM_CAP pl) ''cap permission''] @
     [perm_present pl v (CHERI_PERM_STORE_LOCAL_CAP pl) ''store_local_cap'',
      perm_missing pl v (CHERI_PERM_SEAL pl) ''seal'',
      perm_present pl v (CHERI_PERM_INVOKE pl) ''invoke'',
      perm_missing pl v (CHERI_PERM_UNSEAL pl) ''unseal'',
      perm_present pl v (CHERI_PERM_SYSTEM_REGS pl) ''system_regs''] @
     only_if (HAS_CHERI_PERM_EXECUTIVE pl)
      [perm_present pl v (ARM_CAP_PERMISSION_EXECUTIVE pl) ''executive''] @
     only_if (HAS_CHERI_PERM_LOAD_MUTABLE pl)
      [perm_present pl v (CHERI_PERM_LOAD_MUTABLE pl) ''mutable_load''] @
     [perm_present pl v (CHERITEST_CHERI_PERMS_SWALL pl) ''swperms'',
      fail_if pl (cheri_is_sealed pl sealcap) ''sealed %jx (expected 0)'' [FBool (cheri_is_sealed pl sealcap)],
      fail_if pl (\<not> cheri_tag_get sealcap) ''tag %jx (expected 1)'' [FBool (cheri_tag_get sealcap)],
      cheriostest_success_with_warn
        ''The design of the API for getting sealer capabilities is insecure''])))"

definition sealcap_seal :: "platform \<Rightarrow> cap option \<Rightarrow> cap \<Rightarrow> ('w, unit) prog" where
  "sealcap_seal pl kernel_sealcap sealdatap = bindP (get_sealcap pl kernel_sealcap) (\<lambda>sealcap.
     (let sealed = cheri_seal pl sealdatap sealcap in block [
      fail_if pl (cheri_base_get sealed \<noteq> cheri_base_get sealdatap) ''base %jx (expected %jx)''
        [FWord (cheri_base_get sealed), FWord (cheri_base_get sealdatap)],
      fail_if pl (cheri_length_get sealed \<noteq> cheri_length_get sealdatap) ''length 0x%jx (expected 0x%jx)''
        [FWord (cheri_length_get sealed), FWord (cheri_length_get sealdatap)],
      fail_if pl (cheri_offset_get sealed \<noteq> cheri_offset_get sealdatap) ''offset %jx (expected %jx)''
        [FWord (cheri_offset_get sealed), FWord (cheri_offset_get sealdatap)],
      fail_if pl (cheri_type_get sealed \<noteq> cheri_address_get sealcap) ''otype %jx (expected %jx)''
        [FWord (cheri_type_get sealed), FWord (cheri_address_get sealcap)],
      fail_if pl (\<not> cheri_is_sealed pl sealed) ''sealed %jx (expected 0)'' [FBool (cheri_is_sealed pl sealed)],
      fail_if pl (\<not> cheri_tag_get sealed) ''tag %jx (expected 1)'' [FBool (cheri_tag_get sealed)],
      fail_if pl (cheri_perms_get sealed \<noteq> cheri_perms_get sealdatap) ''perms %jx (expected %jx)''
        [FWord (cheri_perms_get sealed), FWord (cheri_perms_get sealdatap)],
      cheriostest_success]))"

definition sealcap_seal_unseal :: "platform \<Rightarrow> cap option \<Rightarrow> cap \<Rightarrow> ('w, unit) prog" where
  "sealcap_seal_unseal pl kernel_sealcap sealdatap = bindP (get_sealcap pl kernel_sealcap) (\<lambda>sealcap.
     (let sealed = cheri_seal pl sealdatap sealcap; unsealed = cheri_unseal pl sealed sealcap in block [
      fail_if pl (cheri_base_get unsealed \<noteq> cheri_base_get sealdatap) ''base %jx (expected %jx)''
        [FWord (cheri_base_get unsealed), FWord (cheri_base_get sealdatap)],
      fail_if pl (cheri_length_get unsealed \<noteq> cheri_length_get sealdatap) ''length 0x%jx (expected 0x%jx)''
        [FWord (cheri_length_get unsealed), FWord (cheri_length_get sealdatap)],
      fail_if pl (cheri_offset_get unsealed \<noteq> cheri_offset_get sealdatap) ''offset %jx (expected %jx)''
        [FWord (cheri_offset_get unsealed), FWord (cheri_offset_get sealdatap)],
      fail_if pl (cheri_type_get unsealed \<noteq> CHERI_OTYPE_UNSEALED pl) ''otype %jx (expected %jx)''
        [FWord (cheri_type_get unsealed), FWord (CHERI_OTYPE_UNSEALED pl)],
      fail_if pl (cheri_is_sealed pl unsealed) ''sealed %jx (expected 0)'' [FBool (cheri_is_sealed pl unsealed)],
      fail_if pl (\<not> cheri_tag_get unsealed) ''tag %jx (expected 1)'' [FBool (cheri_tag_get unsealed)],
      fail_if pl (cheri_perms_get unsealed \<noteq> cheri_perms_get sealdatap) ''perms %jx (expected %jx)''
        [FWord (cheri_perms_get unsealed), FWord (cheri_perms_get sealdatap)],
      cheriostest_success]))"

section \<open>What the kernel must hand out\<close>

text \<open>The documented userspace sealing capability.\<close>

definition is_user_sealcap :: "platform \<Rightarrow> cap \<Rightarrow> bool" where
  "is_user_sealcap pl k \<longleftrightarrow>
     cap_tag k \<and> cap_otype k = CHERI_OTYPE_UNSEALED pl \<and>
     cap_base k = CHERITEST_CHERI_OTYPE_USER_MIN pl \<and> cap_addr k = cap_base k \<and>
     cheri_length_get k = CHERITEST_CHERI_SEALCAP_USERSPACE_LENGTH pl \<and>
     cap_perms k = CHERITEST_CHERI_SEALCAP_USERSPACE_PERMS pl"

lemma get_sealcap_FreeBSD: "is_FreeBSD pl \<Longrightarrow> get_sealcap pl (Some k) = ret k"
  by (simp add: get_sealcap_def)

text \<open>The overt permission checks of \<^verbatim>\<open>sealcap_sysctl\<close> follow from the exact one.\<close>

definition sealcap_hw :: "platform \<Rightarrow> uintmax list" where
  "sealcap_hw pl = [CHERI_PERM_GLOBAL pl, CHERI_PERM_SEAL pl, CHERI_PERM_UNSEAL pl]"

lemma sealcap_perms_or_list:
  "morello_headers pl \<Longrightarrow> CHERITEST_CHERI_SEALCAP_USERSPACE_PERMS pl = or_list (sealcap_hw pl)"
  by (simp add: CHERITEST_CHERI_SEALCAP_USERSPACE_PERMS_def morello_headers_def sealcap_hw_def)

lemma sealcap_present:
  assumes h: "morello_headers pl" and p: "p \<in> {CHERI_PERM_GLOBAL pl, CHERI_PERM_SEAL pl, CHERI_PERM_UNSEAL pl}"
  shows "CHERITEST_CHERI_SEALCAP_USERSPACE_PERMS pl AND p \<noteq> 0"
proof -
  have "p \<noteq> 0" using h p by (auto simp: morello_headers_def morello_perms_def)
  moreover have "p AND NOT (or_list (sealcap_hw pl)) = 0"
    using p by (intro or_list_subset) (auto simp: sealcap_hw_def)
  ultimately show ?thesis unfolding sealcap_perms_or_list [OF h] by (rule subset_present [rotated])
qed

lemma sealcap_absent:
  assumes h: "morello_headers pl"
    and p: "p \<in> {CHERI_PERM_EXECUTE pl, CHERI_PERM_LOAD pl, CHERI_PERM_STORE pl, CHERI_PERM_LOAD_CAP pl,
      CHERI_PERM_STORE_CAP pl, CHERI_PERM_STORE_LOCAL_CAP pl, CHERI_PERM_INVOKE pl, CHERI_PERM_SYSTEM_REGS pl,
      ARM_CAP_PERMISSION_EXECUTIVE pl, CHERI_PERM_LOAD_MUTABLE pl, CHERITEST_CHERI_PERMS_SWALL pl}"
  shows "CHERITEST_CHERI_SEALCAP_USERSPACE_PERMS pl AND p = 0"
  unfolding sealcap_perms_or_list [OF h]
  using h p by (intro or_list_absent) (auto simp: morello_headers_def morello_perms_def sealcap_hw_def)

text \<open>
  On a FreeBSD-based Morello system \<^verbatim>\<open>sealcap_sysctl\<close> declares success exactly when the kernel
  hands out the documented sealing capability.
\<close>

theorem sealcap_sysctl_iff:
  assumes h: "morello_headers pl" and f: "is_FreeBSD pl" and s: "p_ccsp s \<noteq> None"
  shows "declares_success (sealcap_sysctl pl (Some k)) s \<longleftrightarrow> is_user_sealcap pl k"
proof -
  have a: "pl_arch pl = Morello" using h by (simp add: morello_headers_def)
  note unfolds = sealcap_sysctl_def get_sealcap_FreeBSD [OF f] Let_def a
    passes_simps feature_defs cap_simps is_user_sealcap_def
  show ?thesis
  proof (cases "cap_perms k = CHERITEST_CHERI_SEALCAP_USERSPACE_PERMS pl")
    case True
    show ?thesis
      using s by (auto simp: unfolds True sealcap_present [OF h] sealcap_absent [OF h])
  next
    case False
    then show ?thesis by (simp add: unfolds)
  qed
qed

definition sealcap_example :: cap where
  "sealcap_example = \<lparr>cap_tag = True, cap_addr = 4, cap_base = 4, cap_len = 8188, cap_perms = 0xC01,
     cap_otype = 0, cap_flags = 0\<rparr>"

lemma sealcap_example_ok: "is_user_sealcap morello_purecap sealcap_example"
  by (simp add: is_user_sealcap_def sealcap_example_def morello_purecap_def permset_defs cheri_length_get_def)

theorem sealcap_sysctl_iff_witness:
  "declares_success (sealcap_sysctl morello_purecap (Some sealcap_example)) (fresh_process morello_purecap ())"
  using sealcap_sysctl_iff [OF morello_purecap_headers morello_purecap_FreeBSD,
      of "fresh_process morello_purecap ()" sealcap_example] sealcap_example_ok
  by simp

text \<open>
  With the documented sealing capability, \<^verbatim>\<open>sealcap_seal\<close> and \<^verbatim>\<open>sealcap_seal_unseal\<close> declare
  success for every tagged, unsealed capability: sealing keeps bounds, offset and permissions and
  sets the object type, and unsealing gives the capability back. The first object type has to be
  a valid one and different from the unsealed one.
\<close>

theorem sealcap_seal_tests_pass:
  assumes h: "morello_headers pl" and f: "is_FreeBSD pl" and s: "p_ccsp s \<noteq> None"
    and k: "is_user_sealcap pl k" and l: "0 < cap_len k"
    and o: "arch_valid_otype pl (CHERITEST_CHERI_OTYPE_USER_MIN pl)"
      "CHERITEST_CHERI_OTYPE_USER_MIN pl \<noteq> CHERI_OTYPE_UNSEALED pl"
    and c: "cap_tag c" "cap_otype c = CHERI_OTYPE_UNSEALED pl"
  shows "declares_success (sealcap_seal pl (Some k) c) s \<and>
         declares_success (sealcap_seal_unseal pl (Some k) c) s"
proof -
  have m: "may_seal pl c k" and u: "cap_perms k AND CHERI_PERM_UNSEAL pl \<noteq> 0"
    and g: "cap_perms k AND CHERI_PERM_GLOBAL pl \<noteq> 0"
    and a: "cap_addr k \<noteq> CHERI_OTYPE_UNSEALED pl"
    using k l o c sealcap_present [OF h]
    by (auto simp: may_seal_def is_user_sealcap_def cap_simps access_in_bounds_def cap_top_def)
  have "declares_success (sealcap_seal pl (Some k) c) s"
    using m a s by (simp add: sealcap_seal_def get_sealcap_FreeBSD [OF f] passes_simps Let_def
        cheri_seal_def cap_simps cheri_length_get_def)
  moreover have "declares_success (sealcap_seal_unseal pl (Some k) c) s"
    using c s by (simp add: sealcap_seal_unseal_def get_sealcap_FreeBSD [OF f] passes_simps Let_def
        cheri_unseal_seal [OF m a u g] cap_simps)
  ultimately show ?thesis ..
qed

theorem sealcap_seal_tests_pass_witness:
  "declares_success (sealcap_seal morello_purecap (Some sealcap_example) stack_example)
     (fresh_process morello_purecap ()) \<and>
   declares_success (sealcap_seal_unseal morello_purecap (Some sealcap_example) stack_example)
     (fresh_process morello_purecap ())"
  by (rule sealcap_seal_tests_pass [OF morello_purecap_headers morello_purecap_FreeBSD _ sealcap_example_ok])
    (simp_all add: sealcap_example_def stack_example_def morello_purecap_def permset_defs)

text \<open>
  A sealing authority without the seal permission, or out of its bounds, is noticed:
  \<^verbatim>\<open>sealcap_seal\<close> then never declares success, whatever the capability to be sealed.
\<close>

theorem sealcap_seal_detects:
  assumes f: "is_FreeBSD pl"
    and k: "cap_perms k AND CHERI_PERM_SEAL pl = 0 \<or> \<not> access_in_bounds k 1 \<or> \<not> cap_tag k"
    and s: "p_ccsp s \<noteq> None"
  shows "\<not> declares_success (sealcap_seal pl (Some k) c) s \<and>
         declares_failure (sealcap_seal pl (Some k) c) s"
proof -
  have "\<not> may_seal pl c k" using k by (auto simp: may_seal_def)
  then show ?thesis
    using s by (simp add: sealcap_seal_def get_sealcap_FreeBSD [OF f] Let_def prog_simps passes_simps
        cheri_seal_def cap_simps cheri_length_get_def)
qed

theorem sealcap_seal_detects_witness:
  "declares_failure (sealcap_seal morello_purecap (Some stack_example) stack_example)
     (fresh_process morello_purecap ())"
proof -
  have "cap_perms stack_example AND CHERI_PERM_SEAL morello_purecap = 0"
    by (simp add: stack_example_def morello_purecap_def)
  with sealcap_seal_detects [OF morello_purecap_FreeBSD, of stack_example
      "fresh_process morello_purecap ()" stack_example]
  show ?thesis by simp
qed

end
