(* ===== verification/Runner.thy ===== *)
theory Runner
  imports Checks Instances
begin

text \<open>
  The controller's side of one test, \<^verbatim>\<open>cheriostest_run_test\<close> of \<^verbatim>\<open>cheriostest.c\<close>: it forks a child
  that installs the signal handlers and runs the test, waits for it, and turns the exit status,
  the shared page and the captured output into a verdict, with the counters, the lists of names
  and the libxo output that go with it.

  The system calls are the fields of the record \<open>os\<close> over an abstract world \<open>'w\<close>; the child is
  run on the process model of \<^verbatim>\<open>Process\<close>. Waiting for and attaching a debugger (\<^verbatim>\<open>-d\<close>), flushing
  stdio and closing descriptors have no effect on the verdict and are not represented.
\<close>

section \<open>Tests, options and the operating system\<close>

definition CT_FLAG_SIGNAL :: "32 word" where "CT_FLAG_SIGNAL = 0x00000001"
definition CT_FLAG_SI_TRAPNO :: "32 word" where "CT_FLAG_SI_TRAPNO = 0x00000002"
definition CT_FLAG_STDOUT_STRING :: "32 word" where "CT_FLAG_STDOUT_STRING = 0x00000008"
definition CT_FLAG_STDIN_STRING :: "32 word" where "CT_FLAG_STDIN_STRING = 0x00000010"
definition CT_FLAG_STDOUT_IGNORE :: "32 word" where "CT_FLAG_STDOUT_IGNORE = 0x00000020"
definition CT_FLAG_SLOW :: "32 word" where "CT_FLAG_SLOW = 0x00000040"
definition CT_FLAG_SI_CODE :: "32 word" where "CT_FLAG_SI_CODE = 0x00000200"
definition CT_FLAG_SIGEXIT :: "32 word" where "CT_FLAG_SIGEXIT = 0x00000400"
definition CT_FLAG_SI_ADDR :: "32 word" where "CT_FLAG_SI_ADDR = 0x00000800"

lemmas ct_flag_defs =
  CT_FLAG_SIGNAL_def CT_FLAG_SI_TRAPNO_def CT_FLAG_STDOUT_STRING_def CT_FLAG_STDIN_STRING_def
  CT_FLAG_STDOUT_IGNORE_def CT_FLAG_SLOW_def CT_FLAG_SI_CODE_def CT_FLAG_SIGEXIT_def
  CT_FLAG_SI_ADDR_def

text \<open>
  \<^verbatim>\<open>struct cheri_test\<close>. The skip predicate gets the test, of which it uses the name only, and may
  ask the system.
\<close>

record 'w cheri_test =
  ct_name :: string
  ct_desc :: string
  ct_func :: "('w, unit) prog"
  ct_child_func :: "('w, unit) prog option"
  ct_check_skip :: "(string \<Rightarrow> 'w \<Rightarrow> string option) option"
  ct_check_xfail :: "(string \<Rightarrow> string option) option"
  ct_flags :: "32 word"
  ct_signum :: int
  ct_si_code :: int
  ct_si_trapno :: int
  ct_stdin_string :: string
  ct_stdout_string :: string
  ct_xfail_reason :: "string option"
  ct_flaky_reason :: "string option"

definition has_flag :: "'w cheri_test \<Rightarrow> 32 word \<Rightarrow> bool" where
  "has_flag ct f \<longleftrightarrow> ct_flags ct AND f \<noteq> 0"

text \<open>The option variables of \<^verbatim>\<open>cheriostest.c\<close>; \<open>o_xml\<close> is libxo's style.\<close>

record opts =
  is_execed_child :: bool
  execed_child_has_extra_argv :: bool
  o_list :: bool
  run_all :: bool
  fast_tests_only :: bool
  qtrace :: bool
  qtrace_user_mode_only :: bool
  sleep_after_test :: bool
  coredump_enabled :: bool
  debugger_enabled :: bool
  verbose :: nat
  o_glob :: bool
  o_xml :: bool

text \<open>What the controller asks the system and the C library.\<close>

record 'w os =
  os_pipe :: "'w \<Rightarrow> bool \<times> 'w" \<comment> \<open>whether \<^verbatim>\<open>pipe\<close> succeeds\<close>
  os_write :: "string \<Rightarrow> 'w \<Rightarrow> int \<times> 'w" \<comment> \<open>\<^verbatim>\<open>write\<close> to the test's stdin\<close>
  os_read :: "nat \<Rightarrow> string \<Rightarrow> 'w \<Rightarrow> string option \<times> 'w" \<comment> \<open>\<^verbatim>\<open>read\<close> of what the test wrote\<close>
  os_errno :: "'w \<Rightarrow> int"
  os_fork :: "'w \<Rightarrow> int \<times> 'w"
  os_join :: "'w \<Rightarrow> 'w \<Rightarrow> 'w" \<comment> \<open>what the parent sees of the child's effects\<close>
  os_sigaction_ok :: "int \<Rightarrow> 'w \<Rightarrow> bool"
  os_dup2_ok :: "int \<Rightarrow> 'w \<Rightarrow> bool"
  os_set_nonblock_ok :: "'w \<Rightarrow> bool"
  os_set_qtrace_ok :: "'w \<Rightarrow> bool"
  os_strnvis :: "nat \<Rightarrow> string \<Rightarrow> string"
  sig_ALRM :: int
  sig_PROT :: int
  sig_SEGV :: int
  sig_BUS :: int
  sig_EMT :: int
  sig_TRAP :: int

section \<open>The child\<close>

text \<open>\<^verbatim>\<open>signal_handler\<close>: record the signal in the shared page (and \<^verbatim>\<open>_exit(EX_SOFTWARE)\<close>).\<close>

definition signal_handler :: "platform \<Rightarrow> siginfo \<Rightarrow> child_state \<Rightarrow> child_state" where
  "signal_handler pl info c =
     (let c1 = c\<lparr>ccs_signum := si_signo info, ccs_si_code := si_code info\<rparr>;
          c2 = (if is_FreeBSD pl then c1\<lparr>ccs_si_trapno := si_trapno info\<rparr> else c1)
      in if is_purecap pl
         then c2\<lparr>ccs_si_addr_tag := cheri_tag_get (si_addr info),
                 ccs_si_addr := cheri_tag_clear (si_addr info)\<rparr>
         else c2\<lparr>ccs_si_addr_tag := False, ccs_si_addr := si_addr info\<rparr>)"

text \<open>\<^verbatim>\<open>signal_handler_clear\<close>: back to the default disposition.\<close>

definition signal_handler_clear :: "platform \<Rightarrow> 'w os \<Rightarrow> int \<Rightarrow> ('w, unit) prog" where
  "signal_handler_clear pl os sig = (\<lambda>s.
     if os_sigaction_ok os sig (p_world s)
     then (Return (), s\<lparr>p_sigaction := (p_sigaction s)(sig := SigDfl)\<rparr>)
     else cheriostest_failure_err pl ''clearing handler for sig %d'' [FInt sig] s)"

definition exitP :: "int \<Rightarrow> ('w, 'a) prog" where
  "exitP n = (\<lambda>s. (Exited n, s))"

text \<open>\<^verbatim>\<open>if (sigaction(sig, &sa, NULL) < 0) err(EX_OSERR, ...)\<close>.\<close>

definition install_handler :: "'w os \<Rightarrow> int \<Rightarrow> ('w, unit) prog" where
  "install_handler os sig = (\<lambda>s.
     if os_sigaction_ok os sig (p_world s)
     then (Return (), s\<lparr>p_sigaction := (p_sigaction s)(sig := SigHarness)\<rparr>)
     else (Exited EX_OSERR, s))"

definition dup2_or_err :: "'w os \<Rightarrow> int \<Rightarrow> ('w, unit) prog" where
  "dup2_or_err os fd = (\<lambda>s. if os_dup2_ok os fd (p_world s) then (Return (), s) else (Exited EX_OSERR, s))"

definition set_thread_tracing :: "'w os \<Rightarrow> ('w, unit) prog" where
  "set_thread_tracing os = (\<lambda>s. if os_set_qtrace_ok os (p_world s) then (Return (), s) else (Exited EX_OSERR, s))"

definition harness_signals :: "platform \<Rightarrow> 'w os \<Rightarrow> int list" where
  "harness_signals pl os =
     [sig_ALRM os] @ only_if (is_FreeBSD pl) [sig_PROT os] @ [sig_SEGV os, sig_BUS os] @
     only_if (is_FreeBSD pl) [sig_EMT os] @ [sig_TRAP os]"

text \<open>The forked child: handlers, stdin and stdout, tracing, the test, \<^verbatim>\<open>exit(0)\<close>.\<close>

definition child_setup :: "platform \<Rightarrow> 'w os \<Rightarrow> opts \<Rightarrow> ('w, unit) prog list" where
  "child_setup pl os opt =
     map (install_handler os) (harness_signals pl os) @
     [dup2_or_err os 0, dup2_or_err os 1] @ only_if (qtrace opt) [set_thread_tracing os]"

definition child_main :: "platform \<Rightarrow> 'w os \<Rightarrow> opts \<Rightarrow> 'w cheri_test \<Rightarrow> ('w, unit) prog" where
  "child_main pl os opt ct = block (child_setup pl os opt @ [ct_func ct, exitP 0])"

text \<open>What \<^verbatim>\<open>waitpid\<close> reports: \<^verbatim>\<open>WIFEXITED\<close> with \<^verbatim>\<open>WEXITSTATUS\<close>, \<^verbatim>\<open>WIFSIGNALED\<close> with \<^verbatim>\<open>WTERMSIG\<close>, or neither.\<close>

datatype wait_status = WExited int | WSignaled int | WOther

text \<open>
  How a process ends. A signal goes to the harness's handler if that is installed, and terminates
  the process otherwise (a synchronous signal also when it is ignored).
\<close>

definition finish_process :: "platform \<Rightarrow> 'a outcome \<times> 'w pstate \<Rightarrow> wait_status \<times> 'w pstate" where
  "finish_process pl r =
     (case r of (out, s) \<Rightarrow>
       (case out of
          Return _ \<Rightarrow> (WOther, s)
        | Exited n \<Rightarrow> (WExited (n mod 256), s)
        | Undefined \<Rightarrow> (WOther, s)
        | Trapped i \<Rightarrow>
            (if p_sigaction s (si_signo i) = SigHarness
             then (WExited (EX_SOFTWARE mod 256),
                   s\<lparr>p_ccsp := map_option (signal_handler pl i) (p_ccsp s)\<rparr>)
             else (WSignaled (si_signo i), s))))"

definition forked_state :: "child_state \<Rightarrow> 'w \<Rightarrow> 'w pstate" where
  "forked_state c w = \<lparr>p_ccsp = Some c, p_errno = 0, p_stderr = [], p_stdout = [],
     p_sigaction = (\<lambda>_. SigDfl), p_world = w\<rparr>"

definition run_child ::
  "platform \<Rightarrow> 'w os \<Rightarrow> opts \<Rightarrow> 'w cheri_test \<Rightarrow> child_state \<Rightarrow> 'w \<Rightarrow> wait_status \<times> child_state \<times> string \<times> 'w" where
  "run_child pl os opt ct c w =
     (let (status, s) = finish_process pl (child_main pl os opt ct (forked_state c w))
      in (status, (case p_ccsp s of None \<Rightarrow> c | Some d \<Rightarrow> d), p_stdout s, os_join os w (p_world s)))"

section \<open>The state of the controller\<close>

datatype xo_event =
    XoAttr string string "cap farg list"
  | XoOpenContainer string | XoCloseContainer string
  | XoOpenList string | XoCloseList string
  | XoOpenInstance string | XoCloseInstance string
  | XoEmit string "cap farg list" | XoFlush | XoFinish

record 'w runner =
  cheri_skipped_tests :: "string list"
  cheri_failed_tests :: "string list"
  cheri_xfailed_tests :: "string list"
  cheri_xpassed_tests :: "string list"
  cheri_test_warnings :: "string list"
  tests_run :: nat
  tests_skipped :: nat
  tests_failed :: nat
  tests_passed :: nat
  tests_xfailed :: nat
  tests_xpassed :: nat
  expected_failures :: nat
  r_ccs :: child_state
  r_xo :: "xo_event list"
  r_world :: 'w

definition xo :: "xo_event list \<Rightarrow> 'w runner \<Rightarrow> 'w runner" where
  "xo evs r = r\<lparr>r_xo := r_xo r @ evs\<rparr>"

text \<open>\<^verbatim>\<open>snprintf\<close> into \<^verbatim>\<open>reason[2 * TESTRESULT_STR_LEN]\<close>.\<close>

definition reason_of :: "platform \<Rightarrow> string \<Rightarrow> cap farg list \<Rightarrow> string" where
  "reason_of pl fmt ap =
     (case lc_vformat pl fmt ap of None \<Rightarrow> [] | Some t \<Rightarrow> take (TESTRESULT_STR_LEN * 2 - 1) t)"

section \<open>The verdict\<close>

text \<open>
  Where the code jumps: to \<^verbatim>\<open>pass\<close>, to \<^verbatim>\<open>fail\<close> with a reason, or to \<^verbatim>\<open>fail\<close> after clearing the
  reasons that would excuse a failure (a harness error).
\<close>

datatype jump = GotoPass | GotoFail string | GotoFailHarness string

text \<open>Lines 466 to 509: the child's status and signal. \<open>None\<close>: fall through.\<close>

definition analyse_status :: "platform \<Rightarrow> 'w cheri_test \<Rightarrow> child_state \<Rightarrow> wait_status \<Rightarrow> jump option" where
  "analyse_status pl ct c status =
     (if has_flag ct CT_FLAG_SIGEXIT then
        (case status of
           WSignaled n \<Rightarrow>
             (if n \<noteq> ct_signum ct
              then Some (GotoFail (reason_of pl ''Expected child termination with signal %d; got %d''
                     [FInt (ct_signum ct), FInt n]))
              else Some GotoPass)
         | _ \<Rightarrow> Some (GotoFail (reason_of pl ''Expected child termination with signal %d'' [FInt (ct_signum ct)])))
      else case status of
        WSignaled n \<Rightarrow> Some (GotoFail (reason_of pl ''Child exited with signal %d'' [FInt n]))
      | WOther \<Rightarrow> Some (GotoFail (reason_of pl ''Child exited abnormally'' []))
      | WExited n \<Rightarrow>
          (if n \<noteq> 0 \<and> n \<noteq> EX_SOFTWARE
           then Some (GotoFail (reason_of pl ''Child status %d'' [FInt n]))
           else if ccs_signum c < 0
           then Some (GotoFail (reason_of pl ''Child returned negative signal %d'' [FInt (ccs_signum c)]))
           else None))"

text \<open>Lines 510 to 539: the signal the test expects.\<close>

definition analyse_signal :: "platform \<Rightarrow> 'w cheri_test \<Rightarrow> child_state \<Rightarrow> jump option" where
  "analyse_signal pl ct c =
     (if has_flag ct CT_FLAG_SIGNAL \<and> ccs_signum c \<noteq> ct_signum ct
      then Some (GotoFail (reason_of pl ''Expected signal %d, got %d'' [FInt (ct_signum ct), FInt (ccs_signum c)]))
      else if has_flag ct CT_FLAG_SI_CODE \<and> ccs_si_code c \<noteq> ct_si_code ct
      then Some (GotoFail (reason_of pl ''Expected si_code %d, got %d'' [FInt (ct_si_code ct), FInt (ccs_si_code c)]))
      else if is_FreeBSD pl \<and> has_flag ct CT_FLAG_SI_TRAPNO \<and> ccs_si_trapno c \<noteq> ct_si_trapno ct
      then Some (GotoFail (reason_of pl ''Expected si_trapno %d, got %d''
             [FInt (ct_si_trapno ct), FInt (ccs_si_trapno c)]))
      else if has_flag ct CT_FLAG_SI_ADDR \<and>
        (\<not> cheri_ptr_equal_exact pl (ccs_si_addr_expected c) (ccs_si_addr c) \<or>
         ccs_si_addr_expected_tag c \<noteq> ccs_si_addr_tag c)
      then Some (GotoFail (reason_of pl ''Expected si_addr %#p with tag = %d, got %#p with tag = %d''
             [FPtr (ccs_si_addr_expected c), FBool (ccs_si_addr_expected_tag c),
              FPtr (ccs_si_addr c), FBool (ccs_si_addr_tag c)]))
      else None)"

text \<open>Lines 541 to 570: what the test itself reports.\<close>

definition analyse_result :: "platform \<Rightarrow> 'w cheri_test \<Rightarrow> child_state \<Rightarrow> jump option" where
  "analyse_result pl ct c =
     (if has_flag ct CT_FLAG_SIGNAL then None
      else if ccs_signum c \<noteq> 0
      then Some (GotoFail (reason_of pl ''Test received unexpected signal %d'' [FInt (ccs_signum c)]))
      else if ccs_testresult c = TESTRESULT_UNKNOWN
      then Some (GotoFailHarness (reason_of pl ''Test failed to set a success/failure status'' []))
      else if ccs_testresult c \<noteq> TESTRESULT_SUCCESS
      then Some (GotoFailHarness (reason_of pl ''Test returned unexpected result (%d)'' [FInt (ccs_testresult c)]))
      else None)"

text \<open>Lines 572 to 619: the captured output; \<open>None\<close> as data is a failed \<^verbatim>\<open>read\<close>.\<close>

definition analyse_stdout ::
  "platform \<Rightarrow> opts \<Rightarrow> 'w cheri_test \<Rightarrow> int \<Rightarrow> string option \<Rightarrow> jump" where
  "analyse_stdout pl opt ct err data =
     (if has_flag ct CT_FLAG_STDOUT_STRING then
        (case data of
           None \<Rightarrow> GotoFail (reason_of pl ''read() on test stdout failed with -1 (%d)'' [FInt err])
         | Some d \<Rightarrow>
             (if c_str d \<noteq> ct_stdout_string ct
              then GotoFail (if verbose opt > 0
                then reason_of pl (''read() on test stdout expected '%s' but got '%s'' @ [CHR 0x27])
                       [FStr (ct_stdout_string ct), FStr (c_str d)]
                else reason_of pl ''read() on test stdout did not match'' [])
              else GotoPass))
      else if \<not> has_flag ct CT_FLAG_STDOUT_IGNORE then
        (case data of
           None \<Rightarrow> GotoPass
         | Some d \<Rightarrow>
             (if length d > 0
              then GotoFail (if verbose opt > 0
                then reason_of pl (''read() on test stdout produced unexpected output '%s'' @ [CHR 0x27]) [FStr (c_str d)]
                else reason_of pl ''read() on test stdout produced unexpected output'' [])
              else GotoPass))
      else GotoPass)"

text \<open>The libxo events of lines 575 to 587.\<close>

definition stdout_events :: "platform \<Rightarrow> 'w cheri_test \<Rightarrow> int \<Rightarrow> string option \<Rightarrow> xo_event list" where
  "stdout_events pl ct err data =
     (case data of
        None \<Rightarrow> [XoAttr ''message'' ''%s'' [FStr (lc_strerror pl err)], XoAttr ''type'' ''%d'' [FInt err],
                 XoEmit ''{e:error/%s}'' [FStr ''read() failed'']]
      | Some d \<Rightarrow>
          (if length d > 0
           then only_if (has_flag ct CT_FLAG_STDOUT_IGNORE) [XoAttr ''ignored'' ''true'' []] @
                [XoEmit ''{e:system-out/%s}'' [FStr (c_str d)]]
           else []))"

section \<open>The labels pass, fail and do_return\<close>

definition pass_label :: "'w os \<Rightarrow> 'w cheri_test \<Rightarrow> string option \<Rightarrow> 'w runner \<Rightarrow> 'w runner" where
  "pass_label os ct xfail_reason r =
     (let r1 = (case xfail_reason of
            Some reason \<Rightarrow>
              (xo [XoEmit ''XPASS: {d:name/%s} (Expected failure due to {d:reason/%s}) {e:failure/XPASS: %s}\<newline>''
                    [FStr (ct_name ct), FStr reason, FStr reason]] r)
                \<lparr>tests_xpassed := tests_xpassed r + 1,
                 cheri_xpassed_tests := cheri_xpassed_tests r @ [ct_name ct @ '': '' @ reason]\<rparr>
          | None \<Rightarrow>
              (xo [XoEmit ''{d:status/%s}: {d:name/%s}\<newline>'' [FStr ''PASS'', FStr (ct_name ct)]] r)
                \<lparr>tests_passed := tests_passed r + 1\<rparr>)
      in if ccs_warn (r_ccs r)
         then (let visreason = os_strnvis os (TESTRESULT_STR_LEN * 2 * 4) (c_str (ccs_testresult_str (r_ccs r)))
               in (xo [XoEmit ''WARN: {d:name/%s}: {:warn/%s}\<newline>'' [FStr (ct_name ct), FStr visreason]] r1)
                    \<lparr>cheri_test_warnings := cheri_test_warnings r1 @ [ct_name ct @ '': '' @ visreason]\<rparr>)
         else r1)"

definition fail_label ::
  "'w os \<Rightarrow> opts \<Rightarrow> 'w cheri_test \<Rightarrow> string option \<Rightarrow> string option \<Rightarrow> string \<Rightarrow> 'w runner \<Rightarrow> 'w runner" where
  "fail_label os opt ct xfail_reason flaky_reason reason r =
     (let visreason = os_strnvis os (TESTRESULT_STR_LEN * 2 * 4) reason;
          failure_message = ct_name ct @ '': '' @ visreason
      in if xfail_reason = None \<and> flaky_reason = None
         then (xo [XoEmit ''FAIL: {d:name/%s}: {:failure/%s}\<newline>'' [FStr (ct_name ct), FStr visreason]] r)
                \<lparr>tests_failed := tests_failed r + 1,
                 cheri_failed_tests := cheri_failed_tests r @ [failure_message]\<rparr>
         else (let excuse = the (if flaky_reason \<noteq> None then flaky_reason else xfail_reason);
                   evs = (if o_xml opt
                          then [XoAttr ''message'' ''%s'' [FStr excuse], XoEmit ''{e:skipped/%s}'' [FStr []]]
                          else [XoEmit ''{d:status/%s}: {d:name/%s}: {:failure-reason/%s} ({d:expected-failure-reason/%s})\<newline>''
                                 [FStr ''XFAIL'', FStr (ct_name ct), FStr visreason, FStr excuse]])
               in (xo evs r)
                    \<lparr>expected_failures := expected_failures r + (if xfail_reason = None then 1 else 0),
                     tests_xfailed := tests_xfailed r + 1,
                     cheri_xfailed_tests := cheri_xfailed_tests r @ [failure_message]\<rparr>))"

definition do_return :: "'w runner \<Rightarrow> 'w runner" where
  "do_return r = xo [XoCloseInstance ''testcase'', XoFlush] r"

section \<open>Running one test\<close>

definition start_test :: "platform \<Rightarrow> 'w cheri_test \<Rightarrow> 'w runner \<Rightarrow> 'w runner" where
  "start_test pl ct r =
     (xo [XoAttr ''classname'' ''%s.%s'' [FStr (pl_PROG pl), FStr (ct_name ct)],
          XoAttr ''name'' ''%s'' [FStr (ct_desc ct)],
          XoOpenInstance ''testcase'',
          XoEmit ''TEST: {d:name/%s}: {d:description/%s}\<newline>'' [FStr (ct_name ct), FStr (ct_desc ct)]] r)
       \<lparr>r_ccs := ccs_zero pl\<rparr>"

definition disallowed_prefixes :: "string list" where
  "disallowed_prefixes = [''cheriostest_'', ''test_'']"

definition skip_label :: "opts \<Rightarrow> 'w cheri_test \<Rightarrow> string \<Rightarrow> 'w runner \<Rightarrow> 'w runner" where
  "skip_label opt ct skip_reason r =
     (let evs = (if o_xml opt
                 then [XoAttr ''message'' ''%s'' [FStr skip_reason], XoEmit ''{e:skipped/%s}'' [FStr []]]
                 else [XoEmit ''{d:status/%s}: {d:name/%s}: {d:skip-reason/%s}\<newline>''
                        [FStr ''SKIP'', FStr (ct_name ct), FStr skip_reason]])
      in xo [XoCloseInstance ''testcase'', XoFlush]
           ((xo evs r)\<lparr>tests_skipped := tests_skipped r + 1,
              cheri_skipped_tests := cheri_skipped_tests r @ [ct_name ct @ '': '' @ skip_reason]\<rparr>))"

text \<open>
  From \<^verbatim>\<open>waitpid\<close> on: an explicitly reported failure comes first, then status, signal, result and
  output. The message buffer is NUL-terminated before it is copied.
\<close>

definition judge ::
  "platform \<Rightarrow> 'w os \<Rightarrow> opts \<Rightarrow> 'w cheri_test \<Rightarrow> wait_status \<Rightarrow> string \<Rightarrow> 'w runner \<Rightarrow> jump \<times> 'w runner" where
  "judge pl os opt ct status out r =
     (let c = r_ccs r in
      if ccs_testresult c = TESTRESULT_FAILURE
      then (let str = terminate_buf (ccs_testresult_str c)
            in (GotoFail (c_str str), r\<lparr>r_ccs := c\<lparr>ccs_testresult_str := str\<rparr>\<rparr>))
      else case analyse_status pl ct c status of Some j \<Rightarrow> (j, r)
      | None \<Rightarrow> (case analyse_signal pl ct c of Some j \<Rightarrow> (j, r)
      | None \<Rightarrow> (case analyse_result pl ct c of Some j \<Rightarrow> (j, r)
      | None \<Rightarrow>
          (let (data, w) = os_read os 1023 out (r_world r);
               err = os_errno os w
           in (analyse_stdout pl opt ct err data, xo (stdout_events pl ct err data) (r\<lparr>r_world := w\<rparr>))))))"

definition land ::
  "'w os \<Rightarrow> opts \<Rightarrow> 'w cheri_test \<Rightarrow> string option \<Rightarrow> string option \<Rightarrow> jump \<Rightarrow> 'w runner \<Rightarrow> 'w runner" where
  "land os opt ct xfail_reason flaky_reason j r = do_return (case j of
       GotoPass \<Rightarrow> pass_label os ct xfail_reason r
     | GotoFail reason \<Rightarrow> fail_label os opt ct xfail_reason flaky_reason reason r
     | GotoFailHarness reason \<Rightarrow> fail_label os opt ct None None reason r)"

text \<open>Lines 344 to 360: fill the test's stdin. \<open>Some\<close> reason: \<^verbatim>\<open>goto fail\<close>.\<close>

definition fill_stdin :: "platform \<Rightarrow> 'w os \<Rightarrow> 'w cheri_test \<Rightarrow> 'w \<Rightarrow> string option \<times> 'w" where
  "fill_stdin pl os ct w =
     (if has_flag ct CT_FLAG_STDIN_STRING
      then (let (len, w1) = os_write os (ct_stdin_string ct) w; n = length (ct_stdin_string ct)
            in if len < 0
               then (Some (reason_of pl ''write() on test stdin failed with -1 (%d)'' [FInt (os_errno os w1)]), w1)
               else if len \<noteq> int n
               then (Some (reason_of pl ''write() on test stdin expected %lu but got %ld'' [FInt (int n), FInt len]), w1)
               else (None, w1))
      else (None, w))"

text \<open>Pipes, stdin, fork, the child, the verdict. \<open>Inl\<close>: the controller itself exits, by \<^verbatim>\<open>err\<close>.\<close>

definition run_forked ::
  "platform \<Rightarrow> 'w os \<Rightarrow> opts \<Rightarrow> 'w cheri_test \<Rightarrow> string option \<Rightarrow> string option \<Rightarrow> 'w runner \<Rightarrow> int + 'w runner" where
  "run_forked pl os opt ct xfail_reason flaky_reason r =
     (case os_pipe os (r_world r) of (ok1, w1) \<Rightarrow>
      if \<not> ok1 then Inl EX_OSERR else
      case os_pipe os w1 of (ok2, w2) \<Rightarrow>
      if \<not> ok2 then Inl EX_OSERR else
      case fill_stdin pl os ct w2 of (bad, w3) \<Rightarrow>
      (case bad of
         Some reason \<Rightarrow> Inr (land os opt ct xfail_reason flaky_reason (GotoFail reason) (r\<lparr>r_world := w3\<rparr>))
       | None \<Rightarrow>
      (case os_fork os w3 of (pid, w4) \<Rightarrow>
      if pid < 0 then Inl EX_OSERR else
      case run_child pl os opt ct (r_ccs r) w4 of (status, c, out, w5) \<Rightarrow>
      if \<not> os_set_nonblock_ok os w4 then Inl EX_OSERR else
      (case judge pl os opt ct status out (r\<lparr>tests_run := tests_run r + 1, r_ccs := c, r_world := w5\<rparr>) of
         (j, r1) \<Rightarrow> Inr (land os opt ct xfail_reason flaky_reason j r1)))))"

text \<open>
  \<^verbatim>\<open>flaky_reason\<close> is an uninitialised variable of the C function until the skip check has passed,
  and the check of the name jumps to \<^verbatim>\<open>fail\<close> before that: \<open>uninit\<close> is the value it happens to have.
\<close>

definition cheriostest_run_test ::
  "platform \<Rightarrow> 'w os \<Rightarrow> opts \<Rightarrow> string option \<Rightarrow> 'w cheri_test \<Rightarrow> 'w runner \<Rightarrow> int + 'w runner" where
  "cheriostest_run_test pl os opt uninit ct r =
     (let r1 = start_test pl ct r in
      case find (begins_with (ct_name ct)) disallowed_prefixes of
        Some p \<Rightarrow> Inr (land os opt ct None uninit
            (GotoFail (reason_of pl (''test name begins with disallowed prefix '%s'' @ [CHR 0x27]) [FStr p])) r1)
      | None \<Rightarrow>
          if fast_tests_only opt \<and> has_flag ct CT_FLAG_SLOW then Inr r1
          else case (case ct_check_skip ct of None \<Rightarrow> None | Some f \<Rightarrow> f (ct_name ct) (r_world r1)) of
            Some skip_reason \<Rightarrow> Inr (skip_label opt ct skip_reason r1)
          | None \<Rightarrow>
              (let xfail_reason = (case ct_check_xfail ct of
                     Some f \<Rightarrow> f (ct_name ct) | None \<Rightarrow> ct_xfail_reason ct);
                   r2 = (if xfail_reason \<noteq> None
                         then r1\<lparr>expected_failures := expected_failures r1 + 1\<rparr> else r1)
               in run_forked pl os opt ct xfail_reason (ct_flaky_reason ct) r2))"

end
