(* ===== verification/Verdict.thy ===== *)
theory Verdict
  imports Runner
begin

text \<open>
  What the controller's bookkeeping guarantees: every test that is run ends in exactly one of five
  outcomes, the lists of names agree with the counters, a reported failure is never lost, and the
  verdict follows from what the child did. The controller's loops rely on the ledger interface
  below, not on the code of \<^verbatim>\<open>cheriostest_run_test\<close>.
\<close>

section \<open>The ledger\<close>

definition tests_ended :: "'w runner \<Rightarrow> nat" where
  "tests_ended r = tests_passed r + tests_failed r + tests_xfailed r + tests_xpassed r"

definition runner_inv :: "'w runner \<Rightarrow> bool" where
  "runner_inv r \<longleftrightarrow>
     length (cheri_skipped_tests r) = tests_skipped r \<and>
     length (cheri_failed_tests r) = tests_failed r \<and>
     length (cheri_xfailed_tests r) = tests_xfailed r \<and>
     length (cheri_xpassed_tests r) = tests_xpassed r \<and>
     tests_run r \<le> tests_ended r \<and>
     tests_xfailed r + tests_xpassed r \<le> expected_failures r"

definition runner_le :: "'w runner \<Rightarrow> 'w runner \<Rightarrow> bool" where
  "runner_le r r' \<longleftrightarrow>
     tests_run r \<le> tests_run r' \<and> tests_skipped r \<le> tests_skipped r' \<and>
     tests_failed r \<le> tests_failed r' \<and> tests_passed r \<le> tests_passed r' \<and>
     tests_xfailed r \<le> tests_xfailed r' \<and> tests_xpassed r \<le> tests_xpassed r'"

lemma runner_le_refl [simp]: "runner_le r r"
  by (simp add: runner_le_def)

lemma runner_le_trans: "runner_le a b \<Longrightarrow> runner_le b c \<Longrightarrow> runner_le a c"
  by (auto simp: runner_le_def)

text \<open>Steps of the controller in sequence; an \<open>Inl\<close> ends the controller.\<close>

fun run_seq :: "('x \<Rightarrow> 'w runner \<Rightarrow> int + 'w runner) \<Rightarrow> 'x list \<Rightarrow> 'w runner \<Rightarrow> int + 'w runner" where
  "run_seq step [] r = Inr r"
| "run_seq step (x # xs) r = (case step x r of Inl e \<Rightarrow> Inl e | Inr r' \<Rightarrow> run_seq step xs r')"

lemma run_seq_append:
  "run_seq step (xs @ ys) r = (case run_seq step xs r of Inl e \<Rightarrow> Inl e | Inr r' \<Rightarrow> run_seq step ys r')"
  by (induction xs arbitrary: r) (auto split: sum.splits)

locale ledger =
  fixes step :: "'x \<Rightarrow> 'w runner \<Rightarrow> int + 'w runner"
  assumes keeps_inv: "step x r = Inr r' \<Longrightarrow> runner_inv r \<Longrightarrow> runner_inv r'"
    and grows: "step x r = Inr r' \<Longrightarrow> runner_le r r'"
begin

lemma seq_inv: "run_seq step xs r = Inr r' \<Longrightarrow> runner_inv r \<Longrightarrow> runner_inv r'"
proof (induction xs arbitrary: r)
  case (Cons x xs)
  then obtain r1 where "step x r = Inr r1" and "run_seq step xs r1 = Inr r'"
    by (auto split: sum.splits)
  with Cons show ?case by (meson keeps_inv)
qed simp

lemma seq_grows: "run_seq step xs r = Inr r' \<Longrightarrow> runner_le r r'"
proof (induction xs arbitrary: r)
  case (Cons x xs)
  then obtain r1 where "step x r = Inr r1" and "run_seq step xs r1 = Inr r'"
    by (auto split: sum.splits)
  with Cons show ?case by (meson grows runner_le_trans)
qed simp

text \<open>A failure counted at any point of the run is still counted at its end.\<close>

lemma seq_failure_kept:
  "run_seq step xs r = Inr r1 \<Longrightarrow> run_seq step ys r1 = Inr r' \<Longrightarrow> 0 < tests_failed r1 \<Longrightarrow> 0 < tests_failed r'"
  using seq_grows [of ys r1 r'] by (auto simp: runner_le_def)

end

section \<open>The labels\<close>

lemmas label_defs = land_def do_return_def pass_label_def fail_label_def skip_label_def xo_def Let_def

lemma judge_frame:
  assumes "judge pl os opt ct status out r = (j, r')"
  shows "\<exists>c x w. r' = r\<lparr>r_ccs := c, r_xo := x, r_world := w\<rparr>"
proof -
  have same: "\<exists>c x w. r = r\<lparr>r_ccs := c, r_xo := x, r_world := w\<rparr>"
    by (rule exI [of _ "r_ccs r"], rule exI [of _ "r_xo r"], rule exI [of _ "r_world r"]) simp
  have "\<exists>c' x w. r\<lparr>r_ccs := c\<rparr> = r\<lparr>r_ccs := c', r_xo := x, r_world := w\<rparr>" for c
    by (rule exI [of _ c], rule exI [of _ "r_xo r"], rule exI [of _ "r_world r"]) simp
  moreover have "\<exists>c x' w'. r\<lparr>r_world := w, r_xo := x\<rparr> = r\<lparr>r_ccs := c, r_xo := x', r_world := w'\<rparr>" for w x
    by (rule exI [of _ "r_ccs r"], rule exI [of _ x], rule exI [of _ w]) simp
  ultimately show ?thesis
    using assms same
    by (auto simp: judge_def Let_def xo_def split: if_splits option.splits prod.splits)
qed

lemma land_inv:
  assumes "length (cheri_skipped_tests r) = tests_skipped r"
    "length (cheri_failed_tests r) = tests_failed r"
    "length (cheri_xfailed_tests r) = tests_xfailed r"
    "length (cheri_xpassed_tests r) = tests_xpassed r"
    "tests_run r \<le> Suc (tests_ended r)"
    "tests_xfailed r + tests_xpassed r + (if xf = None then 0 else 1) \<le> expected_failures r"
  shows "runner_inv (land os opt ct xf fl j r)"
  using assms by (cases j) (auto simp: label_defs runner_inv_def tests_ended_def split: option.splits)

lemma land_grows: "runner_le r (land os opt ct xf fl j r)"
  by (cases j) (auto simp: label_defs runner_le_def split: option.splits)

lemma land_ended: "tests_ended (land os opt ct xf fl j r) = Suc (tests_ended r)"
  by (cases j) (auto simp: label_defs tests_ended_def split: option.splits)

lemma land_skipped [simp]: "tests_skipped (land os opt ct xf fl j r) = tests_skipped r"
  by (cases j) (auto simp: label_defs split: option.splits)

text \<open>How a run of the forked part looks: the verdict lands on an otherwise unchanged ledger.\<close>

lemma run_forked_shape:
  assumes "run_forked pl os opt ct xf fl r = Inr r'"
  shows "\<exists>j c x w n. r' = land os opt ct xf fl j (r\<lparr>tests_run := n, r_ccs := c, r_xo := x, r_world := w\<rparr>) \<and>
           tests_run r \<le> n \<and> n \<le> Suc (tests_run r)"
proof -
  obtain ok1 w1 ok2 w2 bad w3 where
    p: "os_pipe os (r_world r) = (ok1, w1)" "os_pipe os w1 = (ok2, w2)" "fill_stdin pl os ct w2 = (bad, w3)"
    by (metis surj_pair)
  show ?thesis
  proof (cases bad)
    case (Some reason)
    then have "r' = land os opt ct xf fl (GotoFail reason) (r\<lparr>r_world := w3\<rparr>)"
      using assms p by (auto simp: run_forked_def split: if_splits)
    moreover have "r\<lparr>r_world := w3\<rparr> =
        r\<lparr>tests_run := tests_run r, r_ccs := r_ccs r, r_xo := r_xo r, r_world := w3\<rparr>"
      by simp
    ultimately show ?thesis by (metis le_SucI order_refl)
  next
    case None
    obtain pid w4 where f: "os_fork os w3 = (pid, w4)" by (metis surj_pair)
    obtain status c out w5 where ch: "run_child pl os opt ct (r_ccs r) w4 = (status, c, out, w5)"
      by (metis surj_pair)
    let ?r = "r\<lparr>tests_run := tests_run r + 1, r_ccs := c, r_world := w5\<rparr>"
    obtain j r1 where jr: "judge pl os opt ct status out ?r = (j, r1)" by (metis surj_pair)
    then obtain c' x w where "r1 = ?r\<lparr>r_ccs := c', r_xo := x, r_world := w\<rparr>"
      using judge_frame by blast
    moreover have "r' = land os opt ct xf fl j r1"
      using assms p None f ch jr by (auto simp: run_forked_def split: if_splits)
    ultimately have "r' = land os opt ct xf fl j
        (r\<lparr>tests_run := Suc (tests_run r), r_ccs := c', r_xo := x, r_world := w\<rparr>)"
      by simp
    then show ?thesis by (metis le_SucI order_refl)
  qed
qed

section \<open>One test\<close>

text \<open>The three ways \<^verbatim>\<open>cheriostest_run_test\<close> comes back.\<close>

lemma run_test_shape:
  assumes "cheriostest_run_test pl os opt u ct r = Inr r'"
  obtains (slow) "fast_tests_only opt" "has_flag ct CT_FLAG_SLOW" "r' = start_test pl ct r"
  | (skip) reason where "r' = skip_label opt ct reason (start_test pl ct r)"
  | (landed) j xf fl c x w n e where
      "r' = land os opt ct xf fl j
         (r\<lparr>expected_failures := e, tests_run := n, r_ccs := c, r_xo := x, r_world := w\<rparr>)"
      "tests_run r \<le> n" "n \<le> Suc (tests_run r)"
      "e = expected_failures r + (if xf = None then 0 else 1)"
proof -
  let ?r1 = "start_test pl ct r"
  have r1: "?r1 = r\<lparr>expected_failures := expected_failures r, tests_run := tests_run r,
      r_ccs := ccs_zero pl, r_xo := r_xo ?r1, r_world := r_world r\<rparr>"
    by (simp add: start_test_def xo_def)
  show thesis
  proof (cases "find (begins_with (ct_name ct)) disallowed_prefixes")
    case (Some p)
    let ?j = "GotoFail (reason_of pl (''test name begins with disallowed prefix '%s'' @ [CHR 0x27]) [FStr p])"
    have "r' = land os opt ct None u ?j ?r1"
      using assms Some by (simp add: cheriostest_run_test_def Let_def)
    then have "r' = land os opt ct None u ?j
        (r\<lparr>expected_failures := expected_failures r, tests_run := tests_run r,
           r_ccs := ccs_zero pl, r_xo := r_xo ?r1, r_world := r_world r\<rparr>)"
      by (subst (asm) r1)
    then show thesis by (rule landed) simp_all
  next
    case None
    define skip where "skip = (case ct_check_skip ct of None \<Rightarrow> None | Some f \<Rightarrow> f (ct_name ct) (r_world ?r1))"
    define xf where "xf = (case ct_check_xfail ct of Some f \<Rightarrow> f (ct_name ct) | None \<Rightarrow> ct_xfail_reason ct)"
    show thesis
    proof (cases "fast_tests_only opt \<and> has_flag ct CT_FLAG_SLOW")
      case True
      then show thesis using assms None by (intro slow) (auto simp: cheriostest_run_test_def Let_def)
    next
      case fast: False
      show thesis
      proof (cases skip)
        case (Some reason)
        then show thesis
          using assms None fast by (intro skip [of reason]) (auto simp: cheriostest_run_test_def Let_def skip_def)
      next
        case noskip: None
        let ?r2 = "if xf \<noteq> None then ?r1\<lparr>expected_failures := expected_failures ?r1 + 1\<rparr> else ?r1"
        have rf: "run_forked pl os opt ct xf (ct_flaky_reason ct) ?r2 = Inr r'"
          using assms None fast noskip
          by (auto simp: cheriostest_run_test_def Let_def skip_def xf_def)
        have r2: "?r2 = r\<lparr>expected_failures := expected_failures r + (if xf = None then 0 else 1),
            tests_run := tests_run r,
            r_ccs := ccs_zero pl, r_xo := r_xo ?r1, r_world := r_world r\<rparr>"
          by (simp add: start_test_def xo_def)
        from run_forked_shape [OF rf] obtain j c x w n where
          "r' = land os opt ct xf (ct_flaky_reason ct) j
             (?r2\<lparr>tests_run := n, r_ccs := c, r_xo := x, r_world := w\<rparr>)"
          "tests_run ?r2 \<le> n" "n \<le> Suc (tests_run ?r2)" by blast
        then show thesis
          unfolding r2 by (intro landed [where xf = xf and fl = "ct_flaky_reason ct" and j = j and n = n and c = c and x = x and w = w]) simp_all
      qed
    qed
  qed
qed

lemma run_test_inv:
  assumes "cheriostest_run_test pl os opt u ct r = Inr r'" and "runner_inv r"
  shows "runner_inv r'"
  using assms(1)
proof (cases rule: run_test_shape)
  case slow
  then show ?thesis using assms(2) by (simp add: start_test_def xo_def runner_inv_def tests_ended_def)
next
  case (skip reason)
  then show ?thesis
    using assms(2) by (simp add: start_test_def skip_label_def xo_def Let_def runner_inv_def tests_ended_def)
next
  case (landed j xf fl c x w n e)
  show ?thesis unfolding landed(1)
    using assms(2) landed(2-4)
    by (intro land_inv) (auto simp: runner_inv_def tests_ended_def)
qed

lemma run_test_grows:
  assumes "cheriostest_run_test pl os opt u ct r = Inr r'"
  shows "runner_le r r'"
  using assms
proof (cases rule: run_test_shape)
  case slow
  then show ?thesis by (simp add: start_test_def xo_def runner_le_def)
next
  case (skip reason)
  then show ?thesis by (simp add: start_test_def skip_label_def xo_def Let_def runner_le_def)
next
  case (landed j xf fl c x w n e)
  show ?thesis unfolding landed(1)
    by (rule runner_le_trans [OF _ land_grows]) (simp add: runner_le_def landed(2))
qed

interpretation run_test: ledger "cheriostest_run_test pl os opt u" for pl os opt u
  by unfold_locales (auto intro: run_test_inv run_test_grows)

section \<open>What a verdict means\<close>

text \<open>
  The contract of a test, as the comments of \<^verbatim>\<open>cheriostest_run_test\<close> and the flags of
  \<^verbatim>\<open>cheriostest.h\<close> give it: how the child ended, the signal it announced, what it reported, what
  it wrote.
\<close>

definition signal_as_announced :: "platform \<Rightarrow> 'w cheri_test \<Rightarrow> child_state \<Rightarrow> bool" where
  "signal_as_announced pl ct c \<longleftrightarrow>
     (has_flag ct CT_FLAG_SIGNAL \<longrightarrow> ccs_signum c = ct_signum ct) \<and>
     (has_flag ct CT_FLAG_SI_CODE \<longrightarrow> ccs_si_code c = ct_si_code ct) \<and>
     (is_FreeBSD pl \<and> has_flag ct CT_FLAG_SI_TRAPNO \<longrightarrow> ccs_si_trapno c = ct_si_trapno ct) \<and>
     (has_flag ct CT_FLAG_SI_ADDR \<longrightarrow>
        cheri_ptr_equal_exact pl (ccs_si_addr_expected c) (ccs_si_addr c) \<and>
        ccs_si_addr_expected_tag c = ccs_si_addr_tag c)"

definition output_as_announced :: "'w cheri_test \<Rightarrow> string option \<Rightarrow> bool" where
  "output_as_announced ct data \<longleftrightarrow>
     (if has_flag ct CT_FLAG_STDOUT_STRING then map_option c_str data = Some (ct_stdout_string ct)
      else has_flag ct CT_FLAG_STDOUT_IGNORE \<or> data = None \<or> data = Some [])"

definition exit_ok :: "wait_status \<Rightarrow> bool" where
  "exit_ok status \<longleftrightarrow> status = WExited 0 \<or> status = WExited EX_SOFTWARE"

definition test_passes ::
  "platform \<Rightarrow> 'w cheri_test \<Rightarrow> wait_status \<Rightarrow> child_state \<Rightarrow> string option \<Rightarrow> bool" where
  "test_passes pl ct status c data \<longleftrightarrow>
     ccs_testresult c \<noteq> TESTRESULT_FAILURE \<and>
     (if has_flag ct CT_FLAG_SIGEXIT then status = WSignaled (ct_signum ct)
      else exit_ok status \<and> 0 \<le> ccs_signum c \<and> signal_as_announced pl ct c \<and>
        (has_flag ct CT_FLAG_SIGNAL \<or> ccs_signum c = 0 \<and> ccs_testresult c = TESTRESULT_SUCCESS) \<and>
        output_as_announced ct data)"

text \<open>A test that ends as it should but reports neither success nor failure breaks the harness's protocol.\<close>

definition protocol_error :: "platform \<Rightarrow> 'w cheri_test \<Rightarrow> wait_status \<Rightarrow> child_state \<Rightarrow> bool" where
  "protocol_error pl ct status c \<longleftrightarrow>
     \<not> has_flag ct CT_FLAG_SIGEXIT \<and> \<not> has_flag ct CT_FLAG_SIGNAL \<and> exit_ok status \<and>
     ccs_signum c = 0 \<and> signal_as_announced pl ct c \<and>
     ccs_testresult c \<noteq> TESTRESULT_FAILURE \<and> ccs_testresult c \<noteq> TESTRESULT_SUCCESS"

lemma analyse_status_none:
  "analyse_status pl ct c status = None \<longleftrightarrow>
     \<not> has_flag ct CT_FLAG_SIGEXIT \<and> exit_ok status \<and> 0 \<le> ccs_signum c"
  by (cases status) (auto simp: analyse_status_def exit_ok_def)

lemma analyse_status_some:
  "analyse_status pl ct c status = Some GotoPass \<longleftrightarrow>
     has_flag ct CT_FLAG_SIGEXIT \<and> status = WSignaled (ct_signum ct)"
  "analyse_status pl ct c status \<noteq> Some (GotoFailHarness m)"
  by (cases status; auto simp: analyse_status_def split: if_splits)+

lemma analyse_signal_none: "analyse_signal pl ct c = None \<longleftrightarrow> signal_as_announced pl ct c"
  by (auto simp: analyse_signal_def signal_as_announced_def simp del: not_FreeBSD)

lemma analyse_signal_some:
  "analyse_signal pl ct c \<noteq> Some GotoPass" "analyse_signal pl ct c \<noteq> Some (GotoFailHarness m)"
  by (auto simp: analyse_signal_def)

lemma analyse_result_none:
  "analyse_result pl ct c = None \<longleftrightarrow>
     has_flag ct CT_FLAG_SIGNAL \<or> ccs_signum c = 0 \<and> ccs_testresult c = TESTRESULT_SUCCESS"
  by (auto simp: analyse_result_def harness_consts)

lemma analyse_result_some:
  "analyse_result pl ct c \<noteq> Some GotoPass"
  "(\<exists>m. analyse_result pl ct c = Some (GotoFailHarness m)) \<longleftrightarrow>
     \<not> has_flag ct CT_FLAG_SIGNAL \<and> ccs_signum c = 0 \<and> ccs_testresult c \<noteq> TESTRESULT_SUCCESS"
  by (auto simp: analyse_result_def harness_consts)

lemma analyse_stdout_pass:
  "analyse_stdout pl opt ct e data = GotoPass \<longleftrightarrow> output_as_announced ct data"
  "analyse_stdout pl opt ct e data \<noteq> GotoFailHarness m"
  by (auto simp: analyse_stdout_def output_as_announced_def split: option.splits)

lemma judge_jump:
  assumes "ccs_testresult (r_ccs r) \<noteq> TESTRESULT_FAILURE"
  shows "fst (judge pl os opt ct status out r) =
    (case analyse_status pl ct (r_ccs r) status of Some j \<Rightarrow> j | None \<Rightarrow>
      (case analyse_signal pl ct (r_ccs r) of Some j \<Rightarrow> j | None \<Rightarrow>
        (case analyse_result pl ct (r_ccs r) of Some j \<Rightarrow> j | None \<Rightarrow>
           analyse_stdout pl opt ct (os_errno os (snd (os_read os 1023 out (r_world r))))
             (fst (os_read os 1023 out (r_world r))))))"
  using assms by (auto simp: judge_def Let_def split: option.splits prod.splits)

lemma judge_pass:
  "fst (judge pl os opt ct status out r) = GotoPass \<longleftrightarrow>
     test_passes pl ct status (r_ccs r) (fst (os_read os 1023 out (r_world r)))"
proof (cases "ccs_testresult (r_ccs r) = TESTRESULT_FAILURE")
  case True
  then show ?thesis by (simp add: judge_def test_passes_def Let_def)
next
  case noerr: False
  show ?thesis
    using analyse_status_none [of pl ct "r_ccs r" status] analyse_status_some [of pl ct "r_ccs r" status]
      analyse_signal_none [of pl ct "r_ccs r"] analyse_signal_some [of pl ct "r_ccs r"]
      analyse_result_none [of pl ct "r_ccs r"] analyse_result_some [of pl ct "r_ccs r"]
    by (cases "analyse_status pl ct (r_ccs r) status"; cases "analyse_signal pl ct (r_ccs r)";
        cases "analyse_result pl ct (r_ccs r)")
      (auto simp: judge_jump [OF noerr] test_passes_def noerr analyse_stdout_pass)
qed

lemma judge_harness:
  "(\<exists>m. fst (judge pl os opt ct status out r) = GotoFailHarness m) \<longleftrightarrow>
     protocol_error pl ct status (r_ccs r)"
proof (cases "ccs_testresult (r_ccs r) = TESTRESULT_FAILURE")
  case True
  then show ?thesis by (simp add: judge_def protocol_error_def Let_def)
next
  case noerr: False
  show ?thesis
    using analyse_status_none [of pl ct "r_ccs r" status] analyse_status_some [of pl ct "r_ccs r" status]
      analyse_signal_none [of pl ct "r_ccs r"] analyse_signal_some [of pl ct "r_ccs r"]
      analyse_result_none [of pl ct "r_ccs r"] analyse_result_some(2) [of pl ct "r_ccs r"]
    by (cases "analyse_status pl ct (r_ccs r) status"; cases "analyse_signal pl ct (r_ccs r)";
        cases "analyse_result pl ct (r_ccs r)")
      (auto simp: judge_jump [OF noerr] protocol_error_def noerr analyse_stdout_pass)
qed

section \<open>The abstract ledger\<close>

text \<open>
  What a run of one test does to the books, abstractly: it adds one to the tally of one of five
  verdicts.
\<close>

datatype verdict = Pass | XPass | Fail | XFail | Skip

fun tally :: "'w runner \<Rightarrow> verdict \<Rightarrow> nat" where
  "tally r Pass = tests_passed r"
| "tally r XPass = tests_xpassed r"
| "tally r Fail = tests_failed r"
| "tally r XFail = tests_xfailed r"
| "tally r Skip = tests_skipped r"

definition record_verdict :: "verdict \<Rightarrow> (verdict \<Rightarrow> nat) \<Rightarrow> verdict \<Rightarrow> nat" where
  "record_verdict v t = t(v := Suc (t v))"

definition spec_verdict ::
  "platform \<Rightarrow> 'w cheri_test \<Rightarrow> string option \<Rightarrow> wait_status \<Rightarrow> child_state \<Rightarrow> string option \<Rightarrow> verdict" where
  "spec_verdict pl ct xfail_reason status c data =
     (if test_passes pl ct status c data then (if xfail_reason = None then Pass else XPass)
      else if protocol_error pl ct status c \<or> (xfail_reason = None \<and> ct_flaky_reason ct = None) then Fail
      else XFail)"

definition jump_verdict :: "string option \<Rightarrow> string option \<Rightarrow> jump \<Rightarrow> verdict" where
  "jump_verdict xf fl j = (case j of
       GotoPass \<Rightarrow> if xf = None then Pass else XPass
     | GotoFail _ \<Rightarrow> if xf = None \<and> fl = None then Fail else XFail
     | GotoFailHarness _ \<Rightarrow> Fail)"

lemma tally_cong:
  assumes "tests_passed r = tests_passed r'" "tests_xpassed r = tests_xpassed r'"
    "tests_failed r = tests_failed r'" "tests_xfailed r = tests_xfailed r'"
    "tests_skipped r = tests_skipped r'"
  shows "tally r = tally r'"
proof (rule ext)
  show "tally r v = tally r' v" for v using assms by (cases v) simp_all
qed

lemma tally_frame [simp]:
  "tally (r\<lparr>r_ccs := c\<rparr>) = tally r" "tally (r\<lparr>r_xo := x\<rparr>) = tally r" "tally (r\<lparr>r_world := w\<rparr>) = tally r"
  "tally (r\<lparr>tests_run := n\<rparr>) = tally r" "tally (r\<lparr>expected_failures := n\<rparr>) = tally r"
  by (rule tally_cong; simp)+

lemma tally_xo [simp]: "tally (xo evs r) = tally r"
  by (simp add: xo_def)

lemma land_tally: "tally (land os opt ct xf fl j r) = record_verdict (jump_verdict xf fl j) (tally r)"
proof (rule ext)
  show "tally (land os opt ct xf fl j r) v = record_verdict (jump_verdict xf fl j) (tally r) v" for v
    by (cases v; cases j) (auto simp: label_defs record_verdict_def jump_verdict_def split: option.splits)
qed

lemma skip_tally: "tally (skip_label opt ct reason r) = record_verdict Skip (tally r)"
proof (rule ext)
  show "tally (skip_label opt ct reason r) v = record_verdict Skip (tally r) v" for v
    by (cases v) (auto simp: skip_label_def xo_def Let_def record_verdict_def)
qed

lemma start_tally [simp]: "tally (start_test pl ct r) = tally r"
  by (simp add: start_test_def)

lemma judge_verdict:
  assumes "judge pl os opt ct status out r = (j, r')"
  shows "jump_verdict xf (ct_flaky_reason ct) j =
    spec_verdict pl ct xf status (r_ccs r) (fst (os_read os 1023 out (r_world r)))"
proof (cases j)
  case GotoPass
  then show ?thesis
    using judge_pass [of pl os opt ct status out r] assms by (simp add: jump_verdict_def spec_verdict_def)
next
  case (GotoFail m)
  then show ?thesis
    using judge_pass [of pl os opt ct status out r] judge_harness [of pl os opt ct status out r] assms
    by (simp add: jump_verdict_def spec_verdict_def)
next
  case (GotoFailHarness m)
  then show ?thesis
    using judge_pass [of pl os opt ct status out r] judge_harness [of pl os opt ct status out r] assms
    by (simp add: jump_verdict_def spec_verdict_def)
qed

section \<open>A system on which nothing goes wrong\<close>

text \<open>
  The system calls the controller makes for itself succeed, and reading the pipe gives what the
  test wrote.
\<close>

definition os_works :: "opts \<Rightarrow> 'w os \<Rightarrow> bool" where
  "os_works opt os \<longleftrightarrow>
     (\<forall>w. fst (os_pipe os w) \<and> 0 \<le> fst (os_fork os w) \<and> os_set_nonblock_ok os w \<and>
        (qtrace opt \<longrightarrow> os_set_qtrace_ok os w)) \<and>
     (\<forall>w fd. os_dup2_ok os fd w) \<and> (\<forall>w sig. os_sigaction_ok os sig w) \<and>
     (\<forall>w t. fst (os_write os t w) = int (length t)) \<and>
     (\<forall>w n t. fst (os_read os n t w) = Some (take n t))"

text \<open>The world in which the child starts.\<close>

definition forked_world :: "'w os \<Rightarrow> 'w cheri_test \<Rightarrow> 'w \<Rightarrow> 'w" where
  "forked_world os ct w =
     (let w2 = snd (os_pipe os (snd (os_pipe os w)));
          w3 = (if has_flag ct CT_FLAG_STDIN_STRING then snd (os_write os (ct_stdin_string ct) w2) else w2)
      in snd (os_fork os w3))"

text \<open>The test is due: a proper name, not left out, not skipped.\<close>

definition test_due :: "opts \<Rightarrow> 'w cheri_test \<Rightarrow> 'w \<Rightarrow> bool" where
  "test_due opt ct w \<longleftrightarrow>
     find (begins_with (ct_name ct)) disallowed_prefixes = None \<and>
     \<not> (fast_tests_only opt \<and> has_flag ct CT_FLAG_SLOW) \<and>
     (case ct_check_skip ct of None \<Rightarrow> None | Some f \<Rightarrow> f (ct_name ct) w) = None"

definition xfail_of :: "'w cheri_test \<Rightarrow> string option" where
  "xfail_of ct = (case ct_check_xfail ct of Some f \<Rightarrow> f (ct_name ct) | None \<Rightarrow> ct_xfail_reason ct)"

lemma fill_stdin_works:
  "os_works opt os \<Longrightarrow> fill_stdin pl os ct w =
     (None, if has_flag ct CT_FLAG_STDIN_STRING then snd (os_write os (ct_stdin_string ct) w) else w)"
  by (simp add: fill_stdin_def os_works_def Let_def split_beta)

lemma run_forked_verdict:
  assumes os: "os_works opt os"
    and ch: "run_child pl os opt ct (r_ccs r) (forked_world os ct (r_world r)) = (status, c, out, w)"
  shows "\<exists>r'. run_forked pl os opt ct xf (ct_flaky_reason ct) r = Inr r' \<and>
    tally r' = record_verdict (spec_verdict pl ct xf status c (Some (take 1023 out))) (tally r) \<and>
    tests_run r' = Suc (tests_run r)"
proof -
  obtain w1 w2 where p: "os_pipe os (r_world r) = (True, w1)" "os_pipe os w1 = (True, w2)"
    using os by (metis (full_types) os_works_def prod.collapse)
  define w3 where "w3 = (if has_flag ct CT_FLAG_STDIN_STRING then snd (os_write os (ct_stdin_string ct) w2) else w2)"
  obtain pid w4 where f: "os_fork os w3 = (pid, w4)" "0 \<le> pid"
    using os by (metis os_works_def prod.collapse)
  have w4: "forked_world os ct (r_world r) = w4"
    by (simp add: forked_world_def p f w3_def [symmetric])
  let ?r = "r\<lparr>tests_run := tests_run r + 1, r_ccs := c, r_world := w\<rparr>"
  obtain j r1 where jr: "judge pl os opt ct status out ?r = (j, r1)" by (metis surj_pair)
  then obtain c' x w' where r1: "r1 = ?r\<lparr>r_ccs := c', r_xo := x, r_world := w'\<rparr>"
    using judge_frame by blast
  have "run_forked pl os opt ct xf (ct_flaky_reason ct) r = Inr (land os opt ct xf (ct_flaky_reason ct) j r1)"
    using os f ch w4 jr by (simp add: run_forked_def p fill_stdin_works [OF os] w3_def [symmetric] os_works_def)
  moreover have "jump_verdict xf (ct_flaky_reason ct) j = spec_verdict pl ct xf status c (Some (take 1023 out))"
    using judge_verdict [OF jr] os by (simp add: os_works_def)
  moreover have "tests_run (land os opt ct xf fl j r1) = tests_run r1" for fl
    by (cases j) (auto simp: label_defs split: option.splits)
  ultimately show ?thesis by (simp add: land_tally r1)
qed

lemma start_test_frame [simp]:
  "r_world (start_test pl ct r) = r_world r" "expected_failures (start_test pl ct r) = expected_failures r"
  "r_ccs (start_test pl ct r) = ccs_zero pl" "tests_run (start_test pl ct r) = tests_run r"
  by (simp_all add: start_test_def xo_def)

lemma run_test_forks:
  assumes "test_due opt ct (r_world r)"
  shows "cheriostest_run_test pl os opt u ct r = run_forked pl os opt ct (xfail_of ct) (ct_flaky_reason ct)
    (if xfail_of ct \<noteq> None then (start_test pl ct r)\<lparr>expected_failures := expected_failures r + 1\<rparr>
     else start_test pl ct r)"
  using assms by (cases "ct_check_skip ct") (auto simp: test_due_def cheriostest_run_test_def Let_def xfail_of_def)

lemma run_test_verdict:
  assumes "os_works opt os" and "test_due opt ct (r_world r)"
    and "run_child pl os opt ct (ccs_zero pl) (forked_world os ct (r_world r)) = (status, c, out, w)"
  shows "\<exists>r'. cheriostest_run_test pl os opt u ct r = Inr r' \<and>
    tally r' = record_verdict (spec_verdict pl ct (xfail_of ct) status c (Some (take 1023 out))) (tally r) \<and>
    tests_run r' = Suc (tests_run r)"
proof -
  let ?r = "if xfail_of ct \<noteq> None then (start_test pl ct r)\<lparr>expected_failures := expected_failures r + 1\<rparr>
     else start_test pl ct r"
  have "r_ccs ?r = ccs_zero pl" "r_world ?r = r_world r" "tally ?r = tally r" "tests_run ?r = tests_run r"
    by simp_all
  then show ?thesis
    unfolding run_test_forks [OF assms(2)]
    using run_forked_verdict [OF assms(1), of pl ct ?r status c out w "xfail_of ct"] assms(3) by simp
qed

section \<open>From the body of a test to its verdict\<close>

text \<open>The process in which the body runs: the handlers are installed, the page is empty.\<close>

definition child_ready :: "platform \<Rightarrow> 'w os \<Rightarrow> 'w \<Rightarrow> 'w pstate" where
  "child_ready pl os w = (forked_state (ccs_zero pl) w)
     \<lparr>p_sigaction := (\<lambda>n. if n \<in> set (harness_signals pl os) then SigHarness else SigDfl)\<rparr>"

lemma install_handlers:
  assumes "os_works opt os"
  shows "block (map (install_handler os) sigs) s =
    (Return (), s\<lparr>p_sigaction := (\<lambda>n. if n \<in> set sigs then SigHarness else p_sigaction s n)\<rparr>)"
  using assms
proof (induction sigs arbitrary: s)
  case (Cons a sigs)
  have "(\<lambda>n. if n \<in> set sigs then SigHarness else if n = a then SigHarness else p_sigaction s n) =
      (\<lambda>n. if n = a \<or> n \<in> set sigs then SigHarness else p_sigaction s n)"
    by auto
  moreover have "os_sigaction_ok os a (p_world s)"
    using Cons.prems by (simp add: os_works_def)
  ultimately show ?case
    using Cons by (simp add: bindP_def install_handler_def cong: if_cong)
qed (simp add: ret_def)

lemma child_main_ready:
  assumes "os_works opt os"
  shows "child_main pl os opt ct (forked_state (ccs_zero pl) w) =
    bindP (ct_func ct) (\<lambda>_. exitP 0) (child_ready pl os w)"
proof -
  have tail: "block ([dup2_or_err os 0, dup2_or_err os 1] @ only_if (qtrace opt) [set_thread_tracing os] @ ps) s = block ps s"
    for ps s
    using assms by (cases "qtrace opt") (simp_all add: bindP_def dup2_or_err_def set_thread_tracing_def os_works_def)
  have "block [ct_func ct, exitP 0] = bindP (ct_func ct) (\<lambda>_. exitP 0)"
    by (rule ext) (simp add: bindP_def exitP_def split: outcome.splits)
  moreover have "(forked_state (ccs_zero pl) w)\<lparr>p_sigaction := (\<lambda>n. if n \<in> set (harness_signals pl os)
      then SigHarness else p_sigaction (forked_state (ccs_zero pl) w) n)\<rparr> = child_ready pl os w"
    by (simp add: child_ready_def forked_state_def cong: if_cong)
  ultimately show ?thesis
    using tail [of "[ct_func ct, exitP 0]"]
    by (simp add: child_main_def child_setup_def block_append [of "map _ _"] bindP_def
        install_handlers [OF assms] del: append.simps block.simps)
qed

text \<open>How the child looks to the controller, by the outcome of the body.\<close>

lemma run_child_exited:
  assumes "os_works opt os" and "ct_func ct (child_ready pl os w) = (Exited n, s)" and "p_ccsp s = Some c"
  shows "run_child pl os opt ct (ccs_zero pl) w = (WExited (n mod 256), c, p_stdout s, os_join os w (p_world s))"
  using assms by (simp add: run_child_def child_main_ready bindP_def finish_process_def)

lemma run_child_trapped:
  assumes "os_works opt os" and "ct_func ct (child_ready pl os w) = (Trapped i, s)" and "p_ccsp s = Some c"
    and "p_sigaction s (si_signo i) = SigHarness"
  shows "run_child pl os opt ct (ccs_zero pl) w =
    (WExited EX_SOFTWARE, signal_handler pl i c, p_stdout s, os_join os w (p_world s))"
  using assms by (simp add: run_child_def child_main_ready bindP_def finish_process_def EX_SOFTWARE_def)

lemma run_child_killed:
  assumes "os_works opt os" and "ct_func ct (child_ready pl os w) = (Trapped i, s)" and "p_ccsp s = Some c"
    and "p_sigaction s (si_signo i) \<noteq> SigHarness"
  shows "run_child pl os opt ct (ccs_zero pl) w = (WSignaled (si_signo i), c, p_stdout s, os_join os w (p_world s))"
  using assms by (simp add: run_child_def child_main_ready bindP_def finish_process_def)

lemma run_child_returned:
  assumes "os_works opt os" and "ct_func ct (child_ready pl os w) = (Return (), s)" and "p_ccsp s = Some c"
  shows "run_child pl os opt ct (ccs_zero pl) w = (WExited 0, c, p_stdout s, os_join os w (p_world s))"
  using assms by (simp add: run_child_def child_main_ready bindP_def finish_process_def exitP_def)

section \<open>The document\<close>

text \<open>How many libxo elements are open.\<close>

fun xo_step :: "xo_event \<Rightarrow> int" where
  "xo_step (XoOpenContainer _) = 1"
| "xo_step (XoOpenList _) = 1"
| "xo_step (XoOpenInstance _) = 1"
| "xo_step (XoCloseContainer _) = - 1"
| "xo_step (XoCloseList _) = - 1"
| "xo_step (XoCloseInstance _) = - 1"
| "xo_step _ = 0"

definition xo_depth :: "xo_event list \<Rightarrow> int" where
  "xo_depth evs = sum_list (map xo_step evs)"

lemma xo_depth_simps [simp]:
  "xo_depth [] = 0" "xo_depth (e # es) = xo_step e + xo_depth es"
  "xo_depth (es @ fs) = xo_depth es + xo_depth fs"
  by (simp_all add: xo_depth_def)

lemma judge_depth: "xo_depth (r_xo (snd (judge pl os opt ct status out r))) = xo_depth (r_xo r)"
  by (auto simp: judge_def Let_def xo_def stdout_events_def only_if_def
      split: if_splits option.splits prod.splits)

lemma land_depth: "xo_depth (r_xo (land os opt ct xf fl j r)) = xo_depth (r_xo r) - 1"
  by (cases j) (auto simp: label_defs split: option.splits)

lemma run_forked_depth:
  assumes "run_forked pl os opt ct xf fl r = Inr r'"
  shows "xo_depth (r_xo r') = xo_depth (r_xo r) - 1"
proof -
  have "xo_depth (r_xo (land os opt ct xf fl j r1)) = xo_depth (r_xo r) - 1"
    if "judge pl os opt ct status out (r\<lparr>tests_run := n, r_ccs := c, r_world := w\<rparr>) = (j, r1)"
    for j r1 status out n c w
    using judge_depth [of pl os opt ct status out "r\<lparr>tests_run := n, r_ccs := c, r_world := w\<rparr>"] that
    by (simp add: land_depth)
  then show ?thesis
    using assms by (auto simp: run_forked_def land_depth split: if_splits option.splits prod.splits)
qed

lemma start_depth: "xo_depth (r_xo (start_test pl ct r)) = xo_depth (r_xo r) + 1"
  by (simp add: start_test_def xo_def)

lemma skip_depth: "xo_depth (r_xo (skip_label opt ct reason r)) = xo_depth (r_xo r) - 1"
  by (simp add: skip_label_def xo_def Let_def)

text \<open>A slow test left out under \<^verbatim>\<open>-f\<close>: the early \<^verbatim>\<open>return\<close>.\<close>

definition left_out :: "opts \<Rightarrow> 'w cheri_test \<Rightarrow> bool" where
  "left_out opt ct \<longleftrightarrow>
     find (begins_with (ct_name ct)) disallowed_prefixes = None \<and>
     fast_tests_only opt \<and> has_flag ct CT_FLAG_SLOW"

lemma run_test_cases:
  assumes "cheriostest_run_test pl os opt u ct r = Inr r'"
  obtains (left_out) "left_out opt ct" "r' = start_test pl ct r"
  | (prefix) reason where "\<not> left_out opt ct" "r' = land os opt ct None u (GotoFail reason) (start_test pl ct r)"
  | (skipped) reason where "\<not> left_out opt ct" "r' = skip_label opt ct reason (start_test pl ct r)"
  | (forked) e where "\<not> left_out opt ct"
      "run_forked pl os opt ct (xfail_of ct) (ct_flaky_reason ct) ((start_test pl ct r)\<lparr>expected_failures := e\<rparr>) = Inr r'"
proof (cases "find (begins_with (ct_name ct)) disallowed_prefixes")
  case (Some p)
  then show thesis using assms prefix by (auto simp: cheriostest_run_test_def Let_def left_out_def)
next
  case None
  have same: "start_test pl ct r = (start_test pl ct r)\<lparr>expected_failures := expected_failures r\<rparr>"
    by (simp add: start_test_def xo_def)
  consider "fast_tests_only opt \<and> has_flag ct CT_FLAG_SLOW"
    | reason f where "\<not> left_out opt ct" "ct_check_skip ct = Some f" "f (ct_name ct) (r_world r) = Some reason"
    | "\<not> left_out opt ct" "test_due opt ct (r_world r)"
    using None by (cases "ct_check_skip ct") (auto simp: left_out_def test_due_def)
  then show thesis
  proof cases
    case 1
    then show thesis using assms None left_out by (auto simp: cheriostest_run_test_def Let_def left_out_def)
  next
    case 2
    then show thesis using assms None skipped
      by (auto simp: cheriostest_run_test_def Let_def left_out_def)
  next
    case 3
    let ?e = "if xfail_of ct \<noteq> None then expected_failures r + 1 else expected_failures r"
    have "run_forked pl os opt ct (xfail_of ct) (ct_flaky_reason ct)
        ((start_test pl ct r)\<lparr>expected_failures := ?e\<rparr>) = Inr r'"
      using assms 3(2) by (cases "xfail_of ct") (simp_all add: run_test_forks same [symmetric])
    then show thesis using forked 3(1) by blast
  qed
qed

section \<open>Properties\<close>

text \<open>A system for the witnesses: every call succeeds, reading gives what was written.\<close>

definition quiet_os :: "'w os" where
  "quiet_os = \<lparr>os_pipe = (\<lambda>w. (True, w)), os_write = (\<lambda>t w. (int (length t), w)),
     os_read = (\<lambda>n t w. (Some (take n t), w)), os_errno = (\<lambda>_. 0), os_fork = (\<lambda>w. (42, w)),
     os_join = (\<lambda>w _. w), os_sigaction_ok = (\<lambda>_ _. True), os_dup2_ok = (\<lambda>_ _. True),
     os_set_nonblock_ok = (\<lambda>_. True), os_set_qtrace_ok = (\<lambda>_. True),
     os_strnvis = (\<lambda>n t. take (n - 1) t),
     sig_ALRM = 14, sig_PROT = 34, sig_SEGV = 11, sig_BUS = 10, sig_EMT = 7, sig_TRAP = 5\<rparr>"

lemma quiet_os_works [simp]: "os_works opt quiet_os"
  by (simp add: os_works_def quiet_os_def)

lemma quiet_os_worlds [simp]: "forked_world quiet_os ct w = w"
  by (simp add: forked_world_def quiet_os_def Let_def)

definition plain_opts :: opts where
  "plain_opts = \<lparr>is_execed_child = False, execed_child_has_extra_argv = False, o_list = False,
     run_all = True, fast_tests_only = False, qtrace = False, qtrace_user_mode_only = False,
     sleep_after_test = False, coredump_enabled = False, debugger_enabled = False, verbose = 0,
     o_glob = False, o_xml = False\<rparr>"

definition plain_test :: "string \<Rightarrow> (unit, unit) prog \<Rightarrow> unit cheri_test" where
  "plain_test n f = \<lparr>ct_name = n, ct_desc = n, ct_func = f, ct_child_func = None, ct_check_skip = None,
     ct_check_xfail = None, ct_flags = 0, ct_signum = 0, ct_si_code = 0, ct_si_trapno = 0,
     ct_stdin_string = [], ct_stdout_string = [], ct_xfail_reason = None, ct_flaky_reason = None\<rparr>"

definition new_runner :: "platform \<Rightarrow> unit runner" where
  "new_runner pl = \<lparr>cheri_skipped_tests = [], cheri_failed_tests = [], cheri_xfailed_tests = [],
     cheri_xpassed_tests = [], cheri_test_warnings = [], tests_run = 0, tests_skipped = 0,
     tests_failed = 0, tests_passed = 0, tests_xfailed = 0, tests_xpassed = 0, expected_failures = 0,
     r_ccs = ccs_zero pl, r_xo = [], r_world = ()\<rparr>"

lemma has_flag_plain [simp]: "\<not> has_flag (plain_test n f) g"
  by (simp add: has_flag_def plain_test_def)

lemma plain_test_sel [simp]:
  "ct_name (plain_test n f) = n" "ct_func (plain_test n f) = f" "xfail_of (plain_test n f) = None"
  "ct_flaky_reason (plain_test n f) = None" "ct_check_skip (plain_test n f) = None"
  by (simp_all add: plain_test_def xfail_of_def)

lemma plain_test_due [simp]:
  "test_due plain_opts (plain_test ''fault_example'' f) w" "\<not> left_out plain_opts (plain_test n f)"
  by (simp_all add: test_due_def left_out_def disallowed_prefixes_def begins_with_def)

lemma new_runner_inv [simp]: "runner_inv (new_runner pl)"
  by (simp add: new_runner_def runner_inv_def)

lemma new_runner_tally [simp]: "tally (new_runner pl) = (\<lambda>_. 0)"
proof (rule ext)
  show "tally (new_runner pl) v = 0" for v by (cases v) (simp_all add: new_runner_def)
qed

lemma child_ready_sel [simp]:
  "p_ccsp (child_ready pl os w) = Some (ccs_zero pl)" "p_stdout (child_ready pl os w) = []"
  by (simp_all add: child_ready_def forked_state_def)

text \<open>
  Every call of \<^verbatim>\<open>cheriostest_run_test\<close> that returns keeps the controller's books: each list of
  names is as long as its counter, no more tests were run than have ended, and the expected and
  the unexpected passes never exceed the number of expected failures.
\<close>

theorem run_test_keeps_inv:
  assumes "cheriostest_run_test pl os opt u ct r = Inr r'" and "runner_inv r"
  shows "runner_inv r'"
  using assms by (rule run_test.keeps_inv)

theorem run_test_keeps_inv_witness:
  "\<exists>r'. cheriostest_run_test morello_purecap quiet_os plain_opts None
      (plain_test ''fault_example'' cheriostest_success) (new_runner morello_purecap) = Inr r' \<and> runner_inv r'"
proof -
  obtain r' where "cheriostest_run_test morello_purecap quiet_os plain_opts None
      (plain_test ''fault_example'' cheriostest_success) (new_runner morello_purecap) = Inr r'"
    using run_test_verdict [OF quiet_os_works plain_test_due(1)] by (metis surj_pair)
  then show ?thesis using run_test_keeps_inv new_runner_inv by blast
qed

text \<open>
  C6: Every call that returns ends the test in exactly one way: one of the five tallies (passed,
  passed unexpectedly, failed, failed as expected, skipped) goes up by one and the others stay, and
  every libxo element it opened is closed. The one exception is a slow test under \<^verbatim>\<open>-f\<close>, which
  counts nowhere and leaves its \<^verbatim>\<open>testcase\<close> instance open.
\<close>

theorem run_test_one_verdict:
  assumes "cheriostest_run_test pl os opt u ct r = Inr r'"
  shows "if left_out opt ct
    then tally r' = tally r \<and> xo_depth (r_xo r') = xo_depth (r_xo r) + 1
    else (\<exists>v. tally r' = record_verdict v (tally r)) \<and> xo_depth (r_xo r') = xo_depth (r_xo r)"
  using assms
proof (cases rule: run_test_cases)
  case (forked e)
  then obtain j c x w n where "r' = land os opt ct (xfail_of ct) (ct_flaky_reason ct) j
      ((start_test pl ct r)\<lparr>expected_failures := e\<rparr>\<lparr>tests_run := n, r_ccs := c, r_xo := x, r_world := w\<rparr>)"
    using run_forked_shape by blast
  then have "tally r' = record_verdict (jump_verdict (xfail_of ct) (ct_flaky_reason ct) j) (tally r)"
    by (simp add: land_tally)
  then show ?thesis
    using forked(1) run_forked_depth [OF forked(2)] by (auto simp: start_depth)
qed (auto simp: land_tally skip_tally land_depth skip_depth start_depth)

theorem run_test_one_verdict_witness:
  "\<exists>r' v. cheriostest_run_test morello_purecap quiet_os plain_opts None
      (plain_test ''fault_example'' cheriostest_success) (new_runner morello_purecap) = Inr r' \<and>
    tally r' = record_verdict v (\<lambda>_. 0)"
proof -
  obtain r' where "cheriostest_run_test morello_purecap quiet_os plain_opts None
      (plain_test ''fault_example'' cheriostest_success) (new_runner morello_purecap) = Inr r'"
    using run_test_verdict [OF quiet_os_works plain_test_due(1)] by (metis surj_pair)
  then show ?thesis using run_test_one_verdict [of morello_purecap quiet_os plain_opts None] by fastforce
qed

text \<open>
  C5: The analysis after \<^verbatim>\<open>waitpid\<close> jumps to \<^verbatim>\<open>pass\<close> exactly when the child did what the test
  announces: it reported no failure, and either was killed by the announced signal
  (\<^verbatim>\<open>CT_FLAG_SIGEXIT\<close>), or exited with 0 or \<^verbatim>\<open>EX_SOFTWARE\<close>, with the announced signal, code, trap
  number and address, with a reported success unless a signal was announced, and the announced
  output. It jumps to \<^verbatim>\<open>fail\<close> with the excuses cleared exactly for a test that ended properly and
  reported neither success nor failure.
\<close>

theorem judge_correct:
  "(fst (judge pl os opt ct status out r) = GotoPass \<longleftrightarrow>
     test_passes pl ct status (r_ccs r) (fst (os_read os 1023 out (r_world r)))) \<and>
   ((\<exists>m. fst (judge pl os opt ct status out r) = GotoFailHarness m) \<longleftrightarrow>
     protocol_error pl ct status (r_ccs r))"
  by (simp add: judge_pass judge_harness)

text \<open>
  C3: \<^verbatim>\<open>cheriostest_run_test\<close> implements the abstract ledger: for a test that is due, on a system
  whose calls succeed, it returns, has run one more test, and records the verdict that the contract
  of the test gives for the child's status, its shared page and the first 1023 characters of its output.
\<close>

theorem run_test_refines:
  assumes "os_works opt os" and "test_due opt ct (r_world r)"
    and "run_child pl os opt ct (ccs_zero pl) (forked_world os ct (r_world r)) = (status, c, out, w)"
  shows "\<exists>r'. cheriostest_run_test pl os opt u ct r = Inr r' \<and>
    tally r' = record_verdict (spec_verdict pl ct (xfail_of ct) status c (Some (take 1023 out))) (tally r) \<and>
    tests_run r' = Suc (tests_run r)"
  using assms by (rule run_test_verdict)

lemma success_child:
  "run_child pl quiet_os plain_opts (plain_test n cheriostest_success) (ccs_zero pl) () =
     (WExited 0, (ccs_zero pl)\<lparr>ccs_testresult := TESTRESULT_SUCCESS, ccs_warn := False\<rparr>, [], ())"
  using run_child_exited [OF quiet_os_works, where ct = "plain_test n cheriostest_success" and n = 0 and w = "()"]
  by (simp add: cheriostest_success_def)

theorem run_test_refines_witness:
  "\<exists>r'. cheriostest_run_test morello_purecap quiet_os plain_opts None
      (plain_test ''fault_example'' cheriostest_success) (new_runner morello_purecap) = Inr r' \<and>
    tests_passed r' = 1 \<and> tests_failed r' = 0"
proof -
  have "spec_verdict morello_purecap (plain_test ''fault_example'' cheriostest_success) None (WExited 0)
      ((ccs_zero morello_purecap)\<lparr>ccs_testresult := TESTRESULT_SUCCESS, ccs_warn := False\<rparr>) (Some []) = Pass"
    by (simp add: spec_verdict_def test_passes_def exit_ok_def signal_as_announced_def
        output_as_announced_def ccs_zero_def harness_consts)
  then obtain r' where r': "cheriostest_run_test morello_purecap quiet_os plain_opts None
      (plain_test ''fault_example'' cheriostest_success) (new_runner morello_purecap) = Inr r'"
    and t: "tally r' = record_verdict Pass (\<lambda>_. 0)"
    using run_test_refines [OF quiet_os_works plain_test_due(1), of morello_purecap
        "cheriostest_success" "new_runner morello_purecap"] success_child [of morello_purecap "''fault_example''"]
    by fastforce
  have "tally r' Pass = 1" "tally r' Fail = 0" by (simp_all add: t record_verdict_def)
  then show ?thesis using r' by auto
qed

lemma run_test_declared_failure:
  assumes "os_works opt os" and "test_due opt ct (r_world r)"
    and "declares_failure (ct_func ct) (child_ready pl os (forked_world os ct (r_world r)))"
  shows "\<exists>r'. cheriostest_run_test pl os opt u ct r = Inr r' \<and>
    tally r' = record_verdict
      (if xfail_of ct = None \<and> ct_flaky_reason ct = None then Fail else XFail) (tally r)"
proof -
  let ?w = "forked_world os ct (r_world r)"
  obtain s c where s: "ct_func ct (child_ready pl os ?w) = (Exited EX_SOFTWARE, s)"
    and c: "p_ccsp s = Some c" "ccs_testresult c = TESTRESULT_FAILURE"
    using assms(3) by (cases "ct_func ct (child_ready pl os ?w)")
      (auto simp: declares_failure_def split: option.splits)
  have "spec_verdict pl ct (xfail_of ct) st c d =
      (if xfail_of ct = None \<and> ct_flaky_reason ct = None then Fail else XFail)" for st d
    using c(2) by (simp add: spec_verdict_def test_passes_def protocol_error_def)
  then show ?thesis
    using run_test_verdict [OF assms(1,2) run_child_exited [OF assms(1) s c(1)]] by fastforce
qed

text \<open>
  A test that comes back without having reported anything fails, even if it has a reason to be
  expected to fail: an \<^verbatim>\<open>xfail\<close> or \<^verbatim>\<open>flaky\<close> mark cannot hide a test that never ran its checks.
\<close>

theorem run_test_silent_body_fails:
  assumes "os_works opt os" and "test_due opt ct (r_world r)"
    and "ct_func ct (child_ready pl os (forked_world os ct (r_world r))) = (Return (), s)"
    and "p_ccsp s = Some (ccs_zero pl)" and "ct_flags ct = 0"
  shows "\<exists>r'. cheriostest_run_test pl os opt u ct r = Inr r' \<and> tally r' = record_verdict Fail (tally r)"
proof -
  have "spec_verdict pl ct xf (WExited 0) (ccs_zero pl) d = Fail" for xf d
    using assms(5) by (simp add: spec_verdict_def test_passes_def protocol_error_def has_flag_def
        exit_ok_def signal_as_announced_def ccs_zero_def harness_consts)
  then show ?thesis
    using run_test_verdict [OF assms(1,2) run_child_returned [OF assms(1,3,4)]] by fastforce
qed

theorem run_test_silent_body_fails_witness:
  "\<exists>r'. cheriostest_run_test morello_purecap quiet_os plain_opts None
      ((plain_test ''fault_example'' (ret ()))\<lparr>ct_xfail_reason := Some ''bug''\<rparr>)
      (new_runner morello_purecap) = Inr r' \<and> tally r' = record_verdict Fail (\<lambda>_. 0)"
proof -
  let ?ct = "(plain_test ''fault_example'' (ret ()))\<lparr>ct_xfail_reason := Some ''bug''\<rparr>"
  have "test_due plain_opts ?ct ()"
    using plain_test_due(1) [of "ret ()" "()"] by (simp add: test_due_def has_flag_def)
  moreover have "ct_func ?ct (child_ready morello_purecap quiet_os ()) =
      (Return (), child_ready morello_purecap quiet_os ())" "ct_flags ?ct = 0"
    by (simp_all add: ret_def plain_test_def)
  ultimately show ?thesis
    using run_test_silent_body_fails [OF quiet_os_works, of plain_opts ?ct "new_runner morello_purecap"
        morello_purecap "child_ready morello_purecap quiet_os ()"] by simp
qed

text \<open>
  What a body that ends by a signal of the harness leaves is what the entry announces: the signal and, where they are asked for, its
  code, its trap number and the address and tag that the test told the controller to expect.
\<close>

definition signal_announced :: "platform \<Rightarrow> 'w cheri_test \<Rightarrow> siginfo \<Rightarrow> child_state \<Rightarrow> bool" where
  "signal_announced pl ct i c \<longleftrightarrow>
     si_signo i = ct_signum ct \<and>
     (has_flag ct CT_FLAG_SI_CODE \<longrightarrow> si_code i = ct_si_code ct) \<and>
     (is_FreeBSD pl \<and> has_flag ct CT_FLAG_SI_TRAPNO \<longrightarrow> si_trapno i = ct_si_trapno ct) \<and>
     (has_flag ct CT_FLAG_SI_ADDR \<longrightarrow>
        cheri_ptr_equal_exact pl (ccs_si_addr_expected c) (if is_purecap pl then cheri_tag_clear (si_addr i) else si_addr i) \<and>
        ccs_si_addr_expected_tag c = (is_purecap pl \<and> cheri_tag_get (si_addr i)))"

text \<open>The verdict of a test with its excuses.\<close>

definition excused_verdict :: "'w cheri_test \<Rightarrow> bool \<Rightarrow> verdict" where
  "excused_verdict ct ok =
     (if ok then (if xfail_of ct = None then Pass else XPass)
      else if xfail_of ct = None \<and> ct_flaky_reason ct = None then Fail else XFail)"

lemma excused_verdict_plain [simp]:
  "xfail_of ct = None \<Longrightarrow> ct_flaky_reason ct = None \<Longrightarrow> excused_verdict ct ok = (if ok then Pass else Fail)"
  by (simp add: excused_verdict_def)

lemma signal_handler_page [simp]:
  "ccs_signum (signal_handler pl i c) = si_signo i" "ccs_si_code (signal_handler pl i c) = si_code i"
  "is_FreeBSD pl \<Longrightarrow> ccs_si_trapno (signal_handler pl i c) = si_trapno i"
  "ccs_testresult (signal_handler pl i c) = ccs_testresult c"
  "ccs_si_addr_expected (signal_handler pl i c) = ccs_si_addr_expected c"
  "ccs_si_addr_expected_tag (signal_handler pl i c) = ccs_si_addr_expected_tag c"
  "ccs_si_addr (signal_handler pl i c) = (if is_purecap pl then cheri_tag_clear (si_addr i) else si_addr i)"
  "ccs_si_addr_tag (signal_handler pl i c) = (is_purecap pl \<and> cheri_tag_get (si_addr i))"
  by (auto simp: signal_handler_def Let_def)

lemma signal_handler_as_announced:
  "has_flag ct CT_FLAG_SIGNAL \<Longrightarrow> signal_as_announced pl ct (signal_handler pl i c) \<longleftrightarrow> signal_announced pl ct i c"
  by (auto simp: signal_as_announced_def signal_announced_def simp del: not_FreeBSD)

lemma spec_verdict_signal:
  assumes "has_flag ct CT_FLAG_SIGNAL" "\<not> has_flag ct CT_FLAG_SIGEXIT"
  shows "spec_verdict pl ct (xfail_of ct) status c data = excused_verdict ct (ccs_testresult c \<noteq> TESTRESULT_FAILURE \<and>
    exit_ok status \<and> 0 \<le> ccs_signum c \<and> signal_as_announced pl ct c \<and> output_as_announced ct data)"
  using assms by (auto simp: spec_verdict_def test_passes_def protocol_error_def excused_verdict_def)

lemma signal_as_announced_signum:
  "has_flag ct CT_FLAG_SIGNAL \<Longrightarrow> signal_as_announced pl ct c \<Longrightarrow> ccs_signum c = ct_signum ct"
  by (simp add: signal_as_announced_def)

lemma run_test_announcing:
  assumes os: "os_works opt os" and due: "test_due opt ct (r_world r)"
    and flags: "has_flag ct CT_FLAG_SIGNAL" "\<not> has_flag ct CT_FLAG_SIGEXIT" and "0 < ct_signum ct"
    and body: "ct_func ct (child_ready pl os (forked_world os ct (r_world r))) = (out, s)" "out \<noteq> Undefined"
    and page: "p_ccsp s = Some c" "ccs_signum c = 0"
  shows "\<exists>r'. cheriostest_run_test pl os opt u ct r = Inr r' \<and>
    tally r' = record_verdict (excused_verdict ct
      (\<exists>i. out = Trapped i \<and> p_sigaction s (si_signo i) = SigHarness \<and> signal_announced pl ct i c \<and>
         ccs_testresult c \<noteq> TESTRESULT_FAILURE \<and> output_as_announced ct (Some (take 1023 (p_stdout s))))) (tally r)"
proof -
  note run = run_test_verdict [OF os due]
  have silent: "\<not> signal_as_announced pl ct c"
    using signal_as_announced_signum [OF flags(1)] page(2) assms(5) by fastforce
  show ?thesis
  proof (cases out)
    case (Return x)
    then show ?thesis
      using run [OF run_child_returned [OF os _ page(1)], of pl u] body(1) silent by (auto simp: spec_verdict_signal [OF flags])
  next
    case (Exited n)
    then show ?thesis
      using run [OF run_child_exited [OF os _ page(1)], of pl n u] body(1) silent by (auto simp: spec_verdict_signal [OF flags])
  next
    case (Trapped i)
    show ?thesis
    proof (cases "p_sigaction s (si_signo i) = SigHarness")
      case True
      have "(ok \<and> 0 \<le> si_signo i \<and> signal_announced pl ct i c \<and> out) = (signal_announced pl ct i c \<and> ok \<and> out)" for ok out
        using assms(5) by (auto simp: signal_announced_def)
      then show ?thesis
        using run [OF run_child_trapped [OF os _ page(1) True], of pl u] body(1) Trapped True
        by (auto simp: spec_verdict_signal [OF flags] signal_handler_as_announced [OF flags(1)] exit_ok_def conj_left_commute)
    next
      case False
      then show ?thesis
        using run [OF run_child_killed [OF os _ page(1) False], of pl u] body(1) Trapped
        by (auto simp: spec_verdict_signal [OF flags] exit_ok_def)
    qed
  qed (use body(2) in simp)
qed

lemma run_test_trapped:
  assumes "os_works opt os" and "test_due opt ct (r_world r)"
    and flags: "ct_flags ct = CT_FLAG_SIGNAL OR CT_FLAG_SI_CODE \<or> ct_flags ct = CT_FLAG_SIGNAL OR CT_FLAG_SI_CODE OR CT_FLAG_SI_TRAPNO"
    and "xfail_of ct = None" and "ct_flaky_reason ct = None"
    and body: "ct_func ct (child_ready pl os (forked_world os ct (r_world r))) = (Trapped i, s)"
    and s: "p_ccsp s = Some (ccs_zero pl)" "p_stdout s = []"
      "p_sigaction s = p_sigaction (child_ready pl os (forked_world os ct (r_world r)))"
    and "si_signo i \<in> set (harness_signals pl os)" and "0 \<le> si_signo i"
  shows "\<exists>r'. cheriostest_run_test pl os opt u ct r = Inr r' \<and>
    tally r' = record_verdict
      (if si_signo i = ct_signum ct \<and> si_code i = ct_si_code ct \<and>
          (is_FreeBSD pl \<and> has_flag ct CT_FLAG_SI_TRAPNO \<longrightarrow> si_trapno i = ct_si_trapno ct) then Pass else Fail) (tally r)"
proof -
  have harness: "p_sigaction s (si_signo i) = SigHarness"
    using assms(10) s(3) by (simp add: child_ready_def)
  have fl: "has_flag ct CT_FLAG_SIGNAL" "has_flag ct CT_FLAG_SI_CODE"
    "\<not> has_flag ct CT_FLAG_SIGEXIT" "\<not> has_flag ct CT_FLAG_SI_ADDR" "\<not> has_flag ct CT_FLAG_STDOUT_STRING"
    using flags by (auto simp: has_flag_def ct_flag_defs)
  have "spec_verdict pl ct None (WExited EX_SOFTWARE) (signal_handler pl i (ccs_zero pl)) (Some []) =
      (if si_signo i = ct_signum ct \<and> si_code i = ct_si_code ct \<and>
          (is_FreeBSD pl \<and> has_flag ct CT_FLAG_SI_TRAPNO \<longrightarrow> si_trapno i = ct_si_trapno ct) then Pass else Fail)"
    using spec_verdict_signal [OF fl(1,3), of pl "WExited EX_SOFTWARE" "signal_handler pl i (ccs_zero pl)" "Some []"] fl assms(4,5,11)
    by (simp add: signal_handler_as_announced signal_announced_def exit_ok_def output_as_announced_def del: not_FreeBSD)
      (auto simp: ccs_zero_def harness_consts simp del: not_FreeBSD)
  then show ?thesis
    using run_test_verdict [OF assms(1,2) run_child_trapped [OF assms(1) body s(1) harness], of u] assms(4) s(2)
    by (simp split del: if_split) blast
qed

text \<open>
  C8: For every test that is due and announces a signal (\<^verbatim>\<open>CT_FLAG_SIGNAL\<close>, not \<^verbatim>\<open>CT_FLAG_SIGEXIT\<close>, a positive number), on a system
  whose calls succeed, whatever its body does (short of undefined behaviour, and leaving the shared page there and its signal number
  alone): the test succeeds exactly when the body ends by a signal for which the harness's handler is still installed, without a failure
  declared before, the signal is the announced one, and so are, as far as the flags ask, its code, on CheriBSD its trap number, and its address
  and tag, and the output is what the entry announces. Success is recorded as \<^verbatim>\<open>PASS\<close>, or \<^verbatim>\<open>XPASS\<close> where a failure was expected; anything else,
  including a body that returns, exits or is killed, as \<^verbatim>\<open>FAIL\<close>, or \<^verbatim>\<open>XFAIL\<close> where a failure was expected or the test is flaky.
\<close>

theorem run_test_signal:
  assumes "os_works opt os" and "test_due opt ct (r_world r)"
    and "has_flag ct CT_FLAG_SIGNAL" and "\<not> has_flag ct CT_FLAG_SIGEXIT" and "0 < ct_signum ct"
    and "ct_func ct (child_ready pl os (forked_world os ct (r_world r))) = (out, s)" and "out \<noteq> Undefined"
    and "p_ccsp s = Some c" and "ccs_signum c = 0"
  shows "\<exists>r'. cheriostest_run_test pl os opt u ct r = Inr r' \<and>
    tally r' = record_verdict (excused_verdict ct
      (\<exists>i. out = Trapped i \<and> p_sigaction s (si_signo i) = SigHarness \<and> signal_announced pl ct i c \<and>
         ccs_testresult c \<noteq> TESTRESULT_FAILURE \<and> output_as_announced ct (Some (take 1023 (p_stdout s))))) (tally r)"
  using assms by (rule run_test_announcing)

definition segv_example :: siginfo where
  "segv_example = \<lparr>si_signo = 11, si_code = 2, si_trapno = 0, si_addr = cap_null morello_linux\<rparr>"

definition segv_test :: "unit cheri_test" where
  "segv_test = (plain_test ''fault_example'' (trap segv_example))
     \<lparr>ct_flags := CT_FLAG_SIGNAL OR CT_FLAG_SI_CODE OR CT_FLAG_SI_TRAPNO, ct_signum := 11, ct_si_code := 2\<rparr>"

theorem run_test_signal_witness:
  "\<exists>r'. cheriostest_run_test morello_linux quiet_os plain_opts None segv_test (new_runner morello_linux) = Inr r' \<and>
    tally r' = record_verdict Pass (\<lambda>_. 0)"
proof -
  have "test_due plain_opts segv_test ()"
    using plain_test_due(1) [of "trap segv_example" "()"]
    by (simp add: segv_test_def test_due_def plain_opts_def)
  moreover have "ct_func segv_test s = (Trapped segv_example, s)" "has_flag segv_test CT_FLAG_SIGNAL" "\<not> has_flag segv_test CT_FLAG_SIGEXIT"
    "\<not> has_flag segv_test CT_FLAG_SI_ADDR" "\<not> has_flag segv_test CT_FLAG_STDOUT_STRING"
    "xfail_of segv_test = None" "ct_flaky_reason segv_test = None" "ct_signum segv_test = 11" "ct_si_code segv_test = 2" "ct_si_trapno segv_test = 0" for s
    by (simp_all add: segv_test_def trap_def plain_test_def xfail_of_def has_flag_def ct_flag_defs)
  moreover have "p_sigaction (child_ready morello_linux quiet_os ()) 11 = SigHarness"
    by (simp add: child_ready_def harness_signals_def quiet_os_def)
  ultimately show ?thesis
    using run_test_signal [OF quiet_os_works, of plain_opts segv_test "new_runner morello_linux" morello_linux
        "Trapped segv_example" "child_ready morello_linux quiet_os ()" "ccs_zero morello_linux" None]
    by (simp add: signal_announced_def output_as_announced_def segv_example_def ccs_zero_def harness_consts)
qed

text \<open>
  A test whose name has a disallowed prefix is reported, but how depends on the value that the
  variable \<^verbatim>\<open>flaky_reason\<close> happens to hold, which is not initialised on that path: a null pointer
  makes the test fail, any other value turns it into an expected failure.
\<close>

theorem run_test_prefix_uninitialised:
  assumes "find (begins_with (ct_name ct)) disallowed_prefixes = Some p"
  shows "\<exists>r1 r2. cheriostest_run_test pl os opt None ct r = Inr r1 \<and>
    cheriostest_run_test pl os opt (Some g) ct r = Inr r2 \<and>
    tally r1 = record_verdict Fail (tally r) \<and> tally r2 = record_verdict XFail (tally r)"
  using assms by (simp add: cheriostest_run_test_def Let_def land_tally jump_verdict_def)

theorem run_test_prefix_uninitialised_witness:
  "\<exists>r1 r2. cheriostest_run_test morello_purecap quiet_os plain_opts None
      (plain_test ''test_x'' cheriostest_success) (new_runner morello_purecap) = Inr r1 \<and>
    cheriostest_run_test morello_purecap quiet_os plain_opts (Some ''garbage'')
      (plain_test ''test_x'' cheriostest_success) (new_runner morello_purecap) = Inr r2 \<and>
    tests_failed r1 = 1 \<and> tests_failed r2 = 0"
proof -
  have "find (begins_with (ct_name (plain_test ''test_x'' cheriostest_success))) disallowed_prefixes = Some ''test_''"
    by (simp add: disallowed_prefixes_def begins_with_def)
  from run_test_prefix_uninitialised [OF this, of morello_purecap quiet_os plain_opts
      "new_runner morello_purecap" "''garbage''"]
  obtain r1 r2 where r: "cheriostest_run_test morello_purecap quiet_os plain_opts None
      (plain_test ''test_x'' cheriostest_success) (new_runner morello_purecap) = Inr r1"
    "cheriostest_run_test morello_purecap quiet_os plain_opts (Some ''garbage'')
      (plain_test ''test_x'' cheriostest_success) (new_runner morello_purecap) = Inr r2"
    and t: "tally r1 = record_verdict Fail (\<lambda>_. 0)" "tally r2 = record_verdict XFail (\<lambda>_. 0)"
    by auto
  have "tally r1 Fail = 1" "tally r2 Fail = 0" by (simp_all add: t record_verdict_def)
  then show ?thesis using r by auto
qed

end
