(* ===== verification/Exec.thy ===== *)
theory Exec
  imports Runner
begin

text \<open>
  How a test starts a second copy of the program, and where it looks for its helpers: the path of
  the executable, the argument vector of the copy, \<^verbatim>\<open>cheriostest_spawn_child_args\<close> and the helper
  paths of \<^verbatim>\<open>cheriostest.c\<close>. Arrays have their C capacity: a store past the end is the result
  \<open>COverflow\<close>.
\<close>

section \<open>The executable's path\<close>

datatype 'a cres = COk 'a | CExit int | COverflow

text \<open>What the system says: \<^verbatim>\<open>readlink\<close>, \<^verbatim>\<open>elf_aux_info\<close>, \<^verbatim>\<open>malloc\<close>, \<^verbatim>\<open>calloc\<close>; \<open>None\<close> is failure.\<close>

record exec_env =
  PATH_MAX :: nat
  readlink_self_exe :: "string option"
  elf_aux_execpath :: "string option"
  malloc_ok :: bool
  calloc_ok :: bool

text \<open>
  \<^verbatim>\<open>get_execpath\<close> into a buffer of \<open>room\<close> bytes. \<^verbatim>\<open>readlink\<close> fills up to \<^verbatim>\<open>PATH_MAX\<close> bytes and
  does not terminate, so the terminator goes to index \<^verbatim>\<open>len\<close>; \<^verbatim>\<open>elf_aux_info\<close> fails when path and
  terminator need more than \<^verbatim>\<open>PATH_MAX\<close> bytes.
\<close>

definition get_execpath :: "platform \<Rightarrow> exec_env \<Rightarrow> nat \<Rightarrow> string cres" where
  "get_execpath pl ee room =
     (if is_linux pl
      then (case readlink_self_exe ee of
              None \<Rightarrow> CExit EX_OSERR
            | Some t \<Rightarrow> (let s = take (PATH_MAX ee) t in if length s < room then COk s else COverflow))
      else (case elf_aux_execpath ee of
              None \<Rightarrow> CExit EX_OSERR
            | Some t \<Rightarrow> if length t < PATH_MAX ee
                then (if length t < room then COk t else COverflow)
                else CExit EX_OSERR))"

section \<open>The argument vector\<close>

text \<open>Stores \<^verbatim>\<open>exec_args[argc++] = v\<close> into an array of \<open>cap\<close> elements; \<open>None\<close> is \<^verbatim>\<open>NULL\<close>.\<close>

fun store_args :: "nat \<Rightarrow> string option list \<Rightarrow> string option list \<Rightarrow> string option list cres" where
  "store_args cap xs [] = COk xs"
| "store_args cap xs (v # vs) = (if length xs < cap then store_args cap (xs @ [v]) vs else COverflow)"

definition exec_arg_list :: "opts \<Rightarrow> string \<Rightarrow> string \<Rightarrow> string list \<Rightarrow> string option list" where
  "exec_arg_list opt execpath name extra_args =
     [Some execpath, Some ''-E''] @ only_if (length extra_args > 0) [Some ''-K''] @
     only_if (coredump_enabled opt) [Some ''-c''] @ only_if (verbose opt > 0) [Some ''-v''] @
     [Some name] @ map Some extra_args @ [None]"

definition mk_exec_args :: "platform \<Rightarrow> exec_env \<Rightarrow> opts \<Rightarrow> string \<Rightarrow> string list \<Rightarrow> string option list cres" where
  "mk_exec_args pl ee opt name extra_args =
     (if \<not> malloc_ok ee then CExit EX_OSERR
      else if \<not> calloc_ok ee then CExit EX_OSERR
      else case get_execpath pl ee (PATH_MAX ee) of
        CExit e \<Rightarrow> CExit e
      | COverflow \<Rightarrow> COverflow
      | COk execpath \<Rightarrow> store_args (6 + length extra_args) [] (exec_arg_list opt execpath name extra_args))"

section \<open>Spawning\<close>

datatype spawn_child_mode = SC_MODE_POSIX_SPAWN | SC_MODE_FORK | SC_MODE_VFORK | SC_MODE_RFORK

text \<open>\<^verbatim>\<open>posix_spawn\<close> gives an error number and the child's id; the forks a process id, \<^verbatim>\<open>-1\<close> or 0.\<close>

record spawn_env =
  sp_environ :: "string list"
  sp_posix_spawn :: "string \<Rightarrow> string option list \<Rightarrow> string list option \<Rightarrow> int \<times> int"
  sp_fork :: int
  sp_vfork :: int
  sp_rfork :: int

datatype spawned = InParent int | InChildExec string "string option list" "string list option"

definition spawn_pid ::
  "platform \<Rightarrow> spawn_env \<Rightarrow> spawn_child_mode \<Rightarrow> string option list \<Rightarrow> string list option \<Rightarrow> int" where
  "spawn_pid pl se mode exec_args envv = (case mode of
       SC_MODE_POSIX_SPAWN \<Rightarrow>
         (case sp_posix_spawn se (the (hd exec_args)) exec_args
            (Some (case envv of None \<Rightarrow> sp_environ se | Some e \<Rightarrow> e)) of
            (error, pid) \<Rightarrow> if error \<noteq> 0 then - 1 else pid)
     | SC_MODE_FORK \<Rightarrow> sp_fork se
     | SC_MODE_RFORK \<Rightarrow> if is_FreeBSD pl then sp_rfork se else - 1
     | SC_MODE_VFORK \<Rightarrow> sp_vfork se)"

definition cheriostest_spawn_child_args ::
  "platform \<Rightarrow> exec_env \<Rightarrow> spawn_env \<Rightarrow> opts \<Rightarrow> string \<Rightarrow> spawn_child_mode \<Rightarrow> string list \<Rightarrow> string list option \<Rightarrow> spawned cres" where
  "cheriostest_spawn_child_args pl ee se opt running mode argv envv =
     (case mk_exec_args pl ee opt running argv of
        CExit e \<Rightarrow> CExit e
      | COverflow \<Rightarrow> COverflow
      | COk exec_args \<Rightarrow>
          (let pid = spawn_pid pl se mode exec_args envv
           in if pid = - 1 then CExit EX_OSERR
              else if mode \<noteq> SC_MODE_POSIX_SPAWN \<and> pid = 0
              then COk (InChildExec (the (hd exec_args)) exec_args envv)
              else COk (InParent pid)))"

definition cheriostest_spawn_child ::
  "platform \<Rightarrow> exec_env \<Rightarrow> spawn_env \<Rightarrow> opts \<Rightarrow> string \<Rightarrow> spawn_child_mode \<Rightarrow> spawned cres" where
  "cheriostest_spawn_child pl ee se opt running mode =
     cheriostest_spawn_child_args pl ee se opt running mode [] None"

section \<open>Helpers\<close>

text \<open>\<open>cached\<close> is the static buffer \<^verbatim>\<open>helper_dir\<close>; the result is its new content.\<close>

definition cheriostest_get_helper_dir :: "platform \<Rightarrow> exec_env \<Rightarrow> string \<Rightarrow> string cres" where
  "cheriostest_get_helper_dir pl ee cached =
     (if cached \<noteq> [] then COk cached
      else case get_execpath pl ee (PATH_MAX ee + 1) of
        CExit e \<Rightarrow> CExit e
      | COverflow \<Rightarrow> COverflow
      | COk execpath \<Rightarrow>
          (let dir = (case before_last (CHR ''/'') execpath of None \<Rightarrow> ''.'' | Some d \<Rightarrow> d)
           in COk (take (PATH_MAX ee) (dir @ ''/'' @ pl_HELPER_RELDIR pl))))"

definition cheriostest_get_helper_path :: "platform \<Rightarrow> exec_env \<Rightarrow> string \<Rightarrow> string option \<Rightarrow> string option cres" where
  "cheriostest_get_helper_path pl ee cached running =
     (case running of
        None \<Rightarrow> COk None
      | Some name \<Rightarrow>
          (case cheriostest_get_helper_dir pl ee cached of
             CExit e \<Rightarrow> CExit e
           | COverflow \<Rightarrow> COverflow
           | COk dir \<Rightarrow> COk (Some (take (PATH_MAX ee - 1) (dir @ ''/'' @ name @ pl_PROG_SUFFIX pl)))))"

definition cheriostest_skip_no_helper :: "platform \<Rightarrow> exec_env \<Rightarrow> string \<Rightarrow> (string \<Rightarrow> bool) \<Rightarrow> string option \<Rightarrow> string option cres" where
  "cheriostest_skip_no_helper pl ee cached stat_ok ct =
     (case cheriostest_get_helper_path pl ee cached ct of
        CExit e \<Rightarrow> CExit e
      | COverflow \<Rightarrow> COverflow
      | COk (Some path) \<Rightarrow> COk (if \<not> stat_ok path then Some (''couldn'' @ [CHR 0x27] @ ''t stat helper'') else None)
      | COk None \<Rightarrow> COk None)"

section \<open>Properties\<close>

lemma store_args_append:
  "store_args cap xs vs = (if vs = [] \<or> length xs + length vs \<le> cap then COk (xs @ vs) else COverflow)"
  by (induction vs arbitrary: xs) auto

lemma exec_arg_list_length:
  "length (exec_arg_list opt path name extra) =
     4 + length extra + (if extra \<noteq> [] then 1 else 0) + (if coredump_enabled opt then 1 else 0) +
     (if verbose opt > 0 then 1 else 0)"
  by (simp add: exec_arg_list_def only_if_def)

lemma mk_exec_args_cases:
  assumes "malloc_ok ee" "calloc_ok ee" "get_execpath pl ee (PATH_MAX ee) = COk path"
  shows "mk_exec_args pl ee opt name extra =
    (if extra \<noteq> [] \<and> coredump_enabled opt \<and> verbose opt > 0 then COverflow
     else COk (exec_arg_list opt path name extra))"
proof -
  have "exec_arg_list opt path name extra \<noteq> []" by (simp add: exec_arg_list_def)
  then show ?thesis using assms by (auto simp: mk_exec_args_def store_args_append exec_arg_list_length)
qed

definition bsd_exec_env :: exec_env where
  "bsd_exec_env = \<lparr>PATH_MAX = 1024, readlink_self_exe = None,
     elf_aux_execpath = Some ''/usr/bin/cheriostest-purecap'', malloc_ok = True, calloc_ok = True\<rparr>"

definition debug_opts :: opts where
  "debug_opts = \<lparr>is_execed_child = False, execed_child_has_extra_argv = False, o_list = False,
     run_all = True, fast_tests_only = False, qtrace = False, qtrace_user_mode_only = False,
     sleep_after_test = False, coredump_enabled = True, debugger_enabled = False, verbose = 1,
     o_glob = False, o_xml = False\<rparr>"

text \<open>
  C15: Once the path is known, \<^verbatim>\<open>mk_exec_args\<close> writes past the end of its argument array exactly when
  extra arguments, core dumps and verbosity come together: the array has six elements and one per
  extra argument, but up to seven and one per extra argument are stored.
\<close>

theorem mk_exec_args_overflow_iff:
  assumes "malloc_ok ee" "calloc_ok ee" "get_execpath pl ee (PATH_MAX ee) = COk path"
  shows "mk_exec_args pl ee opt name extra = COverflow \<longleftrightarrow>
    extra \<noteq> [] \<and> coredump_enabled opt \<and> verbose opt > 0"
  using mk_exec_args_cases [OF assms] by simp

theorem mk_exec_args_overflow_iff_witness:
  "mk_exec_args morello_purecap bsd_exec_env debug_opts ''t'' [''x''] = COverflow"
proof -
  have "malloc_ok bsd_exec_env" "calloc_ok bsd_exec_env"
    "get_execpath morello_purecap bsd_exec_env (PATH_MAX bsd_exec_env) = COk ''/usr/bin/cheriostest-purecap''"
    by (simp_all add: bsd_exec_env_def get_execpath_def is_linux_def morello_purecap_def)
  from mk_exec_args_overflow_iff [OF this, of debug_opts] show ?thesis by (simp add: debug_opts_def)
qed

text \<open>
  \<^verbatim>\<open>get_execpath\<close> into a buffer of \<^verbatim>\<open>PATH_MAX + 1\<close> bytes, as \<^verbatim>\<open>cheriostest_get_helper_dir\<close> calls
  it, never overflows; into one of \<^verbatim>\<open>PATH_MAX\<close> bytes, as \<^verbatim>\<open>mk_exec_args\<close> calls it, it does exactly on
  Linux when the link is at least \<^verbatim>\<open>PATH_MAX\<close> bytes long.
\<close>

theorem get_execpath_room:
  "get_execpath pl ee (PATH_MAX ee + 1) \<noteq> COverflow \<and>
   (get_execpath pl ee (PATH_MAX ee) = COverflow \<longleftrightarrow>
      is_linux pl \<and> (case readlink_self_exe ee of None \<Rightarrow> False | Some t \<Rightarrow> PATH_MAX ee \<le> length t))"
  by (auto simp: get_execpath_def Let_def split: option.splits)

lemma before_last_append:
  "c \<notin> set b \<Longrightarrow> before_last c (a @ c # b) = Some a"
  by (subgoal_tac "dropWhile (\<lambda>x. x \<noteq> c) (rev b @ c # rev a) = c # rev a")
    (auto simp: before_last_def intro: dropWhile_append2 [THEN trans])

text \<open>
  A helper is looked for in the directory \<^verbatim>\<open>CHERIOSTEST_HELPER_RELDIR\<close> relative to the one of the
  running executable, under the name of the test and the program's suffix, whenever the path fits;
  the result is the same when the directory was cached before.
\<close>

theorem helper_path_correct:
  assumes "get_execpath pl ee (PATH_MAX ee + 1) = COk (dir @ ''/'' @ prog)" and "CHR ''/'' \<notin> set prog"
    and "length (dir @ ''/'' @ pl_HELPER_RELDIR pl @ ''/'' @ name @ pl_PROG_SUFFIX pl) < PATH_MAX ee"
  shows "cheriostest_get_helper_dir pl ee [] = COk (dir @ ''/'' @ pl_HELPER_RELDIR pl) \<and>
    (\<forall>cached \<in> {[], dir @ ''/'' @ pl_HELPER_RELDIR pl}.
      cheriostest_get_helper_path pl ee cached (Some name) =
        COk (Some (dir @ ''/'' @ pl_HELPER_RELDIR pl @ ''/'' @ name @ pl_PROG_SUFFIX pl)))"
proof -
  have "before_last (CHR ''/'') (dir @ ''/'' @ prog) = Some dir"
    using before_last_append [OF assms(2)] by simp
  then have dir: "cheriostest_get_helper_dir pl ee [] = COk (dir @ ''/'' @ pl_HELPER_RELDIR pl)"
    using assms(1,3) by (simp add: cheriostest_get_helper_dir_def)
  have cached: "cheriostest_get_helper_dir pl ee (dir @ ''/'' @ x) = COk (dir @ ''/'' @ x)" for x
    by (simp add: cheriostest_get_helper_dir_def)
  show ?thesis using assms(3) dir cached by (auto simp: cheriostest_get_helper_path_def)
qed

theorem helper_path_correct_witness:
  "cheriostest_get_helper_path morello_purecap bsd_exec_env [] (Some ''t'') =
     COk (Some ''/usr/bin/../libexec/t-purecap'')"
proof -
  have "get_execpath morello_purecap bsd_exec_env (PATH_MAX bsd_exec_env + 1) =
      COk (''/usr/bin'' @ ''/'' @ ''cheriostest-purecap'')"
    by (simp add: bsd_exec_env_def get_execpath_def is_linux_def morello_purecap_def)
  from helper_path_correct [OF this, of "''t''"] show ?thesis
    by (simp add: bsd_exec_env_def morello_purecap_def)
qed

end
