(* ===== verification/Driver.thy ===== *)
theory Driver
  imports Verdict Exec
begin

text \<open>
  The program's \<^verbatim>\<open>main\<close>: options, their validation, listing the tests, choosing which tests to
  run, the summary and the exit status; and the two look-ups by name,
  \<^verbatim>\<open>cheriostest_run_test_name\<close> and \<^verbatim>\<open>cheriostest_run_child_name\<close>.
\<close>

section \<open>Options\<close>

text \<open>
  \<^verbatim>\<open>getopt\<close> with the option string of \<^verbatim>\<open>main\<close>, none of whose options takes an argument: letters
  of arguments that begin with a dash, up to \<^verbatim>\<open>--\<close> or the first operand; a letter that is not in
  the string comes back as a question mark. The result is the options and the operands.
\<close>

definition optstring :: string where
  "optstring = ''acdEfgKlQqsuvx''"

definition opt_letter :: "char \<Rightarrow> char" where
  "opt_letter c = (if c \<in> set optstring then c else CHR ''?'')"

fun getopt :: "string list \<Rightarrow> char list \<times> string list" where
  "getopt [] = ([], [])"
| "getopt (arg # args) =
     (if arg = ''--'' then ([], args)
      else if begins_with arg ''-'' \<and> arg \<noteq> ''-''
      then (case getopt args of (letters, operands) \<Rightarrow> (map opt_letter (tl arg) @ letters, operands))
      else ([], arg # args))"

text \<open>
  The environment of \<^verbatim>\<open>main\<close>: libxo's own arguments, the sysctl (\<open>None\<close>: it fails), the registered
  tests in order, \<^verbatim>\<open>fnmatch\<close>, and whether the set-up calls succeed.
\<close>

record 'w main_env =
  me_xo_parse_args :: "string list \<Rightarrow> string list option"
  me_qemu_trace_perthread :: "nat option"
  me_tests :: "'w cheri_test list"
  me_fnmatch :: "string \<Rightarrow> string \<Rightarrow> bool"
  me_mmap_stack_ok :: bool
  me_sigaltstack_ok :: bool
  me_page_fits :: bool
  me_mmap_page_ok :: bool
  me_setrlimit_ok :: bool

definition EINVAL :: int where "EINVAL = 22"

definition qtrace_option :: "platform \<Rightarrow> 'w main_env \<Rightarrow> opts \<Rightarrow> int + opts" where
  "qtrace_option pl me opt =
     (if is_FreeBSD pl
      then (case me_qemu_trace_perthread me of
              None \<Rightarrow> Inl EX_OSERR
            | Some v \<Rightarrow> if v = 0 then Inl EX_USAGE else Inr (opt\<lparr>qtrace := True\<rparr>))
      else Inl EINVAL)"

definition apply_option :: "platform \<Rightarrow> 'w main_env \<Rightarrow> char \<Rightarrow> opts \<Rightarrow> int + opts" where
  "apply_option pl me c opt =
     (if c = CHR ''a'' then Inr (opt\<lparr>run_all := True\<rparr>)
      else if c = CHR ''c'' then Inr (opt\<lparr>coredump_enabled := True\<rparr>)
      else if c = CHR ''d'' then Inr (opt\<lparr>debugger_enabled := True\<rparr>)
      else if c = CHR ''E'' then Inr (opt\<lparr>is_execed_child := True\<rparr>)
      else if c = CHR ''f'' then Inr (opt\<lparr>fast_tests_only := True\<rparr>)
      else if c = CHR ''g'' then Inr (opt\<lparr>o_glob := True\<rparr>)
      else if c = CHR ''K'' then Inr (opt\<lparr>execed_child_has_extra_argv := True\<rparr>)
      else if c = CHR ''l'' then Inr (opt\<lparr>o_list := True\<rparr>)
      else if c = CHR ''Q'' then qtrace_option pl me (if is_FreeBSD pl then opt\<lparr>qtrace_user_mode_only := True\<rparr> else opt)
      else if c = CHR ''q'' then qtrace_option pl me opt
      else if c = CHR ''s'' then Inr (opt\<lparr>sleep_after_test := True\<rparr>)
      else if c = CHR ''v'' then Inr (opt\<lparr>verbose := verbose opt + 1\<rparr>)
      else if c = CHR ''x'' then Inr (opt\<lparr>o_xml := True\<rparr>)
      else Inl EX_USAGE)"

fun apply_options :: "platform \<Rightarrow> 'w main_env \<Rightarrow> char list \<Rightarrow> opts \<Rightarrow> int + opts" where
  "apply_options pl me [] opt = Inr opt"
| "apply_options pl me (c # cs) opt =
     (case apply_option pl me c opt of Inl e \<Rightarrow> Inl e | Inr opt' \<Rightarrow> apply_options pl me cs opt')"

definition no_opts :: opts where
  "no_opts = \<lparr>is_execed_child = False, execed_child_has_extra_argv = False, o_list = False,
     run_all = False, fast_tests_only = False, qtrace = False, qtrace_user_mode_only = False,
     sleep_after_test = False, coredump_enabled = False, debugger_enabled = False, verbose = 0,
     o_glob = False, o_xml = False\<rparr>"

text \<open>What is to be done, after the checks on the combination of options; \<open>argc\<close> counts the operands.\<close>

datatype task = Usage | ListTests | RunChild | RunTests

definition choose_task :: "opts \<Rightarrow> nat \<Rightarrow> task" where
  "choose_task opt argc =
     (if execed_child_has_extra_argv opt \<and> \<not> is_execed_child opt then Usage
      else if is_execed_child opt \<and> (run_all opt \<or> o_glob opt \<or> o_list opt) then Usage
      else if is_execed_child opt \<and> argc \<noteq> 1 \<and> \<not> execed_child_has_extra_argv opt then Usage
      else if run_all opt \<and> o_list opt then Usage
      else if run_all opt \<and> o_glob opt then Usage
      else if o_list opt then (if argc = 0 then ListTests else Usage)
      else if argc = 0 \<and> \<not> run_all opt then Usage
      else if argc > 0 \<and> run_all opt then Usage
      else if is_execed_child opt then RunChild
      else RunTests)"

section \<open>Listing\<close>

definition list_test :: "opts \<Rightarrow> 'w cheri_test \<Rightarrow> xo_event list" where
  "list_test opt ct =
     (if fast_tests_only opt \<and> has_flag ct CT_FLAG_SLOW then []
      else [XoOpenInstance ''testcase'',
            (if verbose opt > 0
             then XoEmit ''{cw:name/%s}{:description/%s}'' [FStr (ct_name ct), FStr (ct_desc ct)]
             else XoEmit ''{:name/%s}{e:description/%s}'' [FStr (ct_name ct), FStr (ct_desc ct)])] @
           (case xfail_of ct of None \<Rightarrow> []
            | Some reason \<Rightarrow> [XoEmit ''{e:expected-failure-reason/%s}'' [FStr reason]]) @
           only_if (has_flag ct CT_FLAG_SLOW) [XoEmit ''{e:timeout/%s}'' [FStr ''LONG'']] @
           [XoEmit ''\<newline>'' [], XoCloseInstance ''testcase''])"

definition list_tests :: "platform \<Rightarrow> opts \<Rightarrow> 'w cheri_test list \<Rightarrow> xo_event list" where
  "list_tests pl opt tests =
     [XoAttr ''name'' ''%s'' [FStr (pl_PROG pl)], XoOpenContainer ''testsuite'', XoOpenList ''testcase''] @
     concat (map (list_test opt) tests) @
     [XoCloseList ''testcase'', XoCloseContainer ''testsuite'', XoFinish]"

section \<open>Look-up by name\<close>

fun cheriostest_run_test_name ::
  "('w cheri_test \<Rightarrow> 'w runner \<Rightarrow> int + 'w runner) \<Rightarrow> 'w cheri_test list \<Rightarrow> string \<Rightarrow> 'w runner \<Rightarrow> int + 'w runner" where
  "cheriostest_run_test_name run [] name r = Inl EX_USAGE"
| "cheriostest_run_test_name run (ct # cts) name r =
     (if name = ct_name ct then run ct r else cheriostest_run_test_name run cts name r)"

definition cheriostest_run_child :: "'w cheri_test \<Rightarrow> ('w, unit) prog" where
  "cheriostest_run_child ct =
     (case ct_child_func ct of
        None \<Rightarrow> exitP EX_SOFTWARE
      | Some f \<Rightarrow> bindP f (\<lambda>_. exitP EX_SOFTWARE))"

fun cheriostest_run_child_name :: "'w cheri_test list \<Rightarrow> string \<Rightarrow> ('w, unit) prog" where
  "cheriostest_run_child_name [] name = exitP EX_USAGE"
| "cheriostest_run_child_name (ct # cts) name =
     (if name = ct_name ct
      then bindP (cheriostest_run_child ct) (\<lambda>_. cheriostest_run_child_name cts name)
      else cheriostest_run_child_name cts name)"

section \<open>Running the chosen tests\<close>

definition glob_step ::
  "('w cheri_test \<Rightarrow> 'w runner \<Rightarrow> int + 'w runner) \<Rightarrow> 'w main_env \<Rightarrow> string \<Rightarrow> 'w runner \<Rightarrow> int + 'w runner" where
  "glob_step run me pattern r = run_seq run (filter (\<lambda>ct. me_fnmatch me pattern (ct_name ct)) (me_tests me)) r"

definition run_chosen ::
  "('w cheri_test \<Rightarrow> 'w runner \<Rightarrow> int + 'w runner) \<Rightarrow> 'w main_env \<Rightarrow> opts \<Rightarrow> string list \<Rightarrow> 'w runner \<Rightarrow> int + 'w runner" where
  "run_chosen run me opt argv r =
     (if run_all opt then run_seq run (me_tests me) r
      else if o_glob opt then run_seq (glob_step run me) argv r
      else run_seq (cheriostest_run_test_name run (me_tests me)) argv r)"

definition name_lines :: "string \<Rightarrow> string list \<Rightarrow> xo_event list" where
  "name_lines header names =
     only_if (names \<noteq> []) (XoEmit header [] # map (\<lambda>n. XoEmit ''  {d:%s}\<newline>'' [FStr n]) names)"

text \<open>The macro \<^verbatim>\<open>EMIT_SUMMARY_FIELD\<close>, with the separator as its state.\<close>

fun summary_fields :: "string \<Rightarrow> (string \<times> nat) list \<Rightarrow> xo_event list" where
  "summary_fields sep [] = []"
| "summary_fields sep ((label, v) # fs) =
     (if v > 0 then XoEmit (''{P:/%s}{Lw:'' @ label @ ''}{d:/%d}'') [FStr sep, FInt (int v)] # summary_fields '', '' fs
      else summary_fields sep fs)"

definition summary :: "'w runner \<Rightarrow> xo_event list" where
  "summary r =
     name_lines ''Skipped:\<newline>'' (cheri_skipped_tests r) @
     name_lines ''Expected failures:\<newline>'' (cheri_xfailed_tests r) @
     name_lines ''Unexpected failures:\<newline>'' (cheri_failed_tests r) @
     name_lines ''Unexpected passes:\<newline>'' (cheri_xpassed_tests r) @
     name_lines ''Warnings:\<newline>'' (cheri_test_warnings r) @
     only_if (tests_run r + tests_skipped r > 1)
       ([XoEmit ''{Lc:SUMMARY}'' []] @
        summary_fields '' '' [(''skipped'', tests_skipped r), (''passed'', tests_passed r),
          (''failed'', tests_failed r), (''expectedly failed'', tests_xfailed r),
          (''unexpectedly passed'', tests_xpassed r)] @
        [XoEmit ''\<newline>'' []]) @
     [XoFinish]"

text \<open>The counters of the program's start: all zero, all lists empty.\<close>

definition initial_runner :: "platform \<Rightarrow> 'w \<Rightarrow> 'w runner" where
  "initial_runner pl w = \<lparr>cheri_skipped_tests = [], cheri_failed_tests = [], cheri_xfailed_tests = [],
     cheri_xpassed_tests = [], cheri_test_warnings = [], tests_run = 0, tests_skipped = 0,
     tests_failed = 0, tests_passed = 0, tests_xfailed = 0, tests_xpassed = 0, expected_failures = 0,
     r_ccs = ccs_zero pl, r_xo = [], r_world = w\<rparr>"

definition open_suites :: "platform \<Rightarrow> xo_event list" where
  "open_suites pl = [XoOpenContainer ''testsuites'', XoAttr ''name'' ''%s'' [FStr (pl_PROG pl)],
     XoOpenContainer ''testsuite'', XoOpenList ''test'']"

definition close_suites :: "xo_event list" where
  "close_suites = [XoCloseList ''test'', XoCloseContainer ''testsuite'', XoCloseContainer ''testsuites'']"

text \<open>
  How \<^verbatim>\<open>main\<close> ends: by \<^verbatim>\<open>exit\<close> with a status and what was written; by a failed assertion; or in
  the child function of a test, after \<^verbatim>\<open>-E\<close>. In the last case the process goes on as that program.
  After an error the runner is given as it was before the tests: the counters are not used any more.
\<close>

datatype 'w main_end =
    MainExit int "'w runner"
  | MainAbort
  | MainChild "('w, unit) prog"

definition run_tests_main ::
  "platform \<Rightarrow> ('w cheri_test \<Rightarrow> 'w runner \<Rightarrow> int + 'w runner) \<Rightarrow> 'w main_env \<Rightarrow> opts \<Rightarrow> string list \<Rightarrow> 'w runner \<Rightarrow> 'w main_end" where
  "run_tests_main pl run me opt argv r =
     (case run_chosen run me opt argv (xo (open_suites pl) r) of
        Inl e \<Rightarrow> MainExit e r
      | Inr r1 \<Rightarrow>
          (let r2 = xo (close_suites @ summary r1) r1
           in MainExit (if tests_failed r2 > 0 then - 1 else EX_OK) r2))"

definition main ::
  "platform \<Rightarrow> 'w os \<Rightarrow> 'w main_env \<Rightarrow> string option \<Rightarrow> string list \<Rightarrow> 'w \<Rightarrow> 'w main_end" where
  "main pl os me uninit args w =
     (let r = initial_runner pl w in
      case me_xo_parse_args me args of
        None \<Rightarrow> MainExit 1 r
      | Some args1 \<Rightarrow>
      (case getopt args1 of (letters, argv) \<Rightarrow>
      (case apply_options pl me letters no_opts of
         Inl e \<Rightarrow> MainExit e r
       | Inr opt \<Rightarrow>
      (case choose_task opt (length argv) of
         Usage \<Rightarrow> MainExit EX_USAGE r
       | ListTests \<Rightarrow> MainExit EX_OK (xo (list_tests pl opt (me_tests me)) r)
       | t \<Rightarrow>
           if \<not> me_mmap_stack_ok me then MainExit EX_OSERR r
           else if \<not> me_sigaltstack_ok me then MainExit EX_OSERR r
           else if t = RunChild then MainChild (cheriostest_run_child_name (me_tests me) (hd argv))
           else if \<not> me_page_fits me then MainAbort
           else if \<not> me_mmap_page_ok me then MainExit EX_OSERR r
           else if \<not> coredump_enabled opt \<and> \<not> me_setrlimit_ok me then MainExit EX_OSERR r
           else run_tests_main pl (cheriostest_run_test pl os opt uninit) me opt argv r))))"

section \<open>The selections keep the books\<close>

lemma run_test_name_step:
  "cheriostest_run_test_name run tests name r = Inr r' \<Longrightarrow> \<exists>ct \<in> set tests. ct_name ct = name \<and> run ct r = Inr r'"
  by (induction tests) (auto split: if_splits)

interpretation run_name: ledger "cheriostest_run_test_name (cheriostest_run_test pl os opt u) tests"
  for pl os opt u tests
  by unfold_locales (blast dest: run_test_name_step intro: run_test.keeps_inv run_test.grows)+

interpretation run_glob: ledger "glob_step (cheriostest_run_test pl os opt u) me"
  for pl os opt u me
  by unfold_locales (auto simp: glob_step_def intro: run_test.seq_inv run_test.seq_grows)

lemma run_chosen_inv:
  "run_chosen (cheriostest_run_test pl os opt u) me opt argv r = Inr r' \<Longrightarrow> runner_inv r \<Longrightarrow> runner_inv r'"
  by (auto simp: run_chosen_def split: if_splits
      intro: run_test.seq_inv run_name.seq_inv run_glob.seq_inv)

lemma run_chosen_grows:
  "run_chosen (cheriostest_run_test pl os opt u) me opt argv r = Inr r' \<Longrightarrow> runner_le r r'"
  by (auto simp: run_chosen_def split: if_splits
      intro: run_test.seq_grows run_name.seq_grows run_glob.seq_grows)

lemma initial_runner_inv [simp]: "runner_inv (initial_runner pl w)"
  by (simp add: initial_runner_def runner_inv_def)

lemma runner_inv_xo [simp]: "runner_inv (xo evs r) = runner_inv r"
  by (simp add: runner_inv_def xo_def tests_ended_def)

text \<open>The controller gives up with \<^verbatim>\<open>EX_OSERR\<close> only, and on an unknown name with \<^verbatim>\<open>EX_USAGE\<close>.\<close>

lemma run_test_error: "cheriostest_run_test pl os opt u ct r = Inl e \<Longrightarrow> e = EX_OSERR"
  by (auto simp: cheriostest_run_test_def run_forked_def Let_def split: option.splits if_splits prod.splits)

lemma run_seq_error:
  "run_seq step xs r = Inl e \<Longrightarrow> (\<And>x r. step x r = Inl e \<Longrightarrow> P e) \<Longrightarrow> P e"
  by (induction xs arbitrary: r) (auto split: sum.splits)

lemma run_name_error:
  "cheriostest_run_test_name (cheriostest_run_test pl os opt u) tests name r = Inl e \<Longrightarrow> e = EX_OSERR \<or> e = EX_USAGE"
  by (induction tests) (auto split: if_splits dest: run_test_error)

lemma run_chosen_error:
  assumes "run_chosen (cheriostest_run_test pl os opt u) me opt argv r = Inl e"
  shows "e = EX_OSERR \<or> e = EX_USAGE"
  using assms
  by (auto simp: run_chosen_def glob_step_def split: if_splits elim!: run_seq_error
      dest!: run_name_error dest: run_test_error)

section \<open>A run of all tests\<close>

lemma run_test_returns:
  assumes "os_works opt os"
  shows "\<exists>r'. cheriostest_run_test pl os opt u ct r = Inr r'"
proof (cases "test_due opt ct (r_world r)")
  case True
  then show ?thesis using run_test_verdict [OF assms True] by (metis surj_pair)
next
  case False
  then show ?thesis
    by (auto simp: test_due_def cheriostest_run_test_def Let_def split: option.splits)
qed

definition runner_total :: "'w runner \<Rightarrow> nat" where
  "runner_total r = tests_ended r + tests_skipped r"

lemma total_tally: "runner_total r = tally r Pass + tally r XPass + tally r Fail + tally r XFail + tally r Skip"
  by (simp add: runner_total_def tests_ended_def)

lemma total_record: "tally r' = record_verdict v (tally r) \<Longrightarrow> runner_total r' = Suc (runner_total r)"
  by (cases v) (simp_all add: total_tally record_verdict_def)

lemma run_test_total:
  assumes "cheriostest_run_test pl os opt u ct r = Inr r'"
  shows "runner_total r' = runner_total r + (if left_out opt ct then 0 else 1) \<and>
    xo_depth (r_xo r') = xo_depth (r_xo r) + (if left_out opt ct then 1 else 0)"
  using assms
proof (cases rule: run_test_cases)
  case (forked e)
  then obtain j c x w n where "r' = land os opt ct (xfail_of ct) (ct_flaky_reason ct) j
      ((start_test pl ct r)\<lparr>expected_failures := e\<rparr>\<lparr>tests_run := n, r_ccs := c, r_xo := x, r_world := w\<rparr>)"
    using run_forked_shape by blast
  then have "tally r' = record_verdict (jump_verdict (xfail_of ct) (ct_flaky_reason ct) j) (tally r)"
    by (simp add: land_tally)
  then show ?thesis
    using forked(1) run_forked_depth [OF forked(2)] by (auto simp: start_depth dest: total_record)
qed (auto simp: land_depth skip_depth start_depth total_tally
    dest!: arg_cong [where f = tally] simp: land_tally skip_tally record_verdict_def jump_verdict_def)

lemma run_seq_total:
  assumes "os_works opt os"
  shows "\<exists>r'. run_seq (cheriostest_run_test pl os opt u) cts r = Inr r' \<and>
    runner_total r' = runner_total r + length (filter (\<lambda>ct. \<not> left_out opt ct) cts) \<and>
    xo_depth (r_xo r') = xo_depth (r_xo r) + int (length (filter (left_out opt) cts))"
proof (induction cts arbitrary: r)
  case (Cons ct cts)
  obtain r1 where r1: "cheriostest_run_test pl os opt u ct r = Inr r1"
    using run_test_returns [OF assms] by blast
  show ?case using Cons.IH [of r1] run_test_total [OF r1] r1 by auto
qed simp

section \<open>Properties\<close>

lemma main_run_tests:
  assumes "me_xo_parse_args me args = Some args1" "getopt args1 = (letters, argv)"
    "apply_options pl me letters no_opts = Inr opt" "choose_task opt (length argv) = RunTests"
    "main pl os me u args w = MainExit st r'"
  shows "(st = EX_OSERR \<and> r' = initial_runner pl w) \<or>
    run_tests_main pl (cheriostest_run_test pl os opt u) me opt argv (initial_runner pl w) = MainExit st r'"
  using assms by (auto simp: main_def Let_def split: if_splits)

text \<open>The environment of the witnesses: two tests, one of which fails.\<close>

definition two_tests :: "unit main_env" where
  "two_tests = \<lparr>me_xo_parse_args = Some, me_qemu_trace_perthread = None,
     me_tests = [plain_test ''good'' cheriostest_success,
                 plain_test ''bad'' (cheriostest_failure_errx morello_purecap ''no'' [])],
     me_fnmatch = (\<lambda>p n. p = n), me_mmap_stack_ok = True, me_sigaltstack_ok = True,
     me_page_fits = True, me_mmap_page_ok = True, me_setrlimit_ok = True\<rparr>"

lemma main_all:
  assumes "me_xo_parse_args me args = Some [''-a'']" "me_mmap_stack_ok me" "me_sigaltstack_ok me"
    "me_page_fits me" "me_mmap_page_ok me" "me_setrlimit_ok me"
  shows "main pl os me u args w =
    run_tests_main pl (cheriostest_run_test pl os (no_opts\<lparr>run_all := True\<rparr>) u) me (no_opts\<lparr>run_all := True\<rparr>) []
      (initial_runner pl w)"
  using assms by (simp add: main_def Let_def begins_with_def opt_letter_def optstring_def apply_option_def
      choose_task_def no_opts_def)

lemma quiet_os_works_all [simp]: "os_works opt quiet_os"
  by simp

lemma run_all_ends:
  assumes "os_works opt os" and "run_all opt"
  shows "\<exists>st r'. run_tests_main pl (cheriostest_run_test pl os opt u) me opt argv (initial_runner pl w) = MainExit st r' \<and>
    st \<in> {EX_OK, - 1} \<and>
    runner_total r' = length (filter (\<lambda>ct. \<not> left_out opt ct) (me_tests me)) \<and>
    xo_depth (r_xo r') = int (length (filter (left_out opt) (me_tests me)))"
proof -
  have quiet: "xo_depth (name_lines h ns) = 0" for h ns
    by (cases ns) (simp_all add: name_lines_def xo_depth_def o_def)
  have fields: "xo_depth (summary_fields sep fs) = 0" for sep fs
    by (induction sep fs rule: summary_fields.induct) auto
  have summary: "xo_depth (summary r) = 0" for r :: "'a runner"
    by (simp add: summary_def quiet fields only_if_def)
  let ?r = "xo (open_suites pl) (initial_runner pl w)"
  obtain r1 where r1: "run_seq (cheriostest_run_test pl os opt u) (me_tests me) ?r = Inr r1"
    "runner_total r1 = runner_total ?r + length (filter (\<lambda>ct. \<not> left_out opt ct) (me_tests me))"
    "xo_depth (r_xo r1) = xo_depth (r_xo ?r) + int (length (filter (left_out opt) (me_tests me)))"
    using run_seq_total [OF assms(1)] by blast
  have "runner_total ?r = 0" "xo_depth (r_xo ?r) = 3"
    by (simp_all add: runner_total_def tests_ended_def xo_def initial_runner_def open_suites_def)
  then show ?thesis
    using r1 assms(2)
    by (simp add: run_tests_main_def run_chosen_def Let_def xo_def runner_total_def tests_ended_def close_suites_def summary)
qed

text \<open>
  The exit status of a run of tests tells whether a test failed unexpectedly: it is \<^verbatim>\<open>-1\<close> exactly
  when the list of failed tests is not empty, and it is 0 only if that list is empty. An error of
  the controller itself gives another status.
\<close>

theorem main_exit_status:
  assumes "me_xo_parse_args me args = Some args1" "getopt args1 = (letters, argv)"
    "apply_options pl me letters no_opts = Inr opt" "choose_task opt (length argv) = RunTests"
    "main pl os me u args w = MainExit st r'"
  shows "(st = - 1 \<longleftrightarrow> cheri_failed_tests r' \<noteq> []) \<and> (st = EX_OK \<longrightarrow> cheri_failed_tests r' = []) \<and>
    st \<in> {EX_OK, - 1, EX_OSERR, EX_USAGE}"
proof -
  let ?r = "initial_runner pl w" and ?run = "cheriostest_run_test pl os opt u"
  have start: "cheri_failed_tests ?r = []" by (simp add: initial_runner_def)
  from main_run_tests [OF assms] consider "st = EX_OSERR" "r' = ?r"
    | "run_tests_main pl ?run me opt argv ?r = MainExit st r'" by blast
  then show ?thesis
  proof cases
    case 1
    then show ?thesis using start by (simp add: harness_consts)
  next
    case 2
    show ?thesis
    proof (cases "run_chosen ?run me opt argv (xo (open_suites pl) ?r)")
      case (Inl e)
      then have "st = e" "r' = ?r" using 2 by (simp_all add: run_tests_main_def)
      then show ?thesis using run_chosen_error [OF Inl] start by (auto simp: harness_consts)
    next
      case (Inr r1)
      then have "runner_inv r1" by (auto intro: run_chosen_inv)
      then have "tests_failed r1 = length (cheri_failed_tests r1)" by (simp add: runner_inv_def)
      then show ?thesis using 2 Inr by (auto simp: run_tests_main_def Let_def xo_def harness_consts split: if_splits)
    qed
  qed
qed

theorem main_exit_status_witness:
  "\<exists>st r'. main morello_purecap quiet_os two_tests None [''-a''] () = MainExit st r' \<and>
    (st = - 1 \<longleftrightarrow> cheri_failed_tests r' \<noteq> [])"
proof -
  let ?o = "no_opts\<lparr>run_all := True\<rparr>"
  have "me_xo_parse_args two_tests [''-a''] = Some [''-a'']" "getopt [''-a''] = (''a'', [])"
    "apply_options morello_purecap two_tests ''a'' no_opts = Inr ?o" "choose_task ?o (length []) = RunTests"
    by (simp_all add: two_tests_def begins_with_def opt_letter_def optstring_def apply_option_def
        choose_task_def no_opts_def)
  note parse = this
  have "main morello_purecap quiet_os two_tests None [''-a''] () =
      run_tests_main morello_purecap (cheriostest_run_test morello_purecap quiet_os ?o None) two_tests ?o []
        (initial_runner morello_purecap ())"
    by (rule main_all) (simp_all add: two_tests_def)
  then obtain st r' where "main morello_purecap quiet_os two_tests None [''-a''] () = MainExit st r'"
    using run_all_ends [OF quiet_os_works, of ?o morello_purecap None two_tests "[]" "()"] by auto
  then show ?thesis using main_exit_status [OF parse] by blast
qed



text \<open>
  The checks on options and operands let a run of tests through exactly when neither \<^verbatim>\<open>-E\<close> nor
  \<^verbatim>\<open>-K\<close> nor \<^verbatim>\<open>-l\<close> is given and there is either \<^verbatim>\<open>-a\<close> alone or at least one operand without \<^verbatim>\<open>-a\<close>; they
  let a child through exactly for \<^verbatim>\<open>-E\<close> with one operand, or more with \<^verbatim>\<open>-K\<close>, and none of \<^verbatim>\<open>-a\<close>, \<^verbatim>\<open>-g\<close>, \<^verbatim>\<open>-l\<close>.
\<close>

theorem choose_task_iff:
  "(choose_task opt argc = RunTests \<longleftrightarrow>
     \<not> is_execed_child opt \<and> \<not> execed_child_has_extra_argv opt \<and> \<not> o_list opt \<and>
     (run_all opt \<and> \<not> o_glob opt \<and> argc = 0 \<or> \<not> run_all opt \<and> 0 < argc)) \<and>
   (choose_task opt argc = RunChild \<longleftrightarrow>
     is_execed_child opt \<and> \<not> run_all opt \<and> \<not> o_glob opt \<and> \<not> o_list opt \<and>
     (argc = 1 \<or> execed_child_has_extra_argv opt \<and> 0 < argc))"
  by (auto simp: choose_task_def)

text \<open>The options that \<^verbatim>\<open>mk_exec_args\<close> hands on, as \<^verbatim>\<open>main\<close> of the copy reads them.\<close>

definition exec_child_opts :: "opts \<Rightarrow> string list \<Rightarrow> opts" where
  "exec_child_opts opt extra = no_opts\<lparr>is_execed_child := True, execed_child_has_extra_argv := (extra \<noteq> []),
     coredump_enabled := coredump_enabled opt, verbose := (if verbose opt > 0 then 1 else 0)\<rparr>"

lemma getopt_letter:
  "c \<in> set optstring \<Longrightarrow>
     getopt ([CHR ''-'', c] # args) = (case getopt args of (letters, operands) \<Rightarrow> (c # letters, operands))"
  by (auto simp: begins_with_def opt_letter_def optstring_def split: prod.splits)

lemma exec_args_parse:
  assumes "\<not> begins_with name ''-''"
  shows "\<exists>letters. getopt (map the (butlast (tl (exec_arg_list opt path name extra)))) = (letters, name # extra) \<and>
    apply_options pl me letters no_opts = Inr (exec_child_opts opt extra)"
proof -
  have operand: "getopt (name # ys) = ([], name # ys)" for ys
    using assms by (auto simp: begins_with_def)
  have "map the (butlast (tl (exec_arg_list opt path name extra))) =
      ''-E'' # only_if (extra \<noteq> []) [''-K''] @ only_if (coredump_enabled opt) [''-c''] @
      only_if (verbose opt > 0) [''-v''] @ name # extra"
    by (simp add: exec_arg_list_def only_if_def butlast_append o_def)
  then show ?thesis
    by (cases "extra = []"; cases "coredump_enabled opt"; cases "verbose opt > 0")
      (simp_all add: getopt_letter optstring_def operand apply_option_def exec_child_opts_def no_opts_def
        del: getopt.simps(2))
qed

lemma run_child_name_first:
  assumes "ct \<in> set tests" "ct_name ct = name" "ct_child_func ct = Some f"
    "\<And>ct'. ct' \<in> set tests \<Longrightarrow> ct_name ct' = name \<Longrightarrow> ct' = ct"
  shows "cheriostest_run_child_name tests name = bindP f (\<lambda>_. exitP EX_SOFTWARE)"
proof -
  have stop: "bindP (bindP f (\<lambda>_. exitP n)) g = bindP f (\<lambda>_. exitP n)" for f :: "('a, unit) prog" and n g
    by (simp add: bindP_assoc) (simp add: bindP_def exitP_def)
  show ?thesis
    using assms
  proof (induction tests)
    case Nil
    from Nil.prems(1) show ?case by simp
  next
    case (Cons t tests)
    show ?case
    proof (cases "ct_name t = name")
      case True
      then have "t = ct" using Cons.prems(4) [of t] by simp
      then show ?thesis using Cons.prems(2,3) by (simp add: cheriostest_run_child_def stop)
    next
      case False
      then have "ct \<in> set tests" using Cons.prems(1,2) by auto
      then have "cheriostest_run_child_name tests name = bindP f (\<lambda>_. exitP EX_SOFTWARE)"
        using Cons.prems(2-4) by (intro Cons.IH) (blast intro: list.set_intros(2))+
      then show ?thesis using False by simp
    qed
  qed
qed


definition child_env :: "unit main_env" where
  "child_env = two_tests\<lparr>me_tests := [(plain_test ''spawner'' cheriostest_success)\<lparr>ct_child_func := Some (exitP 0)\<rparr>]\<rparr>"


definition listed_names :: "xo_event list \<Rightarrow> string list" where
  "listed_names evs = concat (map (\<lambda>e. case e of
     XoEmit fmt (FStr n # _) \<Rightarrow>
       if fmt = ''{cw:name/%s}{:description/%s}'' \<or> fmt = ''{:name/%s}{e:description/%s}'' then [n] else []
     | _ \<Rightarrow> []) evs)"

lemma listed_names_append [simp]: "listed_names (xs @ ys) = listed_names xs @ listed_names ys"
  by (simp add: listed_names_def)

lemma listed_names_test:
  "listed_names (list_test opt ct) = (if fast_tests_only opt \<and> has_flag ct CT_FLAG_SLOW then [] else [ct_name ct])"
  "xo_depth (list_test opt ct) = 0"
  by (auto simp: list_test_def listed_names_def only_if_def split: option.splits)

lemma listed_names_tests:
  "listed_names (concat (map (list_test opt) tests)) =
     map ct_name (filter (\<lambda>ct. \<not> (fast_tests_only opt \<and> has_flag ct CT_FLAG_SLOW)) tests)"
  "xo_depth (concat (map (list_test opt) tests)) = 0"
  by (induction tests) (simp_all add: listed_names_test, simp_all add: listed_names_def)

text \<open>
  \<^verbatim>\<open>-l\<close> lists the tests that a run of all tests would run: the names in the document are those of the
  registered tests, in order, without the slow ones under \<^verbatim>\<open>-f\<close>, and every element is closed.
\<close>

theorem list_tests_correct:
  "listed_names (list_tests pl opt tests) =
     map ct_name (filter (\<lambda>ct. \<not> (fast_tests_only opt \<and> has_flag ct CT_FLAG_SLOW)) tests) \<and>
   xo_depth (list_tests pl opt tests) = 0"
  using listed_names_tests [of opt tests] by (simp add: list_tests_def) (simp add: listed_names_def)

end
