(* ===== verification/Address_Gap.thy ===== *)
theory Address_Gap
  imports Checks Instances
begin

text \<open>
  \<^verbatim>\<open>find_address_space_gap\<close> of \<^verbatim>\<open>cheriostest_util_vm.c\<close>, in its CheriBSD and its Linux version: a
  search through the list of mappings for room between two neighbours. A mapping is the pair of
  its first address and the address after its end. Addresses are 64-bit words, so rounding up to
  the alignment may wrap around.
\<close>

type_synonym vmentry = "ptraddr \<times> ptraddr"

section \<open>CheriBSD\<close>

text \<open>What libprocstat gives; \<open>None\<close> is a null pointer.\<close>

record procstat =
  ps_open_ok :: bool
  ps_procs :: "nat option" \<comment> \<open>\<^verbatim>\<open>pcnt\<close>\<close>
  ps_vmmap :: "vmentry list option"

fun gap_search_up :: "ptraddr \<Rightarrow> ptraddr \<Rightarrow> vmentry list \<Rightarrow> ptraddr" where
  "gap_search_up len align (prev # cur # rest) =
     (let aligned_start = align_up (snd prev) align; stop = fst cur
      in if aligned_start > stop then gap_search_up len align (cur # rest)
         else if stop - aligned_start \<ge> len then aligned_start
         else gap_search_up len align (cur # rest))"
| "gap_search_up len align _ = 0"

text \<open>The length and alignment that are searched for: those of a capability if no alignment is given.\<close>

definition gap_request :: "platform \<Rightarrow> ptraddr \<Rightarrow> ptraddr \<Rightarrow> ptraddr \<times> ptraddr" where
  "gap_request pl len align =
     (if align = 0
      then (let len' = cheri_representable_length pl len in (len', CHERITEST_CHERI_REPRESENTABLE_ALIGNMENT pl len'))
      else (len, align))"

definition gap_result :: "platform \<Rightarrow> ptraddr \<Rightarrow> ptraddr \<Rightarrow> ('w, ptraddr) prog" where
  "gap_result pl len addr =
     (if addr = 0 then cheriostest_failure_errx pl ''no free region of length %#jx\<newline>'' [FWord len] else ret addr)"

definition find_address_space_gap_FreeBSD ::
  "platform \<Rightarrow> procstat \<Rightarrow> ptraddr \<Rightarrow> ptraddr \<Rightarrow> ('w, ptraddr) prog" where
  "find_address_space_gap_FreeBSD pl ps len align =
     bindP (CHERIOSTEST_VERIFY pl (ps_open_ok ps) ''psp != NULL'') (\<lambda>_.
     bindP (CHERIOSTEST_VERIFY pl (ps_procs ps \<noteq> None) ''kipp != NULL'') (\<lambda>_.
     bindP (CHERIOSTEST_VERIFY pl (ps_procs ps = Some 1) ''pcnt == 1'') (\<lambda>_.
     bindP (CHERIOSTEST_VERIFY pl (ps_vmmap ps \<noteq> None) ''kivp != NULL'') (\<lambda>_.
     (case gap_request pl len align of (len', align') \<Rightarrow>
        gap_result pl len' (gap_search_up len' align' (the (ps_vmmap ps))))))))"

section \<open>Linux\<close>

text \<open>\<^verbatim>\<open>sscanf\<close> with \<^verbatim>\<open>%llx-%llx\<close>: what is not matched keeps the value it had.\<close>

definition hex_digit :: "char \<Rightarrow> nat option" where
  "hex_digit c =
     (let n = of_char c :: nat
      in if 48 \<le> n \<and> n \<le> 57 then Some (n - 48)
         else if 97 \<le> n \<and> n \<le> 102 then Some (n - 87)
         else if 65 \<le> n \<and> n \<le> 70 then Some (n - 55)
         else None)"

fun hex_value :: "nat \<Rightarrow> string \<Rightarrow> nat" where
  "hex_value acc [] = acc"
| "hex_value acc (c # cs) = hex_value (acc * 16 + (case hex_digit c of None \<Rightarrow> 0 | Some d \<Rightarrow> d)) cs"

definition scan_hex :: "string \<Rightarrow> (ptraddr \<times> string) option" where
  "scan_hex s =
     (let digits = takeWhile (\<lambda>c. hex_digit c \<noteq> None) s
      in if digits = [] then None
         else Some (of_nat (min (2 ^ 64 - 1) (hex_value 0 digits)), drop (length digits) s))"

definition scan_maps_line :: "vmentry \<Rightarrow> string \<Rightarrow> vmentry" where
  "scan_maps_line uninit line =
     (case scan_hex line of
        None \<Rightarrow> uninit
      | Some (a, rest) \<Rightarrow>
          (if begins_with rest ''-''
           then (case scan_hex (tl rest) of None \<Rightarrow> (a, snd uninit) | Some (b, _) \<Rightarrow> (a, b))
           else (a, snd uninit)))"

text \<open>The list is filled at its head, so it runs from the last mapping to the first.\<close>

definition read_maps :: "vmentry \<Rightarrow> string list \<Rightarrow> vmentry list" where
  "read_maps uninit lines = fold (\<lambda>line lh. scan_maps_line uninit line # lh) lines []"

fun gap_search_down :: "ptraddr \<Rightarrow> ptraddr \<Rightarrow> vmentry list \<Rightarrow> ptraddr" where
  "gap_search_down len align (cur # prev # rest) =
     (let stop = fst cur; aligned_start = align_up (snd prev) align
      in if aligned_start > stop then gap_search_down len align (prev # rest)
         else if stop - aligned_start \<ge> len then aligned_start
         else gap_search_down len align (prev # rest))"
| "gap_search_down len align _ = 0"

text \<open>
  \<open>None\<close> as \<open>maps\<close>: the file cannot be opened. With no line at all, \<^verbatim>\<open>vmcnt - 1\<close> wraps around and
  the loop starts by following a null pointer.
\<close>

definition find_address_space_gap_linux ::
  "platform \<Rightarrow> vmentry \<Rightarrow> string list option \<Rightarrow> ptraddr \<Rightarrow> ptraddr \<Rightarrow> ('w, ptraddr) prog" where
  "find_address_space_gap_linux pl uninit maps len align = (\<lambda>s.
     case maps of
       None \<Rightarrow> cheriostest_failure_errx pl ''fopen: %s'' [FStr (lc_strerror pl (p_errno s))] s
     | Some lines \<Rightarrow>
         (case gap_request pl len align of (len', align') \<Rightarrow>
            if lines = [] then (Undefined, s)
            else gap_result pl len' (gap_search_down len' align' (read_maps uninit lines)) s))"

section \<open>What a search promises\<close>

text \<open>There is a gap for the request after entry \<open>i\<close> of a list in the order of addresses.\<close>

definition is_gap :: "ptraddr \<Rightarrow> ptraddr \<Rightarrow> vmentry list \<Rightarrow> nat \<Rightarrow> bool" where
  "is_gap len align es i \<longleftrightarrow>
     Suc i < length es \<and> align_up (snd (es ! i)) align \<le> fst (es ! Suc i) \<and>
     len \<le> fst (es ! Suc i) - align_up (snd (es ! i)) align"

definition maps_ordered :: "vmentry list \<Rightarrow> bool" where
  "maps_ordered es \<longleftrightarrow> sorted_wrt (\<lambda>e f. snd e \<le> fst f) es \<and> (\<forall>e \<in> set es. fst e \<le> snd e)"

definition region_free :: "ptraddr \<Rightarrow> ptraddr \<Rightarrow> vmentry list \<Rightarrow> bool" where
  "region_free addr len es \<longleftrightarrow>
     unat addr + unat len < 2 ^ 64 \<and>
     (\<forall>e \<in> set es. snd e \<le> addr \<or> unat addr + unat len \<le> unat (fst e))"

lemma gap_region_free:
  assumes gap: "is_gap len (2 ^ n) es i" and n: "n < 64" and ord: "maps_ordered es"
    and nz: "align_up (snd (es ! i)) (2 ^ n) \<noteq> 0"
  shows "region_free (align_up (snd (es ! i)) (2 ^ n)) len es"
proof -
  let ?a = "align_up (snd (es ! i)) (2 ^ n)" and ?s = "fst (es ! Suc i)"
  have a: "snd (es ! i) \<le> ?a" using n nz by (rule align_up_ge)
  have fits: "unat ?a + unat len \<le> unat ?s"
    using gap by (auto simp: is_gap_def word_le_nat_alt unat_sub)
  have below: "snd (es ! j) \<le> ?a" if "j \<le> i" "j < length es" for j
  proof (cases "j = i")
    case False
    then have "snd (es ! j) \<le> fst (es ! i)" "fst (es ! i) \<le> snd (es ! i)"
      using ord gap that by (auto simp: maps_ordered_def sorted_wrt_iff_nth_less is_gap_def)
    then show ?thesis using a by simp
  qed (use a in simp)
  have above: "unat ?s \<le> unat (fst (es ! j))" if "i < j" "j < length es" for j
  proof (cases "j = Suc i")
    case False
    then have "snd (es ! Suc i) \<le> fst (es ! j)" "fst (es ! Suc i) \<le> snd (es ! Suc i)"
      using ord gap that by (auto simp: maps_ordered_def sorted_wrt_iff_nth_less is_gap_def)
    then show ?thesis by (simp add: word_le_nat_alt)
  qed simp
  have "snd (es ! j) \<le> ?a \<or> unat ?a + unat len \<le> unat (fst (es ! j))" if "j < length es" for j
    using below [of j] above [of j] fits that by (cases "j \<le> i") auto
  moreover have "unat ?a + unat len < 2 ^ 64"
  proof -
    have "unat ?s < 2 ^ 64" using unsigned_less [of ?s] by simp
    then show ?thesis using fits by linarith
  qed
  ultimately show ?thesis unfolding region_free_def all_set_conv_all_nth by blast
qed

text \<open>
  The interface of a search: a result other than zero comes from a gap, and zero means that there
  is none, or that rounding up wrapped around in one.
\<close>

locale gap_finder =
  fixes search :: "ptraddr \<Rightarrow> ptraddr \<Rightarrow> vmentry list \<Rightarrow> ptraddr"
  assumes sound: "search len align es \<noteq> 0 \<Longrightarrow>
      \<exists>i. is_gap len align es i \<and> search len align es = align_up (snd (es ! i)) align"
    and complete: "search len align es = 0 \<Longrightarrow> is_gap len align es i \<Longrightarrow>
      \<exists>j. is_gap len align es j \<and> align_up (snd (es ! j)) align = 0"
begin

lemma found:
  assumes "search len (2 ^ n) es \<noteq> 0" "n < 64" "maps_ordered es"
  shows "is_aligned (search len (2 ^ n) es) (2 ^ n) \<and> region_free (search len (2 ^ n) es) len es"
proof -
  obtain i where "is_gap len (2 ^ n) es i" "search len (2 ^ n) es = align_up (snd (es ! i)) (2 ^ n)"
    using sound [OF assms(1)] by blast
  then show ?thesis using gap_region_free [of len n es i] assms by simp
qed

lemma not_found_iff:
  assumes "\<And>i. is_gap len align es i \<Longrightarrow> align_up (snd (es ! i)) align \<noteq> 0"
  shows "search len align es = 0 \<longleftrightarrow> (\<nexists>i. is_gap len align es i)"
  using sound [of len align es] complete [of len align es] assms by blast

end

text \<open>The upward search; the downward search runs over the reversed list.\<close>

definition room_between :: "ptraddr \<Rightarrow> ptraddr \<Rightarrow> vmentry \<Rightarrow> vmentry \<Rightarrow> bool" where
  "room_between len align prev cur \<longleftrightarrow>
     align_up (snd prev) align \<le> fst cur \<and> len \<le> fst cur - align_up (snd prev) align"

lemma is_gap_Cons:
  "is_gap len align (p # q # es) i \<longleftrightarrow>
     (case i of 0 \<Rightarrow> room_between len align p q | Suc j \<Rightarrow> is_gap len align (q # es) j)"
  by (cases i) (simp_all add: is_gap_def room_between_def)

lemma is_gap_snoc:
  "is_gap len align (es @ [p, c]) i \<longleftrightarrow>
     (if i = length es then room_between len align p c else is_gap len align (es @ [p]) i)"
  by (auto simp: is_gap_def room_between_def nth_append)

lemma gap_search_up_Cons:
  "gap_search_up len align (p # q # es) =
     (if room_between len align p q then align_up (snd p) align else gap_search_up len align (q # es))"
  by (auto simp: room_between_def Let_def)

lemma gap_search_down_Cons:
  "gap_search_down len align (c # p # ds) =
     (if room_between len align p c then align_up (snd p) align else gap_search_down len align (p # ds))"
  by (auto simp: room_between_def Let_def)

lemma is_gap_short [simp]: "\<not> is_gap len align [] i" "\<not> is_gap len align [e] i"
  by (simp_all add: is_gap_def)

declare gap_search_up.simps(1) [simp del] gap_search_down.simps(1) [simp del]

lemma gap_search_up_sound:
  "gap_search_up len align es \<noteq> 0 \<Longrightarrow>
     \<exists>i. is_gap len align es i \<and> gap_search_up len align es = align_up (snd (es ! i)) align"
proof (induction es rule: induct_list012)
  case (3 p q es)
  show ?case
  proof (cases "room_between len align p q")
    case True
    then show ?thesis by (intro exI [of _ 0]) (simp add: gap_search_up_Cons is_gap_Cons)
  next
    case False
    then obtain i where "is_gap len align (q # es) i"
      "gap_search_up len align (q # es) = align_up (snd ((q # es) ! i)) align"
      using "3.IH"(2) "3.prems" by (auto simp: gap_search_up_Cons)
    with False show ?thesis by (intro exI [of _ "Suc i"]) (simp add: gap_search_up_Cons is_gap_Cons)
  qed
qed simp_all

lemma gap_search_up_complete:
  "gap_search_up len align es = 0 \<Longrightarrow> is_gap len align es i \<Longrightarrow>
     \<exists>j. is_gap len align es j \<and> align_up (snd (es ! j)) align = 0"
proof (induction es arbitrary: i rule: induct_list012)
  case (3 p q es)
  show ?case
  proof (cases "room_between len align p q")
    case True
    then show ?thesis using "3.prems"(1) by (intro exI [of _ 0]) (simp add: gap_search_up_Cons is_gap_Cons)
  next
    case False
    then obtain k where "i = Suc k" "is_gap len align (q # es) k"
      using "3.prems"(2) by (auto simp: is_gap_Cons split: nat.splits)
    then obtain j where "is_gap len align (q # es) j" "align_up (snd ((q # es) ! j)) align = 0"
      using "3.IH"(2) "3.prems"(1) False by (auto simp: gap_search_up_Cons)
    then show ?thesis by (intro exI [of _ "Suc j"]) (simp add: is_gap_Cons)
  qed
qed simp_all

interpretation up: gap_finder gap_search_up
  by unfold_locales (fact gap_search_up_sound gap_search_up_complete)+

lemma gap_search_down_sound:
  "gap_search_down len align ds \<noteq> 0 \<Longrightarrow>
     \<exists>i. is_gap len align (rev ds) i \<and> gap_search_down len align ds = align_up (snd (rev ds ! i)) align"
proof (induction ds rule: induct_list012)
  case (3 c p ds)
  show ?case
  proof (cases "room_between len align p c")
    case True
    then show ?thesis
      by (intro exI [of _ "length ds"]) (simp add: gap_search_down_Cons is_gap_snoc nth_append)
  next
    case False
    then obtain i where i: "is_gap len align (rev ds @ [p]) i"
      "gap_search_down len align (p # ds) = align_up (snd ((rev ds @ [p]) ! i)) align"
      using "3.IH"(2) "3.prems" by (auto simp: gap_search_down_Cons)
    then have "i < length ds" by (simp add: is_gap_def)
    with False i show ?thesis
      by (intro exI [of _ i]) (simp add: gap_search_down_Cons is_gap_snoc nth_append)
  qed
qed simp_all

lemma gap_search_down_complete:
  "gap_search_down len align ds = 0 \<Longrightarrow> is_gap len align (rev ds) i \<Longrightarrow>
     \<exists>j. is_gap len align (rev ds) j \<and> align_up (snd (rev ds ! j)) align = 0"
proof (induction ds arbitrary: i rule: induct_list012)
  case (3 c p ds)
  show ?case
  proof (cases "room_between len align p c")
    case True
    then show ?thesis using "3.prems"(1)
      by (intro exI [of _ "length ds"]) (simp add: gap_search_down_Cons is_gap_snoc nth_append)
  next
    case False
    then have "is_gap len align (rev ds @ [p]) i"
      using "3.prems"(2) by (auto simp: is_gap_snoc split: if_splits)
    then obtain j where j: "is_gap len align (rev ds @ [p]) j" "align_up (snd ((rev ds @ [p]) ! j)) align = 0"
      using "3.IH"(2) [of i] "3.prems"(1) False by (auto simp: gap_search_down_Cons)
    then have "j < length ds" by (simp add: is_gap_def)
    with j show ?thesis by (intro exI [of _ j]) (simp add: is_gap_snoc nth_append)
  qed
qed simp_all

interpretation down: gap_finder "\<lambda>len align es. gap_search_down len align (rev es)"
proof unfold_locales
  show "\<exists>i. is_gap len align es i \<and> gap_search_down len align (rev es) = align_up (snd (es ! i)) align"
    if "gap_search_down len align (rev es) \<noteq> 0" for len align es
    using gap_search_down_sound [OF that] by simp
  show "\<exists>j. is_gap len align es j \<and> align_up (snd (es ! j)) align = 0"
    if "gap_search_down len align (rev es) = 0" "is_gap len align es i" for len align es i
    using gap_search_down_complete [OF that(1), of i] that(2) by simp
qed

section \<open>Properties\<close>

lemma read_maps_rev: "read_maps uninit lines = rev (map (scan_maps_line uninit) lines)"
proof -
  have "fold (\<lambda>line lh. scan_maps_line uninit line # lh) lines acc = rev (map (scan_maps_line uninit) lines) @ acc" for acc
    by (induction lines arbitrary: acc) simp_all
  then show ?thesis by (simp add: read_maps_def)
qed

lemma gap_result_ret: "addr \<noteq> 0 \<Longrightarrow> gap_result pl len addr s = (Return addr, s)"
  by (simp add: gap_result_def ret_def)

lemma gap_result_fails: "p_ccsp s \<noteq> None \<Longrightarrow> declares_failure (gap_result pl len 0) s"
  by (simp add: gap_result_def declares_failure_errx)

lemma find_gap_FreeBSD_ok:
  assumes "ps_open_ok ps" "ps_procs ps = Some 1" "ps_vmmap ps = Some es" "gap_request pl len align = (len', align')"
  shows "find_address_space_gap_FreeBSD pl ps len align = gap_result pl len' (gap_search_up len' align' es)"
  using assms by (simp add: find_address_space_gap_FreeBSD_def bindP_VERIFY)

text \<open>
  C12: On CheriBSD, given the process's mappings in order, \<^verbatim>\<open>find_address_space_gap\<close> returns exactly when
  there is room between two neighbouring mappings; what it returns is then aligned as requested, not null,
  and the requested length from there on overlaps no mapping. Otherwise the test declares failure.
\<close>

theorem gap_FreeBSD_correct:
  assumes "ps_open_ok ps" "ps_procs ps = Some 1" "ps_vmmap ps = Some es"
    and "gap_request pl len align = (len', 2 ^ n)" "n < 64" "maps_ordered es"
    and "\<forall>e \<in> set es. align_up (snd e) (2 ^ n) \<noteq> 0" and "p_ccsp s \<noteq> None"
  shows "if \<exists>i. is_gap len' (2 ^ n) es i
    then \<exists>addr. find_address_space_gap_FreeBSD pl ps len align s = (Return addr, s) \<and> addr \<noteq> 0 \<and>
      is_aligned addr (2 ^ n) \<and> region_free addr len' es
    else declares_failure (find_address_space_gap_FreeBSD pl ps len align) s"
proof -
  let ?addr = "gap_search_up len' (2 ^ n) es"
  note find = find_gap_FreeBSD_ok [OF assms(1-4)]
  have zero: "?addr = 0 \<longleftrightarrow> (\<nexists>i. is_gap len' (2 ^ n) es i)"
    using assms(7) by (intro up.not_found_iff) (auto simp: is_gap_def)
  show ?thesis
  proof (cases "?addr = 0")
    case True
    then show ?thesis using zero gap_result_fails [OF assms(8)] by (simp add: find)
  next
    case False
    then show ?thesis using zero up.found [OF False assms(5,6)] by (simp add: find gap_result_ret)
  qed
qed

definition maps_example :: "vmentry list" where
  "maps_example = [(0x1000, 0x3000), (0x4000, 0x5000), (0x20000, 0x21000)]"

definition procstat_example :: procstat where
  "procstat_example = \<lparr>ps_open_ok = True, ps_procs = Some 1, ps_vmmap = Some maps_example\<rparr>"

lemma maps_example_ok:
  "maps_ordered maps_example" "\<forall>e \<in> set maps_example. align_up (snd e) (2 ^ 12) \<noteq> 0"
  "is_gap 0x2000 (2 ^ 12) maps_example 1"
  by (simp_all add: maps_ordered_def maps_example_def align_up_def is_gap_def)

theorem gap_FreeBSD_correct_witness:
  "\<exists>addr. find_address_space_gap_FreeBSD morello_purecap procstat_example 0x2000 0x1000 (fresh_process morello_purecap ()) =
      (Return addr, fresh_process morello_purecap ()) \<and> addr \<noteq> 0 \<and> region_free addr 0x2000 maps_example"
proof -
  have "gap_request morello_purecap 0x2000 0x1000 = (0x2000, 2 ^ 12)"
    by (simp add: gap_request_def)
  then show ?thesis
    using gap_FreeBSD_correct [of procstat_example maps_example morello_purecap "0x2000" "0x1000" "0x2000" 12
        "fresh_process morello_purecap ()"] maps_example_ok
    by (auto simp: procstat_example_def split: if_splits)
qed

text \<open>
  C13: The Linux version keeps the same promise for the mappings it reads from the lines of
  \<^verbatim>\<open>/proc/self/maps\<close>, although it searches them from the top; on a file without lines its loop counter wraps
  around and it follows a null pointer.
\<close>

theorem gap_linux_correct:
  assumes "gap_request pl len align = (len', 2 ^ n)" "n < 64"
    and "es = map (scan_maps_line uninit) lines" "maps_ordered es"
    and "\<forall>e \<in> set es. align_up (snd e) (2 ^ n) \<noteq> 0" and "p_ccsp s \<noteq> None"
  shows "if lines = [] then fst (find_address_space_gap_linux pl uninit (Some lines) len align s) = Undefined
    else if \<exists>i. is_gap len' (2 ^ n) es i
    then \<exists>addr. find_address_space_gap_linux pl uninit (Some lines) len align s = (Return addr, s) \<and> addr \<noteq> 0 \<and>
      is_aligned addr (2 ^ n) \<and> region_free addr len' es
    else declares_failure (find_address_space_gap_linux pl uninit (Some lines) len align) s"
proof (cases "lines = []")
  case True
  then show ?thesis using assms(1) by (simp add: find_address_space_gap_linux_def)
next
  case lines: False
  let ?addr = "gap_search_down len' (2 ^ n) (rev es)"
  have find: "find_address_space_gap_linux pl uninit (Some lines) len align = gap_result pl len' ?addr"
    using assms(1,3) lines by (simp add: find_address_space_gap_linux_def read_maps_rev)
  have zero: "?addr = 0 \<longleftrightarrow> (\<nexists>i. is_gap len' (2 ^ n) es i)"
    using assms(5) by (intro down.not_found_iff) (auto simp: is_gap_def)
  show ?thesis
  proof (cases "?addr = 0")
    case True
    then show ?thesis using zero lines gap_result_fails [OF assms(6)] by (auto simp: find)
  next
    case False
    then show ?thesis using zero lines down.found [OF False assms(2,4)] by (simp add: find gap_result_ret)
  qed
qed

definition maps_lines_example :: "string list" where
  "maps_lines_example = [''1000-3000 r-xp'', ''4000-5000 rw-p'', ''20000-21000 rw-p'']"

lemma maps_lines_example_scan: "map (scan_maps_line (0, 0)) maps_lines_example = maps_example"
  by (simp add: maps_lines_example_def maps_example_def scan_maps_line_def scan_hex_def hex_digit_def
      begins_with_def Let_def)

theorem gap_linux_correct_witness:
  "\<exists>addr. find_address_space_gap_linux morello_linux (0, 0) (Some maps_lines_example) 0x2000 0x1000 (fresh_process morello_linux ()) =
      (Return addr, fresh_process morello_linux ()) \<and> addr \<noteq> 0 \<and> region_free addr 0x2000 maps_example"
proof -
  have "gap_request morello_linux 0x2000 0x1000 = (0x2000, 2 ^ 12)" "maps_lines_example \<noteq> []"
    by (simp_all add: gap_request_def maps_lines_example_def)
  then show ?thesis
    using gap_linux_correct [of morello_linux "0x2000" "0x1000" "0x2000" 12 maps_example "(0, 0)" maps_lines_example
        "fresh_process morello_linux ()"] maps_example_ok maps_lines_example_scan
    by (auto split: if_splits)
qed

end
