(* ===== verification/Memory.thy ===== *)
theory Memory
  imports Checks
begin

text \<open>
  Tagged memory: bytes by address, and for every 16-byte granule the valid capability it holds, if
  any. A store of data into a granule clears its tag. Addresses are natural numbers here (the
  value of a 64-bit address); how a capability is encoded in its sixteen bytes is a parameter.
\<close>

section \<open>Bytes, granules and tags\<close>

type_synonym byte = "8 word"

record mem =
  m_byte :: "nat \<Rightarrow> byte"
  m_tagged :: "nat \<Rightarrow> cap option" \<comment> \<open>by granule\<close>

definition CAP_SIZE :: nat where "CAP_SIZE = 16"

definition store_byte :: "nat \<Rightarrow> byte \<Rightarrow> mem \<Rightarrow> mem" where
  "store_byte a b m = m\<lparr>m_byte := (m_byte m)(a := b), m_tagged := (m_tagged m)(a div CAP_SIZE := None)\<rparr>"

text \<open>
  The encoding: sixteen bytes of a capability, and the fields that sixteen bytes denote. Loading a
  granule without a tag gives those fields with the tag clear.
\<close>

record cap_coding =
  cap_bytes :: "cap \<Rightarrow> nat \<Rightarrow> byte"
  bytes_cap :: "(nat \<Rightarrow> byte) \<Rightarrow> cap"

definition store_cap :: "cap_coding \<Rightarrow> nat \<Rightarrow> cap \<Rightarrow> mem \<Rightarrow> mem" where
  "store_cap cc a c m = m\<lparr>
     m_byte := (\<lambda>x. if a \<le> x \<and> x < a + CAP_SIZE then cap_bytes cc c (x - a) else m_byte m x),
     m_tagged := (m_tagged m)(a div CAP_SIZE := (if cap_tag c then Some c else None))\<rparr>"

definition load_cap :: "cap_coding \<Rightarrow> nat \<Rightarrow> mem \<Rightarrow> cap" where
  "load_cap cc a m =
     (case m_tagged m (a div CAP_SIZE) of
        Some c \<Rightarrow> c
      | None \<Rightarrow> cheri_tag_clear (bytes_cap cc (\<lambda>i. m_byte m (a + i))))"

section \<open>Copying\<close>

text \<open>
  \<^verbatim>\<open>memcpy\<close> and \<^verbatim>\<open>memmove\<close> on a CHERI system, for regions that do not overlap: the bytes are copied;
  a granule that is copied as a whole, between addresses of the same alignment, keeps its tag; every
  other granule that is written to loses it.
\<close>

definition granule_within :: "nat \<Rightarrow> nat \<Rightarrow> nat \<Rightarrow> bool" where
  "granule_within g a n \<longleftrightarrow> a \<le> g * CAP_SIZE \<and> g * CAP_SIZE + CAP_SIZE \<le> a + n"

definition granule_touched :: "nat \<Rightarrow> nat \<Rightarrow> nat \<Rightarrow> bool" where
  "granule_touched g a n \<longleftrightarrow> g * CAP_SIZE < a + n \<and> a < g * CAP_SIZE + CAP_SIZE \<and> 0 < n"

definition copy_region :: "nat \<Rightarrow> nat \<Rightarrow> nat \<Rightarrow> mem \<Rightarrow> mem" where
  "copy_region d s n m = m\<lparr>
     m_byte := (\<lambda>x. if d \<le> x \<and> x < d + n then m_byte m (s + (x - d)) else m_byte m x),
     m_tagged := (\<lambda>g.
        if granule_within g d n \<and> d mod CAP_SIZE = s mod CAP_SIZE
        then m_tagged m ((s + (g * CAP_SIZE - d)) div CAP_SIZE)
        else if granule_touched g d n then None
        else m_tagged m g)\<rparr>"

definition regions_apart :: "nat \<Rightarrow> nat \<Rightarrow> nat \<Rightarrow> bool" where
  "regions_apart d s n \<longleftrightarrow> d + n \<le> s \<or> s + n \<le> d"

text \<open>A copying function takes destination, source and length and returns a pointer.\<close>

type_synonym copy_fun = "cap \<Rightarrow> cap \<Rightarrow> nat \<Rightarrow> mem \<Rightarrow> cap \<times> mem"

definition memcpy :: copy_fun where
  "memcpy d s n m = (d, copy_region (unat (cap_addr d)) (unat (cap_addr s)) n m)"

text \<open>What a caller relies on: the result is the destination, the memory is copied.\<close>

locale capability_copy =
  fixes copy :: copy_fun
  assumes copies: "regions_apart (unat (cap_addr d)) (unat (cap_addr s)) n \<Longrightarrow>
    copy d s n m = (d, copy_region (unat (cap_addr d)) (unat (cap_addr s)) n m)"

interpretation libc: capability_copy memcpy
  by unfold_locales (simp add: memcpy_def)

lemma byte_store_byte [simp]: "m_byte (store_byte a b m) x = (if x = a then b else m_byte m x)"
  by (simp add: store_byte_def)

lemma tagged_store_byte [simp]:
  "m_tagged (store_byte a b m) g = (if g = a div CAP_SIZE then None else m_tagged m g)"
  by (simp add: store_byte_def)

lemma byte_copy_region [simp]:
  "m_byte (copy_region d s n m) x = (if d \<le> x \<and> x < d + n then m_byte m (s + (x - d)) else m_byte m x)"
  by (simp add: copy_region_def)

text \<open>A granule that is copied as a whole, at equal alignment, arrives with its tag.\<close>

lemma tagged_copy_within:
  assumes "d mod CAP_SIZE = s mod CAP_SIZE" "(d + k) mod CAP_SIZE = 0" "k + CAP_SIZE \<le> n"
  shows "m_tagged (copy_region d s n m) ((d + k) div CAP_SIZE) = m_tagged m ((s + k) div CAP_SIZE)"
proof -
  have g: "(d + k) div CAP_SIZE * CAP_SIZE = d + k"
    using assms(2) by (simp add: minus_mod_eq_div_mult [symmetric])
  then have "granule_within ((d + k) div CAP_SIZE) d n"
    using assms(3) by (simp add: granule_within_def)
  then show ?thesis using assms(1) g by (simp add: copy_region_def)
qed

text \<open>A granule that is written to at a different alignment loses its tag.\<close>

lemma tagged_copy_misaligned:
  assumes "d mod CAP_SIZE \<noteq> s mod CAP_SIZE" "granule_touched g d n"
  shows "m_tagged (copy_region d s n m) g = None"
  using assms by (simp add: copy_region_def)

lemma tagged_copy_outside:
  assumes "\<not> granule_touched g d n" "0 < n"
  shows "m_tagged (copy_region d s n m) g = m_tagged m g"
  using assms by (auto simp: copy_region_def granule_touched_def granule_within_def CAP_SIZE_def)

lemma load_cap_tagged: "m_tagged m (a div CAP_SIZE) = Some c \<Longrightarrow> load_cap cc a m = c"
  by (simp add: load_cap_def)

lemma load_cap_untagged: "m_tagged m (a div CAP_SIZE) = None \<Longrightarrow> \<not> cap_tag (load_cap cc a m)"
  by (simp add: load_cap_def cheri_tag_clear_def)

end
