(* ===== verification/String_Tests.thy ===== *)
theory String_Tests
  imports Memory Instances
begin

text \<open>
  The tests of \<^verbatim>\<open>cheriostest_string.c\<close>: copying a structure that holds a capability between two
  runs of data bytes. The copying functions are what is tested, so they are arguments of the tests;
  \<^verbatim>\<open>memcpy\<close> of theory \<^verbatim>\<open>Memory\<close> is what they should do.
\<close>

section \<open>The structure and its checks\<close>

text \<open>\<^verbatim>\<open>struct Test\<close>: 32 bytes, a capability, 32 bytes.\<close>

definition OFFSET_Y :: nat where "OFFSET_Y = 32"
definition OFFSET_PAD1 :: nat where "OFFSET_PAD1 = 48"
definition SIZEOF_TEST :: nat where "SIZEOF_TEST = 80"

lemmas test_layout = OFFSET_Y_def OFFSET_PAD1_def SIZEOF_TEST_def

text \<open>The addresses of the two local structures and the coding; the memory and the global \<^verbatim>\<open>expected_y\<close>.\<close>

record str_env =
  se_t1 :: cap
  se_t2 :: cap
  se_coding :: cap_coding

record str_world =
  sw_mem :: mem
  sw_expected_y :: cap

type_synonym 'a sprog = "(str_world, 'a) prog"

definition addr_of :: "cap \<Rightarrow> nat" where
  "addr_of c = unat (cap_addr c)"

definition check :: "platform \<Rightarrow> str_env \<Rightarrow> cap \<Rightarrow> nat \<Rightarrow> nat \<Rightarrow> unit sprog" where
  "check pl se t start stop = bindP get_world (\<lambda>w.
     let m = sw_mem w; y = load_cap (se_coding se) (addr_of t + OFFSET_Y) m in block (
     map (\<lambda>i. fail_if pl (m_byte m (addr_of t + i) \<noteq> of_nat i) ''(start = %d, end %d) t1->pad0[%d] != %d''
            [FInt (int start), FInt (int stop), FInt (int i), FInt (int i)]) [start..<32] @
     [fail_if pl (\<not> ptr_eq y (sw_expected_y w)) ''(start = %d, end %d) t1->y != t1'' [FInt (int start), FInt (int stop)],
      fail_if pl (\<not> cheri_tag_get y) ''(start = %d, end %d) t1->y is untagged'' [FInt (int start), FInt (int stop)]] @
     map (\<lambda>i. fail_if pl (m_byte m (addr_of t + OFFSET_PAD1 + i) \<noteq> of_nat i) ''(start = %d, end %d) t1->pad1[%d] != %d''
            [FInt (int start), FInt (int stop), FInt (int i), FInt (int i)]) [0..<stop]))"

text \<open>The loop stores through \<^verbatim>\<open>*x\<close>, not \<^verbatim>\<open>x[i]\<close>.\<close>

definition invalidate_mem :: "cap \<Rightarrow> mem \<Rightarrow> mem" where
  "invalidate_mem t m = fold (\<lambda>i. store_byte (addr_of t) 0xa5) [0..<SIZEOF_TEST] m"

definition invalidate :: "cap \<Rightarrow> unit sprog" where
  "invalidate t = upd_world (\<lambda>w. w\<lparr>sw_mem := invalidate_mem t (sw_mem w)\<rparr>)"

text \<open>The common beginning: \<^verbatim>\<open>t1\<close> is filled, its capability points to \<^verbatim>\<open>t2\<close>.\<close>

definition fill_mem :: "cap \<Rightarrow> mem \<Rightarrow> mem" where
  "fill_mem t m = fold (\<lambda>i m. store_byte (addr_of t + OFFSET_PAD1 + i) (of_nat i) (store_byte (addr_of t + i) (of_nat i) m)) [0..<32] m"

definition prepare :: "str_env \<Rightarrow> unit sprog list" where
  "prepare se =
     [invalidate (se_t1 se),
      upd_world (\<lambda>w. w\<lparr>sw_mem := fill_mem (se_t1 se) (sw_mem w)\<rparr>),
      upd_world (\<lambda>w. w\<lparr>sw_mem := store_cap (se_coding se) (addr_of (se_t1 se) + OFFSET_Y) (se_t2 se) (sw_mem w),
                        sw_expected_y := se_t2 se\<rparr>)]"

definition call_copy :: "copy_fun \<Rightarrow> cap \<Rightarrow> cap \<Rightarrow> nat \<Rightarrow> cap sprog" where
  "call_copy copy d s n = (\<lambda>st.
     case copy d s n (sw_mem (p_world st)) of (r, m) \<Rightarrow>
       (Return r, st\<lparr>p_world := (p_world st)\<lparr>sw_mem := m\<rparr>\<rparr>))"

text \<open>A copy whose result must be \<open>want\<close>.\<close>

definition copy_returns :: "platform \<Rightarrow> copy_fun \<Rightarrow> cap \<Rightarrow> cap \<Rightarrow> nat \<Rightarrow> cap \<Rightarrow> string \<Rightarrow> cap farg list \<Rightarrow> unit sprog" where
  "copy_returns pl copy d s n want msg ap =
     bindP (call_copy copy d s n) (\<lambda>cpy. fail_if pl (\<not> ptr_eq cpy want) msg ap)"

text \<open>\<^verbatim>\<open>&t.pad0[k]\<close>; also \<^verbatim>\<open>__builtin_cheri_offset_increment\<close>.\<close>

definition ptr_plus :: "platform \<Rightarrow> cap \<Rightarrow> uintmax \<Rightarrow> cap" where
  "ptr_plus pl t k = cheri_offset_increment pl t k"

text \<open>The case where source and destination are aligned differently.\<close>

definition check_shifted :: "platform \<Rightarrow> str_env \<Rightarrow> unit sprog" where
  "check_shifted pl se = bindP get_world (\<lambda>w. let m = sw_mem w; t = se_t2 se in block (
     fail_if pl (cheri_tag_get (load_cap (se_coding se) (addr_of t + OFFSET_Y) m)) ''dst has capability after unaligned write'' [] #
     concat (map (\<lambda>i.
       [fail_if pl (m_byte m (addr_of t + i) \<noteq> of_nat (i + 1)) ''t2.pad0[%d] != %d'' [FInt (int i), FInt (int i + 1)],
        fail_if pl (m_byte m (addr_of t + OFFSET_PAD1 + i) \<noteq> of_nat (i + 1)) ''t2.pad1[%d] != %d'' [FInt (int i), FInt (int i + 1)]])
       [0..<31])))"

section \<open>The tests\<close>

text \<open>\<^verbatim>\<open>string_memcpy\<close> and \<^verbatim>\<open>string_memmove\<close>; the messages name the function.\<close>

definition implicit_copy_cases :: "platform \<Rightarrow> str_env \<Rightarrow> copy_fun \<Rightarrow> string \<Rightarrow> unit sprog list" where
  "implicit_copy_cases pl se copy name =
     (let t1 = se_t1 se; t2 = se_t2 se; not_pad = name @ '' did not return dst (&t2.pad0[3])'' in
      [invalidate t2, copy_returns pl copy t2 t1 SIZEOF_TEST t2 ''copy != &t2'' [], check pl se t2 0 32,
       invalidate t2, copy_returns pl copy (ptr_plus pl t2 3) (ptr_plus pl t1 3) (SIZEOF_TEST - 3) (ptr_plus pl t2 3) not_pad [],
         check pl se t2 3 32,
       invalidate t2, copy_returns pl copy t2 t1 (SIZEOF_TEST - 3) t2 ''copy != &t2'' [], check pl se t2 0 29,
       invalidate t2, copy_returns pl copy (ptr_plus pl t2 3) (ptr_plus pl t1 3) (SIZEOF_TEST - 6) (ptr_plus pl t2 3) not_pad [],
         check pl se t2 3 29,
       copy_returns pl copy t2 (ptr_plus pl t1 1) (SIZEOF_TEST - 1) t2 ''copy != &t2'' [], check_shifted pl se])"

definition string_memcpy :: "platform \<Rightarrow> str_env \<Rightarrow> copy_fun \<Rightarrow> unit sprog" where
  "string_memcpy pl se memcpy_under_test =
     block (prepare se @ implicit_copy_cases pl se memcpy_under_test ''memcpy_c'' @ [cheriostest_success])"

definition string_memmove :: "platform \<Rightarrow> str_env \<Rightarrow> copy_fun \<Rightarrow> unit sprog" where
  "string_memmove pl se memmove_under_test =
     block (prepare se @ implicit_copy_cases pl se memmove_under_test ''memmove_c'' @ [cheriostest_success])"

text \<open>The cases about offsets, at the end of the explicit tests; \<open>last_copy\<close> makes the last one.\<close>

definition offset_copy_cases :: "platform \<Rightarrow> str_env \<Rightarrow> copy_fun \<Rightarrow> copy_fun \<Rightarrow> string \<Rightarrow> unit sprog list" where
  "offset_copy_cases pl se copy last_copy name =
     (let t1 = se_t1 se; t2 = se_t2 se in
      [invalidate t2,
       copy_returns pl copy (ptr_plus pl t2 3) (ptr_plus pl t1 3) (SIZEOF_TEST - 6) (ptr_plus pl t2 3)
         (name @ '' did not return dst (&t2.pad0[3])'') [],
       check pl se t2 3 29,
       invalidate t2,
       copy_returns pl copy (ptr_plus pl (ptr_plus pl t2 (- 1)) 1) (ptr_plus pl (ptr_plus pl t1 (- 1)) 1) SIZEOF_TEST t2
         ''(void*)cpy != &t2.pad0'' [],
       check pl se t2 0 32,
       invalidate t2,
       copy_returns pl last_copy (ptr_plus pl (ptr_plus pl t2 (- 1)) 32) (ptr_plus pl (ptr_plus pl t1 (- 1)) 32) (SIZEOF_TEST - 31)
         (ptr_plus pl t2 31) ''(void*)cpy != t2.pad0+31'' [],
       check pl se t2 31 32])"

definition explicit_copy_cases :: "platform \<Rightarrow> str_env \<Rightarrow> copy_fun \<Rightarrow> string \<Rightarrow> unit sprog list" where
  "explicit_copy_cases pl se copy name =
     (let t1 = se_t1 se; t2 = se_t2 se;
          not_t2 = name @ '' did not return dst (&t2)''; not_pad = name @ '' did not return dst (&t2.pad0[3])'' in
      [invalidate t2, copy_returns pl copy t2 t1 SIZEOF_TEST t2 not_t2 [], check pl se t2 0 32,
       invalidate t2, copy_returns pl copy (ptr_plus pl t2 3) (ptr_plus pl t1 3) (SIZEOF_TEST - 3) (ptr_plus pl t2 3) not_pad [],
         check pl se t2 3 32,
       invalidate t2, copy_returns pl copy t2 t1 (SIZEOF_TEST - 3) t2 not_t2 [], check pl se t2 0 29,
       invalidate t2, copy_returns pl copy (ptr_plus pl t2 3) (ptr_plus pl t1 3) (SIZEOF_TEST - 6) (ptr_plus pl t2 3) not_pad [],
         check pl se t2 3 29,
       invalidate t2, copy_returns pl copy t2 (ptr_plus pl t1 1) (SIZEOF_TEST - 1) t2 not_t2 [], check_shifted pl se])"

text \<open>The last case of \<^verbatim>\<open>string_memcpy_c\<close> calls \<^verbatim>\<open>memmove_c\<close>.\<close>

definition string_memcpy_c :: "platform \<Rightarrow> str_env \<Rightarrow> copy_fun \<Rightarrow> copy_fun \<Rightarrow> unit sprog" where
  "string_memcpy_c pl se memcpy_c memmove_c =
     block (prepare se @ explicit_copy_cases pl se memcpy_c ''memcpy_c'' @
       offset_copy_cases pl se memcpy_c memmove_c ''memcpy_c'' @ [cheriostest_success])"

definition string_memmove_c :: "platform \<Rightarrow> str_env \<Rightarrow> copy_fun \<Rightarrow> unit sprog" where
  "string_memmove_c pl se memmove_c =
     block (prepare se @ explicit_copy_cases pl se memmove_c ''memmove_c'' @
       offset_copy_cases pl se memmove_c memmove_c ''memmove_c'' @ [cheriostest_success])"

text \<open>The kernel's versions: all combinations of start and end.\<close>

definition kern_copy_case :: "platform \<Rightarrow> str_env \<Rightarrow> copy_fun \<Rightarrow> nat \<Rightarrow> nat \<Rightarrow> unit sprog list" where
  "kern_copy_case pl se copy hd_off tail_len =
     (let t1 = se_t1 se; t2 = se_t2 se; d = ptr_plus pl t2 (of_nat hd_off) in
      [invalidate t2,
       copy_returns pl copy d (ptr_plus pl t1 (of_nat hd_off)) (SIZEOF_TEST - hd_off - (32 - tail_len)) d
         ''kern_memcpy_c did not return dst (&t2.pad0[%zu])'' [FInt (int hd_off)],
       check pl se t2 hd_off tail_len])"

definition kern_copy_cases :: "platform \<Rightarrow> str_env \<Rightarrow> copy_fun \<Rightarrow> string \<Rightarrow> unit sprog list" where
  "kern_copy_cases pl se copy name =
     concat (map (\<lambda>h. concat (map (kern_copy_case pl se copy h) [0..<32])) [0..<32]) @
     [invalidate (se_t2 se),
      copy_returns pl copy (se_t2 se) (ptr_plus pl (se_t1 se) 1) (SIZEOF_TEST - 1) (se_t2 se)
        (name @ '' did not return dst (&t2)'') [],
      check_shifted pl se] @
     offset_copy_cases pl se copy copy name"

definition string_kern_memcpy_c :: "platform \<Rightarrow> str_env \<Rightarrow> copy_fun \<Rightarrow> unit sprog" where
  "string_kern_memcpy_c pl se kern_memcpy_c =
     block (prepare se @ [check pl se (se_t1 se) 0 32] @
       kern_copy_cases pl se kern_memcpy_c ''kern_memcpy_c'' @ [cheriostest_success])"

definition string_kern_memmove_c :: "platform \<Rightarrow> str_env \<Rightarrow> copy_fun \<Rightarrow> unit sprog" where
  "string_kern_memmove_c pl se kern_memmove_c =
     block (prepare se @ kern_copy_cases pl se kern_memmove_c ''kern_memmove_c'' @ [cheriostest_success])"

text \<open>\<^verbatim>\<open>unaligned_capability_copy_memcpy\<close> and its twin: \<open>src\<close>, \<open>dst\<close> and \<open>yp\<close> point to the two buffers and \<^verbatim>\<open>expected_y\<close>.\<close>

definition store_elem :: "cap_coding \<Rightarrow> cap \<Rightarrow> nat \<Rightarrow> cap \<Rightarrow> unit sprog" where
  "store_elem cc p i c = upd_world (\<lambda>w. w\<lparr>sw_mem := store_cap cc (addr_of p + i * CAP_SIZE) c (sw_mem w)\<rparr>)"

definition verify_elem_tag :: "platform \<Rightarrow> cap_coding \<Rightarrow> cap \<Rightarrow> nat \<Rightarrow> bool \<Rightarrow> string \<Rightarrow> unit sprog" where
  "verify_elem_tag pl cc p i tag what = bindP get_world (\<lambda>w.
     CHERIOSTEST_VERIFY pl (cheri_tag_get (load_cap cc (addr_of p + i * CAP_SIZE) (sw_mem w)) = tag) what)"

definition unaligned_capability_copy ::
  "platform \<Rightarrow> cap_coding \<Rightarrow> cap \<Rightarrow> cap \<Rightarrow> cap \<Rightarrow> copy_fun \<Rightarrow> unit sprog" where
  "unaligned_capability_copy pl cc src dst yp copy =
     (let copy_it = bindP (call_copy copy (ptr_plus pl dst 1) src (2 * CAP_SIZE)) (\<lambda>_. ret ()) in block
      [CHERIOSTEST_VERIFY pl (addr_of dst mod CAP_SIZE = 0) ''__builtin_is_aligned((void*)dest_buffer, sizeof(void* __capability))'',
       CHERIOSTEST_VERIFY pl (addr_of src mod CAP_SIZE = 0) ''__builtin_is_aligned((void*)src_buffer, sizeof(void * __capability))'',
       store_elem cc src 0 (cheri_offset_set pl (cap_null pl) 0x1234),
       store_elem cc src 1 (cheri_offset_set pl (cap_null pl) 0x4321),
       verify_elem_tag pl cc src 0 False ''!cheri_tag_get(src_buffer[0])'',
       verify_elem_tag pl cc src 1 False ''!cheri_tag_get(src_buffer[1])'',
       copy_it,
       store_elem cc src 1 yp,
       verify_elem_tag pl cc src 0 False ''!cheri_tag_get(src_buffer[0])'',
       verify_elem_tag pl cc src 1 True ''cheri_tag_get(src_buffer[1])'',
       copy_it,
       verify_elem_tag pl cc dst 0 False ''!cheri_tag_get(((void * __capability *)dest_buffer)[0])'',
       verify_elem_tag pl cc dst 1 False ''!cheri_tag_get(((void * __capability *)dest_buffer)[1])'',
       cheriostest_success])"

definition unaligned_capability_copy_memcpy :: "platform \<Rightarrow> cap_coding \<Rightarrow> cap \<Rightarrow> cap \<Rightarrow> cap \<Rightarrow> copy_fun \<Rightarrow> unit sprog" where
  "unaligned_capability_copy_memcpy pl cc src dst yp cheriostest_memcpy =
     unaligned_capability_copy pl cc src dst yp cheriostest_memcpy"

definition unaligned_capability_copy_memmove :: "platform \<Rightarrow> cap_coding \<Rightarrow> cap \<Rightarrow> cap \<Rightarrow> cap \<Rightarrow> copy_fun \<Rightarrow> unit sprog" where
  "unaligned_capability_copy_memmove pl cc src dst yp cheriostest_memmove =
     unaligned_capability_copy pl cc src dst yp cheriostest_memmove"

lemma fail_if_False [simp]: "fail_if pl False m a = ret ()"
  by (simp add: fail_if_def)

section \<open>The state between the copies\<close>

definition env_ok :: "str_env \<Rightarrow> bool" where
  "env_ok se \<longleftrightarrow>
     addr_of (se_t1 se) mod CAP_SIZE = 0 \<and> addr_of (se_t2 se) mod CAP_SIZE = 0 \<and>
     regions_apart (addr_of (se_t2 se)) (addr_of (se_t1 se)) SIZEOF_TEST \<and>
     addr_of (se_t1 se) + SIZEOF_TEST \<le> 2 ^ 64 \<and> addr_of (se_t2 se) + SIZEOF_TEST \<le> 2 ^ 64 \<and>
     cap_tag (se_t2 se)"

definition struct_ok :: "nat \<Rightarrow> cap \<Rightarrow> mem \<Rightarrow> bool" where
  "struct_ok a y m \<longleftrightarrow>
     (\<forall>i < 32. m_byte m (a + i) = of_nat i \<and> m_byte m (a + OFFSET_PAD1 + i) = of_nat i) \<and>
     m_tagged m ((a + OFFSET_Y) div CAP_SIZE) = Some y"

definition ready :: "str_env \<Rightarrow> str_world pstate \<Rightarrow> bool" where
  "ready se s \<longleftrightarrow> p_ccsp s \<noteq> None \<and> struct_ok (addr_of (se_t1 se)) (se_t2 se) (sw_mem (p_world s)) \<and>
     sw_expected_y (p_world s) = se_t2 se"

lemma invalidate_mem_eq: "invalidate_mem t m = store_byte (addr_of t) 0xa5 m"
proof -
  have "fold (\<lambda>i. store_byte a b) [0..<Suc n] m = store_byte a b m" for a b n m
    by (induction n) (simp_all add: store_byte_def)
  from this [of _ _ 79] show ?thesis by (simp add: invalidate_mem_def SIZEOF_TEST_def)
qed

lemma fill_bytes:
  "n \<le> 32 \<Longrightarrow>
   m_byte (fold (\<lambda>i m. store_byte (a + OFFSET_PAD1 + i) (of_nat i) (store_byte (a + i) (of_nat i) m)) [0..<n] m) x =
     (if a \<le> x \<and> x < a + n then of_nat (x - a)
      else if a + OFFSET_PAD1 \<le> x \<and> x < a + OFFSET_PAD1 + n then of_nat (x - a - OFFSET_PAD1)
      else m_byte m x)"
proof (induction n)
  case (Suc n)
  then show ?case by (auto simp: OFFSET_PAD1_def)
qed auto

lemma prepare_ready:
  assumes "env_ok se" "p_ccsp s \<noteq> None"
  shows "\<exists>s'. block (prepare se) s = (Return (), s') \<and> ready se s'"
proof -
  let ?a = "addr_of (se_t1 se)"
  let ?m = "store_cap (se_coding se) (?a + OFFSET_Y) (se_t2 se)
    (fill_mem (se_t1 se) (invalidate_mem (se_t1 se) (sw_mem (p_world s))))"
  let ?s = "s\<lparr>p_world := (p_world s)\<lparr>sw_mem := ?m, sw_expected_y := se_t2 se\<rparr>\<rparr>"
  have "block (prepare se) s = (Return (), ?s)"
    by (simp add: prepare_def bindP_def upd_world_def invalidate_def ret_def)
  moreover have "struct_ok ?a (se_t2 se) ?m"
    using assms(1) fill_bytes [of 32 ?a]
    by (simp add: struct_ok_def store_cap_def fill_mem_def env_ok_def CAP_SIZE_def OFFSET_Y_def OFFSET_PAD1_def)
  ultimately show ?thesis using assms(2) by (simp add: ready_def)
qed

text \<open>What \<open>check\<close> asks for is enough for it to come back.\<close>

lemma check_passes:
  assumes "\<And>i. start \<le> i \<Longrightarrow> i < 32 \<Longrightarrow> m_byte (sw_mem (p_world s)) (addr_of t + i) = of_nat i"
    and "\<And>i. i < stop \<Longrightarrow> m_byte (sw_mem (p_world s)) (addr_of t + OFFSET_PAD1 + i) = of_nat i"
    and "m_tagged (sw_mem (p_world s)) ((addr_of t + OFFSET_Y) div CAP_SIZE) = Some y"
    and "ptr_eq y (sw_expected_y (p_world s))" "cap_tag y"
  shows "check pl se t start stop s = (Return (), s)"
proof -
  have y: "load_cap (se_coding se) (addr_of t + OFFSET_Y) (sw_mem (p_world s)) = y"
    using assms(3) by (rule load_cap_tagged)
  show ?thesis
    unfolding check_def bindP_get_world Let_def
    using assms(1,2,4,5) y by (subst block_rets) (auto simp: cheri_tag_get_def ret_def)
qed

lemma struct_ok_bytes:
  assumes "struct_ok a y m" "i < 32"
  shows "m_byte m (a + i) = of_nat i" "m_byte m (a + (48 + i)) = of_nat i"
  using assms by (simp_all add: struct_ok_def OFFSET_PAD1_def add.assoc)

text \<open>It does not change the state.\<close>

lemma fail_if_state: "fail_if pl b m a s = (Return x, s') \<Longrightarrow> s' = s"
  by (auto simp: fail_if_def ret_def cheriostest_failure_errx_def split: if_splits)

lemma block_state:
  assumes "\<And>p s s'. p \<in> set ps \<Longrightarrow> p s = (Return (), s') \<Longrightarrow> s' = s" "block ps s = (Return (), s')"
  shows "s' = s"
  using assms
proof (induction ps arbitrary: s)
  case (Cons p ps)
  then obtain s1 where "p s = (Return (), s1)" "block ps s1 = (Return (), s')"
    by (auto simp: bindP_def split: prod.splits outcome.splits)
  with Cons show ?case by (metis list.set_intros)
qed (simp add: ret_def)

lemma check_state: "check pl se t start stop s = (Return (), s') \<Longrightarrow> s' = s"
  unfolding check_def bindP_get_world Let_def
  by (erule block_state [rotated]) (auto dest: fail_if_state)

lemma ready_invalidate:
  assumes "env_ok se" "ready se s"
  shows "ready se (s\<lparr>p_world := (p_world s)\<lparr>sw_mem := invalidate_mem (se_t2 se) (sw_mem (p_world s))\<rparr>\<rparr>)"
proof -
  let ?a = "addr_of (se_t1 se)" and ?b = "addr_of (se_t2 se)"
  have apart: "?b + SIZEOF_TEST \<le> ?a \<or> ?a + SIZEOF_TEST \<le> ?b" "?a mod 16 = 0" "?b mod 16 = 0"
    using assms(1) by (auto simp: env_ok_def regions_apart_def CAP_SIZE_def)
  then have "(?a + OFFSET_Y) div CAP_SIZE \<noteq> ?b div CAP_SIZE"
    by (auto simp: test_layout CAP_SIZE_def)
  then show ?thesis
    using assms(2) apart(1) by (auto simp: ready_def struct_ok_def invalidate_mem_eq test_layout)
qed

lemma env_apart:
  assumes "env_ok se"
  shows "addr_of (se_t2 se) + 80 \<le> addr_of (se_t1 se) \<or> addr_of (se_t1 se) + 80 \<le> addr_of (se_t2 se)"
    "addr_of (se_t1 se) mod 16 = 0" "addr_of (se_t2 se) mod 16 = 0"
  using assms by (auto simp: env_ok_def regions_apart_def SIZEOF_TEST_def CAP_SIZE_def)

text \<open>A write into \<^verbatim>\<open>t2\<close> leaves \<^verbatim>\<open>t1\<close> alone.\<close>

lemma ready_copy:
  assumes "env_ok se" "ready se s" "addr_of (se_t2 se) \<le> d" "d + n \<le> addr_of (se_t2 se) + 80" "0 < n"
  shows "ready se (s\<lparr>p_world := (p_world s)\<lparr>sw_mem := copy_region d src n (sw_mem (p_world s))\<rparr>\<rparr>)"
proof -
  let ?a = "addr_of (se_t1 se)" and ?b = "addr_of (se_t2 se)" and ?m = "sw_mem (p_world s)"
  note apart = env_apart [OF assms(1)]
  have g: "(?a + 32) div 16 * 16 = ?a + 32" using apart(2) by presburger
  have "\<not> granule_touched ((?a + 32) div 16) d n"
    using apart(1) assms(3,4) g by (auto simp: granule_touched_def CAP_SIZE_def)
  then have "m_tagged (copy_region d src n ?m) ((?a + OFFSET_Y) div CAP_SIZE) = m_tagged ?m ((?a + OFFSET_Y) div CAP_SIZE)"
    using assms(5) by (simp add: tagged_copy_outside OFFSET_Y_def CAP_SIZE_def)
  then show ?thesis
    using assms(2-4) apart(1) by (auto simp: ready_def struct_ok_def OFFSET_PAD1_def)
qed

lemma ptr_eq_addr: "ptr_eq c d \<longleftrightarrow> addr_of c = addr_of d"
  by (simp add: ptr_eq_def addr_of_def cheri_address_get_def word_unat_eq_iff)

lemma invalidate_run:
  "invalidate t s = (Return (), s\<lparr>p_world := (p_world s)\<lparr>sw_mem := invalidate_mem t (sw_mem (p_world s))\<rparr>\<rparr>)"
  by (simp add: invalidate_def upd_world_def)

lemma copy_returns_run:
  assumes "copy d src n (sw_mem (p_world s)) = (r, m)" "addr_of r = addr_of want"
  shows "copy_returns pl copy d src n want msg ap s = (Return (), s\<lparr>p_world := (p_world s)\<lparr>sw_mem := m\<rparr>\<rparr>)"
  using assms by (simp add: copy_returns_def call_copy_def bindP_def ptr_eq_addr ret_def)

text \<open>Pointer arithmetic within a structure does not wrap around.\<close>

lemma addr_ptr_plus:
  assumes "env_ok se" "unat k < 80"
  shows "addr_of (ptr_plus pl (se_t1 se) k) = addr_of (se_t1 se) + unat k"
    "addr_of (ptr_plus pl (se_t2 se) k) = addr_of (se_t2 se) + unat k"
  using assms unat_word_ariths(1) [of "cap_addr (se_t1 se)" k] unat_word_ariths(1) [of "cap_addr (se_t2 se)" k]
  by (auto simp: env_ok_def addr_of_def ptr_plus_def cheri_offset_increment_def cheri_address_set_def SIZEOF_TEST_def)

lemma addr_ptr_plus_back:
  "addr_of (ptr_plus pl (ptr_plus pl t (- 1)) k) = addr_of (ptr_plus pl t (k - 1))"
  by (simp add: addr_of_def ptr_plus_def cheri_offset_increment_def cheri_address_set_def algebra_simps)

context capability_copy
begin

lemma copy_run:
  assumes "regions_apart (addr_of d) (addr_of src) n" "addr_of want = addr_of d"
  shows "copy_returns pl copy d src n want msg ap s =
    (Return (), s\<lparr>p_world := (p_world s)\<lparr>sw_mem := copy_region (addr_of d) (addr_of src) n (sw_mem (p_world s))\<rparr>\<rparr>)"
  using assms copies [of d src n] by (intro copy_returns_run [where r = d]) (simp_all add: addr_of_def)

text \<open>A copy at equal alignment that covers the capability passes its check.\<close>

lemma aligned_copy:
  assumes env: "env_ok se" and s: "ready se s"
    and d: "addr_of d = addr_of (se_t2 se) + k" and src: "addr_of src = addr_of (se_t1 se) + k"
    and want: "addr_of want = addr_of d"
    and k: "k \<le> 32" "k \<le> start" and n: "48 + stop \<le> k + n" "k + n \<le> 80"
  shows "\<exists>s'. block [copy_returns pl copy d src n want msg ap, check pl se (se_t2 se) start stop] s = (Return (), s') \<and> ready se s'"
proof -
  let ?a = "addr_of (se_t1 se)" and ?b = "addr_of (se_t2 se)" and ?m = "sw_mem (p_world s)"
  let ?m' = "copy_region (addr_of d) (addr_of src) n ?m"
  let ?s = "s\<lparr>p_world := (p_world s)\<lparr>sw_mem := ?m'\<rparr>\<rparr>"
  note apart = env_apart [OF env]
  have run: "copy_returns pl copy d src n want msg ap s = (Return (), ?s)"
    using apart(1) d src n want by (intro copy_run) (auto simp: regions_apart_def)
  have ready: "ready se ?s"
    using env s d n k by (intro ready_copy) auto
  have t1: "struct_ok ?a (se_t2 se) ?m" using s by (simp add: ready_def)
  have "check pl se (se_t2 se) start stop ?s = (Return (), ?s)"
  proof (rule check_passes)
    show "m_byte (sw_mem (p_world ?s)) (?b + i) = of_nat i" if "start \<le> i" "i < 32" for i
    proof -
      have "?a + k + (?b + i - (?b + k)) = ?a + i" using that k by simp
      then show ?thesis using t1 d src that k n by (simp add: struct_ok_def)
    qed
    show "m_byte (sw_mem (p_world ?s)) (?b + OFFSET_PAD1 + i) = of_nat i" if "i < stop" for i
    proof -
      have "?a + k + (?b + 48 + i - (?b + k)) = ?a + 48 + i" using k by simp
      then show ?thesis using struct_ok_bytes(2) [OF t1, of i] d src that k n by (simp add: OFFSET_PAD1_def)
    qed
    have "m_tagged ?m' ((addr_of d + (32 - k)) div CAP_SIZE) = m_tagged ?m ((addr_of src + (32 - k)) div CAP_SIZE)"
    proof (rule tagged_copy_within)
      show "addr_of d mod CAP_SIZE = addr_of src mod CAP_SIZE"
        using apart(2,3) d src by (simp add: CAP_SIZE_def mod_add_left_eq [symmetric])
      show "(addr_of d + (32 - k)) mod CAP_SIZE = 0"
        using apart(3) d k unfolding CAP_SIZE_def by simp presburger
      show "32 - k + CAP_SIZE \<le> n" using k n by (simp add: CAP_SIZE_def)
    qed
    then show "m_tagged (sw_mem (p_world ?s)) ((?b + OFFSET_Y) div CAP_SIZE) = Some (se_t2 se)"
      using t1 d src k by (simp add: struct_ok_def OFFSET_Y_def)
    show "ptr_eq (se_t2 se) (sw_expected_y (p_world ?s))"
      using s by (simp add: ready_def ptr_eq_addr)
    show "cap_tag (se_t2 se)" using env by (simp add: env_ok_def)
  qed
  then show ?thesis using run ready by (simp add: bindP_def ret_def)
qed

lemma aligned_case:
  assumes "env_ok se" "addr_of d = addr_of (se_t2 se) + k" "addr_of src = addr_of (se_t1 se) + k"
    "addr_of want = addr_of d" "k \<le> 32" "k \<le> start" "48 + stop \<le> k + n" "k + n \<le> 80"
  shows "keeps (ready se)
    [invalidate (se_t2 se), copy_returns pl copy d src n want msg ap, check pl se (se_t2 se) start stop]"
  unfolding keeps_def block_step [OF invalidate_run]
  using aligned_copy [OF assms(1) ready_invalidate [OF assms(1)] assms(2-8)] by blast

text \<open>A copy at different alignment shifts the bytes and strips the tag.\<close>

lemma shifted_copy:
  assumes env: "env_ok se" and src: "addr_of src = addr_of (se_t1 se) + 1"
  shows "keeps (ready se) [copy_returns pl copy (se_t2 se) src 79 (se_t2 se) msg ap, check_shifted pl se]"
  unfolding keeps_def
proof (intro allI impI)
  fix s assume s: "ready se s"
  let ?a = "addr_of (se_t1 se)" and ?b = "addr_of (se_t2 se)" and ?m = "sw_mem (p_world s)"
  let ?m' = "copy_region ?b (addr_of src) 79 ?m"
  let ?s = "s\<lparr>p_world := (p_world s)\<lparr>sw_mem := ?m'\<rparr>\<rparr>"
  note apart = env_apart [OF env]
  have run: "copy_returns pl copy (se_t2 se) src 79 (se_t2 se) msg ap s = (Return (), ?s)"
    using apart(1) src by (intro copy_run) (auto simp: regions_apart_def)
  have ready: "ready se ?s" using env s by (intro ready_copy) auto
  have t1: "struct_ok ?a (se_t2 se) ?m" using s by (simp add: ready_def)
  have g: "(?b + 32) div 16 * 16 = ?b + 32" using apart(3) by presburger
  have "m_tagged ?m' ((?b + OFFSET_Y) div CAP_SIZE) = None"
    using apart(2,3) src g
    by (intro tagged_copy_misaligned) (simp_all add: CAP_SIZE_def granule_touched_def OFFSET_Y_def mod_Suc)
  then have untagged: "\<not> cap_tag (load_cap (se_coding se) (?b + OFFSET_Y) ?m')" by (rule load_cap_untagged)
  have pad0: "m_byte ?m' (?b + i) = of_nat (i + 1)" if "i < 31" for i
    using struct_ok_bytes(1) [OF t1, of "i + 1"] src that by simp
  have pad1: "m_byte ?m' (?b + OFFSET_PAD1 + i) = of_nat (i + 1)" if "i < 31" for i
  proof -
    have "addr_of src + (?b + 48 + i - ?b) = ?a + (48 + (i + 1))" using src by simp
    then show ?thesis using struct_ok_bytes(2) [OF t1, of "i + 1"] that by (simp add: OFFSET_PAD1_def ac_simps)
  qed
  have "check_shifted pl se ?s = (Return (), ?s)"
    unfolding check_shifted_def bindP_get_world Let_def
    using untagged pad0 pad1 by (subst block_rets) (auto simp: cheri_tag_get_def ret_def)
  then show "\<exists>s'. block [copy_returns pl copy (se_t2 se) src 79 (se_t2 se) msg ap, check_shifted pl se] s = (Return (), s') \<and> ready se s'"
    using run ready by (simp add: bindP_def ret_def)
qed

text \<open>The lists of cases of the tests.\<close>

lemma implicit_cases_pass:
  assumes env: "env_ok se"
  shows "keeps (ready se) (implicit_copy_cases pl se copy name)"
proof -
  let ?t1 = "se_t1 se" and ?t2 = "se_t2 se"
  let ?case = "\<lambda>d src n msg start stop. [invalidate ?t2, copy_returns pl copy d src n d msg [], check pl se ?t2 start stop]"
  have split: "implicit_copy_cases pl se copy name =
      ?case ?t2 ?t1 80 ''copy != &t2'' 0 32 @
      ?case (ptr_plus pl ?t2 3) (ptr_plus pl ?t1 3) 77 (name @ '' did not return dst (&t2.pad0[3])'') 3 32 @
      ?case ?t2 ?t1 77 ''copy != &t2'' 0 29 @
      ?case (ptr_plus pl ?t2 3) (ptr_plus pl ?t1 3) 74 (name @ '' did not return dst (&t2.pad0[3])'') 3 29 @
      [copy_returns pl copy ?t2 (ptr_plus pl ?t1 1) 79 ?t2 ''copy != &t2'' [], check_shifted pl se]"
    by (simp add: implicit_copy_cases_def Let_def SIZEOF_TEST_def)
  have "keeps (ready se) (?case ?t2 ?t1 n msg 0 stop)" if "48 + stop \<le> n" "n \<le> 80" for n msg stop
    using env that by (intro aligned_case [where k = 0]) simp_all
  moreover have "keeps (ready se) (?case (ptr_plus pl ?t2 3) (ptr_plus pl ?t1 3) n msg 3 stop)"
    if "48 + stop \<le> 3 + n" "3 + n \<le> 80" for n msg stop
    using env that by (intro aligned_case [where k = 3]) (simp_all add: addr_ptr_plus)
  moreover have "keeps (ready se)
      [copy_returns pl copy ?t2 (ptr_plus pl ?t1 1) 79 ?t2 ''copy != &t2'' [], check_shifted pl se]"
    using env by (intro shifted_copy) (simp_all add: addr_ptr_plus)
  ultimately show ?thesis unfolding split by (intro keeps_append) simp_all
qed

text \<open>The group of three statements that most cases consist of.\<close>

lemma case_at:
  assumes "env_ok se" "unat k \<le> 32" "unat k \<le> start" "48 + stop \<le> unat k + n" "unat k + n \<le> 80"
    "addr_of d = addr_of (ptr_plus pl (se_t2 se) k)" "addr_of src = addr_of (ptr_plus pl (se_t1 se) k)"
    "addr_of want = addr_of (ptr_plus pl (se_t2 se) k)"
  shows "keeps (ready se) [invalidate (se_t2 se), copy_returns pl copy d src n want msg ap, check pl se (se_t2 se) start stop]"
  using assms by (intro aligned_case [where k = "unat k"]) (simp_all add: addr_ptr_plus)

lemma shifted_case:
  assumes "env_ok se"
  shows "keeps (ready se) [invalidate (se_t2 se),
    copy_returns pl copy (se_t2 se) (ptr_plus pl (se_t1 se) 1) 79 (se_t2 se) msg ap, check_shifted pl se]"
proof -
  have "keeps (ready se) [invalidate (se_t2 se)]"
    unfolding keeps_def block_step [OF invalidate_run] using ready_invalidate [OF assms] by (simp add: ret_def)
  moreover have "keeps (ready se) [copy_returns pl copy (se_t2 se) (ptr_plus pl (se_t1 se) 1) 79 (se_t2 se) msg ap, check_shifted pl se]"
    using assms by (intro shifted_copy) (simp_all add: addr_ptr_plus)
  ultimately show ?thesis using keeps_append by fastforce
qed

lemma explicit_cases_pass:
  assumes env: "env_ok se"
  shows "keeps (ready se) (explicit_copy_cases pl se copy name)"
proof -
  let ?t1 = "se_t1 se" and ?t2 = "se_t2 se"
  let ?case = "\<lambda>d src n msg start stop. [invalidate ?t2, copy_returns pl copy d src n d msg [], check pl se ?t2 start stop]"
  have split: "explicit_copy_cases pl se copy name =
      ?case ?t2 ?t1 80 (name @ '' did not return dst (&t2)'') 0 32 @
      ?case (ptr_plus pl ?t2 3) (ptr_plus pl ?t1 3) 77 (name @ '' did not return dst (&t2.pad0[3])'') 3 32 @
      ?case ?t2 ?t1 77 (name @ '' did not return dst (&t2)'') 0 29 @
      ?case (ptr_plus pl ?t2 3) (ptr_plus pl ?t1 3) 74 (name @ '' did not return dst (&t2.pad0[3])'') 3 29 @
      [invalidate ?t2, copy_returns pl copy ?t2 (ptr_plus pl ?t1 1) 79 ?t2 (name @ '' did not return dst (&t2)'') [],
       check_shifted pl se]"
    by (simp add: explicit_copy_cases_def Let_def SIZEOF_TEST_def)
  show ?thesis
    unfolding split using env
    by (intro keeps_append case_at [where k = 0] case_at [where k = 3] shifted_case) (simp_all add: addr_ptr_plus)
qed

lemma kern_case_passes:
  assumes "env_ok se" "h < 32" "t < 32"
  shows "keeps (ready se) (kern_copy_case pl se copy h t)"
proof -
  have "unat (of_nat h :: uintmax) = h" using assms(2) by (simp add: unat_of_nat)
  then show ?thesis
    unfolding kern_copy_case_def Let_def using assms
    by (intro case_at [where k = "of_nat h"]) (simp_all add: SIZEOF_TEST_def)
qed

end

text \<open>The offset cases use two functions.\<close>

lemma offset_cases_pass:
  assumes "capability_copy copy" "capability_copy last_copy" "env_ok se"
  shows "keeps (ready se) (offset_copy_cases pl se copy last_copy name)"
proof -
  let ?t1 = "se_t1 se" and ?t2 = "se_t2 se"
  let ?case = "\<lambda>f d src n want msg start stop. [invalidate ?t2, copy_returns pl f d src n want msg [], check pl se ?t2 start stop]"
  have split: "offset_copy_cases pl se copy last_copy name =
      ?case copy (ptr_plus pl ?t2 3) (ptr_plus pl ?t1 3) 74 (ptr_plus pl ?t2 3) (name @ '' did not return dst (&t2.pad0[3])'') 3 29 @
      ?case copy (ptr_plus pl (ptr_plus pl ?t2 (- 1)) 1) (ptr_plus pl (ptr_plus pl ?t1 (- 1)) 1) 80 ?t2 ''(void*)cpy != &t2.pad0'' 0 32 @
      ?case last_copy (ptr_plus pl (ptr_plus pl ?t2 (- 1)) 32) (ptr_plus pl (ptr_plus pl ?t1 (- 1)) 32) 49 (ptr_plus pl ?t2 31)
        ''(void*)cpy != t2.pad0+31'' 31 32"
    by (simp add: offset_copy_cases_def Let_def SIZEOF_TEST_def)
  note c = capability_copy.case_at [OF assms(1,3)] capability_copy.case_at [OF assms(2,3)]
  show ?thesis
    unfolding split using assms(3)
    by (intro keeps_append c(1) [where k = 3] c(1) [where k = 0] c(2) [where k = 31])
      (simp_all add: addr_ptr_plus_back, simp_all add: addr_ptr_plus)
qed

lemma kern_cases_pass:
  assumes "capability_copy copy" "env_ok se"
  shows "keeps (ready se) (kern_copy_cases pl se copy name)"
proof -
  have "keeps (ready se) (concat (map (\<lambda>h. concat (map (kern_copy_case pl se copy h) [0..<32])) [0..<32]))"
    using assms by (intro keeps_concat) (auto intro!: keeps_concat capability_copy.kern_case_passes)
  moreover have "keeps (ready se) [invalidate (se_t2 se),
      copy_returns pl copy (se_t2 se) (ptr_plus pl (se_t1 se) 1) (SIZEOF_TEST - 1) (se_t2 se) msg [], check_shifted pl se]" for msg
    using capability_copy.shifted_case [OF assms] by (simp add: SIZEOF_TEST_def)
  ultimately show ?thesis
    unfolding kern_copy_cases_def using offset_cases_pass [OF assms(1,1,2)] by (intro keeps_append)
qed

section \<open>A copy that the tests do not notice\<close>

text \<open>It copies nothing to a destination that is not aligned.\<close>

definition lazy_memcpy :: copy_fun where
  "lazy_memcpy d s n m = (if addr_of d mod CAP_SIZE = 0 then memcpy d s n m else (d, m))"

text \<open>What \<^verbatim>\<open>t2\<close> holds after the first case: everything but, perhaps, the first bytes.\<close>

definition half_ok :: "nat \<Rightarrow> cap \<Rightarrow> mem \<Rightarrow> bool" where
  "half_ok b y m \<longleftrightarrow>
     (\<forall>i. 3 \<le> i \<and> i < 32 \<longrightarrow> m_byte m (b + i) = of_nat i) \<and> (\<forall>i < 32. m_byte m (b + (48 + i)) = of_nat i) \<and>
     m_tagged m ((b + OFFSET_Y) div CAP_SIZE) = Some y"

definition stale :: "str_env \<Rightarrow> str_world pstate \<Rightarrow> bool" where
  "stale se s \<longleftrightarrow> ready se s \<and> half_ok (addr_of (se_t2 se)) (se_t2 se) (sw_mem (p_world s))"

lemma half_ok_invalidate:
  assumes "half_ok (addr_of t) y m" "addr_of t mod 16 = 0"
  shows "half_ok (addr_of t) y (invalidate_mem t m)"
proof -
  have "(addr_of t + 32) div 16 \<noteq> addr_of t div 16" using assms(2) by presburger
  then show ?thesis
    using assms(1) by (auto simp: half_ok_def invalidate_mem_eq OFFSET_Y_def CAP_SIZE_def)
qed

lemma half_ok_copy:
  assumes "struct_ok a y m" "a mod 16 = 0" "b mod 16 = 0" "n = 80 \<or> 48 \<le> n \<and> half_ok b y m"
  shows "half_ok b y (copy_region b a n m)"
proof -
  have n: "48 \<le> n" using assms(4) by auto
  have "m_tagged (copy_region b a n m) ((b + 32) div CAP_SIZE) = m_tagged m ((a + 32) div CAP_SIZE)"
    using assms(2,3) n by (intro tagged_copy_within) (simp_all add: CAP_SIZE_def, presburger)
  moreover have "m_byte m (a + i) = of_nat i" "m_byte m (a + (48 + i)) = of_nat i" if "i < 32" for i
    using struct_ok_bytes [OF assms(1) that] .
  ultimately show ?thesis
    using assms(1,4) n by (auto simp: half_ok_def struct_ok_def OFFSET_Y_def)
qed

lemma check_stale:
  assumes "env_ok se" "stale se s" "stop \<le> 32"
  shows "check pl se (se_t2 se) 3 stop s = (Return (), s)"
  using assms
  by (intro check_passes [where y = "se_t2 se"])
    (simp_all add: stale_def half_ok_def ready_def ptr_eq_addr env_ok_def OFFSET_PAD1_def add.assoc)

lemma addr_ptr_plus_3:
  assumes "env_ok se"
  shows "addr_of (ptr_plus pl (se_t2 se) 3) mod CAP_SIZE \<noteq> 0"
proof -
  have "(addr_of (se_t2 se) + 3) mod 16 \<noteq> 0" using env_apart(3) [OF assms] by presburger
  then show ?thesis using addr_ptr_plus(2) [OF assms, of 3] by (simp add: CAP_SIZE_def)
qed

lemma stale_invalidate:
  assumes "env_ok se" "stale se s"
  shows "stale se (s\<lparr>p_world := (p_world s)\<lparr>sw_mem := invalidate_mem (se_t2 se) (sw_mem (p_world s))\<rparr>\<rparr>)"
  using assms ready_invalidate [OF assms(1)] half_ok_invalidate env_apart(3) [OF assms(1)]
  by (simp add: stale_def)

lemma lazy_skips:
  assumes "env_ok se" "stop \<le> 32"
  shows "keeps (stale se) [invalidate (se_t2 se),
    copy_returns pl lazy_memcpy (ptr_plus pl (se_t2 se) 3) src n (ptr_plus pl (se_t2 se) 3) msg ap,
    check pl se (se_t2 se) 3 stop]"
  unfolding keeps_def block_step [OF invalidate_run]
proof (intro allI impI)
  fix s assume "stale se s"
  let ?s = "s\<lparr>p_world := (p_world s)\<lparr>sw_mem := invalidate_mem (se_t2 se) (sw_mem (p_world s))\<rparr>\<rparr>"
  have st: "stale se ?s" by (rule stale_invalidate [OF assms(1) \<open>stale se s\<close>])
  have "copy_returns pl lazy_memcpy (ptr_plus pl (se_t2 se) 3) src n (ptr_plus pl (se_t2 se) 3) msg ap ?s =
      (Return (), ?s\<lparr>p_world := (p_world ?s)\<lparr>sw_mem := sw_mem (p_world ?s)\<rparr>\<rparr>)"
    by (rule copy_returns_run) (simp_all only: lazy_memcpy_def addr_ptr_plus_3 [OF assms(1)] if_False)
  then have "copy_returns pl lazy_memcpy (ptr_plus pl (se_t2 se) 3) src n (ptr_plus pl (se_t2 se) 3) msg ap ?s = (Return (), ?s)"
    by simp
  then show "\<exists>s'. block [copy_returns pl lazy_memcpy (ptr_plus pl (se_t2 se) 3) src n (ptr_plus pl (se_t2 se) 3) msg ap,
      check pl se (se_t2 se) 3 stop] ?s = (Return (), s') \<and> stale se s'"
    using st check_stale [OF assms(1) st assms(2)] by (simp add: bindP_def ret_def)
qed

text \<open>An aligned copy, after the invalidation: both functions do the same.\<close>

lemma lazy_copies:
  assumes env: "env_ok se" and s: "ready se s" and n: "n = 80 \<or> n = 77 \<and> stale se s" and stop: "48 + stop \<le> n"
  shows "\<exists>s'. block [invalidate (se_t2 se), copy_returns pl lazy_memcpy (se_t2 se) (se_t1 se) n (se_t2 se) msg ap,
    check pl se (se_t2 se) 0 stop] s = (Return (), s') \<and> stale se s'"
proof -
  let ?b = "addr_of (se_t2 se)"
  let ?s = "s\<lparr>p_world := (p_world s)\<lparr>sw_mem := invalidate_mem (se_t2 se) (sw_mem (p_world s))\<rparr>\<rparr>"
  let ?s' = "?s\<lparr>p_world := (p_world ?s)\<lparr>sw_mem := copy_region ?b (addr_of (se_t1 se)) n (sw_mem (p_world ?s))\<rparr>\<rparr>"
  note apart = env_apart [OF env]
  have ready: "ready se ?s" by (rule ready_invalidate [OF env s])
  have same: "lazy_memcpy (se_t2 se) src n = memcpy (se_t2 se) src n" for src n
    using apart(3) by (intro ext) (simp add: lazy_memcpy_def CAP_SIZE_def)
  have run: "copy_returns pl lazy_memcpy (se_t2 se) (se_t1 se) n (se_t2 se) msg ap ?s = (Return (), ?s')"
    by (rule copy_returns_run [where r = "se_t2 se"]) (simp_all add: same memcpy_def addr_of_def)
  have "half_ok ?b (se_t2 se) (sw_mem (p_world ?s))" if "n \<noteq> 80"
    using n that stale_invalidate [OF env] by (auto simp: stale_def)
  then have "half_ok ?b (se_t2 se) (sw_mem (p_world ?s'))"
    using half_ok_copy [of "addr_of (se_t1 se)" "se_t2 se" "sw_mem (p_world ?s)" ?b n] ready apart(2,3) n
    by (auto simp: ready_def)
  moreover have "ready se ?s'" using env ready n by (intro ready_copy) auto
  moreover obtain s2 where s2: "block [copy_returns pl memcpy (se_t2 se) (se_t1 se) n (se_t2 se) msg ap, check pl se (se_t2 se) 0 stop] ?s = (Return (), s2)"
    using libc.aligned_copy [OF env ready, of "se_t2 se" 0 "se_t1 se" "se_t2 se" 0 stop n pl msg ap] n stop by auto
  have "copy_returns pl memcpy (se_t2 se) (se_t1 se) n (se_t2 se) msg ap ?s = (Return (), ?s')"
    by (rule copy_returns_run [where r = "se_t2 se"]) (simp_all add: memcpy_def addr_of_def)
  then have "check pl se (se_t2 se) 0 stop ?s' = (Return (), ?s')"
    using s2 check_state by (auto simp: block_step bindP_def ret_def split: prod.splits outcome.splits)
  ultimately show ?thesis
    unfolding block_step [OF invalidate_run]
    using run by (intro exI [of _ ?s']) (simp add: stale_def bindP_def ret_def)
qed

section \<open>Properties\<close>

lemma string_test_passes:
  assumes "env_ok se" "p_ccsp s \<noteq> None" "keeps (ready se) cases"
  shows "declares_success (block (prepare se @ cases @ [cheriostest_success])) s"
proof -
  obtain s1 where "block (prepare se) s = (Return (), s1)" "ready se s1"
    using prepare_ready [OF assms(1,2)] by blast
  then show ?thesis
    using assms(3) by (rule keeps_then_success) (simp add: ready_def)
qed

lemma check_t1:
  assumes "env_ok se" shows "keeps (ready se) [check pl se (se_t1 se) 0 32]"
  unfolding keeps_def
proof (intro allI impI)
  fix s assume s: "ready se s"
  have "check pl se (se_t1 se) 0 32 s = (Return (), s)"
    using s assms by (intro check_passes [where y = "se_t2 se"])
      (simp_all add: ready_def struct_ok_def ptr_eq_addr env_ok_def)
  then show "\<exists>s'. block [check pl se (se_t1 se) 0 32] s = (Return (), s') \<and> ready se s'"
    using s by (simp add: bindP_def ret_def)
qed

text \<open>
  C14: No copying function that keeps its promise is blamed: if \<^verbatim>\<open>memcpy\<close>, \<^verbatim>\<open>memmove\<close>, their explicit and
  their kernel versions return the destination, copy the bytes, keep the tag of a capability that is
  copied as a whole at equal alignment and strip it otherwise, then all six copy tests declare success,
  including all 1024 combinations of start and end of the kernel's tests.
\<close>

theorem string_copy_tests_pass:
  assumes "capability_copy f" "capability_copy g" "env_ok se" "p_ccsp s \<noteq> None"
  shows "declares_success (string_memcpy pl se f) s \<and> declares_success (string_memmove pl se f) s \<and>
    declares_success (string_memcpy_c pl se f g) s \<and> declares_success (string_memmove_c pl se f) s \<and>
    declares_success (string_kern_memcpy_c pl se f) s \<and> declares_success (string_kern_memmove_c pl se f) s"
proof -
  note cases = capability_copy.implicit_cases_pass [OF assms(1,3)] capability_copy.explicit_cases_pass [OF assms(1,3)]
    offset_cases_pass [OF assms(1,2,3)] offset_cases_pass [OF assms(1,1,3)] kern_cases_pass [OF assms(1,3)]
    check_t1 [OF assms(3)]
  have "declares_success (block (prepare se @ (xs @ ys) @ [cheriostest_success])) s"
    if "keeps (ready se) xs" "keeps (ready se) ys" for xs ys
    using string_test_passes [OF assms(3,4) keeps_append [OF that]] .
  then have two: "declares_success (block (prepare se @ xs @ ys @ [cheriostest_success])) s"
    if "keeps (ready se) xs" "keeps (ready se) ys" for xs ys
    using that by fastforce
  show ?thesis
    unfolding string_memcpy_def string_memmove_def string_memcpy_c_def string_memmove_c_def
      string_kern_memcpy_c_def string_kern_memmove_c_def
    using cases by (intro conjI two string_test_passes [OF assms(3,4)]) simp_all
qed

definition str_env_example :: "str_env" where
  "str_env_example = \<lparr>
     se_t1 = (cap_null morello_hybrid)\<lparr>cap_tag := True, cap_addr := 0x1000\<rparr>,
     se_t2 = (cap_null morello_hybrid)\<lparr>cap_tag := True, cap_addr := 0x2000\<rparr>,
     se_coding = \<lparr>cap_bytes = (\<lambda>_ _. 0), bytes_cap = (\<lambda>_. cap_null morello_hybrid)\<rparr>\<rparr>"

lemma str_env_example_ok [simp]: "env_ok str_env_example"
  by (simp add: env_ok_def str_env_example_def addr_of_def CAP_SIZE_def regions_apart_def SIZEOF_TEST_def)

definition str_world_example :: str_world where
  "str_world_example = \<lparr>sw_mem = \<lparr>m_byte = (\<lambda>_. 0), m_tagged = (\<lambda>_. None)\<rparr>, sw_expected_y = cap_null morello_hybrid\<rparr>"

theorem string_copy_tests_pass_witness:
  "declares_success (string_memcpy_c morello_hybrid str_env_example memcpy memcpy)
     (fresh_process morello_hybrid str_world_example)"
  using string_copy_tests_pass [OF libc.capability_copy_axioms libc.capability_copy_axioms str_env_example_ok,
      of "fresh_process morello_hybrid str_world_example" morello_hybrid] by simp

lemma lazy_cases_pass:
  assumes "env_ok se"
  shows "keeps (ready se) (implicit_copy_cases pl se lazy_memcpy name)"
proof -
  let ?t1 = "se_t1 se" and ?t2 = "se_t2 se"
  let ?case = "\<lambda>d src n msg start stop. [invalidate ?t2, copy_returns pl lazy_memcpy d src n d msg [], check pl se ?t2 start stop]"
  let ?first = "?case ?t2 ?t1 80 ''copy != &t2'' 0 32"
  let ?rest = "?case (ptr_plus pl ?t2 3) (ptr_plus pl ?t1 3) 77 (name @ '' did not return dst (&t2.pad0[3])'') 3 32 @
      ?case ?t2 ?t1 77 ''copy != &t2'' 0 29 @
      ?case (ptr_plus pl ?t2 3) (ptr_plus pl ?t1 3) 74 (name @ '' did not return dst (&t2.pad0[3])'') 3 29"
  let ?last = "[copy_returns pl lazy_memcpy ?t2 (ptr_plus pl ?t1 1) 79 ?t2 ''copy != &t2'' [], check_shifted pl se]"
  have split: "implicit_copy_cases pl se lazy_memcpy name = (?first @ ?rest) @ ?last"
    by (simp add: implicit_copy_cases_def Let_def SIZEOF_TEST_def)
  have "keeps (stale se) (?case ?t2 ?t1 77 msg 0 29)" for msg
    unfolding keeps_def using lazy_copies [OF assms, of _ 77 29] by (auto simp: stale_def)
  then have rest: "keeps (stale se) ?rest"
    using assms by (intro keeps_append lazy_skips) simp_all
  have "\<exists>s'. block (?first @ ?rest) s = (Return (), s') \<and> ready se s'" if s: "ready se s" for s
  proof -
    obtain s1 where "block ?first s = (Return (), s1)" "stale se s1"
      using lazy_copies [OF assms s, where n = 80 and stop = 32 and pl = pl and msg = "''copy != &t2''" and ap = "[]"]
      by (auto simp del: block.simps)
    moreover then obtain s2 where "block ?rest s1 = (Return (), s2)" "stale se s2"
      using rest unfolding keeps_def by blast
    ultimately show ?thesis by (simp only: block_append [of ?first] bindP_def) (simp add: stale_def)
  qed
  then have "keeps (ready se) (?first @ ?rest)" by (simp only: keeps_def) blast
  moreover have "copy_returns pl lazy_memcpy ?t2 x n w msg ap = copy_returns pl memcpy ?t2 x n w msg ap" for x n w msg ap
    using env_apart(3) [OF assms] by (simp add: copy_returns_def call_copy_def lazy_memcpy_def CAP_SIZE_def)
  then have "keeps (ready se) ?last"
    using libc.shifted_copy [OF assms] addr_ptr_plus(1) [OF assms, of 1] by simp
  ultimately show ?thesis unfolding split by (rule keeps_append)
qed

text \<open>
  Because \<^verbatim>\<open>invalidate\<close> overwrites the first byte only, the later cases of \<^verbatim>\<open>string_memcpy\<close> see the data of
  the earlier ones: a copying function that ignores every call with an unaligned destination passes the test.
\<close>

theorem string_memcpy_misses_lost_copies:
  assumes "env_ok se" "p_ccsp s \<noteq> None"
  shows "declares_success (string_memcpy pl se lazy_memcpy) s \<and>
    snd (lazy_memcpy (ptr_plus pl (se_t2 se) 3) src n m) = m"
proof
  show "declares_success (string_memcpy pl se lazy_memcpy) s"
    unfolding string_memcpy_def by (rule string_test_passes [OF assms lazy_cases_pass [OF assms(1)]])
  show "snd (lazy_memcpy (ptr_plus pl (se_t2 se) 3) src n m) = m"
    by (simp only: lazy_memcpy_def addr_ptr_plus_3 [OF assms(1)] if_False snd_conv)
qed

theorem string_memcpy_misses_lost_copies_witness:
  "declares_success (string_memcpy morello_hybrid str_env_example lazy_memcpy)
     (fresh_process morello_hybrid str_world_example)"
  using string_memcpy_misses_lost_copies [OF str_env_example_ok,
      of "fresh_process morello_hybrid str_world_example" morello_hybrid] by simp

text \<open>The state of the unaligned test: whether the elements of an array are tagged.\<close>

lemma store_elem_run:
  "store_elem cc p i c s = (Return (), s\<lparr>p_world := (p_world s)\<lparr>sw_mem := store_cap cc (addr_of p + i * CAP_SIZE) c (sw_mem (p_world s))\<rparr>\<rparr>)"
  by (simp add: store_elem_def upd_world_def)

lemma verify_run: "b \<Longrightarrow> CHERIOSTEST_VERIFY pl b what s = (Return (), s)"
  by (simp add: CHERIOSTEST_VERIFY_def CHERIOSTEST_VERIFY2_def ret_def)

definition buffers_ok :: "cap \<Rightarrow> cap \<Rightarrow> bool" where
  "buffers_ok src dst \<longleftrightarrow>
     addr_of src mod CAP_SIZE = 0 \<and> addr_of dst mod CAP_SIZE = 0 \<and> addr_of dst + 33 \<le> 2 ^ 64 \<and>
     (addr_of dst + 33 \<le> addr_of src \<or> addr_of src + 32 \<le> addr_of dst)"

lemma elem_granule: "(a + i * CAP_SIZE) div CAP_SIZE = a div CAP_SIZE + i"
  by (simp add: CAP_SIZE_def)

lemma tagged_store_elem:
  "m_tagged (store_cap cc (a + i * CAP_SIZE) c m) g =
    (if g = a div CAP_SIZE + i then (if cap_tag c then Some c else None) else m_tagged m g)"
  by (simp add: store_cap_def elem_granule)

lemma unaligned_copy_tags:
  assumes "buffers_ok src dst" "i < 2"
  shows "m_tagged (copy_region (addr_of dst + 1) (addr_of src) 32 m) (addr_of dst div CAP_SIZE + i) = None"
    "m_tagged (copy_region (addr_of dst + 1) (addr_of src) 32 m) (addr_of src div CAP_SIZE + i) =
       m_tagged m (addr_of src div CAP_SIZE + i)"
proof -
  obtain p q where pq: "addr_of src = 16 * p" "addr_of dst = 16 * q"
    using assms(1) by (auto simp: buffers_ok_def CAP_SIZE_def elim!: dvdE)
  have "\<not> granule_touched (p + i) (16 * q + 1) 32"
    using assms pq by (auto simp: buffers_ok_def granule_touched_def CAP_SIZE_def)
  then show "m_tagged (copy_region (addr_of dst + 1) (addr_of src) 32 m) (addr_of src div CAP_SIZE + i) =
       m_tagged m (addr_of src div CAP_SIZE + i)"
    using pq by (simp add: tagged_copy_outside CAP_SIZE_def)
  have "granule_touched (q + i) (16 * q + 1) 32" "(16 * q + 1) mod CAP_SIZE \<noteq> 16 * p mod CAP_SIZE"
    using assms(2) by (auto simp: granule_touched_def CAP_SIZE_def)
  then show "m_tagged (copy_region (addr_of dst + 1) (addr_of src) 32 m) (addr_of dst div CAP_SIZE + i) = None"
    using pq tagged_copy_misaligned by (simp add: CAP_SIZE_def)
qed

lemma elem_tag: "cap_tag (load_cap cc (addr_of p + i * CAP_SIZE) m) \<longleftrightarrow>
    (case m_tagged m (addr_of p div CAP_SIZE + i) of None \<Rightarrow> False | Some c \<Rightarrow> cap_tag c)"
  by (simp add: load_cap_def elem_granule cheri_tag_clear_def split: option.splits)

lemma tag_run:
  assumes "(case m_tagged (sw_mem (p_world s)) (addr_of p div CAP_SIZE + i) of None \<Rightarrow> False | Some c \<Rightarrow> cap_tag c) = tag"
  shows "verify_elem_tag pl cc p i tag what s = (Return (), s)"
  unfolding verify_elem_tag_def bindP_get_world CHERIOSTEST_VERIFY_def CHERIOSTEST_VERIFY2_def cheri_tag_get_def elem_tag
  using assms by (simp add: ret_def)

lemma null_untagged: "\<not> cap_tag (cheri_offset_set pl (cap_null pl) n)"
  by (simp add: cheri_offset_set_def cheri_address_set_def cap_null_def)

lemma unaligned_dst:
  assumes "buffers_ok src dst"
  shows "addr_of (ptr_plus pl dst 1) = addr_of dst + 1" "regions_apart (addr_of (ptr_plus pl dst 1)) (addr_of src) 32"
proof -
  show d: "addr_of (ptr_plus pl dst 1) = addr_of dst + 1"
    using assms unat_word_ariths(1) [of "cap_addr dst" 1]
    by (auto simp: buffers_ok_def addr_of_def ptr_plus_def cheri_offset_increment_def cheri_address_set_def)
  show "regions_apart (addr_of (ptr_plus pl dst 1)) (addr_of src) 32"
    using assms d by (auto simp: buffers_ok_def regions_apart_def)
qed

lemma unaligned_copy_run:
  assumes "capability_copy copy" "buffers_ok src dst"
  shows "bindP (call_copy copy (ptr_plus pl dst 1) src 32) (\<lambda>_. ret ()) (s\<lparr>p_world := (p_world s)\<lparr>sw_mem := m\<rparr>\<rparr>) =
    (Return (), s\<lparr>p_world := (p_world s)\<lparr>sw_mem := copy_region (addr_of (ptr_plus pl dst 1)) (addr_of src) 32 m\<rparr>\<rparr>)"
  using capability_copy.copies [OF assms(1), of "ptr_plus pl dst 1" src 32] unaligned_dst(2) [OF assms(2), of pl]
  by (simp add: bindP_def call_copy_def ret_def addr_of_def)

lemma block_seq: "block ps s1 = (Return (), s2) \<Longrightarrow> block (ps @ qs) s1 = block qs s2"
  by (simp add: block_append bindP_def)

text \<open>
  Copying capabilities to a destination that is not aligned strips the tags and does not trap: with a
  copying function that keeps its promise, \<^verbatim>\<open>unaligned_capability_copy_memcpy\<close> and its \<^verbatim>\<open>memmove\<close> twin declare
  success, for untagged and for tagged sources.
\<close>

theorem unaligned_capability_copy_passes:
  assumes "capability_copy copy" "buffers_ok src dst" "cap_tag yp" "p_ccsp s \<noteq> None"
  shows "declares_success (unaligned_capability_copy_memcpy pl cc src dst yp copy) s \<and>
    declares_success (unaligned_capability_copy_memmove pl cc src dst yp copy) s"
proof -
  let ?d = "ptr_plus pl dst 1"
  let ?st = "\<lambda>m. s\<lparr>p_world := (p_world s)\<lparr>sw_mem := m\<rparr>\<rparr>"
  let ?null = "\<lambda>n. cheri_offset_set pl (cap_null pl) n"
  note d = unaligned_dst(1) [OF assms(2), of pl]
  note copy = unaligned_copy_run [OF assms(1,2), where pl = pl and s = s]
  define m1 where "m1 = store_cap cc (addr_of src + 1 * CAP_SIZE) (?null 0x4321)
      (store_cap cc (addr_of src + 0 * CAP_SIZE) (?null 0x1234) (sw_mem (p_world s)))"
  define m2 where "m2 = store_cap cc (addr_of src + 1 * CAP_SIZE) yp (copy_region (addr_of ?d) (addr_of src) 32 m1)"
  define m3 where "m3 = copy_region (addr_of ?d) (addr_of src) 32 m2"
  have src1: "m_tagged m1 (addr_of src div CAP_SIZE + i) = None" if "i < 2" for i
    unfolding m1_def tagged_store_elem using that null_untagged by auto
  have src2: "m_tagged m2 (addr_of src div CAP_SIZE + 0) = None" "m_tagged m2 (addr_of src div CAP_SIZE + 1) = Some yp"
    using src1 [of 0] assms(3) unaligned_copy_tags(2) [OF assms(2), of 0] d
    unfolding m2_def tagged_store_elem by simp_all
  have dst3: "m_tagged m3 (addr_of dst div CAP_SIZE + i) = None" if "i < 2" for i
    unfolding m3_def d by (rule unaligned_copy_tags(1) [OF assms(2) that])
  let ?copy = "bindP (call_copy copy ?d src 32) (\<lambda>_. ret ())"
  let ?tag = "verify_elem_tag pl cc"
  have A: "block [CHERIOSTEST_VERIFY pl (addr_of dst mod CAP_SIZE = 0) w1, CHERIOSTEST_VERIFY pl (addr_of src mod CAP_SIZE = 0) w2,
      store_elem cc src 0 (?null 0x1234), store_elem cc src 1 (?null 0x4321)] s = (Return (), ?st m1)" for w1 w2
    using assms(2) by (simp add: buffers_ok_def bindP_def verify_run store_elem_run m1_def ret_def)
  have B: "block [?tag src 0 False w1, ?tag src 1 False w2, ?copy, store_elem cc src 1 yp] (?st m1) = (Return (), ?st m2)" for w1 w2
    using src1 [of 0] src1 [of 1] copy [of m1]
    by (simp add: block_step tag_run del: block.simps) (simp add: bindP_def store_elem_run m2_def ret_def)
  have C: "block [?tag src 0 False w1, ?tag src 1 True w2, ?copy] (?st m2) = (Return (), ?st m3)" for w1 w2
    using src2 assms(3) copy [of m2]
    by (simp add: block_step tag_run m3_def del: block.simps) (simp add: ret_def)
  have E: "block [?tag dst 0 False w1, ?tag dst 1 False w2] (?st m3) = (Return (), ?st m3)" for w1 w2
    using dst3 [of 0] dst3 [of 1]
    by (simp add: block_step tag_run del: block.simps) (simp add: ret_def)
  have split: "unaligned_capability_copy pl cc src dst yp copy = block (
      [CHERIOSTEST_VERIFY pl (addr_of dst mod CAP_SIZE = 0) ''__builtin_is_aligned((void*)dest_buffer, sizeof(void* __capability))'',
       CHERIOSTEST_VERIFY pl (addr_of src mod CAP_SIZE = 0) ''__builtin_is_aligned((void*)src_buffer, sizeof(void * __capability))'',
       store_elem cc src 0 (?null 0x1234), store_elem cc src 1 (?null 0x4321)] @
      [?tag src 0 False ''!cheri_tag_get(src_buffer[0])'', ?tag src 1 False ''!cheri_tag_get(src_buffer[1])'', ?copy, store_elem cc src 1 yp] @
      [?tag src 0 False ''!cheri_tag_get(src_buffer[0])'', ?tag src 1 True ''cheri_tag_get(src_buffer[1])'', ?copy] @
      [?tag dst 0 False ''!cheri_tag_get(((void * __capability *)dest_buffer)[0])'',
       ?tag dst 1 False ''!cheri_tag_get(((void * __capability *)dest_buffer)[1])''] @ [cheriostest_success])"
    by (simp add: unaligned_capability_copy_def Let_def CAP_SIZE_def del: block.simps)
  have "unaligned_capability_copy pl cc src dst yp copy s = cheriostest_success (?st m3)"
    unfolding split block_seq [OF A] block_seq [OF B] block_seq [OF C] block_seq [OF E] by simp
  then have "declares_success (unaligned_capability_copy pl cc src dst yp copy) s"
    using declares_success_success [of "?st m3"] assms(4) by (simp add: declares_success_def)
  then show ?thesis
    by (simp add: unaligned_capability_copy_memcpy_def unaligned_capability_copy_memmove_def)
qed

theorem unaligned_capability_copy_passes_witness:
  "declares_success (unaligned_capability_copy_memcpy morello_hybrid (se_coding str_env_example) (se_t1 str_env_example)
     (se_t2 str_env_example) (se_t1 str_env_example) memcpy) (fresh_process morello_hybrid str_world_example)"
proof -
  have "buffers_ok (se_t1 str_env_example) (se_t2 str_env_example)" "cap_tag (se_t1 str_env_example)"
    by (simp_all add: buffers_ok_def str_env_example_def addr_of_def CAP_SIZE_def)
  then show ?thesis
    using unaligned_capability_copy_passes [OF libc.capability_copy_axioms,
        of _ _ _ "fresh_process morello_hybrid str_world_example" morello_hybrid] by simp
qed

end
