(* ===== verification/Bounds.thy ===== *)
theory Bounds
  imports Memory Instances
begin

text \<open>
  The tests of \<^verbatim>\<open>cheriostest_bounds_stack.c\<close> and \<^verbatim>\<open>cheriostest_bounds_heap.c\<close>: the bounds that the
  compiler and the allocator put on objects. The capabilities they hand out are what is tested, so
  they are arguments: for a local variable, for \<^verbatim>\<open>alloca\<close>, for a variable-length array and for
  \<^verbatim>\<open>calloc\<close> of a given size.
\<close>

section \<open>Stack\<close>

record bounds_env =
  be_local :: "nat \<Rightarrow> cap"
  be_alloca :: "nat \<Rightarrow> cap"
  be_vla :: "nat \<Rightarrow> cap"

definition test_bounds_precise :: "platform \<Rightarrow> cap \<Rightarrow> nat \<Rightarrow> ('w, unit) prog" where
  "test_bounds_precise pl c expected_len = block (
     (if \<not> is_purecap pl
      then [CHERIOSTEST_VERIFY2 pl (cheri_length_get c \<ge> of_nat expected_len)
              ''length (%jd) smaller than expected lower bound %jd: %#lp''
              [FWord (cheri_length_get c), FInt (int expected_len), FPtr c]]
      else [cheriostest_check_cap_bounds_precise pl c (of_nat expected_len)]) @
     [cheriostest_success])"

definition test_bounds_stack_alloca :: "platform \<Rightarrow> bounds_env \<Rightarrow> nat \<Rightarrow> ('w, unit) prog" where
  "test_bounds_stack_alloca pl be len = test_bounds_precise pl (be_alloca be len) len"

definition test_bounds_stack_vla :: "platform \<Rightarrow> bounds_env \<Rightarrow> nat \<Rightarrow> ('w, unit) prog" where
  "test_bounds_stack_vla pl be len = test_bounds_precise pl (be_vla be len) len"

definition bounds_stack_static_uint8 :: "platform \<Rightarrow> bounds_env \<Rightarrow> ('w, unit) prog" where
  "bounds_stack_static_uint8 pl be = test_bounds_precise pl (be_local be 1) 1"

definition bounds_stack_alloca_uint8 :: "platform \<Rightarrow> bounds_env \<Rightarrow> ('w, unit) prog" where
  "bounds_stack_alloca_uint8 pl be = test_bounds_stack_alloca pl be 1"

definition bounds_stack_vla_uint8 :: "platform \<Rightarrow> bounds_env \<Rightarrow> ('w, unit) prog" where
  "bounds_stack_vla_uint8 pl be = test_bounds_stack_vla pl be 1"

definition bounds_stack_static_uint16 :: "platform \<Rightarrow> bounds_env \<Rightarrow> ('w, unit) prog" where
  "bounds_stack_static_uint16 pl be = test_bounds_precise pl (be_local be 2) 2"

definition bounds_stack_alloca_uint16 :: "platform \<Rightarrow> bounds_env \<Rightarrow> ('w, unit) prog" where
  "bounds_stack_alloca_uint16 pl be = test_bounds_stack_alloca pl be 2"

definition bounds_stack_vla_uint16 :: "platform \<Rightarrow> bounds_env \<Rightarrow> ('w, unit) prog" where
  "bounds_stack_vla_uint16 pl be = test_bounds_stack_vla pl be 2"

definition bounds_stack_static_uint32 :: "platform \<Rightarrow> bounds_env \<Rightarrow> ('w, unit) prog" where
  "bounds_stack_static_uint32 pl be = test_bounds_precise pl (be_local be 4) 4"

definition bounds_stack_alloca_uint32 :: "platform \<Rightarrow> bounds_env \<Rightarrow> ('w, unit) prog" where
  "bounds_stack_alloca_uint32 pl be = test_bounds_stack_alloca pl be 4"

definition bounds_stack_vla_uint32 :: "platform \<Rightarrow> bounds_env \<Rightarrow> ('w, unit) prog" where
  "bounds_stack_vla_uint32 pl be = test_bounds_stack_vla pl be 4"

definition bounds_stack_static_uint64 :: "platform \<Rightarrow> bounds_env \<Rightarrow> ('w, unit) prog" where
  "bounds_stack_static_uint64 pl be = test_bounds_precise pl (be_local be 8) 8"

definition bounds_stack_alloca_uint64 :: "platform \<Rightarrow> bounds_env \<Rightarrow> ('w, unit) prog" where
  "bounds_stack_alloca_uint64 pl be = test_bounds_stack_alloca pl be 8"

definition bounds_stack_vla_uint64 :: "platform \<Rightarrow> bounds_env \<Rightarrow> ('w, unit) prog" where
  "bounds_stack_vla_uint64 pl be = test_bounds_stack_vla pl be 8"

definition bounds_stack_static_cap :: "platform \<Rightarrow> bounds_env \<Rightarrow> ('w, unit) prog" where
  "bounds_stack_static_cap pl be = test_bounds_precise pl (be_local be CAP_SIZE) CAP_SIZE"

definition bounds_stack_alloca_cap :: "platform \<Rightarrow> bounds_env \<Rightarrow> ('w, unit) prog" where
  "bounds_stack_alloca_cap pl be = test_bounds_stack_alloca pl be CAP_SIZE"

definition bounds_stack_vla_cap :: "platform \<Rightarrow> bounds_env \<Rightarrow> ('w, unit) prog" where
  "bounds_stack_vla_cap pl be = test_bounds_stack_vla pl be CAP_SIZE"

definition bounds_stack_static_16 :: "platform \<Rightarrow> bounds_env \<Rightarrow> ('w, unit) prog" where
  "bounds_stack_static_16 pl be = test_bounds_precise pl (be_local be 16) 16"

definition bounds_stack_alloca_16 :: "platform \<Rightarrow> bounds_env \<Rightarrow> ('w, unit) prog" where
  "bounds_stack_alloca_16 pl be = test_bounds_stack_alloca pl be 16"

definition bounds_stack_vla_16 :: "platform \<Rightarrow> bounds_env \<Rightarrow> ('w, unit) prog" where
  "bounds_stack_vla_16 pl be = test_bounds_stack_vla pl be 16"

definition bounds_stack_static_32 :: "platform \<Rightarrow> bounds_env \<Rightarrow> ('w, unit) prog" where
  "bounds_stack_static_32 pl be = test_bounds_precise pl (be_local be 32) 32"

definition bounds_stack_alloca_32 :: "platform \<Rightarrow> bounds_env \<Rightarrow> ('w, unit) prog" where
  "bounds_stack_alloca_32 pl be = test_bounds_stack_alloca pl be 32"

definition bounds_stack_vla_32 :: "platform \<Rightarrow> bounds_env \<Rightarrow> ('w, unit) prog" where
  "bounds_stack_vla_32 pl be = test_bounds_stack_vla pl be 32"

definition bounds_stack_static_64 :: "platform \<Rightarrow> bounds_env \<Rightarrow> ('w, unit) prog" where
  "bounds_stack_static_64 pl be = test_bounds_precise pl (be_local be 64) 64"

definition bounds_stack_alloca_64 :: "platform \<Rightarrow> bounds_env \<Rightarrow> ('w, unit) prog" where
  "bounds_stack_alloca_64 pl be = test_bounds_stack_alloca pl be 64"

definition bounds_stack_vla_64 :: "platform \<Rightarrow> bounds_env \<Rightarrow> ('w, unit) prog" where
  "bounds_stack_vla_64 pl be = test_bounds_stack_vla pl be 64"

definition bounds_stack_static_128 :: "platform \<Rightarrow> bounds_env \<Rightarrow> ('w, unit) prog" where
  "bounds_stack_static_128 pl be = test_bounds_precise pl (be_local be 128) 128"

definition bounds_stack_alloca_128 :: "platform \<Rightarrow> bounds_env \<Rightarrow> ('w, unit) prog" where
  "bounds_stack_alloca_128 pl be = test_bounds_stack_alloca pl be 128"

definition bounds_stack_vla_128 :: "platform \<Rightarrow> bounds_env \<Rightarrow> ('w, unit) prog" where
  "bounds_stack_vla_128 pl be = test_bounds_stack_vla pl be 128"

definition bounds_stack_static_256 :: "platform \<Rightarrow> bounds_env \<Rightarrow> ('w, unit) prog" where
  "bounds_stack_static_256 pl be = test_bounds_precise pl (be_local be 256) 256"

definition bounds_stack_alloca_256 :: "platform \<Rightarrow> bounds_env \<Rightarrow> ('w, unit) prog" where
  "bounds_stack_alloca_256 pl be = test_bounds_stack_alloca pl be 256"

definition bounds_stack_vla_256 :: "platform \<Rightarrow> bounds_env \<Rightarrow> ('w, unit) prog" where
  "bounds_stack_vla_256 pl be = test_bounds_stack_vla pl be 256"

definition bounds_stack_static_512 :: "platform \<Rightarrow> bounds_env \<Rightarrow> ('w, unit) prog" where
  "bounds_stack_static_512 pl be = test_bounds_precise pl (be_local be 512) 512"

definition bounds_stack_alloca_512 :: "platform \<Rightarrow> bounds_env \<Rightarrow> ('w, unit) prog" where
  "bounds_stack_alloca_512 pl be = test_bounds_stack_alloca pl be 512"

definition bounds_stack_vla_512 :: "platform \<Rightarrow> bounds_env \<Rightarrow> ('w, unit) prog" where
  "bounds_stack_vla_512 pl be = test_bounds_stack_vla pl be 512"

definition bounds_stack_static_1024 :: "platform \<Rightarrow> bounds_env \<Rightarrow> ('w, unit) prog" where
  "bounds_stack_static_1024 pl be = test_bounds_precise pl (be_local be 1024) 1024"

definition bounds_stack_alloca_1024 :: "platform \<Rightarrow> bounds_env \<Rightarrow> ('w, unit) prog" where
  "bounds_stack_alloca_1024 pl be = test_bounds_stack_alloca pl be 1024"

definition bounds_stack_vla_1024 :: "platform \<Rightarrow> bounds_env \<Rightarrow> ('w, unit) prog" where
  "bounds_stack_vla_1024 pl be = test_bounds_stack_vla pl be 1024"

definition bounds_stack_static_2048 :: "platform \<Rightarrow> bounds_env \<Rightarrow> ('w, unit) prog" where
  "bounds_stack_static_2048 pl be = test_bounds_precise pl (be_local be 2048) 2048"

definition bounds_stack_alloca_2048 :: "platform \<Rightarrow> bounds_env \<Rightarrow> ('w, unit) prog" where
  "bounds_stack_alloca_2048 pl be = test_bounds_stack_alloca pl be 2048"

definition bounds_stack_vla_2048 :: "platform \<Rightarrow> bounds_env \<Rightarrow> ('w, unit) prog" where
  "bounds_stack_vla_2048 pl be = test_bounds_stack_vla pl be 2048"

definition bounds_stack_static_4096 :: "platform \<Rightarrow> bounds_env \<Rightarrow> ('w, unit) prog" where
  "bounds_stack_static_4096 pl be = test_bounds_precise pl (be_local be 4096) 4096"

definition bounds_stack_alloca_4096 :: "platform \<Rightarrow> bounds_env \<Rightarrow> ('w, unit) prog" where
  "bounds_stack_alloca_4096 pl be = test_bounds_stack_alloca pl be 4096"

definition bounds_stack_vla_4096 :: "platform \<Rightarrow> bounds_env \<Rightarrow> ('w, unit) prog" where
  "bounds_stack_vla_4096 pl be = test_bounds_stack_vla pl be 4096"

definition bounds_stack_static_8192 :: "platform \<Rightarrow> bounds_env \<Rightarrow> ('w, unit) prog" where
  "bounds_stack_static_8192 pl be = test_bounds_precise pl (be_local be 8192) 8192"

definition bounds_stack_alloca_8192 :: "platform \<Rightarrow> bounds_env \<Rightarrow> ('w, unit) prog" where
  "bounds_stack_alloca_8192 pl be = test_bounds_stack_alloca pl be 8192"

definition bounds_stack_vla_8192 :: "platform \<Rightarrow> bounds_env \<Rightarrow> ('w, unit) prog" where
  "bounds_stack_vla_8192 pl be = test_bounds_stack_vla pl be 8192"

definition bounds_stack_static_16384 :: "platform \<Rightarrow> bounds_env \<Rightarrow> ('w, unit) prog" where
  "bounds_stack_static_16384 pl be = test_bounds_precise pl (be_local be 16384) 16384"

definition bounds_stack_alloca_16384 :: "platform \<Rightarrow> bounds_env \<Rightarrow> ('w, unit) prog" where
  "bounds_stack_alloca_16384 pl be = test_bounds_stack_alloca pl be 16384"

definition bounds_stack_vla_16384 :: "platform \<Rightarrow> bounds_env \<Rightarrow> ('w, unit) prog" where
  "bounds_stack_vla_16384 pl be = test_bounds_stack_vla pl be 16384"

definition bounds_stack_static_32768 :: "platform \<Rightarrow> bounds_env \<Rightarrow> ('w, unit) prog" where
  "bounds_stack_static_32768 pl be = test_bounds_precise pl (be_local be 32768) 32768"

definition bounds_stack_alloca_32768 :: "platform \<Rightarrow> bounds_env \<Rightarrow> ('w, unit) prog" where
  "bounds_stack_alloca_32768 pl be = test_bounds_stack_alloca pl be 32768"

definition bounds_stack_vla_32768 :: "platform \<Rightarrow> bounds_env \<Rightarrow> ('w, unit) prog" where
  "bounds_stack_vla_32768 pl be = test_bounds_stack_vla pl be 32768"

definition bounds_stack_static_65536 :: "platform \<Rightarrow> bounds_env \<Rightarrow> ('w, unit) prog" where
  "bounds_stack_static_65536 pl be = test_bounds_precise pl (be_local be 65536) 65536"

definition bounds_stack_alloca_65536 :: "platform \<Rightarrow> bounds_env \<Rightarrow> ('w, unit) prog" where
  "bounds_stack_alloca_65536 pl be = test_bounds_stack_alloca pl be 65536"

definition bounds_stack_vla_65536 :: "platform \<Rightarrow> bounds_env \<Rightarrow> ('w, unit) prog" where
  "bounds_stack_vla_65536 pl be = test_bounds_stack_vla pl be 65536"

definition bounds_stack_static_131072 :: "platform \<Rightarrow> bounds_env \<Rightarrow> ('w, unit) prog" where
  "bounds_stack_static_131072 pl be = test_bounds_precise pl (be_local be 131072) 131072"

definition bounds_stack_alloca_131072 :: "platform \<Rightarrow> bounds_env \<Rightarrow> ('w, unit) prog" where
  "bounds_stack_alloca_131072 pl be = test_bounds_stack_alloca pl be 131072"

definition bounds_stack_vla_131072 :: "platform \<Rightarrow> bounds_env \<Rightarrow> ('w, unit) prog" where
  "bounds_stack_vla_131072 pl be = test_bounds_stack_vla pl be 131072"

definition bounds_stack_static_262144 :: "platform \<Rightarrow> bounds_env \<Rightarrow> ('w, unit) prog" where
  "bounds_stack_static_262144 pl be = test_bounds_precise pl (be_local be 262144) 262144"

definition bounds_stack_alloca_262144 :: "platform \<Rightarrow> bounds_env \<Rightarrow> ('w, unit) prog" where
  "bounds_stack_alloca_262144 pl be = test_bounds_stack_alloca pl be 262144"

definition bounds_stack_vla_262144 :: "platform \<Rightarrow> bounds_env \<Rightarrow> ('w, unit) prog" where
  "bounds_stack_vla_262144 pl be = test_bounds_stack_vla pl be 262144"

definition bounds_stack_static_524288 :: "platform \<Rightarrow> bounds_env \<Rightarrow> ('w, unit) prog" where
  "bounds_stack_static_524288 pl be = test_bounds_precise pl (be_local be 524288) 524288"

definition bounds_stack_alloca_524288 :: "platform \<Rightarrow> bounds_env \<Rightarrow> ('w, unit) prog" where
  "bounds_stack_alloca_524288 pl be = test_bounds_stack_alloca pl be 524288"

definition bounds_stack_vla_524288 :: "platform \<Rightarrow> bounds_env \<Rightarrow> ('w, unit) prog" where
  "bounds_stack_vla_524288 pl be = test_bounds_stack_vla pl be 524288"

definition bounds_stack_static_1048576 :: "platform \<Rightarrow> bounds_env \<Rightarrow> ('w, unit) prog" where
  "bounds_stack_static_1048576 pl be = test_bounds_precise pl (be_local be 1048576) 1048576"

definition bounds_stack_alloca_1048576 :: "platform \<Rightarrow> bounds_env \<Rightarrow> ('w, unit) prog" where
  "bounds_stack_alloca_1048576 pl be = test_bounds_stack_alloca pl be 1048576"

definition bounds_stack_vla_1048576 :: "platform \<Rightarrow> bounds_env \<Rightarrow> ('w, unit) prog" where
  "bounds_stack_vla_1048576 pl be = test_bounds_stack_vla pl be 1048576"

text \<open>All of them, in the order of the file.\<close>

definition bounds_stack_tests :: "platform \<Rightarrow> bounds_env \<Rightarrow> ('w, unit) prog list" where
  "bounds_stack_tests pl be = [
     bounds_stack_static_uint8 pl be,
     bounds_stack_alloca_uint8 pl be,
     bounds_stack_vla_uint8 pl be,
     bounds_stack_static_uint16 pl be,
     bounds_stack_alloca_uint16 pl be,
     bounds_stack_vla_uint16 pl be,
     bounds_stack_static_uint32 pl be,
     bounds_stack_alloca_uint32 pl be,
     bounds_stack_vla_uint32 pl be,
     bounds_stack_static_uint64 pl be,
     bounds_stack_alloca_uint64 pl be,
     bounds_stack_vla_uint64 pl be,
     bounds_stack_static_cap pl be,
     bounds_stack_alloca_cap pl be,
     bounds_stack_vla_cap pl be,
     bounds_stack_static_16 pl be,
     bounds_stack_alloca_16 pl be,
     bounds_stack_vla_16 pl be,
     bounds_stack_static_32 pl be,
     bounds_stack_alloca_32 pl be,
     bounds_stack_vla_32 pl be,
     bounds_stack_static_64 pl be,
     bounds_stack_alloca_64 pl be,
     bounds_stack_vla_64 pl be,
     bounds_stack_static_128 pl be,
     bounds_stack_alloca_128 pl be,
     bounds_stack_vla_128 pl be,
     bounds_stack_static_256 pl be,
     bounds_stack_alloca_256 pl be,
     bounds_stack_vla_256 pl be,
     bounds_stack_static_512 pl be,
     bounds_stack_alloca_512 pl be,
     bounds_stack_vla_512 pl be,
     bounds_stack_static_1024 pl be,
     bounds_stack_alloca_1024 pl be,
     bounds_stack_vla_1024 pl be,
     bounds_stack_static_2048 pl be,
     bounds_stack_alloca_2048 pl be,
     bounds_stack_vla_2048 pl be,
     bounds_stack_static_4096 pl be,
     bounds_stack_alloca_4096 pl be,
     bounds_stack_vla_4096 pl be,
     bounds_stack_static_8192 pl be,
     bounds_stack_alloca_8192 pl be,
     bounds_stack_vla_8192 pl be,
     bounds_stack_static_16384 pl be,
     bounds_stack_alloca_16384 pl be,
     bounds_stack_vla_16384 pl be,
     bounds_stack_static_32768 pl be,
     bounds_stack_alloca_32768 pl be,
     bounds_stack_vla_32768 pl be,
     bounds_stack_static_65536 pl be,
     bounds_stack_alloca_65536 pl be,
     bounds_stack_vla_65536 pl be,
     bounds_stack_static_131072 pl be,
     bounds_stack_alloca_131072 pl be,
     bounds_stack_vla_131072 pl be,
     bounds_stack_static_262144 pl be,
     bounds_stack_alloca_262144 pl be,
     bounds_stack_vla_262144 pl be,
     bounds_stack_static_524288 pl be,
     bounds_stack_alloca_524288 pl be,
     bounds_stack_vla_524288 pl be,
     bounds_stack_static_1048576 pl be,
     bounds_stack_alloca_1048576 pl be,
     bounds_stack_vla_1048576 pl be]"

lemmas bounds_stack_defs =
  bounds_stack_static_uint8_def bounds_stack_alloca_uint8_def bounds_stack_vla_uint8_def
  bounds_stack_static_uint16_def bounds_stack_alloca_uint16_def bounds_stack_vla_uint16_def
  bounds_stack_static_uint32_def bounds_stack_alloca_uint32_def bounds_stack_vla_uint32_def
  bounds_stack_static_uint64_def bounds_stack_alloca_uint64_def bounds_stack_vla_uint64_def
  bounds_stack_static_cap_def bounds_stack_alloca_cap_def bounds_stack_vla_cap_def
  bounds_stack_static_16_def bounds_stack_alloca_16_def bounds_stack_vla_16_def
  bounds_stack_static_32_def bounds_stack_alloca_32_def bounds_stack_vla_32_def
  bounds_stack_static_64_def bounds_stack_alloca_64_def bounds_stack_vla_64_def
  bounds_stack_static_128_def bounds_stack_alloca_128_def bounds_stack_vla_128_def
  bounds_stack_static_256_def bounds_stack_alloca_256_def bounds_stack_vla_256_def
  bounds_stack_static_512_def bounds_stack_alloca_512_def bounds_stack_vla_512_def
  bounds_stack_static_1024_def bounds_stack_alloca_1024_def bounds_stack_vla_1024_def
  bounds_stack_static_2048_def bounds_stack_alloca_2048_def bounds_stack_vla_2048_def
  bounds_stack_static_4096_def bounds_stack_alloca_4096_def bounds_stack_vla_4096_def
  bounds_stack_static_8192_def bounds_stack_alloca_8192_def bounds_stack_vla_8192_def
  bounds_stack_static_16384_def bounds_stack_alloca_16384_def bounds_stack_vla_16384_def
  bounds_stack_static_32768_def bounds_stack_alloca_32768_def bounds_stack_vla_32768_def
  bounds_stack_static_65536_def bounds_stack_alloca_65536_def bounds_stack_vla_65536_def
  bounds_stack_static_131072_def bounds_stack_alloca_131072_def bounds_stack_vla_131072_def
  bounds_stack_static_262144_def bounds_stack_alloca_262144_def bounds_stack_vla_262144_def
  bounds_stack_static_524288_def bounds_stack_alloca_524288_def bounds_stack_vla_524288_def
  bounds_stack_static_1048576_def bounds_stack_alloca_1048576_def bounds_stack_vla_1048576_def

section \<open>Heap\<close>

text \<open>One round of the loop of \<^verbatim>\<open>bounds_calloc\<close>; \<open>None\<close> is \<^verbatim>\<open>NULL\<close>.\<close>

definition bounds_calloc_round :: "platform \<Rightarrow> cap option \<Rightarrow> nat \<Rightarrow> ('w, unit) prog list" where
  "bounds_calloc_round pl allocation n = (case allocation of
       None \<Rightarrow> [cheriostest_failure_err pl ''calloc failed'' []]
     | Some c \<Rightarrow>
         [fail_if pl (cheri_offset_get c \<noteq> 0) ''non-zero offset returned'' [],
          fail_if pl (cheri_length_get c < of_nat n) ''returned length too small'' []])"

definition calloc_sizes :: "nat list" where
  "calloc_sizes = [1, 2, 4, 8, 16, 32, 64, 128, 1024, 4096, 10000]"

definition bounds_calloc :: "platform \<Rightarrow> (nat \<Rightarrow> cap option) \<Rightarrow> ('w, unit) prog" where
  "bounds_calloc pl calloc =
     block (concat (map (\<lambda>n. bounds_calloc_round pl (calloc n) n) calloc_sizes) @ [cheriostest_success])"

section \<open>Properties\<close>

lemma bounds_precise_iff:
  assumes "p_ccsp s \<noteq> None"
  shows "declares_success (test_bounds_precise pl c n) s \<longleftrightarrow>
    (if is_purecap pl then cap_addr c = cap_base c \<and> cheri_length_get c = of_nat n
     else of_nat n \<le> cheri_length_get c)"
  using assms by (simp add: test_bounds_precise_def passes_simps)

definition stack_sizes :: "nat list" where
  "stack_sizes = [1, 2, 4, 8, 16, 16, 32, 64, 128, 256, 512, 1024, 2048, 4096, 8192, 16384, 32768, 65536,
     131072, 262144, 524288, 1048576]"

text \<open>The three tests of one size.\<close>

definition size_tests :: "platform \<Rightarrow> bounds_env \<Rightarrow> nat \<Rightarrow> ('w, unit) prog list" where
  "size_tests pl be n = [test_bounds_precise pl (be_local be n) n, test_bounds_precise pl (be_alloca be n) n,
     test_bounds_precise pl (be_vla be n) n]"

lemma bounds_stack_tests_sizes: "bounds_stack_tests pl be = concat (map (size_tests pl be) stack_sizes)"
  by (simp add: bounds_stack_tests_def bounds_stack_defs size_tests_def stack_sizes_def
      test_bounds_stack_alloca_def test_bounds_stack_vla_def CAP_SIZE_def)

definition precise :: "cap \<Rightarrow> nat \<Rightarrow> bool" where
  "precise c n \<longleftrightarrow> cap_addr c = cap_base c \<and> cheri_length_get c = of_nat n"


definition bounds_env_example :: bounds_env where
  "bounds_env_example =
     (let c = (\<lambda>n. cheri_bounds_set morello_purecap ((cap_null morello_purecap)\<lparr>cap_tag := True\<rparr>) n)
      in \<lparr>be_local = c, be_alloca = c, be_vla = c\<rparr>)"


text \<open>
  \<^verbatim>\<open>bounds_calloc\<close> declares success exactly when every one of its eleven allocations succeeds, starts at its
  own base and is at least as long as was asked for; it does not look at the upper bound.
\<close>

theorem bounds_calloc_iff:
  assumes "p_ccsp s \<noteq> None"
  shows "declares_success (bounds_calloc pl calloc) s \<longleftrightarrow>
    (\<forall>n \<in> set calloc_sizes. \<exists>c. calloc n = Some c \<and> cap_addr c = cap_base c \<and> of_nat n \<le> cheri_length_get c)"
proof -
  have "declares_success (block (concat (map (\<lambda>n. bounds_calloc_round pl (calloc n) n) ns) @ [cheriostest_success])) s \<longleftrightarrow>
      (\<forall>n \<in> set ns. \<exists>c. calloc n = Some c \<and> cap_addr c = cap_base c \<and> of_nat n \<le> cheri_length_get c)" for ns
  proof (induction ns)
    case Nil
    then show ?case using assms by (simp add: declares_success_success)
  next
    case (Cons n ns)
    then show ?case
      by (cases "calloc n") (auto simp: bounds_calloc_round_def passes_simps prog_simps cap_simps not_less)
  qed
  then show ?thesis by (simp add: bounds_calloc_def)
qed

theorem bounds_calloc_iff_witness:
  "declares_success (bounds_calloc morello_purecap (\<lambda>n. Some (be_local bounds_env_example n)))
     (fresh_process morello_purecap ())"
proof -
  have "cap_addr (be_local bounds_env_example n) = cap_base (be_local bounds_env_example n) \<and>
      of_nat n \<le> cheri_length_get (be_local bounds_env_example n)" if "n \<in> set calloc_sizes" for n
    using that by (auto simp: bounds_env_example_def Let_def cheri_bounds_set_def morello_purecap_def
        calloc_sizes_def cheri_length_get_def cap_null_def)
  then show ?thesis
    using bounds_calloc_iff [of "fresh_process morello_purecap ()" morello_purecap] by simp
qed

end
