(* ===== verification/Globals.thy ===== *)
theory Globals
  imports Checks Instances
begin

text \<open>
  The tests of \<^verbatim>\<open>cheriostest_bounds_globals.c\<close>: the bounds of capabilities to global variables, some of which
  are defined in \<^verbatim>\<open>cheriostest_bounds_globals_x.c\<close> with other types than they are declared with. The
  capabilities that the compiler, the linker and the loader make are what is tested and are arguments. The
  declarations and the uses of the macros are tables, in the order of the file.
\<close>

section \<open>The bodies\<close>

definition HAS_HYBRID_BOUNDS_GLOBALS :: "platform \<Rightarrow> bool" where
  "HAS_HYBRID_BOUNDS_GLOBALS pl \<longleftrightarrow> pl_arch pl = Morello \<and> \<not> is_purecap pl"

record global_env =
  ge_cap :: "string \<Rightarrow> cap" \<comment> \<open>\<^verbatim>\<open>(__cheri_tocap void * __capability)&test\<close>\<close>
  ge_capp :: "string \<Rightarrow> cap" \<comment> \<open>the initialised pointer \<^verbatim>\<open>testp\<close>\<close>
  ge_ptr :: "string \<Rightarrow> ptraddr" \<comment> \<open>\<^verbatim>\<open>&test\<close> as an integer pointer\<close>

definition test_hybrid_cap_impl :: "platform \<Rightarrow> cap \<Rightarrow> ptraddr \<Rightarrow> nat \<Rightarrow> ('w, unit) prog" where
  "test_hybrid_cap_impl pl c ptr sz = block
     [CHERIOSTEST_CHECK_EQ pl ''0x%lx'' (cheri_address_get c) ptr FWord ''cheri_address_get(cap)'' ''(uintptr_t)ptr'',
      CHERIOSTEST_VERIFY pl (cheritest_cheri_is_address_inbounds c ptr)
        ''cheritest_cheri_is_address_inbounds(cap, (uintptr_t)ptr)'',
      CHERIOSTEST_VERIFY pl (cheritest_cheri_is_address_inbounds c (ptr + of_nat sz - 1))
        ''cheritest_cheri_is_address_inbounds(cap, (uintptr_t)ptr + size - 1)'',
      cheriostest_success]"

definition test_bounds_impl :: "platform \<Rightarrow> cap \<Rightarrow> cap \<Rightarrow> nat \<Rightarrow> ('w, unit) prog" where
  "test_bounds_impl pl allocation global_ptr sz =
     (let rounded_size = cheri_representable_length pl (of_nat sz);
          sizes = (\<lambda>len. [FWord rounded_size, FInt (int sz), FWord len]) in block
      [CHERIOSTEST_VERIFY pl (cheri_tag_get allocation) ''cheri_tag_get(allocation)'',
       CHERIOSTEST_VERIFY pl (cheri_tag_get global_ptr) ''cheri_tag_get(global_ptr)'',
       fail_if pl (cheri_offset_get allocation \<noteq> 0) ''local pointer: non-zero offset (%ju)''
         [FWord (cheri_offset_get allocation)],
       fail_if pl (cheri_length_get allocation \<noteq> rounded_size)
         ''local pointer: incorrect length (expected %ju, rounded from %ju, got %ju)'' (sizes (cheri_length_get allocation)),
       fail_if pl (cheri_offset_get global_ptr \<noteq> 0) ''global pointer: non-zero offset (%ju)''
         [FWord (cheri_offset_get global_ptr)],
       fail_if pl (cheri_length_get global_ptr \<noteq> rounded_size)
         ''global pointer: incorrect length (expected %ju, rounded from %ju, got %ju)'' (sizes (cheri_length_get global_ptr)),
       cheriostest_success])"

text \<open>The macros, giving names, descriptions and bodies of the tests they declare.\<close>

definition TEST_HYBRID_CAP ::
  "platform \<Rightarrow> global_env \<Rightarrow> string \<Rightarrow> string \<Rightarrow> nat \<Rightarrow> (string \<times> string \<times> ('w, unit) prog) list" where
  "TEST_HYBRID_CAP pl ge test desc sz = only_if (\<not> is_purecap pl)
     [(''hybrid_cap_'' @ test, ''Check hybrid capability to '' @ desc,
       test_hybrid_cap_impl pl (ge_cap ge test) (ge_ptr ge test) sz)]"

definition TEST_CAP_BOUNDS ::
  "platform \<Rightarrow> global_env \<Rightarrow> string \<Rightarrow> string \<Rightarrow> nat \<Rightarrow> (string \<times> string \<times> ('w, unit) prog) list" where
  "TEST_CAP_BOUNDS pl ge test desc sz = only_if (is_purecap pl \<or> HAS_HYBRID_BOUNDS_GLOBALS pl)
     [(''bounds_'' @ test, ''Check bounds on '' @ desc,
       test_bounds_impl pl (ge_cap ge test) (ge_capp ge test) sz)]"

definition TEST_BOUNDS ::
  "platform \<Rightarrow> global_env \<Rightarrow> (string \<times> nat) list \<Rightarrow> string \<times> string \<Rightarrow> (string \<times> string \<times> ('w, unit) prog) list" where
  "TEST_BOUNDS pl ge declared = (\<lambda>(test, desc).
     (let sz = the (map_of declared test)
      in TEST_CAP_BOUNDS pl ge test desc sz @ TEST_HYBRID_CAP pl ge test desc sz))"

text \<open>The macros with a type of their own, of which the text and the size are given.\<close>

definition TEST_DYNAMIC_BOUNDS ::
  "platform \<Rightarrow> global_env \<Rightarrow> string \<times> string \<times> nat \<Rightarrow> (string \<times> string \<times> ('w, unit) prog) list" where
  "TEST_DYNAMIC_BOUNDS pl ge = (\<lambda>(test, type, sz).
     (let desc = ''extern global '' @ type @ '' (dynamic size)''
      in TEST_CAP_BOUNDS pl ge test desc sz @ TEST_HYBRID_CAP pl ge test desc sz))"

section \<open>The globals and their tests\<close>

text \<open>Tables of declared globals with their sizes, and of tests with their descriptions.\<close>

definition integer_globals :: "(string \<times> nat) list" where
  "integer_globals =
    [(''global_static_uint8'', 1), (''global_uint8'', 1), (''global_static_uint16'', 2), (''global_uint16'', 2),
     (''global_static_uint32'', 4), (''global_uint32'', 4), (''global_static_uint64'', 8), (''global_uint64'', 8)]"

definition integer_tests :: "(string \<times> string) list" where
  "integer_tests =
    [(''global_static_uint8'', ''global static uint8_t''), (''global_uint8'', ''global uint8_t''),
     (''global_static_uint16'', ''static uint16_t''), (''global_uint16'', ''global uint16_t''),
     (''global_static_uint32'', ''global static uint32_t''), (''global_uint32'', ''global uint32_t''),
     (''global_static_uint64'', ''global static uint64_t''), (''global_uint64'', ''global uint64_t'')]"

definition odd_array_globals :: "(string \<times> nat) list" where
  "odd_array_globals =
    [(''global_static_uint8_array1'', 1), (''global_uint8_array1'', 1), (''global_static_uint8_array3'', 3),
     (''global_uint8_array3'', 3), (''global_static_uint8_array17'', 17), (''global_uint8_array17'', 17),
     (''global_static_uint8_array65537'', 65537), (''global_uint8_array65537'', 65537)]"

definition odd_array_tests :: "(string \<times> string) list" where
  "odd_array_tests =
    [(''global_static_uint8_array1'', ''global static uint8_t[1]''), (''global_uint8_array1'', ''global uint8_t[1]''),
     (''global_static_uint8_array3'', ''global static uint8_t[3]''),
     (''global_uint8_array3'', ''global uint8_t[3]''),
     (''global_static_uint8_array17'', ''global static uint_t[17]''),
     (''global_uint8_array17'', ''global uint_t[17]''),
     (''global_static_uint8_array65537'', ''global static uint8_t[65537]''),
     (''global_uint8_array65537'', ''global uint8_t[65537]'')]"

definition power_array_globals :: "(string \<times> nat) list" where
  "power_array_globals =
    [(''global_static_uint8_array32'', 32), (''global_uint8_array32'', 32), (''global_static_uint8_array64'', 64),
     (''global_uint8_array64'', 64), (''global_static_uint8_array128'', 128), (''global_uint8_array128'', 128),
     (''global_static_uint8_array256'', 256), (''global_uint8_array256'', 256),
     (''global_static_uint8_array512'', 512), (''global_uint8_array512'', 512),
     (''global_static_uint8_array1024'', 1024), (''global_uint8_array1024'', 1024),
     (''global_static_uint8_array2048'', 2048), (''global_uint8_array2048'', 2048),
     (''global_static_uint8_array4096'', 4096), (''global_uint8_array4096'', 4096),
     (''global_static_uint8_array8192'', 8192), (''global_uint8_array8192'', 8192),
     (''global_static_uint8_array16384'', 16384), (''global_uint8_array16384'', 16384),
     (''global_static_uint8_array32768'', 32768), (''global_uint8_array32768'', 32768),
     (''global_static_uint8_array65536'', 65536), (''global_uint8_array65536'', 65536)]"

definition power_array_tests :: "(string \<times> string) list" where
  "power_array_tests =
    [(''global_static_uint8_array32'', ''global static uint8_t[32]''),
     (''global_uint8_array32'', ''global uint8_t[32]''),
     (''global_static_uint8_array64'', ''global static uint8_t[64]''),
     (''global_uint8_array64'', ''global uint8_t[64]''),
     (''global_static_uint8_array128'', ''global static uint8_t[128]''),
     (''global_uint8_array128'', ''global uint8_t[128]''),
     (''global_static_uint8_array256'', ''global static uint8_t[256]''),
     (''global_uint8_array256'', ''global uint8_t[256]''),
     (''global_static_uint8_array512'', ''global static uint8_t[512]''),
     (''global_uint8_array512'', ''global uint8_t[512]''),
     (''global_static_uint8_array1024'', ''global static uint8_t[1024]''),
     (''global_uint8_array1024'', ''global uint8_t[1024]''),
     (''global_static_uint8_array2048'', ''global static uint8_t[2048]''),
     (''global_uint8_array2048'', ''global uint8_t[2048]''),
     (''global_static_uint8_array4096'', ''global static uint8_t[4096]''),
     (''global_uint8_array4096'', ''global uint8_t[4096]''),
     (''global_static_uint8_array8192'', ''global uint8_t[8192]''),
     (''global_uint8_array8192'', ''global uint8_t[8192]''),
     (''global_static_uint8_array16384'', ''global static uint8_t[16384]''),
     (''global_uint8_array16384'', ''global uint8_t[16384]''),
     (''global_static_uint8_array32768'', ''global static uint8_t[32768]''),
     (''global_uint8_array32768'', ''global uint8_t[32768]''),
     (''global_static_uint8_array65536'', ''global static uint8_t[65536]''),
     (''global_uint8_array65536'', ''global uint8_t[65536]'')]"

definition extern_globals :: "(string \<times> nat) list" where
  "extern_globals =
    [(''extern_global_uint8'', 1), (''extern_global_uint16'', 1), (''extern_global_uint32'', 4),
     (''extern_global_uint64'', 4), (''extern_global_array1'', 2), (''extern_global_array7'', 7),
     (''extern_global_array65537'', 127), (''extern_global_array16'', 16), (''extern_global_array256'', 128),
     (''extern_global_array65536'', 65536)]"

definition extern_tests :: "(string \<times> string) list" where
  "extern_tests =
    [(''extern_global_uint8'', ''extern global uint8_t (C size)''),
     (''extern_global_uint32'', ''extern global uint32_t (C size)''),
     (''extern_global_array7'', ''extern global uint8_t[7] (C size)''),
     (''extern_global_array16'', ''extern global uint8_t[16] (C size)''),
     (''extern_global_array65536'', ''extern global uint8_t[16] (C size)'')]"

definition extern_definitions :: "(string \<times> nat) list" where
  "extern_definitions =
    [(''extern_global_uint8'', 1), (''extern_global_uint16'', 2), (''extern_global_uint32'', 4),
     (''extern_global_uint64'', 8), (''extern_global_array1'', 1), (''extern_global_array7'', 7),
     (''extern_global_array65537'', 65537), (''extern_global_array16'', 16), (''extern_global_array256'', 256),
     (''extern_global_array65536'', 65536)]"

text \<open>The uses of \<^verbatim>\<open>TEST_DYNAMIC_BOUNDS\<close>.\<close>

definition dynamic_tests :: "(string \<times> string \<times> nat) list" where
  "dynamic_tests =
    [(''extern_global_uint16'', ''uint16_t'', 2), (''extern_global_uint64'', ''uint64_t'', 8),
     (''extern_global_array1'', ''uint8_t[1]'', 1), (''extern_global_array65537'', ''uint8_t[65537]'', 65537),
     (''extern_global_array256'', ''uint8_t[256]'', 256)]"

definition global_tests :: "platform \<Rightarrow> global_env \<Rightarrow> (string \<times> string \<times> ('w, unit) prog) list" where
  "global_tests pl ge =
     concat (map (TEST_BOUNDS pl ge integer_globals) integer_tests) @
     concat (map (TEST_BOUNDS pl ge odd_array_globals) odd_array_tests) @
     concat (map (TEST_BOUNDS pl ge power_array_globals) power_array_tests) @
     concat (map (TEST_BOUNDS pl ge extern_globals) extern_tests) @
     concat (map (TEST_DYNAMIC_BOUNDS pl ge) dynamic_tests)"

section \<open>The sizes that are tested\<close>

text \<open>The objects of the program with the sizes the linker knows: those of the definitions.\<close>

definition linked_globals :: "(string \<times> nat) list" where
  "linked_globals = integer_globals @ odd_array_globals @ power_array_globals @ extern_definitions"

definition tested_sizes :: "(string \<times> nat) list \<Rightarrow> (string \<times> string) list \<Rightarrow> (string \<times> nat) list" where
  "tested_sizes declared = map (\<lambda>(test, desc). (test, the (map_of declared test)))"

lemma tested_integers: "tested_sizes integer_globals integer_tests = integer_globals"
  by (simp add: tested_sizes_def integer_globals_def integer_tests_def)

lemma tested_odd_arrays: "tested_sizes odd_array_globals odd_array_tests = odd_array_globals"
  by (simp add: tested_sizes_def odd_array_globals_def odd_array_tests_def)

lemma tested_power_arrays: "tested_sizes power_array_globals power_array_tests = power_array_globals"
  by (simp add: tested_sizes_def power_array_globals_def power_array_tests_def)

text \<open>The tests of foreign globals use the declared size where that is right, and their own where it is not.\<close>

lemma tested_externs:
  "set (tested_sizes extern_globals extern_tests) \<union> (\<lambda>(test, type, sz). (test, sz)) ` set dynamic_tests =
     set extern_definitions"
  by (simp add: tested_sizes_def extern_globals_def extern_tests_def dynamic_tests_def extern_definitions_def insert_commute)

definition tests_for :: "platform \<Rightarrow> global_env \<Rightarrow> string \<times> nat \<Rightarrow> ('w, unit) prog list" where
  "tests_for pl ge = (\<lambda>(test, sz).
     only_if (is_purecap pl \<or> HAS_HYBRID_BOUNDS_GLOBALS pl) [test_bounds_impl pl (ge_cap ge test) (ge_capp ge test) sz] @
     only_if (\<not> is_purecap pl) [test_hybrid_cap_impl pl (ge_cap ge test) (ge_ptr ge test) sz])"

lemma TEST_BOUNDS_bodies:
  "map (snd \<circ> snd) (concat (map (TEST_BOUNDS pl ge declared) tests)) = concat (map (tests_for pl ge) (tested_sizes declared tests))"
  by (induction tests) (auto simp: TEST_BOUNDS_def TEST_CAP_BOUNDS_def TEST_HYBRID_CAP_def tested_sizes_def tests_for_def
      Let_def only_if_def)

lemma TEST_DYNAMIC_BOUNDS_bodies:
  "map (snd \<circ> snd) (concat (map (TEST_DYNAMIC_BOUNDS pl ge) tests)) =
     concat (map (tests_for pl ge) (map (\<lambda>(test, type, sz). (test, sz)) tests))"
  by (induction tests) (auto simp: TEST_DYNAMIC_BOUNDS_def TEST_CAP_BOUNDS_def TEST_HYBRID_CAP_def tests_for_def
      Let_def only_if_def)

lemma global_tests_bodies:
  "(snd \<circ> snd) ` set (global_tests pl ge) = (\<Union>g \<in> set linked_globals. set (tests_for pl ge g))"
proof -
  have bodies: "map (snd \<circ> snd) (global_tests pl ge) = concat (map (tests_for pl ge) (integer_globals @ odd_array_globals @
      power_array_globals @ tested_sizes extern_globals extern_tests @ map (\<lambda>(test, type, sz). (test, sz)) dynamic_tests))"
    unfolding global_tests_def map_append TEST_BOUNDS_bodies TEST_DYNAMIC_BOUNDS_bodies concat_append
      tested_integers tested_odd_arrays tested_power_arrays by (rule refl)
  have "set (map (snd \<circ> snd) (global_tests pl ge)) = (\<Union>g \<in> set integer_globals \<union> set odd_array_globals \<union>
      set power_array_globals \<union> (set (tested_sizes extern_globals extern_tests) \<union>
      (\<lambda>(test, type, sz). (test, sz)) ` set dynamic_tests). set (tests_for pl ge g))"
    unfolding bodies by (simp add: Un_assoc)
  then show ?thesis unfolding tested_externs linked_globals_def set_map by (simp add: Un_assoc)
qed

section \<open>Properties\<close>

definition bounded_global :: "platform \<Rightarrow> cap \<Rightarrow> nat \<Rightarrow> bool" where
  "bounded_global pl c sz \<longleftrightarrow> cap_tag c \<and> cap_addr c = cap_base c \<and>
     cheri_length_get c = cheri_representable_length pl (of_nat sz)"

lemma test_bounds_impl_iff:
  "p_ccsp s \<noteq> None \<Longrightarrow> declares_success (test_bounds_impl pl c d sz) s \<longleftrightarrow> bounded_global pl c sz \<and> bounded_global pl d sz"
  by (auto simp: test_bounds_impl_def bounded_global_def Let_def passes_simps cap_simps)

lemma global_tests_pass_iff:
  "(\<forall>t \<in> set (global_tests pl ge). declares_success (snd (snd t)) s) \<longleftrightarrow>
    (\<forall>g \<in> set linked_globals. \<forall>p \<in> set (tests_for pl ge g). declares_success p s)"
proof -
  have "(\<forall>t \<in> set (global_tests pl ge). declares_success (snd (snd t)) s) \<longleftrightarrow>
      (\<forall>p \<in> (snd \<circ> snd) ` set (global_tests pl ge). declares_success p s)" by simp
  also have "\<dots> \<longleftrightarrow> (\<forall>g \<in> set linked_globals. \<forall>p \<in> set (tests_for pl ge g). declares_success p s)"
    unfolding global_tests_bodies by blast
  finally show ?thesis .
qed

text \<open>
  In the pure-capability ABI the tests of globals declare success, all of them, exactly if for every global
  both its address and the initialised pointer to it are tagged, start at the object and have the representable
  length of the size with which the object is defined, also for the ten objects defined in another compilation
  unit, five of which are declared with a wrong type.
\<close>

theorem globals_purecap_iff:
  assumes "is_purecap pl" "p_ccsp s \<noteq> None"
  shows "(\<forall>t \<in> set (global_tests pl ge). declares_success (snd (snd t)) s) \<longleftrightarrow>
    (\<forall>(test, sz) \<in> set linked_globals. bounded_global pl (ge_cap ge test) sz \<and> bounded_global pl (ge_capp ge test) sz)"
  unfolding global_tests_pass_iff
  using assms by (intro ball_cong refl) (simp add: tests_for_def test_bounds_impl_iff split: prod.splits)
text \<open>An environment of the witnesses: every global at address zero, with the bounds of its size.\<close>

definition global_env_example :: global_env where
  "global_env_example =
     (let c = (\<lambda>test. (cap_null morello_purecap)\<lparr>cap_tag := True, cap_len := the (map_of linked_globals test)\<rparr>)
      in \<lparr>ge_cap = c, ge_capp = c, ge_ptr = (\<lambda>_. 0)\<rparr>)"

lemma linked_names: "distinct (map fst linked_globals)"
  by (simp add: linked_globals_def integer_globals_def odd_array_globals_def power_array_globals_def extern_definitions_def)

lemma linked_sizes: "g \<in> set linked_globals \<Longrightarrow> snd g < 2 ^ 64"
  by (auto simp: linked_globals_def integer_globals_def odd_array_globals_def power_array_globals_def extern_definitions_def)

lemma global_env_example_sel:
  assumes "(test, sz) \<in> set linked_globals"
  shows "cap_len (ge_cap global_env_example test) = sz" "cap_len (ge_capp global_env_example test) = sz"
  using map_of_is_SomeI [OF linked_names assms] by (simp_all add: global_env_example_def Let_def)

theorem globals_purecap_iff_witness:
  "list_all (\<lambda>t. declares_success (snd (snd t)) (fresh_process morello_purecap ())) (global_tests morello_purecap global_env_example)"
proof -
  have "bounded_global morello_purecap (ge_cap global_env_example test) sz \<and>
      bounded_global morello_purecap (ge_capp global_env_example test) sz" if "(test, sz) \<in> set linked_globals" for test sz
    using global_env_example_sel [OF that] linked_sizes [OF that]
    by (simp add: bounded_global_def cheri_length_get_def) (simp add: global_env_example_def Let_def cap_null_def morello_purecap_def)
  moreover have "is_purecap morello_purecap" by (simp add: is_purecap_def morello_purecap_def)
  ultimately show ?thesis
    using globals_purecap_iff [of morello_purecap "fresh_process morello_purecap ()" global_env_example]
    by (auto simp: list_all_iff)
qed

lemma inbounds_iff:
  assumes "cap_top c < 2 ^ 64"
  shows "cheritest_cheri_is_address_inbounds c a \<longleftrightarrow> unat (cap_base c) \<le> unat a \<and> unat a < cap_top c"
proof -
  have "cap_len c < 2 ^ 64" using assms by (simp add: cap_top_def)
  then have "unat (cheri_length_get c) = cap_len c"
    by (simp add: cheri_length_get_def unat_of_nat)
  then have "unat (cap_base c + cheri_length_get c) = cap_top c"
    using assms by (simp add: cap_top_def unat_word_ariths)
  then show ?thesis
    by (simp add: cheritest_cheri_is_address_inbounds_def cheri_base_get_def word_le_nat_alt word_less_nat_alt)
qed

lemma test_hybrid_cap_iff:
  assumes "p_ccsp s \<noteq> None" "cap_top c < 2 ^ 64" "0 < sz" "unat ptr + sz \<le> 2 ^ 64"
  shows "declares_success (test_hybrid_cap_impl pl c ptr sz) s \<longleftrightarrow>
    cap_addr c = ptr \<and> unat (cap_base c) \<le> unat ptr \<and> unat ptr + sz \<le> cap_top c"
proof -
  let ?k = "unat ptr + (sz - 1)"
  have "?k < 2 ^ LENGTH(64)" using assms(3,4) by simp
  then have "unat (of_nat ?k :: 64 word) = ?k" by (simp only: unat_of_nat mod_less)
  moreover have "ptr + of_nat sz - 1 = of_nat ?k" using assms(3) by (simp add: of_nat_diff)
  ultimately have "unat (ptr + of_nat sz - 1) = ?k" by (simp only:)
  then show ?thesis
    using assms(1,3) by (auto simp: test_hybrid_cap_impl_def CHERIOSTEST_CHECK_EQ_def passes_simps cap_simps inbounds_iff [OF assms(2)])
qed

text \<open>
  In the hybrid ABI without bounds on globals (CHERI-RISC-V) the tests declare success, all of them, exactly
  if the capability to every global has the address of the integer pointer and covers the object, provided
  objects end within the address space and no capability reaches its end: for one that does, the sum of base and length
  in \<^verbatim>\<open>cheritest_cheri_is_address_inbounds\<close> wraps around.
\<close>

theorem globals_hybrid_iff:
  assumes "\<not> is_purecap pl" "pl_arch pl \<noteq> Morello" "p_ccsp s \<noteq> None"
    and "\<forall>(test, sz) \<in> set linked_globals. cap_top (ge_cap ge test) < 2 ^ 64 \<and> unat (ge_ptr ge test) + sz \<le> 2 ^ 64"
  shows "(\<forall>t \<in> set (global_tests pl ge). declares_success (snd (snd t)) s) \<longleftrightarrow>
    (\<forall>(test, sz) \<in> set linked_globals. cap_addr (ge_cap ge test) = ge_ptr ge test \<and>
      unat (cap_base (ge_cap ge test)) \<le> unat (ge_ptr ge test) \<and> unat (ge_ptr ge test) + sz \<le> cap_top (ge_cap ge test))"
proof -
  have pos: "\<forall>(test, sz) \<in> set linked_globals. 0 < sz"
    by (simp add: linked_globals_def integer_globals_def odd_array_globals_def power_array_globals_def extern_definitions_def)
  show ?thesis
    unfolding global_tests_pass_iff
    using assms pos by (intro ball_cong refl)
      (auto simp: tests_for_def HAS_HYBRID_BOUNDS_GLOBALS_def test_hybrid_cap_iff split: prod.splits)
qed

definition riscv_hybrid :: platform where
  "riscv_hybrid = morello_purecap\<lparr>pl_arch := RISCV_xcheri, pl_abi := Hybrid\<rparr>"

theorem globals_hybrid_iff_witness:
  "list_all (\<lambda>t. declares_success (snd (snd t)) (fresh_process riscv_hybrid ())) (global_tests riscv_hybrid global_env_example)"
proof -
  have cap: "cap_addr (ge_cap global_env_example test) = 0" "cap_base (ge_cap global_env_example test) = 0"
    "ge_ptr global_env_example test = 0" for test
    by (simp_all add: global_env_example_def Let_def cap_null_def)
  have top: "cap_top (ge_cap global_env_example test) = sz" "sz < 2 ^ 64" if "(test, sz) \<in> set linked_globals" for test sz
    using global_env_example_sel [OF that] linked_sizes [OF that] cap by (simp_all add: cap_top_def)
  have "\<forall>(test, sz) \<in> set linked_globals. cap_top (ge_cap global_env_example test) < 2 ^ 64 \<and>
      unat (ge_ptr global_env_example test) + sz \<le> 2 ^ 64"
    using top cap by fastforce
  moreover have "\<not> is_purecap riscv_hybrid" "pl_arch riscv_hybrid \<noteq> Morello"
    by (simp_all add: is_purecap_def riscv_hybrid_def)
  ultimately have "\<forall>t \<in> set (global_tests riscv_hybrid global_env_example). declares_success (snd (snd t)) (fresh_process riscv_hybrid ())"
    using top cap by (subst globals_hybrid_iff) fastforce+
  then show ?thesis by (simp add: list_all_iff)
qed

end
