(* ===== verification/Fault.thy ===== *)
theory Fault
  imports Memory Verdict Registers
begin

text \<open>
  The tests of \<^verbatim>\<open>cheriostest_fault.c\<close>: accesses that must fault and accesses that must not, sealing
  and unsealing without permission. The check that the processor makes on an access, and the signal
  the kernel turns a fault into, are what is tested, so they are arguments of the tests.
\<close>

section \<open>Accesses\<close>

datatype cap_fault = FaultTag | FaultSeal | FaultPerm | FaultBounds

text \<open>What the architecture prescribes for an access of \<open>n\<close> bytes that needs a permission.\<close>

definition access_fault :: "platform \<Rightarrow> cap \<Rightarrow> nat \<Rightarrow> uintmax \<Rightarrow> cap_fault option" where
  "access_fault pl c n perm =
     (if \<not> cap_tag c then Some FaultTag
      else if cheri_is_sealed pl c then Some FaultSeal
      else if cap_perms c AND perm = 0 then Some FaultPerm
      else if \<not> access_in_bounds c n then Some FaultBounds
      else None)"

record fault_env =
  fe_check :: "cap \<Rightarrow> nat \<Rightarrow> uintmax \<Rightarrow> cap_fault option" \<comment> \<open>the processor\<close>
  fe_siginfo :: "cap_fault \<Rightarrow> cap \<Rightarrow> siginfo" \<comment> \<open>the kernel\<close>
  fe_from_pointer :: "cap \<Rightarrow> ptraddr \<Rightarrow> cap" \<comment> \<open>\<^verbatim>\<open>__builtin_cheri_cap_from_pointer\<close>\<close>
  fe_array :: cap \<comment> \<open>\<^verbatim>\<open>array\<close>\<close>
  fe_ch :: cap
  fe_buf :: cap
  fe_ip :: cap
  fe_sealcap :: "cap option"
  fe_tag_clearing :: bool \<comment> \<open>\<^verbatim>\<open>csr_read(uccsr) & SCCSR_TAG_CLEARING\<close>\<close>
  SIGPROT :: int
  SIGSEGV :: int
  PROT_CHERI_BOUNDS :: int
  PROT_CHERI_PERM :: int
  PROT_CHERI_TAG :: int
  SEGV_CAPBOUNDSERR :: int
  SEGV_CAPPERMERR :: int
  SEGV_CAPTAGERR :: int
  TRAPNO_LOAD_STORE :: int
  SEGV_DEF_MISSING :: bool \<comment> \<open>the C library lacks the three codes (Morello Linux)\<close>

record fault_world =
  fw_mem :: mem
  fw_sink :: byte

type_synonym fprog = "(fault_world, unit) prog"

definition store_via :: "platform \<Rightarrow> fault_env \<Rightarrow> cap \<Rightarrow> byte \<Rightarrow> fprog" where
  "store_via pl fe c b =
     (case fe_check fe c 1 (CHERI_PERM_STORE pl) of
        Some f \<Rightarrow> trap (fe_siginfo fe f c)
      | None \<Rightarrow> upd_world (\<lambda>w. w\<lparr>fw_mem := store_byte (unat (cap_addr c)) b (fw_mem w)\<rparr>))"

definition load_sink_via :: "platform \<Rightarrow> fault_env \<Rightarrow> cap \<Rightarrow> fprog" where
  "load_sink_via pl fe c =
     (case fe_check fe c 1 (CHERI_PERM_LOAD pl) of
        Some f \<Rightarrow> trap (fe_siginfo fe f c)
      | None \<Rightarrow> upd_world (\<lambda>w. w\<lparr>fw_sink := m_byte (fw_mem w) (unat (cap_addr c))\<rparr>))"

definition store_sink_via :: "platform \<Rightarrow> fault_env \<Rightarrow> cap \<Rightarrow> fprog" where
  "store_sink_via pl fe c = bindP get_world (\<lambda>w. store_via pl fe c (fw_sink w))"

text \<open>\<^verbatim>\<open>#ifdef SEGV_..._DEF_MISSING\<close>.\<close>

definition missing_code :: "platform \<Rightarrow> fault_env \<Rightarrow> string \<Rightarrow> fprog list" where
  "missing_code pl fe msg =
     only_if (is_linux pl \<and> pl_arch pl = Morello \<and> SEGV_DEF_MISSING fe) [cheriostest_failure_errx pl msg []]"

section \<open>The bodies\<close>

definition ARRAY_LEN :: nat where "ARRAY_LEN = 2"

definition fault_bounds :: "platform \<Rightarrow> fault_env \<Rightarrow> fprog" where
  "fault_bounds pl fe =
     (let arrayp = cheri_ptr pl (fe_array fe) ARRAY_LEN in block (
      missing_code pl fe ''SEGV_CAPBOUNDSERR is not defined'' @
      map (\<lambda>i. store_via pl fe (cheri_offset_increment pl arrayp (of_nat i)) 0) [0..<ARRAY_LEN] @
      [store_via pl fe (cheri_offset_increment pl arrayp (of_nat ARRAY_LEN)) 0,
       cheriostest_failure_errx pl ''out of bounds access did not fault'' []]))"

definition fault_perm_load :: "platform \<Rightarrow> fault_env \<Rightarrow> fprog" where
  "fault_perm_load pl fe = block (
     missing_code pl fe ''SEGV_CAPPERMERR is not defined'' @
     [load_sink_via pl fe (cheri_ptrperm pl (fe_array fe) ARRAY_LEN 0),
      cheriostest_failure_errx pl ''access without required permissions did not fault'' []])"

definition nofault_perm_load :: "platform \<Rightarrow> fault_env \<Rightarrow> fprog" where
  "nofault_perm_load pl fe = block
     [load_sink_via pl fe (cheri_ptrperm pl (fe_array fe) ARRAY_LEN (CHERI_PERM_LOAD pl)), cheriostest_success]"

definition fault_perm_store :: "platform \<Rightarrow> fault_env \<Rightarrow> fprog" where
  "fault_perm_store pl fe = block (
     missing_code pl fe ''SEGV_CAPPERMERR is not defined'' @
     [store_sink_via pl fe (cheri_ptrperm pl (fe_array fe) ARRAY_LEN 0)])"

definition nofault_perm_store :: "platform \<Rightarrow> fault_env \<Rightarrow> fprog" where
  "nofault_perm_store pl fe = block
     [store_sink_via pl fe (cheri_ptrperm pl (fe_array fe) ARRAY_LEN (CHERI_PERM_STORE pl)), cheriostest_success]"

definition fault_tag :: "platform \<Rightarrow> fault_env \<Rightarrow> fprog" where
  "fault_tag pl fe = block (
     missing_code pl fe ''Signal code SEGV_CAPTAGERR missing'' @
     [store_via pl fe (cheri_tag_clear (cheri_ptr pl (fe_ch fe) 1)) 0])"

definition nofault_cfromptr :: "platform \<Rightarrow> fault_env \<Rightarrow> fprog" where
  "nofault_cfromptr pl fe =
     (let cb = cheri_ptr pl (fe_buf fe) 256; cd = fe_from_pointer fe cb (cap_addr (fe_buf fe) + 10)
      in block [store_via pl fe cd 0, cheriostest_success])"

text \<open>
  The sealing capability of the two sealing tests: from the sysctl, or from the auxiliary vector,
  one past its address. On the processors that trap on a seal violation the instruction traps
  unless it is switched to clearing the tag.
\<close>

definition fault_sealcap :: "platform \<Rightarrow> fault_env \<Rightarrow> bool \<Rightarrow> (cap \<Rightarrow> fprog) \<Rightarrow> fprog" where
  "fault_sealcap pl fe needs_seal f =
     (if is_FreeBSD pl
      then (case fe_sealcap fe of
              None \<Rightarrow> cheriostest_failure_err pl ''sysctlbyname(security.cheri.sealcap)'' []
            | Some c \<Rightarrow> f c)
      else (let c = cheri_offset_increment pl (case fe_sealcap fe of None \<Rightarrow> cap_null pl | Some c \<Rightarrow> c) 1
            in if \<not> cheri_tag_get c \<or> (needs_seal \<and> cheri_perms_get c AND CHERI_PERM_SEAL pl = 0)
               then cheriostest_failure_err pl ''getauxptr failed'' []
               else f c))"

definition seal_insn :: "platform \<Rightarrow> fault_env \<Rightarrow> bool \<Rightarrow> cap \<Rightarrow> cap \<Rightarrow> (cap \<Rightarrow> fprog) \<Rightarrow> fprog" where
  "seal_insn pl fe allowed result auth f =
     (if CHERI_SEAL_VIOLATION_EXCEPTION pl \<and> \<not> fe_tag_clearing fe \<and> \<not> allowed
      then trap (fe_siginfo fe FaultPerm auth) else f result)"

definition raise_SIGPROT :: "platform \<Rightarrow> fault_env \<Rightarrow> fprog" where
  "raise_SIGPROT pl fe = trap \<lparr>si_signo = SIGPROT fe, si_code = 0, si_trapno = 0, si_addr = cap_null pl\<rparr>"

definition seal_verdict :: "platform \<Rightarrow> fault_env \<Rightarrow> cap \<Rightarrow> cap \<Rightarrow> string \<Rightarrow> fprog" where
  "seal_verdict pl fe result sealcap msg = block (
     (if \<not> cheri_tag_get result
      then only_if (CHERI_SEAL_VIOLATION_EXCEPTION pl \<and> fe_tag_clearing fe) [raise_SIGPROT pl fe] @ [cheriostest_success]
      else []) @
     [cheriostest_failure_errx pl msg [FPtr result, FPtr sealcap]])"

definition illegal_perm_seal :: "platform \<Rightarrow> fault_env \<Rightarrow> fprog" where
  "illegal_perm_seal pl fe = fault_sealcap pl fe True (\<lambda>c.
     let sealcap = cheri_perms_and pl c (NOT (CHERI_PERM_SEAL pl)) in
     seal_insn pl fe (may_seal pl (fe_ip fe) sealcap) (cheri_seal pl (fe_ip fe) sealcap) sealcap (\<lambda>sealed.
     seal_verdict pl fe sealed sealcap ''cheri_seal() performed successfully %#lp with bad sealcap %#lp''))"

definition illegal_perm_unseal :: "platform \<Rightarrow> fault_env \<Rightarrow> fprog" where
  "illegal_perm_unseal pl fe = fault_sealcap pl fe False (\<lambda>c.
     if cheri_perms_get c AND CHERI_PERM_SEAL pl = 0
     then cheriostest_failure_errx pl ''unexpected !seal perm on sealcap'' []
     else seal_insn pl fe (may_seal pl (fe_ip fe) c) (cheri_seal pl (fe_ip fe) c) c (\<lambda>sealed.
     let sealcap = cheri_perms_and pl c (NOT (CHERI_PERM_UNSEAL pl)) in
     seal_insn pl fe (may_unseal pl sealed sealcap) (cheri_unseal pl sealed sealcap) sealcap (\<lambda>unsealed.
     seal_verdict pl fe unsealed sealcap ''cheri_unseal() performed successfully %#lp with bad unsealcap %#lp'')))"

section \<open>The registered tests\<close>

definition fault_test ::
  "platform \<Rightarrow> fault_env \<Rightarrow> string \<Rightarrow> string \<Rightarrow> fprog \<Rightarrow> int \<Rightarrow> int \<Rightarrow> fault_world cheri_test" where
  "fault_test pl fe name desc body prot_code segv_code = \<lparr>
     ct_name = name, ct_desc = desc, ct_func = body, ct_child_func = None, ct_check_skip = None, ct_check_xfail = None,
     ct_flags = (if is_FreeBSD pl then CT_FLAG_SIGNAL OR CT_FLAG_SI_CODE OR CT_FLAG_SI_TRAPNO
                 else CT_FLAG_SIGNAL OR CT_FLAG_SI_CODE),
     ct_signum = (if is_FreeBSD pl then SIGPROT fe else SIGSEGV fe),
     ct_si_code = (if is_FreeBSD pl then prot_code else segv_code),
     ct_si_trapno = (if is_FreeBSD pl then TRAPNO_LOAD_STORE fe else 0),
     ct_stdin_string = [], ct_stdout_string = [], ct_xfail_reason = None, ct_flaky_reason = None\<rparr>"

definition fault_bounds_test :: "platform \<Rightarrow> fault_env \<Rightarrow> fault_world cheri_test" where
  "fault_bounds_test pl fe = fault_test pl fe ''fault_bounds'' ''Exercise capability bounds check failure''
     (fault_bounds pl fe) (PROT_CHERI_BOUNDS fe) (SEGV_CAPBOUNDSERR fe)"

definition fault_perm_load_test :: "platform \<Rightarrow> fault_env \<Rightarrow> fault_world cheri_test" where
  "fault_perm_load_test pl fe = fault_test pl fe ''fault_perm_load'' ''Exercise capability load permission failure''
     (fault_perm_load pl fe) (PROT_CHERI_PERM fe) (SEGV_CAPPERMERR fe)"

definition fault_perm_store_test :: "platform \<Rightarrow> fault_env \<Rightarrow> fault_world cheri_test" where
  "fault_perm_store_test pl fe = fault_test pl fe ''fault_perm_store'' ''Exercise capability store permission failure''
     (fault_perm_store pl fe) (PROT_CHERI_PERM fe) (SEGV_CAPPERMERR fe)"

definition fault_tag_test :: "platform \<Rightarrow> fault_env \<Rightarrow> fault_world cheri_test" where
  "fault_tag_test pl fe = fault_test pl fe ''fault_tag'' ''Store via untagged capability''
     (fault_tag pl fe) (PROT_CHERI_TAG fe) (SEGV_CAPTAGERR fe)"

section \<open>From a fault to a verdict\<close>

lemma fault_test_sel [simp]:
  "ct_func (fault_test pl fe n d b pc sc) = b" "ct_name (fault_test pl fe n d b pc sc) = n"
  "xfail_of (fault_test pl fe n d b pc sc) = None" "ct_flaky_reason (fault_test pl fe n d b pc sc) = None"
  "ct_check_skip (fault_test pl fe n d b pc sc) = None"
  by (simp_all add: fault_test_def xfail_of_def)

lemma fault_test_flags:
  "ct_flags (fault_test pl fe n d b pc sc) = CT_FLAG_SIGNAL OR CT_FLAG_SI_CODE \<or>
   ct_flags (fault_test pl fe n d b pc sc) = CT_FLAG_SIGNAL OR CT_FLAG_SI_CODE OR CT_FLAG_SI_TRAPNO"
  by (simp add: fault_test_def)

lemma fault_names [simp]:
  "n \<in> {''fault_bounds'', ''fault_perm_load'', ''fault_perm_store'', ''fault_tag''} \<Longrightarrow> find (begins_with n) disallowed_prefixes = None"
  by (auto simp: disallowed_prefixes_def begins_with_def)

lemma fault_test_due:
  "find (begins_with n) disallowed_prefixes = None \<Longrightarrow> test_due opt (fault_test pl fe n d b pc sc) w"
  by (auto simp: test_due_def disallowed_prefixes_def begins_with_def has_flag_def fault_test_def ct_flag_defs)

text \<open>The signals of the test file are those of the harness, and the kernel reports faults as documented.\<close>

definition kernel_reports :: "platform \<Rightarrow> 'w os \<Rightarrow> fault_env \<Rightarrow> bool" where
  "kernel_reports pl os fe \<longleftrightarrow>
     sig_PROT os = SIGPROT fe \<and> sig_SEGV os = SIGSEGV fe \<and> 0 < SIGPROT fe \<and> 0 < SIGSEGV fe \<and>
     (\<forall>f c. si_signo (fe_siginfo fe f c) = (if is_FreeBSD pl then SIGPROT fe else SIGSEGV fe) \<and>
        si_trapno (fe_siginfo fe f c) = (if is_FreeBSD pl then TRAPNO_LOAD_STORE fe else 0)) \<and>
     (\<forall>c. si_code (fe_siginfo fe FaultBounds c) = (if is_FreeBSD pl then PROT_CHERI_BOUNDS fe else SEGV_CAPBOUNDSERR fe) \<and>
        si_code (fe_siginfo fe FaultPerm c) = (if is_FreeBSD pl then PROT_CHERI_PERM fe else SEGV_CAPPERMERR fe) \<and>
        si_code (fe_siginfo fe FaultTag c) = (if is_FreeBSD pl then PROT_CHERI_TAG fe else SEGV_CAPTAGERR fe))"

text \<open>The array is an ordinary object, and its two bytes have precise bounds.\<close>

definition array_ok :: "platform \<Rightarrow> cap \<Rightarrow> bool" where
  "array_ok pl a \<longleftrightarrow>
     cap_tag a \<and> \<not> cheri_is_sealed pl a \<and> access_in_bounds a 2 \<and> cap_top a \<le> 2 ^ 64 \<and>
     unat (cap_addr a) + 2 < 2 ^ 64 \<and> arch_round_bounds pl (cap_addr a) 2 = (cap_addr a, 2) \<and>
     (\<forall>k \<le> 2. arch_representable pl (cheri_ptr pl a 2) (cap_addr a + of_nat k)) \<and>
     cap_perms a AND CHERI_PERM_LOAD pl \<noteq> 0 \<and> cap_perms a AND CHERI_PERM_STORE pl \<noteq> 0 \<and>
     CHERI_PERM_GLOBAL pl AND CHERI_PERM_LOAD pl = 0 \<and> CHERI_PERM_GLOBAL pl AND CHERI_PERM_STORE pl = 0"

definition only_world :: "'w pstate \<Rightarrow> 'w pstate \<Rightarrow> bool" where
  "only_world s s' \<longleftrightarrow> p_ccsp s' = p_ccsp s \<and> p_stdout s' = p_stdout s \<and> p_sigaction s' = p_sigaction s"

text \<open>A body that ends in a fault, and the verdict on it.\<close>

lemma fault_verdict:
  assumes "os_works opt os" "kernel_reports pl os fe"
    and "find (begins_with n) disallowed_prefixes = None"
    and "\<And>s. \<exists>c s'. body s = (Trapped (fe_siginfo fe f c), s') \<and> only_world s s'"
    and "\<And>c. si_code (fe_siginfo fe f c) = (if is_FreeBSD pl then pc else sc)"
  shows "\<exists>r'. cheriostest_run_test pl os opt u (fault_test pl fe n d body pc sc) r = Inr r' \<and>
    tally r' = record_verdict Pass (tally r)"
proof -
  let ?ct = "fault_test pl fe n d body pc sc"
  obtain c s where s: "body (child_ready pl os (forked_world os ?ct (r_world r))) = (Trapped (fe_siginfo fe f c), s)"
    "only_world (child_ready pl os (forked_world os ?ct (r_world r))) s"
    using assms(4) by blast
  let ?i = "fe_siginfo fe f c"
  have sig: "si_signo ?i = ct_signum ?ct" "si_code ?i = ct_si_code ?ct" "si_trapno ?i = ct_si_trapno ?ct"
    "si_signo ?i \<in> set (harness_signals pl os)" "0 \<le> si_signo ?i"
    using assms(2,5) by (auto simp: kernel_reports_def fault_test_def harness_signals_def only_if_def)
  have "\<exists>r'. cheriostest_run_test pl os opt u ?ct r = Inr r' \<and> tally r' = record_verdict
      (if si_signo ?i = ct_signum ?ct \<and> si_code ?i = ct_si_code ?ct \<and>
          (is_FreeBSD pl \<and> has_flag ?ct CT_FLAG_SI_TRAPNO \<longrightarrow> si_trapno ?i = ct_si_trapno ?ct) then Pass else Fail) (tally r)"
    using s sig assms(1) fault_test_due [OF assms(3)] fault_test_flags
    by (intro run_test_trapped [where s = s]) (simp_all add: only_world_def)
  then show ?thesis using sig by simp
qed

text \<open>The accesses of the bodies, as the architecture prescribes them.\<close>

lemma array_bounds:
  assumes "array_ok pl a" "k \<le> 2"
  shows "access_fault pl (cheri_offset_increment pl (cheri_ptr pl a 2) (of_nat k)) 1 (CHERI_PERM_STORE pl) =
    (if k = 2 then Some FaultBounds else None)"
proof -
  let ?c = "cheri_offset_increment pl (cheri_ptr pl a 2) (of_nat k)"
  have k: "unat (of_nat k :: uintmax) = k" using assms(2) by (simp add: unat_of_nat)
  have p: "cheri_ptr pl a 2 = a\<lparr>cap_base := cap_addr a, cap_len := 2\<rparr>"
    using assms(1) by (auto simp: array_ok_def cheri_ptr_def cheri_bounds_set_def access_in_bounds_def word_le_nat_alt cap_top_def)
  have addr: "unat (cap_addr ?c) = unat (cap_addr a) + k"
    using assms k unat_word_ariths(1) [of "cap_addr a" "of_nat k"]
    by (simp add: p cheri_offset_increment_def cheri_address_set_def array_ok_def)
  have "cap_tag ?c" "\<not> cheri_is_sealed pl ?c" "cap_perms ?c AND CHERI_PERM_STORE pl \<noteq> 0"
    using assms by (auto simp: array_ok_def p cheri_offset_increment_def cheri_address_set_def cheri_is_sealed_def)
  moreover have "access_in_bounds ?c 1 \<longleftrightarrow> k < 2"
    using addr by (auto simp: access_in_bounds_def cap_top_def p cheri_offset_increment_def cheri_address_set_def)
  ultimately show ?thesis using assms(2) by (auto simp: access_fault_def)
qed

lemma array_perm:
  assumes "array_ok pl a" "perm = CHERI_PERM_LOAD pl \<or> perm = CHERI_PERM_STORE pl"
  shows "access_fault pl (cheri_ptrperm pl a 2 0) 1 perm = Some FaultPerm"
    "access_fault pl (cheri_ptrperm pl a 2 perm) 1 perm = None"
proof -
  have p: "cheri_ptr pl a 2 = a\<lparr>cap_base := cap_addr a, cap_len := 2\<rparr>"
    using assms(1) by (auto simp: array_ok_def cheri_ptr_def cheri_bounds_set_def access_in_bounds_def word_le_nat_alt cap_top_def)
  have g: "CHERI_PERM_GLOBAL pl AND perm = 0" "cap_perms a AND perm \<noteq> 0"
    using assms by (auto simp: array_ok_def)
  have "(cap_perms a AND CHERI_PERM_GLOBAL pl) AND perm = 0"
    using g(1) by (simp add: and.assoc)
  moreover have "(cap_perms a AND (perm OR CHERI_PERM_GLOBAL pl)) AND perm = cap_perms a AND perm"
    using g(1) by (auto simp: bit_eq_iff bit_simps)
  ultimately show "access_fault pl (cheri_ptrperm pl a 2 0) 1 perm = Some FaultPerm"
    "access_fault pl (cheri_ptrperm pl a 2 perm) 1 perm = None"
    using assms(1) g(2)
    by (auto simp: access_fault_def cheri_ptrperm_def cheri_perms_and_def p array_ok_def cheri_is_sealed_def
        access_in_bounds_def cap_top_def)
qed

lemma store_via_ok:
  assumes "fe_check fe c 1 (CHERI_PERM_STORE pl) = None"
  shows "\<exists>s'. store_via pl fe c b s = (Return (), s') \<and> only_world s s'"
  using assms by (simp add: store_via_def upd_world_def only_world_def)

lemma store_via_fault:
  "fe_check fe c 1 (CHERI_PERM_STORE pl) = Some f \<Longrightarrow> store_via pl fe c b s = (Trapped (fe_siginfo fe f c), s)"
  by (simp add: store_via_def trap_def)

lemma load_via_fault:
  "fe_check fe c 1 (CHERI_PERM_LOAD pl) = Some f \<Longrightarrow> load_sink_via pl fe c s = (Trapped (fe_siginfo fe f c), s)"
  by (simp add: load_sink_via_def trap_def)

lemma bindP_trapped: "p s = (Trapped i, s') \<Longrightarrow> bindP p f s = (Trapped i, s')"
  by (simp add: bindP_def)

lemma only_world_trans: "only_world a b \<Longrightarrow> only_world b c \<Longrightarrow> only_world a c"
  by (simp add: only_world_def)

lemma fault_bounds_body:
  assumes hw: "fe_check fe = access_fault pl" and arr: "array_ok pl (fe_array fe)" and "\<not> SEGV_DEF_MISSING fe"
  shows "\<exists>c s'. fault_bounds pl fe s = (Trapped (fe_siginfo fe FaultBounds c), s') \<and> only_world s s'"
proof -
  let ?c = "\<lambda>k. cheri_offset_increment pl (cheri_ptr pl (fe_array fe) 2) (of_nat k)"
  have check: "fe_check fe (?c k) 1 (CHERI_PERM_STORE pl) = (if k = 2 then Some FaultBounds else None)" if "k \<le> 2" for k
    using array_bounds [OF arr that] hw by simp
  obtain s1 s2 where run: "store_via pl fe (?c 0) 0 s = (Return (), s1)" "store_via pl fe (?c 1) 0 s1 = (Return (), s2)"
    and w: "only_world s s1" "only_world s1 s2"
    using store_via_ok [of fe "?c 0" pl 0 s] store_via_ok [of fe "?c 1" pl 0] check [of 0] check [of 1] by (metis (no_types) le0 one_le_numeral one_neq_zero zero_neq_numeral numeral_eq_one_iff semiring_norm(85))
  have last: "store_via pl fe (?c 2) 0 s2 = (Trapped (fe_siginfo fe FaultBounds (?c 2)), s2)"
    using check [of 2] by (intro store_via_fault) simp
  have "fault_bounds pl fe = block [store_via pl fe (?c 0) 0, store_via pl fe (?c 1) 0, store_via pl fe (?c 2) 0,
      cheriostest_failure_errx pl ''out of bounds access did not fault'' []]"
    using assms(3) by (simp add: fault_bounds_def missing_code_def ARRAY_LEN_def upt_rec Let_def)
  then have "fault_bounds pl fe s = (Trapped (fe_siginfo fe FaultBounds (?c 2)), s2)"
    using run last by (simp only: block.simps) (simp add: bindP_def)
  then show ?thesis using only_world_trans [OF w] by blast
qed

lemma fault_other_bodies:
  assumes hw: "fe_check fe = access_fault pl" and arr: "array_ok pl (fe_array fe)" and "\<not> SEGV_DEF_MISSING fe"
  shows "\<exists>c s'. fault_perm_load pl fe s = (Trapped (fe_siginfo fe FaultPerm c), s') \<and> only_world s s'"
    "\<exists>c s'. fault_perm_store pl fe s = (Trapped (fe_siginfo fe FaultPerm c), s') \<and> only_world s s'"
    "\<exists>c s'. fault_tag pl fe s = (Trapped (fe_siginfo fe FaultTag c), s') \<and> only_world s s'"
proof -
  let ?c = "cheri_ptrperm pl (fe_array fe) 2 0"
  have "load_sink_via pl fe ?c s = (Trapped (fe_siginfo fe FaultPerm ?c), s)"
    using array_perm(1) [OF arr] hw by (intro load_via_fault) simp
  then show "\<exists>c s'. fault_perm_load pl fe s = (Trapped (fe_siginfo fe FaultPerm c), s') \<and> only_world s s'"
    using assms(3) by (simp add: fault_perm_load_def missing_code_def ARRAY_LEN_def bindP_trapped only_world_def) blast
  have "store_via pl fe ?c b s = (Trapped (fe_siginfo fe FaultPerm ?c), s)" for b
    using array_perm(1) [OF arr] hw by (intro store_via_fault) simp
  then show "\<exists>c s'. fault_perm_store pl fe s = (Trapped (fe_siginfo fe FaultPerm c), s') \<and> only_world s s'"
    using assms(3)
    by (simp add: fault_perm_store_def missing_code_def ARRAY_LEN_def store_sink_via_def bindP_def get_world_def only_world_def) blast
  have "store_via pl fe (cheri_tag_clear c) b s = (Trapped (fe_siginfo fe FaultTag (cheri_tag_clear c)), s)" for c b
    using hw by (intro store_via_fault) (simp add: access_fault_def cheri_tag_clear_def)
  then show "\<exists>c s'. fault_tag pl fe s = (Trapped (fe_siginfo fe FaultTag c), s') \<and> only_world s s'"
    using assms(3) by (simp add: fault_tag_def missing_code_def bindP_trapped only_world_def) blast
qed

section \<open>Properties\<close>

definition fault_tests :: "platform \<Rightarrow> fault_env \<Rightarrow> fault_world cheri_test list" where
  "fault_tests pl fe = [fault_bounds_test pl fe, fault_perm_load_test pl fe, fault_perm_store_test pl fe, fault_tag_test pl fe]"

lemma fault_tests_end_in_pass:
  assumes "os_works opt os" "kernel_reports pl os fe" "fe_check fe = access_fault pl"
    "array_ok pl (fe_array fe)" "\<not> SEGV_DEF_MISSING fe"
  shows "\<forall>ct \<in> set (fault_tests pl fe). \<exists>r'. cheriostest_run_test pl os opt u ct r = Inr r' \<and>
    tally r' = record_verdict Pass (tally r)"
proof -
  have code: "si_code (fe_siginfo fe FaultBounds c) = (if is_FreeBSD pl then PROT_CHERI_BOUNDS fe else SEGV_CAPBOUNDSERR fe)"
    "si_code (fe_siginfo fe FaultPerm c) = (if is_FreeBSD pl then PROT_CHERI_PERM fe else SEGV_CAPPERMERR fe)"
    "si_code (fe_siginfo fe FaultTag c) = (if is_FreeBSD pl then PROT_CHERI_TAG fe else SEGV_CAPTAGERR fe)" for c
    using assms(2) by (simp_all add: kernel_reports_def)
  note v = fault_verdict [OF assms(1,2)]
  note b = fault_bounds_body [OF assms(3-5)] fault_other_bodies [OF assms(3-5)]
  show ?thesis
    unfolding fault_tests_def fault_bounds_test_def fault_perm_load_test_def fault_perm_store_test_def fault_tag_test_def
    using v [OF _ b(1) code(1)] v [OF _ b(2) code(2)] v [OF _ b(3) code(2)] v [OF _ b(4) code(3)] by simp
qed

text \<open>
  On a processor that checks accesses as the architecture prescribes, under a kernel that reports faults as
  documented, the four tests of faults end in \<^verbatim>\<open>PASS\<close>: the body faults where it should, the handler records the
  signal, and the controller finds signal, code and trap number as announced.
\<close>

theorem fault_tests_pass:
  assumes "os_works opt os" "kernel_reports pl os fe" "fe_check fe = access_fault pl"
    "array_ok pl (fe_array fe)" "\<not> SEGV_DEF_MISSING fe"
  shows "\<forall>ct \<in> set (fault_tests pl fe). \<exists>r'. cheriostest_run_test pl os opt u ct r = Inr r' \<and>
    tally r' = record_verdict Pass (tally r)"
  using assms by (rule fault_tests_end_in_pass)

definition fault_env_example :: fault_env where
  "fault_env_example = \<lparr>fe_check = access_fault morello_linux,
     fe_siginfo = (\<lambda>f c. \<lparr>si_signo = 11, si_code = (case f of FaultTag \<Rightarrow> 10 | FaultSeal \<Rightarrow> 11 | FaultPerm \<Rightarrow> 13 | FaultBounds \<Rightarrow> 12),
        si_trapno = 0, si_addr = c\<rparr>),
     fe_from_pointer = cheri_address_set morello_linux,
     fe_array = stack_example, fe_ch = stack_example, fe_buf = stack_example, fe_ip = stack_example,
     fe_sealcap = None, fe_tag_clearing = False, SIGPROT = 34, SIGSEGV = 11, PROT_CHERI_BOUNDS = 1,
     PROT_CHERI_PERM = 5, PROT_CHERI_TAG = 2, SEGV_CAPBOUNDSERR = 12, SEGV_CAPPERMERR = 13, SEGV_CAPTAGERR = 10,
     TRAPNO_LOAD_STORE = 0, SEGV_DEF_MISSING = False\<rparr>"

theorem fault_tests_pass_witness:
  "\<forall>r. \<exists>r'. cheriostest_run_test morello_linux quiet_os plain_opts None (fault_bounds_test morello_linux fault_env_example) r = Inr r' \<and>
     tally r' = record_verdict Pass (tally r)"
proof -
  have "kernel_reports morello_linux (quiet_os :: fault_world os) fault_env_example"
    by (simp add: kernel_reports_def fault_env_example_def quiet_os_def is_FreeBSD_def morello_linux_def)
  moreover have "array_ok morello_linux (fe_array fault_env_example)"
    by (simp add: array_ok_def fault_env_example_def stack_example_def morello_linux_def morello_purecap_def
        cheri_is_sealed_def access_in_bounds_def cap_top_def)
  moreover have "fe_check fault_env_example = access_fault morello_linux" "\<not> SEGV_DEF_MISSING fault_env_example"
    by (simp_all add: fault_env_example_def)
  ultimately show ?thesis
    using fault_tests_pass [OF quiet_os_works, of morello_linux fault_env_example plain_opts]
    by (simp add: fault_tests_def)
qed

text \<open>Without faults the bodies report failure, or come back.\<close>

lemma returns_then_fails:
  assumes "\<And>p s. p \<in> set ps \<Longrightarrow> \<exists>s'. p s = (Return (), s') \<and> only_world s s'" "p_ccsp s \<noteq> None"
  shows "declares_failure (block (ps @ [cheriostest_failure_errx pl m a])) s"
  using assms
proof (induction ps arbitrary: s)
  case Nil
  then show ?case by (simp add: declares_failure_errx)
next
  case (Cons p ps)
  then obtain s' where s': "p s = (Return (), s')" "only_world s s'" by (meson list.set_intros(1))
  moreover have "declares_failure (block (ps @ [cheriostest_failure_errx pl m a])) s'"
    using Cons s' by (simp add: only_world_def)
  ultimately show ?case by (simp add: declares_failure_def bindP_def)
qed

lemma declared_fails:
  assumes "os_works opt os" "find (begins_with n) disallowed_prefixes = None"
    "\<And>s. p_ccsp s \<noteq> None \<Longrightarrow> declares_failure body s"
  shows "\<exists>r'. cheriostest_run_test pl os opt u (fault_test pl fe n d body pc sc) r = Inr r' \<and>
    tally r' = record_verdict Fail (tally r)"
proof -
  let ?ct = "fault_test pl fe n d body pc sc"
  have "\<exists>r'. cheriostest_run_test pl os opt u ?ct r = Inr r' \<and> tally r' = record_verdict
      (if xfail_of ?ct = None \<and> ct_flaky_reason ?ct = None then Fail else XFail) (tally r)"
    using assms(3) by (intro run_test_declared_failure assms(1) fault_test_due [OF assms(2)]) simp
  then show ?thesis by simp
qed

lemma returned_fails:
  assumes "os_works opt os" "find (begins_with n) disallowed_prefixes = None"
    "\<And>s. \<exists>s'. body s = (Return (), s') \<and> only_world s s'" "0 < SIGPROT fe" "0 < SIGSEGV fe"
  shows "\<exists>r'. cheriostest_run_test pl os opt u (fault_test pl fe n d body pc sc) r = Inr r' \<and>
    tally r' = record_verdict Fail (tally r)"
proof -
  let ?ct = "fault_test pl fe n d body pc sc"
  obtain s where s: "ct_func ?ct (child_ready pl os (forked_world os ?ct (r_world r))) = (Return (), s)"
    "p_ccsp s = Some (ccs_zero pl)"
    using assms(3) [of "child_ready pl os (forked_world os ?ct (r_world r))"] by (auto simp: only_world_def)
  have "spec_verdict pl ?ct None (WExited 0) (ccs_zero pl) data = Fail" for data
  proof -
    have "has_flag ?ct CT_FLAG_SIGNAL" "\<not> has_flag ?ct CT_FLAG_SIGEXIT" "ct_signum ?ct \<noteq> 0"
      using assms(4,5) by (auto simp: fault_test_def has_flag_def ct_flag_defs)
    then show ?thesis
      by (simp add: spec_verdict_def test_passes_def signal_as_announced_def ccs_zero_def harness_consts)
  qed
  then show ?thesis
    using run_test_verdict [OF assms(1) fault_test_due [OF assms(2)] run_child_returned [OF assms(1) s], of u] by fastforce
qed

lemma nofault_bodies:
  assumes "fe_check fe = (\<lambda>_ _ _. None)"
  shows "\<exists>s'. store_via pl fe c b s = (Return (), s') \<and> only_world s s'"
    "\<exists>s'. load_sink_via pl fe c s = (Return (), s') \<and> only_world s s'"
    "\<exists>s'. store_sink_via pl fe c s = (Return (), s') \<and> only_world s s'"
  using assms by (simp_all add: store_via_def load_sink_via_def store_sink_via_def upd_world_def bindP_def
      get_world_def only_world_def)

lemma fails_with_missing:
  assumes "\<And>p s. p \<in> set ps \<Longrightarrow> \<exists>s'. p s = (Return (), s') \<and> only_world s s'" "p_ccsp s \<noteq> None"
  shows "declares_failure (block (missing_code pl fe msg @ ps @ [cheriostest_failure_errx pl m a])) s"
proof -
  have "declares_failure (block (ps @ [cheriostest_failure_errx pl m a])) s"
    using assms by (intro returns_then_fails)
  then show ?thesis using assms(2) by (auto simp: missing_code_def only_if_def declares_failure_errx)
qed

lemma returned_with_missing:
  assumes "os_works opt os" "find (begins_with n) disallowed_prefixes = None"
    "\<And>s. \<exists>s'. p s = (Return (), s') \<and> only_world s s'" "0 < SIGPROT fe" "0 < SIGSEGV fe"
  shows "\<exists>r'. cheriostest_run_test pl os opt u (fault_test pl fe n d (block (missing_code pl fe msg @ [p])) pc sc) r = Inr r' \<and>
    tally r' = record_verdict Fail (tally r)"
proof (cases "missing_code pl fe msg = []")
  case True
  then show ?thesis using assms by (intro returned_fails) simp_all
next
  case False
  then have "block (missing_code pl fe msg @ [p]) = cheriostest_failure_errx pl msg []"
    by (auto simp: missing_code_def only_if_def split: if_splits)
  then show ?thesis using assms(1,2) by (intro declared_fails) (simp_all add: declares_failure_errx)
qed

lemma fault_tests_end_in_fail:
  assumes "os_works opt os" "fe_check fe = (\<lambda>_ _ _. None)" "0 < SIGPROT fe" "0 < SIGSEGV fe"
  shows "\<forall>ct \<in> set (fault_tests pl fe). \<exists>r'. cheriostest_run_test pl os opt u ct r = Inr r' \<and>
    tally r' = record_verdict Fail (tally r)"
proof -
  note nofault = nofault_bodies [OF assms(2)]
  let ?st = "\<lambda>i. store_via pl fe (cheri_offset_increment pl (cheri_ptr pl (fe_array fe) ARRAY_LEN) (of_nat i)) 0"
  have "declares_failure (block (missing_code pl fe ''SEGV_CAPBOUNDSERR is not defined'' @
      (map ?st [0..<ARRAY_LEN] @ [?st ARRAY_LEN]) @
      [cheriostest_failure_errx pl ''out of bounds access did not fault'' []])) s" if "p_ccsp s \<noteq> None" for s
    using that nofault(1) by (intro fails_with_missing) auto
  then have b: "declares_failure (fault_bounds pl fe) s" if "p_ccsp s \<noteq> None" for s
    using that by (simp add: fault_bounds_def Let_def del: block.simps)
  have "declares_failure (block (missing_code pl fe ''SEGV_CAPPERMERR is not defined'' @
      [load_sink_via pl fe (cheri_ptrperm pl (fe_array fe) ARRAY_LEN 0)] @
      [cheriostest_failure_errx pl ''access without required permissions did not fault'' []])) s" if "p_ccsp s \<noteq> None" for s
    using that nofault(2) by (intro fails_with_missing) auto
  then have l: "declares_failure (fault_perm_load pl fe) s" if "p_ccsp s \<noteq> None" for s
    using that by (simp add: fault_perm_load_def del: block.simps)
  note declared = declared_fails [OF assms(1) _ b] declared_fails [OF assms(1) _ l]
  note returned = returned_with_missing [OF assms(1) _ nofault(3) assms(3,4)] returned_with_missing [OF assms(1) _ nofault(1) assms(3,4)]
  show ?thesis
    unfolding fault_tests_def fault_bounds_test_def fault_perm_load_test_def fault_perm_store_test_def fault_tag_test_def
      fault_perm_store_def fault_tag_def
    using declared returned by simp
qed

text \<open>
  On a processor that never faults the four tests end in \<^verbatim>\<open>FAIL\<close>, also the two whose bodies come back
  without a report: the announced signal is missing.
\<close>

theorem fault_tests_detect:
  assumes "os_works opt os" "fe_check fe = (\<lambda>_ _ _. None)" "0 < SIGPROT fe" "0 < SIGSEGV fe"
  shows "\<forall>ct \<in> set (fault_tests pl fe). \<exists>r'. cheriostest_run_test pl os opt u ct r = Inr r' \<and>
    tally r' = record_verdict Fail (tally r)"
  using assms by (rule fault_tests_end_in_fail)

theorem fault_tests_detect_witness:
  "\<forall>r. \<exists>r'. cheriostest_run_test morello_linux quiet_os plain_opts None
      (fault_tag_test morello_linux (fault_env_example\<lparr>fe_check := \<lambda>_ _ _. None\<rparr>)) r = Inr r' \<and>
     tally r' = record_verdict Fail (tally r)"
  using fault_tests_detect [OF quiet_os_works, of "fault_env_example\<lparr>fe_check := \<lambda>_ _ _. None\<rparr>" morello_linux plain_opts None]
  by (simp add: fault_tests_def fault_env_example_def)

text \<open>
  The opposite tests pass as well: with the permission granted, loading and storing do not fault and
  \<^verbatim>\<open>nofault_perm_load\<close> and \<^verbatim>\<open>nofault_perm_store\<close> declare success; and where a seal violation clears the tag,
  \<^verbatim>\<open>illegal_perm_seal\<close> declares success for every sealing capability, \<^verbatim>\<open>illegal_perm_unseal\<close> for every one that may seal,
  whatever the capability that is to be sealed.
\<close>

theorem nofault_and_seal_tests_pass:
  assumes "fe_check fe = access_fault pl" "array_ok pl (fe_array fe)" "p_ccsp s \<noteq> None"
    "is_FreeBSD pl" "\<not> CHERI_SEAL_VIOLATION_EXCEPTION pl" "fe_sealcap fe = Some c"
  shows "declares_success (nofault_perm_load pl fe) s \<and> declares_success (nofault_perm_store pl fe) s \<and>
    declares_success (illegal_perm_seal pl fe) s \<and>
    (declares_success (illegal_perm_unseal pl fe) s \<longleftrightarrow> cap_perms c AND CHERI_PERM_SEAL pl \<noteq> 0)"
proof (intro conjI)
  have perm: "fe_check fe (cheri_ptrperm pl (fe_array fe) 2 p) 1 p = None"
    if "p = CHERI_PERM_LOAD pl \<or> p = CHERI_PERM_STORE pl" for p
    using array_perm(2) [OF assms(2) that] assms(1) by simp
  show "declares_success (nofault_perm_load pl fe) s"
    using perm [of "CHERI_PERM_LOAD pl"] assms(3)
    by (simp add: nofault_perm_load_def load_sink_via_def ARRAY_LEN_def upd_world_def bindP_def declares_success_def
        cheriostest_success_def split: option.splits)
  show "declares_success (nofault_perm_store pl fe) s"
    using perm [of "CHERI_PERM_STORE pl"] assms(3)
    by (simp add: nofault_perm_store_def store_sink_via_def store_via_def ARRAY_LEN_def upd_world_def get_world_def
        bindP_def declares_success_def cheriostest_success_def split: option.splits)
  have seal: "cap_tag (cheri_seal pl a (cheri_perms_and pl c (NOT (CHERI_PERM_SEAL pl)))) = False" for a
    by (simp add: cheri_seal_def may_seal_def cheri_perms_and_def and.assoc)
  have unseal: "cap_tag (cheri_unseal pl a (cheri_perms_and pl c (NOT (CHERI_PERM_UNSEAL pl)))) = False" for a
    by (simp add: cheri_unseal_def may_unseal_def cheri_perms_and_def and.assoc)
  show "declares_success (illegal_perm_seal pl fe) s"
    using assms(3-6) seal by (simp add: illegal_perm_seal_def fault_sealcap_def seal_insn_def seal_verdict_def Let_def
        cheri_tag_get_def declares_success_success)
  show "declares_success (illegal_perm_unseal pl fe) s \<longleftrightarrow> cap_perms c AND CHERI_PERM_SEAL pl \<noteq> 0"
    using assms(3-6) unseal by (simp add: illegal_perm_unseal_def fault_sealcap_def seal_insn_def seal_verdict_def Let_def
        cheri_tag_get_def cheri_perms_get_def declares_success_success)
qed

theorem nofault_and_seal_tests_pass_witness:
  "declares_success (illegal_perm_seal morello_purecap
      (fault_env_example\<lparr>fe_check := access_fault morello_purecap, fe_sealcap := Some stack_example\<rparr>))
     (fresh_process morello_purecap (\<lparr>fw_mem = \<lparr>m_byte = \<lambda>_. 0, m_tagged = \<lambda>_. None\<rparr>, fw_sink = 0\<rparr> :: fault_world))"
proof -
  let ?fe = "fault_env_example\<lparr>fe_check := access_fault morello_purecap, fe_sealcap := Some stack_example\<rparr>"
  have "array_ok morello_purecap (fe_array ?fe)"
    by (simp add: array_ok_def fault_env_example_def stack_example_def morello_purecap_def
        cheri_is_sealed_def access_in_bounds_def cap_top_def)
  moreover have "is_FreeBSD morello_purecap" "\<not> CHERI_SEAL_VIOLATION_EXCEPTION morello_purecap"
    by (simp_all add: is_FreeBSD_def morello_purecap_def CHERI_SEAL_VIOLATION_EXCEPTION_def)
  ultimately show ?thesis
    using nofault_and_seal_tests_pass [of ?fe morello_purecap]
    by (simp add: fresh_process_def)
qed

end
