(* ===== verification/Subobject.thy ===== *)
theory Subobject
  imports Fault
begin

text \<open>
  The tests of \<^verbatim>\<open>cheriostest_bounds_subobject.c\<close>: the bounds of capabilities to members of structures. The
  capability the compiler makes for a member is what is tested, so it is a function of the layout of the structure, the
  member and the capability to the structure. The four tests of the \<^verbatim>\<open>queue(3)\<close> macros are left out: the macros
  belong to the system's headers.
\<close>

section \<open>Structures\<close>

text \<open>The annotations of a member; a flexible array member has no size of its own.\<close>

datatype member_kind = Plain | Flexible | NoSubobjectBounds | UseRemainingSize "nat option"

record member =
  mb_name :: string
  mb_size :: nat
  mb_align :: nat
  mb_kind :: member_kind

type_synonym layout = "member list"

definition chars :: "string \<Rightarrow> nat \<Rightarrow> member" where
  "chars name n = \<lparr>mb_name = name, mb_size = n, mb_align = 1, mb_kind = Plain\<rparr>"

definition struct_char :: layout where
  "struct_char = [chars ''underflow'' 1, chars ''c'' 1, chars ''overflow'' 1]"

definition struct_int :: layout where
  "struct_int = [chars ''underflow'' 1, \<lparr>mb_name = ''i'', mb_size = 4, mb_align = 4, mb_kind = Plain\<rparr>, chars ''overflow'' 1]"

definition struct_chararray1 :: layout where
  "struct_chararray1 = [chars ''underflow'' 1, chars ''chararray1'' 1, chars ''overflow'' 1]"

definition struct_chararray2 :: layout where
  "struct_chararray2 = [chars ''underflow'' 1, chars ''chararray2'' 2, chars ''overflow'' 1]"

definition struct_chararray128 :: layout where
  "struct_chararray128 = [chars ''underflow'' 1, chars ''chararray128'' 128, chars ''overflow'' 1]"

definition struct_chararray129 :: layout where
  "struct_chararray129 = [chars ''underflow'' 1, chars ''chararray129'' 129, chars ''overflow'' 1]"

definition struct_chararray2048 :: layout where
  "struct_chararray2048 = [chars ''underflow'' 1, chars ''chararray2048'' 2048, chars ''overflow'' 1]"

definition struct_trailing_chararray1 :: layout where
  "struct_trailing_chararray1 = [chars ''underflow'' 1, chars ''chararray1'' 1]"

definition struct_trailing_chararray_fla :: layout where
  "struct_trailing_chararray_fla = [chars ''underflow'' 1, (chars ''chararray'' 0)\<lparr>mb_kind := Flexible\<rparr>]"

definition struct_trailing_chararray_zla :: layout where
  "struct_trailing_chararray_zla = [chars ''underflow'' 1, (chars ''chararray'' 0)\<lparr>mb_kind := Flexible\<rparr>]"

definition struct_exempt_char :: layout where
  "struct_exempt_char =
     [chars ''underflow'' 1, (chars ''c'' 1)\<lparr>mb_kind := NoSubobjectBounds\<rparr>, chars ''overflow'' 1]"

definition struct_remaininglength_chararray16 :: layout where
  "struct_remaininglength_chararray16 =
     [chars ''underflow'' 1, (chars ''chararray16'' 16)\<lparr>mb_kind := UseRemainingSize None\<rparr>]"

definition struct_remaininglength_size_chararray :: layout where
  "struct_remaininglength_size_chararray =
     [chars ''underflow'' 1, (chars ''chararray'' 16)\<lparr>mb_kind := UseRemainingSize (Some 24)\<rparr>]"

definition union_two_chararrays :: layout where
  "union_two_chararrays = [chars ''chararray16'' 16, chars ''chararray32'' 32]"

lemmas struct_defs =
  chars_def struct_char_def struct_int_def struct_chararray1_def struct_chararray2_def struct_chararray128_def
  struct_chararray129_def struct_chararray2048_def struct_trailing_chararray1_def struct_trailing_chararray_fla_def
  struct_trailing_chararray_zla_def struct_exempt_char_def struct_remaininglength_chararray16_def
  struct_remaininglength_size_chararray_def union_two_chararrays_def

text \<open>\<^verbatim>\<open>offsetof\<close> and \<^verbatim>\<open>sizeof\<close>, as C lays out structures: members in order, each aligned.\<close>

definition round_up :: "nat \<Rightarrow> nat \<Rightarrow> nat" where
  "round_up n a = (n + a - 1) div a * a"

fun offset_from :: "nat \<Rightarrow> layout \<Rightarrow> string \<Rightarrow> nat" where
  "offset_from off [] name = off"
| "offset_from off (m # ms) name =
     (let start = round_up off (mb_align m)
      in if mb_name m = name then start else offset_from (start + mb_size m) ms name)"

definition offset_of :: "layout \<Rightarrow> string \<Rightarrow> nat" where
  "offset_of ms name = offset_from 0 ms name"

fun size_from :: "nat \<Rightarrow> layout \<Rightarrow> nat" where
  "size_from off [] = off"
| "size_from off (m # ms) = size_from (round_up off (mb_align m) + mb_size m) ms"

definition size_of_struct :: "layout \<Rightarrow> nat" where
  "size_of_struct ms = round_up (size_from 0 ms) (foldr (max \<circ> mb_align) ms 1)"

definition size_of_union :: "layout \<Rightarrow> nat" where
  "size_of_union ms = foldr (max \<circ> mb_size) ms 0"

section \<open>The tests\<close>

record sub_env =
  so_member :: "layout \<Rightarrow> string \<Rightarrow> cap \<Rightarrow> cap" \<comment> \<open>\<^verbatim>\<open>&p->member\<close>\<close>
  so_union_member :: "layout \<Rightarrow> string \<Rightarrow> cap \<Rightarrow> cap"
  so_element :: "cap \<Rightarrow> nat \<Rightarrow> cap" \<comment> \<open>\<^verbatim>\<open>&array[i]\<close>\<close>
  so_object :: "string \<Rightarrow> cap" \<comment> \<open>the address of a variable\<close>
  so_alloca :: "nat \<Rightarrow> cap"

definition check_member :: "platform \<Rightarrow> cap \<Rightarrow> nat \<Rightarrow> fprog" where
  "check_member pl cp len = block [cheriostest_check_cap_bounds_precise pl cp (of_nat len), cheriostest_success]"

definition bounds_subobject_struct_char :: "platform \<Rightarrow> sub_env \<Rightarrow> fprog" where
  "bounds_subobject_struct_char pl se = check_member pl (so_member se struct_char ''c'' (so_object se ''sc'')) 1"

definition bounds_subobject_struct_int :: "platform \<Rightarrow> sub_env \<Rightarrow> fprog" where
  "bounds_subobject_struct_int pl se = check_member pl (so_member se struct_int ''i'' (so_object se ''si'')) 4"

definition bounds_subobject_struct_chararray1 :: "platform \<Rightarrow> sub_env \<Rightarrow> fprog" where
  "bounds_subobject_struct_chararray1 pl se =
     check_member pl (so_member se struct_chararray1 ''chararray1'' (so_object se ''sc1'')) 1"

definition bounds_subobject_struct_chararray2 :: "platform \<Rightarrow> sub_env \<Rightarrow> fprog" where
  "bounds_subobject_struct_chararray2 pl se =
     check_member pl (so_member se struct_chararray2 ''chararray2'' (so_object se ''sc2'')) 2"

definition bounds_subobject_struct_chararray128 :: "platform \<Rightarrow> sub_env \<Rightarrow> fprog" where
  "bounds_subobject_struct_chararray128 pl se =
     check_member pl (so_member se struct_chararray128 ''chararray128'' (so_object se ''sc128'')) 128"

definition bounds_subobject_struct_chararray129 :: "platform \<Rightarrow> sub_env \<Rightarrow> fprog" where
  "bounds_subobject_struct_chararray129 pl se =
     check_member pl (so_member se struct_chararray129 ''chararray129'' (so_object se ''sc129'')) 129"

definition bounds_subobject_struct_chararray2048 :: "platform \<Rightarrow> sub_env \<Rightarrow> fprog" where
  "bounds_subobject_struct_chararray2048 pl se =
     check_member pl (so_member se struct_chararray2048 ''chararray2048'' (so_object se ''sc2048'')) 2048"

text \<open>The two tests that store to the global \<^verbatim>\<open>sc2048_sideeffect\<close>.\<close>

definition last_element :: "sub_env \<Rightarrow> cap" where
  "last_element se = so_element se (so_member se struct_chararray2048 ''chararray2048'' (so_object se ''sc2048_sideeffect'')) 2047"

definition bounds_subjobject_struct_chararray2048_inbounds :: "platform \<Rightarrow> fault_env \<Rightarrow> sub_env \<Rightarrow> fprog" where
  "bounds_subjobject_struct_chararray2048_inbounds pl fe se = block [store_via pl fe (last_element se) 1, cheriostest_success]"

definition bounds_subobject_struct_chararray2048_overflow :: "platform \<Rightarrow> fault_env \<Rightarrow> sub_env \<Rightarrow> fprog" where
  "bounds_subobject_struct_chararray2048_overflow pl fe se = block
     [store_via pl fe (cheri_offset_increment pl (last_element se) 1) 1,
      cheriostest_failure_errx pl ''Unexpected store success out-of-bounds on subobject array'' []]"

definition bounds_subobject_struct_trailing_chararray1 :: "platform \<Rightarrow> sub_env \<Rightarrow> fprog" where
  "bounds_subobject_struct_trailing_chararray1 pl se =
     check_member pl (so_member se struct_trailing_chararray1 ''chararray1'' (so_object se ''stc1'')) 1"

definition bounds_subobject_union_two_chararrays :: "platform \<Rightarrow> sub_env \<Rightarrow> fprog" where
  "bounds_subobject_union_two_chararrays pl se =
     (let u = so_object se ''twoarrays''; sz = of_nat (size_of_union union_two_chararrays) in block
      [CHERIOSTEST_VERIFY pl (cheri_length_get (so_union_member se union_two_chararrays ''chararray16'' u) = sz)
         ''cheri_length_get(chararray16p) == sizeof(twoarrays)'',
       CHERIOSTEST_VERIFY pl (cheri_length_get (so_union_member se union_two_chararrays ''chararray32'' u) = sz)
         ''cheri_length_get(chararray32p) == sizeof(twoarrays)'',
       cheriostest_success])"

definition bounds_subobject_struct_trailing_chararray_fla :: "platform \<Rightarrow> sub_env \<Rightarrow> fprog" where
  "bounds_subobject_struct_trailing_chararray_fla pl se =
     check_member pl (so_member se struct_trailing_chararray_fla ''chararray'' (so_alloca se 16))
       (16 - offset_of struct_trailing_chararray_fla ''chararray'')"

definition bounds_subobject_struct_trailing_chararray_zla :: "platform \<Rightarrow> sub_env \<Rightarrow> fprog" where
  "bounds_subobject_struct_trailing_chararray_zla pl se =
     check_member pl (so_member se struct_trailing_chararray_zla ''chararray'' (so_alloca se 16))
       (16 - offset_of struct_trailing_chararray_zla ''chararray'')"

definition bounds_subobject_struct_exempt_char :: "platform \<Rightarrow> sub_env \<Rightarrow> fprog" where
  "bounds_subobject_struct_exempt_char pl se =
     (let refcp = so_object se ''sec''; cp = so_member se struct_exempt_char ''c'' refcp;
          off = of_nat (offset_of struct_exempt_char ''c'') in block
      [CHERIOSTEST_VERIFY pl (cheri_offset_get cp = off) ''cheri_offset_get(cp) == offsetof(struct struct_exempt_char, c)'',
       cheriostest_check_cap_eq pl (cheri_offset_increment pl cp (- off)) refcp ''cp'' ''refcp'',
       cheriostest_success])"

text \<open>The object has the type with the flexible array member, not the annotated one.\<close>

definition bounds_subobject_chararray_remaininglength :: "platform \<Rightarrow> sub_env \<Rightarrow> fprog" where
  "bounds_subobject_chararray_remaininglength pl se =
     check_member pl (so_member se struct_trailing_chararray_fla ''chararray'' (so_alloca se 64))
       (64 - offset_of struct_remaininglength_chararray16 ''chararray16'')"

definition bounds_subobject_chararray_remaininglength_size :: "platform \<Rightarrow> sub_env \<Rightarrow> fprog" where
  "bounds_subobject_chararray_remaininglength_size pl se =
     check_member pl (so_member se struct_remaininglength_size_chararray ''chararray'' (so_alloca se 32)) 24"

lemmas subobject_test_defs =
  bounds_subobject_struct_char_def bounds_subobject_struct_int_def bounds_subobject_struct_chararray1_def
  bounds_subobject_struct_chararray2_def bounds_subobject_struct_chararray128_def bounds_subobject_struct_chararray129_def
  bounds_subobject_struct_chararray2048_def bounds_subobject_struct_trailing_chararray1_def
  bounds_subobject_struct_trailing_chararray_fla_def bounds_subobject_struct_trailing_chararray_zla_def
  bounds_subobject_chararray_remaininglength_def bounds_subobject_chararray_remaininglength_size_def

text \<open>The tests that only look at the bounds of a member.\<close>

definition member_tests :: "platform \<Rightarrow> sub_env \<Rightarrow> fprog list" where
  "member_tests pl se =
     [bounds_subobject_struct_char pl se, bounds_subobject_struct_int pl se, bounds_subobject_struct_chararray1 pl se,
      bounds_subobject_struct_chararray2 pl se, bounds_subobject_struct_chararray128 pl se,
      bounds_subobject_struct_chararray129 pl se, bounds_subobject_struct_chararray2048 pl se,
      bounds_subobject_struct_trailing_chararray1 pl se, bounds_subobject_struct_trailing_chararray_fla pl se,
      bounds_subobject_struct_trailing_chararray_zla pl se, bounds_subobject_chararray_remaininglength pl se,
      bounds_subobject_chararray_remaininglength_size pl se]"

definition overflow_test :: "platform \<Rightarrow> fault_env \<Rightarrow> sub_env \<Rightarrow> fault_world cheri_test" where
  "overflow_test pl fe se = fault_test pl fe ''bounds_subobject_struct_chararray2048_overflow''
     ''Check that an overflow of a 2048-byte subobject array faults''
     (bounds_subobject_struct_chararray2048_overflow pl fe se) (PROT_CHERI_BOUNDS fe) (SEGV_CAPBOUNDSERR fe)"

section \<open>The contract of the compiler\<close>

definition member_of :: "layout \<Rightarrow> string \<Rightarrow> member option" where
  "member_of ms name = find (\<lambda>m. mb_name m = name) ms"

text \<open>How long a capability to a member is if \<open>rest\<close> bytes are left of the object; \<open>None\<close>: it is not narrowed.\<close>

definition member_len :: "member \<Rightarrow> nat \<Rightarrow> nat option" where
  "member_len m rest =
     (case mb_kind m of
        Plain \<Rightarrow> Some (mb_size m)
      | Flexible \<Rightarrow> Some rest
      | NoSubobjectBounds \<Rightarrow> None
      | UseRemainingSize None \<Rightarrow> Some rest
      | UseRemainingSize (Some k) \<Rightarrow> Some (min k rest))"

text \<open>An object of \<open>n\<close> bytes with precise bounds.\<close>

definition object_ok :: "platform \<Rightarrow> cap \<Rightarrow> nat \<Rightarrow> bool" where
  "object_ok pl c n \<longleftrightarrow> cap_tag c \<and> \<not> cheri_is_sealed pl c \<and> cap_addr c = cap_base c \<and> cap_len c = n \<and>
     unat (cap_base c) + n < 2 ^ 64 \<and> cap_perms c AND CHERI_PERM_STORE pl \<noteq> 0"

text \<open>Pointers into a capability's bounds, or to their end, can be represented; bounds of up to 2048 bytes are exact.\<close>

locale subobject_bounds =
  fixes pl :: platform and se :: sub_env
  assumes narrows: "object_ok pl obj n \<Longrightarrow> member_of ms name = Some m \<Longrightarrow>
      member_len m (n - offset_of ms name) = Some len \<Longrightarrow> offset_of ms name + len \<le> n \<Longrightarrow> len \<le> 2048 \<Longrightarrow>
      so_member se ms name obj = (let a = cap_addr obj + of_nat (offset_of ms name)
        in obj\<lparr>cap_addr := a, cap_base := a, cap_len := len\<rparr>)"
    and exempts: "object_ok pl obj n \<Longrightarrow> member_of ms name = Some m \<Longrightarrow> mb_kind m = NoSubobjectBounds \<Longrightarrow>
      offset_of ms name \<le> n \<Longrightarrow> so_member se ms name obj = obj\<lparr>cap_addr := cap_addr obj + of_nat (offset_of ms name)\<rparr>"
    and unions: "so_union_member se ms name obj = obj"
    and elements: "so_element se c i = cheri_offset_increment pl c (of_nat i)"
    and representable: "unat (cap_base c) \<le> unat a \<Longrightarrow> unat a \<le> cap_top c \<Longrightarrow> arch_representable pl c a"
begin

lemma member_check_passes:
  assumes "object_ok pl obj n" "member_of ms name = Some m" "member_len m (n - offset_of ms name) = Some len"
    "offset_of ms name + len \<le> n" "len \<le> 2048" "p_ccsp s \<noteq> None"
  shows "declares_success (check_member pl (so_member se ms name obj) len) s"
  using assms(5,6) narrows [OF assms(1-5)]
  by (simp add: check_member_def passes_simps Let_def cheri_length_get_def)

lemma exempt_passes:
  assumes "object_ok pl (so_object se ''sec'') 3" "p_ccsp s \<noteq> None"
  shows "declares_success (bounds_subobject_struct_exempt_char pl se) s"
proof -
  let ?obj = "so_object se ''sec''"
  have off: "offset_of struct_exempt_char ''c'' = 1" by (simp add: offset_of_def struct_defs round_up_def)
  have "so_member se struct_exempt_char ''c'' ?obj = ?obj\<lparr>cap_addr := cap_addr ?obj + 1\<rparr>"
    using exempts [OF assms(1), of struct_exempt_char "''c''"] off by (simp add: member_of_def struct_defs)
  moreover have "arch_representable pl (?obj\<lparr>cap_addr := cap_addr ?obj + 1\<rparr>) (cap_addr ?obj)"
    using assms(1) by (intro representable) (simp_all add: object_ok_def cap_top_def)
  ultimately show ?thesis
    using assms off
    by (simp add: bounds_subobject_struct_exempt_char_def Let_def passes_simps cap_attrs_eq_def cap_simps
        cheri_offset_increment_def cheri_address_set_def object_ok_def cheri_length_get_def)
qed

lemma last_element_eq:
  assumes "object_ok pl (so_object se ''sc2048_sideeffect'') 2050"
  shows "last_element se = (let a = cap_addr (so_object se ''sc2048_sideeffect'') in
    (so_object se ''sc2048_sideeffect'')\<lparr>cap_addr := a + 2048, cap_base := a + 1, cap_len := 2048\<rparr>)"
proof -
  let ?obj = "so_object se ''sc2048_sideeffect''"
  let ?m = "?obj\<lparr>cap_addr := cap_addr ?obj + 1, cap_base := cap_addr ?obj + 1, cap_len := 2048\<rparr>"
  have m: "so_member se struct_chararray2048 ''chararray2048'' ?obj = ?m"
    using narrows [OF assms, of struct_chararray2048 "''chararray2048''" "chars ''chararray2048'' 2048" 2048]
    by (simp add: member_of_def struct_defs member_len_def offset_of_def round_up_def Let_def)
  have b: "unat (cap_base ?obj + 1) = unat (cap_base ?obj) + 1" "unat (cap_base ?obj + 2048) = unat (cap_base ?obj) + 2048"
    using assms by (simp_all add: object_ok_def unat_word_ariths)
  have "arch_representable pl ?m (cap_addr ?obj + 2048)"
    using assms b by (intro representable) (simp_all add: object_ok_def cap_top_def)
  then show ?thesis
    using assms by (simp add: last_element_def m elements cheri_offset_increment_def cheri_address_set_def object_ok_def
        Let_def add.assoc cheri_is_sealed_def)
qed

lemma element_access:
  assumes "object_ok pl (so_object se ''sc2048_sideeffect'') 2050"
  shows "access_fault pl (last_element se) 1 (CHERI_PERM_STORE pl) = None"
    "access_fault pl (cheri_offset_increment pl (last_element se) 1) 1 (CHERI_PERM_STORE pl) = Some FaultBounds"
proof -
  let ?obj = "so_object se ''sc2048_sideeffect''"
  have b: "unat (cap_base ?obj + 1) = unat (cap_base ?obj) + 1" "unat (cap_base ?obj + 2048) = unat (cap_base ?obj) + 2048"
      "unat (cap_base ?obj + 2049) = unat (cap_base ?obj) + 2049"
    using assms by (simp_all add: object_ok_def unat_word_ariths)
  show "access_fault pl (last_element se) 1 (CHERI_PERM_STORE pl) = None"
    using assms b by (simp add: last_element_eq Let_def access_fault_def object_ok_def cheri_is_sealed_def access_in_bounds_def cap_top_def)
  have "arch_representable pl (last_element se) (cap_addr ?obj + 2049)"
    using assms b by (intro representable) (simp_all add: last_element_eq Let_def object_ok_def cap_top_def)
  then show "access_fault pl (cheri_offset_increment pl (last_element se) 1) 1 (CHERI_PERM_STORE pl) = Some FaultBounds"
    using assms b by (simp add: last_element_eq Let_def access_fault_def object_ok_def cheri_is_sealed_def
        access_in_bounds_def cap_top_def cheri_offset_increment_def cheri_address_set_def add.assoc)
qed

end

text \<open>A compiler that follows the rules, for an architecture with exact bounds.\<close>

definition narrowing_member :: "platform \<Rightarrow> layout \<Rightarrow> string \<Rightarrow> cap \<Rightarrow> cap" where
  "narrowing_member pl ms name obj =
     (let p = cheri_offset_increment pl obj (of_nat (offset_of ms name))
      in case member_of ms name of
           None \<Rightarrow> p
         | Some m \<Rightarrow>
             (case member_len m (cap_top obj - unat (cap_addr p)) of
                None \<Rightarrow> p
              | Some len \<Rightarrow> cheri_bounds_set pl p len))"

definition compiler_env :: "platform \<Rightarrow> (string \<Rightarrow> cap) \<Rightarrow> (nat \<Rightarrow> cap) \<Rightarrow> sub_env" where
  "compiler_env pl objects alloca = \<lparr>so_member = narrowing_member pl, so_union_member = (\<lambda>_ _ obj. obj),
     so_element = (\<lambda>c i. cheri_offset_increment pl c (of_nat i)), so_object = objects, so_alloca = alloca\<rparr>"

lemma member_pointer:
  assumes "object_ok morello_purecap obj n" "off \<le> n"
  shows "cheri_offset_increment morello_purecap obj (of_nat off) = obj\<lparr>cap_addr := cap_addr obj + of_nat off\<rparr>"
    "unat (cap_addr obj + of_nat off) = unat (cap_base obj) + off"
proof -
  show "cheri_offset_increment morello_purecap obj (of_nat off) = obj\<lparr>cap_addr := cap_addr obj + of_nat off\<rparr>"
    using assms by (simp add: cheri_offset_increment_def cheri_address_set_def object_ok_def) (simp add: morello_purecap_def)
  show "unat (cap_addr obj + of_nat off) = unat (cap_base obj) + off"
    using assms by (simp add: object_ok_def unat_word_ariths unat_of_nat)
qed

interpretation clang: subobject_bounds morello_purecap "compiler_env morello_purecap objects alloca"
  for objects alloca
proof
  fix obj :: cap and n ms name m len
  let ?off = "offset_of ms name" and ?a = "cap_addr obj + of_nat (offset_of ms name) :: ptraddr"
  assume ok: "object_ok morello_purecap obj n" and m: "member_of ms name = Some m"
  { assume len: "member_len m (n - ?off) = Some len" "?off + len \<le> n" "len \<le> 2048"
    have p: "cheri_offset_increment morello_purecap obj (of_nat ?off) = obj\<lparr>cap_addr := ?a\<rparr>" "unat ?a = unat (cap_base obj) + ?off"
      using member_pointer [OF ok, of ?off] len(2) by simp_all
    have "cap_top obj - unat ?a = n - ?off" using ok p(2) by (simp add: object_ok_def cap_top_def)
    moreover have "cheri_bounds_set morello_purecap (obj\<lparr>cap_addr := ?a\<rparr>) len = obj\<lparr>cap_addr := ?a, cap_base := ?a, cap_len := len\<rparr>"
      using ok p(2) len(2)
      by (simp add: cheri_bounds_set_def morello_purecap_def object_ok_def access_in_bounds_def cap_top_def cheri_is_sealed_def
          word_le_nat_alt)
    ultimately show "so_member (compiler_env morello_purecap objects alloca) ms name obj =
        (let a = ?a in obj\<lparr>cap_addr := a, cap_base := a, cap_len := len\<rparr>)"
      using m len(1) p(1) by (simp add: compiler_env_def narrowing_member_def Let_def) }
  { assume "mb_kind m = NoSubobjectBounds" "?off \<le> n"
    then show "so_member (compiler_env morello_purecap objects alloca) ms name obj = obj\<lparr>cap_addr := ?a\<rparr>"
      using m member_pointer(1) [OF ok] by (simp add: compiler_env_def narrowing_member_def member_len_def) }
qed (simp_all add: compiler_env_def morello_purecap_def)

section \<open>Properties\<close>

definition test_objects :: "(string \<times> nat) list" where
  "test_objects =
     [(''sc'', size_of_struct struct_char), (''si'', size_of_struct struct_int), (''sc1'', size_of_struct struct_chararray1),
      (''sc2'', size_of_struct struct_chararray2), (''sc128'', size_of_struct struct_chararray128),
      (''sc129'', size_of_struct struct_chararray129), (''sc2048'', size_of_struct struct_chararray2048),
      (''sc2048_sideeffect'', size_of_struct struct_chararray2048), (''stc1'', size_of_struct struct_trailing_chararray1),
      (''twoarrays'', size_of_union union_two_chararrays), (''sec'', size_of_struct struct_exempt_char)]"

lemma test_objects_sizes:
  "test_objects = [(''sc'', 3), (''si'', 12), (''sc1'', 3), (''sc2'', 4), (''sc128'', 130), (''sc129'', 131), (''sc2048'', 2050),
     (''sc2048_sideeffect'', 2050), (''stc1'', 2), (''twoarrays'', 32), (''sec'', 3)]"
  by (simp add: test_objects_def size_of_struct_def size_of_union_def struct_defs round_up_def)

definition objects_ok :: "platform \<Rightarrow> sub_env \<Rightarrow> bool" where
  "objects_ok pl se \<longleftrightarrow>
     list_all (\<lambda>(name, n). object_ok pl (so_object se name) n) test_objects \<and>
     list_all (\<lambda>n. object_ok pl (so_alloca se n) n) [16, 32, 64]"

lemmas layout_simps = struct_defs offset_of_def round_up_def member_of_def member_len_def Let_def

text \<open>
  With a compiler that narrows capabilities to members as documented, on a processor that checks accesses as
  prescribed, the tests of subobject bounds declare success: those of plain members, of trailing, flexible and
  zero-length arrays and of the remaining-size annotations, of the exempted member, of the union and of the store to
  the last element.
\<close>

theorem subobject_tests_pass:
  assumes "subobject_bounds pl se" "objects_ok pl se" "fe_check fe = access_fault pl" "p_ccsp s \<noteq> None"
  shows "list_all (\<lambda>t. declares_success t s)
    (member_tests pl se @ [bounds_subjobject_struct_chararray2048_inbounds pl fe se,
       bounds_subobject_union_two_chararrays pl se, bounds_subobject_struct_exempt_char pl se])"
proof -
  note obj = assms(2) [unfolded objects_ok_def test_objects_sizes, simplified]
  have pass: "declares_success (check_member pl (so_member se ms name obj) len) s" if "object_ok pl obj n"
      "(case member_of ms name of None \<Rightarrow> False | Some m \<Rightarrow> member_len m (n - offset_of ms name) = Some len) \<and>
       offset_of ms name + len \<le> n \<and> len \<le> 2048" for ms name obj n len
    using subobject_bounds.member_check_passes [OF assms(1) that(1) _ _ _ _ assms(4)] that(2) by (auto split: option.splits)
  have "list_all (\<lambda>t. declares_success t s) (member_tests pl se)"
    unfolding member_tests_def subobject_test_defs list.pred_inject(2)
    using obj by - (elim conjE, intro conjI list.pred_inject(1); (rule pass, assumption, simp add: layout_simps))
  moreover have "declares_success (bounds_subjobject_struct_chararray2048_inbounds pl fe se) s"
    using subobject_bounds.element_access(1) [OF assms(1)] obj assms(3,4)
    by (simp add: bounds_subjobject_struct_chararray2048_inbounds_def store_via_def bindP_def upd_world_def
        declares_success_def cheriostest_success_def split: option.splits)
  moreover have "declares_success (bounds_subobject_union_two_chararrays pl se) s"
    using obj assms(4) subobject_bounds.unions [OF assms(1)]
    by (simp add: bounds_subobject_union_two_chararrays_def Let_def passes_simps cheri_length_get_def object_ok_def
        size_of_union_def union_two_chararrays_def chars_def)
  moreover have "declares_success (bounds_subobject_struct_exempt_char pl se) s"
    using subobject_bounds.exempt_passes [OF assms(1) _ assms(4)] obj by simp
  ultimately show ?thesis by simp
qed

definition sub_env_example :: sub_env where
  "sub_env_example =
     (let object = (\<lambda>n. \<lparr>cap_tag = True, cap_addr = 0x1000, cap_base = 0x1000, cap_len = n, cap_perms = 0x37171,
            cap_otype = 0, cap_flags = 0\<rparr>)
      in compiler_env morello_purecap (\<lambda>name. object (the (map_of test_objects name))) object)"

lemma sub_env_example_ok: "objects_ok morello_purecap sub_env_example"
  by (simp add: objects_ok_def test_objects_sizes sub_env_example_def compiler_env_def Let_def object_ok_def)
    (simp add: morello_purecap_def cheri_is_sealed_def)

lemma sub_env_example_compiler: "subobject_bounds morello_purecap sub_env_example"
  unfolding sub_env_example_def Let_def by (rule clang.subobject_bounds_axioms)

theorem subobject_tests_pass_witness:
  "list_all (\<lambda>t. declares_success t (fresh_process morello_purecap (\<lparr>fw_mem = \<lparr>m_byte = \<lambda>_. 0, m_tagged = \<lambda>_. None\<rparr>, fw_sink = 0\<rparr> :: fault_world)))
    (member_tests morello_purecap sub_env_example)"
proof -
  let ?w = "\<lparr>fw_mem = \<lparr>m_byte = \<lambda>_. 0, m_tagged = \<lambda>_. None\<rparr>, fw_sink = 0\<rparr> :: fault_world"
  show ?thesis
    using subobject_tests_pass [OF sub_env_example_compiler sub_env_example_ok, of
        "fault_env_example\<lparr>fe_check := access_fault morello_purecap\<rparr>" "fresh_process morello_purecap ?w"] by simp
qed

text \<open>A compiler without subobject bounds.\<close>

definition wide_compiler :: "platform \<Rightarrow> sub_env \<Rightarrow> bool" where
  "wide_compiler pl se \<longleftrightarrow>
     (\<forall>ms name obj. so_member se ms name obj = cheri_offset_increment pl obj (of_nat (offset_of ms name))) \<and>
     (\<forall>c i. so_element se c i = cheri_offset_increment pl c (of_nat i))"

lemma check_member_fails:
  "cap_addr c \<noteq> cap_base c \<Longrightarrow> p_ccsp s \<noteq> None \<Longrightarrow> declares_failure (check_member pl c len) s"
  by (simp add: check_member_def cheriostest_check_cap_bounds_precise_def Let_def bindP_assoc bindP_VERIFY2 cap_simps
      declares_failure_errx)

text \<open>
  A compiler that leaves the bounds of the whole object on capabilities to members is caught: each of the twelve
  tests of member bounds declares failure.
\<close>

theorem subobject_tests_detect:
  assumes "wide_compiler pl se" "objects_ok pl se" "p_ccsp s \<noteq> None"
  shows "list_all (\<lambda>t. declares_failure t s) (member_tests pl se)"
proof -
  note obj = assms(2) [unfolded objects_ok_def test_objects_sizes, simplified]
  have wide: "declares_failure (check_member pl (so_member se ms name obj) len) s"
    if "object_ok pl obj n" "(of_nat (offset_of ms name) :: ptraddr) \<noteq> 0" for ms name obj n len
    using assms(1,3) that by (intro check_member_fails)
      (simp_all add: wide_compiler_def object_ok_def cheri_offset_increment_def cheri_address_set_def)
  show ?thesis
    unfolding member_tests_def subobject_test_defs list.pred_inject(2)
    using obj by - (elim conjE, intro conjI list.pred_inject(1); (rule wide, assumption, simp add: layout_simps))
qed

theorem subobject_tests_detect_witness:
  "list_all (\<lambda>t. declares_failure t (fresh_process morello_purecap (\<lparr>fw_mem = \<lparr>m_byte = \<lambda>_. 0, m_tagged = \<lambda>_. None\<rparr>, fw_sink = 0\<rparr> :: fault_world)))
    (member_tests morello_purecap (sub_env_example\<lparr>so_member :=
       \<lambda>ms name obj. cheri_offset_increment morello_purecap obj (of_nat (offset_of ms name))\<rparr>))"
proof (rule subobject_tests_detect)
  show "wide_compiler morello_purecap (sub_env_example\<lparr>so_member :=
       \<lambda>ms name obj. cheri_offset_increment morello_purecap obj (of_nat (offset_of ms name))\<rparr>)"
    by (simp add: wide_compiler_def sub_env_example_def compiler_env_def Let_def)
  show "objects_ok morello_purecap (sub_env_example\<lparr>so_member :=
       \<lambda>ms name obj. cheri_offset_increment morello_purecap obj (of_nat (offset_of ms name))\<rparr>)"
    using sub_env_example_ok by (simp add: objects_ok_def)
qed simp

lemma overflow_name [simp]: "find (begins_with ''bounds_subobject_struct_chararray2048_overflow'') disallowed_prefixes = None"
  by (simp add: disallowed_prefixes_def begins_with_def)

lemma overflow_faults:
  assumes "subobject_bounds pl se" "objects_ok pl se" "fe_check fe = access_fault pl"
  shows "\<exists>c s'. bounds_subobject_struct_chararray2048_overflow pl fe se s = (Trapped (fe_siginfo fe FaultBounds c), s') \<and> only_world s s'"
proof -
  have "object_ok pl (so_object se ''sc2048_sideeffect'') 2050"
    using assms(2) by (simp add: objects_ok_def test_objects_sizes)
  from subobject_bounds.element_access(2) [OF assms(1) this] show ?thesis
    using assms(3) by (simp add: bounds_subobject_struct_chararray2048_overflow_def bindP_trapped store_via_fault only_world_def) blast
qed

text \<open>Without narrowing the store hits the member after the array, which is within the object.\<close>

lemma overflow_unnoticed:
  assumes "wide_compiler pl se" "objects_ok pl se" "fe_check fe = access_fault pl" "p_ccsp s \<noteq> None"
    and rep: "\<And>c a. unat (cap_base c) \<le> unat a \<Longrightarrow> unat a \<le> cap_top c \<Longrightarrow> arch_representable pl c a"
  shows "declares_failure (bounds_subobject_struct_chararray2048_overflow pl fe se) s"
proof -
  let ?obj = "so_object se ''sc2048_sideeffect''"
  let ?to = "\<lambda>k. ?obj\<lparr>cap_addr := cap_base ?obj + of_nat k\<rparr>"
  have ok: "object_ok pl ?obj 2050" using assms(2) by (simp add: objects_ok_def test_objects_sizes)
  have b: "unat (cap_base ?obj + of_nat k) = unat (cap_base ?obj) + k" if "k \<le> 2050" for k
    using ok that by (simp add: object_ok_def unat_word_ariths unat_of_nat)
  have step: "cheri_offset_increment pl (?to k) (of_nat j) = ?to (k + j)" if "k + j \<le> 2050" for k j
  proof -
    have "arch_representable pl (?to k) (cap_base ?obj + of_nat (k + j))"
      using b [OF that] that ok by (intro rep) (simp_all add: cap_top_def object_ok_def)
    then show ?thesis using ok by (simp add: cheri_offset_increment_def cheri_address_set_def object_ok_def cheri_is_sealed_def add.assoc)
  qed
  have start: "?obj = ?to 0" using ok by (simp add: object_ok_def)
  have "so_member se struct_chararray2048 ''chararray2048'' ?obj = ?to 1"
    using assms(1) step [of 0 1] start by (simp add: wide_compiler_def layout_simps)
  then have "last_element se = ?to 2048"
    using assms(1) step [of 1 2047] by (simp add: wide_compiler_def last_element_def)
  then have "cheri_offset_increment pl (last_element se) 1 = ?to 2049" using step [of 2048 1] by simp
  moreover have "access_fault pl (?to 2049) 1 (CHERI_PERM_STORE pl) = None"
    using ok b [of 2049] by (simp add: access_fault_def object_ok_def cheri_is_sealed_def access_in_bounds_def cap_top_def)
  ultimately show ?thesis
    using assms(3,4) returns_then_fails [of "[store_via pl fe (cheri_offset_increment pl (last_element se) 1) 1]" s pl
        "''Unexpected store success out-of-bounds on subobject array''" "[]"] store_via_ok
    by (simp add: bounds_subobject_struct_chararray2048_overflow_def)
qed

text \<open>
  C17: The test of an overflow out of a member array, run by the controller under a kernel that reports faults as
  documented, ends in \<^verbatim>\<open>PASS\<close> with a compiler that narrows, and in \<^verbatim>\<open>FAIL\<close> with one that leaves the bounds of the
  whole structure: there the store silently changes the neighbouring member.
\<close>

theorem overflow_test_verdict:
  assumes "os_works opt os" "kernel_reports pl os fe" "fe_check fe = access_fault pl" "objects_ok pl se"
    and "\<And>c a. unat (cap_base c) \<le> unat a \<Longrightarrow> unat a \<le> cap_top c \<Longrightarrow> arch_representable pl c a"
  shows "(subobject_bounds pl se \<longrightarrow>
      (\<exists>r'. cheriostest_run_test pl os opt u (overflow_test pl fe se) r = Inr r' \<and> tally r' = record_verdict Pass (tally r))) \<and>
    (wide_compiler pl se \<longrightarrow>
      (\<exists>r'. cheriostest_run_test pl os opt u (overflow_test pl fe se) r = Inr r' \<and> tally r' = record_verdict Fail (tally r)))"
proof (intro conjI impI)
  have code: "si_code (fe_siginfo fe FaultBounds c) = (if is_FreeBSD pl then PROT_CHERI_BOUNDS fe else SEGV_CAPBOUNDSERR fe)" for c
    using assms(2) by (simp add: kernel_reports_def)
  show "\<exists>r'. cheriostest_run_test pl os opt u (overflow_test pl fe se) r = Inr r' \<and> tally r' = record_verdict Pass (tally r)"
    if "subobject_bounds pl se"
    unfolding overflow_test_def by (rule fault_verdict [OF assms(1,2) _ overflow_faults [OF that assms(4,3)] code]) simp
  show "\<exists>r'. cheriostest_run_test pl os opt u (overflow_test pl fe se) r = Inr r' \<and> tally r' = record_verdict Fail (tally r)"
    if "wide_compiler pl se"
    unfolding overflow_test_def using overflow_unnoticed [OF that assms(4,3) _ assms(5)] by (intro declared_fails [OF assms(1)]) simp_all
qed

lemma sub_env_linux: "objects_ok morello_linux sub_env_example"
  using sub_env_example_ok by (simp add: objects_ok_def object_ok_def morello_linux_def cheri_is_sealed_def list_all_iff)

theorem overflow_test_verdict_witness:
  "\<forall>r. \<exists>r'. cheriostest_run_test morello_linux quiet_os plain_opts None (overflow_test morello_linux fault_env_example
      (sub_env_example\<lparr>so_member := \<lambda>ms name obj. cheri_offset_increment morello_linux obj (of_nat (offset_of ms name)),
         so_element := \<lambda>c i. cheri_offset_increment morello_linux c (of_nat i)\<rparr>)) r = Inr r' \<and>
     tally r' = record_verdict Fail (tally r)"
proof -
  let ?se = "sub_env_example\<lparr>so_member := \<lambda>ms name obj. cheri_offset_increment morello_linux obj (of_nat (offset_of ms name)),
         so_element := \<lambda>c i. cheri_offset_increment morello_linux c (of_nat i)\<rparr>"
  have "kernel_reports morello_linux (quiet_os :: fault_world os) fault_env_example"
    by (simp add: kernel_reports_def fault_env_example_def quiet_os_def is_FreeBSD_def morello_linux_def)
  moreover have "fe_check fault_env_example = access_fault morello_linux" by (simp add: fault_env_example_def)
  moreover have "objects_ok morello_linux ?se" using sub_env_linux by (simp add: objects_ok_def)
  moreover have "wide_compiler morello_linux ?se" by (simp add: wide_compiler_def)
  moreover have "arch_representable morello_linux c a" for c a by (simp add: morello_linux_def morello_purecap_def)
  ultimately show ?thesis
    using overflow_test_verdict [OF quiet_os_works, of morello_linux fault_env_example ?se] by blast
qed

text \<open>
  The test of the remaining-length annotation never looks at it: whatever a compiler does for the annotated
  structure, the test behaves the same, because its object has another type.
\<close>

theorem remaininglength_blind:
  assumes "\<And>ms name obj. ms \<noteq> struct_remaininglength_chararray16 \<Longrightarrow> so_member se ms name obj = so_member se' ms name obj"
    and "so_alloca se = so_alloca se'"
  shows "bounds_subobject_chararray_remaininglength pl se = bounds_subobject_chararray_remaininglength pl se'"
proof -
  have "struct_trailing_chararray_fla \<noteq> struct_remaininglength_chararray16" by (simp add: struct_defs)
  then show ?thesis using assms by (simp add: bounds_subobject_chararray_remaininglength_def)
qed

theorem remaininglength_blind_witness:
  "bounds_subobject_chararray_remaininglength morello_purecap sub_env_example =
   bounds_subobject_chararray_remaininglength morello_purecap
     (sub_env_example\<lparr>so_member := \<lambda>ms name obj. if ms = struct_remaininglength_chararray16 then cap_null morello_purecap
        else so_member sub_env_example ms name obj\<rparr>)"
  by (rule remaininglength_blind) simp_all

end
