(* ===== verification/Strfcap.thy ===== *)
theory Strfcap
  imports Address_Gap
begin

text \<open>
  The tests of \<^verbatim>\<open>cheriostest_strfcap.c\<close>: what \<^verbatim>\<open>strfcap(3)\<close> prints for a capability is taken apart again by \<^verbatim>\<open>sscanf\<close>
  and compared with the fields of the capability, and numbers are compared with what \<^verbatim>\<open>snprintf\<close> prints. The function
  \<^verbatim>\<open>strfcap\<close> belongs to the C library of the system under test and is an argument; the conversions of \<^verbatim>\<open>sscanf\<close> that
  the test uses are modelled.
\<close>

section \<open>The C library\<close>

definition is_space :: "char \<Rightarrow> bool" where
  "is_space c \<longleftrightarrow> c = CHR '' '' \<or> c \<in> set [CHR 0x09, CHR 0x0A, CHR 0x0B, CHR 0x0C, CHR 0x0D]"

definition skip_space :: "string \<Rightarrow> string" where
  "skip_space s = dropWhile is_space s"

text \<open>A prefix \<^verbatim>\<open>0x\<close> counts only in front of a digit.\<close>

definition skip_0x :: "string \<Rightarrow> string" where
  "skip_0x s = (case s of
      z # x # d # t \<Rightarrow> (if z = CHR ''0'' \<and> (x = CHR ''x'' \<or> x = CHR ''X'') \<and> hex_digit d \<noteq> None then d # t else s)
    | _ \<Rightarrow> s)"

text \<open>\<^verbatim>\<open>%lx\<close>: white space, a sign, the prefix, digits; too large a number saturates, a minus sign negates the result.\<close>

definition scan_lx :: "string \<Rightarrow> (uintmax \<times> string) option" where
  "scan_lx s = (case skip_space s of
      c # t \<Rightarrow> (if c = CHR ''-'' then map_option (apfst uminus) (scan_hex (skip_0x t))
               else if c = CHR ''+'' then scan_hex (skip_0x t) else scan_hex (skip_0x (c # t)))
    | [] \<Rightarrow> None)"

text \<open>A literal character of the format, and a conversion that takes at most \<open>n\<close> characters, but at least one.\<close>

definition scan_lit :: "char \<Rightarrow> string \<Rightarrow> string option" where
  "scan_lit c s = (case s of d # t \<Rightarrow> if c = d then Some t else None | [] \<Rightarrow> None)"

definition scan_while :: "nat \<Rightarrow> (char \<Rightarrow> bool) \<Rightarrow> string \<Rightarrow> (string \<times> string) option" where
  "scan_while n p s = (let t = take n (takeWhile p s) in if t = [] then None else Some (t, drop (length t) s))"

text \<open>The variables that \<^verbatim>\<open>sscanf\<close> fills.\<close>

record c_fields =
  cf_addr :: uintmax
  cf_perms :: string
  cf_base :: uintmax
  cf_top :: uintmax
  cf_attr :: string

text \<open>
  \<^verbatim>\<open>sscanf(str, "%lx [%15[^,],%lx-%lx] %31s", ...)\<close>: the number of conversions that were stored, -1 for a string without
  any input, and the variables, those not reached being as they were.
\<close>

definition sscanf_C :: "c_fields \<Rightarrow> string \<Rightarrow> int \<times> c_fields" where
  "sscanf_C f s =
     (case scan_lx s of None \<Rightarrow> (if skip_space s = [] then - 1 else 0, f) | Some (a, s) \<Rightarrow> let f = f\<lparr>cf_addr := a\<rparr> in
     (case scan_lit (CHR ''['') (skip_space s) of None \<Rightarrow> (1, f) | Some s \<Rightarrow>
     (case scan_while 15 (\<lambda>c. c \<noteq> CHR '','') s of None \<Rightarrow> (1, f) | Some (p, s) \<Rightarrow> let f = f\<lparr>cf_perms := p\<rparr> in
     (case scan_lit (CHR '','') s of None \<Rightarrow> (2, f) | Some s \<Rightarrow>
     (case scan_lx s of None \<Rightarrow> (2, f) | Some (b, s) \<Rightarrow> let f = f\<lparr>cf_base := b\<rparr> in
     (case scan_lit (CHR ''-'') s of None \<Rightarrow> (3, f) | Some s \<Rightarrow>
     (case scan_lx s of None \<Rightarrow> (3, f) | Some (t, s) \<Rightarrow> let f = f\<lparr>cf_top := t\<rparr> in
     (case scan_lit (CHR '']'') s of None \<Rightarrow> (4, f) | Some s \<Rightarrow>
     (case scan_while 31 (\<lambda>c. \<not> is_space c) (skip_space s) of None \<Rightarrow> (4, f) | Some (x, s) \<Rightarrow> (5, f\<lparr>cf_attr := x\<rparr>))))))))))"

text \<open>\<^verbatim>\<open>strstr(s, p) != NULL\<close>.\<close>

fun contains :: "string \<Rightarrow> string \<Rightarrow> bool" where
  "contains [] p \<longleftrightarrow> p = []"
| "contains (c # s) p \<longleftrightarrow> begins_with (c # s) p \<or> contains s p"

text \<open>
  What the tests use of their surroundings: \<^verbatim>\<open>strfcap\<close> of a buffer size, a format and a capability (what it returns, and the
  string then in the buffer), the flag of capability mode where the architecture has one, the bytes of a capability in
  memory, the signal of \<^verbatim>\<open>abort\<close>, and the capabilities the tests are about.
\<close>

record strf_env =
  sf_strfcap :: "nat \<Rightarrow> string \<Rightarrow> cap \<Rightarrow> int \<times> string"
  CHERI_FLAGS_MODES :: "(uintmax \<times> uintmax) option" \<comment> \<open>\<^verbatim>\<open>CHERI_FLAGS_CAP_MODE\<close>, \<^verbatim>\<open>CHERI_FLAGS_INT_MODE\<close>\<close>
  sf_bytes :: "cap \<Rightarrow> 8 word list"
  sf_abort :: siginfo
  sf_uninit :: c_fields
  sf_buffer :: "char list" \<comment> \<open>\<^verbatim>\<open>str_p\<close> before its first use\<close>
  sf_array :: cap \<comment> \<open>the array on the stack\<close>
  sf_retaddr :: cap
  sf_ddc :: cap
  sf_pcc :: cap

definition cheri_flags_set :: "platform \<Rightarrow> cap \<Rightarrow> uintmax \<Rightarrow> cap" where
  "cheri_flags_set pl c fl = c\<lparr>cap_tag := cap_tag c \<and> \<not> cheri_is_sealed pl c, cap_flags := fl\<rparr>"

section \<open>One capability under %C\<close>

text \<open>
  The permissions in the order of the tests: the bit, the letter expected, and the letter the message names.
\<close>

definition C_perm_table :: "platform \<Rightarrow> (uintmax \<times> char \<times> char) list" where
  "C_perm_table pl =
     [(CHERI_PERM_LOAD pl, CHR ''r'', CHR ''r''), (CHERI_PERM_STORE pl, CHR ''w'', CHR ''w''),
      (CHERI_PERM_EXECUTE pl, CHR ''x'', CHR ''x'')] @
     only_if (HAS_CHERI_PERM_LOAD_STORE_CAP pl)
       [(CHERI_PERM_LOAD_CAP pl, CHR ''R'', CHR ''R''), (CHERI_PERM_STORE_CAP pl, CHR ''W'', CHR ''W'')] @
     only_if (HAS_CHERI_PERM_CAP pl) [(CHERI_PERM_CAP pl, CHR ''C'', CHR ''C'')] @
     only_if (HAS_CHERI_PERM_LOAD_MUTABLE pl) [(CHERI_PERM_LOAD_MUTABLE pl, CHR ''M'', CHR ''l'')] @
     only_if (pl_arch pl = Morello) [(ARM_CAP_PERMISSION_EXECUTIVE pl, CHR ''E'', CHR ''E'')]"

definition quoted :: "string \<Rightarrow> string" where
  "quoted s = [CHR 0x27] @ s @ [CHR 0x27]"

text \<open>\<^verbatim>\<open>permsp\<close> runs over the letters; at their end it points to the terminating NUL.\<close>

fun check_C_perms :: "platform \<Rightarrow> cap \<Rightarrow> string \<Rightarrow> (uintmax \<times> char \<times> char) list \<Rightarrow> string \<Rightarrow> ('w, unit) prog" where
  "check_C_perms pl p descr [] permsp =
     fail_if pl (permsp \<noteq> []) (''Extra permissions '' @ quoted ''%s'' @ '' for %s'') [FStr permsp, FStr descr]"
| "check_C_perms pl p descr ((pb, letter, named) # rest) permsp =
     (if cheri_perms_get p AND pb \<noteq> 0
      then (case permsp of
              c # permsp' \<Rightarrow> if c = letter then check_C_perms pl p descr rest permsp'
                else cheriostest_failure_errx pl (''Missing '' @ quoted [named] @ '' permission for %s'') [FStr descr]
            | [] \<Rightarrow> cheriostest_failure_errx pl (''Missing '' @ quoted [named] @ '' permission for %s'') [FStr descr])
      else check_C_perms pl p descr rest permsp)"

definition check_C_attr :: "platform \<Rightarrow> strf_env \<Rightarrow> cap \<Rightarrow> string \<Rightarrow> string \<Rightarrow> ('w, unit) prog" where
  "check_C_attr pl sf p descr attr = block (
     [(if cheri_tag_get p
       then fail_if pl (contains attr ''invalid'') ''Tagged cap marked invalid for %s'' [FStr descr]
       else fail_if pl (\<not> contains attr ''invalid'') ''Untagged cap not marked invalid for %s'' [FStr descr])] @
     (if cheri_type_get p = CHERI_OTYPE_UNSEALED pl then
        [fail_if pl (contains attr ''sealed'') ''Unsealed cap marked as sealed for %s'' [FStr descr],
         fail_if pl (contains attr ''sentry'') ''Unsealed cap marked as sentry for %s'' [FStr descr]]
      else if cheri_type_get p = CHERI_OTYPE_SENTRY pl then
        [fail_if pl (contains attr ''sealed'') ''Sentry cap marked as sealed for %s'' [FStr descr],
         fail_if pl (\<not> contains attr ''sentry'') ''Sentry cap not marked as sentry for %s'' [FStr descr]]
      else
        [fail_if pl (\<not> contains attr ''sealed'') ''Sealed cap not marked as sealed for %s'' [FStr descr],
         fail_if pl (contains attr ''sentry'') ''Sealed cap marked as sentry for %s'' [FStr descr]]) @
     (case CHERI_FLAGS_MODES sf of
        None \<Rightarrow> []
      | Some (cap_mode, _) \<Rightarrow>
          [(if cheri_perms_get p AND CHERI_PERM_EXECUTE pl \<noteq> 0 \<and> cheri_flags_get p = cap_mode
            then fail_if pl (\<not> contains attr ''capmode'') ''Capability mode code cap not marked capmode for %s'' [FStr descr]
            else fail_if pl (contains attr ''capmode'') ''Non-capability mode code cap marked capmode for %s'' [FStr descr])]))"

definition test_strfcap_C_cap_one :: "platform \<Rightarrow> strf_env \<Rightarrow> cap \<Rightarrow> int \<Rightarrow> string \<Rightarrow> ('w, unit) prog" where
  "test_strfcap_C_cap_one pl sf p expected_tokens descr =
     (if expected_tokens \<notin> set [1, 4, 5] then trap (sf_abort sf)
      else case sscanf_C (sf_uninit sf) (snd (sf_strfcap sf 128 ''%C'' p)) of
        (tokens, f) \<Rightarrow> block
          [fail_if pl (tokens \<noteq> expected_tokens) ''Mismatched tokens for %s, expected %d got %d''
             [FStr descr, FInt expected_tokens, FInt tokens],
           fail_if pl (cf_addr f \<noteq> cheri_address_get p) ''Mismatched address for %s'' [FStr descr],
           (if tokens = 1 then ret () else block
             [check_C_perms pl p descr (C_perm_table pl) (cf_perms f),
              fail_if pl (cf_base f \<noteq> cheri_base_get p) ''Mismatched base for %s'' [FStr descr],
              fail_if pl (cf_top f \<noteq> cheri_base_get p + cheri_length_get p) ''Mismatched top for %s'' [FStr descr],
              (if tokens = 4 then ret () else check_C_attr pl sf p descr (cf_attr f))])])"

text \<open>The test of \<^verbatim>\<open>%C\<close>: five formats of a scalar, then four capabilities.\<close>

definition SIGNATURE_WARN :: string where
  "SIGNATURE_WARN = ''The function signatures of strfcap() differ on Morello Linux and CheriBSD''"

definition scalar_cap :: "platform \<Rightarrow> uintmax \<Rightarrow> cap" where
  "scalar_cap pl n = (cap_null pl)\<lparr>cap_addr := n\<rparr>"

definition C_scalar_case :: "platform \<Rightarrow> strf_env \<Rightarrow> string \<times> string \<times> string \<Rightarrow> ('w, unit) prog" where
  "C_scalar_case pl sf = (\<lambda>(fmt, expected, msg).
     case sf_strfcap sf 64 fmt (scalar_cap pl 4) of (ret_s, data) \<Rightarrow> block
       [CHERIOSTEST_VERIFY2 pl (ret_s > 0) ''strfcap() failed'' [],
        fail_if pl (data \<noteq> expected) msg [FStr data]])"

definition C_scalar_cases :: "(string \<times> string \<times> string) list" where
  "C_scalar_cases =
     [(''%#C'', ''0x4'', ''Wrong output for simple scalar '' @ quoted ''%s''),
      (''%#.4C'', ''0x0004'', ''Wrong output for simple scalar with precision '' @ quoted ''%s''),
      (''%#8C'', ''     0x4'', ''Wrong output for simple scalar with padding '' @ quoted ''%s''),
      (''%#-8C'', ''0x4     '', ''Wrong output for simple scalar with left adjust padding '' @ quoted ''%s''),
      (''%#8.4C'', ''  0x0004'', ''Wrong output for simple scalar with precision and padding '' @ quoted ''%s'')]"

definition strfcap_C :: "platform \<Rightarrow> strf_env \<Rightarrow> ('w, unit) prog" where
  "strfcap_C pl sf = block (
     map (C_scalar_case pl sf) C_scalar_cases @
     only_if (is_purecap pl) [test_strfcap_C_cap_one pl sf (sf_retaddr sf) 5 ''return address''] @
     (case CHERI_FLAGS_MODES sf of
        None \<Rightarrow> []
      | Some (cap_mode, int_mode) \<Rightarrow>
          (if is_purecap pl
           then [test_strfcap_C_cap_one pl sf (cheri_flags_set pl (sf_pcc sf) int_mode) 4 ''non-capability mode PCC'']
           else [test_strfcap_C_cap_one pl sf (cheri_flags_set pl (sf_pcc sf) cap_mode) 5 ''capability mode PCC''])) @
     [test_strfcap_C_cap_one pl sf (sf_array sf) 4 ''stack array'',
      test_strfcap_C_cap_one pl sf (cheri_tag_clear (sf_array sf)) 5 ''untagged stack array'',
      cheriostest_success_with_warn SIGNATURE_WARN])"

section \<open>Numbers\<close>

text \<open>A format of \<^verbatim>\<open>strfcap\<close> with \<^verbatim>\<open>S\<close> in the place of the specifier, the one of \<^verbatim>\<open>printf\<close>, and what it is about.\<close>

definition number_formats :: "platform \<Rightarrow> (string \<times> string \<times> string) list" where
  "number_formats pl =
     (if is_FreeBSD pl
      then [(''%S'', ''%ld'', ''plain number''), (''%.4S'', ''%.4ld'', ''precision''), (''%16S'', ''%16ld'', ''padding''),
            (''%-16S'', ''%-16ld'', ''right align padding''), (''%16.4S'', ''%16.4ld'', ''padding and precision'')]
      else [(''%S'', ''%lu'', ''plain number''), (''%.4S'', ''%.4lu'', ''precision''), (''%16S'', ''%16lu'', ''padding''),
            (''%-16S'', ''%-16lu'', ''right align padding''), (''%16.4S'', ''%16.4lu'', ''padding and precision'')]) @
     [(''%xS'', ''%lx'', ''plain number''), (''%#xS'', ''%#lx'', ''0x prefix''), (''%#.4xS'', ''%#.4lx'', ''precision''),
      (''%#16xS'', ''%#16lx'', ''padding''), (''%#16xS'', ''%#16lx'', ''right align padding''),
      (''%#16.4xS'', ''%#16.4lx'', ''padding and precision''),
      (''%XS'', ''%lX'', ''uppercase, plain number''), (''%#XS'', ''%#lX'', ''uppercase, 0x prefix''),
      (''%#.4XS'', ''%#.4lX'', ''uppercase, precision''), (''%#16XS'', ''%#16lX'', ''uppercase, padding''),
      (''%#16XS'', ''%#16lX'', ''uppercase, right align padding''),
      (''%#16.4XS'', ''%#16.4lX'', ''uppercase, padding and precision'')]"

definition spec_chars :: string where "spec_chars = ''ablopstv''"

text \<open>\<^verbatim>\<open>*strchr(format, 'S') = sc\<close>.\<close>

fun put_spec :: "char \<Rightarrow> string \<Rightarrow> string" where
  "put_spec sc [] = []"
| "put_spec sc (c # s) = (if c = CHR ''S'' then sc # s else c # put_spec sc s)"

text \<open>The number a specifier stands for; \<open>None\<close> is the default case of the switch.\<close>

definition spec_value :: "char \<Rightarrow> cap \<Rightarrow> uintmax option" where
  "spec_value sc c =
     (if sc = CHR ''a'' then Some (cheri_address_get c)
      else if sc = CHR ''b'' then Some (cheri_base_get c)
      else if sc = CHR ''l'' then Some (cheri_length_get c)
      else if sc = CHR ''o'' then Some (cheri_offset_get c)
      else if sc = CHR ''p'' then Some (cheri_perms_get c)
      else if sc = CHR ''s'' then Some (cheri_type_get c)
      else if sc = CHR ''S'' then Some (cheri_type_get c)
      else if sc = CHR ''t'' then Some (cheri_base_get c + cheri_length_get c)
      else if sc = CHR ''v'' then Some (of_bool (cheri_tag_get c))
      else None)"

text \<open>\<^verbatim>\<open>str_p\<close> after the reference output has been written to it.\<close>

definition reference_output :: "platform \<Rightarrow> char \<Rightarrow> uintmax \<Rightarrow> string \<Rightarrow> char list \<Rightarrow> char list" where
  "reference_output pl sc n printf_format str_p =
     (if sc = CHR ''S'' \<and> n = CHERI_OTYPE_UNSEALED pl then snprintf_buf str_p ''<unsealed>''
      else if sc = CHR ''S'' \<and> n = CHERI_OTYPE_SENTRY pl then snprintf_buf str_p ''<sentry>''
      else vsnprintf_buf pl str_p printf_format [FWord n])"

definition number_case ::
  "platform \<Rightarrow> strf_env \<Rightarrow> cap \<Rightarrow> string \<Rightarrow> (string \<times> string \<times> string) \<times> char \<Rightarrow> char list \<Rightarrow> ('w, char list) prog" where
  "number_case pl sf c cap_desc = (\<lambda>((strfcap_format, printf_format, desc), sc) str_p.
     let format = put_spec sc strfcap_format
     in case sf_strfcap sf 33 format c of (ret_s, str_s) \<Rightarrow>
       bindP (CHERIOSTEST_VERIFY2 pl (ret_s > 0) ''strfcap() failed with %s'' [FStr format]) (\<lambda>_.
       (case spec_value sc c of
          None \<Rightarrow> cheriostest_failure_errx pl ''Internal error: unknown specifier %c'' [FStr [sc]]
        | Some n \<Rightarrow>
            (let str_p' = reference_output pl sc n printf_format str_p
             in bindP (fail_if pl (str_s \<noteq> c_str str_p')
                  (''strfcap (%s) and printf (%s) don'' @ [CHR 0x27] @ ''t match when formatting %s with %s (%s)'')
                  [FStr str_s, FStr (c_str str_p'), FStr cap_desc, FStr desc, FStr format]) (\<lambda>_. ret str_p')))))"

fun number_cases ::
  "platform \<Rightarrow> strf_env \<Rightarrow> cap \<Rightarrow> string \<Rightarrow> ((string \<times> string \<times> string) \<times> char) list \<Rightarrow> char list \<Rightarrow> ('w, char list) prog" where
  "number_cases pl sf c cap_desc [] str_p = ret str_p"
| "number_cases pl sf c cap_desc (x # xs) str_p =
     bindP (number_case pl sf c cap_desc x str_p) (number_cases pl sf c cap_desc xs)"

definition B_printf_format :: string where
  "B_printf_format = concat (replicate 16 ''%02hhx'')"

definition test_strfcap_number_one_cap :: "platform \<Rightarrow> strf_env \<Rightarrow> cap \<Rightarrow> string \<Rightarrow> ('w, unit) prog" where
  "test_strfcap_number_one_cap pl sf c cap_desc =
     bindP (number_cases pl sf c cap_desc (List.product (number_formats pl) spec_chars) (sf_buffer sf)) (\<lambda>str_p.
     (case sf_strfcap sf 33 ''%B'' c of (ret_s, str_s) \<Rightarrow>
       bindP (fail_if pl (ret_s \<noteq> 32) ''wrong size (%zu) returned from %%B format should be (%zu) string: (%s)''
                [FInt ret_s, FInt 32, FStr str_s]) (\<lambda>_.
       (let str_p' = vsnprintf_buf pl str_p B_printf_format (map (\<lambda>b. FInt (uint b)) (sf_bytes sf c))
        in fail_if pl (str_s \<noteq> c_str str_p')
             ''strfcap output (%s) does not match byte-wise printf (%s) when formatting %s with %%B (raw hex)''
             [FStr str_s, FStr (c_str str_p'), FStr cap_desc]))))"

definition strfcap_numbers :: "platform \<Rightarrow> strf_env \<Rightarrow> ('w, unit) prog" where
  "strfcap_numbers pl sf = block
     [test_strfcap_number_one_cap pl sf (scalar_cap pl 4) ''scalar (4)'',
      test_strfcap_number_one_cap pl sf (sf_array sf) ''stack array'',
      test_strfcap_number_one_cap pl sf (cheri_tag_clear (sf_array sf)) ''stack array'',
      test_strfcap_number_one_cap pl sf (sf_ddc sf) ''DDC'',
      test_strfcap_number_one_cap pl sf (sf_pcc sf) ''PCC'',
      cheriostest_success_with_warn SIGNATURE_WARN]"

section \<open>Tags and text\<close>

definition strfcap_T :: "platform \<Rightarrow> strf_env \<Rightarrow> ('w, unit) prog" where
  "strfcap_T pl sf =
     (let str_t = snd (sf_strfcap sf 128 ''%C'' (sf_array sf));
          str_u = snd (sf_strfcap sf 128 ''%C'' (cheri_tag_clear (sf_array sf)));
          str_u' = snd (sf_strfcap sf 128 ''%T%C'' (cheri_tag_clear (sf_array sf)))
      in block
        [fail_if pl (str_t = str_u) ''Tagged (%s) and untagged (%s) %%C formatted output is identical'' [FStr str_t, FStr str_u],
         fail_if pl (str_t \<noteq> str_u') ''Tagged (%s) and untagged (%s) differs when untagged formatted with %%T%%C''
           [FStr str_t, FStr str_u'],
         cheriostest_success_with_warn SIGNATURE_WARN])"

definition strfcap_textual :: "platform \<Rightarrow> strf_env \<Rightarrow> ('w, unit) prog" where
  "strfcap_textual pl sf =
     (let out = (\<lambda>fmt c. snd (sf_strfcap sf 128 fmt c)); c = sf_array sf
      in block
        [fail_if pl (out ''%%'' (cap_null pl) \<noteq> ''%'') ''(%s) produced (%s)'' [FStr ''%%'', FStr (out ''%%'' (cap_null pl))],
         fail_if pl (\<not> begins_with (out ''%?12345%a'' c) ''12345'') ''(%s) did not include 12345 (%s)''
           [FStr ''%?12345%a'', FStr (out ''%?12345%a'' c)],
         fail_if pl (out ''%?12345%A'' c \<noteq> []) ''(%s) of valid cap is not empty (%s)''
           [FStr ''%?12345%A'', FStr (out ''%?12345%A'' c)],
         fail_if pl (\<not> begins_with (out ''%?12345%A'' (cheri_tag_clear c)) ''12345'')
           ''(%s) of untagged cap did not include 12345 (%s)'' [FStr ''%?12345%A'', FStr (out ''%?12345%A'' (cheri_tag_clear c))],
         cheriostest_success_with_warn SIGNATURE_WARN])"

section \<open>Reading back what was printed\<close>

definition hex_char :: "nat \<Rightarrow> char" where
  "hex_char d = char_of (if d < 10 then d + 48 else d + 87)"

fun hex_str :: "nat \<Rightarrow> string" where
  "hex_str n = (if n < 16 then [hex_char n] else hex_str (n div 16) @ [hex_char (n mod 16)])"

declare hex_str.simps [simp del]

lemma hex_digit_char: "d < 16 \<Longrightarrow> hex_digit (hex_char d) = Some d"
  by (auto simp: hex_digit_def hex_char_def Let_def of_char_of take_bit_eq_mod)

lemma hex_value_append: "hex_value acc (s @ t) = hex_value (hex_value acc s) t"
  by (induction acc s rule: hex_value.induct) simp_all

lemma hex_str_digits: "c \<in> set (hex_str n) \<Longrightarrow> hex_digit c \<noteq> None"
proof (induction n rule: hex_str.induct)
  case (1 n)
  then show ?case
    by (cases "n < 16") (auto simp: hex_str.simps [of n] hex_digit_char)
qed

lemma hex_value_str: "hex_value 0 (hex_str n) = n"
proof (induction n rule: hex_str.induct)
  case (1 n)
  then show ?case
    by (cases "n < 16") (simp_all add: hex_str.simps [of n] hex_value_append hex_digit_char)
qed

lemma hex_str_Nil [simp]: "hex_str n \<noteq> []"
  by (subst hex_str.simps) simp

text \<open>A number is read back if what follows cannot be taken for a part of it.\<close>

definition not_hex :: "string \<Rightarrow> bool" where
  "not_hex s \<longleftrightarrow> (case s of [] \<Rightarrow> True | c # t \<Rightarrow> hex_digit c = None \<and> c \<noteq> CHR ''x'' \<and> c \<noteq> CHR ''X'')"

lemma scan_hex_str:
  assumes "n < 2 ^ 64" "not_hex rest"
  shows "scan_hex (hex_str n @ rest) = Some (of_nat n, rest)"
proof -
  have "takeWhile (\<lambda>c. hex_digit c \<noteq> None) (hex_str n @ rest) = hex_str n"
    using hex_str_digits assms(2)
    by (subst takeWhile_append2) (auto simp: not_hex_def split: list.splits)
  then show ?thesis using assms(1) by (simp add: scan_hex_def Let_def hex_value_str)
qed

lemma space_not_digit: "is_space c \<Longrightarrow> hex_digit c = None"
  by (auto simp: is_space_def hex_digit_def)

lemma sign_not_digit [simp]: "hex_digit (CHR ''-'') = None" "hex_digit (CHR ''+'') = None" "hex_digit (CHR ''x'') = None"
  "hex_digit (CHR ''X'') = None" "hex_digit (CHR '' '') = None" "hex_digit (CHR '','') = None" "hex_digit (CHR '']'') = None"
  by (simp_all add: hex_digit_def)

lemma scan_lx_str:
  assumes "n < 2 ^ 64" "not_hex rest"
  shows "scan_lx (hex_str n @ rest) = Some (of_nat n, rest)"
proof -
  obtain c t where ct: "hex_str n = c # t" by (cases "hex_str n") auto
  then have c: "hex_digit c \<noteq> None" "\<forall>d \<in> set t. hex_digit d \<noteq> None" using hex_str_digits [of _ n] by auto
  have "\<not> is_space c" "c \<noteq> CHR ''-''" "c \<noteq> CHR ''+''" using c(1) space_not_digit [of c] by auto
  moreover have "skip_0x (c # t @ rest) = c # t @ rest"
    using c(2) assms(2) by (cases t) (auto simp: skip_0x_def not_hex_def split: list.splits)
  ultimately show ?thesis
    using scan_hex_str [OF assms] by (simp add: scan_lx_def skip_space_def ct)
qed

text \<open>The shape of a capability under \<^verbatim>\<open>%C\<close>: address, permissions, base, top, and attributes if there are any.\<close>

definition C_shape :: "nat \<Rightarrow> string \<Rightarrow> nat \<Rightarrow> nat \<Rightarrow> string \<Rightarrow> string" where
  "C_shape a letters b t attr =
     hex_str a @ CHR '' '' # CHR ''['' # letters @ CHR '','' # hex_str b @ CHR ''-'' # hex_str t @ CHR '']'' #
     (if attr = [] then [] else CHR '' '' # attr)"

definition shape_ok :: "nat \<Rightarrow> string \<Rightarrow> nat \<Rightarrow> nat \<Rightarrow> string \<Rightarrow> bool" where
  "shape_ok a letters b t attr \<longleftrightarrow> a < 2 ^ 64 \<and> b < 2 ^ 64 \<and> t < 2 ^ 64 \<and>
     letters \<noteq> [] \<and> length letters \<le> 15 \<and> CHR '','' \<notin> set letters \<and>
     length attr \<le> 31 \<and> list_all (\<lambda>c. \<not> is_space c) attr"

lemma scan_while_all:
  assumes "w \<noteq> []" "length w \<le> n" "list_all p w" "rest = [] \<or> \<not> p (hd rest)"
  shows "scan_while n p (w @ rest) = Some (w, rest)"
proof -
  have "takeWhile p (w @ rest) = w"
    using assms(3,4) by (subst takeWhile_append2) (auto simp: list_all_iff takeWhile_eq_Nil_iff)
  then show ?thesis using assms(1,2) by (simp add: scan_while_def Let_def)
qed

lemma skip_space_word: "list_all (\<lambda>c. \<not> is_space c) w \<Longrightarrow> skip_space w = w"
  by (cases w) (simp_all add: skip_space_def)

lemma skip_space_simps [simp]: "skip_space (CHR '' '' # s) = skip_space s" "skip_space (CHR ''['' # s) = CHR ''['' # s"
  "skip_space [] = []"
  by (simp_all add: skip_space_def is_space_def)

lemma scan_while_Nil [simp]: "scan_while n p [] = None"
  by (simp add: scan_while_def)

text \<open>The same shape around numbers that are written in any way that \<^verbatim>\<open>%lx\<close> reads.\<close>

definition shape_of :: "string \<Rightarrow> string \<Rightarrow> string \<Rightarrow> string \<Rightarrow> string \<Rightarrow> string" where
  "shape_of addr letters bottom limit attr =
     addr @ CHR '' '' # CHR ''['' # letters @ CHR '','' # bottom @ CHR ''-'' # limit @ CHR '']'' # (if attr = [] then [] else CHR '' '' # attr)"

definition reads_as :: "string \<Rightarrow> nat \<Rightarrow> bool" where
  "reads_as s n \<longleftrightarrow> (\<forall>rest. not_hex rest \<longrightarrow> scan_lx (s @ rest) = Some (of_nat n, rest))"

lemma C_shape_of: "C_shape a letters b t attr = shape_of (hex_str a) letters (hex_str b) (hex_str t) attr"
  by (simp add: C_shape_def shape_of_def)

lemma reads_as_hex: "n < 2 ^ 64 \<Longrightarrow> reads_as (hex_str n) n"
  by (simp add: reads_as_def scan_lx_str)

lemma sscanf_shape_of:
  assumes "reads_as addr a" "reads_as bottom b" "reads_as limit t" "shape_ok a letters b t attr"
  shows "sscanf_C f (shape_of addr letters bottom limit attr) =
    (if attr = [] then 4 else 5,
     \<lparr>cf_addr = of_nat a, cf_perms = letters, cf_base = of_nat b, cf_top = of_nat t,
      cf_attr = (if attr = [] then cf_attr f else attr)\<rparr>)"
proof -
  have nh: "not_hex (CHR '' '' # r)" "not_hex (CHR ''-'' # r)" "not_hex (CHR '']'' # r)" for r
    by (simp_all add: not_hex_def)
  have lx: "scan_lx (addr @ CHR '' '' # r) = Some (of_nat a, CHR '' '' # r)" "scan_lx (bottom @ CHR ''-'' # r) = Some (of_nat b, CHR ''-'' # r)"
    "scan_lx (limit @ CHR '']'' # r) = Some (of_nat t, CHR '']'' # r)" for r
    using assms(1-3) nh by (simp_all add: reads_as_def)
  have perms: "scan_while 15 (\<lambda>c. c \<noteq> CHR '','') (letters @ CHR '','' # rest) = Some (letters, CHR '','' # rest)" for rest
    using assms(4) by (intro scan_while_all) (auto simp: shape_ok_def list_all_iff)
  have word: "scan_while 31 (\<lambda>c. \<not> is_space c) (skip_space attr) = Some (attr, [])" if "attr \<noteq> []"
    using scan_while_all [of attr 31 "\<lambda>c. \<not> is_space c" "[]"] that assms(4) by (simp add: shape_ok_def skip_space_word)
  show ?thesis
    by (cases "attr = []") (simp_all add: sscanf_C_def shape_of_def lx perms word scan_lit_def)
qed

lemma sscanf_shape:
  assumes "shape_ok a letters b t attr"
  shows "sscanf_C f (C_shape a letters b t attr) =
    (if attr = [] then 4 else 5,
     \<lparr>cf_addr = of_nat a, cf_perms = letters, cf_base = of_nat b, cf_top = of_nat t,
      cf_attr = (if attr = [] then cf_attr f else attr)\<rparr>)"
  unfolding C_shape_of using assms by (intro sscanf_shape_of reads_as_hex) (simp_all add: shape_ok_def)

text \<open>The letters and the attributes that are due for a capability.\<close>

definition C_letters :: "platform \<Rightarrow> cap \<Rightarrow> string" where
  "C_letters pl p = map (fst \<circ> snd) (filter (\<lambda>(pb, _). cap_perms p AND pb \<noteq> 0) (C_perm_table pl))"

definition C_attrs :: "platform \<Rightarrow> strf_env \<Rightarrow> cap \<Rightarrow> string list" where
  "C_attrs pl sf p =
     only_if (\<not> cap_tag p) [''invalid''] @
     (if cap_otype p = CHERI_OTYPE_UNSEALED pl then []
      else if cap_otype p = CHERI_OTYPE_SENTRY pl then [''sentry''] else [''sealed'']) @
     (case CHERI_FLAGS_MODES sf of
        None \<Rightarrow> []
      | Some (cap_mode, _) \<Rightarrow> only_if (cap_perms p AND CHERI_PERM_EXECUTE pl \<noteq> 0 \<and> cap_flags p = cap_mode) [''capmode''])"

definition join_attrs :: "string list \<Rightarrow> string" where
  "join_attrs ws = (if ws = [] then [] else ''('' @ concat (map (\<lambda>w. w @ '','') (butlast ws)) @ last ws @ '')'')"

definition C_text :: "platform \<Rightarrow> strf_env \<Rightarrow> cap \<Rightarrow> string" where
  "C_text pl sf p = C_shape (unat (cap_addr p)) (C_letters pl p) (unat (cap_base p)) (cap_top p) (join_attrs (C_attrs pl sf p))"

lemma is_check_C_perms:
  "is_check pl (check_C_perms pl p descr tbl letters) (letters = map (fst \<circ> snd) (filter (\<lambda>(pb, _). cap_perms p AND pb \<noteq> 0) tbl))"
  by (induction pl p descr tbl letters rule: check_C_perms.induct)
    (auto simp: cap_simps is_check_def fail_if_def split: list.splits)

text \<open>What the attributes must and must not mention.\<close>

definition attr_due :: "platform \<Rightarrow> strf_env \<Rightarrow> cap \<Rightarrow> string \<Rightarrow> bool" where
  "attr_due pl sf p attr \<longleftrightarrow>
     contains attr ''invalid'' = (\<not> cap_tag p) \<and>
     contains attr ''sealed'' = (cap_otype p \<noteq> CHERI_OTYPE_UNSEALED pl \<and> cap_otype p \<noteq> CHERI_OTYPE_SENTRY pl) \<and>
     contains attr ''sentry'' = (cap_otype p \<noteq> CHERI_OTYPE_UNSEALED pl \<and> cap_otype p = CHERI_OTYPE_SENTRY pl) \<and>
     (case CHERI_FLAGS_MODES sf of
        None \<Rightarrow> True
      | Some (cap_mode, _) \<Rightarrow>
          contains attr ''capmode'' = (cap_perms p AND CHERI_PERM_EXECUTE pl \<noteq> 0 \<and> cap_flags p = cap_mode))"

lemma is_check_C_attr: "is_check pl (check_C_attr pl sf p descr attr) (attr_due pl sf p attr)"
  unfolding check_C_attr_def attr_due_def
  by (auto simp: cap_simps is_check_def fail_if_def split: option.splits)

lemma block_three: "block [p, q, r] = bindP p (\<lambda>_. bindP q (\<lambda>_. r))"
  using block_single [of r] by simp

text \<open>What both checkers of a printed capability do with the result of \<^verbatim>\<open>sscanf\<close>, for any check of the letters and of the attributes.\<close>

lemma is_check_parsed:
  assumes "n \<in> {4, 5}" "is_check pl perms letters_ok" "is_check pl attrs attrs_ok"
  shows "is_check pl (block
      [fail_if pl (k \<noteq> n) ''Mismatched tokens for %s, expected %d got %d'' [FStr descr, FInt n, FInt k],
       fail_if pl (cf_addr f \<noteq> cheri_address_get p) ''Mismatched address for %s'' [FStr descr],
       (if k = 1 then ret () else block
         [perms,
          fail_if pl (cf_base f \<noteq> cheri_base_get p) ''Mismatched base for %s'' [FStr descr],
          fail_if pl (cf_top f \<noteq> cheri_base_get p + cheri_length_get p) ''Mismatched top for %s'' [FStr descr],
          (if k = 4 then ret () else attrs)])])
    (k = n \<and> cf_addr f = cap_addr p \<and> letters_ok \<and> cf_base f = cap_base p \<and>
     cf_top f = cap_base p + cheri_length_get p \<and> (n = 5 \<longrightarrow> attrs_ok))" (is "is_check _ _ (?k \<and> ?a \<and> ?p \<and> ?b \<and> ?t \<and> ?x)")
proof -
  have last: "is_check pl (if k = 4 then ret () else attrs) ?x" if "?k"
    using assms(1,3) that by auto
  have rest: "is_check pl (if k = 1 then ret () else block
       [perms,
        fail_if pl (cf_base f \<noteq> cheri_base_get p) ''Mismatched base for %s'' [FStr descr],
        fail_if pl (cf_top f \<noteq> cheri_base_get p + cheri_length_get p) ''Mismatched top for %s'' [FStr descr],
        (if k = 4 then ret () else attrs)]) (?p \<and> ?b \<and> ?t \<and> ?x)" if "?k"
  proof -
    have "is_check pl (block
       [perms,
        fail_if pl (cf_base f \<noteq> cheri_base_get p) ''Mismatched base for %s'' [FStr descr],
        fail_if pl (cf_top f \<noteq> cheri_base_get p + cheri_length_get p) ''Mismatched top for %s'' [FStr descr],
        (if k = 4 then ret () else attrs)])
       (list_all id [?p, \<not> cf_base f \<noteq> cheri_base_get p, \<not> cf_top f \<noteq> cheri_base_get p + cheri_length_get p, ?x])"
      by (intro is_check_block list_all2_Cons [THEN iffD2] conjI is_check_fail_if last [OF that] list_all2_Nil [THEN iffD2] assms(2)) simp_all
    then show ?thesis using that assms(1) by (auto simp: cheri_base_get_def)
  qed
  have "is_check pl (bindP (fail_if pl (k \<noteq> n) m ap) (\<lambda>_. bindP (fail_if pl (cf_addr f \<noteq> cheri_address_get p) m' ap') (\<lambda>_. q)))
      (\<not> k \<noteq> n \<and> \<not> cf_addr f \<noteq> cheri_address_get p \<and> ?p \<and> ?b \<and> ?t \<and> ?x)" if "?k \<Longrightarrow> is_check pl q (?p \<and> ?b \<and> ?t \<and> ?x)" for m ap m' ap' q
    using that by (intro is_check_bind is_check_fail_if) auto
  note all = this [OF rest, unfolded not_not cheri_address_get_def]
  show ?thesis unfolding block_three cheri_address_get_def by (rule all)
qed

lemma is_check_C_cap_one:
  assumes "n \<in> {4, 5}" "sscanf_C (sf_uninit sf) (snd (sf_strfcap sf 128 ''%C'' p)) = (k, f)"
  shows "is_check pl (test_strfcap_C_cap_one pl sf p n descr)
    (k = n \<and> cf_addr f = cap_addr p \<and> cf_perms f = C_letters pl p \<and> cf_base f = cap_base p \<and>
     cf_top f = cap_base p + cheri_length_get p \<and> (n = 5 \<longrightarrow> attr_due pl sf p (cf_attr f)))"
proof -
  have n: "n \<notin> set [1, 4, 5] \<longleftrightarrow> False" using assms(1) by auto
  show ?thesis
    unfolding test_strfcap_C_cap_one_def assms(2) prod.case n if_False
    by (intro is_check_parsed [OF assms(1)] is_check_C_attr) (simp add: C_letters_def is_check_C_perms)
qed

text \<open>
  The test takes apart exactly what was printed: for an output of the shape the format asks for, with any numbers,
  letters and attributes in it, \<^verbatim>\<open>test_strfcap_C_cap_one\<close> returns if and only if address, base and top are those of
  the capability, the letters are those of its permissions in their order, and the attributes name what is due.
\<close>

theorem C_cap_one_iff:
  assumes "shape_ok a letters b t attr" "snd (sf_strfcap sf 128 ''%C'' p) = C_shape a letters b t attr" "n \<in> {4, 5}"
  shows "test_strfcap_C_cap_one pl sf p n descr = (ret () :: ('w, unit) prog) \<longleftrightarrow>
    n = (if attr = [] then 4 else 5) \<and> of_nat a = cap_addr p \<and> letters = C_letters pl p \<and> of_nat b = cap_base p \<and>
    of_nat t = cap_base p + cheri_length_get p \<and> (n = 5 \<longrightarrow> attr_due pl sf p attr)"
proof -
  have "sscanf_C (sf_uninit sf) (snd (sf_strfcap sf 128 ''%C'' p)) =
    (if attr = [] then 4 else 5, \<lparr>cf_addr = of_nat a, cf_perms = letters, cf_base = of_nat b, cf_top = of_nat t,
      cf_attr = (if attr = [] then cf_attr (sf_uninit sf) else attr)\<rparr>)"
    using sscanf_shape [OF assms(1)] assms(2) by simp
  from is_check_iff [OF is_check_C_cap_one [OF assms(3) this, of pl descr]] show ?thesis by auto
qed

lemma join_attrs_due:
  "attr_due pl sf p (join_attrs (C_attrs pl sf p))"
  by (auto simp: attr_due_def C_attrs_def join_attrs_def begins_with_def only_if_def split: option.splits)

lemma C_letters_short: "length (C_letters pl p) \<le> 15" "CHR '','' \<notin> set (C_letters pl p)"
proof -
  have "length (C_perm_table pl) \<le> 15" by (simp add: C_perm_table_def only_if_def)
  then show "length (C_letters pl p) \<le> 15"
    unfolding C_letters_def length_map using length_filter_le le_trans by blast
  show "CHR '','' \<notin> set (C_letters pl p)"
    by (auto simp: C_letters_def C_perm_table_def only_if_def)
qed

lemma join_attrs_short: "length (join_attrs (C_attrs pl sf p)) \<le> 31"
  "list_all (\<lambda>c. \<not> is_space c) (join_attrs (C_attrs pl sf p))"
  "join_attrs ws = [] \<longleftrightarrow> ws = []"
  by (auto simp: C_attrs_def join_attrs_def only_if_def is_space_def split: option.splits)

lemma C_text_shape_ok: "cap_top p < 2 ^ 64 \<Longrightarrow> C_letters pl p \<noteq> [] \<Longrightarrow>
  shape_ok (unat (cap_addr p)) (C_letters pl p) (unat (cap_base p)) (cap_top p) (join_attrs (C_attrs pl sf p))"
  using unsigned_less [of "cap_addr p"] unsigned_less [of "cap_base p"]
  by (simp add: shape_ok_def C_letters_short join_attrs_short)

lemma of_nat_cap_top: "cap_top p < 2 ^ 64 \<Longrightarrow> of_nat (cap_top p) = cap_base p + cheri_length_get p"
  by (simp add: cap_top_def cheri_length_get_def min_def)

lemma sscanf_no_letters:
  assumes "reads_as addr a"
  shows "fst (sscanf_C f (shape_of addr [] bottom limit attr)) = 1"
proof -
  have "scan_while 15 (\<lambda>c. c \<noteq> CHR '','') (CHR '','' # r) = None" for r by (simp add: scan_while_def)
  moreover have "scan_lx (addr @ CHR '' '' # r) = Some (of_nat a, CHR '' '' # r)" for r
    using assms by (simp add: reads_as_def not_hex_def)
  ultimately show ?thesis by (simp add: sscanf_C_def shape_of_def scan_lit_def)
qed

lemma C_text_checked:
  assumes "snd (sf_strfcap sf 128 ''%C'' p) = C_text pl sf p" "cap_top p < 2 ^ 64" "n \<in> {4, 5}"
  shows "is_check pl (test_strfcap_C_cap_one pl sf p n descr)
    (C_letters pl p \<noteq> [] \<and> n = (if C_attrs pl sf p = [] then 4 else 5))"
proof (cases "C_letters pl p = []")
  case True
  obtain k f where kf: "sscanf_C (sf_uninit sf) (C_text pl sf p) = (k, f)" by fastforce
  have "reads_as (hex_str (unat (cap_addr p))) (unat (cap_addr p))" using unsigned_less [of "cap_addr p"] by (intro reads_as_hex) simp
  then have "fst (sscanf_C (sf_uninit sf) (C_text pl sf p)) = 1" using True by (simp add: C_text_def C_shape_of sscanf_no_letters)
  then have "k = 1" using kf by simp
  then show ?thesis
    using is_check_C_cap_one [OF assms(3), of sf p k f pl descr] kf assms(1,3) True by (auto simp: is_check_def)
next
  case False
  have "sscanf_C (sf_uninit sf) (snd (sf_strfcap sf 128 ''%C'' p)) =
    (if C_attrs pl sf p = [] then 4 else 5,
     \<lparr>cf_addr = cap_addr p, cf_perms = C_letters pl p, cf_base = cap_base p, cf_top = of_nat (cap_top p),
      cf_attr = (if C_attrs pl sf p = [] then cf_attr (sf_uninit sf) else join_attrs (C_attrs pl sf p))\<rparr>)"
    using sscanf_shape [OF C_text_shape_ok [OF assms(2) False]] assms(1) by (simp add: C_text_def join_attrs_short(3))
  from is_check_C_cap_one [OF assms(3) this, of pl descr] show ?thesis
    using assms(2) False join_attrs_due [of pl sf p] by (cases "C_attrs pl sf p = []") (auto simp: of_nat_cap_top is_check_def)
qed


section \<open>A strfcap that does what its manual says\<close>

text \<open>
  A scalar is printed like a hexadecimal number under \<^verbatim>\<open>printf\<close>: at least \<open>prec\<close> digits, padded to \<open>width\<close> on one side.
\<close>

definition printf_hex :: "bool \<Rightarrow> nat \<Rightarrow> nat \<Rightarrow> nat \<Rightarrow> string" where
  "printf_hex left width prec n =
     (let digits = hex_str n; t = ''0x'' @ replicate (prec - length digits) (CHR ''0'') @ digits;
          pad = replicate (width - length t) (CHR '' '')
      in if left then t @ pad else pad @ t)"

definition scalar_format :: "bool \<Rightarrow> nat \<Rightarrow> nat \<Rightarrow> string" where
  "scalar_format left width prec =
     ''%#'' @ (if left then ''-'' else []) @ (if width = 0 then [] else [hex_char width]) @
     (if prec = 0 then [] else [CHR ''.'', hex_char prec]) @ ''C''"

lemma formats_eval: "''%#C'' = scalar_format False 0 0" "''%#.4C'' = scalar_format False 0 4" "''%#8C'' = scalar_format False 8 0"
  "''%#-8C'' = scalar_format True 8 0" "''%#8.4C'' = scalar_format False 8 4"
  by code_simp+

lemma texts_eval: "''0x4'' = printf_hex False 0 0 4" "''0x0004'' = printf_hex False 0 4 4" "''     0x4'' = printf_hex False 8 0 4"
  "''0x4     '' = printf_hex True 8 0 4" "''  0x0004'' = printf_hex False 8 4 4"
  by code_simp+

locale documented_strfcap =
  fixes pl :: platform and sf :: strf_env
  assumes C_scalar: "width < 10 \<Longrightarrow> prec < 10 \<Longrightarrow>
      sf_strfcap sf 64 (scalar_format left width prec) (scalar_cap pl n) =
        (int (length (printf_hex left width prec (unat n))), printf_hex left width prec (unat n))"
    and C_full: "cap_base p \<noteq> 0 \<Longrightarrow> cap_top p < 2 ^ 64 \<Longrightarrow> sf_strfcap sf 128 ''%C'' p = (int (length (C_text pl sf p)), C_text pl sf p)"
    and as_tagged: "sf_strfcap sf 128 ''%T%C'' p = sf_strfcap sf 128 ''%C'' (p\<lparr>cap_tag := True\<rparr>)"
begin

lemma scalar_case:
  assumes "fmt = scalar_format left w q" "expected = printf_hex left w q 4" "w < 10" "q < 10"
  shows "is_check pl (C_scalar_case pl sf (fmt, expected, m)) True"
proof -
  have "printf_hex left w q 4 \<noteq> []" by (simp add: printf_hex_def Let_def)
  then show ?thesis
    using C_scalar [OF assms(3,4), of left 4] assms(1,2) by (simp add: C_scalar_case_def is_check_def CHERIOSTEST_VERIFY2_def fail_if_def)
qed

lemma scalar_cases: "list_all (\<lambda>c. is_check pl (C_scalar_case pl sf c) True) C_scalar_cases"
  unfolding C_scalar_cases_def list.pred_inject(2)
  by (intro conjI list.pred_inject(1) scalar_case [OF formats_eval(1) texts_eval(1)]
      scalar_case [OF formats_eval(2) texts_eval(2)] scalar_case [OF formats_eval(3) texts_eval(3)]
      scalar_case [OF formats_eval(4) texts_eval(4)] scalar_case [OF formats_eval(5) texts_eval(5)]) simp_all

text \<open>A capability with a printed permission, inside the address space, with the given number of tokens.\<close>

lemma one_cap:
  "cap_base p \<noteq> 0 \<Longrightarrow> cap_top p < 2 ^ 64 \<Longrightarrow> C_letters pl p \<noteq> [] \<Longrightarrow> n = (if C_attrs pl sf p = [] then 4 else 5) \<Longrightarrow>
   test_strfcap_C_cap_one pl sf p n descr = ret ()"
  using C_text_checked [of sf p pl n descr] C_full [of p] by (auto simp: is_check_def)

end

text \<open>What the tests need of the capabilities they print.\<close>

definition prints_as :: "platform \<Rightarrow> strf_env \<Rightarrow> cap \<Rightarrow> int \<Rightarrow> bool" where
  "prints_as pl sf p n \<longleftrightarrow> cap_base p \<noteq> 0 \<and> cap_top p < 2 ^ 64 \<and> C_letters pl p \<noteq> [] \<and> n = (if C_attrs pl sf p = [] then 4 else 5)"

definition printed_caps_ok :: "platform \<Rightarrow> strf_env \<Rightarrow> bool" where
  "printed_caps_ok pl sf \<longleftrightarrow>
     prints_as pl sf (sf_array sf) 4 \<and> (is_purecap pl \<longrightarrow> prints_as pl sf (sf_retaddr sf) 5) \<and>
     (case CHERI_FLAGS_MODES sf of
        None \<Rightarrow> True
      | Some (cap_mode, int_mode) \<Rightarrow>
          (if is_purecap pl then prints_as pl sf (cheri_flags_set pl (sf_pcc sf) int_mode) 4
           else prints_as pl sf (cheri_flags_set pl (sf_pcc sf) cap_mode) 5))"

lemma tag_clear_prints:
  assumes "prints_as pl sf p 4"
  shows "prints_as pl sf (cheri_tag_clear p) 5" "p\<lparr>cap_tag := True\<rparr> = p"
proof -
  have "C_attrs pl sf p = []" using assms by (simp add: prints_as_def split: if_splits)
  then have tag: "cap_tag p" by (simp add: C_attrs_def only_if_def split: if_splits)
  show "prints_as pl sf (cheri_tag_clear p) 5"
    using assms by (simp add: prints_as_def cheri_tag_clear_def C_letters_def C_attrs_def cap_top_def)
  show "p\<lparr>cap_tag := True\<rparr> = p" using tag by simp
qed

context documented_strfcap
begin

lemma prints_ret: "prints_as pl sf p n \<Longrightarrow> test_strfcap_C_cap_one pl sf p n descr = ret ()"
  by (simp add: prints_as_def one_cap)

lemma strfcap_C_body:
  assumes "printed_caps_ok pl sf"
  shows "strfcap_C pl sf = (cheriostest_success_with_warn SIGNATURE_WARN :: ('w, unit) prog)"
proof -
  have scalars: "block (map (C_scalar_case pl sf) C_scalar_cases @ ps) = block ps" for ps :: "('w, unit) prog list"
  proof -
    have "list_all (\<lambda>c. is_check pl (C_scalar_case pl sf c :: ('w, unit) prog) True) cs \<Longrightarrow> block (map (C_scalar_case pl sf) cs @ ps) = block ps" for cs
      by (induction cs) (simp_all add: is_check_def)
    then show ?thesis using scalar_cases by blast
  qed
  have arr: "prints_as pl sf (sf_array sf) 4" "prints_as pl sf (cheri_tag_clear (sf_array sf)) 5"
    using assms tag_clear_prints by (auto simp: printed_caps_ok_def)
  then show ?thesis
    using assms unfolding strfcap_C_def scalars
    by (auto simp: prints_ret printed_caps_ok_def only_if_def split: option.splits)
qed

lemma strfcap_T_body:
  assumes "prints_as pl sf (sf_array sf) 4"
  shows "strfcap_T pl sf = cheriostest_success_with_warn SIGNATURE_WARN"
proof -
  note clear = tag_clear_prints [OF assms]
  have "snd (sf_strfcap sf 128 ''%C'' (sf_array sf)) \<noteq> snd (sf_strfcap sf 128 ''%C'' (cheri_tag_clear (sf_array sf)))"
  proof
    assume "snd (sf_strfcap sf 128 ''%C'' (sf_array sf)) = snd (sf_strfcap sf 128 ''%C'' (cheri_tag_clear (sf_array sf)))"
    then have "C_text pl sf (sf_array sf) = C_text pl sf (cheri_tag_clear (sf_array sf))"
      using assms clear(1) C_full by (simp add: prints_as_def)
    then have "fst (sscanf_C (sf_uninit sf) (C_text pl sf (sf_array sf))) = fst (sscanf_C (sf_uninit sf) (C_text pl sf (cheri_tag_clear (sf_array sf))))"
      by simp
    then show False
      using assms clear(1) sscanf_shape [OF C_text_shape_ok] by (simp add: prints_as_def C_text_def join_attrs_short(3) split: if_splits)
  qed
  moreover have "sf_strfcap sf 128 ''%T%C'' (cheri_tag_clear (sf_array sf)) = sf_strfcap sf 128 ''%C'' (sf_array sf)"
    using as_tagged [of "cheri_tag_clear (sf_array sf)"] clear(2) by (simp add: cheri_tag_clear_def)
  ultimately show ?thesis by (simp add: strfcap_T_def Let_def prog_simps)
qed

end

text \<open>A function that keeps to the manual, for the formats of the tests.\<close>

definition parse_num :: "string \<Rightarrow> nat \<times> string" where
  "parse_num s = (case s of
      c # t \<Rightarrow> (case hex_digit c of Some d \<Rightarrow> if d < 10 then (d, t) else (0, s) | None \<Rightarrow> (0, s))
    | [] \<Rightarrow> (0, s))"

definition parse_format :: "string \<Rightarrow> bool \<times> nat \<times> nat" where
  "parse_format fmt =
     (let s = drop 2 fmt; left = begins_with s ''-''; (w, t) = parse_num (if left then tl s else s)
      in (left, w, if begins_with t ''.'' then fst (parse_num (tl t)) else 0))"

definition manual_strfcap :: "platform \<Rightarrow> (cap \<Rightarrow> string) \<Rightarrow> nat \<Rightarrow> string \<Rightarrow> cap \<Rightarrow> int \<times> string" where
  "manual_strfcap pl full n fmt c =
     (let out = (if fmt = ''%C'' then full c
                 else if fmt = ''%T%C'' then full (c\<lparr>cap_tag := True\<rparr>)
                 else case parse_format fmt of (left, w, q) \<Rightarrow> printf_hex left w q (unat (cap_addr c)))
      in (int (length out), take (n - 1) out))"

lemma hex_char_neq: "d < 10 \<Longrightarrow> hex_char d \<noteq> CHR ''-''" "d < 10 \<Longrightarrow> hex_char d \<noteq> CHR ''.''"
  using hex_digit_char [of d] by (auto simp: hex_digit_def)

lemma parse_num_simps [simp]: "d < 10 \<Longrightarrow> parse_num (hex_char d # t) = (d, t)" "parse_num (CHR ''C'' # t) = (0, CHR ''C'' # t)"
  "parse_num (CHR ''.'' # t) = (0, CHR ''.'' # t)"
proof -
  show "parse_num (hex_char d # t) = (d, t)" if "d < 10" using that by (simp add: parse_num_def hex_digit_char)
  have "hex_digit (CHR ''C'') = Some 12" "hex_digit (CHR ''.'') = None" by (simp_all add: hex_digit_def)
  then show "parse_num (CHR ''C'' # t) = (0, CHR ''C'' # t)" "parse_num (CHR ''.'' # t) = (0, CHR ''.'' # t)"
    by (simp_all add: parse_num_def)
qed

lemma parse_scalar_format:
  assumes "w < 10" "q < 10"
  shows "parse_format (scalar_format left w q) = (left, w, q)"
  using assms hex_char_neq [of w] hex_char_neq [of q]
  by (cases left; cases "w = 0"; cases "q = 0") (simp_all add: parse_format_def scalar_format_def begins_with_def)

lemma hex_str_short: "n < 16 ^ k \<Longrightarrow> 0 < k \<Longrightarrow> length (hex_str n) \<le> k"
proof (induction k arbitrary: n)
  case (Suc k)
  show ?case
  proof (cases "n < 16")
    case False
    then have "0 < k" using Suc.prems by (cases k) auto
    moreover have "n div 16 < 16 ^ k" using Suc.prems(1) by (simp add: less_mult_imp_div_less mult.commute)
    ultimately show ?thesis using Suc.IH [of "n div 16"] False by (subst hex_str.simps) simp
  qed (subst hex_str.simps, simp)
qed simp

lemma hex_str_64: "length (hex_str (unat (a :: uintmax))) \<le> 16" "n < 2 ^ 64 \<Longrightarrow> length (hex_str n) \<le> 16"
  using hex_str_short [of "unat a" 16] hex_str_short [of n 16] unsigned_less [of a] by simp_all

lemma C_text_short: "cap_top p < 2 ^ 64 \<Longrightarrow> length (C_text pl sf p) \<le> 127"
  using hex_str_64(1) [of "cap_addr p"] hex_str_64(1) [of "cap_base p"] hex_str_64(2) [of "cap_top p"]
    C_letters_short(1) [of pl p] join_attrs_short(1) [of pl sf p]
  by (simp add: C_text_def C_shape_def)

lemma length_printf_hex: "length (printf_hex left w q n) = max w (2 + max q (length (hex_str n)))"
  by (auto simp: printf_hex_def Let_def max_def)

lemma manual_scalar:
  assumes "w < 10" "q < 10"
  shows "manual_strfcap pl full 64 (scalar_format left w q) (scalar_cap pl n) =
    (int (length (printf_hex left w q (unat n))), printf_hex left w q (unat n))"
proof -
  have "length (printf_hex left w q (unat n)) \<le> 63" using assms hex_str_64(1) [of n] by (simp add: length_printf_hex)
  moreover have "scalar_format left w q \<noteq> ''%C''" "scalar_format left w q \<noteq> ''%T%C''" by (simp_all add: scalar_format_def)
  ultimately show ?thesis
    by (simp add: manual_strfcap_def scalar_cap_def Let_def parse_scalar_format [OF assms])
qed

interpretation manual: documented_strfcap pl "sf\<lparr>sf_strfcap := manual_strfcap pl (C_text pl sf)\<rparr>" for pl sf
proof
  let ?sf = "sf\<lparr>sf_strfcap := manual_strfcap pl (C_text pl sf)\<rparr>"
  have same: "C_text pl ?sf = C_text pl sf" by (simp add: C_text_def C_attrs_def fun_eq_iff)
  show "sf_strfcap ?sf 64 (scalar_format left width prec) (scalar_cap pl n) =
      (int (length (printf_hex left width prec (unat n))), printf_hex left width prec (unat n))"
    if "width < 10" "prec < 10" for width prec left n using manual_scalar [OF that] by simp
  show "sf_strfcap ?sf 128 ''%C'' p = (int (length (C_text pl ?sf p)), C_text pl ?sf p)"
    if "cap_base p \<noteq> 0" "cap_top p < 2 ^ 64" for p
    using C_text_short [OF that(2), of pl sf] by (simp add: manual_strfcap_def same Let_def)
  show "sf_strfcap ?sf 128 ''%T%C'' p = sf_strfcap ?sf 128 ''%C'' (p\<lparr>cap_tag := True\<rparr>)" for p
    by (simp add: manual_strfcap_def Let_def)
qed

section \<open>The tests of the file\<close>

text \<open>
  With a \<^verbatim>\<open>strfcap\<close> that prints as its manual says, the tests \<^verbatim>\<open>strfcap_C\<close> and \<^verbatim>\<open>strfcap_T\<close> declare success, whatever
  the capabilities are that they meet, as long as each has a permission that is printed and the attributes its role
  implies (none for the array on the stack, some for the return address).
\<close>

theorem strfcap_tests_pass:
  assumes "documented_strfcap pl sf" "printed_caps_ok pl sf" "p_ccsp s \<noteq> None"
  shows "declares_success (strfcap_C pl sf) s \<and> declares_success (strfcap_T pl sf) s"
proof -
  have "prints_as pl sf (sf_array sf) 4" using assms(2) by (simp add: printed_caps_ok_def)
  then show ?thesis
    using assms(3) documented_strfcap.strfcap_C_body [OF assms(1,2)] documented_strfcap.strfcap_T_body [OF assms(1)]
    by (metis declares_success_with_warn)
qed

definition printed_cap :: "uintmax \<Rightarrow> cap" where
  "printed_cap otype = \<lparr>cap_tag = True, cap_addr = 0x1010, cap_base = 0x1000, cap_len = 64, cap_perms = 0x20000 OR 0x8000,
     cap_otype = otype, cap_flags = 0\<rparr>"

definition strf_env_example :: strf_env where
  "strf_env_example = \<lparr>sf_strfcap = (\<lambda>_ _ _. (0, [])), CHERI_FLAGS_MODES = None, sf_bytes = (\<lambda>_. replicate 16 0),
     sf_abort = \<lparr>si_signo = 6, si_code = 0, si_trapno = 0, si_addr = printed_cap 0\<rparr>,
     sf_uninit = \<lparr>cf_addr = 0, cf_perms = [], cf_base = 0, cf_top = 0, cf_attr = []\<rparr>, sf_buffer = replicate 33 NUL,
     sf_array = printed_cap 0, sf_retaddr = printed_cap 1, sf_ddc = printed_cap 0, sf_pcc = printed_cap 0\<rparr>"

theorem strfcap_tests_pass_witness:
  "declares_success (strfcap_C morello_purecap
     (strf_env_example\<lparr>sf_strfcap := manual_strfcap morello_purecap (C_text morello_purecap strf_env_example)\<rparr>))
     (fresh_process morello_purecap ())"
proof -
  let ?sf = "strf_env_example\<lparr>sf_strfcap := manual_strfcap morello_purecap (C_text morello_purecap strf_env_example)\<rparr>"
  have "printed_caps_ok morello_purecap ?sf"
    by (simp add: printed_caps_ok_def prints_as_def strf_env_example_def printed_cap_def cap_top_def C_letters_def C_perm_table_def
        C_attrs_def morello_purecap_def)
  from strfcap_tests_pass [OF manual.documented_strfcap_axioms this, of "fresh_process morello_purecap ()"] show ?thesis by simp
qed


theorem C_cap_one_iff_witness:
  "test_strfcap_C_cap_one morello_purecap (strf_env_example\<lparr>sf_strfcap := \<lambda>_ _ _. (0, ''10 [rx,1000-1040]'')\<rparr>) (printed_cap 0) 4 ''array''
   \<noteq> (ret () :: (unit, unit) prog)"
proof -
  have "''10 [rx,1000-1040]'' = C_shape 0x10 ''rx'' 0x1000 0x1040 []" by code_simp
  moreover have "shape_ok 0x10 ''rx'' 0x1000 0x1040 []" by (simp add: shape_ok_def)
  ultimately show ?thesis
    using C_cap_one_iff [of "0x10" "''rx''" "0x1000" "0x1040" "[]" "strf_env_example\<lparr>sf_strfcap := \<lambda>_ _ _. (0, ''10 [rx,1000-1040]'')\<rparr>" "printed_cap 0" 4 morello_purecap "''array''"]
    by (simp add: printed_cap_def)
qed

text \<open>The text of \<^verbatim>\<open>printf\<close> that a number is compared with, as far as the buffer of 33 bytes has room.\<close>

definition printf_text :: "platform \<Rightarrow> string \<Rightarrow> cap farg list \<Rightarrow> string" where
  "printf_text pl fmt args = take 32 (the (lc_vformat pl fmt args))"

definition format_agrees :: "platform \<Rightarrow> strf_env \<Rightarrow> cap \<Rightarrow> (string \<times> string \<times> string) \<times> char \<Rightarrow> bool" where
  "format_agrees pl sf c = (\<lambda>((sfmt, pfmt, _), sc).
     0 < fst (sf_strfcap sf 33 (put_spec sc sfmt) c) \<and>
     snd (sf_strfcap sf 33 (put_spec sc sfmt) c) = printf_text pl pfmt [FWord (the (spec_value sc c))])"

definition numbers_agree :: "platform \<Rightarrow> strf_env \<Rightarrow> cap \<Rightarrow> bool" where
  "numbers_agree pl sf c \<longleftrightarrow>
     list_all (format_agrees pl sf c) (List.product (number_formats pl) spec_chars) \<and>
     sf_strfcap sf 33 ''%B'' c = (32, printf_text pl B_printf_format (map (\<lambda>b. FInt (uint b)) (sf_bytes sf c)))"

definition formatter_total :: "platform \<Rightarrow> bool" where
  "formatter_total pl \<longleftrightarrow> (\<forall>fmt args. \<exists>t. lc_vformat pl fmt args = Some t \<and> NUL \<notin> set t)"

lemma c_str_printf:
  assumes "formatter_total pl" "length buf = 33"
  shows "c_str (vsnprintf_buf pl buf fmt args) = printf_text pl fmt args"
proof -
  obtain t where "lc_vformat pl fmt args = Some t" "NUL \<notin> set t" using assms(1) by (auto simp: formatter_total_def)
  then show ?thesis using assms(2) c_str_snprintf_buf [of buf t] by (cases buf) (auto simp: vsnprintf_buf_def printf_text_def)
qed

lemma spec_chars_known: "sc \<in> set spec_chars \<Longrightarrow> spec_value sc c \<noteq> None \<and> sc \<noteq> CHR ''S''"
  by (auto simp: spec_chars_def spec_value_def)

lemma number_cases_run:
  assumes "formatter_total pl" "length buf = 33" "snd ` set xs \<subseteq> set spec_chars"
  shows "(list_all (format_agrees pl sf c) xs \<longrightarrow> (\<exists>buf'. length buf' = 33 \<and> number_cases pl sf c d xs buf = (ret buf' :: ('w, char list) prog))) \<and>
    (\<not> list_all (format_agrees pl sf c) xs \<longrightarrow> (\<exists>m ap. number_cases pl sf c d xs buf = (cheriostest_failure_errx pl m ap :: ('w, char list) prog)))"
  using assms(2,3)
proof (induction xs arbitrary: buf)
  case (Cons x xs)
  obtain sfmt pfmt de sc where x: "x = ((sfmt, pfmt, de), sc)" by (metis prod.exhaust)
  have sc: "sc \<in> set spec_chars" using Cons.prems(2) x by simp
  let ?buf = "vsnprintf_buf pl buf pfmt [FWord (the (spec_value sc c))]"
  have "reference_output pl sc (the (spec_value sc c)) pfmt buf = ?buf"
    using spec_chars_known [OF sc] by (simp add: reference_output_def)
  moreover obtain n where "spec_value sc c = Some n" using spec_chars_known [OF sc, of c] by auto
  ultimately have "number_case pl sf c d x buf =
      (if \<not> 0 < fst (sf_strfcap sf 33 (put_spec sc sfmt) c)
       then cheriostest_failure_errx pl ''strfcap() failed with %s'' [FStr (put_spec sc sfmt)]
       else bindP (fail_if pl (snd (sf_strfcap sf 33 (put_spec sc sfmt) c) \<noteq> printf_text pl pfmt [FWord (the (spec_value sc c))])
         (''strfcap (%s) and printf (%s) don'' @ [CHR 0x27] @ ''t match when formatting %s with %s (%s)'')
         [FStr (snd (sf_strfcap sf 33 (put_spec sc sfmt) c)), FStr (c_str ?buf), FStr d, FStr de, FStr (put_spec sc sfmt)]) (\<lambda>_. ret ?buf :: ('w, char list) prog))"
    using c_str_printf [OF assms(1) Cons.prems(1), of pfmt "[FWord (the (spec_value sc c))]"]
    by (simp add: number_case_def x Let_def bindP_VERIFY2 split: prod.splits)
  then have head: "number_case pl sf c d x buf = (if format_agrees pl sf c x then (ret ?buf :: ('w, char list) prog) else
      (if \<not> 0 < fst (sf_strfcap sf 33 (put_spec sc sfmt) c)
       then cheriostest_failure_errx pl ''strfcap() failed with %s'' [FStr (put_spec sc sfmt)]
       else cheriostest_failure_errx pl (''strfcap (%s) and printf (%s) don'' @ [CHR 0x27] @ ''t match when formatting %s with %s (%s)'')
         [FStr (snd (sf_strfcap sf 33 (put_spec sc sfmt) c)), FStr (c_str ?buf), FStr d, FStr de, FStr (put_spec sc sfmt)]))"
    by (auto simp: format_agrees_def x bindP_fail_if)
  show ?case using Cons.IH [of ?buf] Cons.prems head by (cases "format_agrees pl sf c x") auto
qed auto

lemma is_check_number_one:
  assumes "formatter_total pl" "length (sf_buffer sf) = 33"
  shows "is_check pl (test_strfcap_number_one_cap pl sf c d :: ('w, unit) prog) (numbers_agree pl sf c)"
proof (cases "list_all (format_agrees pl sf c) (List.product (number_formats pl) spec_chars)")
  case True
  have "snd ` set (List.product (number_formats pl) spec_chars) \<subseteq> set spec_chars" unfolding set_product by auto
  then obtain buf where buf: "length buf = 33"
    "number_cases pl sf c d (List.product (number_formats pl) spec_chars) (sf_buffer sf) = (ret buf :: ('w, char list) prog)"
    using number_cases_run [OF assms, of "List.product (number_formats pl) spec_chars" sf c d] True by blast
  then show ?thesis
    using c_str_printf [OF assms(1) buf(1)] True
    by (auto simp: test_strfcap_number_one_cap_def numbers_agree_def is_check_def fail_if_def Let_def split: prod.splits)
next
  case False
  have "snd ` set (List.product (number_formats pl) spec_chars) \<subseteq> set spec_chars" unfolding set_product by auto
  then obtain m ap where
    "number_cases pl sf c d (List.product (number_formats pl) spec_chars) (sf_buffer sf) = (cheriostest_failure_errx pl m ap :: ('w, char list) prog)"
    using number_cases_run [OF assms, of "List.product (number_formats pl) spec_chars" sf c d] False by blast
  then show ?thesis using False by (auto simp: test_strfcap_number_one_cap_def numbers_agree_def is_check_def)
qed

text \<open>
  \<^verbatim>\<open>strfcap_numbers\<close> declares success exactly when, for each of its five capabilities, all formats and all eight
  specifiers, \<^verbatim>\<open>strfcap\<close> succeeds and agrees with \<^verbatim>\<open>printf\<close> on the first 32 characters, and the raw bytes come out as 32
  hexadecimal digits. No specifier is unknown to the switch, and the specifier \<^verbatim>\<open>S\<close> is never used.
\<close>

theorem strfcap_numbers_iff:
  assumes "formatter_total pl" "length (sf_buffer sf) = 33"
  shows "declares_success (strfcap_numbers pl sf) s \<longleftrightarrow> p_ccsp s \<noteq> None \<and>
    list_all (numbers_agree pl sf) [scalar_cap pl 4, sf_array sf, cheri_tag_clear (sf_array sf), sf_ddc sf, sf_pcc sf]"
  by (auto simp: strfcap_numbers_def is_check_success [OF is_check_number_one [OF assms]] declares_success_with_warn)

definition dull_platform :: platform where
  "dull_platform = morello_purecap\<lparr>lc_vformat := \<lambda>_ _. Some (replicate 32 (CHR ''0''))\<rparr>"

theorem strfcap_numbers_iff_witness:
  "declares_success (strfcap_numbers dull_platform (strf_env_example\<lparr>sf_strfcap := \<lambda>_ _ _. (32, replicate 32 (CHR ''0''))\<rparr>))
     (fresh_process dull_platform ())"
proof -
  let ?sf = "strf_env_example\<lparr>sf_strfcap := \<lambda>_ _ _. (32, replicate 32 (CHR ''0''))\<rparr>"
  have "formatter_total dull_platform" by (simp add: formatter_total_def dull_platform_def)
  moreover have "numbers_agree dull_platform ?sf c" for c
    by (simp add: numbers_agree_def format_agrees_def printf_text_def dull_platform_def list_all_iff split: prod.splits)
  moreover have "length (sf_buffer ?sf) = 33" by (simp add: strf_env_example_def)
  ultimately show ?thesis using strfcap_numbers_iff [of dull_platform ?sf "fresh_process dull_platform ()"] by simp
qed

end
