(* ===== verification/Vm_System.thy ===== *)
theory Vm_System
  imports Checks Instances
begin

text \<open>
  What the tests of \<^verbatim>\<open>cheriostest_vm.c\<close> use of the kernel, as a record of system calls on an abstract state of the
  kernel and of memory, and the helper functions at the head of that file: names of shared memory objects, temporary
  files, the length that needs padding, page sizes.
\<close>

section \<open>System calls\<close>

text \<open>Protections and mapping flags are sets of bits; here they are lists of the bits that are set.\<close>

datatype prot = PROT_READ | PROT_WRITE | PROT_EXEC | PROT_CAP | PROT_NO_CAP | PROT_MAX "prot list"

datatype mapflag = MAP_ANON | MAP_PRIVATE | MAP_SHARED | MAP_FIXED | MAP_GUARD | MAP_PREFAULT_READ | MAP_POPULATE |
  MAP_ALIGNED nat | MAP_HUGETLB nat | MAP_STACK

record mmap_args =
  ma_addr :: cap
  ma_len :: nat
  ma_prot :: "prot list"
  ma_flags :: "mapflag list"
  ma_fd :: int

text \<open>A system call gives an error number or a value, and the next state.\<close>

type_synonym ('k, 'a) sys = "'k \<Rightarrow> (int + 'a) \<times> 'k"

text \<open>
  The kernel; \<open>None\<close> as a name of \<^verbatim>\<open>shm_open\<close> is \<^verbatim>\<open>SHM_ANON\<close>. Loading and storing a capability through a pointer may raise a
  signal. \<^verbatim>\<open>read\<close> and \<^verbatim>\<open>write\<close> are those of one capability; \<open>k_local\<close> is the capability to a local variable of the test.
\<close>

record 'k vmk =
  k_random :: "'k \<Rightarrow> nat \<times> 'k"
  k_shm_open :: "string option \<Rightarrow> bool \<Rightarrow> ('k, int) sys" \<comment> \<open>with \<^verbatim>\<open>O_CREAT | O_EXCL\<close> or without\<close>
  k_shm_unlink :: "string \<Rightarrow> ('k, unit) sys"
  k_memfd_create :: "string \<Rightarrow> ('k, int) sys"
  k_open :: "string \<Rightarrow> ('k, int) sys"
  k_mkstemp :: "string \<Rightarrow> ('k, int \<times> string) sys" \<comment> \<open>descriptor and the name made from the template\<close>
  k_unlink :: "string \<Rightarrow> ('k, unit) sys"
  k_ftruncate :: "int \<Rightarrow> nat \<Rightarrow> ('k, unit) sys"
  k_mmap :: "mmap_args \<Rightarrow> ('k, cap) sys"
  k_munmap :: "cap \<Rightarrow> nat \<Rightarrow> ('k, unit) sys"
  k_mprotect :: "cap \<Rightarrow> nat \<Rightarrow> prot list \<Rightarrow> ('k, unit) sys"
  k_close :: "int \<Rightarrow> ('k, unit) sys"
  k_store :: "cap \<Rightarrow> cap \<Rightarrow> 'k \<Rightarrow> siginfo option \<times> 'k"
  k_load :: "cap \<Rightarrow> 'k \<Rightarrow> (siginfo + cap) \<times> 'k"
  k_touch :: "cap \<Rightarrow> 'k \<Rightarrow> siginfo option \<times> 'k" \<comment> \<open>loading an \<^verbatim>\<open>int\<close>\<close>
  k_read :: "int \<Rightarrow> ('k, nat \<times> cap) sys"
  k_write :: "int \<Rightarrow> cap \<Rightarrow> ('k, nat) sys"
  k_pagesize :: nat
  k_PROT_CAP :: bool \<comment> \<open>\<^verbatim>\<open>PROT_CAP\<close> is defined\<close>
  k_PROT_NO_CAP :: bool
  k_local :: cap
  EINVAL :: int
  ENOMEM :: int
  EACCES :: int
  ENOTSUP :: int
  EPROT :: int

text \<open>
  \<^verbatim>\<open>CHERIOSTEST_CHECK_SYSCALL\<close> on a call of any type: the value, or the end of the test with the text of the call and
  \<^verbatim>\<open>errno\<close>. A call that is not checked gives \<open>None\<close> for \<^verbatim>\<open>-1\<close> or \<^verbatim>\<open>MAP_FAILED\<close> and leaves \<^verbatim>\<open>errno\<close> set.
\<close>

definition CHERIOSTEST_CHECK_SYSCALL :: "platform \<Rightarrow> ('k, 'a) sys \<Rightarrow> string \<Rightarrow> ('k, 'a) prog" where
  "CHERIOSTEST_CHECK_SYSCALL pl call call_text = (\<lambda>s.
     case call (p_world s) of
       (Inl e, w) \<Rightarrow> cheriostest_failure_err pl (''Call '' @ [CHR 0x27] @ call_text @ [CHR 0x27] @ '' failed'') []
                      (s\<lparr>p_errno := e, p_world := w\<rparr>)
     | (Inr x, w) \<Rightarrow> (Return x, s\<lparr>p_world := w\<rparr>))"

definition raw_call :: "('k, 'a) sys \<Rightarrow> ('k, 'a option) prog" where
  "raw_call call = (\<lambda>s.
     case call (p_world s) of
       (Inl e, w) \<Rightarrow> (Return None, s\<lparr>p_errno := e, p_world := w\<rparr>)
     | (Inr x, w) \<Rightarrow> (Return (Some x), s\<lparr>p_world := w\<rparr>))"

definition get_errno :: "('k, int) prog" where
  "get_errno = (\<lambda>s. (Return (p_errno s), s))"

definition store_cap :: "'k vmk \<Rightarrow> cap \<Rightarrow> cap \<Rightarrow> ('k, unit) prog" where
  "store_cap k p c = (\<lambda>s.
     case k_store k p c (p_world s) of
       (Some i, w) \<Rightarrow> (Trapped i, s\<lparr>p_world := w\<rparr>)
     | (None, w) \<Rightarrow> (Return (), s\<lparr>p_world := w\<rparr>))"

definition load_cap :: "'k vmk \<Rightarrow> cap \<Rightarrow> ('k, cap) prog" where
  "load_cap k p = (\<lambda>s.
     case k_load k p (p_world s) of
       (Inl i, w) \<Rightarrow> (Trapped i, s\<lparr>p_world := w\<rparr>)
     | (Inr c, w) \<Rightarrow> (Return c, s\<lparr>p_world := w\<rparr>))"

section \<open>Names of shared memory objects\<close>

text \<open>\<^verbatim>\<open>sizeof(charset)\<close> is the size of a pointer, so the index is below 15 or 7.\<close>

definition charset :: string where "charset = ''abcdefghijklmnopqrstuvwxyz0123456789''"

definition pointer_size :: "platform \<Rightarrow> nat" where
  "pointer_size pl = (if is_purecap pl then 16 else 8)"

fun fill_name :: "platform \<Rightarrow> 'k vmk \<Rightarrow> nat list \<Rightarrow> char list \<Rightarrow> 'k \<Rightarrow> char list \<times> 'k" where
  "fill_name pl k [] buf w = (buf, w)"
| "fill_name pl k (i # is) buf w =
     (let (r, w') = k_random k w in fill_name pl k is (buf[i := charset ! (r mod (pointer_size pl - 1))]) w')"

definition strcpy_at0 :: "string \<Rightarrow> char list \<Rightarrow> char list" where
  "strcpy_at0 s buf = s @ [NUL] @ drop (length s + 1) buf"

definition gen_shm_obj_name :: "platform \<Rightarrow> 'k vmk \<Rightarrow> nat \<Rightarrow> ('k, char list) prog" where
  "gen_shm_obj_name pl k len =
     bindP (CHERIOSTEST_VERIFY2 pl (len \<ge> 32) ''Buffer for shm object name too small'' []) (\<lambda>_ s.
       let (buf, w) = fill_name pl k [18..<len - 1] (strcpy_at0 ''/cheriostest_shm-'' (replicate len NUL)) (p_world s)
       in (Return (buf[len - 1 := NUL]), s\<lparr>p_world := w\<rparr>))"

text \<open>The loop of \<^verbatim>\<open>create_named_shm_obj\<close>; the number counts down from 10 to the value at which \<^verbatim>\<open>attempts == 10\<close> holds.\<close>

definition no_shm_object :: string where
  "no_shm_object = ''Couldn'' @ [CHR 0x27] @ ''t create shared memory object''"

fun create_attempts :: "platform \<Rightarrow> 'k vmk \<Rightarrow> nat \<Rightarrow> nat \<Rightarrow> ('k, char list \<times> int) prog" where
  "create_attempts pl k len 0 = (\<lambda>s. (Undefined, s))"
| "create_attempts pl k len (Suc left) =
     bindP (gen_shm_obj_name pl k len) (\<lambda>name.
     bindP (raw_call (k_shm_open k (Some (c_str name)) True)) (\<lambda>fd.
     (if left = 0 then cheriostest_failure_errx pl no_shm_object [] else case fd of Some fd \<Rightarrow> ret (name, fd) | None \<Rightarrow> create_attempts pl k len left)))"

definition create_named_shm_obj :: "platform \<Rightarrow> 'k vmk \<Rightarrow> nat \<Rightarrow> ('k, char list \<times> int) prog" where
  "create_named_shm_obj pl k len = create_attempts pl k len 10"

section \<open>Temporary files\<close>

text \<open>
  \<^verbatim>\<open>skip_need_writable_tmp\<close> with its two static variables, \<^verbatim>\<open>checked\<close> and \<^verbatim>\<open>reason\<close>. The results of \<^verbatim>\<open>close\<close> and \<^verbatim>\<open>unlink\<close> are
  not looked at.
\<close>

definition skip_need_writable_tmp :: "'k vmk \<Rightarrow> bool \<times> string option \<Rightarrow> 'k \<Rightarrow> string option \<times> (bool \<times> string option) \<times> 'k" where
  "skip_need_writable_tmp k = (\<lambda>(checked, reason) w.
     if checked then (reason, (checked, reason), w)
     else case k_mkstemp k ''/tmp/cheriostest.XXXXXXXX'' w of
       (Inr (fd, name), w) \<Rightarrow>
         (let (_, w) = k_close k fd w; (_, w) = k_unlink k name w in (None, (True, reason), w))
     | (Inl e, w) \<Rightarrow> (Some ''/tmp is not writable'', (True, Some ''/tmp is not writable''), w))"

definition create_tempfile :: "platform \<Rightarrow> 'k vmk \<Rightarrow> ('k, int) prog" where
  "create_tempfile pl k =
     bindP (CHERIOSTEST_CHECK_SYSCALL pl (k_mkstemp k ''/tmp/cheribsdtest.XXXXXXXX'') ''mkstemp'') (\<lambda>(fd, template).
     bindP (CHERIOSTEST_CHECK_SYSCALL pl (k_unlink k template) ''unlink(template)'') (\<lambda>_.
     bindP (CHERIOSTEST_CHECK_SYSCALL pl (k_ftruncate k fd (k_pagesize k)) ''ftruncate(fd, getpagesize())'') (\<lambda>_. ret fd)))"

section \<open>A length that needs padding\<close>

definition round_page :: "nat \<Rightarrow> uintmax \<Rightarrow> uintmax" where
  "round_page page x = align_up x (of_nat page)"

text \<open>
  \<^verbatim>\<open>get_unrepresentable_length\<close>: \<^verbatim>\<open>1 << n\<close> is an \<^verbatim>\<open>int\<close>, so the shift has no meaning from 31 on; \<open>None\<close> stands for that.
  The first argument is the number of shifts that are left.
\<close>

definition padded_len :: "platform \<Rightarrow> nat \<Rightarrow> nat \<Rightarrow> bool" where
  "padded_len pl page_shift shift \<longleftrightarrow>
     (let r = round_page (2 ^ page_shift) (2 ^ (page_shift + shift) + 1) in r \<noteq> cheri_representable_length pl r)"

fun unrepresentable_from :: "platform \<Rightarrow> nat \<Rightarrow> nat \<Rightarrow> nat \<Rightarrow> uintmax option" where
  "unrepresentable_from pl page_shift 0 shift = None"
| "unrepresentable_from pl page_shift (Suc left) shift =
     (if padded_len pl page_shift shift then Some (2 ^ (page_shift + shift) + 1)
      else unrepresentable_from pl page_shift left (shift + 1))"

definition get_unrepresentable_length :: "platform \<Rightarrow> nat \<Rightarrow> uintmax option" where
  "get_unrepresentable_length pl page_shift = unrepresentable_from pl page_shift (31 - page_shift) 0"

section \<open>Page sizes on Linux\<close>

text \<open>\<^verbatim>\<open>sscanf(name, "hugepages-%lukB", &kb) == 1\<close>: the prefix and at least one digit.\<close>

definition dec_digit :: "char \<Rightarrow> nat option" where
  "dec_digit c = (let n = of_char c :: nat in if 48 \<le> n \<and> n \<le> 57 then Some (n - 48) else None)"

fun dec_value :: "nat \<Rightarrow> string \<Rightarrow> nat" where
  "dec_value acc [] = acc"
| "dec_value acc (c # cs) = dec_value (acc * 10 + (case dec_digit c of None \<Rightarrow> 0 | Some d \<Rightarrow> d)) cs"

definition scan_hugepages :: "string \<Rightarrow> uintmax option" where
  "scan_hugepages name =
     (let digits = takeWhile (\<lambda>c. dec_digit c \<noteq> None) (drop 10 name)
      in if begins_with name ''hugepages-'' \<and> digits \<noteq> [] then Some (of_nat (min (2 ^ 64 - 1) (dec_value 0 digits))) else None)"

definition max_size :: nat where "max_size = 512"

text \<open>
  \<^verbatim>\<open>get_pagesizes\<close> over the entries of the directory: the sizes stored so far, in an array of \<^verbatim>\<open>max_size\<close> elements. Storing
  past its end has no meaning.
\<close>

fun read_pagesizes :: "platform \<Rightarrow> string list \<Rightarrow> uintmax list \<Rightarrow> ('k, uintmax list) prog" where
  "read_pagesizes pl [] sizes = ret sizes"
| "read_pagesizes pl (name # names) sizes =
     (case scan_hugepages name of
        None \<Rightarrow> read_pagesizes pl names sizes
      | Some kb \<Rightarrow>
          bindP (CHERIOSTEST_VERIFY2 pl (length sizes \<le> max_size) ''Maximum number of hugepage sizes exceeded.'' []) (\<lambda>_.
          (if length sizes < max_size then read_pagesizes pl names (sizes @ [kb * 1024]) else (\<lambda>s. (Undefined, s)))))"

definition get_pagesizes :: "platform \<Rightarrow> string list \<Rightarrow> ('k, uintmax list) prog" where
  "get_pagesizes pl names = read_pagesizes pl names []"

text \<open>
  \<^verbatim>\<open>check_hugepages_pool\<close>: \<open>pool\<close> gives for a size in kilobytes the number read from \<^verbatim>\<open>nr_hugepages\<close>; the outer \<open>None\<close> is a file
  that cannot be opened, the inner one text that is not a number.
\<close>

fun check_hugepages_pool :: "platform \<Rightarrow> (uintmax \<Rightarrow> nat option option) \<Rightarrow> uintmax list \<Rightarrow> ('k, unit) prog" where
  "check_hugepages_pool pl pool [] = ret ()"
| "check_hugepages_pool pl pool (sz # sizes) =
     (let kb = sz div 1024 in block
       [CHERIOSTEST_VERIFY2 pl (pool kb \<noteq> None) (''Couldn'' @ [CHR 0x27] @ ''t open nr_hugepages'') [],
        CHERIOSTEST_VERIFY2 pl (the (pool kb) \<noteq> None) (''Couldn'' @ [CHR 0x27] @ ''t read page count in hugepages pool'') [],
        CHERIOSTEST_VERIFY2 pl (the (the (pool kb)) \<noteq> 0) ''No pages in the hugepages pool for size %zukB'' [FWord kb],
        check_hugepages_pool pl pool sizes])"

section \<open>Execution\<close>

lemma bind_syscall_ok [prog_simps]:
  "call (p_world s) = (Inr x, w) \<Longrightarrow> bindP (CHERIOSTEST_CHECK_SYSCALL pl call t) f s = f x (s\<lparr>p_world := w\<rparr>)"
  by (simp add: bindP_def CHERIOSTEST_CHECK_SYSCALL_def)

lemma bind_raw_call:
  "bindP (raw_call call) f s = (case call (p_world s) of
     (Inl e, w) \<Rightarrow> f None (s\<lparr>p_errno := e, p_world := w\<rparr>) | (Inr x, w) \<Rightarrow> f (Some x) (s\<lparr>p_world := w\<rparr>))"
  by (simp add: bindP_def raw_call_def split: prod.splits sum.splits)

section \<open>Names: always the same one\<close>

lemma fill_name_keeps:
  "fill_name pl k is buf w = (buf', w') \<Longrightarrow> \<forall>i \<in> set is. n \<le> i \<Longrightarrow> length buf' = length buf \<and> take n buf' = take n buf"
proof (induction pl k "is" buf w rule: fill_name.induct)
  case (2 pl k i "is" buf w)
  then show ?case by (cases "k_random k w") auto
qed simp

lemma fill_name_world:
  "(\<And>v. P v \<Longrightarrow> P (snd (k_random k v))) \<Longrightarrow> P w \<Longrightarrow> P (snd (fill_name pl k is buf w))"
proof (induction pl k "is" buf w rule: fill_name.induct)
  case (2 pl k i "is" buf w)
  then show ?case by (cases "k_random k w") (metis fill_name.simps(2) prod.case snd_conv)
qed simp

lemma gen_shm_obj_name_run:
  assumes "32 \<le> len"
  obtains buf w where "gen_shm_obj_name pl k len s = (Return buf, s\<lparr>p_world := w\<rparr>)"
    "c_str buf = ''/cheriostest_shm-''" "\<And>P. (\<And>v. P v \<Longrightarrow> P (snd (k_random k v))) \<Longrightarrow> P (p_world s) \<Longrightarrow> P w"
proof -
  let ?b0 = "strcpy_at0 ''/cheriostest_shm-'' (replicate len NUL)"
  obtain buf w where f: "fill_name pl k [18..<len - 1] ?b0 (p_world s) = (buf, w)" by fastforce
  have b: "length buf = len" "take 18 buf = take 18 ?b0"
    using fill_name_keeps [OF f, of 18] assms by (auto simp: strcpy_at0_def)
  have "take 18 (buf[len - 1 := NUL]) = ''/cheriostest_shm-'' @ [NUL]"
    using b assms by (subst take_update_cancel) (simp_all add: strcpy_at0_def)
  then have "buf[len - 1 := NUL] = (''/cheriostest_shm-'' @ [NUL]) @ drop 18 (buf[len - 1 := NUL])"
    by (metis append_take_drop_id)
  then have name: "c_str (buf[len - 1 := NUL]) = ''/cheriostest_shm-''"
    using c_str_append [of "''/cheriostest_shm-''" "NUL # drop 18 (buf[len - 1 := NUL])"] by simp
  show thesis
  proof (rule that [OF _ name])
    show "gen_shm_obj_name pl k len s = (Return (buf[len - 1 := NUL]), s\<lparr>p_world := w\<rparr>)"
      using assms f by (simp add: gen_shm_obj_name_def CHERIOSTEST_VERIFY2_def)
    show "P w" if "\<And>v. P v \<Longrightarrow> P (snd (k_random k v))" "P (p_world s)" for P
      using fill_name_world [of P k "p_world s" pl "[18..<len - 1]" ?b0] that f by simp
  qed
qed

lemma create_attempts_step:
  assumes "32 \<le> len"
  obtains buf w r t where "c_str buf = ''/cheriostest_shm-''" "k_shm_open k (Some ''/cheriostest_shm-'') True w = (r, p_world t)"
    "\<forall>P. (\<forall>v. P v \<longrightarrow> P (snd (k_random k v))) \<longrightarrow> P (p_world s) \<longrightarrow> P w" "p_ccsp t = p_ccsp s"
    "create_attempts pl k len (Suc left) s =
      (if left = 0 then cheriostest_failure_errx pl no_shm_object [] t
       else case r of Inr fd \<Rightarrow> (Return (buf, fd), t) | Inl _ \<Rightarrow> create_attempts pl k len left t)"
proof -
  obtain buf w where g: "gen_shm_obj_name pl k len s = (Return buf, s\<lparr>p_world := w\<rparr>)"
    "c_str buf = ''/cheriostest_shm-''" "\<forall>P. (\<forall>v. P v \<longrightarrow> P (snd (k_random k v))) \<longrightarrow> P (p_world s) \<longrightarrow> P w"
    by (rule gen_shm_obj_name_run [OF assms, of pl k s]) (rule that, assumption+, blast)
  obtain r v where r: "k_shm_open k (Some ''/cheriostest_shm-'') True w = (r, v)" by fastforce
  let ?t = "case r of Inl e \<Rightarrow> s\<lparr>p_errno := e, p_world := v\<rparr> | Inr _ \<Rightarrow> s\<lparr>p_world := v\<rparr>"
  have "create_attempts pl k len (Suc left) s = (if left = 0 then cheriostest_failure_errx pl no_shm_object [] ?t
       else case r of Inr fd \<Rightarrow> (Return (buf, fd), ?t) | Inl _ \<Rightarrow> create_attempts pl k len left ?t)"
    using g(1,2) r by (cases r) (auto simp: bindP_def raw_call_def ret_def cheriostest_failure_errx_def)
  moreover have "p_world ?t = v" "p_ccsp ?t = p_ccsp s" by (cases r; simp)+
  ultimately show thesis using that [OF g(2) _ g(3), of r ?t] r by simp
qed

text \<open>
  C20: \<^verbatim>\<open>create_named_shm_obj\<close> always comes to an end: it returns or declares failure, whatever the kernel does, and
  every name it returns is \<^verbatim>\<open>/cheriostest_shm-\<close>, whatever \<^verbatim>\<open>random\<close> gives: the random part is written behind a NUL.
\<close>

theorem create_named_shm_obj_ends:
  assumes "32 \<le> len"
  shows "case create_named_shm_obj pl k len s of
      (Return (name, fd), t) \<Rightarrow> c_str name = ''/cheriostest_shm-''
    | (out, t) \<Rightarrow> out = Exited EX_SOFTWARE"
proof -
  have "case create_attempts pl k len (Suc n) s of
      (Return (name, fd), t) \<Rightarrow> c_str name = ''/cheriostest_shm-'' | (out, t) \<Rightarrow> out = Exited EX_SOFTWARE" for n
  proof (induction n arbitrary: s)
    case 0
    obtain t where "create_attempts pl k len (Suc 0) s = cheriostest_failure_errx pl no_shm_object [] t"
      using create_attempts_step [OF assms, of k s pl 0] by (metis (full_types))
    then show ?case by (simp add: cheriostest_failure_errx_def)
  next
    case (Suc n)
    obtain buf w r t where step: "c_str buf = ''/cheriostest_shm-''" "k_shm_open k (Some ''/cheriostest_shm-'') True w = (r, p_world t)"
      "\<forall>P. (\<forall>v. P v \<longrightarrow> P (snd (k_random k v))) \<longrightarrow> P (p_world s) \<longrightarrow> P w" "p_ccsp t = p_ccsp s"
      "create_attempts pl k len (Suc (Suc n)) s =
        (if Suc n = 0 then cheriostest_failure_errx pl no_shm_object [] t
         else case r of Inr fd \<Rightarrow> (Return (buf, fd), t) | Inl _ \<Rightarrow> create_attempts pl k len (Suc n) t)"
      by (rule create_attempts_step [OF assms, of k s pl "Suc n"])
    show ?case unfolding step(5) using step(1) Suc [of t] by (cases r) (simp_all del: create_attempts.simps)
  qed
  from this [of 9] show ?thesis by (simp add: create_named_shm_obj_def numeral_eq_Suc)
qed

text \<open>
  Trying again does not help: under a kernel that refuses to create an object under a name that is taken, a test
  that meets an object called \<^verbatim>\<open>/cheriostest_shm-\<close> fails, whatever \<^verbatim>\<open>random\<close> gives.
\<close>

theorem create_named_shm_obj_collides:
  assumes "32 \<le> len" "taken (p_world s)" "p_ccsp s \<noteq> None" "\<And>v. taken v \<Longrightarrow> taken (snd (k_random k v))"
    and "\<And>v. taken v \<Longrightarrow> \<exists>e v'. k_shm_open k (Some ''/cheriostest_shm-'') True v = (Inl e, v') \<and> taken v'"
  shows "declares_failure (create_named_shm_obj pl k len) s"
proof -
  have "declares_failure (create_attempts pl k len (Suc n)) s" for n
    using assms(2,3)
  proof (induction n arbitrary: s)
    case 0
    obtain t where "create_attempts pl k len (Suc 0) s = cheriostest_failure_errx pl no_shm_object [] t" "p_ccsp t = p_ccsp s"
      using create_attempts_step [OF assms(1), of k s pl 0] by (metis (full_types))
    then show ?case using 0(2) declares_failure_errx [of pl no_shm_object "[]" t] by (simp add: declares_failure_def)
  next
    case (Suc n)
    obtain buf w r t where step: "c_str buf = ''/cheriostest_shm-''" "k_shm_open k (Some ''/cheriostest_shm-'') True w = (r, p_world t)"
      "\<forall>P. (\<forall>v. P v \<longrightarrow> P (snd (k_random k v))) \<longrightarrow> P (p_world s) \<longrightarrow> P w" "p_ccsp t = p_ccsp s"
      "create_attempts pl k len (Suc (Suc n)) s =
        (if Suc n = 0 then cheriostest_failure_errx pl no_shm_object [] t
         else case r of Inr fd \<Rightarrow> (Return (buf, fd), t) | Inl _ \<Rightarrow> create_attempts pl k len (Suc n) t)"
      by (rule create_attempts_step [OF assms(1), of k s pl "Suc n"])
    have "taken w" using step(3) assms(4) Suc.prems(1) by blast
    then obtain e where "r = Inl e" "taken (p_world t)" using assms(5) step(2) by fastforce
    then show ?case
      using Suc.IH [of t] Suc.prems(2) step(4) unfolding declares_failure_def step(5) by (simp del: create_attempts.simps)
  qed
  from this [of 9] show ?thesis by (simp add: create_named_shm_obj_def numeral_eq_Suc)
qed

text \<open>A kernel that refuses every call.\<close>

definition refusing_kernel :: "unit vmk" where
  "refusing_kernel = \<lparr>k_random = (\<lambda>w. (7, w)), k_shm_open = (\<lambda>_ _ w. (Inl 17, w)), k_shm_unlink = (\<lambda>_ w. (Inl 2, w)),
     k_memfd_create = (\<lambda>_ w. (Inl 24, w)), k_open = (\<lambda>_ w. (Inl 2, w)), k_mkstemp = (\<lambda>_ w. (Inl 13, w)), k_unlink = (\<lambda>_ w. (Inl 2, w)),
     k_ftruncate = (\<lambda>_ _ w. (Inl 22, w)), k_mmap = (\<lambda>_ w. (Inl 22, w)), k_munmap = (\<lambda>_ _ w. (Inl 22, w)),
     k_mprotect = (\<lambda>_ _ _ w. (Inl 22, w)), k_close = (\<lambda>_ w. (Inl 9, w)), k_store = (\<lambda>_ _ w. (None, w)),
     k_load = (\<lambda>_ w. (Inr (cap_null morello_purecap), w)), k_touch = (\<lambda>_ w. (None, w)), k_read = (\<lambda>_ w. (Inl 9, w)), k_write = (\<lambda>_ _ w. (Inl 9, w)),
     k_pagesize = 4096, k_PROT_CAP = True, k_PROT_NO_CAP = True, k_local = cap_null morello_purecap,
     EINVAL = 22, ENOMEM = 12, EACCES = 13, ENOTSUP = 45, EPROT = 35\<rparr>"

theorem create_named_shm_obj_ends_witness:
  "case create_named_shm_obj morello_purecap refusing_kernel 32 (fresh_process morello_purecap ()) of
      (Return (name, fd), t) \<Rightarrow> c_str name = ''/cheriostest_shm-''
    | (out, t) \<Rightarrow> out = Exited EX_SOFTWARE"
  by (rule create_named_shm_obj_ends) simp

theorem create_named_shm_obj_collides_witness:
  "declares_failure (create_named_shm_obj morello_purecap refusing_kernel 32) (fresh_process morello_purecap ())"
  by (rule create_named_shm_obj_collides [where taken = "\<lambda>_. True"]) (simp_all add: refusing_kernel_def)

section \<open>A length that needs padding: found before the shift overflows\<close>

lemma find_upt: "find P [0..<k] = Some n \<longleftrightarrow> n < k \<and> P n \<and> (\<forall>m < n. \<not> P m)"
  by (auto simp: find_Some_iff)

lemma unrepresentable_from_iff:
  "unrepresentable_from pl ps left shift =
     (case find (padded_len pl ps) [shift..<shift + left] of None \<Rightarrow> None | Some n \<Rightarrow> Some (2 ^ (ps + n) + 1))"
proof (induction left arbitrary: shift)
  case (Suc left)
  have "[shift..<shift + Suc left] = shift # [Suc shift..<Suc shift + left]" by (simp add: upt_rec)
  then show ?case using Suc [of "Suc shift"] by simp
qed simp

text \<open>
  \<^verbatim>\<open>get_unrepresentable_length\<close> ends with a length, before the shift of an \<^verbatim>\<open>int\<close> loses its meaning, exactly when
  some power of two below \<^verbatim>\<open>2 ^ 31\<close>, plus one and rounded up to pages, is not representable; and then it gives the
  shortest such length.
\<close>

theorem get_unrepresentable_length_iff:
  "get_unrepresentable_length pl page_shift = Some len \<longleftrightarrow>
     (\<exists>n. page_shift + n < 31 \<and> padded_len pl page_shift n \<and> (\<forall>m. padded_len pl page_shift m \<longrightarrow> n \<le> m) \<and>
          len = 2 ^ (page_shift + n) + 1)"
proof -
  have "get_unrepresentable_length pl page_shift = Some len \<longleftrightarrow>
      (\<exists>n. find (padded_len pl page_shift) [0..<31 - page_shift] = Some n \<and> len = 2 ^ (page_shift + n) + 1)"
    by (auto simp: get_unrepresentable_length_def unrepresentable_from_iff split: option.splits)
  moreover have "find (padded_len pl page_shift) [0..<31 - page_shift] = Some n \<longleftrightarrow>
      page_shift + n < 31 \<and> padded_len pl page_shift n \<and> (\<forall>m. padded_len pl page_shift m \<longrightarrow> n \<le> m)" for n
    unfolding find_upt by (metis add.commute less_diff_conv not_less)
  ultimately show ?thesis by simp
qed

theorem get_unrepresentable_length_iff_witness:
  "get_unrepresentable_length (morello_purecap\<lparr>cheri_representable_length := \<lambda>n. align_up n 0x4000\<rparr>) 12 = Some 0x1001"
  (is "get_unrepresentable_length ?pl 12 = _")
proof -
  have "padded_len ?pl 12 0" by (simp add: padded_len_def round_page_def align_up_def)
  then show ?thesis using get_unrepresentable_length_iff [of ?pl 12 "0x1001"] by (auto intro: exI [of _ 0])
qed

section \<open>Page sizes: one store too many\<close>

lemma read_pagesizes_run:
  "length sizes \<le> max_size \<Longrightarrow> read_pagesizes pl names sizes =
     (let found = sizes @ map (\<lambda>kb. kb * 1024) (List.map_filter scan_hugepages names)
      in if length found \<le> max_size then ret found else (\<lambda>s. (Undefined, s)))"
proof (induction names arbitrary: sizes)
  case (Cons name names)
  show ?case
  proof (cases "scan_hugepages name")
    case None
    then show ?thesis using Cons by (simp add: List.map_filter_simps)
  next
    case (Some kb)
    then show ?thesis using Cons.IH [of "sizes @ [kb * 1024]"] Cons.prems
      by (auto simp: List.map_filter_simps bindP_VERIFY2 Let_def)
  qed
qed (simp add: List.map_filter_simps)

text \<open>
  \<^verbatim>\<open>get_pagesizes\<close> returns the sizes of all entries of the directory that name a size, in order, if there are at most
  512 of them; with more, it writes behind the end of its array: the check in front of the store lets the 513th through
  and never declares failure.
\<close>

theorem get_pagesizes_correct:
  "get_pagesizes pl names =
     (let sizes = map (\<lambda>kb. kb * 1024) (List.map_filter scan_hugepages names)
      in if length sizes \<le> max_size then ret sizes else (\<lambda>s. (Undefined, s)))"
  by (simp add: get_pagesizes_def read_pagesizes_run)

end
