(* ===== verification/Vm_Tags.thy ===== *)
theory Vm_Tags
  imports Vm_System
begin

text \<open>
  The tests of \<^verbatim>\<open>cheriostest_vm.c\<close> about tags in memory: which mappings keep the tag of a capability that is stored
  through them, two mappings of one object, reading and writing through descriptors, copy-on-write. The kernel is the
  record of theory \<open>Vm_System\<close>; the contract it has to keep is a simulation by a small specification of memory objects.
\<close>

section \<open>Helpers\<close>

text \<open>The flags of an anonymous private mapping: Linux wants \<^verbatim>\<open>MAP_PRIVATE\<close> as well.\<close>

definition anon_flags :: "platform \<Rightarrow> mapflag list" where
  "anon_flags pl = (if is_FreeBSD pl then [MAP_ANON] else [MAP_ANON, MAP_PRIVATE])"

definition null_mmap :: "platform \<Rightarrow> 'k vmk \<Rightarrow> prot list \<Rightarrow> mapflag list \<Rightarrow> int \<Rightarrow> mmap_args" where
  "null_mmap pl k prot flags fd = \<lparr>ma_addr = cap_null pl, ma_len = k_pagesize k, ma_prot = prot, ma_flags = flags, ma_fd = fd\<rparr>"

text \<open>The value that is stored: a capability to the local variable \<^verbatim>\<open>v\<close>.\<close>

definition local_cap :: "platform \<Rightarrow> 'k vmk \<Rightarrow> cap" where
  "local_cap pl k = cheri_ptr pl (k_local k) 4"

text \<open>The address hint is the descriptor itself unless there is none.\<close>

definition mmap_and_check_tag_stored ::
  "platform \<Rightarrow> 'k vmk \<Rightarrow> int \<Rightarrow> prot list \<Rightarrow> mapflag list \<Rightarrow> bool \<Rightarrow> ('k, unit) prog" where
  "mmap_and_check_tag_stored pl k fd protflags mapflags expect_tag_loss =
     bindP (CHERIOSTEST_CHECK_SYSCALL pl
       (k_mmap k \<lparr>ma_addr = (if fd = - 1 then cap_null pl else (cap_null pl)\<lparr>cap_addr := of_int fd\<rparr>),
          ma_len = k_pagesize k, ma_prot = protflags, ma_flags = mapflags, ma_fd = fd\<rparr>)
       ''mmap(fd == -1 ? NULL : fd, getpagesize(), protflags, mapflags, fd, 0)'') (\<lambda>cp.
     bindP (store_cap k cp (local_cap pl k)) (\<lambda>_.
     bindP (load_cap k cp) (\<lambda>cp_value. block
       ([(if expect_tag_loss then CHERIOSTEST_VERIFY2 pl (\<not> cheri_tag_get cp_value) ''tag not lost'' []
          else CHERIOSTEST_VERIFY2 pl (cheri_tag_get cp_value) ''tag lost'' []),
         CHERIOSTEST_CHECK_SYSCALL pl (k_munmap k cp (k_pagesize k)) ''munmap(__DEVOLATILE(void *, cp), getpagesize())''] @
        only_if (fd \<noteq> - 1) [CHERIOSTEST_CHECK_SYSCALL pl (k_close k fd) ''close(fd)'']))))"

definition no_PROT_CAP :: "platform \<Rightarrow> ('k, 'a) prog" where
  "no_PROT_CAP pl = cheriostest_failure_errx pl ''PROT_CAP is not defined'' []"

text \<open>Descriptors: an anonymous object, a named one that is unlinked at once, an anonymous file.\<close>

definition shm_anon :: "platform \<Rightarrow> 'k vmk \<Rightarrow> ('k, int) prog" where
  "shm_anon pl k = CHERIOSTEST_CHECK_SYSCALL pl (k_shm_open k None False) ''shm_open(SHM_ANON, O_RDWR, 0600)''"

definition shm_named :: "platform \<Rightarrow> 'k vmk \<Rightarrow> ('k, int) prog" where
  "shm_named pl k =
     bindP (create_named_shm_obj pl k 32) (\<lambda>(name, fd).
     bindP (CHERIOSTEST_CHECK_SYSCALL pl (k_shm_unlink k (c_str name)) ''shm_unlink(shm_name)'') (\<lambda>_. ret fd))"

definition truncate_page :: "platform \<Rightarrow> 'k vmk \<Rightarrow> int \<Rightarrow> ('k, unit) prog" where
  "truncate_page pl k fd = CHERIOSTEST_CHECK_SYSCALL pl (k_ftruncate k fd (k_pagesize k)) ''ftruncate(fd, getpagesize())''"

section \<open>Private mappings and mappings with explicit permission\<close>

definition vm_tag_mmap_anon :: "platform \<Rightarrow> 'k vmk \<Rightarrow> ('k, unit) prog" where
  "vm_tag_mmap_anon pl k = block
     [mmap_and_check_tag_stored pl k (- 1) [PROT_READ, PROT_WRITE] (anon_flags pl) False, cheriostest_success]"

definition vm_tag_mmap_anon_cap :: "platform \<Rightarrow> 'k vmk \<Rightarrow> ('k, unit) prog" where
  "vm_tag_mmap_anon_cap pl k =
     (if k_PROT_CAP k then block
        [mmap_and_check_tag_stored pl k (- 1) [PROT_READ, PROT_WRITE, PROT_CAP] (anon_flags pl) False, cheriostest_success]
      else no_PROT_CAP pl)"

definition vm_tag_shm_open_anon_shared :: "platform \<Rightarrow> 'k vmk \<Rightarrow> ('k, unit) prog" where
  "vm_tag_shm_open_anon_shared pl k = bindP (shm_anon pl k) (\<lambda>fd. block
     [truncate_page pl k fd,
      mmap_and_check_tag_stored pl k fd [PROT_READ, PROT_WRITE, PROT_CAP] [MAP_SHARED] False, cheriostest_success])"

definition vm_tag_shm_open_anon_private :: "platform \<Rightarrow> 'k vmk \<Rightarrow> ('k, unit) prog" where
  "vm_tag_shm_open_anon_private pl k = bindP (shm_anon pl k) (\<lambda>fd. block
     [truncate_page pl k fd, mmap_and_check_tag_stored pl k fd [PROT_READ, PROT_WRITE] [MAP_PRIVATE] False, cheriostest_success])"

definition vm_tag_shm_open_named_private :: "platform \<Rightarrow> 'k vmk \<Rightarrow> ('k, unit) prog" where
  "vm_tag_shm_open_named_private pl k = bindP (shm_named pl k) (\<lambda>fd. block
     [truncate_page pl k fd, mmap_and_check_tag_stored pl k fd [PROT_READ, PROT_WRITE] [MAP_PRIVATE] False, cheriostest_success])"

definition vm_tag_dev_zero_shared :: "platform \<Rightarrow> 'k vmk \<Rightarrow> ('k, unit) prog" where
  "vm_tag_dev_zero_shared pl k =
     (if k_PROT_CAP k then
        bindP (CHERIOSTEST_CHECK_SYSCALL pl (k_open k ''/dev/zero'') ''open(/dev/zero, O_RDWR)'') (\<lambda>fd. block
          [mmap_and_check_tag_stored pl k fd [PROT_READ, PROT_WRITE, PROT_CAP] [MAP_SHARED] False, cheriostest_success])
      else no_PROT_CAP pl)"

definition vm_tag_dev_zero_private :: "platform \<Rightarrow> 'k vmk \<Rightarrow> ('k, unit) prog" where
  "vm_tag_dev_zero_private pl k =
     bindP (CHERIOSTEST_CHECK_SYSCALL pl (k_open k ''/dev/zero'') ''open(/dev/zero, O_RDWR)'') (\<lambda>fd. block
       [mmap_and_check_tag_stored pl k fd [PROT_READ, PROT_WRITE] [MAP_PRIVATE] False, cheriostest_success])"

definition vm_tag_tmpfile_private :: "platform \<Rightarrow> 'k vmk \<Rightarrow> ('k, unit) prog" where
  "vm_tag_tmpfile_private pl k = bindP (create_tempfile pl k) (\<lambda>fd. block
     [mmap_and_check_tag_stored pl k fd [PROT_READ, PROT_WRITE] [MAP_PRIVATE] False, cheriostest_success])"

definition vm_tag_tmpfile_private_prefault :: "platform \<Rightarrow> 'k vmk \<Rightarrow> ('k, unit) prog" where
  "vm_tag_tmpfile_private_prefault pl k = bindP (create_tempfile pl k) (\<lambda>fd. block
     [mmap_and_check_tag_stored pl k fd [PROT_READ, PROT_WRITE]
        (if is_FreeBSD pl then [MAP_PRIVATE, MAP_PREFAULT_READ] else [MAP_PRIVATE, MAP_POPULATE]) False, cheriostest_success])"

section \<open>Shared mappings without permission for capabilities\<close>

text \<open>
  With \<^verbatim>\<open>__riscv_zcheripurecap\<close> the tag is dropped silently; elsewhere the store faults and the line after the call is not
  reached.
\<close>

definition drops_tags :: "platform \<Rightarrow> bool" where
  "drops_tags pl \<longleftrightarrow> pl_arch pl = RISCV_zcheripurecap"

definition no_implied_cap :: "platform \<Rightarrow> 'k vmk \<Rightarrow> int \<Rightarrow> mapflag list \<Rightarrow> string \<Rightarrow> ('k, unit) prog" where
  "no_implied_cap pl k fd flags msg =
     (if drops_tags pl
      then block [mmap_and_check_tag_stored pl k fd [PROT_READ, PROT_WRITE] flags True, cheriostest_success]
      else block [mmap_and_check_tag_stored pl k fd [PROT_READ, PROT_WRITE] flags False, cheriostest_failure_errx pl msg []])"

definition vm_tag_shm_open_named_shared_no_implied_cap :: "platform \<Rightarrow> 'k vmk \<Rightarrow> ('k, unit) prog" where
  "vm_tag_shm_open_named_shared_no_implied_cap pl k = bindP (shm_named pl k) (\<lambda>fd. block
     [truncate_page pl k fd, no_implied_cap pl k fd [MAP_SHARED] ''tagged store succeeded''])"

definition vm_tag_shm_open_anon_shared_no_implied_cap :: "platform \<Rightarrow> 'k vmk \<Rightarrow> ('k, unit) prog" where
  "vm_tag_shm_open_anon_shared_no_implied_cap pl k = bindP (shm_anon pl k) (\<lambda>fd. block
     [truncate_page pl k fd, no_implied_cap pl k fd [MAP_SHARED] ''store succeeded''])"

definition vm_tag_anon_shared_no_implied_cap :: "platform \<Rightarrow> 'k vmk \<Rightarrow> ('k, unit) prog" where
  "vm_tag_anon_shared_no_implied_cap pl k = no_implied_cap pl k (- 1) [MAP_SHARED, MAP_ANON] ''store succeeded''"

definition vm_tag_memfd_create_shared :: "platform \<Rightarrow> 'k vmk \<Rightarrow> ('k, unit) prog" where
  "vm_tag_memfd_create_shared pl k =
     bindP (CHERIOSTEST_CHECK_SYSCALL pl (k_memfd_create k ''cheriostest_vm_tag_memfd_create_shared'') ''memfd_create(__func__, 0)'')
       (\<lambda>fd. block [truncate_page pl k fd, no_implied_cap pl k fd [MAP_SHARED] ''tagged store succeeded''])"

definition vm_notag_mmap_no_cap :: "platform \<Rightarrow> 'k vmk \<Rightarrow> ('k, unit) prog" where
  "vm_notag_mmap_no_cap pl k =
     (if k_PROT_NO_CAP k then
        bindP (CHERIOSTEST_CHECK_SYSCALL pl
          (k_mmap k (null_mmap pl k [PROT_MAX [PROT_READ, PROT_WRITE, PROT_CAP], PROT_READ, PROT_WRITE, PROT_NO_CAP] (anon_flags pl) (- 1)))
          ''mmap'') (\<lambda>cp. block
          [cheriostest_set_expected_si_addr pl (NULL_DERIVED_VOIDP pl cp), store_cap k cp (local_cap pl k),
           cheriostest_failure_errx pl ''tagged store succeeded'' []])
      else cheriostest_failure_errx pl ''PROT_NO_CAP is not defined'' [])"

definition vm_notag_mprotect_no_cap :: "platform \<Rightarrow> 'k vmk \<Rightarrow> ('k, unit) prog" where
  "vm_notag_mprotect_no_cap pl k =
     (if k_PROT_NO_CAP k then
        bindP (CHERIOSTEST_CHECK_SYSCALL pl (k_mmap k (null_mmap pl k [PROT_READ, PROT_WRITE] (anon_flags pl) (- 1))) ''mmap'') (\<lambda>cp. block
          [CHERIOSTEST_CHECK_SYSCALL pl (k_mprotect k cp (k_pagesize k) [PROT_READ, PROT_WRITE, PROT_NO_CAP]) ''mprotect'',
           cheriostest_set_expected_si_addr pl (NULL_DERIVED_VOIDP pl cp), store_cap k cp (local_cap pl k),
           cheriostest_failure_errx pl ''tagged store succeeded'' []])
      else cheriostest_failure_errx pl ''PROT_NO_CAP is not defined'' [])"

definition vm_notag_tmpfile_shared :: "platform \<Rightarrow> 'k vmk \<Rightarrow> ('k, unit) prog" where
  "vm_notag_tmpfile_shared pl k =
     bindP (create_tempfile pl k) (\<lambda>fd.
     bindP (CHERIOSTEST_CHECK_SYSCALL pl (k_mmap k (null_mmap pl k [PROT_READ, PROT_WRITE] [MAP_SHARED] fd)) ''mmap'') (\<lambda>cp. block
       ([cheriostest_set_expected_si_addr pl (NULL_DERIVED_VOIDP pl cp), store_cap k cp (local_cap pl k)] @
        (if drops_tags pl
         then [bindP (load_cap k cp) (\<lambda>cp_value. CHERIOSTEST_VERIFY2 pl (\<not> cheri_tag_get cp_value) ''tag not lost'' []), cheriostest_success]
         else [cheriostest_failure_errx pl ''tagged store succeeded'' []]))))"

section \<open>Two mappings of one object\<close>

definition vm_tag_shm_open_shared2x :: "platform \<Rightarrow> 'k vmk \<Rightarrow> int \<Rightarrow> ('k, unit) prog" where
  "vm_tag_shm_open_shared2x pl k fd =
     (if k_PROT_CAP k then
        bindP (CHERIOSTEST_CHECK_SYSCALL pl (k_mmap k (null_mmap pl k [PROT_READ, PROT_CAP] [MAP_SHARED] fd)) ''mmap'') (\<lambda>map2.
        bindP (load_cap k map2) (\<lambda>c2. block
          [CHERIOSTEST_VERIFY2 pl (\<not> cheri_tag_get c2) ''tag exists on first read'' [],
           CHERIOSTEST_VERIFY2 pl (ptr_eq c2 (cap_null pl)) ''Initial read NULL'' [],
           mmap_and_check_tag_stored pl k fd [PROT_READ, PROT_WRITE, PROT_CAP] [MAP_SHARED] False,
           bindP (load_cap k map2) (\<lambda>c2. block
             [CHERIOSTEST_VERIFY2 pl (cheri_tag_get c2) ''tag lost on second read'' [],
              CHERIOSTEST_VERIFY2 pl (\<not> ptr_eq c2 (cap_null pl)) ''Second read not NULL'' []])]))
      else no_PROT_CAP pl)"

definition vm_tag_shm_open_anon_shared2x :: "platform \<Rightarrow> 'k vmk \<Rightarrow> ('k, unit) prog" where
  "vm_tag_shm_open_anon_shared2x pl k = bindP (shm_anon pl k) (\<lambda>fd. block
     [truncate_page pl k fd, vm_tag_shm_open_shared2x pl k fd, cheriostest_success])"

definition vm_tag_shm_open_named_shared2x :: "platform \<Rightarrow> 'k vmk \<Rightarrow> ('k, unit) prog" where
  "vm_tag_shm_open_named_shared2x pl k = bindP (shm_named pl k) (\<lambda>fd. block
     [truncate_page pl k fd, vm_tag_shm_open_shared2x pl k fd, cheriostest_success])"

section \<open>Reading and writing through a descriptor\<close>

definition shm_open_read_nocaps :: "platform \<Rightarrow> 'k vmk \<Rightarrow> int \<Rightarrow> ('k, unit) prog" where
  "shm_open_read_nocaps pl k fd =
     bindP (truncate_page pl k fd) (\<lambda>_.
     (if k_PROT_CAP k then
        bindP (CHERIOSTEST_CHECK_SYSCALL pl (k_mmap k (null_mmap pl k [PROT_READ, PROT_WRITE, PROT_CAP] [MAP_SHARED] fd)) ''mmap'') (\<lambda>map.
        bindP (store_cap k map (k_local k)) (\<lambda>_.
        bindP (load_cap k map) (\<lambda>c.
        bindP (CHERIOSTEST_VERIFY2 pl (cheri_tag_get c) ''tag written'' []) (\<lambda>_.
        bindP (CHERIOSTEST_CHECK_SYSCALL pl (k_read k fd) ''read(shm_fd, &c, sizeof(c))'') (\<lambda>(rv, c).
        bindP (CHERIOSTEST_CHECK_EQ pl ''0x%zx'' rv 16 (\<lambda>n. FWord (of_nat n)) ''rv'' ''sizeof(c)'') (\<lambda>_.
        bindP (CHERIOSTEST_VERIFY2 pl (\<not> cheri_tag_get c) ''tag read'' []) (\<lambda>_.
        bindP (load_cap k map) (\<lambda>c'. block
          [CHERIOSTEST_VERIFY2 pl (cheri_is_equal_exact (cheri_tag_clear c') c) ''untagged value not read'' [],
           CHERIOSTEST_CHECK_SYSCALL pl (k_close k fd) ''close(shm_fd)'', cheriostest_success]))))))))
      else no_PROT_CAP pl))"

definition shm_open_anon_read_nocaps :: "platform \<Rightarrow> 'k vmk \<Rightarrow> ('k, unit) prog" where
  "shm_open_anon_read_nocaps pl k = bindP (shm_anon pl k) (shm_open_read_nocaps pl k)"

definition shm_open_named_read_nocaps :: "platform \<Rightarrow> 'k vmk \<Rightarrow> ('k, unit) prog" where
  "shm_open_named_read_nocaps pl k =
     (if k_PROT_CAP k then bindP (shm_named pl k) (shm_open_read_nocaps pl k) else no_PROT_CAP pl)"

definition shm_open_write_nocaps :: "platform \<Rightarrow> 'k vmk \<Rightarrow> int \<Rightarrow> ('k, unit) prog" where
  "shm_open_write_nocaps pl k fd =
     bindP (truncate_page pl k fd) (\<lambda>_.
     (if k_PROT_CAP k then
        bindP (CHERIOSTEST_CHECK_SYSCALL pl (k_mmap k (null_mmap pl k [PROT_READ, PROT_WRITE, PROT_CAP] [MAP_SHARED] fd)) ''mmap'') (\<lambda>map.
        bindP (CHERIOSTEST_VERIFY2 pl (cheri_tag_get (k_local k)) ''tag set on source'' []) (\<lambda>_.
        bindP (CHERIOSTEST_CHECK_SYSCALL pl (k_write k fd (k_local k)) ''write(shm_fd, &c, sizeof(c))'') (\<lambda>rv.
        bindP (CHERIOSTEST_CHECK_EQ pl ''0x%zx'' rv 16 (\<lambda>n. FWord (of_nat n)) ''rv'' ''sizeof(c)'') (\<lambda>_.
        bindP (load_cap k map) (\<lambda>c.
        bindP (CHERIOSTEST_VERIFY2 pl (\<not> cheri_tag_get c) ''tag written'' []) (\<lambda>_.
        bindP (load_cap k map) (\<lambda>c. block
          [CHERIOSTEST_VERIFY2 pl (cheri_is_equal_exact (cheri_tag_clear (k_local k)) c) ''untagged value not written'' [],
           CHERIOSTEST_CHECK_SYSCALL pl (k_close k fd) ''close(shm_fd)'', cheriostest_success])))))))
      else no_PROT_CAP pl))"

definition shm_open_anon_write_nocaps :: "platform \<Rightarrow> 'k vmk \<Rightarrow> ('k, unit) prog" where
  "shm_open_anon_write_nocaps pl k = bindP (shm_anon pl k) (shm_open_write_nocaps pl k)"

definition shm_open_anon_shm :: "platform \<Rightarrow> 'k vmk \<Rightarrow> ('k, unit) prog" where
  "shm_open_anon_shm pl k = bindP (shm_named pl k) (shm_open_write_nocaps pl k)"

definition memfd_create_anon_write_nocaps :: "platform \<Rightarrow> 'k vmk \<Rightarrow> ('k, unit) prog" where
  "memfd_create_anon_write_nocaps pl k =
     bindP (CHERIOSTEST_CHECK_SYSCALL pl (k_memfd_create k ''cheriostest_memfd_create_anon_write_nocaps'') ''memfd_create(__func__, 0)'')
       (shm_open_write_nocaps pl k)"

section \<open>Copy-on-write\<close>

text \<open>
  The part both tests share: two mappings, a store through the first, loads through both. Then what the test does with the
  two pointers, and the clean-up.
\<close>

definition vm_cow :: "platform \<Rightarrow> 'k vmk \<Rightarrow> int \<Rightarrow> (cap \<Rightarrow> cap \<Rightarrow> ('k, unit) prog list) \<Rightarrow> ('k, unit) prog" where
  "vm_cow pl k fd middle =
     bindP (truncate_page pl k fd) (\<lambda>_.
     (if k_PROT_CAP k then
        bindP (CHERIOSTEST_CHECK_SYSCALL pl (k_mmap k (null_mmap pl k [PROT_READ, PROT_WRITE, PROT_CAP] [MAP_SHARED] fd)) ''mmap cp_real'') (\<lambda>cp_real.
        bindP (CHERIOSTEST_CHECK_SYSCALL pl (k_mmap k (null_mmap pl k [PROT_READ, PROT_WRITE] [MAP_PRIVATE] fd)) ''mmap cp_copy'') (\<lambda>cp_copy.
        block ([store_cap k cp_real (local_cap pl k),
           bindP (load_cap k cp_real) (\<lambda>cp. CHERIOSTEST_VERIFY2 pl (cheri_tag_get cp) ''pretest: tag missing'' []),
           bindP (load_cap k cp_copy) (\<lambda>cp. CHERIOSTEST_VERIFY2 pl (cheri_tag_get cp) ''tag missing, cp_real'' [])] @
          middle cp_real cp_copy @
          [CHERIOSTEST_CHECK_SYSCALL pl (k_munmap k cp_real (k_pagesize k)) ''munmap cp_real'',
           CHERIOSTEST_CHECK_SYSCALL pl (k_munmap k cp_copy (k_pagesize k)) ''munmap cp_copy''])))
      else no_PROT_CAP pl))"

definition vm_cow_read :: "platform \<Rightarrow> 'k vmk \<Rightarrow> int \<Rightarrow> ('k, unit) prog" where
  "vm_cow_read pl k fd = vm_cow pl k fd (\<lambda>_ _. [])"

definition vm_cow_write :: "platform \<Rightarrow> 'k vmk \<Rightarrow> int \<Rightarrow> ('k, unit) prog" where
  "vm_cow_write pl k fd = vm_cow pl k fd (\<lambda>cp_real cp_copy.
     [store_cap k (cheri_offset_increment pl cp_copy 16) (local_cap pl k),
      bindP (load_cap k cp_real) (\<lambda>cp. CHERIOSTEST_VERIFY2 pl (cheri_tag_get cp) ''tag missing after COW, cp_real'' []),
      bindP (load_cap k cp_copy) (\<lambda>cp. CHERIOSTEST_VERIFY2 pl (cheri_tag_get cp) ''tag missing after COW, cp_copy'' [])])"

definition cow_test :: "platform \<Rightarrow> 'k vmk \<Rightarrow> ('k, int) prog \<Rightarrow> (int \<Rightarrow> ('k, unit) prog) \<Rightarrow> ('k, unit) prog" where
  "cow_test pl k descriptor body = bindP descriptor (\<lambda>fd. block
     [body fd, CHERIOSTEST_CHECK_SYSCALL pl (k_close k fd) ''close(fd)'', cheriostest_success])"

definition vm_cow_anon_read :: "platform \<Rightarrow> 'k vmk \<Rightarrow> ('k, unit) prog" where
  "vm_cow_anon_read pl k = cow_test pl k (shm_anon pl k) (vm_cow_read pl k)"

definition vm_cow_named_read :: "platform \<Rightarrow> 'k vmk \<Rightarrow> ('k, unit) prog" where
  "vm_cow_named_read pl k = cow_test pl k (shm_named pl k) (vm_cow_read pl k)"

definition vm_cow_anon_write :: "platform \<Rightarrow> 'k vmk \<Rightarrow> ('k, unit) prog" where
  "vm_cow_anon_write pl k = cow_test pl k (shm_anon pl k) (vm_cow_write pl k)"

definition vm_cow_named_write :: "platform \<Rightarrow> 'k vmk \<Rightarrow> ('k, unit) prog" where
  "vm_cow_named_write pl k = cow_test pl k (shm_named pl k) (vm_cow_write pl k)"

section \<open>Refused protections\<close>

definition mmap_check_bad_protections_fd :: "platform \<Rightarrow> 'k vmk \<Rightarrow> prot list \<Rightarrow> int \<Rightarrow> int \<Rightarrow> ('k, unit) prog" where
  "mmap_check_bad_protections_fd pl k prot fd expected_errno =
     bindP (\<lambda>s. (Return (), s\<lparr>p_errno := 0\<rparr>)) (\<lambda>_.
     bindP (raw_call (k_mmap k (null_mmap pl k prot (if fd = - 1 then anon_flags pl else [MAP_SHARED]) fd))) (\<lambda>r.
     bindP get_errno (\<lambda>call_errno. block
       [CHERIOSTEST_VERIFY2 pl (r = None) ''mmap unexpectedly returned'' [],
        cheriostest_check_errno pl ''mmap'' call_errno expected_errno])))"

definition mmap_check_bad_protections :: "platform \<Rightarrow> 'k vmk \<Rightarrow> prot list \<Rightarrow> int \<Rightarrow> ('k, unit) prog" where
  "mmap_check_bad_protections pl k prot expected_errno = mmap_check_bad_protections_fd pl k prot (- 1) expected_errno"

definition vm_mmap_disallowed_prot :: "platform \<Rightarrow> 'k vmk \<Rightarrow> ('k, unit) prog" where
  "vm_mmap_disallowed_prot pl k = block (
     [mmap_check_bad_protections pl k [PROT_READ, PROT_WRITE, PROT_MAX [PROT_READ]] (ENOTSUP k)] @
     only_if (k_PROT_CAP k)
       [mmap_check_bad_protections pl k [PROT_READ, PROT_CAP, PROT_MAX [PROT_READ]] (ENOTSUP k),
        mmap_check_bad_protections pl k [PROT_CAP] (ENOTSUP k),
        mmap_check_bad_protections pl k [PROT_MAX [PROT_CAP]] (ENOTSUP k),
        bindP (create_tempfile pl k) (\<lambda>fd. block
          [truncate_page pl k fd,
           mmap_check_bad_protections_fd pl k [PROT_READ, PROT_WRITE, PROT_CAP] fd (EACCES k)])] @
     [cheriostest_success])"

end
