(* ===== verification/Vm_Contract.thy ===== *)
theory Vm_Contract
  imports Vm_Tags
begin

text \<open>
  What a kernel promises about memory objects and their tags: a specification with objects, descriptors and mappings, and
  the locale of kernels that simulate it. The locale is interpreted for the kernel that is the specification itself, which
  shows that the promise can be kept.
\<close>

section \<open>Objects, descriptors, mappings\<close>

text \<open>
  An object is a page of capability-sized cells; pages of files do not hold tags for others. A mapping of an object may be
  private, and then has a copy of the page from the first store on.
\<close>

record mobj =
  ob_file :: bool
  ob_cell :: "nat \<Rightarrow> cap"

record mmapping =
  mp_obj :: nat
  mp_private :: bool
  mp_write :: bool
  mp_caps :: bool
  mp_copy :: "(nat \<Rightarrow> cap) option"

record vmspec =
  sp_obj :: "nat \<Rightarrow> mobj"
  sp_next :: nat
  sp_names :: "string set"
  sp_fd :: "int \<Rightarrow> nat option"
  sp_off :: "int \<Rightarrow> nat"
  sp_map :: "ptraddr \<Rightarrow> mmapping option"

definition new_object :: "platform \<Rightarrow> bool \<Rightarrow> vmspec \<Rightarrow> vmspec" where
  "new_object pl file sp =
     sp\<lparr>sp_obj := (sp_obj sp)(sp_next sp := \<lparr>ob_file = file, ob_cell = \<lambda>_. cap_null pl\<rparr>), sp_next := Suc (sp_next sp)\<rparr>"

definition spec_descriptor :: "platform \<Rightarrow> bool \<Rightarrow> int \<Rightarrow> vmspec \<Rightarrow> vmspec" where
  "spec_descriptor pl file fd sp =
     (new_object pl file sp)\<lparr>sp_fd := (sp_fd sp)(fd \<mapsto> sp_next sp), sp_off := (sp_off sp)(fd := 0)\<rparr>"

text \<open>Private mappings may hold capabilities unless that is refused, shared ones only if it is asked for.\<close>

definition caps_allowed :: "mmap_args \<Rightarrow> bool" where
  "caps_allowed a \<longleftrightarrow> PROT_CAP \<in> set (ma_prot a) \<or> (PROT_NO_CAP \<notin> set (ma_prot a) \<and> MAP_SHARED \<notin> set (ma_flags a))"

definition spec_mmap :: "platform \<Rightarrow> mmap_args \<Rightarrow> ptraddr \<Rightarrow> vmspec \<Rightarrow> vmspec" where
  "spec_mmap pl a addr sp =
     (let ob = (if MAP_ANON \<in> set (ma_flags a) then sp_next sp else the (sp_fd sp (ma_fd a)));
          sp' = (if MAP_ANON \<in> set (ma_flags a) then new_object pl False sp else sp\<lparr>sp_next := Suc (sp_next sp)\<rparr>)
      in sp'\<lparr>sp_map := (sp_map sp)(addr \<mapsto> \<lparr>mp_obj = ob, mp_private = MAP_SHARED \<notin> set (ma_flags a),
                mp_write = PROT_WRITE \<in> set (ma_prot a), mp_caps = caps_allowed a, mp_copy = None\<rparr>)\<rparr>)"

definition cell_index :: "cap \<Rightarrow> nat" where
  "cell_index c = unat (cap_addr c - cap_base c) div 16"

definition spec_page :: "vmspec \<Rightarrow> mmapping \<Rightarrow> nat \<Rightarrow> cap" where
  "spec_page sp m = (case mp_copy m of Some page \<Rightarrow> page | None \<Rightarrow> ob_cell (sp_obj sp (mp_obj m)))"

definition spec_load :: "vmspec \<Rightarrow> cap \<Rightarrow> cap" where
  "spec_load sp c = spec_page sp (the (sp_map sp (cap_base c))) (cell_index c)"

definition spec_store :: "vmspec \<Rightarrow> cap \<Rightarrow> cap \<Rightarrow> vmspec" where
  "spec_store sp c v =
     (let m = the (sp_map sp (cap_base c)); v' = (if mp_caps m then v else cheri_tag_clear v); i = cell_index c
      in if mp_private m
         then sp\<lparr>sp_map := (sp_map sp)(cap_base c \<mapsto> m\<lparr>mp_copy := Some ((spec_page sp m)(i := v'))\<rparr>)\<rparr>
         else sp\<lparr>sp_obj := (sp_obj sp)(mp_obj m := (sp_obj sp (mp_obj m))\<lparr>ob_cell := (ob_cell (sp_obj sp (mp_obj m)))(i := v')\<rparr>)\<rparr>)"

definition spec_unmap :: "ptraddr \<Rightarrow> vmspec \<Rightarrow> vmspec" where
  "spec_unmap addr sp = sp\<lparr>sp_map := (sp_map sp)(addr := None)\<rparr>"

definition spec_mprotect :: "ptraddr \<Rightarrow> prot list \<Rightarrow> vmspec \<Rightarrow> vmspec" where
  "spec_mprotect addr prot sp =
     sp\<lparr>sp_map := (sp_map sp)(addr \<mapsto> (the (sp_map sp addr))\<lparr>mp_write := PROT_WRITE \<in> set prot,
        mp_caps := PROT_NO_CAP \<notin> set prot \<and> mp_caps (the (sp_map sp addr))\<rparr>)\<rparr>"

definition spec_close :: "int \<Rightarrow> vmspec \<Rightarrow> vmspec" where
  "spec_close fd sp = sp\<lparr>sp_fd := (sp_fd sp)(fd := None)\<rparr>"

definition fd_cell :: "vmspec \<Rightarrow> int \<Rightarrow> cap" where
  "fd_cell sp fd = ob_cell (sp_obj sp (the (sp_fd sp fd))) 0"

definition spec_write :: "int \<Rightarrow> cap \<Rightarrow> vmspec \<Rightarrow> vmspec" where
  "spec_write fd c sp =
     (let n = the (sp_fd sp fd)
      in sp\<lparr>sp_obj := (sp_obj sp)(n := (sp_obj sp n)\<lparr>ob_cell := (ob_cell (sp_obj sp n))(0 := cheri_tag_clear c)\<rparr>),
            sp_off := (sp_off sp)(fd := 16)\<rparr>)"

text \<open>
  Requests that must succeed: readable, at no fixed address, within the maximal protections, of a descriptor that is open
  (or of none, for anonymous memory); a shared mapping of a file never holds capabilities.
\<close>

definition mmap_ok :: "platform \<Rightarrow> vmspec \<Rightarrow> mmap_args \<Rightarrow> bool" where
  "mmap_ok pl sp a \<longleftrightarrow>
     \<not> cap_tag (ma_addr a) \<and> MAP_FIXED \<notin> set (ma_flags a) \<and> PROT_READ \<in> set (ma_prot a) \<and>
     (\<forall>m. PROT_MAX m \<in> set (ma_prot a) \<longrightarrow> set (ma_prot a) \<inter> {PROT_READ, PROT_WRITE, PROT_CAP} \<subseteq> set m) \<and>
     (is_FreeBSD pl \<or> MAP_PRIVATE \<in> set (ma_flags a) \<or> MAP_SHARED \<in> set (ma_flags a)) \<and>
     (if MAP_ANON \<in> set (ma_flags a) then ma_fd a = - 1
      else sp_fd sp (ma_fd a) \<noteq> None \<and>
           (PROT_CAP \<in> set (ma_prot a) \<and> MAP_SHARED \<in> set (ma_flags a) \<longrightarrow> \<not> ob_file (sp_obj sp (the (sp_fd sp (ma_fd a))))))"

text \<open>A pointer to a cell of the page that a mapping begins with.\<close>

definition points_into :: "vmspec \<Rightarrow> nat \<Rightarrow> cap \<Rightarrow> mmapping \<Rightarrow> bool" where
  "points_into sp page c m \<longleftrightarrow> cap_tag c \<and> sp_map sp (cap_base c) = Some m \<and> unat (cap_addr c - cap_base c) + 16 \<le> page"

section \<open>The contract\<close>

text \<open>
  \<open>abs\<close> is the view of the kernel's state, \<open>ready n\<close> says that it has the resources for \<open>n\<close> more objects and mappings,
  \<open>storetag\<close> is the signal for a capability stored where none may be.
\<close>

locale vm_kernel =
  fixes pl :: platform and k :: "'k vmk" and abs :: "'k \<Rightarrow> vmspec" and ready :: "nat \<Rightarrow> 'k \<Rightarrow> bool" and storetag :: "cap \<Rightarrow> siginfo"
  assumes page: "32 \<le> k_pagesize k"
    and less: "ready (Suc n) w \<Longrightarrow> ready n w"
    and random: "ready n w \<Longrightarrow> ready n (snd (k_random k w)) \<and> abs (snd (k_random k w)) = abs w"
    and shm_anon_law: "ready (Suc n) w \<Longrightarrow> \<exists>fd w'. k_shm_open k None False w = (Inr fd, w') \<and> ready n w' \<and>
      0 \<le> fd \<and> sp_fd (abs w) fd = None \<and> abs w' = spec_descriptor pl False fd (abs w)"
    and shm_named_law: "ready (Suc n) w \<Longrightarrow> name \<notin> sp_names (abs w) \<Longrightarrow>
      \<exists>fd w'. k_shm_open k (Some name) True w = (Inr fd, w') \<and> ready n w' \<and> 0 \<le> fd \<and> sp_fd (abs w) fd = None \<and>
        abs w' = (spec_descriptor pl False fd (abs w))\<lparr>sp_names := insert name (sp_names (abs w))\<rparr>"
    and shm_unlink_law: "ready n w \<Longrightarrow> name \<in> sp_names (abs w) \<Longrightarrow>
      \<exists>w'. k_shm_unlink k name w = (Inr (), w') \<and> ready n w' \<and> abs w' = (abs w)\<lparr>sp_names := sp_names (abs w) - {name}\<rparr>"
    and memfd_law: "ready (Suc n) w \<Longrightarrow> \<exists>fd w'. k_memfd_create k name w = (Inr fd, w') \<and> ready n w' \<and>
      0 \<le> fd \<and> sp_fd (abs w) fd = None \<and> abs w' = spec_descriptor pl False fd (abs w)"
    and dev_zero_law: "ready (Suc n) w \<Longrightarrow> \<exists>fd w'. k_open k ''/dev/zero'' w = (Inr fd, w') \<and> ready n w' \<and>
      0 \<le> fd \<and> sp_fd (abs w) fd = None \<and> abs w' = spec_descriptor pl False fd (abs w)"
    and mkstemp_law: "ready (Suc n) w \<Longrightarrow> \<exists>fd name w'. k_mkstemp k template w = (Inr (fd, name), w') \<and> ready n w' \<and>
      0 \<le> fd \<and> sp_fd (abs w) fd = None \<and> abs w' = spec_descriptor pl True fd (abs w) \<and>
      (\<exists>w''. k_unlink k name w' = (Inr (), w'') \<and> ready n w'' \<and> abs w'' = abs w')"
    and ftruncate_law: "ready n w \<Longrightarrow> sp_fd (abs w) fd \<noteq> None \<Longrightarrow>
      \<exists>w'. k_ftruncate k fd len w = (Inr (), w') \<and> ready n w' \<and> abs w' = abs w"
    and mmap_law: "ready (Suc n) w \<Longrightarrow> mmap_ok pl (abs w) a \<Longrightarrow> ma_len a = k_pagesize k \<Longrightarrow>
      \<exists>c w'. k_mmap k a w = (Inr c, w') \<and> ready n w' \<and> cap_tag c \<and> \<not> cheri_is_sealed pl c \<and> cap_addr c = cap_base c \<and>
        arch_representable pl c (cap_addr c + 16) \<and> sp_map (abs w) (cap_base c) = None \<and>
        abs w' = spec_mmap pl a (cap_base c) (abs w)"
    and load_law: "ready n w \<Longrightarrow> points_into (abs w) (k_pagesize k) c m \<Longrightarrow>
      \<exists>w'. k_load k c w = (Inr (spec_load (abs w) c), w') \<and> ready n w' \<and> abs w' = abs w"
    and store_law: "ready n w \<Longrightarrow> points_into (abs w) (k_pagesize k) c m \<Longrightarrow> mp_write m \<Longrightarrow>
      mp_caps m \<or> \<not> cap_tag v \<or> drops_tags pl \<Longrightarrow>
      \<exists>w'. k_store k c v w = (None, w') \<and> ready n w' \<and> abs w' = spec_store (abs w) c v"
    and store_fault_law: "ready n w \<Longrightarrow> points_into (abs w) (k_pagesize k) c m \<Longrightarrow> mp_write m \<Longrightarrow>
      \<not> mp_caps m \<Longrightarrow> cap_tag v \<Longrightarrow> \<not> drops_tags pl \<Longrightarrow> \<exists>w'. k_store k c v w = (Some (storetag c), w')"
    and munmap_law: "ready n w \<Longrightarrow> sp_map (abs w) (cap_base c) \<noteq> None \<Longrightarrow> cap_tag c \<Longrightarrow> cap_addr c = cap_base c \<Longrightarrow>
      \<exists>w'. k_munmap k c (k_pagesize k) w = (Inr (), w') \<and> ready n w' \<and> abs w' = spec_unmap (cap_base c) (abs w)"
    and mprotect_law: "ready n w \<Longrightarrow> sp_map (abs w) (cap_base c) \<noteq> None \<Longrightarrow> cap_tag c \<Longrightarrow> cap_addr c = cap_base c \<Longrightarrow> PROT_READ \<in> set prot \<Longrightarrow>
      \<exists>w'. k_mprotect k c (k_pagesize k) prot w = (Inr (), w') \<and> ready n w' \<and> abs w' = spec_mprotect (cap_base c) prot (abs w)"
    and close_law: "ready n w \<Longrightarrow> sp_fd (abs w) fd \<noteq> None \<Longrightarrow>
      \<exists>w'. k_close k fd w = (Inr (), w') \<and> ready n w' \<and> abs w' = spec_close fd (abs w)"
    and read_law: "ready n w \<Longrightarrow> sp_fd (abs w) fd \<noteq> None \<Longrightarrow> sp_off (abs w) fd = 0 \<Longrightarrow>
      \<exists>w'. k_read k fd w = (Inr (16, cheri_tag_clear (fd_cell (abs w) fd)), w') \<and> ready n w' \<and>
        abs w' = (abs w)\<lparr>sp_off := (sp_off (abs w))(fd := 16)\<rparr>"
    and write_law: "ready n w \<Longrightarrow> sp_fd (abs w) fd \<noteq> None \<Longrightarrow> sp_off (abs w) fd = 0 \<Longrightarrow>
      \<exists>w'. k_write k fd c w = (Inr 16, w') \<and> ready n w' \<and> abs w' = spec_write fd c (abs w)"

section \<open>Runs of the helpers\<close>

lemma bind_run: "p s = (Return x, t) \<Longrightarrow> bindP p f s = f x t"
  by (simp add: bindP_def)

lemma bind_trapped: "p s = (Trapped i, t) \<Longrightarrow> bindP p f s = (Trapped i, t)"
  by (simp add: bindP_def)

lemma syscall_run: "call (p_world s) = (Inr x, w) \<Longrightarrow> CHERIOSTEST_CHECK_SYSCALL pl call t s = (Return x, s\<lparr>p_world := w\<rparr>)"
  by (simp add: CHERIOSTEST_CHECK_SYSCALL_def)

text \<open>Programs that come back and change nothing but the kernel's state.\<close>

definition comes_back :: "('k, 'a) prog \<Rightarrow> 'k pstate \<Rightarrow> 'a \<Rightarrow> 'k \<Rightarrow> bool" where
  "comes_back p s x w \<longleftrightarrow> p s = (Return x, s\<lparr>p_world := w\<rparr>)"

lemma comes_back_bind: "comes_back p s x w \<Longrightarrow> bindP p f s = f x (s\<lparr>p_world := w\<rparr>)"
  by (simp add: comes_back_def bind_run)

lemma comes_back_ret: "comes_back (ret x) s x (p_world s)"
  by (simp add: comes_back_def ret_def)

lemma comes_back_then:
  "comes_back p s x w \<Longrightarrow> comes_back (f x) (s\<lparr>p_world := w\<rparr>) y w' \<Longrightarrow> comes_back (bindP p f) s y w'"
  by (simp add: comes_back_def bind_run)

lemma comes_back_verify: "b \<Longrightarrow> comes_back (CHERIOSTEST_VERIFY2 pl b m ap) s () (p_world s)"
  by (simp add: comes_back_def CHERIOSTEST_VERIFY2_def ret_def)

lemma comes_back_syscall: "call (p_world s) = (Inr x, w) \<Longrightarrow> comes_back (CHERIOSTEST_CHECK_SYSCALL pl call t) s x w"
  by (simp add: comes_back_def syscall_run)

lemma comes_back_store: "k_store k c v (p_world s) = (None, w) \<Longrightarrow> comes_back (store_cap k c v) s () w"
  by (simp add: comes_back_def store_cap_def)

lemma comes_back_load: "k_load k c (p_world s) = (Inr v, w) \<Longrightarrow> comes_back (load_cap k c) s v w"
  by (simp add: comes_back_def load_cap_def)

lemma comes_back_block_Nil: "comes_back (block []) s () (p_world s)"
  by (simp add: comes_back_ret)

lemma comes_back_block_Cons:
  "comes_back p s () w \<Longrightarrow> comes_back (block ps) (s\<lparr>p_world := w\<rparr>) () w' \<Longrightarrow> comes_back (block (p # ps)) s () w'"
  by (simp add: comes_back_then)

lemma comes_back_success: "comes_back p s () w \<Longrightarrow> p_ccsp s \<noteq> None \<Longrightarrow> declares_success (block [p, cheriostest_success]) s"
  by (auto simp: comes_back_def declares_success_def bindP_def cheriostest_success_def)

lemmas comes_back_intros = comes_back_block_Nil comes_back_block_Cons comes_back_verify

lemma spec_mmap_map: "sp_map (spec_mmap pl a addr sp) addr =
    Some \<lparr>mp_obj = (if MAP_ANON \<in> set (ma_flags a) then sp_next sp else the (sp_fd sp (ma_fd a))),
      mp_private = MAP_SHARED \<notin> set (ma_flags a), mp_write = PROT_WRITE \<in> set (ma_prot a), mp_caps = caps_allowed a, mp_copy = None\<rparr>"
  by (simp add: spec_mmap_def Let_def)

lemma spec_mmap_fd [simp]: "sp_fd (spec_mmap pl a addr sp) = sp_fd sp" "sp_names (spec_mmap pl a addr sp) = sp_names sp"
  "sp_off (spec_mmap pl a addr sp) = sp_off sp"
  by (simp_all add: spec_mmap_def Let_def new_object_def)

lemma spec_store_fd [simp]: "sp_fd (spec_store sp c v) = sp_fd sp" "sp_off (spec_store sp c v) = sp_off sp"
  by (simp_all add: spec_store_def Let_def)

lemma spec_load_store:
  assumes "sp_map sp (cap_base c) = Some m" "mp_private m \<or> mp_copy m = None"
  shows "spec_load (spec_store sp c v) c = (if mp_caps m then v else cheri_tag_clear v)"
  using assms by (cases "mp_private m") (simp_all add: spec_load_def spec_store_def spec_page_def Let_def)

lemma spec_store_dom: "sp_map sp (cap_base c) = Some m \<Longrightarrow> sp_map (spec_store sp c v) a = None \<longleftrightarrow> sp_map sp a = None"
  by (simp add: spec_store_def Let_def)

lemma cell_index_base [simp]: "cap_addr c = cap_base c \<Longrightarrow> cell_index c = 0"
  by (simp add: cell_index_def)

context vm_kernel
begin

lemma points_into_base: "cap_tag c \<Longrightarrow> cap_addr c = cap_base c \<Longrightarrow> sp_map sp (cap_base c) = Some m \<Longrightarrow> points_into sp (k_pagesize k) c m"
  using page by (simp add: points_into_def)

text \<open>
  The heart of the tests: a new mapping, a store, a load, and the mapping is gone again. What is loaded is the stored
  capability, with its tag if the mapping may hold capabilities.
\<close>

lemma tag_stored:
  fixes fd prot flags
  defines "a \<equiv> \<lparr>ma_addr = (if fd = - 1 then cap_null pl else (cap_null pl)\<lparr>cap_addr := of_int fd\<rparr>),
     ma_len = k_pagesize k, ma_prot = prot, ma_flags = flags, ma_fd = fd\<rparr>"
  assumes "ready (Suc n) (p_world s)" "mmap_ok pl (abs (p_world s)) a" "PROT_WRITE \<in> set prot"
    and "fd = - 1 \<or> sp_fd (abs (p_world s)) fd \<noteq> None" "cap_tag (local_cap pl k)" "caps_allowed a \<or> drops_tags pl"
  shows "\<exists>c w. comes_back (mmap_and_check_tag_stored pl k fd prot flags (\<not> caps_allowed a)) s () w \<and> ready n w \<and>
     cap_addr c = cap_base c \<and> sp_map (abs (p_world s)) (cap_base c) = None \<and>
     abs w = (if fd = - 1 then id else spec_close fd)
       (spec_unmap (cap_base c) (spec_store (spec_mmap pl a (cap_base c) (abs (p_world s))) c (local_cap pl k)))"
proof -
  obtain c w1 where m: "k_mmap k a (p_world s) = (Inr c, w1)" "ready n w1" "cap_tag c" "cap_addr c = cap_base c"
    "sp_map (abs (p_world s)) (cap_base c) = None" "abs w1 = spec_mmap pl a (cap_base c) (abs (p_world s))"
    using mmap_law [OF assms(2,3)] by (auto simp: a_def)
  note mp = spec_mmap_map [of pl a "cap_base c" "abs (p_world s)", folded m(6)]
  note into = points_into_base [OF m(3,4) mp]
  obtain w2 where st: "k_store k c (local_cap pl k) w1 = (None, w2)" "ready n w2" "abs w2 = spec_store (abs w1) c (local_cap pl k)"
    using store_law [OF m(2) into] assms(4,7) by (auto simp: a_def)
  obtain m2 where mp2: "sp_map (abs w2) (cap_base c) = Some m2"
    using spec_store_dom [OF mp] mp st(3) by fastforce
  obtain w3 where ld: "k_load k c w2 = (Inr (spec_load (abs w2) c), w3)" "ready n w3" "abs w3 = abs w2"
    using load_law [OF st(2) points_into_base [OF m(3,4) mp2]] by blast
  have tag: "cap_tag (spec_load (abs w2) c) \<longleftrightarrow> caps_allowed a"
    using spec_load_store [OF mp] st(3) assms(6) by (simp add: cheri_tag_clear_def split: if_splits)
  obtain w4 where un: "k_munmap k c (k_pagesize k) w3 = (Inr (), w4)" "ready n w4" "abs w4 = spec_unmap (cap_base c) (abs w3)"
    using munmap_law [OF ld(2) _ m(3,4)] mp2 ld(3) by auto
  have fd4: "sp_fd (abs w4) = sp_fd (abs (p_world s))" using un(3) ld(3) st(3) m(6) by (simp add: spec_unmap_def)
  obtain w5 where cl: "if fd = - 1 then w5 = w4 else k_close k fd w4 = (Inr (), w5)" "ready n w5" "abs w5 = (if fd = - 1 then id else spec_close fd) (abs w4)"
  proof (cases "fd = - 1")
    case True
    then show thesis using that [of w4] un(2) by simp
  next
    case False
    then show thesis using that close_law [OF un(2), of fd] assms(5) fd4 by auto
  qed
  have run: "comes_back (mmap_and_check_tag_stored pl k fd prot flags (\<not> caps_allowed a)) s () w5"
    unfolding mmap_and_check_tag_stored_def a_def [symmetric]
    using m(1) st(1) ld(1) un(1) cl(1) tag
    by (cases "fd = - 1"; cases "caps_allowed a")
      (simp_all add: comes_back_def store_cap_def load_cap_def bindP_def
        CHERIOSTEST_VERIFY2_def ret_def cheri_tag_get_def CHERIOSTEST_CHECK_SYSCALL_def)
  show ?thesis
    by (rule exI [of _ c], rule exI [of _ w5]) (use run cl(2,3) un(3) ld(3) st(3) m(4,5,6) in simp)
qed

text \<open>Where no capability may be held and the processor does not drop tags, the store faults.\<close>

lemma tag_refused:
  fixes fd prot flags
  defines "a \<equiv> \<lparr>ma_addr = (if fd = - 1 then cap_null pl else (cap_null pl)\<lparr>cap_addr := of_int fd\<rparr>),
     ma_len = k_pagesize k, ma_prot = prot, ma_flags = flags, ma_fd = fd\<rparr>"
  assumes "ready (Suc n) (p_world s)" "mmap_ok pl (abs (p_world s)) a" "PROT_WRITE \<in> set prot"
    and "cap_tag (local_cap pl k)" "\<not> caps_allowed a" "\<not> drops_tags pl"
  shows "\<exists>c w. mmap_and_check_tag_stored pl k fd prot flags expect s = (Trapped (storetag c), s\<lparr>p_world := w\<rparr>)"
proof -
  obtain c w1 where m: "k_mmap k a (p_world s) = (Inr c, w1)" "ready n w1" "cap_tag c" "cap_addr c = cap_base c"
    "abs w1 = spec_mmap pl a (cap_base c) (abs (p_world s))"
    using mmap_law [OF assms(2,3)] by (auto simp: a_def)
  note into = points_into_base [OF m(3,4) spec_mmap_map [of pl a "cap_base c" "abs (p_world s)", folded m(5)]]
  obtain w2 where "k_store k c (local_cap pl k) w1 = (Some (storetag c), w2)"
    using store_fault_law [OF m(2) into] assms(4-7) by (auto simp: a_def)
  then have "mmap_and_check_tag_stored pl k fd prot flags expect s = (Trapped (storetag c), s\<lparr>p_world := w2\<rparr>)"
    unfolding mmap_and_check_tag_stored_def a_def [symmetric] using m(1)
    by (simp add: bindP_def store_cap_def CHERIOSTEST_CHECK_SYSCALL_def)
  then show ?thesis by blast
qed

text \<open>A descriptor of a new object: open, its cells empty, nothing read or written yet.\<close>

definition fresh_fd :: "bool \<Rightarrow> int \<Rightarrow> 'k \<Rightarrow> bool" where
  "fresh_fd file fd w \<longleftrightarrow> fd \<noteq> - 1 \<and> sp_off (abs w) fd = 0 \<and>
     (\<exists>n. sp_fd (abs w) fd = Some n \<and> sp_obj (abs w) n = \<lparr>ob_file = file, ob_cell = \<lambda>_. cap_null pl\<rparr>)"

lemma fresh_descriptor: "0 \<le> fd \<Longrightarrow> abs w = spec_descriptor pl file fd sp \<Longrightarrow> fresh_fd file fd w"
  by (simp add: fresh_fd_def spec_descriptor_def new_object_def)

lemma fresh_abs: "fresh_fd file fd w \<Longrightarrow> sp_obj (abs w') = sp_obj (abs w) \<Longrightarrow> sp_fd (abs w') = sp_fd (abs w) \<Longrightarrow>
    sp_off (abs w') = sp_off (abs w) \<Longrightarrow> fresh_fd file fd w'"
  by (simp add: fresh_fd_def)

lemma shm_anon_run: "ready (Suc n) (p_world s) \<Longrightarrow> \<exists>fd w. comes_back (shm_anon pl k) s fd w \<and> ready n w \<and> fresh_fd False fd w"
  using shm_anon_law fresh_descriptor unfolding shm_anon_def by (metis comes_back_syscall)

lemma truncate_run: "ready n (p_world s) \<Longrightarrow> fresh_fd file fd (p_world s) \<Longrightarrow>
    \<exists>w. comes_back (truncate_page pl k fd) s () w \<and> ready n w \<and> fresh_fd file fd w \<and> abs w = abs (p_world s)"
  using ftruncate_law [of n "p_world s" fd "k_pagesize k"] fresh_abs [of _ fd "p_world s"] unfolding truncate_page_def
  by (metis comes_back_syscall fresh_fd_def option.distinct(1))

lemma memfd_run: "ready (Suc n) (p_world s) \<Longrightarrow>
    \<exists>fd w. comes_back (CHERIOSTEST_CHECK_SYSCALL pl (k_memfd_create k name) t) s fd w \<and> ready n w \<and> fresh_fd False fd w"
  using memfd_law [of n "p_world s" name] fresh_descriptor by (metis comes_back_syscall)

lemma dev_zero_run: "ready (Suc n) (p_world s) \<Longrightarrow>
    \<exists>fd w. comes_back (CHERIOSTEST_CHECK_SYSCALL pl (k_open k ''/dev/zero'') t) s fd w \<and> ready n w \<and> fresh_fd False fd w"
  using dev_zero_law [of n "p_world s"] fresh_descriptor by (metis comes_back_syscall)

lemma tempfile_run:
  assumes "ready (Suc n) (p_world s)"
  shows "\<exists>fd w. comes_back (create_tempfile pl k) s fd w \<and> ready n w \<and> fresh_fd True fd w"
proof -
  obtain fd name w1 w2 where r: "k_mkstemp k ''/tmp/cheribsdtest.XXXXXXXX'' (p_world s) = (Inr (fd, name), w1)" "0 \<le> fd"
    "abs w1 = spec_descriptor pl True fd (abs (p_world s))" "k_unlink k name w1 = (Inr (), w2)" "ready n w2" "abs w2 = abs w1"
    using mkstemp_law [OF assms] by blast
  have f: "fresh_fd True fd w2" using fresh_descriptor r(2,3,6) by metis
  then obtain w3 where t: "k_ftruncate k fd (k_pagesize k) w2 = (Inr (), w3)" "ready n w3" "abs w3 = abs w2"
    using ftruncate_law [OF r(5), of fd] by (auto simp: fresh_fd_def)
  have "comes_back (create_tempfile pl k) s fd w3"
    using r(1,4) t(1) by (simp add: create_tempfile_def comes_back_def bindP_def CHERIOSTEST_CHECK_SYSCALL_def ret_def)
  moreover have "fresh_fd True fd w3" using fresh_abs [OF f] t(3) by simp
  ultimately show ?thesis using t(2) by blast
qed

lemma shm_named_run:
  assumes "ready (Suc n) (p_world s)" "''/cheriostest_shm-'' \<notin> sp_names (abs (p_world s))"
  shows "\<exists>fd w. comes_back (shm_named pl k) s fd w \<and> ready n w \<and> fresh_fd False fd w"
proof -
  obtain buf w1 where g: "gen_shm_obj_name pl k 32 s = (Return buf, s\<lparr>p_world := w1\<rparr>)" "c_str buf = ''/cheriostest_shm-''"
    "\<And>P. (\<And>v. P v \<Longrightarrow> P (snd (k_random k v))) \<Longrightarrow> P (p_world s) \<Longrightarrow> P w1"
    by (rule gen_shm_obj_name_run [of 32 pl k s]) auto
  have w1: "ready (Suc n) w1 \<and> abs w1 = abs (p_world s)"
    by (rule g(3)) (use assms(1) random in auto)
  then obtain fd w2 where o: "k_shm_open k (Some ''/cheriostest_shm-'') True w1 = (Inr fd, w2)" "ready n w2" "0 \<le> fd"
    "abs w2 = (spec_descriptor pl False fd (abs w1))\<lparr>sp_names := insert ''/cheriostest_shm-'' (sp_names (abs w1))\<rparr>"
    using shm_named_law assms(2) by metis
  then obtain w3 where u: "k_shm_unlink k ''/cheriostest_shm-'' w2 = (Inr (), w3)" "ready n w3"
    "abs w3 = (abs w2)\<lparr>sp_names := sp_names (abs w2) - {''/cheriostest_shm-''}\<rparr>"
    using shm_unlink_law [OF o(2), of "''/cheriostest_shm-''"] by auto
  have "create_attempts pl k 32 (Suc left) s = (Return (buf, fd), s\<lparr>p_world := w2\<rparr>)" if "left \<noteq> 0" for left
    using that g(1,2) o(1) by (simp add: bindP_def raw_call_def ret_def)
  from this [of 9] have "create_named_shm_obj pl k 32 s = (Return (buf, fd), s\<lparr>p_world := w2\<rparr>)"
    by (simp add: create_named_shm_obj_def numeral_eq_Suc del: create_attempts.simps)
  then have "comes_back (shm_named pl k) s fd w3"
    using u(1) g(2) by (simp add: shm_named_def comes_back_def bindP_def CHERIOSTEST_CHECK_SYSCALL_def ret_def)
  moreover have "fresh_fd False fd w3"
    using o(3,4) u(3) by (simp add: fresh_fd_def spec_descriptor_def new_object_def)
  ultimately show ?thesis using u(2) by blast
qed

end

end
