(* ===== verification/Vm_Tag_Proofs.thy ===== *)
theory Vm_Tag_Proofs
  imports Vm_Contract
begin

text \<open>
  The tests of tags in memory under the contract of theory \<open>Vm_Contract\<close>: those that should pass do, those that should fault
  do, and a kernel that loses tags is noticed.
\<close>

section \<open>Passing\<close>

text \<open>What the tests need of the local variable whose address they store.\<close>

definition locals_ok :: "platform \<Rightarrow> 'k vmk \<Rightarrow> bool" where
  "locals_ok pl k \<longleftrightarrow> cap_tag (local_cap pl k) \<and> cap_addr (local_cap pl k) \<noteq> 0 \<and> cap_tag (k_local k)"

text \<open>Without permission for capabilities: the store faults, or, where the processor drops tags, the tag is gone.\<close>

definition refused :: "platform \<Rightarrow> (cap \<Rightarrow> siginfo) \<Rightarrow> ('k, unit) prog \<Rightarrow> 'k pstate \<Rightarrow> bool" where
  "refused pl storetag p s \<longleftrightarrow> (if drops_tags pl then declares_success p s else (\<exists>c. fst (p s) = Trapped (storetag c)))"

context vm_kernel
begin

lemma stored_on:
  assumes "locals_ok pl k" "ready (Suc n) (p_world s)" "fresh_fd isf fd (p_world s)" "p_ccsp s \<noteq> None"
    and "PROT_READ \<in> set prot" "PROT_WRITE \<in> set prot" "\<And>m. PROT_MAX m \<notin> set prot" "PROT_NO_CAP \<notin> set prot"
    and "MAP_FIXED \<notin> set flags" "MAP_ANON \<notin> set flags"
    and "MAP_SHARED \<in> set flags \<and> PROT_CAP \<in> set prot \<and> \<not> isf \<or> MAP_PRIVATE \<in> set flags \<and> MAP_SHARED \<notin> set flags"
  shows "declares_success (block [mmap_and_check_tag_stored pl k fd prot flags False, cheriostest_success]) s"
proof -
  let ?a = "\<lparr>ma_addr = (if fd = - 1 then cap_null pl else (cap_null pl)\<lparr>cap_addr := of_int fd\<rparr>),
     ma_len = k_pagesize k, ma_prot = prot, ma_flags = flags, ma_fd = fd\<rparr>"
  have caps: "caps_allowed ?a" using assms(8,11) by (auto simp: caps_allowed_def)
  have "mmap_ok pl (abs (p_world s)) ?a"
    using assms(3,5,7,9,10,11) by (auto simp: mmap_ok_def fresh_fd_def cap_null_def)
  moreover have "sp_fd (abs (p_world s)) fd \<noteq> None" using assms(3) by (auto simp: fresh_fd_def)
  ultimately obtain w where "comes_back (mmap_and_check_tag_stored pl k fd prot flags False) s () w"
    using tag_stored [OF assms(2) _ assms(6), of fd flags] assms(1) caps by (auto simp: locals_ok_def)
  then show ?thesis by (rule comes_back_success [OF _ assms(4)])
qed

lemma stored_anon:
  assumes "locals_ok pl k" "ready (Suc n) (p_world s)" "p_ccsp s \<noteq> None"
    and "prot = [PROT_READ, PROT_WRITE] \<or> prot = [PROT_READ, PROT_WRITE, PROT_CAP]"
  shows "declares_success (block [mmap_and_check_tag_stored pl k (- 1) prot (anon_flags pl) False, cheriostest_success]) s"
proof -
  let ?a = "\<lparr>ma_addr = (if (- 1 :: int) = - 1 then cap_null pl else (cap_null pl)\<lparr>cap_addr := of_int (- 1)\<rparr>),
     ma_len = k_pagesize k, ma_prot = prot, ma_flags = anon_flags pl, ma_fd = - 1\<rparr>"
  have caps: "caps_allowed ?a" using assms(4) by (auto simp: caps_allowed_def anon_flags_def)
  have "mmap_ok pl (abs (p_world s)) ?a"
    using assms(4) by (auto simp: mmap_ok_def cap_null_def anon_flags_def)
  then obtain w where "comes_back (mmap_and_check_tag_stored pl k (- 1) prot (anon_flags pl) False) s () w"
    using tag_stored [OF assms(2), of "- 1" prot "anon_flags pl"] assms(1,4) caps by (auto simp: locals_ok_def)
  then show ?thesis by (rule comes_back_success [OF _ assms(3)])
qed

lemma with_fd:
  assumes "comes_back d s fd w" "declares_success (f fd) (s\<lparr>p_world := w\<rparr>)"
  shows "declares_success (bindP d f) s"
  using assms by (simp add: declares_success_def comes_back_def bind_run)

lemma after_truncate:
  assumes "ready n (p_world s)" "fresh_fd isf fd (p_world s)"
    and "\<And>w. ready n w \<Longrightarrow> fresh_fd isf fd w \<Longrightarrow> declares_success (block ps) (s\<lparr>p_world := w\<rparr>)"
  shows "declares_success (block (truncate_page pl k fd # ps)) s"
  using truncate_run [OF assms(1,2)] assms(3) by (auto simp: declares_success_def comes_back_def bind_run)

definition keeps_tags :: "prot list \<Rightarrow> mapflag list \<Rightarrow> bool \<Rightarrow> bool" where
  "keeps_tags prot flags isf \<longleftrightarrow> (prot, flags) = ([PROT_READ, PROT_WRITE, PROT_CAP], [MAP_SHARED]) \<and> \<not> isf \<or>
     prot = [PROT_READ, PROT_WRITE] \<and> flags \<in> {[MAP_PRIVATE], [MAP_PRIVATE, MAP_PREFAULT_READ], [MAP_PRIVATE, MAP_POPULATE]}"

lemma stored_body:
  assumes "locals_ok pl k" "p_ccsp s \<noteq> None" "ready (Suc n) (p_world s)" "fresh_fd isf fd (p_world s)" "keeps_tags prot flags isf"
  shows "declares_success (block [mmap_and_check_tag_stored pl k fd prot flags False, cheriostest_success]) s"
  by (rule stored_on [OF assms(1,3,4,2)]) (use assms(5) in \<open>auto simp: keeps_tags_def\<close>)

lemma stored_via:
  assumes "locals_ok pl k" "p_ccsp s \<noteq> None" "comes_back d s fd w" "ready (Suc n) w" "fresh_fd isf fd w" "keeps_tags prot flags isf"
  shows "declares_success (bindP d (\<lambda>fd. block [mmap_and_check_tag_stored pl k fd prot flags False, cheriostest_success])) s"
  by (rule with_fd [OF assms(3)], rule stored_body [OF assms(1) _ _ _ assms(6)]) (use assms in simp_all)

lemma stored_truncated:
  assumes "locals_ok pl k" "p_ccsp s \<noteq> None" "comes_back d s fd w" "ready (Suc n) w" "fresh_fd isf fd w" "keeps_tags prot flags isf"
  shows "declares_success (bindP d (\<lambda>fd. block
    [truncate_page pl k fd, mmap_and_check_tag_stored pl k fd prot flags False, cheriostest_success])) s"
proof (rule with_fd [OF assms(3)], rule after_truncate)
  show "ready (Suc n) (p_world (s\<lparr>p_world := w\<rparr>))" "fresh_fd isf fd (p_world (s\<lparr>p_world := w\<rparr>))" using assms(4,5) by simp_all
  show "declares_success (block [mmap_and_check_tag_stored pl k fd prot flags False, cheriostest_success]) (s\<lparr>p_world := w, p_world := w'\<rparr>)"
    if "ready (Suc n) w'" "fresh_fd isf fd w'" for w'
    by (rule stored_body [OF assms(1) _ _ _ assms(6)]) (use assms(2) that in simp_all)
qed

lemma private_tests:
  assumes "locals_ok pl k" "ready 3 (p_world s)" "p_ccsp s \<noteq> None" "k_PROT_CAP k" "''/cheriostest_shm-'' \<notin> sp_names (abs (p_world s))"
  shows "list_all (\<lambda>p. declares_success p s)
    [vm_tag_mmap_anon pl k, vm_tag_mmap_anon_cap pl k, vm_tag_shm_open_anon_shared pl k, vm_tag_shm_open_anon_private pl k,
     vm_tag_shm_open_named_private pl k, vm_tag_dev_zero_shared pl k, vm_tag_dev_zero_private pl k, vm_tag_tmpfile_private pl k,
     vm_tag_tmpfile_private_prefault pl k]"
proof -
  have r: "ready (Suc (Suc 1)) (p_world s)" using assms(2) by (simp add: numeral_eq_Suc)
  obtain fd1 w1 where d1: "comes_back (shm_anon pl k) s fd1 w1" "ready (Suc 1) w1" "fresh_fd False fd1 w1" using shm_anon_run [OF r] by blast
  obtain fd2 w2 where d2: "comes_back (shm_named pl k) s fd2 w2" "ready (Suc 1) w2" "fresh_fd False fd2 w2" using shm_named_run [OF r assms(5)] by blast
  obtain fd3 w3 where d3: "comes_back (CHERIOSTEST_CHECK_SYSCALL pl (k_open k ''/dev/zero'') ''open(/dev/zero, O_RDWR)'') s fd3 w3"
    "ready (Suc 1) w3" "fresh_fd False fd3 w3" using dev_zero_run [OF r] by blast
  obtain fd4 w4 where d4: "comes_back (create_tempfile pl k) s fd4 w4" "ready (Suc 1) w4" "fresh_fd True fd4 w4" using tempfile_run [OF r] by blast
  note stored = stored_via [OF assms(1,3)] and truncated = stored_truncated [OF assms(1,3)]
  have "declares_success (vm_tag_mmap_anon pl k) s" "declares_success (vm_tag_mmap_anon_cap pl k) s"
    unfolding vm_tag_mmap_anon_def vm_tag_mmap_anon_cap_def using stored_anon [OF assms(1) r assms(3)] assms(4) by auto
  moreover have "declares_success (vm_tag_shm_open_anon_shared pl k) s" "declares_success (vm_tag_shm_open_anon_private pl k) s"
    "declares_success (vm_tag_shm_open_named_private pl k) s"
    unfolding vm_tag_shm_open_anon_shared_def vm_tag_shm_open_anon_private_def vm_tag_shm_open_named_private_def
    using truncated [OF d1] truncated [OF d2] by (simp_all add: keeps_tags_def)
  moreover have "declares_success (vm_tag_dev_zero_shared pl k) s" "declares_success (vm_tag_dev_zero_private pl k) s"
    unfolding vm_tag_dev_zero_shared_def vm_tag_dev_zero_private_def using stored [OF d3] assms(4) by (simp_all add: keeps_tags_def)
  moreover have "declares_success (vm_tag_tmpfile_private pl k) s" "declares_success (vm_tag_tmpfile_private_prefault pl k) s"
    unfolding vm_tag_tmpfile_private_def vm_tag_tmpfile_private_prefault_def using stored [OF d4] by (simp_all add: keeps_tags_def)
  ultimately show ?thesis by simp
qed

text \<open>A mapping of a fresh descriptor.\<close>

lemma map_fd:
  assumes "ready (Suc n) (p_world s)" "sp_fd (abs (p_world s)) fd = Some ob" "\<not> ob_file (sp_obj (abs (p_world s)) ob)"
    and "(prot, flags) \<in> {([PROT_READ, PROT_CAP], [MAP_SHARED]), ([PROT_READ, PROT_WRITE, PROT_CAP], [MAP_SHARED]),
           ([PROT_READ, PROT_WRITE], [MAP_PRIVATE])}"
  shows "\<exists>c w. comes_back (CHERIOSTEST_CHECK_SYSCALL pl (k_mmap k (null_mmap pl k prot flags fd)) t) s c w \<and> ready n w \<and>
    cap_tag c \<and> \<not> cheri_is_sealed pl c \<and> cap_addr c = cap_base c \<and> arch_representable pl c (cap_addr c + 16) \<and>
    sp_map (abs (p_world s)) (cap_base c) = None \<and>
    abs w = (abs (p_world s))\<lparr>sp_next := Suc (sp_next (abs (p_world s))),
      sp_map := (sp_map (abs (p_world s)))(cap_base c \<mapsto> \<lparr>mp_obj = ob, mp_private = flags = [MAP_PRIVATE], mp_write = PROT_WRITE \<in> set prot,
        mp_caps = True, mp_copy = None\<rparr>)\<rparr>"
proof -
  let ?a = "null_mmap pl k prot flags fd"
  have ok: "mmap_ok pl (abs (p_world s)) ?a" "ma_len ?a = k_pagesize k"
    using assms(2-4) by (auto simp: mmap_ok_def null_mmap_def cap_null_def)
  have eff: "spec_mmap pl ?a addr (abs (p_world s)) = (abs (p_world s))\<lparr>sp_next := Suc (sp_next (abs (p_world s))),
      sp_map := (sp_map (abs (p_world s)))(addr \<mapsto> \<lparr>mp_obj = ob, mp_private = flags = [MAP_PRIVATE], mp_write = PROT_WRITE \<in> set prot,
        mp_caps = True, mp_copy = None\<rparr>)\<rparr>" for addr
    using assms(2,4) by (auto simp: spec_mmap_def null_mmap_def caps_allowed_def)
  obtain c w where "k_mmap k ?a (p_world s) = (Inr c, w)" "ready n w" "cap_tag c" "\<not> cheri_is_sealed pl c" "cap_addr c = cap_base c"
    "arch_representable pl c (cap_addr c + 16)" "sp_map (abs (p_world s)) (cap_base c) = None" "abs w = spec_mmap pl ?a (cap_base c) (abs (p_world s))"
    using mmap_law [OF assms(1) ok] by auto
  then show ?thesis unfolding eff by (intro exI [of _ c] exI [of _ w] conjI comes_back_syscall)
qed

lemma load_at: "ready n (p_world s) \<Longrightarrow> points_into (abs (p_world s)) (k_pagesize k) c m \<Longrightarrow>
    \<exists>w. comes_back (load_cap k c) s (spec_load (abs (p_world s)) c) w \<and> ready n w \<and> abs w = abs (p_world s)"
  using load_law [of n "p_world s" c m] by (auto simp: comes_back_def load_cap_def)

lemma shared2x_run:
  assumes "locals_ok pl k" "k_PROT_CAP k" "ready (Suc (Suc n)) (p_world s)" "fresh_fd False fd (p_world s)"
  shows "\<exists>w. comes_back (vm_tag_shm_open_shared2x pl k fd) s () w"
proof -
  obtain ob where ob: "fd \<noteq> - 1" "sp_fd (abs (p_world s)) fd = Some ob" "sp_obj (abs (p_world s)) ob = \<lparr>ob_file = False, ob_cell = \<lambda>_. cap_null pl\<rparr>"
    using assms(4) by (auto simp: fresh_fd_def)
  obtain c2 w1 where m: "comes_back (CHERIOSTEST_CHECK_SYSCALL pl (k_mmap k (null_mmap pl k [PROT_READ, PROT_CAP] [MAP_SHARED] fd)) ''mmap'') s c2 w1"
    "ready (Suc n) w1" "cap_tag c2" "cap_addr c2 = cap_base c2"
    "abs w1 = (abs (p_world s))\<lparr>sp_next := Suc (sp_next (abs (p_world s))),
      sp_map := (sp_map (abs (p_world s)))(cap_base c2 \<mapsto> \<lparr>mp_obj = ob, mp_private = False, mp_write = False, mp_caps = True, mp_copy = None\<rparr>)\<rparr>"
    using map_fd [OF assms(3) ob(2), of "[PROT_READ, PROT_CAP]" "[MAP_SHARED]" "''mmap''"] ob(3) by auto
  obtain w2 where l1: "comes_back (load_cap k c2) (s\<lparr>p_world := w1\<rparr>) (cap_null pl) w2" "ready (Suc n) w2" "abs w2 = abs w1"
    using load_at [of "Suc n" "s\<lparr>p_world := w1\<rparr>" c2] m(2-5) ob(3) page
    by (auto simp: points_into_def spec_load_def spec_page_def)
  let ?a = "\<lparr>ma_addr = (if fd = - 1 then cap_null pl else (cap_null pl)\<lparr>cap_addr := of_int fd\<rparr>),
     ma_len = k_pagesize k, ma_prot = [PROT_READ, PROT_WRITE, PROT_CAP], ma_flags = [MAP_SHARED], ma_fd = fd\<rparr>"
  have ok: "mmap_ok pl (abs w2) ?a" "caps_allowed ?a" using l1(3) m(5) ob by (auto simp: mmap_ok_def caps_allowed_def cap_null_def)
  obtain c w3 where st: "comes_back (mmap_and_check_tag_stored pl k fd [PROT_READ, PROT_WRITE, PROT_CAP] [MAP_SHARED] False) (s\<lparr>p_world := w2\<rparr>) () w3"
    "ready n w3" "cap_addr c = cap_base c" "sp_map (abs w2) (cap_base c) = None"
    "abs w3 = spec_close fd (spec_unmap (cap_base c) (spec_store (spec_mmap pl ?a (cap_base c) (abs w2)) c (local_cap pl k)))"
    using tag_stored [of n "s\<lparr>p_world := w2\<rparr>" fd "[PROT_READ, PROT_WRITE, PROT_CAP]" "[MAP_SHARED]"] l1(2,3) m(5) ok ob assms(1)
    by (auto simp: locals_ok_def)
  have "cap_base c \<noteq> cap_base c2" using st(4) l1(3) m(5) by auto
  then have into: "points_into (abs w3) (k_pagesize k) c2 \<lparr>mp_obj = ob, mp_private = False, mp_write = False, mp_caps = True, mp_copy = None\<rparr>"
    "spec_load (abs w3) c2 = local_cap pl k"
    using st(3,5) l1(3) m(3-5) ob page
    by (auto simp: points_into_def spec_load_def spec_page_def spec_close_def spec_unmap_def spec_store_def spec_mmap_def caps_allowed_def Let_def)
  obtain w4 where l2: "comes_back (load_cap k c2) (s\<lparr>p_world := w3\<rparr>) (local_cap pl k) w4"
    using load_at [of n "s\<lparr>p_world := w3\<rparr>" c2] st(2) into by auto
  have "comes_back (vm_tag_shm_open_shared2x pl k fd) s () w4"
    using assms(1,2) m(1) l1(1) st(1) l2
    by (simp add: vm_tag_shm_open_shared2x_def comes_back_def bind_run bindP_VERIFY2 bindP_assoc cheri_tag_get_def ptr_eq_def cap_null_def
        locals_ok_def ret_def)
  then show ?thesis by blast
qed

lemma store_at: "ready n (p_world s) \<Longrightarrow> points_into (abs (p_world s)) (k_pagesize k) c m \<Longrightarrow> mp_write m \<Longrightarrow> mp_caps m \<Longrightarrow>
    \<exists>w. comes_back (store_cap k c v) s () w \<and> ready n w \<and> abs w = spec_store (abs (p_world s)) c v"
  using store_law [of n "p_world s" c m v] by (auto simp: comes_back_def store_cap_def)

text \<open>The two mappings of the copy-on-write tests, and the state after the first store.\<close>

abbreviation real_map :: "nat \<Rightarrow> mmapping" where
  "real_map ob \<equiv> \<lparr>mp_obj = ob, mp_private = False, mp_write = True, mp_caps = True, mp_copy = None\<rparr>"

abbreviation copy_map :: "nat \<Rightarrow> (nat \<Rightarrow> cap) option \<Rightarrow> mmapping" where
  "copy_map ob page \<equiv> \<lparr>mp_obj = ob, mp_private = True, mp_write = True, mp_caps = True, mp_copy = page\<rparr>"

definition cow_state :: "cap \<Rightarrow> cap \<Rightarrow> nat \<Rightarrow> (nat \<Rightarrow> cap) option \<Rightarrow> int \<Rightarrow> vmspec \<Rightarrow> bool" where
  "cow_state cr cc ob page fd sp \<longleftrightarrow> cap_tag cr \<and> cap_addr cr = cap_base cr \<and> cap_tag cc \<and> cap_addr cc = cap_base cc \<and>
     cap_base cr \<noteq> cap_base cc \<and> sp_map sp (cap_base cr) = Some (real_map ob) \<and> sp_map sp (cap_base cc) = Some (copy_map ob page) \<and>
     sp_fd sp fd = Some ob \<and> cap_tag (ob_cell (sp_obj sp ob) 0) \<and> (\<forall>pg. page = Some pg \<longrightarrow> cap_tag (pg 0))"

lemma cow_load:
  assumes "cow_state cr cc ob pg fd (abs (p_world s))" "ready n (p_world s)"
  shows "\<exists>w. comes_back (bindP (load_cap k cr) (\<lambda>cp. CHERIOSTEST_VERIFY2 pl (cheri_tag_get cp) m [])) s () w \<and> ready n w \<and> abs w = abs (p_world s)"
    and "\<exists>w. comes_back (bindP (load_cap k cc) (\<lambda>cp. CHERIOSTEST_VERIFY2 pl (cheri_tag_get cp) m [])) s () w \<and> ready n w \<and> abs w = abs (p_world s)"
proof -
  have into: "points_into (abs (p_world s)) (k_pagesize k) cr (real_map ob)" "points_into (abs (p_world s)) (k_pagesize k) cc (copy_map ob pg)"
    using assms(1) page by (auto simp: cow_state_def points_into_def)
  have tags: "cap_tag (spec_load (abs (p_world s)) cr)" "cap_tag (spec_load (abs (p_world s)) cc)"
    using assms(1) by (auto simp: cow_state_def spec_load_def spec_page_def split: option.splits)
  show "\<exists>w. comes_back (bindP (load_cap k cr) (\<lambda>cp. CHERIOSTEST_VERIFY2 pl (cheri_tag_get cp) m [])) s () w \<and> ready n w \<and> abs w = abs (p_world s)"
    using load_at [OF assms(2) into(1)] tags(1) by (auto simp: comes_back_def bind_run CHERIOSTEST_VERIFY2_def cheri_tag_get_def ret_def)
  show "\<exists>w. comes_back (bindP (load_cap k cc) (\<lambda>cp. CHERIOSTEST_VERIFY2 pl (cheri_tag_get cp) m [])) s () w \<and> ready n w \<and> abs w = abs (p_world s)"
    using load_at [OF assms(2) into(2)] tags(2) by (auto simp: comes_back_def bind_run CHERIOSTEST_VERIFY2_def cheri_tag_get_def ret_def)
qed

lemma cow_run:
  assumes "locals_ok pl k" "k_PROT_CAP k" "ready (Suc (Suc n)) (p_world s)" "fresh_fd False fd (p_world s)"
    and middle: "\<And>cr cc ob t. \<lbrakk>cow_state cr cc ob None fd (abs (p_world t)); ready n (p_world t); \<not> cheri_is_sealed pl cc;
       arch_representable pl cc (cap_addr cc + 16)\<rbrakk> \<Longrightarrow>
       \<exists>w pg. comes_back (block (mid cr cc)) t () w \<and> ready n w \<and> cow_state cr cc ob pg fd (abs w)"
  shows "\<exists>w. comes_back (vm_cow pl k fd mid) s () w \<and> ready n w \<and> sp_fd (abs w) fd \<noteq> None"
proof -
  obtain ob where ob: "sp_fd (abs (p_world s)) fd = Some ob" "sp_obj (abs (p_world s)) ob = \<lparr>ob_file = False, ob_cell = \<lambda>_. cap_null pl\<rparr>"
    using assms(4) by (auto simp: fresh_fd_def)
  obtain w0 where t: "comes_back (truncate_page pl k fd) s () w0" "ready (Suc (Suc n)) w0" "abs w0 = abs (p_world s)"
    using truncate_run [OF assms(3,4)] by blast
  obtain cr w1 where r: "comes_back (CHERIOSTEST_CHECK_SYSCALL pl (k_mmap k (null_mmap pl k [PROT_READ, PROT_WRITE, PROT_CAP] [MAP_SHARED] fd)) ''mmap cp_real'') (s\<lparr>p_world := w0\<rparr>) cr w1"
    "ready (Suc n) w1" "cap_tag cr" "cap_addr cr = cap_base cr"
    "abs w1 = (abs w0)\<lparr>sp_next := Suc (sp_next (abs w0)), sp_map := (sp_map (abs w0))(cap_base cr \<mapsto> real_map ob)\<rparr>"
    using map_fd [of "Suc n" "s\<lparr>p_world := w0\<rparr>" fd ob "[PROT_READ, PROT_WRITE, PROT_CAP]" "[MAP_SHARED]" "''mmap cp_real''"] t(2,3) ob by auto
  obtain cc w2 where c: "comes_back (CHERIOSTEST_CHECK_SYSCALL pl (k_mmap k (null_mmap pl k [PROT_READ, PROT_WRITE] [MAP_PRIVATE] fd)) ''mmap cp_copy'') (s\<lparr>p_world := w1\<rparr>) cc w2"
    "ready n w2" "cap_tag cc" "cap_addr cc = cap_base cc" "sp_map (abs w1) (cap_base cc) = None" "\<not> cheri_is_sealed pl cc"
    "arch_representable pl cc (cap_addr cc + 16)"
    "abs w2 = (abs w1)\<lparr>sp_next := Suc (sp_next (abs w1)), sp_map := (sp_map (abs w1))(cap_base cc \<mapsto> copy_map ob None)\<rparr>"
    using map_fd [of n "s\<lparr>p_world := w1\<rparr>" fd ob "[PROT_READ, PROT_WRITE]" "[MAP_PRIVATE]" "''mmap cp_copy''"] r(2,5) t(3) ob by auto
  have ne: "cap_base cr \<noteq> cap_base cc" using c(5) r(5) by auto
  have into: "points_into (abs w2) (k_pagesize k) cr (real_map ob)" using c(8) r(3-5) ne page by (simp add: points_into_def)
  obtain w3 where st: "comes_back (store_cap k cr (local_cap pl k)) (s\<lparr>p_world := w2\<rparr>) () w3" "ready n w3"
    "abs w3 = spec_store (abs w2) cr (local_cap pl k)"
    using store_at [of n "s\<lparr>p_world := w2\<rparr>" cr "real_map ob" "local_cap pl k"] c(2) into by auto
  have cow: "cow_state cr cc ob None fd (abs w3)"
    using st(3) c(3,4,8) r(3-5) ne ob t(3) assms(1) by (simp add: cow_state_def spec_store_def Let_def locals_ok_def)
  obtain w4 where l1: "comes_back (bindP (load_cap k cr) (\<lambda>cp. CHERIOSTEST_VERIFY2 pl (cheri_tag_get cp) ''pretest: tag missing'' [])) (s\<lparr>p_world := w3\<rparr>) () w4"
    "ready n w4" "abs w4 = abs w3"
    using cow_load(1) [of cr cc ob None fd "s\<lparr>p_world := w3\<rparr>" n] cow st(2) by auto
  obtain w5 where l2: "comes_back (bindP (load_cap k cc) (\<lambda>cp. CHERIOSTEST_VERIFY2 pl (cheri_tag_get cp) ''tag missing, cp_real'' [])) (s\<lparr>p_world := w4\<rparr>) () w5"
    "ready n w5" "abs w5 = abs w3"
    using cow_load(2) [of cr cc ob None fd "s\<lparr>p_world := w4\<rparr>" n] cow l1(2,3) by auto
  obtain w6 pg where mid: "comes_back (block (mid cr cc)) (s\<lparr>p_world := w5\<rparr>) () w6" "ready n w6" "cow_state cr cc ob pg fd (abs w6)"
    using middle [of cr cc ob "s\<lparr>p_world := w5\<rparr>"] cow l2(2,3) c(6,7) by auto
  obtain w7 where u1: "k_munmap k cr (k_pagesize k) w6 = (Inr (), w7)" "ready n w7" "abs w7 = spec_unmap (cap_base cr) (abs w6)"
    using munmap_law [OF mid(2), of cr] mid(3) by (auto simp: cow_state_def)
  obtain w8 where u2: "k_munmap k cc (k_pagesize k) w7 = (Inr (), w8)" "ready n w8" "abs w8 = spec_unmap (cap_base cc) (abs w7)"
    using munmap_law [OF u1(2), of cc] mid(3) u1(3) by (auto simp: cow_state_def spec_unmap_def)
  have tail: "comes_back (block (mid cr cc @ [CHERIOSTEST_CHECK_SYSCALL pl (k_munmap k cr (k_pagesize k)) ''munmap cp_real'',
      CHERIOSTEST_CHECK_SYSCALL pl (k_munmap k cc (k_pagesize k)) ''munmap cp_copy''])) (s\<lparr>p_world := w5\<rparr>) () w8"
    unfolding block_append using mid(1) u1(1) u2(1)
    by (simp add: comes_back_def bind_run) (simp add: bindP_def CHERIOSTEST_CHECK_SYSCALL_def ret_def)
  have "comes_back (vm_cow pl k fd mid) s () w8"
    using assms(2) t(1) r(1) c(1) st(1) l1(1) l2(1) tail by (simp add: vm_cow_def comes_back_def bind_run del: bindP_assoc)
  moreover have "sp_fd (abs w8) fd \<noteq> None" using u2(3) u1(3) mid(3) by (simp add: spec_unmap_def cow_state_def)
  ultimately show ?thesis using u2(2) by blast
qed

lemma cow_read_run:
  assumes "locals_ok pl k" "k_PROT_CAP k" "ready (Suc (Suc n)) (p_world s)" "fresh_fd False fd (p_world s)"
  shows "\<exists>w. comes_back (vm_cow_read pl k fd) s () w \<and> ready n w \<and> sp_fd (abs w) fd \<noteq> None"
  unfolding vm_cow_read_def
proof (rule cow_run [OF assms])
  fix cr cc ob and t :: "'k pstate"
  assume "cow_state cr cc ob None fd (abs (p_world t))" "ready n (p_world t)"
  then show "\<exists>w pg. comes_back (block []) t () w \<and> ready n w \<and> cow_state cr cc ob pg fd (abs w)"
    by (intro exI [of _ "p_world t"] exI [of _ None]) (simp add: comes_back_ret)
qed

lemma cow_write_run:
  assumes "locals_ok pl k" "k_PROT_CAP k" "ready (Suc (Suc n)) (p_world s)" "fresh_fd False fd (p_world s)"
  shows "\<exists>w. comes_back (vm_cow_write pl k fd) s () w \<and> ready n w \<and> sp_fd (abs w) fd \<noteq> None"
  unfolding vm_cow_write_def
proof (rule cow_run [OF assms])
  fix cr cc ob and t :: "'k pstate"
  assume cow: "cow_state cr cc ob None fd (abs (p_world t))" and r: "ready n (p_world t)"
    and cc: "\<not> cheri_is_sealed pl cc" "arch_representable pl cc (cap_addr cc + 16)"
  let ?c1 = "cheri_offset_increment pl cc 16" and ?ld = "\<lambda>c m. bindP (load_cap k c) (\<lambda>cp. CHERIOSTEST_VERIFY2 pl (cheri_tag_get cp) m [])"
  have c1: "cap_base ?c1 = cap_base cc" "cap_addr ?c1 = cap_addr cc + 16" "cap_tag ?c1"
    using cow cc by (simp_all add: cow_state_def cheri_offset_increment_def cheri_address_set_def)
  have into: "points_into (abs (p_world t)) (k_pagesize k) ?c1 (copy_map ob None)" "cell_index ?c1 = 1"
    using cow c1 page by (simp_all add: points_into_def cow_state_def cell_index_def)
  obtain w1 where st: "comes_back (store_cap k ?c1 (local_cap pl k)) t () w1" "ready n w1" "abs w1 = spec_store (abs (p_world t)) ?c1 (local_cap pl k)"
    using store_at [OF r into(1), of "local_cap pl k"] by auto
  obtain pg where cow1: "cow_state cr cc ob (Some pg) fd (abs w1)"
    using cow st(3) c1(1) into(2) by (auto simp: cow_state_def spec_store_def spec_page_def Let_def)
  obtain w2 where l1: "comes_back (?ld cr ''tag missing after COW, cp_real'') (t\<lparr>p_world := w1\<rparr>) () w2" "ready n w2" "abs w2 = abs w1"
    using cow_load(1) [of cr cc ob "Some pg" fd "t\<lparr>p_world := w1\<rparr>" n] cow1 st(2) by auto
  obtain w3 where l2: "comes_back (?ld cc ''tag missing after COW, cp_copy'') (t\<lparr>p_world := w2\<rparr>) () w3" "ready n w3" "abs w3 = abs w1"
    using cow_load(2) [of cr cc ob "Some pg" fd "t\<lparr>p_world := w2\<rparr>" n] cow1 l1(2,3) by auto
  have "comes_back (block [store_cap k ?c1 (local_cap pl k), ?ld cr ''tag missing after COW, cp_real'', ?ld cc ''tag missing after COW, cp_copy'']) t () w3"
    using st(1) l1(1) l2(1) by (simp add: comes_back_def bind_run ret_def)
  then show "\<exists>w pg. comes_back (block [store_cap k ?c1 (local_cap pl k), ?ld cr ''tag missing after COW, cp_real'',
      ?ld cc ''tag missing after COW, cp_copy'']) t () w \<and> ready n w \<and> cow_state cr cc ob pg fd (abs w)"
    using l2(2,3) cow1 by (intro exI [of _ w3] exI [of _ "Some pg"]) simp
qed

lemma cow_test_passes:
  assumes "comes_back d s fd w" "ready n w" "p_ccsp s \<noteq> None"
    and "\<exists>w'. comes_back (body fd) (s\<lparr>p_world := w\<rparr>) () w' \<and> ready m w' \<and> sp_fd (abs w') fd \<noteq> None"
  shows "declares_success (cow_test pl k d body) s"
proof -
  obtain w' where b: "comes_back (body fd) (s\<lparr>p_world := w\<rparr>) () w'" "ready m w'" "sp_fd (abs w') fd \<noteq> None" using assms(4) by blast
  obtain w'' where "k_close k fd w' = (Inr (), w'')" using close_law [OF b(2,3)] by blast
  then show ?thesis
    unfolding cow_test_def using assms(1,3) b(1)
    by (simp add: declares_success_def comes_back_def bind_run syscall_run) (auto simp: cheriostest_success_def)
qed

lemma read_nocaps_passes:
  assumes "locals_ok pl k" "k_PROT_CAP k" "ready (Suc n) (p_world s)" "fresh_fd False fd (p_world s)" "p_ccsp s \<noteq> None"
  shows "declares_success (shm_open_read_nocaps pl k fd) s"
proof -
  obtain ob where ob: "sp_off (abs (p_world s)) fd = 0" "sp_fd (abs (p_world s)) fd = Some ob"
    "sp_obj (abs (p_world s)) ob = \<lparr>ob_file = False, ob_cell = \<lambda>_. cap_null pl\<rparr>"
    using assms(4) by (auto simp: fresh_fd_def)
  obtain w0 where t: "comes_back (truncate_page pl k fd) s () w0" "ready (Suc n) w0" "abs w0 = abs (p_world s)"
    using truncate_run [OF assms(3,4)] by blast
  obtain c w1 where m: "comes_back (CHERIOSTEST_CHECK_SYSCALL pl (k_mmap k (null_mmap pl k [PROT_READ, PROT_WRITE, PROT_CAP] [MAP_SHARED] fd)) ''mmap'') (s\<lparr>p_world := w0\<rparr>) c w1"
    "ready n w1" "cap_tag c" "cap_addr c = cap_base c"
    "abs w1 = (abs w0)\<lparr>sp_next := Suc (sp_next (abs w0)), sp_map := (sp_map (abs w0))(cap_base c \<mapsto> real_map ob)\<rparr>"
    using map_fd [of n "s\<lparr>p_world := w0\<rparr>" fd ob "[PROT_READ, PROT_WRITE, PROT_CAP]" "[MAP_SHARED]" "''mmap''"] t(2,3) ob by auto
  have into: "points_into (abs w1) (k_pagesize k) c (real_map ob)" using m(3-5) page by (simp add: points_into_def)
  obtain w2 where st: "comes_back (store_cap k c (k_local k)) (s\<lparr>p_world := w1\<rparr>) () w2" "ready n w2" "abs w2 = spec_store (abs w1) c (k_local k)"
    using store_at [of n "s\<lparr>p_world := w1\<rparr>" c "real_map ob" "k_local k"] m(2) into by auto
  have v: "points_into (abs w2) (k_pagesize k) c (real_map ob)" "spec_load (abs w2) c = k_local k" "fd_cell (abs w2) fd = k_local k"
    "sp_fd (abs w2) fd = Some ob" "sp_off (abs w2) fd = 0"
    using st(3) m(3-5) t(3) ob page
    by (simp_all add: points_into_def spec_load_def spec_page_def spec_store_def fd_cell_def Let_def)
  obtain w3 where l1: "comes_back (load_cap k c) (s\<lparr>p_world := w2\<rparr>) (k_local k) w3" "ready n w3" "abs w3 = abs w2"
    using load_at [of n "s\<lparr>p_world := w2\<rparr>" c "real_map ob"] st(2) v by auto
  obtain w4 where rd: "k_read k fd w3 = (Inr (16, cheri_tag_clear (k_local k)), w4)" "ready n w4"
    "abs w4 = (abs w2)\<lparr>sp_off := (sp_off (abs w2))(fd := 16)\<rparr>"
    using read_law [OF l1(2), of fd] l1(3) v by auto
  obtain w5 where l2: "comes_back (load_cap k c) (s\<lparr>p_world := w4\<rparr>) (k_local k) w5" "ready n w5" "abs w5 = abs w4"
    using load_at [of n "s\<lparr>p_world := w4\<rparr>" c "real_map ob"] rd(2,3) v(1,2) by (auto simp: points_into_def spec_load_def spec_page_def)
  obtain w6 where cl: "k_close k fd w5 = (Inr (), w6)" using close_law [OF l2(2), of fd] l2(3) rd(3) v(4) by auto
  show ?thesis
    unfolding shm_open_read_nocaps_def if_P [OF assms(2)] using t(1) m(1) st(1) l1(1) rd(1) l2(1) cl assms(1,5)
    by (simp add: declares_success_def comes_back_def bind_run syscall_run bindP_VERIFY2 CHERIOSTEST_CHECK_EQ_def cheri_tag_get_def
        cheri_is_equal_exact_def cheri_tag_clear_def locals_ok_def) (auto simp: cheriostest_success_def)
qed

lemma write_nocaps_passes:
  assumes "locals_ok pl k" "k_PROT_CAP k" "ready (Suc n) (p_world s)" "fresh_fd False fd (p_world s)" "p_ccsp s \<noteq> None"
  shows "declares_success (shm_open_write_nocaps pl k fd) s"
proof -
  obtain ob where ob: "sp_off (abs (p_world s)) fd = 0" "sp_fd (abs (p_world s)) fd = Some ob"
    "sp_obj (abs (p_world s)) ob = \<lparr>ob_file = False, ob_cell = \<lambda>_. cap_null pl\<rparr>"
    using assms(4) by (auto simp: fresh_fd_def)
  obtain w0 where t: "comes_back (truncate_page pl k fd) s () w0" "ready (Suc n) w0" "abs w0 = abs (p_world s)"
    using truncate_run [OF assms(3,4)] by blast
  obtain c w1 where m: "comes_back (CHERIOSTEST_CHECK_SYSCALL pl (k_mmap k (null_mmap pl k [PROT_READ, PROT_WRITE, PROT_CAP] [MAP_SHARED] fd)) ''mmap'') (s\<lparr>p_world := w0\<rparr>) c w1"
    "ready n w1" "cap_tag c" "cap_addr c = cap_base c"
    "abs w1 = (abs w0)\<lparr>sp_next := Suc (sp_next (abs w0)), sp_map := (sp_map (abs w0))(cap_base c \<mapsto> real_map ob)\<rparr>"
    using map_fd [of n "s\<lparr>p_world := w0\<rparr>" fd ob "[PROT_READ, PROT_WRITE, PROT_CAP]" "[MAP_SHARED]" "''mmap''"] t(2,3) ob by auto
  obtain w2 where wr: "k_write k fd (k_local k) w1 = (Inr 16, w2)" "ready n w2" "abs w2 = spec_write fd (k_local k) (abs w1)"
    using write_law [OF m(2), of fd] m(5) t(3) ob(1,2) by auto
  have v: "points_into (abs w2) (k_pagesize k) c (real_map ob)" "spec_load (abs w2) c = cheri_tag_clear (k_local k)" "sp_fd (abs w2) fd = Some ob"
    using wr(3) m(3-5) t(3) ob page by (simp_all add: points_into_def spec_load_def spec_page_def spec_write_def Let_def)
  obtain w3 where l1: "comes_back (load_cap k c) (s\<lparr>p_world := w2\<rparr>) (cheri_tag_clear (k_local k)) w3" "ready n w3" "abs w3 = abs w2"
    using load_at [of n "s\<lparr>p_world := w2\<rparr>" c "real_map ob"] wr(2) v by auto
  obtain w4 where l2: "comes_back (load_cap k c) (s\<lparr>p_world := w3\<rparr>) (cheri_tag_clear (k_local k)) w4" "ready n w4" "abs w4 = abs w2"
    using load_at [of n "s\<lparr>p_world := w3\<rparr>" c "real_map ob"] l1(2,3) v by auto
  obtain w5 where cl: "k_close k fd w4 = (Inr (), w5)" using close_law [OF l2(2), of fd] l2(3) v(3) by auto
  show ?thesis
    unfolding shm_open_write_nocaps_def if_P [OF assms(2)] using t(1) m(1) wr(1) l1(1) l2(1) cl assms(1,5)
    by (simp add: declares_success_def comes_back_def bind_run syscall_run bindP_VERIFY2 CHERIOSTEST_CHECK_EQ_def cheri_tag_get_def
        cheri_is_equal_exact_def cheri_tag_clear_def locals_ok_def) (auto simp: cheriostest_success_def)
qed

lemma shared2x_test:
  assumes "locals_ok pl k" "k_PROT_CAP k" "comes_back d s fd w" "ready (Suc (Suc n)) w" "fresh_fd False fd w" "p_ccsp s \<noteq> None"
  shows "declares_success (bindP d (\<lambda>fd. block [truncate_page pl k fd, vm_tag_shm_open_shared2x pl k fd, cheriostest_success])) s"
proof (rule with_fd [OF assms(3)], rule after_truncate)
  show "ready (Suc (Suc n)) (p_world (s\<lparr>p_world := w\<rparr>))" "fresh_fd False fd (p_world (s\<lparr>p_world := w\<rparr>))" using assms(4,5) by simp_all
  fix w1 assume "ready (Suc (Suc n)) w1" "fresh_fd False fd w1"
  then obtain w2 where "comes_back (vm_tag_shm_open_shared2x pl k fd) (s\<lparr>p_world := w, p_world := w1\<rparr>) () w2"
    using shared2x_run [OF assms(1,2), of n "s\<lparr>p_world := w, p_world := w1\<rparr>" fd] by auto
  then show "declares_success (block [vm_tag_shm_open_shared2x pl k fd, cheriostest_success]) (s\<lparr>p_world := w, p_world := w1\<rparr>)"
    by (rule comes_back_success) (simp add: assms(6))
qed

lemma sharing_tests:
  assumes "locals_ok pl k" "ready 3 (p_world s)" "p_ccsp s \<noteq> None" "k_PROT_CAP k" "''/cheriostest_shm-'' \<notin> sp_names (abs (p_world s))"
  shows "list_all (\<lambda>p. declares_success p s)
    [vm_tag_shm_open_anon_shared2x pl k, vm_tag_shm_open_named_shared2x pl k, shm_open_anon_read_nocaps pl k,
     shm_open_named_read_nocaps pl k, shm_open_anon_write_nocaps pl k, shm_open_anon_shm pl k, memfd_create_anon_write_nocaps pl k,
     vm_cow_anon_read pl k, vm_cow_named_read pl k, vm_cow_anon_write pl k, vm_cow_named_write pl k]"
proof -
  have r: "ready (Suc (Suc (Suc 0))) (p_world s)" using assms(2) by (simp add: numeral_eq_Suc)
  obtain fd1 w1 where d1: "comes_back (shm_anon pl k) s fd1 w1" "ready (Suc (Suc 0)) w1" "fresh_fd False fd1 w1" using shm_anon_run [OF r] by blast
  obtain fd2 w2 where d2: "comes_back (shm_named pl k) s fd2 w2" "ready (Suc (Suc 0)) w2" "fresh_fd False fd2 w2" using shm_named_run [OF r assms(5)] by blast
  obtain fd3 w3 where d3: "comes_back (CHERIOSTEST_CHECK_SYSCALL pl (k_memfd_create k ''cheriostest_memfd_create_anon_write_nocaps'') ''memfd_create(__func__, 0)'') s fd3 w3"
    "ready (Suc (Suc 0)) w3" "fresh_fd False fd3 w3" using memfd_run [OF r] by blast
  have two: "declares_success (vm_tag_shm_open_anon_shared2x pl k) s" "declares_success (vm_tag_shm_open_named_shared2x pl k) s"
    unfolding vm_tag_shm_open_anon_shared2x_def vm_tag_shm_open_named_shared2x_def
    using shared2x_test [OF assms(1,4) d1 assms(3)] shared2x_test [OF assms(1,4) d2 assms(3)] by simp_all
  have rd: "declares_success (bindP d (shm_open_read_nocaps pl k)) s" "declares_success (bindP d (shm_open_write_nocaps pl k)) s"
    if "comes_back d s fd w" "ready (Suc (Suc 0)) w" "fresh_fd False fd w" for d fd w
    using that assms(3) read_nocaps_passes [OF assms(1,4), of "Suc 0" "s\<lparr>p_world := w\<rparr>" fd]
      write_nocaps_passes [OF assms(1,4), of "Suc 0" "s\<lparr>p_world := w\<rparr>" fd] by (auto intro: with_fd)
  have nocaps: "declares_success (shm_open_anon_read_nocaps pl k) s" "declares_success (shm_open_named_read_nocaps pl k) s"
    "declares_success (shm_open_anon_write_nocaps pl k) s" "declares_success (shm_open_anon_shm pl k) s" "declares_success (memfd_create_anon_write_nocaps pl k) s"
    unfolding shm_open_anon_read_nocaps_def shm_open_named_read_nocaps_def shm_open_anon_write_nocaps_def shm_open_anon_shm_def memfd_create_anon_write_nocaps_def
    using rd [OF d1] rd [OF d2] rd [OF d3] assms(4) by simp_all
  have cow: "declares_success (cow_test pl k d (vm_cow_read pl k)) s" "declares_success (cow_test pl k d (vm_cow_write pl k)) s"
    if "comes_back d s fd w" "ready (Suc (Suc 0)) w" "fresh_fd False fd w" for d fd w
    using that assms(3) cow_read_run [OF assms(1,4), of 0 "s\<lparr>p_world := w\<rparr>" fd] cow_write_run [OF assms(1,4), of 0 "s\<lparr>p_world := w\<rparr>" fd]
    by (auto intro!: cow_test_passes)
  show ?thesis
    using two nocaps cow [OF d1] cow [OF d2]
    by (simp add: vm_cow_anon_read_def vm_cow_named_read_def vm_cow_anon_write_def vm_cow_named_write_def)
qed

lemma refused_shared:
  assumes "locals_ok pl k" "ready (Suc n) (p_world s)" "p_ccsp s \<noteq> None"
    and "fd = - 1 \<and> flags = [MAP_SHARED, MAP_ANON] \<or> fresh_fd isf fd (p_world s) \<and> flags = [MAP_SHARED]"
  shows "refused pl storetag (no_implied_cap pl k fd flags msg) s"
proof -
  let ?a = "\<lparr>ma_addr = (if fd = - 1 then cap_null pl else (cap_null pl)\<lparr>cap_addr := of_int fd\<rparr>),
     ma_len = k_pagesize k, ma_prot = [PROT_READ, PROT_WRITE], ma_flags = flags, ma_fd = fd\<rparr>"
  have ok: "mmap_ok pl (abs (p_world s)) ?a" "\<not> caps_allowed ?a" "fd = - 1 \<or> sp_fd (abs (p_world s)) fd \<noteq> None"
    using assms(4) by (auto simp: mmap_ok_def caps_allowed_def fresh_fd_def cap_null_def)
  show ?thesis
  proof (cases "drops_tags pl")
    case True
    then obtain w where "comes_back (mmap_and_check_tag_stored pl k fd [PROT_READ, PROT_WRITE] flags True) s () w"
      using tag_stored [OF assms(2) ok(1) _ ok(3)] ok(2) assms(1) by (auto simp: locals_ok_def)
    then show ?thesis using True comes_back_success [OF _ assms(3)] by (simp add: refused_def no_implied_cap_def del: block.simps)
  next
    case False
    then show ?thesis
      using tag_refused [OF assms(2) ok(1) _ _ ok(2) False, of False] assms(1)
      by (auto simp: refused_def no_implied_cap_def locals_ok_def bind_trapped)
  qed
qed

lemma refused_fd: "comes_back d s fd w \<Longrightarrow> refused pl storetag (f fd) (s\<lparr>p_world := w\<rparr>) \<Longrightarrow> refused pl storetag (bindP d f) s"
  by (cases "drops_tags pl") (simp_all add: refused_def declares_success_def comes_back_def bind_run)

lemma refused_truncated:
  assumes "locals_ok pl k" "comes_back d s fd w" "ready (Suc n) w" "fresh_fd isf fd w" "p_ccsp s \<noteq> None"
  shows "refused pl storetag (bindP d (\<lambda>fd. block [truncate_page pl k fd, no_implied_cap pl k fd [MAP_SHARED] msg])) s"
proof (rule refused_fd [OF assms(2)])
  obtain w1 where t: "comes_back (truncate_page pl k fd) (s\<lparr>p_world := w\<rparr>) () w1" "ready (Suc n) w1" "fresh_fd isf fd w1"
    using truncate_run [of "Suc n" "s\<lparr>p_world := w\<rparr>" isf fd] assms(3,4) by auto
  have "refused pl storetag (no_implied_cap pl k fd [MAP_SHARED] msg) (s\<lparr>p_world := w1\<rparr>)"
    by (rule refused_shared [OF assms(1), of n _ _ _ isf]) (use t assms(5) in auto)
  then show "refused pl storetag (block [truncate_page pl k fd, no_implied_cap pl k fd [MAP_SHARED] msg]) (s\<lparr>p_world := w\<rparr>)"
    using refused_fd [OF t(1), of "\<lambda>_. no_implied_cap pl k fd [MAP_SHARED] msg"] by simp
qed

text \<open>A store through a new mapping that may not hold capabilities, after the expected address has been noted.\<close>

lemma note_addr: "p_ccsp s \<noteq> None \<Longrightarrow> \<exists>ccs. cheriostest_set_expected_si_addr pl e s = (Return (), s\<lparr>p_ccsp := Some ccs\<rparr>)"
  by (auto simp: cheriostest_set_expected_si_addr_def)

lemma store_traps:
  assumes "points_into (abs (p_world s)) (k_pagesize k) c m" "mp_write m" "\<not> mp_caps m" "ready n (p_world s)" "locals_ok pl k" "p_ccsp s \<noteq> None" "\<not> drops_tags pl"
  shows "fst (block (cheriostest_set_expected_si_addr pl e # store_cap k c (local_cap pl k) # ps) s) = Trapped (storetag c)"
proof -
  obtain ccs where "cheriostest_set_expected_si_addr pl e s = (Return (), s\<lparr>p_ccsp := Some ccs\<rparr>)" using note_addr [OF assms(6)] by blast
  moreover obtain w where "k_store k c (local_cap pl k) (p_world s) = (Some (storetag c), w)"
    using store_fault_law [OF assms(4,1-3)] assms(5,7) by (auto simp: locals_ok_def)
  ultimately show ?thesis by (simp add: bindP_def store_cap_def)
qed

lemma store_drops:
  assumes "points_into (abs (p_world s)) (k_pagesize k) c m" "mp_write m" "ready n (p_world s)" "p_ccsp s \<noteq> None" "drops_tags pl"
  shows "\<exists>t. p_ccsp t \<noteq> None \<and> ready n (p_world t) \<and> abs (p_world t) = spec_store (abs (p_world s)) c (local_cap pl k) \<and>
      block (cheriostest_set_expected_si_addr pl e # store_cap k c (local_cap pl k) # ps) s = block ps t"
proof -
  obtain ccs where "cheriostest_set_expected_si_addr pl e s = (Return (), s\<lparr>p_ccsp := Some ccs\<rparr>)" using note_addr [OF assms(4)] by blast
  moreover obtain w where "k_store k c (local_cap pl k) (p_world s) = (None, w)" "ready n w" "abs w = spec_store (abs (p_world s)) c (local_cap pl k)"
    using store_law [OF assms(3,1,2)] assms(5) by blast
  ultimately show ?thesis by (intro exI [of _ "s\<lparr>p_ccsp := Some ccs, p_world := w\<rparr>"]) (simp add: bindP_def store_cap_def)
qed

text \<open>The body that ends with a message if the store comes through.\<close>

lemma tagged_store:
  assumes "points_into (abs (p_world s)) (k_pagesize k) c m" "mp_write m" "\<not> mp_caps m" "ready n (p_world s)" "locals_ok pl k" "p_ccsp s \<noteq> None"
  shows "if drops_tags pl
    then declares_failure (block [cheriostest_set_expected_si_addr pl e, store_cap k c (local_cap pl k), cheriostest_failure_errx pl msg []]) s
    else fst (block [cheriostest_set_expected_si_addr pl e, store_cap k c (local_cap pl k), cheriostest_failure_errx pl msg []] s) = Trapped (storetag c)"
proof (cases "drops_tags pl")
  case True
  from store_drops [OF assms(1,2,4,6) True, of e "[cheriostest_failure_errx pl msg []]"]
  obtain t where t: "p_ccsp t \<noteq> None" "block [cheriostest_set_expected_si_addr pl e, store_cap k c (local_cap pl k), cheriostest_failure_errx pl msg []] s =
      cheriostest_failure_errx pl msg [] t" by auto
  then show ?thesis using True declares_failure_errx [of pl msg "[]" t] unfolding declares_failure_def t(2) by simp
qed (use store_traps [OF assms, of e "[cheriostest_failure_errx pl msg []]"] in \<open>simp del: block.simps\<close>)

lemma notag_anon:
  assumes "locals_ok pl k" "ready (Suc n) (p_world s)" "p_ccsp s \<noteq> None" "k_PROT_NO_CAP k"
    and "test \<in> {vm_notag_mmap_no_cap pl k, vm_notag_mprotect_no_cap pl k}"
  shows "if drops_tags pl then declares_failure test s else (\<exists>c. fst (test s) = Trapped (storetag c))"
proof -
  let ?a = "null_mmap pl k [PROT_MAX [PROT_READ, PROT_WRITE, PROT_CAP], PROT_READ, PROT_WRITE, PROT_NO_CAP] (anon_flags pl) (- 1)"
  let ?b = "null_mmap pl k [PROT_READ, PROT_WRITE] (anon_flags pl) (- 1)"
  let ?body = "\<lambda>c. block [cheriostest_set_expected_si_addr pl (NULL_DERIVED_VOIDP pl c), store_cap k c (local_cap pl k), cheriostest_failure_errx pl ''tagged store succeeded'' []]"
  obtain c w m where r: "test s = ?body c (s\<lparr>p_world := w\<rparr>)" "points_into (abs w) (k_pagesize k) c m" "mp_write m" "\<not> mp_caps m" "ready n w"
  proof (cases "test = vm_notag_mmap_no_cap pl k")
    case True
    have ok: "mmap_ok pl (abs (p_world s)) ?a" by (auto simp: mmap_ok_def null_mmap_def cap_null_def anon_flags_def)
    obtain c w where m: "k_mmap k ?a (p_world s) = (Inr c, w)" "ready n w" "cap_tag c" "cap_addr c = cap_base c"
      "abs w = spec_mmap pl ?a (cap_base c) (abs (p_world s))"
      using mmap_law [OF assms(2) ok] by (auto simp: null_mmap_def)
    note mp = points_into_base [OF m(3,4) spec_mmap_map [of pl ?a "cap_base c" "abs (p_world s)", folded m(5)]]
    show thesis
      by (rule that [OF _ mp _ _ m(2)])
        (use True assms(4) m(1) in \<open>simp_all add: vm_notag_mmap_no_cap_def bind_run syscall_run null_mmap_def caps_allowed_def\<close>)
  next
    case False
    have ok: "mmap_ok pl (abs (p_world s)) ?b" by (auto simp: mmap_ok_def null_mmap_def cap_null_def anon_flags_def)
    obtain c w where m: "k_mmap k ?b (p_world s) = (Inr c, w)" "ready n w" "cap_tag c" "cap_addr c = cap_base c"
      "abs w = spec_mmap pl ?b (cap_base c) (abs (p_world s))"
      using mmap_law [OF assms(2) ok] by (auto simp: null_mmap_def)
    note mp = spec_mmap_map [of pl ?b "cap_base c" "abs (p_world s)", folded m(5)]
    obtain w' where p: "k_mprotect k c (k_pagesize k) [PROT_READ, PROT_WRITE, PROT_NO_CAP] w = (Inr (), w')" "ready n w'"
      "abs w' = spec_mprotect (cap_base c) [PROT_READ, PROT_WRITE, PROT_NO_CAP] (abs w)"
      using mprotect_law [OF m(2) _ m(3,4), of "[PROT_READ, PROT_WRITE, PROT_NO_CAP]"] mp by auto
    have "sp_map (abs w') (cap_base c) = Some ((the (sp_map (abs w) (cap_base c)))\<lparr>mp_write := True, mp_caps := False\<rparr>)"
      using p(3) by (simp add: spec_mprotect_def)
    note into = points_into_base [OF m(3,4) this]
    show thesis
      by (rule that [OF _ into _ _ p(2)])
        (use False assms(4,5) m(1) p(1) in \<open>simp_all add: vm_notag_mprotect_no_cap_def bind_run syscall_run\<close>)
  qed
  have "if drops_tags pl then declares_failure (?body c) (s\<lparr>p_world := w\<rparr>) else fst (?body c (s\<lparr>p_world := w\<rparr>)) = Trapped (storetag c)"
    by (rule tagged_store [of _ c m n]) (use r(2-5) assms(1,3) in simp_all)
  then show ?thesis using r(1) by (cases "drops_tags pl") (auto simp: declares_failure_def simp del: block.simps)
qed

lemma refused_tmpfile:
  assumes "locals_ok pl k" "ready (Suc (Suc n)) (p_world s)" "p_ccsp s \<noteq> None"
  shows "refused pl storetag (vm_notag_tmpfile_shared pl k) s"
proof -
  obtain fd w where d: "comes_back (create_tempfile pl k) s fd w" "ready (Suc n) w" "fresh_fd True fd w" using tempfile_run [OF assms(2)] by blast
  let ?a = "null_mmap pl k [PROT_READ, PROT_WRITE] [MAP_SHARED] fd"
  have ok: "mmap_ok pl (abs w) ?a" using d(3) by (auto simp: mmap_ok_def null_mmap_def cap_null_def fresh_fd_def)
  obtain c w1 where m: "k_mmap k ?a w = (Inr c, w1)" "ready n w1" "cap_tag c" "cap_addr c = cap_base c" "abs w1 = spec_mmap pl ?a (cap_base c) (abs w)"
    using mmap_law [OF d(2) ok] by (auto simp: null_mmap_def)
  note mp = spec_mmap_map [of pl ?a "cap_base c" "abs w", folded m(5)]
  let ?e = "NULL_DERIVED_VOIDP pl c" and ?t = "s\<lparr>p_world := w, p_world := w1\<rparr>"
  obtain m1 where into: "points_into (abs (p_world ?t)) (k_pagesize k) c m1" "mp_write m1" "\<not> mp_caps m1" "ready n (p_world ?t)" "p_ccsp ?t \<noteq> None"
    using points_into_base [OF m(3,4) mp] m(2) assms(3) by (simp add: null_mmap_def caps_allowed_def)
  show ?thesis
  proof (cases "drops_tags pl")
    case True
    let ?ps = "[bindP (load_cap k c) (\<lambda>cp_value. CHERIOSTEST_VERIFY2 pl (\<not> cheri_tag_get cp_value) ''tag not lost'' []), cheriostest_success]"
    obtain t where t: "p_ccsp t \<noteq> None" "ready n (p_world t)" "abs (p_world t) = spec_store (abs w1) c (local_cap pl k)"
      "block (cheriostest_set_expected_si_addr pl ?e # store_cap k c (local_cap pl k) # ?ps) ?t = block ?ps t"
      using store_drops [OF into(1,2,4,5) True, of ?e ?ps] by (auto simp del: block.simps)
    have v: "spec_load (abs (p_world t)) c = cheri_tag_clear (local_cap pl k)" "\<exists>m. points_into (abs (p_world t)) (k_pagesize k) c m"
      using spec_load_store [OF mp, of "local_cap pl k"] spec_store_dom [OF mp, of "local_cap pl k" "cap_base c"] mp t(3) m(3,4) page
      by (auto simp: null_mmap_def caps_allowed_def points_into_def)
    then obtain w2 where l: "comes_back (load_cap k c) t (cheri_tag_clear (local_cap pl k)) w2"
      using load_at [OF t(2), of c] by auto
    have "declares_success (block ?ps) t"
      using t(1) l by (auto simp: declares_success_def comes_back_def bindP_assoc bind_run bindP_VERIFY2 cheri_tag_get_def cheri_tag_clear_def cheriostest_success_def)
    then have "declares_success (vm_notag_tmpfile_shared pl k) s"
      using d(1) m(1) t(4) True unfolding declares_success_def
      by (simp add: vm_notag_tmpfile_shared_def comes_back_def bind_run syscall_run del: block.simps)
    then show ?thesis using True by (simp add: refused_def)
  next
    case False
    have "fst (block (cheriostest_set_expected_si_addr pl ?e # store_cap k c (local_cap pl k) # ps) ?t) = Trapped (storetag c)" for ps
      by (rule store_traps [OF into(1-4) assms(1) into(5) False])
    then have "fst (vm_notag_tmpfile_shared pl k s) = Trapped (storetag c)"
      using d(1) m(1) False by (simp add: vm_notag_tmpfile_shared_def comes_back_def bind_run syscall_run del: block.simps)
    then show ?thesis using False by (auto simp: refused_def)
  qed
qed

lemma refused_tests:
  assumes "locals_ok pl k" "ready 3 (p_world s)" "p_ccsp s \<noteq> None" "''/cheriostest_shm-'' \<notin> sp_names (abs (p_world s))"
  shows "list_all (\<lambda>p. refused pl storetag p s)
    [vm_tag_shm_open_named_shared_no_implied_cap pl k, vm_tag_shm_open_anon_shared_no_implied_cap pl k,
     vm_tag_anon_shared_no_implied_cap pl k, vm_tag_memfd_create_shared pl k, vm_notag_tmpfile_shared pl k]"
proof -
  have r: "ready (Suc (Suc 1)) (p_world s)" using assms(2) by (simp add: numeral_eq_Suc)
  obtain fd1 w1 where d1: "comes_back (shm_anon pl k) s fd1 w1" "ready (Suc 1) w1" "fresh_fd False fd1 w1" using shm_anon_run [OF r] by blast
  obtain fd2 w2 where d2: "comes_back (shm_named pl k) s fd2 w2" "ready (Suc 1) w2" "fresh_fd False fd2 w2" using shm_named_run [OF r assms(4)] by blast
  obtain fd3 w3 where d3: "comes_back (CHERIOSTEST_CHECK_SYSCALL pl (k_memfd_create k ''cheriostest_vm_tag_memfd_create_shared'') ''memfd_create(__func__, 0)'') s fd3 w3"
    "ready (Suc 1) w3" "fresh_fd False fd3 w3" using memfd_run [OF r] by blast
  have "refused pl storetag (vm_tag_anon_shared_no_implied_cap pl k) s"
    unfolding vm_tag_anon_shared_no_implied_cap_def by (rule refused_shared [OF assms(1) r assms(3)]) simp
  then show ?thesis
    using refused_truncated [OF assms(1) d1 assms(3)] refused_truncated [OF assms(1) d2 assms(3)] refused_truncated [OF assms(1) d3 assms(3)]
      refused_tmpfile [OF assms(1) r assms(3)]
    by (simp add: vm_tag_shm_open_named_shared_no_implied_cap_def vm_tag_shm_open_anon_shared_no_implied_cap_def vm_tag_memfd_create_shared_def)
qed

end

section \<open>The specification is a kernel\<close>

definition spec_address :: "nat \<Rightarrow> ptraddr" where
  "spec_address n = of_nat (65536 * Suc n)"

definition spec_storetag :: "cap \<Rightarrow> siginfo" where
  "spec_storetag c = \<lparr>si_signo = 11, si_code = 2, si_trapno = 0, si_addr = cheri_tag_clear c\<rparr>"

definition spec_new_fd :: "platform \<Rightarrow> bool \<Rightarrow> vmspec \<Rightarrow> int \<times> vmspec" where
  "spec_new_fd pl isf w = (int (sp_next w), spec_descriptor pl isf (int (sp_next w)) w)"

definition spec_pointer :: "platform \<Rightarrow> ptraddr \<Rightarrow> cap" where
  "spec_pointer pl a = \<lparr>cap_tag = True, cap_addr = a, cap_base = a, cap_len = 65536, cap_perms = CHERI_PERM_LOAD pl OR CHERI_PERM_STORE pl,
     cap_otype = CHERI_OTYPE_UNSEALED pl, cap_flags = 0\<rparr>"

definition spec_kernel :: "platform \<Rightarrow> cap \<Rightarrow> vmspec vmk" where
  "spec_kernel pl v = \<lparr>k_random = (\<lambda>w. (sp_next w, w)),
     k_shm_open = (\<lambda>name _ w. (case name of
         None \<Rightarrow> apfst Inr (spec_new_fd pl False w)
       | Some n \<Rightarrow> if n \<in> sp_names w then (Inl 17, w)
                   else (case spec_new_fd pl False w of (fd, w') \<Rightarrow> (Inr fd, w'\<lparr>sp_names := insert n (sp_names w)\<rparr>)))),
     k_shm_unlink = (\<lambda>n w. if n \<in> sp_names w then (Inr (), w\<lparr>sp_names := sp_names w - {n}\<rparr>) else (Inl 2, w)),
     k_memfd_create = (\<lambda>_ w. apfst Inr (spec_new_fd pl False w)),
     k_open = (\<lambda>_ w. apfst Inr (spec_new_fd pl False w)),
     k_mkstemp = (\<lambda>t w. apfst (\<lambda>fd. Inr (fd, t)) (spec_new_fd pl True w)),
     k_unlink = (\<lambda>_ w. (Inr (), w)),
     k_ftruncate = (\<lambda>fd _ w. if sp_fd w fd = None then (Inl 9, w) else (Inr (), w)),
     k_mmap = (\<lambda>a w. (Inr (spec_pointer pl (spec_address (sp_next w))), spec_mmap pl a (spec_address (sp_next w)) w)),
     k_munmap = (\<lambda>c _ w. (Inr (), spec_unmap (cap_base c) w)),
     k_mprotect = (\<lambda>c _ prot w. (Inr (), spec_mprotect (cap_base c) prot w)),
     k_close = (\<lambda>fd w. (Inr (), spec_close fd w)),
     k_store = (\<lambda>c x w. case sp_map w (cap_base c) of
         None \<Rightarrow> (Some (spec_storetag c), w)
       | Some m \<Rightarrow> if mp_write m \<and> (mp_caps m \<or> \<not> cap_tag x \<or> drops_tags pl) then (None, spec_store w c x) else (Some (spec_storetag c), w)),
     k_load = (\<lambda>c w. if sp_map w (cap_base c) = None then (Inl (spec_storetag c), w) else (Inr (spec_load w c), w)),
     k_touch = (\<lambda>c w. (if sp_map w (cap_base c) = None then Some (spec_storetag c) else None, w)),
     k_read = (\<lambda>fd w. (Inr (16, cheri_tag_clear (fd_cell w fd)), w\<lparr>sp_off := (sp_off w)(fd := 16)\<rparr>)),
     k_write = (\<lambda>fd c w. (Inr 16, spec_write fd c w)),
     k_pagesize = 4096, k_PROT_CAP = True, k_PROT_NO_CAP = True, k_local = v,
     EINVAL = 22, ENOMEM = 12, EACCES = 13, ENOTSUP = 45, EPROT = 35\<rparr>"

definition spec_ready :: "nat \<Rightarrow> vmspec \<Rightarrow> bool" where
  "spec_ready n w \<longleftrightarrow> sp_next w + n \<le> 1000 \<and> (\<forall>fd. int (sp_next w) \<le> fd \<longrightarrow> sp_fd w fd = None) \<and>
     (\<forall>a. sp_map w a \<noteq> None \<longrightarrow> (\<exists>j < sp_next w. a = spec_address j))"

lemma spec_address_inj: "i \<le> 1000 \<Longrightarrow> j \<le> 1000 \<Longrightarrow> spec_address i = spec_address j \<longleftrightarrow> i = j"
proof -
  have "unat (spec_address i) = 65536 * Suc i" if "i \<le> 1000" for i
    using that unfolding spec_address_def unat_of_nat by simp
  then show "i \<le> 1000 \<Longrightarrow> j \<le> 1000 \<Longrightarrow> ?thesis" by (metis Suc_inject mult_left_cancel zero_neq_numeral)
qed

lemma spec_ready_fd: "spec_ready (Suc n) w \<Longrightarrow> spec_ready n (spec_descriptor pl isf (int (sp_next w)) w) \<and> sp_fd w (int (sp_next w)) = None"
  by (auto simp: spec_ready_def spec_descriptor_def new_object_def) (meson less_SucI)+

lemma spec_ready_mmap: "spec_ready (Suc n) w \<Longrightarrow>
    spec_ready n (spec_mmap pl a (spec_address (sp_next w)) w) \<and> sp_map w (spec_address (sp_next w)) = None"
proof -
  assume r: "spec_ready (Suc n) w"
  have "sp_map w (spec_address (sp_next w)) = None"
  proof (rule ccontr)
    assume "sp_map w (spec_address (sp_next w)) \<noteq> None"
    then obtain j where "j < sp_next w" "spec_address (sp_next w) = spec_address j" using r by (auto simp: spec_ready_def)
    then show False using spec_address_inj [of "sp_next w" j] r by (simp add: spec_ready_def)
  qed
  moreover have "spec_ready n (spec_mmap pl a (spec_address (sp_next w)) w)"
    using r by (auto simp: spec_ready_def spec_mmap_def new_object_def Let_def split: if_splits) (meson less_SucI)+
  ultimately show ?thesis by simp
qed

lemma spec_kernel_contract:
  assumes "arch_representable pl = (\<lambda>_ _. True)"
  shows "vm_kernel pl (spec_kernel pl v) id spec_ready spec_storetag"
proof
  fix n w assume r: "spec_ready (Suc n) w"
  show "spec_ready n w" using r by (auto simp: spec_ready_def)
next
  show "spec_ready n w \<Longrightarrow> sp_map (id w) (cap_base c) \<noteq> None \<Longrightarrow> cap_tag c \<Longrightarrow> cap_addr c = cap_base c \<Longrightarrow> PROT_READ \<in> set prot \<Longrightarrow>
    \<exists>w'. k_mprotect (spec_kernel pl v) c (k_pagesize (spec_kernel pl v)) prot w = (Inr (), w') \<and> spec_ready n w' \<and> id w' = spec_mprotect (cap_base c) prot (id w)" for n w c prot
    by (auto simp: spec_kernel_def spec_ready_def spec_mprotect_def)
next
  show "spec_ready n w \<Longrightarrow> points_into (id w) (k_pagesize (spec_kernel pl v)) c m \<Longrightarrow> mp_write m \<Longrightarrow> mp_caps m \<or> \<not> cap_tag x \<or> drops_tags pl \<Longrightarrow>
    \<exists>w'. k_store (spec_kernel pl v) c x w = (None, w') \<and> spec_ready n w' \<and> id w' = spec_store (id w) c x" for n w c m x
    by (auto simp: spec_kernel_def spec_ready_def spec_store_def points_into_def Let_def split: if_splits)
next
  show "spec_ready (Suc n) w \<Longrightarrow> mmap_ok pl (id w) a \<Longrightarrow> ma_len a = k_pagesize (spec_kernel pl v) \<Longrightarrow>
      \<exists>c w'. k_mmap (spec_kernel pl v) a w = (Inr c, w') \<and> spec_ready n w' \<and> cap_tag c \<and> \<not> cheri_is_sealed pl c \<and> cap_addr c = cap_base c \<and>
        arch_representable pl c (cap_addr c + 16) \<and> sp_map (id w) (cap_base c) = None \<and>
        id w' = spec_mmap pl a (cap_base c) (id w)" for n w a
    using spec_ready_mmap [of n w pl a] assms by (simp add: spec_kernel_def spec_pointer_def cheri_is_sealed_def)
qed (use spec_ready_fd in \<open>auto simp: spec_kernel_def spec_new_fd_def spec_ready_def points_into_def spec_unmap_def spec_close_def spec_write_def Let_def drops_tags_def\<close>)

interpretation spec: vm_kernel morello_purecap "spec_kernel morello_purecap v" id spec_ready spec_storetag for v
  by (rule spec_kernel_contract) (simp add: morello_purecap_def)

section \<open>The properties\<close>

text \<open>The tests of mappings that keep tags, and of sharing, reading, writing and copying.\<close>

definition tag_tests :: "platform \<Rightarrow> 'k vmk \<Rightarrow> ('k, unit) prog list" where
  "tag_tests pl k =
     [vm_tag_mmap_anon pl k, vm_tag_mmap_anon_cap pl k, vm_tag_shm_open_anon_shared pl k, vm_tag_shm_open_anon_private pl k,
      vm_tag_shm_open_named_private pl k, vm_tag_dev_zero_shared pl k, vm_tag_dev_zero_private pl k, vm_tag_tmpfile_private pl k,
      vm_tag_tmpfile_private_prefault pl k] @
     [vm_tag_shm_open_anon_shared2x pl k, vm_tag_shm_open_named_shared2x pl k, shm_open_anon_read_nocaps pl k,
      shm_open_named_read_nocaps pl k, shm_open_anon_write_nocaps pl k, shm_open_anon_shm pl k, memfd_create_anon_write_nocaps pl k,
      vm_cow_anon_read pl k, vm_cow_named_read pl k, vm_cow_anon_write pl k, vm_cow_named_write pl k]"

definition notag_tests :: "platform \<Rightarrow> 'k vmk \<Rightarrow> ('k, unit) prog list" where
  "notag_tests pl k =
     [vm_tag_shm_open_named_shared_no_implied_cap pl k, vm_tag_shm_open_anon_shared_no_implied_cap pl k,
      vm_tag_anon_shared_no_implied_cap pl k, vm_tag_memfd_create_shared pl k, vm_notag_tmpfile_shared pl k]"


definition spec_start :: vmspec where
  "spec_start = \<lparr>sp_obj = (\<lambda>_. \<lparr>ob_file = False, ob_cell = \<lambda>_. cap_null morello_purecap\<rparr>), sp_next = 3, sp_names = {},
     sp_fd = (\<lambda>_. None), sp_off = (\<lambda>_. 0), sp_map = (\<lambda>_. None)\<rparr>"

definition local_example :: cap where
  "local_example = (spec_pointer morello_purecap 0x7000)"

lemma spec_start_ready: "spec_ready 3 spec_start" "''/cheriostest_shm-'' \<notin> sp_names (id spec_start)"
  by (simp_all add: spec_ready_def spec_start_def)

lemma spec_locals: "locals_ok morello_purecap (spec_kernel morello_purecap local_example)"
  by (simp add: locals_ok_def local_cap_def cheri_ptr_def spec_kernel_def local_example_def spec_pointer_def cheri_bounds_set_def
      morello_purecap_def cheri_is_sealed_def access_in_bounds_def cap_top_def)


text \<open>
  Two tests contradict the processor they run on: where storing a tagged capability without permission drops the tag
  instead of raising a signal, \<^verbatim>\<open>vm_notag_mmap_no_cap\<close> and \<^verbatim>\<open>vm_notag_mprotect_no_cap\<close> declare failure under every kernel that
  implements the specification; elsewhere they end in the fault they announce.
\<close>

theorem vm_notag_no_cap_verdict:
  assumes "vm_kernel pl k view ready storetag" "locals_ok pl k" "ready 3 (p_world s)" "p_ccsp s \<noteq> None" "k_PROT_NO_CAP k"
    and "test \<in> {vm_notag_mmap_no_cap pl k, vm_notag_mprotect_no_cap pl k}"
  shows "if drops_tags pl then declares_failure test s else (\<exists>c. fst (test s) = Trapped (storetag c))"
  using vm_kernel.notag_anon [OF assms(1,2) _ assms(4-6), of 2] assms(3) by (simp add: numeral_eq_Suc)

theorem vm_notag_no_cap_verdict_witness:
  "declares_failure (vm_notag_mmap_no_cap (morello_purecap\<lparr>pl_arch := RISCV_zcheripurecap\<rparr>)
     (spec_kernel (morello_purecap\<lparr>pl_arch := RISCV_zcheripurecap\<rparr>) local_example)) (fresh_process morello_purecap spec_start)"
proof -
  let ?pl = "morello_purecap\<lparr>pl_arch := RISCV_zcheripurecap\<rparr>"
  have "vm_kernel ?pl (spec_kernel ?pl local_example) id spec_ready spec_storetag"
    by (rule spec_kernel_contract) (simp add: morello_purecap_def)
  moreover have "locals_ok ?pl (spec_kernel ?pl local_example)"
    by (simp add: locals_ok_def local_cap_def cheri_ptr_def spec_kernel_def local_example_def spec_pointer_def cheri_bounds_set_def
        morello_purecap_def cheri_is_sealed_def access_in_bounds_def cap_top_def)
  moreover have "k_PROT_NO_CAP (spec_kernel ?pl local_example)" by (simp add: spec_kernel_def)
  ultimately show ?thesis
    using vm_notag_no_cap_verdict [of ?pl "spec_kernel ?pl local_example" id spec_ready spec_storetag "fresh_process morello_purecap spec_start"] spec_start_ready
    by (simp add: fresh_process_def drops_tags_def)
qed

section \<open>No kernel gets away with a lost tag\<close>

text \<open>
  For every kernel whatsoever, \<^verbatim>\<open>mmap_and_check_tag_stored\<close> comes back only if a load through the new mapping, right after the
  store, gave a capability with (or, where loss is expected, without) a tag; if the calls succeed and the tag is
  not as expected, it declares failure.
\<close>

theorem mmap_and_check_tag_stored_sound:
  assumes "k_mmap k \<lparr>ma_addr = (if fd = - 1 then cap_null pl else (cap_null pl)\<lparr>cap_addr := of_int fd\<rparr>),
       ma_len = k_pagesize k, ma_prot = prot, ma_flags = flags, ma_fd = fd\<rparr> (p_world s) = (Inr cp, w1)"
    and "k_store k cp (local_cap pl k) w1 = (None, w2)" "k_load k cp w2 = (Inr c, w3)" "p_ccsp s \<noteq> None"
  shows "((\<exists>t. mmap_and_check_tag_stored pl k fd prot flags loss s = (Return (), t)) \<longrightarrow> cap_tag c \<noteq> loss) \<and>
    (cap_tag c = loss \<longrightarrow> declares_failure (mmap_and_check_tag_stored pl k fd prot flags loss) s)"
proof -
  let ?rest = "only_if (fd \<noteq> - 1) [CHERIOSTEST_CHECK_SYSCALL pl (k_close k fd) ''close(fd)'']"
  let ?unmap = "CHERIOSTEST_CHECK_SYSCALL pl (k_munmap k cp (k_pagesize k)) ''munmap(__DEVOLATILE(void *, cp), getpagesize())''"
  have run: "mmap_and_check_tag_stored pl k fd prot flags loss s =
      block ([(if loss then CHERIOSTEST_VERIFY2 pl (\<not> cap_tag c) ''tag not lost'' [] else CHERIOSTEST_VERIFY2 pl (cap_tag c) ''tag lost'' []), ?unmap] @ ?rest)
        (s\<lparr>p_world := w3\<rparr>)"
    unfolding mmap_and_check_tag_stored_def using assms(1-3)
    by (simp add: bind_run syscall_run store_cap_def load_cap_def cheri_tag_get_def del: block.simps)
  have fail: "mmap_and_check_tag_stored pl k fd prot flags loss s =
      cheriostest_failure_errx pl (if loss then ''tag not lost'' else ''tag lost'') [] (s\<lparr>p_world := w3\<rparr>)" if "cap_tag c = loss"
    unfolding run using that by (simp add: bindP_VERIFY2)
  show ?thesis
    using fail assms(4) declares_failure_errx [of pl "if loss then ''tag not lost'' else ''tag lost''" "[]" "s\<lparr>p_world := w3\<rparr>"]
    by (cases "cap_tag c = loss") (auto simp: declares_failure_def cheriostest_failure_errx_def)
qed

text \<open>A kernel that loses tags when memory is read.\<close>

theorem mmap_and_check_tag_stored_sound_witness:
  "declares_failure (mmap_and_check_tag_stored morello_purecap
     ((spec_kernel morello_purecap local_example)\<lparr>k_load := \<lambda>c w. (Inr (cheri_tag_clear (spec_load w c)), w)\<rparr>)
     (- 1) [PROT_READ, PROT_WRITE] [MAP_ANON] False) (fresh_process morello_purecap spec_start)"
proof -
  let ?k = "(spec_kernel morello_purecap local_example)\<lparr>k_load := \<lambda>c w. (Inr (cheri_tag_clear (spec_load w c)), w)\<rparr>"
  let ?a = "\<lparr>ma_addr = (if (- 1 :: int) = - 1 then cap_null morello_purecap else (cap_null morello_purecap)\<lparr>cap_addr := of_int (- 1)\<rparr>),
     ma_len = k_pagesize ?k, ma_prot = [PROT_READ, PROT_WRITE], ma_flags = [MAP_ANON], ma_fd = - 1\<rparr>"
  let ?cp = "spec_pointer morello_purecap (spec_address 3)" and ?w1 = "spec_mmap morello_purecap ?a (spec_address 3) spec_start"
  have "k_mmap ?k ?a spec_start = (Inr ?cp, ?w1)" by (simp add: spec_kernel_def spec_start_def)
  moreover have "\<exists>w2. k_store ?k ?cp (local_cap morello_purecap ?k) ?w1 = (None, w2)"
    using spec_mmap_map [of morello_purecap ?a "spec_address 3" spec_start] by (simp add: spec_kernel_def spec_pointer_def caps_allowed_def)
  ultimately show ?thesis
    using mmap_and_check_tag_stored_sound [of ?k "- 1" morello_purecap "[PROT_READ, PROT_WRITE]" "[MAP_ANON]" "fresh_process morello_purecap spec_start" ?cp ?w1 _ _ _ False]
    by (fastforce simp: fresh_process_def cheri_tag_clear_def)
qed

end
