(* ===== verification/Vm_Reservations.thy ===== *)
theory Vm_Reservations
  imports Vm_Tags Address_Gap
begin

text \<open>
  The tests of \<^verbatim>\<open>cheriostest_vm.c\<close> about reservations: mappings whose length has to be padded, requests at fixed addresses,
  hints that are not NULL-derived, capabilities without the permission to change mappings, large pages. They look at the
  result of \<^verbatim>\<open>mmap\<close> and at \<^verbatim>\<open>errno\<close>.
\<close>

section \<open>Helpers\<close>

text \<open>
  Beside the kernel: a capability to a global, the program counter, the exponent \<^verbatim>\<open>CHERI_ALIGN_SHIFT\<close> of the system's headers, the
  mappings of the process, the \<^verbatim>\<open>sysctl\<close> on quarantined reservations and the call that starts revocation.
\<close>

record 'k resv_env =
  re_kernel :: "'k vmk"
  re_bufferp :: cap
  re_pcc :: cap
  CHERI_ALIGN_SHIFT :: "uintmax \<Rightarrow> nat"
  re_procstat :: procstat
  re_uninit :: vmentry
  re_maps :: "string list option"
  re_quarantine :: "int + nat"
  re_get_shadow :: "('k, unit) sys"
  ENOENT :: int
  page_shift :: nat

definition PAGE_SIZE :: "'k resv_env \<Rightarrow> nat" where "PAGE_SIZE re = k_pagesize (re_kernel re)"

definition find_address_space_gap :: "platform \<Rightarrow> 'k resv_env \<Rightarrow> nat \<Rightarrow> ('k, ptraddr) prog" where
  "find_address_space_gap pl re n =
     (if is_FreeBSD pl then find_address_space_gap_FreeBSD pl (re_procstat re) (of_nat n) 0
      else find_address_space_gap_linux pl (re_uninit re) (re_maps re) (of_nat n) 0)"

definition mmap_call :: "'k resv_env \<Rightarrow> cap \<Rightarrow> nat \<Rightarrow> prot list \<Rightarrow> mapflag list \<Rightarrow> int \<Rightarrow> ('k, cap) sys" where
  "mmap_call re addr n prot flags fd =
     k_mmap (re_kernel re) \<lparr>ma_addr = addr, ma_len = n, ma_prot = prot, ma_flags = flags, ma_fd = fd\<rparr>"

definition checked_mmap :: "platform \<Rightarrow> 'k resv_env \<Rightarrow> cap \<Rightarrow> nat \<Rightarrow> prot list \<Rightarrow> mapflag list \<Rightarrow> int \<Rightarrow> ('k, cap) prog" where
  "checked_mmap pl re addr n prot flags fd = CHERIOSTEST_CHECK_SYSCALL pl (mmap_call re addr n prot flags fd) ''mmap''"

text \<open>A call of \<^verbatim>\<open>mmap\<close> that must fail with a given \<^verbatim>\<open>errno\<close>: the two checks that follow it, and the end of the test.\<close>

definition mmap_must_fail ::
  "platform \<Rightarrow> 'k resv_env \<Rightarrow> cap \<Rightarrow> nat \<Rightarrow> prot list \<Rightarrow> mapflag list \<Rightarrow> string \<Rightarrow> int \<Rightarrow> string \<Rightarrow> ('k, unit) prog" where
  "mmap_must_fail pl re addr n prot flags msg err errno_msg =
     bindP (raw_call (mmap_call re addr n prot flags (- 1))) (\<lambda>map.
     bindP get_errno (\<lambda>errno. block
       [CHERIOSTEST_VERIFY2 pl (map = None) msg [],
        CHERIOSTEST_VERIFY2 pl (errno = err) errno_msg [FInt errno],
        cheriostest_success]))"

definition null_derived :: "platform \<Rightarrow> ptraddr \<Rightarrow> cap" where
  "null_derived pl a = (cap_null pl)\<lparr>cap_addr := a\<rparr>"

text \<open>The loop of \<^verbatim>\<open>get_unrepresentable_length\<close> as a statement.\<close>

definition unrepresentable_length :: "platform \<Rightarrow> 'k resv_env \<Rightarrow> ('k, uintmax) prog" where
  "unrepresentable_length pl re =
     (case get_unrepresentable_length pl (page_shift re) of Some n \<Rightarrow> ret n | None \<Rightarrow> (\<lambda>s. (Undefined, s)))"

section \<open>Padding\<close>

definition vm_sw_perm_on_capreloc :: "platform \<Rightarrow> 'k resv_env \<Rightarrow> ('k, unit) prog" where
  "vm_sw_perm_on_capreloc pl re = block
     [CHERIOSTEST_VERIFY pl (cheri_tag_get (re_bufferp re)) ''cheri_tag_get(test_bufferp)'',
      CHERIOSTEST_VERIFY pl (cheri_perms_get (re_bufferp re) AND CHERI_PERM_SW_VMEM pl = 0)
        ''(cheri_perms_get(test_bufferp) & CHERI_PERM_SW_VMEM) == 0'',
      cheriostest_success]"

definition touch :: "'k resv_env \<Rightarrow> cap \<Rightarrow> ('k, unit) prog" where
  "touch re c = (\<lambda>s.
     case k_touch (re_kernel re) c (p_world s) of
       (Some i, w) \<Rightarrow> (Trapped i, s\<lparr>p_world := w\<rparr>)
     | (None, w) \<Rightarrow> (Return (), s\<lparr>p_world := w\<rparr>))"

definition vm_reservation_access_fault :: "platform \<Rightarrow> 'k resv_env \<Rightarrow> ('k, unit) prog" where
  "vm_reservation_access_fault pl re =
     bindP (unrepresentable_length pl re) (\<lambda>n.
     let expected_len = cheri_representable_length pl n in
     bindP (CHERIOSTEST_VERIFY2 pl (expected_len > round_page (PAGE_SIZE re) n)
       ''test precondition failed: padding for length (%lx) must exceed one page, found %lx'' [FWord n, FWord expected_len]) (\<lambda>_.
     bindP (checked_mmap pl re (cap_null pl) (unat n) [PROT_READ, PROT_WRITE] (anon_flags pl) (- 1)) (\<lambda>map. block
       [CHERIOSTEST_VERIFY2 pl (cheri_tag_get map)
          ''mmap() failed to return a pointer when given unrepresentable length (%zu)'' [FWord n],
        CHERIOSTEST_VERIFY2 pl (cheri_length_get map = expected_len)
          ''mmap() returned a pointer with an unrepresentable length (%zu vs %zu): %#p'' [FWord (cheri_length_get map), FWord expected_len, FPtr map],
        touch re (cheri_offset_increment pl map (expected_len - 4)),
        cheriostest_failure_errx pl ''reservation padding access allowed'' []])))"

definition vm_reservation_align :: "platform \<Rightarrow> 'k resv_env \<Rightarrow> ('k, unit) prog" where
  "vm_reservation_align pl re =
     bindP (unrepresentable_length pl re) (\<lambda>n.
     let align_mask = CHERITEST_CHERI_ALIGN_MASK pl n; align_shift = CHERI_ALIGN_SHIFT re n in
     bindP (checked_mmap pl re (cap_null pl) (unat n) [PROT_READ, PROT_WRITE] (anon_flags pl) (- 1)) (\<lambda>map.
     bindP (CHERIOSTEST_VERIFY2 pl (cheri_address_get map AND align_mask = 0) ''mmap failed to align representable region for %p'' [FPtr map]) (\<lambda>_.
     (if is_FreeBSD pl then
        bindP (checked_mmap pl re (cap_null pl) (unat n) [PROT_READ, PROT_WRITE] [MAP_ANON, MAP_ALIGNED (align_shift - 1)] (- 1)) (\<lambda>map.
        bindP (CHERIOSTEST_VERIFY2 pl (cheri_address_get map AND align_mask = 0)
          ''mmap failed to align representable region with requested alignment %lx for %p'' [FInt (int align_shift - 1), FPtr map]) (\<lambda>_.
        bindP (checked_mmap pl re (cap_null pl) (unat n) [PROT_READ, PROT_WRITE] [MAP_ANON, MAP_ALIGNED (align_shift + 1)] (- 1)) (\<lambda>map. block
          [CHERIOSTEST_VERIFY2 pl (cheri_address_get map AND (2 ^ (align_shift + 1) - 1) = 0)
             ''mmap failed to align representable region with requested alignment %lx for %p'' [FInt (int align_shift + 1), FPtr map],
           cheriostest_success])))
      else cheriostest_success))))"

definition vm_reservation_mmap_shared :: "platform \<Rightarrow> 'k resv_env \<Rightarrow> int \<Rightarrow> ('k, unit) prog" where
  "vm_reservation_mmap_shared pl re fd =
     bindP (unrepresentable_length pl re) (\<lambda>n.
     let align_mask = CHERITEST_CHERI_ALIGN_MASK pl n; expected_len = cheri_representable_length pl n in
     bindP (CHERIOSTEST_CHECK_SYSCALL pl (k_ftruncate (re_kernel re) fd (unat n)) ''ftruncate(fd, len)'') (\<lambda>_.
     bindP (checked_mmap pl re (cap_null pl) (unat n) [PROT_READ, PROT_WRITE] [MAP_SHARED] fd) (\<lambda>map. block
       [CHERIOSTEST_VERIFY2 pl (cheri_address_get map AND align_mask = 0) ''mmap failed to align shared regiont for representability'' [],
        CHERIOSTEST_VERIFY2 pl (cheri_length_get map = expected_len) ''mmap returned pointer with unrepresentable length'' [],
        cheriostest_success])))"

definition vm_reservation_mmap_shared_shm_open :: "platform \<Rightarrow> 'k resv_env \<Rightarrow> ('k, unit) prog" where
  "vm_reservation_mmap_shared_shm_open pl re = bindP (shm_anon pl (re_kernel re)) (vm_reservation_mmap_shared pl re)"

definition vm_reservation_mmap_shared_memfd_open :: "platform \<Rightarrow> 'k resv_env \<Rightarrow> ('k, unit) prog" where
  "vm_reservation_mmap_shared_memfd_open pl re =
     bindP (CHERIOSTEST_CHECK_SYSCALL pl (k_memfd_create (re_kernel re) ''cheriostest_vm_reservation_mmap_shared_memfd_open'') ''memfd_create(__func__, 0)'')
       (vm_reservation_mmap_shared pl re)"

section \<open>Reuse\<close>

definition vm_reservation_reuse :: "platform \<Rightarrow> 'k resv_env \<Rightarrow> ('k, unit) prog" where
  "vm_reservation_reuse pl re =
     bindP (checked_mmap pl re (cap_null pl) (PAGE_SIZE re * 2) [PROT_READ, PROT_WRITE] (anon_flags pl) (- 1)) (\<lambda>map.
     bindP (CHERIOSTEST_VERIFY2 pl (cheri_tag_get map) ''mmap() failed to return a pointer'' []) (\<lambda>_.
     bindP (CHERIOSTEST_CHECK_SYSCALL pl (k_munmap (re_kernel re) (cheri_offset_increment pl map (of_nat (PAGE_SIZE re))) (PAGE_SIZE re)) ''munmap'') (\<lambda>_.
     bindP (raw_call (mmap_call re (null_derived pl (cheri_address_get map + of_nat (PAGE_SIZE re))) (PAGE_SIZE re * 2)
       [PROT_READ, PROT_WRITE] (anon_flags pl @ [MAP_FIXED]) (- 1))) (\<lambda>map2.
     bindP get_errno (\<lambda>errno.
     (if map2 = None then block
        [CHERIOSTEST_VERIFY2 pl (errno = ENOMEM (re_kernel re)) ''Unexpected errno %d instead of ENOMEM'' [FInt errno], cheriostest_success]
      else cheriostest_failure_errx pl ''mmap over reservation succeeded'' []))))))"

definition reservations_are_quarantined :: "platform \<Rightarrow> 'k resv_env \<Rightarrow> ('k, bool) prog" where
  "reservations_are_quarantined pl re =
     (case re_quarantine re of
        Inl e \<Rightarrow> (\<lambda>s. (if e = ENOENT re then ret False
           else cheriostest_failure_err pl ''sysctlbyname(vm.cheri_revoke.quarantine_unmapped_reservations)'' []) (s\<lparr>p_errno := e\<rparr>))
      | Inr v \<Rightarrow> ret (v \<noteq> 0))"

definition vm_reservation_mmap_after_free_fixed :: "platform \<Rightarrow> 'k resv_env \<Rightarrow> ('k, unit) prog" where
  "vm_reservation_mmap_after_free_fixed pl re =
     bindP (CHERIOSTEST_CHECK_SYSCALL pl (re_get_shadow re) ''cheri_revoke_get_shadow'') (\<lambda>_.
     bindP (checked_mmap pl re (cap_null pl) (PAGE_SIZE re) [PROT_READ, PROT_WRITE] [MAP_ANON] (- 1)) (\<lambda>map.
     bindP (CHERIOSTEST_CHECK_SYSCALL pl (k_munmap (re_kernel re) map (PAGE_SIZE re)) ''munmap((char *)map, CHERITEST_PAGE_SIZE)'') (\<lambda>_.
     bindP (raw_call (mmap_call re map (PAGE_SIZE re) [PROT_READ, PROT_WRITE] [MAP_ANON, MAP_FIXED] (- 1))) (\<lambda>map.
     bindP (CHERIOSTEST_VERIFY2 pl (map = None) ''mmap after free succeeded'' []) (\<lambda>_.
     bindP (reservations_are_quarantined pl re) (\<lambda>quarantined.
     bindP get_errno (\<lambda>errno. block
       [(if quarantined
         then CHERIOSTEST_VERIFY2 pl (errno = ENOMEM (re_kernel re)) ''mmap after free failed with %d instead of ENOMEM'' [FInt errno]
         else CHERIOSTEST_VERIFY2 pl (errno = EPROT (re_kernel re)) ''mmap after free failed with %d instead of EPROT'' [FInt errno]),
        cheriostest_success])))))))"

definition vm_reservation_mmap_after_free :: "platform \<Rightarrow> 'k resv_env \<Rightarrow> ('k, unit) prog" where
  "vm_reservation_mmap_after_free pl re =
     bindP (checked_mmap pl re (cap_null pl) (PAGE_SIZE re) [PROT_READ, PROT_WRITE] [MAP_ANON] (- 1)) (\<lambda>map.
     bindP (CHERIOSTEST_CHECK_SYSCALL pl (k_munmap (re_kernel re) map (PAGE_SIZE re)) ''munmap((char *)map, CHERITEST_PAGE_SIZE)'') (\<lambda>_.
     mmap_must_fail pl re map (PAGE_SIZE re) [PROT_READ, PROT_WRITE] [MAP_ANON] ''mmap after free succeeded''
       (EPROT (re_kernel re)) ''mmap after free failed with %d instead of EPROT''))"

section \<open>Hints\<close>

definition invalid_hint :: "platform \<Rightarrow> 'k resv_env \<Rightarrow> cap" where
  "invalid_hint pl re = cheri_tag_clear (cheri_address_set pl (re_pcc re) 0x4300beef)"

definition vm_mmap_invalid_cap :: "platform \<Rightarrow> 'k resv_env \<Rightarrow> ('k, unit) prog" where
  "vm_mmap_invalid_cap pl re = mmap_must_fail pl re (invalid_hint pl re) (PAGE_SIZE re) [PROT_READ, PROT_WRITE] [MAP_ANON]
     ''mmap with invalid capability succeeded'' (EINVAL (re_kernel re)) ''mmap with invalid capability failed with %d instead of EINVAL''"

definition vm_mmap_invalid_cap_fixed :: "platform \<Rightarrow> 'k resv_env \<Rightarrow> ('k, unit) prog" where
  "vm_mmap_invalid_cap_fixed pl re = mmap_must_fail pl re (invalid_hint pl re) (PAGE_SIZE re) [PROT_READ, PROT_WRITE]
     (anon_flags pl @ [MAP_FIXED])
     ''mmap with invalid capability succeeded'' (EINVAL (re_kernel re)) ''mmap with invalid capability failed with %d instead of EINVAL''"

definition vm_reservation_mmap_invalid_cap :: "platform \<Rightarrow> 'k resv_env \<Rightarrow> ('k, unit) prog" where
  "vm_reservation_mmap_invalid_cap pl re =
     bindP (checked_mmap pl re (cap_null pl) (PAGE_SIZE re) [PROT_READ, PROT_WRITE] (anon_flags pl) (- 1)) (\<lambda>map.
     mmap_must_fail pl re (cheri_tag_clear map) (PAGE_SIZE re) [PROT_READ, PROT_WRITE] (anon_flags pl)
       ''mmap with invalid capability succeeded'' (EINVAL (re_kernel re)) ''mmap with invalid capability failed with %d instead of EINVAL'')"

definition vm_reservation_mmap :: "platform \<Rightarrow> 'k resv_env \<Rightarrow> ('k, unit) prog" where
  "vm_reservation_mmap pl re =
     bindP (find_address_space_gap pl re (PAGE_SIZE re)) (\<lambda>hint.
     bindP (checked_mmap pl re (null_derived pl hint) (PAGE_SIZE re) [PROT_READ, PROT_WRITE] (anon_flags pl) (- 1)) (\<lambda>map. block
       [CHERIOSTEST_VERIFY2 pl (cheri_tag_get map) ''mmap with null-derived hint failed to return valid capability'' [],
        cheriostest_success]))"

definition vm_reservation_mmap_fixed_unreserved :: "platform \<Rightarrow> 'k resv_env \<Rightarrow> ('k, unit) prog" where
  "vm_reservation_mmap_fixed_unreserved pl re =
     bindP (find_address_space_gap pl re (PAGE_SIZE re * 2)) (\<lambda>hint.
     bindP (checked_mmap pl re (null_derived pl (hint + of_nat (PAGE_SIZE re))) (PAGE_SIZE re) [PROT_MAX [PROT_READ, PROT_WRITE]]
       (anon_flags pl @ [MAP_FIXED]) (- 1)) (\<lambda>map.
     bindP (CHERIOSTEST_VERIFY2 pl (cheri_tag_get map) ''mmap fixed with NULL-derived hint failed to return valid capability'' []) (\<lambda>_.
     mmap_must_fail pl re (null_derived pl hint) (2 * PAGE_SIZE re) [PROT_READ, PROT_WRITE] (anon_flags pl @ [MAP_FIXED])
       ''mmap fixed with NULL-derived hint does not imply MAP_EXCL'' (ENOMEM (re_kernel re))
       ''mmap fixed with NULL-derived hint failed with %d instead of ENOMEM'')))"

text \<open>A reservation of three pages without access.\<close>

definition guard_mmap :: "platform \<Rightarrow> 'k resv_env \<Rightarrow> ('k, cap) prog" where
  "guard_mmap pl re = checked_mmap pl re (cap_null pl) (3 * PAGE_SIZE re) [PROT_MAX [PROT_READ, PROT_WRITE]]
     (if is_FreeBSD pl then [MAP_GUARD] else [MAP_ANON, MAP_PRIVATE]) (- 1)"

definition vm_reservation_mmap_insert_null_derived :: "platform \<Rightarrow> 'k resv_env \<Rightarrow> ('k, unit) prog" where
  "vm_reservation_mmap_insert_null_derived pl re =
     bindP (guard_mmap pl re) (\<lambda>map.
     bindP (CHERIOSTEST_VERIFY2 pl (cheri_tag_get map) ''mmap failed to return valid capability'' []) (\<lambda>_.
     mmap_must_fail pl re (null_derived pl (cheri_address_get map)) (PAGE_SIZE re) [PROT_READ, PROT_WRITE] [MAP_ANON, MAP_FIXED, MAP_PRIVATE]
       ''mmap fixed with NULL-derived hint succeded'' (ENOMEM (re_kernel re))
       ''mmap fixed with NULL-derived hint failed with %d instead of ENOMEM''))"

text \<open>The result of the second call is dropped, and the first pointer is checked again.\<close>

definition vm_reservation_mmap_fixed_insert :: "platform \<Rightarrow> 'k resv_env \<Rightarrow> ('k, unit) prog" where
  "vm_reservation_mmap_fixed_insert pl re =
     bindP (guard_mmap pl re) (\<lambda>map.
     bindP (CHERIOSTEST_VERIFY2 pl (cheri_tag_get map) ''mmap failed to return valid capability'' []) (\<lambda>_.
     bindP (CHERIOSTEST_VERIFY2 pl (cheri_perms_get map AND CHERI_PERM_SW_VMEM pl \<noteq> 0) ''mmap failed to return capability with VMEM perm'' []) (\<lambda>_.
     bindP (checked_mmap pl re (cheri_offset_increment pl map (of_nat (PAGE_SIZE re))) (PAGE_SIZE re) [PROT_READ, PROT_WRITE]
       [MAP_ANON, MAP_FIXED, MAP_PRIVATE] (- 1)) (\<lambda>_. block
       [CHERIOSTEST_VERIFY2 pl (cheri_tag_get map) ''mmap fixed failed to return valid capability'' [], cheriostest_success]))))"

definition vm_reservation_mmap_fixed_insert_noperm :: "platform \<Rightarrow> 'k resv_env \<Rightarrow> ('k, unit) prog" where
  "vm_reservation_mmap_fixed_insert_noperm pl re =
     bindP (guard_mmap pl re) (\<lambda>map.
     bindP (CHERIOSTEST_VERIFY2 pl (cheri_tag_get map) ''mmap failed to return valid capability'' []) (\<lambda>_.
     bindP (CHERIOSTEST_VERIFY2 pl (cheri_perms_get map AND CHERI_PERM_SW_VMEM pl \<noteq> 0) ''mmap failed to return capability with VMEM perm'' []) (\<lambda>_.
     (let not_enough_perm = cheri_perms_and pl map (NOT (CHERI_PERM_SW_VMEM pl)) in
      mmap_must_fail pl re (cheri_offset_increment pl not_enough_perm (of_nat (PAGE_SIZE re))) (PAGE_SIZE re) [PROT_READ, PROT_WRITE]
        [MAP_ANON, MAP_FIXED, MAP_PRIVATE] ''mmap fixed with capability missing VMEM perm succeeds'' (EACCES (re_kernel re))
        ''mmap fixed with capability missing VMEM perm failed with %d instead of EACCES''))))"

section \<open>Large pages\<close>

text \<open>
  One page size (the flag \<^verbatim>\<open>MAP_HUGETLB\<close> carries it to the kernel as the exponent): map it, look at the capability, store and load capabilities at its beginning, middle and end.\<close>

definition store_and_check :: "platform \<Rightarrow> 'k resv_env \<Rightarrow> cap \<Rightarrow> ('k, unit) prog" where
  "store_and_check pl re c =
     bindP (store_cap (re_kernel re) c (k_local (re_kernel re))) (\<lambda>_.
     bindP (load_cap (re_kernel re) c) (\<lambda>v. CHERIOSTEST_VERIFY2 pl (cheri_tag_get v) ''tag lost'' []))"

definition large_page_checks :: "platform \<Rightarrow> 'k resv_env \<Rightarrow> nat \<Rightarrow> uintmax \<Rightarrow> cap \<Rightarrow> ('k, unit) prog" where
  "large_page_checks pl re psind sz addr =
     (let perms = CHERI_PERM_LOAD pl OR CHERI_PERM_STORE pl in block
        [CHERIOSTEST_VERIFY2 pl (cheri_tag_get addr) ''mmap invalid capability for psind=%d'' [FInt (int psind)],
         CHERIOSTEST_VERIFY2 pl (cheri_length_get addr = sz) ''mmap wrong capability length for psind=%d expected %jx found %jx''
           [FInt (int psind), FWord sz, FWord (cheri_length_get addr)],
         CHERIOSTEST_VERIFY2 pl (cheri_perms_get addr AND perms = perms) ''mmap missing permission expected %jx found %jx''
           [FWord perms, FWord (cheri_perms_get addr)],
         store_and_check pl re addr,
         store_and_check pl re (cheri_offset_increment pl addr (sz div 2)),
         store_and_check pl re (cheri_offset_increment pl addr (sz - of_nat (PAGE_SIZE re))),
         CHERIOSTEST_CHECK_SYSCALL pl (k_munmap (re_kernel re) addr (unat sz)) ''munmap(addr, ps[psind])''])"

definition large_page_round :: "platform \<Rightarrow> 'k resv_env \<Rightarrow> nat \<Rightarrow> uintmax \<Rightarrow> ('k, unit) prog" where
  "large_page_round pl re psind sz =
     (if sz \<ge> 2 ^ 30 then ret ()
      else if \<not> k_PROT_CAP (re_kernel re) then no_PROT_CAP pl
      else bindP (checked_mmap pl re (cap_null pl) (unat sz) [PROT_READ, PROT_WRITE, PROT_CAP] [MAP_ANON, MAP_SHARED, MAP_HUGETLB (unat sz)] (- 1))
        (large_page_checks pl re psind sz))"

text \<open>The loop over the page sizes, from a given index.\<close>

fun large_page_rounds :: "(nat \<Rightarrow> uintmax \<Rightarrow> ('k, unit) prog) \<Rightarrow> nat \<Rightarrow> uintmax list \<Rightarrow> ('k, unit) prog" where
  "large_page_rounds round psind [] = ret ()"
| "large_page_rounds round psind (sz # szs) = bindP (round psind sz) (\<lambda>_. large_page_rounds round (Suc psind) szs)"

definition vm_large_pages_basic_linux ::
  "platform \<Rightarrow> 'k resv_env \<Rightarrow> string list \<Rightarrow> (uintmax \<Rightarrow> nat option option) \<Rightarrow> ('k, unit) prog" where
  "vm_large_pages_basic_linux pl re entries pool =
     bindP (get_pagesizes pl entries) (\<lambda>ps. block
       [check_hugepages_pool pl pool ps, large_page_rounds (large_page_round pl re) 0 ps, cheriostest_success])"

text \<open>
  On CheriBSD the sizes come from \<^verbatim>\<open>getpagesizes\<close> (\<open>None\<close> is -1) and the pages from a shared memory object; the smallest size, of index 0, is
  left out.
\<close>

definition get_pagesizes_FreeBSD :: "platform \<Rightarrow> 'k resv_env \<Rightarrow> uintmax list option \<Rightarrow> ('k, uintmax list) prog" where
  "get_pagesizes_FreeBSD pl re sizes =
     bindP (CHERIOSTEST_VERIFY2 pl (sizes \<noteq> None) ''failed to get pagesizes'' []) (\<lambda>_.
     (case the sizes of
        [] \<Rightarrow> (\<lambda>s. (Undefined, s))
      | p # ps \<Rightarrow> bindP (CHERIOSTEST_VERIFY2 pl (p = of_nat (PAGE_SIZE re)) ''psind 0 is not CHERITEST_PAGE_SIZE'' []) (\<lambda>_. ret (p # ps))))"

definition large_page_round_FreeBSD :: "platform \<Rightarrow> 'k resv_env \<Rightarrow> (nat \<Rightarrow> ('k, int) sys) \<Rightarrow> nat \<Rightarrow> uintmax \<Rightarrow> ('k, unit) prog" where
  "large_page_round_FreeBSD pl re shm_create_largepage psind sz =
     (if sz \<ge> 2 ^ 30 then ret ()
      else bindP (raw_call (shm_create_largepage psind)) (\<lambda>r. bindP get_errno (\<lambda>errno.
        (let fd = (case r of None \<Rightarrow> - 1 | Some fd \<Rightarrow> fd) in
         bindP (CHERIOSTEST_VERIFY2 pl (fd \<ge> 0) ''Failed to create largepage SHM fd psind=%d errno=%d'' [FInt (int psind), FInt errno]) (\<lambda>_.
         bindP (CHERIOSTEST_CHECK_SYSCALL pl (k_ftruncate (re_kernel re) fd (unat sz)) ''ftruncate(fd, ps[psind])'') (\<lambda>_.
         bindP (checked_mmap pl re (cap_null pl) (unat sz) [PROT_READ, PROT_WRITE, PROT_CAP] [MAP_SHARED] fd) (\<lambda>addr. block
           [large_page_checks pl re psind sz addr, CHERIOSTEST_CHECK_SYSCALL pl (k_close (re_kernel re) fd) ''close(fd)''])))))))"

definition vm_large_pages_basic_FreeBSD ::
  "platform \<Rightarrow> 'k resv_env \<Rightarrow> uintmax list option \<Rightarrow> (nat \<Rightarrow> ('k, int) sys) \<Rightarrow> ('k, unit) prog" where
  "vm_large_pages_basic_FreeBSD pl re sizes shm_create_largepage =
     bindP (get_pagesizes_FreeBSD pl re sizes) (\<lambda>ps. block
       [large_page_rounds (large_page_round_FreeBSD pl re shm_create_largepage) 1 (tl ps), cheriostest_success])"

text \<open>Where all other sizes are very large, nothing is mapped, and the test succeeds.\<close>

lemma large_pages_skipped:
  assumes "\<And>psind sz. sz \<ge> 2 ^ 30 \<Longrightarrow> round psind sz = ret ()" "\<forall>sz \<in> set szs. sz \<ge> 2 ^ 30"
  shows "large_page_rounds round psind szs = ret ()"
  using assms(2) by (induction szs arbitrary: psind) (simp_all add: assms(1))

lemma large_pages_FreeBSD_none:
  assumes "\<forall>sz \<in> set szs. sz \<ge> 2 ^ 30" "p_ccsp s \<noteq> None"
  shows "vm_large_pages_basic_FreeBSD pl re (Some (of_nat (PAGE_SIZE re) # szs)) create s = cheriostest_success s"
  using large_pages_skipped [of "large_page_round_FreeBSD pl re create" szs 1] assms(1) block_single [of cheriostest_success]
  by (simp add: vm_large_pages_basic_FreeBSD_def get_pagesizes_FreeBSD_def large_page_round_FreeBSD_def CHERIOSTEST_VERIFY2_def bindP_assoc fail_if_def del: One_nat_def)

section \<open>When the tests pass\<close>

lemma bind_syscall:
  "bindP (CHERIOSTEST_CHECK_SYSCALL pl call t) f s = (case call (p_world s) of
     (Inl e, w) \<Rightarrow> cheriostest_failure_err pl (''Call '' @ [CHR 0x27] @ t @ [CHR 0x27] @ '' failed'') [] (s\<lparr>p_errno := e, p_world := w\<rparr>)
   | (Inr x, w) \<Rightarrow> f x (s\<lparr>p_world := w\<rparr>))"
  by (simp add: bindP_def CHERIOSTEST_CHECK_SYSCALL_def cheriostest_failure_err_def split: prod.splits sum.splits)

lemma declares_success_at: "f s = g t \<Longrightarrow> declares_success f s \<longleftrightarrow> declares_success g t"
  by (simp add: declares_success_def)

lemma declares_success_syscall:
  fixes f :: "'a \<Rightarrow> ('k, 'b) prog"
  shows "declares_success (bindP (CHERIOSTEST_CHECK_SYSCALL pl call t) f) s \<longleftrightarrow>
     (\<exists>x w. call (p_world s) = (Inr x, w) \<and> declares_success (f x) (s\<lparr>p_world := w\<rparr>))"
proof (cases "call (p_world s)")
  case (Pair r w)
  show ?thesis
  proof (cases r)
    case (Inl e)
    have "\<not> declares_success (cheriostest_failure_err pl (''Call '' @ [CHR 0x27] @ t @ [CHR 0x27] @ '' failed'') [] :: ('k, 'b) prog) (s\<lparr>p_errno := e, p_world := w\<rparr>)"
      by (rule declares_success_err)
    then show ?thesis using Pair Inl by (simp add: declares_success_def bind_syscall)
  next
    case (Inr x)
    then show ?thesis using Pair by (simp add: declares_success_def bind_syscall)
  qed
qed

lemma bind_get_errno: "bindP get_errno f s = f (p_errno s) s"
  by (simp add: bindP_def get_errno_def)

lemma mmap_must_fail_iff:
  "declares_success (mmap_must_fail pl re addr n prot flags m e em) s \<longleftrightarrow>
     p_ccsp s \<noteq> None \<and> (\<exists>w. mmap_call re addr n prot flags (- 1) (p_world s) = (Inl e, w))"
proof (cases "mmap_call re addr n prot flags (- 1) (p_world s)")
  case (Pair r w)
  let ?body = "\<lambda>map errno. block [CHERIOSTEST_VERIFY2 pl (map = None) m [], CHERIOSTEST_VERIFY2 pl (errno = e) em [FInt errno], cheriostest_success]"
  have body: "declares_success (?body map errno) t \<longleftrightarrow> map = None \<and> errno = e \<and> p_ccsp t \<noteq> None" for map :: "cap option" and errno and t :: "'a pstate"
    by (auto simp: passes_simps)
  show ?thesis
  proof (cases r)
    case (Inl e')
    have "mmap_must_fail pl re addr n prot flags m e em s = ?body None e' (s\<lparr>p_errno := e', p_world := w\<rparr>)"
      using Pair Inl by (simp add: mmap_must_fail_def bind_raw_call bind_get_errno del: block.simps)
    then show ?thesis using body [of None e' "s\<lparr>p_errno := e', p_world := w\<rparr>"] Pair Inl by (auto simp: declares_success_def simp del: block.simps)
  next
    case (Inr c)
    have "mmap_must_fail pl re addr n prot flags m e em s = ?body (Some c) (p_errno s) (s\<lparr>p_world := w\<rparr>)"
      using Pair Inr by (simp add: mmap_must_fail_def bind_raw_call bind_get_errno del: block.simps)
    then show ?thesis using body [of "Some c" "p_errno s" "s\<lparr>p_world := w\<rparr>"] Pair Inr by (auto simp: declares_success_def simp del: block.simps)
  qed
qed

lemma guard_mmap_iff:
  "declares_success (bindP (guard_mmap pl re) f) s \<longleftrightarrow>
     (\<exists>map w. mmap_call re (cap_null pl) (3 * PAGE_SIZE re) [PROT_MAX [PROT_READ, PROT_WRITE]]
        (if is_FreeBSD pl then [MAP_GUARD] else [MAP_ANON, MAP_PRIVATE]) (- 1) (p_world s) = (Inr map, w) \<and>
        declares_success (f map) (s\<lparr>p_world := w\<rparr>))"
  unfolding guard_mmap_def checked_mmap_def by (rule declares_success_syscall)

text \<open>
  \<^verbatim>\<open>vm_reservation_mmap_fixed_insert_noperm\<close> declares success exactly when the kernel hands out a tagged capability with the
  permission to change mappings, and refuses, with \<^verbatim>\<open>EACCES\<close>, to map at a fixed address inside it through the same capability
  without that permission.
\<close>

theorem mmap_fixed_insert_noperm_iff:
  "declares_success (vm_reservation_mmap_fixed_insert_noperm pl re) s \<longleftrightarrow>
     p_ccsp s \<noteq> None \<and>
     (\<exists>map w w'. mmap_call re (cap_null pl) (3 * PAGE_SIZE re) [PROT_MAX [PROT_READ, PROT_WRITE]]
          (if is_FreeBSD pl then [MAP_GUARD] else [MAP_ANON, MAP_PRIVATE]) (- 1) (p_world s) = (Inr map, w) \<and>
        cap_tag map \<and> cap_perms map AND CHERI_PERM_SW_VMEM pl \<noteq> 0 \<and>
        mmap_call re (cheri_offset_increment pl (cheri_perms_and pl map (NOT (CHERI_PERM_SW_VMEM pl))) (of_nat (PAGE_SIZE re))) (PAGE_SIZE re)
          [PROT_READ, PROT_WRITE] [MAP_ANON, MAP_FIXED, MAP_PRIVATE] (- 1) w = (Inl (EACCES (re_kernel re)), w'))"
  unfolding vm_reservation_mmap_fixed_insert_noperm_def guard_mmap_iff
  by (auto simp: declares_success_VERIFY2 mmap_must_fail_iff cheri_tag_get_def cheri_perms_get_def)

text \<open>
  \<^verbatim>\<open>vm_reservation_mmap_fixed_insert\<close> does not look at the mapping it asks for: whatever capability the kernel returns for the
  page inside the reservation, also an untagged one, the test declares success if the reservation itself is in order.
\<close>

theorem mmap_fixed_insert_blind:
  assumes "mmap_call re (cap_null pl) (3 * PAGE_SIZE re) [PROT_MAX [PROT_READ, PROT_WRITE]]
      (if is_FreeBSD pl then [MAP_GUARD] else [MAP_ANON, MAP_PRIVATE]) (- 1) (p_world s) = (Inr resv, w)"
    and "cap_tag resv" "cap_perms resv AND CHERI_PERM_SW_VMEM pl \<noteq> 0" "p_ccsp s \<noteq> None"
    and "mmap_call re (cheri_offset_increment pl resv (of_nat (PAGE_SIZE re))) (PAGE_SIZE re)
      [PROT_READ, PROT_WRITE] [MAP_ANON, MAP_FIXED, MAP_PRIVATE] (- 1) w = (Inr whatever, w')"
  shows "declares_success (vm_reservation_mmap_fixed_insert pl re) s"
  unfolding vm_reservation_mmap_fixed_insert_def guard_mmap_iff checked_mmap_def
  using assms by (auto simp: declares_success_VERIFY2 declares_success_syscall declares_success_success cheri_tag_get_def cheri_perms_get_def)

text \<open>
  On Linux \<^verbatim>\<open>vm_mmap_invalid_cap\<close> passes for the wrong reason: its flags name neither \<^verbatim>\<open>MAP_PRIVATE\<close> nor \<^verbatim>\<open>MAP_SHARED\<close>, so a kernel that
  answers such requests with \<^verbatim>\<open>EINVAL\<close> makes it declare success, whatever the kernel does with the invalid capability.
\<close>

theorem mmap_invalid_cap_blind:
  assumes "\<And>a w. MAP_PRIVATE \<notin> set (ma_flags a) \<Longrightarrow> MAP_SHARED \<notin> set (ma_flags a) \<Longrightarrow> k_mmap (re_kernel re) a w = (Inl (EINVAL (re_kernel re)), w)"
    and "p_ccsp s \<noteq> None"
  shows "declares_success (vm_mmap_invalid_cap pl re) s"
  using assms by (simp add: vm_mmap_invalid_cap_def mmap_must_fail_iff mmap_call_def)

text \<open>A kernel that takes any hint, but wants one of the two flags.\<close>

definition careless_cap :: "mapflag list \<Rightarrow> nat \<Rightarrow> cap" where
  "careless_cap flags n = \<lparr>cap_tag = MAP_FIXED \<notin> set flags, cap_addr = 0x40000, cap_base = 0x40000, cap_len = n, cap_perms = 0x8,
     cap_otype = 0, cap_flags = 0\<rparr>"

definition careless_kernel :: "unit vmk" where
  "careless_kernel = refusing_kernel\<lparr>k_mmap := \<lambda>a w.
     (if MAP_PRIVATE \<in> set (ma_flags a) \<or> MAP_SHARED \<in> set (ma_flags a)
      then Inr (careless_cap (ma_flags a) (ma_len a)) else Inl 22, w)\<rparr>"

definition resv_example :: "unit resv_env" where
  "resv_example = \<lparr>re_kernel = careless_kernel, re_bufferp = cap_null morello_linux, re_pcc = cap_null morello_linux, CHERI_ALIGN_SHIFT = (\<lambda>_. 0),
     re_procstat = \<lparr>ps_open_ok = True, ps_procs = Some 1, ps_vmmap = Some []\<rparr>, re_uninit = (0, 0), re_maps = None, re_quarantine = Inr 0,
     re_get_shadow = (\<lambda>w. (Inl 78, w)), ENOENT = 2, page_shift = 12\<rparr>"

theorem mmap_invalid_cap_blind_witness:
  "declares_success (vm_mmap_invalid_cap morello_linux resv_example) (fresh_process morello_linux ())"
  by (rule mmap_invalid_cap_blind) (simp_all add: resv_example_def careless_kernel_def refusing_kernel_def)

theorem mmap_fixed_insert_blind_witness:
  "declares_success (vm_reservation_mmap_fixed_insert morello_linux resv_example) (fresh_process morello_linux ())"
proof -
  have call: "mmap_call resv_example a n prot flags fd w = (Inr (careless_cap flags n), w)" if "MAP_PRIVATE \<in> set flags" for a n prot flags fd w
    using that by (simp add: mmap_call_def resv_example_def careless_kernel_def)
  have "\<not> is_FreeBSD morello_linux" "CHERI_PERM_SW_VMEM morello_linux = 8"
    by (simp_all add: is_linux_def morello_linux_def morello_purecap_def)
  then show ?thesis
    by (intro mmap_fixed_insert_blind [where resv = "careless_cap [MAP_ANON, MAP_PRIVATE] (3 * PAGE_SIZE resv_example)", OF _ _ _ _ call])
      (simp_all add: call, simp_all add: careless_cap_def)
qed

end
