(* ===== verification/Cheriabi.thy ===== *)
theory Cheriabi
  imports Vm_Reservations Exec
begin

text \<open>
  The tests of the process ABI, \<^verbatim>\<open>cheriostest_cheriabi.c\<close>: the permissions \<^verbatim>\<open>mmap\<close> puts on a capability, the calls on memory
  that take a pointer and a length (\<^verbatim>\<open>mincore\<close>, \<^verbatim>\<open>munmap\<close>, \<^verbatim>\<open>mprotect\<close>, \<^verbatim>\<open>minherit\<close>, \<^verbatim>\<open>shmdt\<close>) on pointers they should refuse, and the
  bounds of the argument and environment vectors of a new process.
\<close>

section \<open>The environment\<close>

datatype inherit = INHERIT_NONE | INHERIT_SHARE

text \<open>
  The calls beside those of the virtual memory tests. \<open>ae_putc\<close> stores one byte through a pointer; \<open>ae_execve\<close> is what becomes of
  a process that replaces its image, and \<open>ae_waitpid\<close> the status of the child.
\<close>

record 'k abi_env =
  ae_resv :: "'k resv_env"
  ae_mincore :: "cap \<Rightarrow> nat \<Rightarrow> ('k, unit) sys"
  ae_minherit :: "cap \<Rightarrow> nat \<Rightarrow> inherit \<Rightarrow> ('k, unit) sys"
  ae_shmget :: "nat \<Rightarrow> ('k, int) sys"
  ae_shmat :: "int \<Rightarrow> cap \<Rightarrow> ('k, cap) sys"
  ae_shmdt :: "cap \<Rightarrow> ('k, unit) sys"
  ae_putc :: "cap \<Rightarrow> 'k \<Rightarrow> siginfo option \<times> 'k"
  ae_SW_VMEM :: bool \<comment> \<open>\<^verbatim>\<open>CHERI_PERM_SW_VMEM\<close> is defined\<close>
  ae_exec :: exec_env
  ae_spawn :: spawn_env
  ae_opts :: opts
  ae_execve :: "string \<Rightarrow> string option list \<Rightarrow> string list option \<Rightarrow> ('k, unit) prog"
  ae_waitpid :: "int \<Rightarrow> int"

abbreviation ae_kernel :: "'k abi_env \<Rightarrow> 'k vmk" where
  "ae_kernel ae \<equiv> re_kernel (ae_resv ae)"

text \<open>\<^verbatim>\<open>CHERIOSTEST_CHECK_SYSCALL2\<close> on a call of any type, and a call with an \<^verbatim>\<open>int\<close> result as a statement.\<close>

definition checked_call :: "platform \<Rightarrow> ('k, 'a) sys \<Rightarrow> string \<Rightarrow> cap farg list \<Rightarrow> ('k, 'a) prog" where
  "checked_call pl call msg ap = (\<lambda>s.
     case call (p_world s) of
       (Inl e, w) \<Rightarrow> cheriostest_failure_err pl msg ap (s\<lparr>p_errno := e, p_world := w\<rparr>)
     | (Inr x, w) \<Rightarrow> (Return x, s\<lparr>p_world := w\<rparr>))"

definition int_call :: "('k, unit) sys \<Rightarrow> ('k, int) prog" where
  "int_call call = (\<lambda>s.
     case call (p_world s) of
       (Inl e, w) \<Rightarrow> (Return (- 1), s\<lparr>p_errno := e, p_world := w\<rparr>)
     | (Inr x, w) \<Rightarrow> (Return 0, s\<lparr>p_world := w\<rparr>))"

definition put_byte :: "'k abi_env \<Rightarrow> cap \<Rightarrow> ('k, unit) prog" where
  "put_byte ae p = (\<lambda>s.
     case ae_putc ae p (p_world s) of
       (Some i, w) \<Rightarrow> (Trapped i, s\<lparr>p_world := w\<rparr>)
     | (None, w) \<Rightarrow> (Return (), s\<lparr>p_world := w\<rparr>))"

section \<open>mincore\<close>

definition CHERITEST_CHERI_PERMS_SECOND_RESERVED_BLOCK :: "platform \<Rightarrow> uintmax" where
  "CHERITEST_CHERI_PERMS_SECOND_RESERVED_BLOCK pl =
     (case pl_arch pl of
        RISCV_zcheripurecap \<Rightarrow>
          push_bit 10 1 OR push_bit 11 1 OR push_bit 12 1 OR push_bit 13 1 OR push_bit 14 1 OR push_bit 15 1
      | _ \<Rightarrow> 0)"

text \<open>\<^verbatim>\<open>EXEC_ONLY\<close>, \<^verbatim>\<open>READ_ONLY\<close> and \<^verbatim>\<open>WRITE_ONLY\<close> for the one permission each names.\<close>

definition perm_only :: "platform \<Rightarrow> uintmax \<Rightarrow> uintmax" where
  "perm_only pl p =
     (if pl_arch pl = Morello then p OR CHERI_PERM_GLOBAL pl
      else p OR CHERITEST_CHERI_PERMS_FIRST_RESERVED_BLOCK pl OR CHERITEST_CHERI_PERMS_SECOND_RESERVED_BLOCK pl)"

definition MINCORE_PAGES :: nat where "MINCORE_PAGES = 3"

definition mincore_check :: "platform \<Rightarrow> 'k abi_env \<Rightarrow> cap \<times> nat \<times> string \<Rightarrow> ('k, unit) prog" where
  "mincore_check pl ae = (\<lambda>(cp, n, msg). checked_call pl (ae_mincore ae cp n) msg [])"

text \<open>The capability whose bounds cover one byte of the first and the last page, moved down to the first page.\<close>

definition mincore_narrow :: "platform \<Rightarrow> 'k abi_env \<Rightarrow> cap \<Rightarrow> cap" where
  "mincore_narrow pl ae pages =
     (let page_sz = PAGE_SIZE (ae_resv ae);
          c = cheri_bounds_set pl (cheri_offset_increment pl (cheri_offset_increment pl pages (of_nat page_sz)) (- 1))
                (page_sz * MINCORE_PAGES - 2 * (page_sz - 1))
      in cheri_address_set pl c (align_down (cap_addr c) (of_nat page_sz)))"

definition mincore_cases :: "platform \<Rightarrow> 'k abi_env \<Rightarrow> cap \<Rightarrow> (cap \<times> nat \<times> string) list" where
  "mincore_cases pl ae pages =
     (let page_sz = PAGE_SIZE (ae_resv ae); pages_len = page_sz * MINCORE_PAGES; cp = mincore_narrow pl ae pages in
      [(cheri_perms_and pl pages (perm_only pl (CHERI_PERM_EXECUTE pl)), pages_len, ''whole allocation from mmap with only CHERI_PERM_EXECUTE''),
       (cheri_perms_and pl pages (perm_only pl (CHERI_PERM_LOAD pl)), pages_len, ''whole allocation from mmap with only CHERI_PERM_LOAD''),
       (cheri_perms_and pl pages (perm_only pl (CHERI_PERM_STORE pl)), pages_len, ''whole allocation from mmap with only CHERI_PERM_STORE''),
       (cp, pages_len, ''whole allocation with reduced bounds''),
       (cp, page_sz, ''first page (last byte inbounds)''),
       (cheri_offset_increment pl cp (of_nat page_sz), page_sz, ''second page (all in bounds)''),
       (cheri_offset_increment pl (cheri_offset_increment pl cp (of_nat pages_len)) (- of_nat page_sz), page_sz,
          ''last page (first byte in bounds)'')] @
      only_if (is_FreeBSD pl)
        [(cheri_offset_set pl cp 0, 1, ''last byte of first page''),
         (cheri_offset_set pl cp 0, unat (cheri_length_get cp), ''whole in-bounds region'')])"

definition cheriabi_mincore :: "platform \<Rightarrow> 'k abi_env \<Rightarrow> ('k, unit) prog" where
  "cheriabi_mincore pl ae =
     (let pages_len = PAGE_SIZE (ae_resv ae) * MINCORE_PAGES in
      bindP (checked_mmap pl (ae_resv ae) (cap_null pl) pages_len [PROT_MAX [PROT_READ, PROT_WRITE, PROT_EXEC]] [MAP_ANON, MAP_PRIVATE] (- 1))
        (\<lambda>pages. block (
          [mincore_check pl ae (pages, pages_len, ''whole allocation from mmap''),
           (if ae_SW_VMEM ae
            then mincore_check pl ae (cheri_perms_and pl pages (NOT (CHERI_PERM_SW_VMEM pl)), pages_len,
                   ''whole allocation from mmap without VMEM perm'')
            else cheriostest_failure_errx pl ''CHERI_PERM_SW_VMEM is not defined'' [])] @
          map (mincore_check pl ae) (mincore_cases pl ae pages) @ [cheriostest_success])))"

section \<open>mmap\<close>

text \<open>The length is found by the loop of \<^verbatim>\<open>get_unrepresentable_length\<close>, which the test repeats.\<close>

definition cheriabi_mmap_unrepresentable :: "platform \<Rightarrow> 'k abi_env \<Rightarrow> ('k, unit) prog" where
  "cheriabi_mmap_unrepresentable pl ae =
     bindP (unrepresentable_length pl (ae_resv ae)) (\<lambda>len.
     let expected_len = cheri_representable_length pl len;
         prot = (if is_FreeBSD pl then [PROT_READ, PROT_WRITE, PROT_EXEC] else [PROT_READ, PROT_WRITE])
     in bindP (raw_call (mmap_call (ae_resv ae) (cap_null pl) (unat len) prot (anon_flags pl) (- 1))) (\<lambda>r. case r of
          None \<Rightarrow> cheriostest_failure_errx pl
            ''mmap() failed to return a pointer when given an unrepresentable length (%zu)'' [FWord len]
        | Some c \<Rightarrow> block
            [fail_if pl (cheri_length_get c \<noteq> expected_len)
               ''mmap() returned a pointer with an unexpected length (%zu vs %zu) when given an unrepresentable length (%zu): %#p''
               [FWord (cheri_length_get c), FWord expected_len, FWord len, FPtr c],
             cheriostest_success]))"

text \<open>\<^verbatim>\<open>MAP_FAILED\<close> is \<^verbatim>\<open>(void *)-1\<close>.\<close>

definition MAP_FAILED :: "platform \<Rightarrow> cap" where "MAP_FAILED pl = null_derived pl (- 1)"

definition mmap_value :: "platform \<Rightarrow> 'k abi_env \<Rightarrow> cap \<Rightarrow> nat \<Rightarrow> mapflag list \<Rightarrow> ('k, cap) prog" where
  "mmap_value pl ae addr n flags =
     bindP (raw_call (mmap_call (ae_resv ae) addr n [PROT_READ, PROT_WRITE] flags (- 1))) (\<lambda>r.
     ret (case r of None \<Rightarrow> MAP_FAILED pl | Some c \<Rightarrow> c))"

definition cheriabi_mmap_fixed :: "platform \<Rightarrow> 'k abi_env \<Rightarrow> ('k, unit) prog" where
  "cheriabi_mmap_fixed pl ae =
     bindP (mmap_value pl ae (cap_null pl) 0x200000 ([MAP_PRIVATE, MAP_ANON] @ only_if (is_FreeBSD pl) [MAP_ALIGNED 21])) (\<lambda>p1.
     bindP (CHERIOSTEST_VERIFY pl (\<not> ptr_eq p1 (MAP_FAILED pl)) ''p1 != MAP_FAILED'') (\<lambda>_.
     bindP (mmap_value pl ae p1 0x20000 [MAP_PRIVATE, MAP_FIXED, MAP_ANON]) (\<lambda>p2.
     bindP (CHERIOSTEST_VERIFY pl (ptr_eq p1 p2) ''p1 == p2'') (\<lambda>_.
     bindP (mmap_value pl ae p1 0x40000 [MAP_PRIVATE, MAP_FIXED, MAP_ANON]) (\<lambda>p2. block
       [CHERIOSTEST_VERIFY pl (ptr_eq p1 p2) ''p1 == p2'', cheriostest_success])))))"

subsection \<open>Permissions\<close>

text \<open>\<^verbatim>\<open>perms\<close> is an \<^verbatim>\<open>int\<close>: the low 32 bits, sign-extended when the mask of a permission is wider.\<close>

definition mmap_and_get_perms :: "platform \<Rightarrow> 'k abi_env \<Rightarrow> prot list \<Rightarrow> ('k, uintmax) prog" where
  "mmap_and_get_perms pl ae prot =
     (let n = PAGE_SIZE (ae_resv ae) in
      bindP (checked_mmap pl (ae_resv ae) (cap_null pl) n prot [MAP_ANON, MAP_PRIVATE] (- 1)) (\<lambda>c.
      let perms = signed_take_bit 31 (cheri_perms_get c) in
      bindP (CHERIOSTEST_CHECK_SYSCALL pl (k_munmap (ae_kernel ae) c n) ''munmap(cap, CHERITEST_PAGE_SIZE)'') (\<lambda>_. ret perms)))"

text \<open>One check: the name of the permission, its bit, and whether it has to be there.\<close>

definition check_perm :: "platform \<Rightarrow> string \<Rightarrow> uintmax \<Rightarrow> string \<times> uintmax \<times> bool \<Rightarrow> ('k, unit) prog" where
  "check_perm pl mapping perms = (\<lambda>(name, mask, wanted).
     CHERIOSTEST_VERIFY2 pl ((perms AND mask \<noteq> 0) = wanted)
       ((if wanted then ''Missing '' else ''Found '') @ name @ '' on '' @ mapping @ '' mapping'') [])"

definition load_mutable_row :: "platform \<Rightarrow> bool \<Rightarrow> (string \<times> uintmax \<times> bool) list" where
  "load_mutable_row pl wanted =
     only_if (HAS_CHERI_PERM_LOAD_MUTABLE pl) [(''PERM_LOAD_MUTABLE'', CHERI_PERM_LOAD_MUTABLE pl, wanted)]"

definition cap_rows :: "platform \<Rightarrow> bool \<Rightarrow> bool \<Rightarrow> (string \<times> uintmax \<times> bool) list" where
  "cap_rows pl load store =
     (if HAS_CHERI_PERM_LOAD_STORE_CAP pl
      then [(''PERM_LOAD_CAP'', CHERI_PERM_LOAD_CAP pl, load), (''PERM_STORE_CAP'', CHERI_PERM_STORE_CAP pl, store)]
      else only_if (HAS_CHERI_PERM_CAP pl) [(''PERM_CAP'', CHERI_PERM_CAP pl, load)])"

definition mmap_rows :: "platform \<Rightarrow> bool \<Rightarrow> bool \<Rightarrow> (string \<times> uintmax \<times> bool) list" where
  "mmap_rows pl w x =
     [(''PERM_LOAD'', CHERI_PERM_LOAD pl, True)] @ load_mutable_row pl True @
     [(''PERM_STORE'', CHERI_PERM_STORE pl, w)] @ cap_rows pl True w @ [(''PERM_EXEC'', CHERI_PERM_EXECUTE pl, x)]"

text \<open>The other two tests check in another order.\<close>

definition maxprot_rows :: "platform \<Rightarrow> bool \<Rightarrow> bool \<Rightarrow> bool \<Rightarrow> (string \<times> uintmax \<times> bool) list" where
  "maxprot_rows pl caps w x =
     [(''PERM_LOAD'', CHERI_PERM_LOAD pl, True), (''PERM_STORE'', CHERI_PERM_STORE pl, w)] @ load_mutable_row pl caps @
     cap_rows pl caps (caps \<and> w) @ [(''PERM_EXEC'', CHERI_PERM_EXECUTE pl, x)]"

definition perms_case :: "platform \<Rightarrow> 'k abi_env \<Rightarrow> prot list \<times> string \<times> (string \<times> uintmax \<times> bool) list \<Rightarrow> ('k, unit) prog" where
  "perms_case pl ae = (\<lambda>(prot, mapping, rows).
     bindP (mmap_and_get_perms pl ae prot) (\<lambda>perms. block (map (check_perm pl mapping perms) rows)))"

definition mmap_perms_cases :: "platform \<Rightarrow> 'k abi_env \<Rightarrow> (prot list \<times> string \<times> (string \<times> uintmax \<times> bool) list) list" where
  "mmap_perms_cases pl ae =
     [([PROT_READ], ''PROT_READ'', mmap_rows pl False False),
      ([PROT_READ, PROT_WRITE], ''PROT_RW'', mmap_rows pl True False),
      ([PROT_READ, PROT_WRITE, PROT_EXEC], ''PROT_RWX'', mmap_rows pl True True)] @
     only_if (k_PROT_CAP (ae_kernel ae))
       [([PROT_READ, PROT_CAP], ''PROT_READ | PROT_CAP'', mmap_rows pl False False),
        ([PROT_READ, PROT_WRITE, PROT_CAP], ''PROT_RW | PROT_CAP'', mmap_rows pl True False),
        ([PROT_READ, PROT_WRITE, PROT_EXEC, PROT_CAP], ''PROT_RWX | PROT_CAP'', mmap_rows pl True True)]"

definition no_cap_perms_cases :: "platform \<Rightarrow> (prot list \<times> string \<times> (string \<times> uintmax \<times> bool) list) list" where
  "no_cap_perms_cases pl =
     [([PROT_READ, PROT_NO_CAP], ''PROT_READ | PROT_NO_CAP'', maxprot_rows pl False False False),
      ([PROT_READ, PROT_WRITE, PROT_NO_CAP], ''PROT_RW | PROT_NO_CAP'', maxprot_rows pl False True False),
      ([PROT_READ, PROT_WRITE, PROT_EXEC, PROT_NO_CAP], ''PROT_RWX | PROT_NO_CAP'', maxprot_rows pl False True True)]"

definition maxprot_perms_cases :: "platform \<Rightarrow> (prot list \<times> string \<times> (string \<times> uintmax \<times> bool) list) list" where
  "maxprot_perms_cases pl =
     [([PROT_MAX [PROT_READ, PROT_CAP], PROT_READ, PROT_NO_CAP], ''PROT_MAX(PROT_READ | PROT_CAP)'', maxprot_rows pl True False False),
      ([PROT_MAX [PROT_READ, PROT_WRITE, PROT_CAP], PROT_READ, PROT_WRITE, PROT_NO_CAP], ''PROT_MAX(PROT_RW | PROT_CAP)'',
         maxprot_rows pl True True False),
      ([PROT_MAX [PROT_READ, PROT_WRITE, PROT_EXEC, PROT_CAP], PROT_READ, PROT_WRITE, PROT_EXEC, PROT_NO_CAP],
         ''PROT_MAX(PROT_RWX | PROT_CAP)'', maxprot_rows pl True True True)]"

definition cheriabi_mmap_perms :: "platform \<Rightarrow> 'k abi_env \<Rightarrow> ('k, unit) prog" where
  "cheriabi_mmap_perms pl ae = block (map (perms_case pl ae) (mmap_perms_cases pl ae) @ [cheriostest_success])"

definition cheriabi_mmap_no_cap_perms :: "platform \<Rightarrow> 'k abi_env \<Rightarrow> ('k, unit) prog" where
  "cheriabi_mmap_no_cap_perms pl ae = block (map (perms_case pl ae) (no_cap_perms_cases pl) @ [cheriostest_success])"

definition cheriabi_mmap_maxprot_perms :: "platform \<Rightarrow> 'k abi_env \<Rightarrow> ('k, unit) prog" where
  "cheriabi_mmap_maxprot_perms pl ae = block (map (perms_case pl ae) (maxprot_perms_cases pl) @ [cheriostest_success])"

section \<open>Pointers to refuse\<close>

record adjacent_mappings =
  am_first :: cap
  am_middle :: cap
  am_last :: cap
  am_maplen :: nat

definition fixed_flags :: "mapflag list" where "fixed_flags = [MAP_ANON, MAP_FIXED, MAP_PRIVATE]"

text \<open>A mapping right behind another one, at a fixed address.\<close>

definition mmap_at :: "'k abi_env \<Rightarrow> cap \<Rightarrow> nat \<Rightarrow> ('k, cap) sys" where
  "mmap_at ae addr n = mmap_call (ae_resv ae) addr n [PROT_READ, PROT_WRITE] fixed_flags (- 1)"

definition failed_at :: string where "failed_at = ''Failed to create mapping at address %p''"

definition create_adjacent_mappings :: "platform \<Rightarrow> 'k abi_env \<Rightarrow> ('k, adjacent_mappings) prog" where
  "create_adjacent_mappings pl ae =
     (let len = k_pagesize (ae_kernel ae) * 2 in
      bindP (find_address_space_gap pl (ae_resv ae) (len * 3)) (\<lambda>gap.
      bindP (CHERIOSTEST_CHECK_SYSCALL pl (mmap_at ae (null_derived pl gap) len) ''mmap'') (\<lambda>first.
      bindP (CHERIOSTEST_VERIFY pl (cheri_tag_get first) ''cheri_tag_get(mappings->first)'') (\<lambda>_.
      let requested_addr = null_derived pl (cheri_address_get first + of_nat len) in
      bindP (checked_call pl (mmap_at ae requested_addr len) failed_at [FPtr requested_addr]) (\<lambda>middle.
      bindP (CHERIOSTEST_CHECK_EQ pl ''0x%lx'' (cap_addr middle) (cap_addr first + of_nat len) FWord
        ''(ptraddr_t)mappings->middle'' ''(ptraddr_t)mappings->first + len'') (\<lambda>_.
      let requested_addr = null_derived pl (cheri_address_get middle + of_nat len) in
      bindP (CHERIOSTEST_VERIFY pl (cheri_tag_get middle) ''cheri_tag_get(mappings->middle)'') (\<lambda>_.
      bindP (checked_call pl (mmap_at ae requested_addr len) failed_at [FPtr requested_addr]) (\<lambda>last.
      bindP (CHERIOSTEST_CHECK_EQ pl ''0x%lx'' (cap_addr last) (cap_addr middle + of_nat len) FWord
        ''(ptraddr_t)mappings->last'' ''(ptraddr_t)mappings->middle + len'') (\<lambda>_.
      bindP (CHERIOSTEST_VERIFY pl (cheri_tag_get last) ''cheri_tag_get(mappings->last)'') (\<lambda>_.
      ret \<lparr>am_first = first, am_middle = middle, am_last = last, am_maplen = len\<rparr>))))))))))"

definition free_adjacent_mappings :: "platform \<Rightarrow> 'k abi_env \<Rightarrow> adjacent_mappings \<Rightarrow> ('k, unit) prog" where
  "free_adjacent_mappings pl ae m = block
     [CHERIOSTEST_CHECK_SYSCALL pl (k_munmap (ae_kernel ae) (am_first m) (am_maplen m)) ''munmap(mappings->first, mappings->maplen)'',
      CHERIOSTEST_CHECK_SYSCALL pl (k_munmap (ae_kernel ae) (am_middle m) (am_maplen m)) ''munmap(mappings->middle, mappings->maplen)'',
      CHERIOSTEST_CHECK_SYSCALL pl (k_munmap (ae_kernel ae) (am_last m) (am_maplen m)) ''munmap(mappings->last, mappings->maplen)'']"

text \<open>
  The five calls of each test: the pointer and the length, their text, and the mapping that must still be there afterwards.
\<close>

definition invalid_ptr_cases :: "platform \<Rightarrow> adjacent_mappings \<Rightarrow> (cap \<times> nat \<times> string \<times> cap) list" where
  "invalid_ptr_cases pl m =
     [(am_middle m, am_maplen m * 2, ''mappings.middle, mappings.maplen * 2'', am_middle m),
      (am_middle m, am_maplen m + 1, ''mappings.middle, mappings.maplen + 1'', am_middle m),
      (cheri_tag_clear (am_middle m), am_maplen m, ''cheri_tag_clear(mappings.middle), mappings.maplen'', am_middle m),
      (cheri_offset_increment pl (am_middle m) (- of_nat (am_maplen m)), am_maplen m,
         ''mappings.middle - mappings.maplen, mappings.maplen'', am_first m),
      (cheri_offset_increment pl (am_middle m) (of_nat (am_maplen m)), am_maplen m,
         ''mappings.middle + mappings.maplen, mappings.maplen'', am_last m)]"

definition expected_errno :: "platform \<Rightarrow> 'k abi_env \<Rightarrow> int" where
  "expected_errno pl ae = (if is_FreeBSD pl then EPROT (ae_kernel ae) else EINVAL (ae_kernel ae))"

text \<open>A call that has to fail, and a store that shows that the mapping is untouched.\<close>

definition refuse_case ::
  "platform \<Rightarrow> 'k abi_env \<Rightarrow> string \<Rightarrow> string \<Rightarrow> (cap \<Rightarrow> nat \<Rightarrow> ('k, unit) sys) \<Rightarrow> cap \<times> nat \<times> string \<times> cap \<Rightarrow> ('k, unit) prog" where
  "refuse_case pl ae fn tail call = (\<lambda>(p, n, args, alive). block
     [CHERIOSTEST_CHECK_CALL_ERROR pl (fn @ ''('' @ args @ tail @ '')'') (int_call (call p n)) (expected_errno pl ae),
      put_byte ae alive])"

definition cheriabi_munmap_invalid_ptr :: "platform \<Rightarrow> 'k abi_env \<Rightarrow> ('k, unit) prog" where
  "cheriabi_munmap_invalid_ptr pl ae =
     bindP (create_adjacent_mappings pl ae) (\<lambda>m. block (
       map (refuse_case pl ae ''munmap'' [] (k_munmap (ae_kernel ae))) (invalid_ptr_cases pl m) @
       [free_adjacent_mappings pl ae m, cheriostest_success]))"

definition cheriabi_mprotect_invalid_ptr :: "platform \<Rightarrow> 'k abi_env \<Rightarrow> ('k, unit) prog" where
  "cheriabi_mprotect_invalid_ptr pl ae =
     bindP (create_adjacent_mappings pl ae) (\<lambda>m. block (
       map (refuse_case pl ae ''mprotect'' '', PROT_NONE'' (\<lambda>p n. k_mprotect (ae_kernel ae) p n [])) (invalid_ptr_cases pl m) @
       [CHERIOSTEST_CHECK_SYSCALL pl (k_mprotect (ae_kernel ae) (am_middle m) (am_maplen m) [])
          ''mprotect(mappings.middle, mappings.maplen, PROT_NONE)'',
        CHERIOSTEST_CHECK_SYSCALL pl (k_mprotect (ae_kernel ae) (am_middle m) (am_maplen m) [PROT_READ])
          ''mprotect(mappings.middle, mappings.maplen, PROT_READ)'',
        free_adjacent_mappings pl ae m, cheriostest_success]))"

text \<open>On CheriBSD only, and without looking at the mappings in between.\<close>

definition cheriabi_minherit_invalid_ptr :: "platform \<Rightarrow> 'k abi_env \<Rightarrow> ('k, unit) prog" where
  "cheriabi_minherit_invalid_ptr pl ae =
     bindP (create_adjacent_mappings pl ae) (\<lambda>m. block (
       map (\<lambda>(p, n, args, alive). CHERIOSTEST_CHECK_CALL_ERROR pl (''minherit('' @ args @ '', INHERIT_NONE)'')
              (int_call (ae_minherit ae p n INHERIT_NONE)) (EPROT (ae_kernel ae))) (invalid_ptr_cases pl m) @
       [CHERIOSTEST_CHECK_SYSCALL pl (ae_minherit ae (am_middle m) (am_maplen m) INHERIT_NONE)
          ''minherit(mappings.middle, mappings.maplen, INHERIT_NONE)'',
        CHERIOSTEST_CHECK_SYSCALL pl (ae_minherit ae (am_middle m) (am_maplen m) INHERIT_SHARE)
          ''minherit(mappings.middle, mappings.maplen, INHERIT_SHARE)'',
        free_adjacent_mappings pl ae m, cheriostest_success]))"

subsection \<open>System V shared memory\<close>

definition create_adjacent_mappings_shm :: "platform \<Rightarrow> 'k abi_env \<Rightarrow> ('k, adjacent_mappings) prog" where
  "create_adjacent_mappings_shm pl ae =
     (let len = k_pagesize (ae_kernel ae) * 2 in
      bindP (CHERIOSTEST_CHECK_SYSCALL pl (ae_shmget ae len) ''shmget(IPC_PRIVATE, len, 0600)'') (\<lambda>shmid.
      bindP (find_address_space_gap pl (ae_resv ae) (len * 3)) (\<lambda>gap.
      bindP (CHERIOSTEST_CHECK_SYSCALL pl (ae_shmat ae shmid (null_derived pl gap)) ''shmat(shmid, requested_addr, 0)'') (\<lambda>first.
      bindP (CHERIOSTEST_VERIFY pl (cheri_tag_get first) ''cheri_tag_get(mappings->first)'') (\<lambda>_.
      let requested_addr = null_derived pl (cheri_address_get first + of_nat len) in
      bindP (checked_call pl (ae_shmat ae shmid requested_addr) failed_at [FPtr requested_addr]) (\<lambda>middle.
      bindP (CHERIOSTEST_CHECK_EQ pl ''0x%lx'' (cap_addr middle) (cap_addr requested_addr) FWord
        ''(ptraddr_t)mappings->middle'' ''(ptraddr_t)requested_addr'') (\<lambda>_.
      bindP (CHERIOSTEST_VERIFY pl (cheri_tag_get middle) ''cheri_tag_get(mappings->middle)'') (\<lambda>_.
      let requested_addr = null_derived pl (cheri_address_get middle + of_nat len) in
      bindP (checked_call pl (ae_shmat ae shmid requested_addr) failed_at [FPtr requested_addr]) (\<lambda>last.
      bindP (CHERIOSTEST_CHECK_EQ pl ''0x%lx'' (cap_addr last) (cap_addr requested_addr) FWord
        ''(ptraddr_t)mappings->last'' ''(ptraddr_t)requested_addr'') (\<lambda>_.
      bindP (CHERIOSTEST_VERIFY pl (cheri_tag_get last) ''cheri_tag_get(mappings->last)'') (\<lambda>_.
      ret \<lparr>am_first = first, am_middle = middle, am_last = last, am_maplen = len\<rparr>)))))))))))"

definition free_adjacent_mappings_shm :: "platform \<Rightarrow> 'k abi_env \<Rightarrow> adjacent_mappings \<Rightarrow> ('k, unit) prog" where
  "free_adjacent_mappings_shm pl ae m = block
     [CHERIOSTEST_CHECK_SYSCALL pl (ae_shmdt ae (am_first m)) ''shmdt(mappings->first)'',
      CHERIOSTEST_CHECK_SYSCALL pl (ae_shmdt ae (am_middle m)) ''shmdt(mappings->middle)'',
      CHERIOSTEST_CHECK_SYSCALL pl (ae_shmdt ae (am_last m)) ''shmdt(mappings->last)'']"

text \<open>There is no length to pass; the length in a case is not used.\<close>

definition shmdt_cases :: "platform \<Rightarrow> adjacent_mappings \<Rightarrow> (cap \<times> nat \<times> string \<times> cap) list" where
  "shmdt_cases pl m =
     [(cheri_tag_clear (am_middle m), am_maplen m, ''cheri_tag_clear(mappings.middle)'', am_middle m),
      (cheri_offset_increment pl (am_middle m) (- of_nat (am_maplen m)), am_maplen m, ''mappings.middle - mappings.maplen'', am_first m),
      (cheri_offset_increment pl (am_middle m) (of_nat (am_maplen m)), am_maplen m, ''mappings.middle + mappings.maplen'', am_last m)]"

definition cheriabi_shmdt_invalid_ptr :: "platform \<Rightarrow> 'k abi_env \<Rightarrow> ('k, unit) prog" where
  "cheriabi_shmdt_invalid_ptr pl ae =
     bindP (create_adjacent_mappings_shm pl ae) (\<lambda>m. block (
       map (refuse_case pl ae ''shmdt'' [] (\<lambda>p n. ae_shmdt ae p)) (shmdt_cases pl m) @
       [free_adjacent_mappings_shm pl ae m, cheriostest_success]))"

section \<open>mprotect and capability permissions\<close>

definition mprotect_page :: "platform \<Rightarrow> 'k abi_env \<Rightarrow> cap \<Rightarrow> prot list \<Rightarrow> ('k, unit) prog" where
  "mprotect_page pl ae p prot =
     CHERIOSTEST_CHECK_SYSCALL pl (k_mprotect (ae_kernel ae) p (PAGE_SIZE (ae_resv ae)) prot) ''mprotect''"

definition cheriabi_mprotect_upgrade_prot_cap :: "platform \<Rightarrow> 'k abi_env \<Rightarrow> ('k, unit) prog" where
  "cheriabi_mprotect_upgrade_prot_cap pl ae =
     bindP (checked_mmap pl (ae_resv ae) (cap_null pl) (PAGE_SIZE (ae_resv ae)) [PROT_MAX [PROT_READ, PROT_WRITE]] [MAP_ANON, MAP_PRIVATE] (- 1))
       (\<lambda>p. block
         [mprotect_page pl ae p [PROT_READ, PROT_WRITE], store_cap (ae_kernel ae) p p, cheriostest_success])"

definition cheriabi_mprotect_restore_prot_cap :: "platform \<Rightarrow> 'k abi_env \<Rightarrow> ('k, unit) prog" where
  "cheriabi_mprotect_restore_prot_cap pl ae =
     bindP (checked_mmap pl (ae_resv ae) (cap_null pl) (PAGE_SIZE (ae_resv ae)) [PROT_READ, PROT_WRITE] [MAP_ANON, MAP_PRIVATE] (- 1))
       (\<lambda>p. block
         [mprotect_page pl ae p [], mprotect_page pl ae p [PROT_READ, PROT_WRITE], store_cap (ae_kernel ae) p p, cheriostest_success])"

definition cheriabi_mprotect_downgrade_prot_cap :: "platform \<Rightarrow> 'k abi_env \<Rightarrow> ('k, unit) prog" where
  "cheriabi_mprotect_downgrade_prot_cap pl ae =
     bindP (checked_mmap pl (ae_resv ae) (cap_null pl) (PAGE_SIZE (ae_resv ae)) [PROT_READ, PROT_WRITE] [MAP_ANON, MAP_PRIVATE] (- 1))
       (\<lambda>p. block
         [store_cap (ae_kernel ae) p p,
          mprotect_page pl ae p [PROT_READ, PROT_MAX [PROT_READ]],
          bindP (load_cap (ae_kernel ae) p) (\<lambda>c. CHERIOSTEST_VERIFY pl (cheri_tag_get c) ''cheri_tag_get(*p)''),
          cheriostest_set_expected_si_addr pl (NULL_DERIVED_VOIDP pl p),
          store_cap (ae_kernel ae) p p,
          cheriostest_failure_errx pl ''tagged store succeeded after downgrade'' []])"

section \<open>The argument and environment vectors\<close>

text \<open>The array is the list of its pointers in front of \<^verbatim>\<open>NULL\<close>.\<close>

fun check_string_array_bounds :: "platform \<Rightarrow> nat \<Rightarrow> cap list \<Rightarrow> ('k, unit) prog" where
  "check_string_array_bounds pl i [] = ret ()"
| "check_string_array_bounds pl i (arg # rest) =
     bindP (block (
       [CHERIOSTEST_VERIFY2 pl (cheri_base_get arg = cheri_address_get arg)
          ''unexpected argp[%d] addr and base %#p'' [FInt (int i), FPtr arg]] @
       (case rest of [] \<Rightarrow> [] | nxt # _ \<Rightarrow>
         [CHERIOSTEST_VERIFY2 pl (cheri_base_get arg < cheri_base_get nxt)
            ''Invalid argp[%d] base: expect %#p < %#p'' [FInt (int i), FPtr arg, FPtr nxt],
          CHERIOSTEST_VERIFY2 pl (cheri_base_get arg + cheri_length_get arg \<le> cheri_base_get nxt)
            ''Invalid argp[%d] top: %#p overlaps %#p'' [FInt (int i), FPtr arg, FPtr nxt]])))
     (\<lambda>_. check_string_array_bounds pl (Suc i) rest)"

text \<open>What a new process finds: the two arrays and the strings they point to.\<close>

record start_vectors =
  sv_argv :: cap
  sv_args :: "cap list"
  sv_environ :: cap
  sv_envs :: "cap list"

definition cheriabi_check_argv_envv_bounds :: "platform \<Rightarrow> opts \<Rightarrow> start_vectors \<Rightarrow> ('k, unit) prog" where
  "cheriabi_check_argv_envv_bounds pl opt sv =
     (let argv = sv_argv sv; environ = sv_environ sv;
          argv_top = cheri_base_get argv + cheri_length_get argv - 1;
          envv_top = cheri_base_get environ + cheri_length_get environ - 1
      in block (
        only_if (verbose opt > 0) [\<lambda>s. (Return (), print_stderr pl ''argv=%#p'' [FPtr argv] s)] @
        [CHERIOSTEST_VERIFY2 pl (cheri_base_get argv = cheri_address_get argv) ''invalid argv base %#p'' [FPtr argv],
         CHERIOSTEST_VERIFY2 pl (cheri_base_get environ = cheri_address_get environ) ''invalid envv base %#p'' [FPtr environ],
         CHERIOSTEST_VERIFY2 pl (\<not> cheritest_cheri_is_address_inbounds environ argv_top \<and> \<not> cheritest_cheri_is_address_inbounds argv envv_top)
           ''invalid argv bounds %#p overlaps envv %#p'' [FPtr argv, FPtr environ],
         check_string_array_bounds pl 0 (sv_args sv),
         check_string_array_bounds pl 0 (sv_envs sv),
         \<lambda>s. (Exited 0, s)]))"

text \<open>
  The three tests that start such a process: the controller's \<^verbatim>\<open>cheriostest_spawn_child_args\<close> exits the parent when it cannot, and
  the forked child goes on with another image.
\<close>

definition spawn_and_wait ::
  "platform \<Rightarrow> 'k abi_env \<Rightarrow> string \<Rightarrow> string list \<Rightarrow> string list option \<Rightarrow> string \<Rightarrow> bool \<Rightarrow> ('k, unit) prog" where
  "spawn_and_wait pl ae name argv envv msg show_status =
     (case cheriostest_spawn_child_args pl (ae_exec ae) (ae_spawn ae) (ae_opts ae) name SC_MODE_FORK argv envv of
        CExit e \<Rightarrow> (\<lambda>s. (Exited e, s))
      | COverflow \<Rightarrow> (\<lambda>s. (Undefined, s))
      | COk (InChildExec path args env) \<Rightarrow> ae_execve ae path args env
      | COk (InParent pid) \<Rightarrow> block
          [CHERIOSTEST_VERIFY2 pl (pid > 0) ''spawning child process failed'' [],
           fail_if pl (ae_waitpid ae pid \<noteq> 0) msg (only_if show_status [FInt (ae_waitpid ae pid)]),
           cheriostest_success])"

definition large_entry_size :: nat where "large_entry_size = 50000"

definition cheriabi_argv_bounds :: "platform \<Rightarrow> 'k abi_env \<Rightarrow> ('k, unit) prog" where
  "cheriabi_argv_bounds pl ae =
     spawn_and_wait pl ae ''cheriabi_argv_bounds'' [replicate (large_entry_size - 1) CHR ''A''] (Some [])
       ''argv bounds check failed: %d'' True"

text \<open>The last byte of the large entry is what \<^verbatim>\<open>malloc\<close> left there; without a NUL the string runs out of its object.\<close>

definition cheriabi_envv_bounds :: "platform \<Rightarrow> 'k abi_env \<Rightarrow> char \<Rightarrow> ('k, unit) prog" where
  "cheriabi_envv_bounds pl ae last_byte =
     (if last_byte = NUL
      then spawn_and_wait pl ae ''cheriabi_envv_bounds'' [] (Some [''XX'', replicate (large_entry_size - 1) CHR ''A''])
        ''envv bounds check failed'' False
      else (\<lambda>s. (Undefined, s)))"

definition large_argv_size :: nat where "large_argv_size = 5000"

definition cheriabi_argv_array_bounds :: "platform \<Rightarrow> 'k abi_env \<Rightarrow> ('k, unit) prog" where
  "cheriabi_argv_array_bounds pl ae =
     spawn_and_wait pl ae ''cheriabi_argv_array_bounds'' (replicate large_argv_size []) (Some [[]])
       ''argv array bounds check failed'' False"

end
