(* ===== verification/Cheriabi_Proofs.thy ===== *)
theory Cheriabi_Proofs
  imports Cheriabi
begin

text \<open>
  What the tests of the process ABI establish: which vectors the check of a new process accepts, which permissions of mappings
  pass, and that the tests of invalid pointers tell a kernel that checks capabilities from one that looks at addresses only.
\<close>

section \<open>The vectors of a new process\<close>

definition region :: "cap \<Rightarrow> nat set" where
  "region c = {unat (cap_base c)..<cap_top c}"

text \<open>The string of one pointer ends before that of another begins.\<close>

definition precedes :: "cap \<Rightarrow> cap \<Rightarrow> bool" where
  "precedes a b \<longleftrightarrow> cap_base a < cap_base b \<and> cap_top a \<le> unat (cap_base b)"

definition starts_at_base :: "cap \<Rightarrow> bool" where
  "starts_at_base c \<longleftrightarrow> cap_base c = cap_addr c"

definition vectors_ok :: "start_vectors \<Rightarrow> bool" where
  "vectors_ok sv \<longleftrightarrow>
     starts_at_base (sv_argv sv) \<and> starts_at_base (sv_environ sv) \<and> region (sv_argv sv) \<inter> region (sv_environ sv) = {} \<and>
     list_all starts_at_base (sv_args sv) \<and> sorted_wrt precedes (sv_args sv) \<and>
     list_all starts_at_base (sv_envs sv) \<and> sorted_wrt precedes (sv_envs sv)"

abbreviation in_space :: "cap \<Rightarrow> bool" where
  "in_space c \<equiv> cap_top c < 2 ^ 64"

lemma cap_end: "in_space c \<Longrightarrow> unat (cap_base c + cheri_length_get c) = cap_top c"
  by (simp add: cap_top_def cheri_length_get_small unat_word_ariths)

lemma inbounds_region: "in_space c \<Longrightarrow> cheritest_cheri_is_address_inbounds c a \<longleftrightarrow> unat a \<in> region c"
  using cap_end [of c]
  by (simp add: cheritest_cheri_is_address_inbounds_def region_def cheri_base_get_def word_le_nat_alt word_less_nat_alt)

lemma last_byte:
  assumes "in_space c" "0 < cap_len c"
  shows "unat (cap_base c + cheri_length_get c - 1) = cap_top c - 1"
proof -
  have "unat (cap_base c + cheri_length_get c) \<noteq> 0" using assms by (simp add: cap_end cap_top_def)
  then show ?thesis using cap_end [OF assms(1)] by (metis unat_eq_zero unat_minus_one)
qed

lemma disjoint_by_last_bytes:
  fixes a b c d :: nat
  assumes "a < b" "c < d"
  shows "{a..<b} \<inter> {c..<d} = {} \<longleftrightarrow> b - 1 \<notin> {c..<d} \<and> d - 1 \<notin> {a..<b}"
proof
  assume "b - 1 \<notin> {c..<d} \<and> d - 1 \<notin> {a..<b}"
  then have "b \<le> c \<or> d \<le> a" using assms by auto
  then show "{a..<b} \<inter> {c..<d} = {}" by auto
next
  assume "{a..<b} \<inter> {c..<d} = {}"
  moreover have "b - 1 \<in> {a..<b}" "d - 1 \<in> {c..<d}" using assms by auto
  ultimately show "b - 1 \<notin> {c..<d} \<and> d - 1 \<notin> {a..<b}" by blast
qed

lemma arrays_apart:
  assumes "in_space a" "in_space e" "0 < cap_len a" "0 < cap_len e"
  shows "\<not> cheritest_cheri_is_address_inbounds e (cap_base a + cheri_length_get a - 1) \<and>
     \<not> cheritest_cheri_is_address_inbounds a (cap_base e + cheri_length_get e - 1) \<longleftrightarrow> region a \<inter> region e = {}"
  using disjoint_by_last_bytes [of "unat (cap_base a)" "cap_top a" "unat (cap_base e)" "cap_top e"] assms
  by (simp add: inbounds_region last_byte region_def cap_top_def)

lemma transp_precedes: "transp precedes"
  by (rule transpI) (auto simp: precedes_def word_less_nat_alt)

lemma sorted_precedes_Cons:
  "sorted_wrt precedes (x # xs) \<longleftrightarrow> (case xs of [] \<Rightarrow> True | y # ys \<Rightarrow> precedes x y) \<and> sorted_wrt precedes xs"
  by (cases xs) (use sorted_wrt2 [OF transp_precedes, of x] in auto)

lemma is_check_string_array:
  "list_all in_space xs \<Longrightarrow>
   is_check pl (check_string_array_bounds pl i xs :: ('k, unit) prog) (list_all starts_at_base xs \<and> sorted_wrt precedes xs)"
proof (induction xs arbitrary: i)
  case (Cons x xs)
  let ?here = "block ([CHERIOSTEST_VERIFY2 pl (cheri_base_get x = cheri_address_get x)
          ''unexpected argp[%d] addr and base %#p'' [FInt (int i), FPtr x]] @
       (case xs of [] \<Rightarrow> [] | nxt # _ \<Rightarrow>
         [CHERIOSTEST_VERIFY2 pl (cheri_base_get x < cheri_base_get nxt)
            ''Invalid argp[%d] base: expect %#p < %#p'' [FInt (int i), FPtr x, FPtr nxt],
          CHERIOSTEST_VERIFY2 pl (cheri_base_get x + cheri_length_get x \<le> cheri_base_get nxt)
            ''Invalid argp[%d] top: %#p overlaps %#p'' [FInt (int i), FPtr x, FPtr nxt]])) :: ('k, unit) prog"
  have "is_check pl ?here (list_all id (starts_at_base x #
     (case xs of [] \<Rightarrow> [] | nxt # _ \<Rightarrow> [cap_base x < cap_base nxt, cap_top x \<le> unat (cap_base nxt)])))"
    using Cons.prems cap_end [of x]
    by (intro is_check_block)
      (auto simp: starts_at_base_def cheri_base_get_def cheri_address_get_def word_le_nat_alt split: list.splits intro: is_check_VERIFY2)
  moreover have "is_check pl (check_string_array_bounds pl (Suc i) xs :: ('k, unit) prog) (list_all starts_at_base xs \<and> sorted_wrt precedes xs)"
    using Cons by simp
  ultimately have "is_check pl (check_string_array_bounds pl i (x # xs) :: ('k, unit) prog) (list_all id (starts_at_base x #
     (case xs of [] \<Rightarrow> [] | nxt # _ \<Rightarrow> [cap_base x < cap_base nxt, cap_top x \<le> unat (cap_base nxt)])) \<and>
     list_all starts_at_base xs \<and> sorted_wrt precedes xs)" unfolding check_string_array_bounds.simps by (intro is_check_bind)
  then show ?case
    by (rule back_subst [where P = "is_check pl _"])
      (auto simp: sorted_precedes_Cons [of x xs] precedes_def [of x] simp del: sorted_wrt.simps split: list.splits)
qed (auto intro: is_check_ret)


lemma block_after_notice: "block (only_if b [\<lambda>s. (Return (), g s)] @ ps) s = block ps (if b then g s else s)"
  by (simp add: only_if_def bindP_def)

lemma is_check_exit: "is_check pl p b \<Longrightarrow> (\<exists>t. bindP p (\<lambda>_ s. (Exited 0, s)) v = (Exited 0, t)) \<longleftrightarrow> b"
  by (cases b) (auto simp: is_check_def cheriostest_failure_errx_def EX_SOFTWARE_def bindP_def ret_def)

text \<open>
  C19: The check of a new process accepts exactly the vectors it is meant to accept: it exits with status 0 if and only if the two
  arrays and all strings have their address at their base, the two arrays have no byte in common, and in each array every
  string, not only the next one, begins behind the end of every string in front of it. Comparing the last byte of each array with
  the bounds of the other is enough. The capabilities must end within the address space, and the arrays have room for
  their \<^verbatim>\<open>NULL\<close>.
\<close>

theorem argv_check_iff:
  assumes "list_all in_space (sv_argv sv # sv_environ sv # sv_args sv @ sv_envs sv)" "0 < cap_len (sv_argv sv)" "0 < cap_len (sv_environ sv)"
  shows "(\<exists>t. cheriabi_check_argv_envv_bounds pl opt sv (s :: 'k pstate) = (Exited 0, t)) \<longleftrightarrow> vectors_ok sv"
proof -
  let ?a = "sv_argv sv" and ?e = "sv_environ sv"
  let ?checks = "[CHERIOSTEST_VERIFY2 pl (cheri_base_get ?a = cheri_address_get ?a) ''invalid argv base %#p'' [FPtr ?a],
     CHERIOSTEST_VERIFY2 pl (cheri_base_get ?e = cheri_address_get ?e) ''invalid envv base %#p'' [FPtr ?e],
     CHERIOSTEST_VERIFY2 pl (\<not> cheritest_cheri_is_address_inbounds ?e (cheri_base_get ?a + cheri_length_get ?a - 1) \<and>
       \<not> cheritest_cheri_is_address_inbounds ?a (cheri_base_get ?e + cheri_length_get ?e - 1))
       ''invalid argv bounds %#p overlaps envv %#p'' [FPtr ?a, FPtr ?e],
     check_string_array_bounds pl 0 (sv_args sv), check_string_array_bounds pl 0 (sv_envs sv)] :: ('k, unit) prog list"
  have "is_check pl (block ?checks) (list_all id [starts_at_base ?a, starts_at_base ?e, region ?a \<inter> region ?e = {},
     list_all starts_at_base (sv_args sv) \<and> sorted_wrt precedes (sv_args sv), list_all starts_at_base (sv_envs sv) \<and> sorted_wrt precedes (sv_envs sv)])"
    using assms is_check_string_array arrays_apart [of ?a ?e]
    by (intro is_check_block) (auto simp: starts_at_base_def cheri_base_get_def cheri_address_get_def intro: is_check_VERIFY2)
  then have checks: "is_check pl (block ?checks) (vectors_ok sv)" by (simp add: vectors_ok_def conj_assoc)
  have "cheriabi_check_argv_envv_bounds pl opt sv =
      block (only_if (verbose opt > 0) [\<lambda>s. (Return (), print_stderr pl ''argv=%#p'' [FPtr ?a] s)] @ ?checks @ [\<lambda>s. (Exited 0, s)])"
    by (simp add: cheriabi_check_argv_envv_bounds_def Let_def del: block.simps)
  then have "cheriabi_check_argv_envv_bounds pl opt sv s = bindP (block ?checks) (\<lambda>_ s. (Exited 0, s))
      (if verbose opt > 0 then print_stderr pl ''argv=%#p'' [FPtr ?a] s else s)"
    by (simp only: block_after_notice) (simp only: block_append block_single)
  then show ?thesis by (simp only: is_check_exit [OF checks])
qed

definition start_example :: start_vectors where
  "start_example = (let p = \<lambda>b n. \<lparr>cap_tag = True, cap_addr = b, cap_base = b, cap_len = n, cap_perms = 0, cap_otype = 0, cap_flags = 0\<rparr> in
     \<lparr>sv_argv = p 0x1000 48, sv_args = [p 0x2000 12, p 0x2010 3], sv_environ = p 0x1030 32, sv_envs = [p 0x3000 50000]\<rparr>)"

theorem argv_check_iff_witness:
  "\<forall>opt. \<exists>t. cheriabi_check_argv_envv_bounds morello_purecap opt start_example (fresh_process morello_purecap ()) = (Exited 0, t)"
proof -
  have "vectors_ok start_example"
    by (simp add: vectors_ok_def start_example_def starts_at_base_def region_def precedes_def cap_top_def Let_def)
  moreover have "list_all in_space (sv_argv start_example # sv_environ start_example # sv_args start_example @ sv_envs start_example)"
    "0 < cap_len (sv_argv start_example)" "0 < cap_len (sv_environ start_example)"
    by (simp_all add: start_example_def cap_top_def Let_def)
  ultimately show ?thesis using argv_check_iff [of start_example] by blast
qed

section \<open>The permissions of mappings\<close>

text \<open>
  What \<^verbatim>\<open>mmap\<close> promises: the permissions are those of \<^verbatim>\<open>PROT_MAX\<close> where it is given and of the protection itself otherwise; permission
  for capabilities comes with them unless \<^verbatim>\<open>PROT_NO_CAP\<close> says otherwise.
\<close>

fun max_of :: "prot list \<Rightarrow> prot list option" where
  "max_of [] = None"
| "max_of (PROT_MAX m # ps) = Some m"
| "max_of (p # ps) = max_of ps"

definition granted :: "prot list \<Rightarrow> prot list" where
  "granted prot = (case max_of prot of Some m \<Rightarrow> m | None \<Rightarrow> prot)"

definition perms_due :: "platform \<Rightarrow> prot list \<Rightarrow> uintmax \<Rightarrow> bool" where
  "perms_due pl prot perms \<longleftrightarrow>
     (let r = PROT_READ \<in> set (granted prot); w = PROT_WRITE \<in> set (granted prot); x = PROT_EXEC \<in> set (granted prot);
          caps = PROT_NO_CAP \<notin> set (granted prot)
      in (perms AND CHERI_PERM_LOAD pl \<noteq> 0) = r \<and> (perms AND CHERI_PERM_STORE pl \<noteq> 0) = w \<and>
         (perms AND CHERI_PERM_EXECUTE pl \<noteq> 0) = x \<and>
         (HAS_CHERI_PERM_LOAD_MUTABLE pl \<longrightarrow> (perms AND CHERI_PERM_LOAD_MUTABLE pl \<noteq> 0) = (r \<and> caps)) \<and>
         (HAS_CHERI_PERM_LOAD_STORE_CAP pl \<longrightarrow> (perms AND CHERI_PERM_LOAD_CAP pl \<noteq> 0) = (r \<and> caps) \<and>
            (perms AND CHERI_PERM_STORE_CAP pl \<noteq> 0) = (w \<and> caps)) \<and>
         (HAS_CHERI_PERM_CAP pl \<longrightarrow> (perms AND CHERI_PERM_CAP pl \<noteq> 0) = caps))"

definition plain_prots :: "prot list list" where
  "plain_prots = [[PROT_READ], [PROT_READ, PROT_WRITE], [PROT_READ, PROT_WRITE, PROT_EXEC]]"

definition tested_prots :: "'k abi_env \<Rightarrow> prot list list" where
  "tested_prots ae = plain_prots @ only_if (k_PROT_CAP (ae_kernel ae))
     (map (\<lambda>p. p @ [PROT_CAP]) plain_prots @ map (\<lambda>p. p @ [PROT_NO_CAP]) plain_prots @
      map (\<lambda>p. PROT_MAX (p @ [PROT_CAP]) # p @ [PROT_NO_CAP]) plain_prots)"

text \<open>A kernel that grants all these requests, with some permissions, and lets go of the page again.\<close>

definition grants :: "platform \<Rightarrow> 'k abi_env \<Rightarrow> (prot list \<Rightarrow> uintmax) \<Rightarrow> prot list \<Rightarrow> bool" where
  "grants pl ae g prot \<longleftrightarrow> (\<forall>v. \<exists>c v' v''. mmap_call (ae_resv ae) (cap_null pl) (PAGE_SIZE (ae_resv ae)) prot [MAP_ANON, MAP_PRIVATE] (- 1) v = (Inr c, v') \<and>
     cap_perms c = g prot \<and> k_munmap (ae_kernel ae) c (PAGE_SIZE (ae_resv ae)) v' = (Inr (), v''))"

text \<open>The bits fit into an \<^verbatim>\<open>int\<close>.\<close>

definition perm_bits_small :: "platform \<Rightarrow> bool" where
  "perm_bits_small pl \<longleftrightarrow> list_all (\<lambda>m. take_bit 31 m = m)
     [CHERI_PERM_LOAD pl, CHERI_PERM_STORE pl, CHERI_PERM_EXECUTE pl, CHERI_PERM_LOAD_MUTABLE pl, CHERI_PERM_LOAD_CAP pl,
      CHERI_PERM_STORE_CAP pl, CHERI_PERM_CAP pl]"

lemma and_small_mask: "take_bit 31 m = (m :: uintmax) \<Longrightarrow> signed_take_bit 31 p AND m = p AND m"
  by (rule bit_eqI) (metis (no_types, lifting) bit_and_iff bit_signed_take_bit_iff bit_take_bit_iff less_imp_le min.absorb2 min.commute)

definition rows_hold :: "uintmax \<Rightarrow> (string \<times> uintmax \<times> bool) list \<Rightarrow> bool" where
  "rows_hold perms = list_all (\<lambda>(name, mask, wanted). (signed_take_bit 31 perms AND mask \<noteq> 0) = wanted)"

lemma is_check_rows: "is_check pl (block (map (check_perm pl m (signed_take_bit 31 perms)) rows)) (rows_hold perms rows)"
proof -
  have "list_all2 (is_check pl) (map (check_perm pl m (signed_take_bit 31 perms)) rows)
      (map (\<lambda>(name, mask, wanted). (signed_take_bit 31 perms AND mask \<noteq> 0) = wanted) rows)"
    by (induction rows) (auto simp: check_perm_def intro: is_check_VERIFY2)
  from is_check_block [OF this] show ?thesis by (simp add: rows_hold_def list.pred_map case_prod_unfold comp_def)
qed

lemma perms_case_run:
  assumes "grants pl ae g prot"
  shows "\<exists>w. bindP (perms_case pl ae (prot, m, rows)) f s =
    bindP (block (map (check_perm pl m (signed_take_bit 31 (g prot))) rows)) f (s\<lparr>p_world := w\<rparr>)"
proof -
  obtain c v' v'' where "mmap_call (ae_resv ae) (cap_null pl) (PAGE_SIZE (ae_resv ae)) prot [MAP_ANON, MAP_PRIVATE] (- 1) (p_world s) = (Inr c, v')"
    "cap_perms c = g prot" "k_munmap (ae_kernel ae) c (PAGE_SIZE (ae_resv ae)) v' = (Inr (), v'')"
    using assms unfolding grants_def by blast
  then have "bindP (perms_case pl ae (prot, m, rows)) f s =
      bindP (block (map (check_perm pl m (signed_take_bit 31 (g prot))) rows)) f (s\<lparr>p_world := v''\<rparr>)"
    by (simp add: perms_case_def mmap_and_get_perms_def checked_mmap_def Let_def bindP_assoc bind_syscall cheri_perms_get_def)
  then show ?thesis by blast
qed

lemma perms_cases_success:
  "list_all (\<lambda>(prot, m, rows). grants pl ae g prot) cs \<Longrightarrow>
   declares_success (block (map (perms_case pl ae) cs @ [cheriostest_success])) s \<longleftrightarrow>
     p_ccsp s \<noteq> None \<and> list_all (\<lambda>(prot, m, rows). rows_hold (g prot) rows) cs"
proof (induction cs arbitrary: s)
  case (Cons c cs)
  obtain prot m rows where c: "c = (prot, m, rows)" by (metis prod_cases3)
  obtain w where w: "block (map (perms_case pl ae) (c # cs) @ [cheriostest_success]) s =
      bindP (block (map (check_perm pl m (signed_take_bit 31 (g prot))) rows))
        (\<lambda>_. block (map (perms_case pl ae) cs @ [cheriostest_success])) (s\<lparr>p_world := w\<rparr>)"
    using perms_case_run [of pl ae g prot m rows "\<lambda>_. block (map (perms_case pl ae) cs @ [cheriostest_success])" s] Cons.prems c by auto
  then have "declares_success (block (map (perms_case pl ae) (c # cs) @ [cheriostest_success])) s \<longleftrightarrow>
      declares_success (bindP (block (map (check_perm pl m (signed_take_bit 31 (g prot))) rows))
        (\<lambda>_. block (map (perms_case pl ae) cs @ [cheriostest_success]))) (s\<lparr>p_world := w\<rparr>)"
    by (simp only: declares_success_def)
  then show ?case
    using Cons.IH [of "s\<lparr>p_world := w\<rparr>"] Cons.prems by (auto simp: c is_check_success [OF is_check_rows] simp del: block.simps)
qed (simp add: declares_success_success)

text \<open>What the rows of a test ask for is what is due.\<close>

lemma rows_due:
  assumes "perm_bits_small pl"
  shows "perms_due pl [PROT_READ] p \<longleftrightarrow> rows_hold p (mmap_rows pl False False)"
    and "perms_due pl [PROT_READ, PROT_CAP] p \<longleftrightarrow> rows_hold p (mmap_rows pl False False)"
    and "perms_due pl [PROT_READ, PROT_NO_CAP] p \<longleftrightarrow> rows_hold p (maxprot_rows pl False False False)"
    and "perms_due pl (PROT_MAX [PROT_READ, PROT_CAP] # rest) p \<longleftrightarrow> rows_hold p (maxprot_rows pl True False False)"
    and "perms_due pl [PROT_READ, PROT_WRITE] p \<longleftrightarrow> rows_hold p (mmap_rows pl True False)"
    and "perms_due pl [PROT_READ, PROT_WRITE, PROT_CAP] p \<longleftrightarrow> rows_hold p (mmap_rows pl True False)"
    and "perms_due pl [PROT_READ, PROT_WRITE, PROT_NO_CAP] p \<longleftrightarrow> rows_hold p (maxprot_rows pl False True False)"
    and "perms_due pl (PROT_MAX [PROT_READ, PROT_WRITE, PROT_CAP] # rest) p \<longleftrightarrow> rows_hold p (maxprot_rows pl True True False)"
    and "perms_due pl [PROT_READ, PROT_WRITE, PROT_EXEC] p \<longleftrightarrow> rows_hold p (mmap_rows pl True True)"
    and "perms_due pl [PROT_READ, PROT_WRITE, PROT_EXEC, PROT_CAP] p \<longleftrightarrow> rows_hold p (mmap_rows pl True True)"
    and "perms_due pl [PROT_READ, PROT_WRITE, PROT_EXEC, PROT_NO_CAP] p \<longleftrightarrow> rows_hold p (maxprot_rows pl False True True)"
    and "perms_due pl (PROT_MAX [PROT_READ, PROT_WRITE, PROT_EXEC, PROT_CAP] # rest) p \<longleftrightarrow> rows_hold p (maxprot_rows pl True True True)"
  using assms
  by (cases "pl_arch pl";
      auto simp: rows_hold_def mmap_rows_def maxprot_rows_def load_mutable_row_def cap_rows_def perms_due_def granted_def feature_defs
        perm_bits_small_def and_small_mask)+

text \<open>
  The three tests of mapping permissions declare success exactly when the capabilities that \<^verbatim>\<open>mmap\<close> returns have the
  permissions it promises for each of the protections tried: those of the mapping, with the ones for capabilities unless
  \<^verbatim>\<open>PROT_NO_CAP\<close> is given, and those of \<^verbatim>\<open>PROT_MAX\<close> instead where that is given. It matters that the bits fit into an \<^verbatim>\<open>int\<close>.
\<close>

theorem mmap_perms_iff:
  assumes "list_all (grants pl ae g) (tested_prots ae)" "perm_bits_small pl"
  shows "declares_success (cheriabi_mmap_perms pl ae) s \<and>
      (k_PROT_CAP (ae_kernel ae) \<longrightarrow> declares_success (cheriabi_mmap_no_cap_perms pl ae) s \<and> declares_success (cheriabi_mmap_maxprot_perms pl ae) s) \<longleftrightarrow>
    p_ccsp s \<noteq> None \<and> list_all (\<lambda>prot. perms_due pl prot (g prot)) (tested_prots ae)"
proof -
  have "declares_success (cheriabi_mmap_perms pl ae) s \<longleftrightarrow> p_ccsp s \<noteq> None \<and> list_all (\<lambda>(prot, m, rows). rows_hold (g prot) rows) (mmap_perms_cases pl ae)"
    unfolding cheriabi_mmap_perms_def using assms(1)
    by (intro perms_cases_success) (auto simp: mmap_perms_cases_def tested_prots_def plain_prots_def only_if_def)
  moreover have "declares_success (cheriabi_mmap_no_cap_perms pl ae) s \<longleftrightarrow> p_ccsp s \<noteq> None \<and> list_all (\<lambda>(prot, m, rows). rows_hold (g prot) rows) (no_cap_perms_cases pl)"
    if "k_PROT_CAP (ae_kernel ae)"
    unfolding cheriabi_mmap_no_cap_perms_def using assms(1) that
    by (intro perms_cases_success) (simp add: no_cap_perms_cases_def tested_prots_def plain_prots_def)
  moreover have "declares_success (cheriabi_mmap_maxprot_perms pl ae) s \<longleftrightarrow> p_ccsp s \<noteq> None \<and> list_all (\<lambda>(prot, m, rows). rows_hold (g prot) rows) (maxprot_perms_cases pl)"
    if "k_PROT_CAP (ae_kernel ae)"
    unfolding cheriabi_mmap_maxprot_perms_def using assms(1) that
    by (intro perms_cases_success) (simp add: maxprot_perms_cases_def tested_prots_def plain_prots_def)
  moreover have "list_all (\<lambda>(prot, m, rows). rows_hold (g prot) rows) (mmap_perms_cases pl ae) \<and>
      (k_PROT_CAP (ae_kernel ae) \<longrightarrow> list_all (\<lambda>(prot, m, rows). rows_hold (g prot) rows) (no_cap_perms_cases pl) \<and>
         list_all (\<lambda>(prot, m, rows). rows_hold (g prot) rows) (maxprot_perms_cases pl)) \<longleftrightarrow>
      list_all (\<lambda>prot. perms_due pl prot (g prot)) (tested_prots ae)"
    by (auto simp: mmap_perms_cases_def no_cap_perms_cases_def maxprot_perms_cases_def tested_prots_def plain_prots_def rows_due [OF assms(2)] only_if_def)
  ultimately show ?thesis by blast
qed

text \<open>A kernel that gives what it promises.\<close>

definition due_perms :: "prot list \<Rightarrow> uintmax" where
  "due_perms prot = (let p = granted prot; c = PROT_NO_CAP \<notin> set p in
     (if PROT_READ \<in> set p then 0x20000 OR (if c then 0x4040 else 0) else 0) OR
     (if PROT_WRITE \<in> set p then 0x10000 OR (if c then 0x2000 else 0) else 0) OR (if PROT_EXEC \<in> set p then 0x8000 else 0))"

definition granting_kernel :: "unit vmk" where
  "granting_kernel = refusing_kernel\<lparr>k_PROT_CAP := True,
     k_mmap := \<lambda>a w. (Inr ((null_derived morello_purecap 0x40000)\<lparr>cap_tag := True, cap_perms := due_perms (ma_prot a)\<rparr>), w),
     k_munmap := \<lambda>c n w. (Inr (), w)\<rparr>"

definition abi_example :: "'k vmk \<Rightarrow> 'k abi_env" where
  "abi_example k = \<lparr>ae_resv = \<lparr>re_kernel = k, re_bufferp = cap_null morello_purecap, re_pcc = cap_null morello_purecap, CHERI_ALIGN_SHIFT = (\<lambda>_. 0),
       re_procstat = \<lparr>ps_open_ok = True, ps_procs = Some 1, ps_vmmap = Some [(0x1000, 0x20000), (0x900000, 0x901000)]\<rparr>, re_uninit = (0, 0),
       re_maps = None, re_quarantine = Inr 0, re_get_shadow = (\<lambda>w. (Inl 78, w)), ENOENT = 2, page_shift = 12\<rparr>,
     ae_mincore = (\<lambda>_ _ w. (Inr (), w)), ae_minherit = (\<lambda>_ _ _ w. (Inr (), w)),
     ae_shmget = (\<lambda>_ w. (Inr 1, w)), ae_shmat = (\<lambda>_ a w. (Inr a, w)), ae_shmdt = (\<lambda>_ w. (Inr (), w)), ae_putc = (\<lambda>_ w. (None, w)), ae_SW_VMEM = True,
     ae_exec = \<lparr>PATH_MAX = 1024, readlink_self_exe = None, elf_aux_execpath = Some ''/bin/cheriostest'', malloc_ok = True, calloc_ok = True\<rparr>,
     ae_spawn = \<lparr>sp_environ = [], sp_posix_spawn = (\<lambda>_ _ _. (0, 7)), sp_fork = 7, sp_vfork = 7, sp_rfork = 7\<rparr>,
     ae_opts = \<lparr>is_execed_child = False, execed_child_has_extra_argv = False, o_list = False, run_all = True, fast_tests_only = False,
       qtrace = False, qtrace_user_mode_only = False, sleep_after_test = False, coredump_enabled = False, debugger_enabled = False,
       verbose = 0, o_glob = False, o_xml = False\<rparr>,
     ae_execve = (\<lambda>_ _ _. ret ()), ae_waitpid = (\<lambda>_. 0)\<rparr>"

theorem mmap_perms_iff_witness:
  "declares_success (cheriabi_mmap_perms morello_purecap (abi_example granting_kernel)) (fresh_process morello_purecap ())"
proof -
  let ?ae = "abi_example granting_kernel"
  have "grants morello_purecap ?ae due_perms prot" for prot
    by (auto simp: grants_def mmap_call_def abi_example_def granting_kernel_def)
  then have "list_all (grants morello_purecap ?ae due_perms) (tested_prots ?ae)" by (simp add: list_all_iff)
  moreover have "perm_bits_small morello_purecap"
    by (simp add: perm_bits_small_def morello_purecap_def take_bit_eq_mask mask_eq_exp_minus_1)
  moreover have "list_all (\<lambda>prot. perms_due morello_purecap prot (due_perms prot)) (tested_prots ?ae)"
    by (simp add: tested_prots_def plain_prots_def abi_example_def granting_kernel_def perms_due_def due_perms_def granted_def
        morello_purecap_def feature_defs Let_def)
  ultimately show ?thesis using mmap_perms_iff [of morello_purecap ?ae due_perms "fresh_process morello_purecap ()"] by simp
qed

section \<open>Pointers to refuse\<close>

lemma call_error_refused:
  "call (p_world s) = (Inl e, w) \<Longrightarrow>
   bindP (CHERIOSTEST_CHECK_CALL_ERROR pl t (int_call call) e) f s = f () (s\<lparr>p_errno := e, p_world := w\<rparr>)"
  by (simp add: CHERIOSTEST_CHECK_CALL_ERROR_def int_call_def bindP_def CHERIOSTEST_VERIFY2_def cheriostest_check_errno_def ret_def)

lemma call_error_accepted:
  "call (p_world s) = (Inr x, w) \<Longrightarrow> bindP (CHERIOSTEST_CHECK_CALL_ERROR pl t (int_call call) e) f s =
     cheriostest_failure_errx pl (t @ '' unexpectedly returned %d'') [FInt 0] (s\<lparr>p_errno := 0, p_world := w\<rparr>)"
  by (simp add: CHERIOSTEST_CHECK_CALL_ERROR_def int_call_def bindP_def CHERIOSTEST_VERIFY2_def cheriostest_failure_errx_def ret_def)

text \<open>
  The interface: a call that takes a pointer and a length, refuses with a given error and without effect what it does not accept,
  and grants what it accepts; \<open>live\<close> are the addresses of the mappings that can be written.
\<close>

locale pointer_call =
  fixes ae :: "'k abi_env" and call :: "cap \<Rightarrow> nat \<Rightarrow> ('k, unit) sys" and err :: int
    and accepts :: "cap \<Rightarrow> nat \<Rightarrow> bool" and live :: "'k \<Rightarrow> ptraddr set"
  assumes refuse: "\<not> accepts p n \<Longrightarrow> call p n w = (Inl err, w)"
    and grant: "accepts p n \<Longrightarrow> \<exists>w'. call p n w = (Inr (), w')"
    and writable: "cap_tag p \<Longrightarrow> cap_addr p \<in> live w \<Longrightarrow> \<exists>w'. ae_putc ae p w = (None, w') \<and> live w' = live w"
begin

lemma put_byte_live:
  assumes "cap_tag p" "cap_addr p \<in> live (p_world s)"
  shows "\<exists>w. bindP (put_byte ae p) f s = f () (s\<lparr>p_world := w\<rparr>) \<and> live w = live (p_world s)"
  using writable [OF assms] by (auto simp: put_byte_def bindP_def)

lemma refused_cases:
  assumes "err = expected_errno pl ae" "list_all (\<lambda>(p, n, args, alive). \<not> accepts p n \<and> cap_tag alive \<and> cap_addr alive \<in> live (p_world s)) cs"
  shows "\<exists>t. block (map (refuse_case pl ae fn suffix_args call) cs @ rest) s = block rest t \<and> p_ccsp t = p_ccsp s \<and> live (p_world t) = live (p_world s)"
  using assms(2)
proof (induction cs arbitrary: s)
  case (Cons c cs)
  obtain p n args alive where c: "c = (p, n, args, alive)" by (metis prod_cases4)
  obtain w where "block (map (refuse_case pl ae fn suffix_args call) (c # cs) @ rest) s =
      block (map (refuse_case pl ae fn suffix_args call) cs @ rest) (s\<lparr>p_errno := err, p_world := w\<rparr>)" "live w = live (p_world s)"
    using Cons.prems put_byte_live [of alive "s\<lparr>p_errno := err\<rparr>" "\<lambda>_. block (map (refuse_case pl ae fn suffix_args call) cs @ rest)"]
    by (auto simp: c refuse_case_def bindP_assoc assms(1) [symmetric] call_error_refused [OF refuse])
  then show ?case using Cons.IH [of "s\<lparr>p_errno := err, p_world := w\<rparr>"] Cons.prems by auto
qed auto

lemma accepted_case:
  assumes "err = expected_errno pl ae" "list_all (\<lambda>(p, n, args, alive). cap_tag alive \<and> cap_addr alive \<in> live (p_world s)) cs"
    and "list_ex (\<lambda>(p, n, args, alive). accepts p n) cs" "p_ccsp s \<noteq> None"
  shows "declares_failure (block (map (refuse_case pl ae fn suffix_args call) cs @ rest)) s"
  using assms(2-4)
proof (induction cs arbitrary: s)
  case (Cons c cs)
  obtain p n args alive where c: "c = (p, n, args, alive)" by (metis prod_cases4)
  show ?case
  proof (cases "accepts p n")
    case True
    then obtain w where "call p n (p_world s) = (Inr (), w)" using grant by blast
    then have "block (map (refuse_case pl ae fn suffix_args call) (c # cs) @ rest) s = cheriostest_failure_errx pl
        ((fn @ ''('' @ args @ suffix_args @ '')'') @ '' unexpectedly returned %d'') [FInt 0] (s\<lparr>p_errno := 0, p_world := w\<rparr>)"
      by (simp add: c refuse_case_def bindP_assoc call_error_accepted)
    moreover have "declares_failure (cheriostest_failure_errx pl m ap :: ('k, unit) prog) (s\<lparr>p_errno := 0, p_world := w\<rparr>)" for m ap
      using Cons.prems(3) by (simp add: declares_failure_errx)
    ultimately show ?thesis unfolding declares_failure_def by (simp only:)
  next
    case False
    then obtain t where "block (map (refuse_case pl ae fn suffix_args call) (c # cs) @ rest) s = block (map (refuse_case pl ae fn suffix_args call) cs @ rest) t"
      "p_ccsp t = p_ccsp s" "live (p_world t) = live (p_world s)"
      using refused_cases [OF assms(1), where fn = fn and suffix_args = suffix_args and cs = "[c]" and s = s and rest = "map (refuse_case pl ae fn suffix_args call) cs @ rest"] Cons.prems(1)
      by (auto simp: c simp del: block.simps)
    then show ?thesis using Cons.IH [of t] Cons.prems False by (auto simp: c declares_failure_def simp del: block.simps)
  qed
qed simp

end

text \<open>A kernel whose \<^verbatim>\<open>munmap\<close> and \<^verbatim>\<open>mprotect\<close> are such calls, and that maps at fixed addresses.\<close>

locale pointer_checks =
  unmap: pointer_call ae "k_munmap (ae_kernel ae)" "expected_errno pl ae" accepts live +
  protect: pointer_call ae "\<lambda>p n. k_mprotect (ae_kernel ae) p n []" "expected_errno pl ae" accepts live
  for pl :: platform and ae :: "'k abi_env" and accepts :: "cap \<Rightarrow> nat \<Rightarrow> bool" and live :: "'k \<Rightarrow> ptraddr set" +
  assumes maps: "unat a + n < 2 ^ 64 \<Longrightarrow> \<exists>c w'. mmap_at ae (null_derived pl a) n w = (Inr c, w') \<and>
      cap_tag c \<and> cap_addr c = a \<and> cap_base c = a \<and> cap_len c = n \<and> live w' = insert a (live w)"
    and protects: "accepts p n \<Longrightarrow> \<exists>w'. k_mprotect (ae_kernel ae) p n [PROT_READ] w = (Inr (), w')"
    and own: "cap_tag c \<Longrightarrow> cap_addr c = cap_base c \<Longrightarrow> accepts c (cap_len c)"

text \<open>Three mappings of the same length, one behind the other.\<close>

definition adjacent :: "ptraddr \<Rightarrow> adjacent_mappings \<Rightarrow> bool" where
  "adjacent gap m \<longleftrightarrow> 0 < am_maplen m \<and> unat gap + am_maplen m * 3 < 2 ^ 64 \<and>
     list_all (\<lambda>(c, a). cap_tag c \<and> cap_addr c = a \<and> cap_base c = a \<and> cap_len c = am_maplen m)
       [(am_first m, gap), (am_middle m, gap + of_nat (am_maplen m)), (am_last m, gap + of_nat (am_maplen m) + of_nat (am_maplen m))]"

lemma bind_checked_call:
  "call (p_world s) = (Inr x, w) \<Longrightarrow> bindP (checked_call pl call m ap) f s = f x (s\<lparr>p_world := w\<rparr>)"
  by (simp add: checked_call_def bindP_def)

lemma unat_add_small: "unat (a :: ptraddr) + n < 2 ^ 64 \<Longrightarrow> unat (a + of_nat n) = unat a + n"
  by (simp add: unat_word_ariths unat_of_nat)

context pointer_checks
begin

lemma create_run:
  assumes gap: "find_address_space_gap pl (ae_resv ae) (k_pagesize (ae_kernel ae) * 2 * 3) = ret gap"
    and room: "0 < k_pagesize (ae_kernel ae)" "unat gap + k_pagesize (ae_kernel ae) * 2 * 3 < 2 ^ 64"
  shows "\<exists>m w. (\<forall>f :: adjacent_mappings \<Rightarrow> ('k, unit) prog. bindP (create_adjacent_mappings pl ae) f s = f m (s\<lparr>p_world := w\<rparr>)) \<and> adjacent gap m \<and>
    {cap_addr (am_first m), cap_addr (am_middle m), cap_addr (am_last m)} \<subseteq> live w"
proof -
  let ?n = "k_pagesize (ae_kernel ae) * 2"
  have un: "unat (gap + of_nat ?n) = unat gap + ?n" "unat (gap + of_nat ?n + of_nat ?n) = unat gap + ?n + ?n"
    using room unat_add_small [of gap ?n] unat_add_small [of "gap + of_nat ?n" ?n] by simp_all
  obtain c1 w1 where 1: "mmap_at ae (null_derived pl gap) ?n (p_world s) = (Inr c1, w1)" "cap_tag c1" "cap_addr c1 = gap" "cap_base c1 = gap"
    "cap_len c1 = ?n" "live w1 = insert gap (live (p_world s))"
    using maps [of gap ?n] room by fastforce
  obtain c2 w2 where 2: "mmap_at ae (null_derived pl (gap + of_nat ?n)) ?n w1 = (Inr c2, w2)" "cap_tag c2" "cap_addr c2 = gap + of_nat ?n"
    "cap_base c2 = gap + of_nat ?n" "cap_len c2 = ?n" "live w2 = insert (gap + of_nat ?n) (live w1)"
    using maps [of "gap + of_nat ?n" ?n w1] room un by fastforce
  obtain c3 w3 where 3: "mmap_at ae (null_derived pl (gap + of_nat ?n + of_nat ?n)) ?n w2 = (Inr c3, w3)" "cap_tag c3"
    "cap_addr c3 = gap + of_nat ?n + of_nat ?n" "cap_base c3 = gap + of_nat ?n + of_nat ?n" "cap_len c3 = ?n"
    "live w3 = insert (gap + of_nat ?n + of_nat ?n) (live w2)"
    using maps [of "gap + of_nat ?n + of_nat ?n" ?n w2] room un by fastforce
  let ?m = "\<lparr>am_first = c1, am_middle = c2, am_last = c3, am_maplen = ?n\<rparr>"
  have "bindP (create_adjacent_mappings pl ae) f s = f ?m (s\<lparr>p_world := w3\<rparr>)" for f :: "adjacent_mappings \<Rightarrow> ('k, unit) prog"
    unfolding create_adjacent_mappings_def Let_def gap bindP_ret bindP_assoc
    using 1 2 3
    by (simp add: bind_syscall bind_checked_call bindP_VERIFY CHERIOSTEST_CHECK_EQ_def bindP_VERIFY2 cheri_tag_get_def cheri_address_get_def
        del: of_nat_mult)
  moreover have "adjacent gap ?m" using 1 2 3 room by (simp add: adjacent_def)
  moreover have "{cap_addr (am_first ?m), cap_addr (am_middle ?m), cap_addr (am_last ?m)} \<subseteq> live w3" using 1 2 3 by simp
  ultimately show ?thesis by blast
qed

lemma free_run:
  assumes "adjacent gap m" "p_ccsp s \<noteq> None"
  shows "declares_success (block [free_adjacent_mappings pl ae m, cheriostest_success]) s"
proof -
  have acc: "accepts (am_first m) (am_maplen m)" "accepts (am_middle m) (am_maplen m)" "accepts (am_last m) (am_maplen m)"
    using assms(1) own [of "am_first m"] own [of "am_middle m"] own [of "am_last m"] by (simp_all add: adjacent_def)
  obtain w1 where 1: "k_munmap (ae_kernel ae) (am_first m) (am_maplen m) (p_world s) = (Inr (), w1)" using unmap.grant [OF acc(1)] by blast
  obtain w2 where 2: "k_munmap (ae_kernel ae) (am_middle m) (am_maplen m) w1 = (Inr (), w2)" using unmap.grant [OF acc(2)] by blast
  obtain w3 where 3: "k_munmap (ae_kernel ae) (am_last m) (am_maplen m) w2 = (Inr (), w3)" using unmap.grant [OF acc(3)] by blast
  have "block [free_adjacent_mappings pl ae m, cheriostest_success] s = cheriostest_success (s\<lparr>p_world := w3\<rparr>)"
    using 1 2 3 by (simp add: free_adjacent_mappings_def bindP_assoc bind_syscall)
  then show ?thesis using assms(2) declares_success_success [of "s\<lparr>p_world := w3\<rparr>"] by (simp add: declares_success_def del: block.simps)
qed

lemma protect_run:
  assumes "adjacent gap m"
  shows "\<exists>t. block ([CHERIOSTEST_CHECK_SYSCALL pl (k_mprotect (ae_kernel ae) (am_middle m) (am_maplen m) []) m1,
      CHERIOSTEST_CHECK_SYSCALL pl (k_mprotect (ae_kernel ae) (am_middle m) (am_maplen m) [PROT_READ]) m2] @ rest) s = block rest t \<and> p_ccsp t = p_ccsp s"
proof -
  have acc: "accepts (am_middle m) (am_maplen m)" using assms own [of "am_middle m"] by (simp add: adjacent_def)
  obtain w1 where 1: "k_mprotect (ae_kernel ae) (am_middle m) (am_maplen m) [] (p_world s) = (Inr (), w1)" using protect.grant [OF acc] by blast
  obtain w2 where 2: "k_mprotect (ae_kernel ae) (am_middle m) (am_maplen m) [PROT_READ] w1 = (Inr (), w2)" using protects [OF acc] by blast
  show ?thesis by (rule exI [of _ "s\<lparr>p_world := w2\<rparr>"]) (use 1 2 in \<open>simp add: bind_syscall\<close>)
qed

lemma alive_cases:
  "adjacent gap m \<Longrightarrow> {cap_addr (am_first m), cap_addr (am_middle m), cap_addr (am_last m)} \<subseteq> live w \<Longrightarrow>
   list_all (\<lambda>(p, n, args, alive). cap_tag alive \<and> cap_addr alive \<in> live w) (invalid_ptr_cases pl m)"
  by (simp add: invalid_ptr_cases_def adjacent_def)

text \<open>Both tests pass exactly when none of the five pointers is accepted.\<close>

lemma invalid_ptr_tests:
  assumes "find_address_space_gap pl (ae_resv ae) (k_pagesize (ae_kernel ae) * 2 * 3) = ret gap"
    and "0 < k_pagesize (ae_kernel ae)" "unat gap + k_pagesize (ae_kernel ae) * 2 * 3 < 2 ^ 64" "p_ccsp s \<noteq> None"
  shows "\<exists>m. adjacent gap m \<and>
    (if list_all (\<lambda>(p, n, args, alive). \<not> accepts p n) (invalid_ptr_cases pl m)
     then declares_success (cheriabi_munmap_invalid_ptr pl ae) s \<and> declares_success (cheriabi_mprotect_invalid_ptr pl ae) s
     else declares_failure (cheriabi_munmap_invalid_ptr pl ae) s \<and> declares_failure (cheriabi_mprotect_invalid_ptr pl ae) s)"
proof -
  obtain m w where run: "bindP (create_adjacent_mappings pl ae) f s = f m (s\<lparr>p_world := w\<rparr>)" and adj: "adjacent gap m"
    and live: "{cap_addr (am_first m), cap_addr (am_middle m), cap_addr (am_last m)} \<subseteq> live w" for f :: "adjacent_mappings \<Rightarrow> ('k, unit) prog"
    using create_run [OF assms(1-3)] by metis
  let ?cs = "invalid_ptr_cases pl m" and ?s = "s\<lparr>p_world := w\<rparr>"
  let ?prot = "\<lambda>prot. CHERIOSTEST_CHECK_SYSCALL pl (k_mprotect (ae_kernel ae) (am_middle m) (am_maplen m) prot)"
  let ?fin = "[free_adjacent_mappings pl ae m, cheriostest_success]"
  let ?pfin = "[?prot [] ''mprotect(mappings.middle, mappings.maplen, PROT_NONE)'', ?prot [PROT_READ] ''mprotect(mappings.middle, mappings.maplen, PROT_READ)''] @ ?fin"
  have un: "cheriabi_munmap_invalid_ptr pl ae s = block (map (refuse_case pl ae ''munmap'' [] (k_munmap (ae_kernel ae))) ?cs @ ?fin) ?s"
    unfolding cheriabi_munmap_invalid_ptr_def by (rule run)
  have pr: "cheriabi_mprotect_invalid_ptr pl ae s =
      block (map (refuse_case pl ae ''mprotect'' '', PROT_NONE'' (\<lambda>p n. k_mprotect (ae_kernel ae) p n [])) ?cs @ ?pfin) ?s"
    unfolding cheriabi_mprotect_invalid_ptr_def run by simp
  have alive: "list_all (\<lambda>(p, n, args, alive). cap_tag alive \<and> cap_addr alive \<in> live (p_world ?s)) ?cs" using alive_cases [OF adj live] by simp
  show ?thesis
  proof (cases "list_all (\<lambda>(p, n, args, alive). \<not> accepts p n) ?cs")
    case True
    then have ok: "list_all (\<lambda>(p, n, args, alive). \<not> accepts p n \<and> cap_tag alive \<and> cap_addr alive \<in> live (p_world ?s)) ?cs"
      using alive by (auto simp: list_all_iff)
    obtain t where t: "cheriabi_munmap_invalid_ptr pl ae s = block ?fin t" "p_ccsp t = p_ccsp s"
      using unmap.refused_cases [OF refl ok, where fn = "''munmap''" and suffix_args = "[]" and rest = ?fin] unfolding un by auto
    obtain u where u: "cheriabi_mprotect_invalid_ptr pl ae s = block ?pfin u" "p_ccsp u = p_ccsp s"
      using protect.refused_cases [OF refl ok, where fn = "''mprotect''" and suffix_args = "'', PROT_NONE''" and rest = ?pfin] unfolding pr by auto
    obtain u' where u': "block ?pfin u = block ?fin u'" "p_ccsp u' = p_ccsp u" using protect_run [OF adj] by blast
    have "p_ccsp t \<noteq> None" "p_ccsp u' \<noteq> None" using t(2) u(2) u'(2) assms(4) by simp_all
    then have "declares_success (block ?fin) t" "declares_success (block ?fin) u'" using free_run [OF adj] by blast+
    then have "declares_success (cheriabi_munmap_invalid_ptr pl ae) s" "declares_success (cheriabi_mprotect_invalid_ptr pl ae) s"
      unfolding declares_success_def t(1) u(1) u'(1) by blast+
    then show ?thesis using True adj by auto
  next
    case False
    then have bad: "list_ex (\<lambda>(p, n, args, alive). accepts p n) ?cs" by (auto simp: list_all_iff list_ex_iff)
    have "p_ccsp ?s \<noteq> None" using assms(4) by simp
    from unmap.accepted_case [OF refl alive bad this] protect.accepted_case [OF refl alive bad this]
    have "declares_failure (cheriabi_munmap_invalid_ptr pl ae) s" "declares_failure (cheriabi_mprotect_invalid_ptr pl ae) s"
      unfolding declares_failure_def un pr by blast+
    then show ?thesis using False adj by auto
  qed
qed

end

text \<open>
  A kernel that keeps the addresses of its mappings and asks, for \<^verbatim>\<open>munmap\<close> and \<^verbatim>\<open>mprotect\<close>, what it accepts.
\<close>

definition checking_kernel :: "(cap \<Rightarrow> nat \<Rightarrow> bool) \<Rightarrow> ptraddr set vmk" where
  "checking_kernel accepts = \<lparr>k_random = (\<lambda>w. (7, w)), k_shm_open = (\<lambda>_ _ w. (Inl 17, w)), k_shm_unlink = (\<lambda>_ w. (Inl 2, w)),
     k_memfd_create = (\<lambda>_ w. (Inl 24, w)), k_open = (\<lambda>_ w. (Inl 2, w)), k_mkstemp = (\<lambda>_ w. (Inl 13, w)), k_unlink = (\<lambda>_ w. (Inl 2, w)),
     k_ftruncate = (\<lambda>_ _ w. (Inl 22, w)),
     k_mmap = (\<lambda>a w. (Inr ((ma_addr a)\<lparr>cap_tag := True, cap_base := cap_addr (ma_addr a), cap_len := ma_len a\<rparr>), insert (cap_addr (ma_addr a)) w)),
     k_munmap = (\<lambda>p n w. if accepts p n then (Inr (), {a \<in> w. a < cap_addr p \<or> unat (cap_addr p) + n \<le> unat a}) else (Inl 35, w)),
     k_mprotect = (\<lambda>p n _ w. if accepts p n then (Inr (), w) else (Inl 35, w)), k_close = (\<lambda>_ w. (Inl 9, w)), k_store = (\<lambda>_ _ w. (None, w)),
     k_load = (\<lambda>_ w. (Inr (cap_null morello_purecap), w)), k_touch = (\<lambda>_ w. (None, w)), k_read = (\<lambda>_ w. (Inl 9, w)), k_write = (\<lambda>_ _ w. (Inl 9, w)),
     k_pagesize = 4096, k_PROT_CAP = True, k_PROT_NO_CAP = True, k_local = cap_null morello_purecap,
     EINVAL = 22, ENOMEM = 12, EACCES = 13, ENOTSUP = 45, EPROT = 35\<rparr>"

definition checking_env :: "(cap \<Rightarrow> nat \<Rightarrow> bool) \<Rightarrow> ptraddr set abi_env" where
  "checking_env accepts = (abi_example (checking_kernel accepts))\<lparr>ae_putc := \<lambda>p w.
     (if cap_tag p \<and> cap_addr p \<in> w then None else Some \<lparr>si_signo = 11, si_code = 1, si_trapno = 0, si_addr = p\<rparr>, w)\<rparr>"

text \<open>The capability must be valid and cover what the call is about.\<close>

definition checked_ptr :: "cap \<Rightarrow> nat \<Rightarrow> bool" where
  "checked_ptr p n \<longleftrightarrow> cap_tag p \<and> access_in_bounds p n"

interpretation caps: pointer_checks morello_purecap "checking_env checked_ptr" checked_ptr id
  by unfold_locales
    (auto simp: checking_env_def abi_example_def checking_kernel_def expected_errno_def is_FreeBSD_def morello_purecap_def mmap_at_def mmap_call_def
      null_derived_def checked_ptr_def access_in_bounds_def cap_top_def)

lemma out_of_bounds_cases:
  assumes "adjacent gap m"
  shows "list_all (\<lambda>(p, n, args, alive). \<not> checked_ptr p n) (invalid_ptr_cases pl m)"
proof -
  let ?n = "am_maplen m" and ?c = "am_middle m"
  have n: "0 < ?n" "unat gap + ?n * 3 < 2 ^ 64" and c: "cap_addr ?c = gap + of_nat ?n" "cap_base ?c = gap + of_nat ?n" "cap_len ?c = ?n"
    using assms by (simp_all add: adjacent_def)
  have un: "unat (gap + of_nat ?n) = unat gap + ?n" "unat (gap + of_nat ?n + of_nat ?n) = unat gap + ?n + ?n"
    using n unat_add_small [of gap ?n] unat_add_small [of "gap + of_nat ?n" ?n] by simp_all
  show ?thesis
    using n(1) c un
    by (simp add: invalid_ptr_cases_def checked_ptr_def access_in_bounds_def cap_top_def cheri_tag_clear_def cheri_offset_increment_def cheri_address_set_def)
qed

lemma address_only_accepts:
  assumes "adjacent gap m" "\<And>c. cap_tag c \<Longrightarrow> cap_addr c = cap_base c \<Longrightarrow> accepts c (cap_len c)" "\<And>p q n. cap_addr p = cap_addr q \<Longrightarrow> accepts p n = accepts q n"
  shows "\<not> list_all (\<lambda>(p, n, args, alive). \<not> accepts p n) (invalid_ptr_cases pl m)"
proof -
  have "accepts (am_middle m) (am_maplen m)" using assms(1) assms(2) [of "am_middle m"] by (simp add: adjacent_def)
  then have "accepts (cheri_tag_clear (am_middle m)) (am_maplen m)" using assms(3) [of "am_middle m" "cheri_tag_clear (am_middle m)"] by (simp add: cheri_tag_clear_def)
  then show ?thesis by (simp add: invalid_ptr_cases_def)
qed



end
