(* ===== verification/Statements.thy ===== *)
theory Statements
  imports Vm_Reservations Exec
begin

text \<open>
  Statements that several test files share: effects on the world that may raise a signal, observations, a process that ends, and \<^verbatim>\<open>fork\<close>
  followed by \<^verbatim>\<open>waitpid\<close>; and when a body of such statements declares success.
\<close>

section \<open>Statements\<close>

definition effect :: "('k \<Rightarrow> siginfo option \<times> 'k) \<Rightarrow> ('k, unit) prog" where
  "effect f = (\<lambda>s. case f (p_world s) of
       (Some i, w) \<Rightarrow> (Trapped i, s\<lparr>p_world := w\<rparr>)
     | (None, w) \<Rightarrow> (Return (), s\<lparr>p_world := w\<rparr>))"

definition observe :: "('k \<Rightarrow> 'a \<times> 'k) \<Rightarrow> ('k, 'a) prog" where
  "observe f = (\<lambda>s. let (x, w) = f (p_world s) in (Return x, s\<lparr>p_world := w\<rparr>))"

definition leave :: "int \<Rightarrow> ('k, 'a) prog" where
  "leave n = (\<lambda>s. (Exited n, s))"

definition notice :: "platform \<Rightarrow> string \<Rightarrow> cap farg list \<Rightarrow> ('k, unit) prog" where
  "notice pl msg ap = (\<lambda>s. (Return (), print_stderr pl msg ap s))"

text \<open>
  A value that the C library computes, in a program: it is there, or the process ends.
\<close>

definition from_c :: "'a cres \<Rightarrow> ('k, 'a) prog" where
  "from_c r = (case r of COk x \<Rightarrow> ret x | CExit e \<Rightarrow> leave e | COverflow \<Rightarrow> (\<lambda>s. (Undefined, s)))"

text \<open>
  \<^verbatim>\<open>fork\<close> and \<^verbatim>\<open>waitpid\<close>: the new process runs to its end on a copy of the state, and the old one goes on with its status. They share
  the page \<^verbatim>\<open>ccsp\<close>, the streams and the system.
\<close>

definition with_child :: "platform \<Rightarrow> ('k, unit) prog \<Rightarrow> (wait_status \<Rightarrow> ('k, unit) prog) \<Rightarrow> ('k, unit) prog" where
  "with_child pl child parent = (\<lambda>s.
     let (status, t) = finish_process pl (child s) in parent status (t\<lparr>p_errno := p_errno s, p_sigaction := p_sigaction s\<rparr>))"

definition fork_then :: "platform \<Rightarrow> ('k, int) sys \<Rightarrow> ('k, unit) prog \<Rightarrow> (wait_status \<Rightarrow> ('k, unit) prog) \<Rightarrow> ('k, unit) prog" where
  "fork_then pl fork child parent =
     bindP (raw_call fork) (\<lambda>r.
     let pid = (case r of None \<Rightarrow> - 1 | Some pid \<Rightarrow> pid) in
     bindP (CHERIOSTEST_VERIFY pl (pid \<ge> 0) ''pid >= 0'') (\<lambda>_. with_child pl child parent))"

text \<open>The comparisons of \<^verbatim>\<open>cheriostest.h\<close>.\<close>

definition CHERIOSTEST_CHECK_EQ_INT :: "platform \<Rightarrow> int \<Rightarrow> int \<Rightarrow> string \<Rightarrow> string \<Rightarrow> ('k, unit) prog" where
  "CHERIOSTEST_CHECK_EQ_INT pl a b a_str b_str = CHERIOSTEST_VERIFY2 pl (a = b) ''%s (0x%x) == %s (0x%x) failed!'' [FStr a_str, FInt a, FStr b_str, FInt b]"

definition CHERIOSTEST_CHECK_EQ_SIZE :: "platform \<Rightarrow> nat \<Rightarrow> nat \<Rightarrow> string \<Rightarrow> string \<Rightarrow> ('k, unit) prog" where
  "CHERIOSTEST_CHECK_EQ_SIZE pl a b a_str b_str =
     CHERIOSTEST_VERIFY2 pl (a = b) ''%s (0x%zx) == %s (0x%zx) failed!'' [FStr a_str, FWord (of_nat a), FStr b_str, FWord (of_nat b)]"

section \<open>A call that succeeds\<close>

text \<open>The call succeeds, and its value and the state it leaves have a property; so that what a test needs of its calls reads in their order.\<close>

definition after :: "('k, 'a) sys \<Rightarrow> 'k \<Rightarrow> ('a \<Rightarrow> 'k \<Rightarrow> bool) \<Rightarrow> bool" where
  "after call k P \<longleftrightarrow> (case call k of (Inl e, k') \<Rightarrow> False | (Inr x, k') \<Rightarrow> P x k')"

lemma after_iff: "after call k P \<longleftrightarrow> (\<exists>x k'. call k = (Inr x, k') \<and> P x k')"
  by (auto simp: after_def split: prod.splits sum.splits)

lemma afterI: "call k = (Inr x, k') \<Longrightarrow> P x k' \<Longrightarrow> after call k P"
  by (simp add: after_def)

lemma after_cong:
  "call = call' \<Longrightarrow> k = k' \<Longrightarrow> (\<And>x j. call' k' = (Inr x, j) \<Longrightarrow> P x j = Q x j) \<Longrightarrow> after call k P = after call' k' Q"
  by (auto simp: after_iff)

lemma after_mono: "after call k P \<Longrightarrow> (\<And>x k'. call k = (Inr x, k') \<Longrightarrow> P x k' \<Longrightarrow> Q x k') \<Longrightarrow> after call k Q"
  by (auto simp: after_iff)

section \<open>When they declare success\<close>

lemma success_CHECK_EQ [passes_simps]:
  "declares_success (bindP (CHERIOSTEST_CHECK_EQ_INT pl i j m n) f) s \<longleftrightarrow> i = j \<and> declares_success (f ()) s"
  "declares_success (bindP (CHERIOSTEST_CHECK_EQ_SIZE pl k l m n) f) s \<longleftrightarrow> k = l \<and> declares_success (f ()) s"
  by (simp_all add: CHERIOSTEST_CHECK_EQ_INT_def CHERIOSTEST_CHECK_EQ_SIZE_def declares_success_VERIFY2)

lemma success_observe [passes_simps]:
  "declares_success (bindP (observe f) g) s \<longleftrightarrow> declares_success (g (fst (f (p_world s)))) (s\<lparr>p_world := snd (f (p_world s))\<rparr>)"
  by (simp add: declares_success_def bindP_def observe_def split: prod.splits)

lemma success_upd_world [passes_simps]:
  "declares_success (bindP (upd_world f) g) s \<longleftrightarrow> declares_success (g ()) (s\<lparr>p_world := f (p_world s)\<rparr>)"
  by (simp add: declares_success_def bindP_def upd_world_def)

lemma success_effect [passes_simps]:
  "declares_success (bindP (effect f) g) s \<longleftrightarrow> fst (f (p_world s)) = None \<and> declares_success (g ()) (s\<lparr>p_world := snd (f (p_world s))\<rparr>)"
  by (auto simp: declares_success_def bindP_def effect_def split: prod.splits option.splits)

lemma success_raw_call:
  "declares_success (bindP (raw_call call) f) s \<longleftrightarrow> (case call (p_world s) of
     (Inl e, w) \<Rightarrow> declares_success (f None) (s\<lparr>p_errno := e, p_world := w\<rparr>) | (Inr x, w) \<Rightarrow> declares_success (f (Some x)) (s\<lparr>p_world := w\<rparr>))"
  by (simp add: declares_success_def bind_raw_call split: prod.splits sum.splits)

lemma success_get_errno [passes_simps]: "declares_success (bindP get_errno f) s \<longleftrightarrow> declares_success (f (p_errno s)) s"
  by (simp add: declares_success_def bind_get_errno)

end
