(* ===== verification/Revocation.thy ===== *)
theory Revocation
  imports Cheriabi Statements
begin

text \<open>
  The tests of \<^verbatim>\<open>cheriostest_vm.c\<close> about revocation: capabilities whose bit in the shadow bitmap is set lose their tags when
  the revoker sweeps memory. This theory holds the system's side as a record of calls, and the tests.
\<close>

section \<open>The revoker\<close>

record epochs =
  ep_enqueue :: uintmax
  ep_dequeue :: uintmax

datatype revoke_flag = CHERI_REVOKE_LAST_PASS | CHERI_REVOKE_IGNORE_START | CHERI_REVOKE_TAKE_STATS | CHERI_REVOKE_ASYNC

datatype shadow_kind = CHERI_REVOKE_SHADOW_NOVMEM | CHERI_REVOKE_SHADOW_INFO_STRUCT

text \<open>An event of \<^verbatim>\<open>kevent\<close>: its identifier, its filter, and the capability the queue keeps for the user.\<close>

datatype evfilt = EVFILT_USER | EVFILT_READ

datatype evflag = EV_ADD | EV_ONESHOT | EV_DISABLE | EV_ENABLE | EV_KEEPUDATA

record kevent =
  ke_ident :: cap
  ke_filter :: evfilt
  ke_flags :: "evflag list"
  ke_trigger :: bool \<comment> \<open>\<^verbatim>\<open>NOTE_TRIGGER\<close>\<close>
  ke_udata :: cap

text \<open>
  \<open>rv_info\<close> is what a read of the shared page of the revoker gives, \<open>rv_base_mem_nomap\<close> the field of that name, which never changes.
  \<open>caprev_shadow_nomap_set\<close> and \<open>caprev_shadow_nomap_clear\<close> are those of \<^verbatim>\<open>libcaprevoke\<close>, which also gives the offsets that
  \<open>rv_dump\<close> prints words of the shadow at. A status of \<open>mincore\<close> is one byte per page.
\<close>

record kinfo_vmentry =
  kve_start :: ptraddr
  kve_end :: ptraddr
  kve_quarantined :: bool \<comment> \<open>\<^verbatim>\<open>kve_type == KVME_TYPE_QUARANTINED\<close>\<close>

record 'k rev_env =
  rv_abi :: "'k abi_env"
  rv_get_shadow :: "shadow_kind \<Rightarrow> cap \<Rightarrow> ('k, cap) sys"
  rv_shadow_byte :: "cap \<Rightarrow> nat \<Rightarrow> nat \<Rightarrow> 'k \<Rightarrow> siginfo option \<times> 'k" \<comment> \<open>\<^verbatim>\<open>((uint8_t *)sh)[i] = v\<close>\<close>
  rv_shadow_fill :: "cap \<Rightarrow> nat \<Rightarrow> 'k \<Rightarrow> siginfo option \<times> 'k" \<comment> \<open>\<^verbatim>\<open>memset\<close> over its length\<close>
  rv_info :: "'k \<Rightarrow> epochs \<times> 'k"
  rv_base_mem_nomap :: ptraddr
  rv_revoke :: "revoke_flag list \<Rightarrow> uintmax \<Rightarrow> ('k, epochs) sys"
  cheri_revoke_epoch_clears :: "uintmax \<Rightarrow> uintmax \<Rightarrow> bool"
  caprev_shadow_nomap_set :: "ptraddr \<Rightarrow> cap \<Rightarrow> cap \<Rightarrow> cap \<Rightarrow> 'k \<Rightarrow> int \<times> 'k"
  caprev_shadow_nomap_clear :: "ptraddr \<Rightarrow> cap \<Rightarrow> cap \<Rightarrow> 'k \<Rightarrow> 'k"
  rv_dump :: "string \<Rightarrow> cap \<Rightarrow> cap \<Rightarrow> ('k, unit) prog"
  rv_srand :: "nat \<Rightarrow> 'k \<Rightarrow> 'k"
  rv_rand :: "'k \<Rightarrow> nat \<times> 'k"
  rv_mincore :: "cap \<Rightarrow> nat \<Rightarrow> ('k, uintmax list) sys"
  rv_msync_invalidate :: "cap \<Rightarrow> nat \<Rightarrow> ('k, unit) sys"
  MINCORE_INCORE :: uintmax
  MINCORE_MODIFIED :: uintmax
  MINCORE_CAPSTORE :: uintmax
  rv_capstore_on_alloc :: "('k, bool) sys"
  rv_fork :: "('k, int) sys"
  rv_kqueue :: "('k, int) sys"
  rv_pipe :: "('k, int \<times> int) sys"
  rv_kevent_add :: "int \<Rightarrow> kevent \<Rightarrow> ('k, unit) sys"
  rv_kevent_wait :: "int \<Rightarrow> ('k, kevent) sys"
  rv_write_byte :: "int \<Rightarrow> nat \<Rightarrow> ('k, int) sys"
  rv_read_byte :: "int \<Rightarrow> ('k, int \<times> nat) sys"
  rv_function :: cap \<comment> \<open>\<^verbatim>\<open>&install_kqueue_cap\<close>\<close>
  rv_vmmap :: "'k \<Rightarrow> kinfo_vmentry list option \<times> 'k"
  rv_procstat_ok :: bool
  rv_procs :: "nat option" \<comment> \<open>what \<^verbatim>\<open>procstat_getprocs\<close> counts\<close>
  rv_usleep :: "nat \<Rightarrow> 'k \<Rightarrow> 'k"
  rv_pthread_create :: "'k \<Rightarrow> int \<times> 'k" \<comment> \<open>of the thread \<^verbatim>\<open>forker\<close>\<close>
  rv_reap :: "int \<Rightarrow> 'k \<Rightarrow> 'k" \<comment> \<open>\<^verbatim>\<open>waitpid\<close> without its status\<close>
  rv_stop_forker :: "'k \<Rightarrow> 'k"
  rv_pthread_join :: "'k \<Rightarrow> int \<times> 'k"

abbreviation rv_resv :: "'k rev_env \<Rightarrow> 'k resv_env" where
  "rv_resv rv \<equiv> ae_resv (rv_abi rv)"

abbreviation rv_kernel :: "'k rev_env \<Rightarrow> 'k vmk" where
  "rv_kernel rv \<equiv> re_kernel (rv_resv rv)"

definition REVOCATION_IS_NOT_SUPPORTED_MSG :: string where
  "REVOCATION_IS_NOT_SUPPORTED_MSG = ''Revocation is not supported''"

text \<open>The bodies under \<^verbatim>\<open>#if defined(HAVE_Linux) || defined(HAVE_FreeBSD)\<close>.\<close>

definition on_CheriBSD :: "platform \<Rightarrow> ('k, unit) prog \<Rightarrow> ('k, unit) prog" where
  "on_CheriBSD pl body =
     (if pl_os pl = CheriBSD then body else cheriostest_failure_errx pl REVOCATION_IS_NOT_SUPPORTED_MSG [])"

definition read_cri :: "'k rev_env \<Rightarrow> ('k, epochs) prog" where
  "read_cri rv = observe (rv_info rv)"

definition check_revoked :: "cap \<Rightarrow> bool" where
  "check_revoked r \<longleftrightarrow> \<not> cheri_tag_get r \<or> (cheri_type_get r = - 1 \<and> cheri_perms_get r = 0)"

definition get_shadow :: "platform \<Rightarrow> 'k rev_env \<Rightarrow> shadow_kind \<Rightarrow> cap \<Rightarrow> ('k, cap) prog" where
  "get_shadow pl rv kind p = CHERIOSTEST_CHECK_SYSCALL pl (rv_get_shadow rv kind p) ''cheri_revoke_get_shadow''"

definition cheri_revoke :: "platform \<Rightarrow> 'k rev_env \<Rightarrow> revoke_flag list \<Rightarrow> uintmax \<Rightarrow> ('k, epochs) prog" where
  "cheri_revoke pl rv flags start = CHERIOSTEST_CHECK_SYSCALL pl (rv_revoke rv flags start) ''cheri_revoke''"

definition skip_need_quarantine_unmapped_reservations :: "platform \<Rightarrow> 'k rev_env \<Rightarrow> bool \<Rightarrow> 'k pstate \<Rightarrow> string option outcome \<times> 'k pstate" where
  "skip_need_quarantine_unmapped_reservations pl rv feature =
     (if \<not> feature then ret (Some ''Kernel does not support revocation'')
      else bindP (reservations_are_quarantined pl (rv_resv rv)) (\<lambda>q.
        ret (if \<not> q then Some ''unmapped reservations are not being quarantined'' else None)))"

text \<open>Pointers into an array of capabilities.\<close>

definition elem :: "platform \<Rightarrow> cap \<Rightarrow> nat \<Rightarrow> cap" where
  "elem pl p i = cheri_offset_increment pl p (of_nat (16 * i))"

definition no_vmem :: "platform \<Rightarrow> cap \<Rightarrow> cap" where
  "no_vmem pl c = cheri_perms_and pl c (NOT (CHERI_PERM_SW_VMEM pl))"

definition anon_page :: "platform \<Rightarrow> 'k rev_env \<Rightarrow> nat \<Rightarrow> ('k, cap) prog" where
  "anon_page pl rv n = checked_mmap pl (rv_resv rv) (cap_null pl) n [PROT_READ, PROT_WRITE] [MAP_ANON] (- 1)"

definition clock_agrees :: "platform \<Rightarrow> 'k rev_env \<Rightarrow> epochs \<Rightarrow> ('k, unit) prog" where
  "clock_agrees pl rv crsi =
     bindP (read_cri rv) (\<lambda>cri. CHERIOSTEST_VERIFY2 pl (ep_dequeue cri = ep_dequeue crsi) ''Bad shared clock'' [])"

section \<open>Capabilities held by a queue of events\<close>

definition install_kqueue_cap :: "platform \<Rightarrow> 'k rev_env \<Rightarrow> int \<Rightarrow> int \<times> int \<Rightarrow> cap \<Rightarrow> ('k, unit) prog" where
  "install_kqueue_cap pl rv kq pfd revme =
     (let add = \<lambda>ke. CHERIOSTEST_CHECK_SYSCALL pl (rv_kevent_add rv kq ke) ''kevent(kq, &ike, 1, NULL, 0, NULL)'' in
      block
       [add \<lparr>ke_ident = rv_function rv, ke_filter = EVFILT_USER, ke_flags = [EV_ADD, EV_ONESHOT, EV_DISABLE], ke_trigger = False, ke_udata = revme\<rparr>,
        add \<lparr>ke_ident = rv_function rv, ke_filter = EVFILT_USER, ke_flags = [EV_KEEPUDATA], ke_trigger = True, ke_udata = cap_null pl\<rparr>,
        add \<lparr>ke_ident = null_derived pl (of_int (fst pfd)), ke_filter = EVFILT_READ, ke_flags = [EV_ADD, EV_DISABLE], ke_trigger = False, ke_udata = revme\<rparr>,
        bindP (CHERIOSTEST_CHECK_SYSCALL pl (rv_write_byte rv (snd pfd) 42) ''write(pfd[1], &b, sizeof(b))'') (\<lambda>r.
          CHERIOSTEST_VERIFY pl (r = 1) ''rv == 1'')])"

text \<open>Each of the two events is enabled, waited for and looked at.\<close>

definition check_event ::
  "platform \<Rightarrow> 'k rev_env \<Rightarrow> int \<Rightarrow> kevent \<Rightarrow> (kevent \<Rightarrow> bool) \<Rightarrow> bool \<Rightarrow> ('k, unit) prog" where
  "check_event pl rv kq ike ident_ok valid =
     bindP (CHERIOSTEST_CHECK_SYSCALL pl (rv_kevent_add rv kq ike) ''kevent(kq, &ike, 1, NULL, 0, NULL)'') (\<lambda>_.
     bindP (CHERIOSTEST_CHECK_SYSCALL pl (rv_kevent_wait rv kq) ''kevent(kq, NULL, 0, &oke, 1, NULL)'') (\<lambda>oke. block
       [CHERIOSTEST_VERIFY2 pl (ident_ok oke) ''Bad identifier from kqueue'' [],
        CHERIOSTEST_VERIFY2 pl (ke_filter oke = ke_filter ike) ''Bad filter from kqueue'' [],
        CHERIOSTEST_VERIFY2 pl (check_revoked (ke_udata oke) = (\<not> valid)) ''kqueue-held cap not as expected'' []]))"

definition check_kqueue_cap :: "platform \<Rightarrow> 'k rev_env \<Rightarrow> int \<Rightarrow> int \<times> int \<Rightarrow> bool \<Rightarrow> ('k, unit) prog" where
  "check_kqueue_cap pl rv kq pfd valid = block
     [check_event pl rv kq
        \<lparr>ke_ident = rv_function rv, ke_filter = EVFILT_USER, ke_flags = [EV_ENABLE, EV_KEEPUDATA], ke_trigger = False, ke_udata = cap_null pl\<rparr>
        (\<lambda>oke. cheri_is_equal_exact (ke_ident oke) (rv_function rv)) valid,
      check_event pl rv kq
        \<lparr>ke_ident = null_derived pl (of_int (fst pfd)), ke_filter = EVFILT_READ, ke_flags = [EV_ENABLE, EV_KEEPUDATA], ke_trigger = False,
         ke_udata = cap_null pl\<rparr>
        (\<lambda>oke. cap_addr (ke_ident oke) = of_int (fst pfd)) valid,
      bindP (CHERIOSTEST_CHECK_SYSCALL pl (rv_read_byte rv (fst pfd)) ''read(pfd[0], &b, sizeof(b))'') (\<lambda>(r, b). block
        [CHERIOSTEST_VERIFY pl (r = 1) ''rv == 1'', CHERIOSTEST_VERIFY pl (b = 42) ''b == 42''])]"

section \<open>Single capabilities\<close>

definition cheri_revoke_lightly :: "platform \<Rightarrow> 'k rev_env \<Rightarrow> ('k, unit) prog" where
  "cheri_revoke_lightly pl rv = on_CheriBSD pl (
     bindP (CHERIOSTEST_CHECK_SYSCALL pl (rv_kqueue rv) ''kqueue()'') (\<lambda>ekq.
     bindP (CHERIOSTEST_CHECK_SYSCALL pl (rv_kqueue rv) ''kqueue()'') (\<lambda>kq.
     bindP (CHERIOSTEST_CHECK_SYSCALL pl (rv_pipe rv) ''pipe(pfd)'') (\<lambda>pfd.
     bindP (anon_page pl rv (PAGE_SIZE (rv_resv rv))) (\<lambda>mb.
     bindP (get_shadow pl rv CHERI_REVOKE_SHADOW_NOVMEM mb) (\<lambda>sh.
     bindP (get_shadow pl rv CHERI_REVOKE_SHADOW_INFO_STRUCT (cap_null pl)) (\<lambda>_.
     let revme = no_vmem pl mb; k = rv_kernel rv in
     bindP (store_cap k (elem pl mb 1) revme) (\<lambda>_.
     bindP (install_kqueue_cap pl rv kq pfd revme) (\<lambda>_.
     bindP (effect (rv_shadow_byte rv sh 0 1)) (\<lambda>_.
     bindP (cheri_revoke pl rv [CHERI_REVOKE_LAST_PASS, CHERI_REVOKE_IGNORE_START, CHERI_REVOKE_TAKE_STATS] 0) (\<lambda>crsi.
     bindP (clock_agrees pl rv crsi) (\<lambda>_.
     bindP (load_cap k (elem pl mb 1)) (\<lambda>c.
     bindP (CHERIOSTEST_VERIFY2 pl (check_revoked c) ''Memory tag persists'' []) (\<lambda>_.
     bindP (check_kqueue_cap pl rv kq pfd False) (\<lambda>_.
     bindP (effect (rv_shadow_byte rv sh 0 0)) (\<lambda>_.
     let revme = no_vmem pl (elem pl mb 1) in
     bindP (CHERIOSTEST_VERIFY2 pl (\<not> check_revoked revme) ''Tag clear on 2nd revme?'' []) (\<lambda>_.
     bindP (store_cap k (elem pl mb 1) revme) (\<lambda>_.
     bindP (install_kqueue_cap pl rv kq pfd revme) (\<lambda>_.
     bindP (cheri_revoke pl rv [CHERI_REVOKE_IGNORE_START, CHERI_REVOKE_TAKE_STATS] 0) (\<lambda>crsi.
     bindP (CHERIOSTEST_VERIFY2 pl (ep_enqueue crsi \<ge> ep_dequeue crsi + 1) ''Bad epoch clock state'' []) (\<lambda>_.
     bindP (clock_agrees pl rv crsi) (\<lambda>_.
     bindP (cheri_revoke pl rv [CHERI_REVOKE_LAST_PASS, CHERI_REVOKE_TAKE_STATS] (ep_enqueue crsi)) (\<lambda>crsi.
     bindP (clock_agrees pl rv crsi) (\<lambda>_.
     bindP (load_cap k (elem pl mb 1)) (\<lambda>c.
     bindP (CHERIOSTEST_VERIFY2 pl (\<not> check_revoked c) ''Memory tag cleared'' []) (\<lambda>_.
     bindP (check_kqueue_cap pl rv kq pfd True) (\<lambda>_.
     bindP (raw_call (k_munmap k mb (PAGE_SIZE (rv_resv rv)))) (\<lambda>_.
     bindP (raw_call (k_close k kq)) (\<lambda>_.
     bindP (raw_call (k_close k ekq)) (\<lambda>_.
     bindP (raw_call (k_close k (fst pfd))) (\<lambda>_.
     bindP (raw_call (k_close k (snd pfd))) (\<lambda>_.
     cheriostest_success))))))))))))))))))))))))))))))))"

text \<open>What \<^verbatim>\<open>mincore\<close> says about some pages: the page, whether it may hold capabilities, and the message.\<close>

definition capstore_check :: "platform \<Rightarrow> 'k rev_env \<Rightarrow> uintmax list \<Rightarrow> nat \<times> bool \<times> string \<Rightarrow> ('k, unit) prog" where
  "capstore_check pl rv mcv = (\<lambda>(page, wanted, msg).
     CHERIOSTEST_VERIFY2 pl ((mcv ! page AND MINCORE_CAPSTORE rv \<noteq> 0) = wanted) msg [])"

definition capstore_states :: "platform \<Rightarrow> 'k rev_env \<Rightarrow> cap \<Rightarrow> nat \<Rightarrow> (nat \<times> bool \<times> string) list \<Rightarrow> ('k, unit) prog" where
  "capstore_states pl rv p n checks =
     bindP (CHERIOSTEST_CHECK_SYSCALL pl (rv_mincore rv p n) ''mincore'') (\<lambda>mcv. block (map (capstore_check pl rv mcv) checks))"

definition full_pass :: "revoke_flag list" where
  "full_pass = [CHERI_REVOKE_LAST_PASS, CHERI_REVOKE_IGNORE_START, CHERI_REVOKE_TAKE_STATS]"

definition cheri_revoke_loadside :: "platform \<Rightarrow> 'k rev_env \<Rightarrow> ('k, unit) prog" where
  "cheri_revoke_loadside pl rv = on_CheriBSD pl (
     let page = PAGE_SIZE (rv_resv rv); asz = 3 * page; k = rv_kernel rv in
     bindP (anon_page pl rv asz) (\<lambda>mb.
     bindP (get_shadow pl rv CHERI_REVOKE_SHADOW_NOVMEM mb) (\<lambda>sh.
     bindP (get_shadow pl rv CHERI_REVOKE_SHADOW_INFO_STRUCT (cap_null pl)) (\<lambda>_.
     let revme = no_vmem pl mb; capsperpage = page div 16 in
     bindP (block
       [store_cap k (elem pl mb 1) revme,
        effect (rv_shadow_byte rv sh 0 1),
        store_cap k (elem pl mb capsperpage) revme,
        store_cap k (elem pl mb capsperpage) (cap_null pl),
        capstore_states pl rv mb asz [(0, True, ''page 0 capstore 1''), (1, True, ''page 1 capstore 1''), (2, False, ''page 2 capstore 1'')]]) (\<lambda>_.
     bindP (cheri_revoke pl rv [CHERI_REVOKE_IGNORE_START, CHERI_REVOKE_TAKE_STATS] 0) (\<lambda>_.
     bindP (load_cap k (elem pl mb 1)) (\<lambda>revme.
     bindP (block
       [CHERIOSTEST_VERIFY2 pl (check_revoked revme) (''Fault didn'' @ [CHR 0x27] @ ''t stop me!'') [],
        capstore_states pl rv mb asz [(0, True, ''page 0 capstore 2.0''), (1, True, ''page 1 capstore 2.0'')],
        store_cap k (elem pl mb 2) revme]) (\<lambda>_.
     bindP (cheri_revoke pl rv full_pass 0) (\<lambda>_.
     let revme = no_vmem pl (elem pl mb 1) in
     bindP (block
       [capstore_states pl rv mb asz [(0, True, ''page 0 capstore 2.1''), (1, True, ''page 1 capstore 2.1'')],
        CHERIOSTEST_VERIFY2 pl (\<not> check_revoked revme) ''Tag clear on 2nd revme?'' [],
        store_cap k (elem pl mb 1) revme,
        capstore_states pl rv mb asz [(0, True, ''page 0 capstore 2.2''), (1, True, ''page 1 capstore 2.2'')]]) (\<lambda>_.
     bindP (cheri_revoke pl rv full_pass 0) (\<lambda>_.
     bindP (load_cap k (elem pl mb 1)) (\<lambda>c.
     bindP (block
       [CHERIOSTEST_VERIFY2 pl (check_revoked c) ''Revoker failure in full pass'' [],
        capstore_states pl rv mb asz [(0, True, ''page 0 capstore 3''), (1, False, ''page 1 capstore 3'')]]) (\<lambda>_.
     bindP (cheri_revoke pl rv full_pass 0) (\<lambda>_. block
       [capstore_states pl rv mb asz [(0, False, ''page 0 capstore 4''), (1, False, ''page 1 capstore 4'')],
        cheriostest_success]))))))))))))))"

section \<open>Pages that hold capabilities\<close>

definition vm_capdirty :: "platform \<Rightarrow> 'k rev_env \<Rightarrow> ('k, unit) prog" where
  "vm_capdirty pl rv =
     (let page = PAGE_SIZE (rv_resv rv); sz = 2 * page in
      bindP (CHERIOSTEST_CHECK_SYSCALL pl (rv_capstore_on_alloc rv) ''sysctlbyname'') (\<lambda>capstore_on_alloc.
      bindP (anon_page pl rv sz) (\<lambda>pg0.
      let pg1 = cheri_offset_increment pl pg0 (of_nat page);
          status = (\<lambda>checks. bindP (CHERIOSTEST_CHECK_SYSCALL pl (rv_mincore rv pg0 sz) ''mincore(pg0, sz, &mcv[0])'') (\<lambda>mcv. block (checks mcv))) in
      block
       [status (\<lambda>mcv.
          [CHERIOSTEST_VERIFY2 pl (mcv ! 0 = 0) ''page 0 status 0'' [],
           CHERIOSTEST_VERIFY2 pl (mcv ! 1 = 0) ''page 1 status 0'' []]),
        effect (ae_putc (rv_abi rv) pg0),
        status (\<lambda>mcv.
          [CHERIOSTEST_VERIFY2 pl (mcv ! 0 AND MINCORE_MODIFIED rv \<noteq> 0) ''page 0 modified 1'' [],
           CHERIOSTEST_VERIFY2 pl ((mcv ! 0 AND MINCORE_CAPSTORE rv = 0) = (\<not> capstore_on_alloc)) ''page 0 capstore 1'' []]),
        store_cap (rv_kernel rv) pg1 pg0,
        status (\<lambda>mcv.
          [CHERIOSTEST_VERIFY2 pl (mcv ! 1 AND MINCORE_MODIFIED rv \<noteq> 0) ''page 1 modified 2'' [],
           CHERIOSTEST_VERIFY2 pl (mcv ! 1 AND MINCORE_CAPSTORE rv \<noteq> 0) ''page 1 capstore 2'' []]),
        bindP (CHERIOSTEST_CHECK_SYSCALL pl (k_munmap (rv_kernel rv) pg0 sz) ''munmap(pg0, sz)'') (\<lambda>_. ret ()),
        cheriostest_success])))"

section \<open>Asynchronous revocation\<close>

text \<open>
  Two values of the clocks are compared; the shared page is read again for the message. The clocks are given as functions of what a
  read of the page returns.
\<close>

definition clocks_compared ::
  "platform \<Rightarrow> 'k rev_env \<Rightarrow> (epochs \<Rightarrow> uintmax) \<Rightarrow> (epochs \<Rightarrow> uintmax) \<Rightarrow> (uintmax \<Rightarrow> uintmax) \<Rightarrow> string \<Rightarrow> ('k, unit) prog" where
  "clocks_compared pl rv f g shift msg =
     bindP (read_cri rv) (\<lambda>a. bindP (read_cri rv) (\<lambda>b.
       if f a = shift (g b) then ret ()
       else bindP (read_cri rv) (\<lambda>c. bindP (read_cri rv) (\<lambda>d.
         cheriostest_failure_errx pl msg [FWord (f c), FWord (g d)]))))"

definition clock_compared ::
  "platform \<Rightarrow> 'k rev_env \<Rightarrow> (epochs \<Rightarrow> uintmax) \<Rightarrow> uintmax \<Rightarrow> (uintmax \<Rightarrow> uintmax) \<Rightarrow> string \<Rightarrow> ('k, unit) prog" where
  "clock_compared pl rv f y shift msg =
     bindP (read_cri rv) (\<lambda>a.
       if f a = shift y then ret ()
       else bindP (read_cri rv) (\<lambda>c. cheriostest_failure_errx pl msg [FWord (f c), FWord y]))"

text \<open>
  The part in front of the loop; its results are the page, the epoch before, and the clocks the call of \<^verbatim>\<open>cheri_revoke\<close> returned.
\<close>

definition async_start :: "platform \<Rightarrow> 'k rev_env \<Rightarrow> ('k, cap \<times> uintmax \<times> epochs) prog" where
  "async_start pl rv =
     bindP (anon_page pl rv (PAGE_SIZE (rv_resv rv))) (\<lambda>mb.
     bindP (get_shadow pl rv CHERI_REVOKE_SHADOW_NOVMEM mb) (\<lambda>sh.
     bindP (get_shadow pl rv CHERI_REVOKE_SHADOW_INFO_STRUCT (cap_null pl)) (\<lambda>_.
     bindP (store_cap (rv_kernel rv) (elem pl mb 1) (no_vmem pl mb)) (\<lambda>_.
     bindP (effect (rv_shadow_byte rv sh 0 1)) (\<lambda>_.
     bindP (read_cri rv) (\<lambda>cri.
     bindP (cheri_revoke pl rv [CHERI_REVOKE_ASYNC, CHERI_REVOKE_IGNORE_START] 0) (\<lambda>crsi.
     bindP (block
       [clock_compared pl rv ep_enqueue (ep_enqueue crsi) id ''Bad shared enqueue clock (%lu %lu)'',
        clock_compared pl rv ep_dequeue (ep_dequeue crsi) id ''Bad shared dequeue clock (%lu %lu)'',
        clocks_compared pl rv ep_enqueue ep_dequeue (\<lambda>x. x + 1) ''Bad shared clock (%lu %lu)'']) (\<lambda>_.
     ret (mb, ep_dequeue cri, crsi)))))))))"

text \<open>
  One turn of the loop: \<open>True\<close> when the epoch has been cleared. The loop need not end; \<open>None\<close> is a loop that is still running after
  the given number of turns.
\<close>

definition async_turn :: "platform \<Rightarrow> 'k rev_env \<Rightarrow> uintmax \<Rightarrow> ('k, bool) prog" where
  "async_turn pl rv epoch =
     bindP (read_cri rv) (\<lambda>cri.
       if cheri_revoke_epoch_clears rv (ep_dequeue cri) epoch then ret True
       else bindP (cheri_revoke pl rv [CHERI_REVOKE_ASYNC, CHERI_REVOKE_IGNORE_START] 0) (\<lambda>_.
         bindP (upd_world (rv_usleep rv 1000)) (\<lambda>_. ret False)))"

fun async_wait :: "platform \<Rightarrow> 'k rev_env \<Rightarrow> uintmax \<Rightarrow> nat \<Rightarrow> 'k pstate \<Rightarrow> (unit outcome \<times> 'k pstate) option" where
  "async_wait pl rv epoch 0 s = None"
| "async_wait pl rv epoch (Suc n) s =
     (case async_turn pl rv epoch s of
        (Return True, t) \<Rightarrow> Some (Return (), t)
      | (Return False, t) \<Rightarrow> async_wait pl rv epoch n t
      | (Exited e, t) \<Rightarrow> Some (Exited e, t)
      | (Trapped i, t) \<Rightarrow> Some (Trapped i, t)
      | (Undefined, t) \<Rightarrow> Some (Undefined, t))"

definition async_finish :: "platform \<Rightarrow> 'k rev_env \<Rightarrow> cap \<Rightarrow> epochs \<Rightarrow> ('k, unit) prog" where
  "async_finish pl rv mb crsi = block
     [clocks_compared pl rv ep_enqueue ep_dequeue id ''Bad shared post-revocation clock (%lu %lu)'',
      clock_compared pl rv ep_dequeue (ep_dequeue crsi) (\<lambda>x. x + 2) ''Unexpected clock jump (%lu %lu)'',
      bindP (load_cap (rv_kernel rv) (elem pl mb 1)) (\<lambda>c. CHERIOSTEST_VERIFY2 pl (check_revoked c) ''Memory tag persists'' [])]"

text \<open>A statement in front of something that may run for ever, and behind it.\<close>

definition and_then :: "('k, 'a) prog \<Rightarrow> ('a \<Rightarrow> 'k pstate \<Rightarrow> ('b outcome \<times> 'k pstate) option) \<Rightarrow> 'k pstate \<Rightarrow> ('b outcome \<times> 'k pstate) option" where
  "and_then p f s = (case p s of
       (Return x, t) \<Rightarrow> f x t
     | (Exited e, t) \<Rightarrow> Some (Exited e, t)
     | (Trapped i, t) \<Rightarrow> Some (Trapped i, t)
     | (Undefined, t) \<Rightarrow> Some (Undefined, t))"

definition followed_by :: "('k pstate \<Rightarrow> ('a outcome \<times> 'k pstate) option) \<Rightarrow> ('a \<Rightarrow> ('k, 'b) prog) \<Rightarrow> 'k pstate \<Rightarrow> ('b outcome \<times> 'k pstate) option" where
  "followed_by p f s = map_option (\<lambda>r. bindP (\<lambda>_. r) f s) (p s)"

definition async_body :: "platform \<Rightarrow> 'k rev_env \<Rightarrow> nat \<Rightarrow> ('k, unit) prog \<Rightarrow> 'k pstate \<Rightarrow> (unit outcome \<times> 'k pstate) option" where
  "async_body pl rv turns last_steps =
     and_then (async_start pl rv) (\<lambda>(mb, epoch, crsi).
       followed_by (async_wait pl rv epoch turns) (\<lambda>_. block [async_finish pl rv mb crsi, last_steps]))"

definition cheri_revoke_async :: "platform \<Rightarrow> 'k rev_env \<Rightarrow> nat \<Rightarrow> 'k pstate \<Rightarrow> (unit outcome \<times> 'k pstate) option" where
  "cheri_revoke_async pl rv turns =
     (if pl_os pl = CheriBSD then async_body pl rv turns cheriostest_success
      else (\<lambda>s. Some (cheriostest_failure_errx pl REVOCATION_IS_NOT_SUPPORTED_MSG [] s)))"

text \<open>
  The thread that forks while \<^verbatim>\<open>*p == 0\<close>: one turn of its loop, with the result of \<^verbatim>\<open>fork\<close>, which is zero in the new process.
\<close>

definition forker_turn :: "platform \<Rightarrow> 'k rev_env \<Rightarrow> ('k, unit) prog" where
  "forker_turn pl rv =
     bindP (raw_call (rv_fork rv)) (\<lambda>r.
     let child = (case r of None \<Rightarrow> - 1 | Some pid \<Rightarrow> pid) in
     block
      [CHERIOSTEST_VERIFY2 pl (child > 0) ''fork failed'' [],
       (if child = 0 then leave 0 else ret ()),
       upd_world (rv_reap rv child)])"

definition cheri_revoke_async_fork :: "platform \<Rightarrow> 'k rev_env \<Rightarrow> nat \<Rightarrow> 'k pstate \<Rightarrow> (unit outcome \<times> 'k pstate) option" where
  "cheri_revoke_async_fork pl rv turns =
     (if pl_os pl = CheriBSD
      then and_then (bindP (observe (rv_pthread_create rv)) (\<lambda>err.
              if err \<noteq> 0 then cheriostest_failure_errc pl err ''pthread_create'' [] else ret ())) (\<lambda>_.
            async_body pl rv turns
             (bindP (upd_world (rv_stop_forker rv)) (\<lambda>_.
              bindP (observe (rv_pthread_join rv)) (\<lambda>err. block
               [if err \<noteq> 0 then cheriostest_failure_errc pl err ''pthread_join'' [] else ret (),
                cheriostest_success]))))
      else (\<lambda>s. Some (cheriostest_failure_errx pl REVOCATION_IS_NOT_SUPPORTED_MSG [] s)))"

end
