(* ===== verification/Revoke_Lib.thy ===== *)
theory Revoke_Lib
  imports Revocation
begin

text \<open>
  The tests of \<^verbatim>\<open>cheriostest_vm.c\<close> that drive \<^verbatim>\<open>libcaprevoke\<close>: a block of memory is filled with capabilities to itself, piece after piece is
  marked in the shadow bitmap and revoked, in one pass or in two, in one process or split over a fork or an exec.
\<close>

section \<open>Filling, marking, revoking, checking\<close>

text \<open>A capability to the 16 bytes it is stored in, without the permission to change mappings.\<close>

definition self_cap :: "platform \<Rightarrow> cap \<Rightarrow> cap" where
  "self_cap pl p = no_vmem pl (cheri_bounds_set pl p 16)"

definition fill_self :: "platform \<Rightarrow> 'k rev_env \<Rightarrow> cap \<Rightarrow> nat \<Rightarrow> ('k, unit) prog" where
  "fill_self pl rv p n = block (map (\<lambda>ix. store_cap (rv_kernel rv) (elem pl p ix) (self_cap pl (elem pl p ix))) [0..<n])"

definition cheriostest_cheri_revoke_lib_init :: "platform \<Rightarrow> 'k rev_env \<Rightarrow> nat \<Rightarrow> ('k, cap \<times> cap) prog" where
  "cheriostest_cheri_revoke_lib_init pl rv bigblock_caps =
     bindP (anon_page pl rv (bigblock_caps * 16)) (\<lambda>bigblock.
     bindP (fill_self pl rv bigblock bigblock_caps) (\<lambda>_.
     bindP (get_shadow pl rv CHERI_REVOKE_SHADOW_NOVMEM bigblock) (\<lambda>shadow.
     bindP (get_shadow pl rv CHERI_REVOKE_SHADOW_INFO_STRUCT (cap_null pl)) (\<lambda>_.
     ret (bigblock, shadow)))))"

datatype tclr_mode = TCLR_MODE_NONE | TCLR_MODE_LOAD_ONCE | TCLR_MODE_LOAD_SPLIT | TCLR_MODE_LOAD_SPLIT_INIT | TCLR_MODE_LOAD_SPLIT_FINI

fun tclr_number :: "tclr_mode \<Rightarrow> int" where
  "tclr_number TCLR_MODE_NONE = 0"
| "tclr_number TCLR_MODE_LOAD_ONCE = 1"
| "tclr_number TCLR_MODE_LOAD_SPLIT = 2"
| "tclr_number TCLR_MODE_LOAD_SPLIT_INIT = 3"
| "tclr_number TCLR_MODE_LOAD_SPLIT_FINI = 4"

text \<open>The size of the next chunk when \<open>left\<close> capabilities remain and \<^verbatim>\<open>rand()\<close> gives \<open>r\<close>.\<close>

definition whole_block :: "tclr_mode \<Rightarrow> bool" where
  "whole_block mode \<longleftrightarrow> mode = TCLR_MODE_LOAD_SPLIT_INIT \<or> mode = TCLR_MODE_LOAD_SPLIT_FINI"

definition chunk_caps :: "tclr_mode \<Rightarrow> nat \<Rightarrow> nat \<Rightarrow> nat" where
  "chunk_caps mode left r = (if whole_block mode then left else min (r mod 1024 + 1) left)"

definition chunk_at :: "platform \<Rightarrow> cap \<Rightarrow> nat \<Rightarrow> nat \<Rightarrow> cap" where
  "chunk_at pl bigblock off csz = cheri_bounds_set pl (elem pl bigblock off) (csz * 16)"

text \<open>A pass of the revoker that must agree with the shared clock.\<close>

definition revoke_pass :: "platform \<Rightarrow> 'k rev_env \<Rightarrow> revoke_flag list \<Rightarrow> ('k, unit) prog" where
  "revoke_pass pl rv flags = bindP (cheri_revoke pl rv flags 0) (clock_agrees pl rv)"

definition check_kept :: "platform \<Rightarrow> 'k rev_env \<Rightarrow> cap \<Rightarrow> string \<Rightarrow> nat \<Rightarrow> ('k, unit) prog" where
  "check_kept pl rv bigblock msg ix =
     bindP (load_cap (rv_kernel rv) (elem pl bigblock ix)) (\<lambda>c. CHERIOSTEST_VERIFY2 pl (\<not> check_revoked c) msg [FInt (int ix)])"

definition check_gone :: "platform \<Rightarrow> 'k rev_env \<Rightarrow> cap \<Rightarrow> nat \<Rightarrow> ('k, unit) prog" where
  "check_gone pl rv chunk ix =
     bindP (load_cap (rv_kernel rv) (elem pl chunk ix)) (\<lambda>c.
       if \<not> check_revoked c
       then bindP (load_cap (rv_kernel rv) (elem pl chunk ix)) (\<lambda>c. block
         [notice pl ''c %#.16lp'' [FPtr c], cheriostest_failure_errx pl ''Unrevoked at ix=%zd after revoke'' [FInt (int ix)]])
       else ret ())"

definition revoke_chunk ::
  "platform \<Rightarrow> 'k rev_env \<Rightarrow> int \<Rightarrow> tclr_mode \<Rightarrow> nat \<Rightarrow> cap \<Rightarrow> cap \<Rightarrow> nat \<Rightarrow> nat \<Rightarrow> cap \<Rightarrow> ('k, unit) prog" where
  "revoke_chunk pl rv paranoia mode bigblock_caps bigblock shadow off csz chunk =
     (let opt = ae_opts (rv_abi rv) in block (
       only_if (verbose opt > 3) [rv_dump rv ''premrk'' shadow chunk] @
       [bindP (observe (caprev_shadow_nomap_set rv (rv_base_mem_nomap rv) shadow chunk chunk)) (\<lambda>r.
          CHERIOSTEST_VERIFY2 pl (r = 0) ''Shadow update collision'' [])] @
       only_if (verbose opt > 3) [rv_dump rv ''marked'' shadow chunk] @
       [revoke_pass pl rv ([CHERI_REVOKE_IGNORE_START, CHERI_REVOKE_TAKE_STATS] @ only_if (mode = TCLR_MODE_LOAD_ONCE) [CHERI_REVOKE_LAST_PASS])] @
       only_if (paranoia > 1)
         (map (check_kept pl rv bigblock ''Revoked cap incorrectly below object, at ix=%zd'') [0..<off] @
          map (check_kept pl rv bigblock ''Revoked cap incorrectly above object, at ix=%zd'') [off + csz..<bigblock_caps]) @
       only_if (paranoia > 0) (map (check_gone pl rv chunk) [0..<csz])))"

definition restore_chunk :: "platform \<Rightarrow> 'k rev_env \<Rightarrow> tclr_mode \<Rightarrow> cap \<Rightarrow> nat \<Rightarrow> cap \<Rightarrow> ('k, unit) prog" where
  "restore_chunk pl rv mode shadow csz chunk = block (
     only_if (mode = TCLR_MODE_LOAD_SPLIT \<or> mode = TCLR_MODE_LOAD_SPLIT_FINI) [revoke_pass pl rv full_pass] @
     [upd_world (caprev_shadow_nomap_clear rv (rv_base_mem_nomap rv) shadow chunk),
      fill_self pl rv chunk csz])"

lemma chunk_caps_bounds: "0 < left \<Longrightarrow> 0 < chunk_caps mode left r" "chunk_caps mode left r \<le> left"
  by (auto simp: chunk_caps_def)

text \<open>The loop, from an offset on. Every chunk has at least one capability, so the loop ends for every sequence of \<^verbatim>\<open>rand()\<close>.\<close>

function lib_run_from ::
  "platform \<Rightarrow> 'k rev_env \<Rightarrow> int \<Rightarrow> tclr_mode \<Rightarrow> nat \<Rightarrow> cap \<Rightarrow> cap \<Rightarrow> nat \<Rightarrow> ('k, unit) prog" where
  "lib_run_from pl rv paranoia mode bigblock_caps bigblock shadow off =
     (if off < bigblock_caps
      then bindP (if whole_block mode then ret 0 else observe (rv_rand rv)) (\<lambda>r.
        let opt = ae_opts (rv_abi rv); csz = chunk_caps mode (bigblock_caps - off) r; chunk = chunk_at pl bigblock off csz in
        bindP (block (only_if (verbose opt > 1)
          [notice pl ''left=%zd csz=%zd'' [FInt (int (bigblock_caps - off)), FInt (int csz)], notice pl ''chunk: %#.16lp'' [FPtr chunk]])) (\<lambda>_.
        bindP (if mode = TCLR_MODE_LOAD_SPLIT_FINI then ret ()
               else revoke_chunk pl rv paranoia mode bigblock_caps bigblock shadow off csz chunk) (\<lambda>_.
        if mode = TCLR_MODE_LOAD_SPLIT_INIT then ret ()
        else bindP (restore_chunk pl rv mode shadow csz chunk) (\<lambda>_.
          lib_run_from pl rv paranoia mode bigblock_caps bigblock shadow (off + csz)))))
      else ret ())"
  by pat_completeness auto

termination
  by (relation "measure (\<lambda>(pl, rv, paranoia, mode, caps, bigblock, shadow, off). caps - off)")
    (auto simp: chunk_caps_def min_def split: if_splits)

declare lib_run_from.simps [simp del]

definition cheriostest_cheri_revoke_lib_run ::
  "platform \<Rightarrow> 'k rev_env \<Rightarrow> int \<Rightarrow> tclr_mode \<Rightarrow> nat \<Rightarrow> cap \<Rightarrow> cap \<Rightarrow> ('k, unit) prog" where
  "cheriostest_cheri_revoke_lib_run pl rv paranoia mode bigblock_caps bigblock shadow = block (
     only_if (verbose (ae_opts (rv_abi rv)) > 1) [notice pl ''test_cheri_revoke_lib_run mode %d'' [FInt (tclr_number mode)]] @
     [lib_run_from pl rv paranoia mode bigblock_caps bigblock shadow 0])"

section \<open>The tests\<close>

definition paranoia :: int where "paranoia = 2"

definition bigblock_caps :: nat where "bigblock_caps = 4096"

definition show_blocks :: "platform \<Rightarrow> 'k rev_env \<Rightarrow> cap \<Rightarrow> cap \<Rightarrow> ('k, unit) prog" where
  "show_blocks pl rv bigblock shadow = block (only_if (verbose (ae_opts (rv_abi rv)) > 0)
     [notice pl ''bigblock: %#.16lp'' [FPtr bigblock], notice pl ''shadow: %#.16lp'' [FPtr shadow]])"

definition seeded_init :: "platform \<Rightarrow> 'k rev_env \<Rightarrow> ('k, cap \<times> cap) prog" where
  "seeded_init pl rv = bindP (upd_world (rv_srand rv 1337)) (\<lambda>_. cheriostest_cheri_revoke_lib_init pl rv bigblock_caps)"

definition run_mode :: "platform \<Rightarrow> 'k rev_env \<Rightarrow> tclr_mode \<Rightarrow> cap \<Rightarrow> cap \<Rightarrow> ('k, unit) prog" where
  "run_mode pl rv mode bigblock shadow = cheriostest_cheri_revoke_lib_run pl rv paranoia mode bigblock_caps bigblock shadow"

definition unmap_block :: "'k rev_env \<Rightarrow> cap \<Rightarrow> ('k, unit) prog" where
  "unmap_block rv bigblock = bindP (raw_call (k_munmap (rv_kernel rv) bigblock (bigblock_caps * 16))) (\<lambda>_. ret ())"

definition cheri_revoke_lib :: "platform \<Rightarrow> 'k rev_env \<Rightarrow> ('k, unit) prog" where
  "cheri_revoke_lib pl rv = on_CheriBSD pl (
     bindP (seeded_init pl rv) (\<lambda>(bigblock, shadow). block
       [show_blocks pl rv bigblock shadow,
        run_mode pl rv TCLR_MODE_LOAD_ONCE bigblock shadow,
        run_mode pl rv TCLR_MODE_LOAD_SPLIT bigblock shadow,
        unmap_block rv bigblock,
        cheriostest_success]))"

text \<open>
  What the two tests with \<^verbatim>\<open>fork\<close> do with its result: the new process goes on with \<open>child\<close>, unmaps and declares success; the old
  one waits for it.
\<close>

definition forked :: "platform \<Rightarrow> 'k rev_env \<Rightarrow> cap \<Rightarrow> ('k, unit) prog list \<Rightarrow> ('k, unit) prog" where
  "forked pl rv bigblock child =
     bindP (raw_call (rv_fork rv)) (\<lambda>r.
     let pid = (case r of None \<Rightarrow> - 1 | Some pid \<Rightarrow> pid) in
     block (
      (if pid = 0 then child
       else [CHERIOSTEST_VERIFY2 pl (pid > 0) ''fork failed'' [],
             (if ae_waitpid (rv_abi rv) pid = 0 then cheriostest_success else cheriostest_failure_errx pl ''Bad child process exit'' [])]) @
      [unmap_block rv bigblock, cheriostest_success]))"

definition cheri_revoke_lib_fork :: "platform \<Rightarrow> 'k rev_env \<Rightarrow> ('k, unit) prog" where
  "cheri_revoke_lib_fork pl rv = on_CheriBSD pl (
     bindP (seeded_init pl rv) (\<lambda>(bigblock, shadow). block
       [show_blocks pl rv bigblock shadow,
        forked pl rv bigblock
          [run_mode pl rv TCLR_MODE_LOAD_ONCE bigblock shadow, run_mode pl rv TCLR_MODE_LOAD_SPLIT bigblock shadow]]))"

definition cheri_revoke_lib_fork_split :: "platform \<Rightarrow> 'k rev_env \<Rightarrow> ('k, unit) prog" where
  "cheri_revoke_lib_fork_split pl rv = on_CheriBSD pl (
     bindP (seeded_init pl rv) (\<lambda>(bigblock, shadow). block
       [show_blocks pl rv bigblock shadow,
        run_mode pl rv TCLR_MODE_LOAD_SPLIT_INIT bigblock shadow,
        forked pl rv bigblock [run_mode pl rv TCLR_MODE_LOAD_SPLIT_FINI bigblock shadow]]))"

section \<open>Children with an image of their own\<close>

definition cheri_revoke_lib_child_spawn_common :: "platform \<Rightarrow> 'k rev_env \<Rightarrow> string \<Rightarrow> spawn_child_mode \<Rightarrow> tclr_mode \<Rightarrow> ('k, unit) prog" where
  "cheri_revoke_lib_child_spawn_common pl rv name sc_mode pre_fork_tclr_mode =
     (let ae = rv_abi rv in
      bindP (if pre_fork_tclr_mode \<noteq> TCLR_MODE_NONE
             then bindP (seeded_init pl rv) (\<lambda>(bigblock, shadow). run_mode pl rv pre_fork_tclr_mode bigblock shadow)
             else ret ()) (\<lambda>_.
      case cheriostest_spawn_child pl (ae_exec ae) (ae_spawn ae) (ae_opts ae) name sc_mode of
        CExit e \<Rightarrow> leave e
      | COverflow \<Rightarrow> (\<lambda>s. (Undefined, s))
      | COk (InChildExec path args env) \<Rightarrow> ae_execve ae path args env
      | COk (InParent pid) \<Rightarrow> block
          [CHERIOSTEST_VERIFY2 pl (pid > 0) ''spawning child process failed'' [],
           fail_if pl (ae_waitpid ae pid \<noteq> 0) ''Bad child process exit'' [],
           cheriostest_success]))"

definition cheri_revoke_lib_child_common :: "platform \<Rightarrow> 'k rev_env \<Rightarrow> tclr_mode \<Rightarrow> ('k, unit) prog" where
  "cheri_revoke_lib_child_common pl rv tclr_mode =
     bindP (seeded_init pl rv) (\<lambda>(bigblock, shadow). block
       [bindP (read_cri rv) (\<lambda>cri. CHERIOSTEST_VERIFY pl (ep_enqueue cri = 0) ''cri->epochs.enqueue == 0''),
        bindP (read_cri rv) (\<lambda>cri. CHERIOSTEST_VERIFY pl (ep_dequeue cri = 0) ''cri->epochs.dequeue == 0''),
        show_blocks pl rv bigblock shadow,
        run_mode pl rv tclr_mode bigblock shadow,
        unmap_block rv bigblock,
        leave 0])"

definition cheri_revoke_lib_child_once :: "platform \<Rightarrow> 'k rev_env \<Rightarrow> ('k, unit) prog" where
  "cheri_revoke_lib_child_once pl rv = cheri_revoke_lib_child_common pl rv TCLR_MODE_LOAD_ONCE"

definition cheri_revoke_lib_child_split :: "platform \<Rightarrow> 'k rev_env \<Rightarrow> ('k, unit) prog" where
  "cheri_revoke_lib_child_split pl rv = cheri_revoke_lib_child_common pl rv TCLR_MODE_LOAD_SPLIT"

text \<open>
  The ten tests as the rows of a table: name, how the child is started, what is done before, and what the child does
  (\<^verbatim>\<open>ct_child_func\<close>: once or split). The body of each is \<open>cheri_revoke_lib_child_spawn_common\<close> on its row.
\<close>

definition child_tests :: "(string \<times> spawn_child_mode \<times> tclr_mode \<times> tclr_mode) list" where
  "child_tests =
     [(''cheri_revoke_lib_child_fork_exec_once'', SC_MODE_FORK, TCLR_MODE_NONE, TCLR_MODE_LOAD_ONCE),
      (''cheri_revoke_lib_child_fork_exec_split_prior'', SC_MODE_FORK, TCLR_MODE_LOAD_ONCE, TCLR_MODE_LOAD_SPLIT),
      (''cheri_revoke_lib_child_fork_exec_once_opened'', SC_MODE_FORK, TCLR_MODE_LOAD_SPLIT_INIT, TCLR_MODE_LOAD_ONCE),
      (''cheri_revoke_lib_child_rfork_exec_split'', SC_MODE_RFORK, TCLR_MODE_NONE, TCLR_MODE_LOAD_SPLIT),
      (''cheri_revoke_lib_child_vfork_exec_once'', SC_MODE_VFORK, TCLR_MODE_NONE, TCLR_MODE_LOAD_ONCE),
      (''cheri_revoke_lib_child_vfork_exec_split_prior'', SC_MODE_VFORK, TCLR_MODE_LOAD_ONCE, TCLR_MODE_LOAD_SPLIT),
      (''cheri_revoke_lib_child_vfork_exec_once_opened'', SC_MODE_VFORK, TCLR_MODE_LOAD_SPLIT_INIT, TCLR_MODE_LOAD_ONCE),
      (''cheri_revoke_lib_child_posix_spawn_split'', SC_MODE_POSIX_SPAWN, TCLR_MODE_NONE, TCLR_MODE_LOAD_SPLIT),
      (''cheri_revoke_lib_child_posix_spawn_once_prior'', SC_MODE_POSIX_SPAWN, TCLR_MODE_LOAD_ONCE, TCLR_MODE_LOAD_ONCE),
      (''cheri_revoke_lib_child_posix_spawn_split_opened'', SC_MODE_POSIX_SPAWN, TCLR_MODE_LOAD_SPLIT_INIT, TCLR_MODE_LOAD_SPLIT)]"

definition run_child_test :: "platform \<Rightarrow> 'k rev_env \<Rightarrow> string \<times> spawn_child_mode \<times> tclr_mode \<times> tclr_mode \<Rightarrow> ('k, unit) prog" where
  "run_child_test pl rv = (\<lambda>(name, sc_mode, prior, child_mode). cheri_revoke_lib_child_spawn_common pl rv name sc_mode prior)"

end
