(* ===== verification/Revoke_Contract.thy ===== *)
theory Revoke_Contract
  imports Revoke_Lib Vm_Contract
begin

text \<open>
  What a revoker promises, as a locale over a view of memory, and that the tests of \<^verbatim>\<open>libcaprevoke\<close> tell a revoker that keeps the
  promise from one that overlooks capabilities.
\<close>

section \<open>The view of memory\<close>

text \<open>
  Granules of 16 bytes: which are mapped, what a load gives, which are painted in the shadow bitmap; and the clock of the epochs.
\<close>

record rspec =
  rs_mapped :: "ptraddr set"
  rs_cell :: "ptraddr \<Rightarrow> cap"
  rs_painted :: "ptraddr set"
  rs_enqueue :: uintmax
  rs_dequeue :: uintmax

definition granule :: "cap \<Rightarrow> nat \<Rightarrow> ptraddr" where
  "granule c i = cap_base c + of_nat (16 * i)"

definition granules :: "cap \<Rightarrow> ptraddr set" where
  "granules c = granule c ` {..<cap_len c div 16}"

text \<open>A pass must revoke the tagged capabilities without the permission to change mappings whose base is painted.\<close>

definition condemned :: "platform \<Rightarrow> ptraddr set \<Rightarrow> cap \<Rightarrow> bool" where
  "condemned pl painted c \<longleftrightarrow> cap_tag c \<and> cap_perms c AND CHERI_PERM_SW_VMEM pl = 0 \<and> cap_base c \<in> painted"

definition rw_perms :: "platform \<Rightarrow> uintmax \<Rightarrow> bool" where
  "rw_perms pl p \<longleftrightarrow> p AND CHERI_PERM_LOAD pl \<noteq> 0 \<and> p AND CHERI_PERM_STORE pl \<noteq> 0 \<and>
     (HAS_CHERI_PERM_LOAD_STORE_CAP pl \<longrightarrow> p AND CHERI_PERM_LOAD_CAP pl \<noteq> 0 \<and> p AND CHERI_PERM_STORE_CAP pl \<noteq> 0) \<and>
     (HAS_CHERI_PERM_CAP pl \<longrightarrow> p AND CHERI_PERM_CAP pl \<noteq> 0)"

text \<open>A capability to a block of \<open>n\<close> granules, at its start.\<close>

definition is_block :: "platform \<Rightarrow> nat \<Rightarrow> cap \<Rightarrow> bool" where
  "is_block pl n c \<longleftrightarrow> cap_tag c \<and> \<not> cheri_is_sealed pl c \<and> cap_addr c = cap_base c \<and> cap_len c = 16 * n \<and>
     unat (cap_base c) + 16 * n < 2 ^ 64 \<and> unat (cap_base c) mod 16 = 0 \<and>
     rw_perms pl (cap_perms c) \<and> cap_perms c AND NOT (CHERI_PERM_SW_VMEM pl) \<noteq> 0"

text \<open>A pointer that may be used to load or store the granule it points to.\<close>

definition usable :: "platform \<Rightarrow> rspec \<Rightarrow> cap \<Rightarrow> bool" where
  "usable pl sp p \<longleftrightarrow> cap_tag p \<and> \<not> cheri_is_sealed pl p \<and> access_in_bounds p 16 \<and> rw_perms pl (cap_perms p) \<and>
     unat (cap_addr p) mod 16 = 0 \<and> cap_addr p \<in> rs_mapped sp"

text \<open>What one pass does to the view: \<open>missed\<close> are the bases a faulty revoker overlooks.\<close>

definition swept :: "platform \<Rightarrow> ptraddr set \<Rightarrow> rspec \<Rightarrow> rspec \<Rightarrow> bool" where
  "swept pl missed sp sp' \<longleftrightarrow> rs_mapped sp' = rs_mapped sp \<and> rs_painted sp' = rs_painted sp \<and>
     (\<forall>g \<in> rs_mapped sp.
        if condemned pl (rs_painted sp - missed) (rs_cell sp g) then check_revoked (rs_cell sp' g) else rs_cell sp' g = rs_cell sp g)"

section \<open>The contract\<close>

text \<open>
  \<open>ok\<close> says that the process may go on with calls of this kind. Of the processor: an address within bounds is representable, bounds of
  whole granules below 16384 bytes are exact, and so are bounds a capability already has. Of \<^verbatim>\<open>rand\<close>: the numbers drawn never ask
  for a chunk of 1024 capabilities, whose bounds are exact at every second granule only.
\<close>

locale revoker =
  fixes pl :: platform and rv :: "'k rev_env" and abs :: "'k \<Rightarrow> rspec" and ok :: "'k \<Rightarrow> bool" and missed :: "ptraddr set"
  assumes quiet: "verbose (ae_opts (rv_abi rv)) = 0"
    and representable_law: "cap_base c \<le> a \<Longrightarrow> unat a < cap_top c \<Longrightarrow> arch_representable pl c a"
    and round_law: "unat a mod 16 = 0 \<Longrightarrow> 0 < n \<Longrightarrow> n < 1024 \<Longrightarrow> arch_round_bounds pl a (n * 16) = (a, n * 16)"
    and round_own_law: "cap_tag c \<Longrightarrow> arch_round_bounds pl (cap_base c) (cap_len c) = (cap_base c, cap_len c)"
    and mmap_law: "ok w \<Longrightarrow> n \<le> bigblock_caps \<Longrightarrow> \<exists>c w'. mmap_call (rv_resv rv) (cap_null pl) (n * 16) [PROT_READ, PROT_WRITE] [MAP_ANON] (- 1) w = (Inr c, w') \<and>
      ok w' \<and> is_block pl n c \<and> granules c \<subseteq> rs_mapped (abs w') \<and> granules c \<inter> rs_painted (abs w') = {} \<and>
      rs_enqueue (abs w') = rs_enqueue (abs w) \<and> rs_dequeue (abs w') = rs_dequeue (abs w)"
    and load_law: "ok w \<Longrightarrow> usable pl (abs w) p \<Longrightarrow>
      \<exists>w'. k_load (rv_kernel rv) p w = (Inr (rs_cell (abs w) (cap_addr p)), w') \<and> ok w' \<and> abs w' = abs w"
    and store_law: "ok w \<Longrightarrow> usable pl (abs w) p \<Longrightarrow>
      \<exists>w'. k_store (rv_kernel rv) p c w = (None, w') \<and> ok w' \<and> abs w' = (abs w)\<lparr>rs_cell := (rs_cell (abs w))(cap_addr p := c)\<rparr>"
    and get_shadow_law: "ok w \<Longrightarrow> \<exists>sh w'. rv_get_shadow rv kind p w = (Inr sh, w') \<and> ok w' \<and> abs w' = abs w"
    and info_law: "ok w \<Longrightarrow> \<exists>e w'. rv_info rv w = (e, w') \<and> ok w' \<and> abs w' = abs w \<and>
      ep_enqueue e = rs_enqueue (abs w) \<and> ep_dequeue e = rs_dequeue (abs w)"
    and revoke_law: "ok w \<Longrightarrow> CHERI_REVOKE_IGNORE_START \<in> set flags \<Longrightarrow> CHERI_REVOKE_ASYNC \<notin> set flags \<Longrightarrow>
      \<exists>e w'. rv_revoke rv flags 0 w = (Inr e, w') \<and> ok w' \<and> ep_dequeue e = rs_dequeue (abs w') \<and> swept pl missed (abs w) (abs w')"
    and set_law: "ok w \<Longrightarrow> cap_addr c = cap_base c \<Longrightarrow> granules c \<subseteq> rs_mapped (abs w) \<Longrightarrow> granules c \<inter> rs_painted (abs w) = {} \<Longrightarrow>
      \<exists>w'. caprev_shadow_nomap_set rv b sh c c w = (0, w') \<and> ok w' \<and> abs w' = (abs w)\<lparr>rs_painted := rs_painted (abs w) \<union> granules c\<rparr>"
    and clear_law: "ok w \<Longrightarrow> cap_addr c = cap_base c \<Longrightarrow> granules c \<subseteq> rs_painted (abs w) \<Longrightarrow>
      ok (caprev_shadow_nomap_clear rv b sh c w) \<and>
      abs (caprev_shadow_nomap_clear rv b sh c w) = (abs w)\<lparr>rs_painted := rs_painted (abs w) - granules c\<rparr>"
    and srand_law: "ok w \<Longrightarrow> ok (rv_srand rv n w) \<and> abs (rv_srand rv n w) = abs w"
    and fork_law: "ok w \<Longrightarrow> \<exists>pid w'. rv_fork rv w = (Inr pid, w') \<and> ok w' \<and> abs w' = abs w"
    and rand_law: "ok w \<Longrightarrow> \<exists>r w'. rv_rand rv w = (r, w') \<and> ok w' \<and> abs w' = abs w \<and> r mod 1024 \<noteq> 1023"

section \<open>Blocks\<close>

lemma granule_unat:
  assumes "unat (cap_base c) + 16 * n < 2 ^ 64" "i \<le> n"
  shows "unat (granule c i) = unat (cap_base c) + 16 * i"
proof -
  have "unat (granule c i) = (unat (cap_base c) + 16 * i) mod 2 ^ 64"
    by (simp add: granule_def unat_word_ariths unat_of_nat mod_simps)
  then show ?thesis using assms by simp
qed

lemma granule_inj: "unat (cap_base c) + 16 * n < 2 ^ 64 \<Longrightarrow> i \<le> n \<Longrightarrow> j \<le> n \<Longrightarrow> granule c i = granule c j \<longleftrightarrow> i = j"
  by (metis add_left_cancel granule_unat mult_cancel1 zero_neq_numeral)

lemma granules_block: "is_block pl n c \<Longrightarrow> granules c = granule c ` {..<n}"
  by (simp add: granules_def is_block_def)

text \<open>The self-capability of granule \<open>i\<close> of a block, as a record.\<close>

definition self_of :: "platform \<Rightarrow> cap \<Rightarrow> nat \<Rightarrow> cap" where
  "self_of pl c i = c\<lparr>cap_addr := granule c i, cap_base := granule c i, cap_len := 16, cap_perms := cap_perms c AND NOT (CHERI_PERM_SW_VMEM pl)\<rparr>"

lemma self_of_alive: "is_block pl n c \<Longrightarrow> \<not> check_revoked (self_of pl c i)"
  by (simp add: is_block_def self_of_def check_revoked_def cheri_tag_get_def cheri_perms_get_def)

lemma self_of_condemned: "is_block pl n c \<Longrightarrow> condemned pl painted (self_of pl c i) \<longleftrightarrow> granule c i \<in> painted"
  by (simp add: is_block_def self_of_def condemned_def and.assoc)

context revoker
begin

lemma elem_block:
  assumes "is_block pl n c" "i < n"
  shows "elem pl c i = c\<lparr>cap_addr := granule c i\<rparr>"
proof -
  have "unat (granule c i) = unat (cap_base c) + 16 * i" using assms granule_unat [of c n i] by (simp add: is_block_def)
  then have "cap_base c \<le> granule c i" "unat (granule c i) < cap_top c"
    using assms by (simp_all add: word_le_nat_alt cap_top_def is_block_def)
  from representable_law [OF this] show ?thesis
    using assms(1) by (simp add: elem_def cheri_offset_increment_def cheri_address_set_def is_block_def granule_def)
qed

lemma elem_usable:
  assumes "is_block pl n c" "i < n" "granules c \<subseteq> rs_mapped sp"
  shows "usable pl sp (elem pl c i)"
proof -
  have u: "unat (granule c i) = unat (cap_base c) + 16 * i" using assms granule_unat [of c n i] by (simp add: is_block_def)
  have "granule c i \<in> rs_mapped sp" using assms granules_block by blast
  then show ?thesis using assms(1,2) u
    by (simp add: usable_def elem_block [OF assms(1,2)] is_block_def access_in_bounds_def cap_top_def cheri_is_sealed_def)
qed

lemma elem_addr: "is_block pl n c \<Longrightarrow> i < n \<Longrightarrow> cap_addr (elem pl c i) = granule c i"
  by (simp add: elem_block)

lemma self_cap_block:
  assumes "is_block pl n c" "i < n"
  shows "self_cap pl (elem pl c i) = self_of pl c i"
proof -
  have u: "unat (granule c i) = unat (cap_base c) + 16 * i" using assms granule_unat [of c n i] by (simp add: is_block_def)
  then have "unat (granule c i) mod 16 = 0" using assms(1) by (simp add: is_block_def)
  from round_law [OF this, of 1] show ?thesis
    using assms u
    by (simp add: self_cap_def no_vmem_def elem_block [OF assms] cheri_bounds_set_def cheri_perms_and_def self_of_def is_block_def
        access_in_bounds_def cap_top_def word_le_nat_alt cheri_is_sealed_def)
qed

text \<open>A chunk of a block is a block, and its granules are those of the block.\<close>

lemma chunk_block:
  assumes "is_block pl n c" "off + csz \<le> n" "0 < csz" "csz < 1024 \<or> off = 0 \<and> csz = n"
  shows "is_block pl csz (chunk_at pl c off csz)" "granule (chunk_at pl c off csz) i = granule c (off + i)"
    "self_of pl (chunk_at pl c off csz) i = self_of pl c (off + i)"
proof -
  have u: "unat (granule c off) = unat (cap_base c) + 16 * off" using assms granule_unat [of c n off] by (simp add: is_block_def)
  have m: "unat (granule c off) mod 16 = 0" using assms(1) u by (simp add: is_block_def)
  have "arch_round_bounds pl (granule c off) (csz * 16) = (granule c off, csz * 16)"
    using assms(4) round_law [OF m assms(3)] round_own_law [of c] assms(1)
    by (auto simp: is_block_def granule_def mult.commute)
  then have ch: "chunk_at pl c off csz = c\<lparr>cap_addr := granule c off, cap_base := granule c off, cap_len := csz * 16\<rparr>"
    using assms u elem_block [OF assms(1), of off]
    by (simp add: chunk_at_def cheri_bounds_set_def is_block_def access_in_bounds_def cap_top_def word_le_nat_alt cheri_is_sealed_def)
  show "is_block pl csz (chunk_at pl c off csz)"
    using assms u m by (simp add: ch is_block_def cheri_is_sealed_def)
  show g: "granule (chunk_at pl c off csz) i = granule c (off + i)"
    by (simp add: ch granule_def algebra_simps)
  show "self_of pl (chunk_at pl c off csz) i = self_of pl c (off + i)"
    using g by (simp add: self_of_def) (simp add: ch)
qed

end

end
