(* ===== verification/Revoke_Proofs.thy ===== *)
theory Revoke_Proofs
  imports Revoke_Contract
begin

text \<open>
  The runs of the \<^verbatim>\<open>libcaprevoke\<close> tests under the contract of a revoker: the block holds capabilities to itself and nothing of it is
  painted, before and after every chunk; and the verdict of the tests for a revoker that overlooks some capabilities.
\<close>

section \<open>Loops\<close>

lemma comes_back_upt:
  assumes "\<And>i s. m \<le> i \<Longrightarrow> i < n \<Longrightarrow> I i (p_world s) \<Longrightarrow> \<exists>w. comes_back (f i) s () w \<and> I (Suc i) w"
    and "m \<le> n" "I m (p_world s)"
  shows "\<exists>w. comes_back (block (map f [m..<n])) s () w \<and> I n w"
  using assms(2,3,1)
proof (induction m arbitrary: s rule: inc_induct)
  case base
  then show ?case using comes_back_block_Nil by (metis list.map(1) upt_rec less_irrefl)
next
  case (step m)
  obtain w where w: "comes_back (f m) s () w" "I (Suc m) w" using step.prems(2) [of m s] step.prems(1) step.hyps by auto
  obtain w' where "comes_back (block (map f [Suc m..<n])) (s\<lparr>p_world := w\<rparr>) () w'" "I n w'"
    using step.IH [of "s\<lparr>p_world := w\<rparr>"] w(2) step.prems(2) by auto
  then show ?case using comes_back_block_Cons [OF w(1)] step.hyps(2) by (auto simp: upt_conv_Cons)
qed

lemma comes_back_same:
  assumes "\<And>i s. m \<le> i \<Longrightarrow> i < n \<Longrightarrow> I (p_world s) \<Longrightarrow> \<exists>w. comes_back (f i) s () w \<and> I w" "I (p_world s)"
  shows "\<exists>w. comes_back (block (map f [m..<n])) s () w \<and> I w"
proof (cases "m \<le> n")
  case True
  then show ?thesis using comes_back_upt [of m n "\<lambda>_. I" f s] assms by simp
next
  case False
  then show ?thesis using comes_back_block_Nil assms(2) by (auto simp del: block.simps)
qed

lemma comes_back_append:
  "comes_back (block ps) s () w \<Longrightarrow> comes_back (block qs) (s\<lparr>p_world := w\<rparr>) () w' \<Longrightarrow> comes_back (block (ps @ qs)) s () w'"
  by (simp add: block_append comes_back_then)

lemma failure_bind: "declares_failure p s \<Longrightarrow> declares_failure (bindP p f) s"
  by (cases "p s"; cases "fst (p s)") (auto simp: declares_failure_def bindP_def)

lemma failure_after: "comes_back p s x w \<Longrightarrow> declares_failure (f x) (s\<lparr>p_world := w\<rparr>) \<Longrightarrow> declares_failure (bindP p f) s"
  by (simp add: declares_failure_def comes_back_bind)

lemma success_after: "comes_back p s x w \<Longrightarrow> declares_success (f x) (s\<lparr>p_world := w\<rparr>) \<Longrightarrow> declares_success (bindP p f) s"
  by (simp add: declares_success_def comes_back_bind)

text \<open>A loop whose first bad index ends the test.\<close>

lemma failure_upt:
  assumes "\<And>i s. m \<le> i \<Longrightarrow> i < n \<Longrightarrow> p_ccsp s \<noteq> None \<Longrightarrow> I (p_world s) \<Longrightarrow>
      if bad i then declares_failure (f i) s else \<exists>w. comes_back (f i) s () w \<and> I w"
    and "m \<le> b" "b < n" "bad b" "I (p_world s)" "p_ccsp s \<noteq> None"
  shows "declares_failure (block (map f [m..<n])) s"
  using assms(2) less_imp_le [OF assms(3)] assms(5,6,3,1)
proof (induction m arbitrary: s rule: inc_induct)
  case base
  then show ?case using assms(4) by (auto simp: upt_conv_Cons intro: failure_bind)
next
  case (step m)
  have u: "[m..<n] = m # [Suc m..<n]" using step.hyps step.prems by (simp add: upt_conv_Cons)
  show ?case
  proof (cases "bad m")
    case True
    then show ?thesis using step.prems(5) [of m s] step.prems step.hyps by (auto simp: u intro: failure_bind)
  next
    case False
    have "m < n" using step.hyps step.prems(4) by simp
    then obtain w where w: "comes_back (f m) s () w" "I w" using step.prems(5) [of m s] step.prems(2,3) False by auto
    then have "declares_failure (block (map f [Suc m..<n])) (s\<lparr>p_world := w\<rparr>)"
      using step.IH [of "s\<lparr>p_world := w\<rparr>"] step.prems by auto
    then show ?thesis using failure_after [OF w(1)] by (simp add: u)
  qed
qed

section \<open>Runs\<close>

lemma comes_back_observe: "f (p_world s) = (x, w) \<Longrightarrow> comes_back (observe f) s x w"
  by (simp add: comes_back_def observe_def)

lemma comes_back_raw: "call (p_world s) = (Inr x, w) \<Longrightarrow> comes_back (raw_call call) s (Some x) w"
  by (simp add: comes_back_def raw_call_def)

lemma block_pair: "block [p, q] = bindP p (\<lambda>_. q)"
  by simp

lemma comes_back_upd: "comes_back (upd_world f) s () (f (p_world s))"
  by (simp add: comes_back_def upd_world_def)

context revoker
begin

text \<open>The block is intact: it is mapped, not painted, and every granule holds the capability to itself.\<close>

definition intact :: "nat \<Rightarrow> cap \<Rightarrow> 'k \<Rightarrow> bool" where
  "intact n c w \<longleftrightarrow> ok w \<and> granules c \<subseteq> rs_mapped (abs w) \<and> granules c \<inter> rs_painted (abs w) = {} \<and>
     (\<forall>i<n. rs_cell (abs w) (granule c i) = self_of pl c i)"

text \<open>In the middle of a chunk: it is painted, and its capabilities are gone but for those that are overlooked.\<close>

definition revoked_part :: "nat \<Rightarrow> cap \<Rightarrow> nat \<Rightarrow> nat \<Rightarrow> 'k \<Rightarrow> bool" where
  "revoked_part n c off csz w \<longleftrightarrow> ok w \<and> granules c \<subseteq> rs_mapped (abs w) \<and>
     granules c \<inter> rs_painted (abs w) = granule c ` {off..<off + csz} \<and>
     (\<forall>i<n. if off \<le> i \<and> i < off + csz \<and> granule c i \<notin> missed then check_revoked (rs_cell (abs w) (granule c i))
            else rs_cell (abs w) (granule c i) = self_of pl c i)"

lemma fill_run:
  assumes c: "is_block pl n c" and w: "ok (p_world s)" "granules c \<subseteq> rs_mapped (abs (p_world s))"
  shows "\<exists>w. comes_back (fill_self pl rv c n) s () w \<and> ok w \<and> rs_mapped (abs w) = rs_mapped (abs (p_world s)) \<and>
    rs_painted (abs w) = rs_painted (abs (p_world s)) \<and> (\<forall>i<n. rs_cell (abs w) (granule c i) = self_of pl c i) \<and>
    (\<forall>g. g \<notin> granules c \<longrightarrow> rs_cell (abs w) g = rs_cell (abs (p_world s)) g) \<and>
    rs_enqueue (abs w) = rs_enqueue (abs (p_world s)) \<and> rs_dequeue (abs w) = rs_dequeue (abs (p_world s))"
proof -
  let ?I = "\<lambda>k w. ok w \<and> rs_mapped (abs w) = rs_mapped (abs (p_world s)) \<and> rs_painted (abs w) = rs_painted (abs (p_world s)) \<and>
    (\<forall>i<k. rs_cell (abs w) (granule c i) = self_of pl c i) \<and>
    (\<forall>g. g \<notin> granules c \<longrightarrow> rs_cell (abs w) g = rs_cell (abs (p_world s)) g) \<and>
    rs_enqueue (abs w) = rs_enqueue (abs (p_world s)) \<and> rs_dequeue (abs w) = rs_dequeue (abs (p_world s))"
  have "\<exists>w. comes_back (store_cap (rv_kernel rv) (elem pl c i) (self_cap pl (elem pl c i))) t () w \<and> ?I (Suc i) w"
    if i: "i < n" and I: "?I i (p_world t)" for i t
  proof -
    have "usable pl (abs (p_world t)) (elem pl c i)" using elem_usable [OF c i] I w(2) by simp
    then obtain v where v: "k_store (rv_kernel rv) (elem pl c i) (self_cap pl (elem pl c i)) (p_world t) = (None, v)" "ok v"
      "abs v = (abs (p_world t))\<lparr>rs_cell := (rs_cell (abs (p_world t)))(granule c i := self_of pl c i)\<rparr>"
      using store_law [of "p_world t"] I elem_addr [OF c i] self_cap_block [OF c i] by metis
    have "granule c i \<in> granules c" using granules_block [OF c] i by blast
    moreover have "granule c j \<noteq> granule c i" if "j < i" for j
      using granule_inj [of c n j i] c i that by (auto simp: is_block_def)
    ultimately have "?I (Suc i) v" using I v(2,3) by (auto simp: less_Suc_eq)
    then show ?thesis using comes_back_store [of _ _ _ t] v(1) by blast
  qed
  then show ?thesis unfolding fill_self_def
    using comes_back_upt [of 0 n ?I "\<lambda>i. store_cap (rv_kernel rv) (elem pl c i) (self_cap pl (elem pl c i))" s] w by simp
qed

lemma read_cri_run: "ok (p_world s) \<Longrightarrow> \<exists>e w. comes_back (read_cri rv) s e w \<and> ok w \<and> abs w = abs (p_world s) \<and>
    ep_enqueue e = rs_enqueue (abs w) \<and> ep_dequeue e = rs_dequeue (abs w)"
  using info_law unfolding read_cri_def by (metis comes_back_observe)

lemma pass_run:
  assumes "ok (p_world s)" "CHERI_REVOKE_IGNORE_START \<in> set flags" "CHERI_REVOKE_ASYNC \<notin> set flags"
  shows "\<exists>w. comes_back (revoke_pass pl rv flags) s () w \<and> ok w \<and> swept pl missed (abs (p_world s)) (abs w)"
proof -
  obtain e w where r: "rv_revoke rv flags 0 (p_world s) = (Inr e, w)" "ok w" "ep_dequeue e = rs_dequeue (abs w)"
    "swept pl missed (abs (p_world s)) (abs w)" using revoke_law [OF assms] by blast
  obtain e' w' where i: "comes_back (read_cri rv) (s\<lparr>p_world := w\<rparr>) e' w'" "ok w'" "abs w' = abs w" "ep_dequeue e' = rs_dequeue (abs w')"
    using read_cri_run [of "s\<lparr>p_world := w\<rparr>"] r(2) by auto
  have "comes_back (revoke_pass pl rv flags) s () w'"
    unfolding revoke_pass_def cheri_revoke_def clock_agrees_def
    using r(1,3) i(1,3,4) by (simp add: comes_back_def bindP_def CHERIOSTEST_CHECK_SYSCALL_def CHERIOSTEST_VERIFY2_def ret_def)
  then show ?thesis using i(2,3) r(4) by auto
qed

lemma load_run:
  assumes "is_block pl n c" "i < n" "ok (p_world s)" "granules c \<subseteq> rs_mapped (abs (p_world s))"
  shows "\<exists>w. comes_back (load_cap (rv_kernel rv) (elem pl c i)) s (rs_cell (abs (p_world s)) (granule c i)) w \<and> ok w \<and> abs w = abs (p_world s)"
  using load_law [OF assms(3) elem_usable [OF assms(1,2,4)]] elem_addr [OF assms(1,2)] by (metis comes_back_load)

text \<open>The parameters of a chunk of a block.\<close>

definition chunk_of :: "nat \<Rightarrow> cap \<Rightarrow> nat \<Rightarrow> nat \<Rightarrow> bool" where
  "chunk_of n c off csz \<longleftrightarrow> is_block pl n c \<and> off + csz \<le> n \<and> 0 < csz \<and> (csz < 1024 \<or> off = 0 \<and> csz = n)"

lemma chunk_of_block:
  assumes "chunk_of n c off csz"
  shows "is_block pl n c" "is_block pl csz (chunk_at pl c off csz)" "granule (chunk_at pl c off csz) i = granule c (off + i)"
    "self_of pl (chunk_at pl c off csz) i = self_of pl c (off + i)" "cap_addr (chunk_at pl c off csz) = cap_base (chunk_at pl c off csz)"
    "off + csz \<le> n"
  using assms chunk_block [of n c off csz] unfolding chunk_of_def by (auto simp: is_block_def)

lemma chunk_granules:
  assumes "chunk_of n c off csz"
  shows "granules (chunk_at pl c off csz) = granule c ` {off..<off + csz}" "granules (chunk_at pl c off csz) \<subseteq> granules c"
proof -
  have "granules (chunk_at pl c off csz) = granule c ` (\<lambda>i. off + i) ` {..<csz}"
    using granules_block [OF chunk_of_block(2) [OF assms]] chunk_of_block(3) [OF assms] by (simp add: image_image)
  also have "(\<lambda>i. off + i) ` {..<csz} = {off..<off + csz}" by (simp add: lessThan_atLeast0 image_add_atLeastLessThan add.commute)
  finally show g: "granules (chunk_at pl c off csz) = granule c ` {off..<off + csz}" .
  show "granules (chunk_at pl c off csz) \<subseteq> granules c"
    using chunk_of_block(6) [OF assms] granules_block [OF chunk_of_block(1) [OF assms]] by (auto simp: g)
qed

lemma granule_in_chunk:
  assumes "chunk_of n c off csz" "i < n"
  shows "granule c i \<in> granule c ` {off..<off + csz} \<longleftrightarrow> off \<le> i \<and> i < off + csz"
proof
  assume "granule c i \<in> granule c ` {off..<off + csz}"
  then obtain j where "granule c i = granule c j" "off \<le> j" "j < off + csz" by auto
  then show "off \<le> i \<and> i < off + csz"
    using granule_inj [of c n i j] assms chunk_of_block(1,6) [OF assms(1)] by (simp add: is_block_def)
qed auto

text \<open>Marking a chunk and a pass of the revoker.\<close>

lemma mark_and_pass:
  assumes ch: "chunk_of n c off csz" and w: "intact n c (p_world s)"
    and fl: "CHERI_REVOKE_IGNORE_START \<in> set flags" "CHERI_REVOKE_ASYNC \<notin> set flags"
  shows "\<exists>w. comes_back (block [bindP (observe (caprev_shadow_nomap_set rv b shadow (chunk_at pl c off csz) (chunk_at pl c off csz))) (\<lambda>r.
      CHERIOSTEST_VERIFY2 pl (r = 0) msg []), revoke_pass pl rv flags]) s () w \<and>
    revoked_part n c off csz w"
proof -
  let ?k = "chunk_at pl c off csz" and ?P = "rs_painted (abs (p_world s))"
  note w = w [unfolded intact_def]
  have "granules ?k \<subseteq> rs_mapped (abs (p_world s))" "granules ?k \<inter> ?P = {}"
    using w chunk_granules(2) [OF ch] by auto
  then obtain w1 where w1: "caprev_shadow_nomap_set rv b shadow ?k ?k (p_world s) = (0, w1)" "ok w1"
    "abs w1 = (abs (p_world s))\<lparr>rs_painted := ?P \<union> granules ?k\<rparr>"
    using set_law [OF conjunct1 [OF w] chunk_of_block(5) [OF ch]] by blast
  obtain w2 where w2: "comes_back (revoke_pass pl rv flags) (s\<lparr>p_world := w1\<rparr>) () w2" "ok w2"
    "swept pl missed (abs w1) (abs w2)"
    using pass_run [of "s\<lparr>p_world := w1\<rparr>" flags] w1(2) fl by auto
  have first: "comes_back (bindP (observe (caprev_shadow_nomap_set rv b shadow ?k ?k)) (\<lambda>r. CHERIOSTEST_VERIFY2 pl (r = 0) msg [])) s () w1"
    using w1(1) by (simp add: comes_back_def bindP_def observe_def CHERIOSTEST_VERIFY2_def ret_def)
  have both: "comes_back (block [bindP (observe (caprev_shadow_nomap_set rv b shadow ?k ?k)) (\<lambda>r. CHERIOSTEST_VERIFY2 pl (r = 0) msg []),
      revoke_pass pl rv flags]) s () w2"
    using comes_back_block_Cons [OF first comes_back_block_Cons [OF w2(1) comes_back_block_Nil]] by (simp del: block.simps)
  have P: "rs_painted (abs w2) = ?P \<union> granules ?k" "rs_mapped (abs w2) = rs_mapped (abs (p_world s))"
    using w2(3) w1(3) by (simp_all add: swept_def)
  have cells: "if off \<le> i \<and> i < off + csz \<and> granule c i \<notin> missed then check_revoked (rs_cell (abs w2) (granule c i))
      else rs_cell (abs w2) (granule c i) = self_of pl c i" if i: "i < n" for i
  proof -
    have g: "granule c i \<in> granules c" using granules_block [OF chunk_of_block(1) [OF ch]] i by blast
    then have "granule c i \<in> rs_mapped (abs w1)" "granule c i \<notin> ?P" using w w1(3) by auto
    moreover have "condemned pl (rs_painted (abs w1) - missed) (rs_cell (abs w1) (granule c i)) \<longleftrightarrow> granule c i \<in> ?P \<union> granules ?k \<and> granule c i \<notin> missed"
      using w i w1(3) by (simp add: self_of_condemned [OF chunk_of_block(1) [OF ch]])
    ultimately show ?thesis
      using w2(3) granule_in_chunk [OF ch i] chunk_granules(1) [OF ch] w i w1(3) unfolding swept_def by auto
  qed
  have "revoked_part n c off csz w2"
    unfolding revoked_part_def using w2(2) P w cells chunk_granules [OF ch] by blast
  then show ?thesis using both by blast
qed

lemma revoked_part_abs: "revoked_part n c off csz w \<Longrightarrow> ok w' \<Longrightarrow> abs w' = abs w \<Longrightarrow> revoked_part n c off csz w'"
  by (simp add: revoked_part_def)

lemma kept_run:
  assumes "is_block pl n c" "i < n" "i < off \<or> off + csz \<le> i" "revoked_part n c off csz (p_world s)"
  shows "\<exists>w. comes_back (check_kept pl rv c msg i) s () w \<and> revoked_part n c off csz w"
proof -
  note r = assms(4) [unfolded revoked_part_def]
  obtain w where w: "comes_back (load_cap (rv_kernel rv) (elem pl c i)) s (rs_cell (abs (p_world s)) (granule c i)) w" "ok w" "abs w = abs (p_world s)"
    using load_run [OF assms(1,2), of s] r by blast
  have "rs_cell (abs (p_world s)) (granule c i) = self_of pl c i" using r assms(2,3) by auto
  then have "comes_back (check_kept pl rv c msg i) s () w"
    using w(1) self_of_alive [OF assms(1)] by (simp add: check_kept_def comes_back_def bindP_def CHERIOSTEST_VERIFY2_def ret_def)
  then show ?thesis using revoked_part_abs [OF assms(4) w(2,3)] by blast
qed

text \<open>The check of the chunk itself finds exactly the capabilities that were overlooked.\<close>

lemma gone_run:
  assumes ch: "chunk_of n c off csz" and i: "i < csz" and r: "revoked_part n c off csz (p_world s)"
  shows "if granule c (off + i) \<in> missed then p_ccsp s \<noteq> None \<longrightarrow> declares_failure (check_gone pl rv (chunk_at pl c off csz) i) s
    else \<exists>w. comes_back (check_gone pl rv (chunk_at pl c off csz) i) s () w \<and> revoked_part n c off csz w"
proof -
  let ?k = "chunk_at pl c off csz" and ?c = "rs_cell (abs (p_world s)) (granule c (off + i))"
  note r' = r [unfolded revoked_part_def]
  have m: "granules ?k \<subseteq> rs_mapped (abs (p_world s))" using r' chunk_granules(2) [OF ch] by blast
  obtain w where w: "comes_back (load_cap (rv_kernel rv) (elem pl ?k i)) s ?c w" "ok w" "abs w = abs (p_world s)"
    using load_run [OF chunk_of_block(2) [OF ch] i _ m] r' chunk_of_block(3) [OF ch] by auto
  obtain w2 where w2: "comes_back (load_cap (rv_kernel rv) (elem pl ?k i)) (s\<lparr>p_world := w\<rparr>) ?c w2"
    using load_run [OF chunk_of_block(2) [OF ch] i, of "s\<lparr>p_world := w\<rparr>"] w(2,3) m chunk_of_block(3) [OF ch] by auto
  have cell: "if granule c (off + i) \<in> missed then ?c = self_of pl c (off + i) else check_revoked ?c"
    using r' i chunk_of_block(6) [OF ch] by (auto split: if_splits)
  show ?thesis
  proof (cases "granule c (off + i) \<in> missed")
    case True
    then have "\<not> check_revoked ?c" using cell self_of_alive [OF chunk_of_block(1) [OF ch]] by simp
    then have "p_ccsp s \<noteq> None \<longrightarrow> declares_failure (check_gone pl rv ?k i) s"
      using w(1) w2 by (auto simp: check_gone_def comes_back_def bindP_def notice_def declares_failure_def cheriostest_failure_errx_def
          vcheriostest_failure_errx_def print_stderr_def split: option.splits)
    then show ?thesis using True by simp
  next
    case False
    then have "comes_back (check_gone pl rv ?k i) s () w"
      using w(1) cell by (simp add: check_gone_def comes_back_def bindP_def ret_def)
    then show ?thesis using revoked_part_abs [OF r w(2,3)] False by auto
  qed
qed

definition overlooked :: "cap \<Rightarrow> nat \<Rightarrow> nat \<Rightarrow> bool" where
  "overlooked c m n \<longleftrightarrow> (\<exists>i. m \<le> i \<and> i < n \<and> granule c i \<in> missed)"

text \<open>A chunk as a whole: the surroundings are checked, then the chunk.\<close>

lemma revoke_chunk_run:
  assumes ch: "chunk_of n c off csz" and w: "intact n c (p_world s)" and cc: "p_ccsp s \<noteq> None"
  shows "if overlooked c off (off + csz)
    then declares_failure (revoke_chunk pl rv paranoia mode n c shadow off csz (chunk_at pl c off csz)) s
    else \<exists>w. comes_back (revoke_chunk pl rv paranoia mode n c shadow off csz (chunk_at pl c off csz)) s () w \<and> revoked_part n c off csz w"
proof -
  let ?k = "chunk_at pl c off csz"
  let ?flags = "[CHERI_REVOKE_IGNORE_START, CHERI_REVOKE_TAKE_STATS] @ only_if (mode = TCLR_MODE_LOAD_ONCE) [CHERI_REVOKE_LAST_PASS]"
  let ?mark = "block [bindP (observe (caprev_shadow_nomap_set rv (rv_base_mem_nomap rv) shadow ?k ?k)) (\<lambda>r.
      CHERIOSTEST_VERIFY2 pl (r = 0) ''Shadow update collision'' []), revoke_pass pl rv ?flags]"
  let ?below = "block (map (check_kept pl rv c ''Revoked cap incorrectly below object, at ix=%zd'') [0..<off])"
  let ?above = "block (map (check_kept pl rv c ''Revoked cap incorrectly above object, at ix=%zd'') [off + csz..<n])"
  let ?gone = "block (map (check_gone pl rv ?k) [0..<csz])"
  have eq: "revoke_chunk pl rv paranoia mode n c shadow off csz ?k = bindP ?mark (\<lambda>_. bindP ?below (\<lambda>_. bindP ?above (\<lambda>_. ?gone)))"
    by (simp add: revoke_chunk_def quiet paranoia_def block_append bindP_assoc Let_def)
  have "CHERI_REVOKE_IGNORE_START \<in> set ?flags" "CHERI_REVOKE_ASYNC \<notin> set ?flags" by (simp_all add: only_if_def)
  then obtain w1 where w1: "comes_back ?mark s () w1" "revoked_part n c off csz w1" using mark_and_pass [OF ch w] by blast
  note bl = chunk_of_block(1) [OF ch] and le = chunk_of_block(6) [OF ch]
  obtain w2 where w2: "comes_back ?below (s\<lparr>p_world := w1\<rparr>) () w2" "revoked_part n c off csz w2"
    using comes_back_same [of 0 off "revoked_part n c off csz" "check_kept pl rv c ''Revoked cap incorrectly below object, at ix=%zd''" "s\<lparr>p_world := w1\<rparr>"]
      kept_run [OF bl] le w1(2) by fastforce
  obtain w3 where w3: "comes_back ?above (s\<lparr>p_world := w2\<rparr>) () w3" "revoked_part n c off csz w3"
    using comes_back_same [of "off + csz" n "revoked_part n c off csz" "check_kept pl rv c ''Revoked cap incorrectly above object, at ix=%zd''" "s\<lparr>p_world := w2\<rparr>"]
      kept_run [OF bl] le w2(2) by fastforce
  have run: "revoke_chunk pl rv paranoia mode n c shadow off csz ?k s = ?gone (s\<lparr>p_world := w3\<rparr>)"
    unfolding eq comes_back_bind [OF w1(1)] comes_back_bind [OF w2(1)] by (simp add: comes_back_bind [OF w2(1)] comes_back_bind [OF w3(1)] del: block.simps)
  show ?thesis
  proof (cases "overlooked c off (off + csz)")
    case True
    then obtain b where b: "b < csz" "granule c (off + b) \<in> missed"
      unfolding overlooked_def by (metis le_Suc_ex nat_add_left_cancel_less)
    have "declares_failure ?gone (s\<lparr>p_world := w3\<rparr>)"
      using failure_upt [of 0 csz "revoked_part n c off csz" "\<lambda>i. granule c (off + i) \<in> missed" "check_gone pl rv ?k" b "s\<lparr>p_world := w3\<rparr>"]
        gone_run [OF ch] b w3(2) cc by simp
    then show ?thesis using True run by (simp add: declares_failure_def del: block.simps)
  next
    case False
    then have ok: "granule c (off + i) \<notin> missed" if "i < csz" for i using that by (auto simp: overlooked_def)
    have "\<exists>w. comes_back ?gone (s\<lparr>p_world := w3\<rparr>) () w \<and> revoked_part n c off csz w"
      using comes_back_same [of 0 csz "revoked_part n c off csz" "check_gone pl rv ?k" "s\<lparr>p_world := w3\<rparr>"] gone_run [OF ch] ok w3(2) by simp
    then show ?thesis using False run by (auto simp add: comes_back_def simp del: block.simps)
  qed
qed

lemma revoked_part_swept:
  assumes ch: "chunk_of n c off csz" and r: "revoked_part n c off csz w" and sw: "swept pl missed (abs w) (abs w')" "ok w'"
  shows "revoked_part n c off csz w'"
proof -
  note r = r [unfolded revoked_part_def] and sw' = sw(1) [unfolded swept_def]
  have "if off \<le> i \<and> i < off + csz \<and> granule c i \<notin> missed then check_revoked (rs_cell (abs w') (granule c i))
      else rs_cell (abs w') (granule c i) = self_of pl c i" if i: "i < n" for i
  proof -
    have g: "granule c i \<in> granules c" using granules_block [OF chunk_of_block(1) [OF ch]] i by blast
    then have m: "granule c i \<in> rs_mapped (abs w)" using r by blast
    show ?thesis
    proof (cases "off \<le> i \<and> i < off + csz \<and> granule c i \<notin> missed")
      case True
      then have "check_revoked (rs_cell (abs w) (granule c i))" using r i by auto
      then show ?thesis using True sw' m by (metis (full_types))
    next
      case False
      then have cell: "rs_cell (abs w) (granule c i) = self_of pl c i" using r i by auto
      have "granule c i \<in> rs_painted (abs w) \<longleftrightarrow> off \<le> i \<and> i < off + csz"
        using r g granule_in_chunk [OF ch i] by blast
      then have "\<not> condemned pl (rs_painted (abs w) - missed) (rs_cell (abs w) (granule c i))"
        using False cell self_of_condemned [OF chunk_of_block(1) [OF ch]] by auto
      then show ?thesis using False sw' m cell by auto
    qed
  qed
  then show ?thesis using r sw' sw(2) unfolding revoked_part_def by simp
qed

text \<open>Putting the chunk back makes the block intact again, whatever was overlooked.\<close>

lemma restore_run:
  assumes ch: "chunk_of n c off csz" and r: "revoked_part n c off csz (p_world s)"
  shows "\<exists>w. comes_back (restore_chunk pl rv mode shadow csz (chunk_at pl c off csz)) s () w \<and> intact n c w"
proof -
  let ?k = "chunk_at pl c off csz" and ?pass = "block (only_if (mode = TCLR_MODE_LOAD_SPLIT \<or> mode = TCLR_MODE_LOAD_SPLIT_FINI) [revoke_pass pl rv full_pass])"
  obtain w1 where w1: "comes_back ?pass s () w1" "revoked_part n c off csz w1"
  proof (cases "mode = TCLR_MODE_LOAD_SPLIT \<or> mode = TCLR_MODE_LOAD_SPLIT_FINI")
    case True
    obtain w where w: "comes_back (revoke_pass pl rv full_pass) s () w" "ok w" "swept pl missed (abs (p_world s)) (abs w)"
      using pass_run [of s full_pass] r by (auto simp: full_pass_def revoked_part_def)
    then show thesis using that [of w] True comes_back_block_Cons [OF w(1) comes_back_block_Nil] revoked_part_swept [OF ch r w(3,2)]
      by (simp del: block.simps)
  next
    case False
    then show thesis using that [of "p_world s"] r comes_back_block_Nil [of s] by (simp del: block.simps)
  qed
  note r1 = w1(2) [unfolded revoked_part_def]
  let ?w2 = "caprev_shadow_nomap_clear rv (rv_base_mem_nomap rv) shadow ?k w1"
  have "granules ?k \<subseteq> rs_painted (abs w1)" using r1 chunk_granules(1) [OF ch] by blast
  then have w2: "ok ?w2" "abs ?w2 = (abs w1)\<lparr>rs_painted := rs_painted (abs w1) - granules ?k\<rparr>"
    using clear_law [OF conjunct1 [OF r1] chunk_of_block(5) [OF ch]] by auto
  have "granules ?k \<subseteq> rs_mapped (abs ?w2)" using r1 w2(2) chunk_granules(2) [OF ch] by auto
  then obtain w3 where w3: "comes_back (fill_self pl rv ?k csz) (s\<lparr>p_world := ?w2\<rparr>) () w3" "ok w3" "rs_mapped (abs w3) = rs_mapped (abs w1)"
    "rs_painted (abs w3) = rs_painted (abs w1) - granules ?k" "\<And>i. i < csz \<Longrightarrow> rs_cell (abs w3) (granule c (off + i)) = self_of pl c (off + i)"
    "\<And>g. g \<notin> granules ?k \<Longrightarrow> rs_cell (abs w3) g = rs_cell (abs w1) g"
    using fill_run [OF chunk_of_block(2) [OF ch], of "s\<lparr>p_world := ?w2\<rparr>"] w2 chunk_of_block(3,4) [OF ch] by auto
  have "rs_cell (abs w3) (granule c i) = self_of pl c i" if i: "i < n" for i
  proof (cases "off \<le> i \<and> i < off + csz")
    case True
    then show ?thesis using w3(5) [of "i - off"] by auto
  next
    case False
    then show ?thesis using w3(6) [of "granule c i"] chunk_granules(1) [OF ch] granule_in_chunk [OF ch i] r1 i by auto
  qed
  then have "intact n c w3" using r1 w3 chunk_granules(1) [OF ch] unfolding intact_def by blast
  moreover have "comes_back (restore_chunk pl rv mode shadow csz ?k) s () w3"
    unfolding restore_chunk_def
    using comes_back_append [OF w1(1) comes_back_block_Cons [OF comes_back_upd comes_back_block_Cons [OF _ comes_back_block_Nil]]] w3(1)
    by (simp del: block.simps)
  ultimately show ?thesis by blast
qed

text \<open>
  The loop in the modes that take chunks at random: it comes back with the block intact, or the test fails at the chunk with the
  first capability that is overlooked.
\<close>

lemma lib_run_from_run:
  assumes c: "is_block pl n c" and mode: "mode = TCLR_MODE_LOAD_ONCE \<or> mode = TCLR_MODE_LOAD_SPLIT"
  shows "intact n c (p_world s) \<Longrightarrow> p_ccsp s \<noteq> None \<Longrightarrow> off \<le> n \<Longrightarrow>
    if overlooked c off n then declares_failure (lib_run_from pl rv paranoia mode n c shadow off) s
    else \<exists>w. comes_back (lib_run_from pl rv paranoia mode n c shadow off) s () w \<and> intact n c w"
proof (induction "n - off" arbitrary: off s rule: less_induct)
  case less
  show ?case
  proof (cases "off < n")
    case False
    then have "off = n" using less.prems by simp
    then show ?thesis using less.prems(1) comes_back_ret [of "()" s] by (auto simp: overlooked_def lib_run_from.simps)
  next
    case True
    note w = less.prems(1) [unfolded intact_def]
    obtain r w1 where r: "rv_rand rv (p_world s) = (r, w1)" "ok w1" "abs w1 = abs (p_world s)" "r mod 1024 \<noteq> 1023"
      using rand_law w by blast
    define csz where "csz = chunk_caps mode (n - off) r"
    let ?k = "chunk_at pl c off csz" and ?s1 = "s\<lparr>p_world := w1\<rparr>"
    have nw: "\<not> whole_block mode" using mode by (auto simp: whole_block_def)
    have lt: "r mod 1024 < 1023" using r(4) mod_less_divisor [of 1024 r] by linarith
    have ch: "chunk_of n c off csz"
      using c True nw lt by (auto simp: chunk_of_def csz_def chunk_caps_def)
    have i1: "intact n c (p_world ?s1)" "p_ccsp ?s1 \<noteq> None" using w r(2,3) less.prems(2) by (simp_all add: intact_def)
    let ?rest = "\<lambda>_. bindP (restore_chunk pl rv mode shadow csz ?k) (\<lambda>_. lib_run_from pl rv paranoia mode n c shadow (off + csz))"
    have run: "lib_run_from pl rv paranoia mode n c shadow off s =
        bindP (revoke_chunk pl rv paranoia mode n c shadow off csz ?k) ?rest ?s1"
      using mode by (subst lib_run_from.simps)
        (auto simp: True nw quiet Let_def csz_def comes_back_bind [OF comes_back_observe [of "rv_rand rv" s, OF r(1)]])
    have split: "overlooked c off n \<longleftrightarrow> overlooked c off (off + csz) \<or> overlooked c (off + csz) n"
      using chunk_of_block(6) [OF ch] unfolding overlooked_def by (meson le_add1 le_trans not_le order_less_le_trans)
    note chunk = revoke_chunk_run [OF ch i1, of mode shadow]
    show ?thesis
    proof (cases "overlooked c off (off + csz)")
      case True
      then have "declares_failure (lib_run_from pl rv paranoia mode n c shadow off) s"
        using chunk failure_bind run by (simp add: declares_failure_def)
      then show ?thesis using True split by simp
    next
      case False
      then obtain w2 where w2: "comes_back (revoke_chunk pl rv paranoia mode n c shadow off csz ?k) ?s1 () w2" "revoked_part n c off csz w2"
        using chunk by auto
      let ?s2 = "s\<lparr>p_world := w2\<rparr>"
      obtain w3 where w3: "comes_back (restore_chunk pl rv mode shadow csz ?k) ?s2 () w3" "intact n c w3"
        using restore_run [OF ch, of ?s2] w2(2) by auto
      have run3: "lib_run_from pl rv paranoia mode n c shadow off s = lib_run_from pl rv paranoia mode n c shadow (off + csz) (s\<lparr>p_world := w3\<rparr>)"
        using comes_back_bind [OF w2(1)] by (simp add: run comes_back_bind [OF w2(1)] comes_back_bind [OF w3(1)])
      have "off + csz \<le> n" "n - (off + csz) < n - off" using ch by (auto simp: chunk_of_def)
      then show ?thesis
        using less.hyps [of "off + csz" "s\<lparr>p_world := w3\<rparr>"] w3(2) less.prems(2) run3 split False
        by (simp add: declares_failure_def comes_back_def split: if_splits)
    qed
  qed
qed

lemma lib_init_run:
  assumes "ok (p_world s)" "n \<le> bigblock_caps"
  obtains c sh w w0 where "comes_back (cheriostest_cheri_revoke_lib_init pl rv n) s (c, sh) w" "is_block pl n c" "intact n c w"
    "rs_enqueue (abs w) = rs_enqueue (abs (p_world s))" "rs_dequeue (abs w) = rs_dequeue (abs (p_world s))"
    "mmap_call (rv_resv rv) (cap_null pl) (n * 16) [PROT_READ, PROT_WRITE] [MAP_ANON] (- 1) (p_world s) = (Inr c, w0)"
proof -
  obtain c w1 where m: "mmap_call (rv_resv rv) (cap_null pl) (n * 16) [PROT_READ, PROT_WRITE] [MAP_ANON] (- 1) (p_world s) = (Inr c, w1)"
    "ok w1" "is_block pl n c" "granules c \<subseteq> rs_mapped (abs w1)" "granules c \<inter> rs_painted (abs w1) = {}"
    "rs_enqueue (abs w1) = rs_enqueue (abs (p_world s))" "rs_dequeue (abs w1) = rs_dequeue (abs (p_world s))" using mmap_law [OF assms] by blast
  obtain w2 where f: "comes_back (fill_self pl rv c n) (s\<lparr>p_world := w1\<rparr>) () w2" "ok w2" "rs_mapped (abs w2) = rs_mapped (abs w1)"
    "rs_painted (abs w2) = rs_painted (abs w1)" "\<And>i. i < n \<Longrightarrow> rs_cell (abs w2) (granule c i) = self_of pl c i"
    "rs_enqueue (abs w2) = rs_enqueue (abs w1)" "rs_dequeue (abs w2) = rs_dequeue (abs w1)"
    using fill_run [OF m(3), of "s\<lparr>p_world := w1\<rparr>"] m(2,4) by auto
  obtain sh w3 where g: "rv_get_shadow rv CHERI_REVOKE_SHADOW_NOVMEM c w2 = (Inr sh, w3)" "ok w3" "abs w3 = abs w2"
    using get_shadow_law [OF f(2)] by blast
  obtain sh' w4 where h: "rv_get_shadow rv CHERI_REVOKE_SHADOW_INFO_STRUCT (cap_null pl) w3 = (Inr sh', w4)" "ok w4" "abs w4 = abs w3"
    using get_shadow_law [OF g(2)] by blast
  have "comes_back (cheriostest_cheri_revoke_lib_init pl rv n) s (c, sh) w4"
    using m(1) f(1) g(1) h(1)
    by (simp add: cheriostest_cheri_revoke_lib_init_def anon_page_def checked_mmap_def get_shadow_def comes_back_def bindP_def
        CHERIOSTEST_CHECK_SYSCALL_def ret_def)
  moreover have "intact n c w4" using m(3-5) f h(2,3) g(3) by (simp add: intact_def)
  moreover have "rs_enqueue (abs w4) = rs_enqueue (abs (p_world s))" "rs_dequeue (abs w4) = rs_dequeue (abs (p_world s))"
    using m(6,7) f(6,7) g(3) h(3) by simp_all
  ultimately show thesis using that m(1,3) by blast
qed

text \<open>Where the block will be.\<close>

definition placed :: "'k \<Rightarrow> cap \<Rightarrow> bool" where
  "placed w c \<longleftrightarrow> (\<exists>w'. mmap_call (rv_resv rv) (cap_null pl) (bigblock_caps * 16) [PROT_READ, PROT_WRITE] [MAP_ANON] (- 1) (rv_srand rv 1337 w) = (Inr c, w'))"

lemma seeded_init_run:
  assumes "ok (p_world s)" "placed (p_world s) c"
  obtains sh w where "comes_back (seeded_init pl rv) s (c, sh) w" "is_block pl bigblock_caps c" "intact bigblock_caps c w"
    "rs_enqueue (abs w) = rs_enqueue (abs (p_world s))" "rs_dequeue (abs w) = rs_dequeue (abs (p_world s))"
proof -
  let ?s = "s\<lparr>p_world := rv_srand rv 1337 (p_world s)\<rparr>"
  have "ok (p_world ?s)" using srand_law [OF assms(1)] by simp
  then obtain c' sh w w0 where i: "comes_back (cheriostest_cheri_revoke_lib_init pl rv bigblock_caps) ?s (c', sh) w" "is_block pl bigblock_caps c'"
    "intact bigblock_caps c' w" "rs_enqueue (abs w) = rs_enqueue (abs (p_world ?s))" "rs_dequeue (abs w) = rs_dequeue (abs (p_world ?s))"
    "mmap_call (rv_resv rv) (cap_null pl) (bigblock_caps * 16) [PROT_READ, PROT_WRITE] [MAP_ANON] (- 1) (p_world ?s) = (Inr c', w0)"
    using lib_init_run [OF _ order.refl, of ?s] by blast
  have "c' = c" using i(6) assms(2) by (auto simp: placed_def)
  then show thesis using that [of sh w] i srand_law [OF assms(1)]
    by (simp add: seeded_init_def comes_back_def bindP_def upd_world_def)
qed

lemma run_mode_run:
  assumes "is_block pl bigblock_caps c" "mode = TCLR_MODE_LOAD_ONCE \<or> mode = TCLR_MODE_LOAD_SPLIT" "intact bigblock_caps c (p_world s)" "p_ccsp s \<noteq> None"
  shows "if overlooked c 0 bigblock_caps then declares_failure (run_mode pl rv mode c shadow) s
    else \<exists>w. comes_back (run_mode pl rv mode c shadow) s () w \<and> intact bigblock_caps c w"
  using lib_run_from_run [OF assms, of 0 shadow] by (simp add: run_mode_def cheriostest_cheri_revoke_lib_run_def quiet)

lemma whole_chunk: "is_block pl bigblock_caps c \<Longrightarrow> chunk_of bigblock_caps c 0 bigblock_caps"
  by (simp add: chunk_of_def bigblock_caps_def)

text \<open>The two halves that a fork may come between: opening the epoch, and closing it.\<close>

lemma run_init_run:
  assumes c: "is_block pl bigblock_caps c" "intact bigblock_caps c (p_world s)" "p_ccsp s \<noteq> None"
  shows "if overlooked c 0 bigblock_caps then declares_failure (run_mode pl rv TCLR_MODE_LOAD_SPLIT_INIT c shadow) s
    else \<exists>w. comes_back (run_mode pl rv TCLR_MODE_LOAD_SPLIT_INIT c shadow) s () w \<and> revoked_part bigblock_caps c 0 bigblock_caps w"
proof -
  have "run_mode pl rv TCLR_MODE_LOAD_SPLIT_INIT c shadow =
      revoke_chunk pl rv paranoia TCLR_MODE_LOAD_SPLIT_INIT bigblock_caps c shadow 0 bigblock_caps (chunk_at pl c 0 bigblock_caps)"
    by (simp add: run_mode_def cheriostest_cheri_revoke_lib_run_def quiet lib_run_from.simps whole_block_def chunk_caps_def bigblock_caps_def)
  then show ?thesis using revoke_chunk_run [OF whole_chunk [OF c(1)] c(2,3)] by simp
qed

lemma run_fini_run:
  assumes c: "is_block pl bigblock_caps c" "revoked_part bigblock_caps c 0 bigblock_caps (p_world s)"
  shows "\<exists>w. comes_back (run_mode pl rv TCLR_MODE_LOAD_SPLIT_FINI c shadow) s () w \<and> intact bigblock_caps c w"
proof -
  have "run_mode pl rv TCLR_MODE_LOAD_SPLIT_FINI c shadow = restore_chunk pl rv TCLR_MODE_LOAD_SPLIT_FINI shadow bigblock_caps (chunk_at pl c 0 bigblock_caps)"
    by (simp add: run_mode_def cheriostest_cheri_revoke_lib_run_def quiet lib_run_from.simps [of _ _ _ _ _ _ _ 0] lib_run_from.simps [of _ _ _ _ 4096 _ _ 4096]
       whole_block_def chunk_caps_def bigblock_caps_def)
  then show ?thesis using restore_run [OF whole_chunk [OF c(1)] c(2)] by simp
qed

section \<open>Verdicts\<close>

lemma unmap_success: "p_ccsp s \<noteq> None \<Longrightarrow> declares_success (block [unmap_block rv c, cheriostest_success]) s"
  by (auto simp: unmap_block_def bindP_def raw_call_def ret_def declares_success_def cheriostest_success_def split: prod.splits sum.splits)

text \<open>A sequence of runs, each of which keeps the block intact or fails when something is overlooked.\<close>

lemma runs_verdict:
  assumes "\<And>p s. p \<in> set ps \<Longrightarrow> I (p_world s) \<Longrightarrow> p_ccsp s \<noteq> None \<Longrightarrow> if bad then declares_failure p s else \<exists>w. comes_back p s () w \<and> I w"
    and "ps \<noteq> []" "I (p_world s)" "p_ccsp s \<noteq> None" "\<And>w. I w \<Longrightarrow> declares_success (block rest) (s\<lparr>p_world := w\<rparr>)"
  shows "if bad then declares_failure (block (ps @ rest)) s else declares_success (block (ps @ rest)) s"
  using assms(2-5,1)
proof (induction ps arbitrary: s)
  case Nil
  then show ?case by simp
next
  case (Cons p ps)
  note p = Cons.prems(5) [of p s, OF _ Cons.prems(2,3)]
  show ?case
  proof (cases bad)
    case True
    then show ?thesis using p by (auto intro: failure_bind)
  next
    case False
    then obtain w where w: "comes_back p s () w" "I w" using p by auto
    have "declares_success (block (ps @ rest)) (s\<lparr>p_world := w\<rparr>)"
    proof (cases "ps = []")
      case True
      then show ?thesis using Cons.prems(4) w(2) by simp
    next
      case ne: False
      then show ?thesis using Cons.IH [OF ne, of "s\<lparr>p_world := w\<rparr>"] w(2) Cons.prems(3,4,5) False by simp
    qed
    then show ?thesis using False success_after [OF w(1)] by simp
  qed
qed

lemma lib_verdict:
  assumes os: "pl_os pl = CheriBSD" and w: "ok (p_world s)" and cc: "p_ccsp s \<noteq> None" and pc: "placed (p_world s) c"
  shows "if overlooked c 0 bigblock_caps then declares_failure (cheri_revoke_lib pl rv) s else declares_success (cheri_revoke_lib pl rv) s"
proof -
  obtain sh w1 where i: "comes_back (seeded_init pl rv) s (c, sh) w1" "is_block pl bigblock_caps c" "intact bigblock_caps c w1"
    using seeded_init_run [OF w pc] by metis
  let ?runs = "[run_mode pl rv TCLR_MODE_LOAD_ONCE c sh, run_mode pl rv TCLR_MODE_LOAD_SPLIT c sh]"
  have run: "cheri_revoke_lib pl rv s = block (?runs @ [unmap_block rv c, cheriostest_success]) (s\<lparr>p_world := w1\<rparr>)"
    by (simp add: cheri_revoke_lib_def on_CheriBSD_def os comes_back_bind [OF i(1)] show_blocks_def quiet)
  have "if overlooked c 0 bigblock_caps then declares_failure (block (?runs @ [unmap_block rv c, cheriostest_success])) (s\<lparr>p_world := w1\<rparr>)
      else declares_success (block (?runs @ [unmap_block rv c, cheriostest_success])) (s\<lparr>p_world := w1\<rparr>)"
    by (rule runs_verdict [where I = "intact bigblock_caps c"]) (use run_mode_run [OF i(2)] i(3) cc unmap_success in \<open>auto simp del: block.simps\<close>)
  then show ?thesis unfolding declares_failure_def declares_success_def run .
qed

text \<open>
  Revocation opened before a fork: in the child the epoch is closed and the test succeeds; the parent declares what the child's
  exit status says.
\<close>

lemma fork_split_verdict:
  assumes os: "pl_os pl = CheriBSD" and w: "ok (p_world s)" and cc: "p_ccsp s \<noteq> None" and pc: "placed (p_world s) c"
    and pid: "\<And>w. fst (rv_fork rv w) = Inr pid"
  shows "if overlooked c 0 bigblock_caps \<or> pid < 0 \<or> pid > 0 \<and> ae_waitpid (rv_abi rv) pid \<noteq> 0
    then declares_failure (cheri_revoke_lib_fork_split pl rv) s else declares_success (cheri_revoke_lib_fork_split pl rv) s"
proof -
  obtain sh w1 where i: "comes_back (seeded_init pl rv) s (c, sh) w1" "is_block pl bigblock_caps c" "intact bigblock_caps c w1"
    using seeded_init_run [OF w pc] by metis
  have run: "cheri_revoke_lib_fork_split pl rv s = block [run_mode pl rv TCLR_MODE_LOAD_SPLIT_INIT c sh,
      forked pl rv c [run_mode pl rv TCLR_MODE_LOAD_SPLIT_FINI c sh]] (s\<lparr>p_world := w1\<rparr>)"
    by (simp add: cheri_revoke_lib_fork_split_def on_CheriBSD_def os comes_back_bind [OF i(1)] show_blocks_def quiet)
  note init = run_init_run [OF i(2), of "s\<lparr>p_world := w1\<rparr>" sh]
  show ?thesis
  proof (cases "overlooked c 0 bigblock_caps")
    case True
    then show ?thesis using init i(3) cc failure_bind by (auto simp: declares_failure_def run)
  next
    case False
    then obtain w2 where w2: "comes_back (run_mode pl rv TCLR_MODE_LOAD_SPLIT_INIT c sh) (s\<lparr>p_world := w1\<rparr>) () w2"
      "revoked_part bigblock_caps c 0 bigblock_caps w2" using init i(3) cc by auto
    obtain w3 where w3: "rv_fork rv w2 = (Inr pid, w3)" "ok w3" "abs w3 = abs w2"
      using fork_law [of w2] w2(2) pid [of w2] by (auto simp: revoked_part_def)
    let ?s3 = "s\<lparr>p_world := w3\<rparr>"
    have fork: "rv_fork rv (p_world (s\<lparr>p_world := w2\<rparr>)) = (Inr pid, w3)" using w3(1) by simp
    have run3: "cheri_revoke_lib_fork_split pl rv s = block ((if pid = 0 then [run_mode pl rv TCLR_MODE_LOAD_SPLIT_FINI c sh]
       else [CHERIOSTEST_VERIFY2 pl (pid > 0) ''fork failed'' [],
             (if ae_waitpid (rv_abi rv) pid = 0 then cheriostest_success else cheriostest_failure_errx pl ''Bad child process exit'' [])]) @
      [unmap_block rv c, cheriostest_success]) ?s3"
      unfolding run block_pair comes_back_bind [OF w2(1)] forked_def
      by (simp add: comes_back_bind [OF comes_back_raw [of "rv_fork rv", OF fork]] Let_def del: block.simps)
    show ?thesis
    proof (cases "pid = 0")
      case True
      obtain w4 where w4: "comes_back (run_mode pl rv TCLR_MODE_LOAD_SPLIT_FINI c sh) ?s3 () w4"
        using run_fini_run [OF i(2), of ?s3] revoked_part_abs [OF w2(2) w3(2,3)] by auto
      have "declares_success (block [unmap_block rv c, cheriostest_success]) (s\<lparr>p_world := w4\<rparr>)" using unmap_success cc by simp
      then have "declares_success (cheri_revoke_lib_fork_split pl rv) s"
        using True run3 comes_back_bind [OF w4] by (simp add: declares_success_def comes_back_bind [OF w4])
      then show ?thesis using True False by simp
    next
      case ne: False
      then show ?thesis
        using run3 cc False declares_failure_errx [of pl _ _ ?s3] declares_success_success [of ?s3]
        by (auto simp: declares_success_def declares_failure_def prog_simps split: if_splits)
    qed
  qed
qed

text \<open>A child with an image of its own: it exits with 0 when its epochs start at zero and nothing is overlooked.\<close>

lemma child_common_verdict:
  assumes w: "ok (p_world s)" and cc: "p_ccsp s \<noteq> None" and pc: "placed (p_world s) c" and mode: "mode = TCLR_MODE_LOAD_ONCE \<or> mode = TCLR_MODE_LOAD_SPLIT"
  shows "fst (cheri_revoke_lib_child_common pl rv mode s) =
    Exited (if overlooked c 0 bigblock_caps \<or> rs_enqueue (abs (p_world s)) \<noteq> 0 \<or> rs_dequeue (abs (p_world s)) \<noteq> 0 then EX_SOFTWARE else 0)"
proof -
  obtain sh w1 where i: "comes_back (seeded_init pl rv) s (c, sh) w1" "is_block pl bigblock_caps c" "intact bigblock_caps c w1"
    "rs_enqueue (abs w1) = rs_enqueue (abs (p_world s))" "rs_dequeue (abs w1) = rs_dequeue (abs (p_world s))"
    by (rule seeded_init_run [OF w pc])
  obtain e2 w2 where w2: "comes_back (read_cri rv) (s\<lparr>p_world := w1\<rparr>) e2 w2" "ok w2" "abs w2 = abs w1" "ep_enqueue e2 = rs_enqueue (abs w2)"
    using read_cri_run [of "s\<lparr>p_world := w1\<rparr>"] i(3) by (auto simp: intact_def)
  obtain e3 w3 where w3: "comes_back (read_cri rv) (s\<lparr>p_world := w2\<rparr>) e3 w3" "ok w3" "abs w3 = abs w2" "ep_dequeue e3 = rs_dequeue (abs w3)"
    using read_cri_run [of "s\<lparr>p_world := w2\<rparr>"] w2(2) by auto
  have i3: "intact bigblock_caps c w3" using i(3) w2(3) w3(2,3) by (simp add: intact_def)
  have run: "cheri_revoke_lib_child_common pl rv mode s =
      (if rs_enqueue (abs (p_world s)) \<noteq> 0
       then cheriostest_failure_errx pl ''%s'' [FStr ([CHR 0x27] @ ''cri->epochs.enqueue == 0'' @ [CHR 0x27] @ '' is FALSE!'')] (s\<lparr>p_world := w2\<rparr>)
       else if rs_dequeue (abs (p_world s)) \<noteq> 0
       then cheriostest_failure_errx pl ''%s'' [FStr ([CHR 0x27] @ ''cri->epochs.dequeue == 0'' @ [CHR 0x27] @ '' is FALSE!'')] (s\<lparr>p_world := w3\<rparr>)
       else block [run_mode pl rv mode c sh, unmap_block rv c, leave 0] (s\<lparr>p_world := w3\<rparr>))"
    using w2(1,3,4) w3(1,3,4) i(4,5)
    by (simp add: cheri_revoke_lib_child_common_def comes_back_bind [OF i(1)] bindP_assoc comes_back_bind [OF w2(1)] comes_back_bind [OF w3(1)] prog_simps
        show_blocks_def quiet)
  show ?thesis
  proof (cases "rs_enqueue (abs (p_world s)) = 0 \<and> rs_dequeue (abs (p_world s)) = 0")
    case False
    then show ?thesis by (auto simp: run cheriostest_failure_errx_def)
  next
    case True
    note r = run_mode_run [OF i(2) mode, of "s\<lparr>p_world := w3\<rparr>" sh]
    show ?thesis
    proof (cases "overlooked c 0 bigblock_caps")
      case ov: True
      then have "declares_failure (block [run_mode pl rv mode c sh, unmap_block rv c, leave 0]) (s\<lparr>p_world := w3\<rparr>)"
        using r i3 cc by (auto intro: failure_bind)
      then show ?thesis using True ov by (simp add: run declares_failure_def)
    next
      case ov: False
      then obtain w4 where "comes_back (run_mode pl rv mode c sh) (s\<lparr>p_world := w3\<rparr>) () w4" using r i3 cc by auto
      note w4 = comes_back_bind [OF this]
      show ?thesis using True ov
        by (simp add: run w4) (simp add: unmap_block_def bindP_def raw_call_def ret_def leave_def split: prod.splits sum.splits)
    qed
  qed
qed

end

end
