(* ===== verification/Revoke_Async.thy ===== *)
theory Revoke_Async
  imports Revoke_Proofs Cheriabi_Proofs
begin

text \<open>
  Asynchronous revocation: the test waits in a loop for the epoch to pass. Under a revoker that gets on with every call the loop ends
  and the verdict is exact; under one that is stuck it runs for ever. Then the model of a revoker that the contracts are
  interpreted on, and the properties.
\<close>

section \<open>The contract\<close>

text \<open>
  \<open>work\<close> bounds the calls that are still needed to finish an open epoch. The clocks move in calls only: the first call opens the
  epoch, the last one closes it after the sweep.
\<close>

locale async_revoker = revoker +
  fixes work :: "'a \<Rightarrow> nat"
  assumes page_law: "\<exists>n. PAGE_SIZE (rv_resv rv) = n * 16 \<and> 2 \<le> n \<and> n \<le> bigblock_caps"
    and shadow_byte_law: "is_block pl n c \<Longrightarrow> 2 \<le> n \<Longrightarrow> rv_get_shadow rv CHERI_REVOKE_SHADOW_NOVMEM c w0 = (Inr sh, w1) \<Longrightarrow> ok w \<Longrightarrow>
      \<exists>w'. rv_shadow_byte rv sh 0 1 w = (None, w') \<and> ok w' \<and>
        abs w' = (abs w)\<lparr>rs_painted := rs_painted (abs w) - granule c ` {1..<8} \<union> {granule c 0}\<rparr>"
    and open_law: "ok w \<Longrightarrow> rs_enqueue (abs w) = rs_dequeue (abs w) \<Longrightarrow>
      \<exists>e w'. rv_revoke rv [CHERI_REVOKE_ASYNC, CHERI_REVOKE_IGNORE_START] 0 w = (Inr e, w') \<and> ok w' \<and>
        abs w' = (abs w)\<lparr>rs_enqueue := rs_dequeue (abs w) + 1\<rparr> \<and> ep_enqueue e = rs_enqueue (abs w') \<and> ep_dequeue e = rs_dequeue (abs w')"
    and advance_law: "ok w \<Longrightarrow> rs_enqueue (abs w) = rs_dequeue (abs w) + 1 \<Longrightarrow>
      \<exists>e w'. rv_revoke rv [CHERI_REVOKE_ASYNC, CHERI_REVOKE_IGNORE_START] 0 w = (Inr e, w') \<and> ok w' \<and>
        (abs w' = abs w \<and> work w' < work w \<or>
         swept pl missed (abs w) (abs w') \<and> rs_dequeue (abs w') = rs_dequeue (abs w) + 2 \<and> rs_enqueue (abs w') = rs_dequeue (abs w'))"
    and usleep_law: "ok w \<Longrightarrow> ok (rv_usleep rv n w) \<and> abs (rv_usleep rv n w) = abs w \<and> work (rv_usleep rv n w) \<le> work w"
    and info_work_law: "ok w \<Longrightarrow> work (snd (rv_info rv w)) \<le> work w"
    and clears_law: "cheri_revoke_epoch_clears rv (e + 2) e" "\<not> cheri_revoke_epoch_clears rv e e"

section \<open>The loop\<close>

lemma async_wait_more: "async_wait pl rv epoch n s = Some r \<Longrightarrow> n \<le> m \<Longrightarrow> async_wait pl rv epoch m s = Some r"
proof (induction n arbitrary: m s)
  case 0
  then show ?case by simp
next
  case (Suc n)
  then obtain m' where "m = Suc m'" "n \<le> m'" by (cases m) auto
  then show ?case using Suc by (auto split: prod.splits outcome.splits bool.splits)
qed

text \<open>A revoker whose clock stands still: no number of turns is enough.\<close>

lemma async_wait_stuck:
  assumes stuck: "\<And>w. I w \<Longrightarrow> I (snd (rv_info rv w)) \<and> \<not> cheri_revoke_epoch_clears rv (ep_dequeue (fst (rv_info rv w))) epoch"
    and "\<And>w. I w \<Longrightarrow> \<exists>e w'. rv_revoke rv [CHERI_REVOKE_ASYNC, CHERI_REVOKE_IGNORE_START] 0 w = (Inr e, w') \<and> I w'"
    and "\<And>w. I w \<Longrightarrow> I (rv_usleep rv 1000 w)"
  shows "I (p_world s) \<Longrightarrow> async_wait pl rv epoch n s = None"
proof (induction n arbitrary: s)
  case (Suc n)
  obtain e w1 where i: "rv_info rv (p_world s) = (e, w1)" "I w1" "\<not> cheri_revoke_epoch_clears rv (ep_dequeue e) epoch"
    using stuck [OF Suc.prems] by (cases "rv_info rv (p_world s)") auto
  obtain e' w2 where r: "rv_revoke rv [CHERI_REVOKE_ASYNC, CHERI_REVOKE_IGNORE_START] 0 w1 = (Inr e', w2)" "I w2" using assms(2) [OF i(2)] by blast
  have "async_turn pl rv epoch s = (Return False, s\<lparr>p_world := rv_usleep rv 1000 w2\<rparr>)"
    using i(1,3) r(1) by (simp add: async_turn_def read_cri_def observe_def bindP_def cheri_revoke_def CHERIOSTEST_CHECK_SYSCALL_def upd_world_def ret_def)
  then show ?case using Suc.IH [of "s\<lparr>p_world := rv_usleep rv 1000 w2\<rparr>"] assms(3) [OF r(2)] by simp
qed simp

context async_revoker
begin

text \<open>An epoch that is open ends within \<open>work\<close> and two more turns, and memory has been swept.\<close>

lemma wait_run:
  "ok (p_world s) \<Longrightarrow> rs_enqueue (abs (p_world s)) = rs_dequeue (abs (p_world s)) + 1 \<Longrightarrow> epoch = rs_dequeue (abs (p_world s)) \<Longrightarrow>
   \<exists>w. async_wait pl rv epoch (work (p_world s) + 2) s = Some (Return (), s\<lparr>p_world := w\<rparr>) \<and> ok w \<and> swept pl missed (abs (p_world s)) (abs w) \<and>
     rs_dequeue (abs w) = epoch + 2 \<and> rs_enqueue (abs w) = rs_dequeue (abs w)"
proof (induction "work (p_world s)" arbitrary: s rule: less_induct)
  case less
  let ?a = "abs (p_world s)"
  obtain e w1 where i: "rv_info rv (p_world s) = (e, w1)" "ok w1" "abs w1 = ?a" "ep_dequeue e = rs_dequeue ?a" "work w1 \<le> work (p_world s)"
    using info_law [OF less.prems(1)] info_work_law [OF less.prems(1)] by auto
  obtain e' w2 where r: "rv_revoke rv [CHERI_REVOKE_ASYNC, CHERI_REVOKE_IGNORE_START] 0 w1 = (Inr e', w2)" "ok w2"
    "abs w2 = ?a \<and> work w2 < work w1 \<or> swept pl missed ?a (abs w2) \<and> rs_dequeue (abs w2) = epoch + 2 \<and> rs_enqueue (abs w2) = rs_dequeue (abs w2)"
    using advance_law [OF i(2)] i(3) less.prems(2,3) by auto
  let ?w3 = "rv_usleep rv 1000 w2" and ?s3 = "s\<lparr>p_world := rv_usleep rv 1000 w2\<rparr>"
  note w3 = usleep_law [OF r(2), of 1000]
  have turn: "async_wait pl rv epoch (Suc n) s = async_wait pl rv epoch n ?s3" for n
    using i(1,4) r(1) less.prems(3) clears_law(2)
    by (simp add: async_turn_def read_cri_def observe_def bindP_def cheri_revoke_def CHERIOSTEST_CHECK_SYSCALL_def upd_world_def ret_def)
  show ?case
  proof (cases "abs w2 = ?a \<and> work w2 < work w1")
    case True
    then have less_work: "work (p_world ?s3) < work (p_world s)" and same: "abs (p_world ?s3) = ?a" using w3 i(5) by auto
    have pre: "ok (p_world ?s3)" "rs_enqueue (abs (p_world ?s3)) = rs_dequeue (abs (p_world ?s3)) + 1" "epoch = rs_dequeue (abs (p_world ?s3))"
      using w3 less.prems(2,3) unfolding same by auto
    obtain w where w: "async_wait pl rv epoch (work (p_world ?s3) + 2) ?s3 = Some (Return (), ?s3\<lparr>p_world := w\<rparr>)" "ok w" "swept pl missed ?a (abs w)"
      "rs_dequeue (abs w) = epoch + 2" "rs_enqueue (abs w) = rs_dequeue (abs w)"
      using less.hyps [OF less_work pre] unfolding same by blast
    have "async_wait pl rv epoch (work (p_world s) + 1) ?s3 = Some (Return (), ?s3\<lparr>p_world := w\<rparr>)"
      by (rule async_wait_more [OF w(1)]) (use less_work in linarith)
    then have "async_wait pl rv epoch (work (p_world s) + 2) s = Some (Return (), s\<lparr>p_world := w\<rparr>)"
      using turn [of "work (p_world s) + 1"] by (simp del: async_wait.simps)
    then show ?thesis using w(2-5) by blast
  next
    case False
    then have fin: "swept pl missed ?a (abs ?w3)" "rs_dequeue (abs ?w3) = epoch + 2" "rs_enqueue (abs ?w3) = rs_dequeue (abs ?w3)" "ok ?w3"
      using r(3) w3 by auto
    obtain e4 w4 where i4: "rv_info rv ?w3 = (e4, w4)" "ok w4" "abs w4 = abs ?w3" "ep_dequeue e4 = epoch + 2"
      using info_law [OF fin(4)] fin(2) by auto
    have "async_wait pl rv epoch (Suc n) ?s3 = Some (Return (), s\<lparr>p_world := w4\<rparr>)" for n
      using i4(1,4) clears_law(1) by (simp add: async_turn_def read_cri_def observe_def bindP_def ret_def)
    then have "async_wait pl rv epoch (work (p_world s) + 2) s = Some (Return (), s\<lparr>p_world := w4\<rparr>)"
      using turn [of "work (p_world s) + 1"] by (simp del: async_wait.simps)
    then show ?thesis using i4(2,3) fin by auto
  qed
qed

definition clock :: "'a \<Rightarrow> epochs" where
  "clock w = \<lparr>ep_enqueue = rs_enqueue (abs w), ep_dequeue = rs_dequeue (abs w)\<rparr>"

lemma read_clock:
  assumes "ok w"
  shows "\<exists>w'. rv_info rv w = (clock w, w') \<and> ok w' \<and> abs w' = abs w"
proof -
  obtain e w' where e: "rv_info rv w = (e, w')" "ok w'" "abs w' = abs w" "ep_enqueue e = rs_enqueue (abs w)" "ep_dequeue e = rs_dequeue (abs w)"
    using info_law [OF assms] by blast
  then have "e = clock w" by (cases e) (simp add: clock_def)
  then show ?thesis using e by auto
qed

lemma clock_compared_run:
  assumes "ok (p_world s)" "f (clock (p_world s)) = shift y"
  shows "\<exists>w. comes_back (clock_compared pl rv f y shift msg) s () w \<and> ok w \<and> abs w = abs (p_world s)"
proof -
  obtain w where i: "rv_info rv (p_world s) = (clock (p_world s), w)" "ok w" "abs w = abs (p_world s)" using read_clock [OF assms(1)] by blast
  then have "comes_back (clock_compared pl rv f y shift msg) s () w"
    using assms(2) by (simp add: clock_compared_def comes_back_def read_cri_def observe_def bindP_def ret_def)
  then show ?thesis using i by blast
qed

lemma clocks_compared_run:
  assumes "ok (p_world s)" "f (clock (p_world s)) = shift (g (clock (p_world s)))"
  shows "\<exists>w. comes_back (clocks_compared pl rv f g shift msg) s () w \<and> ok w \<and> abs w = abs (p_world s)"
proof -
  obtain w1 where w1: "rv_info rv (p_world s) = (clock (p_world s), w1)" "ok w1" "abs w1 = abs (p_world s)" using read_clock [OF assms(1)] by blast
  obtain w2 where w2: "rv_info rv w1 = (clock w1, w2)" "ok w2" "abs w2 = abs w1" using read_clock [OF w1(2)] by blast
  have "clock w1 = clock (p_world s)" using w1(3) by (simp add: clock_def)
  then have "comes_back (clocks_compared pl rv f g shift msg) s () w2"
    using w1(1) w2(1) assms(2) by (simp add: clocks_compared_def comes_back_def read_cri_def observe_def bindP_def ret_def)
  then show ?thesis using w1 w2 by auto
qed

text \<open>The page of the test, its first granule painted, a capability to it in the second, and an epoch that has been opened.\<close>

definition async_ready :: "cap \<Rightarrow> uintmax \<Rightarrow> 'a \<Rightarrow> bool" where
  "async_ready c d w \<longleftrightarrow> ok w \<and> granules c \<subseteq> rs_mapped (abs w) \<and> granule c 0 \<in> rs_painted (abs w) \<and>
     rs_cell (abs w) (granule c 1) = no_vmem pl c \<and> rs_enqueue (abs w) = d + 1 \<and> rs_dequeue (abs w) = d"

definition page_placed :: "'a \<Rightarrow> cap \<Rightarrow> bool" where
  "page_placed w c \<longleftrightarrow> (\<exists>w'. mmap_call (rv_resv rv) (cap_null pl) (PAGE_SIZE (rv_resv rv)) [PROT_READ, PROT_WRITE] [MAP_ANON] (- 1) w = (Inr c, w'))"

lemma async_start_run:
  assumes "ok (p_world s)" "rs_enqueue (abs (p_world s)) = rs_dequeue (abs (p_world s))" "page_placed (p_world s) c"
  obtains crsi w n where "comes_back (async_start pl rv) s (c, rs_dequeue (abs (p_world s)), crsi) w" "async_ready c (rs_dequeue (abs (p_world s))) w"
    "ep_dequeue crsi = rs_dequeue (abs (p_world s))" "is_block pl n c" "2 \<le> n"
proof -
  let ?d = "rs_dequeue (abs (p_world s))"
  obtain n where n: "PAGE_SIZE (rv_resv rv) = n * 16" "2 \<le> n" "n \<le> bigblock_caps" using page_law by blast
  obtain w1 where m: "mmap_call (rv_resv rv) (cap_null pl) (n * 16) [PROT_READ, PROT_WRITE] [MAP_ANON] (- 1) (p_world s) = (Inr c, w1)"
    "ok w1" "is_block pl n c" "granules c \<subseteq> rs_mapped (abs w1)" "rs_enqueue (abs w1) = ?d" "rs_dequeue (abs w1) = ?d"
    using mmap_law [OF assms(1) n(3)] assms(2,3) n(1) unfolding page_placed_def by force
  obtain sh w2 where g: "rv_get_shadow rv CHERI_REVOKE_SHADOW_NOVMEM c w1 = (Inr sh, w2)" "ok w2" "abs w2 = abs w1" using get_shadow_law [OF m(2)] by blast
  obtain sh' w3 where h: "rv_get_shadow rv CHERI_REVOKE_SHADOW_INFO_STRUCT (cap_null pl) w2 = (Inr sh', w3)" "ok w3" "abs w3 = abs w2"
    using get_shadow_law [OF g(2)] by blast
  have one: "1 < n" using n(2) by simp
  obtain w4 where st: "k_store (rv_kernel rv) (elem pl c 1) (no_vmem pl c) w3 = (None, w4)" "ok w4"
    "abs w4 = (abs w3)\<lparr>rs_cell := (rs_cell (abs w3))(granule c 1 := no_vmem pl c)\<rparr>"
    using store_law [OF h(2) elem_usable [OF m(3) one]] m(4) g(3) h(3) elem_addr [OF m(3) one] by auto
  obtain w5 where b: "rv_shadow_byte rv sh 0 1 w4 = (None, w5)" "ok w5"
    "abs w5 = (abs w4)\<lparr>rs_painted := rs_painted (abs w4) - granule c ` {1..<8} \<union> {granule c 0}\<rparr>"
    using shadow_byte_law [OF m(3) n(2) g(1) st(2)] by blast
  have clk: "rs_enqueue (abs w5) = ?d" "rs_dequeue (abs w5) = ?d" using b(3) st(3) h(3) g(3) m(5,6) by simp_all
  obtain e w6 where i: "rv_info rv w5 = (e, w6)" "ok w6" "abs w6 = abs w5" "ep_dequeue e = ?d" using info_law [OF b(2)] clk by auto
  obtain crsi w7 where r: "rv_revoke rv [CHERI_REVOKE_ASYNC, CHERI_REVOKE_IGNORE_START] 0 w6 = (Inr crsi, w7)" "ok w7"
    "abs w7 = (abs w6)\<lparr>rs_enqueue := ?d + 1\<rparr>" "ep_enqueue crsi = ?d + 1" "ep_dequeue crsi = ?d"
    using open_law [OF i(2)] i(3) clk by auto
  have ready: "async_ready c ?d w" if "ok w" "abs w = abs w7" for w
    using that r(3) i(3) b(3) st(3) h(3) g(3) m(4,6) by (simp add: async_ready_def)
  obtain w8 where c8: "comes_back (clock_compared pl rv ep_enqueue (ep_enqueue crsi) id ''Bad shared enqueue clock (%lu %lu)'') (s\<lparr>p_world := w7\<rparr>) () w8" "ok w8" "abs w8 = abs w7"
    using clock_compared_run [of "s\<lparr>p_world := w7\<rparr>" ep_enqueue id "ep_enqueue crsi"] ready [OF r(2) refl] r(2,4) by (auto simp: async_ready_def clock_def)
  obtain w9 where c9: "comes_back (clock_compared pl rv ep_dequeue (ep_dequeue crsi) id ''Bad shared dequeue clock (%lu %lu)'') (s\<lparr>p_world := w8\<rparr>) () w9" "ok w9" "abs w9 = abs w7"
    using clock_compared_run [of "s\<lparr>p_world := w8\<rparr>" ep_dequeue id "ep_dequeue crsi"] ready [OF c8(2,3)] c8(2,3) r(5) by (auto simp: async_ready_def clock_def)
  obtain w10 where c10: "comes_back (clocks_compared pl rv ep_enqueue ep_dequeue (\<lambda>x. x + 1) ''Bad shared clock (%lu %lu)'') (s\<lparr>p_world := w9\<rparr>) () w10" "ok w10" "abs w10 = abs w7"
    using clocks_compared_run [of "s\<lparr>p_world := w9\<rparr>" ep_enqueue "\<lambda>x. x + 1" ep_dequeue] ready [OF c9(2,3)] c9(2,3) by (auto simp: async_ready_def clock_def)
  have "comes_back (async_start pl rv) s (c, ?d, crsi) w10"
    using m(1) g(1) h(1) st(1) b(1) i(1,4) r(1) c8(1) c9(1) c10(1) n(1)
    by (simp add: async_start_def anon_page_def checked_mmap_def get_shadow_def cheri_revoke_def effect_def read_cri_def observe_def comes_back_def bindP_def
        CHERIOSTEST_CHECK_SYSCALL_def store_cap_def ret_def)
  then show thesis using that ready [OF c10(2,3)] r(5) m(3) n(2) by blast
qed

lemma no_vmem_block:
  assumes "is_block pl n c"
  shows "\<not> check_revoked (no_vmem pl c)" "condemned pl painted (no_vmem pl c) \<longleftrightarrow> granule c 0 \<in> painted"
  using assms by (simp_all add: no_vmem_def cheri_perms_and_def is_block_def check_revoked_def cheri_tag_get_def cheri_perms_get_def condemned_def granule_def and.assoc)

lemma async_finish_run:
  assumes c: "is_block pl n c" "2 \<le> n" and w: "async_ready c d w" "swept pl missed (abs w) (abs (p_world s))" "ok (p_world s)"
    and clk: "rs_dequeue (abs (p_world s)) = d + 2" "rs_enqueue (abs (p_world s)) = rs_dequeue (abs (p_world s))"
    and crsi: "ep_dequeue crsi = d" and cc: "p_ccsp s \<noteq> None"
  shows "if granule c 0 \<in> missed then declares_failure (block [async_finish pl rv c crsi, cheriostest_success]) s
    else declares_success (block [async_finish pl rv c crsi, cheriostest_success]) s"
proof -
  let ?c = "rs_cell (abs (p_world s)) (granule c 1)"
  note w1 = w(1) [unfolded async_ready_def] and sw = w(2) [unfolded swept_def]
  have one: "1 < n" using c(2) by simp
  have g1: "granule c 1 \<in> rs_mapped (abs w)" using w1 granules_block [OF c(1)] one by blast
  have "condemned pl (rs_painted (abs w) - missed) (rs_cell (abs w) (granule c 1)) \<longleftrightarrow> granule c 0 \<notin> missed"
    using w1 no_vmem_block(2) [OF c(1)] by simp
  then have cell: "check_revoked ?c \<longleftrightarrow> granule c 0 \<notin> missed" using sw g1 w1 no_vmem_block(1) [OF c(1)] by metis
  obtain w2 where w2: "comes_back (clocks_compared pl rv ep_enqueue ep_dequeue id ''Bad shared post-revocation clock (%lu %lu)'') s () w2" "ok w2" "abs w2 = abs (p_world s)"
    using clocks_compared_run [of s ep_enqueue id ep_dequeue] w(3) clk by (auto simp: clock_def)
  obtain w3 where w3: "comes_back (clock_compared pl rv ep_dequeue (ep_dequeue crsi) (\<lambda>x. x + 2) ''Unexpected clock jump (%lu %lu)'') (s\<lparr>p_world := w2\<rparr>) () w3" "ok w3"
    "abs w3 = abs (p_world s)"
    using clock_compared_run [of "s\<lparr>p_world := w2\<rparr>" ep_dequeue "\<lambda>x. x + 2" "ep_dequeue crsi"] w2(2,3) clk crsi by (auto simp: clock_def)
  have "granules c \<subseteq> rs_mapped (abs (p_world (s\<lparr>p_world := w3\<rparr>)))" using w1 sw w3(3) by simp
  then obtain w4 where w4: "comes_back (load_cap (rv_kernel rv) (elem pl c 1)) (s\<lparr>p_world := w3\<rparr>) ?c w4"
    using load_run [OF c(1) one, of "s\<lparr>p_world := w3\<rparr>"] w3(2,3) by auto
  have run: "block [async_finish pl rv c crsi, cheriostest_success] s =
      (if granule c 0 \<in> missed then cheriostest_failure_errx pl ''Memory tag persists'' [] else cheriostest_success) (s\<lparr>p_world := w4\<rparr>)"
    using cell by (simp add: async_finish_def bindP_assoc comes_back_bind [OF w2(1)] comes_back_bind [OF w3(1)] comes_back_bind [OF w4] prog_simps del: One_nat_def)
  show ?thesis
    unfolding declares_failure_def declares_success_def run
    using cc by (auto simp: cheriostest_failure_errx_def vcheriostest_failure_errx_def cheriostest_success_def split: option.splits)
qed

text \<open>The whole test: with enough turns it returns, and its verdict says whether the capability was overlooked.\<close>

lemma async_verdict:
  assumes os: "pl_os pl = CheriBSD" and w: "ok (p_world s)" "rs_enqueue (abs (p_world s)) = rs_dequeue (abs (p_world s))"
    and pc: "page_placed (p_world s) c" and cc: "p_ccsp s \<noteq> None"
  shows "\<exists>least r. (\<forall>turns \<ge> least. cheri_revoke_async pl rv turns s = Some r) \<and>
    (if granule c 0 \<in> missed then declares_failure (\<lambda>_. r) s else declares_success (\<lambda>_. r) s)"
proof -
  let ?d = "rs_dequeue (abs (p_world s))"
  obtain crsi w1 n where st: "comes_back (async_start pl rv) s (c, ?d, crsi) w1" "async_ready c ?d w1" "ep_dequeue crsi = ?d" "is_block pl n c" "2 \<le> n"
    using async_start_run [OF w pc] by metis
  let ?s1 = "s\<lparr>p_world := w1\<rparr>"
  obtain w2 where w2: "async_wait pl rv ?d (work w1 + 2) ?s1 = Some (Return (), s\<lparr>p_world := w2\<rparr>)" "ok w2" "swept pl missed (abs w1) (abs w2)"
    "rs_dequeue (abs w2) = ?d + 2" "rs_enqueue (abs w2) = rs_dequeue (abs w2)"
  proof -
    have "ok (p_world ?s1)" "rs_enqueue (abs (p_world ?s1)) = rs_dequeue (abs (p_world ?s1)) + 1" "?d = rs_dequeue (abs (p_world ?s1))"
      using st(2) by (simp_all add: async_ready_def)
    from wait_run [OF this] show thesis by (elim exE conjE, intro that) (assumption | simp del: async_wait.simps)+
  qed
  let ?r = "block [async_finish pl rv c crsi, cheriostest_success] (s\<lparr>p_world := w2\<rparr>)"
  have run: "cheri_revoke_async pl rv turns s = Some ?r" if "work w1 + 2 \<le> turns" for turns
    using async_wait_more [OF w2(1) that] st(1)
    by (simp add: cheri_revoke_async_def os async_body_def and_then_def followed_by_def comes_back_def bindP_def del: block.simps async_wait.simps)
  moreover have "if granule c 0 \<in> missed then declares_failure (\<lambda>_. ?r) s else declares_success (\<lambda>_. ?r) s"
    using async_finish_run [OF st(4,5,2), of "s\<lparr>p_world := w2\<rparr>" crsi] w2(2-5) st(3) cc
    by (auto simp: declares_failure_def declares_success_def simp del: block.simps split: if_splits)
  ultimately show ?thesis by blast
qed

end

section \<open>A revoker\<close>

text \<open>
  A system that keeps the view itself, with the number of calls left before an open epoch closes. The shadow of an object is named by
  the capability to the object; \<open>missed\<close> are the bases it overlooks.
\<close>

record mworld =
  mw_view :: rspec
  mw_left :: nat

definition sweep :: "platform \<Rightarrow> ptraddr set \<Rightarrow> rspec \<Rightarrow> rspec" where
  "sweep pl missed sp = sp\<lparr>rs_cell := \<lambda>g. if condemned pl (rs_painted sp - missed) (rs_cell sp g) then cheri_tag_clear (rs_cell sp g) else rs_cell sp g\<rparr>"

definition mw_upd :: "(rspec \<Rightarrow> rspec) \<Rightarrow> mworld \<Rightarrow> mworld" where
  "mw_upd f w = w\<lparr>mw_view := f (mw_view w)\<rparr>"

definition model_block :: "nat \<Rightarrow> cap" where
  "model_block n = \<lparr>cap_tag = True, cap_addr = 0x40000000, cap_base = 0x40000000, cap_len = n, cap_perms = 0x36008, cap_otype = 0, cap_flags = 0\<rparr>"

definition model_mmap :: "mmap_args \<Rightarrow> (mworld, cap) sys" where
  "model_mmap a w = (let c = model_block (ma_len a) in
     (Inr c, mw_upd (\<lambda>sp. sp\<lparr>rs_mapped := rs_mapped sp \<union> granules c, rs_painted := rs_painted sp - granules c\<rparr>) w))"

definition model_revoke :: "platform \<Rightarrow> ptraddr set \<Rightarrow> revoke_flag list \<Rightarrow> uintmax \<Rightarrow> (mworld, epochs) sys" where
  "model_revoke pl missed flags start w =
     (let sp = mw_view w; d = rs_dequeue sp;
          w' = (if CHERI_REVOKE_ASYNC \<in> set flags \<and> rs_enqueue sp = d then mw_upd (\<lambda>sp. sp\<lparr>rs_enqueue := d + 1\<rparr>) w\<lparr>mw_left := 3\<rparr>
                else if CHERI_REVOKE_ASYNC \<in> set flags \<and> mw_left w \<noteq> 0 then w\<lparr>mw_left := mw_left w - 1\<rparr>
                else mw_upd (\<lambda>sp. (sweep pl missed sp)\<lparr>rs_enqueue := d + 2, rs_dequeue := d + 2\<rparr>) w)
      in (Inr \<lparr>ep_enqueue = rs_enqueue (mw_view w'), ep_dequeue = rs_dequeue (mw_view w')\<rparr>, w'))"

definition model_kernel :: "mworld vmk" where
  "model_kernel = \<lparr>k_random = (\<lambda>w. (7, w)), k_shm_open = (\<lambda>_ _ w. (Inl 17, w)), k_shm_unlink = (\<lambda>_ w. (Inl 2, w)),
     k_memfd_create = (\<lambda>_ w. (Inl 24, w)), k_open = (\<lambda>_ w. (Inl 2, w)), k_mkstemp = (\<lambda>_ w. (Inl 13, w)), k_unlink = (\<lambda>_ w. (Inl 2, w)),
     k_ftruncate = (\<lambda>_ _ w. (Inl 22, w)), k_mmap = model_mmap, k_munmap = (\<lambda>_ _ w. (Inr (), w)),
     k_mprotect = (\<lambda>_ _ _ w. (Inr (), w)), k_close = (\<lambda>_ w. (Inr (), w)),
     k_store = (\<lambda>p c w. (None, mw_upd (\<lambda>sp. sp\<lparr>rs_cell := (rs_cell sp)(cap_addr p := c)\<rparr>) w)),
     k_load = (\<lambda>p w. (Inr (rs_cell (mw_view w) (cap_addr p)), w)), k_touch = (\<lambda>_ w. (None, w)), k_read = (\<lambda>_ w. (Inl 9, w)), k_write = (\<lambda>_ _ w. (Inl 9, w)),
     k_pagesize = 4096, k_PROT_CAP = True, k_PROT_NO_CAP = True, k_local = cap_null morello_purecap,
     EINVAL = 22, ENOMEM = 12, EACCES = 13, ENOTSUP = 45, EPROT = 35\<rparr>"

definition model_env :: "ptraddr set \<Rightarrow> mworld rev_env" where
  "model_env missed = \<lparr>rv_abi = abi_example model_kernel,
     rv_get_shadow = (\<lambda>kind p w. (Inr p, w)),
     rv_shadow_byte = (\<lambda>sh i v w. (None, mw_upd (\<lambda>sp. sp\<lparr>rs_painted := rs_painted sp - granule sh ` {1..<8} \<union> {granule sh 0}\<rparr>) w)),
     rv_shadow_fill = (\<lambda>sh v w. (None, w)),
     rv_info = (\<lambda>w. (\<lparr>ep_enqueue = rs_enqueue (mw_view w), ep_dequeue = rs_dequeue (mw_view w)\<rparr>, w)),
     rv_base_mem_nomap = 0,
     rv_revoke = model_revoke morello_purecap missed,
     cheri_revoke_epoch_clears = (\<lambda>now before. 2 \<le> now - before),
     caprev_shadow_nomap_set = (\<lambda>b sh p c w. (0, mw_upd (\<lambda>sp. sp\<lparr>rs_painted := rs_painted sp \<union> granules c\<rparr>) w)),
     caprev_shadow_nomap_clear = (\<lambda>b sh c. mw_upd (\<lambda>sp. sp\<lparr>rs_painted := rs_painted sp - granules c\<rparr>)),
     rv_dump = (\<lambda>_ _ _. ret ()), rv_srand = (\<lambda>_ w. w), rv_rand = (\<lambda>w. (600, w)), rv_mincore = (\<lambda>_ _ w. (Inr [], w)),
     rv_msync_invalidate = (\<lambda>_ _ w. (Inr (), w)), MINCORE_INCORE = 1, MINCORE_MODIFIED = 4, MINCORE_CAPSTORE = 0x80,
     rv_capstore_on_alloc = (\<lambda>w. (Inr False, w)), rv_fork = (\<lambda>w. (Inr 0, w)), rv_kqueue = (\<lambda>w. (Inr 3, w)), rv_pipe = (\<lambda>w. (Inr (4, 5), w)),
     rv_kevent_add = (\<lambda>_ _ w. (Inr (), w)), rv_kevent_wait = (\<lambda>_ w. (Inl 22, w)), rv_write_byte = (\<lambda>_ _ w. (Inr 1, w)),
     rv_read_byte = (\<lambda>_ w. (Inr (1, 42), w)), rv_function = cap_null morello_purecap, rv_vmmap = (\<lambda>w. (Some [], w)), rv_procstat_ok = True,
     rv_procs = Some 1, rv_usleep = (\<lambda>_ w. w), rv_pthread_create = (\<lambda>w. (0, w)), rv_reap = (\<lambda>_ w. w), rv_stop_forker = (\<lambda>w. w),
     rv_pthread_join = (\<lambda>w. (0, w))\<rparr>"

lemma swept_sweep: "swept pl missed sp ((sweep pl missed sp)\<lparr>rs_enqueue := a, rs_dequeue := b\<rparr>)"
  by (simp add: swept_def sweep_def check_revoked_def cheri_tag_get_def cheri_tag_clear_def)

lemma model_block_is_block: "n \<le> bigblock_caps \<Longrightarrow> is_block morello_purecap n (model_block (n * 16))"
  by (simp add: is_block_def model_block_def morello_purecap_def cheri_is_sealed_def bigblock_caps_def rw_perms_def feature_defs)

lemmas model_simps = model_env_def model_kernel_def abi_example_def mw_upd_def

interpretation model: async_revoker morello_purecap "model_env missed" mw_view "\<lambda>_. True" missed mw_left for missed
proof
  fix w :: mworld and n
  assume "n \<le> bigblock_caps"
  then show "\<exists>c w'. mmap_call (rv_resv (model_env missed)) (cap_null morello_purecap) (n * 16) [PROT_READ, PROT_WRITE] [MAP_ANON] (- 1) w = (Inr c, w') \<and>
      True \<and> is_block morello_purecap n c \<and> granules c \<subseteq> rs_mapped (mw_view w') \<and> granules c \<inter> rs_painted (mw_view w') = {} \<and>
      rs_enqueue (mw_view w') = rs_enqueue (mw_view w) \<and> rs_dequeue (mw_view w') = rs_dequeue (mw_view w)"
    using model_block_is_block [of n] by (auto simp: mmap_call_def model_simps model_mmap_def Let_def)
next
  fix w :: mworld and flags
  assume "CHERI_REVOKE_IGNORE_START \<in> set flags" "CHERI_REVOKE_ASYNC \<notin> set flags"
  then show "\<exists>e w'. rv_revoke (model_env missed) flags 0 w = (Inr e, w') \<and> True \<and> ep_dequeue e = rs_dequeue (mw_view w') \<and>
      swept morello_purecap missed (mw_view w) (mw_view w')"
    using swept_sweep by (simp add: model_env_def model_revoke_def mw_upd_def Let_def)
next
  fix w :: mworld
  assume "rs_enqueue (mw_view w) = rs_dequeue (mw_view w) + 1"
  then show "\<exists>e w'. rv_revoke (model_env missed) [CHERI_REVOKE_ASYNC, CHERI_REVOKE_IGNORE_START] 0 w = (Inr e, w') \<and> True \<and>
      (mw_view w' = mw_view w \<and> mw_left w' < mw_left w \<or>
       swept morello_purecap missed (mw_view w) (mw_view w') \<and> rs_dequeue (mw_view w') = rs_dequeue (mw_view w) + 2 \<and>
       rs_enqueue (mw_view w') = rs_dequeue (mw_view w'))"
    using swept_sweep by (simp add: model_env_def model_revoke_def mw_upd_def Let_def)
qed (auto simp: model_simps morello_purecap_def PAGE_SIZE_def model_revoke_def Let_def bigblock_caps_def intro!: exI [of _ 256])

section \<open>The properties\<close>


definition model_start :: mworld where
  "model_start = \<lparr>mw_view = \<lparr>rs_mapped = {}, rs_cell = (\<lambda>_. cap_null morello_purecap), rs_painted = {}, rs_enqueue = 0, rs_dequeue = 0\<rparr>, mw_left = 0\<rparr>"

lemma model_placed: "mmap_call (rv_resv (model_env missed)) (cap_null morello_purecap) n [PROT_READ, PROT_WRITE] [MAP_ANON] (- 1)
    (rv_srand (model_env missed) 1337 w) = (Inr (model_block n), snd (model_mmap \<lparr>ma_addr = cap_null morello_purecap, ma_len = n,
      ma_prot = [PROT_READ, PROT_WRITE], ma_flags = [MAP_ANON], ma_fd = - 1\<rparr> w))"
  by (simp add: mmap_call_def model_simps model_mmap_def Let_def)

lemma model_granule: "granule (model_block n) 5 = 0x40000050"
  by (simp add: granule_def model_block_def)

lemma morello_os: "pl_os morello_purecap = CheriBSD"
  by (simp add: morello_purecap_def)


text \<open>
  Revocation that is opened before a fork: under such a revoker \<^verbatim>\<open>cheri_revoke_lib_fork_split\<close> declares failure before the fork if a granule
  is overlooked; otherwise the child finishes the pass and declares success, and the parent declares what the exit status of the child says.
\<close>

theorem revoke_fork_split_verdict:
  assumes "revoker pl rv view ok missed" "pl_os pl = CheriBSD" "ok (p_world s)" "p_ccsp s \<noteq> None"
    and "mmap_call (rv_resv rv) (cap_null pl) (bigblock_caps * 16) [PROT_READ, PROT_WRITE] [MAP_ANON] (- 1) (rv_srand rv 1337 (p_world s)) = (Inr c, w)"
    and "\<And>w. fst (rv_fork rv w) = Inr pid"
  shows "if (\<exists>i. i < bigblock_caps \<and> granule c i \<in> missed) \<or> pid < 0 \<or> pid > 0 \<and> ae_waitpid (rv_abi rv) pid \<noteq> 0
    then declares_failure (cheri_revoke_lib_fork_split pl rv) s else declares_success (cheri_revoke_lib_fork_split pl rv) s"
proof -
  have "revoker.placed pl rv (p_world s) c" using assms(5) by (auto simp: revoker.placed_def [OF assms(1)])
  from revoker.fork_split_verdict [OF assms(1-4) this assms(6)] show ?thesis by (simp add: revoker.overlooked_def [OF assms(1)])
qed

theorem revoke_fork_split_verdict_witness:
  "declares_success (cheri_revoke_lib_fork_split morello_purecap (model_env {})) (fresh_process morello_purecap model_start)"
proof -
  have "fst (rv_fork (model_env {}) w) = Inr 0" for w by (simp add: model_env_def)
  from revoke_fork_split_verdict [OF model.revoker_axioms morello_os, of "fresh_process morello_purecap model_start", OF _ _ model_placed this]
  show ?thesis by simp
qed

text \<open>
  A child with an image of its own that runs the \<^verbatim>\<open>libcaprevoke\<close> loop, in one pass or in two, exits with 0 exactly when both clocks of its new
  address space start at zero and nothing of its block is overlooked; otherwise it exits with \<^verbatim>\<open>EX_SOFTWARE\<close>.
\<close>

theorem revoke_child_exit:
  assumes "revoker pl rv view ok missed" "ok (p_world s)" "p_ccsp s \<noteq> None" "mode = TCLR_MODE_LOAD_ONCE \<or> mode = TCLR_MODE_LOAD_SPLIT"
    and "mmap_call (rv_resv rv) (cap_null pl) (bigblock_caps * 16) [PROT_READ, PROT_WRITE] [MAP_ANON] (- 1) (rv_srand rv 1337 (p_world s)) = (Inr c, w)"
  shows "fst (cheri_revoke_lib_child_common pl rv mode s) =
    Exited (if (\<exists>i. i < bigblock_caps \<and> granule c i \<in> missed) \<or> rs_enqueue (view (p_world s)) \<noteq> 0 \<or> rs_dequeue (view (p_world s)) \<noteq> 0
            then EX_SOFTWARE else 0)"
proof -
  have "revoker.placed pl rv (p_world s) c" using assms(5) by (auto simp: revoker.placed_def [OF assms(1)])
  from revoker.child_common_verdict [OF assms(1-3) this assms(4)] show ?thesis by (simp add: revoker.overlooked_def [OF assms(1)])
qed

theorem revoke_child_exit_witness:
  "fst (cheri_revoke_lib_child_common morello_purecap (model_env {}) TCLR_MODE_LOAD_SPLIT (fresh_process morello_purecap model_start)) = Exited 0"
  using revoke_child_exit [OF model.revoker_axioms, of "fresh_process morello_purecap model_start" TCLR_MODE_LOAD_SPLIT, OF _ _ _ model_placed, of "{}"]
  by (simp add: fresh_process_def model_start_def)



text \<open>
  C25: The thread of \<^verbatim>\<open>cheri_revoke_async_fork\<close> asks for \<^verbatim>\<open>child > 0\<close> before it looks whether it is the child: every child it forks
  declares failure on the page shared with the controller and exits with \<^verbatim>\<open>EX_SOFTWARE\<close>, never by \<^verbatim>\<open>_exit(0)\<close>.
\<close>

theorem forker_child_fails:
  assumes "rv_fork rv (p_world s) = (Inr 0, w)" "p_ccsp s \<noteq> None"
  shows "declares_failure (forker_turn pl rv) s"
proof -
  have "forker_turn pl rv s = cheriostest_failure_errx pl ''fork failed'' [] (s\<lparr>p_world := w\<rparr>)"
    unfolding forker_turn_def comes_back_bind [OF comes_back_raw [of "rv_fork rv", OF assms(1)]] by (simp add: prog_simps)
  then show ?thesis using assms(2) declares_failure_errx [of pl "''fork failed''" "[]" "s\<lparr>p_world := w\<rparr>"] by (simp add: declares_failure_def)
qed

theorem forker_child_fails_witness:
  "declares_failure (forker_turn morello_purecap (model_env {})) (fresh_process morello_purecap model_start)"
  by (rule forker_child_fails [where w = model_start]) (simp_all add: model_env_def fresh_process_def)

end
