(* ===== verification/Vm_Quarantine.thy ===== *)
theory Vm_Quarantine
  imports Revocation
begin

text \<open>
  The tests of \<^verbatim>\<open>cheriostest_vm.c\<close> on what revocation does to address space and to shared pages: quarantined reservations of the memory
  map, and pages that a fork left shared until one side writes.
\<close>

section \<open>Quarantined reservations\<close>

text \<open>The listing of the process's memory map.\<close>

definition open_procstat :: "platform \<Rightarrow> 'k rev_env \<Rightarrow> ('k, unit) prog" where
  "open_procstat pl rv = block
     [CHERIOSTEST_VERIFY pl (rv_procstat_ok rv) ''psp != NULL'',
      CHERIOSTEST_VERIFY pl (rv_procs rv \<noteq> None) ''kipp != NULL'',
      CHERIOSTEST_VERIFY pl (rv_procs rv = Some 1) ''pcnt == 1'']"

definition get_vmmap :: "platform \<Rightarrow> 'k rev_env \<Rightarrow> ('k, kinfo_vmentry list) prog" where
  "get_vmmap pl rv =
     bindP (observe (rv_vmmap rv)) (\<lambda>kivp.
     bindP (CHERIOSTEST_VERIFY pl (kivp \<noteq> None) ''kivp != NULL'') (\<lambda>_. ret (the kivp)))"

definition big_res_size :: nat where "big_res_size = 0x100000000"

definition entry_contains :: "ptraddr \<Rightarrow> nat \<Rightarrow> kinfo_vmentry \<Rightarrow> bool" where
  "entry_contains res_addr res_size e \<longleftrightarrow> kve_start e \<le> res_addr \<and> kve_end e \<ge> res_addr + of_nat res_size"

definition require_quarantined :: "platform \<Rightarrow> (kinfo_vmentry \<Rightarrow> bool) \<Rightarrow> kinfo_vmentry \<Rightarrow> ('k, unit) prog" where
  "require_quarantined pl found e =
     (if found e then CHERIOSTEST_VERIFY pl (kve_quarantined e) ''kivp[i].kve_type == KVME_TYPE_QUARANTINED'' else ret ())"

definition revoke_largest_quarantined_reservation :: "platform \<Rightarrow> 'k rev_env \<Rightarrow> ('k, unit) prog" where
  "revoke_largest_quarantined_reservation pl rv = on_CheriBSD pl (
     bindP (get_shadow pl rv CHERI_REVOKE_SHADOW_INFO_STRUCT (cap_null pl)) (\<lambda>_.
     bindP (checked_mmap pl (rv_resv rv) (cap_null pl) big_res_size [PROT_READ] [MAP_ANON] (- 1)) (\<lambda>res.
     let found = entry_contains (cap_addr res) big_res_size in
     bindP (CHERIOSTEST_CHECK_SYSCALL pl (k_munmap (rv_kernel rv) res big_res_size) ''munmap(res, res_size)'') (\<lambda>_.
     bindP (open_procstat pl rv) (\<lambda>_.
     bindP (get_vmmap pl rv) (\<lambda>kivp.
     bindP (block (map (require_quarantined pl found) kivp)) (\<lambda>_.
     bindP (CHERIOSTEST_VERIFY2 pl (list_ex found kivp) ''reservation not found in vmmap'' []) (\<lambda>_.
     bindP (cheri_revoke pl rv [CHERI_REVOKE_LAST_PASS, CHERI_REVOKE_IGNORE_START] 0) (\<lambda>_.
     bindP (get_vmmap pl rv) (\<lambda>kivp. block
       [fail_if pl (list_ex found kivp) ''reservation still in memory map'' [],
        cheriostest_success]))))))))))"

text \<open>Three reservations in a gap of the address space: sizes, offsets, and where \<^verbatim>\<open>mmap\<close> put them.\<close>

definition res_layout :: "'k rev_env \<Rightarrow> (nat \<times> nat) list" where
  "res_layout rv = (let page = PAGE_SIZE (rv_resv rv) in [(page, page), (big_res_size, big_res_size), (page, 3 * big_res_size)])"

fun make_reservations :: "platform \<Rightarrow> 'k rev_env \<Rightarrow> ptraddr \<Rightarrow> (nat \<times> nat) list \<Rightarrow> ('k, ptraddr list) prog" where
  "make_reservations pl rv working_space [] = ret []"
| "make_reservations pl rv working_space ((len, offset) # rest) =
     bindP (checked_mmap pl (rv_resv rv) (null_derived pl (working_space + of_nat offset)) len [PROT_READ] [MAP_ANON] (- 1)) (\<lambda>res.
     bindP (CHERIOSTEST_CHECK_SYSCALL pl (k_munmap (rv_kernel rv) res len) ''munmap(res, res_sizes[r])'') (\<lambda>_.
     bindP (make_reservations pl rv working_space rest) (\<lambda>addrs. ret (cap_addr res # addrs))))"

definition starts_at :: "ptraddr \<Rightarrow> kinfo_vmentry \<Rightarrow> bool" where
  "starts_at a e \<longleftrightarrow> kve_start e = a"

text \<open>The condition under which an entry counts as overlapping the working space.\<close>

definition overlaps_space :: "ptraddr \<Rightarrow> kinfo_vmentry \<Rightarrow> bool" where
  "overlaps_space working_space e \<longleftrightarrow>
     (kve_start e \<ge> working_space \<and> kve_start e < working_space + of_nat (4 * big_res_size)) \<or>
     (kve_end e - 1 \<ge> working_space \<and> kve_end e - 1 < working_space + of_nat (4 * big_res_size))"

definition revoke_merge_quarantined :: "platform \<Rightarrow> 'k rev_env \<Rightarrow> ('k, unit) prog" where
  "revoke_merge_quarantined pl rv = on_CheriBSD pl (
     bindP (get_shadow pl rv CHERI_REVOKE_SHADOW_INFO_STRUCT (cap_null pl)) (\<lambda>_.
     bindP (find_address_space_gap pl (rv_resv rv) (big_res_size * 4)) (\<lambda>working_space.
     bindP (make_reservations pl rv working_space (res_layout rv)) (\<lambda>res_addrs.
     bindP (open_procstat pl rv) (\<lambda>_.
     bindP (get_vmmap pl rv) (\<lambda>kivp.
     bindP (block (concat (map (\<lambda>e. map (\<lambda>a. require_quarantined pl (starts_at a) e) res_addrs) kivp))) (\<lambda>_.
     bindP (block (map (\<lambda>a. CHERIOSTEST_VERIFY2 pl (list_ex (starts_at a) kivp) ''reservation not found in vmmap'' []) res_addrs)) (\<lambda>_.
     bindP (cheri_revoke pl rv [CHERI_REVOKE_LAST_PASS, CHERI_REVOKE_IGNORE_START] 0) (\<lambda>_.
     bindP (get_vmmap pl rv) (\<lambda>kivp. block
       [fail_if pl (list_ex (overlaps_space working_space) kivp) ''reservation(s) still in memory map'' [],
        cheriostest_success]))))))))))"

section \<open>Pages shared after a fork\<close>

text \<open>\<^verbatim>\<open>WIFEXITED\<close> and \<^verbatim>\<open>WEXITSTATUS\<close> of a status word.\<close>

definition WIFEXITED :: "int \<Rightarrow> bool" where "WIFEXITED res \<longleftrightarrow> res mod 128 = 0"

definition WEXITSTATUS :: "int \<Rightarrow> int" where "WEXITSTATUS res = res div 256"

definition require_exit0 :: "platform \<Rightarrow> 'k rev_env \<Rightarrow> int \<Rightarrow> string \<Rightarrow> ('k, unit) prog" where
  "require_exit0 pl rv child msg =
     (let res = ae_waitpid (rv_abi rv) child in fail_if pl (\<not> WIFEXITED res \<or> WEXITSTATUS res \<noteq> 0) msg [FInt (WEXITSTATUS res)])"

text \<open>A call in the child whose failure is an exit code of its own, and a condition like it.\<close>

definition or_exit :: "('k, 'a) sys \<Rightarrow> int \<Rightarrow> ('k, 'a) prog" where
  "or_exit call code = bindP (raw_call call) (\<lambda>r. case r of None \<Rightarrow> leave code | Some x \<Rightarrow> ret x)"

definition exit_if :: "bool \<Rightarrow> int \<Rightarrow> ('k, unit) prog" where
  "exit_if b code = (if b then leave code else ret ())"

definition cow_child_revokes :: "platform \<Rightarrow> 'k rev_env \<Rightarrow> cap \<Rightarrow> cap \<Rightarrow> cap \<Rightarrow> cap \<Rightarrow> ('k, unit) prog" where
  "cow_child_revokes pl rv blk torev cap1 cap2 =
     (let page = PAGE_SIZE (rv_resv rv); k = rv_kernel rv in
      bindP (or_exit (rv_get_shadow rv CHERI_REVOKE_SHADOW_NOVMEM torev) 1) (\<lambda>shadow.
      bindP (effect (rv_shadow_fill rv shadow 0xff)) (\<lambda>_.
      bindP (or_exit (rv_msync_invalidate rv cap1 page) 2) (\<lambda>_.
      bindP (or_exit (rv_mincore rv blk (2 * page)) 3) (\<lambda>st.
      bindP (exit_if (st ! 0 AND MINCORE_INCORE rv \<noteq> 0) 4) (\<lambda>_.
      bindP (or_exit (rv_revoke rv [CHERI_REVOKE_IGNORE_START, CHERI_REVOKE_LAST_PASS] 0) 6) (\<lambda>_.
      bindP (load_cap k cap1) (\<lambda>c1.
      bindP (exit_if (\<not> check_revoked c1) 7) (\<lambda>_.
      bindP (load_cap k cap2) (\<lambda>c2.
      bindP (exit_if (\<not> check_revoked c2) 8) (\<lambda>_. leave 0)))))))))))"

definition cow_child_keeps :: "platform \<Rightarrow> 'k rev_env \<Rightarrow> int \<Rightarrow> cap \<Rightarrow> cap \<Rightarrow> ('k, unit) prog" where
  "cow_child_keeps pl rv pd0 cap1 cap2 =
     (let k = rv_kernel rv in
      bindP (raw_call (rv_read_byte rv pd0)) (\<lambda>r.
      bindP (exit_if ((case r of None \<Rightarrow> - 1 | Some (n, ch) \<Rightarrow> n) \<noteq> 1) 1) (\<lambda>_.
      bindP (load_cap k cap1) (\<lambda>c1.
      bindP (exit_if (check_revoked c1) 5) (\<lambda>_.
      bindP (load_cap k cap2) (\<lambda>c2.
      bindP (exit_if (check_revoked c2) 6) (\<lambda>_. leave 0)))))))"

definition fork_or_fail :: "platform \<Rightarrow> 'k rev_env \<Rightarrow> ('k, unit) prog \<Rightarrow> (int \<Rightarrow> ('k, unit) prog) \<Rightarrow> ('k, unit) prog" where
  "fork_or_fail pl rv in_child in_parent =
     bindP (raw_call (rv_fork rv)) (\<lambda>r. case r of
         None \<Rightarrow> bindP get_errno (\<lambda>errno. cheriostest_failure_errx pl ''Fork failed; errno=%d'' [FInt errno])
       | Some child \<Rightarrow> if child = 0 then in_child else in_parent child)"

definition verify_cell :: "platform \<Rightarrow> 'k rev_env \<Rightarrow> cap \<Rightarrow> bool \<Rightarrow> string \<Rightarrow> ('k, unit) prog" where
  "verify_cell pl rv p gone txt = bindP (load_cap (rv_kernel rv) p) (\<lambda>c. CHERIOSTEST_VERIFY pl (check_revoked c = gone) txt)"

definition cow_parent_revokes :: "platform \<Rightarrow> 'k rev_env \<Rightarrow> cap \<Rightarrow> cap \<Rightarrow> cap \<Rightarrow> cap \<Rightarrow> ('k, unit) prog" where
  "cow_parent_revokes pl rv blk torev cap1 cap2 =
     (let page = PAGE_SIZE (rv_resv rv); k = rv_kernel rv in
      bindP (CHERIOSTEST_CHECK_SYSCALL pl (rv_pipe rv) ''pipe(pd)'') (\<lambda>pd.
      fork_or_fail pl rv (cow_child_keeps pl rv (fst pd) cap1 cap2) (\<lambda>child.
      bindP (get_shadow pl rv CHERI_REVOKE_SHADOW_NOVMEM torev) (\<lambda>shadow.
      bindP (effect (rv_shadow_fill rv shadow 0xff)) (\<lambda>_.
      bindP (CHERIOSTEST_CHECK_SYSCALL pl (rv_msync_invalidate rv cap1 page) ''msync(cap1, CHERITEST_PAGE_SIZE, MS_INVALIDATE)'') (\<lambda>_.
      bindP (CHERIOSTEST_CHECK_SYSCALL pl (rv_mincore rv blk (2 * page)) ''mincore(block, 2 * CHERITEST_PAGE_SIZE, st)'') (\<lambda>st.
      bindP (CHERIOSTEST_VERIFY pl (st ! 0 AND MINCORE_INCORE rv = 0) ''(st[0] & MINCORE_INCORE) == 0'') (\<lambda>_.
      bindP (CHERIOSTEST_VERIFY pl (st ! 1 AND MINCORE_INCORE rv \<noteq> 0) ''(st[1] & MINCORE_INCORE) != 0'') (\<lambda>_.
      bindP (cheri_revoke pl rv [CHERI_REVOKE_IGNORE_START, CHERI_REVOKE_LAST_PASS] 0) (\<lambda>_.
      bindP (verify_cell pl rv cap1 True ''check_revoked(*cap1)'') (\<lambda>_.
      bindP (verify_cell pl rv cap2 True ''check_revoked(*cap2)'') (\<lambda>_.
      bindP (raw_call (rv_write_byte rv (snd pd) 0)) (\<lambda>n.
      bindP (CHERIOSTEST_VERIFY pl (n = Some 1) ''n == 1'') (\<lambda>_.
      bindP (require_exit0 pl rv child ''Bad child 2 process exit: %d'') (\<lambda>_.
      bindP (CHERIOSTEST_CHECK_SYSCALL pl (k_munmap k blk (3 * page)) ''munmap(block, blocksz)'') (\<lambda>_.
      bindP (CHERIOSTEST_CHECK_SYSCALL pl (k_close k (fst pd)) ''close(pd[0])'') (\<lambda>_.
      bindP (CHERIOSTEST_CHECK_SYSCALL pl (k_close k (snd pd)) ''close(pd[1])'') (\<lambda>_.
      cheriostest_success))))))))))))))))))"

definition cheri_revoke_cow_mapping :: "platform \<Rightarrow> 'k rev_env \<Rightarrow> ('k, unit) prog" where
  "cheri_revoke_cow_mapping pl rv = on_CheriBSD pl (
     let page = PAGE_SIZE (rv_resv rv); k = rv_kernel rv in
     bindP (raw_call (mmap_call (rv_resv rv) (cap_null pl) (3 * page) [PROT_READ, PROT_WRITE] [MAP_ANON] (- 1))) (\<lambda>m.
     bindP (CHERIOSTEST_VERIFY pl (m \<noteq> None) ''block != MAP_FAILED'') (\<lambda>_.
     let blk = the m;
         torev = cheri_bounds_set pl (elem pl blk (2 * page div 16)) page;
         cap1 = cheri_bounds_set pl (elem pl blk 0) page;
         cap2 = cheri_bounds_set pl (elem pl blk (page div 16)) page in
     bindP (store_cap k cap2 (no_vmem pl torev)) (\<lambda>_.
     bindP (store_cap k cap1 (no_vmem pl torev)) (\<lambda>_.
     fork_or_fail pl rv (cow_child_revokes pl rv blk torev cap1 cap2) (\<lambda>child.
     bindP (require_exit0 pl rv child ''Bad child process exit: %d'') (\<lambda>_.
     bindP (verify_cell pl rv cap1 False ''!check_revoked(*cap1)'') (\<lambda>_.
     bindP (verify_cell pl rv cap2 False ''!check_revoked(*cap2)'') (\<lambda>_.
     cow_parent_revokes pl rv blk torev cap1 cap2)))))))))"

section \<open>Properties\<close>

lemma space_unat:
  "unat ws + 4 * big_res_size < 2 ^ 64 \<Longrightarrow> unat (ws + of_nat (4 * big_res_size) :: ptraddr) = unat ws + 4 * big_res_size"
  by (simp add: unat_word_ariths unat_of_nat mod_simps big_res_size_def)

text \<open>
  The last check of \<^verbatim>\<open>revoke_merge_quarantined\<close>, that no entry of the memory map overlaps the working space, finds an overlapping entry
  unless it begins below the space and ends above it: an entry that holds the whole space with room on both sides is not seen.
\<close>

theorem overlaps_space_iff:
  assumes "kve_start e < kve_end e" "unat working_space + 4 * big_res_size < 2 ^ 64"
  shows "overlaps_space working_space e \<longleftrightarrow>
    kve_start e < working_space + of_nat (4 * big_res_size) \<and> working_space < kve_end e \<and>
    \<not> (kve_start e < working_space \<and> working_space + of_nat (4 * big_res_size) < kve_end e)"
proof -
  have "0 < unat (kve_end e)" using assms(1) by (simp add: word_less_nat_alt)
  then have "unat (kve_end e - 1) = unat (kve_end e) - 1" by (metis Suc_leI Suc_pred unat_1 unat_sub word_le_nat_alt One_nat_def)
  then show ?thesis
    using assms(1) \<open>0 < unat (kve_end e)\<close> space_unat [OF assms(2)]
    unfolding overlaps_space_def word_less_nat_alt word_le_nat_alt by (auto simp: big_res_size_def)
qed

theorem overlaps_space_iff_witness:
  "\<not> overlaps_space 0x500000000 \<lparr>kve_start = 0x100000000, kve_end = 0xA00000000, kve_quarantined = True\<rparr>"
  using overlaps_space_iff [of "\<lparr>kve_start = 0x100000000, kve_end = 0xA00000000, kve_quarantined = True\<rparr>" "0x500000000"]
  by (simp add: big_res_size_def)

end
