(* ===== verification/Feature_Note.thy ===== *)
theory Feature_Note
  imports Prelude
begin

text \<open>
  The build tool \<^verbatim>\<open>set-feature-ctl-note\<close>, which sets the revocation bits in the feature control note of a helper binary, and its own test
  (\<^verbatim>\<open>src/tools/set-feature-ctl-note/\<close>). A file is a list of bytes; the structures of \<^verbatim>\<open>elf_defs.h\<close> are read from it in little-endian order, as
  on the build hosts. Integers have the widths of the source, so the arithmetic on positions and sizes wraps around as it does there.
\<close>

section \<open>Structures\<close>

type_synonym byte = "8 word"

text \<open>A little-endian number and its bytes.\<close>

fun le_nat :: "byte list \<Rightarrow> nat" where
  "le_nat [] = 0"
| "le_nat (b # bs) = unat b + 256 * le_nat bs"

fun le_bytes :: "nat \<Rightarrow> nat \<Rightarrow> byte list" where
  "le_bytes 0 x = []"
| "le_bytes (Suc n) x = of_nat (x mod 256) # le_bytes n (x div 256)"

definition field :: "byte list \<Rightarrow> nat \<Rightarrow> nat \<Rightarrow> nat" where
  "field bs off n = le_nat (take n (drop off bs))"

record Elf64_Ehdr =
  e_ident :: "byte list"
  e_phoff :: "64 word"
  e_phentsize :: "16 word"
  e_phnum :: "16 word"

record Elf64_Phdr =
  p_type :: "32 word"
  p_offset :: "64 word"
  p_filesz :: "64 word"

record Elf64_Nhdr =
  n_namesz :: "32 word"
  n_descsz :: "32 word"
  n_type :: "32 word"

text \<open>The sizes of the structures, and the offsets of the fields that are used.\<close>

definition SIZEOF_EHDR :: nat where "SIZEOF_EHDR = 64"
definition SIZEOF_PHDR :: nat where "SIZEOF_PHDR = 56"
definition SIZEOF_NHDR :: nat where "SIZEOF_NHDR = 12"

definition read_ehdr :: "byte list \<Rightarrow> Elf64_Ehdr" where
  "read_ehdr bs = \<lparr>e_ident = take 16 bs, e_phoff = of_nat (field bs 32 8), e_phentsize = of_nat (field bs 54 2), e_phnum = of_nat (field bs 56 2)\<rparr>"

definition read_phdr :: "byte list \<Rightarrow> Elf64_Phdr" where
  "read_phdr bs = \<lparr>p_type = of_nat (field bs 0 4), p_offset = of_nat (field bs 8 8), p_filesz = of_nat (field bs 32 8)\<rparr>"

definition read_nhdr :: "byte list \<Rightarrow> Elf64_Nhdr" where
  "read_nhdr bs = \<lparr>n_namesz = of_nat (field bs 0 4), n_descsz = of_nat (field bs 4 4), n_type = of_nat (field bs 8 4)\<rparr>"

definition EI_CLASS :: nat where "EI_CLASS = 4"
definition EI_DATA :: nat where "EI_DATA = 5"
definition ELFCLASS64 :: byte where "ELFCLASS64 = 2"
definition ELFDATA2LSB :: byte where "ELFDATA2LSB = 1"
definition PT_NOTE :: "32 word" where "PT_NOTE = 4"
definition NT_FREEBSD_FEATURE_CTL :: "32 word" where "NT_FREEBSD_FEATURE_CTL = 4"
definition NT_FREEBSD_FCTL_CHERI_REVOKE_DISABLE :: "32 word" where "NT_FREEBSD_FCTL_CHERI_REVOKE_DISABLE = 0x00000020"
definition NT_FREEBSD_FCTL_CHERI_REVOKE_ENABLE :: "32 word" where "NT_FREEBSD_FCTL_CHERI_REVOKE_ENABLE = 0x80000000"

definition ELF_MAGIC :: "byte list" where "ELF_MAGIC = [0x7f, 0x45, 0x4c, 0x46]"
definition FREEBSD_NAME :: "byte list" where "FREEBSD_NAME = [0x46, 0x72, 0x65, 0x65, 0x42, 0x53, 0x44, 0]"

lemmas elf_consts = EI_CLASS_def EI_DATA_def ELFCLASS64_def ELFDATA2LSB_def PT_NOTE_def NT_FREEBSD_FEATURE_CTL_def
  NT_FREEBSD_FCTL_CHERI_REVOKE_DISABLE_def NT_FREEBSD_FCTL_CHERI_REVOKE_ENABLE_def ELF_MAGIC_def FREEBSD_NAME_def SIZEOF_EHDR_def SIZEOF_PHDR_def SIZEOF_NHDR_def

section \<open>The tool\<close>

text \<open>The ways the tool gives up; every one of them ends in exit status 1.\<close>

datatype note_error = Usage | Open | Pread | NotElf | NotLittleEndian64 | BadPhdrSize | DescTooSmall | NoNote | Pwrite

definition roundup4 :: "32 word \<Rightarrow> 32 word" where
  "roundup4 x = (x + 3) AND NOT 3"

text \<open>\<^verbatim>\<open>pread\<close> of a whole object: negative offsets and ends behind the file are errors.\<close>

definition xpread :: "byte list \<Rightarrow> 64 word \<Rightarrow> nat \<Rightarrow> note_error + byte list" where
  "xpread fd off n = (if unat off < 2 ^ 63 \<and> unat off + n \<le> length fd then Inr (take n (drop (unat off) fd)) else Inl Pread)"

lemma next_note_later:
  assumes "xpread fd pos SIZEOF_NHDR = Inr hb"
  shows "(2 :: nat) ^ 64 - unat (pos + of_nat SIZEOF_NHDR + ucast (x :: 32 word)) < 2 ^ 64 - unat pos"
proof -
  have p: "unat pos < 2 ^ 63" using assms by (simp add: xpread_def split: if_splits)
  have x: "unat x < 2 ^ 32" using unsigned_less [of x] by simp
  then have "unat (ucast x :: 64 word) = unat x" by (simp add: unsigned_ucast_eq take_bit_nat_eq_self)
  then have "unat (pos + 12 + ucast x) = unat pos + 12 + unat x"
    using p x by (simp add: unat_word_ariths)
  then show ?thesis using p by (simp add: SIZEOF_NHDR_def)
qed

text \<open>
  The notes of one segment. Each turn reads a header at \<open>pos\<close>; the next position is \<open>pos\<close> plus at least the size of a header, so the
  loop ends when a read fails or the end is reached.
\<close>

function note_scan :: "byte list \<Rightarrow> 64 word \<Rightarrow> 64 word \<Rightarrow> note_error + 64 word option" where
  "note_scan fd pos stop =
     (if pos + of_nat SIZEOF_NHDR \<le> stop
      then case xpread fd pos SIZEOF_NHDR of
          Inl e \<Rightarrow> Inl e
        | Inr hb \<Rightarrow>
            (let nhdr = read_nhdr hb; pos' = pos + of_nat SIZEOF_NHDR;
                 next = pos' + ucast (roundup4 (n_namesz nhdr) + roundup4 (n_descsz nhdr))
             in if n_namesz nhdr = 8 \<and> n_type nhdr = NT_FREEBSD_FEATURE_CTL
                then case xpread fd pos' 8 of
                    Inl e \<Rightarrow> Inl e
                  | Inr name \<Rightarrow>
                      (if name = FREEBSD_NAME
                       then if n_descsz nhdr < 4 then Inl DescTooSmall else Inr (Some (pos' + ucast (roundup4 (n_namesz nhdr))))
                       else note_scan fd next stop)
                else note_scan fd next stop)
      else Inr None)"
  by pat_completeness auto

termination
  by (relation "measure (\<lambda>(fd, pos, stop). 2 ^ 64 - unat pos)")
    (auto intro: next_note_later [simplified])

declare note_scan.simps [simp del]

fun find_from :: "byte list \<Rightarrow> Elf64_Ehdr \<Rightarrow> nat list \<Rightarrow> note_error + 64 word option" where
  "find_from fd ehdr [] = Inr None"
| "find_from fd ehdr (i # is) =
     (case xpread fd (e_phoff ehdr + of_nat i * ucast (e_phentsize ehdr)) SIZEOF_PHDR of
        Inl e \<Rightarrow> Inl e
      | Inr pb \<Rightarrow>
          (let phdr = read_phdr pb
           in if p_type phdr \<noteq> PT_NOTE then find_from fd ehdr is
              else case note_scan fd (p_offset phdr) (p_offset phdr + p_filesz phdr) of
                  Inl e \<Rightarrow> Inl e
                | Inr (Some d) \<Rightarrow> Inr (Some d)
                | Inr None \<Rightarrow> find_from fd ehdr is))"

definition find_feature_ctl_desc :: "byte list \<Rightarrow> Elf64_Ehdr \<Rightarrow> note_error + 64 word option" where
  "find_feature_ctl_desc fd ehdr = find_from fd ehdr [0..<unat (e_phnum ehdr)]"

text \<open>The bit to set and the bit to clear.\<close>

definition bits_of_arg :: "string \<Rightarrow> (32 word \<times> 32 word) option" where
  "bits_of_arg arg =
     (if arg = ''+cherirevoke'' then Some (NT_FREEBSD_FCTL_CHERI_REVOKE_ENABLE, NT_FREEBSD_FCTL_CHERI_REVOKE_DISABLE)
      else if arg = ''+nocherirevoke'' then Some (NT_FREEBSD_FCTL_CHERI_REVOKE_DISABLE, NT_FREEBSD_FCTL_CHERI_REVOKE_ENABLE)
      else None)"

definition new_features :: "32 word \<times> 32 word \<Rightarrow> 32 word \<Rightarrow> 32 word" where
  "new_features bits features = (case bits of (bit_to_set, bit_to_clear) \<Rightarrow> (features AND NOT bit_to_clear) OR bit_to_set)"

definition pwrite_at :: "byte list \<Rightarrow> nat \<Rightarrow> byte list \<Rightarrow> byte list" where
  "pwrite_at fd off bs = take off fd @ bs @ drop (off + length bs) fd"

definition set_note :: "32 word \<times> 32 word \<Rightarrow> bool \<Rightarrow> byte list \<Rightarrow> note_error + byte list" where
  "set_note bits pwrite_ok fd =
     (case xpread fd 0 SIZEOF_EHDR of
        Inl e \<Rightarrow> Inl e
      | Inr eb \<Rightarrow>
          (let ehdr = read_ehdr eb
           in if take 4 (e_ident ehdr) \<noteq> ELF_MAGIC then Inl NotElf
              else if e_ident ehdr ! EI_CLASS \<noteq> ELFCLASS64 \<or> e_ident ehdr ! EI_DATA \<noteq> ELFDATA2LSB then Inl NotLittleEndian64
              else if unat (e_phentsize ehdr) \<noteq> SIZEOF_PHDR then Inl BadPhdrSize
              else case find_feature_ctl_desc fd ehdr of
                  Inl e \<Rightarrow> Inl e
                | Inr None \<Rightarrow> Inl NoNote
                | Inr (Some desc_off) \<Rightarrow>
                    (if unat desc_off \<ge> 2 ^ 63 then Inl NoNote
                     else case xpread fd desc_off 4 of
                         Inl e \<Rightarrow> Inl e
                       | Inr fb \<Rightarrow>
                           (if \<not> pwrite_ok then Inl Pwrite
                            else Inr (pwrite_at fd (unat desc_off) (le_bytes 4 (unat (new_features bits (of_nat (le_nat fb))))))))))"

text \<open>The files are a map from paths to contents; a path that is not in it cannot be opened. The result is the exit status and the files.\<close>

definition tool_main :: "bool \<Rightarrow> string list \<Rightarrow> (string \<rightharpoonup> byte list) \<Rightarrow> int \<times> (string \<rightharpoonup> byte list)" where
  "tool_main pwrite_ok argv fs =
     (if length argv \<noteq> 3 then (1, fs)
      else case bits_of_arg (argv ! 1) of
          None \<Rightarrow> (1, fs)
        | Some bits \<Rightarrow>
            (case fs (argv ! 2) of
               None \<Rightarrow> (1, fs)
             | Some fd \<Rightarrow>
                 (case set_note bits pwrite_ok fd of
                    Inl e \<Rightarrow> (1, fs)
                  | Inr fd' \<Rightarrow> (0, fs(argv ! 2 \<mapsto> fd')))))"

section \<open>The test of the tool\<close>

text \<open>The fields of the structures that the test sets; the others are zero.\<close>

definition enc_ehdr :: "nat \<Rightarrow> byte list" where
  "enc_ehdr phnum = ELF_MAGIC @ [ELFCLASS64, ELFDATA2LSB] @ replicate 10 0 @ replicate 16 0 @ le_bytes 8 SIZEOF_EHDR @ replicate 14 0 @
     le_bytes 2 SIZEOF_PHDR @ le_bytes 2 phnum @ replicate 6 0"

definition enc_phdr :: "32 word \<Rightarrow> nat \<Rightarrow> nat \<Rightarrow> byte list" where
  "enc_phdr ty off filesz = le_bytes 4 (unat ty) @ replicate 4 0 @ le_bytes 8 off @ replicate 16 0 @ le_bytes 8 filesz @ replicate 16 0"

definition enc_nhdr :: "nat \<Rightarrow> nat \<Rightarrow> 32 word \<Rightarrow> byte list" where
  "enc_nhdr namesz descsz ty = le_bytes 4 namesz @ le_bytes 4 descsz @ le_bytes 4 (unat ty)"

definition write_test_elf :: "bool \<Rightarrow> byte list" where
  "write_test_elf with_note =
     enc_ehdr (if with_note then 1 else 0) @
     (if with_note
      then enc_phdr PT_NOTE (SIZEOF_EHDR + SIZEOF_PHDR) (SIZEOF_NHDR + 8 + 4) @ enc_nhdr 8 4 NT_FREEBSD_FEATURE_CTL @ FREEBSD_NAME @ le_bytes 4 0
      else [])"

definition read_features :: "byte list \<Rightarrow> 32 word option" where
  "read_features fd = (case xpread fd (of_nat (SIZEOF_EHDR + SIZEOF_PHDR + SIZEOF_NHDR + 8)) 4 of
      Inl e \<Rightarrow> None
    | Inr b \<Rightarrow> Some (of_nat (le_nat b)))"

text \<open>
  The test program against any tool, a function of the argument and the content of the file; the result says whether it prints
  \<^verbatim>\<open>PASS\<close>. The calls on the temporary file are taken to succeed.
\<close>

definition features_after :: "(string \<Rightarrow> byte list \<Rightarrow> int \<times> byte list) \<Rightarrow> string list \<Rightarrow> 32 word \<Rightarrow> bool" where
  "features_after tool args expected =
     (let (oks, fd) = fold (\<lambda>arg (oks, fd). let (status, fd') = tool arg fd in (oks \<and> status = 0, fd')) args (True, write_test_elf True)
      in oks \<and> read_features fd = Some expected)"

definition test_main :: "(string \<Rightarrow> byte list \<Rightarrow> int \<times> byte list) \<Rightarrow> bool" where
  "test_main tool \<longleftrightarrow>
     features_after tool [''+cherirevoke''] NT_FREEBSD_FCTL_CHERI_REVOKE_ENABLE \<and>
     features_after tool [''+nocherirevoke''] NT_FREEBSD_FCTL_CHERI_REVOKE_DISABLE \<and>
     features_after tool [''+cherirevoke'', ''+nocherirevoke''] NT_FREEBSD_FCTL_CHERI_REVOKE_DISABLE \<and>
     fst (tool ''+cherirevoke'' (write_test_elf False)) \<noteq> 0"

text \<open>The tool as the test runs it, on one file.\<close>

definition tool_on :: "string \<Rightarrow> string \<Rightarrow> byte list \<Rightarrow> int \<times> byte list" where
  "tool_on path arg fd = (case tool_main True [''set-feature-ctl-note'', arg, path] [path \<mapsto> fd] of (status, fs) \<Rightarrow> (status, the (fs path)))"

end
