(* ===== verification/Feature_Proofs.thy ===== *)
theory Feature_Proofs
  imports Feature_Note
begin

text \<open>
  What \<^verbatim>\<open>set-feature-ctl-note\<close> does to a file with a feature control note among others: the two bits of the note change, and nothing
  else; the order of the calls does not matter but for the last one.
\<close>

section \<open>Numbers and padding\<close>

lemma length_le_bytes [simp]: "length (le_bytes n x) = n"
  by (induction n arbitrary: x) auto

lemma le_nat_bytes: "x < 256 ^ n \<Longrightarrow> le_nat (le_bytes n x) = x"
proof (induction n arbitrary: x)
  case (Suc n)
  then have "le_nat (le_bytes n (x div 256)) = x div 256" by (intro Suc.IH) (simp add: div_less_iff_less_mult mult.commute)
  then show ?case by (simp add: unat_of_nat)
qed simp

lemma le_bytes_nat: "le_bytes (length bs) (le_nat bs) = bs"
proof (induction bs)
  case (Cons b bs)
  have "unat b < 256" using unsigned_less [of b] by simp
  then show ?case using Cons by simp
qed simp

definition pad4 :: "byte list \<Rightarrow> byte list" where
  "pad4 xs = xs @ replicate ((4 - length xs mod 4) mod 4) 0"

lemma pad4_amount: "n + (4 - n mod 4) mod 4 = 4 * ((n + 3) div 4)" for n :: nat
proof -
  consider "n mod 4 = 0" | "n mod 4 = 1" | "n mod 4 = 2" | "n mod 4 = 3" using mod_less_divisor [of 4 n] by linarith
  then show ?thesis by cases (simp; presburger)+
qed

lemma length_pad4: "length (pad4 xs) = 4 * ((length xs + 3) div 4)"
  unfolding pad4_def length_append length_replicate by (rule pad4_amount)

lemma and_not_3: "unat (y AND NOT 3 :: 32 word) = unat y div 4 * 4"
proof -
  have t: "y AND 3 = y mod 4" using take_bit_eq_mask [of 2 y] take_bit_eq_mod [of 2 y] by (simp add: mask_eq_exp_minus_1)
  have "y - (y AND 3) = y AND NOT (y AND 3)" by (rule disjunctive_diff_eq_and_not) (simp add: and.assoc [symmetric])
  then have "y AND NOT 3 = y - (y AND 3)" by (simp add: and.assoc bit.conj_disj_distrib)
  then have "unat (y AND NOT 3) = unat y - unat y mod 4"
    by (simp add: unat_sub word_and_le2) (simp add: t unat_mod_distrib)
  then show ?thesis by (simp add: minus_mod_eq_div_mult)
qed

lemma roundup4_of_nat:
  assumes "k + 3 < 2 ^ 32"
  shows "unat (roundup4 (of_nat k)) = 4 * ((k + 3) div 4)"
proof -
  have "unat (of_nat k + 3 :: 32 word) = k + 3" using assms by (simp add: unat_word_ariths unat_of_nat)
  then show ?thesis unfolding roundup4_def and_not_3 by simp
qed

lemma xpread_at: "length A < 2 ^ 63 \<Longrightarrow> n = length X \<Longrightarrow> xpread (A @ X @ B) (of_nat (length A)) n = Inr X"
  by (simp add: xpread_def unat_of_nat)

lemma read_nhdr_enc:
  assumes "a < 2 ^ 32" "b < 2 ^ 32"
  shows "read_nhdr (enc_nhdr a b ty) = \<lparr>n_namesz = of_nat a, n_descsz = of_nat b, n_type = ty\<rparr>"
proof -
  have "unat ty < 2 ^ 32" using unsigned_less [of ty] by simp
  then show ?thesis using assms by (simp add: read_nhdr_def enc_nhdr_def field_def le_nat_bytes)
qed

lemma length_enc_nhdr [simp]: "length (enc_nhdr a b ty) = 12"
  by (simp add: enc_nhdr_def)

section \<open>Notes\<close>

type_synonym elf_note = "byte list \<times> byte list \<times> 32 word"

definition enc_note :: "elf_note \<Rightarrow> byte list" where
  "enc_note = (\<lambda>(name, desc, ty). enc_nhdr (length name) (length desc) ty @ pad4 name @ pad4 desc)"

definition note_ok :: "elf_note \<Rightarrow> bool" where
  "note_ok = (\<lambda>(name, desc, ty). length name + length desc < 2 ^ 31)"

definition is_feature :: "elf_note \<Rightarrow> bool" where
  "is_feature = (\<lambda>(name, desc, ty). name = FREEBSD_NAME \<and> ty = NT_FREEBSD_FEATURE_CTL)"

lemma sizes_add:
  assumes "a + b < 2 ^ 31"
  shows "ucast (roundup4 (of_nat a) + roundup4 (of_nat b)) = (of_nat (4 * ((a + 3) div 4) + 4 * ((b + 3) div 4)) :: 64 word)"
proof -
  have "unat (roundup4 (of_nat a) + roundup4 (of_nat b)) = 4 * ((a + 3) div 4) + 4 * ((b + 3) div 4)"
    using assms roundup4_of_nat [of a] roundup4_of_nat [of b] by (simp add: unat_word_ariths)
  then show ?thesis by (metis of_nat_unat)
qed

lemma of_nat_le_word: "a < 2 ^ 64 \<Longrightarrow> (of_nat a :: 64 word) \<le> w \<longleftrightarrow> a \<le> unat w"
  by (simp add: word_le_nat_alt unat_of_nat)

lemma word8: "k < 2 ^ 32 \<Longrightarrow> (of_nat k :: 32 word) = 8 \<longleftrightarrow> k = 8"
  by (simp add: word_eq_iff_unsigned [where 'a = nat] unat_of_nat)

lemma length_enc_note: "length (enc_note (name, desc, ty)) = 12 + 4 * ((length name + 3) div 4) + 4 * ((length desc + 3) div 4)"
  by (simp add: enc_note_def length_pad4)

text \<open>The header of a note, and the name behind it.\<close>

lemma scan_header:
  assumes "length A + length (enc_note (name, desc, ty)) < 2 ^ 63" "note_ok (name, desc, ty)" "length A + 12 \<le> unat stop"
  shows "note_scan (A @ enc_note (name, desc, ty) @ B) (of_nat (length A)) stop =
    (if length name = 8 \<and> ty = NT_FREEBSD_FEATURE_CTL \<and> name = FREEBSD_NAME
     then if length desc < 4 then Inl DescTooSmall else Inr (Some (of_nat (length A + 20)))
     else note_scan (A @ enc_note (name, desc, ty) @ B) (of_nat (length A + length (enc_note (name, desc, ty)))) stop)"
proof -
  let ?fd = "A @ enc_note (name, desc, ty) @ B" and ?hb = "enc_nhdr (length name) (length desc) ty"
  have small: "length name < 2 ^ 31" "length desc < 2 ^ 31" "length name + length desc < 2 ^ 31" using assms(2) by (simp_all add: note_ok_def)
  have fd: "?fd = A @ ?hb @ (pad4 name @ pad4 desc @ B)" by (simp add: enc_note_def)
  have A: "length A < 2 ^ 63" "length (A @ ?hb) < 2 ^ 63" using assms(1) by (simp_all add: length_enc_note)
  have hdr: "xpread ?fd (of_nat (length A)) 12 = Inr ?hb"
    unfolding fd by (rule xpread_at) (use A in simp_all)
  have cond: "of_nat (length A) + 12 \<le> stop"
    using of_nat_le_word [of "length A + 12" stop] A(2) assms(3) by simp
  have nm: "xpread ?fd (of_nat (length A) + 12) 8 = Inr name" if n8: "length name = 8"
  proof -
    have "?fd = (A @ ?hb) @ name @ (pad4 desc @ B)" using n8 by (simp add: enc_note_def pad4_def [of name])
    moreover have p: "of_nat (length A) + 12 = (of_nat (length (A @ ?hb)) :: 64 word)" by simp
    ultimately show ?thesis unfolding p using xpread_at [OF A(2), of 8 name] n8 by (simp only:)
  qed
  have nxt: "of_nat (length A) + 12 + ucast (roundup4 (of_nat (length name)) + roundup4 (of_nat (length desc))) =
      (of_nat (length A + length (enc_note (name, desc, ty))) :: 64 word)"
    unfolding sizes_add [OF small(3)] length_enc_note by simp
  have d4: "(of_nat (length desc) :: 32 word) < 4 \<longleftrightarrow> length desc < 4"
    using small(2) by (simp add: word_less_nat_alt unat_of_nat)
  have r8: "(ucast (roundup4 8) :: 64 word) = 8" by (simp add: roundup4_def)
  have rd: "read_nhdr ?hb = \<lparr>n_namesz = of_nat (length name), n_descsz = of_nat (length desc), n_type = ty\<rparr>"
    by (rule read_nhdr_enc) (use small in simp_all)
  have n8: "(of_nat (length name) :: 32 word) = 8 \<longleftrightarrow> length name = 8" by (rule word8) (use small(1) in simp)
  have step: "note_scan ?fd (of_nat (length A)) stop =
      (if length name = 8 \<and> ty = NT_FREEBSD_FEATURE_CTL
       then case xpread ?fd (of_nat (length A) + 12) 8 of Inl e \<Rightarrow> Inl e
          | Inr name' \<Rightarrow> if name' = FREEBSD_NAME
              then if length desc < 4 then Inl DescTooSmall else Inr (Some (of_nat (length A) + 12 + ucast (roundup4 (of_nat (length name)))))
              else note_scan ?fd (of_nat (length A + length (enc_note (name, desc, ty)))) stop
       else note_scan ?fd (of_nat (length A + length (enc_note (name, desc, ty)))) stop)"
    by (subst note_scan.simps) (simp only: SIZEOF_NHDR_def of_nat_numeral cond if_True hdr sum.case rd Let_def Elf64_Nhdr.simps nxt d4 n8)
  show ?thesis unfolding step
    using nm r8 by (cases "length name = 8"; cases "ty = NT_FREEBSD_FEATURE_CTL"; cases "name = FREEBSD_NAME") simp_all
qed

text \<open>The notes in front of the feature control note are passed over.\<close>

definition enc_notes :: "elf_note list \<Rightarrow> byte list" where
  "enc_notes ns = concat (map enc_note ns)"

lemma scan_finds:
  assumes "list_all (\<lambda>n. note_ok n \<and> \<not> is_feature n) pre" "note_ok (FREEBSD_NAME, desc, NT_FREEBSD_FEATURE_CTL)" "4 \<le> length desc"
    and "length A + length (enc_notes pre) + length (enc_note (FREEBSD_NAME, desc, NT_FREEBSD_FEATURE_CTL)) \<le> unat stop" "unat stop < 2 ^ 63"
  shows "note_scan (A @ enc_notes pre @ enc_note (FREEBSD_NAME, desc, NT_FREEBSD_FEATURE_CTL) @ B) (of_nat (length A)) stop =
    Inr (Some (of_nat (length A + length (enc_notes pre) + 20)))"
  using assms(1,4)
proof (induction pre arbitrary: A)
  case Nil
  have "length FREEBSD_NAME = 8" by (simp add: FREEBSD_NAME_def)
  then show ?case using Nil assms(2,3,5) scan_header [of A FREEBSD_NAME desc NT_FREEBSD_FEATURE_CTL stop B]
    by (simp add: enc_notes_def length_enc_note)
next
  case (Cons n pre)
  obtain name d ty where n: "n = (name, d, ty)" by (cases n)
  let ?f = "enc_note (FREEBSD_NAME, desc, NT_FREEBSD_FEATURE_CTL)"
  have sz: "length A + length (enc_note n) + length (enc_notes pre) + length ?f \<le> unat stop" using Cons.prems(2) by (simp add: enc_notes_def)
  have "note_scan (A @ enc_note n @ (enc_notes pre @ ?f @ B)) (of_nat (length A)) stop =
      note_scan (A @ enc_note n @ (enc_notes pre @ ?f @ B)) (of_nat (length A + length (enc_note n))) stop"
    using scan_header [of A name d ty stop "enc_notes pre @ ?f @ B"] sz Cons.prems(1) assms(5) by (auto simp: n is_feature_def length_enc_note)
  moreover have "note_scan ((A @ enc_note n) @ enc_notes pre @ ?f @ B) (of_nat (length (A @ enc_note n))) stop =
      Inr (Some (of_nat (length (A @ enc_note n) + length (enc_notes pre) + 20)))"
    by (rule Cons.IH) (use Cons.prems(1) sz in simp_all)
  ultimately show ?case by (simp add: enc_notes_def add.assoc)
qed

section \<open>Files\<close>

text \<open>
  A file: the header, the program headers, anything, a segment of notes with the feature control note among them, anything. The first
  segment of type \<^verbatim>\<open>PT_NOTE\<close> is that of the notes.
\<close>

record elf_layout =
  el_ehdr :: "byte list"
  el_phdrs :: "byte list list"
  el_gap :: "byte list"
  el_pre :: "elf_note list"
  el_post :: "elf_note list"
  el_tail :: "byte list"

definition note_segment :: "elf_layout \<Rightarrow> byte list \<Rightarrow> byte list" where
  "note_segment l desc = enc_notes (el_pre l) @ enc_note (FREEBSD_NAME, desc, NT_FREEBSD_FEATURE_CTL) @ enc_notes (el_post l)"

definition elf_file :: "elf_layout \<Rightarrow> byte list \<Rightarrow> byte list" where
  "elf_file l desc = el_ehdr l @ concat (el_phdrs l) @ el_gap l @ note_segment l desc @ el_tail l"

definition is_elf64 :: "Elf64_Ehdr \<Rightarrow> bool" where
  "is_elf64 h \<longleftrightarrow> take 4 (e_ident h) = ELF_MAGIC \<and> e_ident h ! EI_CLASS = ELFCLASS64 \<and> e_ident h ! EI_DATA = ELFDATA2LSB \<and> e_phentsize h = 56"

definition note_phdr :: "elf_layout \<Rightarrow> byte list \<Rightarrow> nat \<Rightarrow> bool" where
  "note_phdr l desc j \<longleftrightarrow> j < length (el_phdrs l) \<and> (\<forall>i<j. p_type (read_phdr (el_phdrs l ! i)) \<noteq> PT_NOTE) \<and>
     read_phdr (el_phdrs l ! j) = \<lparr>p_type = PT_NOTE, p_offset = of_nat (64 + 56 * length (el_phdrs l) + length (el_gap l)), p_filesz = of_nat (length (note_segment l desc))\<rparr>"

definition layout_ok :: "elf_layout \<Rightarrow> byte list \<Rightarrow> bool" where
  "layout_ok l desc \<longleftrightarrow>
     length (el_ehdr l) = 64 \<and> is_elf64 (read_ehdr (el_ehdr l)) \<and> e_phoff (read_ehdr (el_ehdr l)) = 64 \<and>
     unat (e_phnum (read_ehdr (el_ehdr l))) = length (el_phdrs l) \<and> list_all (\<lambda>p. length p = 56) (el_phdrs l) \<and>
     (\<exists>j. note_phdr l desc j) \<and> list_all (\<lambda>n. note_ok n \<and> \<not> is_feature n) (el_pre l) \<and>
     note_ok (FREEBSD_NAME, desc, NT_FREEBSD_FEATURE_CTL) \<and> 4 \<le> length desc \<and> length (elf_file l desc) < 2 ^ 63"

text \<open>Where the descriptor is.\<close>

definition desc_at :: "elf_layout \<Rightarrow> nat" where
  "desc_at l = 64 + 56 * length (el_phdrs l) + length (el_gap l) + length (enc_notes (el_pre l)) + 20"

lemma length_concat_same: "list_all (\<lambda>p. length p = n) ps \<Longrightarrow> length (concat ps) = n * length ps"
  by (induction ps) auto

lemma phdr_read:
  assumes l: "layout_ok l desc" and i: "i < length (el_phdrs l)"
  shows "xpread (elf_file l desc) (64 + of_nat i * 56) 56 = Inr (el_phdrs l ! i)"
proof -
  let ?A = "el_ehdr l @ concat (take i (el_phdrs l))"
  have ps: "el_phdrs l = take i (el_phdrs l) @ el_phdrs l ! i # drop (Suc i) (el_phdrs l)" using i by (simp add: id_take_nth_drop)
  have len: "length (concat (take i (el_phdrs l))) = 56 * i" "length (el_phdrs l ! i) = 56"
    using l i length_concat_same [of 56 "take i (el_phdrs l)"] by (auto simp: layout_ok_def list_all_length)
  have A: "length ?A = 64 + 56 * i" using l len(1) by (simp add: layout_ok_def)
  have f: "elf_file l desc = ?A @ el_phdrs l ! i @ (concat (drop (Suc i) (el_phdrs l)) @ el_gap l @ note_segment l desc @ el_tail l)"
    unfolding elf_file_def by (subst ps) simp
  have "length ?A < 2 ^ 63" using l unfolding layout_ok_def f by simp
  then have "xpread (elf_file l desc) (of_nat (length ?A)) 56 = Inr (el_phdrs l ! i)"
    unfolding f by (rule xpread_at) (simp add: len(2))
  then show ?thesis unfolding A by (simp add: mult.commute)
qed

lemma find_run:
  assumes l: "layout_ok l desc" and j: "note_phdr l desc j"
  shows "i \<le> j \<Longrightarrow> find_from (elf_file l desc) (read_ehdr (el_ehdr l)) [i..<length (el_phdrs l)] = Inr (Some (of_nat (desc_at l)))"
proof (induction i rule: inc_induct)
  have ehdr: "e_phoff (read_ehdr (el_ehdr l)) = 64" "e_phentsize (read_ehdr (el_ehdr l)) = 56" using l by (simp_all add: layout_ok_def is_elf64_def)
  have read: "xpread (elf_file l desc) (e_phoff (read_ehdr (el_ehdr l)) + of_nat i * ucast (e_phentsize (read_ehdr (el_ehdr l)))) SIZEOF_PHDR = Inr (el_phdrs l ! i)"
    if "i < length (el_phdrs l)" for i
    using phdr_read [OF l that] by (simp add: ehdr SIZEOF_PHDR_def)
  have n: "j < length (el_phdrs l)" using j by (simp add: note_phdr_def)
  let ?A = "el_ehdr l @ concat (el_phdrs l) @ el_gap l" and ?f = "enc_note (FREEBSD_NAME, desc, NT_FREEBSD_FEATURE_CTL)"
  {
    case base
    have A: "length ?A = 64 + 56 * length (el_phdrs l) + length (el_gap l)"
      using l length_concat_same [of 56 "el_phdrs l"] by (simp add: layout_ok_def)
    have f: "elf_file l desc = ?A @ enc_notes (el_pre l) @ ?f @ (enc_notes (el_post l) @ el_tail l)" by (simp add: elf_file_def note_segment_def)
    have tot: "length ?A + length (note_segment l desc) < 2 ^ 63" using l unfolding layout_ok_def elf_file_def by simp
    then have stop: "unat (of_nat (length ?A) + of_nat (length (note_segment l desc)) :: 64 word) = length ?A + length (note_segment l desc)"
      by (simp add: unat_word_ariths unat_of_nat)
    have "note_scan (elf_file l desc) (of_nat (length ?A)) (of_nat (length ?A) + of_nat (length (note_segment l desc))) =
        Inr (Some (of_nat (length ?A + length (enc_notes (el_pre l)) + 20)))"
      unfolding f by (rule scan_finds) (use l tot stop in \<open>auto simp: layout_ok_def note_segment_def\<close>)
    then have scan: "note_scan (elf_file l desc) (of_nat (length ?A)) (of_nat (length ?A) + of_nat (length (note_segment l desc))) = Inr (Some (of_nat (desc_at l)))"
      unfolding A by (simp add: desc_at_def)
    have "read_phdr (el_phdrs l ! j) = \<lparr>p_type = PT_NOTE, p_offset = of_nat (length ?A), p_filesz = of_nat (length (note_segment l desc))\<rparr>"
      using j unfolding A by (simp add: note_phdr_def)
    then show ?case using n scan by (simp add: upt_conv_Cons read [OF n] Let_def)
  next
    case (step i)
    have "p_type (read_phdr (el_phdrs l ! i)) \<noteq> PT_NOTE" using j step.hyps by (simp add: note_phdr_def)
    then show ?case using step n by (simp add: upt_conv_Cons read Let_def)
  }
qed

definition changed_desc :: "32 word \<times> 32 word \<Rightarrow> byte list \<Rightarrow> byte list" where
  "changed_desc bits desc = le_bytes 4 (unat (new_features bits (of_nat (le_nat (take 4 desc))))) @ drop 4 desc"

lemma length_changed_desc: "4 \<le> length desc \<Longrightarrow> length (changed_desc bits desc) = length desc"
  by (simp add: changed_desc_def)

lemma layout_same_length: "layout_ok l desc \<Longrightarrow> length d = length desc \<Longrightarrow> layout_ok l d"
  by (simp add: layout_ok_def note_phdr_def elf_file_def note_segment_def enc_note_def length_pad4 note_ok_def)

lemma set_note_layout:
  assumes l: "layout_ok l desc"
  shows "set_note bits True (elf_file l desc) = Inr (elf_file l (changed_desc bits desc))"
proof -
  obtain j where j: "note_phdr l desc j" using l by (auto simp: layout_ok_def)
  let ?h = "read_ehdr (el_ehdr l)"
  let ?A = "el_ehdr l @ concat (el_phdrs l) @ el_gap l @ enc_notes (el_pre l) @ enc_nhdr 8 (length desc) NT_FREEBSD_FEATURE_CTL @ FREEBSD_NAME"
  have d4: "4 \<le> length desc" using l by (simp add: layout_ok_def)
  have A: "length ?A = desc_at l" using l length_concat_same [of 56 "el_phdrs l"] by (simp add: layout_ok_def desc_at_def FREEBSD_NAME_def)
  have p: "pad4 FREEBSD_NAME = FREEBSD_NAME" "length FREEBSD_NAME = 8" by (simp_all add: pad4_def FREEBSD_NAME_def)
  have pd: "pad4 d = take 4 d @ (drop 4 d @ replicate ((4 - length d mod 4) mod 4) 0)" for d by (simp add: pad4_def)
  have f: "elf_file l d = ?A @ take 4 d @ (drop 4 d @ replicate ((4 - length d mod 4) mod 4) 0 @ enc_notes (el_post l) @ el_tail l)" if "length d = length desc" for d
    by (simp add: elf_file_def note_segment_def enc_note_def p that) (simp add: pd that)
  have small: "desc_at l < 2 ^ 63" using l unfolding layout_ok_def f [OF refl] A [symmetric] by simp
  have eh: "xpread (elf_file l desc) 0 SIZEOF_EHDR = Inr (el_ehdr l)"
    using xpread_at [of "[]" 64 "el_ehdr l"] l by (simp add: layout_ok_def elf_file_def SIZEOF_EHDR_def)
  have find: "find_feature_ctl_desc (elf_file l desc) ?h = Inr (Some (of_nat (desc_at l)))"
    using find_run [OF l j, of 0] l by (simp add: find_feature_ctl_desc_def layout_ok_def)
  have fb: "xpread (elf_file l desc) (of_nat (desc_at l)) 4 = Inr (take 4 desc)"
    unfolding f [OF refl] A [symmetric] by (rule xpread_at) (use small d4 in \<open>simp_all only: A, simp\<close>)
  have un: "unat (of_nat (desc_at l) :: 64 word) = desc_at l" using small by (simp add: unat_of_nat)
  have run: "set_note bits True (elf_file l desc) = Inr (pwrite_at (elf_file l desc) (desc_at l) (le_bytes 4 (unat (new_features bits (of_nat (le_nat (take 4 desc)))))))"
    using l small by (simp add: set_note_def eh find fb un Let_def layout_ok_def is_elf64_def SIZEOF_PHDR_def not_le)
  have "pwrite_at (elf_file l desc) (desc_at l) w = elf_file l (w @ drop 4 desc)" if "length w = 4" for w
    unfolding pwrite_at_def f [OF refl] A [symmetric] using that d4 f [of "w @ drop 4 desc"] by simp
  then show ?thesis unfolding run changed_desc_def by simp
qed

section \<open>The properties\<close>

text \<open>
  C28: On every little-endian ELF64 file whose first note segment has a feature control note, in any place among other notes, the tool exits
  with 0 and changes the four bytes of that note's features and no other byte, of this file or of another: the bit that was asked for is set, the
  opposite bit is cleared, the other bits stay.
\<close>

theorem tool_sets_bits:
  assumes "layout_ok l desc" "fs path = Some (elf_file l desc)" "bits_of_arg arg = Some bits"
  shows "tool_main True [prog, arg, path] fs = (0, fs(path \<mapsto> elf_file l (changed_desc bits desc)))"
  using assms by (simp add: tool_main_def set_note_layout)

lemma features_changed: "of_nat (le_nat (take 4 (changed_desc bits desc))) = new_features bits (of_nat (le_nat (take 4 desc)))"
proof -
  have "unat (new_features bits (of_nat (le_nat (take 4 desc)))) < 256 ^ 4" using unsigned_less [of "new_features bits (of_nat (le_nat (take 4 desc)))"] by simp
  then show ?thesis by (simp add: changed_desc_def le_nat_bytes)
qed

lemma new_features_last: "bits_of_arg a = Some x \<Longrightarrow> bits_of_arg b = Some y \<Longrightarrow> new_features y (new_features x f) = new_features y f"
  by (auto simp: bits_of_arg_def new_features_def elf_consts bit_eq_iff bit_simps split: if_splits)

lemma changed_desc_last:
  assumes "bits_of_arg a = Some x" "bits_of_arg b = Some y" "4 \<le> length desc"
  shows "changed_desc y (changed_desc x desc) = changed_desc y desc"
proof -
  have "drop 4 (changed_desc x desc) = drop 4 desc" by (simp add: changed_desc_def)
  then show ?thesis by (simp add: changed_desc_def [of y] features_changed new_features_last [OF assms(1,2)])
qed

text \<open>
  A second call of the tool on such a file overrides the first: setting one bit and then the other leaves the file as if only the second call had been
  made.
\<close>

theorem tool_last_call_wins:
  assumes "layout_ok l desc" "fs path = Some (elf_file l desc)" "bits_of_arg first = Some x" "bits_of_arg second = Some y"
  shows "tool_main True [prog, second, path] (snd (tool_main True [prog, first, path] fs)) = tool_main True [prog, second, path] fs"
proof -
  have d: "4 \<le> length desc" using assms(1) by (simp add: layout_ok_def)
  have "layout_ok l (changed_desc x desc)" by (rule layout_same_length [OF assms(1)]) (rule length_changed_desc [OF d])
  then show ?thesis
    using assms by (simp add: tool_main_def set_note_layout changed_desc_last [OF assms(3,4) d])
qed

text \<open>The file of the test is such a file.\<close>

definition test_layout :: elf_layout where
  "test_layout = \<lparr>el_ehdr = enc_ehdr 1, el_phdrs = [enc_phdr PT_NOTE 120 24], el_gap = [], el_pre = [], el_post = [], el_tail = []\<rparr>"

lemma test_file: "write_test_elf True = elf_file test_layout (le_bytes 4 0)"
proof -
  have "pad4 FREEBSD_NAME = FREEBSD_NAME" "length FREEBSD_NAME = 8" "pad4 (le_bytes 4 0) = le_bytes 4 0"
    by (simp_all add: pad4_def FREEBSD_NAME_def del: le_bytes.simps)
  then show ?thesis
    by (simp add: write_test_elf_def elf_file_def test_layout_def note_segment_def enc_notes_def enc_note_def SIZEOF_EHDR_def SIZEOF_PHDR_def
        SIZEOF_NHDR_def del: le_bytes.simps)
qed

lemma test_layout_ok: "layout_ok test_layout (le_bytes 4 0)"
proof -
  have seg: "length (note_segment test_layout (le_bytes 4 0)) = 24"
    by (simp add: note_segment_def test_layout_def enc_notes_def length_enc_note FREEBSD_NAME_def)
  have phdr: "note_phdr test_layout (le_bytes 4 0) 0"
    unfolding note_phdr_def seg by (simp add: test_layout_def enc_phdr_def read_phdr_def field_def le_nat_bytes PT_NOTE_def)
  have size: "length (elf_file test_layout (le_bytes 4 0)) < 2 ^ 63"
    unfolding elf_file_def using seg by (simp add: test_layout_def enc_ehdr_def enc_phdr_def elf_consts)
  show ?thesis
    unfolding layout_ok_def using phdr size
    by (auto simp: test_layout_def enc_ehdr_def enc_phdr_def read_ehdr_def is_elf64_def elf_consts field_def le_nat_bytes note_ok_def)
qed

theorem tool_sets_bits_witness:
  "tool_main True [''t'', ''+cherirevoke'', ''f''] [''f'' \<mapsto> write_test_elf True] =
     (0, [''f'' \<mapsto> elf_file test_layout (changed_desc (NT_FREEBSD_FCTL_CHERI_REVOKE_ENABLE, NT_FREEBSD_FCTL_CHERI_REVOKE_DISABLE) (le_bytes 4 0))])"
  using tool_sets_bits [OF test_layout_ok, of "[''f'' \<mapsto> write_test_elf True]" "''f''" "''+cherirevoke''"] by (simp add: test_file bits_of_arg_def)

theorem tool_last_call_wins_witness:
  "tool_main True [''t'', ''+nocherirevoke'', ''f''] (snd (tool_main True [''t'', ''+cherirevoke'', ''f''] [''f'' \<mapsto> write_test_elf True])) =
     tool_main True [''t'', ''+nocherirevoke'', ''f''] [''f'' \<mapsto> write_test_elf True]"
  by (rule tool_last_call_wins [OF test_layout_ok]) (simp_all add: test_file bits_of_arg_def)

lemma tool_on_layout:
  assumes "layout_ok l desc" "bits_of_arg arg = Some bits"
  shows "tool_on path arg (elf_file l desc) = (0, elf_file l (changed_desc bits desc))"
  using assms by (simp add: tool_on_def tool_main_def set_note_layout)

lemma read_features_test:
  assumes "length d = 4"
  shows "read_features (elf_file test_layout d) = Some (of_nat (le_nat d))"
proof -
  let ?A = "enc_ehdr 1 @ enc_phdr PT_NOTE 120 24 @ enc_nhdr 8 4 NT_FREEBSD_FEATURE_CTL @ FREEBSD_NAME"
  have p: "pad4 FREEBSD_NAME = FREEBSD_NAME" "length FREEBSD_NAME = 8" "pad4 d = d" using assms by (simp_all add: pad4_def FREEBSD_NAME_def)
  have f: "elf_file test_layout d = ?A @ d @ []"
    using assms p by (simp add: elf_file_def test_layout_def note_segment_def enc_notes_def enc_note_def)
  have A: "length ?A = 140" by (simp add: enc_ehdr_def enc_phdr_def p elf_consts)
  have "xpread (elf_file test_layout d) (of_nat (length ?A)) 4 = Inr d"
    unfolding f by (rule xpread_at) (use assms in \<open>simp_all only: A, simp\<close>)
  then show ?thesis unfolding read_features_def A by (simp add: SIZEOF_EHDR_def SIZEOF_PHDR_def SIZEOF_NHDR_def)
qed

lemma no_note_refused: "fst (tool_on path arg (write_test_elf False)) = 1"
proof -
  let ?fd = "write_test_elf False"
  have l: "length ?fd = 64" by (simp add: write_test_elf_def enc_ehdr_def elf_consts)
  have "xpread ?fd 0 SIZEOF_EHDR = Inr ?fd" using l by (simp add: xpread_def SIZEOF_EHDR_def)
  moreover have "e_phnum (read_ehdr ?fd) = 0"
    by (simp add: write_test_elf_def enc_ehdr_def read_ehdr_def field_def elf_consts le_nat_bytes)
  ultimately have "\<exists>e. set_note bits True ?fd = Inl e" for bits
    by (auto simp: set_note_def Let_def find_feature_ctl_desc_def)
  then show ?thesis by (simp add: tool_on_def tool_main_def split: option.splits sum.splits) (metis Inr_not_Inl)
qed

text \<open>
  The tool passes its own test program: each argument sets the expected bits in the synthetic file, the second call clears the bit of the
  first, and a file without a note segment is refused.
\<close>

theorem tool_passes_test: "test_main (tool_on path)"
proof -
  let ?d = "le_bytes 4 0" and ?e = "(NT_FREEBSD_FCTL_CHERI_REVOKE_ENABLE, NT_FREEBSD_FCTL_CHERI_REVOKE_DISABLE)"
    and ?n = "(NT_FREEBSD_FCTL_CHERI_REVOKE_DISABLE, NT_FREEBSD_FCTL_CHERI_REVOKE_ENABLE)"
  have bits: "bits_of_arg ''+cherirevoke'' = Some ?e" "bits_of_arg ''+nocherirevoke'' = Some ?n" by (simp_all add: bits_of_arg_def)
  have zero: "of_nat (le_nat ?d) = (0 :: 32 word)" by (simp add: le_nat_bytes del: le_bytes.simps)
  have len: "length (changed_desc b d) = 4" if "length d = 4" for b d using that by (simp add: length_changed_desc)
  have feat: "read_features (elf_file test_layout (changed_desc b d)) = Some (new_features b (of_nat (le_nat (take 4 d))))" if "length d = 4" for b d
    using read_features_test [OF len [OF that], of b] features_changed [of b d] len [OF that, of b] by simp
  have once: "tool_on path arg (write_test_elf True) = (0, elf_file test_layout (changed_desc b ?d))" if "bits_of_arg arg = Some b" for arg b
    unfolding test_file by (rule tool_on_layout [OF test_layout_ok that])
  have ok: "layout_ok test_layout (changed_desc ?e ?d)" by (rule layout_same_length [OF test_layout_ok]) (simp add: len)
  have both: "changed_desc ?n (changed_desc ?e ?d) = changed_desc ?n ?d" by (rule changed_desc_last [OF bits]) simp
  have vals: "new_features ?e 0 = NT_FREEBSD_FCTL_CHERI_REVOKE_ENABLE" "new_features ?n 0 = NT_FREEBSD_FCTL_CHERI_REVOKE_DISABLE"
    by (simp_all add: new_features_def)
  show ?thesis
    unfolding test_main_def features_after_def
    by (simp add: once [OF bits(1)] once [OF bits(2)] tool_on_layout [OF ok bits(2)] both feat zero vals no_note_refused del: le_bytes.simps)
qed

text \<open>
  The test also tells the tool from one that sets the bit of its argument and clears none: after \<^verbatim>\<open>+cherirevoke\<close> and then
  \<^verbatim>\<open>+nocherirevoke\<close> both bits of that one are set.
\<close>

lemma test_needs_clearing:
  assumes "\<And>arg fd x. bits_of_arg arg = Some x \<Longrightarrow> tool arg fd = tool' x fd"
    and "\<And>s c d. length d = 4 \<Longrightarrow> tool' (s, c) (elf_file test_layout d) = (0, elf_file test_layout (changed_desc (s, 0) d))"
  shows "\<not> test_main tool"
proof -
  have l: "length (changed_desc b d) = 4" if "length d = 4" for b d using that by (simp add: length_changed_desc)
  have v: "of_nat (le_nat (changed_desc b d)) = new_features b (of_nat (le_nat d))" if "length d = 4" for b d
    using features_changed [of b d] l [OF that, of b] that by simp
  have "bits_of_arg ''+cherirevoke'' = Some (NT_FREEBSD_FCTL_CHERI_REVOKE_ENABLE, NT_FREEBSD_FCTL_CHERI_REVOKE_DISABLE)"
    "bits_of_arg ''+nocherirevoke'' = Some (NT_FREEBSD_FCTL_CHERI_REVOKE_DISABLE, NT_FREEBSD_FCTL_CHERI_REVOKE_ENABLE)"
    by (simp_all add: bits_of_arg_def)
  then have "\<not> features_after tool [''+cherirevoke'', ''+nocherirevoke''] NT_FREEBSD_FCTL_CHERI_REVOKE_DISABLE"
    by (simp add: features_after_def assms test_file l read_features_test v le_nat_bytes new_features_def elf_consts del: le_bytes.simps)
  then show ?thesis by (simp add: test_main_def)
qed

end
