(* ===== verification/Allocator.thy ===== *)
theory Allocator
  imports Revocation Feature_Note
begin

text \<open>
  The tests of \<^verbatim>\<open>cheriostest_malloc.c\<close>: an allocator that quarantines what is freed and revokes the pointers to it, the setting that turns
  this on or off for a program, and the programs the tests start (\<^verbatim>\<open>malloc_revoke_enabled\<close>, \<^verbatim>\<open>malloc_early_constructor\<close>). The allocator, the
  system calls and the installed programs are the fields of records.
\<close>

section \<open>The allocator\<close>

text \<open>The pointer variables of the tests. They are memory, so a call that revokes may clear their tags.\<close>

datatype cell = Ptr | Eptr | Ptr1 | Eptr1 | Ptr2 | Eptr2

record 'h mem_world =
  held :: "cell \<Rightarrow> cap"
  heap :: 'h

text \<open>
  \<^verbatim>\<open>free\<close> may abort. \<open>al_posix_memalign\<close> is given the old value of the pointer it may set, and gives the error number and the new value.
\<close>

record 'h alloc_env =
  al_malloc :: "nat \<Rightarrow> 'h mem_world \<Rightarrow> cap \<times> 'h mem_world"
  al_calloc :: "nat \<Rightarrow> nat \<Rightarrow> 'h mem_world \<Rightarrow> cap \<times> 'h mem_world"
  al_realloc :: "cap \<Rightarrow> nat \<Rightarrow> 'h mem_world \<Rightarrow> cap \<times> 'h mem_world"
  al_aligned_alloc :: "nat \<Rightarrow> nat \<Rightarrow> 'h mem_world \<Rightarrow> cap \<times> 'h mem_world"
  al_posix_memalign :: "cap \<Rightarrow> nat \<Rightarrow> nat \<Rightarrow> 'h mem_world \<Rightarrow> (int \<times> cap) \<times> 'h mem_world"
  al_memalign :: "nat \<Rightarrow> nat \<Rightarrow> 'h mem_world \<Rightarrow> cap \<times> 'h mem_world"
  MALLOCX_ALIGN :: "nat \<Rightarrow> int"
  al_mallocx :: "nat \<Rightarrow> int \<Rightarrow> 'h mem_world \<Rightarrow> cap \<times> 'h mem_world" \<comment> \<open>size and flags\<close>
  al_rallocx :: "cap \<Rightarrow> nat \<Rightarrow> int \<Rightarrow> 'h mem_world \<Rightarrow> cap \<times> 'h mem_world"
  al_no_quarantine :: "nat \<Rightarrow> 'h mem_world \<Rightarrow> cap \<times> 'h mem_world" \<comment> \<open>\<^verbatim>\<open>malloc_no_quarantine\<close>\<close>
  al_free :: "cap \<Rightarrow> 'h mem_world \<Rightarrow> siginfo option \<times> 'h mem_world"
  al_revoke :: "'h mem_world \<Rightarrow> 'h mem_world" \<comment> \<open>\<^verbatim>\<open>malloc_revoke\<close>\<close>
  al_force_flush :: "'h mem_world \<Rightarrow> int \<times> 'h mem_world" \<comment> \<open>\<^verbatim>\<open>malloc_revoke_quarantine_force_flush\<close>\<close>

definition skip_malloc_revocation_disabled :: "platform \<Rightarrow> bool \<Rightarrow> string option" where
  "skip_malloc_revocation_disabled pl revoke_enabled =
     (if pl_os pl = CheriBSD then (if revoke_enabled then None else Some ''malloc quarantine disabled'')
      else Some REVOCATION_IS_NOT_SUPPORTED_MSG)"

definition read_cell :: "cell \<Rightarrow> ('h mem_world, cap) prog" where
  "read_cell c = observe (\<lambda>w. (held w c, w))"

text \<open>\<^verbatim>\<open>e = p = v\<close>.\<close>

definition set_cells :: "cell \<Rightarrow> cell \<Rightarrow> cap \<Rightarrow> ('h mem_world, unit) prog" where
  "set_cells e p v = upd_world (\<lambda>w. w\<lparr>held := (held w)(p := v, e := v)\<rparr>)"

definition free_cell :: "'h alloc_env \<Rightarrow> cell \<Rightarrow> ('h mem_world, unit) prog" where
  "free_cell al c = bindP (read_cell c) (\<lambda>p. effect (al_free al p))"

definition verify_tag :: "platform \<Rightarrow> cell \<Rightarrow> bool \<Rightarrow> string \<Rightarrow> ('h mem_world, unit) prog" where
  "verify_tag pl c tagged msg = bindP (read_cell c) (\<lambda>p. CHERIOSTEST_VERIFY2 pl (cheri_tag_get p = tagged) msg [FPtr p])"

definition force_flush :: "platform \<Rightarrow> 'h alloc_env \<Rightarrow> ('h mem_world, unit) prog" where
  "force_flush pl al = bindP (observe (al_force_flush al)) (\<lambda>r.
     CHERIOSTEST_VERIFY2 pl (r = 0) ''malloc_revoke_quarantine_force_flush returned %d'' [FInt r])"

definition malloc_double_free :: "platform \<Rightarrow> 'h alloc_env \<Rightarrow> ('h mem_world, unit) prog" where
  "malloc_double_free pl al = on_CheriBSD pl (
     bindP (observe (al_malloc al 2)) (\<lambda>v. block
       [set_cells Eptr Ptr v,
        free_cell al Ptr,
        free_cell al Ptr,
        cheriostest_failure_errx pl ''malloc() did not abort'' []]))"

text \<open>Its entry: it must end by \<^verbatim>\<open>SIGABRT\<close>. \<open>revoke_enabled\<close> is what \<^verbatim>\<open>malloc_revoke_enabled()\<close> gives.\<close>

definition malloc_double_free_test ::
  "platform \<Rightarrow> 'h alloc_env \<Rightarrow> int \<Rightarrow> ('h mem_world \<Rightarrow> bool) \<Rightarrow> 'h mem_world cheri_test" where
  "malloc_double_free_test pl al sig_ABRT revoke_enabled =
     \<lparr>ct_name = ''malloc_double_free'', ct_desc = ''malloc aborts on double free'', ct_func = malloc_double_free pl al, ct_child_func = None,
      ct_check_skip = (if pl_os pl = CheriBSD then Some (\<lambda>name w. skip_malloc_revocation_disabled pl (revoke_enabled w)) else None), ct_check_xfail = None, ct_flags = CT_FLAG_SIGEXIT, ct_signum = sig_ABRT,
      ct_si_code = 0, ct_si_trapno = 0, ct_stdin_string = [], ct_stdout_string = [],
      ct_xfail_reason = (if pl_os pl = CheriBSD then None else Some ''Not supported''), ct_flaky_reason = None\<rparr>"

definition malloc_revoke_basic :: "platform \<Rightarrow> 'h alloc_env \<Rightarrow> ('h mem_world, unit) prog" where
  "malloc_revoke_basic pl al = on_CheriBSD pl (
     bindP (observe (al_malloc al 1)) (\<lambda>v. block
       [set_cells Eptr Ptr v,
        free_cell al Ptr,
        upd_world (al_revoke al),
        verify_tag pl Ptr False ''revoked ptr not revoked %#lp'',
        verify_tag pl Eptr False ''revoked eptr not revoked %#lp'',
        cheriostest_success]))"

definition malloc_revoke_quarantine_force_flush_basic :: "platform \<Rightarrow> 'h alloc_env \<Rightarrow> ('h mem_world, unit) prog" where
  "malloc_revoke_quarantine_force_flush_basic pl al =
     bindP (observe (al_malloc al 1)) (\<lambda>v. block
       [set_cells Eptr Ptr v,
        free_cell al Ptr,
        force_flush pl al,
        verify_tag pl Ptr False ''revoked ptr not revoked %#lp'',
        verify_tag pl Eptr False ''revoked eptr not revoked %#lp'',
        cheriostest_success])"

definition malloc_revoke_quarantine_force_flush_twice :: "platform \<Rightarrow> 'h alloc_env \<Rightarrow> ('h mem_world, unit) prog" where
  "malloc_revoke_quarantine_force_flush_twice pl al =
     bindP (observe (al_malloc al 1)) (\<lambda>v1.
     bindP (set_cells Eptr1 Ptr1 v1) (\<lambda>_.
     bindP (observe (al_malloc al 1)) (\<lambda>v2. block
       [set_cells Eptr2 Ptr2 v2,
        free_cell al Ptr1,
        force_flush pl al,
        verify_tag pl Ptr1 False ''revoked ptr1 not revoked %#lp'',
        verify_tag pl Eptr1 False ''revoked eptr1 not revoked %#lp'',
        free_cell al Ptr2,
        force_flush pl al,
        verify_tag pl Ptr2 False ''revoked ptr2 not revoked %#lp'',
        verify_tag pl Eptr2 False ''revoked eptr2 not revoked %#lp'',
        cheriostest_success])))"

definition malloc_no_quarantine_not_revoked :: "platform \<Rightarrow> 'h alloc_env \<Rightarrow> ('h mem_world, unit) prog" where
  "malloc_no_quarantine_not_revoked pl al =
     bindP (observe (al_no_quarantine al 1)) (\<lambda>v. block
       [set_cells Eptr Ptr v,
        free_cell al Ptr,
        force_flush pl al,
        verify_tag pl Ptr True ''freed no-quarantine ptr revoked %#lp'',
        verify_tag pl Eptr True ''freed no-quarantine eptr revoked %#lp'',
        cheriostest_success])"

text \<open>Comparing with \<^verbatim>\<open>NULL\<close> compares addresses.\<close>

definition is_NULL :: "cap \<Rightarrow> bool" where
  "is_NULL p \<longleftrightarrow> cap_addr p = 0"

definition SIZEOF_VOIDP :: "platform \<Rightarrow> nat" where
  "SIZEOF_VOIDP pl = (if is_purecap pl then 16 else 8)"

definition verified_alloc :: "platform \<Rightarrow> ('h mem_world \<Rightarrow> cap \<times> 'h mem_world) \<Rightarrow> string \<Rightarrow> ('h mem_world, cap) prog" where
  "verified_alloc pl f call_text =
     bindP (observe f) (\<lambda>p. bindP (CHERIOSTEST_VERIFY pl (\<not> is_NULL p) call_text) (\<lambda>_. ret p))"

definition alloc_and_free :: "platform \<Rightarrow> 'h alloc_env \<Rightarrow> ('h mem_world \<Rightarrow> cap \<times> 'h mem_world) \<Rightarrow> string \<Rightarrow> ('h mem_world, cap) prog" where
  "alloc_and_free pl al f call_text = bindP (verified_alloc pl f call_text) (\<lambda>p. bindP (effect (al_free al p)) (\<lambda>_. ret p))"

definition malloc_zero_size :: "platform \<Rightarrow> 'h alloc_env \<Rightarrow> ('h mem_world, unit) prog" where
  "malloc_zero_size pl al =
     bindP (alloc_and_free pl al (al_malloc al 0) ''(ptr = malloc(0)) != NULL'') (\<lambda>_.
     bindP (alloc_and_free pl al (al_calloc al 0 1) ''(ptr = calloc(0, 1)) != NULL'') (\<lambda>_.
     bindP (alloc_and_free pl al (al_calloc al 1 0) ''(ptr = calloc(1, 0)) != NULL'') (\<lambda>_.
     bindP (alloc_and_free pl al (al_calloc al 0 0) ''(ptr = calloc(0, 0)) != NULL'') (\<lambda>_.
     bindP (verified_alloc pl (al_realloc al (cap_null pl) 0) ''(ptr = realloc(NULL, 0)) != NULL'') (\<lambda>p.
     bindP (alloc_and_free pl al (al_realloc al p 0) ''(ptr2 = realloc(ptr, 0)) != NULL'') (\<lambda>_.
     bindP (alloc_and_free pl al (al_aligned_alloc al (SIZEOF_VOIDP pl) 0) ''(ptr = aligned_alloc(sizeof(void *), 0)) != NULL'') (\<lambda>p.
     bindP (observe (al_posix_memalign al p (SIZEOF_VOIDP pl) 0)) (\<lambda>(r, p).
     bindP (\<lambda>s. (Return (p_errno s), s)) (\<lambda>errno.
     bindP (CHERIOSTEST_VERIFY2 pl (r = 0) ''posix_memalign failed, errno %d'' [FInt errno]) (\<lambda>_.
     bindP (CHERIOSTEST_VERIFY2 pl (\<not> is_NULL p) ''posix_memalign returned NULL'' []) (\<lambda>_.
     bindP (effect (al_free al p)) (\<lambda>_.
     bindP (alloc_and_free pl al (al_memalign al (SIZEOF_VOIDP pl) 0) ''(ptr = memalign(sizeof(void *), 0)) != NULL'') (\<lambda>_.
     cheriostest_success)))))))))))))"

definition ptr_aligned :: "cap \<Rightarrow> nat \<Rightarrow> bool" where
  "ptr_aligned p n \<longleftrightarrow> unat (cap_addr p) mod n = 0"

definition align_message :: "string \<Rightarrow> string" where
  "align_message name = name @ ''(%#zx, MALLOCX_ALIGN(%#zx (%#x))) -> %#lp: Not correctly aligned! offset: %#zx'' @ [CHR 0x0A]"

definition align_args :: "int \<Rightarrow> nat \<Rightarrow> cap \<Rightarrow> cap farg list" where
  "align_args flags sz data = [FInt (int sz), FInt (int sz), FInt flags, FPtr data, FInt (int (unat (cap_addr data) mod sz))]"

definition check_mallocx :: "platform \<Rightarrow> 'h alloc_env \<Rightarrow> nat \<Rightarrow> ('h mem_world, unit) prog" where
  "check_mallocx pl al sz =
     bindP (observe (al_mallocx al sz (MALLOCX_ALIGN al sz))) (\<lambda>data. block
       [CHERIOSTEST_VERIFY2 pl (ptr_aligned data sz) (align_message ''mallocx'') (align_args (MALLOCX_ALIGN al sz) sz data),
        effect (al_free al data)])"

definition check_rallocx :: "platform \<Rightarrow> 'h alloc_env \<Rightarrow> nat \<Rightarrow> ('h mem_world, unit) prog" where
  "check_rallocx pl al sz =
     bindP (observe (al_malloc al 1)) (\<lambda>data.
     bindP (observe (al_rallocx al data sz (MALLOCX_ALIGN al sz))) (\<lambda>data.
     CHERIOSTEST_VERIFY2 pl (ptr_aligned data sz) (align_message ''rallocx'') (align_args (MALLOCX_ALIGN al sz) sz data)))"

definition align_sizes :: "nat list" where
  "align_sizes = [0x400, 0x800, 0x1000, 0x2000, 0x4000, 0x8000, 0x10000]"

definition mallocx_alignment :: "platform \<Rightarrow> 'h alloc_env \<Rightarrow> ('h mem_world, unit) prog" where
  "mallocx_alignment pl al = block (map (check_mallocx pl al) align_sizes @ [cheriostest_success])"

definition rallocx_alignment :: "platform \<Rightarrow> 'h alloc_env \<Rightarrow> ('h mem_world, unit) prog" where
  "rallocx_alignment pl al = block (map (check_rallocx pl al) align_sizes @ [cheriostest_success])"

section \<open>Programs that say whether they revoke\<close>

datatype revoke_ctl = PROC_CHERI_REVOKE_FORCE_ENABLE | PROC_CHERI_REVOKE_FORCE_DISABLE

text \<open>
  The calls of the tests that start a program. \<open>ct_execve\<close> fails, or starts the program at a path and says what \<^verbatim>\<open>malloc_revoke_enabled()\<close>
  gives there; \<open>ct_early_execve\<close> gives the heap that the constructor of \<^verbatim>\<open>malloc_early_constructor\<close> finds. \<open>ct_abort\<close> is the signal of \<^verbatim>\<open>abort()\<close>,
  and \<open>ct_fstypename\<close> what \<^verbatim>\<open>statfs\<close> says about a directory.
\<close>

record ('k, 'h) ctl_env =
  ct_fork :: "('k, int) sys"
  ct_procctl :: "revoke_ctl \<Rightarrow> ('k, unit) sys"
  ct_execve :: "string \<Rightarrow> ('k, bool) sys"
  ct_early_execve :: "string \<Rightarrow> ('k, 'h mem_world) sys"
  ct_early_alloc :: "'h alloc_env"
  ct_abort :: siginfo
  ct_exec :: exec_env
  ct_cached_dir :: string \<comment> \<open>the buffer \<^verbatim>\<open>helper_dir\<close>\<close>
  ct_running :: "string option" \<comment> \<open>the name of the test that runs\<close>
  ct_fstypename :: "string \<Rightarrow> string option"

abbreviation ct_helper_dir :: "platform \<Rightarrow> ('k, 'h) ctl_env \<Rightarrow> string cres" where
  "ct_helper_dir pl ce \<equiv> cheriostest_get_helper_dir pl (ct_exec ce) (ct_cached_dir ce)"

text \<open>\<^verbatim>\<open>main\<close> of \<^verbatim>\<open>malloc_revoke_enabled.c\<close>.\<close>

definition malloc_revoke_enabled_main :: "bool \<Rightarrow> int" where
  "malloc_revoke_enabled_main revoke_enabled = (if revoke_enabled then 0 else 1)"

text \<open>The constructor \<^verbatim>\<open>foo\<close> and \<^verbatim>\<open>main\<close> of \<^verbatim>\<open>malloc_early_constructor.c\<close>: the signal that ends them, or the exit status.\<close>

definition early_main :: "'h alloc_env \<Rightarrow> 'h mem_world \<Rightarrow> siginfo + int" where
  "early_main al w =
     (let (p, w) = al_malloc al 1 w; w = w\<lparr>held := (held w)(Ptr := p)\<rparr>
      in case al_free al (held w Ptr) w of (Some i, w) \<Rightarrow> Inl i | (None, w) \<Rightarrow> Inr 0)"

definition child_is_revoking :: "platform \<Rightarrow> wait_status \<Rightarrow> ('k, bool) prog" where
  "child_is_revoking pl res = (case res of
       WExited n \<Rightarrow> ret (n = 0)
     | _ \<Rightarrow> cheriostest_failure_errx pl ''child exec failed'' [])"

definition skip_need_suid_helpers_and_cheri_revoke :: "platform \<Rightarrow> ('k, 'h) ctl_env \<Rightarrow> bool \<Rightarrow> string option cres" where
  "skip_need_suid_helpers_and_cheri_revoke pl ce feature =
     (case skip_need_cheri_revoke pl feature of
        Some reason \<Rightarrow> COk (Some reason)
      | None \<Rightarrow> (case ct_helper_dir pl ce of
            CExit e \<Rightarrow> CExit e
          | COverflow \<Rightarrow> COverflow
          | COk dir \<Rightarrow> COk (case ct_fstypename ce dir of
                None \<Rightarrow> Some ''could not statfs the helper directory''
              | Some fs \<Rightarrow> if fs = ''p9fs'' then Some ''helpers are on p9fs, which ignores the setuid bit'' else None)))"

text \<open>What the new process does: the setting, the program, and \<^verbatim>\<open>abort()\<close> if it does not start.\<close>

definition exec_helper :: "platform \<Rightarrow> ('k, 'h) ctl_env \<Rightarrow> string \<Rightarrow> ('k, unit) prog" where
  "exec_helper pl ce progname =
     bindP (from_c (ct_helper_dir pl ce)) (\<lambda>dir.
     bindP (raw_call (ct_execve ce (dir @ ''/'' @ progname))) (\<lambda>r.
     case r of None \<Rightarrow> trap (ct_abort ce) | Some revoking \<Rightarrow> leave (malloc_revoke_enabled_main revoking)))"

definition ctl_child :: "platform \<Rightarrow> ('k, 'h) ctl_env \<Rightarrow> string \<Rightarrow> revoke_ctl option \<Rightarrow> ('k, unit) prog" where
  "ctl_child pl ce progname procctl_arg = block
     [case procctl_arg of
         None \<Rightarrow> ret ()
       | Some a \<Rightarrow> CHERIOSTEST_CHECK_SYSCALL pl (ct_procctl ce a) ''procctl(P_PID, getpid(), PROC_CHERI_REVOKE_CTL, procctl_arg)'',
      exec_helper pl ce progname]"

definition malloc_revocation_ctl_common_procctl ::
  "platform \<Rightarrow> ('k, 'h) ctl_env \<Rightarrow> string \<Rightarrow> bool \<Rightarrow> revoke_ctl option \<Rightarrow> ('k, unit) prog" where
  "malloc_revocation_ctl_common_procctl pl ce progname should_be_revoking procctl_arg =
     fork_then pl (ct_fork ce) (ctl_child pl ce progname procctl_arg) (\<lambda>res.
     bindP (child_is_revoking pl res) (\<lambda>revoking.
     if revoking = should_be_revoking then cheriostest_success
     else if should_be_revoking then cheriostest_failure_errx pl ''child is not revoking and should be'' []
     else cheriostest_failure_errx pl ''child is revoking and should not be'' []))"

definition malloc_revocation_ctl_common :: "platform \<Rightarrow> ('k, 'h) ctl_env \<Rightarrow> string \<Rightarrow> bool \<Rightarrow> ('k, unit) prog" where
  "malloc_revocation_ctl_common pl ce progname should_be_revoking =
     malloc_revocation_ctl_common_procctl pl ce progname should_be_revoking None"

text \<open>
  The tests as the rows of a table: name, the \<^verbatim>\<open>ct_check_skip\<close> function, the program, whether it should revoke, and the setting. The body
  of each is \<open>malloc_revocation_ctl_common_procctl\<close> on its row; without a setting through \<open>malloc_revocation_ctl_common\<close>.
\<close>

datatype ctl_skip = skip_default | skip_revoke | skip_suid_helpers

record ctl_test =
  cl_name :: string
  cl_skip :: ctl_skip
  cl_progname :: string
  cl_should_be_revoking :: bool
  cl_procctl :: "revoke_ctl option"

definition ctl_tests :: "ctl_test list" where
  "ctl_tests =
     [\<lparr>cl_name = ''malloc_revocation_ctl_baseline'', cl_skip = skip_default, cl_progname = ''malloc_revoke_enabled'',
       cl_should_be_revoking = True, cl_procctl = None\<rparr>,
      \<lparr>cl_name = ''malloc_revocation_ctl_elfnote_disable'', cl_skip = skip_revoke, cl_progname = ''malloc_revoke_enabled_elfnote_disable'',
       cl_should_be_revoking = False, cl_procctl = None\<rparr>,
      \<lparr>cl_name = ''malloc_revocation_ctl_elfnote_enable'', cl_skip = skip_revoke, cl_progname = ''malloc_revoke_enabled_elfnote_enable'',
       cl_should_be_revoking = True, cl_procctl = None\<rparr>,
      \<lparr>cl_name = ''malloc_revocation_ctl_elfnote_disable_protctl_enable'', cl_skip = skip_revoke, cl_progname = ''malloc_revoke_enabled_elfnote_disable'',
       cl_should_be_revoking = True, cl_procctl = Some PROC_CHERI_REVOKE_FORCE_ENABLE\<rparr>,
      \<lparr>cl_name = ''malloc_revocation_ctl_elfnote_enable_protctl_disable'', cl_skip = skip_revoke, cl_progname = ''malloc_revoke_enabled_elfnote_enable'',
       cl_should_be_revoking = False, cl_procctl = Some PROC_CHERI_REVOKE_FORCE_DISABLE\<rparr>,
      \<lparr>cl_name = ''malloc_revocation_ctl_suid_baseline'', cl_skip = skip_default, cl_progname = ''malloc_revoke_enabled_suid'',
       cl_should_be_revoking = True, cl_procctl = None\<rparr>,
      \<lparr>cl_name = ''malloc_revocation_ctl_suid_elfnote_disable'', cl_skip = skip_revoke, cl_progname = ''malloc_revoke_enabled_elfnote_disable'',
       cl_should_be_revoking = False, cl_procctl = None\<rparr>,
      \<lparr>cl_name = ''malloc_revocation_ctl_suid_elfnote_enable'', cl_skip = skip_revoke, cl_progname = ''malloc_revoke_enabled_elfnote_enable'',
       cl_should_be_revoking = True, cl_procctl = None\<rparr>,
      \<lparr>cl_name = ''malloc_revocation_ctl_suid_elfnote_disable_protctl_enable'', cl_skip = skip_suid_helpers,
       cl_progname = ''malloc_revoke_enabled_suid_elfnote_disable'', cl_should_be_revoking = False, cl_procctl = Some PROC_CHERI_REVOKE_FORCE_ENABLE\<rparr>,
      \<lparr>cl_name = ''malloc_revocation_ctl_suid_elfnote_enable_protctl_disable'', cl_skip = skip_suid_helpers,
       cl_progname = ''malloc_revoke_enabled_suid_elfnote_enable'', cl_should_be_revoking = True, cl_procctl = Some PROC_CHERI_REVOKE_FORCE_DISABLE\<rparr>]"

definition run_ctl_test :: "platform \<Rightarrow> ('k, 'h) ctl_env \<Rightarrow> ctl_test \<Rightarrow> ('k, unit) prog" where
  "run_ctl_test pl ce t = (case cl_procctl t of
       None \<Rightarrow> malloc_revocation_ctl_common pl ce (cl_progname t) (cl_should_be_revoking t)
     | Some a \<Rightarrow> malloc_revocation_ctl_common_procctl pl ce (cl_progname t) (cl_should_be_revoking t) (Some a))"

definition malloc_early_constructor :: "platform \<Rightarrow> ('k, 'h) ctl_env \<Rightarrow> ('k, unit) prog" where
  "malloc_early_constructor pl ce =
     bindP (from_c (cheriostest_get_helper_path pl (ct_exec ce) (ct_cached_dir ce) (ct_running ce))) (\<lambda>path.
     case path of None \<Rightarrow> (\<lambda>s. (Undefined, s)) | Some helper_path \<Rightarrow>
     fork_then pl (ct_fork ce)
       (bindP (raw_call (ct_early_execve ce helper_path)) (\<lambda>r. case r of
            None \<Rightarrow> trap (ct_abort ce)
          | Some w \<Rightarrow> (case early_main (ct_early_alloc ce) w of Inl i \<Rightarrow> trap i | Inr n \<Rightarrow> leave n)))
       (\<lambda>res. if res = WExited 0 then cheriostest_success
              else cheriostest_failure_errx pl ''child %s exited improperly'' [FStr helper_path]))"

text \<open>
  How \<^verbatim>\<open>malloc_revoke_enabled/CMakeLists.txt\<close> makes a variant of the program: a copy, with the note changed if there is something to set.
  The result is \<open>None\<close> when the tool fails, which stops the build.
\<close>

definition add_variant :: "byte list \<Rightarrow> string \<Rightarrow> byte list option" where
  "add_variant program features =
     (if features = '''' then Some program
      else case tool_on ''out'' features program of (status, out) \<Rightarrow> if status = 0 then Some out else None)"

definition variants :: "(string \<times> string \<times> bool) list" where
  "variants =
     [(''malloc_revoke_enabled'', '''', False),
      (''malloc_revoke_enabled_elfnote_disable'', ''+nocherirevoke'', False),
      (''malloc_revoke_enabled_elfnote_enable'', ''+cherirevoke'', False),
      (''malloc_revoke_enabled_suid'', '''', True),
      (''malloc_revoke_enabled_suid_elfnote_disable'', ''+nocherirevoke'', True),
      (''malloc_revoke_enabled_suid_elfnote_enable'', ''+cherirevoke'', True)]"

text \<open>The directory of the programs after the build: content and set-user-id bit.\<close>

definition installed :: "byte list \<Rightarrow> string \<Rightarrow> string \<rightharpoonup> byte list \<times> bool" where
  "installed program dir path =
     (case find (\<lambda>(name, features, suid). path = dir @ ''/'' @ name) variants of
        None \<Rightarrow> None
      | Some (name, features, suid) \<Rightarrow> map_option (\<lambda>file_bytes. (file_bytes, suid)) (add_variant program features))"

end
