(* ===== verification/Allocator_Proofs.thy ===== *)
theory Allocator_Proofs
  imports Allocator Verdict
begin

text \<open>
  The tests of the allocator against a contract: what \<^verbatim>\<open>malloc\<close>, \<^verbatim>\<open>free\<close> and the calls that revoke promise is the locale \<open>quarantining\<close>, and the
  verdicts of the tests follow from it. The locale is interpreted on an allocator that keeps lists of its objects, with a limit on
  their number and a set of variables that its revoker reaches.
\<close>

section \<open>The contract\<close>

text \<open>A call may clear the tags of variables that hold quarantined pointers; a flush clears all that it reaches.\<close>

definition may_sweep :: "(cell \<Rightarrow> bool) \<Rightarrow> (cap \<Rightarrow> bool) \<Rightarrow> (cell \<Rightarrow> cap) \<Rightarrow> (cell \<Rightarrow> cap) \<Rightarrow> bool" where
  "may_sweep reached q m m' \<longleftrightarrow> (\<forall>c. m' c = m c \<or> reached c \<and> q (m c) \<and> m' c = cheri_tag_clear (m c))"

definition sweep :: "(cell \<Rightarrow> bool) \<Rightarrow> (cap \<Rightarrow> bool) \<Rightarrow> (cell \<Rightarrow> cap) \<Rightarrow> cell \<Rightarrow> cap" where
  "sweep reached q m c = (if reached c \<and> q (m c) then cheri_tag_clear (m c) else m c)"

lemma may_sweep_refl [simp]: "may_sweep reached q m m"
  by (simp add: may_sweep_def)

lemma may_sweep_sweep [simp]: "may_sweep reached q m (sweep reached q m)"
  by (simp add: may_sweep_def sweep_def)

locale quarantining =
  fixes al :: "'h alloc_env"
    and inv :: "'h mem_world \<Rightarrow> bool"
    and live :: "'h mem_world \<Rightarrow> cap \<Rightarrow> bool" and exempt :: "'h mem_world \<Rightarrow> cap \<Rightarrow> bool" and quarantined :: "'h mem_world \<Rightarrow> cap \<Rightarrow> bool"
    and reached :: "cell \<Rightarrow> bool"
    and abort_info :: siginfo
  assumes held_frame: "inv (w\<lparr>held := m\<rparr>) = inv w" "live (w\<lparr>held := m\<rparr>) = live w" "exempt (w\<lparr>held := m\<rparr>) = exempt w"
      "quarantined (w\<lparr>held := m\<rparr>) = quarantined w"
    and live_tagged: "inv w \<Longrightarrow> live w p \<Longrightarrow> cap_tag p \<and> \<not> is_NULL p \<and> \<not> quarantined w p"
    and malloc_law: "inv w \<Longrightarrow> al_malloc al n w = (p, w') \<Longrightarrow>
      inv w' \<and> may_sweep reached (quarantined w) (held w) (held w') \<and> (\<forall>q. live w q \<longrightarrow> live w' q \<and> exempt w' q = exempt w q) \<and>
      (is_NULL p \<and> \<not> cap_tag p \<or> live w' p \<and> \<not> live w p \<and> \<not> exempt w' p)"
    and no_quarantine_law: "inv w \<Longrightarrow> al_no_quarantine al n w = (p, w') \<Longrightarrow>
      inv w' \<and> may_sweep reached (quarantined w) (held w) (held w') \<and> (is_NULL p \<and> \<not> cap_tag p \<or> live w' p \<and> exempt w' p)"
    and free_null: "inv w \<Longrightarrow> is_NULL p \<Longrightarrow> al_free al p w = (None, w)"
    and free_live: "inv w \<Longrightarrow> live w p \<Longrightarrow> \<exists>w'. al_free al p w = (None, w') \<and> inv w' \<and>
      may_sweep reached (\<lambda>q. quarantined w q \<or> q = p \<and> \<not> exempt w p) (held w) (held w') \<and>
      \<not> live w' p \<and> (exempt w p \<longrightarrow> \<not> quarantined w' p) \<and> (\<not> exempt w p \<longrightarrow> (\<forall>c. held w c = p \<longrightarrow> held w' c = p \<longrightarrow> quarantined w' p)) \<and>
      (\<forall>q. live w q \<longrightarrow> q \<noteq> p \<longrightarrow> live w' q \<and> exempt w' q = exempt w q)"
    and free_again: "inv w \<Longrightarrow> \<not> live w p \<Longrightarrow> \<not> is_NULL p \<Longrightarrow> fst (al_free al p w) = Some abort_info"
    and flush_law: "inv w \<Longrightarrow> \<exists>w'. al_force_flush al w = (0, w') \<and> inv w' \<and> held w' = sweep reached (quarantined w) (held w) \<and>
      (\<forall>q. live w q \<longrightarrow> live w' q \<and> exempt w' q = exempt w q)"
    and revoke_law: "inv w \<Longrightarrow> inv (al_revoke al w) \<and> held (al_revoke al w) = sweep reached (quarantined w) (held w)"
begin

lemma clear_untagged: "\<not> cap_tag p \<Longrightarrow> cheri_tag_clear p = p"
  by (simp add: cheri_tag_clear_def)

lemma sweep_same: "\<not> cap_tag (m c) \<Longrightarrow> sweep reached q m c = m c"
  by (simp add: sweep_def clear_untagged)

lemma may_sweep_same: "may_sweep reached q m m' \<Longrightarrow> \<not> cap_tag (m c) \<Longrightarrow> m' c = m c"
  unfolding may_sweep_def using clear_untagged by metis

lemma sweep_untagged: "\<not> cap_tag (m c) \<Longrightarrow> \<not> cap_tag (sweep reached q m c)"
  by (simp add: sweep_def cheri_tag_clear_def)

text \<open>Freeing and flushing: what was freed is gone where the revoker reaches, and the other live pointers are as before.\<close>

lemma free_swept:
  assumes "inv w" and "is_NULL p \<and> \<not> cap_tag p \<or> live w p \<and> \<not> exempt w p"
  obtains w' where "al_free al p w = (None, w')" "inv w'"
    "\<And>c. held w c = p \<Longrightarrow> cap_tag (sweep reached (quarantined w') (held w') c) \<longleftrightarrow> cap_tag p \<and> \<not> reached c"
    "\<And>q c. live w q \<Longrightarrow> q \<noteq> p \<Longrightarrow> held w c = q \<Longrightarrow> held w' c = q"
    "\<And>c. \<not> cap_tag (held w c) \<Longrightarrow> held w' c = held w c"
    "\<And>q. live w q \<Longrightarrow> q \<noteq> p \<Longrightarrow> live w' q \<and> exempt w' q = exempt w q"
proof (cases "is_NULL p")
  case True
  then have "\<not> cap_tag p" using assms live_tagged by blast
  then show thesis using that [of w] free_null [OF assms(1) True] assms(1) sweep_untagged by auto
next
  case False
  then have l: "live w p" "\<not> exempt w p" using assms(2) by auto
  then have t: "cap_tag p" using live_tagged assms(1) by blast
  from free_live [OF assms(1) l(1)] obtain w' where f: "al_free al p w = (None, w')" "inv w'"
    and m: "may_sweep reached (\<lambda>q. quarantined w q \<or> q = p \<and> \<not> exempt w p) (held w) (held w')"
    and g: "\<And>c. held w c = p \<Longrightarrow> held w' c = p \<Longrightarrow> quarantined w' p"
    and o: "\<And>q. live w q \<Longrightarrow> q \<noteq> p \<Longrightarrow> live w' q \<and> exempt w' q = exempt w q" using l(2) by auto
  have c: "cap_tag (sweep reached (quarantined w') (held w') c) \<longleftrightarrow> \<not> reached c" if "held w c = p" for c
  proof (cases "held w' c = p")
    case True
    with g [OF that] t show ?thesis by (simp add: sweep_def cheri_tag_clear_def)
  next
    case False
    then have "reached c" "held w' c = cheri_tag_clear p" using m that unfolding may_sweep_def by metis+
    then show ?thesis using sweep_untagged [of "held w'" c] by (simp add: cheri_tag_clear_def)
  qed
  have "held w' c = q" if "live w q" "q \<noteq> p" "held w c = q" for q c
    using m that live_tagged [OF assms(1) that(1)] unfolding may_sweep_def by metis
  then show thesis using that [OF f] c t o may_sweep_same [OF m] by simp
qed

lemma malloc_cells:
  assumes "inv w" "al_malloc al n w = (p, w')" "v = w'\<lparr>held := (held w')(x := p, e := p)\<rparr>"
  shows "inv v" "is_NULL p \<and> \<not> cap_tag p \<or> live v p \<and> \<not> exempt v p" "held v x = p" "held v e = p" "cap_tag p \<longleftrightarrow> \<not> is_NULL p"
  using malloc_law [OF assms(1,2)] live_tagged [of w' p] unfolding assms(3) by (auto simp: held_frame)

lemma flushed:
  assumes "inv w"
  obtains w' where "al_force_flush al w = (0, w')" "inv w'" "held w' = sweep reached (quarantined w) (held w)"
    "\<And>q. live w q \<Longrightarrow> live w' q \<and> exempt w' q = exempt w q"
  using flush_law [OF assms] by blast

lemma kept_live: "inv w \<Longrightarrow> live w q \<Longrightarrow> held w c = q \<Longrightarrow> sweep reached (quarantined w) (held w) c = q"
  using live_tagged [of w q] by (auto simp: sweep_def)

end

section \<open>Statements on the variables\<close>

lemma success_cells [passes_simps]:
  "declares_success (bindP (set_cells e p v) g) s \<longleftrightarrow>
     declares_success (g ()) (s\<lparr>p_world := (p_world s)\<lparr>held := (held (p_world s))(p := v, e := v)\<rparr>\<rparr>)"
  "declares_success (bindP (free_cell al c) g) s \<longleftrightarrow>
     fst (al_free al (held (p_world s) c) (p_world s)) = None \<and>
     declares_success (g ()) (s\<lparr>p_world := snd (al_free al (held (p_world s) c) (p_world s))\<rparr>)"
  "declares_success (bindP (verify_tag pl c tagged msg) g) s \<longleftrightarrow> cap_tag (held (p_world s) c) = tagged \<and> declares_success (g ()) s"
  "declares_success (bindP (force_flush pl al) g) s \<longleftrightarrow>
     fst (al_force_flush al (p_world s)) = 0 \<and> declares_success (g ()) (s\<lparr>p_world := snd (al_force_flush al (p_world s))\<rparr>)"
  by (simp_all add: set_cells_def free_cell_def verify_tag_def force_flush_def read_cell_def bindP_assoc passes_simps cap_simps)

section \<open>Verdicts\<close>

context quarantining
begin

lemma flush_basic_verdict:
  assumes "inv (p_world s)" "p_ccsp s \<noteq> None"
  shows "declares_success (malloc_revoke_quarantine_force_flush_basic pl al) s \<longleftrightarrow>
    is_NULL (fst (al_malloc al 1 (p_world s))) \<or> reached Ptr \<and> reached Eptr"
proof -
  obtain p w where a: "al_malloc al 1 (p_world s) = (p, w)" by fastforce
  let ?v = "w\<lparr>held := (held w)(Ptr := p, Eptr := p)\<rparr>"
  note v = malloc_cells [OF assms(1) a, of ?v Ptr Eptr, OF refl]
  from free_swept [OF v(1,2)] obtain w2 where f: "al_free al p ?v = (None, w2)" "inv w2"
    "\<And>c. held ?v c = p \<Longrightarrow> cap_tag (sweep reached (quarantined w2) (held w2) c) \<longleftrightarrow> cap_tag p \<and> \<not> reached c" by metis
  from flushed [OF f(2)] obtain w3 where g: "al_force_flush al w2 = (0, w3)" "held w3 = sweep reached (quarantined w2) (held w2)" by metis
  show ?thesis using assms(2) v(3-5) f(3) [OF v(3)] f(3) [OF v(4)]
    by (auto simp: malloc_revoke_quarantine_force_flush_basic_def passes_simps a f(1) g simp del: One_nat_def)
qed

lemma revoke_basic_verdict:
  assumes "inv (p_world s)" "p_ccsp s \<noteq> None" "pl_os pl = CheriBSD"
  shows "declares_success (malloc_revoke_basic pl al) s \<longleftrightarrow>
    is_NULL (fst (al_malloc al 1 (p_world s))) \<or> reached Ptr \<and> reached Eptr"
proof -
  obtain p w where a: "al_malloc al 1 (p_world s) = (p, w)" by fastforce
  let ?v = "w\<lparr>held := (held w)(Ptr := p, Eptr := p)\<rparr>"
  note v = malloc_cells [OF assms(1) a, of ?v Ptr Eptr, OF refl]
  from free_swept [OF v(1,2)] obtain w2 where f: "al_free al p ?v = (None, w2)" "inv w2"
    "\<And>c. held ?v c = p \<Longrightarrow> cap_tag (sweep reached (quarantined w2) (held w2) c) \<longleftrightarrow> cap_tag p \<and> \<not> reached c" by metis
  show ?thesis using assms(2) v(3-5) f(3) [OF v(3)] f(3) [OF v(4)] revoke_law [OF f(2)]
    by (auto simp: malloc_revoke_basic_def on_CheriBSD_def assms(3) passes_simps a f(1) simp del: One_nat_def)
qed

lemma no_quarantine_verdict:
  assumes "inv (p_world s)" "p_ccsp s \<noteq> None"
  shows "declares_success (malloc_no_quarantine_not_revoked pl al) s \<longleftrightarrow> \<not> is_NULL (fst (al_no_quarantine al 1 (p_world s)))"
proof -
  obtain p w where a: "al_no_quarantine al 1 (p_world s) = (p, w)" by fastforce
  let ?v = "w\<lparr>held := (held w)(Ptr := p, Eptr := p)\<rparr>"
  have law: "inv ?v" "is_NULL p \<and> \<not> cap_tag p \<or> live ?v p \<and> exempt ?v p" using no_quarantine_law [OF assms(1) a] by (simp_all add: held_frame)
  show ?thesis
  proof (cases "is_NULL p")
    case True
    then have "\<not> cap_tag p" using law live_tagged by blast
    then have "\<not> cap_tag (sweep reached (quarantined ?v) (held ?v) Ptr)" by (intro sweep_untagged) simp
    moreover obtain w3 where "al_force_flush al ?v = (0, w3)" "held w3 = sweep reached (quarantined ?v) (held ?v)" using flushed [OF law(1)] by metis
    ultimately show ?thesis using True
      by (simp add: malloc_no_quarantine_not_revoked_def passes_simps a free_null [OF law(1) True] del: One_nat_def)
  next
    case False
    then have l: "live ?v p" "exempt ?v p" using law by auto
    then have t: "cap_tag p" "\<not> quarantined ?v p" using live_tagged law(1) by blast+
    from free_live [OF law(1) l(1)] l(2) obtain w2 where f: "al_free al p ?v = (None, w2)" "inv w2" "\<not> quarantined w2 p"
      "may_sweep reached (quarantined ?v) (held ?v) (held w2)" by auto
    have h: "held w2 c = p" if "held ?v c = p" for c using f(4) t(2) that unfolding may_sweep_def by metis
    from flushed [OF f(2)] obtain w3 where g: "al_force_flush al w2 = (0, w3)" "held w3 = sweep reached (quarantined w2) (held w2)" by metis
    have "held w3 Ptr = p" "held w3 Eptr = p" unfolding g(2) sweep_def using f(3) h [of Ptr] h [of Eptr] by simp_all
    then show ?thesis using False assms(2) t by (simp add: malloc_no_quarantine_not_revoked_def passes_simps a f(1) g(1) del: One_nat_def)
  qed
qed

lemma double_free_verdict:
  assumes "inv (p_world s)" "pl_os pl = CheriBSD"
  shows "if is_NULL (fst (al_malloc al 2 (p_world s))) then fst (malloc_double_free pl al s) = Exited EX_SOFTWARE
    else \<exists>w. malloc_double_free pl al s = (Trapped abort_info, s\<lparr>p_world := w\<rparr>)"
proof -
  obtain p w where a: "al_malloc al 2 (p_world s) = (p, w)" by fastforce
  let ?v = "w\<lparr>held := (held w)(Ptr := p, Eptr := p)\<rparr>"
  note v = malloc_cells [OF assms(1) a, of ?v Ptr Eptr, OF refl]
  note run = malloc_double_free_def on_CheriBSD_def assms(2) bindP_def observe_def set_cells_def upd_world_def free_cell_def read_cell_def effect_def
    cheriostest_failure_errx_def a
  show ?thesis
  proof (cases "is_NULL p")
    case True
    then show ?thesis by (simp add: run free_null [OF v(1) True])
  next
    case False
    then have "live ?v p" "\<not> exempt ?v p" using v(2) by auto
    from free_live [OF v(1) this(1)] this(2) obtain w2 where f: "al_free al p ?v = (None, w2)" "inv w2" "\<not> live w2 p"
      and m: "may_sweep reached (\<lambda>q. quarantined ?v q \<or> q = p) (held ?v) (held w2)" by auto
    have "held w2 Ptr = p \<or> held w2 Ptr = cheri_tag_clear p" using m v(3) unfolding may_sweep_def by metis
    then have "\<not> is_NULL (held w2 Ptr)" "\<not> live w2 (held w2 Ptr)"
      using False f(2,3) live_tagged [of w2 "held w2 Ptr"] by (auto simp: is_NULL_def cheri_tag_clear_def)
    then obtain w3 where "al_free al (held w2 Ptr) w2 = (Some abort_info, w3)" using free_again [OF f(2)] by (metis prod.collapse)
    then show ?thesis using False by (simp add: run f(1)) blast
  qed
qed

lemma flush_twice_verdict:
  assumes "inv (p_world s)" "p_ccsp s \<noteq> None" "al_malloc al 1 (p_world s) = (p1, w1)"
    "al_malloc al 1 (w1\<lparr>held := (held w1)(Ptr1 := p1, Eptr1 := p1)\<rparr>) = (p2, w2)"
  shows "declares_success (malloc_revoke_quarantine_force_flush_twice pl al) s \<longleftrightarrow>
    (is_NULL p1 \<or> reached Ptr1 \<and> reached Eptr1) \<and> (is_NULL p2 \<or> reached Ptr2 \<and> reached Eptr2)"
proof -
  let ?v1 = "w1\<lparr>held := (held w1)(Ptr1 := p1, Eptr1 := p1)\<rparr>" and ?v2 = "w2\<lparr>held := (held w2)(Ptr2 := p2, Eptr2 := p2)\<rparr>"
  note c1 = malloc_cells [OF assms(1,3), of ?v1 Ptr1 Eptr1, OF refl]
  note c2 = malloc_cells [OF c1(1) assms(4), of ?v2 Ptr2 Eptr2, OF refl]
  note law = malloc_law [OF c1(1) assms(4)]
  have "held w2 c = p1" if "held ?v1 c = p1" for c
    using law c1(2) that live_tagged [OF c1(1), of p1] may_sweep_same [of "quarantined ?v1" "held ?v1" "held w2" c] unfolding may_sweep_def by metis
  then have h: "held ?v2 Ptr1 = p1" "held ?v2 Eptr1 = p1" using c1(3,4) by simp_all
  have l1: "is_NULL p1 \<and> \<not> cap_tag p1 \<or> live ?v2 p1 \<and> \<not> exempt ?v2 p1" using c1(2) law by (auto simp: held_frame)
  obtain w3 where f: "al_free al p1 ?v2 = (None, w3)" "inv w3"
    "\<And>c. held ?v2 c = p1 \<Longrightarrow> cap_tag (sweep reached (quarantined w3) (held w3) c) \<longleftrightarrow> cap_tag p1 \<and> \<not> reached c"
    "\<And>q c. live ?v2 q \<Longrightarrow> q \<noteq> p1 \<Longrightarrow> held ?v2 c = q \<Longrightarrow> held w3 c = q" "\<And>c. \<not> cap_tag (held ?v2 c) \<Longrightarrow> held w3 c = held ?v2 c"
    "\<And>q. live ?v2 q \<Longrightarrow> q \<noteq> p1 \<Longrightarrow> live w3 q \<and> exempt w3 q = exempt ?v2 q" by (rule free_swept [OF c2(1) l1]) (rule that)
  from flushed [OF f(2)] obtain w4 where g: "al_force_flush al w3 = (0, w4)" "inv w4" "held w4 = sweep reached (quarantined w3) (held w3)"
    "\<And>q. live w3 q \<Longrightarrow> live w4 q \<and> exempt w4 q = exempt w3 q" by metis
  have second: "held w4 c = p2" if "held ?v2 c = p2" for c
  proof (cases "is_NULL p2")
    case True
    then show ?thesis unfolding g(3) using c2(5) f(5) [of c] that sweep_same [of "held w3" c] by simp
  next
    case False
    then have l2: "live ?v2 p2" "p2 \<noteq> p1" using c2(2) law c1(2) by (auto simp: held_frame)
    then show ?thesis unfolding g(3) using kept_live [OF f(2)] f(4,6) that by blast
  qed
  have l2: "is_NULL p2 \<and> \<not> cap_tag p2 \<or> live w4 p2 \<and> \<not> exempt w4 p2"
    using c2(2) law c1(2) f(6) [of p2] g(4) [of p2] by (auto simp: held_frame)
  from free_swept [OF g(2) l2] obtain w5 where i: "al_free al p2 w4 = (None, w5)" "inv w5"
    "\<And>c. held w4 c = p2 \<Longrightarrow> cap_tag (sweep reached (quarantined w5) (held w5) c) \<longleftrightarrow> cap_tag p2 \<and> \<not> reached c" by metis
  from flushed [OF i(2)] obtain w6 where j: "al_force_flush al w5 = (0, w6)" "held w6 = sweep reached (quarantined w5) (held w5)" by metis
  have t1: "cap_tag (held w4 Ptr1) \<longleftrightarrow> cap_tag p1 \<and> \<not> reached Ptr1" "cap_tag (held w4 Eptr1) \<longleftrightarrow> cap_tag p1 \<and> \<not> reached Eptr1"
    unfolding g(3) using f(3) h by blast+
  have t2: "cap_tag (held w6 Ptr2) \<longleftrightarrow> cap_tag p2 \<and> \<not> reached Ptr2" "cap_tag (held w6 Eptr2) \<longleftrightarrow> cap_tag p2 \<and> \<not> reached Eptr2"
    unfolding j(2) using i(3) second c2(3,4) by blast+
  have "declares_success (malloc_revoke_quarantine_force_flush_twice pl al) s \<longleftrightarrow>
      \<not> cap_tag (held w4 Ptr1) \<and> \<not> cap_tag (held w4 Eptr1) \<and> \<not> cap_tag (held w6 Ptr2) \<and> \<not> cap_tag (held w6 Eptr2)"
    using assms(2) h(1) second [OF c2(3)]
    by (simp add: malloc_revoke_quarantine_force_flush_twice_def passes_simps assms(3,4) f(1) g(1) i(1) j(1) del: One_nat_def)
  then show ?thesis using t1 t2 c1(5) c2(5) by blast
qed

end

section \<open>An allocator with lists\<close>

text \<open>
  Objects are numbered. \<open>limit\<close> is how many there can be, after which allocation fails, and \<open>reached\<close> the variables whose tags the
  revoker can clear. There are no objects with large alignments.
\<close>

record quar_heap =
  next_obj :: nat
  live_objs :: "cap list"
  quar :: "cap list"
  unquarantined :: "cap list" \<comment> \<open>made by \<^verbatim>\<open>malloc_no_quarantine\<close>\<close>

definition obj :: "nat \<Rightarrow> cap" where
  "obj n = \<lparr>cap_tag = True, cap_addr = of_nat (16 * Suc n), cap_base = of_nat (16 * Suc n), cap_len = 16, cap_perms = 0, cap_otype = - 1, cap_flags = 0\<rparr>"

definition no_obj :: cap where
  "no_obj = (obj 0)\<lparr>cap_tag := False, cap_addr := 0\<rparr>"

definition take_obj :: "nat \<Rightarrow> bool \<Rightarrow> quar_heap mem_world \<Rightarrow> cap \<times> quar_heap mem_world" where
  "take_obj limit unq w =
     (let h = heap w; p = obj (next_obj h)
      in if next_obj h < limit
         then (p, w\<lparr>heap := h\<lparr>next_obj := Suc (next_obj h), live_objs := p # live_objs h,
                             unquarantined := (if unq then p # unquarantined h else unquarantined h)\<rparr>\<rparr>)
         else (no_obj, w))"

definition free_obj :: "siginfo \<Rightarrow> cap \<Rightarrow> quar_heap mem_world \<Rightarrow> siginfo option \<times> quar_heap mem_world" where
  "free_obj abort_info p w =
     (let h = heap w
      in if is_NULL p then (None, w)
         else if p \<notin> set (live_objs h) then (Some abort_info, w)
         else (None, w\<lparr>heap := h\<lparr>live_objs := removeAll p (live_objs h),
                                quar := (if p \<in> set (unquarantined h) then quar h else p # quar h)\<rparr>\<rparr>))"

definition quarantined_obj :: "quar_heap mem_world \<Rightarrow> cap \<Rightarrow> bool" where
  "quarantined_obj w p \<longleftrightarrow> p \<in> set (quar (heap w))"

definition sweep_objs :: "(cell \<Rightarrow> bool) \<Rightarrow> quar_heap mem_world \<Rightarrow> quar_heap mem_world" where
  "sweep_objs reached w = w\<lparr>held := sweep reached (quarantined_obj w) (held w), heap := (heap w)\<lparr>quar := []\<rparr>\<rparr>"

definition quar_env :: "(cell \<Rightarrow> bool) \<Rightarrow> nat \<Rightarrow> siginfo \<Rightarrow> quar_heap alloc_env" where
  "quar_env reached limit abort_info =
     \<lparr>al_malloc = (\<lambda>n. take_obj limit False), al_calloc = (\<lambda>n m. take_obj limit False), al_realloc = (\<lambda>p n. take_obj limit False),
      al_aligned_alloc = (\<lambda>a n. take_obj limit False),
      al_posix_memalign = (\<lambda>p a n w. case take_obj limit False w of (q, w') \<Rightarrow> (if is_NULL q then (12, p) else (0, q), w')),
      al_memalign = (\<lambda>a n. take_obj limit False), MALLOCX_ALIGN = (\<lambda>n. 0), al_mallocx = (\<lambda>n f w. (no_obj, w)), al_rallocx = (\<lambda>p n f w. (no_obj, w)),
      al_no_quarantine = (\<lambda>n. take_obj limit True), al_free = free_obj abort_info, al_revoke = sweep_objs reached,
      al_force_flush = (\<lambda>w. (0, sweep_objs reached w))\<rparr>"

definition quar_ok :: "quar_heap mem_world \<Rightarrow> bool" where
  "quar_ok w \<longleftrightarrow> (let h = heap w; objs = obj ` {..<next_obj h}
     in next_obj h \<le> 2 ^ 32 \<and> set (live_objs h) \<subseteq> objs \<and> set (quar h) \<subseteq> objs \<and> set (unquarantined h) \<subseteq> objs \<and> set (live_objs h) \<inter> set (quar h) = {})"

lemma obj_address:
  assumes "n < 2 ^ 32"
  shows "unat (cap_addr (obj n)) = 16 * Suc n"
proof -
  have "unat (of_nat (16 * Suc n) :: 64 word) = 16 * Suc n" unfolding unat_of_nat using assms by simp
  then show ?thesis by (simp only: obj_def cap.simps)
qed

lemma obj_inj:
  assumes "m < 2 ^ 32" "n < 2 ^ 32" "obj m = obj n"
  shows "m = n"
proof -
  have "16 * Suc m = 16 * Suc n" unfolding obj_address [OF assms(1), symmetric] obj_address [OF assms(2), symmetric] assms(3) by (rule refl)
  then show ?thesis by simp
qed

lemma obj_not_null: "n < 2 ^ 32 \<Longrightarrow> \<not> is_NULL (obj n)"
  using obj_address [of n] by (auto simp: is_NULL_def)

lemma obj_new:
  assumes "xs \<subseteq> obj ` {..<n}" "n < 2 ^ 32"
  shows "obj n \<notin> xs"
proof
  assume "obj n \<in> xs"
  then obtain m where "m < n" "obj n = obj m" using assms(1) by blast
  then show False using obj_inj [of n m] assms(2) by linarith
qed

lemma no_obj_simps [simp]: "is_NULL no_obj" "\<not> cap_tag no_obj"
  by (simp_all add: is_NULL_def no_obj_def)

lemma take_obj_law:
  assumes "quar_ok w" "take_obj limit unq w = (p, w')" "limit \<le> 2 ^ 32"
  shows "quar_ok w'" "held w' = held w" "\<And>q. q \<in> set (live_objs (heap w)) \<Longrightarrow> q \<in> set (live_objs (heap w'))"
    "\<And>q. q \<in> set (live_objs (heap w)) \<Longrightarrow> q \<in> set (unquarantined (heap w')) \<longleftrightarrow> q \<in> set (unquarantined (heap w))"
    "is_NULL p \<and> \<not> cap_tag p \<or>
      p \<in> set (live_objs (heap w')) \<and> p \<notin> set (live_objs (heap w)) \<and> (p \<in> set (unquarantined (heap w')) \<longleftrightarrow> unq)"
proof -
  let ?h = "heap w" and ?n = "next_obj (heap w)"
  have i: "?n \<le> 2 ^ 32" "set (live_objs ?h) \<subseteq> obj ` {..<?n}" "set (quar ?h) \<subseteq> obj ` {..<?n}" "set (unquarantined ?h) \<subseteq> obj ` {..<?n}"
    "set (live_objs ?h) \<inter> set (quar ?h) = {}" using assms(1) by (auto simp: quar_ok_def Let_def)
  have new: "obj ?n \<notin> set (live_objs ?h)" "obj ?n \<notin> set (quar ?h)" "obj ?n \<notin> set (unquarantined ?h)" if "?n < limit"
    using that assms(3) obj_new [of _ ?n] i by auto
  show "quar_ok w'" using assms(2,3) i new by (auto simp: quar_ok_def take_obj_def Let_def lessThan_Suc split: if_splits)
  show "held w' = held w" "\<And>q. q \<in> set (live_objs ?h) \<Longrightarrow> q \<in> set (live_objs (heap w'))"
    "\<And>q. q \<in> set (live_objs ?h) \<Longrightarrow> q \<in> set (unquarantined (heap w')) \<longleftrightarrow> q \<in> set (unquarantined ?h)"
    using assms(2) new by (auto simp: take_obj_def Let_def split: if_splits)
  show "is_NULL p \<and> \<not> cap_tag p \<or>
      p \<in> set (live_objs (heap w')) \<and> p \<notin> set (live_objs ?h) \<and> (p \<in> set (unquarantined (heap w')) \<longleftrightarrow> unq)"
    using assms(2) new by (auto simp: take_obj_def Let_def split: if_splits)
qed

lemma live_obj:
  assumes "quar_ok w" "p \<in> set (live_objs (heap w))"
  shows "cap_tag p" "\<not> is_NULL p" "p \<notin> set (quar (heap w))"
proof -
  obtain n where n: "n < next_obj (heap w)" "p = obj n" "next_obj (heap w) \<le> 2 ^ 32" using assms by (auto simp: quar_ok_def Let_def)
  then show "\<not> is_NULL p" using obj_not_null [of n] by simp
  show "cap_tag p" using n by (simp add: obj_def)
  show "p \<notin> set (quar (heap w))" using assms by (auto simp: quar_ok_def Let_def)
qed

interpretation listed: quarantining "quar_env reached (min limit (2 ^ 32)) abort_info" quar_ok "\<lambda>w p. p \<in> set (live_objs (heap w))"
    "\<lambda>w p. p \<in> set (unquarantined (heap w))" quarantined_obj reached abort_info
  for reached limit abort_info
proof unfold_locales
  let ?al = "quar_env reached (min limit (2 ^ 32)) abort_info"
  note e = quar_env_def quarantined_obj_def
  show "quar_ok (w\<lparr>held := m\<rparr>) = quar_ok w" "quarantined_obj (w\<lparr>held := m\<rparr>) = quarantined_obj w" for w m
    by (simp_all add: quar_ok_def quarantined_obj_def fun_eq_iff)
  show "cap_tag p \<and> \<not> is_NULL p \<and> \<not> quarantined_obj w p" if "quar_ok w" "p \<in> set (live_objs (heap w))" for w p
    using live_obj [OF that] by (simp add: e)
  show "quar_ok w' \<and> may_sweep reached (quarantined_obj w) (held w) (held w') \<and>
      (\<forall>q. q \<in> set (live_objs (heap w)) \<longrightarrow> q \<in> set (live_objs (heap w')) \<and>
        (q \<in> set (unquarantined (heap w'))) = (q \<in> set (unquarantined (heap w)))) \<and>
      (is_NULL p \<and> \<not> cap_tag p \<or> p \<in> set (live_objs (heap w')) \<and> p \<notin> set (live_objs (heap w)) \<and> p \<notin> set (unquarantined (heap w')))"
    if "quar_ok w" "al_malloc ?al n w = (p, w')" for w n p w'
    using take_obj_law [OF that(1), of "min limit (2 ^ 32)" False p w'] that(2) by (simp add: e)
  show "quar_ok w' \<and> may_sweep reached (quarantined_obj w) (held w) (held w') \<and>
      (is_NULL p \<and> \<not> cap_tag p \<or> p \<in> set (live_objs (heap w')) \<and> p \<in> set (unquarantined (heap w')))"
    if "quar_ok w" "al_no_quarantine ?al n w = (p, w')" for w n p w'
    using take_obj_law [OF that(1), of "min limit (2 ^ 32)" True p w'] that(2) by (auto simp: e)
  show "al_free ?al p w = (None, w)" if "quar_ok w" "is_NULL p" for w p using that by (simp add: e free_obj_def)
  show "fst (al_free ?al p w) = Some abort_info" if "quar_ok w" "p \<notin> set (live_objs (heap w))" "\<not> is_NULL p" for w p
    using that by (simp add: e free_obj_def)
  show "\<exists>w'. al_free ?al p w = (None, w') \<and> quar_ok w' \<and>
      may_sweep reached (\<lambda>q. quarantined_obj w q \<or> q = p \<and> p \<notin> set (unquarantined (heap w))) (held w) (held w') \<and>
      p \<notin> set (live_objs (heap w')) \<and> (p \<in> set (unquarantined (heap w)) \<longrightarrow> \<not> quarantined_obj w' p) \<and>
      (p \<notin> set (unquarantined (heap w)) \<longrightarrow> (\<forall>c. held w c = p \<longrightarrow> held w' c = p \<longrightarrow> quarantined_obj w' p)) \<and>
      (\<forall>q. q \<in> set (live_objs (heap w)) \<longrightarrow> q \<noteq> p \<longrightarrow> q \<in> set (live_objs (heap w')) \<and>
        (q \<in> set (unquarantined (heap w'))) = (q \<in> set (unquarantined (heap w))))"
    if "quar_ok w" "p \<in> set (live_objs (heap w))" for w p
    using that live_obj [OF that] by (auto simp: e free_obj_def quar_ok_def Let_def)
  show "\<exists>w'. al_force_flush ?al w = (0, w') \<and> quar_ok w' \<and> held w' = sweep reached (quarantined_obj w) (held w) \<and>
      (\<forall>q. q \<in> set (live_objs (heap w)) \<longrightarrow> q \<in> set (live_objs (heap w')) \<and>
        (q \<in> set (unquarantined (heap w'))) = (q \<in> set (unquarantined (heap w))))"
    if "quar_ok w" for w using that by (auto simp: quar_env_def sweep_objs_def quar_ok_def Let_def)
  show "quar_ok (al_revoke ?al w) \<and> held (al_revoke ?al w) = sweep reached (quarantined_obj w) (held w)" if "quar_ok w" for w
    using that by (auto simp: quar_env_def sweep_objs_def quar_ok_def Let_def)
qed simp_all

section \<open>What the tests find out\<close>

lemma take_obj_null: "quar_ok w \<Longrightarrow> limit \<le> 2 ^ 32 \<Longrightarrow> is_NULL (fst (take_obj limit unq w)) \<longleftrightarrow> limit \<le> next_obj (heap w)"
  using obj_not_null [of "next_obj (heap w)"] by (simp add: take_obj_def Let_def)

lemma quar_env_sel [simp]:
  "al_malloc (quar_env reached limit i) n = take_obj limit False" "al_no_quarantine (quar_env reached limit i) n = take_obj limit True"
  by (simp_all add: quar_env_def)

lemma revocation_verdicts:
  assumes "quar_ok (p_world s)" "p_ccsp s \<noteq> None" "pl_os pl = CheriBSD" "limit \<le> 2 ^ 32" "n = next_obj (heap (p_world s))"
  shows "declares_success (malloc_revoke_basic pl (quar_env reached limit i)) s \<longleftrightarrow> limit \<le> n \<or> reached Ptr \<and> reached Eptr"
    and "declares_success (malloc_revoke_quarantine_force_flush_basic pl (quar_env reached limit i)) s \<longleftrightarrow> limit \<le> n \<or> reached Ptr \<and> reached Eptr"
    and "declares_success (malloc_revoke_quarantine_force_flush_twice pl (quar_env reached limit i)) s \<longleftrightarrow>
      (limit \<le> n \<or> reached Ptr1 \<and> reached Eptr1) \<and> (limit \<le> Suc n \<or> reached Ptr2 \<and> reached Eptr2)"
    and "declares_success (malloc_no_quarantine_not_revoked pl (quar_env reached limit i)) s \<longleftrightarrow> n < limit"
proof -
  have m: "min limit (2 ^ 32) = limit" using assms(4) by simp
  note null = take_obj_null [OF assms(1,4), folded assms(5)]
  show "declares_success (malloc_revoke_basic pl (quar_env reached limit i)) s \<longleftrightarrow> limit \<le> n \<or> reached Ptr \<and> reached Eptr"
    using listed.revoke_basic_verdict [OF assms(1-3), of reached limit i] unfolding m by (simp add: null del: One_nat_def)
  show "declares_success (malloc_revoke_quarantine_force_flush_basic pl (quar_env reached limit i)) s \<longleftrightarrow> limit \<le> n \<or> reached Ptr \<and> reached Eptr"
    using listed.flush_basic_verdict [OF assms(1,2), of pl reached limit i] unfolding m by (simp add: null del: One_nat_def)
  show "declares_success (malloc_no_quarantine_not_revoked pl (quar_env reached limit i)) s \<longleftrightarrow> n < limit"
    using listed.no_quarantine_verdict [OF assms(1,2), of pl reached limit i] unfolding m by (simp add: null not_le del: One_nat_def)
  obtain p1 w1 where a: "take_obj limit False (p_world s) = (p1, w1)" by fastforce
  let ?v = "w1\<lparr>held := (held w1)(Ptr1 := p1, Eptr1 := p1)\<rparr>"
  obtain p2 w2 where b: "take_obj limit False ?v = (p2, w2)" by fastforce
  have v: "quar_ok ?v" using take_obj_law(1) [OF assms(1) a assms(4)] by (simp add: listed.held_frame)
  have n1: "is_NULL p1 \<longleftrightarrow> limit \<le> n" using null [of False] a by simp
  have "next_obj (heap w1) = (if n < limit then Suc n else n)" using a assms(5) by (auto simp: take_obj_def Let_def split: if_splits)
  then have n2: "is_NULL p2 \<longleftrightarrow> limit \<le> Suc n" using take_obj_null [OF v assms(4), of False] b by auto
  show "declares_success (malloc_revoke_quarantine_force_flush_twice pl (quar_env reached limit i)) s \<longleftrightarrow>
      (limit \<le> n \<or> reached Ptr1 \<and> reached Eptr1) \<and> (limit \<le> Suc n \<or> reached Ptr2 \<and> reached Eptr2)"
    using listed.flush_twice_verdict [OF assms(1,2), of reached limit i p1 w1 p2 w2 pl] unfolding m quar_env_sel using a b n1 n2 by blast
qed


text \<open>A process with a new page and an empty heap.\<close>

definition empty_heap :: "quar_heap mem_world" where
  "empty_heap = \<lparr>held = (\<lambda>_. no_obj), heap = \<lparr>next_obj = 0, live_objs = [], quar = [], unquarantined = []\<rparr>\<rparr>"

lemma empty_heap_ok [simp]: "quar_ok empty_heap"
  by (simp add: quar_ok_def empty_heap_def)

definition new_process :: "quar_heap mem_world pstate" where
  "new_process = forked_state (ccs_zero morello_purecap) empty_heap"

definition abort_signal :: siginfo where
  "abort_signal = \<lparr>si_signo = 6, si_code = 0, si_trapno = 0, si_addr = no_obj\<rparr>"

lemma new_process_sel [simp]:
  "p_world new_process = empty_heap" "p_ccsp new_process = Some (ccs_zero morello_purecap)" "p_sigaction new_process n = SigDfl"
  "next_obj (heap empty_heap) = 0" "si_signo abort_signal = 6" "pl_os morello_purecap = CheriBSD" "ccs_testresult (ccs_zero pl) = TESTRESULT_UNKNOWN"
  by (simp_all add: new_process_def forked_state_def empty_heap_def abort_signal_def morello_purecap_def ccs_zero_def)


lemma double_free_run:
  assumes "quar_ok (p_world s)" "pl_os pl = CheriBSD" "limit \<le> 2 ^ 32"
  shows "if limit \<le> next_obj (heap (p_world s)) then fst (malloc_double_free pl (quar_env reached limit i) s) = Exited EX_SOFTWARE
    else \<exists>w. malloc_double_free pl (quar_env reached limit i) s = (Trapped i, s\<lparr>p_world := w\<rparr>)"
proof -
  have m: "min limit (2 ^ 32) = limit" using assms(3) by simp
  show ?thesis using listed.double_free_verdict [OF assms(1,2), of reached limit i] unfolding m by (simp add: take_obj_null [OF assms(1,3)])
qed

text \<open>
  The test of a double \<^verbatim>\<open>free\<close> ends as its entry announces, with the controller's verdict \<open>test_passes\<close>, iff the allocation succeeds: the second
  \<^verbatim>\<open>free\<close> then aborts, whether or not the revoker has already cleared the pointer.
\<close>

theorem double_free_verdict_controller:
  assumes "quar_ok (p_world s)" "pl_os pl = CheriBSD" "limit \<le> 2 ^ 32"
    and "p_sigaction s (si_signo i) \<noteq> SigHarness"
    and "p_ccsp s = Some c" "ccs_testresult c = TESTRESULT_UNKNOWN"
  shows "(case finish_process pl (malloc_double_free pl (quar_env reached limit i) s) of
      (status, t) \<Rightarrow> test_passes pl (malloc_double_free_test pl (quar_env reached limit i) (si_signo i) revoke_enabled) status (the (p_ccsp t)) data) \<longleftrightarrow> next_obj (heap (p_world s)) < limit"
proof (cases "limit \<le> next_obj (heap (p_world s))")
  case True
  then have "fst (malloc_double_free pl (quar_env reached limit i) s) = Exited EX_SOFTWARE"
    using double_free_run [OF assms(1-3), of reached i] by simp
  then show ?thesis using True by (auto simp: finish_process_def test_passes_def has_flag_def malloc_double_free_test_def ct_flag_defs split: prod.splits)
next
  case False
  then obtain w where "malloc_double_free pl (quar_env reached limit i) s = (Trapped i, s\<lparr>p_world := w\<rparr>)"
    using double_free_run [OF assms(1-3), of reached i] by auto
  then show ?thesis using False assms(4-6)
    by (simp add: finish_process_def test_passes_def has_flag_def malloc_double_free_test_def ct_flag_defs harness_consts)
qed

theorem double_free_verdict_controller_witness:
  "case finish_process morello_purecap (malloc_double_free morello_purecap (quar_env (\<lambda>c. True) 8 abort_signal) new_process) of
    (status, t) \<Rightarrow> test_passes morello_purecap (malloc_double_free_test morello_purecap (quar_env (\<lambda>c. True) 8 abort_signal) 6 (\<lambda>w. True))
      status (the (p_ccsp t)) None"
  using double_free_verdict_controller [of new_process morello_purecap 8 abort_signal "ccs_zero morello_purecap" "\<lambda>c. True" "\<lambda>w. True" None] by simp

text \<open>
  The tests of alignment do not notice that an allocation fails: \<^verbatim>\<open>NULL\<close> is aligned to everything.
\<close>

lemma failing_allocations_aligned:
  assumes "\<And>sz f w. is_NULL (fst (al_mallocx al sz f w))" "\<And>p sz f w. is_NULL (fst (al_rallocx al p sz f w))"
    and "\<And>p w. is_NULL p \<Longrightarrow> fst (al_free al p w) = None" "p_ccsp s \<noteq> None"
  shows "declares_success (mallocx_alignment pl al) s" and "declares_success (rallocx_alignment pl al) s"
proof -
  have aligned: "ptr_aligned p sz" if "is_NULL p" for p sz using that by (simp add: ptr_aligned_def is_NULL_def)
  have "declares_success (block (map (check_mallocx pl al) szs @ [cheriostest_success])) s" if "p_ccsp s \<noteq> None" for szs and s :: "'a mem_world pstate"
    using that by (induction szs arbitrary: s) (simp_all add: check_mallocx_def bindP_assoc passes_simps aligned assms(1,3))
  then show "declares_success (mallocx_alignment pl al) s" using assms(4) by (simp add: mallocx_alignment_def del: block.simps)
  have "declares_success (block (map (check_rallocx pl al) szs @ [cheriostest_success])) s" if "p_ccsp s \<noteq> None" for szs and s :: "'a mem_world pstate"
    using that by (induction szs arbitrary: s) (simp_all add: check_rallocx_def bindP_assoc passes_simps aligned assms(2))
  then show "declares_success (rallocx_alignment pl al) s" using assms(4) by (simp add: rallocx_alignment_def del: block.simps)
qed

end
