(* ===== verification/Allocator_Ctl.thy ===== *)
theory Allocator_Ctl
  imports Allocator_Proofs Feature_Proofs
begin

text \<open>
  The tests of the setting that turns revocation on or off: their verdicts as a function of what the kernel decides, and that they pass
  on the documented decision when the programs are made with the note tool, as the build does.
\<close>

section \<open>The kernel's decision\<close>

text \<open>The exit status of the process that starts the program, as the tests see it.\<close>

definition helper_status :: "bool \<Rightarrow> (revoke_ctl option \<Rightarrow> 'i \<Rightarrow> bool) \<Rightarrow> revoke_ctl option \<Rightarrow> 'i \<Rightarrow> revoke_ctl option \<Rightarrow> int" where
  "helper_status procctl_ok decides old img arg =
     (if arg \<noteq> None \<and> \<not> procctl_ok then EX_SOFTWARE
      else if decides (case arg of None \<Rightarrow> old | Some a \<Rightarrow> Some a) img then 0 else 1)"

lemma helper_status_small: "helper_status ok d old img arg mod 256 = helper_status ok d old img arg"
  by (simp add: helper_status_def EX_SOFTWARE_def)

text \<open>
  The contract: \<open>setting\<close> is what \<^verbatim>\<open>procctl\<close> has set in the process, \<open>files\<close> the installed programs, and \<open>decides\<close> whether a program revokes.
  \<^verbatim>\<open>procctl\<close> works, or fails always.
\<close>

locale revoke_kernel =
  fixes ce :: "('k, 'h) ctl_env" and setting :: "'k \<Rightarrow> revoke_ctl option" and files :: "string \<rightharpoonup> 'i"
    and decides :: "revoke_ctl option \<Rightarrow> 'i \<Rightarrow> bool" and procctl_ok :: bool
  assumes fork_law: "\<exists>pid w'. ct_fork ce w = (Inr pid, w') \<and> 0 < pid \<and> setting w' = setting w"
    and procctl_law: "if procctl_ok then \<exists>w'. ct_procctl ce a w = (Inr (), w') \<and> setting w' = Some a else \<exists>e w'. ct_procctl ce a w = (Inl e, w')"
    and execve_law: "case files path of None \<Rightarrow> \<exists>e w'. ct_execve ce path w = (Inl e, w') | Some img \<Rightarrow> \<exists>w'. ct_execve ce path w = (Inr (decides (setting w) img), w')"
begin

text \<open>The status of the process that starts the program.\<close>

lemma exec_helper_status:
  assumes "ct_helper_dir pl ce = COk dir" "files (dir @ ''/'' @ progname) = Some img"
  shows "\<exists>w'. exec_helper pl ce progname s = (Exited (if decides (setting (p_world s)) img then 0 else 1), s\<lparr>p_world := w'\<rparr>)"
  using execve_law [of "dir @ ''/'' @ progname" "p_world s"] assms
  by (auto simp: exec_helper_def from_c_def bind_raw_call leave_def malloc_revoke_enabled_main_def)

lemma child_exits:
  assumes "ct_helper_dir pl ce = COk dir" "files (dir @ ''/'' @ progname) = Some img" "p_ccsp s \<noteq> None"
  obtains t where "ctl_child pl ce progname arg s = (Exited (helper_status procctl_ok decides (setting (p_world s)) img arg), t)" "p_ccsp t \<noteq> None"
proof (cases arg)
  case None
  from exec_helper_status [OF assms(1,2), of s] obtain w' where
    "exec_helper pl ce progname s = (Exited (if decides (setting (p_world s)) img then 0 else 1), s\<lparr>p_world := w'\<rparr>)" ..
  then show thesis using that None assms(3) by (simp add: ctl_child_def bindP_def [of "exec_helper pl ce progname"] helper_status_def)
next
  case (Some a)
  note call = CHERIOSTEST_CHECK_SYSCALL_def ctl_child_def bindP_def Some helper_status_def
  show thesis
  proof (cases procctl_ok)
    case True
    then obtain w' where w: "ct_procctl ce a (p_world s) = (Inr (), w')" "setting w' = Some a" using procctl_law [of a "p_world s"] by auto
    from exec_helper_status [OF assms(1,2), of "s\<lparr>p_world := w'\<rparr>"] obtain w2 where
      "exec_helper pl ce progname (s\<lparr>p_world := w'\<rparr>) = (Exited (if decides (Some a) img then 0 else 1), s\<lparr>p_world := w2\<rparr>)" using w(2) by auto
    then show thesis using that w(1) True assms(3) by (simp add: call)
  next
    case False
    then obtain e w' where "ct_procctl ce a (p_world s) = (Inl e, w')" using procctl_law [of a "p_world s"] by auto
    then show thesis using that False assms(3)
      by (auto simp: call cheriostest_failure_err_def vcheriostest_failure_errc_def)
  qed
qed

lemma ctl_verdict:
  assumes "ct_helper_dir pl ce = COk dir" "files (dir @ ''/'' @ progname) = Some img" "p_ccsp s \<noteq> None"
  shows "declares_success (malloc_revocation_ctl_common_procctl pl ce progname should arg) s \<longleftrightarrow>
    (if arg \<noteq> None \<and> \<not> procctl_ok then \<not> should
     else decides (case arg of None \<Rightarrow> setting (p_world s) | Some a \<Rightarrow> Some a) img = should)"
proof -
  obtain pid w where f: "ct_fork ce (p_world s) = (Inr pid, w)" "0 < pid" "setting w = setting (p_world s)" using fork_law by blast
  let ?s = "s\<lparr>p_world := w\<rparr>"
  have "p_ccsp ?s \<noteq> None" using assms(3) by simp
  from child_exits [OF assms(1,2) this] obtain t where
    c: "ctl_child pl ce progname arg ?s = (Exited (helper_status procctl_ok decides (setting w) img arg), t)" "p_ccsp t \<noteq> None" by (metis pstate.select_convs(6) pstate.update_convs(6) pstate.surjective)
  have "declares_success (malloc_revocation_ctl_common_procctl pl ce progname should arg) s \<longleftrightarrow>
      declares_success (with_child pl (ctl_child pl ce progname arg) (\<lambda>res. bindP (child_is_revoking pl res) (\<lambda>revoking.
        if revoking = should then cheriostest_success
        else if should then cheriostest_failure_errx pl ''child is not revoking and should be'' []
        else cheriostest_failure_errx pl ''child is revoking and should not be'' []))) ?s"
    using f(1,2) by (simp add: malloc_revocation_ctl_common_procctl_def fork_then_def declares_success_def bind_raw_call bindP_VERIFY)
  also have "\<dots> \<longleftrightarrow> (if arg \<noteq> None \<and> \<not> procctl_ok then \<not> should
     else decides (case arg of None \<Rightarrow> setting (p_world s) | Some a \<Rightarrow> Some a) img = should)"
    using c(2) f(3) by (auto simp: declares_success_def with_child_def c(1) finish_process_def helper_status_small child_is_revoking_def
        cheriostest_success_def cheriostest_failure_errx_def helper_status_def EX_SOFTWARE_def split: option.splits)
  finally show ?thesis .
qed

end

section \<open>A kernel\<close>

text \<open>The state is the setting of the process; the programs are found by their paths.\<close>

definition ctl_kernel ::
  "(string \<rightharpoonup> 'i) \<Rightarrow> (revoke_ctl option \<Rightarrow> 'i \<Rightarrow> bool) \<Rightarrow> bool \<Rightarrow> exec_env \<Rightarrow> siginfo \<Rightarrow> 'h alloc_env \<Rightarrow> (revoke_ctl option, 'h) ctl_env" where
  "ctl_kernel files decides procctl_ok ee abort_info al =
     \<lparr>ct_fork = (\<lambda>w. (Inr 2, w)),
      ct_procctl = (\<lambda>a w. if procctl_ok then (Inr (), Some a) else (Inl 1, w)),
      ct_execve = (\<lambda>path w. (case files path of None \<Rightarrow> Inl 2 | Some img \<Rightarrow> Inr (decides w img), w)),
      ct_early_execve = (\<lambda>path w. (Inl 2, w)), ct_early_alloc = al, ct_abort = abort_info, ct_exec = ee, ct_cached_dir = [],
      ct_running = None, ct_fstypename = (\<lambda>dir. Some ''ufs'')\<rparr>"

interpretation kernel: revoke_kernel "ctl_kernel files decides procctl_ok ee abort_info al" "\<lambda>w. w" files decides procctl_ok
  for files decides procctl_ok ee abort_info al
  by unfold_locales (auto simp: ctl_kernel_def split: option.splits)

lemma ctl_kernel_dir: "ct_helper_dir pl (ctl_kernel files decides ok ee i al) = cheriostest_get_helper_dir pl ee []"
  by (simp add: ctl_kernel_def)

lemma run_ctl_test_eq:
  "run_ctl_test pl ce t = malloc_revocation_ctl_common_procctl pl ce (cl_progname t) (cl_should_be_revoking t) (cl_procctl t)"
  by (simp add: run_ctl_test_def malloc_revocation_ctl_common_def split: option.splits)

lemma ctl_test_iff:
  assumes "cheriostest_get_helper_dir pl ee [] = COk dir" "files (dir @ ''/'' @ cl_progname t) = Some img" "p_ccsp s \<noteq> None" "p_world s = None"
  shows "declares_success (run_ctl_test pl (ctl_kernel files decides procctl_ok ee i al) t) s \<longleftrightarrow>
    (if cl_procctl t \<noteq> None \<and> \<not> procctl_ok then \<not> cl_should_be_revoking t else decides (cl_procctl t) img = cl_should_be_revoking t)"
  using kernel.ctl_verdict [of pl files decides procctl_ok ee i al dir "cl_progname t" img s "cl_should_be_revoking t" "cl_procctl t"] assms
  by (simp add: run_ctl_test_eq ctl_kernel_dir option.case_eq_if)


section \<open>The documented decision\<close>

text \<open>
  A setting of \<^verbatim>\<open>procctl\<close> wins unless the program is set-user-id; then the note of the program; then the default of the system. \<open>features\<close>
  is how the kernel reads the note of a file.
\<close>

definition documented :: "(byte list \<Rightarrow> 32 word) \<Rightarrow> bool \<Rightarrow> revoke_ctl option \<Rightarrow> byte list \<times> bool \<Rightarrow> bool" where
  "documented features by_default = (\<lambda>arg (bytes, suid).
     case if suid then None else arg of
       Some PROC_CHERI_REVOKE_FORCE_ENABLE \<Rightarrow> True
     | Some PROC_CHERI_REVOKE_FORCE_DISABLE \<Rightarrow> False
     | None \<Rightarrow>
         (if features bytes AND NT_FREEBSD_FCTL_CHERI_REVOKE_DISABLE \<noteq> 0 then False
          else if features bytes AND NT_FREEBSD_FCTL_CHERI_REVOKE_ENABLE \<noteq> 0 then True
          else by_default))"

definition neither :: "32 word \<Rightarrow> bool" where
  "neither w \<longleftrightarrow> w AND NT_FREEBSD_FCTL_CHERI_REVOKE_DISABLE = 0 \<and> w AND NT_FREEBSD_FCTL_CHERI_REVOKE_ENABLE = 0"

abbreviation bits_enable :: "32 word \<times> 32 word" where
  "bits_enable \<equiv> (NT_FREEBSD_FCTL_CHERI_REVOKE_ENABLE, NT_FREEBSD_FCTL_CHERI_REVOKE_DISABLE)"

abbreviation bits_disable :: "32 word \<times> 32 word" where
  "bits_disable \<equiv> (NT_FREEBSD_FCTL_CHERI_REVOKE_DISABLE, NT_FREEBSD_FCTL_CHERI_REVOKE_ENABLE)"

lemma new_features_bits:
  "new_features bits_enable w AND NT_FREEBSD_FCTL_CHERI_REVOKE_DISABLE = 0"
  "new_features bits_enable w AND NT_FREEBSD_FCTL_CHERI_REVOKE_ENABLE \<noteq> 0"
  "new_features bits_disable w AND NT_FREEBSD_FCTL_CHERI_REVOKE_DISABLE \<noteq> 0"
  by (simp_all add: new_features_def elf_consts bit.conj_disj_distrib2 and.assoc)

lemma variant_made:
  assumes "layout_ok l desc" "bits_of_arg features = Some bits"
  shows "add_variant (elf_file l desc) features = Some (elf_file l (changed_desc bits desc))"
  using assms by (auto simp: add_variant_def tool_on_layout bits_of_arg_def)

text \<open>The six programs of the build, in the directory where the tests look.\<close>

lemma installed_programs:
  assumes "layout_ok l desc"
  shows "installed (elf_file l desc) dir (dir @ ''/'' @ ''malloc_revoke_enabled'') = Some (elf_file l desc, False)"
    "installed (elf_file l desc) dir (dir @ ''/'' @ ''malloc_revoke_enabled_suid'') = Some (elf_file l desc, True)"
    "installed (elf_file l desc) dir (dir @ ''/'' @ ''malloc_revoke_enabled_elfnote_disable'') = Some (elf_file l (changed_desc bits_disable desc), False)"
    "installed (elf_file l desc) dir (dir @ ''/'' @ ''malloc_revoke_enabled_elfnote_enable'') = Some (elf_file l (changed_desc bits_enable desc), False)"
    "installed (elf_file l desc) dir (dir @ ''/'' @ ''malloc_revoke_enabled_suid_elfnote_disable'') = Some (elf_file l (changed_desc bits_disable desc), True)"
    "installed (elf_file l desc) dir (dir @ ''/'' @ ''malloc_revoke_enabled_suid_elfnote_enable'') = Some (elf_file l (changed_desc bits_enable desc), True)"
proof -
  have "bits_of_arg ''+nocherirevoke'' = Some bits_disable" "bits_of_arg ''+cherirevoke'' = Some bits_enable" by (simp_all add: bits_of_arg_def)
  note made = variant_made [OF assms this(1)] variant_made [OF assms this(2)]
  have plain: "add_variant f '''' = Some f" for f by (simp add: add_variant_def)
  note run = installed_def variants_def plain made
  show "installed (elf_file l desc) dir (dir @ ''/'' @ ''malloc_revoke_enabled'') = Some (elf_file l desc, False)" by (simp add: run)
  show "installed (elf_file l desc) dir (dir @ ''/'' @ ''malloc_revoke_enabled_suid'') = Some (elf_file l desc, True)" by (simp add: run)
  show "installed (elf_file l desc) dir (dir @ ''/'' @ ''malloc_revoke_enabled_elfnote_disable'') = Some (elf_file l (changed_desc bits_disable desc), False)"
    by (simp add: run)
  show "installed (elf_file l desc) dir (dir @ ''/'' @ ''malloc_revoke_enabled_elfnote_enable'') = Some (elf_file l (changed_desc bits_enable desc), False)"
    by (simp add: run)
  show "installed (elf_file l desc) dir (dir @ ''/'' @ ''malloc_revoke_enabled_suid_elfnote_disable'') = Some (elf_file l (changed_desc bits_disable desc), True)"
    by (simp add: run)
  show "installed (elf_file l desc) dir (dir @ ''/'' @ ''malloc_revoke_enabled_suid_elfnote_enable'') = Some (elf_file l (changed_desc bits_enable desc), True)"
    by (simp add: run)
qed

text \<open>
  The programs that the build makes with its note tool, from a program whose note has neither bit, pass all ten tests on a kernel that
  decides as documented, on a system where revocation is the default.
\<close>

theorem built_helpers_pass:
  assumes "layout_ok l desc" "neither (of_nat (le_nat (take 4 desc)))"
    and "\<And>d. length d = length desc \<Longrightarrow> features (elf_file l d) = of_nat (le_nat (take 4 d))"
    and "cheriostest_get_helper_dir pl ee [] = COk dir" "p_ccsp s \<noteq> None" "p_world s = None" "t \<in> set ctl_tests"
  shows "declares_success (run_ctl_test pl (ctl_kernel (installed (elf_file l desc) dir) (documented features True) True ee i al) t) s"
proof -
  let ?ce = "ctl_kernel (installed (elf_file l desc) dir) (documented features True) True ee i al"
  have len: "length (changed_desc b desc) = length desc" for b using assms(1) by (simp add: layout_ok_def length_changed_desc)
  have f: "features (elf_file l desc) = of_nat (le_nat (take 4 desc))"
    "features (elf_file l (changed_desc b desc)) = new_features b (of_nat (le_nat (take 4 desc)))" for b
    using assms(3) [OF refl] assms(3) [OF len [of b]] features_changed [of b desc] by simp_all
  have decided: "documented features True None (elf_file l desc, u)" "documented features True (Some a) (elf_file l desc, True)"
    "documented features True None (elf_file l (changed_desc bits_enable desc), False)"
    "\<not> documented features True None (elf_file l (changed_desc bits_disable desc), False)"
    "documented features True (Some PROC_CHERI_REVOKE_FORCE_ENABLE) (elf_file l (changed_desc bits_disable desc), False)"
    "\<not> documented features True (Some PROC_CHERI_REVOKE_FORCE_DISABLE) (elf_file l (changed_desc bits_enable desc), False)"
    "\<not> documented features True (Some a) (elf_file l (changed_desc bits_disable desc), True)"
    "documented features True (Some a) (elf_file l (changed_desc bits_enable desc), True)" for a u
    using assms(2) by (simp_all add: documented_def f new_features_bits neither_def)
  have "list_all (\<lambda>t. case installed (elf_file l desc) dir (dir @ ''/'' @ cl_progname t) of None \<Rightarrow> False
      | Some img \<Rightarrow> documented features True (cl_procctl t) img = cl_should_be_revoking t) ctl_tests"
    unfolding ctl_tests_def by (simp add: installed_programs [OF assms(1), simplified] decided)
  then have "case installed (elf_file l desc) dir (dir @ ''/'' @ cl_progname t) of None \<Rightarrow> False
      | Some img \<Rightarrow> documented features True (cl_procctl t) img = cl_should_be_revoking t" using assms(7) unfolding list_all_iff by (rule bspec)
  then obtain img where "installed (elf_file l desc) dir (dir @ ''/'' @ cl_progname t) = Some img"
    "documented features True (cl_procctl t) img = cl_should_be_revoking t" by (auto split: option.splits)
  then show ?thesis using ctl_test_iff [of pl ee dir "installed (elf_file l desc) dir" t img s "documented features True" True i al, OF assms(4)] assms(5,6) by simp
qed

text \<open>The two theorems on the program of the tool's own test.\<close>

definition note_word :: "byte list \<Rightarrow> 32 word" where
  "note_word bytes = (case read_features bytes of None \<Rightarrow> 0 | Some w \<Rightarrow> w)"

definition listed_alloc :: "quar_heap alloc_env" where
  "listed_alloc = quar_env (\<lambda>c. True) 8 abort_signal"

definition ctl_process :: "revoke_ctl option pstate" where
  "ctl_process = forked_state (ccs_zero morello_purecap) None"

lemma ctl_process_sel [simp]: "p_ccsp ctl_process \<noteq> None" "p_world ctl_process = None"
  by (simp_all add: ctl_process_def forked_state_def)

lemma bsd_helper_dir: "cheriostest_get_helper_dir morello_purecap bsd_exec_env [] = COk ''/usr/bin/../libexec''"
  by (simp add: cheriostest_get_helper_dir_def get_execpath_def bsd_exec_env_def is_linux_def morello_purecap_def before_last_def)

theorem built_helpers_pass_witness:
  "declares_success (run_ctl_test morello_purecap
     (ctl_kernel (installed (elf_file test_layout (le_bytes 4 0)) ''/usr/bin/../libexec'') (documented note_word True) True bsd_exec_env abort_signal listed_alloc)
     (ctl_tests ! 8)) ctl_process"
proof (rule built_helpers_pass [OF test_layout_ok _ _ bsd_helper_dir])
  show "neither (of_nat (le_nat (take 4 (le_bytes 4 0))))" by (simp add: neither_def le_nat_bytes del: le_bytes.simps)
  show "note_word (elf_file test_layout d) = of_nat (le_nat (take 4 d))" if "length d = length (le_bytes 4 0)" for d
    using that by (simp add: note_word_def read_features_test del: le_bytes.simps)
  show "ctl_tests ! 8 \<in> set ctl_tests" by (rule nth_mem) (simp add: ctl_tests_def)
qed simp_all


text \<open>
  The tests say nothing about set-user-id programs with a note that are started without a setting: the two tests that are named after
  them start the programs without the set-user-id bit.
\<close>

lemma suid_notes_not_tested:
  assumes "t \<in> set ctl_tests" "cl_procctl t = None"
  shows "cl_progname t \<noteq> ''malloc_revoke_enabled_suid_elfnote_disable'' \<and> cl_progname t \<noteq> ''malloc_revoke_enabled_suid_elfnote_enable''"
  using assms unfolding ctl_tests_def by (auto split: if_splits)

end
