(* ===== verification/Open_Tests.thy ===== *)
theory Open_Tests
  imports Statements Sealcap
begin

text \<open>
  The tests of \<^verbatim>\<open>cheriostest_cheriabi_open.c\<close>: \<^verbatim>\<open>open\<close> on paths whose pointers are good, and on pointers that the kernel must refuse.
  And the contract of a system whose \<^verbatim>\<open>open\<close> copies the path through the pointer with any selection of the checks, for which the verdicts are
  exact.
\<close>

section \<open>The tests\<close>

text \<open>
  \<open>oe_array\<close> is the array that a test declares with the given bytes (the \<^verbatim>\<open>NUL\<close> at the end included); \<open>oe_string\<close> a string literal;
  \<open>oe_strcpy\<close> writes a string with its \<^verbatim>\<open>NUL\<close>. \<open>oe_sealcap\<close> is what the system gives as sealing authority.
\<close>

record 'k open_env =
  oe_array :: "char list \<Rightarrow> 'k \<Rightarrow> cap \<times> 'k"
  oe_string :: "char list \<Rightarrow> 'k \<Rightarrow> cap \<times> 'k"
  oe_store :: "cap \<Rightarrow> char \<Rightarrow> 'k \<Rightarrow> siginfo option \<times> 'k"
  oe_calloc :: "nat \<Rightarrow> nat \<Rightarrow> 'k \<Rightarrow> cap \<times> 'k"
  oe_strcpy :: "cap \<Rightarrow> string \<Rightarrow> 'k \<Rightarrow> siginfo option \<times> 'k"
  oe_free :: "cap \<Rightarrow> 'k \<Rightarrow> siginfo option \<times> 'k"
  oe_open :: "cap \<Rightarrow> ('k, int) sys"
  oe_close :: "int \<Rightarrow> ('k, unit) sys"
  oe_sealcap_sysctl :: "('k, cap) sys"
  oe_sealcap_auxv :: cap
  oe_sentry :: "cap \<Rightarrow> cap" \<comment> \<open>\<^verbatim>\<open>cheri_sentry_create\<close>\<close>
  EFAULT :: int

definition open_succeeds :: "platform \<Rightarrow> 'k open_env \<Rightarrow> cap \<Rightarrow> ('k, unit) prog" where
  "open_succeeds pl oe path =
     bindP (raw_call (oe_open oe path)) (\<lambda>fd. case fd of
       None \<Rightarrow> cheriostest_failure_err pl ''open'' []
     | Some fd \<Rightarrow> bindP (raw_call (oe_close oe fd)) (\<lambda>r. case r of
         None \<Rightarrow> cheriostest_failure_err pl ''close'' []
       | Some _ \<Rightarrow> cheriostest_success))"

text \<open>What follows a call of \<^verbatim>\<open>open\<close> that must fail: \<^verbatim>\<open>fd > 0\<close>, and \<^verbatim>\<open>errno\<close>.\<close>

definition open_refused :: "platform \<Rightarrow> 'k open_env \<Rightarrow> int option \<Rightarrow> ('k, unit) prog" where
  "open_refused pl oe r =
     (let fd = (case r of None \<Rightarrow> - 1 | Some fd \<Rightarrow> fd) in
      bindP (fail_if pl (fd > 0) ''open succeeded'' []) (\<lambda>_.
      bindP get_errno (\<lambda>errno.
      if errno \<noteq> EFAULT oe then cheriostest_failure_err pl ''EFAULT expected'' [] else cheriostest_success)))"

definition open_fails :: "platform \<Rightarrow> 'k open_env \<Rightarrow> cap \<Rightarrow> ('k, unit) prog" where
  "open_fails pl oe path = bindP (raw_call (oe_open oe path)) (open_refused pl oe)"

definition dev_null :: string where "dev_null = ''/dev/null''"

definition cheriabi_open_ordinary :: "platform \<Rightarrow> 'k open_env \<Rightarrow> ('k, unit) prog" where
  "cheriabi_open_ordinary pl oe = bindP (observe (oe_array oe (dev_null @ [NUL]))) (open_succeeds pl oe)"

definition cheriabi_open_offset :: "platform \<Rightarrow> 'k open_env \<Rightarrow> ('k, unit) prog" where
  "cheriabi_open_offset pl oe =
     bindP (observe (oe_array oe (''xxxx'' @ dev_null @ [NUL]))) (\<lambda>pathbuf. open_succeeds pl oe (cheri_offset_increment pl pathbuf 4))"

definition cheriabi_open_shortened :: "platform \<Rightarrow> 'k open_env \<Rightarrow> ('k, unit) prog" where
  "cheriabi_open_shortened pl oe =
     bindP (observe (oe_array oe (dev_null @ ''/xxxx'' @ [NUL]))) (\<lambda>path.
     bindP (effect (oe_store oe (cheri_offset_increment pl path 9) NUL)) (\<lambda>_. open_succeeds pl oe path))"

text \<open>A pointer made from an integer.\<close>

definition int_pointer :: "platform \<Rightarrow> uintmax \<Rightarrow> cap" where
  "int_pointer pl a = (cap_null pl)\<lparr>cap_addr := a\<rparr>"

definition cheriabi_open_bad_addr :: "platform \<Rightarrow> 'k open_env \<Rightarrow> ('k, unit) prog" where
  "cheriabi_open_bad_addr pl oe = open_fails pl oe (int_pointer pl 90210)"

definition cheriabi_open_bad_addr_2 :: "platform \<Rightarrow> 'k open_env \<Rightarrow> ('k, unit) prog" where
  "cheriabi_open_bad_addr_2 pl oe = open_fails pl oe (int_pointer pl (- 90210))"

definition cheriabi_open_bad_len :: "platform \<Rightarrow> 'k open_env \<Rightarrow> ('k, unit) prog" where
  "cheriabi_open_bad_len pl oe =
     bindP (observe (oe_array oe (dev_null @ [NUL]))) (\<lambda>pathbuf. open_fails pl oe (cheri_bounds_set pl pathbuf (length dev_null)))"

definition cheriabi_open_bad_len_2 :: "platform \<Rightarrow> 'k open_env \<Rightarrow> ('k, unit) prog" where
  "cheriabi_open_bad_len_2 pl oe =
     bindP (observe (oe_array oe (''xxxx'' @ dev_null @ [NUL]))) (\<lambda>pathbuf.
       open_fails pl oe (cheri_offset_increment pl (cheri_bounds_set pl pathbuf 3) 4))"

definition cheriabi_open_bad_tag :: "platform \<Rightarrow> 'k open_env \<Rightarrow> ('k, unit) prog" where
  "cheriabi_open_bad_tag pl oe = bindP (observe (oe_array oe (dev_null @ [NUL]))) (\<lambda>pathbuf. open_fails pl oe (cheri_tag_clear pathbuf))"

definition cheriabi_open_bad_perm :: "platform \<Rightarrow> 'k open_env \<Rightarrow> ('k, unit) prog" where
  "cheriabi_open_bad_perm pl oe =
     bindP (observe (oe_array oe (dev_null @ [NUL]))) (\<lambda>pathbuf. open_fails pl oe (cheri_perms_and pl pathbuf (NOT (CHERI_PERM_LOAD pl))))"

definition cheriabi_open_sentry :: "platform \<Rightarrow> 'k open_env \<Rightarrow> ('k, unit) prog" where
  "cheriabi_open_sentry pl oe = bindP (observe (oe_string oe (dev_null @ [NUL]))) (\<lambda>path. open_fails pl oe (oe_sentry oe path))"

definition open_sealer :: "platform \<Rightarrow> 'k open_env \<Rightarrow> ('k, cap) prog" where
  "open_sealer pl oe =
     (if is_FreeBSD pl
      then bindP (raw_call (oe_sealcap_sysctl oe)) (\<lambda>r. case r of
             None \<Rightarrow> cheriostest_failure_err pl ''sysctlbyname(security.cheri.sealcap)'' []
           | Some c \<Rightarrow> ret c)
      else (let sealer = cheri_offset_increment pl (oe_sealcap_auxv oe) 1
            in if \<not> cheri_tag_get sealer \<or> cheri_perms_get sealer AND CHERI_PERM_SEAL pl = 0
               then cheriostest_failure_err pl ''getauxptr failed'' [] else ret sealer))"

definition cheriabi_open_sealed :: "platform \<Rightarrow> 'k open_env \<Rightarrow> ('k, unit) prog" where
  "cheriabi_open_sealed pl oe =
     bindP (open_sealer pl oe) (\<lambda>sealer.
     bindP (observe (oe_calloc oe 1 4096)) (\<lambda>path.
     bindP (if cap_addr path = 0 then cheriostest_failure_err pl ''calloc'' [] else ret ()) (\<lambda>_.
     bindP (effect (oe_strcpy oe path dev_null)) (\<lambda>_.
     bindP (raw_call (oe_open oe (cheri_seal pl path sealer))) (\<lambda>fd.
     bindP (effect (oe_free oe path)) (\<lambda>_.
     open_refused pl oe fd))))))"

section \<open>A kernel that copies the path\<close>

text \<open>Which of the checks on the pointer the kernel makes for every byte.\<close>

record path_checks =
  ck_tag :: bool
  ck_seal :: bool
  ck_perm :: bool
  ck_bounds :: bool

type_synonym user_mem = "ptraddr \<Rightarrow> char option"

definition may_read :: "platform \<Rightarrow> path_checks \<Rightarrow> cap \<Rightarrow> bool" where
  "may_read pl ck c \<longleftrightarrow> (ck_tag ck \<longrightarrow> cap_tag c) \<and> (ck_seal ck \<longrightarrow> \<not> cheri_is_sealed pl c) \<and>
     (ck_perm ck \<longrightarrow> cap_perms c AND CHERI_PERM_LOAD pl \<noteq> 0) \<and> (ck_bounds ck \<longrightarrow> access_in_bounds c 1)"

text \<open>\<^verbatim>\<open>copyinstr\<close>: at most \<open>n\<close> bytes, up to the \<^verbatim>\<open>NUL\<close>; a byte may be unreadable.\<close>

datatype copied = Faulted | Too_long | Copied string

fun copyinstr :: "(cap \<Rightarrow> bool) \<Rightarrow> user_mem \<Rightarrow> nat \<Rightarrow> cap \<Rightarrow> copied" where
  "copyinstr ok mem 0 c = Too_long"
| "copyinstr ok mem (Suc n) c =
     (if ok c
      then case mem (cap_addr c) of
          None \<Rightarrow> Faulted
        | Some x \<Rightarrow> if x = NUL then Copied []
            else (case copyinstr ok mem n (c\<lparr>cap_addr := cap_addr c + 1\<rparr>) of Copied path \<Rightarrow> Copied (x # path) | r \<Rightarrow> r)
      else Faulted)"

section \<open>Copying\<close>

fun text_at :: "user_mem \<Rightarrow> ptraddr \<Rightarrow> char list \<Rightarrow> bool" where
  "text_at mem a [] = True"
| "text_at mem a (x # xs) = (mem a = Some x \<and> text_at mem (a + 1) xs)"

fun readable :: "(cap \<Rightarrow> bool) \<Rightarrow> cap \<Rightarrow> nat \<Rightarrow> bool" where
  "readable ok c 0 = True"
| "readable ok c (Suc n) = (ok c \<and> readable ok (c\<lparr>cap_addr := cap_addr c + 1\<rparr>) n)"

text \<open>The copy of a text with its \<^verbatim>\<open>NUL\<close> succeeds iff every byte of it can be read.\<close>

lemma copyinstr_text:
  assumes "text_at mem (cap_addr c) (cs @ [NUL])" "NUL \<notin> set cs" "length cs < n"
  shows "copyinstr ok mem n c = (if readable ok c (Suc (length cs)) then Copied cs else Faulted)"
  using assms
proof (induction cs arbitrary: c n)
  case Nil
  then show ?case by (cases n) auto
next
  case (Cons x cs)
  then obtain m where n: "n = Suc m" by (cases n) auto
  have "text_at mem (cap_addr (c\<lparr>cap_addr := cap_addr c + 1\<rparr>)) (cs @ [NUL])" "NUL \<notin> set cs" "length cs < m"
    using Cons.prems by (simp_all add: n)
  from Cons.IH [OF this] show ?case using Cons.prems by (auto simp: n)
qed

lemma text_at_append: "text_at mem a (xs @ ys) \<longleftrightarrow> text_at mem a xs \<and> text_at mem (a + of_nat (length xs)) ys"
  by (induction xs arbitrary: a) (simp_all add: algebra_simps)

lemma text_at_update: "text_at mem a xs \<Longrightarrow> (\<And>i. i < length xs \<Longrightarrow> a + of_nat i \<noteq> b) \<Longrightarrow> text_at (mem(b \<mapsto> y)) a xs"
proof (induction xs arbitrary: a)
  case (Cons x xs)
  have "a + 1 + of_nat i \<noteq> b" if "i < length xs" for i
    using Cons.prems(2) [of "Suc i"] that by (simp add: add.assoc)
  moreover have "a \<noteq> b" using Cons.prems(2) [of 0] by simp
  ultimately show ?case using Cons.IH [of "a + 1"] Cons.prems(1) by simp
qed simp

text \<open>The checks that do not look at the address, and those that do.\<close>

definition fixed_ok :: "platform \<Rightarrow> path_checks \<Rightarrow> cap \<Rightarrow> bool" where
  "fixed_ok pl ck c \<longleftrightarrow> (ck_tag ck \<longrightarrow> cap_tag c) \<and> (ck_seal ck \<longrightarrow> \<not> cheri_is_sealed pl c) \<and>
     (ck_perm ck \<longrightarrow> cap_perms c AND CHERI_PERM_LOAD pl \<noteq> 0)"

lemma readable_iff:
  assumes "unat (cap_addr c) + n < 2 ^ 64" "0 < n"
  shows "readable (may_read pl ck) c n \<longleftrightarrow>
    fixed_ok pl ck c \<and> (ck_bounds ck \<longrightarrow> unat (cap_base c) \<le> unat (cap_addr c) \<and> unat (cap_addr c) + n \<le> cap_top c)"
  using assms
proof (induction n arbitrary: c)
  case 0
  then show ?case by simp
next
  case (Suc n)
  let ?d = "c\<lparr>cap_addr := cap_addr c + 1\<rparr>"
  have u: "unat (cap_addr c + 1) = unat (cap_addr c) + 1" using Suc.prems(1) by (simp add: unat_word_ariths)
  have f: "fixed_ok pl ck ?d = fixed_ok pl ck c" "cap_top ?d = cap_top c" by (simp_all add: fixed_ok_def cheri_is_sealed_def cap_top_def)
  show ?case
  proof (cases n)
    case 0
    then show ?thesis by (auto simp: may_read_def fixed_ok_def access_in_bounds_def)
  next
    case (Suc m)
    have "readable (may_read pl ck) ?d n \<longleftrightarrow>
        fixed_ok pl ck c \<and> (ck_bounds ck \<longrightarrow> unat (cap_base c) \<le> unat (cap_addr c) + 1 \<and> unat (cap_addr c) + 1 + n \<le> cap_top c)"
      using Suc.IH [of ?d] Suc.prems Suc u f by (simp add: algebra_simps)
    then show ?thesis unfolding readable.simps(2) may_read_def fixed_ok_def access_in_bounds_def by (cases "ck_bounds ck") (simp_all, linarith?)
  qed
qed

section \<open>Verdicts\<close>

lemma dev_null_length [simp]: "length dev_null = 9"
  by (simp add: dev_null_def)

lemma refused_iff:
  "declares_success (open_refused pl oe r) s \<longleftrightarrow> p_ccsp s \<noteq> None \<and> p_errno s = EFAULT oe \<and> (case r of None \<Rightarrow> True | Some fd \<Rightarrow> fd \<le> 0)"
  by (auto simp: open_refused_def passes_simps split: option.splits)

lemma open_fails_iff:
  assumes "p_errno s \<noteq> EFAULT oe"
  shows "declares_success (open_fails pl oe p) s \<longleftrightarrow> p_ccsp s \<noteq> None \<and> fst (oe_open oe p (p_world s)) = Inl (EFAULT oe)"
  using assms by (auto simp: open_fails_def success_raw_call refused_iff split: prod.splits sum.splits)

lemma open_succeeds_iff:
  "declares_success (open_succeeds pl oe p) s \<longleftrightarrow> p_ccsp s \<noteq> None \<and> after (oe_open oe p) (p_world s) (\<lambda>fd k. after (oe_close oe fd) k (\<lambda>_ _. True))"
  by (auto simp: open_succeeds_def success_raw_call after_def passes_simps split: prod.splits sum.splits)

text \<open>A whole object in user memory, with its capability.\<close>

definition user_object :: "platform \<Rightarrow> cap \<Rightarrow> nat \<Rightarrow> bool" where
  "user_object pl c n \<longleftrightarrow> cap_tag c \<and> \<not> cheri_is_sealed pl c \<and> cap_perms c AND CHERI_PERM_LOAD pl \<noteq> 0 \<and>
     cap_addr c = cap_base c \<and> n \<le> cap_len c \<and> unat (cap_base c) + cap_len c < 2 ^ 64"

text \<open>Tiny capabilities are not rounded, and an address next to a tiny object can be represented.\<close>

definition tiny_exact :: "platform \<Rightarrow> bool" where
  "tiny_exact pl \<longleftrightarrow> (\<forall>a n. n \<le> 16 \<longrightarrow> arch_round_bounds pl a n = (a, n)) \<and>
     (\<forall>c a. cap_len c \<le> 16 \<longrightarrow> unat (cap_base c) \<le> unat a \<longrightarrow> unat a \<le> unat (cap_base c) + 16 \<longrightarrow> arch_representable pl c a)"

text \<open>The path \<^verbatim>\<open>/dev/null\<close> behind a pointer passes the checks.\<close>

definition passed :: "platform \<Rightarrow> path_checks \<Rightarrow> cap \<Rightarrow> bool" where
  "passed pl ck p \<longleftrightarrow> fixed_ok pl ck p \<and> (ck_bounds ck \<longrightarrow> unat (cap_base p) \<le> unat (cap_addr p) \<and> unat (cap_addr p) + 10 \<le> cap_top p)"

text \<open>The file is opened and closed again.\<close>

definition opened :: "'k open_env \<Rightarrow> (string \<Rightarrow> ('k, int) sys) \<Rightarrow> 'k \<Rightarrow> bool" where
  "opened oe open_file k \<longleftrightarrow> after (open_file dev_null) k (\<lambda>fd k. after (oe_close oe fd) k (\<lambda>_ _. True))"

text \<open>There is a sealing capability, and it has a property.\<close>

definition with_sealer :: "platform \<Rightarrow> 'k open_env \<Rightarrow> 'k \<Rightarrow> (cap \<Rightarrow> 'k \<Rightarrow> bool) \<Rightarrow> bool" where
  "with_sealer pl oe k P \<longleftrightarrow>
     (if is_FreeBSD pl then after (oe_sealcap_sysctl oe) k P
      else let sealer = cheri_offset_increment pl (oe_sealcap_auxv oe) 1
        in cap_tag sealer \<and> cap_perms sealer AND CHERI_PERM_SEAL pl \<noteq> 0 \<and> P sealer k)"

text \<open>
  What is asked of the system, in terms of the user memory \<open>mem\<close> that the kernel sees, the checks \<open>ck\<close> that it makes on the pointer of a path,
  the longest path, and what it does with a path once it is copied (\<open>open_file\<close>, which may fail, but not with \<^verbatim>\<open>EFAULT\<close>). \<^verbatim>\<open>calloc\<close> and the
  source of the sealing capability may fail; making a sentry may clear the tag.
\<close>

locale path_copying =
  fixes pl :: platform and oe :: "'k open_env" and mem :: "'k \<Rightarrow> user_mem" and ck :: path_checks and path_max :: nat
    and open_file :: "string \<Rightarrow> ('k, int) sys"
  assumes tiny: "tiny_exact pl"
    and array_law: "oe_array oe cs k = (c, k') \<Longrightarrow> length cs \<le> 16 \<Longrightarrow>
      user_object pl c (length cs) \<and> cap_len c = length cs \<and> text_at (mem k') (cap_addr c) cs"
    and string_law: "oe_string oe cs k = (c, k') \<Longrightarrow> length cs \<le> 16 \<Longrightarrow> user_object pl c (length cs) \<and> text_at (mem k') (cap_addr c) cs"
    and store_law: "oe_array oe cs k0 = (d, k) \<Longrightarrow> i < length cs \<Longrightarrow> length cs \<le> 16 \<Longrightarrow>
      fst (oe_store oe (d\<lparr>cap_addr := cap_addr d + of_nat i\<rparr>) x k) = None \<and>
      mem (snd (oe_store oe (d\<lparr>cap_addr := cap_addr d + of_nat i\<rparr>) x k)) = (mem k)(cap_addr d + of_nat i \<mapsto> x)"
    and calloc_law: "oe_calloc oe m n k = (c, k') \<Longrightarrow> cap_addr c \<noteq> 0 \<Longrightarrow> user_object pl c (m * n)"
    and strcpy_law: "user_object pl c n \<Longrightarrow> length path < n \<Longrightarrow>
      fst (oe_strcpy oe c path k) = None \<and> text_at (mem (snd (oe_strcpy oe c path k))) (cap_addr c) (path @ [NUL])"
    and free_law: "user_object pl c n \<Longrightarrow> fst (oe_free oe c k) = None"
    and sentry_law: "CHERI_OTYPE_SENTRY pl \<noteq> CHERI_OTYPE_UNSEALED pl \<and> oe_sentry oe c = c\<lparr>cap_otype := CHERI_OTYPE_SENTRY pl, cap_tag := cap_tag (oe_sentry oe c)\<rparr>"
    and path_max_law: "16 \<le> path_max"
    and faulted_law: "copyinstr (may_read pl ck) (mem k) path_max p = Faulted \<Longrightarrow> fst (oe_open oe p k) = Inl (EFAULT oe)"
    and too_long_law: "copyinstr (may_read pl ck) (mem k) path_max p = Too_long \<Longrightarrow> \<exists>e. e \<noteq> EFAULT oe \<and> fst (oe_open oe p k) = Inl e"
    and copied_law: "copyinstr (may_read pl ck) (mem k) path_max p = Copied path \<Longrightarrow> oe_open oe p k = open_file path k"
    and open_file_law: "fst (open_file path k) \<noteq> Inl (EFAULT oe)"
begin

lemma refused_faulted:
  "fst (oe_open oe p k) = Inl (EFAULT oe) \<longleftrightarrow> copyinstr (may_read pl ck) (mem k) path_max p = Faulted"
  using faulted_law [of k p] too_long_law [of k p] copied_law [of k p] open_file_law
  by (cases "copyinstr (may_read pl ck) (mem k) path_max p") auto

lemma open_path:
  assumes "text_at (mem k) (cap_addr p) (dev_null @ [NUL])" "unat (cap_addr p) + 10 < 2 ^ 64"
  shows "fst (oe_open oe p k) = Inl (EFAULT oe) \<longleftrightarrow> \<not> passed pl ck p" "passed pl ck p \<Longrightarrow> oe_open oe p k = open_file dev_null k"
proof -
  have "readable (may_read pl ck) p (Suc (length dev_null)) = passed pl ck p"
    using readable_iff [of p "Suc (length dev_null)" pl ck] assms(2) by (simp add: passed_def del: readable.simps)
  moreover have "NUL \<notin> set dev_null" by (simp add: dev_null_def)
  ultimately have "copyinstr (may_read pl ck) (mem k) path_max p = (if passed pl ck p then Copied dev_null else Faulted)"
    using copyinstr_text [OF assms(1), of path_max "may_read pl ck"] path_max_law by (simp del: readable.simps)
  then show "fst (oe_open oe p k) = Inl (EFAULT oe) \<longleftrightarrow> \<not> passed pl ck p" "passed pl ck p \<Longrightarrow> oe_open oe p k = open_file dev_null k"
    by (simp_all add: refused_faulted copied_law)
qed

text \<open>What an array with the path behind \<open>pre\<close> and in front of \<open>post\<close> holds.\<close>

lemma array_path:
  assumes "oe_array oe (pre @ dev_null @ [NUL] @ post) k = (c, k')" "length pre + length post \<le> 6"
  shows "user_object pl c (10 + length pre + length post)" "cap_len c = 10 + length pre + length post"
    "text_at (mem k') (cap_addr c + of_nat (length pre)) (dev_null @ [NUL])"
proof -
  from array_law [OF assms(1)] assms(2) have l: "user_object pl c (10 + length pre + length post)" "cap_len c = 10 + length pre + length post"
    and t: "text_at (mem k') (cap_addr c) (pre @ dev_null @ [NUL] @ post)" by (simp_all add: algebra_simps)
  show "user_object pl c (10 + length pre + length post)" "cap_len c = 10 + length pre + length post" by (rule l)+
  show "text_at (mem k') (cap_addr c + of_nat (length pre)) (dev_null @ [NUL])"
    using t text_at_append [of "mem k'" _ "dev_null @ [NUL]" post] by (simp add: text_at_append del: append.simps)
qed

lemma offset_small:
  assumes "unat (cap_base c) + cap_len c < 2 ^ 64" "cap_addr c = cap_base c" "n \<le> cap_len c"
  shows "unat (cap_addr c + of_nat n) = unat (cap_base c) + n"
  using assms by (simp add: unat_word_ariths unat_of_nat take_bit_nat_eq_self_iff)

text \<open>Pointers derived from a tiny array.\<close>

lemma derived_inside:
  assumes "user_object pl c n" "cap_len c \<le> 16" "k \<le> cap_len c"
  shows "cheri_offset_increment pl c (of_nat k) = c\<lparr>cap_addr := cap_addr c + of_nat k\<rparr>"
  using assms tiny offset_small [of c k]
  by (cases c) (auto simp: user_object_def cheri_offset_increment_def cheri_address_set_def tiny_exact_def)

lemma derived_bounds:
  assumes "user_object pl c n" "cap_len c \<le> 16" "k \<le> cap_len c"
  shows "cheri_bounds_set pl c k = c\<lparr>cap_len := k\<rparr>"
  using assms tiny
  by (cases c) (auto simp: user_object_def cheri_bounds_set_def tiny_exact_def access_in_bounds_def cap_top_def)

lemma good_paths:
  assumes "p_ccsp s \<noteq> None"
  shows "declares_success (cheriabi_open_ordinary pl oe) s \<longleftrightarrow> opened oe open_file (snd (oe_array oe (dev_null @ [NUL]) (p_world s)))"
    "declares_success (cheriabi_open_offset pl oe) s \<longleftrightarrow> opened oe open_file (snd (oe_array oe (''xxxx'' @ dev_null @ [NUL]) (p_world s)))"
proof -
  obtain c k where a: "oe_array oe (dev_null @ [NUL]) (p_world s) = (c, k)" by fastforce
  with array_path [of "[]" "[]" "p_world s" c k] have o: "user_object pl c 10" "cap_len c = 10" "text_at (mem k) (cap_addr c) (dev_null @ [NUL])" by simp_all
  then have "passed pl ck c" "unat (cap_addr c) + 10 < 2 ^ 64"
    by (simp_all add: user_object_def passed_def fixed_ok_def cap_top_def)
  from open_path(2) [OF o(3) this(2,1)] show "declares_success (cheriabi_open_ordinary pl oe) s \<longleftrightarrow>
      opened oe open_file (snd (oe_array oe (dev_null @ [NUL]) (p_world s)))"
    using assms a by (simp add: cheriabi_open_ordinary_def passes_simps open_succeeds_iff opened_def after_def)
  obtain c k where a: "oe_array oe (''xxxx'' @ dev_null @ [NUL]) (p_world s) = (c, k)" by fastforce
  with array_path [of "''xxxx''" "[]" "p_world s" c k] have o: "user_object pl c 14" "cap_len c = 14" "text_at (mem k) (cap_addr c + 4) (dev_null @ [NUL])" by simp_all
  let ?p = "cheri_offset_increment pl c 4"
  have p: "?p = c\<lparr>cap_addr := cap_addr c + 4\<rparr>" using derived_inside [OF o(1), of 4] o(2) by simp
  have u: "unat (cap_addr c + 4) = unat (cap_base c) + 4" using offset_small [of c 4] o by (simp add: user_object_def)
  have "passed pl ck ?p" "unat (cap_addr ?p) + 10 < 2 ^ 64" "text_at (mem k) (cap_addr ?p) (dev_null @ [NUL])"
    using o u by (simp_all add: p user_object_def passed_def fixed_ok_def cap_top_def cheri_is_sealed_def)
  from open_path(2) [OF this(3,2,1)] show "declares_success (cheriabi_open_offset pl oe) s \<longleftrightarrow>
      opened oe open_file (snd (oe_array oe (''xxxx'' @ dev_null @ [NUL]) (p_world s)))"
    using assms a by (simp add: cheriabi_open_offset_def passes_simps open_succeeds_iff opened_def after_def)
qed

lemma shortened_path:
  assumes "p_ccsp s \<noteq> None" "oe_array oe (dev_null @ ''/xxxx'' @ [NUL]) (p_world s) = (c, k)"
  shows "declares_success (cheriabi_open_shortened pl oe) s \<longleftrightarrow> opened oe open_file (snd (oe_store oe (cheri_offset_increment pl c 9) NUL k))"
proof -
  let ?path = "dev_null @ ''/xxxx'' @ [NUL]" and ?p = "cheri_offset_increment pl c 9"
  have o: "user_object pl c 15" "cap_len c = 15" "text_at (mem k) (cap_addr c) ?path"
    using array_law [OF assms(2)] by simp_all
  have p: "?p = c\<lparr>cap_addr := cap_addr c + of_nat 9\<rparr>" using derived_inside [OF o(1), of 9] o(2) by simp
  have st: "fst (oe_store oe ?p NUL k) = None" "mem (snd (oe_store oe ?p NUL k)) = (mem k)(cap_addr c + of_nat 9 \<mapsto> NUL)"
    using store_law [OF assms(2), of 9 NUL] unfolding p by simp_all
  have ne: "cap_addr c + of_nat i \<noteq> cap_addr c + of_nat 9" if "i < 9" for i
    using offset_small [of c i] offset_small [of c 9] o that by (auto simp: user_object_def)
  have "text_at ((mem k)(cap_addr c + of_nat 9 \<mapsto> NUL)) (cap_addr c) dev_null"
    by (rule text_at_update) (use o(3) ne in \<open>simp_all add: text_at_append\<close>)
  then have t: "text_at (mem (snd (oe_store oe ?p NUL k))) (cap_addr c) (dev_null @ [NUL])"
    by (simp add: st(2) text_at_append)
  have "passed pl ck c" "unat (cap_addr c) + 10 < 2 ^ 64"
    using o by (simp_all add: user_object_def passed_def fixed_ok_def cap_top_def)
  from open_path(2) [OF t this(2,1)] show ?thesis
    using assms st(1) by (simp add: cheriabi_open_shortened_def passes_simps open_succeeds_iff opened_def after_def)
qed

lemma bad_addresses:
  assumes "p_ccsp s \<noteq> None" "p_errno s \<noteq> EFAULT oe"
  shows "declares_success (cheriabi_open_bad_addr pl oe) s \<longleftrightarrow> copyinstr (may_read pl ck) (mem (p_world s)) path_max (int_pointer pl 90210) = Faulted"
    "declares_success (cheriabi_open_bad_addr_2 pl oe) s \<longleftrightarrow> copyinstr (may_read pl ck) (mem (p_world s)) path_max (int_pointer pl (- 90210)) = Faulted"
  using assms by (simp_all add: cheriabi_open_bad_addr_def cheriabi_open_bad_addr_2_def open_fails_iff refused_faulted)

lemma bad_pointers:
  assumes "p_ccsp s \<noteq> None" "p_errno s \<noteq> EFAULT oe"
  shows "declares_success (cheriabi_open_bad_len pl oe) s \<longleftrightarrow> ck_bounds ck"
    "declares_success (cheriabi_open_bad_len_2 pl oe) s \<longleftrightarrow> ck_bounds ck"
    "declares_success (cheriabi_open_bad_tag pl oe) s \<longleftrightarrow> ck_tag ck"
    "declares_success (cheriabi_open_bad_perm pl oe) s \<longleftrightarrow> ck_perm ck"
proof -
  obtain c k where a: "oe_array oe (dev_null @ [NUL]) (p_world s) = (c, k)" by fastforce
  with array_path [of "[]" "[]" "p_world s" c k] have o: "user_object pl c 10" "cap_len c = 10" "text_at (mem k) (cap_addr c) (dev_null @ [NUL])" by simp_all
  have u: "unat (cap_addr c) + 10 < 2 ^ 64" using o by (simp add: user_object_def)
  note run = passes_simps open_fails_iff a
  have eq: "fst (oe_open oe p k) = Inl (EFAULT oe) \<longleftrightarrow> \<not> passed pl ck p" if "cap_addr p = cap_addr c" for p
    using open_path(1) [of k p] o(3) u that by simp
  show "declares_success (cheriabi_open_bad_len pl oe) s \<longleftrightarrow> ck_bounds ck"
    using eq [of "c\<lparr>cap_len := 9\<rparr>"] derived_bounds [OF o(1), of 9] o(1,2) assms
    by (simp add: cheriabi_open_bad_len_def run) (simp add: passed_def fixed_ok_def user_object_def cap_top_def cheri_is_sealed_def)
  show "declares_success (cheriabi_open_bad_tag pl oe) s \<longleftrightarrow> ck_tag ck"
    using eq [of "c\<lparr>cap_tag := False\<rparr>"] o(1,2) assms
    by (simp add: cheriabi_open_bad_tag_def run cheri_tag_clear_def) (simp add: passed_def fixed_ok_def user_object_def cap_top_def cheri_is_sealed_def)
  have noload: "(cap_perms c AND NOT (CHERI_PERM_LOAD pl)) AND CHERI_PERM_LOAD pl = 0" by (simp add: and.assoc)
  show "declares_success (cheriabi_open_bad_perm pl oe) s \<longleftrightarrow> ck_perm ck"
    using eq [of "cheri_perms_and pl c (NOT (CHERI_PERM_LOAD pl))"] o(1,2) assms noload
    by (simp add: cheriabi_open_bad_perm_def run cheri_perms_and_def) (simp add: passed_def fixed_ok_def user_object_def cap_top_def cheri_is_sealed_def)
  obtain c k where a: "oe_array oe (''xxxx'' @ dev_null @ [NUL]) (p_world s) = (c, k)" by fastforce
  with array_path [of "''xxxx''" "[]" "p_world s" c k] have o: "user_object pl c 14" "cap_len c = 14" "text_at (mem k) (cap_addr c + 4) (dev_null @ [NUL])" by simp_all
  have u: "unat (cap_addr c + 4) = unat (cap_base c) + 4" using offset_small [of c 4] o by (simp add: user_object_def)
  have b: "cheri_bounds_set pl c 3 = c\<lparr>cap_len := 3\<rparr>" using derived_bounds [OF o(1), of 3] o(2) by simp
  have p: "cheri_offset_increment pl (c\<lparr>cap_len := 3\<rparr>) 4 = c\<lparr>cap_len := 3, cap_addr := cap_addr c + 4\<rparr>"
    using tiny u o(1) by (cases c) (auto simp: tiny_exact_def cheri_offset_increment_def cheri_address_set_def user_object_def cheri_is_sealed_def)
  show "declares_success (cheriabi_open_bad_len_2 pl oe) s \<longleftrightarrow> ck_bounds ck"
    using open_path(1) [of k "c\<lparr>cap_len := 3, cap_addr := cap_addr c + 4\<rparr>"] o u assms a b p
    by (simp add: cheriabi_open_bad_len_2_def passes_simps open_fails_iff)
      (simp add: passed_def fixed_ok_def user_object_def cap_top_def cheri_is_sealed_def)
qed

lemma sentry_path:
  assumes "p_ccsp s \<noteq> None" "p_errno s \<noteq> EFAULT oe"
  shows "declares_success (cheriabi_open_sentry pl oe) s \<longleftrightarrow>
    ck_seal ck \<or> ck_tag ck \<and> \<not> cap_tag (oe_sentry oe (fst (oe_string oe (dev_null @ [NUL]) (p_world s))))"
proof -
  obtain c k where a: "oe_string oe (dev_null @ [NUL]) (p_world s) = (c, k)" by fastforce
  with string_law [of "dev_null @ [NUL]" "p_world s" c k] have o: "user_object pl c 10" "text_at (mem k) (cap_addr c) (dev_null @ [NUL])" by simp_all
  obtain t where t: "oe_sentry oe c = c\<lparr>cap_otype := CHERI_OTYPE_SENTRY pl, cap_tag := t\<rparr>" using sentry_law by blast
  have "fst (oe_open oe (oe_sentry oe c) k) = Inl (EFAULT oe) \<longleftrightarrow> \<not> passed pl ck (oe_sentry oe c)"
    by (rule open_path) (use o in \<open>simp_all add: t user_object_def\<close>)
  then show ?thesis
    using o(1) assms sentry_law by (simp add: cheriabi_open_sentry_def passes_simps open_fails_iff a)
      (auto simp: t passed_def fixed_ok_def user_object_def cap_top_def cheri_is_sealed_def)
qed

lemma sealed_path:
  assumes "p_ccsp s \<noteq> None" "p_errno s \<noteq> EFAULT oe"
  shows "declares_success (cheriabi_open_sealed pl oe) s \<longleftrightarrow> with_sealer pl oe (p_world s) (\<lambda>sealer k.
    let path = fst (oe_calloc oe 1 4096 k) in
    cap_addr path \<noteq> 0 \<and> (ck_seal ck \<and> cap_addr sealer \<noteq> CHERI_OTYPE_UNSEALED pl \<or> ck_tag ck \<and> \<not> may_seal pl path sealer))"
proof -
  have run: "declares_success (bindP (observe (oe_calloc oe 1 4096)) (\<lambda>path.
     bindP (if cap_addr path = 0 then cheriostest_failure_err pl ''calloc'' [] else ret ()) (\<lambda>_.
     bindP (effect (oe_strcpy oe path dev_null)) (\<lambda>_.
     bindP (raw_call (oe_open oe (cheri_seal pl path sealer))) (\<lambda>fd.
     bindP (effect (oe_free oe path)) (\<lambda>_.
     open_refused pl oe fd)))))) (s\<lparr>p_world := k\<rparr>) \<longleftrightarrow> (let path = fst (oe_calloc oe 1 4096 k) in
       cap_addr path \<noteq> 0 \<and> (ck_seal ck \<and> cap_addr sealer \<noteq> CHERI_OTYPE_UNSEALED pl \<or> ck_tag ck \<and> \<not> may_seal pl path sealer))"
    (is "declares_success ?body (?s k) \<longleftrightarrow> ?good k") for sealer k
  proof (cases "cap_addr (fst (oe_calloc oe 1 4096 k)) = 0")
    case True
    then show ?thesis by (simp add: passes_simps Let_def del: One_nat_def)
  next
    case False
    obtain c k1 where c: "oe_calloc oe 1 4096 k = (c, k1)" by fastforce
    with calloc_law [OF c] False have o: "user_object pl c 4096" by simp
    let ?k = "snd (oe_strcpy oe c dev_null k1)"
    from strcpy_law [OF o, of dev_null k1] have st: "fst (oe_strcpy oe c dev_null k1) = None"
      "text_at (mem ?k) (cap_addr c) (dev_null @ [NUL])" by simp_all
    have "fst (oe_open oe (cheri_seal pl c sealer) ?k) = Inl (EFAULT oe) \<longleftrightarrow> \<not> passed pl ck (cheri_seal pl c sealer)"
      by (rule open_path) (use st o in \<open>simp_all add: cheri_seal_def user_object_def\<close>)
    moreover have "\<not> passed pl ck (cheri_seal pl c sealer) \<longleftrightarrow>
        ck_seal ck \<and> cap_addr sealer \<noteq> CHERI_OTYPE_UNSEALED pl \<or> ck_tag ck \<and> \<not> may_seal pl c sealer"
      using o by (auto simp: cheri_seal_def passed_def fixed_ok_def user_object_def cap_top_def cheri_is_sealed_def)
    ultimately show ?thesis
      using c False st(1) free_law [OF o] assms
      by (cases "oe_open oe (cheri_seal pl c sealer) ?k"; cases "fst (oe_open oe (cheri_seal pl c sealer) ?k)")
        (auto simp: passes_simps success_raw_call refused_iff Let_def simp del: One_nat_def)
  qed
  have fail: "\<not> declares_success (bindP (cheriostest_failure_err pl m ap) f) t" for m ap t and f :: "cap \<Rightarrow> ('k, unit) prog"
    by (simp add: passes_simps)
  show ?thesis
  proof (cases "is_FreeBSD pl")
    case True
    then show ?thesis
      by (simp add: cheriabi_open_sealed_def open_sealer_def with_sealer_def bindP_assoc success_raw_call after_def run fail
          split: prod.splits sum.splits del: One_nat_def)
  next
    case False
    have "s\<lparr>p_world := p_world s\<rparr> = s" by simp
    with False run [of _ "p_world s"] show ?thesis
      by (simp add: cheriabi_open_sealed_def open_sealer_def with_sealer_def bindP_assoc Let_def cheri_tag_get_def cheri_perms_get_def fail
          del: One_nat_def not_FreeBSD)
  qed
qed

end

text \<open>
  C29: On every system that meets the contract \<open>path_copying\<close> (\<^verbatim>\<open>open\<close> copies the path through the pointer with any selection \<open>ck\<close> of checks on the
  tag, the seal, the load permission and the bounds, gives \<^verbatim>\<open>EFAULT\<close> when a byte cannot be read and only then, and otherwise does
  \<open>open_file\<close> with the copied path; tiny objects have exact bounds), with \<^verbatim>\<open>errno\<close> not yet \<^verbatim>\<open>EFAULT\<close>: the three tests of good paths succeed exactly when
  \<^verbatim>\<open>/dev/null\<close> can be opened and closed, whatever is checked; those of nonsensical addresses exactly when the copy from there faults; those of lengths, of
  the tag and of the permission exactly when that check is made; that of the sentry when seals are checked, or tags and the sentry has lost its own;
  that of the sealed path when in addition a sealing capability and memory could be had, and sealing gave a sealed capability (seals
  are checked) or an untagged one (tags are). A descriptor 0 from a path that should be refused does not pass, because of the check of \<^verbatim>\<open>errno\<close>.
\<close>

theorem open_tests_verdict:
  assumes "path_copying pl oe mem ck path_max open_file" "p_ccsp s \<noteq> None" "p_errno s \<noteq> EFAULT oe"
    and short: "oe_array oe (dev_null @ ''/xxxx'' @ [NUL]) (p_world s) = (buf, k)"
  shows "(declares_success (cheriabi_open_ordinary pl oe) s \<longleftrightarrow> opened oe open_file (snd (oe_array oe (dev_null @ [NUL]) (p_world s)))) \<and>
    (declares_success (cheriabi_open_offset pl oe) s \<longleftrightarrow> opened oe open_file (snd (oe_array oe (''xxxx'' @ dev_null @ [NUL]) (p_world s)))) \<and>
    (declares_success (cheriabi_open_shortened pl oe) s \<longleftrightarrow> opened oe open_file (snd (oe_store oe (cheri_offset_increment pl buf 9) NUL k))) \<and>
    (declares_success (cheriabi_open_bad_addr pl oe) s \<longleftrightarrow> copyinstr (may_read pl ck) (mem (p_world s)) path_max (int_pointer pl 90210) = Faulted) \<and>
    (declares_success (cheriabi_open_bad_addr_2 pl oe) s \<longleftrightarrow> copyinstr (may_read pl ck) (mem (p_world s)) path_max (int_pointer pl (- 90210)) = Faulted) \<and>
    (declares_success (cheriabi_open_bad_len pl oe) s \<longleftrightarrow> ck_bounds ck) \<and> (declares_success (cheriabi_open_bad_len_2 pl oe) s \<longleftrightarrow> ck_bounds ck) \<and>
    (declares_success (cheriabi_open_bad_tag pl oe) s \<longleftrightarrow> ck_tag ck) \<and> (declares_success (cheriabi_open_bad_perm pl oe) s \<longleftrightarrow> ck_perm ck) \<and>
    (declares_success (cheriabi_open_sentry pl oe) s \<longleftrightarrow>
      ck_seal ck \<or> ck_tag ck \<and> \<not> cap_tag (oe_sentry oe (fst (oe_string oe (dev_null @ [NUL]) (p_world s))))) \<and>
    (declares_success (cheriabi_open_sealed pl oe) s \<longleftrightarrow> with_sealer pl oe (p_world s) (\<lambda>sealer k.
      let path = fst (oe_calloc oe 1 4096 k) in
      cap_addr path \<noteq> 0 \<and> (ck_seal ck \<and> cap_addr sealer \<noteq> CHERI_OTYPE_UNSEALED pl \<or> ck_tag ck \<and> \<not> may_seal pl path sealer)))"
  by (intro conjI path_copying.good_paths [OF assms(1,2)] path_copying.shortened_path [OF assms(1,2) short] path_copying.bad_addresses [OF assms(1-3)]
      path_copying.bad_pointers [OF assms(1-3)] path_copying.sentry_path [OF assms(1-3)] path_copying.sealed_path [OF assms(1-3)])

section \<open>A system that meets the contract\<close>

text \<open>A process with one object at \<open>b\<close>; \<^verbatim>\<open>/dev/null\<close> is the only file, and \<open>newfd\<close> the descriptor that \<^verbatim>\<open>open\<close> gives.\<close>

definition placed :: "ptraddr \<Rightarrow> char list \<Rightarrow> user_mem \<Rightarrow> user_mem" where
  "placed b cs mem a = (if unat (a - b) < length cs then Some (cs ! unat (a - b)) else mem a)"

definition whole_array :: "platform \<Rightarrow> ptraddr \<Rightarrow> nat \<Rightarrow> cap" where
  "whole_array pl b n = \<lparr>cap_tag = True, cap_addr = b, cap_base = b, cap_len = n, cap_perms = CHERI_PERM_LOAD pl, cap_otype = CHERI_OTYPE_UNSEALED pl, cap_flags = 0\<rparr>"

definition only_dev_null :: "int \<Rightarrow> string \<Rightarrow> (user_mem, int) sys" where
  "only_dev_null newfd path mem = (if path = dev_null then Inr newfd else Inl 2, mem)"

definition path_kernel :: "platform \<Rightarrow> path_checks \<Rightarrow> int \<Rightarrow> cap \<Rightarrow> user_mem open_env" where
  "path_kernel pl ck newfd sealcap =
     \<lparr>oe_array = (\<lambda>cs mem. (whole_array pl 0x10000 (length cs), placed 0x10000 cs mem)),
      oe_string = (\<lambda>cs mem. (whole_array pl 0x10000 (length cs), placed 0x10000 cs mem)),
      oe_store = (\<lambda>p x mem. (None, mem(cap_addr p \<mapsto> x))),
      oe_calloc = (\<lambda>n m mem. if n * m = 4096 then (whole_array pl 0x20000 4096, placed 0x20000 (replicate 4096 NUL) mem) else (cap_null pl, mem)),
      oe_strcpy = (\<lambda>p cs mem. (None, placed (cap_addr p) (cs @ [NUL]) mem)),
      oe_free = (\<lambda>p mem. (None, mem)),
      oe_open = (\<lambda>p mem. case copyinstr (may_read pl ck) mem 1024 p of
         Faulted \<Rightarrow> (Inl 14, mem) | Too_long \<Rightarrow> (Inl 63, mem) | Copied path \<Rightarrow> only_dev_null newfd path mem),
      oe_close = (\<lambda>fd mem. (Inr (), mem)), oe_sealcap_sysctl = (\<lambda>mem. (Inr sealcap, mem)), oe_sealcap_auxv = sealcap,
      oe_sentry = (\<lambda>c. c\<lparr>cap_otype := CHERI_OTYPE_SENTRY pl\<rparr>), EFAULT = 14\<rparr>"

lemma placed_same: "length cs \<le> 2 ^ 64 \<Longrightarrow> k < length cs \<Longrightarrow> placed b cs mem (b + of_nat k) = Some (cs ! k)"
  by (simp add: placed_def unat_of_nat take_bit_nat_eq_self_iff)

lemma placed_text:
  assumes "length cs \<le> 2 ^ 64" "k \<le> length cs"
  shows "text_at (placed b cs mem) (b + of_nat k) (drop k cs)"
  using assms(2)
proof (induction "length cs - k" arbitrary: k)
  case 0
  then show ?case by simp
next
  case (Suc d)
  then have k: "k < length cs" by simp
  then have "drop k cs = cs ! k # drop (Suc k) cs" by (simp add: Cons_nth_drop_Suc)
  moreover have "text_at (placed b cs mem) (b + of_nat (Suc k)) (drop (Suc k) cs)" using Suc by (intro Suc.hyps(1)) simp_all
  ultimately show ?case using placed_same [OF assms(1) k] by (simp add: algebra_simps)
qed

text \<open>A platform without rounding.\<close>

lemma path_kernel_copies:
  assumes "tiny_exact pl" "CHERI_OTYPE_SENTRY pl \<noteq> CHERI_OTYPE_UNSEALED pl" "CHERI_PERM_LOAD pl \<noteq> 0"
  shows "path_copying pl (path_kernel pl ck newfd sealcap) (\<lambda>mem. mem) ck 1024 (only_dev_null newfd)"
proof
  fix c n and path :: string and k :: user_mem
  assume c: "user_object pl c n" "length path < n"
  then have "length (path @ [NUL]) \<le> 2 ^ 64" by (simp add: user_object_def)
  from placed_text [OF this le0] show "fst (oe_strcpy (path_kernel pl ck newfd sealcap) c path k) = None \<and>
      text_at (snd (oe_strcpy (path_kernel pl ck newfd sealcap) c path k)) (cap_addr c) (path @ [NUL])"
    by (simp add: path_kernel_def)
next
  fix cs :: string and k k' :: user_mem and c assume "oe_array (path_kernel pl ck newfd sealcap) cs k = (c, k')" "length cs \<le> 16"
  then show "user_object pl c (length cs) \<and> cap_len c = length cs \<and> text_at k' (cap_addr c) cs"
    using placed_text [where cs = cs and k = 0 and b = "0x10000" and mem = k] assms(3) by (auto simp: path_kernel_def whole_array_def user_object_def cheri_is_sealed_def)
next
  fix cs :: string and k k' :: user_mem and c assume "oe_string (path_kernel pl ck newfd sealcap) cs k = (c, k')" "length cs \<le> 16"
  then show "user_object pl c (length cs) \<and> text_at k' (cap_addr c) cs"
    using placed_text [where cs = cs and k = 0 and b = "0x10000" and mem = k] assms(3) by (auto simp: path_kernel_def whole_array_def user_object_def cheri_is_sealed_def)
next
  fix m n c and k k' :: user_mem assume "oe_calloc (path_kernel pl ck newfd sealcap) m n k = (c, k')" "cap_addr c \<noteq> 0"
  then show "user_object pl c (m * n)"
    using assms(3) by (auto simp: path_kernel_def whole_array_def user_object_def cheri_is_sealed_def cap_null_def split: if_splits)
qed (use assms in \<open>auto simp: path_kernel_def only_dev_null_def whole_array_def split: copied.splits\<close>)

definition sealing_root :: cap where
  "sealing_root = \<lparr>cap_tag = True, cap_addr = 4, cap_base = 4, cap_len = 100, cap_perms = 0x800, cap_otype = 0, cap_flags = 0\<rparr>"

interpretation path_kernel: path_copying morello_purecap "path_kernel morello_purecap ck newfd sealing_root" "\<lambda>mem. mem" ck 1024 "only_dev_null newfd"
  for ck newfd by (rule path_kernel_copies) (simp_all add: tiny_exact_def morello_purecap_def)

theorem open_tests_verdict_witness:
  "\<not> declares_success (cheriabi_open_bad_tag morello_purecap
     (path_kernel morello_purecap \<lparr>ck_tag = False, ck_seal = True, ck_perm = True, ck_bounds = True\<rparr> 0 sealing_root))
     (fresh_process morello_purecap Map.empty) \<and>
   declares_success (cheriabi_open_sealed morello_purecap
     (path_kernel morello_purecap \<lparr>ck_tag = False, ck_seal = True, ck_perm = True, ck_bounds = True\<rparr> 0 sealing_root))
     (fresh_process morello_purecap Map.empty) \<and>
   declares_success (cheriabi_open_ordinary morello_purecap
     (path_kernel morello_purecap \<lparr>ck_tag = False, ck_seal = True, ck_perm = True, ck_bounds = True\<rparr> 0 sealing_root))
     (fresh_process morello_purecap Map.empty)"
proof -
  let ?ck = "\<lparr>ck_tag = False, ck_seal = True, ck_perm = True, ck_bounds = True\<rparr>" and ?s = "fresh_process morello_purecap Map.empty"
  let ?oe = "path_kernel morello_purecap ?ck 0 sealing_root"
  have s: "p_ccsp ?s \<noteq> None" "p_errno ?s \<noteq> EFAULT ?oe" by (simp_all add: fresh_process_def path_kernel_def)
  have "with_sealer morello_purecap ?oe (p_world ?s) (\<lambda>sealer k. let path = fst (oe_calloc ?oe 1 4096 k) in
      cap_addr path \<noteq> 0 \<and> (ck_seal ?ck \<and> cap_addr sealer \<noteq> CHERI_OTYPE_UNSEALED morello_purecap \<or> ck_tag ?ck \<and> \<not> may_seal morello_purecap path sealer))"
    by (simp add: with_sealer_def after_def path_kernel_def sealing_root_def whole_array_def morello_purecap_def is_FreeBSD_def)
  moreover have "opened ?oe (only_dev_null 0) k" for k
    by (simp add: opened_def only_dev_null_def after_def path_kernel_def)
  ultimately show ?thesis
    using open_tests_verdict [OF path_kernel.path_copying_axioms s surjective_pairing] by simp
qed

end
