(* ===== verification/Ptrace.thy ===== *)
theory Ptrace
  imports Statements "HOL-Library.Sublist"
begin

text \<open>
  The tests of \<^verbatim>\<open>cheriostest_ptrace.c\<close>: a process that stops itself under \<^verbatim>\<open>PT_TRACE_ME\<close>, whose memory and registers its parent reads and
  writes with their tags. The system calls are the fields of a record; the parts for CheriBSD, for Linux on Morello and for Linux on
  RISC-V are there as in the source.
\<close>

section \<open>The system\<close>

text \<open>What \<^verbatim>\<open>waitpid\<close> says about the traced process: it has stopped, or it has ended.\<close>

datatype trace_status = Stopped int | Ended wait_status

text \<open>An element of the buffers of \<^verbatim>\<open>PIOD_READ_CHERI_CAP\<close>: a byte for the tag and the sixteen bytes of a capability.\<close>

type_synonym tagged_bytes = "nat \<times> cap"

text \<open>
  \<open>pt_raise_stop\<close> is \<^verbatim>\<open>raise(SIGSTOP)\<close> in the new process and \<open>pt_continue\<close> what becomes of it afterwards, both as their parent sees it. \<open>pt_read_caps\<close>
  and \<open>pt_read_tags\<close> give the new \<^verbatim>\<open>piod_len\<close> and the buffer. The registers of \<^verbatim>\<open>NT_ARM_MORELLO\<close> and \<^verbatim>\<open>NT_PRSTATUS\<close> are numbers and a map of
  tags; \<open>pt_memory\<close> of a capability variable is its value in the memory of the test.
\<close>

record morello_state =
  cregs :: "nat list"
  pcc_reg :: nat
  tag_map :: "64 word"

record user_cap = \<comment> \<open>the sixteen bytes of a capability and its tag\<close>
  uc_val :: nat
  uc_tag :: nat

record 'k pt_env =
  pt_fork :: "('k, int) sys"
  pt_trace_me :: "('k, unit) sys"
  pt_raise_stop :: "'k \<Rightarrow> trace_status \<times> 'k"
  pt_waitpid :: "int \<Rightarrow> ('k, int) sys"
  pt_continue :: "int \<Rightarrow> ('k, trace_status) sys"
  pt_alloc :: "nat \<Rightarrow> 'k \<Rightarrow> cap \<times> 'k" \<comment> \<open>\<^verbatim>\<open>malloc\<close> and \<^verbatim>\<open>aligned_alloc\<close>\<close>
  pt_zero :: "cap \<Rightarrow> nat \<Rightarrow> 'k \<Rightarrow> siginfo option \<times> 'k" \<comment> \<open>\<^verbatim>\<open>memset\<close> with 0\<close>
  pt_free :: "cap \<Rightarrow> 'k \<Rightarrow> siginfo option \<times> 'k"
  pt_store :: "cap \<Rightarrow> nat \<Rightarrow> cap \<Rightarrow> 'k \<Rightarrow> siginfo option \<times> 'k" \<comment> \<open>element of an array of capabilities\<close>
  pt_load :: "cap \<Rightarrow> nat \<Rightarrow> 'k \<Rightarrow> (siginfo + cap) \<times> 'k"
  pt_map_shared :: "nat \<Rightarrow> ('k, cap) sys" \<comment> \<open>\<^verbatim>\<open>mmap\<close> of the object, \<^verbatim>\<open>MAP_SHARED\<close>\<close>
  pt_shm_open :: "('k, int) sys"
  pt_ftruncate :: "int \<Rightarrow> nat \<Rightarrow> ('k, unit) sys"
  pt_read_caps :: "int \<Rightarrow> cap \<Rightarrow> nat \<Rightarrow> nat \<Rightarrow> ('k, nat \<times> tagged_bytes list) sys" \<comment> \<open>array, index, length of the buffer\<close>
  pt_read_tags :: "int \<Rightarrow> cap \<Rightarrow> nat \<Rightarrow> ('k, nat \<times> nat) sys"
  pt_write_caps :: "int \<Rightarrow> cap \<Rightarrow> nat \<Rightarrow> tagged_bytes list \<Rightarrow> ('k, nat) sys"
  pt_getcapregs_pcc :: "int \<Rightarrow> ('k, cap) sys" \<comment> \<open>\<^verbatim>\<open>CAPREG_PCC\<close> of \<^verbatim>\<open>PT_GETCAPREGS\<close>\<close>
  pt_get_morello :: "int \<Rightarrow> ('k, morello_state) sys"
  pt_set_morello :: "int \<Rightarrow> morello_state \<Rightarrow> ('k, unit) sys"
  pt_get_prstatus :: "int \<Rightarrow> ('k, nat list) sys"
  pt_set_prstatus :: "int \<Rightarrow> nat list \<Rightarrow> ('k, unit) sys"
  pt_peekcap :: "int \<Rightarrow> cap \<Rightarrow> nat \<Rightarrow> ('k, user_cap) sys"
  pt_pokecap :: "int \<Rightarrow> cap \<Rightarrow> nat \<Rightarrow> user_cap \<Rightarrow> ('k, unit) sys"
  pt_stat_forge_cap :: "('k, unit) sys"
  pt_bytes :: "cap \<Rightarrow> nat" \<comment> \<open>the sixteen bytes in memory\<close>
  pt_val_eq :: "nat \<Rightarrow> cap \<Rightarrow> bool" \<comment> \<open>\<^verbatim>\<open>==\<close> of a \<^verbatim>\<open>val\<close>, whose type is Linux's, and a \<^verbatim>\<open>uintcap_t\<close>\<close>
  pt_riscv_zcheripurecap :: bool
  pt_model :: "string list option" \<comment> \<open>lines of \<^verbatim>\<open>/sys/firmware/devicetree/base/model\<close>, when it opens\<close>
  pt_piod :: cap \<comment> \<open>\<^verbatim>\<open>&piod\<close>\<close>
  pt_tagbuf :: cap
  pt_tracee_buf :: cap
  pt_pagesize :: nat
  REG_BIT_pcc :: nat \<comment> \<open>\<^verbatim>\<open>MORELLO_PT_TAG_MAP_REG_BIT\<close>\<close>
  REG_BIT_csp :: nat
  pt_SIGSTOP :: int
  pt_ENOENT :: int
  pt_EPERM :: int

definition put :: "'k pt_env \<Rightarrow> cap \<Rightarrow> nat \<Rightarrow> cap \<Rightarrow> ('k, unit) prog" where
  "put pt p i c = effect (pt_store pt p i c)"

definition fetch :: "'k pt_env \<Rightarrow> cap \<Rightarrow> nat \<Rightarrow> ('k, cap) prog" where
  "fetch pt p i = (\<lambda>s. case pt_load pt p i (p_world s) of
       (Inl sig, w) \<Rightarrow> (Trapped sig, s\<lparr>p_world := w\<rparr>)
     | (Inr c, w) \<Rightarrow> (Return c, s\<lparr>p_world := w\<rparr>))"

text \<open>A capability variable that holds an integer.\<close>

definition uintcap :: "platform \<Rightarrow> uintmax \<Rightarrow> cap" where
  "uintcap pl n = (cap_null pl)\<lparr>cap_addr := n\<rparr>"

definition verify_elem :: "platform \<Rightarrow> 'k pt_env \<Rightarrow> cap \<Rightarrow> nat \<Rightarrow> bool \<Rightarrow> string \<Rightarrow> ('k, unit) prog" where
  "verify_elem pl pt p i tagged msg = bindP (fetch pt p i) (\<lambda>c. CHERIOSTEST_VERIFY pl (cheri_tag_get c = tagged) msg)"

section \<open>The traced process\<close>

definition WIFSTOPPED :: "trace_status \<Rightarrow> bool" where
  "WIFSTOPPED status = (case status of Stopped sig \<Rightarrow> True | Ended _ \<Rightarrow> False)"

definition trace_exited :: "trace_status \<Rightarrow> bool" where \<comment> \<open>\<^verbatim>\<open>WIFEXITED\<close>\<close>
  "trace_exited status = (case status of Ended (WExited n) \<Rightarrow> True | _ \<Rightarrow> False)"

text \<open>The new process: it fails on the shared page, or it stops.\<close>

definition tracee_start :: "platform \<Rightarrow> 'k pt_env \<Rightarrow> 'k pstate \<Rightarrow> trace_status \<times> 'k pstate" where
  "tracee_start pl pt s =
     (case bindP (raw_call (pt_trace_me pt)) (\<lambda>r. CHERIOSTEST_VERIFY pl (r \<noteq> None) ''ptrace(PT_TRACE_ME, 0, NULL, 0) == 0'') s of
        (Return _, t) \<Rightarrow> (let (status, w) = pt_raise_stop pt (p_world t) in (status, t\<lparr>p_world := w\<rparr>))
      | r \<Rightarrow> (case finish_process pl r of (status, t) \<Rightarrow> (Ended status, t)))"

definition fork_child :: "platform \<Rightarrow> 'k pt_env \<Rightarrow> ('k, int) prog" where
  "fork_child pl pt =
     bindP (raw_call (pt_fork pt)) (\<lambda>r.
     bindP get_errno (\<lambda>errno.
     let fpid = (case r of None \<Rightarrow> - 1 | Some pid \<Rightarrow> pid) in
     bindP (CHERIOSTEST_VERIFY2 pl (fpid \<noteq> - 1) ''Could not fork: errno=%d'' [FInt errno]) (\<lambda>_.
     bindP (\<lambda>s. let (status, t) = tracee_start pl pt s in (Return status, t\<lparr>p_errno := p_errno s, p_sigaction := p_sigaction s\<rparr>)) (\<lambda>status.
     bindP (raw_call (pt_waitpid pt fpid)) (\<lambda>r.
     let wpid = (case r of None \<Rightarrow> - 1 | Some pid \<Rightarrow> pid) in
     bindP (CHERIOSTEST_VERIFY pl (wpid = fpid) ''wpid == fpid'') (\<lambda>_.
     bindP (CHERIOSTEST_VERIFY pl (WIFSTOPPED status) ''WIFSTOPPED(status)'') (\<lambda>_.
     ret fpid)))))))"

definition finish_child :: "platform \<Rightarrow> 'k pt_env \<Rightarrow> int \<Rightarrow> ('k, unit) prog" where
  "finish_child pl pt pid =
     bindP (raw_call (pt_continue pt pid)) (\<lambda>r.
     bindP (CHERIOSTEST_VERIFY pl (r \<noteq> None) ''ptrace(PT_CONTINUE, pid, (caddr_t)1, 0) == 0'') (\<lambda>_.
     bindP (raw_call (pt_waitpid pt pid)) (\<lambda>w.
     let wpid = (case w of None \<Rightarrow> - 1 | Some pid \<Rightarrow> pid) in block
      [CHERIOSTEST_VERIFY pl (wpid = pid) ''wpid == pid'',
       CHERIOSTEST_VERIFY pl (trace_exited (the r)) ''WIFEXITED(status)''])))"

definition traced :: "platform \<Rightarrow> 'k pt_env \<Rightarrow> (int \<Rightarrow> ('k, unit) prog) \<Rightarrow> ('k, unit) prog" where
  "traced pl pt body = bindP (fork_child pl pt) (\<lambda>pid. bindP (body pid) (\<lambda>_. bindP (finish_child pl pt pid) (\<lambda>_. cheriostest_success)))"

section \<open>CheriBSD\<close>

definition TAGGED_LEN :: nat where "TAGGED_LEN = 17" \<comment> \<open>\<^verbatim>\<open>sizeof(uintcap_t) + 1\<close>\<close>

text \<open>The comparison of a buffer element with a capability of the test: \<^verbatim>\<open>memcpy\<close> of bytes gives no tag.\<close>

definition bytes_cap :: "tagged_bytes \<Rightarrow> cap" where
  "bytes_cap e = cheri_tag_clear (snd e)"

text \<open>The call of \<^verbatim>\<open>PIOD_READ_CHERI_CAP\<close> for elements \<open>i\<close> and the following ones of an array, with the checks of status and length.\<close>

definition read_caps :: "platform \<Rightarrow> 'k pt_env \<Rightarrow> int \<Rightarrow> cap \<Rightarrow> nat \<Rightarrow> nat \<Rightarrow> string \<Rightarrow> ('k, tagged_bytes list) prog" where
  "read_caps pl pt pid pp i len msg =
     bindP (raw_call (pt_read_caps pt pid pp i len)) (\<lambda>r.
     bindP (CHERIOSTEST_VERIFY pl (r \<noteq> None) ''ptrace(PT_IO, pid, (caddr_t)&piod, 0) == 0'') (\<lambda>_.
     bindP (CHERIOSTEST_VERIFY pl (fst (the r) = len) msg) (\<lambda>_. ret (snd (the r)))))"

definition verify_bytes :: "platform \<Rightarrow> tagged_bytes \<Rightarrow> bool \<Rightarrow> string \<Rightarrow> cap \<Rightarrow> string \<Rightarrow> ('k, unit) prog" where
  "verify_bytes pl e tagged tag_msg c msg = block
     [CHERIOSTEST_VERIFY2 pl (fst e = of_bool tagged) tag_msg [],
      CHERIOSTEST_VERIFY2 pl (cheri_is_equal_exact (if tagged then cheri_tag_clear c else c) (bytes_cap e)) msg []]"

definition ptrace_readcap :: "platform \<Rightarrow> 'k pt_env \<Rightarrow> ('k, unit) prog" where
  "ptrace_readcap pl pt =
     bindP (observe (pt_alloc pt 32)) (\<lambda>pp. block
       [put pt pp 0 (pt_piod pt),
        put pt pp 1 (uintcap pl 42),
        verify_elem pl pt pp 0 True ''cheri_tag_get(pp[0]) != 0'',
        verify_elem pl pt pp 1 False ''cheri_tag_get(pp[1]) == 0'',
        traced pl pt (\<lambda>pid.
          bindP (read_caps pl pt pid pp 0 (2 * TAGGED_LEN) ''piod.piod_len == sizeof(capbuf)'') (\<lambda>capbuf. block
            [bindP (fetch pt pp 0) (\<lambda>c. verify_bytes pl (capbuf ! 0) True ''Tag not set in returned buffer'' c ''Mismatch in non-tag bits of first capability''),
             bindP (fetch pt pp 1) (\<lambda>c. verify_bytes pl (capbuf ! 1) False ''Tag set in returned buffer'' c ''Mismatch in non-tag bits of second capability'')]))])"

definition readtags_checks :: "(nat \<times> bool) list" where
  "readtags_checks = [(0, True), (1, False), (2, True), (3, False), (4, False), (5, False), (6, False), (7, False)]"

definition ptrace_readtags :: "platform \<Rightarrow> 'k pt_env \<Rightarrow> ('k, unit) prog" where
  "ptrace_readtags pl pt =
     bindP (observe (pt_alloc pt 128)) (\<lambda>pp. block (
       [effect (pt_zero pt pp 128),
        put pt pp 0 (pt_piod pt),
        put pt pp 2 (pt_tagbuf pt)] @
       map (\<lambda>(i, tagged). verify_elem pl pt pp i tagged (if tagged then ''cheri_tag_get(pp[i]) != 0'' else ''cheri_tag_get(pp[i]) == 0'')) readtags_checks @
       [traced pl pt (\<lambda>pid.
          bindP (raw_call (pt_read_tags pt pid pp 1)) (\<lambda>r. block
            [CHERIOSTEST_VERIFY pl (r \<noteq> None) ''ptrace(PT_IO, pid, (caddr_t)&piod, 0) == 0'',
             CHERIOSTEST_VERIFY pl (fst (the r) = 1) ''piod.piod_len == sizeof(tagbuf)'',
             CHERIOSTEST_VERIFY pl (snd (the r) = 0x05) ''tagbuf[0] == 0x05'']))]))"

definition ptrace_readcap_pageend :: "platform \<Rightarrow> 'k pt_env \<Rightarrow> ('k, unit) prog" where
  "ptrace_readcap_pageend pl pt =
     (let page_size = pt_pagesize pt; last_index = page_size div 16 - 1 in
      bindP (observe (pt_alloc pt page_size)) (\<lambda>pp. block
       [effect (pt_zero pt pp page_size),
        put pt pp last_index (pt_piod pt),
        verify_elem pl pt pp last_index True ''cheri_tag_get(pp[last_index]) != 0'',
        traced pl pt (\<lambda>pid.
          bindP (read_caps pl pt pid pp last_index TAGGED_LEN ''piod.piod_len == sizeof(capbuf)'') (\<lambda>capbuf.
            bindP (fetch pt pp last_index) (\<lambda>c.
              verify_bytes pl (capbuf ! 0) True ''Tag not set in returned buffer'' c ''Mismatch in non-tag bits of first capability'')))]))"

text \<open>The shared object is written through \<^verbatim>\<open>ptrace\<close> and read directly.\<close>

definition ptrace_writecap :: "platform \<Rightarrow> 'k pt_env \<Rightarrow> ('k, unit) prog" where
  "ptrace_writecap pl pt =
     bindP (CHERIOSTEST_CHECK_SYSCALL pl (pt_shm_open pt) ''shm_open(SHM_ANON, O_RDWR, 0600)'') (\<lambda>fd.
     bindP (CHERIOSTEST_CHECK_SYSCALL pl (pt_ftruncate pt fd (pt_pagesize pt)) ''ftruncate(fd, getpagesize())'') (\<lambda>_.
     bindP (CHERIOSTEST_CHECK_SYSCALL pl (pt_map_shared pt (pt_pagesize pt))
       ''mmap(NULL, getpagesize(), PROT_READ | PROT_WRITE | PROT_CAP, MAP_SHARED, fd, 0)'') (\<lambda>map_base.
     traced pl pt (\<lambda>pid.
       bindP (CHERIOSTEST_CHECK_SYSCALL pl (pt_getcapregs_pcc pt pid) ''ptrace(PT_GETCAPREGS, pid, (caddr_t)&capreg, 0)'') (\<lambda>pcc.
       let pp0 = cheri_offset_increment pl pcc 16; pp1 = uintcap pl 42 in
       bindP (CHERIOSTEST_CHECK_SYSCALL pl (pt_write_caps pt pid map_base 0 [(1, cheri_tag_clear pp0), (0, cheri_tag_clear pp1)])
         ''ptrace(PT_IO, pid, (caddr_t)&piod, 0)'') (\<lambda>len. block
        [CHERIOSTEST_VERIFY pl (len = 2 * TAGGED_LEN) ''piod.piod_len == sizeof(capbuf)'',
         bindP (fetch pt map_base 0) (\<lambda>c. CHERIOSTEST_VERIFY2 pl (cheri_tag_get c) ''Tag not set in first injected capability'' []),
         bindP (fetch pt map_base 0) (\<lambda>c. CHERIOSTEST_VERIFY2 pl (cheri_is_equal_exact (cheri_tag_clear c) pp0) ''Mismatch in non-tag bits of first capability'' []),
         bindP (fetch pt map_base 1) (\<lambda>c. CHERIOSTEST_VERIFY2 pl (\<not> cheri_tag_get c) ''Tag set in second injected capability'' []),
         bindP (fetch pt map_base 1) (\<lambda>c. CHERIOSTEST_VERIFY2 pl (cheri_is_equal_exact c pp1) ''Mismatch in non-tag bits of second capability'' [])]))))))"

section \<open>Linux: registers\<close>

definition tag_bit :: "64 word \<Rightarrow> nat \<Rightarrow> bool" where
  "tag_bit m i \<longleftrightarrow> drop_bit i m AND 1 = 1"

definition ptrace_getcapregs_morello :: "platform \<Rightarrow> 'k pt_env \<Rightarrow> ('k, unit) prog" where
  "ptrace_getcapregs_morello pl pt = traced pl pt (\<lambda>pid.
     bindP (CHERIOSTEST_CHECK_SYSCALL pl (pt_get_morello pt pid) ''ptrace(PTRACE_GETREGSET, pid, (void *)(uintptr_t)NT_ARM_MORELLO, &iov)'') (\<lambda>regs. block
       [CHERIOSTEST_VERIFY2 pl (tag_bit (tag_map regs) (REG_BIT_pcc pt)) ''PCC tag must be set'' [],
        CHERIOSTEST_VERIFY2 pl (tag_bit (tag_map regs) (REG_BIT_csp pt)) ''CSP tag must be set'' []]))"

text \<open>
  The result of \<^verbatim>\<open>PTRACE_SETREGSET\<close> is compared with \<^verbatim>\<open>-EPERM\<close>; the call gives 0 or -1.
\<close>

definition not_EPERM :: "platform \<Rightarrow> 'k pt_env \<Rightarrow> unit option \<Rightarrow> ('k, unit) prog" where
  "not_EPERM pl pt r = CHERIOSTEST_VERIFY2 pl ((case r of None \<Rightarrow> - 1 | Some _ \<Rightarrow> 0) \<noteq> - pt_EPERM pt)
     ''PTRACE_POKECAP is only allowed if the sysctl cheri.ptrace_forge_cap is set'' []"

definition ptrace_setcapregs_morello :: "platform \<Rightarrow> 'k pt_env \<Rightarrow> ('k, unit) prog" where
  "ptrace_setcapregs_morello pl pt =
     (let get = \<lambda>pid. CHERIOSTEST_CHECK_SYSCALL pl (pt_get_morello pt pid) ''ptrace(PTRACE_GETREGSET, pid, (void *)(uintptr_t)NT_ARM_MORELLO, &get_iov)'' in
      traced pl pt (\<lambda>pid.
        bindP (get pid) (\<lambda>get_regs.
        let c0_old_val = cregs get_regs ! 0; c0_old_tag = tag_map get_regs AND 1; c0_new_val = pcc_reg get_regs;
            set_regs = get_regs\<lparr>cregs := (cregs get_regs)[0 := c0_new_val], tag_map := tag_map get_regs OR 1\<rparr> in
        bindP (raw_call (pt_set_morello pt pid set_regs)) (\<lambda>r.
        bindP (not_EPERM pl pt r) (\<lambda>_.
        bindP (get pid) (\<lambda>get_regs. block
          [CHERIOSTEST_VERIFY2 pl (cregs get_regs ! 0 = c0_new_val) (''c0 wasn'' @ [CHR 0x27] @ ''t set'') [],
           CHERIOSTEST_VERIFY2 pl (tag_map get_regs AND 1 = 1) (''Tag wasn'' @ [CHR 0x27] @ ''t set'') [],
           CHERIOSTEST_CHECK_SYSCALL pl (pt_set_morello pt pid (get_regs\<lparr>cregs := (cregs get_regs)[0 := c0_old_val],
               tag_map := (if c0_old_tag = 0 then tag_map get_regs AND NOT 1 else tag_map get_regs)\<rparr>))
             ''ptrace(PTRACE_SETREGSET, pid, (void *)(uintptr_t)NT_ARM_MORELLO, &set_iov)''])))))) "

text \<open>RISC-V: \<^verbatim>\<open>regs[33]\<close> holds the tags of the registers.\<close>

definition reg_bit :: "nat list \<Rightarrow> nat \<Rightarrow> nat" where
  "reg_bit regs i = drop_bit i (regs ! 33) AND 1"

definition ptrace_getcapregs_riscv :: "platform \<Rightarrow> 'k pt_env \<Rightarrow> ('k, unit) prog" where
  "ptrace_getcapregs_riscv pl pt = traced pl pt (\<lambda>pid.
     bindP (CHERIOSTEST_CHECK_SYSCALL pl (pt_get_prstatus pt pid) ''ptrace(PTRACE_GETREGSET, pid, (void *) NT_PRSTATUS, &iov)'') (\<lambda>regs. block
       [CHERIOSTEST_VERIFY2 pl (reg_bit regs 0 = 1) ''PCC tag must be set'' [],
        CHERIOSTEST_VERIFY2 pl (reg_bit regs 1 = 1) ''RA tag must be set'' [],
        CHERIOSTEST_VERIFY2 pl (reg_bit regs 2 = 1) ''SP tag must be set'' [],
        CHERIOSTEST_VERIFY2 pl (reg_bit regs 3 = 1) ''GP tag must be set'' [],
        CHERIOSTEST_VERIFY2 pl (reg_bit regs 4 = 1) ''TP tag must be set'' []]))"

text \<open>A stream that did not open is given to \<^verbatim>\<open>fgets\<close> all the same.\<close>

definition is_running_on_qemu :: "'k pt_env \<Rightarrow> ('k, bool) prog" where
  "is_running_on_qemu pt = (\<lambda>s. case pt_model pt of
       None \<Rightarrow> (Undefined, s)
     | Some buf \<Rightarrow> (Return (list_ex (sublist ''qemu'') buf), s))"

text \<open>Everything after the first \<^verbatim>\<open>cheriostest_success\<close> is as in the source, and never runs.\<close>

definition ptrace_setcapregs_riscv :: "platform \<Rightarrow> 'k pt_env \<Rightarrow> ('k, unit) prog" where
  "ptrace_setcapregs_riscv pl pt =
     bindP (if pt_riscv_zcheripurecap pt then is_running_on_qemu pt else ret False) (\<lambda>qemu.
     bindP (if qemu then cheriostest_failure_errx pl (''This test case wasn'' @ [CHR 0x27] @ ''t executed because it crashes Qemu'') [] else ret ()) (\<lambda>_.
     let get = \<lambda>pid. CHERIOSTEST_CHECK_SYSCALL pl (pt_get_prstatus pt pid) ''ptrace(PTRACE_GETREGSET, pid, (void *) NT_PRSTATUS, &get_iov)'' in
     traced pl pt (\<lambda>pid.
       bindP (get pid) (\<lambda>get_regs.
       let c5_old_val = get_regs ! 5; c5_old_tag = get_regs ! 33 AND 1; c5_new_val = get_regs ! 0;
           set_regs = get_regs[5 := c5_new_val, 33 := get_regs ! 33 OR push_bit 5 1] in
       bindP (raw_call (pt_set_prstatus pt pid set_regs)) (\<lambda>r.
       bindP (cheriostest_success :: ('k, unit) prog) (\<lambda>_.
       bindP (not_EPERM pl pt r) (\<lambda>_.
       bindP (get pid) (\<lambda>get_regs. block
         [CHERIOSTEST_VERIFY2 pl (get_regs ! 5 = c5_new_val) (''c5 wasn'' @ [CHR 0x27] @ ''t set'') [],
          CHERIOSTEST_VERIFY2 pl (reg_bit get_regs 5 = 1) (''Tag wasn'' @ [CHR 0x27] @ ''t set'') [],
          CHERIOSTEST_CHECK_SYSCALL pl (pt_set_prstatus pt pid
              (get_regs[5 := c5_old_val, 33 := (if c5_old_tag = 0 then unset_bit 5 (get_regs ! 33) else get_regs ! 33)]))
            ''ptrace(PTRACE_SETREGSET, pid, (void *) NT_PRSTATUS, &set_iov)'']))))))))"

section \<open>Linux: memory\<close>

text \<open>The array \<^verbatim>\<open>tracee_buf\<close> is on the stack; its stores are those of the program.\<close>

definition peek :: "platform \<Rightarrow> 'k pt_env \<Rightarrow> int \<Rightarrow> cap \<Rightarrow> nat \<Rightarrow> string \<Rightarrow> ('k, user_cap) prog" where
  "peek pl pt pid p i msg =
     bindP (raw_call (pt_peekcap pt pid p i)) (\<lambda>r. bindP (CHERIOSTEST_VERIFY pl (r \<noteq> None) msg) (\<lambda>_. ret (the r)))"

definition ptrace_peekcap :: "platform \<Rightarrow> 'k pt_env \<Rightarrow> ('k, unit) prog" where
  "ptrace_peekcap pl pt =
     (let tracee_buf = pt_tracee_buf pt in block
       [effect (pt_zero pt tracee_buf 32),
        put pt tracee_buf 0 (cap_null pl),
        put pt tracee_buf 1 tracee_buf,
        verify_elem pl pt tracee_buf 0 False ''cheri_tag_get(tracee_buf[0]) == 0'',
        verify_elem pl pt tracee_buf 1 True ''cheri_tag_get(tracee_buf[1]) == 1'',
        traced pl pt (\<lambda>pid.
          bindP (peek pl pt pid tracee_buf 0 ''ptrace(PTRACE_PEEKCAP, pid, &tracee_buf[0], &read_buf[0]) == 0'') (\<lambda>read_buf0.
          bindP (peek pl pt pid tracee_buf 1 ''ptrace(PTRACE_PEEKCAP, pid, &tracee_buf[1], &read_buf[1]) == 0'') (\<lambda>read_buf1. block
           [CHERIOSTEST_VERIFY2 pl (uc_tag read_buf0 = 0) ''Tag set for returned integer'' [],
            bindP (fetch pt tracee_buf 0) (\<lambda>c. CHERIOSTEST_VERIFY2 pl (pt_val_eq pt (uc_val read_buf0) c) ''Mismatch in non-tag bits'' []),
            CHERIOSTEST_VERIFY2 pl (uc_tag read_buf1 = 1) ''Tag not set for returned capability'' [],
            bindP (fetch pt tracee_buf 1) (\<lambda>c. CHERIOSTEST_VERIFY2 pl (pt_val_eq pt (uc_val read_buf1) c) ''Mismatch in non-tag bits'' [])])))])"

definition ptrace_forge_cap_sysctl_exists :: "platform \<Rightarrow> 'k pt_env \<Rightarrow> ('k, bool) prog" where
  "ptrace_forge_cap_sysctl_exists pl pt =
     bindP (raw_call (pt_stat_forge_cap pt)) (\<lambda>r.
     bindP get_errno (\<lambda>errno.
     if r = None \<and> errno = pt_ENOENT pt then ret False
     else bindP (CHERIOSTEST_VERIFY2 pl (r \<noteq> None) ''stat() failed'' []) (\<lambda>_. ret True)))"

definition ptrace_pokecap :: "platform \<Rightarrow> 'k pt_env \<Rightarrow> ('k, unit) prog" where
  "ptrace_pokecap pl pt =
     bindP (ptrace_forge_cap_sysctl_exists pl pt) (\<lambda>exists.
     bindP (CHERIOSTEST_VERIFY2 pl exists ''sysctl cheri.ptrace_forge_cap does not exist'' []) (\<lambda>_.
     bindP (observe (pt_alloc pt (pt_pagesize pt))) (\<lambda>map_base.
     bindP (effect (pt_zero pt map_base (pt_pagesize pt))) (\<lambda>_.
     bindP (fork_child pl pt) (\<lambda>pid.
     bindP (raw_call (pt_pokecap pt pid map_base 0 \<lparr>uc_val = pt_bytes pt map_base, uc_tag = 1\<rparr>)) (\<lambda>r.
     bindP (not_EPERM pl pt r) (\<lambda>_.
     bindP (CHERIOSTEST_VERIFY2 pl (r \<noteq> None) ''PTRACE_POKECAP failed'' []) (\<lambda>_.
     bindP (peek pl pt pid map_base 0 ''ptrace(PTRACE_PEEKCAP, pid, (caddr_t) &map[0], &read_cap) == 0'') (\<lambda>read_cap. block
      [CHERIOSTEST_VERIFY2 pl (pt_val_eq pt (uc_val read_cap) map_base) (''Written and read capabilities don'' @ [CHR 0x27] @ ''t match'') [],
       CHERIOSTEST_VERIFY2 pl (uc_tag read_cap = 1) ''Tag not set for written capability'' [],
       finish_child pl pt pid,
       effect (pt_free pt map_base),
       cheriostest_success])))))))))"

end
