(* ===== verification/Ptrace_Proofs.thy ===== *)
theory Ptrace_Proofs
  imports Ptrace Open_Tests
begin

text \<open>
  What the tests of \<^verbatim>\<open>ptrace\<close> decide: their verdicts on a system that reads and writes a stopped process in ways given by a record, one
  array of capabilities in the memory of each of the two processes.
\<close>

section \<open>A system with a debugger\<close>

record tracing =
  tr_dump :: "cap \<Rightarrow> tagged_bytes"
  tr_tags :: "bool list \<Rightarrow> nat"
  tr_build :: "tagged_bytes \<Rightarrow> cap"
  tr_pcc :: cap
  tr_set_morello :: "morello_state \<Rightarrow> morello_state \<Rightarrow> int + morello_state" \<comment> \<open>from the old and the given registers\<close>
  tr_set_prstatus :: "nat list \<Rightarrow> nat list \<Rightarrow> int + nat list"
  tr_peek :: "cap \<Rightarrow> int + user_cap"
  tr_poke :: "user_cap \<Rightarrow> int + cap"

record trace_world =
  tw_cells :: "nat \<Rightarrow> cap"
  tw_child :: "nat \<Rightarrow> cap"
  tw_morello :: morello_state
  tw_prstatus :: "nat list"

definition store_caps :: "nat \<Rightarrow> cap list \<Rightarrow> (nat \<Rightarrow> cap) \<Rightarrow> nat \<Rightarrow> cap" where
  "store_caps i cs m j = (if i \<le> j \<and> j < i + length cs then cs ! (j - i) else m j)"

definition trace_kernel :: "platform \<Rightarrow> tracing \<Rightarrow> cap \<Rightarrow> cap \<Rightarrow> cap \<Rightarrow> (nat \<Rightarrow> cap \<Rightarrow> bool) \<Rightarrow> trace_world pt_env" where
  "trace_kernel pl tr array piod tagbuf val_eq =
     \<lparr>pt_fork = (\<lambda>w. (Inr 7, w\<lparr>tw_child := tw_cells w\<rparr>)), pt_trace_me = (\<lambda>w. (Inr (), w)), pt_raise_stop = (\<lambda>w. (Stopped 17, w)),
      pt_waitpid = (\<lambda>pid w. (Inr pid, w)), pt_continue = (\<lambda>pid w. (Inr (Ended (WExited 0)), w)),
      pt_alloc = (\<lambda>n w. (array, w)), pt_zero = (\<lambda>p n w. (None, w\<lparr>tw_cells := store_caps 0 (replicate (n div 16) (cap_null pl)) (tw_cells w)\<rparr>)),
      pt_free = (\<lambda>p w. (None, w)), pt_store = (\<lambda>p i c w. (None, w\<lparr>tw_cells := (tw_cells w)(i := c)\<rparr>)), pt_load = (\<lambda>p i w. (Inr (tw_cells w i), w)),
      pt_map_shared = (\<lambda>n w. (Inr array, w)), pt_shm_open = (\<lambda>w. (Inr 3, w)), pt_ftruncate = (\<lambda>fd n w. (Inr (), w)),
      pt_read_caps = (\<lambda>pid p i n w. (Inr (n, map (\<lambda>k. tr_dump tr (tw_child w (i + k))) [0..<n div 17]), w)),
      pt_read_tags = (\<lambda>pid p n w. (Inr (n, tr_tags tr (map (\<lambda>k. cheri_tag_get (tw_child w k)) [0..<8 * n])), w)),
      pt_write_caps = (\<lambda>pid p i es w. (Inr (17 * length es), w\<lparr>tw_cells := store_caps i (map (tr_build tr) es) (tw_cells w)\<rparr>)),
      pt_getcapregs_pcc = (\<lambda>pid w. (Inr (tr_pcc tr), w)),
      pt_get_morello = (\<lambda>pid w. (Inr (tw_morello w), w)),
      pt_set_morello = (\<lambda>pid r w. case tr_set_morello tr (tw_morello w) r of Inl e \<Rightarrow> (Inl e, w) | Inr r' \<Rightarrow> (Inr (), w\<lparr>tw_morello := r'\<rparr>)),
      pt_get_prstatus = (\<lambda>pid w. (Inr (tw_prstatus w), w)),
      pt_set_prstatus = (\<lambda>pid r w. case tr_set_prstatus tr (tw_prstatus w) r of Inl e \<Rightarrow> (Inl e, w) | Inr r' \<Rightarrow> (Inr (), w\<lparr>tw_prstatus := r'\<rparr>)),
      pt_peekcap = (\<lambda>pid p i w. (case tr_peek tr (tw_child w i) of Inl e \<Rightarrow> Inl e | Inr u \<Rightarrow> Inr u, w)),
      pt_pokecap = (\<lambda>pid p i u w. case tr_poke tr u of Inl e \<Rightarrow> (Inl e, w) | Inr c \<Rightarrow> (Inr (), w\<lparr>tw_child := (tw_child w)(i := c)\<rparr>)),
      pt_stat_forge_cap = (\<lambda>w. (Inr (), w)), pt_bytes = (\<lambda>c. unat (cap_addr c)), pt_val_eq = val_eq, pt_riscv_zcheripurecap = False, pt_model = None,
      pt_piod = piod, pt_tagbuf = tagbuf, pt_tracee_buf = array, pt_pagesize = 4096, REG_BIT_pcc = 32, REG_BIT_csp = 31,
      pt_SIGSTOP = 17, pt_ENOENT = 2, pt_EPERM = 1\<rparr>"

section \<open>The traced process\<close>

lemma tracee_starts: "tracee_start pl (trace_kernel pl tr array piod tagbuf val_eq) s = (Stopped 17, s)"
  by (simp add: tracee_start_def trace_kernel_def bind_raw_call CHERIOSTEST_VERIFY_def CHERIOSTEST_VERIFY2_def fail_if_def ret_def)

lemma fork_child_runs:
  "bindP (fork_child pl (trace_kernel pl tr array piod tagbuf val_eq)) f s = f 7 (s\<lparr>p_world := (p_world s)\<lparr>tw_child := tw_cells (p_world s)\<rparr>\<rparr>)"
proof -
  have start: "bindP (\<lambda>s. case tracee_start pl (trace_kernel pl tr array piod tagbuf val_eq) s of (status, t) \<Rightarrow> (Return status, t\<lparr>p_errno := p_errno s, p_sigaction := p_sigaction s\<rparr>)) g = g (Stopped 17)" for g :: "trace_status \<Rightarrow> (trace_world, 'b) prog"
    by (rule ext) (simp add: bindP_def tracee_starts)
  have calls: "pt_fork (trace_kernel pl tr array piod tagbuf val_eq) = (\<lambda>w. (Inr 7, w\<lparr>tw_child := tw_cells w\<rparr>))"
    "pt_waitpid (trace_kernel pl tr array piod tagbuf val_eq) = (\<lambda>pid w. (Inr pid, w))" by (simp_all add: trace_kernel_def)
  show ?thesis
    by (simp add: fork_child_def bindP_assoc bind_raw_call bind_get_errno bindP_VERIFY2 bindP_VERIFY start calls WIFSTOPPED_def)
qed

lemma finish_child_runs:
  "bindP (finish_child pl (trace_kernel pl tr array piod tagbuf val_eq) pid) f s = f () s"
  by (simp add: finish_child_def trace_kernel_def bindP_assoc bind_raw_call prog_simps trace_exited_def)

lemma success_traced:
  "declares_success (traced pl (trace_kernel pl tr array piod tagbuf val_eq) body) s \<longleftrightarrow>
    declares_success (bindP (body 7) (\<lambda>_. cheriostest_success :: (trace_world, unit) prog)) (s\<lparr>p_world := (p_world s)\<lparr>tw_child := tw_cells (p_world s)\<rparr>\<rparr>)"
proof -
  have "bindP (finish_child pl (trace_kernel pl tr array piod tagbuf val_eq) 7) (\<lambda>_. cheriostest_success) = (cheriostest_success :: (trace_world, unit) prog)"
    by (rule ext) (simp add: finish_child_runs)
  then show ?thesis by (simp add: traced_def declares_success_def fork_child_runs)
qed

lemma trace_kernel_sel:
  "pt_alloc (trace_kernel pl tr array piod tagbuf val_eq) n w = (array, w)"
  "pt_zero (trace_kernel pl tr array piod tagbuf val_eq) p n w = (None, w\<lparr>tw_cells := store_caps 0 (replicate (n div 16) (cap_null pl)) (tw_cells w)\<rparr>)"
  "pt_free (trace_kernel pl tr array piod tagbuf val_eq) p w = (None, w)"
  "pt_map_shared (trace_kernel pl tr array piod tagbuf val_eq) n w = (Inr array, w)"
  "pt_shm_open (trace_kernel pl tr array piod tagbuf val_eq) w = (Inr 3, w)"
  "pt_ftruncate (trace_kernel pl tr array piod tagbuf val_eq) fd n w = (Inr (), w)"
  "pt_read_caps (trace_kernel pl tr array piod tagbuf val_eq) pid p i n w = (Inr (n, map (\<lambda>k. tr_dump tr (tw_child w (i + k))) [0..<n div 17]), w)"
  "pt_read_tags (trace_kernel pl tr array piod tagbuf val_eq) pid p m w = (Inr (m, tr_tags tr (map (\<lambda>k. cheri_tag_get (tw_child w k)) [0..<8 * m])), w)"
  "pt_write_caps (trace_kernel pl tr array piod tagbuf val_eq) pid p i es w = (Inr (17 * length es), w\<lparr>tw_cells := store_caps i (map (tr_build tr) es) (tw_cells w)\<rparr>)"
  "pt_getcapregs_pcc (trace_kernel pl tr array piod tagbuf val_eq) pid w = (Inr (tr_pcc tr), w)"
  "pt_get_morello (trace_kernel pl tr array piod tagbuf val_eq) pid w = (Inr (tw_morello w), w)"
  "pt_set_morello (trace_kernel pl tr array piod tagbuf val_eq) pid r w =
    (case tr_set_morello tr (tw_morello w) r of Inl e \<Rightarrow> (Inl e, w) | Inr r' \<Rightarrow> (Inr (), w\<lparr>tw_morello := r'\<rparr>))"
  "pt_get_prstatus (trace_kernel pl tr array piod tagbuf val_eq) pid w = (Inr (tw_prstatus w), w)"
  "pt_set_prstatus (trace_kernel pl tr array piod tagbuf val_eq) pid rs w =
    (case tr_set_prstatus tr (tw_prstatus w) rs of Inl e \<Rightarrow> (Inl e, w) | Inr r' \<Rightarrow> (Inr (), w\<lparr>tw_prstatus := r'\<rparr>))"
  "pt_peekcap (trace_kernel pl tr array piod tagbuf val_eq) pid p i w = (case tr_peek tr (tw_child w i) of Inl e \<Rightarrow> Inl e | Inr u \<Rightarrow> Inr u, w)"
  "pt_pokecap (trace_kernel pl tr array piod tagbuf val_eq) pid p i u w =
    (case tr_poke tr u of Inl e \<Rightarrow> (Inl e, w) | Inr c \<Rightarrow> (Inr (), w\<lparr>tw_child := (tw_child w)(i := c)\<rparr>))"
  "pt_stat_forge_cap (trace_kernel pl tr array piod tagbuf val_eq) w = (Inr (), w)"
  "pt_bytes (trace_kernel pl tr array piod tagbuf val_eq) c = unat (cap_addr c)"
  "pt_val_eq (trace_kernel pl tr array piod tagbuf val_eq) = val_eq"
  "pt_riscv_zcheripurecap (trace_kernel pl tr array piod tagbuf val_eq) = False"
  "pt_piod (trace_kernel pl tr array piod tagbuf val_eq) = piod"
  "pt_tagbuf (trace_kernel pl tr array piod tagbuf val_eq) = tagbuf"
  "pt_tracee_buf (trace_kernel pl tr array piod tagbuf val_eq) = array"
  "pt_pagesize (trace_kernel pl tr array piod tagbuf val_eq) = 4096"
  "REG_BIT_pcc (trace_kernel pl tr array piod tagbuf val_eq) = 32"
  "REG_BIT_csp (trace_kernel pl tr array piod tagbuf val_eq) = 31"
  "pt_ENOENT (trace_kernel pl tr array piod tagbuf val_eq) = 2"
  "pt_EPERM (trace_kernel pl tr array piod tagbuf val_eq) = 1"
  by (simp_all add: trace_kernel_def)

lemma put_runs:
  "bindP (put (trace_kernel pl tr array piod tagbuf val_eq) p i c) f s = f () (s\<lparr>p_world := (p_world s)\<lparr>tw_cells := (tw_cells (p_world s))(i := c)\<rparr>\<rparr>)"
  by (simp add: put_def effect_def bindP_def trace_kernel_def)

lemma fetch_runs: "bindP (fetch (trace_kernel pl tr array piod tagbuf val_eq) p i) f s = f (tw_cells (p_world s) i) s"
  by (simp add: fetch_def bindP_def trace_kernel_def)

lemma success_put:
  "declares_success (bindP (put (trace_kernel pl tr array piod tagbuf val_eq) p i c) f) s \<longleftrightarrow>
    declares_success (f ()) (s\<lparr>p_world := (p_world s)\<lparr>tw_cells := (tw_cells (p_world s))(i := c)\<rparr>\<rparr>)"
  by (simp add: declares_success_def put_runs)

lemma success_fetch:
  "declares_success (bindP (fetch (trace_kernel pl tr array piod tagbuf val_eq) p i) f) s \<longleftrightarrow> declares_success (f (tw_cells (p_world s) i)) s"
  by (simp add: declares_success_def fetch_runs)

lemma success_verify_elem:
  "declares_success (bindP (verify_elem pl (trace_kernel pl tr array piod tagbuf val_eq) p i b m) f) s \<longleftrightarrow>
    cheri_tag_get (tw_cells (p_world s) i) = b \<and> declares_success (f ()) s"
  by (simp add: verify_elem_def bindP_assoc success_fetch passes_simps)

lemma success_verify_bytes:
  "declares_success (bindP (verify_bytes pl e b m c m') f) s \<longleftrightarrow>
    fst e = of_bool b \<and> (if b then cheri_tag_clear c else c) = cheri_tag_clear (snd e) \<and> declares_success (f ()) s"
  by (simp add: verify_bytes_def bindP_assoc passes_simps cheri_is_equal_exact_def bytes_cap_def)

lemma success_read_caps:
  "declares_success (bindP (read_caps pl (trace_kernel pl tr array piod tagbuf val_eq) pid p i n m) f) s \<longleftrightarrow>
    declares_success (f (map (\<lambda>k. tr_dump tr (tw_child (p_world s) (i + k))) [0..<n div 17])) s"
  by (simp add: read_caps_def bindP_assoc success_raw_call trace_kernel_sel passes_simps)

lemmas trace_runs = trace_kernel_sel success_put success_fetch success_verify_elem success_verify_bytes success_read_caps success_traced bindP_assoc
  success_raw_call declares_success_syscall passes_simps

text \<open>What is read is what is there: the tag in its byte, and the bits of the capability.\<close>

definition dumps_well :: "(cap \<Rightarrow> tagged_bytes) \<Rightarrow> cap \<Rightarrow> bool" where
  "dumps_well dump c \<longleftrightarrow> fst (dump c) = of_bool (cap_tag c) \<and> cheri_tag_clear (snd (dump c)) = cheri_tag_clear c"

lemma readcap_verdict:
  assumes "cap_tag piod" "p_ccsp s \<noteq> None"
  shows "declares_success (ptrace_readcap pl (trace_kernel pl tr array piod tagbuf val_eq)) s \<longleftrightarrow>
    dumps_well (tr_dump tr) piod \<and> dumps_well (tr_dump tr) (uintcap pl 42)"
proof -
  have u: "\<not> cap_tag (uintcap pl 42)" "cheri_tag_clear (uintcap pl 42) = uintcap pl 42"
    by (simp_all add: uintcap_def cap_null_def cheri_tag_clear_def)
  then show ?thesis using assms
    by (simp add: ptrace_readcap_def trace_runs TAGGED_LEN_def dumps_well_def cheri_tag_get_def del: One_nat_def)
       (auto simp: cheri_tag_clear_def)
qed

lemma readtags_verdict:
  assumes "cap_tag piod" "cap_tag tagbuf" "p_ccsp s \<noteq> None"
  shows "declares_success (ptrace_readtags pl (trace_kernel pl tr array piod tagbuf val_eq)) s \<longleftrightarrow>
    tr_tags tr [True, False, True, False, False, False, False, False] = 5"
proof -
  let ?cells = "\<lambda>m. (store_caps 0 (replicate 8 (cap_null pl)) m)(0 := piod, 2 := tagbuf)"
  have "[0..<8] = [0, 1, 2, 3, 4, 5, 6, 7 :: nat]" by (simp add: upt_rec)
  then have c: "map (\<lambda>k. cheri_tag_get (?cells m k)) [0..<8] = [True, False, True, False, False, False, False, False]" for m
    using assms by (simp add: store_caps_def cap_null_def cheri_tag_get_def nth_Cons')
  have t: "cheri_tag_get (?cells m 1) = False" "cheri_tag_get (?cells m 3) = False" "cheri_tag_get (?cells m 4) = False"
    "cheri_tag_get (?cells m 5) = False" "cheri_tag_get (?cells m 6) = False" "cheri_tag_get (?cells m 7) = False" for m
    by (simp_all add: store_caps_def cap_null_def cheri_tag_get_def)
  show ?thesis using assms t c
    by (simp add: ptrace_readtags_def readtags_checks_def trace_runs cheri_tag_get_def del: One_nat_def)
qed

lemma pageend_verdict:
  assumes "cap_tag piod" "p_ccsp s \<noteq> None"
  shows "declares_success (ptrace_readcap_pageend pl (trace_kernel pl tr array piod tagbuf val_eq)) s \<longleftrightarrow> dumps_well (tr_dump tr) piod"
  using assms
  by (simp add: ptrace_readcap_pageend_def trace_runs TAGGED_LEN_def dumps_well_def cheri_tag_get_def Let_def del: One_nat_def)
     (auto simp: cheri_tag_clear_def)

text \<open>What is written is a capability when the tag says so. The test compares with a \<^verbatim>\<open>PCC\<close> that must have no tag itself.\<close>

lemma writecap_verdict:
  assumes "p_ccsp s \<noteq> None" "pcc = cheri_offset_increment pl (tr_pcc tr) 16"
  shows "declares_success (ptrace_writecap pl (trace_kernel pl tr array piod tagbuf val_eq)) s \<longleftrightarrow>
    \<not> cap_tag pcc \<and> tr_build tr (1, pcc) = pcc\<lparr>cap_tag := True\<rparr> \<and> tr_build tr (0, uintcap pl 42) = uintcap pl 42"
proof -
  have u: "\<not> cap_tag (uintcap pl 42)" "cheri_tag_clear (uintcap pl 42) = uintcap pl 42"
    by (simp_all add: uintcap_def cap_null_def cheri_tag_clear_def)
  have c: "cap_tag x \<and> cheri_tag_clear x = q \<longleftrightarrow> \<not> cap_tag q \<and> x = q\<lparr>cap_tag := True\<rparr>" for x q :: cap
    by (cases x; cases q) (auto simp: cheri_tag_clear_def)
  have same: "\<not> cap_tag q \<Longrightarrow> cheri_tag_clear q = q" for q :: cap by (simp add: cheri_tag_clear_def)
  show ?thesis using assms(1) u c [of _ pcc] same [of pcc] unfolding assms(2)
    by (simp add: ptrace_writecap_def trace_runs TAGGED_LEN_def Let_def store_caps_def cheri_tag_get_def cheri_is_equal_exact_def del: One_nat_def) metis
qed

lemma getcapregs_verdicts:
  assumes "p_ccsp s \<noteq> None"
  shows "declares_success (ptrace_getcapregs_morello pl (trace_kernel pl tr array piod tagbuf val_eq)) s \<longleftrightarrow>
      tag_bit (tag_map (tw_morello (p_world s))) 32 \<and> tag_bit (tag_map (tw_morello (p_world s))) 31"
    "declares_success (ptrace_getcapregs_riscv pl (trace_kernel pl tr array piod tagbuf val_eq)) s \<longleftrightarrow>
      (\<forall>i \<in> {0, 1, 2, 3, 4}. reg_bit (tw_prstatus (p_world s)) i = 1)"
  using assms by (auto simp: ptrace_getcapregs_morello_def ptrace_getcapregs_riscv_def trace_runs simp del: One_nat_def)

section \<open>Verdicts of the tests for CheriBSD\<close>

text \<open>
  The tests for CheriBSD succeed exactly on the systems that report a capability with its tag in the first byte and its bits after it,
  a number without one, the tags of eight capabilities as the bits of a byte from the lowest, and that store a capability of the traced
  process with a tag iff they are told to; the program counter they are given must have no tag.
\<close>

theorem ptrace_bsd_verdict:
  assumes "cap_tag piod" "cap_tag tagbuf" "p_ccsp s \<noteq> None"
    and "pt = trace_kernel pl tr array piod tagbuf val_eq" "pcc = cheri_offset_increment pl (tr_pcc tr) 16"
  shows "(declares_success (ptrace_readcap pl pt) s \<longleftrightarrow> dumps_well (tr_dump tr) piod \<and> dumps_well (tr_dump tr) (uintcap pl 42)) \<and>
    (declares_success (ptrace_readcap_pageend pl pt) s \<longleftrightarrow> dumps_well (tr_dump tr) piod) \<and>
    (declares_success (ptrace_readtags pl pt) s \<longleftrightarrow> tr_tags tr [True, False, True, False, False, False, False, False] = 5) \<and>
    (declares_success (ptrace_writecap pl pt) s \<longleftrightarrow>
       \<not> cap_tag pcc \<and> tr_build tr (1, pcc) = pcc\<lparr>cap_tag := True\<rparr> \<and> tr_build tr (0, uintcap pl 42) = uintcap pl 42)"
  unfolding assms(4)
  by (intro conjI readcap_verdict [OF assms(1,3)] pageend_verdict [OF assms(1,3)] readtags_verdict [OF assms(1-3)] writecap_verdict [OF assms(3,5)])

text \<open>A debugger that loses tags, and that may not set registers.\<close>

definition no_tags :: tracing where
  "no_tags = \<lparr>tr_dump = (\<lambda>c. (0, cheri_tag_clear c)), tr_tags = (\<lambda>bs. 5), tr_build = (\<lambda>e. snd e),
     tr_pcc = sealing_root\<lparr>cap_tag := False\<rparr>, tr_set_morello = (\<lambda>r r'. Inl 1), tr_set_prstatus = (\<lambda>r r'. Inl 1),
     tr_peek = (\<lambda>c. Inr \<lparr>uc_val = unat (cap_addr c), uc_tag = of_bool (cap_tag c)\<rparr>), tr_poke = (\<lambda>u. Inl 1)\<rparr>"

definition traced_world :: trace_world where
  "traced_world = \<lparr>tw_cells = (\<lambda>i. sealing_root), tw_child = (\<lambda>i. sealing_root),
     tw_morello = \<lparr>cregs = replicate 31 0, pcc_reg = 4096, tag_map = 0\<rparr>, tw_prstatus = replicate 34 0\<rparr>"

theorem ptrace_bsd_verdict_witness:
  "\<not> declares_success (ptrace_readcap morello_purecap (trace_kernel morello_purecap no_tags sealing_root sealing_root sealing_root (\<lambda>n c. True)))
      (fresh_process morello_purecap traced_world) \<and>
   declares_success (ptrace_readtags morello_purecap (trace_kernel morello_purecap no_tags sealing_root sealing_root sealing_root (\<lambda>n c. True)))
      (fresh_process morello_purecap traced_world)"
proof -
  have "cap_tag sealing_root" "p_ccsp (fresh_process morello_purecap traced_world) \<noteq> None" by (simp_all add: sealing_root_def fresh_process_def)
  from ptrace_bsd_verdict [OF this(1) this(1) this(2) refl refl, of morello_purecap no_tags sealing_root "\<lambda>n c. True"] this(1)
  show ?thesis by (simp add: no_tags_def dumps_well_def)
qed

section \<open>Linux: any system\<close>

text \<open>A child is forked, asks to be traced, stops, and is waited for; and later it goes on, and its end is waited for.\<close>

definition attached :: "'k pt_env \<Rightarrow> 'k \<Rightarrow> (int \<Rightarrow> 'k \<Rightarrow> bool) \<Rightarrow> bool" where
  "attached pt k P \<longleftrightarrow> after (pt_fork pt) k (\<lambda>pid k. pid \<noteq> - 1 \<and> after (pt_trace_me pt) k (\<lambda>_ k.
     WIFSTOPPED (fst (pt_raise_stop pt k)) \<and> after (pt_waitpid pt pid) (snd (pt_raise_stop pt k)) (\<lambda>wpid k. wpid = pid \<and> P pid k)))"

definition detached :: "'k pt_env \<Rightarrow> int \<Rightarrow> 'k \<Rightarrow> ('k \<Rightarrow> bool) \<Rightarrow> bool" where
  "detached pt pid k P \<longleftrightarrow> after (pt_continue pt pid) k (\<lambda>status k. after (pt_waitpid pt pid) k (\<lambda>wpid k. wpid = pid \<and> trace_exited status \<and> P k))"

lemma tracee_start_fails: "pt_trace_me pt (p_world s) = (Inl e, k) \<Longrightarrow> \<exists>st. fst (tracee_start pl pt s) = Ended st"
  by (auto simp: tracee_start_def bind_raw_call CHERIOSTEST_VERIFY_def CHERIOSTEST_VERIFY2_def fail_if_def cheriostest_failure_errx_def split: prod.splits)

lemma tracee_start_stops:
  "pt_trace_me pt (p_world s) = (Inr u, k) \<Longrightarrow> tracee_start pl pt s = (fst (pt_raise_stop pt k), s\<lparr>p_world := snd (pt_raise_stop pt k)\<rparr>)"
  by (auto simp: tracee_start_def bind_raw_call CHERIOSTEST_VERIFY_def CHERIOSTEST_VERIFY2_def fail_if_def ret_def split: prod.splits)

lemma bind_start: "bindP (\<lambda>s. case g s of (status, t) \<Rightarrow> (Return status, h s t)) f s = f (fst (g s)) (h s (snd (g s)))"
  by (simp add: bindP_def case_prod_beta)

lemma success_fork_child:
  "declares_success (bindP (fork_child pl pt) f) s \<longleftrightarrow> attached pt (p_world s) (\<lambda>pid k. declares_success (f pid) (s\<lparr>p_world := k\<rparr>))"
proof (cases "pt_fork pt (p_world s)")
  case (Pair r k)
  have start: "declares_success (bindP (\<lambda>s. case tracee_start pl pt s of (status, t) \<Rightarrow> (Return status, t\<lparr>p_errno := p_errno s, p_sigaction := p_sigaction s\<rparr>)) g) u \<longleftrightarrow>
      declares_success (g (fst (tracee_start pl pt u))) ((snd (tracee_start pl pt u))\<lparr>p_errno := p_errno u, p_sigaction := p_sigaction u\<rparr>)"
    for g :: "trace_status \<Rightarrow> ('a, 'b) prog" and u
    by (rule declares_success_at) (rule bind_start)
  show ?thesis
  proof (cases r)
    case (Inl e)
    then show ?thesis using Pair by (simp add: fork_child_def bindP_assoc success_raw_call passes_simps attached_def after_def Let_def)
  next
    case (Inr pid)
    let ?u = "s\<lparr>p_world := k\<rparr>"
    show ?thesis
    proof (cases "pt_trace_me pt k")
      case me: (Pair q k1)
      show ?thesis
      proof (cases q)
        case (Inl e)
        with me tracee_start_fails [of pt ?u e k1 pl] obtain st where "fst (tracee_start pl pt ?u) = Ended st" by auto
        then show ?thesis using Pair Inr me Inl
          by (auto simp: fork_child_def bindP_assoc success_raw_call passes_simps start attached_def after_def Let_def WIFSTOPPED_def split: prod.splits sum.splits)
      next
        case q: (Inr u)
        with me have "tracee_start pl pt ?u = (fst (pt_raise_stop pt k1), s\<lparr>p_world := snd (pt_raise_stop pt k1)\<rparr>)"
          using tracee_start_stops [of pt ?u u k1 pl] by simp
        moreover have "s\<lparr>p_errno := p_errno s, p_world := w, p_sigaction := p_sigaction s\<rparr> = s\<lparr>p_world := w\<rparr>" for w by simp
        ultimately show ?thesis using Pair Inr me q
          by (auto simp: fork_child_def bindP_assoc success_raw_call passes_simps start attached_def after_def Let_def split: prod.splits sum.splits)
      qed
    qed
  qed
qed

lemma success_finish_child:
  "pid \<noteq> - 1 \<Longrightarrow> declares_success (bindP (finish_child pl pt pid) f) s \<longleftrightarrow>
    detached pt pid (p_world s) (\<lambda>k. declares_success (f ()) (s\<lparr>p_world := k\<rparr>))"
  by (auto simp: finish_child_def detached_def bindP_assoc success_raw_call passes_simps after_def split: prod.splits sum.splits)

lemma success_traced_any:
  fixes body :: "int \<Rightarrow> ('k, unit) prog"
  shows "declares_success (traced pl pt body) s \<longleftrightarrow> attached pt (p_world s) (\<lambda>pid k.
     declares_success (bindP (body pid) (\<lambda>_. bindP (finish_child pl pt pid) (\<lambda>_. cheriostest_success :: ('k, unit) prog))) (s\<lparr>p_world := k\<rparr>))"
  by (simp add: traced_def success_fork_child)

lemma attached_cong: "k = j \<Longrightarrow> (\<And>pid k'. pid \<noteq> - 1 \<Longrightarrow> P pid k' = Q pid k') \<Longrightarrow> attached pt k P = attached pt j Q"
  unfolding attached_def by hypsubst (intro after_cong conj_cong refl, simp)

lemma success_peek_any:
  "declares_success (bindP (peek pl pt pid p i m) f) s \<longleftrightarrow> after (pt_peekcap pt pid p i) (p_world s) (\<lambda>u k. declares_success (f u) (s\<lparr>p_world := k\<rparr>))"
  by (auto simp: peek_def bindP_assoc success_raw_call passes_simps after_def split: prod.splits sum.splits)

lemma success_syscall_any:
  "declares_success (bindP (CHERIOSTEST_CHECK_SYSCALL pl call m) f) s \<longleftrightarrow> after call (p_world s) (\<lambda>x k. declares_success (f x) (s\<lparr>p_world := k\<rparr>))"
  by (auto simp: declares_success_syscall after_def split: prod.splits sum.splits)

text \<open>A call that gives 0 or -1 is not different from \<^verbatim>\<open>-EPERM\<close> as soon as it fails: \<^verbatim>\<open>EPERM\<close> is 1.\<close>

lemma success_set_any:
  "pt_EPERM pt = 1 \<Longrightarrow> declares_success (bindP (raw_call call) (\<lambda>r. bindP (not_EPERM pl pt r) (f r))) s \<longleftrightarrow>
    after call (p_world s) (\<lambda>u k. declares_success (f (Some u) ()) (s\<lparr>p_world := k\<rparr>))"
  by (auto simp: success_raw_call not_EPERM_def passes_simps after_def split: prod.splits sum.splits)

text \<open>The registers that the test on Morello asks for, and those it puts back.\<close>

definition morello_wanted :: "morello_state \<Rightarrow> morello_state" where
  "morello_wanted r = r\<lparr>cregs := (cregs r)[0 := pcc_reg r], tag_map := tag_map r OR 1\<rparr>"

definition morello_restored :: "morello_state \<Rightarrow> morello_state \<Rightarrow> morello_state" where
  "morello_restored old r = r\<lparr>cregs := (cregs r)[0 := cregs old ! 0], tag_map := (if tag_map old AND 1 = 0 then tag_map r AND NOT 1 else tag_map r)\<rparr>"

lemma setcapregs_morello_verdict:
  assumes "p_ccsp s \<noteq> None" "pt_EPERM pt = 1"
  shows "declares_success (ptrace_setcapregs_morello pl pt) s \<longleftrightarrow> attached pt (p_world s) (\<lambda>pid k.
    after (pt_get_morello pt pid) k (\<lambda>r k. after (pt_set_morello pt pid (morello_wanted r)) k (\<lambda>_ k.
    after (pt_get_morello pt pid) k (\<lambda>r' k. cregs r' ! 0 = pcc_reg r \<and> tag_map r' AND 1 = 1 \<and>
    after (pt_set_morello pt pid (morello_restored r r')) k (\<lambda>_ k. detached pt pid k (\<lambda>_. True))))))"
  unfolding ptrace_setcapregs_morello_def Let_def success_traced_any using assms
  by (intro attached_cong refl)
    (simp add: bindP_assoc success_syscall_any success_set_any success_finish_child passes_simps morello_wanted_def morello_restored_def)

text \<open>On RISC-V the call is made, and nothing is looked at.\<close>

definition qemu_model :: "'k pt_env \<Rightarrow> bool option" where
  "qemu_model pt = (if pt_riscv_zcheripurecap pt then map_option (list_ex (sublist ''qemu'')) (pt_model pt) else Some False)"

lemma setcapregs_riscv_verdict:
  assumes "p_ccsp s \<noteq> None"
  shows "declares_success (ptrace_setcapregs_riscv pl pt) s \<longleftrightarrow>
      qemu_model pt = Some False \<and> attached pt (p_world s) (\<lambda>pid k. after (pt_get_prstatus pt pid) k (\<lambda>_ _. True))"
    "qemu_model pt = Some True \<Longrightarrow> declares_failure (ptrace_setcapregs_riscv pl pt) s"
    "qemu_model pt = None \<Longrightarrow> fst (ptrace_setcapregs_riscv pl pt s) = Undefined"
proof -
  show "declares_success (ptrace_setcapregs_riscv pl pt) s \<longleftrightarrow>
      qemu_model pt = Some False \<and> attached pt (p_world s) (\<lambda>pid k. after (pt_get_prstatus pt pid) k (\<lambda>_ _. True))"
  proof (cases "qemu_model pt")
    case None
    then show ?thesis
      by (auto simp: qemu_model_def ptrace_setcapregs_riscv_def is_running_on_qemu_def declares_success_def bindP_def split: if_splits option.splits)
  next
    case (Some q)
    have run: "declares_success (bindP (if pt_riscv_zcheripurecap pt then is_running_on_qemu pt else ret False) f) s \<longleftrightarrow> declares_success (f q) s"
      for f :: "bool \<Rightarrow> ('a, unit) prog"
      using Some by (auto simp: declares_success_def qemu_model_def is_running_on_qemu_def bindP_def ret_def split: if_splits)
    have "declares_success (ptrace_setcapregs_riscv pl pt) s \<longleftrightarrow> \<not> q \<and> attached pt (p_world s) (\<lambda>pid k. after (pt_get_prstatus pt pid) k (\<lambda>_ _. True))"
      unfolding ptrace_setcapregs_riscv_def Let_def run using assms
      by (cases q) (auto simp: passes_simps success_traced_any success_syscall_any success_raw_call after_def bindP_assoc
        intro!: attached_cong refl split: prod.splits sum.splits)
    then show ?thesis using Some by simp
  qed
  show "declares_failure (ptrace_setcapregs_riscv pl pt) s" if "qemu_model pt = Some True"
    using that assms by (auto simp: qemu_model_def ptrace_setcapregs_riscv_def is_running_on_qemu_def bindP_def ret_def declares_failure_def
        cheriostest_failure_errx_def vcheriostest_failure_errx_def split: if_splits option.splits)
  show "fst (ptrace_setcapregs_riscv pl pt s) = Undefined" if "qemu_model pt = None"
    using that by (auto simp: qemu_model_def ptrace_setcapregs_riscv_def is_running_on_qemu_def bindP_def split: if_splits)
qed

section \<open>Linux: memory\<close>

definition array_filled :: "platform \<Rightarrow> 'k pt_env \<Rightarrow> 'k \<Rightarrow> 'k" where
  "array_filled pl pt k = snd (pt_store pt (pt_tracee_buf pt) 1 (pt_tracee_buf pt) (snd (pt_store pt (pt_tracee_buf pt) 0 (cap_null pl)
     (snd (pt_zero pt (pt_tracee_buf pt) 32 k)))))"

text \<open>What is asked of the array of the test: clearing, storing and loading do not fault, and a load gives what was stored last; the kernel leaves it alone.\<close>

locale tracee_array =
  fixes pt :: "'k pt_env" and cells :: "'k \<Rightarrow> nat \<Rightarrow> cap"
  assumes zero_law: "fst (pt_zero pt (pt_tracee_buf pt) 32 k) = None"
    and store_law: "i < 2 \<Longrightarrow> fst (pt_store pt (pt_tracee_buf pt) i c k) = None \<and> cells (snd (pt_store pt (pt_tracee_buf pt) i c k)) = (cells k)(i := c)"
    and load_law: "i < 2 \<Longrightarrow> pt_load pt (pt_tracee_buf pt) i k = (Inr (cells k i), k)"
    and fork_law: "cells (snd (pt_fork pt k)) = cells k"
    and trace_me_law: "cells (snd (pt_trace_me pt k)) = cells k"
    and raise_law: "cells (snd (pt_raise_stop pt k)) = cells k"
    and waitpid_law: "cells (snd (pt_waitpid pt pid k)) = cells k"
    and peekcap_law: "cells (snd (pt_peekcap pt pid p i k)) = cells k"
begin

lemma attached_cells: "(\<And>pid k'. pid \<noteq> - 1 \<Longrightarrow> cells k' = cells k \<Longrightarrow> P pid k' = Q pid k') \<Longrightarrow> attached pt k P = attached pt k Q"
  unfolding attached_def
  by (intro after_cong conj_cong refl) (metis fork_law trace_me_law raise_law waitpid_law snd_conv)

lemma success_put_law:
  "i < 2 \<Longrightarrow> declares_success (bindP (put pt (pt_tracee_buf pt) i c) f) s \<longleftrightarrow>
    declares_success (f ()) (s\<lparr>p_world := snd (pt_store pt (pt_tracee_buf pt) i c (p_world s))\<rparr>)"
  by (simp add: put_def passes_simps store_law)

lemma success_fetch_law:
  "i < 2 \<Longrightarrow> declares_success (bindP (fetch pt (pt_tracee_buf pt) i) f) s \<longleftrightarrow> declares_success (f (cells (p_world s) i)) s"
  by (simp add: fetch_def bindP_def declares_success_def load_law)

lemma success_verify_elem_law:
  "i < 2 \<Longrightarrow> declares_success (bindP (verify_elem pl pt (pt_tracee_buf pt) i b m) f) s \<longleftrightarrow>
    cheri_tag_get (cells (p_world s) i) = b \<and> declares_success (f ()) s"
  by (simp add: verify_elem_def bindP_assoc success_fetch_law passes_simps)

lemma peekcap_verdict:
  assumes "p_ccsp s \<noteq> None" "cap_tag (pt_tracee_buf pt)"
  shows "declares_success (ptrace_peekcap pl pt) s \<longleftrightarrow> attached pt (array_filled pl pt (p_world s)) (\<lambda>pid k.
    after (pt_peekcap pt pid (pt_tracee_buf pt) 0) k (\<lambda>u k. after (pt_peekcap pt pid (pt_tracee_buf pt) 1) k (\<lambda>v k.
      uc_tag u = 0 \<and> pt_val_eq pt (uc_val u) (cap_null pl) \<and> uc_tag v = 1 \<and> pt_val_eq pt (uc_val v) (pt_tracee_buf pt) \<and>
      detached pt pid k (\<lambda>_. True))))"
proof -
  let ?k = "array_filled pl pt (p_world s)"
  have cells: "cells ?k 0 = cap_null pl" "cells ?k 1 = pt_tracee_buf pt"
    by (simp_all add: array_filled_def store_law)
  have "declares_success (ptrace_peekcap pl pt) s \<longleftrightarrow> attached pt ?k (\<lambda>pid k.
    after (pt_peekcap pt pid (pt_tracee_buf pt) 0) k (\<lambda>u k. after (pt_peekcap pt pid (pt_tracee_buf pt) 1) k (\<lambda>v k.
      uc_tag u = 0 \<and> pt_val_eq pt (uc_val u) (cells k 0) \<and> uc_tag v = 1 \<and> pt_val_eq pt (uc_val v) (cells k 1) \<and>
      detached pt pid k (\<lambda>_. True))))"
  proof -
    let ?body = "\<lambda>pid. bindP (peek pl pt pid (pt_tracee_buf pt) 0 ''ptrace(PTRACE_PEEKCAP, pid, &tracee_buf[0], &read_buf[0]) == 0'') (\<lambda>read_buf0.
          bindP (peek pl pt pid (pt_tracee_buf pt) 1 ''ptrace(PTRACE_PEEKCAP, pid, &tracee_buf[1], &read_buf[1]) == 0'') (\<lambda>read_buf1. block
           [CHERIOSTEST_VERIFY2 pl (uc_tag read_buf0 = 0) ''Tag set for returned integer'' [],
            bindP (fetch pt (pt_tracee_buf pt) 0) (\<lambda>c. CHERIOSTEST_VERIFY2 pl (pt_val_eq pt (uc_val read_buf0) c) ''Mismatch in non-tag bits'' []),
            CHERIOSTEST_VERIFY2 pl (uc_tag read_buf1 = 1) ''Tag not set for returned capability'' [],
            bindP (fetch pt (pt_tracee_buf pt) 1) (\<lambda>c. CHERIOSTEST_VERIFY2 pl (pt_val_eq pt (uc_val read_buf1) c) ''Mismatch in non-tag bits'' [])]))"
    have "declares_success (ptrace_peekcap pl pt) s \<longleftrightarrow> declares_success (traced pl pt ?body) (s\<lparr>p_world := ?k\<rparr>)"
      unfolding ptrace_peekcap_def Let_def using assms
      by (simp add: passes_simps zero_law success_put_law success_verify_elem_law store_law array_filled_def cheri_tag_get_def cap_null_def
          del: One_nat_def)
    then show ?thesis
      unfolding success_traced_any using assms
      by (simp add: bindP_assoc success_peek_any success_fetch_law success_finish_child passes_simps del: One_nat_def cong: attached_cong)
  qed
  also have "\<dots> \<longleftrightarrow> attached pt ?k (\<lambda>pid k.
    after (pt_peekcap pt pid (pt_tracee_buf pt) 0) k (\<lambda>u k. after (pt_peekcap pt pid (pt_tracee_buf pt) 1) k (\<lambda>v k.
      uc_tag u = 0 \<and> pt_val_eq pt (uc_val u) (cap_null pl) \<and> uc_tag v = 1 \<and> pt_val_eq pt (uc_val v) (pt_tracee_buf pt) \<and>
      detached pt pid k (\<lambda>_. True))))"
    by (intro attached_cells after_cong refl) (metis cells peekcap_law snd_conv)
  finally show ?thesis .
qed

end

lemma pokecap_verdict:
  assumes "p_ccsp s \<noteq> None" "pt_EPERM pt = 1"
  shows "declares_success (ptrace_pokecap pl pt) s \<longleftrightarrow> after (pt_stat_forge_cap pt) (p_world s) (\<lambda>_ k.
    let map = fst (pt_alloc pt (pt_pagesize pt) k); zero = pt_zero pt map (pt_pagesize pt) (snd (pt_alloc pt (pt_pagesize pt) k)) in
    fst zero = None \<and> attached pt (snd zero) (\<lambda>pid k.
    after (pt_pokecap pt pid map 0 \<lparr>uc_val = pt_bytes pt map, uc_tag = 1\<rparr>) k (\<lambda>_ k. after (pt_peekcap pt pid map 0) k (\<lambda>u k.
    pt_val_eq pt (uc_val u) map \<and> uc_tag u = 1 \<and> detached pt pid k (\<lambda>k. fst (pt_free pt map k) = None)))))"
proof -
  have forge: "declares_success (bindP (ptrace_forge_cap_sysctl_exists pl pt) (\<lambda>exists. bindP (CHERIOSTEST_VERIFY2 pl exists m ap) f)) s \<longleftrightarrow>
      after (pt_stat_forge_cap pt) (p_world s) (\<lambda>_ k. declares_success (f ()) (s\<lparr>p_world := k\<rparr>))" for f m ap
    by (auto simp: ptrace_forge_cap_sysctl_exists_def bindP_assoc success_raw_call passes_simps after_def split: prod.splits sum.splits if_splits)
  show ?thesis
    unfolding ptrace_pokecap_def forge using assms
    by (simp add: bindP_assoc passes_simps success_fork_child success_set_any success_peek_any success_finish_child Let_def cong: attached_cong)
qed

section \<open>Verdicts of the tests for Linux\<close>

text \<open>
  C30: On any system, whatever of its calls fail, with \<^verbatim>\<open>EPERM\<close> being 1: the test of \<^verbatim>\<open>PTRACE_SETREGSET\<close> on RISC-V succeeds as soon as a stopped child
  could be had and its registers be read; it depends neither on the result of \<^verbatim>\<open>PTRACE_SETREGSET\<close> nor on what that does, and leaves the child
  stopped. Only where it is built for Zcheripurecap does it declare failure on an emulator, and have no meaning without a device tree. On
  Morello the test succeeds exactly when every call does, the second reading shows the wanted value and tag, the old registers can be put back
  and the child ends. The tests of \<^verbatim>\<open>PTRACE_PEEKCAP\<close> and \<^verbatim>\<open>PTRACE_POKECAP\<close> succeed exactly when their calls do, and the null pointer is read without a
  tag and the pointer to the array with one (where the array behaves like memory), and the pointer that was written is read back with its tag.
\<close>

theorem ptrace_linux_verdict:
  assumes "tracee_array pt cells" "cap_tag (pt_tracee_buf pt)" "p_ccsp s \<noteq> None" "pt_EPERM pt = 1"
  shows "(declares_success (ptrace_setcapregs_riscv pl pt) s \<longleftrightarrow>
      qemu_model pt = Some False \<and> attached pt (p_world s) (\<lambda>pid k. after (pt_get_prstatus pt pid) k (\<lambda>_ _. True))) \<and>
    (qemu_model pt = Some True \<longrightarrow> declares_failure (ptrace_setcapregs_riscv pl pt) s) \<and>
    (qemu_model pt = None \<longrightarrow> fst (ptrace_setcapregs_riscv pl pt s) = Undefined) \<and>
    (declares_success (ptrace_setcapregs_morello pl pt) s \<longleftrightarrow> attached pt (p_world s) (\<lambda>pid k.
      after (pt_get_morello pt pid) k (\<lambda>r k. after (pt_set_morello pt pid (morello_wanted r)) k (\<lambda>_ k.
      after (pt_get_morello pt pid) k (\<lambda>r' k. cregs r' ! 0 = pcc_reg r \<and> tag_map r' AND 1 = 1 \<and>
      after (pt_set_morello pt pid (morello_restored r r')) k (\<lambda>_ k. detached pt pid k (\<lambda>_. True))))))) \<and>
    (declares_success (ptrace_peekcap pl pt) s \<longleftrightarrow> attached pt (array_filled pl pt (p_world s)) (\<lambda>pid k.
      after (pt_peekcap pt pid (pt_tracee_buf pt) 0) k (\<lambda>u k. after (pt_peekcap pt pid (pt_tracee_buf pt) 1) k (\<lambda>v k.
        uc_tag u = 0 \<and> pt_val_eq pt (uc_val u) (cap_null pl) \<and> uc_tag v = 1 \<and> pt_val_eq pt (uc_val v) (pt_tracee_buf pt) \<and>
        detached pt pid k (\<lambda>_. True))))) \<and>
    (declares_success (ptrace_pokecap pl pt) s \<longleftrightarrow> after (pt_stat_forge_cap pt) (p_world s) (\<lambda>_ k.
      let map = fst (pt_alloc pt (pt_pagesize pt) k); zero = pt_zero pt map (pt_pagesize pt) (snd (pt_alloc pt (pt_pagesize pt) k)) in
      fst zero = None \<and> attached pt (snd zero) (\<lambda>pid k.
      after (pt_pokecap pt pid map 0 \<lparr>uc_val = pt_bytes pt map, uc_tag = 1\<rparr>) k (\<lambda>_ k. after (pt_peekcap pt pid map 0) k (\<lambda>u k.
      pt_val_eq pt (uc_val u) map \<and> uc_tag u = 1 \<and> detached pt pid k (\<lambda>k. fst (pt_free pt map k) = None))))))"
  by (intro conjI impI setcapregs_riscv_verdict [OF assms(3)] setcapregs_morello_verdict [OF assms(3,4)]
      tracee_array.peekcap_verdict [OF assms(1,3,2)] pokecap_verdict [OF assms(3,4)])

interpretation trace_kernel: tracee_array "trace_kernel pl tr array piod tagbuf val_eq\<lparr>pt_riscv_zcheripurecap := z, pt_model := model\<rparr>" tw_cells
  for pl tr array piod tagbuf val_eq z model
  by unfold_locales (auto simp: trace_kernel_def split: sum.splits)

definition linux_kernel :: "trace_world pt_env" where
  "linux_kernel = trace_kernel morello_purecap no_tags sealing_root sealing_root sealing_root (\<lambda>n c. n = unat (cap_addr c))"

theorem ptrace_linux_verdict_witness:
  "declares_success (ptrace_setcapregs_riscv morello_purecap linux_kernel) (fresh_process morello_purecap traced_world) \<and>
   \<not> declares_success (ptrace_setcapregs_morello morello_purecap linux_kernel) (fresh_process morello_purecap traced_world) \<and>
   declares_success (ptrace_peekcap morello_purecap linux_kernel) (fresh_process morello_purecap traced_world) \<and>
   declares_failure (ptrace_setcapregs_riscv morello_purecap (linux_kernel\<lparr>pt_riscv_zcheripurecap := True, pt_model := Some [''riscv-virtio,qemu'']\<rparr>))
     (fresh_process morello_purecap traced_world)"
proof -
  let ?pt = "\<lambda>z model. trace_kernel morello_purecap no_tags sealing_root sealing_root sealing_root (\<lambda>n c. n = unat (cap_addr c))
    \<lparr>pt_riscv_zcheripurecap := z, pt_model := model\<rparr>"
  have p: "cap_tag (pt_tracee_buf (?pt z model))" "p_ccsp (fresh_process morello_purecap traced_world) \<noteq> None" "pt_EPERM (?pt z model) = 1" for z model
    by (simp_all add: sealing_root_def trace_kernel_def)
  note v = ptrace_linux_verdict [OF trace_kernel.tracee_array_axioms p, where pl = morello_purecap]
  have same: "?pt False None = trace_kernel morello_purecap no_tags sealing_root sealing_root sealing_root (\<lambda>n c. n = unat (cap_addr c))"
    by (simp add: trace_kernel_def)
  have eval: "attached (?pt z model) k P = P 7 (k\<lparr>tw_child := tw_cells k\<rparr>)" "detached (?pt z model) 7 k Q = Q k" for z model k P Q
    by (simp_all add: attached_def detached_def after_def trace_kernel_def WIFSTOPPED_def trace_exited_def)
  have "declares_success (ptrace_setcapregs_riscv morello_purecap (?pt False None)) (fresh_process morello_purecap traced_world)"
    using v by (simp add: eval qemu_model_def) (simp add: after_def trace_kernel_def)
  moreover have "\<not> declares_success (ptrace_setcapregs_morello morello_purecap (?pt False None)) (fresh_process morello_purecap traced_world)"
    using v by (simp add: eval) (simp add: after_def trace_kernel_def no_tags_def)
  moreover have "declares_success (ptrace_peekcap morello_purecap (?pt False None)) (fresh_process morello_purecap traced_world)"
    using v by (simp add: eval) (simp add: after_def trace_kernel_def no_tags_def array_filled_def cap_null_def sealing_root_def)
  moreover have "declares_failure (ptrace_setcapregs_riscv morello_purecap (?pt True (Some [''riscv-virtio,qemu'']))) (fresh_process morello_purecap traced_world)"
  proof -
    have "sublist ''qemu'' ''riscv-virtio,qemu''" by (simp add: sublist_code)
    then show ?thesis using v by (simp add: qemu_model_def)
  qed
  ultimately show ?thesis unfolding same linux_kernel_def by simp
qed

end
