(* ===== verification/Signals.thy ===== *)
theory Signals
  imports Statements
begin

text \<open>
  The tests of \<^verbatim>\<open>cheriostest_signal.c\<close>: handlers that are called, on which stack and with which return capability; and, in the hybrid ABI, accesses
  through null and kernel pointers. The handlers are functions on the variables of the file; the kernel decides when they run and with which frame.
\<close>

section \<open>Handlers\<close>

datatype sig_handler = handler_func | sigaction_func | sigaltstack_func | sigaltstack_disable_func | returncap_func

text \<open>What a handler is called with: the signal, the fields of \<^verbatim>\<open>siginfo\<close>, the address of its variable \<^verbatim>\<open>x\<close>, and its return capability.\<close>

record sig_frame =
  fr_signum :: int
  fr_si_signo :: int
  fr_si_code :: int
  fr_x :: uintmax
  fr_return :: cap

record sig_vars =
  handler_signum :: int
  sigaction_signum :: int
  sigaction_info_si_signo :: int
  sigaction_info_si_code :: int
  sigaltstack_local_addr :: uintmax
  sigaltstack_disable_local_addr :: uintmax
  handler_returncap :: cap

fun run_handler :: "sig_handler \<Rightarrow> sig_frame \<Rightarrow> sig_vars \<Rightarrow> sig_vars" where
  "run_handler handler_func fr v = v\<lparr>handler_signum := fr_signum fr\<rparr>"
| "run_handler sigaction_func fr v =
     v\<lparr>sigaction_signum := fr_signum fr, sigaction_info_si_signo := fr_si_signo fr, sigaction_info_si_code := fr_si_code fr\<rparr>"
| "run_handler sigaltstack_func fr v = v\<lparr>sigaltstack_local_addr := fr_x fr\<rparr>"
| "run_handler sigaltstack_disable_func fr v = v\<lparr>sigaltstack_disable_local_addr := fr_x fr\<rparr>"
| "run_handler returncap_func fr v = v\<lparr>handler_returncap := fr_return fr\<rparr>"

section \<open>The system\<close>

datatype sa_flag = NO_FLAGS | FLAG_SIGINFO | FLAG_ONSTACK

text \<open>
  \<open>sg_kill\<close> is \<^verbatim>\<open>kill(getpid(), SIGUSR1)\<close>: its result, and the handlers that have run when it comes back, with their frames. The state of
  the kernel and the variables of the file are the world of the test.
\<close>

record 'k sig_env =
  sg_sigaction :: "sig_handler \<Rightarrow> sa_flag \<Rightarrow> ('k, unit) sys" \<comment> \<open>for \<^verbatim>\<open>SIGUSR1\<close>, with an empty mask\<close>
  sg_raw_sigaction :: "sig_handler \<Rightarrow> sa_flag \<Rightarrow> ('k, unit) sys" \<comment> \<open>\<^verbatim>\<open>__sys_sigaction\<close>, \<^verbatim>\<open>SYS_rt_sigaction\<close>\<close>
  sg_kill :: "'k \<Rightarrow> (int + (sig_handler \<times> sig_frame) list) \<times> 'k"
  sg_malloc :: "nat \<Rightarrow> ('k, cap) sys"
  sg_sigaltstack :: "cap \<Rightarrow> nat \<Rightarrow> bool \<Rightarrow> ('k, unit) sys" \<comment> \<open>\<^verbatim>\<open>ss_sp\<close>, \<^verbatim>\<open>ss_size\<close>, \<^verbatim>\<open>SS_DISABLE\<close>\<close>
  SIGSTKSZ :: nat
  SIGUSR1 :: int
  SI_USER :: int

record 'k sig_world =
  sw_vars :: sig_vars
  sw_sys :: 'k

text \<open>A call of the kernel leaves the variables as they are.\<close>

definition in_kernel :: "('k, 'a) sys \<Rightarrow> ('k sig_world, 'a) sys" where
  "in_kernel call = (\<lambda>w. case call (sw_sys w) of (r, k) \<Rightarrow> (r, w\<lparr>sw_sys := k\<rparr>))"

definition set_vars :: "(sig_vars \<Rightarrow> sig_vars) \<Rightarrow> ('k sig_world, unit) prog" where
  "set_vars f = upd_world (\<lambda>w. w\<lparr>sw_vars := f (sw_vars w)\<rparr>)"

definition get_vars :: "('k sig_world, sig_vars) prog" where
  "get_vars = (\<lambda>s. (Return (sw_vars (p_world s)), s))"

text \<open>\<^verbatim>\<open>if (call != 0) cheriostest_failure_errx("\<dots> failed: %s", strerror(errno))\<close>.\<close>

definition or_fail :: "platform \<Rightarrow> string \<Rightarrow> ('w, 'a) sys \<Rightarrow> ('w, 'a) prog" where
  "or_fail pl msg call =
     bindP (raw_call call) (\<lambda>r. bindP get_errno (\<lambda>errno. case r of
       None \<Rightarrow> cheriostest_failure_errx pl (msg @ '' failed: %s'') [FStr (lc_strerror pl errno)]
     | Some x \<Rightarrow> ret x))"

definition kill_self :: "platform \<Rightarrow> 'k sig_env \<Rightarrow> ('k sig_world, unit) prog" where
  "kill_self pl sg =
     bindP (or_fail pl ''kill(getpid(), SIGUSR1)'' (in_kernel (sg_kill sg))) (\<lambda>calls.
     set_vars (fold (\<lambda>(h, fr). run_handler h fr) calls))"

section \<open>Handlers are called\<close>

definition signal_handler_usr1 :: "platform \<Rightarrow> 'k sig_env \<Rightarrow> ('k sig_world, unit) prog" where
  "signal_handler_usr1 pl sg = block
     [or_fail pl ''sigaction'' (in_kernel (sg_sigaction sg handler_func NO_FLAGS)),
      set_vars (\<lambda>v. v\<lparr>handler_signum := 0\<rparr>),
      kill_self pl sg,
      bindP get_vars (\<lambda>v. fail_if pl (handler_signum v \<noteq> SIGUSR1 sg) ''handler_signum (%d) != SIGUSR1 (%d)'' [FInt (handler_signum v), FInt (SIGUSR1 sg)]),
      cheriostest_success]"

definition signal_sigaction_usr1 :: "platform \<Rightarrow> 'k sig_env \<Rightarrow> ('k sig_world, unit) prog" where
  "signal_sigaction_usr1 pl sg = block
     [or_fail pl ''sigaction'' (in_kernel (sg_sigaction sg sigaction_func FLAG_SIGINFO)),
      set_vars (\<lambda>v. v\<lparr>sigaction_signum := 0\<rparr>),
      kill_self pl sg,
      bindP get_vars (\<lambda>v. fail_if pl (sigaction_signum v \<noteq> SIGUSR1 sg) ''signum (%d) != SIGUSR1 (%d)'' [FInt (sigaction_signum v), FInt (SIGUSR1 sg)]),
      bindP get_vars (\<lambda>v. fail_if pl (sigaction_info_si_signo v \<noteq> SIGUSR1 sg) ''si_signo (%d) != SIGUSR1 (%d)''
        [FInt (sigaction_info_si_signo v), FInt (SIGUSR1 sg)]),
      bindP get_vars (\<lambda>v. fail_if pl (sigaction_info_si_code v \<noteq> SI_USER sg) ''si_code (%d) != SI_USER (%d)''
        [FInt (sigaction_info_si_code v), FInt (SI_USER sg)]),
      cheriostest_success]"

definition signal_sigaltstack :: "platform \<Rightarrow> 'k sig_env \<Rightarrow> ('k sig_world, unit) prog" where
  "signal_sigaltstack pl sg =
     bindP (or_fail pl ''malloc(SIGSTKSZ)'' (in_kernel (sg_malloc sg (SIGSTKSZ sg)))) (\<lambda>ss_sp.
     let altstack_addr = cap_addr ss_sp; altstack_end = altstack_addr + of_nat (SIGSTKSZ sg) in block
      [or_fail pl ''sigaltstack'' (in_kernel (sg_sigaltstack sg ss_sp (SIGSTKSZ sg) False)),
       or_fail pl ''sigaction'' (in_kernel (sg_sigaction sg sigaltstack_func FLAG_ONSTACK)),
       set_vars (\<lambda>v. v\<lparr>sigaltstack_local_addr := 0\<rparr>),
       kill_self pl sg,
       bindP get_vars (\<lambda>v. fail_if pl (sigaltstack_local_addr v < altstack_addr) ''stack local (0x%zx) < sigstk.ss_sp (0x%zx)''
         [FWord (sigaltstack_local_addr v), FWord altstack_addr]),
       bindP get_vars (\<lambda>v. fail_if pl (sigaltstack_local_addr v \<ge> altstack_end) ''stack local (0x%zx) >= sigstk.ss_sp+SIGSTKSZ (0x%zx)''
         [FWord (sigaltstack_local_addr v), FWord altstack_end]),
       cheriostest_success])"

definition signal_sigaltstack_disable :: "platform \<Rightarrow> 'k sig_env \<Rightarrow> ('k sig_world, unit) prog" where
  "signal_sigaltstack_disable pl sg =
     bindP (or_fail pl ''malloc(SIGSTKSZ)'' (in_kernel (sg_malloc sg (SIGSTKSZ sg)))) (\<lambda>ss_sp.
     let altstack_addr = cap_addr ss_sp; altstack_end = altstack_addr + of_nat (SIGSTKSZ sg) in block
      [or_fail pl ''sigaltstack'' (in_kernel (sg_sigaltstack sg ss_sp (SIGSTKSZ sg) False)),
       or_fail pl ''sigaltstack (disable)'' (in_kernel (sg_sigaltstack sg ss_sp (SIGSTKSZ sg) True)),
       or_fail pl ''sigaction'' (in_kernel (sg_sigaction sg sigaltstack_disable_func FLAG_ONSTACK)),
       set_vars (\<lambda>v. v\<lparr>sigaltstack_disable_local_addr := 0\<rparr>),
       kill_self pl sg,
       bindP get_vars (\<lambda>v. fail_if pl (sigaltstack_disable_local_addr v \<ge> altstack_addr \<and> sigaltstack_disable_local_addr v < altstack_end)
         ''stack local (0x%zx) in range of sigstk.ss_sp (0x%zx-0x%zx)''
         [FWord (sigaltstack_disable_local_addr v), FWord altstack_addr, FWord altstack_end]),
       cheriostest_success])"

section \<open>The return capability\<close>

definition sigcode_length :: "platform \<Rightarrow> uintmax" where
  "sigcode_length pl =
     (if pl_abi pl = PurecapBenchmark then CHERI_CAP_USER_CODE_LENGTH pl
      else if pl_c18n pl then 0x300 else 0x100)"

definition signal_returncap :: "platform \<Rightarrow> 'k sig_env \<Rightarrow> ('k sig_world, unit) prog" where
  "signal_returncap pl sg = block
     [or_fail pl ''sigaction'' (in_kernel (sg_raw_sigaction sg returncap_func NO_FLAGS)),
      set_vars (\<lambda>v. v\<lparr>handler_returncap := cap_null pl\<rparr>),
      kill_self pl sg,
      bindP get_vars (\<lambda>vars. let c = handler_returncap vars; v = cheri_perms_get c in block (
       [CHERIOSTEST_VERIFY2 pl (cheri_length_get c \<le> sigcode_length pl) ''length %#jx (expected <= %#jx)'' [FWord (cheri_length_get c), FWord (sigcode_length pl)],
        CHERIOSTEST_VERIFY2 pl (cheri_type_get c = CHERI_OTYPE_SENTRY pl) ''otype %jx (expected %jx)'' [FWord (cheri_type_get c), FWord (CHERI_OTYPE_SENTRY pl)],
        CHERIOSTEST_VERIFY pl (cheri_is_sealed pl c) ''cheri_is_sealed(handler_returncap)'',
        CHERIOSTEST_VERIFY pl (cheri_tag_get c) ''cheri_tag_get(handler_returncap)'',
        CHERIOSTEST_VERIFY2 pl (v AND CHERI_PERM_EXECUTE pl = CHERI_PERM_EXECUTE pl) ''perms %jx (execute missing)'' [FWord v],
        CHERIOSTEST_VERIFY2 pl (v AND CHERI_PERM_STORE pl = 0) ''perms %jx (store present)'' [FWord v]] @
       only_if (HAS_CHERI_PERM_LOAD_STORE_CAP pl)
        [CHERIOSTEST_VERIFY2 pl (v AND CHERI_PERM_STORE_CAP pl = 0) ''perms %jx (storecap present)'' [FWord v]] @
       only_if (HAS_CHERI_PERM_CAP pl)
        [CHERIOSTEST_VERIFY2 pl (v AND CHERI_PERM_CAP pl \<noteq> 0) ''perms %jx (cap missing)'' [FWord v]] @
       [CHERIOSTEST_VERIFY2 pl (v AND CHERI_PERM_STORE_LOCAL_CAP pl = 0) ''perms %jx (store_local_cap present)'' [FWord v]] @
       only_if (pl_arch pl = RISCV_zcheripurecap)
        [CHERIOSTEST_VERIFY2 pl (v AND CHERI_PERM_CAP pl \<noteq> 0) ''perms %jx (cap missing)'' [FWord v]])),
      cheriostest_success]"

section \<open>Null and kernel pointers in the hybrid ABI\<close>

datatype access_kind = Access_Load | Access_Store | Access_Exec

text \<open>\<open>sv_access\<close> is what the machine and the kernel make of an access to an address.\<close>

record 'w segv_env =
  sv_access :: "access_kind \<Rightarrow> uintmax \<Rightarrow> 'w \<Rightarrow> siginfo option \<times> 'w"
  VM_MIN_KERNEL_ADDRESS :: uintmax
  sv_SIGSEGV :: int
  SEGV_MAPERR :: int
  TRAPNO_LOAD_PF :: int
  TRAPNO_STORE_PF :: int
  TRAPNO_EXEC_PF :: int

definition access_test :: "platform \<Rightarrow> 'w segv_env \<Rightarrow> access_kind \<Rightarrow> uintmax \<Rightarrow> string \<Rightarrow> ('w, unit) prog" where
  "access_test pl sv k a msg = block [effect (sv_access sv k a), cheriostest_failure_errx pl msg []]"

definition segv_entry :: "'w segv_env \<Rightarrow> string \<Rightarrow> string \<Rightarrow> ('w, unit) prog \<Rightarrow> int \<Rightarrow> 'w cheri_test" where
  "segv_entry sv name desc body trapno = \<lparr>
     ct_name = name, ct_desc = desc, ct_func = body, ct_child_func = None, ct_check_skip = None, ct_check_xfail = None,
     ct_flags = CT_FLAG_SIGNAL OR CT_FLAG_SI_CODE OR CT_FLAG_SI_TRAPNO, ct_signum = sv_SIGSEGV sv, ct_si_code = SEGV_MAPERR sv, ct_si_trapno = trapno,
     ct_stdin_string = [], ct_stdout_string = [], ct_xfail_reason = None, ct_flaky_reason = None\<rparr>"

definition null_pointer_load_sigsegv :: "platform \<Rightarrow> 'w segv_env \<Rightarrow> 'w cheri_test" where
  "null_pointer_load_sigsegv pl sv = segv_entry sv ''null_pointer_load_sigsegv'' ''Check that loading from NULL raises SIGSEGV''
     (access_test pl sv Access_Load 1 ''Unexpected load from NULL pointer'') (TRAPNO_LOAD_PF sv)"

definition null_pointer_store_sigsegv :: "platform \<Rightarrow> 'w segv_env \<Rightarrow> 'w cheri_test" where
  "null_pointer_store_sigsegv pl sv = segv_entry sv ''null_pointer_store_sigsegv'' ''Check that storing to NULL raises SIGSEGV''
     (access_test pl sv Access_Store 1 ''Unexpected store to NULL pointer'') (TRAPNO_STORE_PF sv)"

definition null_pointer_exec_sigsegv :: "platform \<Rightarrow> 'w segv_env \<Rightarrow> 'w cheri_test" where
  "null_pointer_exec_sigsegv pl sv = segv_entry sv ''null_pointer_exec_sigsegv'' ''Check that branching to NULL raises SIGSEGV''
     (access_test pl sv Access_Exec 4 ''Unexpected branch to NULL pointer'') (TRAPNO_EXEC_PF sv)"

definition kernel_pointer_load_sigsegv :: "platform \<Rightarrow> 'w segv_env \<Rightarrow> 'w cheri_test" where
  "kernel_pointer_load_sigsegv pl sv = segv_entry sv ''kernel_pointer_load_sigsegv'' ''Check that loading from a kernel address raises SIGSEGV''
     (access_test pl sv Access_Load (VM_MIN_KERNEL_ADDRESS sv) ''Unexpected load from kernel address'') (TRAPNO_LOAD_PF sv)"

definition kernel_pointer_store_sigsegv :: "platform \<Rightarrow> 'w segv_env \<Rightarrow> 'w cheri_test" where
  "kernel_pointer_store_sigsegv pl sv = segv_entry sv ''kernel_pointer_store_sigsegv'' ''Check that storing to a kernel address raises SIGSEGV''
     (access_test pl sv Access_Store (VM_MIN_KERNEL_ADDRESS sv) ''Unexpected store to kernel address'')
     (if pl_arch pl = Morello then TRAPNO_STORE_PF sv else TRAPNO_LOAD_PF sv)"

definition kernel_pointer_exec_sigsegv :: "platform \<Rightarrow> 'w segv_env \<Rightarrow> 'w cheri_test" where
  "kernel_pointer_exec_sigsegv pl sv = segv_entry sv ''kernel_pointer_exec_sigsegv'' ''Check that branching to a kernel address raises SIGSEGV''
     (access_test pl sv Access_Exec (VM_MIN_KERNEL_ADDRESS sv) ''Unexpected branch to kernel address'') (TRAPNO_EXEC_PF sv)"

end
