(* ===== verification/Signals_Proofs.thy ===== *)
theory Signals_Proofs
  imports Signals Verdict
begin

text \<open>
  What the tests of signals decide about a kernel that calls only the installed handler, any number of times: the values it is called with, the
  stack it runs on with and without an alternate stack, and the capability it returns through. And the verdict of the controller on the tests of
  accesses through integers.
\<close>

section \<open>A kernel that delivers signals\<close>

text \<open>
  What is asked of the system: a successful \<^verbatim>\<open>sigaction\<close> installs the handler; when \<^verbatim>\<open>kill\<close> comes back with success, only the installed handler has
  been called, however often and with whatever frames; and \<^verbatim>\<open>malloc\<close> returns a block that ends before the end of the address space. Every call
  may fail.
\<close>

locale signalling =
  fixes sg :: "'k sig_env" and installed :: "'k \<Rightarrow> sig_handler option"
  assumes sigaction_law: "sg_sigaction sg h fl k = (Inr u, k') \<Longrightarrow> installed k' = Some h"
    and raw_sigaction_law: "sg_raw_sigaction sg h fl k = (Inr u, k') \<Longrightarrow> installed k' = Some h"
    and kill_law: "sg_kill sg k = (Inr calls, k') \<Longrightarrow> installed k = Some h \<Longrightarrow> fst ` set calls \<subseteq> {h}"
    and malloc_law: "sg_malloc sg n k = (Inr c, k') \<Longrightarrow> 0 < unat (cap_addr c) \<and> unat (cap_addr c) + n < 2 ^ 64"

section \<open>Runs\<close>

lemma success_or_fail:
  "declares_success (bindP (or_fail pl m call) f) s \<longleftrightarrow>
    (case call (p_world s) of (Inl e, w) \<Rightarrow> False | (Inr x, w) \<Rightarrow> declares_success (f x) (s\<lparr>p_world := w\<rparr>))"
  by (simp add: or_fail_def bindP_assoc success_raw_call success_get_errno split: prod.splits sum.splits)

lemma success_set_vars:
  "declares_success (bindP (set_vars f) g) s \<longleftrightarrow> declares_success (g ()) (s\<lparr>p_world := (p_world s)\<lparr>sw_vars := f (sw_vars (p_world s))\<rparr>\<rparr>)"
  by (simp add: set_vars_def success_upd_world)

lemma success_get_vars: "declares_success (bindP get_vars f) s \<longleftrightarrow> declares_success (f (sw_vars (p_world s))) s"
  by (simp add: declares_success_def get_vars_def bindP_def)

lemma success_kill_self:
  "declares_success (bindP (kill_self pl sg) f) s \<longleftrightarrow> (case sg_kill sg (sw_sys (p_world s)) of
     (Inl e, k) \<Rightarrow> False
   | (Inr calls, k) \<Rightarrow> declares_success (f ())
       (s\<lparr>p_world := \<lparr>sw_vars = fold (\<lambda>(h, fr). run_handler h fr) calls (sw_vars (p_world s)), sw_sys = k\<rparr>\<rparr>))"
  by (cases "p_world s") (simp add: kill_self_def bindP_assoc success_or_fail success_set_vars in_kernel_def split: prod.splits sum.splits)

text \<open>In terms of the calls that succeed.\<close>

lemma success_call_after:
  "declares_success (bindP (or_fail pl m (in_kernel call)) f) s \<longleftrightarrow>
    after call (sw_sys (p_world s)) (\<lambda>x k. declares_success (f x) (s\<lparr>p_world := (p_world s)\<lparr>sw_sys := k\<rparr>\<rparr>))"
  by (auto simp: success_or_fail in_kernel_def after_def split: prod.splits sum.splits)

lemma success_kill_after:
  "declares_success (bindP (kill_self pl sg) f) s \<longleftrightarrow> after (sg_kill sg) (sw_sys (p_world s)) (\<lambda>calls k.
     declares_success (f ()) (s\<lparr>p_world := \<lparr>sw_vars = fold (\<lambda>(h, fr). run_handler h fr) calls (sw_vars (p_world s)), sw_sys = k\<rparr>\<rparr>))"
  by (auto simp: success_kill_self after_def split: prod.splits sum.splits)

lemmas signal_runs = success_call_after success_set_vars success_get_vars success_kill_after bindP_assoc passes_simps

text \<open>What a sequence of calls of one handler leaves is what the last one sets.\<close>

lemma fold_handler:
  assumes "fst ` set calls \<subseteq> {h}" "calls \<noteq> []"
  shows "fold (\<lambda>(h, fr). run_handler h fr) calls v = run_handler h (snd (last calls)) (fold (\<lambda>(h, fr). run_handler h fr) (butlast calls) v)"
proof -
  from assms(2) have calls: "calls = butlast calls @ [last calls]" by simp
  from assms(1) last_in_set [OF assms(2)] have "fst (last calls) = h" by auto
  then show ?thesis by (subst calls, simp only: fold_append) (simp add: case_prod_beta)
qed

text \<open>What the capability that the handler returns through must be.\<close>

definition good_sigcode :: "platform \<Rightarrow> cap \<Rightarrow> bool" where
  "good_sigcode pl c \<longleftrightarrow>
     cheri_length_get c \<le> sigcode_length pl \<and> cap_otype c = CHERI_OTYPE_SENTRY pl \<and> cheri_is_sealed pl c \<and> cap_tag c \<and>
     cap_perms c AND CHERI_PERM_EXECUTE pl = CHERI_PERM_EXECUTE pl \<and> cap_perms c AND CHERI_PERM_STORE pl = 0 \<and>
     cap_perms c AND CHERI_PERM_STORE_LOCAL_CAP pl = 0 \<and>
     (HAS_CHERI_PERM_LOAD_STORE_CAP pl \<longrightarrow> cap_perms c AND CHERI_PERM_STORE_CAP pl = 0) \<and>
     (HAS_CHERI_PERM_CAP pl \<longrightarrow> cap_perms c AND CHERI_PERM_CAP pl \<noteq> 0)"

text \<open>The address that the handlers for the stack leave.\<close>

definition last_x :: "(sig_handler \<times> sig_frame) list \<Rightarrow> uintmax" where
  "last_x calls = (if calls = [] then 0 else fr_x (snd (last calls)))"

context signalling
begin

text \<open>What is left in the variables of the file when a handler was installed, and then \<^verbatim>\<open>kill\<close> succeeded.\<close>

lemma handled:
  assumes "sg_kill sg k = (Inr calls, k')" "installed k = Some h"
  shows "fold (\<lambda>(h, fr). run_handler h fr) calls v =
    (if calls = [] then v else run_handler h (snd (last calls)) (fold (\<lambda>(h, fr). run_handler h fr) (butlast calls) v))"
  using fold_handler [OF kill_law] assms by simp

lemma handled_x:
  "sg_kill sg k = (Inr calls, k') \<Longrightarrow> installed k = Some sigaltstack_func \<Longrightarrow> sigaltstack_local_addr v = 0 \<Longrightarrow>
     sigaltstack_local_addr (fold (\<lambda>(h, fr). run_handler h fr) calls v) = last_x calls"
  "sg_kill sg k = (Inr calls, k') \<Longrightarrow> installed k = Some sigaltstack_disable_func \<Longrightarrow> sigaltstack_disable_local_addr v = 0 \<Longrightarrow>
     sigaltstack_disable_local_addr (fold (\<lambda>(h, fr). run_handler h fr) calls v) = last_x calls"
  by (simp_all add: handled last_x_def)

lemma usr1_verdicts:
  assumes "p_ccsp s \<noteq> None" "SIGUSR1 sg \<noteq> 0"
  shows "declares_success (signal_handler_usr1 pl sg) s \<longleftrightarrow>
      after (sg_sigaction sg handler_func NO_FLAGS) (sw_sys (p_world s)) (\<lambda>_ k1. after (sg_kill sg) k1 (\<lambda>calls _.
        calls \<noteq> [] \<and> fr_signum (snd (last calls)) = SIGUSR1 sg))"
    "declares_success (signal_sigaction_usr1 pl sg) s \<longleftrightarrow>
      after (sg_sigaction sg sigaction_func FLAG_SIGINFO) (sw_sys (p_world s)) (\<lambda>_ k1. after (sg_kill sg) k1 (\<lambda>calls _.
        calls \<noteq> [] \<and> fr_signum (snd (last calls)) = SIGUSR1 sg \<and> fr_si_signo (snd (last calls)) = SIGUSR1 sg \<and>
        fr_si_code (snd (last calls)) = SI_USER sg))"
  using assms
  by (simp_all add: signal_handler_usr1_def signal_sigaction_usr1_def signal_runs)
    (intro after_cong refl; auto simp: handled [OF _ sigaction_law] split: if_splits)+

text \<open>A variable of the handler lies in the block.\<close>

lemma in_block:
  assumes "sg_malloc sg n k = (Inr c, k')"
  shows "cap_addr c \<le> last_x calls \<and> last_x calls < cap_addr c + of_nat n \<longleftrightarrow>
    calls \<noteq> [] \<and> unat (cap_addr c) \<le> unat (fr_x (snd (last calls))) \<and> unat (fr_x (snd (last calls))) < unat (cap_addr c) + n"
proof -
  note m = malloc_law [OF assms]
  then have "unat (cap_addr c + of_nat n) = unat (cap_addr c) + n"
    by (simp add: unat_word_ariths unat_of_nat take_bit_nat_eq_self_iff)
  with m show ?thesis by (simp add: word_le_nat_alt word_less_nat_alt last_x_def)
qed

lemma altstack_verdicts:
  assumes "p_ccsp s \<noteq> None"
  shows "declares_success (signal_sigaltstack pl sg) s \<longleftrightarrow>
      after (sg_malloc sg (SIGSTKSZ sg)) (sw_sys (p_world s)) (\<lambda>c k1. after (sg_sigaltstack sg c (SIGSTKSZ sg) False) k1 (\<lambda>_ k2.
      after (sg_sigaction sg sigaltstack_func FLAG_ONSTACK) k2 (\<lambda>_ k3. after (sg_kill sg) k3 (\<lambda>calls _.
        calls \<noteq> [] \<and> unat (cap_addr c) \<le> unat (fr_x (snd (last calls))) \<and> unat (fr_x (snd (last calls))) < unat (cap_addr c) + SIGSTKSZ sg))))"
      (is "_ \<longleftrightarrow> ?enabled")
    "declares_success (signal_sigaltstack_disable pl sg) s \<longleftrightarrow>
      after (sg_malloc sg (SIGSTKSZ sg)) (sw_sys (p_world s)) (\<lambda>c k1. after (sg_sigaltstack sg c (SIGSTKSZ sg) False) k1 (\<lambda>_ k2.
      after (sg_sigaltstack sg c (SIGSTKSZ sg) True) k2 (\<lambda>_ k3.
      after (sg_sigaction sg sigaltstack_disable_func FLAG_ONSTACK) k3 (\<lambda>_ k4. after (sg_kill sg) k4 (\<lambda>calls _.
        calls = [] \<or> unat (fr_x (snd (last calls))) < unat (cap_addr c) \<or> unat (cap_addr c) + SIGSTKSZ sg \<le> unat (fr_x (snd (last calls))))))))"
      (is "_ \<longleftrightarrow> ?disabled")
proof -
  show "declares_success (signal_sigaltstack pl sg) s \<longleftrightarrow> ?enabled"
    unfolding signal_sigaltstack_def Let_def using assms
    by (simp add: signal_runs not_le not_less, intro after_cong refl) (simp add: handled_x [OF _ sigaction_law] in_block)
  have "declares_success (signal_sigaltstack_disable pl sg) s \<longleftrightarrow>
      after (sg_malloc sg (SIGSTKSZ sg)) (sw_sys (p_world s)) (\<lambda>c k1. after (sg_sigaltstack sg c (SIGSTKSZ sg) False) k1 (\<lambda>_ k2.
      after (sg_sigaltstack sg c (SIGSTKSZ sg) True) k2 (\<lambda>_ k3.
      after (sg_sigaction sg sigaltstack_disable_func FLAG_ONSTACK) k3 (\<lambda>_ k4. after (sg_kill sg) k4 (\<lambda>calls _.
        \<not> (cap_addr c \<le> last_x calls \<and> last_x calls < cap_addr c + of_nat (SIGSTKSZ sg)))))))"
    unfolding signal_sigaltstack_disable_def Let_def using assms
    by (simp add: signal_runs del: de_Morgan_conj, intro after_cong refl) (simp add: handled_x [OF _ sigaction_law])
  also have "\<dots> \<longleftrightarrow> ?disabled"
    by (intro after_cong refl) (simp add: in_block not_le not_less)
  finally show "declares_success (signal_sigaltstack_disable pl sg) s \<longleftrightarrow> ?disabled" .
qed

lemma returncap_verdict:
  assumes "p_ccsp s \<noteq> None"
  shows "declares_success (signal_returncap pl sg) s \<longleftrightarrow>
    after (sg_raw_sigaction sg returncap_func NO_FLAGS) (sw_sys (p_world s)) (\<lambda>_ k1. after (sg_kill sg) k1 (\<lambda>calls _.
      calls \<noteq> [] \<and> good_sigcode pl (fr_return (snd (last calls)))))"
proof -
  have null: "\<not> good_sigcode pl (cap_null pl)" by (simp add: good_sigcode_def cap_null_def)
  have "declares_success (signal_returncap pl sg) s \<longleftrightarrow>
    after (sg_raw_sigaction sg returncap_func NO_FLAGS) (sw_sys (p_world s)) (\<lambda>_ k1. after (sg_kill sg) k1 (\<lambda>calls _.
      good_sigcode pl (if calls = [] then cap_null pl else fr_return (snd (last calls)))))"
    using assms
    by (cases "pl_arch pl")
       (simp_all add: signal_returncap_def signal_runs Let_def good_sigcode_def feature_defs cheri_type_get_def cheri_tag_get_def cheri_perms_get_def
         conj_ac, (intro after_cong refl, simp add: handled [OF _ raw_sigaction_law] if_distrib [of handler_returncap])+)
  also have "\<dots> \<longleftrightarrow> after (sg_raw_sigaction sg returncap_func NO_FLAGS) (sw_sys (p_world s)) (\<lambda>_ k1. after (sg_kill sg) k1 (\<lambda>calls _.
      calls \<noteq> [] \<and> good_sigcode pl (fr_return (snd (last calls)))))"
    by (intro after_cong refl) (simp add: null)
  finally show ?thesis .
qed

end

text \<open>
  C31: On every system that meets the contract \<open>signalling\<close> (a successful \<^verbatim>\<open>sigaction\<close> installs the handler, \<^verbatim>\<open>kill\<close> calls no other one,
  \<^verbatim>\<open>malloc\<close> returns a block inside the address space; any call may fail), each test of signals succeeds exactly when its calls succeed in their
  order and the last call of the handler during \<^verbatim>\<open>kill\<close> got the right frame: the number of the signal, its number and code in \<^verbatim>\<open>siginfo\<close>, a stack
  inside the alternate one, a sealed, tagged return capability that is short, may execute and not store. A handler that is never called
  fails these tests. The test that disables the alternate stack again succeeds when the last call ran outside of it, but also when the handler
  was never called at all.
\<close>

theorem signal_tests_verdict:
  assumes "signalling sg installed" "p_ccsp s \<noteq> None" "SIGUSR1 sg \<noteq> 0"
  shows "(declares_success (signal_handler_usr1 pl sg) s \<longleftrightarrow>
      after (sg_sigaction sg handler_func NO_FLAGS) (sw_sys (p_world s)) (\<lambda>_ k1. after (sg_kill sg) k1 (\<lambda>calls _.
        calls \<noteq> [] \<and> fr_signum (snd (last calls)) = SIGUSR1 sg))) \<and>
    (declares_success (signal_sigaction_usr1 pl sg) s \<longleftrightarrow>
      after (sg_sigaction sg sigaction_func FLAG_SIGINFO) (sw_sys (p_world s)) (\<lambda>_ k1. after (sg_kill sg) k1 (\<lambda>calls _.
        calls \<noteq> [] \<and> fr_signum (snd (last calls)) = SIGUSR1 sg \<and> fr_si_signo (snd (last calls)) = SIGUSR1 sg \<and>
        fr_si_code (snd (last calls)) = SI_USER sg))) \<and>
    (declares_success (signal_sigaltstack pl sg) s \<longleftrightarrow>
      after (sg_malloc sg (SIGSTKSZ sg)) (sw_sys (p_world s)) (\<lambda>c k1. after (sg_sigaltstack sg c (SIGSTKSZ sg) False) k1 (\<lambda>_ k2.
      after (sg_sigaction sg sigaltstack_func FLAG_ONSTACK) k2 (\<lambda>_ k3. after (sg_kill sg) k3 (\<lambda>calls _.
        calls \<noteq> [] \<and> unat (cap_addr c) \<le> unat (fr_x (snd (last calls))) \<and> unat (fr_x (snd (last calls))) < unat (cap_addr c) + SIGSTKSZ sg))))) \<and>
    (declares_success (signal_sigaltstack_disable pl sg) s \<longleftrightarrow>
      after (sg_malloc sg (SIGSTKSZ sg)) (sw_sys (p_world s)) (\<lambda>c k1. after (sg_sigaltstack sg c (SIGSTKSZ sg) False) k1 (\<lambda>_ k2.
      after (sg_sigaltstack sg c (SIGSTKSZ sg) True) k2 (\<lambda>_ k3.
      after (sg_sigaction sg sigaltstack_disable_func FLAG_ONSTACK) k3 (\<lambda>_ k4. after (sg_kill sg) k4 (\<lambda>calls _.
        calls = [] \<or> unat (fr_x (snd (last calls))) < unat (cap_addr c) \<or> unat (cap_addr c) + SIGSTKSZ sg \<le> unat (fr_x (snd (last calls))))))))) \<and>
    (declares_success (signal_returncap pl sg) s \<longleftrightarrow>
      after (sg_raw_sigaction sg returncap_func NO_FLAGS) (sw_sys (p_world s)) (\<lambda>_ k1. after (sg_kill sg) k1 (\<lambda>calls _.
        calls \<noteq> [] \<and> good_sigcode pl (fr_return (snd (last calls))))))"
  by (intro conjI signalling.usr1_verdicts [OF assms] signalling.altstack_verdicts [OF assms(1,2)] signalling.returncap_verdict [OF assms(1,2)])

section \<open>A system that meets the contract\<close>

text \<open>A kernel that calls the handler once per signal, on the alternate stack where there is one.\<close>

record delivery =
  dl_signum :: int
  dl_si_signo :: int
  dl_si_code :: int
  dl_stack :: "(uintmax \<times> nat) option \<Rightarrow> sa_flag \<Rightarrow> uintmax" \<comment> \<open>address of a variable of the handler\<close>
  dl_return :: cap

record sig_sys =
  ks_handler :: "(sig_handler \<times> sa_flag) option"
  ks_altstack :: "(uintmax \<times> nat) option"

definition frame_of :: "delivery \<Rightarrow> (uintmax \<times> nat) option \<Rightarrow> sa_flag \<Rightarrow> sig_frame" where
  "frame_of dl alt fl = \<lparr>fr_signum = dl_signum dl, fr_si_signo = dl_si_signo dl, fr_si_code = dl_si_code dl, fr_x = dl_stack dl alt fl, fr_return = dl_return dl\<rparr>"

definition delivering :: "delivery \<Rightarrow> cap \<Rightarrow> sig_sys sig_env" where
  "delivering dl stack =
     \<lparr>sg_sigaction = (\<lambda>h fl k. (Inr (), k\<lparr>ks_handler := Some (h, fl)\<rparr>)), sg_raw_sigaction = (\<lambda>h fl k. (Inr (), k\<lparr>ks_handler := Some (h, fl)\<rparr>)),
      sg_kill = (\<lambda>k. (Inr (case ks_handler k of None \<Rightarrow> [] | Some (h, fl) \<Rightarrow> [(h, frame_of dl (ks_altstack k) fl)]), k)),
      sg_malloc = (\<lambda>n k. (if 0 < cap_addr stack \<and> unat (cap_addr stack) + n < 2 ^ 64 then Inr stack else Inl 12, k)),
      sg_sigaltstack = (\<lambda>p n off k. (Inr (), k\<lparr>ks_altstack := (if off then None else Some (cap_addr p, n))\<rparr>)),
      SIGSTKSZ = 0x8000, SIGUSR1 = 30, SI_USER = 0x10001\<rparr>"

interpretation delivering: signalling "delivering dl stack" "\<lambda>k. map_option fst (ks_handler k)" for dl stack
  by unfold_locales (auto simp: delivering_def word_less_nat_alt split: if_splits option.splits)

definition good_delivery :: delivery where
  "good_delivery = \<lparr>dl_signum = 30, dl_si_signo = 30, dl_si_code = 0x10001,
     dl_stack = (\<lambda>alt fl. case alt of None \<Rightarrow> 0x7FFF0000 | Some (a, n) \<Rightarrow> a + of_nat n - 64),
     dl_return = \<lparr>cap_tag = True, cap_addr = 0x1000, cap_base = 0x1000, cap_len = 0x40, cap_perms = 0x8000, cap_otype = 1, cap_flags = 0\<rparr>\<rparr>"

definition altstack_example :: cap where
  "altstack_example = \<lparr>cap_tag = True, cap_addr = 0x200000, cap_base = 0x200000, cap_len = 0x8000, cap_perms = 0x30000, cap_otype = 0, cap_flags = 0\<rparr>"

definition signals_start :: "sig_sys sig_world pstate" where
  "signals_start = fresh_process morello_purecap
     \<lparr>sw_vars = \<lparr>handler_signum = 0, sigaction_signum = 0, sigaction_info_si_signo = 0, sigaction_info_si_code = 0,
        sigaltstack_local_addr = 0, sigaltstack_disable_local_addr = 0, handler_returncap = cap_null morello_purecap\<rparr>,
      sw_sys = \<lparr>ks_handler = None, ks_altstack = None\<rparr>\<rparr>"

theorem signal_tests_verdict_witness:
  "declares_success (signal_sigaltstack morello_purecap (delivering good_delivery altstack_example)) signals_start \<and>
   declares_success (signal_sigaltstack_disable morello_purecap (delivering good_delivery altstack_example)) signals_start \<and>
   declares_success (signal_returncap morello_purecap (delivering good_delivery altstack_example)) signals_start \<and>
   \<not> declares_success (signal_returncap morello_purecap (delivering (good_delivery\<lparr>dl_return := altstack_example\<rparr>) altstack_example)) signals_start"
proof -
  have p: "p_ccsp signals_start \<noteq> None" by (simp add: signals_start_def)
  have u: "SIGUSR1 (delivering dl stack) \<noteq> 0" for dl stack by (simp add: delivering_def)
  have "good_sigcode morello_purecap (dl_return good_delivery)" "\<not> good_sigcode morello_purecap altstack_example"
    by (simp_all add: good_sigcode_def good_delivery_def altstack_example_def morello_purecap_def feature_defs cheri_is_sealed_def cheri_length_get_def sigcode_length_def)
  then show ?thesis
    using signal_tests_verdict [OF delivering.signalling_axioms p u, of morello_purecap good_delivery altstack_example]
      signal_tests_verdict [OF delivering.signalling_axioms p u, of morello_purecap "good_delivery\<lparr>dl_return := altstack_example\<rparr>" altstack_example]
    by (simp add: after_def delivering_def frame_of_def good_delivery_def altstack_example_def)
qed

section \<open>Accesses through integers\<close>

definition segv_tests :: "platform \<Rightarrow> 'w segv_env \<Rightarrow> ('w cheri_test \<times> access_kind \<times> uintmax) list" where
  "segv_tests pl sv =
     [(null_pointer_load_sigsegv pl sv, Access_Load, 1), (null_pointer_store_sigsegv pl sv, Access_Store, 1), (null_pointer_exec_sigsegv pl sv, Access_Exec, 4),
      (kernel_pointer_load_sigsegv pl sv, Access_Load, VM_MIN_KERNEL_ADDRESS sv), (kernel_pointer_store_sigsegv pl sv, Access_Store, VM_MIN_KERNEL_ADDRESS sv),
      (kernel_pointer_exec_sigsegv pl sv, Access_Exec, VM_MIN_KERNEL_ADDRESS sv)]"

lemma segv_entry_sel [simp]:
  "ct_func (segv_entry sv n d b t) = b" "ct_name (segv_entry sv n d b t) = n" "xfail_of (segv_entry sv n d b t) = None"
  "ct_flaky_reason (segv_entry sv n d b t) = None" "ct_check_skip (segv_entry sv n d b t) = None" "ct_signum (segv_entry sv n d b t) = sv_SIGSEGV sv"
  "ct_si_code (segv_entry sv n d b t) = SEGV_MAPERR sv" "ct_si_trapno (segv_entry sv n d b t) = t"
  "ct_flags (segv_entry sv n d b t) = CT_FLAG_SIGNAL OR CT_FLAG_SI_CODE OR CT_FLAG_SI_TRAPNO"
  by (simp_all add: segv_entry_def xfail_of_def)

lemma segv_entry_due: "find (begins_with n) disallowed_prefixes = None \<Longrightarrow> test_due opt (segv_entry sv n d b t) w"
  by (auto simp: test_due_def disallowed_prefixes_def begins_with_def has_flag_def ct_flag_defs)

lemma access_run:
  "access_test pl sv k a m s = (case sv_access sv k a (p_world s) of
     (None, w) \<Rightarrow> cheriostest_failure_errx pl m [] (s\<lparr>p_world := w\<rparr>) | (Some i, w) \<Rightarrow> (Trapped i, s\<lparr>p_world := w\<rparr>))"
proof -
  have "access_test pl sv k a m = bindP (effect (sv_access sv k a)) (\<lambda>_. cheriostest_failure_errx pl m [])" by (simp add: access_test_def)
  then show ?thesis by (simp add: bindP_def effect_def split: prod.splits option.splits)
qed

text \<open>A body that either declares failure or is ended by a signal and has then changed nothing but the world.\<close>

definition fails_or_raises :: "('w, unit) prog \<Rightarrow> siginfo option \<Rightarrow> bool" where
  "fails_or_raises p answer \<longleftrightarrow> (\<forall>s. p_ccsp s \<noteq> None \<longrightarrow> (case answer of
     None \<Rightarrow> declares_failure p s | Some i \<Rightarrow> \<exists>w. p s = (Trapped i, s\<lparr>p_world := w\<rparr>)))"

text \<open>The verdict on the entry of such a body: what it raises, compared with what the entry announces.\<close>

lemma signal_entry_verdict:
  assumes "os_works opt os" "test_due opt ct (r_world r)" "xfail_of ct = None" "ct_flaky_reason ct = None"
    and flags: "ct_flags ct = CT_FLAG_SIGNAL OR CT_FLAG_SI_CODE \<or> ct_flags ct = CT_FLAG_SIGNAL OR CT_FLAG_SI_CODE OR CT_FLAG_SI_TRAPNO"
    and body: "fails_or_raises (ct_func ct) answer"
    and harness: "\<And>i. answer = Some i \<Longrightarrow> si_signo i \<in> set (harness_signals pl os) \<and> 0 \<le> si_signo i"
  shows "\<exists>r'. cheriostest_run_test pl os opt u ct r = Inr r' \<and> tally r' = record_verdict
    (case answer of None \<Rightarrow> Fail | Some i \<Rightarrow> if si_signo i = ct_signum ct \<and> si_code i = ct_si_code ct \<and>
       (is_FreeBSD pl \<and> has_flag ct CT_FLAG_SI_TRAPNO \<longrightarrow> si_trapno i = ct_si_trapno ct) then Pass else Fail) (tally r)"
proof (cases answer)
  case None
  then have "declares_failure (ct_func ct) (child_ready pl os (forked_world os ct (r_world r)))" using body by (simp add: fails_or_raises_def)
  then show ?thesis using run_test_declared_failure [OF assms(1,2), of pl u] assms(3,4) None by simp
next
  case (Some i)
  then obtain w where w: "ct_func ct (child_ready pl os (forked_world os ct (r_world r))) = (Trapped i, child_ready pl os (forked_world os ct (r_world r))\<lparr>p_world := w\<rparr>)"
    using body by (fastforce simp: fails_or_raises_def)
  show ?thesis using run_test_trapped [OF assms(1,2) flags assms(3,4) w] harness [OF Some] Some by simp
qed

lemma access_fails_or_raises: "(\<And>w. fst (sv_access sv k a w) = answer) \<Longrightarrow> fails_or_raises (access_test pl sv k a m) answer"
  unfolding fails_or_raises_def
proof (intro allI impI)
  fix s :: "'a pstate" assume answer: "\<And>w. fst (sv_access sv k a w) = answer" and s: "p_ccsp s \<noteq> None"
  obtain w where "sv_access sv k a (p_world s) = (answer, w)" using answer [of "p_world s"] by (cases "sv_access sv k a (p_world s)") simp
  then show "case answer of None \<Rightarrow> declares_failure (access_test pl sv k a m) s | Some i \<Rightarrow> \<exists>w. access_test pl sv k a m s = (Trapped i, s\<lparr>p_world := w\<rparr>)"
    using s declares_failure_errx [of pl m "[]" "s\<lparr>p_world := w\<rparr>"] by (auto simp: access_run declares_failure_def split: option.splits)
qed

lemma segv_entry_verdict:
  assumes "os_works opt os" "find (begins_with n) disallowed_prefixes = None" "\<And>w. fst (sv_access sv k a w) = answer"
    and "\<And>i. answer = Some i \<Longrightarrow> si_signo i \<in> set (harness_signals pl os) \<and> 0 \<le> si_signo i"
  shows "\<exists>r'. cheriostest_run_test pl os opt u (segv_entry sv n d (access_test pl sv k a m) t) r = Inr r' \<and> tally r' = record_verdict
    (case answer of None \<Rightarrow> Fail | Some i \<Rightarrow> if si_signo i = sv_SIGSEGV sv \<and> si_code i = SEGV_MAPERR sv \<and> (is_FreeBSD pl \<longrightarrow> si_trapno i = t) then Pass else Fail) (tally r)"
proof -
  have "has_flag (segv_entry sv n d (access_test pl sv k a m) t) CT_FLAG_SI_TRAPNO" by (simp add: has_flag_def ct_flag_defs)
  moreover have "fails_or_raises (access_test pl sv k a m) answer" by (rule access_fails_or_raises) (rule assms(3))
  ultimately show ?thesis
    using signal_entry_verdict [OF assms(1) segv_entry_due [OF assms(2)], of sv d "access_test pl sv k a m" t answer pl u r] assms(4) by (cases answer) simp_all
qed

text \<open>
  In the hybrid ABI the six tests of accesses through null and kernel pointers end in \<^verbatim>\<open>PASS\<close> exactly when the access raises
  \<^verbatim>\<open>SIGSEGV\<close> with \<^verbatim>\<open>SEGV_MAPERR\<close> and, on CheriBSD, the trap number of the entry; with another signal, another code or
  no signal they end in \<^verbatim>\<open>FAIL\<close>.
\<close>

theorem segv_tests_verdict:
  assumes "os_works opt os" "\<And>k a w. fst (sv_access sv k a w) = answer k a"
    and "\<And>k a i. answer k a = Some i \<Longrightarrow> si_signo i \<in> set (harness_signals pl os) \<and> 0 \<le> si_signo i"
  shows "\<forall>(ct, k, a) \<in> set (segv_tests pl sv). \<exists>r'. cheriostest_run_test pl os opt u ct r = Inr r' \<and> tally r' = record_verdict
    (case answer k a of None \<Rightarrow> Fail | Some i \<Rightarrow>
       if si_signo i = sv_SIGSEGV sv \<and> si_code i = SEGV_MAPERR sv \<and> (is_FreeBSD pl \<longrightarrow> si_trapno i = ct_si_trapno ct) then Pass else Fail) (tally r)"
proof -
  have names: "find (begins_with n) disallowed_prefixes = None" if "n \<in> {''null_pointer_load_sigsegv'', ''null_pointer_store_sigsegv'', ''null_pointer_exec_sigsegv'',
      ''kernel_pointer_load_sigsegv'', ''kernel_pointer_store_sigsegv'', ''kernel_pointer_exec_sigsegv''}" for n
    using that by (auto simp: disallowed_prefixes_def begins_with_def)
  note v = segv_entry_verdict [OF assms(1) names assms(2,3)]
  show ?thesis
    unfolding segv_tests_def null_pointer_load_sigsegv_def null_pointer_store_sigsegv_def null_pointer_exec_sigsegv_def
      kernel_pointer_load_sigsegv_def kernel_pointer_store_sigsegv_def kernel_pointer_exec_sigsegv_def
    by (simp only: list.set ball_simps prod.case segv_entry_sel) (intro conjI v TrueI; simp)
qed

definition segv_machine :: "unit segv_env" where
  "segv_machine = \<lparr>sv_access = (\<lambda>k a w. (Some \<lparr>si_signo = 11, si_code = 1, si_trapno = (case k of Access_Load \<Rightarrow> 0x25 | Access_Store \<Rightarrow> 0x25 | Access_Exec \<Rightarrow> 0x21),
       si_addr = cap_null morello_hybrid\<rparr>, w)), VM_MIN_KERNEL_ADDRESS = 0xFFFF000000000000, sv_SIGSEGV = 11, SEGV_MAPERR = 1,
     TRAPNO_LOAD_PF = 0x25, TRAPNO_STORE_PF = 0x25, TRAPNO_EXEC_PF = 0x21\<rparr>"

theorem segv_tests_verdict_witness:
  "\<exists>r'. cheriostest_run_test morello_hybrid quiet_os plain_opts None (kernel_pointer_exec_sigsegv morello_hybrid segv_machine) (new_runner morello_hybrid) = Inr r' \<and>
     tally r' = record_verdict Pass (tally (new_runner morello_hybrid))"
proof -
  let ?answer = "\<lambda>k a. fst (sv_access segv_machine k a ())"
  have "si_signo i \<in> set (harness_signals morello_hybrid (quiet_os :: unit os)) \<and> 0 \<le> si_signo i" if "?answer k a = Some i" for k a i
    using that by (auto simp: segv_machine_def harness_signals_def quiet_os_def)
  moreover have "fst (sv_access segv_machine k a w) = ?answer k a" for k a w by simp
  ultimately show ?thesis
    using segv_tests_verdict [OF quiet_os_works, where sv = segv_machine and answer = ?answer and pl = morello_hybrid and opt = plain_opts and u = None and
      r = "new_runner morello_hybrid"] by (simp add: segv_tests_def segv_machine_def kernel_pointer_exec_sigsegv_def)
qed

end
