(* ===== verification/Kbounce.thy ===== *)
theory Kbounce
  imports Statements
begin

text \<open>
  \<^verbatim>\<open>cheriostest_kbounce.c\<close>: copying between two buffers of a process through the kernel, for all alignments of start and end. And what
  the test looks at afterwards.
\<close>

section \<open>Buffers\<close>

type_synonym kb_byte = "8 word"

record 'k kb_env =
  kb_mmap :: "nat \<Rightarrow> ('k, cap) sys" \<comment> \<open>anonymous, readable and writable\<close>
  kb_protect :: "cap \<Rightarrow> nat \<Rightarrow> ('k, unit) sys" \<comment> \<open>\<^verbatim>\<open>mprotect(\<dots>, PROT_NONE)\<close>\<close>
  kb_kbounce :: "cap \<Rightarrow> cap \<Rightarrow> nat \<Rightarrow> ('k, unit) sys"
  kb_store :: "cap \<Rightarrow> nat \<Rightarrow> kb_byte \<Rightarrow> 'k \<Rightarrow> siginfo option \<times> 'k" \<comment> \<open>an element of an array of \<^verbatim>\<open>char\<close>\<close>
  kb_load :: "cap \<Rightarrow> nat \<Rightarrow> 'k \<Rightarrow> (siginfo + kb_byte) \<times> 'k"
  CHERITEST_PAGE_SIZE :: nat

definition BUFLEN :: "'k kb_env \<Rightarrow> nat" where "BUFLEN kb = CHERITEST_PAGE_SIZE kb"

definition GUARDLEN :: "'k kb_env \<Rightarrow> nat" where "GUARDLEN kb = CHERITEST_PAGE_SIZE kb"

definition get_char :: "'k kb_env \<Rightarrow> cap \<Rightarrow> nat \<Rightarrow> ('k, kb_byte) prog" where
  "get_char kb buf i = (\<lambda>s. case kb_load kb buf i (p_world s) of
       (Inl sig, w) \<Rightarrow> (Trapped sig, s\<lparr>p_world := w\<rparr>)
     | (Inr b, w) \<Rightarrow> (Return b, s\<lparr>p_world := w\<rparr>))"

definition fillbuf :: "'k kb_env \<Rightarrow> cap \<Rightarrow> nat \<Rightarrow> ('k, unit) prog" where
  "fillbuf kb buf len = block (map (\<lambda>i. effect (kb_store kb buf i (of_nat i AND 0xFF))) [0..<len])"

definition spoilbuf :: "'k kb_env \<Rightarrow> cap \<Rightarrow> nat \<Rightarrow> ('k, unit) prog" where
  "spoilbuf kb buf len = block
     (fillbuf kb buf len #
      map (\<lambda>i. bindP (get_char kb buf i) (\<lambda>b. effect (kb_store kb buf i (NOT b)))) [0..<len])"

definition checkbuf :: "platform \<Rightarrow> 'k kb_env \<Rightarrow> cap \<Rightarrow> nat \<Rightarrow> nat \<Rightarrow> string \<Rightarrow> ('k, unit) prog" where
  "checkbuf pl kb buf off len where_text = block
     (map (\<lambda>i. bindP (get_char kb buf i) (\<lambda>b.
        fail_if pl (b \<noteq> of_nat i AND 0xFF) ''%s: buf[%zu] != 0x%02x (0x%02x)'' [FStr where_text, FWord (of_nat i), FInt (sint (of_nat i AND 0xFF :: kb_byte)), FInt (sint b)]))
      [off..<off + len])"

section \<open>The test\<close>

text \<open>\<open>BUFLEN\<close> stands for what is left, a negative number for as much less; 0 ends the array.\<close>

definition bounce_lengths :: "'k kb_env \<Rightarrow> int list" where
  "bounce_lengths kb = [1..32] @ [int (BUFLEN kb)] @ map uminus [1..31]"

definition bounce_len :: "'k kb_env \<Rightarrow> nat \<Rightarrow> int \<Rightarrow> nat" where
  "bounce_len kb off l =
     (if l = int (BUFLEN kb) then BUFLEN kb - off
      else if l < 0 then nat (int (BUFLEN kb) - int off + l)
      else nat l)"

definition bounce_once :: "platform \<Rightarrow> 'k kb_env \<Rightarrow> cap \<Rightarrow> cap \<Rightarrow> nat \<Rightarrow> int \<Rightarrow> ('k, unit) prog" where
  "bounce_once pl kb src dst off l =
     (let srcptr = cheri_offset_increment pl src (of_nat off); dstptr = cheri_offset_increment pl dst (of_nat off); len = bounce_len kb off l in block
       [spoilbuf kb dst (BUFLEN kb),
        bindP (raw_call (kb_kbounce kb srcptr dstptr len)) (\<lambda>r. if r = None
          then cheriostest_failure_err pl (''kbounce('' @ [CHR 0x0A] @ ''  %#p,'' @ [CHR 0x0A] @ ''  %#p,'' @ [CHR 0x0A] @ ''%zu, 0)'')
            [FPtr srcptr, FPtr dstptr, FWord (of_nat len)]
          else ret ()),
        checkbuf pl kb src off len ''partial buffer''])"

text \<open>The three guard regions.\<close>

definition guard_region :: "platform \<Rightarrow> 'k kb_env \<Rightarrow> cap \<Rightarrow> string \<Rightarrow> ('k, unit) prog" where
  "guard_region pl kb c which = bindP (raw_call (kb_protect kb c (GUARDLEN kb))) (\<lambda>r.
     if r = None then cheriostest_failure_err pl (''mprotect of '' @ which @ '' guard region failed'') [] else ret ())"

definition sys_kbounce :: "platform \<Rightarrow> 'k kb_env \<Rightarrow> ('k, unit) prog" where
  "sys_kbounce pl kb =
     (let len = BUFLEN kb * 2 + CHERITEST_PAGE_SIZE kb * 3 in
      bindP (raw_call (kb_mmap kb len)) (\<lambda>r. case r of
        None \<Rightarrow> cheriostest_failure_err pl ''mmap of %d failed'' [FInt (int len)]
      | Some buf \<Rightarrow>
         (let src = cheri_offset_increment pl buf (of_nat (GUARDLEN kb));
              dst = cheri_offset_increment pl src (of_nat (BUFLEN kb + GUARDLEN kb)) in block (
           [guard_region pl kb buf ''first'',
            guard_region pl kb (cheri_offset_increment pl buf (of_nat (GUARDLEN kb + BUFLEN kb))) ''second'',
            guard_region pl kb (cheri_offset_increment pl buf (of_nat (2 * (GUARDLEN kb + BUFLEN kb)))) ''third'',
            fillbuf kb src (BUFLEN kb),
            checkbuf pl kb src 0 (BUFLEN kb) ''src'',
            spoilbuf kb dst (BUFLEN kb),
            bindP (raw_call (kb_kbounce kb src dst (BUFLEN kb))) (\<lambda>r. if r = None
              then cheriostest_failure_err pl ''kbounce(%p, %p, %d, 0)'' [FPtr src, FPtr dst, FInt (int (BUFLEN kb))] else ret ()),
            checkbuf pl kb src 0 (BUFLEN kb) ''full buffer''] @
           map (\<lambda>off. block (map (bounce_once pl kb src dst off) (bounce_lengths kb))) [0..<16] @
           [cheriostest_success]))))"

section \<open>What is looked at\<close>

text \<open>A memory of bytes, and a system that copies in its own way.\<close>

type_synonym bytes = "ptraddr \<Rightarrow> kb_byte"

definition bounce_kernel :: "(ptraddr \<Rightarrow> ptraddr \<Rightarrow> nat \<Rightarrow> bytes \<Rightarrow> bytes) \<Rightarrow> cap \<Rightarrow> bytes kb_env" where
  "bounce_kernel bounce buf =
     \<lparr>kb_mmap = (\<lambda>n m. (Inr buf, m)), kb_protect = (\<lambda>c n m. (Inr (), m)),
      kb_kbounce = (\<lambda>s d n m. (Inr (), bounce (cap_addr s) (cap_addr d) n m)),
      kb_store = (\<lambda>c i b m. (None, m(cap_addr c + of_nat i := b))), kb_load = (\<lambda>c i m. (Inr (m (cap_addr c + of_nat i)), m)),
      CHERITEST_PAGE_SIZE = 4096\<rparr>"

definition source_intact :: "ptraddr \<Rightarrow> bytes pstate \<Rightarrow> bool" where
  "source_intact src s \<longleftrightarrow> p_ccsp s \<noteq> None \<and> (\<forall>k < 4096. p_world s (src + of_nat k) = of_nat k AND 0xFF)"

lemma bounce_kernel_sel:
  "kb_mmap (bounce_kernel bounce buf) n m = (Inr buf, m)" "kb_protect (bounce_kernel bounce buf) c n m = (Inr (), m)"
  "kb_kbounce (bounce_kernel bounce buf) c d n m = (Inr (), bounce (cap_addr c) (cap_addr d) n m)"
  "BUFLEN (bounce_kernel bounce buf) = 4096" "GUARDLEN (bounce_kernel bounce buf) = 4096" "CHERITEST_PAGE_SIZE (bounce_kernel bounce buf) = 4096"
  by (simp_all add: bounce_kernel_def BUFLEN_def GUARDLEN_def)

lemma store_run: "effect (kb_store (bounce_kernel bounce buf) c i b) s = (Return (), s\<lparr>p_world := (p_world s)(cap_addr c + of_nat i := b)\<rparr>)"
  by (simp add: effect_def bounce_kernel_def)

lemma fetch_run: "bindP (get_char (bounce_kernel bounce buf) c i) f s = f (p_world s (cap_addr c + of_nat i)) s"
  by (simp add: bindP_def get_char_def bounce_kernel_def)

lemma of_nat_eq_small: "i < 2 ^ 64 \<Longrightarrow> k < 2 ^ 64 \<Longrightarrow> (of_nat i = (of_nat k :: 64 word)) \<longleftrightarrow> i = k"
  by (simp add: word_of_nat_eq_iff take_bit_nat_eq_self)

lemma fillbuf_run:
  assumes "n \<le> 4096" "p_ccsp s \<noteq> None"
  shows "\<exists>s'. fillbuf (bounce_kernel bounce buf) c n s = (Return (), s') \<and> p_ccsp s' = p_ccsp s \<and>
    (\<forall>k < n. p_world s' (cap_addr c + of_nat k) = of_nat k AND 0xFF)"
  using assms(1)
proof (induction n)
  case 0
  then show ?case by (simp add: fillbuf_def ret_def)
next
  case (Suc n)
  then obtain t where t: "fillbuf (bounce_kernel bounce buf) c n s = (Return (), t)" "p_ccsp t = p_ccsp s"
    "\<forall>k < n. p_world t (cap_addr c + of_nat k) = of_nat k AND 0xFF" by auto
  then have "fillbuf (bounce_kernel bounce buf) c (Suc n) s = (Return (), t\<lparr>p_world := (p_world t)(cap_addr c + of_nat n := of_nat n AND 0xFF)\<rparr>)"
    by (simp add: fillbuf_def block_append bindP_def [of "block _"] bindP_ret_right store_run del: of_nat_Suc)
  moreover have "of_nat k \<noteq> (of_nat n :: ptraddr)" if "k < n" for k using that Suc.prems of_nat_eq_small [of k n] by simp
  ultimately show ?case using t(2,3) by (auto simp: less_Suc_eq)
qed

text \<open>Statements that leave the source as it is: stores into the other buffer, and the checks of the source.\<close>

lemma store_keeps:
  assumes "cap_addr d = src + 8192" "i < 4096"
  shows "keeps (source_intact src) [effect (kb_store (bounce_kernel bounce buf) d i b)]"
proof (rule keeps_one)
  fix s assume s: "source_intact src s"
  have "src + of_nat k \<noteq> cap_addr d + of_nat i" if "k < 4096" for k
    using that assms of_nat_eq_small [of k "8192 + i"] by (simp add: add.assoc)
  then show "\<exists>s'. effect (kb_store (bounce_kernel bounce buf) d i b) s = (Return (), s') \<and> source_intact src s'"
    using s by (simp add: store_run source_intact_def)
qed

lemma keeps_step: "keeps P [p] \<Longrightarrow> keeps P (q # ps) \<Longrightarrow> keeps P (p # q # ps)"
  by (rule keeps_Cons)

lemma spoilbuf_keeps:
  assumes "cap_addr d = src + 8192" "n \<le> 4096"
  shows "keeps (source_intact src) [spoilbuf (bounce_kernel bounce buf) d n]"
proof -
  let ?kb = "bounce_kernel bounce buf"
  have st: "keeps (source_intact src) [effect (kb_store ?kb d i b)]" if "i \<in> set [0..<n]" for i b
    using store_keeps [OF assms(1), of i] that assms(2) by simp
  have "keeps (source_intact src) [bindP (get_char ?kb d i) (\<lambda>b. effect (kb_store ?kb d i (NOT b)))]" if "i \<in> set [0..<n]" for i
    using st [OF that] by (simp add: keeps_def fetch_run)
  then have "keeps (source_intact src) (map (\<lambda>i. bindP (get_char ?kb d i) (\<lambda>b. effect (kb_store ?kb d i (NOT b)))) [0..<n])"
    by (rule keeps_map)
  moreover have "keeps (source_intact src) [fillbuf ?kb d n]" unfolding fillbuf_def by (intro keeps_block keeps_map st)
  ultimately show ?thesis unfolding spoilbuf_def by (rule keeps_block [OF keeps_Cons, rotated])
qed

lemma checkbuf_keeps:
  assumes "cap_addr c = src" "off + len \<le> 4096"
  shows "keeps (source_intact src) [checkbuf pl (bounce_kernel bounce buf) c off len m]"
  unfolding checkbuf_def
proof (intro keeps_block keeps_map keeps_one)
  fix i s assume "i \<in> set [off..<off + len]" "source_intact src s"
  then show "\<exists>s'. bindP (get_char (bounce_kernel bounce buf) c i) (\<lambda>b. fail_if pl (b \<noteq> of_nat i AND 0xFF) ''%s: buf[%zu] != 0x%02x (0x%02x)''
      [FStr m, FWord (of_nat i), FInt (sint (of_nat i AND 0xFF :: kb_byte)), FInt (sint b)]) s = (Return (), s') \<and> source_intact src s'"
    using assms by (simp add: fetch_run source_intact_def fail_if_def ret_def)
qed

lemma kbounce_keeps:
  assumes "\<And>a d n m k. k < 4096 \<Longrightarrow> bounce a d n m (src + of_nat k) = m (src + of_nat k)"
  shows "keeps (source_intact src) [bindP (raw_call (kb_kbounce (bounce_kernel bounce buf) c d n)) (\<lambda>r. if r = None then p else ret ())]"
  using assms by (intro keeps_one) (simp add: bind_raw_call bounce_kernel_sel ret_def source_intact_def)

lemma bounce_len_small:
  assumes "off < 16" "l \<in> set (bounce_lengths (bounce_kernel bounce buf))"
  shows "off + bounce_len (bounce_kernel bounce buf) off l \<le> 4096"
  using assms by (auto simp: bounce_lengths_def bounce_len_def bounce_kernel_sel)

text \<open>
  C32: \<^verbatim>\<open>sys_kbounce\<close> checks only the source buffer. So it succeeds on every system whose \<^verbatim>\<open>kbounce\<close> returns 0 and does
  not write into the source, whatever it does to the destination: also on one that copies nothing.
\<close>

theorem sys_kbounce_blind:
  assumes "\<And>s d n m k. k < 4096 \<Longrightarrow> bounce s d n m (cap_addr buf + 4096 + of_nat k) = m (cap_addr buf + 4096 + of_nat k)" "p_ccsp s \<noteq> None"
  shows "declares_success (sys_kbounce pl (bounce_kernel bounce buf)) s"
proof -
  let ?kb = "bounce_kernel bounce buf" and ?src = "cap_addr buf + 4096"
  let ?s = "cheri_offset_increment pl buf 4096"
  let ?d = "cheri_offset_increment pl ?s 8192"
  have addr: "cap_addr (cheri_offset_increment pl c i) = cap_addr c + i" for c i
    by (simp add: cheri_offset_increment_def cheri_address_set_def)
  obtain t where t: "fillbuf ?kb ?s 4096 s = (Return (), t)" "source_intact ?src t"
    using fillbuf_run [of 4096 s bounce buf ?s] assms(2) by (auto simp: source_intact_def addr)
  have d: "cap_addr ?d = ?src + 8192" and s: "cap_addr ?s = ?src" by (simp_all add: addr)
  have bounce_keeps: "keeps (source_intact ?src) [bindP (raw_call (kb_kbounce ?kb c d n)) (\<lambda>r. if r = None then p else ret ())]" for c d n p
    by (rule kbounce_keeps) (rule assms(1))
  have once: "keeps (source_intact ?src) [bounce_once pl ?kb ?s ?d off l]" if "off < 16" "l \<in> set (bounce_lengths ?kb)" for off l
    unfolding bounce_once_def Let_def bounce_kernel_sel(4)
    by (intro keeps_block keeps_step spoilbuf_keeps [OF d order_refl] checkbuf_keeps [OF s] bounce_keeps bounce_len_small that)
  let ?rest = "[checkbuf pl ?kb ?s 0 4096 ''src'', spoilbuf ?kb ?d 4096,
      bindP (raw_call (kb_kbounce ?kb ?s ?d 4096)) (\<lambda>r. if r = None
        then cheriostest_failure_err pl ''kbounce(%p, %p, %d, 0)'' [FPtr ?s, FPtr ?d, FInt (int (BUFLEN ?kb))] else ret ()),
      checkbuf pl ?kb ?s 0 4096 ''full buffer''] @
    map (\<lambda>off. block (map (bounce_once pl ?kb ?s ?d off) (bounce_lengths ?kb))) [0..<16]"
  have offs: "keeps (source_intact ?src) (map (\<lambda>off. block (map (bounce_once pl ?kb ?s ?d off) (bounce_lengths ?kb))) offs)"
    if "\<And>off. off \<in> set offs \<Longrightarrow> off < 16" for offs
    by (intro keeps_map keeps_block once that)
  have "keeps (source_intact ?src) (map (\<lambda>off. block (map (bounce_once pl ?kb ?s ?d off) (bounce_lengths ?kb))) [0..<16])"
    by (rule offs) (simp only: set_upt atLeastLessThan_iff)
  then have "keeps (source_intact ?src) ?rest"
    by (intro keeps_append keeps_step spoilbuf_keeps [OF d order_refl] checkbuf_keeps [OF s] bounce_keeps) simp_all
  then have "declares_success (block (?rest @ [cheriostest_success])) t"
    using t(2) by (rule keeps_success) (simp add: source_intact_def)
  then have "declares_success (block (fillbuf ?kb ?s 4096 # ?rest @ [cheriostest_success])) s"
    using t(1) by (simp add: declares_success_def block_step del: block.simps)
  moreover have "sys_kbounce pl ?kb s = block (fillbuf ?kb ?s 4096 # ?rest @ [cheriostest_success]) s"
    by (simp add: sys_kbounce_def bind_raw_call bounce_kernel_sel guard_region_def bindP_assoc Let_def)
  ultimately show ?thesis by (simp only: declares_success_def)
qed

definition bounce_buffer :: cap where
  "bounce_buffer = \<lparr>cap_tag = True, cap_addr = 0x40000, cap_base = 0x40000, cap_len = 0x5000, cap_perms = 0x30000, cap_otype = 0, cap_flags = 0\<rparr>"

theorem sys_kbounce_blind_witness:
  "declares_success (sys_kbounce morello_purecap (bounce_kernel (\<lambda>s d n m. m) bounce_buffer)) (fresh_process morello_purecap (\<lambda>_. 0))"
  by (rule sys_kbounce_blind) simp_all

end
