(* ===== verification/Small_Tests.thy ===== *)
theory Small_Tests
  imports Statements Cheriabi
begin

text \<open>
  The short test files: pipes and files that must not carry tags (\<^verbatim>\<open>cheriostest_ipc.c\<close>, \<^verbatim>\<open>cheriostest_fs.c\<close>), capabilities that may be
  stored only through some others (\<^verbatim>\<open>cheriostest_local_global.c\<close>), captured flags, compartment identifiers, sentries, the bounds of
  compartments, and the ways to start a copy of the program (\<^verbatim>\<open>cheriostest_internal.c\<close>).
\<close>

section \<open>Pipes and files\<close>

text \<open>
  \<open>xf_store\<close> and \<open>xf_load\<close> are for the first capability of a buffer; \<open>xf_block_write\<close> is the write that should block, which gives \<open>Inl\<close>
  when a signal ends it; \<^verbatim>\<open>&c\<close> and \<^verbatim>\<open>&fd\<close> are the variables of the test.
\<close>

record 'k xf_env =
  xf_calloc :: "nat \<Rightarrow> 'k \<Rightarrow> cap \<times> 'k"
  xf_store :: "cap \<Rightarrow> cap \<Rightarrow> 'k \<Rightarrow> siginfo option \<times> 'k"
  xf_load :: "cap \<Rightarrow> 'k \<Rightarrow> (siginfo + cap) \<times> 'k"
  xf_zero :: "cap \<Rightarrow> nat \<Rightarrow> 'k \<Rightarrow> siginfo option \<times> 'k"
  xf_pipe :: "('k, int \<times> int) sys"
  xf_getpipe_sz :: "int \<Rightarrow> 'k \<Rightarrow> nat \<times> 'k"
  xf_alarm :: "nat \<Rightarrow> ('k, unit) sys"
  xf_block_write :: "int \<Rightarrow> cap \<Rightarrow> nat \<Rightarrow> 'k \<Rightarrow> (siginfo + (int + nat)) \<times> 'k"
  xf_write :: "int \<Rightarrow> cap \<Rightarrow> nat \<Rightarrow> ('k, nat) sys"
  xf_read :: "int \<Rightarrow> cap \<Rightarrow> nat \<Rightarrow> ('k, nat) sys"
  xf_pwrite :: "int \<Rightarrow> cap \<Rightarrow> nat \<Rightarrow> nat \<Rightarrow> ('k, nat) sys"
  xf_pread :: "int \<Rightarrow> cap \<Rightarrow> nat \<Rightarrow> nat \<Rightarrow> ('k, nat) sys"
  xf_close :: "int \<Rightarrow> ('k, unit) sys"
  xf_mkstemp :: "string \<Rightarrow> ('k, int \<times> string) sys"
  xf_unlink :: "string \<Rightarrow> ('k, unit) sys"
  xf_ftruncate :: "int \<Rightarrow> nat \<Rightarrow> ('k, unit) sys"
  xf_statfs_tmp :: "('k, bool) sys" \<comment> \<open>\<^verbatim>\<open>statfs("/tmp")\<close>: is it a \<^verbatim>\<open>tmpfs\<close>\<close>
  xf_pagesize :: nat
  xf_stack_buffer :: cap
  xf_c :: cap \<comment> \<open>\<^verbatim>\<open>&c\<close>\<close>
  xf_d :: cap
  xf_fd :: cap \<comment> \<open>\<^verbatim>\<open>&fd\<close>\<close>

definition xf_get :: "'k xf_env \<Rightarrow> cap \<Rightarrow> ('k, cap) prog" where
  "xf_get xf p = (\<lambda>s. case xf_load xf p (p_world s) of
       (Inl sig, w) \<Rightarrow> (Trapped sig, s\<lparr>p_world := w\<rparr>)
     | (Inr c, w) \<Rightarrow> (Return c, s\<lparr>p_world := w\<rparr>))"

definition blocking :: "platform \<Rightarrow> ('k \<Rightarrow> (siginfo + (int + nat)) \<times> 'k) \<Rightarrow> string \<Rightarrow> ('k, nat) prog" where
  "blocking pl call msg = (\<lambda>s. case call (p_world s) of
       (Inl sig, w) \<Rightarrow> (Trapped sig, s\<lparr>p_world := w\<rparr>)
     | (Inr r, w) \<Rightarrow> CHERIOSTEST_CHECK_SYSCALL pl (\<lambda>w. (r, w)) msg (s\<lparr>p_world := w\<rparr>))"

definition ipc_pipe_sleep_signal :: "platform \<Rightarrow> 'k xf_env \<Rightarrow> ('k, unit) prog" where
  "ipc_pipe_sleep_signal pl xf =
     bindP (CHERIOSTEST_CHECK_SYSCALL pl (xf_pipe xf) ''pipe(fds)'') (\<lambda>(fd0, fd1).
     bindP (if is_FreeBSD pl then bindP (effect (xf_zero xf (xf_stack_buffer xf) 8192)) (\<lambda>_. ret (xf_stack_buffer xf, 8192))
            else bindP (observe (xf_getpipe_sz xf fd1)) (\<lambda>n. bindP (observe (xf_calloc xf (n * 2))) (\<lambda>buffer. ret (buffer, n * 2))))
       (\<lambda>(buffer, buffer_size).
     bindP (effect (xf_store xf buffer buffer)) (\<lambda>_.
     bindP (CHERIOSTEST_CHECK_SYSCALL pl (xf_alarm xf 1) ''alarm(1)'') (\<lambda>_.
     bindP (if is_FreeBSD pl then blocking pl (xf_block_write xf fd0 buffer buffer_size) ''write(fds[0], buffer, sizeof(buffer))''
            else blocking pl (xf_block_write xf fd1 buffer buffer_size) ''write(fds[1], buffer, buffer_size)'') (\<lambda>_.
     bindP (raw_call (xf_close xf fd0)) (\<lambda>_.
     bindP (raw_call (xf_close xf fd1)) (\<lambda>_. cheriostest_failure_errx pl (''write didn'' @ [CHR 0x27] @ ''t block'') [])))))))"

definition ipc_pipe_nocaps :: "platform \<Rightarrow> 'k xf_env \<Rightarrow> ('k, unit) prog" where
  "ipc_pipe_nocaps pl xf =
     (let len = xf_pagesize xf in
      bindP (observe (xf_calloc xf len)) (\<lambda>buffer.
      bindP (observe (xf_calloc xf len)) (\<lambda>buffer2.
      bindP (effect (xf_store xf buffer buffer)) (\<lambda>_.
      bindP (bindP (xf_get xf buffer) (\<lambda>c. CHERIOSTEST_VERIFY2 pl (cheri_tag_get c) ''pretest: tag missing'' [])) (\<lambda>_.
      bindP (CHERIOSTEST_CHECK_SYSCALL pl (xf_pipe xf) ''pipe(fds)'') (\<lambda>(fd0, fd1).
      bindP (CHERIOSTEST_CHECK_SYSCALL pl (xf_write xf fd1 buffer len) ''write(fds[1], buffer, len)'') (\<lambda>rv.
      bindP (CHERIOSTEST_CHECK_EQ_SIZE pl rv len ''rv'' ''len'') (\<lambda>_.
      bindP (CHERIOSTEST_CHECK_SYSCALL pl (xf_read xf fd0 buffer2 len) ''read(fds[0], buffer2, len)'') (\<lambda>rv. block
       [CHERIOSTEST_CHECK_EQ_SIZE pl rv len ''rv'' ''len'',
        bindP (xf_get xf buffer) (\<lambda>c. CHERIOSTEST_VERIFY2 pl (cheri_tag_get c) ''posttest: source tag missing'' []),
        bindP (xf_get xf buffer2) (\<lambda>c. CHERIOSTEST_VERIFY2 pl (\<not> cheri_tag_get c) ''posttest: destination tag present'' []),
        bindP (xf_get xf buffer) (\<lambda>c. bindP (xf_get xf buffer2) (\<lambda>d.
          CHERIOSTEST_VERIFY2 pl (cheri_is_equal_exact (cheri_tag_clear c) d) ''untagged value not copied'' [])),
        CHERIOSTEST_CHECK_SYSCALL pl (xf_close xf fd0) ''close(fds[0])'',
        CHERIOSTEST_CHECK_SYSCALL pl (xf_close xf fd1) ''close(fds[1])'',
        cheriostest_success])))))))))"

definition skip_non_tmpfs_tmp :: "'k xf_env \<Rightarrow> 'k \<Rightarrow> string option \<times> 'k" where
  "skip_non_tmpfs_tmp xf w = (case xf_statfs_tmp xf w of
       (Inl e, w) \<Rightarrow> (Some ''unable to query statfs for /tmp'', w)
     | (Inr tmpfs, w) \<Rightarrow> (if tmpfs then None else Some ''/tmp is not using tmpfs'', w))"

definition fs_create_tempfile :: "platform \<Rightarrow> 'k xf_env \<Rightarrow> ('k, int) prog" where
  "fs_create_tempfile pl xf =
     bindP (CHERIOSTEST_CHECK_SYSCALL pl (xf_mkstemp xf ''/tmp/cheriostest.XXXXXXXX'') ''mkstemp'') (\<lambda>(fd, template).
     bindP (CHERIOSTEST_CHECK_SYSCALL pl (xf_unlink xf template) ''unlink(template)'') (\<lambda>_.
     bindP (CHERIOSTEST_CHECK_SYSCALL pl (xf_ftruncate xf fd (xf_pagesize xf)) ''ftruncate(fd, getpagesize())'') (\<lambda>_. ret fd)))"

definition tmpfs_rw_nocaps :: "platform \<Rightarrow> 'k xf_env \<Rightarrow> ('k, unit) prog" where
  "tmpfs_rw_nocaps pl xf =
     bindP (fs_create_tempfile pl xf) (\<lambda>fd.
     bindP (effect (xf_store xf (xf_c xf) (xf_fd xf))) (\<lambda>_.
     bindP (bindP (xf_get xf (xf_c xf)) (\<lambda>c. CHERIOSTEST_VERIFY2 pl (cheri_tag_get c) ''tag set on source'' [])) (\<lambda>_.
     bindP (CHERIOSTEST_CHECK_SYSCALL pl (xf_pwrite xf fd (xf_c xf) 16 0) ''pwrite(fd, &c, sizeof(c), 0)'') (\<lambda>rv.
     bindP (CHERIOSTEST_CHECK_EQ_SIZE pl rv 16 ''rv'' ''sizeof(c)'') (\<lambda>_.
     bindP (CHERIOSTEST_CHECK_SYSCALL pl (xf_pread xf fd (xf_d xf) 16 0) ''pread(fd, &d, sizeof(d), 0)'') (\<lambda>rv. block
      [CHERIOSTEST_CHECK_EQ_SIZE pl rv 16 ''rv'' ''sizeof(d)'',
       bindP (xf_get xf (xf_d xf)) (\<lambda>d. CHERIOSTEST_VERIFY2 pl (\<not> cheri_tag_get d) ''tag read'' []),
       bindP (xf_get xf (xf_c xf)) (\<lambda>c. bindP (xf_get xf (xf_d xf)) (\<lambda>d.
         CHERIOSTEST_VERIFY2 pl (cheri_is_equal_exact (cheri_tag_clear c) d) ''untagged value not read'' [])),
       CHERIOSTEST_CHECK_SYSCALL pl (xf_close xf fd) ''close(fd)'',
       cheriostest_success]))))))"

section \<open>Local capabilities\<close>

text \<open>
  \<open>lg_store\<close> stores a capability through another one; \<open>lg_text\<close> is what \<^verbatim>\<open>strcmp\<close> with \<^verbatim>\<open>"123"\<close> makes of a pointer: a signal, or whether
  they are equal.
\<close>

record 'k lg_env =
  lg_store :: "cap \<Rightarrow> cap \<Rightarrow> 'k \<Rightarrow> siginfo option \<times> 'k"
  lg_load :: "cap \<Rightarrow> 'k \<Rightarrow> (siginfo + cap) \<times> 'k"
  lg_text :: "cap \<Rightarrow> 'k \<Rightarrow> (siginfo + bool) \<times> 'k"
  lg_str :: cap \<comment> \<open>\<^verbatim>\<open>str\<close>\<close>
  lg_target :: cap \<comment> \<open>\<^verbatim>\<open>&target\<close>\<close>

definition skip_local_global_required :: "platform \<Rightarrow> string option" where
  "skip_local_global_required pl =
     (if pl_arch pl \<noteq> Morello \<and> \<not> pl_zcherilevels pl then Some ''zcherilevels required'' else None)"

definition lg_read :: "('k \<Rightarrow> (siginfo + 'a) \<times> 'k) \<Rightarrow> ('k, 'a) prog" where
  "lg_read f = (\<lambda>s. case f (p_world s) of
       (Inl sig, w) \<Rightarrow> (Trapped sig, s\<lparr>p_world := w\<rparr>)
     | (Inr x, w) \<Rightarrow> (Return x, s\<lparr>p_world := w\<rparr>))"

definition verify_str :: "platform \<Rightarrow> 'k lg_env \<Rightarrow> cap \<Rightarrow> string \<Rightarrow> ('k, unit) prog" where
  "verify_str pl lg c msg = bindP (lg_read (lg_text lg c)) (\<lambda>eq. CHERIOSTEST_VERIFY pl eq msg)"

definition verify_target :: "platform \<Rightarrow> 'k lg_env \<Rightarrow> ('k, unit) prog" where
  "verify_target pl lg = bindP (lg_read (lg_load lg (lg_target lg))) (\<lambda>c. verify_str pl lg c ''strcmp(STR_VAL, (__cheri_fromcap char *)target) == 0'')"

definition store_local_allowed :: "platform \<Rightarrow> 'k lg_env \<Rightarrow> ('k, unit) prog" where
  "store_local_allowed pl lg =
     (let cap = lg_str lg in block
      [verify_str pl lg (lg_str lg) ''strcmp(STR_VAL, str) == 0'',
       effect (lg_store lg (lg_target lg) cap),
       verify_target pl lg,
       effect (lg_store lg (lg_target lg) (cheri_perms_and pl cap (NOT (CHERI_PERM_GLOBAL pl)))),
       verify_target pl lg,
       cheriostest_success])"

definition store_local_disallowed :: "platform \<Rightarrow> 'k lg_env \<Rightarrow> ('k, unit) prog" where
  "store_local_disallowed pl lg =
     (let cap = lg_str lg; targetp = cheri_perms_and pl (lg_target lg) (NOT (CHERI_PERM_STORE_LOCAL_CAP pl)) in block (
      [verify_str pl lg (lg_str lg) ''strcmp(STR_VAL, str) == 0'',
       effect (lg_store lg (lg_target lg) cap),
       verify_target pl lg,
       effect (lg_store lg targetp (cheri_perms_and pl cap (NOT (CHERI_PERM_GLOBAL pl))))] @
      (if pl_zcherilevels pl
       then [bindP (lg_read (lg_load lg targetp)) (\<lambda>c. CHERIOSTEST_VERIFY pl (\<not> cheri_tag_get c) ''cheri_tag_get(*targetp) == 0''), cheriostest_success]
       else [cheriostest_failure_errx pl ''No fault after storing local cap via non-store-local cap'' []])))"

section \<open>Captured flags\<close>

record 'k fc_env =
  fc_get :: "('k, uintmax) sys" \<comment> \<open>\<^verbatim>\<open>security.flags_captured\<close>\<close>
  fc_get_key :: "('k, uintmax) sys" \<comment> \<open>\<^verbatim>\<open>security.flags_captured_key\<close>\<close>
  fc_call :: "cap \<Rightarrow> 32 word \<Rightarrow> ('k, unit) sys"
  fc_func :: cap \<comment> \<open>\<^verbatim>\<open>__func__\<close>\<close>
  fc_buf :: cap

definition CORRECT_KEY :: "32 word" where "CORRECT_KEY = 0xfe77c0de"
definition INCORRECT_KEY :: "32 word" where "INCORRECT_KEY = 0"

text \<open>\<^verbatim>\<open>if (\<dots> != 0) cheriostest_failure_err(\<dots>)\<close>.\<close>

definition or_err :: "platform \<Rightarrow> string \<Rightarrow> ('k, 'a) sys \<Rightarrow> ('k, 'a) prog" where
  "or_err pl msg call = bindP (raw_call call) (\<lambda>r. case r of None \<Rightarrow> cheriostest_failure_err pl msg [] | Some x \<Rightarrow> ret x)"

definition call_flag_captured :: "platform \<Rightarrow> 'k fc_env \<Rightarrow> cap \<Rightarrow> 32 word \<Rightarrow> ('k, unit) prog" where
  "call_flag_captured pl fc msg key =
     bindP (or_err pl ''sysctl(security.flags_captured)'' (fc_get fc)) (\<lambda>fc_old.
     bindP (or_err pl ''sysctl(security.flags_captured_key)'' (fc_get_key fc)) (\<lambda>fck_old.
     bindP (or_err pl ''call failed'' (fc_call fc msg key)) (\<lambda>_.
     bindP (or_err pl ''sysctl(security.flags_captured)'' (fc_get fc)) (\<lambda>fc_new.
     bindP (fail_if pl (fc_new \<noteq> fc_old + 1) ''security.flags_captured not incremented'' []) (\<lambda>_.
     bindP (or_err pl ''sysctl(security.flags_captured_key)'' (fc_get_key fc)) (\<lambda>fck_new. block
      [if key = CORRECT_KEY
       then fail_if pl (fck_new \<noteq> fck_old + 1) ''security.flags_captured_key not incremented with correct key'' []
       else fail_if pl (fck_new \<noteq> fck_old) ''security.flags_captured_key incremented with incorrect key'' [],
       cheriostest_success]))))))"

definition flag_captured_message :: "platform \<Rightarrow> 'k fc_env \<Rightarrow> ('k, unit) prog" where
  "flag_captured_message pl fc = call_flag_captured pl fc (fc_func fc) CORRECT_KEY"

definition flag_captured_incorrect_key :: "platform \<Rightarrow> 'k fc_env \<Rightarrow> ('k, unit) prog" where
  "flag_captured_incorrect_key pl fc = call_flag_captured pl fc (fc_func fc) INCORRECT_KEY"

definition flag_captured_null :: "platform \<Rightarrow> 'k fc_env \<Rightarrow> ('k, unit) prog" where
  "flag_captured_null pl fc = call_flag_captured pl fc (cap_null pl) CORRECT_KEY"

definition flag_captured_empty :: "platform \<Rightarrow> 'k fc_env \<Rightarrow> ('k, unit) prog" where
  "flag_captured_empty pl fc = call_flag_captured pl fc (cheri_bounds_set pl (fc_buf fc) 0) CORRECT_KEY"

section \<open>Compartments\<close>

definition assert_disjoint_bounds :: "platform \<Rightarrow> cap \<Rightarrow> cap \<Rightarrow> string \<Rightarrow> string \<Rightarrow> ('k, unit) prog" where
  "assert_disjoint_bounds pl one two label_one label_two = CHERIOSTEST_VERIFY2 pl
     (\<not> cheritest_cheri_is_address_inbounds one (cheri_base_get two) \<and> \<not> cheritest_cheri_is_address_inbounds two (cheri_base_get one))
     ''%#p (%s) and %#p (%s) overlap'' [FPtr one, FStr label_one, FPtr two, FStr label_two]"

text \<open>The three functions are those of two compartments and of the test itself.\<close>

definition compartment_pcc_bounds :: "platform \<Rightarrow> cap \<Rightarrow> cap \<Rightarrow> cap \<Rightarrow> ('k, unit) prog" where
  "compartment_pcc_bounds pl one two self = block (
     only_if (is_linux pl) [cheriostest_failure_errx pl ''Compartmentalisation is not supported by Linux'' []] @
     [assert_disjoint_bounds pl one two ''compartment_one_foo'' ''compartment_two_foo'',
      assert_disjoint_bounds pl one self ''compartment_one_foo'' ''compartment_pcc_bounds'',
      assert_disjoint_bounds pl two self ''compartment_two_foo'' ''compartment_pcc_bounds'',
      cheriostest_success])"

section \<open>Compartment identifiers\<close>

record cid_consts =
  CHERI_COMPARTMENT_ID_USERSPACE_PERMS :: uintmax
  CHERI_COMPARTMENT_ID_USERSPACE_BASE :: uintmax
  CHERI_COMPARTMENT_ID_USERSPACE_LENGTH :: uintmax
  CHERI_COMPARTMENT_ID_USERSPACE_OFFSET :: uintmax

definition check_cidcap :: "platform \<Rightarrow> cid_consts \<Rightarrow> cap \<Rightarrow> uintmax \<Rightarrow> uintmax \<Rightarrow> uintmax \<Rightarrow> ('k, unit) prog" where
  "check_cidcap pl cc cidcap bs len offset =
     (let expect = \<lambda>v x m. fail_if pl (v \<noteq> x) m [FWord v, FWord x]; bool = \<lambda>b. of_bool b :: uintmax in block (
      only_if (bs \<noteq> - 1) [expect (cheri_base_get cidcap) bs ''base %jx (expected %jx)''] @
      [expect (cheri_length_get cidcap) len ''length 0x%jx (expected 0x%jx)'',
       expect (cheri_offset_get cidcap) offset ''offset %jx (expected %jx)'',
       expect (cheri_type_get cidcap) (CHERI_OTYPE_UNSEALED pl) ''otype %jx (expected %jx)'',
       expect (cheri_perms_get cidcap) (CHERI_COMPARTMENT_ID_USERSPACE_PERMS cc) ''perms %jx (expected %jx)'',
       fail_if pl (bool (cheri_is_sealed pl cidcap) \<noteq> 0) ''sealed %jx (expected 0)'' [FWord (bool (cheri_is_sealed pl cidcap))],
       fail_if pl (bool (cheri_tag_get cidcap) \<noteq> 1) ''tag %jx (expected 1)'' [FWord (bool (cheri_tag_get cidcap))]]))"

definition get_cidcap_sysctl :: "platform \<Rightarrow> ('k, cap) sys \<Rightarrow> ('k, cap) prog" where
  "get_cidcap_sysctl pl sysctl = CHERIOSTEST_CHECK_SYSCALL pl sysctl ''sysctlbyname(security.cheri.cidcap, &cidcap, &cidcap_size, NULL, 0)''"

definition cidcap_sysctl :: "platform \<Rightarrow> cid_consts \<Rightarrow> ('k, cap) sys \<Rightarrow> ('k, unit) prog" where
  "cidcap_sysctl pl cc sysctl = bindP (get_cidcap_sysctl pl sysctl) (\<lambda>cidcap. block
     [check_cidcap pl cc cidcap (CHERI_COMPARTMENT_ID_USERSPACE_BASE cc) (CHERI_COMPARTMENT_ID_USERSPACE_LENGTH cc) (CHERI_COMPARTMENT_ID_USERSPACE_OFFSET cc),
      cheriostest_success])"

text \<open>\<^verbatim>\<open>cidcap1 != cidcap2\<close> compares addresses.\<close>

definition cidcap_alloc :: "platform \<Rightarrow> cid_consts \<Rightarrow> ('k, cap) sys \<Rightarrow> ('k, unit) prog" where
  "cidcap_alloc pl cc alloc =
     (if is_linux pl then cheriostest_failure_errx pl ''Linux on Morello does not use compartment IDs'' []
      else
        bindP (CHERIOSTEST_CHECK_SYSCALL pl alloc ''cheri_cidcap_alloc(&cidcap1)'') (\<lambda>cidcap1.
        bindP (check_cidcap pl cc cidcap1 1 1 0) (\<lambda>_.
        bindP (CHERIOSTEST_CHECK_SYSCALL pl alloc ''cheri_cidcap_alloc(&cidcap2)'') (\<lambda>cidcap2. block
         [check_cidcap pl cc cidcap2 2 1 0,
          CHERIOSTEST_VERIFY pl (cap_addr cidcap1 \<noteq> cap_addr cidcap2) ''cidcap1 != cidcap2'',
          cheriostest_success]))))"

section \<open>Sentries\<close>

definition check_fptr :: "platform \<Rightarrow> cap \<Rightarrow> ('k, unit) prog" where
  "check_fptr pl fptr =
     (let perms = cheri_perms_get fptr in block (
      [CHERIOSTEST_VERIFY pl (cheri_tag_get fptr) ''cheri_tag_get((void * )fptr)'',
       CHERIOSTEST_VERIFY2 pl (perms AND CHERI_PERM_EXECUTE pl = CHERI_PERM_EXECUTE pl) ''perms %jx (execute missing)'' [FWord perms],
       CHERIOSTEST_VERIFY2 pl (perms AND CHERI_PERM_STORE pl = 0) ''perms %jx (store present)'' [FWord perms]] @
      only_if (HAS_CHERI_PERM_LOAD_STORE_CAP pl) [CHERIOSTEST_VERIFY2 pl (perms AND CHERI_PERM_STORE_CAP pl = 0) ''perms %jx (storecap present)'' [FWord perms]] @
      only_if (HAS_CHERI_PERM_CAP pl) [CHERIOSTEST_VERIFY2 pl (perms AND CHERI_PERM_CAP pl \<noteq> 0) ''perms %jx (cap present)'' [FWord perms]] @
      [CHERIOSTEST_VERIFY2 pl (perms AND CHERI_PERM_STORE_LOCAL_CAP pl = 0) ''perms %jx (store_local_cap present)'' [FWord perms],
       CHERIOSTEST_VERIFY2 pl (cheri_type_get fptr = CHERI_OTYPE_SENTRY pl) ''otype %jx (expected %jx)'' [FWord (cheri_type_get fptr), FWord (CHERI_OTYPE_SENTRY pl)],
       cheriostest_success]))"

definition otype_sentry_definition :: "platform \<Rightarrow> ('k, unit) prog" where
  "otype_sentry_definition pl = block
     [CHERIOSTEST_VERIFY2 pl (CHERI_OTYPE_SENTRY pl = 1) ''CHERI_OTYPE_SENTRY is not 1'' [], cheriostest_success]"

text \<open>The library and the name of the function, and what \<^verbatim>\<open>dlerror\<close> says when the library does not open.\<close>

definition sentry_dlsym :: "platform \<Rightarrow> string \<Rightarrow> (string \<Rightarrow> 'k \<Rightarrow> (string + cap) \<times> 'k) \<Rightarrow> (cap \<Rightarrow> string \<Rightarrow> ('k, cap) sys) \<Rightarrow> ('k, unit) prog" where
  "sentry_dlsym pl libm_so dlopen dlsym =
     (let lib_so = (if is_FreeBSD pl then libm_so else ''/lib/libxo.so''); name = (if is_FreeBSD pl then ''acos'' else ''xo_write'') in
      bindP (observe (dlopen lib_so)) (\<lambda>r. case r of
        Inl dlerror \<Rightarrow> cheriostest_failure_errx pl ''dlopen(%s) %s'' [FStr lib_so, FStr dlerror]
      | Inr handle \<Rightarrow> bindP (or_err pl (''dlsym('' @ name @ '')'') (dlsym handle name)) (check_fptr pl)))"

definition sentry_libc :: "platform \<Rightarrow> cap \<Rightarrow> ('k, unit) prog" where
  "sentry_libc pl fptr_sleep = check_fptr pl fptr_sleep"

definition sentry_static :: "platform \<Rightarrow> cap \<Rightarrow> ('k, unit) prog" where
  "sentry_static pl static_fptr = check_fptr pl static_fptr"

section \<open>Copies of the program\<close>

definition exec_child_cf :: "platform \<Rightarrow> opts \<Rightarrow> ('k, unit) prog" where
  "exec_child_cf pl opt = block (only_if (verbose opt > 0) [notice pl ''in child function'' []] @ [leave 0])"

text \<open>The four tests differ in the way the copy is started; the one with \<^verbatim>\<open>rfork\<close> is for CheriBSD.\<close>

definition internal_spawn_child :: "platform \<Rightarrow> 'k abi_env \<Rightarrow> string \<Rightarrow> spawn_child_mode \<Rightarrow> ('k, unit) prog" where
  "internal_spawn_child pl ae name mode =
     bindP (from_c (cheriostest_spawn_child pl (ae_exec ae) (ae_spawn ae) (ae_opts ae) name mode)) (\<lambda>sp. case sp of
       InChildExec path args envv \<Rightarrow> ae_execve ae path args envv
     | InParent pid \<Rightarrow> block
        [CHERIOSTEST_VERIFY2 pl (pid > 0) ''spawning child process failed'' [],
         fail_if pl (ae_waitpid ae pid \<noteq> 0) ''Bad child process exit'' [],
         cheriostest_success])"

definition internal_spawn_child_posix_spawn :: "platform \<Rightarrow> 'k abi_env \<Rightarrow> ('k, unit) prog" where
  "internal_spawn_child_posix_spawn pl ae = internal_spawn_child pl ae ''internal_spawn_child_posix_spawn'' SC_MODE_POSIX_SPAWN"

definition internal_spawn_child_fork :: "platform \<Rightarrow> 'k abi_env \<Rightarrow> ('k, unit) prog" where
  "internal_spawn_child_fork pl ae = internal_spawn_child pl ae ''internal_spawn_child_fork'' SC_MODE_FORK"

definition internal_spawn_child_rfork :: "platform \<Rightarrow> 'k abi_env \<Rightarrow> ('k, unit) prog" where
  "internal_spawn_child_rfork pl ae = internal_spawn_child pl ae ''internal_spawn_child_rfork'' SC_MODE_RFORK"

definition internal_spawn_child_vfork :: "platform \<Rightarrow> 'k abi_env \<Rightarrow> ('k, unit) prog" where
  "internal_spawn_child_vfork pl ae = internal_spawn_child pl ae ''internal_spawn_child_vfork'' SC_MODE_VFORK"

end
