(* ===== verification/Small_Proofs.thy ===== *)
theory Small_Proofs
  imports Small_Tests Instances
begin

text \<open>What the short tests decide: pipes and files, captured flags, identifiers of compartments, sentries and disjoint bounds.\<close>

section \<open>Pipes and files\<close>

text \<open>
  A memory with a capability at every address, a pipe and a file of one element, and a system that makes \<open>carry c\<close> of a capability on
  the way through.
\<close>

record xf_world =
  xw_cells :: "ptraddr \<Rightarrow> cap"
  xw_next :: ptraddr
  xw_held :: cap

definition xf_obj :: "ptraddr \<Rightarrow> cap" where
  "xf_obj a = \<lparr>cap_tag = True, cap_addr = a, cap_base = a, cap_len = 4096, cap_perms = 0x3F000, cap_otype = 0, cap_flags = 0\<rparr>"

definition carrying :: "(cap \<Rightarrow> cap) \<Rightarrow> xf_world xf_env" where
  "carrying carry =
     \<lparr>xf_calloc = (\<lambda>n w. (xf_obj (xw_next w), w\<lparr>xw_next := xw_next w + 4096\<rparr>)),
      xf_store = (\<lambda>p c w. (None, w\<lparr>xw_cells := (xw_cells w)(cap_addr p := c)\<rparr>)), xf_load = (\<lambda>p w. (Inr (xw_cells w (cap_addr p)), w)),
      xf_zero = (\<lambda>p n w. (None, w)), xf_pipe = (\<lambda>w. (Inr (3, 4), w)), xf_getpipe_sz = (\<lambda>fd w. (65536, w)), xf_alarm = (\<lambda>n w. (Inr (), w)),
      xf_block_write = (\<lambda>fd p n w. (Inr (Inr n), w)),
      xf_write = (\<lambda>fd p n w. (Inr n, w\<lparr>xw_held := xw_cells w (cap_addr p)\<rparr>)),
      xf_read = (\<lambda>fd p n w. (Inr n, w\<lparr>xw_cells := (xw_cells w)(cap_addr p := carry (xw_held w))\<rparr>)),
      xf_pwrite = (\<lambda>fd p n off w. (Inr n, w\<lparr>xw_held := xw_cells w (cap_addr p)\<rparr>)),
      xf_pread = (\<lambda>fd p n off w. (Inr n, w\<lparr>xw_cells := (xw_cells w)(cap_addr p := carry (xw_held w))\<rparr>)),
      xf_close = (\<lambda>fd w. (Inr (), w)), xf_mkstemp = (\<lambda>t w. (Inr (5, t), w)), xf_unlink = (\<lambda>n w. (Inr (), w)), xf_ftruncate = (\<lambda>fd n w. (Inr (), w)),
      xf_statfs_tmp = (\<lambda>w. (Inr True, w)), xf_pagesize = 4096, xf_stack_buffer = xf_obj 0x1000, xf_c = xf_obj 0x2000, xf_d = xf_obj 0x3000, xf_fd = xf_obj 0x4000\<rparr>"

lemma success_xf_get:
  "declares_success (bindP (xf_get (carrying carry) p) f) s \<longleftrightarrow> declares_success (f (xw_cells (p_world s) (cap_addr p))) s"
  by (simp add: declares_success_def bindP_def xf_get_def carrying_def)

lemma carrying_sel:
  "xf_calloc (carrying carry) n w = (xf_obj (xw_next w), w\<lparr>xw_next := xw_next w + 4096\<rparr>)"
  "xf_store (carrying carry) p c w = (None, w\<lparr>xw_cells := (xw_cells w)(cap_addr p := c)\<rparr>)"
  "xf_pipe (carrying carry) w = (Inr (3, 4), w)"
  "xf_write (carrying carry) fd p n w = (Inr n, w\<lparr>xw_held := xw_cells w (cap_addr p)\<rparr>)"
  "xf_read (carrying carry) fd p n w = (Inr n, w\<lparr>xw_cells := (xw_cells w)(cap_addr p := carry (xw_held w))\<rparr>)"
  "xf_pwrite (carrying carry) fd p n off w = (Inr n, w\<lparr>xw_held := xw_cells w (cap_addr p)\<rparr>)"
  "xf_pread (carrying carry) fd p n off w = (Inr n, w\<lparr>xw_cells := (xw_cells w)(cap_addr p := carry (xw_held w))\<rparr>)"
  "xf_close (carrying carry) fd w = (Inr (), w)" "xf_mkstemp (carrying carry) t w = (Inr (5, t), w)"
  "xf_unlink (carrying carry) t w = (Inr (), w)" "xf_ftruncate (carrying carry) fd n w = (Inr (), w)"
  "xf_pagesize (carrying carry) = 4096" "xf_c (carrying carry) = xf_obj 0x2000" "xf_d (carrying carry) = xf_obj 0x3000" "xf_fd (carrying carry) = xf_obj 0x4000"
  by (simp_all add: carrying_def)

lemma xf_obj_sel: "cap_addr (xf_obj a) = a" "cheri_tag_get (xf_obj a)"
  by (simp_all add: xf_obj_def cheri_tag_get_def)

text \<open>
  The tests of pipes and of files of \<^verbatim>\<open>tmpfs\<close> succeed exactly when what arrives of a capability is the capability without its tag:
  a tag that comes through is found, and so is a value that is not the one that was written.
\<close>

theorem nocaps_tests_verdict:
  assumes "p_ccsp s \<noteq> None"
  shows "(declares_success (ipc_pipe_nocaps pl (carrying carry)) s \<longleftrightarrow>
      carry (xf_obj (xw_next (p_world s))) = cheri_tag_clear (xf_obj (xw_next (p_world s)))) \<and>
    (declares_success (tmpfs_rw_nocaps pl (carrying carry)) s \<longleftrightarrow> carry (xf_obj 0x4000) = cheri_tag_clear (xf_obj 0x4000))"
proof -
  have untagged: "\<not> cheri_tag_get c \<and> cheri_tag_clear d = c \<longleftrightarrow> c = cheri_tag_clear d" for c d
    by (auto simp: cheri_tag_get_def cheri_tag_clear_def)
  have apart: "a \<noteq> a + 4096" for a :: ptraddr by simp
  show ?thesis
    using assms untagged [of "carry (xf_obj (xw_next (p_world s)))" "xf_obj (xw_next (p_world s))"] untagged [of "carry (xf_obj 0x4000)" "xf_obj 0x4000"]
    by (simp add: ipc_pipe_nocaps_def tmpfs_rw_nocaps_def fs_create_tempfile_def bindP_assoc success_xf_get carrying_sel xf_obj_sel declares_success_syscall
        cheri_is_equal_exact_def passes_simps Let_def)
qed

definition xf_start :: xf_world where
  "xf_start = \<lparr>xw_cells = (\<lambda>a. cap_null morello_purecap), xw_next = 0x10000, xw_held = cap_null morello_purecap\<rparr>"

theorem nocaps_tests_verdict_witness:
  "declares_success (ipc_pipe_nocaps morello_purecap (carrying cheri_tag_clear)) (fresh_process morello_purecap xf_start) \<and>
   \<not> declares_success (tmpfs_rw_nocaps morello_purecap (carrying (\<lambda>c. c))) (fresh_process morello_purecap xf_start)"
  using nocaps_tests_verdict [of "fresh_process morello_purecap xf_start" morello_purecap cheri_tag_clear]
    nocaps_tests_verdict [of "fresh_process morello_purecap xf_start" morello_purecap "\<lambda>c. c"]
  by (simp add: xf_obj_def cheri_tag_clear_def)

section \<open>Local capabilities\<close>

text \<open>
  A machine for the one variable of the test: \<open>store_rule\<close> says for the capability that is stored through and the one that is stored
  whether the processor traps, or what arrives.
\<close>

definition one_cell :: "(cap \<Rightarrow> cap \<Rightarrow> siginfo + cap) \<Rightarrow> cap \<Rightarrow> cap \<Rightarrow> cap lg_env" where
  "one_cell store_rule str targetp =
     \<lparr>lg_store = (\<lambda>p c m. case store_rule p c of Inl sig \<Rightarrow> (Some sig, m) | Inr c' \<Rightarrow> (None, c')), lg_load = (\<lambda>p m. (Inr m, m)),
      lg_text = (\<lambda>c m. (Inr (cap_addr c = cap_addr str), m)), lg_str = str, lg_target = targetp\<rparr>"

text \<open>The rule of the architecture: a tagged local capability goes only through one that may store it.\<close>

definition local_rule :: "platform \<Rightarrow> siginfo \<Rightarrow> cap \<Rightarrow> cap \<Rightarrow> siginfo + cap" where
  "local_rule pl sig p c =
     (if cap_tag c \<and> cap_perms c AND CHERI_PERM_GLOBAL pl = 0 \<and> cap_perms p AND CHERI_PERM_STORE_LOCAL_CAP pl = 0
      then if pl_zcherilevels pl then Inr (cheri_tag_clear c) else Inl sig
      else Inr c)"

lemma cell_runs:
  "bindP (lg_read (lg_load (one_cell rule str targetp) p)) f s = f (p_world s) s"
  "bindP (lg_read (lg_text (one_cell rule str targetp) c)) g s = g (cap_addr c = cap_addr str) s"
  "bindP (effect (lg_store (one_cell rule str targetp) p c)) h s =
    (case rule p c of Inl sig \<Rightarrow> (Trapped sig, s) | Inr c' \<Rightarrow> h () (s\<lparr>p_world := c'\<rparr>))"
  by (simp_all add: bindP_def lg_read_def effect_def one_cell_def split: sum.splits)

lemma cell_store: "lg_store (one_cell rule str targetp) p c m = (case rule p c of Inl sig \<Rightarrow> (Some sig, m) | Inr c' \<Rightarrow> (None, c'))"
  by (simp add: one_cell_def)

lemma cell_success:
  "declares_success (bindP (lg_read (lg_load (one_cell rule str targetp) p)) f) s \<longleftrightarrow> declares_success (f (p_world s)) s"
  "declares_success (bindP (lg_read (lg_text (one_cell rule str targetp) c)) g) s \<longleftrightarrow> declares_success (g (cap_addr c = cap_addr str)) s"
  by (simp_all add: declares_success_def cell_runs split: sum.splits)

text \<open>
  With levels of locality in the processor the second test compares the tag; without them it ends in the signal of the processor. The first one
  succeeds when the variable may hold local capabilities.
\<close>

lemma store_local_verdicts:
  assumes "p_ccsp s \<noteq> None" "cap_tag str" "\<not> cheri_is_sealed pl str" "cap_perms str AND CHERI_PERM_GLOBAL pl \<noteq> 0"
    and "cap_perms targetp AND CHERI_PERM_STORE_LOCAL_CAP pl \<noteq> 0" "lg = one_cell (local_rule pl sig) str targetp"
  shows "declares_success (store_local_allowed pl lg) s"
    "if pl_zcherilevels pl then declares_success (store_local_disallowed pl lg) s
     else fst (store_local_disallowed pl lg s) = Trapped sig"
proof -
  have sel: "lg_str lg = str" "lg_target lg = targetp" by (simp_all add: assms(6) one_cell_def)
  have gone: "(x AND NOT m) AND m = 0" for x m :: uintmax by (simp add: and.assoc)
  show "declares_success (store_local_allowed pl lg) s"
    using assms(1,2,5) unfolding store_local_allowed_def verify_str_def verify_target_def sel unfolding assms(6)
    by (simp add: bindP_assoc cell_success cell_store local_rule_def passes_simps cheri_perms_and_def Let_def)
  show "if pl_zcherilevels pl then declares_success (store_local_disallowed pl lg) s
     else fst (store_local_disallowed pl lg s) = Trapped sig"
    using assms(1-5) unfolding store_local_disallowed_def verify_str_def verify_target_def sel unfolding assms(6)
    by (simp add: bindP_assoc cell_success cell_store cell_runs local_rule_def passes_simps cheri_perms_and_def cheri_tag_clear_def cheri_tag_get_def gone Let_def
        bindP_VERIFY)
qed

section \<open>Captured flags\<close>

text \<open>A kernel with two 64-bit counters; \<open>keyed\<close> says which keys are taken for right.\<close>

definition counting :: "(32 word \<Rightarrow> bool) \<Rightarrow> cap \<Rightarrow> (uintmax \<times> uintmax) fc_env" where
  "counting keyed c =
     \<lparr>fc_get = (\<lambda>(n, k). (Inr n, (n, k))), fc_get_key = (\<lambda>(n, k). (Inr k, (n, k))),
      fc_call = (\<lambda>msg key (n, k). (Inr (), (n + 1, if keyed key then k + 1 else k))), fc_func = c, fc_buf = c\<rparr>"

lemma success_or_err:
  "declares_success (bindP (or_err pl m call) f) s \<longleftrightarrow>
    (case call (p_world s) of (Inl e, w) \<Rightarrow> False | (Inr x, w) \<Rightarrow> declares_success (f x) (s\<lparr>p_world := w\<rparr>))"
  by (simp add: or_err_def bindP_assoc success_raw_call split: prod.splits sum.splits)

lemma counting_sel:
  "fc_get (counting keyed c) w = (Inr (fst w), w)" "fc_get_key (counting keyed c) w = (Inr (snd w), w)"
  "fc_call (counting keyed c) msg key w = (Inr (), (fst w + 1, if keyed key then snd w + 1 else snd w))"
  by (simp_all add: counting_def split: prod.splits)

text \<open>From every state of the counters, also where they wrap round: the tests see whether exactly the right key counts.\<close>

lemma flag_captured_verdicts:
  assumes "p_ccsp s \<noteq> None"
  shows "declares_success (call_flag_captured pl (counting keyed c) msg key) s \<longleftrightarrow> (keyed key \<longleftrightarrow> key = CORRECT_KEY)"
  using assms by (auto simp: call_flag_captured_def success_or_err counting_sel passes_simps bindP_assoc)

section \<open>Bounds of compartments\<close>

definition cap_range :: "cap \<Rightarrow> nat set" where
  "cap_range c = {unat (cap_base c)..<cap_top c}"

lemma inbounds_range:
  assumes "cap_top c < 2 ^ 64"
  shows "cheritest_cheri_is_address_inbounds c a \<longleftrightarrow> unat a \<in> cap_range c"
proof -
  have "cap_len c < 2 ^ 64" using assms by (simp add: cap_top_def)
  then have "unat (cheri_base_get c + cheri_length_get c) = cap_top c"
    using assms by (simp add: cheri_base_get_def cheri_length_get_def cap_top_def unat_word_ariths unat_of_nat)
  then show ?thesis
    by (simp add: cheritest_cheri_is_address_inbounds_def cap_range_def cheri_base_get_def word_le_nat_alt word_less_nat_alt)
qed

text \<open>
  C36: The comparison of two compartments by their bases is a test of disjointness: for bounds that are not empty and end below the top of
  the address space it lets through exactly the pairs without a common address, so \<^verbatim>\<open>compartment_pcc_bounds\<close> succeeds on CheriBSD iff the
  bounds of the three functions are pairwise disjoint; on Linux it always fails.
\<close>

theorem compartment_bounds_iff:
  assumes "p_ccsp s \<noteq> None" "cap_top one < 2 ^ 64" "cap_top two < 2 ^ 64" "cap_top self < 2 ^ 64"
    and "0 < cap_len one" "0 < cap_len two" "0 < cap_len self"
  shows "declares_success (compartment_pcc_bounds pl one two self) s \<longleftrightarrow> is_FreeBSD pl \<and>
    cap_range one \<inter> cap_range two = {} \<and> cap_range one \<inter> cap_range self = {} \<and> cap_range two \<inter> cap_range self = {}"
proof -
  have disjoint: "\<not> cheritest_cheri_is_address_inbounds c (cheri_base_get d) \<and> \<not> cheritest_cheri_is_address_inbounds d (cheri_base_get c) \<longleftrightarrow>
      cap_range c \<inter> cap_range d = {}" if "cap_top c < 2 ^ 64" "cap_top d < 2 ^ 64" "0 < cap_len c" "0 < cap_len d" for c d
    unfolding inbounds_range [OF that(1)] inbounds_range [OF that(2)] using that(3,4)
    by (auto simp: cap_range_def cap_top_def cheri_base_get_def disjoint_iff not_less not_le)
  show ?thesis
    using assms(1) disjoint [OF assms(2,3,5,6)] disjoint [OF assms(2,4,5,7)] disjoint [OF assms(3,4,6,7)]
    by (cases "is_linux pl") (auto simp: compartment_pcc_bounds_def assert_disjoint_bounds_def passes_simps is_FreeBSD_def is_linux_def)
qed

definition code_region :: "ptraddr \<Rightarrow> nat \<Rightarrow> cap" where
  "code_region a n = \<lparr>cap_tag = True, cap_addr = a, cap_base = a, cap_len = n, cap_perms = 0x28000, cap_otype = 1, cap_flags = 0\<rparr>"

theorem compartment_bounds_iff_witness:
  "declares_success (compartment_pcc_bounds morello_purecap (code_region 0x1000 0x100) (code_region 0x1100 0x80) (code_region 0x2000 0x400))
     (fresh_process morello_purecap ()) \<and>
   \<not> declares_success (compartment_pcc_bounds morello_purecap (code_region 0x1000 0x101) (code_region 0x1100 0x80) (code_region 0x2000 0x400))
     (fresh_process morello_purecap ())"
proof -
  have fb: "is_FreeBSD morello_purecap" by (simp add: is_FreeBSD_def morello_purecap_def)
  have range: "cap_range (code_region a n) = {unat a..<unat a + n}" "cap_top (code_region a n) = unat a + n" "cap_len (code_region a n) = n" for a n
    by (simp_all add: cap_range_def code_region_def cap_top_def)
  have "4352 \<in> {0x1000..<0x1000 + 0x101 :: nat} \<inter> {0x1100..<0x1100 + 0x80}" by simp
  then have "{0x1000..<0x1000 + 0x101 :: nat} \<inter> {0x1100..<0x1100 + 0x80} \<noteq> {}" by blast
  then show ?thesis
    using compartment_bounds_iff [of "fresh_process morello_purecap ()" "code_region 0x1000 0x100" "code_region 0x1100 0x80" "code_region 0x2000 0x400" morello_purecap]
      compartment_bounds_iff [of "fresh_process morello_purecap ()" "code_region 0x1000 0x101" "code_region 0x1100 0x80" "code_region 0x2000 0x400" morello_purecap] fb
    by (simp add: range)
qed

section \<open>Compartment identifiers\<close>

text \<open>A kernel that numbers the identifiers from a counter, in capabilities of one element.\<close>

definition cid_cap :: "platform \<Rightarrow> cid_consts \<Rightarrow> uintmax \<Rightarrow> cap" where
  "cid_cap pl cc n = \<lparr>cap_tag = True, cap_addr = n, cap_base = n, cap_len = 1, cap_perms = CHERI_COMPARTMENT_ID_USERSPACE_PERMS cc,
     cap_otype = CHERI_OTYPE_UNSEALED pl, cap_flags = 0\<rparr>"

definition cid_counter :: "platform \<Rightarrow> cid_consts \<Rightarrow> (uintmax, cap) sys" where
  "cid_counter pl cc n = (Inr (cid_cap pl cc n), n + 1)"

text \<open>The test succeeds only as long as nobody has taken an identifier: the counter must be at 1.\<close>

lemma cidcap_alloc_verdict:
  assumes "p_ccsp s \<noteq> None" "is_FreeBSD pl"
  shows "declares_success (cidcap_alloc pl cc (cid_counter pl cc)) s \<longleftrightarrow> p_world s = 1"
proof -
  have sel: "cheri_base_get (cid_cap pl cc n) = n" "cheri_length_get (cid_cap pl cc n) = 1" "cheri_offset_get (cid_cap pl cc n) = 0"
    "cheri_type_get (cid_cap pl cc n) = CHERI_OTYPE_UNSEALED pl" "cheri_perms_get (cid_cap pl cc n) = CHERI_COMPARTMENT_ID_USERSPACE_PERMS cc"
    "\<not> cheri_is_sealed pl (cid_cap pl cc n)" "cheri_tag_get (cid_cap pl cc n)" "cap_addr (cid_cap pl cc n) = n" for n
    by (simp_all add: cid_cap_def cheri_base_get_def cheri_length_get_def cheri_offset_get_def cheri_type_get_def cheri_perms_get_def
        cheri_is_sealed_def cheri_tag_get_def)
  have ok: "\<not> is_linux pl" using assms(2) by (simp add: is_FreeBSD_def is_linux_def)
  show ?thesis using assms ok
    by (auto simp: cidcap_alloc_def check_cidcap_def declares_success_syscall cid_counter_def bindP_assoc passes_simps sel Let_def only_if_def)
qed

section \<open>Sentries\<close>

lemma check_fptr_iff:
  assumes "p_ccsp s \<noteq> None"
  shows "declares_success (check_fptr pl c) s \<longleftrightarrow>
    cap_tag c \<and> cap_otype c = CHERI_OTYPE_SENTRY pl \<and> cap_perms c AND CHERI_PERM_EXECUTE pl = CHERI_PERM_EXECUTE pl \<and>
    cap_perms c AND CHERI_PERM_STORE pl = 0 \<and> cap_perms c AND CHERI_PERM_STORE_LOCAL_CAP pl = 0 \<and>
    (HAS_CHERI_PERM_LOAD_STORE_CAP pl \<longrightarrow> cap_perms c AND CHERI_PERM_STORE_CAP pl = 0) \<and>
    (HAS_CHERI_PERM_CAP pl \<longrightarrow> cap_perms c AND CHERI_PERM_CAP pl \<noteq> 0)"
  using assms
  by (cases "pl_arch pl") (auto simp: check_fptr_def Let_def passes_simps feature_defs cheri_tag_get_def cheri_perms_get_def cheri_type_get_def)

section \<open>Copies of the program\<close>

text \<open>In the old process, when the vector fits and something was started: the copy has to end with status 0.\<close>

lemma internal_spawn_verdict:
  assumes "mk_exec_args pl (ae_exec ae) (ae_opts ae) name [] = COk args" "spawn_pid pl (ae_spawn ae) mode args None = pid" "pid \<noteq> - 1"
    and "mode = SC_MODE_POSIX_SPAWN \<or> pid \<noteq> 0" "p_ccsp s \<noteq> None"
  shows "declares_success (internal_spawn_child pl ae name mode) s \<longleftrightarrow> pid > 0 \<and> ae_waitpid ae pid = 0"
proof -
  have "cheriostest_spawn_child pl (ae_exec ae) (ae_spawn ae) (ae_opts ae) name mode = COk (InParent pid)"
    using assms(1-4) by (auto simp: cheriostest_spawn_child_def cheriostest_spawn_child_args_def Let_def)
  then show ?thesis using assms(5) by (simp add: internal_spawn_child_def from_c_def passes_simps)
qed

lemma exec_child_cf_ends: "fst (exec_child_cf pl opt s) = Exited 0"
  by (simp add: exec_child_cf_def leave_def notice_def bindP_def only_if_def)

end
