(* ===== verification/Syscalls.thy ===== *)
theory Syscalls
  imports Statements Instances
begin

text \<open>
  \<^verbatim>\<open>cheriostest_syscall.c\<close>: the default and the ignored disposition of a signal in a child, attaching to a child that is blocked on a
  pipe, and the pointer that comes with the signal of an asynchronous read.
\<close>

section \<open>Dispositions\<close>

datatype sc_handler = SIG_IGN | SIG_DFL | test_sig_dfl_ign_handler | test_aio_sival_handler

text \<open>What a child does after \<^verbatim>\<open>fork\<close>, on its own.\<close>

datatype child_action = Sigsuspend "int list" | Close_fd int | Write_char int char | Read_char int | Assert_read char | Print_err string | Exit_with int

text \<open>
  The system. \<^verbatim>\<open>kill\<close> is never asked for its result; \<open>sc_waitpid\<close> gives the process and its status, with 0 for a process that has nothing to
  report. The handlers are the values of the constants of \<^verbatim>\<open>signal.h\<close>.
\<close>

datatype sc_status = St_none | St_exited int | St_signaled int | St_stopped int

datatype wait_option = Wait_plain | Wait_nohang | Wait_stopped

record 'k sc_env =
  sc_handler_value :: "sc_handler \<Rightarrow> uintmax"
  sc_getmask :: "('k, int list) sys"
  sc_sigaddset :: "int \<Rightarrow> int list \<Rightarrow> ('k, int list) sys"
  sc_block :: "int list \<Rightarrow> ('k, int list) sys" \<comment> \<open>gives the old mask\<close>
  sc_sigaction :: "int \<Rightarrow> sc_handler \<Rightarrow> ('k, unit) sys"
  sc_fork :: "child_action list \<Rightarrow> ('k, int) sys"
  sc_kill :: "int \<Rightarrow> int \<Rightarrow> 'k \<Rightarrow> 'k"
  sc_waitpid :: "int \<Rightarrow> wait_option \<Rightarrow> ('k, int \<times> sc_status) sys"
  sc_pipe :: "('k, int \<times> int) sys"
  sc_close :: "int \<Rightarrow> 'k \<Rightarrow> 'k"
  sc_read1 :: "int \<Rightarrow> ('k, nat \<times> char) sys"
  sc_write1 :: "int \<Rightarrow> char \<Rightarrow> 'k \<Rightarrow> 'k"
  sc_attach :: "int \<Rightarrow> ('k, unit) sys"
  sc_pt_kill :: "int \<Rightarrow> ('k, unit) sys"
  sc_SIGUSR1 :: int
  sc_SIGURG :: int
  sc_SIGSTOP :: int
  sc_SIGKILL :: int
  sc_SIGABRT :: int

definition sig_dfl_neq_ign :: "platform \<Rightarrow> 'k sc_env \<Rightarrow> ('k, unit) prog" where
  "sig_dfl_neq_ign pl sc =
     (if sc_handler_value sc SIG_IGN = sc_handler_value sc SIG_DFL then cheriostest_failure_errx pl ''SIG_{IGN,DFL} conflated'' []
      else cheriostest_success)"

text \<open>\<^verbatim>\<open>assert\<close>: a process that is not right aborts.\<close>

definition c_assert :: "platform \<Rightarrow> 'k sc_env \<Rightarrow> bool \<Rightarrow> ('k, unit) prog" where
  "c_assert pl sc b = (if b then ret () else trap \<lparr>si_signo = sc_SIGABRT sc, si_code = 0, si_trapno = 0, si_addr = cap_null pl\<rparr>)"

definition asserted :: "platform \<Rightarrow> 'k sc_env \<Rightarrow> ('k, 'a) sys \<Rightarrow> ('k, 'a) prog" where
  "asserted pl sc call = bindP (raw_call call) (\<lambda>r. bindP (c_assert pl sc (r \<noteq> None)) (\<lambda>_. ret (the r)))"

definition pid_of :: "int option \<Rightarrow> int" where
  "pid_of r = (case r of None \<Rightarrow> - 1 | Some pid \<Rightarrow> pid)"

text \<open>
  A child that suspends with the old mask and exits with 42; the parent signals it and waits. When \<^verbatim>\<open>waitpid\<close> fails for the process -1, the
  variable \<^verbatim>\<open>status\<close> that is looked at has no value.
\<close>

definition suspended_child :: "platform \<Rightarrow> 'k sc_env \<Rightarrow> int list \<Rightarrow> int list \<Rightarrow> sc_status \<Rightarrow> ('k, unit) prog" where
  "suspended_child pl sc oss sigs expected =
     bindP (raw_call (sc_fork sc [Sigsuspend oss, Exit_with 42])) (\<lambda>r.
     let cpid = pid_of r in
     bindP (block (map (\<lambda>sig. upd_world (sc_kill sc cpid sig)) sigs)) (\<lambda>_.
     bindP (raw_call (sc_waitpid sc cpid Wait_plain)) (\<lambda>r.
     bindP (c_assert pl sc (pid_of (map_option fst r) = cpid)) (\<lambda>_.
     case r of None \<Rightarrow> (\<lambda>s. (Undefined, s)) | Some (_, status) \<Rightarrow> c_assert pl sc (status = expected)))))"

definition sig_dfl_ign :: "platform \<Rightarrow> 'k sc_env \<Rightarrow> ('k, unit) prog" where
  "sig_dfl_ign pl sc =
     bindP (asserted pl sc (sc_getmask sc)) (\<lambda>ss.
     bindP (asserted pl sc (sc_sigaddset sc (sc_SIGUSR1 sc) ss)) (\<lambda>ss.
     bindP (asserted pl sc (sc_sigaddset sc (sc_SIGURG sc) ss)) (\<lambda>ss.
     bindP (asserted pl sc (sc_block sc ss)) (\<lambda>oss. block
      [asserted pl sc (sc_sigaction sc (sc_SIGUSR1 sc) SIG_IGN),
       asserted pl sc (sc_sigaction sc (sc_SIGURG sc) test_sig_dfl_ign_handler),
       suspended_child pl sc oss [sc_SIGUSR1 sc, sc_SIGURG sc] (St_exited 42),
       asserted pl sc (sc_sigaction sc (sc_SIGUSR1 sc) SIG_DFL),
       suspended_child pl sc oss [sc_SIGUSR1 sc] (St_signaled (sc_SIGUSR1 sc)),
       cheriostest_success]))))"

section \<open>Attaching\<close>

definition ptrace_basic_child :: "int \<Rightarrow> int \<Rightarrow> child_action list" where
  "ptrace_basic_child pfd0 pfd1 =
     [Close_fd pfd0, Write_char pfd1 (CHR ''c''), Read_char pfd1, Assert_read (CHR ''x''),
      Print_err ''got exit message, this should not happen!'', Close_fd pfd1, Exit_with 23]"

definition stopsig_of :: "sc_status \<Rightarrow> int" where
  "stopsig_of st = (case st of St_stopped sig \<Rightarrow> sig | _ \<Rightarrow> - 1)"

definition termsig_of :: "sc_status \<Rightarrow> int" where
  "termsig_of st = (case st of St_signaled sig \<Rightarrow> sig | _ \<Rightarrow> - 1)"

definition exitcode_of :: "sc_status \<Rightarrow> int" where
  "exitcode_of st = (case st of St_exited n \<Rightarrow> n | _ \<Rightarrow> - 1)"

text \<open>The status of a failed \<^verbatim>\<open>waitpid\<close> is the one of the call before.\<close>

definition wait_for :: "'k sc_env \<Rightarrow> int \<Rightarrow> wait_option \<Rightarrow> sc_status \<Rightarrow> ('k, int \<times> sc_status) prog" where
  "wait_for sc pid opt old = bindP (raw_call (sc_waitpid sc pid opt)) (\<lambda>r. ret (case r of None \<Rightarrow> (- 1, old) | Some (res, st) \<Rightarrow> (res, st)))"

definition ptrace_basic :: "platform \<Rightarrow> 'k sc_env \<Rightarrow> ('k, unit) prog" where
  "ptrace_basic pl sc =
     bindP (CHERIOSTEST_CHECK_SYSCALL pl (sc_pipe sc) ''pipe(pfd)'') (\<lambda>(pfd0, pfd1).
     bindP (raw_call (sc_fork sc (ptrace_basic_child pfd0 pfd1))) (\<lambda>r.
     let cpid = pid_of r in
     bindP (upd_world (sc_close sc pfd1)) (\<lambda>_.
     bindP (raw_call (sc_read1 sc pfd0)) (\<lambda>r.
     bindP (CHERIOSTEST_VERIFY2 pl (map_option fst r = Some 1) ''%s (0x%zx) == %s (0x%zx) failed!'' [FStr ''read(pfd[0], &c, 1)'', FStr ''1'', FWord 1]) (\<lambda>_.
     bindP (CHERIOSTEST_VERIFY pl (snd (the r) = CHR ''c'') (''c == '' @ [CHR 0x27] @ ''c'' @ [CHR 0x27])) (\<lambda>_.
     bindP (wait_for sc cpid Wait_nohang St_none) (\<lambda>(res, status).
     bindP (CHERIOSTEST_VERIFY2 pl (status = St_none) ''%s (0x%x) == %s (0x%x) failed!'' [FStr ''status'', FStr ''0'']) (\<lambda>_.
     bindP (CHERIOSTEST_CHECK_SYSCALL pl (sc_attach sc cpid) ''ptrace(PT_ATTACH, cpid, NULL, 0)'') (\<lambda>_.
     bindP (wait_for sc cpid Wait_stopped status) (\<lambda>(res, status).
     bindP (if is_FreeBSD pl
            then block [CHERIOSTEST_CHECK_EQ_INT pl res cpid ''res'' ''cpid'',
              CHERIOSTEST_CHECK_EQ_INT pl (stopsig_of status) (sc_SIGSTOP sc) ''stopsig'' ''SIGSTOP'']
            else block [CHERIOSTEST_VERIFY2 pl (stopsig_of status \<noteq> - 1) ''Expected WIFSTOPPED(status) != 0'' [],
              CHERIOSTEST_VERIFY2 pl (stopsig_of status = sc_SIGSTOP sc) ''Expected SIGURG'' []]) (\<lambda>_.
     bindP (CHERIOSTEST_CHECK_SYSCALL pl (sc_pt_kill sc cpid) ''ptrace(PT_KILL, cpid, NULL, 0)'') (\<lambda>_.
     bindP (upd_world (sc_write1 sc pfd0 (CHR ''x''))) (\<lambda>_.
     bindP (upd_world (sc_close sc pfd0)) (\<lambda>_.
     bindP (wait_for sc cpid Wait_plain status) (\<lambda>(res, status). block
      [CHERIOSTEST_CHECK_EQ_INT pl res cpid ''res'' ''cpid'',
       if termsig_of status = sc_SIGKILL sc then cheriostest_success
       else cheriostest_failure_errx pl (''Unexpected child exit: status=%#x code=%d termsig=%d stopsig=%d'' @ [CHR 0x0A])
         [FInt (exitcode_of status), FInt (termsig_of status), FInt (stopsig_of status)]])))))))))))))))"

section \<open>Asynchronous input\<close>

text \<open>\<^verbatim>\<open>siginfo\<close> of the asynchronous signals: the code and the pointer.\<close>

record aio_info =
  ai_code :: int
  ai_ptr :: cap

record aio_vars =
  test_aio_sival_signal :: int
  test_aio_sival_info :: aio_info

record 'k aio_world =
  aw_vars :: aio_vars
  aw_sys :: 'k

text \<open>\<open>ai_sigsuspend\<close>: the signals for which the handler runs, with their information, and how the call comes back.\<close>

record 'k aio_env =
  ai_sigaction :: "int \<Rightarrow> ('k, unit) sys"
  ai_socketpair :: "('k, int \<times> int) sys"
  ai_read :: "int \<Rightarrow> nat \<Rightarrow> cap \<Rightarrow> ('k, unit) sys" \<comment> \<open>\<^verbatim>\<open>aio_read\<close>: descriptor, length, \<^verbatim>\<open>sival_ptr\<close>\<close>
  ai_sigemptyset :: "('k, int list) sys"
  ai_sigaddset :: "int \<Rightarrow> int list \<Rightarrow> ('k, int list) sys"
  ai_block :: "int list \<Rightarrow> ('k, int list) sys"
  ai_close :: "int \<Rightarrow> 'k \<Rightarrow> 'k"
  ai_alarm :: "nat \<Rightarrow> 'k \<Rightarrow> 'k"
  ai_sigsuspend :: "int list \<Rightarrow> 'k \<Rightarrow> (int \<times> int \<times> (int \<times> aio_info) list) \<times> 'k" \<comment> \<open>result, \<^verbatim>\<open>errno\<close>, signals\<close>
  ai_handler :: cap \<comment> \<open>\<^verbatim>\<open>test_aio_sival_handler\<close>\<close>
  ai_SIGUSR1 :: int
  ai_SIGALRM :: int
  ai_EINTR :: int
  ai_SI_ASYNCIO :: int

definition aio_sys :: "('k, 'a) sys \<Rightarrow> ('k aio_world, 'a) sys" where
  "aio_sys call = (\<lambda>w. case call (aw_sys w) of (r, k) \<Rightarrow> (r, w\<lparr>aw_sys := k\<rparr>))"

definition run_aio_handler :: "int \<times> aio_info \<Rightarrow> aio_vars \<Rightarrow> aio_vars" where
  "run_aio_handler = (\<lambda>(sig, si) v. v\<lparr>test_aio_sival_signal := sig, test_aio_sival_info := si\<rparr>)"

definition aio_verify :: "platform \<Rightarrow> ('k, 'a) sys \<Rightarrow> string \<Rightarrow> ('k aio_world, 'a) prog" where
  "aio_verify pl call msg =
     bindP (raw_call (aio_sys call)) (\<lambda>r. bindP get_errno (\<lambda>errno. bindP (CHERIOSTEST_VERIFY2 pl (r \<noteq> None) msg [FInt errno]) (\<lambda>_. ret (the r))))"

definition aio_suspend :: "platform \<Rightarrow> 'k aio_env \<Rightarrow> int list \<Rightarrow> ('k aio_world, unit) prog" where
  "aio_suspend pl ai oset = (\<lambda>s. case ai_sigsuspend ai oset (aw_sys (p_world s)) of ((res, err, sigs), k) \<Rightarrow>
     CHERIOSTEST_VERIFY pl (res = - 1 \<and> err = ai_EINTR ai) ''sigsuspend(&osigset) == -1 && errno == EINTR''
       (s\<lparr>p_errno := err, p_world := \<lparr>aw_vars = fold run_aio_handler sigs (aw_vars (p_world s)), aw_sys = k\<rparr>\<rparr>))"

definition aio_result :: "platform \<Rightarrow> 'k aio_env \<Rightarrow> aio_vars \<Rightarrow> ('k aio_world, unit) prog" where
  "aio_result pl ai v =
     (let sig = test_aio_sival_signal v; info = test_aio_sival_info v in
      if sig = ai_SIGALRM ai then cheriostest_failure_errx pl ''Test timeout!'' []
      else if sig = 0 then cheriostest_failure_errx pl ''No signal received?'' []
      else if sig = ai_SIGUSR1 ai
      then block
        [CHERIOSTEST_VERIFY2 pl (ai_code info = ai_SI_ASYNCIO ai) ''Signal not asyncio?  code=%d'' [FInt (ai_code info)],
         CHERIOSTEST_VERIFY2 pl (ptr_eq (ai_ptr info) (ai_handler ai)) ''Bad si_value; expected=%#p got=%#p'' [FPtr (ai_handler ai), FPtr (ai_ptr info)],
         cheriostest_success]
      else cheriostest_failure_errx pl ''Bad signal %d'' [FInt sig])"

definition aio_sival :: "platform \<Rightarrow> 'k aio_env \<Rightarrow> ('k aio_world, unit) prog" where
  "aio_sival pl ai =
     bindP (aio_verify pl (ai_sigaction ai (ai_SIGUSR1 ai)) ''Could not install AIO handler; errno=%d'') (\<lambda>_.
     bindP (aio_verify pl (ai_sigaction ai (ai_SIGALRM ai)) ''Could not install ALRM handler; errno=%d'') (\<lambda>_.
     bindP (aio_verify pl (ai_socketpair ai) ''Could not create socketpair; errno=%d'') (\<lambda>(pfd0, pfd1).
     bindP (aio_verify pl (ai_read ai pfd0 128 (ai_handler ai)) ''Could not register aio; errno=%d'') (\<lambda>_.
     bindP (aio_verify pl (ai_sigemptyset ai) ''sigemptyset(&sigset) == 0'') (\<lambda>sigset.
     bindP (aio_verify pl (ai_sigaddset ai (ai_SIGUSR1 ai) sigset) ''sigaddset(&sigset, SIGUSR1) == 0'') (\<lambda>sigset.
     bindP (aio_verify pl (ai_sigaddset ai (ai_SIGALRM ai) sigset) ''sigaddset(&sigset, SIGALRM) == 0'') (\<lambda>sigset.
     bindP (aio_verify pl (ai_block ai sigset) ''sigprocmask(SIG_BLOCK, &sigset, &osigset) == 0'') (\<lambda>osigset. block
      [upd_world (\<lambda>w. w\<lparr>aw_sys := ai_close ai pfd1 (aw_sys w)\<rparr>),
       upd_world (\<lambda>w. w\<lparr>aw_sys := ai_alarm ai 2 (aw_sys w)\<rparr>),
       aio_suspend pl ai osigset,
       upd_world (\<lambda>w. w\<lparr>aw_sys := ai_close ai pfd0 (aw_sys w)\<rparr>),
       bindP get_world (\<lambda>w. aio_result pl ai (aw_vars w))]))))))))"

section \<open>What the test of dispositions does\<close>

text \<open>
  What is asked of the system, in terms of a view of it: the dispositions of the process; the child that was forked and not yet waited for, with
  what it does, the dispositions it has inherited and the signals it was sent; and the calls of \<^verbatim>\<open>kill\<close>. Every call that has a result may fail.
  \<open>fate\<close> is how a child ends: it may depend on what it does, its dispositions and its signals in any way.
\<close>

record proc_view =
  pv_disp :: "int \<Rightarrow> sc_handler"
  pv_child :: "(int \<times> child_action list \<times> (int \<Rightarrow> sc_handler) \<times> int list) option"
  pv_sent :: "(int \<times> int) list"

fun signalled :: "int \<Rightarrow> int \<Rightarrow> int \<times> 'a \<times> 'b \<times> int list \<Rightarrow> int \<times> 'a \<times> 'b \<times> int list" where
  "signalled pid sig (p, acts, d, sigs) = (p, acts, d, if pid = p \<or> pid = - 1 then sigs @ [sig] else sigs)"

locale child_signals =
  fixes sc :: "'k sc_env" and view :: "'k \<Rightarrow> proc_view"
    and fate :: "child_action list \<Rightarrow> (int \<Rightarrow> sc_handler) \<Rightarrow> int list \<Rightarrow> sc_status"
  assumes getmask_law: "sc_getmask sc k = (Inr ss, k') \<Longrightarrow> view k' = view k"
    and sigaddset_law: "sc_sigaddset sc sig ss k = (Inr ss', k') \<Longrightarrow> view k' = view k"
    and block_law: "sc_block sc ss k = (Inr oss, k') \<Longrightarrow> view k' = view k"
    and sigaction_law: "sc_sigaction sc sig h k = (Inr u, k') \<Longrightarrow> view k' = (view k)\<lparr>pv_disp := (pv_disp (view k))(sig := h)\<rparr>"
    and fork_law: "sc_fork sc acts k = (Inr pid, k') \<Longrightarrow> 0 < pid \<and> view k' = (view k)\<lparr>pv_child := Some (pid, acts, pv_disp (view k), [])\<rparr>"
    and fork_fails_law: "sc_fork sc acts k = (Inl e, k') \<Longrightarrow> view k' = view k"
    and kill_law: "view (sc_kill sc pid sig k) =
      (view k)\<lparr>pv_child := map_option (signalled pid sig) (pv_child (view k)), pv_sent := pv_sent (view k) @ [(pid, sig)]\<rparr>"
    and waitpid_law: "sc_waitpid sc pid Wait_plain k = (Inr r, k') \<Longrightarrow> pv_child (view k) = Some (pid, acts, d, sigs) \<Longrightarrow>
      r = (pid, fate acts d sigs) \<and> view k' = (view k)\<lparr>pv_child := None\<rparr>"
    and no_child_law: "pv_child (view k) = None \<Longrightarrow> \<exists>e k'. sc_waitpid sc (- 1) Wait_plain k = (Inl e, k') \<and> view k' = view k"

lemma success_c_assert: "declares_success (bindP (c_assert pl sc b) f) s \<longleftrightarrow> b \<and> declares_success (f ()) s"
  by (cases b) (simp_all add: c_assert_def)

lemma bind_asserted:
  "bindP (asserted pl sc call) f s = (case call (p_world s) of
     (Inl e, w) \<Rightarrow> bindP (c_assert pl sc False) (\<lambda>_. f undefined) (s\<lparr>p_errno := e, p_world := w\<rparr>) | (Inr x, w) \<Rightarrow> f x (s\<lparr>p_world := w\<rparr>))"
  by (simp add: asserted_def bindP_assoc bind_raw_call c_assert_def split: prod.splits sum.splits)

lemma bind_upd: "bindP (upd_world g) f s = f () (s\<lparr>p_world := g (p_world s)\<rparr>)"
  by (simp add: bindP_def upd_world_def)

lemma bind_assert_false:
  "bindP (c_assert pl sc False) f s = (Trapped \<lparr>si_signo = sc_SIGABRT sc, si_code = 0, si_trapno = 0, si_addr = cap_null pl\<rparr>, s)"
  by (simp add: c_assert_def bindP_def trap_def)

lemma success_asserted:
  "declares_success (bindP (asserted pl sc call) f) s \<longleftrightarrow> after call (p_world s) (\<lambda>x k. declares_success (f x) (s\<lparr>p_world := k\<rparr>))"
  unfolding declares_success_def bind_asserted after_def by (auto simp: bind_assert_false split: prod.splits sum.splits)

text \<open>What both tests do before the first \<^verbatim>\<open>fork\<close>: the signals are blocked, \<^verbatim>\<open>SIGUSR1\<close> is ignored, \<^verbatim>\<open>SIGURG\<close> has a handler.\<close>

definition prepared :: "'k sc_env \<Rightarrow> 'k \<Rightarrow> (int list \<Rightarrow> 'k \<Rightarrow> bool) \<Rightarrow> bool" where
  "prepared sc k P \<longleftrightarrow>
     after (sc_getmask sc) k (\<lambda>ss k. after (sc_sigaddset sc (sc_SIGUSR1 sc) ss) k (\<lambda>ss k. after (sc_sigaddset sc (sc_SIGURG sc) ss) k (\<lambda>ss k.
     after (sc_block sc ss) k (\<lambda>oss k. after (sc_sigaction sc (sc_SIGUSR1 sc) SIG_IGN) k (\<lambda>_ k.
     after (sc_sigaction sc (sc_SIGURG sc) test_sig_dfl_ign_handler) k (\<lambda>_ k. P oss k))))))"

lemma prepared_iff:
  "prepared sc k P \<longleftrightarrow> (\<exists>oss k'. prepared sc k (\<lambda>oss' k''. oss' = oss \<and> k'' = k') \<and> P oss k')"
  unfolding prepared_def after_iff by blast

lemma prepared_cong:
  assumes "\<And>oss k'. prepared sc k (\<lambda>oss' k''. oss' = oss \<and> k'' = k') \<Longrightarrow> P oss k' = Q oss k'"
  shows "prepared sc k P = prepared sc k Q"
  unfolding prepared_iff [of sc k P] prepared_iff [of sc k Q] using assms by blast

text \<open>The signals for a child, and its end.\<close>

definition waited :: "'k sc_env \<Rightarrow> int \<Rightarrow> int list \<Rightarrow> 'k \<Rightarrow> ('k \<Rightarrow> bool) \<Rightarrow> bool" where
  "waited sc pid sigs k P \<longleftrightarrow> after (sc_waitpid sc pid Wait_plain) (fold (sc_kill sc pid) sigs k) (\<lambda>_. P)"

definition forked :: "'k sc_env \<Rightarrow> int list \<Rightarrow> int list \<Rightarrow> 'k \<Rightarrow> ('k \<Rightarrow> bool) \<Rightarrow> bool" where
  "forked sc oss sigs k P \<longleftrightarrow> after (sc_fork sc [Sigsuspend oss, Exit_with 42]) k (\<lambda>pid k. waited sc pid sigs k P)"

lemma forked_iff: "forked sc oss sigs k P \<longleftrightarrow> (\<exists>k'. forked sc oss sigs k (\<lambda>k''. k'' = k') \<and> P k')"
  unfolding forked_def waited_def after_iff by blast

lemma forked_cong: "(\<And>k'. forked sc oss sigs k (\<lambda>k''. k'' = k') \<Longrightarrow> P k' = Q k') \<Longrightarrow> forked sc oss sigs k P = forked sc oss sigs k Q"
  unfolding forked_iff [of sc oss sigs k P] forked_iff [of sc oss sigs k Q] by blast

lemma after_conj: "after call k (\<lambda>x k. c \<and> P x k) \<longleftrightarrow> c \<and> after call k P"
  by (auto simp: after_iff)

lemma forked_False: "\<not> forked sc oss sigs k (\<lambda>_. False)"
  by (auto simp: forked_def waited_def after_iff)

lemma forked_conj: "forked sc oss sigs k (\<lambda>k. c \<and> P k) \<longleftrightarrow> c \<and> forked sc oss sigs k P"
  by (auto simp: forked_iff [of sc oss sigs k "\<lambda>k. c \<and> P k"] forked_iff [of sc oss sigs k P])

definition fails :: "('k, 'a) sys \<Rightarrow> 'k \<Rightarrow> bool" where
  "fails call k \<longleftrightarrow> (\<exists>e k'. call k = (Inl e, k'))"

text \<open>The body behind the preparation.\<close>

definition children :: "platform \<Rightarrow> 'k sc_env \<Rightarrow> int list \<Rightarrow> ('k, unit) prog" where
  "children pl sc oss = block
     [suspended_child pl sc oss [sc_SIGUSR1 sc, sc_SIGURG sc] (St_exited 42), asserted pl sc (sc_sigaction sc (sc_SIGUSR1 sc) SIG_DFL),
      suspended_child pl sc oss [sc_SIGUSR1 sc] (St_signaled (sc_SIGUSR1 sc)), cheriostest_success]"

context child_signals
begin

lemma view_kills:
  "view (fold (sc_kill sc pid) sigs k) = (view k)\<lparr>pv_child := map_option (fold (signalled pid) sigs) (pv_child (view k)),
     pv_sent := pv_sent (view k) @ map (Pair pid) sigs\<rparr>"
proof (induction sigs arbitrary: k)
  case Nil
  then show ?case by (cases "view k") (simp add: option.map_ident)
qed (simp add: kill_law option.map_comp comp_def)

lemma signalled_all: "fold (signalled pid) sigs (pid, acts, d, sigs0) = (pid, acts, d, sigs0 @ sigs)"
  by (induction sigs arbitrary: sigs0) simp_all

lemma bind_kills: "bindP (block (map (\<lambda>sig. upd_world (sc_kill sc pid sig)) sigs)) f s = f () (s\<lparr>p_world := fold (sc_kill sc pid) sigs (p_world s)\<rparr>)"
  by (induction sigs arbitrary: s) (simp_all add: bindP_assoc bind_upd)

lemma prepared_view:
  "prepared sc k (\<lambda>oss' k''. oss' = oss \<and> k'' = k') \<Longrightarrow>
     view k' = (view k)\<lparr>pv_disp := (pv_disp (view k))(sc_SIGUSR1 sc := SIG_IGN, sc_SIGURG sc := test_sig_dfl_ign_handler)\<rparr>"
  unfolding prepared_def after_iff by (auto dest!: getmask_law sigaddset_law block_law sigaction_law)

text \<open>The end of a forked child that was sent some signals.\<close>

lemma waited_child:
  assumes "sc_fork sc acts k = (Inr pid, k1)" "sc_waitpid sc pid Wait_plain (fold (sc_kill sc pid) sigs k1) = (Inr r, k2)"
  shows "r = (pid, fate acts (pv_disp (view k)) sigs)"
    "view k2 = (view k)\<lparr>pv_child := None, pv_sent := pv_sent (view k) @ map (Pair pid) sigs\<rparr>"
proof -
  from fork_law [OF assms(1)] have "view k1 = (view k)\<lparr>pv_child := Some (pid, acts, pv_disp (view k), [])\<rparr>" by simp
  then have v: "view (fold (sc_kill sc pid) sigs k1) = (view k)\<lparr>pv_child := Some (pid, acts, pv_disp (view k), sigs), pv_sent := pv_sent (view k) @ map (Pair pid) sigs\<rparr>"
    by (simp add: view_kills signalled_all)
  from waitpid_law [OF assms(2), of acts "pv_disp (view k)" sigs] show "r = (pid, fate acts (pv_disp (view k)) sigs)"
    "view k2 = (view k)\<lparr>pv_child := None, pv_sent := pv_sent (view k) @ map (Pair pid) sigs\<rparr>"
    by (simp_all add: v)
qed

lemma no_child:
  assumes "pv_child (view k) = None"
  shows "\<exists>e k'. sc_waitpid sc (- 1) Wait_plain (fold (sc_kill sc (- 1)) sigs k) = (Inl e, k') \<and>
    view k' = (view k)\<lparr>pv_sent := pv_sent (view k) @ map (Pair (- 1)) sigs\<rparr>"
  using no_child_law [of "fold (sc_kill sc (- 1)) sigs k"] assms by (cases "view k") (simp add: view_kills)

text \<open>One child: forked and waited for, forked only, not forked.\<close>

lemma suspended_waited:
  assumes "sc_fork sc [Sigsuspend oss, Exit_with 42] (p_world s) = (Inr pid, k1)"
    "sc_waitpid sc pid Wait_plain (fold (sc_kill sc pid) sigs k1) = (Inr r, k2)"
  shows "bindP (suspended_child pl sc oss sigs expected) f s =
    bindP (c_assert pl sc (fate [Sigsuspend oss, Exit_with 42] (pv_disp (view (p_world s))) sigs = expected)) f (s\<lparr>p_world := k2\<rparr>)"
  using waited_child [OF assms] assms
  by (simp add: suspended_child_def bindP_assoc bind_raw_call bind_kills pid_of_def c_assert_def Let_def)

lemma suspended_not_waited:
  assumes "sc_fork sc [Sigsuspend oss, Exit_with 42] (p_world s) = (Inr pid, k1)"
    "sc_waitpid sc pid Wait_plain (fold (sc_kill sc pid) sigs k1) = (Inl e, k2)"
  shows "\<exists>i t. bindP (suspended_child pl sc oss sigs expected) f s = (Trapped i, t)"
  using fork_law [OF assms(1)] assms
  by (simp add: suspended_child_def bindP_assoc bind_raw_call bind_kills pid_of_def Let_def bind_assert_false)

lemma suspended_not_forked:
  assumes "sc_fork sc [Sigsuspend oss, Exit_with 42] (p_world s) = (Inl e, k1)" "pv_child (view (p_world s)) = None"
  shows "\<exists>t. bindP (suspended_child pl sc oss sigs expected) f s = (Undefined, t) \<and>
    view (p_world t) = (view (p_world s))\<lparr>pv_sent := pv_sent (view (p_world s)) @ map (Pair (- 1)) sigs\<rparr>"
proof -
  have v: "view k1 = view (p_world s)" by (rule fork_fails_law [OF assms(1)])
  then obtain e' k2 where w: "sc_waitpid sc (- 1) Wait_plain (fold (sc_kill sc (- 1)) sigs k1) = (Inl e', k2)"
    "view k2 = (view k1)\<lparr>pv_sent := pv_sent (view k1) @ map (Pair (- 1)) sigs\<rparr>"
    using no_child [of k1 sigs] assms(2) by auto
  have "bindP (suspended_child pl sc oss sigs expected) f s = (Undefined, s\<lparr>p_errno := e', p_world := k2\<rparr>)"
    using assms(1) w(1) by (simp add: suspended_child_def bindP_assoc bind_raw_call bind_kills pid_of_def c_assert_def Let_def)
      (simp add: bindP_def)
  then show ?thesis using v w(2) by simp
qed

lemma success_suspended:
  assumes "pv_child (view (p_world s)) = None"
  shows "declares_success (bindP (suspended_child pl sc oss sigs expected) f) s \<longleftrightarrow> forked sc oss sigs (p_world s) (\<lambda>k.
    fate [Sigsuspend oss, Exit_with 42] (pv_disp (view (p_world s))) sigs = expected \<and> declares_success (f ()) (s\<lparr>p_world := k\<rparr>))"
proof (cases "sc_fork sc [Sigsuspend oss, Exit_with 42] (p_world s)")
  case (Pair r k1)
  show ?thesis
  proof (cases r)
    case (Inl e)
    then show ?thesis
      using suspended_not_forked [of oss s e k1 pl sigs expected f] assms Pair by (auto simp: declares_success_def forked_def after_def)
  next
    case (Inr pid)
    show ?thesis
    proof (cases "sc_waitpid sc pid Wait_plain (fold (sc_kill sc pid) sigs k1)")
      case wait: (Pair q k2)
      show ?thesis
      proof (cases q)
        case (Inl e)
        then show ?thesis
          using suspended_not_waited [of oss s pid k1 sigs e k2 pl expected f] Pair Inr wait
          by (auto simp: declares_success_def forked_def waited_def after_def)
      next
        case q: (Inr x)
        have "declares_success (bindP (suspended_child pl sc oss sigs expected) f) s \<longleftrightarrow>
            declares_success (bindP (c_assert pl sc (fate [Sigsuspend oss, Exit_with 42] (pv_disp (view (p_world s))) sigs = expected)) f) (s\<lparr>p_world := k2\<rparr>)"
          using Pair Inr wait q by (intro declares_success_at suspended_waited) auto
        then show ?thesis using Pair Inr wait q by (simp add: success_c_assert forked_def waited_def after_def)
      qed
    qed
  qed
qed

lemma forked_view:
  assumes "forked sc oss sigs k (\<lambda>k''. k'' = k')"
  shows "\<exists>pid. 0 < pid \<and> view k' = (view k)\<lparr>pv_child := None, pv_sent := pv_sent (view k) @ map (Pair pid) sigs\<rparr>"
  using assms unfolding forked_def waited_def after_iff by (auto dest: fork_law waited_child(2))

lemma prepared_success: "declares_success (sig_dfl_ign pl sc) s \<longleftrightarrow> prepared sc (p_world s) (\<lambda>oss k. declares_success (children pl sc oss) (s\<lparr>p_world := k\<rparr>))"
  unfolding sig_dfl_ign_def prepared_def block.simps success_asserted children_def by simp

lemma prepared_runs:
  "prepared sc (p_world s) (\<lambda>oss' k'. oss' = oss \<and> k' = k) \<Longrightarrow> sig_dfl_ign pl sc s = children pl sc oss (s\<lparr>p_world := k\<rparr>)"
  unfolding sig_dfl_ign_def prepared_def after_iff children_def by (auto simp: bind_asserted)

lemma children_success:
  assumes "pv_child (view (p_world s)) = None"
  shows "declares_success (children pl sc oss) s \<longleftrightarrow> p_ccsp s \<noteq> None \<and>
    forked sc oss [sc_SIGUSR1 sc, sc_SIGURG sc] (p_world s) (\<lambda>k. after (sc_sigaction sc (sc_SIGUSR1 sc) SIG_DFL) k (\<lambda>_ k.
      forked sc oss [sc_SIGUSR1 sc] k (\<lambda>_. True))) \<and>
    fate [Sigsuspend oss, Exit_with 42] (pv_disp (view (p_world s))) [sc_SIGUSR1 sc, sc_SIGURG sc] = St_exited 42 \<and>
    fate [Sigsuspend oss, Exit_with 42] ((pv_disp (view (p_world s)))(sc_SIGUSR1 sc := SIG_DFL)) [sc_SIGUSR1 sc] = St_signaled (sc_SIGUSR1 sc)"
proof -
  let ?first = "fate [Sigsuspend oss, Exit_with 42] (pv_disp (view (p_world s))) [sc_SIGUSR1 sc, sc_SIGURG sc] = St_exited 42"
  let ?second = "fate [Sigsuspend oss, Exit_with 42] ((pv_disp (view (p_world s)))(sc_SIGUSR1 sc := SIG_DFL)) [sc_SIGUSR1 sc] = St_signaled (sc_SIGUSR1 sc)"
  have "declares_success (bindP (suspended_child pl sc oss [sc_SIGUSR1 sc] (St_signaled (sc_SIGUSR1 sc))) (\<lambda>_. cheriostest_success)) (s\<lparr>p_world := k2\<rparr>) \<longleftrightarrow>
      p_ccsp s \<noteq> None \<and> ?second \<and> forked sc oss [sc_SIGUSR1 sc] k2 (\<lambda>_. True)"
    if "forked sc oss [sc_SIGUSR1 sc, sc_SIGURG sc] (p_world s) (\<lambda>k''. k'' = k1)" "sc_sigaction sc (sc_SIGUSR1 sc) SIG_DFL k1 = (Inr u, k2)" for k1 u k2
  proof -
    from forked_view [OF that(1)] sigaction_law [OF that(2)]
    have "pv_child (view k2) = None" "pv_disp (view k2) = (pv_disp (view (p_world s)))(sc_SIGUSR1 sc := SIG_DFL)" by auto
    then show ?thesis
      by (cases "p_ccsp s"; cases ?second) (simp_all add: success_suspended passes_simps forked_False)
  qed
  then have "declares_success (children pl sc oss) s \<longleftrightarrow> forked sc oss [sc_SIGUSR1 sc, sc_SIGURG sc] (p_world s) (\<lambda>k.
      ?first \<and> after (sc_sigaction sc (sc_SIGUSR1 sc) SIG_DFL) k (\<lambda>_ k. p_ccsp s \<noteq> None \<and> ?second \<and> forked sc oss [sc_SIGUSR1 sc] k (\<lambda>_. True)))"
    unfolding children_def using assms
    by (simp add: success_suspended success_asserted) (intro forked_cong conj_cong after_cong refl, simp)
  also have "\<dots> \<longleftrightarrow> ?first \<and> p_ccsp s \<noteq> None \<and> ?second \<and>
      forked sc oss [sc_SIGUSR1 sc, sc_SIGURG sc] (p_world s) (\<lambda>k. after (sc_sigaction sc (sc_SIGUSR1 sc) SIG_DFL) k (\<lambda>_ k.
        forked sc oss [sc_SIGUSR1 sc] k (\<lambda>_. True)))"
    by (simp only: forked_conj after_conj)
  finally show ?thesis by (simp only: conj_ac)
qed

lemma children_undefined:
  assumes "pv_child (view (p_world s)) = None"
  shows "fails (sc_fork sc [Sigsuspend oss, Exit_with 42]) (p_world s) \<Longrightarrow> \<exists>t. children pl sc oss s = (Undefined, t) \<and>
      pv_sent (view (p_world t)) = pv_sent (view (p_world s)) @ [(- 1, sc_SIGUSR1 sc), (- 1, sc_SIGURG sc)]" (is "?F1 \<Longrightarrow> ?U1")
    "forked sc oss [sc_SIGUSR1 sc, sc_SIGURG sc] (p_world s) (\<lambda>k. after (sc_sigaction sc (sc_SIGUSR1 sc) SIG_DFL) k (\<lambda>_ k.
        fails (sc_fork sc [Sigsuspend oss, Exit_with 42]) k)) \<Longrightarrow>
      fate [Sigsuspend oss, Exit_with 42] (pv_disp (view (p_world s))) [sc_SIGUSR1 sc, sc_SIGURG sc] = St_exited 42 \<Longrightarrow>
      \<exists>pid t. 0 < pid \<and> children pl sc oss s = (Undefined, t) \<and> pv_sent (view (p_world t)) =
        pv_sent (view (p_world s)) @ [(pid, sc_SIGUSR1 sc), (pid, sc_SIGURG sc), (- 1, sc_SIGUSR1 sc)]" (is "?F2 \<Longrightarrow> ?E \<Longrightarrow> ?U2")
proof -
  show "?F1 \<Longrightarrow> ?U1"
    using suspended_not_forked [OF _ assms] by (fastforce simp: fails_def children_def)
  assume ?F2 ?E
  from \<open>?F2\<close> obtain pid k1 r k2 u k3 e k4 where run: "sc_fork sc [Sigsuspend oss, Exit_with 42] (p_world s) = (Inr pid, k1)"
    "sc_waitpid sc pid Wait_plain (fold (sc_kill sc pid) [sc_SIGUSR1 sc, sc_SIGURG sc] k1) = (Inr r, k2)"
    "sc_sigaction sc (sc_SIGUSR1 sc) SIG_DFL k2 = (Inr u, k3)" "sc_fork sc [Sigsuspend oss, Exit_with 42] k3 = (Inl e, k4)"
    unfolding forked_def waited_def after_iff fails_def by blast
  have pid: "0 < pid" using fork_law [OF run(1)] by simp
  have view: "pv_child (view k3) = None" "pv_sent (view k3) = pv_sent (view (p_world s)) @ [(pid, sc_SIGUSR1 sc), (pid, sc_SIGURG sc)]"
    using sigaction_law [OF run(3)] waited_child(2) [OF run(1,2)] by simp_all
  let ?second = "bindP (suspended_child pl sc oss [sc_SIGUSR1 sc] (St_signaled (sc_SIGUSR1 sc))) (\<lambda>_. cheriostest_success)"
  have "children pl sc oss s = ?second (s\<lparr>p_world := k3\<rparr>)"
    unfolding children_def using \<open>?E\<close> run(3) by (simp add: suspended_waited [OF run(1,2)] c_assert_def bind_asserted)
  then show ?U2 using suspended_not_forked [of oss "s\<lparr>p_world := k3\<rparr>"] run(4) view pid by fastforce
qed

lemma sig_dfl_ign_exact:
  assumes "p_ccsp s \<noteq> None" "pv_child (view (p_world s)) = None" "sc_SIGUSR1 sc \<noteq> sc_SIGURG sc"
    and ign: "ign = (pv_disp (view (p_world s)))(sc_SIGUSR1 sc := SIG_IGN, sc_SIGURG sc := test_sig_dfl_ign_handler)"
    and dfl: "dfl = (pv_disp (view (p_world s)))(sc_SIGUSR1 sc := SIG_DFL, sc_SIGURG sc := test_sig_dfl_ign_handler)"
    and both: "both = [sc_SIGUSR1 sc, sc_SIGURG sc]"
  shows "(declares_success (sig_dfl_ign pl sc) s \<longleftrightarrow> prepared sc (p_world s) (\<lambda>oss k.
      forked sc oss both k (\<lambda>k. after (sc_sigaction sc (sc_SIGUSR1 sc) SIG_DFL) k (\<lambda>_ k. forked sc oss [sc_SIGUSR1 sc] k (\<lambda>_. True))) \<and>
      fate [Sigsuspend oss, Exit_with 42] ign both = St_exited 42 \<and>
      fate [Sigsuspend oss, Exit_with 42] dfl [sc_SIGUSR1 sc] = St_signaled (sc_SIGUSR1 sc))) \<and>
    (prepared sc (p_world s) (\<lambda>oss k. fails (sc_fork sc [Sigsuspend oss, Exit_with 42]) k) \<longrightarrow>
      (\<exists>t. sig_dfl_ign pl sc s = (Undefined, t) \<and>
         pv_sent (view (p_world t)) = pv_sent (view (p_world s)) @ [(- 1, sc_SIGUSR1 sc), (- 1, sc_SIGURG sc)])) \<and>
    (prepared sc (p_world s) (\<lambda>oss k. forked sc oss both k (\<lambda>k. after (sc_sigaction sc (sc_SIGUSR1 sc) SIG_DFL) k (\<lambda>_ k.
        fails (sc_fork sc [Sigsuspend oss, Exit_with 42]) k)) \<and> fate [Sigsuspend oss, Exit_with 42] ign both = St_exited 42) \<longrightarrow>
      (\<exists>pid t. 0 < pid \<and> sig_dfl_ign pl sc s = (Undefined, t) \<and> pv_sent (view (p_world t)) =
         pv_sent (view (p_world s)) @ [(pid, sc_SIGUSR1 sc), (pid, sc_SIGURG sc), (- 1, sc_SIGUSR1 sc)]))"
proof (intro conjI impI)
  note no_child = assms(2) and ne = assms(3)
  have none: "pv_child (view k) = None" and disp: "pv_disp (view k) = ign" "ign(sc_SIGUSR1 sc := SIG_DFL) = dfl" and sent: "pv_sent (view k) = pv_sent (view (p_world s))"
    if "prepared sc (p_world s) (\<lambda>oss' k'. oss' = oss \<and> k' = k)" for oss k
    using prepared_view [OF that] no_child ne by (auto simp: ign dfl fun_upd_twist)
  show "declares_success (sig_dfl_ign pl sc) s \<longleftrightarrow> prepared sc (p_world s) (\<lambda>oss k.
      forked sc oss both k (\<lambda>k. after (sc_sigaction sc (sc_SIGUSR1 sc) SIG_DFL) k (\<lambda>_ k. forked sc oss [sc_SIGUSR1 sc] k (\<lambda>_. True))) \<and>
      fate [Sigsuspend oss, Exit_with 42] ign both = St_exited 42 \<and>
      fate [Sigsuspend oss, Exit_with 42] dfl [sc_SIGUSR1 sc] = St_signaled (sc_SIGUSR1 sc))"
    unfolding prepared_success
  proof (rule prepared_cong)
    fix oss k assume p: "prepared sc (p_world s) (\<lambda>oss' k'. oss' = oss \<and> k' = k)"
    show "declares_success (children pl sc oss) (s\<lparr>p_world := k\<rparr>) = (forked sc oss both k (\<lambda>k. after (sc_sigaction sc (sc_SIGUSR1 sc) SIG_DFL) k (\<lambda>_ k. forked sc oss [sc_SIGUSR1 sc] k (\<lambda>_. True))) \<and>
      fate [Sigsuspend oss, Exit_with 42] ign both = St_exited 42 \<and>
      fate [Sigsuspend oss, Exit_with 42] dfl [sc_SIGUSR1 sc] = St_signaled (sc_SIGUSR1 sc))"
      using children_success [of "s\<lparr>p_world := k\<rparr>" pl oss] none [OF p] assms(1) by (simp add: disp [OF p] both)
  qed
  show "(\<exists>t. sig_dfl_ign pl sc s = (Undefined, t) \<and>
         pv_sent (view (p_world t)) = pv_sent (view (p_world s)) @ [(- 1, sc_SIGUSR1 sc), (- 1, sc_SIGURG sc)])" if early: "prepared sc (p_world s) (\<lambda>oss k. fails (sc_fork sc [Sigsuspend oss, Exit_with 42]) k)"
  proof -
    obtain oss k where p: "prepared sc (p_world s) (\<lambda>oss' k'. oss' = oss \<and> k' = k)" and f: "fails (sc_fork sc [Sigsuspend oss, Exit_with 42]) k"
      using iffD1 [OF prepared_iff early] by blast
    show ?thesis using children_undefined(1) [of "s\<lparr>p_world := k\<rparr>" oss pl] none [OF p] f prepared_runs [OF p] sent [OF p] by simp
  qed
  show "(\<exists>pid t. 0 < pid \<and> sig_dfl_ign pl sc s = (Undefined, t) \<and> pv_sent (view (p_world t)) =
         pv_sent (view (p_world s)) @ [(pid, sc_SIGUSR1 sc), (pid, sc_SIGURG sc), (- 1, sc_SIGUSR1 sc)])" if early: "prepared sc (p_world s) (\<lambda>oss k. forked sc oss both k (\<lambda>k. after (sc_sigaction sc (sc_SIGUSR1 sc) SIG_DFL) k (\<lambda>_ k.
        fails (sc_fork sc [Sigsuspend oss, Exit_with 42]) k)) \<and> fate [Sigsuspend oss, Exit_with 42] ign both = St_exited 42)"
  proof -
    obtain oss k where p: "prepared sc (p_world s) (\<lambda>oss' k'. oss' = oss \<and> k' = k)" and f: "forked sc oss both k (\<lambda>k. after (sc_sigaction sc (sc_SIGUSR1 sc) SIG_DFL) k (\<lambda>_ k.
        fails (sc_fork sc [Sigsuspend oss, Exit_with 42]) k)) \<and> fate [Sigsuspend oss, Exit_with 42] ign both = St_exited 42"
      using iffD1 [OF prepared_iff early] by blast
    show ?thesis using children_undefined(2) [of "s\<lparr>p_world := k\<rparr>" oss pl] none [OF p] f prepared_runs [OF p] sent [OF p] disp [OF p] by (simp add: both)
  qed
qed

end

text \<open>
  C37: On every system that meets the contract \<open>child_signals\<close>, where any call may fail and a child may end in any way (\<open>fate\<close>) that its
  program, its inherited dispositions and its signals determine: \<^verbatim>\<open>sig_dfl_ign\<close> succeeds exactly when its calls succeed in their order, the first
  child, which ignores \<^verbatim>\<open>SIGUSR1\<close> and is sent \<^verbatim>\<open>SIGUSR1\<close> and \<^verbatim>\<open>SIGURG\<close>, exits with 42, and the second, with the default for \<^verbatim>\<open>SIGUSR1\<close>, is killed by
  it. The result of \<^verbatim>\<open>fork\<close> is not looked at: when the first one fails, \<^verbatim>\<open>kill\<close> is called for the process -1, which is every process that may
  be signalled, with \<^verbatim>\<open>SIGUSR1\<close> and \<^verbatim>\<open>SIGURG\<close>; when the second one fails, with \<^verbatim>\<open>SIGUSR1\<close>; and then a status without a value is read.
\<close>

theorem sig_dfl_ign_verdict:
  assumes "child_signals sc view fate" "p_ccsp s \<noteq> None" "pv_child (view (p_world s)) = None" "sc_SIGUSR1 sc \<noteq> sc_SIGURG sc"
    and ign: "ign = (pv_disp (view (p_world s)))(sc_SIGUSR1 sc := SIG_IGN, sc_SIGURG sc := test_sig_dfl_ign_handler)"
    and dfl: "dfl = (pv_disp (view (p_world s)))(sc_SIGUSR1 sc := SIG_DFL, sc_SIGURG sc := test_sig_dfl_ign_handler)"
    and both: "both = [sc_SIGUSR1 sc, sc_SIGURG sc]"
  shows "(declares_success (sig_dfl_ign pl sc) s \<longleftrightarrow> prepared sc (p_world s) (\<lambda>oss k.
      forked sc oss both k (\<lambda>k. after (sc_sigaction sc (sc_SIGUSR1 sc) SIG_DFL) k (\<lambda>_ k. forked sc oss [sc_SIGUSR1 sc] k (\<lambda>_. True))) \<and>
      fate [Sigsuspend oss, Exit_with 42] ign both = St_exited 42 \<and>
      fate [Sigsuspend oss, Exit_with 42] dfl [sc_SIGUSR1 sc] = St_signaled (sc_SIGUSR1 sc))) \<and>
    (prepared sc (p_world s) (\<lambda>oss k. fails (sc_fork sc [Sigsuspend oss, Exit_with 42]) k) \<longrightarrow>
      (\<exists>t. sig_dfl_ign pl sc s = (Undefined, t) \<and>
         pv_sent (view (p_world t)) = pv_sent (view (p_world s)) @ [(- 1, sc_SIGUSR1 sc), (- 1, sc_SIGURG sc)])) \<and>
    (prepared sc (p_world s) (\<lambda>oss k. forked sc oss both k (\<lambda>k. after (sc_sigaction sc (sc_SIGUSR1 sc) SIG_DFL) k (\<lambda>_ k.
        fails (sc_fork sc [Sigsuspend oss, Exit_with 42]) k)) \<and> fate [Sigsuspend oss, Exit_with 42] ign both = St_exited 42) \<longrightarrow>
      (\<exists>pid t. 0 < pid \<and> sig_dfl_ign pl sc s = (Undefined, t) \<and> pv_sent (view (p_world t)) =
         pv_sent (view (p_world s)) @ [(pid, sc_SIGUSR1 sc), (pid, sc_SIGURG sc), (- 1, sc_SIGUSR1 sc)]))"
  by (rule child_signals.sig_dfl_ign_exact [OF assms])

text \<open>A kernel with the view as its state, on which the given calls of \<^verbatim>\<open>fork\<close> work.\<close>

record sc_world =
  sc_view :: proc_view
  sc_forks :: "bool list"

definition disp_kernel :: "(child_action list \<Rightarrow> (int \<Rightarrow> sc_handler) \<Rightarrow> int list \<Rightarrow> sc_status) \<Rightarrow> sc_world sc_env" where
  "disp_kernel fate =
     \<lparr>sc_handler_value = (\<lambda>h. case h of SIG_DFL \<Rightarrow> 0 | SIG_IGN \<Rightarrow> 1 | _ \<Rightarrow> 0x10000),
      sc_getmask = (\<lambda>w. (Inr [], w)), sc_sigaddset = (\<lambda>sig ss w. (Inr (sig # ss), w)), sc_block = (\<lambda>ss w. (Inr [], w)),
      sc_sigaction = (\<lambda>sig h w. (Inr (), w\<lparr>sc_view := (sc_view w)\<lparr>pv_disp := (pv_disp (sc_view w))(sig := h)\<rparr>\<rparr>)),
      sc_fork = (\<lambda>acts w. case sc_forks w of True # fs \<Rightarrow> (Inr 7, \<lparr>sc_view = (sc_view w)\<lparr>pv_child := Some (7, acts, pv_disp (sc_view w), [])\<rparr>, sc_forks = fs\<rparr>)
         | _ \<Rightarrow> (Inl 35, w)),
      sc_kill = (\<lambda>pid sig w. w\<lparr>sc_view := (sc_view w)\<lparr>pv_child := map_option (signalled pid sig) (pv_child (sc_view w)),
         pv_sent := pv_sent (sc_view w) @ [(pid, sig)]\<rparr>\<rparr>),
      sc_waitpid = (\<lambda>pid opt w. case pv_child (sc_view w) of None \<Rightarrow> (Inl 10, w) | Some (p, acts, d, sigs) \<Rightarrow>
         if pid = p \<or> pid = - 1 then (Inr (p, fate acts d sigs), w\<lparr>sc_view := (sc_view w)\<lparr>pv_child := None\<rparr>\<rparr>) else (Inl 10, w)),
      sc_pipe = (\<lambda>w. (Inr (3, 4), w)), sc_close = (\<lambda>fd w. w), sc_read1 = (\<lambda>fd w. (Inr (0, NUL), w)), sc_write1 = (\<lambda>fd c w. w),
      sc_attach = (\<lambda>pid w. (Inl 1, w)), sc_pt_kill = (\<lambda>pid w. (Inl 1, w)),
      sc_SIGUSR1 = 30, sc_SIGURG = 16, sc_SIGSTOP = 17, sc_SIGKILL = 9, sc_SIGABRT = 6\<rparr>"

interpretation disp_kernel: child_signals "disp_kernel fate" sc_view fate for fate
  by unfold_locales (auto simp: disp_kernel_def split: list.splits bool.splits)

text \<open>A child as the standard has it: an ignored signal is dropped, a handler ends the suspension, the default of \<^verbatim>\<open>SIGUSR1\<close> kills.\<close>

fun posix_fate :: "child_action list \<Rightarrow> (int \<Rightarrow> sc_handler) \<Rightarrow> int list \<Rightarrow> sc_status" where
  "posix_fate acts disp [] = St_none"
| "posix_fate acts disp (sig # sigs) =
     (case disp sig of SIG_IGN \<Rightarrow> posix_fate acts disp sigs | SIG_DFL \<Rightarrow> if sig = 30 then St_signaled sig else posix_fate acts disp sigs | _ \<Rightarrow> St_exited 42)"

definition sc_start :: "bool list \<Rightarrow> sc_world" where
  "sc_start forks = \<lparr>sc_view = \<lparr>pv_disp = (\<lambda>sig. SIG_DFL), pv_child = None, pv_sent = []\<rparr>, sc_forks = forks\<rparr>"

theorem sig_dfl_ign_verdict_witness:
  "declares_success (sig_dfl_ign morello_purecap (disp_kernel posix_fate)) (fresh_process morello_purecap (sc_start [True, True])) \<and>
   \<not> declares_success (sig_dfl_ign morello_purecap (disp_kernel (\<lambda>acts disp sigs. St_exited 42))) (fresh_process morello_purecap (sc_start [True, True])) \<and>
   fst (sig_dfl_ign morello_purecap (disp_kernel posix_fate) (fresh_process morello_purecap (sc_start [True]))) = Undefined"
proof -
  have start: "p_ccsp (fresh_process morello_purecap (sc_start forks)) \<noteq> None" "pv_child (sc_view (p_world (fresh_process morello_purecap (sc_start forks)))) = None" for forks
    by (simp_all add: sc_start_def fresh_process_def)
  have signals: "sc_SIGUSR1 (disp_kernel fate) \<noteq> sc_SIGURG (disp_kernel fate)" for fate by (simp add: disp_kernel_def)
  let ?bad = "\<lambda>(acts :: child_action list) (disp :: int \<Rightarrow> sc_handler) (sigs :: int list). St_exited 42"
  note eval = prepared_def forked_def waited_def fails_def after_def disp_kernel_def sc_start_def fresh_process_def
  have "declares_success (sig_dfl_ign morello_purecap (disp_kernel posix_fate)) (fresh_process morello_purecap (sc_start [True, True]))"
    using sig_dfl_ign_verdict [OF disp_kernel.child_signals_axioms [of posix_fate] start [of "[True, True]"] signals refl refl refl, of morello_purecap] by (simp add: eval)
  moreover have "\<not> declares_success (sig_dfl_ign morello_purecap (disp_kernel (\<lambda>acts disp sigs. St_exited 42))) (fresh_process morello_purecap (sc_start [True, True]))"
    using sig_dfl_ign_verdict [OF disp_kernel.child_signals_axioms [of ?bad] start [of "[True, True]"] signals refl refl refl, of morello_purecap] by (simp add: eval)
  moreover have "\<exists>t. sig_dfl_ign morello_purecap (disp_kernel posix_fate) (fresh_process morello_purecap (sc_start [True])) = (Undefined, t)"
    using sig_dfl_ign_verdict [OF disp_kernel.child_signals_axioms [of posix_fate] start [of "[True]"] signals refl refl refl, of morello_purecap] by (auto simp: eval)
  ultimately show ?thesis by auto
qed

section \<open>What the asynchronous test compares\<close>

definition delivers :: "(int \<times> aio_info) list \<Rightarrow> cap \<Rightarrow> unit aio_env" where
  "delivers sigs handler =
     \<lparr>ai_sigaction = (\<lambda>sig k. (Inr (), k)), ai_socketpair = (\<lambda>k. (Inr (3, 4), k)), ai_read = (\<lambda>fd n p k. (Inr (), k)), ai_sigemptyset = (\<lambda>k. (Inr [], k)),
      ai_sigaddset = (\<lambda>sig ss k. (Inr (sig # ss), k)), ai_block = (\<lambda>ss k. (Inr [], k)), ai_close = (\<lambda>fd k. k), ai_alarm = (\<lambda>n k. k),
      ai_sigsuspend = (\<lambda>ss k. ((- 1, 4, sigs), k)), ai_handler = handler, ai_SIGUSR1 = 30, ai_SIGALRM = 14, ai_EINTR = 4, ai_SI_ASYNCIO = 0x10004\<rparr>"

lemma aio_verify_runs:
  "bindP (aio_verify pl call m) f s = (case call (aw_sys (p_world s)) of
     (Inl e, k) \<Rightarrow> bindP (CHERIOSTEST_VERIFY2 pl False m [FInt e]) (\<lambda>_. f undefined) (s\<lparr>p_errno := e, p_world := (p_world s)\<lparr>aw_sys := k\<rparr>\<rparr>)
   | (Inr x, k) \<Rightarrow> f x (s\<lparr>p_world := (p_world s)\<lparr>aw_sys := k\<rparr>\<rparr>))"
  by (simp add: aio_verify_def aio_sys_def bindP_assoc bind_raw_call bind_get_errno bindP_VERIFY2 split: prod.splits sum.splits)

text \<open>
  The address of the handler arrives in the information of the last signal; whether it still is a capability makes no difference. In the order
  of the events: a timeout counts only if it comes last.
\<close>

lemma aio_sival_verdict:
  assumes "p_ccsp s \<noteq> None"
  shows "declares_success (aio_sival pl (delivers (sigs @ [(sig, si)]) handler)) s \<longleftrightarrow>
    sig = 30 \<and> ai_code si = 0x10004 \<and> cap_addr (ai_ptr si) = cap_addr handler"
proof -
  have last: "test_aio_sival_signal (fold run_aio_handler (sigs @ [(sig, si)]) v) = sig" "test_aio_sival_info (fold run_aio_handler (sigs @ [(sig, si)]) v) = si" for v
    by (simp_all add: run_aio_handler_def)
  have w: "bindP get_world f t = f (p_world t) t" for f :: "unit aio_world \<Rightarrow> (unit aio_world, unit) prog" and t
    by (simp add: bindP_def get_world_def)
  have suspend: "bindP (aio_suspend pl (delivers (sigs @ [(sig, si)]) handler) oset) f t =
      f () (t\<lparr>p_errno := 4, p_world := \<lparr>aw_vars = fold run_aio_handler (sigs @ [(sig, si)]) (aw_vars (p_world t)), aw_sys = ()\<rparr>\<rparr>)"
    for f :: "unit \<Rightarrow> (unit aio_world, unit) prog" and t oset
    by (simp add: bindP_def aio_suspend_def delivers_def CHERIOSTEST_VERIFY_def CHERIOSTEST_VERIFY2_def fail_if_def ret_def del: fold_append)
  have sel: "ai_sigaction (delivers ds handler) n k = (Inr (), k)" "ai_socketpair (delivers ds handler) k = (Inr (3, 4), k)"
    "ai_read (delivers ds handler) fd m p k = (Inr (), k)" "ai_sigemptyset (delivers ds handler) k = (Inr [], k)"
    "ai_sigaddset (delivers ds handler) n ss k = (Inr (n # ss), k)" "ai_block (delivers ds handler) ss k = (Inr [], k)"
    "ai_SIGALRM (delivers ds handler) = 14" "ai_SIGUSR1 (delivers ds handler) = 30"
    "ai_SI_ASYNCIO (delivers ds handler) = 0x10004" "ai_handler (delivers ds handler) = handler" for n k fd m p ss ds
    by (simp_all add: delivers_def)
  have result: "declares_success (aio_result pl (delivers (sigs @ [(sig, si)]) handler) (fold run_aio_handler (sigs @ [(sig, si)]) v)) t \<longleftrightarrow>
      p_ccsp t \<noteq> None \<and> sig = 30 \<and> ai_code si = 0x10004 \<and> cap_addr (ai_ptr si) = cap_addr handler" for v t
    by (auto simp: aio_result_def Let_def last sel passes_simps ptr_eq_def simp del: fold_append)
  let ?D = "delivers (sigs @ [(sig, si)]) handler"
  have "aio_sival pl ?D s = aio_result pl ?D (fold run_aio_handler (sigs @ [(sig, si)]) (aw_vars (p_world s)))
      (s\<lparr>p_errno := 4, p_world := \<lparr>aw_vars = fold run_aio_handler (sigs @ [(sig, si)]) (aw_vars (p_world s)), aw_sys = ()\<rparr>\<rparr>)"
    by (simp add: aio_sival_def aio_verify_runs sel bind_upd suspend w del: fold_append)
  then have "declares_success (aio_sival pl ?D) s \<longleftrightarrow> declares_success (aio_result pl ?D (fold run_aio_handler (sigs @ [(sig, si)]) (aw_vars (p_world s))))
      (s\<lparr>p_errno := 4, p_world := \<lparr>aw_vars = fold run_aio_handler (sigs @ [(sig, si)]) (aw_vars (p_world s)), aw_sys = ()\<rparr>\<rparr>)"
    by (rule declares_success_at)
  then show ?thesis using assms unfolding result by simp
qed

end
