(* ===== verification/Vm_Sharing.thy ===== *)
theory Vm_Sharing
  imports Revocation
begin

text \<open>
  The tests of \<^verbatim>\<open>cheriostest_vm.c\<close> with two processes: a shared memory object whose descriptor is sent through a socket, a queue of
  events and a table of signal handlers that a fork leaves shared; objects that hold a revoked capability while nothing maps them; and a stack
  mapping inside a reservation.
\<close>

section \<open>Two processes\<close>

text \<open>
  \<open>sh_turn\<close> hands the processor to the child or back. \<open>sh_recvmsg\<close> gives the descriptor of the control message, if there is one.
  \<^verbatim>\<open>&fd\<close> and \<^verbatim>\<open>&to_revoke\<close> are variables of the tests; a signal handler is read back with the flags of its entry.
\<close>

datatype sh_side = Child | Parent

record 'k share_env =
  sh_rev :: "'k rev_env"
  sh_socketpair :: "('k, int \<times> int) sys"
  sh_fork :: "('k, unit) sys"
  sh_rfork :: "bool \<Rightarrow> ('k, unit) sys" \<comment> \<open>with \<^verbatim>\<open>RFSIGSHARE\<close>\<close>
  sh_turn :: "sh_side \<Rightarrow> 'k \<Rightarrow> 'k"
  sh_sendmsg :: "int \<Rightarrow> int \<Rightarrow> ('k, unit) sys"
  sh_recvmsg :: "int \<Rightarrow> ('k, int option) sys"
  sh_set_handler :: "cap \<Rightarrow> ('k, unit) sys" \<comment> \<open>\<^verbatim>\<open>__sys_sigaction(SIGUSR1, &sa, NULL)\<close>\<close>
  sh_get_handler :: "('k, cap \<times> int) sys"
  sh_malloc :: "nat \<Rightarrow> 'k \<Rightarrow> cap \<times> 'k"
  sh_free :: "cap \<Rightarrow> 'k \<Rightarrow> siginfo option \<times> 'k"
  sh_force_flush :: "'k \<Rightarrow> int \<times> 'k"
  sh_fd_var :: cap
  sh_to_revoke_var :: cap

abbreviation sh_kernel :: "'k share_env \<Rightarrow> 'k vmk" where
  "sh_kernel sh \<equiv> rv_kernel (sh_rev sh)"

definition sh_verbose :: "'k share_env \<Rightarrow> bool" where
  "sh_verbose sh \<longleftrightarrow> verbose (ae_opts (rv_abi (sh_rev sh))) > 0"

definition forked_off :: "platform \<Rightarrow> ('k, unit) sys \<Rightarrow> ('k, unit) prog \<Rightarrow> ('k, unit) prog" where
  "forked_off pl fork parent = bindP (raw_call fork) (\<lambda>r. case r of
       None \<Rightarrow> bindP get_errno (\<lambda>errno. cheriostest_failure_errx pl ''Fork failed; errno=%d'' [FInt errno])
     | Some _ \<Rightarrow> parent)"

text \<open>The parent waits, for a message or in \<^verbatim>\<open>waitpid\<close>, and the child runs to its end.\<close>

definition child_runs :: "platform \<Rightarrow> 'k share_env \<Rightarrow> ('k, unit) prog \<Rightarrow> (wait_status \<Rightarrow> ('k, unit) prog) \<Rightarrow> ('k, unit) prog" where
  "child_runs pl sh child parent =
     bindP (upd_world (sh_turn sh Child)) (\<lambda>_.
     with_child pl child (\<lambda>status. bindP (upd_world (sh_turn sh Parent)) (\<lambda>_. parent status)))"

definition clean_exit :: "platform \<Rightarrow> string \<Rightarrow> wait_status \<Rightarrow> ('k, unit) prog" where
  "clean_exit pl msg status = (if status = WExited 0 then cheriostest_success else cheriostest_failure_errx pl msg [])"

text \<open>
  The sockets: \<^verbatim>\<open>CHERIOSTEST_CHECK_SYSCALL(socketpair(\<dots>) != 0)\<close> looks at 0 or 1, never at -1, so after a failure the array has no values
  and both processes read it.
\<close>

definition socketpair_unchecked :: "'k share_env \<Rightarrow> ('k, (int \<times> int) option) prog" where
  "socketpair_unchecked sh = raw_call (sh_socketpair sh)"

definition sockets :: "(int \<times> int) option \<Rightarrow> (int \<times> int \<Rightarrow> ('k, unit) prog) \<Rightarrow> ('k, unit) prog" where
  "sockets sv body = (case sv of None \<Rightarrow> (\<lambda>s. (Undefined, s)) | Some sv \<Rightarrow> body sv)"

text \<open>A message with no control part leaves \<^verbatim>\<open>CMSG_FIRSTHDR\<close> null.\<close>

definition receive_fd :: "platform \<Rightarrow> 'k share_env \<Rightarrow> int \<Rightarrow> string \<Rightarrow> ('k, int) prog" where
  "receive_fd pl sh sock msg = bindP (CHERIOSTEST_CHECK_SYSCALL pl (sh_recvmsg sh sock) msg) (\<lambda>m. case m of
       None \<Rightarrow> (\<lambda>s. (Undefined, s))
     | Some fd \<Rightarrow> bindP (CHERIOSTEST_VERIFY2 pl (fd \<ge> 0) ''fd read OK'' []) (\<lambda>_. ret fd))"

section \<open>A shared memory object through a socket\<close>

definition unix_surprise_child :: "platform \<Rightarrow> 'k share_env \<Rightarrow> int \<times> int \<Rightarrow> ('k, unit) prog" where
  "unix_surprise_child pl sh sv =
     (let k = sh_kernel sh in
      bindP (raw_call (k_close k (snd sv))) (\<lambda>_.
      bindP (receive_fd pl sh (fst sv) ''recvmsg(sv[0], &msg, 0)'') (\<lambda>fd.
      if \<not> k_PROT_CAP k then no_PROT_CAP pl else
      bindP (CHERIOSTEST_CHECK_SYSCALL pl (k_mmap k (null_mmap pl k [PROT_READ, PROT_CAP] [MAP_SHARED] fd))
        ''mmap(NULL, getpagesize(), PROT_READ | PROT_CAP, MAP_SHARED, fd, 0)'') (\<lambda>map.
      bindP (load_cap k map) (\<lambda>c. block (
        only_if (sh_verbose sh) [notice pl ''rx cap: %#lp'' [FPtr c]] @
        [CHERIOSTEST_VERIFY2 pl (\<not> cheri_tag_get c) ''tag read'' [],
         CHERIOSTEST_CHECK_SYSCALL pl (k_munmap k map (k_pagesize k)) ''munmap(map, getpagesize())'',
         bindP (raw_call (k_close k (fst sv))) (\<lambda>_. ret ()),
         bindP (raw_call (k_close k fd)) (\<lambda>_. ret ()),
         leave (of_bool (cheri_tag_get c))]))))))"

text \<open>\<open>None\<close> stands for \<^verbatim>\<open>SHM_ANON\<close>, which is neither created nor unlinked on CheriBSD.\<close>

definition vm_shm_open_unix_surprise :: "platform \<Rightarrow> 'k share_env \<Rightarrow> string option \<Rightarrow> ('k, unit) prog" where
  "vm_shm_open_unix_surprise pl sh name =
     (let k = sh_kernel sh in
      bindP (socketpair_unchecked sh) (\<lambda>sv.
      forked_off pl (sh_fork sh) (sockets sv (\<lambda>sv.
      bindP (raw_call (k_close k (fst sv))) (\<lambda>_.
      bindP (CHERIOSTEST_CHECK_SYSCALL pl (k_shm_open k name (name \<noteq> None)) ''shm_open(shm_obj_name, flags, 0600)'') (\<lambda>fd.
      bindP (case name of None \<Rightarrow> ret () | Some n \<Rightarrow> CHERIOSTEST_CHECK_SYSCALL pl (k_shm_unlink k n) ''shm_unlink(shm_obj_name)'') (\<lambda>_.
      bindP (truncate_page pl k fd) (\<lambda>_.
      if \<not> k_PROT_CAP k then no_PROT_CAP pl else
      bindP (CHERIOSTEST_CHECK_SYSCALL pl (k_mmap k (null_mmap pl k [PROT_READ, PROT_WRITE, PROT_CAP] [MAP_SHARED] fd))
        ''mmap(NULL, getpagesize(), PROT_READ | PROT_WRITE | PROT_CAP, MAP_SHARED, fd, 0)'') (\<lambda>map.
      bindP (store_cap k map (sh_fd_var sh)) (\<lambda>_.
      bindP (load_cap k map) (\<lambda>c.
      bindP (CHERIOSTEST_VERIFY2 pl (cheri_tag_get c) ''tag not written'' []) (\<lambda>_.
      bindP (block (only_if (sh_verbose sh) [notice pl ''tx cap: %#lp'' [FPtr c]])) (\<lambda>_.
      bindP (CHERIOSTEST_CHECK_SYSCALL pl (k_munmap k map (k_pagesize k)) ''munmap(map, getpagesize())'') (\<lambda>_.
      bindP (CHERIOSTEST_CHECK_SYSCALL pl (sh_sendmsg sh (snd sv) fd) ''sendmsg(sv[1], &msg, 0)'') (\<lambda>_.
      bindP (raw_call (k_close k (snd sv))) (\<lambda>_.
      bindP (raw_call (k_close k fd)) (\<lambda>_.
      child_runs pl sh (unix_surprise_child pl sh sv) (clean_exit pl ''tag transfer succeeded''))))))))))))))))))"

definition vm_shm_open_anon_unix_surprise :: "platform \<Rightarrow> 'k share_env \<Rightarrow> ('k, unit) prog" where
  "vm_shm_open_anon_unix_surprise pl sh = vm_shm_open_unix_surprise pl sh None"

definition vm_shm_open_named_unix_surprise :: "platform \<Rightarrow> 'k share_env \<Rightarrow> ('k, unit) prog" where
  "vm_shm_open_named_unix_surprise pl sh =
     bindP (gen_shm_obj_name pl (sh_kernel sh) 32) (\<lambda>name. vm_shm_open_unix_surprise pl sh (Some (c_str name)))"

section \<open>A queue of events and a table of handlers\<close>

definition kqueue_child :: "platform \<Rightarrow> 'k share_env \<Rightarrow> int \<Rightarrow> ('k, unit) prog" where
  "kqueue_child pl sh kq =
     bindP (CHERIOSTEST_CHECK_SYSCALL pl (rv_kevent_wait (sh_rev sh) kq) ''kevent(kq, NULL, 0, &oke, 1, NULL)'') (\<lambda>oke. block
       [CHERIOSTEST_VERIFY2 pl (cap_addr (ke_ident oke) = 0x2BAD) ''Bad identifier from kqueue'' [],
        CHERIOSTEST_VERIFY2 pl (ke_filter oke = EVFILT_USER) ''Bad filter from kqueue'' [],
        leave (of_bool (cheri_tag_get (ke_udata oke)))])"

definition vm_cap_share_fd_kqueue :: "platform \<Rightarrow> 'k share_env \<Rightarrow> ('k, unit) prog" where
  "vm_cap_share_fd_kqueue pl sh =
     (let rv = sh_rev sh; ident = null_derived pl 0x2BAD;
          add = \<lambda>kq ke. CHERIOSTEST_CHECK_SYSCALL pl (rv_kevent_add rv kq ke) ''kevent(kq, &ike, 1, NULL, 0, NULL)'' in
      bindP (CHERIOSTEST_CHECK_SYSCALL pl (rv_kqueue rv) ''kqueue()'') (\<lambda>kq.
      forked_off pl (sh_rfork sh False) (
      bindP (anon_page pl rv (PAGE_SIZE (rv_resv rv))) (\<lambda>passme.
      bindP (add kq \<lparr>ke_ident = ident, ke_filter = EVFILT_USER, ke_flags = [EV_ADD, EV_ONESHOT], ke_trigger = False, ke_udata = passme\<rparr>) (\<lambda>_.
      bindP (add kq \<lparr>ke_ident = ident, ke_filter = EVFILT_USER, ke_flags = [EV_KEEPUDATA], ke_trigger = True, ke_udata = cap_null pl\<rparr>) (\<lambda>_.
      child_runs pl sh (kqueue_child pl sh kq) (clean_exit pl ''tag transfer'')))))))"

definition sigaction_child :: "platform \<Rightarrow> 'k share_env \<Rightarrow> ('k, unit) prog" where
  "sigaction_child pl sh =
     (let rv = sh_rev sh in
      bindP (checked_mmap pl (rv_resv rv) (cap_null pl) (PAGE_SIZE (rv_resv rv)) [PROT_READ, PROT_WRITE, PROT_EXEC] [MAP_ANON] (- 1)) (\<lambda>passme.
      bindP (CHERIOSTEST_CHECK_SYSCALL pl (sh_set_handler sh passme) ''__sys_sigaction(SIGUSR1, &sa, NULL)'') (\<lambda>_.
      bindP (CHERIOSTEST_CHECK_SYSCALL pl (sh_get_handler sh) ''__sys_sigaction(SIGUSR1, NULL, &sa)'') (\<lambda>(handler, flags). block
        [cheriostest_check_cap_eq pl handler passme ''sa.sa_handler'' ''passme'', leave 0]))))"

text \<open>The status of the child is not asked for.\<close>

definition vm_cap_share_sigaction :: "platform \<Rightarrow> 'k share_env \<Rightarrow> ('k, unit) prog" where
  "vm_cap_share_sigaction pl sh =
     forked_off pl (sh_rfork sh True) (
     child_runs pl sh (sigaction_child pl sh) (\<lambda>_.
     bindP (CHERIOSTEST_CHECK_SYSCALL pl (sh_get_handler sh) ''__sys_sigaction(SIGUSR1, NULL, &sa)'') (\<lambda>(handler, flags).
     bindP (CHERIOSTEST_CHECK_EQ pl ''0x%lx'' flags 0 FInt ''sa.sa_flags'' ''0'') (\<lambda>_.
     if cheri_tag_get handler then cheriostest_failure_errx pl ''tag transfer'' [] else cheriostest_success))))"

section \<open>Objects that nothing maps\<close>

text \<open>The object is filled with the pointer that is revoked later, and unmapped.\<close>

definition hoard :: "platform \<Rightarrow> 'k share_env \<Rightarrow> int \<Rightarrow> (cap \<Rightarrow> ('k, unit) prog) \<Rightarrow> ('k, unit) prog" where
  "hoard pl sh fd unmap =
     (let k = sh_kernel sh in
      bindP (CHERIOSTEST_CHECK_SYSCALL pl (k_mmap k (null_mmap pl k [PROT_READ, PROT_WRITE, PROT_CAP] [MAP_SHARED] fd))
        ''mmap(NULL, getpagesize(), PROT_READ | PROT_WRITE | PROT_CAP, MAP_SHARED, fd, 0)'') (\<lambda>map.
      bindP (observe (sh_malloc sh 1)) (\<lambda>v.
      bindP (store_cap k (sh_to_revoke_var sh) v) (\<lambda>_.
      bindP (load_cap k (sh_to_revoke_var sh)) (\<lambda>to_revoke.
      bindP (store_cap k map to_revoke) (\<lambda>_.
      bindP (load_cap k map) (\<lambda>c. block
        [CHERIOSTEST_VERIFY pl (cheri_tag_get c) ''cheri_tag_get(*map)'', unmap map])))))))"

text \<open>The pointer is freed and revoked.\<close>

definition revoke_variable :: "platform \<Rightarrow> 'k share_env \<Rightarrow> ('k, unit) prog" where
  "revoke_variable pl sh =
     (let k = sh_kernel sh in
      bindP (load_cap k (sh_to_revoke_var sh)) (\<lambda>to_revoke.
      bindP (effect (sh_free sh to_revoke)) (\<lambda>_.
      bindP (observe (sh_force_flush sh)) (\<lambda>r.
      bindP (CHERIOSTEST_VERIFY2 pl (r = 0) ''malloc_revoke_quarantine_force_flush returned %d'' [FInt r]) (\<lambda>_.
      bindP (load_cap k (sh_to_revoke_var sh)) (\<lambda>to_revoke.
      CHERIOSTEST_VERIFY pl (check_revoked to_revoke) ''check_revoked(to_revoke)''))))))"

text \<open>The object is mapped again: it holds the same address, without its tag.\<close>

definition hoard_revoked :: "platform \<Rightarrow> 'k share_env \<Rightarrow> int \<Rightarrow> ('k, unit) prog" where
  "hoard_revoked pl sh fd =
     (let k = sh_kernel sh in
      bindP (CHERIOSTEST_CHECK_SYSCALL pl (k_mmap k (null_mmap pl k [PROT_READ, PROT_WRITE] [MAP_SHARED] fd))
        ''mmap(NULL, getpagesize(), PROT_READ | PROT_WRITE, MAP_SHARED, fd, 0)'') (\<lambda>map. block
        [bindP (load_cap k (sh_to_revoke_var sh)) (\<lambda>to_revoke. bindP (load_cap k map) (\<lambda>c.
           CHERIOSTEST_VERIFY pl (ptr_eq to_revoke c) ''to_revoke == *map'')),
         bindP (load_cap k map) (\<lambda>c. CHERIOSTEST_VERIFY pl (check_revoked c) ''check_revoked(*map)'')]))"

definition cheri_revoke_shm_anon_hoard_unmapped :: "platform \<Rightarrow> 'k share_env \<Rightarrow> ('k, unit) prog" where
  "cheri_revoke_shm_anon_hoard_unmapped pl sh = on_CheriBSD pl (
     let k = sh_kernel sh in
     bindP (shm_anon pl k) (\<lambda>fd. block
       [truncate_page pl k fd,
        hoard pl sh fd (\<lambda>map. bindP (raw_call (k_munmap k map (k_pagesize k))) (\<lambda>_. ret ())),
        revoke_variable pl sh,
        hoard_revoked pl sh fd,
        cheriostest_success]))"

definition hoard_child :: "platform \<Rightarrow> 'k share_env \<Rightarrow> int \<times> int \<Rightarrow> ('k, unit) prog" where
  "hoard_child pl sh sv =
     (let k = sh_kernel sh in
      bindP (raw_call (k_close k (snd sv))) (\<lambda>_.
      bindP (receive_fd pl sh (fst sv) ''recvmsg(sv[0], &msg, 0)'') (\<lambda>fd.
      bindP (CHERIOSTEST_CHECK_SYSCALL pl (sh_sendmsg sh (fst sv) fd) ''sendmsg(sv[0], &msg, 0)'') (\<lambda>_.
      bindP (raw_call (k_close k (fst sv))) (\<lambda>_.
      bindP (raw_call (k_close k fd)) (\<lambda>_. leave 0))))))"

text \<open>
  While the descriptor is on its way, neither process maps the object nor, in the end, holds a descriptor of it. The child may answer as soon
  as the message is there, before anything is revoked, or only when the parent waits for the answer.
\<close>

definition cheri_revoke_shm_anon_hoard_closed :: "platform \<Rightarrow> 'k share_env \<Rightarrow> bool \<Rightarrow> ('k, unit) prog" where
  "cheri_revoke_shm_anon_hoard_closed pl sh early = on_CheriBSD pl (
     let k = sh_kernel sh;
         answer = \<lambda>sv status.
           bindP (receive_fd pl sh (snd sv) ''recvmsg(sv[1], &msg, 0)'') (\<lambda>fd. block
             [hoard_revoked pl sh fd,
              bindP (raw_call (k_close k (snd sv))) (\<lambda>_. ret ()),
              bindP (raw_call (k_close k fd)) (\<lambda>_. ret ()),
              clean_exit pl ''child failed'' status]) in
     bindP (socketpair_unchecked sh) (\<lambda>sv.
     forked_off pl (sh_fork sh) (sockets sv (\<lambda>sv.
     bindP (raw_call (k_close k (fst sv))) (\<lambda>_.
     bindP (shm_anon pl k) (\<lambda>fd.
     bindP (truncate_page pl k fd) (\<lambda>_.
     bindP (hoard pl sh fd (\<lambda>map. CHERIOSTEST_CHECK_SYSCALL pl (k_munmap k map (k_pagesize k)) ''munmap(__DEVOLATILE(void *, map), getpagesize())'')) (\<lambda>_.
     bindP (CHERIOSTEST_CHECK_SYSCALL pl (sh_sendmsg sh (snd sv) fd) ''sendmsg(sv[1], &msg, 0)'') (\<lambda>_.
     if early
     then child_runs pl sh (hoard_child pl sh sv) (\<lambda>status.
       bindP (raw_call (k_close k fd)) (\<lambda>_.
       bindP (revoke_variable pl sh) (\<lambda>_. answer sv status)))
     else
       bindP (raw_call (k_close k fd)) (\<lambda>_.
       bindP (revoke_variable pl sh) (\<lambda>_.
       child_runs pl sh (hoard_child pl sh sv) (answer sv))))))))))))"

section \<open>A stack inside a reservation\<close>

definition mmap_insert_stack :: "platform \<Rightarrow> 'k share_env \<Rightarrow> ('k, unit) prog" where
  "mmap_insert_stack pl sh =
     (let re = rv_resv (sh_rev sh); k = sh_kernel sh in
      bindP (CHERIOSTEST_CHECK_SYSCALL pl (mmap_call re (null_derived pl 0x20000000) 0x1000000 [PROT_WRITE, PROT_READ] [MAP_FIXED, MAP_ANON, MAP_PRIVATE] (- 1))
        ''mmap((void *)(intptr_t)0x20000000, 0x1000000, PROT_WRITE | PROT_READ, MAP_FIXED | MAP_ANONYMOUS | MAP_PRIVATE, -1, 0)'') (\<lambda>p. block
        [CHERIOSTEST_CHECK_CALL_ERROR pl ''mmap(cheri_address_set(p, 0x20ffc000), 0x2000, PROT_WRITE | PROT_READ, MAP_STACK | MAP_FIXED, -1, 0)''
           (int_call (\<lambda>w. case mmap_call re (cheri_address_set pl p 0x20ffc000) 0x2000 [PROT_WRITE, PROT_READ] [MAP_STACK, MAP_FIXED] (- 1) w of
              (Inl e, w) \<Rightarrow> (Inl e, w) | (Inr _, w) \<Rightarrow> (Inr (), w)))
           (ENOMEM k),
         CHERIOSTEST_CHECK_SYSCALL pl (k_munmap k (cheri_address_set pl p 0x20ffc000) 0x3000) ''munmap(cheri_address_set(p, 0x20ffc000), 0x3000)'',
         cheriostest_success]))"

end
