(* ===== verification/Vm_Sharing_Proofs.thy ===== *)
theory Vm_Sharing_Proofs
  imports Vm_Sharing Cheriabi_Proofs
begin

text \<open>What the tests with two processes decide, on a system that shares one object, one queue and one table of handlers.\<close>

section \<open>Statements\<close>

lemma success_load [passes_simps]:
  "declares_success (bindP (Vm_System.load_cap k p) f) s \<longleftrightarrow> (case k_load k p (p_world s) of
     (Inl i, w) \<Rightarrow> False | (Inr c, w) \<Rightarrow> declares_success (f c) (s\<lparr>p_world := w\<rparr>))"
  by (simp add: declares_success_def bindP_def Vm_System.load_cap_def split: prod.splits sum.splits)

lemma success_store [passes_simps]:
  "declares_success (bindP (Vm_System.store_cap k p c) f) s \<longleftrightarrow> (case k_store k p c (p_world s) of
     (Some i, w) \<Rightarrow> False | (None, w) \<Rightarrow> declares_success (f ()) (s\<lparr>p_world := w\<rparr>))"
  by (simp add: declares_success_def bindP_def Vm_System.store_cap_def split: prod.splits option.splits)

lemma bind_load:
  "bindP (Vm_System.load_cap k p) f s = (case k_load k p (p_world s) of
     (Inl i, w) \<Rightarrow> (Trapped i, s\<lparr>p_world := w\<rparr>) | (Inr c, w) \<Rightarrow> f c (s\<lparr>p_world := w\<rparr>))"
  by (simp add: bindP_def Vm_System.load_cap_def split: prod.splits sum.splits)

lemma bind_upd_world: "bindP (upd_world g) f s = f () (s\<lparr>p_world := g (p_world s)\<rparr>)"
  by (simp add: bindP_def upd_world_def)

text \<open>A child that exits with 0, or with what the parent cannot tell from it, and leaves the shared page in place.\<close>

definition exits_clean :: "('k, unit) prog \<Rightarrow> 'k pstate \<Rightarrow> bool" where
  "exits_clean p s \<longleftrightarrow> (case p s of (r, t) \<Rightarrow> (case r of Exited n \<Rightarrow> 256 dvd n \<and> p_ccsp t \<noteq> None | _ \<Rightarrow> False))"

lemma success_child_runs [passes_simps]:
  "declares_success (child_runs pl sh child (clean_exit pl msg)) s \<longleftrightarrow> exits_clean child (s\<lparr>p_world := sh_turn sh Child (p_world s)\<rparr>)"
proof -
  let ?s = "s\<lparr>p_world := sh_turn sh Child (p_world s)\<rparr>"
  obtain r t where r: "child ?s = (r, t)" by fastforce
  have "child_runs pl sh child (clean_exit pl msg) s = (case finish_process pl (r, t) of (status, u) \<Rightarrow> clean_exit pl msg status
      (u\<lparr>p_errno := p_errno s, p_sigaction := p_sigaction s, p_world := sh_turn sh Parent (p_world u)\<rparr>))"
    using r by (simp add: child_runs_def bindP_def upd_world_def with_child_def split: prod.splits)
  then show ?thesis using r
    by (auto simp: declares_success_def exits_clean_def finish_process_def clean_exit_def EX_SOFTWARE_def cheriostest_success_def
        cheriostest_failure_errx_def vcheriostest_failure_errx_def split: outcome.splits option.splits)
qed

lemma success_clean_exit [passes_simps]:
  "declares_success (clean_exit pl msg st) s \<longleftrightarrow> st = WExited 0 \<and> p_ccsp s \<noteq> None"
  by (simp add: clean_exit_def passes_simps)

named_theorems clean_simps \<open>when a child exits with 0\<close>

lemma clean_failure [clean_simps]:
  "\<not> exits_clean (cheriostest_failure_errx pl m a) s" "\<not> exits_clean (cheriostest_failure_err pl m a) s"
  by (simp_all add: exits_clean_def cheriostest_failure_errx_def cheriostest_failure_err_def vcheriostest_failure_errx_def
      vcheriostest_failure_errc_def EX_SOFTWARE_def split: option.splits)

lemma clean_leave [clean_simps]: "exits_clean (leave n) s \<longleftrightarrow> 256 dvd n \<and> p_ccsp s \<noteq> None"
  by (simp add: exits_clean_def leave_def)

lemma clean_bind [clean_simps]:
  "exits_clean (bindP (CHERIOSTEST_VERIFY2 pl b m a) f) s \<longleftrightarrow> b \<and> exits_clean (f ()) s"
  "exits_clean (bindP (Vm_System.CHERIOSTEST_CHECK_SYSCALL pl call m) g) s \<longleftrightarrow> (case call (p_world s) of
     (Inl e, w) \<Rightarrow> False | (Inr x, w) \<Rightarrow> exits_clean (g x) (s\<lparr>p_world := w\<rparr>))"
  "exits_clean (bindP (raw_call call) h) s \<longleftrightarrow> (case call (p_world s) of
     (Inl e, w) \<Rightarrow> exits_clean (h None) (s\<lparr>p_errno := e, p_world := w\<rparr>) | (Inr x, w) \<Rightarrow> exits_clean (h (Some x)) (s\<lparr>p_world := w\<rparr>))"
  "exits_clean (bindP (Vm_System.load_cap k p) q) s \<longleftrightarrow> (case k_load k p (p_world s) of
     (Inl i, w) \<Rightarrow> False | (Inr c, w) \<Rightarrow> exits_clean (q c) (s\<lparr>p_world := w\<rparr>))"
  subgoal by (cases b) (simp_all add: bindP_VERIFY2 clean_failure)
  subgoal by (cases "call (p_world s)"; cases "fst (call (p_world s))") (simp_all add: exits_clean_def bind_syscall clean_failure [unfolded exits_clean_def])
  subgoal by (cases "call (p_world s)"; cases "fst (call (p_world s))") (simp_all add: exits_clean_def bind_raw_call)
  subgoal by (cases "k_load k p (p_world s)"; cases "fst (k_load k p (p_world s))") (simp_all add: exits_clean_def bind_load)
  done

section \<open>The system\<close>

text \<open>
  One object with one capability, one queue, one handler, one variable. The other process is given \<open>pass c\<close> for a capability \<open>c\<close>; the
  revoker leaves \<open>sweep held c\<close> of what an unmapped object has, \<open>held\<close> saying whether a process has it open. \<open>child_maps\<close> tells
  whether \<^verbatim>\<open>mmap\<close> works in the child.
\<close>

record share_world =
  hw_obj :: cap
  hw_var :: cap
  hw_queue :: cap
  hw_handler :: cap
  hw_side :: sh_side
  hw_open :: nat

definition share_cap :: "ptraddr \<Rightarrow> cap" where
  "share_cap a = \<lparr>cap_tag = True, cap_addr = a, cap_base = a, cap_len = 4096, cap_perms = 0x36008, cap_otype = 0, cap_flags = 0\<rparr>"

definition share_vmk :: "(cap \<Rightarrow> cap) \<Rightarrow> bool \<Rightarrow> share_world vmk" where
  "share_vmk pass child_maps =
     \<lparr>k_random = (\<lambda>w. (7, w)), k_shm_open = (\<lambda>_ _ w. (Inr 5, w\<lparr>hw_open := 1\<rparr>)), k_shm_unlink = (\<lambda>_ w. (Inr (), w)),
      k_memfd_create = (\<lambda>_ w. (Inl 24, w)), k_open = (\<lambda>_ w. (Inl 2, w)), k_mkstemp = (\<lambda>_ w. (Inl 13, w)), k_unlink = (\<lambda>_ w. (Inl 2, w)),
      k_ftruncate = (\<lambda>_ _ w. (Inr (), w)),
      k_mmap = (\<lambda>a w. (if ma_fd a = 5 then Inr (share_cap 0x40000000)
         else if hw_side w = Child \<and> \<not> child_maps then Inl 12 else Inr (share_cap 0x50000000), w)),
      k_munmap = (\<lambda>_ _ w. (Inr (), w)), k_mprotect = (\<lambda>_ _ _ w. (Inr (), w)),
      k_close = (\<lambda>fd w. (Inr (), if fd = 5 then w\<lparr>hw_open := hw_open w - 1\<rparr> else w)),
      k_store = (\<lambda>p c w. (None, if cap_addr p = 0x40000000 then w\<lparr>hw_obj := c\<rparr> else w\<lparr>hw_var := c\<rparr>)),
      k_load = (\<lambda>p w. (Inr (if cap_addr p \<noteq> 0x40000000 then hw_var w else if hw_side w = Child then pass (hw_obj w) else hw_obj w), w)),
      k_touch = (\<lambda>_ w. (None, w)), k_read = (\<lambda>_ w. (Inl 9, w)), k_write = (\<lambda>_ _ w. (Inl 9, w)),
      k_pagesize = 4096, k_PROT_CAP = True, k_PROT_NO_CAP = True, k_local = share_cap 0x7000,
      EINVAL = 22, ENOMEM = 12, EACCES = 13, ENOTSUP = 45, EPROT = 35\<rparr>"

definition share_rev :: "(cap \<Rightarrow> cap) \<Rightarrow> bool \<Rightarrow> share_world rev_env" where
  "share_rev pass child_maps =
     \<lparr>rv_abi = abi_example (share_vmk pass child_maps), rv_get_shadow = (\<lambda>kind p w. (Inr p, w)), rv_shadow_byte = (\<lambda>sh i v w. (None, w)),
      rv_shadow_fill = (\<lambda>sh v w. (None, w)), rv_info = (\<lambda>w. (\<lparr>ep_enqueue = 0, ep_dequeue = 0\<rparr>, w)), rv_base_mem_nomap = 0,
      rv_revoke = (\<lambda>flags start w. (Inr \<lparr>ep_enqueue = 0, ep_dequeue = 0\<rparr>, w)), cheri_revoke_epoch_clears = (\<lambda>now before. True),
      caprev_shadow_nomap_set = (\<lambda>b sh p c w. (0, w)), caprev_shadow_nomap_clear = (\<lambda>b sh c w. w),
      rv_dump = (\<lambda>_ _ _. ret ()), rv_srand = (\<lambda>_ w. w), rv_rand = (\<lambda>w. (600, w)), rv_mincore = (\<lambda>_ _ w. (Inr [], w)),
      rv_msync_invalidate = (\<lambda>_ _ w. (Inr (), w)), MINCORE_INCORE = 1, MINCORE_MODIFIED = 4, MINCORE_CAPSTORE = 0x80,
      rv_capstore_on_alloc = (\<lambda>w. (Inr False, w)), rv_fork = (\<lambda>w. (Inr 7, w)), rv_kqueue = (\<lambda>w. (Inr 6, w)), rv_pipe = (\<lambda>w. (Inr (3, 4), w)),
      rv_kevent_add = (\<lambda>_ ke w. (Inr (), if ke_trigger ke then w else w\<lparr>hw_queue := ke_udata ke\<rparr>)),
      rv_kevent_wait = (\<lambda>_ w. (Inr \<lparr>ke_ident = null_derived morello_purecap 0x2BAD, ke_filter = EVFILT_USER, ke_flags = [], ke_trigger = True,
        ke_udata = pass (hw_queue w)\<rparr>, w)),
      rv_write_byte = (\<lambda>_ _ w. (Inr 1, w)), rv_read_byte = (\<lambda>_ w. (Inr (1, 42), w)), rv_function = cap_null morello_purecap,
      rv_vmmap = (\<lambda>w. (Some [], w)), rv_procstat_ok = True, rv_procs = Some 1, rv_usleep = (\<lambda>_ w. w), rv_pthread_create = (\<lambda>w. (0, w)),
      rv_reap = (\<lambda>_ w. w), rv_stop_forker = (\<lambda>w. w), rv_pthread_join = (\<lambda>w. (0, w))\<rparr>"

definition share_system :: "(cap \<Rightarrow> cap) \<Rightarrow> (bool \<Rightarrow> cap \<Rightarrow> cap) \<Rightarrow> bool \<Rightarrow> share_world share_env" where
  "share_system pass sweep child_maps =
     \<lparr>sh_rev = share_rev pass child_maps, sh_socketpair = (\<lambda>w. (Inr (3, 4), w)), sh_fork = (\<lambda>w. (Inr (), w)), sh_rfork = (\<lambda>_ w. (Inr (), w)),
      sh_turn = (\<lambda>side w. w\<lparr>hw_side := side\<rparr>), sh_sendmsg = (\<lambda>_ _ w. (Inr (), w)), sh_recvmsg = (\<lambda>_ w. (Inr (Some 5), w\<lparr>hw_open := hw_open w + 1\<rparr>)),
      sh_set_handler = (\<lambda>c w. (Inr (), w\<lparr>hw_handler := c\<rparr>)),
      sh_get_handler = (\<lambda>w. (Inr (if hw_side w = Child then hw_handler w else pass (hw_handler w), 0), w)),
      sh_malloc = (\<lambda>n w. (share_cap 0x60000, w)), sh_free = (\<lambda>c w. (None, w)),
      sh_force_flush = (\<lambda>w. (0, w\<lparr>hw_var := cheri_tag_clear (hw_var w), hw_obj := sweep (hw_open w > 0) (hw_obj w)\<rparr>)),
      sh_fd_var = share_cap 0x8000, sh_to_revoke_var = share_cap 0x9000\<rparr>"

lemmas share_defs = share_system_def share_rev_def share_vmk_def abi_example_def sh_verbose_def

lemma share_cap_sel: "cap_addr (share_cap a) = a" "cap_tag (share_cap a)"
  by (simp_all add: share_cap_def)

lemma share_sel:
  "k_mmap (sh_kernel (share_system pass sweep cm)) a w = (if ma_fd a = 5 then Inr (share_cap 0x40000000)
     else if hw_side w = Child \<and> \<not> cm then Inl 12 else Inr (share_cap 0x50000000), w)"
  "k_store (sh_kernel (share_system pass sweep cm)) p c w = (None, if cap_addr p = 0x40000000 then w\<lparr>hw_obj := c\<rparr> else w\<lparr>hw_var := c\<rparr>)"
  "k_load (sh_kernel (share_system pass sweep cm)) p w =
     (Inr (if cap_addr p \<noteq> 0x40000000 then hw_var w else if hw_side w = Child then pass (hw_obj w) else hw_obj w), w)"
  "k_close (sh_kernel (share_system pass sweep cm)) fd w = (Inr (), if fd = 5 then w\<lparr>hw_open := hw_open w - 1\<rparr> else w)"
  "k_munmap (sh_kernel (share_system pass sweep cm)) p n w = (Inr (), w)"
  "k_ftruncate (sh_kernel (share_system pass sweep cm)) fd n w = (Inr (), w)"
  "k_shm_open (sh_kernel (share_system pass sweep cm)) nm b w = (Inr 5, w\<lparr>hw_open := 1\<rparr>)"
  "k_shm_unlink (sh_kernel (share_system pass sweep cm)) m w = (Inr (), w)"
  "k_PROT_CAP (sh_kernel (share_system pass sweep cm))" "\<not> sh_verbose (share_system pass sweep cm)"
  "rv_kqueue (sh_rev (share_system pass sweep cm)) w = (Inr 6, w)"
  "rv_kevent_add (sh_rev (share_system pass sweep cm)) kq ke w = (Inr (), if ke_trigger ke then w else w\<lparr>hw_queue := ke_udata ke\<rparr>)"
  "rv_kevent_wait (sh_rev (share_system pass sweep cm)) kq w = (Inr \<lparr>ke_ident = null_derived morello_purecap 0x2BAD, ke_filter = EVFILT_USER, ke_flags = [],
     ke_trigger = True, ke_udata = pass (hw_queue w)\<rparr>, w)"
  "sh_socketpair (share_system pass sweep cm) w = (Inr (3, 4), w)" "sh_fork (share_system pass sweep cm) w = (Inr (), w)"
  "sh_rfork (share_system pass sweep cm) b w = (Inr (), w)" "sh_turn (share_system pass sweep cm) side w = w\<lparr>hw_side := side\<rparr>"
  "sh_sendmsg (share_system pass sweep cm) i j w = (Inr (), w)"
  "sh_recvmsg (share_system pass sweep cm) i w = (Inr (Some 5), w\<lparr>hw_open := hw_open w + 1\<rparr>)"
  "sh_set_handler (share_system pass sweep cm) c w = (Inr (), w\<lparr>hw_handler := c\<rparr>)"
  "sh_get_handler (share_system pass sweep cm) w = (Inr (if hw_side w = Child then hw_handler w else pass (hw_handler w), 0), w)"
  "sh_malloc (share_system pass sweep cm) n w = (share_cap 0x60000, w)" "sh_free (share_system pass sweep cm) c w = (None, w)"
  "sh_force_flush (share_system pass sweep cm) w = (0, w\<lparr>hw_var := cheri_tag_clear (hw_var w), hw_obj := sweep (hw_open w > 0) (hw_obj w)\<rparr>)"
  "cap_addr (sh_fd_var (share_system pass sweep cm)) = 0x8000" "sh_fd_var (share_system pass sweep cm) = share_cap 0x8000"
  "cap_addr (sh_to_revoke_var (share_system pass sweep cm)) = 0x9000"
  by (simp_all add: share_defs share_cap_def)

lemma share_mmap_call:
  "mmap_call (rv_resv (sh_rev (share_system pass sweep cm))) a n prot flags fd w =
     (if fd = 5 then Inr (share_cap 0x40000000) else if hw_side w = Child \<and> \<not> cm then Inl 12 else Inr (share_cap 0x50000000), w)"
  by (simp add: mmap_call_def share_sel)

lemmas share_runs = share_sel share_mmap_call share_cap_sel success_raw_call declares_success_syscall
  passes_simps clean_simps bindP_assoc forked_off_def socketpair_unchecked_def sockets_def receive_fd_def null_mmap_def truncate_page_def
  shm_anon_def checked_mmap_def anon_page_def Let_def

section \<open>Verdicts\<close>

lemma unix_surprise_verdict:
  assumes "p_ccsp s \<noteq> None" "hw_side (p_world s) = Parent"
  shows "declares_success (vm_shm_open_unix_surprise pl (share_system pass sweep cm) name) s \<longleftrightarrow> \<not> cap_tag (pass (share_cap 0x8000))"
  using assms by (cases name) (simp_all add: vm_shm_open_unix_surprise_def unix_surprise_child_def share_runs cheri_tag_get_def)

lemma kqueue_verdict:
  assumes "p_ccsp s \<noteq> None" "hw_side (p_world s) = Parent"
  shows "declares_success (vm_cap_share_fd_kqueue pl (share_system pass sweep cm)) s \<longleftrightarrow> \<not> cap_tag (pass (share_cap 0x50000000))"
  using assms by (simp add: vm_cap_share_fd_kqueue_def kqueue_child_def share_runs cheri_tag_get_def null_derived_def)

text \<open>What the test of the handlers makes of a child that has ended in any way.\<close>

lemma sigaction_parent:
  assumes "finish_process pl (sigaction_child pl (share_system pass sweep cm) (s\<lparr>p_world := (p_world s)\<lparr>hw_side := Child\<rparr>\<rparr>)) = (st, t)" "p_ccsp t \<noteq> None"
  shows "declares_success (vm_cap_share_sigaction pl (share_system pass sweep cm)) s \<longleftrightarrow> \<not> cap_tag (pass (hw_handler (p_world t)))"
proof -
  let ?get = "bindP (Vm_System.CHERIOSTEST_CHECK_SYSCALL pl (sh_get_handler (share_system pass sweep cm)) ''__sys_sigaction(SIGUSR1, NULL, &sa)'') (\<lambda>(handler, flags).
     bindP (CHERIOSTEST_CHECK_EQ pl ''0x%lx'' flags 0 FInt ''sa.sa_flags'' ''0'') (\<lambda>_.
     if cheri_tag_get handler then cheriostest_failure_errx pl ''tag transfer'' [] else cheriostest_success))"
  have "vm_cap_share_sigaction pl (share_system pass sweep cm) s =
      ?get (t\<lparr>p_errno := p_errno s, p_sigaction := p_sigaction s, p_world := (p_world t)\<lparr>hw_side := Parent\<rparr>\<rparr>)"
    using assms(1) by (simp add: vm_cap_share_sigaction_def forked_off_def bind_raw_call share_sel child_runs_def bind_upd_world with_child_def)
  then show ?thesis using assms(2) by (simp add: declares_success_at [of "vm_cap_share_sigaction _ _"] share_runs CHERIOSTEST_CHECK_EQ_def cheri_tag_get_def)
qed

lemma sigaction_child_runs:
  assumes "p_ccsp s \<noteq> None" "hw_side (p_world s) = Child"
  shows "\<exists>n t. sigaction_child pl (share_system pass sweep cm) s = (Exited n, t) \<and> p_ccsp t \<noteq> None \<and>
    hw_handler (p_world t) = (if cm then share_cap 0x50000000 else hw_handler (p_world s)) \<and> (n = 0 \<longleftrightarrow> cm)"
proof (cases cm)
  case True
  then show ?thesis using assms
    by (simp add: sigaction_child_def share_sel share_mmap_call checked_mmap_def bind_syscall Let_def cheriostest_check_cap_eq_def prog_simps bindP_assoc
        CHECK_CAP_ATTR_def leave_def)
next
  case False
  then show ?thesis using assms
    by (auto simp: sigaction_child_def share_sel share_mmap_call checked_mmap_def bind_syscall Let_def cheriostest_failure_err_def
        vcheriostest_failure_errc_def EX_SOFTWARE_def print_stderr_def split: option.splits)
qed


definition share_start :: share_world where
  "share_start = \<lparr>hw_obj = cap_null morello_purecap, hw_var = cap_null morello_purecap, hw_queue = cap_null morello_purecap,
     hw_handler = cap_null morello_purecap, hw_side = Parent, hw_open = 0\<rparr>"


section \<open>Objects that nothing maps\<close>

lemma hoard_child_runs: "hoard_child pl (share_system pass sweep cm) (3, 4) s = (Exited 0, s)"
  by (simp add: hoard_child_def share_sel receive_fd_def bind_raw_call bind_syscall bindP_assoc prog_simps leave_def Let_def)

lemma hoard_child_then:
  "declares_success (child_runs pl (share_system pass sweep cm) (hoard_child pl (share_system pass sweep cm) (3, 4)) parent) s \<longleftrightarrow>
     declares_success (parent (WExited 0)) (s\<lparr>p_world := (p_world s)\<lparr>hw_side := Parent\<rparr>\<rparr>)"
proof (rule declares_success_at)
  show "child_runs pl (share_system pass sweep cm) (hoard_child pl (share_system pass sweep cm) (3, 4)) parent s =
      parent (WExited 0) (s\<lparr>p_world := (p_world s)\<lparr>hw_side := Parent\<rparr>\<rparr>)"
    by (simp add: child_runs_def bind_upd_world with_child_def hoard_child_runs finish_process_def share_sel)
qed

lemmas hoard_runs = hoard_def revoke_variable_def hoard_revoked_def hoard_child_then share_runs on_CheriBSD_def ptr_eq_def cheri_tag_get_def
  cheri_tag_clear_def check_revoked_def

text \<open>
  The tests of objects that hold a pointer while nothing maps them succeed exactly when the revoker has looked into the object and changed
  nothing but the tag: for the one that the process keeps open, and for the one that is only in a message on its way, whether the child has
  answered before the revocation or answers after it.
\<close>

theorem hoard_tests_verdict:
  assumes "p_ccsp s \<noteq> None" "hw_side (p_world s) = Parent" "pl_os pl = CheriBSD"
  shows "(declares_success (cheri_revoke_shm_anon_hoard_unmapped pl (share_system pass sweep cm)) s \<longleftrightarrow>
      cap_addr (sweep True (share_cap 0x60000)) = 0x60000 \<and> check_revoked (sweep True (share_cap 0x60000))) \<and>
    (declares_success (cheri_revoke_shm_anon_hoard_closed pl (share_system pass sweep cm) early) s \<longleftrightarrow>
      cap_addr (sweep False (share_cap 0x60000)) = 0x60000 \<and> check_revoked (sweep False (share_cap 0x60000)))"
proof
  show "declares_success (cheri_revoke_shm_anon_hoard_unmapped pl (share_system pass sweep cm)) s \<longleftrightarrow>
      cap_addr (sweep True (share_cap 0x60000)) = 0x60000 \<and> check_revoked (sweep True (share_cap 0x60000))"
    using assms by (auto simp: cheri_revoke_shm_anon_hoard_unmapped_def hoard_runs simp del: One_nat_def)
  show "declares_success (cheri_revoke_shm_anon_hoard_closed pl (share_system pass sweep cm) early) s \<longleftrightarrow>
      cap_addr (sweep False (share_cap 0x60000)) = 0x60000 \<and> check_revoked (sweep False (share_cap 0x60000))"
    using assms by (cases early) (auto simp: cheri_revoke_shm_anon_hoard_closed_def hoard_runs simp del: One_nat_def)
qed

text \<open>A revoker that knows only objects somebody has open.\<close>

theorem hoard_tests_verdict_witness:
  "declares_success (cheri_revoke_shm_anon_hoard_unmapped morello_purecap (share_system (\<lambda>c. c) (\<lambda>held c. if held then cheri_tag_clear c else c) True))
     (fresh_process morello_purecap share_start) \<and>
   \<not> declares_success (cheri_revoke_shm_anon_hoard_closed morello_purecap (share_system (\<lambda>c. c) (\<lambda>held c. if held then cheri_tag_clear c else c) True) True)
     (fresh_process morello_purecap share_start)"
  using hoard_tests_verdict [of "fresh_process morello_purecap share_start" morello_purecap "\<lambda>c. c" "\<lambda>held c. if held then cheri_tag_clear c else c" True True]
  by (simp add: share_start_def share_cap_def fresh_process_def morello_purecap_def check_revoked_def cheri_tag_clear_def cheri_tag_get_def
      cheri_type_get_def cheri_perms_get_def)

end
