(* ===== verification/Tls_Threads.thy ===== *)
theory Tls_Threads
  imports Statements
begin

text \<open>
  \<^verbatim>\<open>cheriostest_tls_threads.c\<close>: two threads that take the addresses of their thread-local variables and meet at a condition
  variable. The statements of each thread are the rules of a step relation; which thread takes the next step is left open, and
  \<^verbatim>\<open>pthread_cond_wait\<close> may come back although nobody has called it back.
\<close>

section \<open>Variables\<close>

datatype tls_var = tls_gd | tls_ld | tls_ie | tls_le

datatype tls_side = My | Thr

text \<open>
  Where the linker and the loader put the instances of the two threads, as the pointers \<^verbatim>\<open>&tls_gd\<close> and so on have it. The first two
  variables are there with \<^verbatim>\<open>CHERIBSD_DYNAMIC_TESTS\<close>.
\<close>

record tls_env =
  te_dynamic :: bool
  te_exact :: bool \<comment> \<open>\<^verbatim>\<open>TLS_EXACT_BOUNDS\<close>\<close>
  te_addr :: "tls_side \<Rightarrow> tls_var \<Rightarrow> cap"

definition tls_vars :: "tls_env \<Rightarrow> tls_var list" where
  "tls_vars e = (if te_dynamic e then [tls_gd, tls_ld] else []) @ [tls_ie, tls_le]"

fun tls_init :: "tls_var \<Rightarrow> int" where
  "tls_init tls_gd = 1"
| "tls_init tls_ld = 2"
| "tls_init tls_ie = 3"
| "tls_init tls_le = 4"

section \<open>Threads\<close>

text \<open>
  Where each thread is. \<open>M_Test\<close> is the condition of \<^verbatim>\<open>while (thread_done == 0)\<close>, \<open>M_Sleep\<close> is inside \<^verbatim>\<open>pthread_cond_wait\<close>, \<open>M_Read\<close>
  holds the variables that are still to be read; \<open>T_Vars\<close> and \<open>T_Inc\<close> are the two statements for each variable.
\<close>

datatype main_pc = M_Create | M_Lock | M_Test | M_Sleep | M_Read "tls_var list" | M_Set | M_Broadcast | M_Unlock | M_Check

datatype thread_pc = T_None | T_Vars "tls_var list" | T_Inc tls_var "tls_var list" | T_Lock | T_Set | T_Broadcast | T_Wait | T_Sleep | T_Test | T_Unlock | T_End

text \<open>
  The mutex and the threads that wait at the condition variable, \<^verbatim>\<open>thread_done\<close>, the pointers \<^verbatim>\<open>thr_tls_gd\<close>, \<dots> (null at first), the
  memory, and the variables \<^verbatim>\<open>thr_tls_gd_val\<close>, \<dots>. \<open>ts_error\<close> is the call whose failure has ended the process.
\<close>

record tls_state =
  ts_main :: main_pc
  ts_thread :: thread_pc
  ts_owner :: "tls_side option"
  ts_waiting :: "tls_side set"
  thread_done :: int
  ts_thr :: "tls_var \<Rightarrow> cap option"
  ts_mem :: "ptraddr \<Rightarrow> int"
  ts_vals :: "tls_var \<Rightarrow> int"
  ts_error :: "string option"

text \<open>\<^verbatim>\<open>test_tls_threads_get_vars\<close>.\<close>

inductive thread_step :: "tls_env \<Rightarrow> tls_state \<Rightarrow> tls_state \<Rightarrow> bool" for e where
  t_addr: "ts_thread s = T_Vars (x # xs) \<Longrightarrow> thread_step e s (s\<lparr>ts_thr := (ts_thr s)(x := Some (te_addr e Thr x)), ts_thread := T_Inc x xs\<rparr>)"
| t_inc: "ts_thread s = T_Inc x xs \<Longrightarrow> a = cap_addr (te_addr e Thr x) \<Longrightarrow>
     thread_step e s (s\<lparr>ts_mem := (ts_mem s)(a := ts_mem s a + 1), ts_thread := T_Vars xs\<rparr>)"
| t_vars: "ts_thread s = T_Vars [] \<Longrightarrow> thread_step e s (s\<lparr>ts_thread := T_Lock\<rparr>)"
| t_lock: "ts_thread s = T_Lock \<Longrightarrow> ts_owner s = None \<Longrightarrow> thread_step e s (s\<lparr>ts_owner := Some Thr, ts_thread := T_Set\<rparr>)"
| t_set: "ts_thread s = T_Set \<Longrightarrow> thread_step e s (s\<lparr>thread_done := 1, ts_thread := T_Broadcast\<rparr>)"
| t_broadcast: "ts_thread s = T_Broadcast \<Longrightarrow> thread_step e s (s\<lparr>ts_waiting := {}, ts_thread := T_Wait\<rparr>)"
| t_wait: "ts_thread s = T_Wait \<Longrightarrow> thread_step e s (s\<lparr>ts_owner := None, ts_waiting := insert Thr (ts_waiting s), ts_thread := T_Sleep\<rparr>)"
| t_wake: "ts_thread s = T_Sleep \<Longrightarrow> Thr \<notin> ts_waiting s \<Longrightarrow> ts_owner s = None \<Longrightarrow> thread_step e s (s\<lparr>ts_owner := Some Thr, ts_thread := T_Test\<rparr>)"
| t_again: "ts_thread s = T_Test \<Longrightarrow> thread_done s = 1 \<Longrightarrow> thread_step e s (s\<lparr>ts_thread := T_Wait\<rparr>)"
| t_leave: "ts_thread s = T_Test \<Longrightarrow> thread_done s \<noteq> 1 \<Longrightarrow> thread_step e s (s\<lparr>ts_thread := T_Unlock\<rparr>)"
| t_unlock: "ts_thread s = T_Unlock \<Longrightarrow> thread_step e s (s\<lparr>ts_owner := None, ts_thread := T_End\<rparr>)"

text \<open>\<^verbatim>\<open>tls_threads\<close>, up to where both threads have met. A null pointer that is read stops the machine: there is no step.\<close>

inductive main_step :: "tls_env \<Rightarrow> tls_state \<Rightarrow> tls_state \<Rightarrow> bool" for e where
  m_create: "ts_main s = M_Create \<Longrightarrow> main_step e s (s\<lparr>ts_thread := T_Vars (tls_vars e), ts_main := M_Lock\<rparr>)"
| m_lock: "ts_main s = M_Lock \<Longrightarrow> ts_owner s = None \<Longrightarrow> main_step e s (s\<lparr>ts_owner := Some My, ts_main := M_Test\<rparr>)"
| m_wait: "ts_main s = M_Test \<Longrightarrow> thread_done s = 0 \<Longrightarrow>
     main_step e s (s\<lparr>ts_owner := None, ts_waiting := insert My (ts_waiting s), ts_main := M_Sleep\<rparr>)"
| m_wake: "ts_main s = M_Sleep \<Longrightarrow> My \<notin> ts_waiting s \<Longrightarrow> ts_owner s = None \<Longrightarrow> main_step e s (s\<lparr>ts_owner := Some My, ts_main := M_Test\<rparr>)"
| m_go: "ts_main s = M_Test \<Longrightarrow> thread_done s \<noteq> 0 \<Longrightarrow> main_step e s (s\<lparr>ts_main := M_Read (tls_vars e)\<rparr>)"
| m_read: "ts_main s = M_Read (x # xs) \<Longrightarrow> ts_thr s x = Some p \<Longrightarrow>
     main_step e s (s\<lparr>ts_vals := (ts_vals s)(x := ts_mem s (cap_addr p)), ts_main := M_Read xs\<rparr>)"
| m_done: "ts_main s = M_Read [] \<Longrightarrow> main_step e s (s\<lparr>ts_main := M_Set\<rparr>)"
| m_set: "ts_main s = M_Set \<Longrightarrow> main_step e s (s\<lparr>thread_done := 2, ts_main := M_Broadcast\<rparr>)"
| m_broadcast: "ts_main s = M_Broadcast \<Longrightarrow> main_step e s (s\<lparr>ts_waiting := {}, ts_main := M_Unlock\<rparr>)"
| m_unlock: "ts_main s = M_Unlock \<Longrightarrow> main_step e s (s\<lparr>ts_owner := None, ts_main := M_Check\<rparr>)"

text \<open>Where a call of a thread function fails, \<^verbatim>\<open>cheriostest_failure_errc\<close> ends both threads.\<close>

inductive call_fails :: "tls_state \<Rightarrow> tls_state \<Rightarrow> bool" where
  f_create: "ts_main s = M_Create \<Longrightarrow> call_fails s (s\<lparr>ts_error := Some ''pthread_create''\<rparr>)"
| f_lock: "ts_main s = M_Lock \<or> ts_thread s = T_Lock \<Longrightarrow> call_fails s (s\<lparr>ts_error := Some ''pthread_mutex_lock''\<rparr>)"
| f_wait: "ts_main s = M_Test \<and> thread_done s = 0 \<or> ts_thread s = T_Wait \<Longrightarrow> call_fails s (s\<lparr>ts_error := Some ''pthread_cond_wait''\<rparr>)"
| f_broadcast: "ts_main s = M_Broadcast \<or> ts_thread s = T_Broadcast \<Longrightarrow> call_fails s (s\<lparr>ts_error := Some ''pthread_cond_broadcast''\<rparr>)"
| f_unlock: "ts_main s = M_Unlock \<or> ts_thread s = T_Unlock \<Longrightarrow> call_fails s (s\<lparr>ts_error := Some ''pthread_mutex_unlock''\<rparr>)"

text \<open>A step of the test: of one of the threads, or one of them is woken for no reason, or a call fails. After a failure there is none.\<close>

definition tls_act :: "tls_env \<Rightarrow> tls_state \<Rightarrow> tls_state \<Rightarrow> bool" where
  "tls_act e s s' \<longleftrightarrow> ts_error s = None \<and> (main_step e s s' \<or> thread_step e s s')"

inductive tls_step :: "tls_env \<Rightarrow> tls_state \<Rightarrow> tls_state \<Rightarrow> bool" for e where
  act: "tls_act e s s' \<Longrightarrow> tls_step e s s'"
| spurious: "ts_error s = None \<Longrightarrow> tls_step e s (s\<lparr>ts_waiting := ts_waiting s - {side}\<rparr>)"
| fails: "ts_error s = None \<Longrightarrow> call_fails s s' \<Longrightarrow> tls_step e s s'"

definition tls_start :: "(ptraddr \<Rightarrow> int) \<Rightarrow> tls_state" where
  "tls_start mem = \<lparr>ts_main = M_Create, ts_thread = T_None, ts_owner = None, ts_waiting = {}, thread_done = 0, ts_thr = (\<lambda>_. None),
     ts_mem = mem, ts_vals = (\<lambda>_. 0), ts_error = None\<rparr>"

inductive tls_reachable :: "tls_env \<Rightarrow> (ptraddr \<Rightarrow> int) \<Rightarrow> tls_state \<Rightarrow> bool" for e mem where
  start: "tls_reachable e mem (tls_start mem)"
| step: "tls_reachable e mem s \<Longrightarrow> tls_step e s s' \<Longrightarrow> tls_reachable e mem s'"

section \<open>The checks\<close>

fun tls_name :: "tls_var \<Rightarrow> string" where
  "tls_name tls_gd = ''tls_gd''"
| "tls_name tls_ld = ''tls_ld''"
| "tls_name tls_ie = ''tls_ie''"
| "tls_name tls_le = ''tls_le''"

definition digit_text :: "int \<Rightarrow> string" where
  "digit_text n = [char_of (48 + nat n)]"

definition check_my_value :: "platform \<Rightarrow> tls_env \<Rightarrow> tls_state \<Rightarrow> tls_var \<Rightarrow> ('k, unit) prog" where
  "check_my_value pl e s x =
     (let v = ts_mem s (cap_addr (te_addr e My x)) in
      fail_if pl (v \<noteq> tls_init x) (''Bad *my_'' @ tls_name x @ '' (got: %d; expected '' @ digit_text (tls_init x) @ '')'') [FInt v])"

definition check_thr_value :: "platform \<Rightarrow> tls_state \<Rightarrow> tls_var \<Rightarrow> ('k, unit) prog" where
  "check_thr_value pl s x =
     fail_if pl (ts_vals s x \<noteq> tls_init x + 1) (''Bad *thr_'' @ tls_name x @ '' (got: %d; expected '' @ digit_text (tls_init x + 1) @ '')'') [FInt (ts_vals s x)]"

definition CHECK_DISJOINT :: "platform \<Rightarrow> string \<Rightarrow> cap \<Rightarrow> cap \<Rightarrow> ('k, unit) prog" where
  "CHECK_DISJOINT pl nm my thr =
     (let my_bottom = cheri_base_get my; my_top = my_bottom + cheri_length_get my;
          thr_bottom = cheri_base_get thr; thr_top = thr_bottom + cheri_length_get thr in
      fail_if pl (thr_bottom \<le> my_bottom \<and> my_bottom < thr_top \<or> thr_bottom < my_top \<and> my_top \<le> thr_top \<or>
          my_bottom \<le> thr_bottom \<and> thr_bottom < my_top \<or> my_bottom < thr_top \<and> thr_top \<le> my_top)
        (''Overlapping TLS capabilities (my '' @ nm @ '': %#p ; thread'' @ [CHR 0x27] @ ''s '' @ nm @ '': %#p)'') [FPtr my, FPtr thr])"

definition CHECK_BOUNDS :: "platform \<Rightarrow> string \<Rightarrow> cap \<Rightarrow> ('k, unit) prog" where
  "CHECK_BOUNDS pl nm p = block
     [fail_if pl (cheri_offset_get p \<noteq> 0) (''TLS variable '' @ nm @ '' with non-zero offset: %#p'') [FPtr p],
      fail_if pl (cheri_length_get p \<noteq> 4) (''TLS variable '' @ nm @ '' (size %zu) with bad length: %#p'') [FWord 4, FPtr p]]"

text \<open>What follows the meeting; \<open>the\<close> stands for reading the pointers, which the other thread has set.\<close>

definition tls_checks :: "platform \<Rightarrow> tls_env \<Rightarrow> tls_state \<Rightarrow> ('k, unit) prog" where
  "tls_checks pl e s =
     (let my = te_addr e My; thr = (\<lambda>x. the (ts_thr s x)) in block (
      map (check_my_value pl e s) (tls_vars e) @
      map (check_thr_value pl s) (tls_vars e) @
      (if is_purecap pl then
        map (\<lambda>x. CHECK_DISJOINT pl (tls_name x) (my x) (thr x)) (tls_vars e) @
        (if te_exact e then
          map (\<lambda>x. CHECK_BOUNDS pl (''my_'' @ tls_name x) (my x)) (if te_dynamic e then [tls_gd, tls_ld] else []) @
          map (\<lambda>x. CHECK_BOUNDS pl (''thr_'' @ tls_name x) (thr x)) (if te_dynamic e then [tls_gd, tls_ld] else []) @
          map (\<lambda>x. CHECK_BOUNDS pl (''my_'' @ tls_name x) (my x)) [tls_ie, tls_le] @
          map (\<lambda>x. CHECK_BOUNDS pl (''thr_'' @ tls_name x) (thr x)) [tls_ie, tls_le]
         else []) else []) @
      [cheriostest_success]))"

end
