(* ===== verification/Tls_Threads_Proofs.thy ===== *)
theory Tls_Threads_Proofs
  imports Tls_Threads Instances
begin

text \<open>
  The two threads of \<^verbatim>\<open>cheriostest_tls_threads.c\<close> meet: an invariant of all reachable states, that no wake-up is lost, that every run
  comes to its end, and what the checks then decide.
\<close>

section \<open>The invariant\<close>

text \<open>Who is inside the mutex, and how far the other thread must have come.\<close>

fun main_inside :: "main_pc \<Rightarrow> bool" where
  "main_inside M_Test = True" | "main_inside (M_Read xs) = True" | "main_inside M_Set = True" | "main_inside M_Broadcast = True"
| "main_inside M_Unlock = True" | "main_inside _ = False"

fun thread_inside :: "thread_pc \<Rightarrow> bool" where
  "thread_inside T_Set = True" | "thread_inside T_Broadcast = True" | "thread_inside T_Wait = True" | "thread_inside T_Test = True"
| "thread_inside T_Unlock = True" | "thread_inside _ = False"

text \<open>The variables whose addresses the thread has still to take, and those it has still to count up.\<close>

fun to_take :: "tls_env \<Rightarrow> thread_pc \<Rightarrow> tls_var set" where
  "to_take e T_None = set (tls_vars e)" | "to_take e (T_Vars xs) = set xs" | "to_take e (T_Inc x xs) = set xs" | "to_take e _ = {}"

fun to_count :: "tls_env \<Rightarrow> thread_pc \<Rightarrow> tls_var set" where
  "to_count e T_None = set (tls_vars e)" | "to_count e (T_Vars xs) = set xs" | "to_count e (T_Inc x xs) = insert x (set xs)" | "to_count e _ = {}"

fun to_read :: "tls_env \<Rightarrow> main_pc \<Rightarrow> tls_var set" where
  "to_read e (M_Read xs) = set xs" | "to_read e M_Set = {}" | "to_read e M_Broadcast = {}" | "to_read e M_Unlock = {}" | "to_read e M_Check = {}"
| "to_read e _ = set (tls_vars e)"

fun rest_vars :: "thread_pc \<Rightarrow> tls_var list" where
  "rest_vars (T_Vars xs) = xs" | "rest_vars (T_Inc x xs) = x # xs" | "rest_vars _ = []"

fun before_set :: "thread_pc \<Rightarrow> bool" where
  "before_set T_None = True" | "before_set (T_Vars xs) = True" | "before_set (T_Inc x xs) = True" | "before_set T_Lock = True" | "before_set T_Set = True"
| "before_set _ = False"

fun main_past :: "main_pc \<Rightarrow> bool" where
  "main_past (M_Read xs) = True" | "main_past M_Set = True" | "main_past _ = False"

fun main_late :: "main_pc \<Rightarrow> bool" where
  "main_late M_Broadcast = True" | "main_late M_Unlock = True" | "main_late M_Check = True" | "main_late _ = False"

fun thread_late :: "thread_pc \<Rightarrow> bool" where
  "thread_late T_Unlock = True" | "thread_late T_End = True" | "thread_late _ = False"

fun thread_calls :: "thread_pc \<Rightarrow> bool" where
  "thread_calls T_Broadcast = True" | "thread_calls T_Wait = True" | "thread_calls _ = False"

definition exclusion :: "tls_state \<Rightarrow> bool" where
  "exclusion s \<longleftrightarrow> \<not> (main_inside (ts_main s) \<and> thread_inside (ts_thread s)) \<and>
     ts_owner s = (if main_inside (ts_main s) then Some My else if thread_inside (ts_thread s) then Some Thr else None) \<and>
     (ts_main s = M_Create \<longleftrightarrow> ts_thread s = T_None)"

definition handshake :: "tls_state \<Rightarrow> bool" where
  "handshake s \<longleftrightarrow> thread_done s = (if main_late (ts_main s) then 2 else if before_set (ts_thread s) then 0 else 1) \<and>
     (main_past (ts_main s) \<or> main_late (ts_main s) \<longrightarrow> \<not> before_set (ts_thread s)) \<and>
     (thread_late (ts_thread s) \<longrightarrow> main_late (ts_main s)) \<and> (thread_calls (ts_thread s) \<longrightarrow> \<not> main_late (ts_main s))"

definition no_lost_wakeup :: "tls_state \<Rightarrow> bool" where
  "no_lost_wakeup s \<longleftrightarrow>
     (My \<in> ts_waiting s \<longrightarrow> ts_main s = M_Sleep \<and> (thread_done s = 0 \<or> ts_thread s = T_Broadcast)) \<and>
     (Thr \<in> ts_waiting s \<longrightarrow> ts_thread s = T_Sleep \<and> (thread_done s = 1 \<or> ts_main s = M_Broadcast))"

definition meeting :: "tls_state \<Rightarrow> bool" where
  "meeting s \<longleftrightarrow> exclusion s \<and> handshake s \<and> no_lost_wakeup s"

lemma meeting_start: "meeting (tls_start mem)"
  by (simp add: meeting_def exclusion_def handshake_def no_lost_wakeup_def tls_start_def)

lemma thread_keeps:
  assumes "thread_step e s s'" "meeting s"
  shows "exclusion s'" "handshake s'" "no_lost_wakeup s'"
proof -
  have inv: "exclusion s" "handshake s" "no_lost_wakeup s" using assms(2) by (simp_all add: meeting_def)
  from assms(1) inv(1) show "exclusion s'" by cases (auto simp: exclusion_def split: if_splits)
  from assms(1) inv(1,2) show "handshake s'" by cases (auto simp: handshake_def exclusion_def split: if_splits)
  from assms(1) inv show "no_lost_wakeup s'" by cases (auto simp: no_lost_wakeup_def handshake_def exclusion_def split: if_splits)
qed

lemma thread_calls_inside: "thread_calls t \<Longrightarrow> thread_inside t"
  by (cases t) simp_all

lemma main_keeps:
  assumes "main_step e s s'" "meeting s"
  shows "exclusion s'" "handshake s'" "no_lost_wakeup s'"
proof -
  have inv: "exclusion s" "handshake s" "no_lost_wakeup s" using assms(2) by (simp_all add: meeting_def)
  from assms(1) inv show "exclusion s'" by cases (auto simp: exclusion_def no_lost_wakeup_def split: if_splits)
  from assms(1) inv(1,2) show "handshake s'" by cases (auto simp: handshake_def exclusion_def dest: thread_calls_inside split: if_splits)
  from assms(1) inv show "no_lost_wakeup s'" by cases (auto simp: no_lost_wakeup_def handshake_def exclusion_def split: if_splits)
qed

lemma meeting_error: "meeting (s\<lparr>ts_error := er\<rparr>) \<longleftrightarrow> meeting s"
  by (simp add: meeting_def exclusion_def handshake_def no_lost_wakeup_def)

lemma meeting_act: "tls_act e s s' \<Longrightarrow> meeting s \<Longrightarrow> meeting s'"
  using main_keeps thread_keeps by (auto simp: tls_act_def meeting_def)

lemma meeting_step: "tls_step e s s' \<Longrightarrow> meeting s \<Longrightarrow> meeting s'"
proof (induction rule: tls_step.induct)
  case (act s s')
  then show ?case by (rule meeting_act)
next
  case (spurious s side)
  then show ?case by (auto simp: meeting_def exclusion_def handshake_def no_lost_wakeup_def)
next
  case (fails s s')
  from fails(2,3) show ?case by cases (simp_all add: meeting_error)
qed

lemma reachable_meeting: "tls_reachable e mem s \<Longrightarrow> meeting s"
  by (induction rule: tls_reachable.induct) (auto simp: meeting_start meeting_step)

section \<open>Every run ends\<close>

text \<open>
  How much is left to do: a thread that is called back has to take the mutex again and look once more, which the call-back has to make up
  for.
\<close>

fun main_left :: "nat \<Rightarrow> bool \<Rightarrow> main_pc \<Rightarrow> nat" where
  "main_left n asleep M_Create = 25 + 4 * n"
| "main_left n asleep M_Lock = 11 + n"
| "main_left n asleep M_Test = 10 + n"
| "main_left n asleep M_Sleep = (if asleep then 9 + n else 11 + n)"
| "main_left n asleep (M_Read xs) = 8 + length xs"
| "main_left n asleep M_Set = 7"
| "main_left n asleep M_Broadcast = 6"
| "main_left n asleep M_Unlock = 1"
| "main_left n asleep M_Check = 0"

fun thread_left :: "bool \<Rightarrow> thread_pc \<Rightarrow> nat" where
  "thread_left asleep T_None = 0"
| "thread_left asleep (T_Vars xs) = 9 + 2 * length xs"
| "thread_left asleep (T_Inc x xs) = 10 + 2 * length xs"
| "thread_left asleep T_Lock = 8"
| "thread_left asleep T_Set = 7"
| "thread_left asleep T_Broadcast = 6"
| "thread_left asleep T_Wait = 3"
| "thread_left asleep T_Sleep = (if asleep then 2 else 5)"
| "thread_left asleep T_Test = 4"
| "thread_left asleep T_Unlock = 1"
| "thread_left asleep T_End = 0"

definition tls_left :: "tls_env \<Rightarrow> tls_state \<Rightarrow> nat" where
  "tls_left e s = main_left (length (tls_vars e)) (My \<in> ts_waiting s) (ts_main s) + thread_left (Thr \<in> ts_waiting s) (ts_thread s)"

lemma main_left_awake: "main_left n False m \<le> main_left n w m + 2" "thread_left False t \<le> thread_left v t + 3"
  by (cases m; simp)+ (cases t; simp)+

lemma act_decreases:
  assumes "tls_act e s s'" "meeting s"
  shows "tls_left e s' < tls_left e s"
proof -
  have inv: "exclusion s" "handshake s" "no_lost_wakeup s" using assms(2) by (simp_all add: meeting_def)
  from assms(1) consider "main_step e s s'" | "thread_step e s s'" by (auto simp: tls_act_def)
  then show ?thesis
  proof cases
    case 1
    from 1 inv main_left_awake(2) [of "ts_thread s" "Thr \<in> ts_waiting s"] show ?thesis
      by cases (auto simp: tls_left_def exclusion_def no_lost_wakeup_def)
  next
    case 2
    from 2 inv main_left_awake(1) [of "length (tls_vars e)" "ts_main s" "My \<in> ts_waiting s"] show ?thesis
      by cases (auto simp: tls_left_def exclusion_def no_lost_wakeup_def)
  qed
qed

text \<open>Where neither thread can go on, both are through: nobody waits for a call that has been made before.\<close>

lemma stuck_ends:
  assumes "meeting s" "ts_error s = None" "\<And>s'. \<not> tls_act e s s'"
    and "\<And>x. x \<in> to_read e (ts_main s) \<Longrightarrow> ts_thread s \<noteq> T_None \<Longrightarrow> \<not> before_set (ts_thread s) \<Longrightarrow> ts_thr s x \<noteq> None"
  shows "ts_main s = M_Check \<and> ts_thread s = T_End"
proof -
  have inv: "exclusion s" "handshake s" "no_lost_wakeup s" using assms(1) by (simp_all add: meeting_def)
  have stuck: "main_step e s s' \<Longrightarrow> False" "thread_step e s s' \<Longrightarrow> False" for s' using assms(2,3) by (auto simp: tls_act_def)
  note m = stuck(1) [OF m_create] stuck(1) [OF m_lock] stuck(1) [OF m_wait] stuck(1) [OF m_wake] stuck(1) [OF m_go] stuck(1) [OF m_read] stuck(1) [OF m_done]
    stuck(1) [OF m_set] stuck(1) [OF m_broadcast] stuck(1) [OF m_unlock]
  note t = stuck(2) [OF t_addr] stuck(2) [OF t_inc [OF _ refl]] stuck(2) [OF t_vars] stuck(2) [OF t_lock] stuck(2) [OF t_set] stuck(2) [OF t_broadcast] stuck(2) [OF t_wait]
    stuck(2) [OF t_wake] stuck(2) [OF t_again] stuck(2) [OF t_leave] stuck(2) [OF t_unlock]
  have "ts_thread s \<in> {T_None, T_Lock, T_Sleep, T_End}"
  proof (cases "ts_thread s")
    case (T_Vars xs)
    then show ?thesis using t(1,3) by (cases xs) auto
  qed (use t(2,5,6,7,9,10,11) in auto)
  moreover have "ts_main s \<in> {M_Lock, M_Sleep, M_Check}"
  proof (cases "ts_main s")
    case (M_Read xs)
    then have "ts_thread s \<noteq> T_None" "\<not> before_set (ts_thread s)" using inv(2) by (auto simp: handshake_def split: if_splits)
    then show ?thesis using M_Read m(6,7) assms(4) [of "hd xs"] by (cases xs) auto
  next
    case M_Test
    then show ?thesis using m(3,5) by blast
  qed (use m(1,8,9,10) in simp_all)
  ultimately have free: "ts_owner s = None" and pcs: "ts_thread s \<in> {T_Lock, T_Sleep, T_End}" "ts_main s \<in> {M_Lock, M_Sleep, M_Check}"
    using inv(1) by (auto simp: exclusion_def)
  then have "ts_main s \<noteq> M_Lock" "ts_thread s \<noteq> T_Lock" using m(2) t(4) by blast+
  moreover have "ts_main s \<noteq> M_Sleep"
  proof
    assume sleep: "ts_main s = M_Sleep"
    then have "My \<in> ts_waiting s" using m(4) free by blast
    then show False using sleep pcs(1) \<open>ts_thread s \<noteq> T_Lock\<close> inv(2,3) by (auto simp: no_lost_wakeup_def handshake_def)
  qed
  moreover have "ts_thread s \<noteq> T_Sleep" if "ts_main s = M_Check"
  proof
    assume "ts_thread s = T_Sleep"
    then have "Thr \<in> ts_waiting s" using t(8) free by blast
    then show False using that inv(2,3) by (auto simp: no_lost_wakeup_def handshake_def)
  qed
  ultimately show ?thesis using pcs by auto
qed

section \<open>Pointers and values\<close>

definition pointers :: "tls_env \<Rightarrow> tls_state \<Rightarrow> bool" where
  "pointers e s \<longleftrightarrow> (\<forall>x \<in> set (tls_vars e) - to_take e (ts_thread s). ts_thr s x = Some (te_addr e Thr x)) \<and>
     distinct (rest_vars (ts_thread s)) \<and> set (rest_vars (ts_thread s)) \<subseteq> set (tls_vars e) \<and> to_read e (ts_main s) \<subseteq> set (tls_vars e)"

lemma past_vars: "\<not> before_set t \<Longrightarrow> to_take e t = {} \<and> to_count e t = {}"
  by (cases t) simp_all

lemma tls_vars_distinct: "distinct (tls_vars e)"
  by (simp add: tls_vars_def)

lemma pointers_thread: "thread_step e s s' \<Longrightarrow> pointers e s \<Longrightarrow> pointers e s'"
  by (induction rule: thread_step.induct) (auto simp: pointers_def)

lemma pointers_main: "main_step e s s' \<Longrightarrow> meeting s \<Longrightarrow> pointers e s \<Longrightarrow> pointers e s'"
  by (induction rule: main_step.induct) (auto simp: pointers_def meeting_def exclusion_def tls_vars_distinct)

lemma pointers_act: "tls_act e s s' \<Longrightarrow> meeting s \<Longrightarrow> pointers e s \<Longrightarrow> pointers e s'"
  using pointers_main pointers_thread by (auto simp: tls_act_def)

text \<open>A step that is not of a thread leaves everything but the waiting threads and the error as it is.\<close>

lemma step_cases [consumes 1, case_names act other]:
  assumes "tls_step e s s'"
  obtains "tls_act e s s'" | w er where "s' = s\<lparr>ts_waiting := w, ts_error := er\<rparr>"
  using assms
proof cases
  case act
  then show ?thesis by (rule that(1))
next
  case (spurious side)
  then have "s' = s\<lparr>ts_waiting := ts_waiting s - {side}, ts_error := ts_error s\<rparr>" by simp
  then show ?thesis by (rule that(2))
next
  case fails
  from fails(2) obtain er where "s' = s\<lparr>ts_error := er\<rparr>" by cases blast+
  then have "s' = s\<lparr>ts_waiting := ts_waiting s, ts_error := er\<rparr>" by simp
  then show ?thesis by (rule that(2))
qed

lemma reachable_pointers: "tls_reachable e mem s \<Longrightarrow> pointers e s"
proof (induction rule: tls_reachable.induct)
  case start
  show ?case by (simp add: pointers_def tls_start_def)
next
  case (step s s')
  from step(2) show ?case
  proof (cases rule: step_cases)
    case act
    then show ?thesis using pointers_act reachable_meeting [OF step(1)] step(3) by blast
  next
    case other
    then show ?thesis using step(3) by (simp add: pointers_def)
  qed
qed

text \<open>Where the instances are apart, the thread counts up its own and nobody touches those of the other.\<close>

definition apart :: "tls_env \<Rightarrow> bool" where
  "apart e \<longleftrightarrow> (\<forall>i j. \<forall>x \<in> set (tls_vars e). \<forall>y \<in> set (tls_vars e). cap_addr (te_addr e i x) = cap_addr (te_addr e j y) \<longrightarrow> i = j \<and> x = y)"

definition storage :: "tls_env \<Rightarrow> (ptraddr \<Rightarrow> int) \<Rightarrow> tls_state \<Rightarrow> bool" where
  "storage e mem s \<longleftrightarrow> (\<forall>x \<in> set (tls_vars e).
     ts_mem s (cap_addr (te_addr e My x)) = mem (cap_addr (te_addr e My x)) \<and>
     ts_mem s (cap_addr (te_addr e Thr x)) = mem (cap_addr (te_addr e Thr x)) + (if x \<in> to_count e (ts_thread s) then 0 else 1) \<and>
     (x \<notin> to_read e (ts_main s) \<longrightarrow> ts_vals s x = mem (cap_addr (te_addr e Thr x)) + 1))"

lemma storage_thread:
  assumes "thread_step e s s'" "pointers e s" "apart e" "storage e mem s"
  shows "storage e mem s'"
  using assms(1)
proof cases
  case (t_inc x xs a)
  then have x: "x \<in> set (tls_vars e)" "x \<notin> set xs" using assms(2) by (auto simp: pointers_def)
  have "cap_addr (te_addr e My y) \<noteq> a" "y \<noteq> x \<Longrightarrow> cap_addr (te_addr e Thr y) \<noteq> a" if "y \<in> set (tls_vars e)" for y
    using assms(3) x(1) that t_inc(3) unfolding apart_def by blast+
  then show ?thesis using assms(4) t_inc x by (auto simp: storage_def)
qed (use assms(4) in \<open>auto simp: storage_def\<close>)

lemma storage_main:
  assumes "main_step e s s'" "meeting s" "pointers e s" "storage e mem s"
  shows "storage e mem s'"
  using assms(1)
proof cases
  case (m_read x xs p)
  then have past: "\<not> before_set (ts_thread s)" and x: "x \<in> set (tls_vars e)"
    using assms(2,3) by (auto simp: meeting_def handshake_def pointers_def split: if_splits)
  then have "p = te_addr e Thr x" using m_read(3) assms(3) past_vars [OF past] by (auto simp: pointers_def)
  moreover have "ts_mem s (cap_addr (te_addr e Thr x)) = mem (cap_addr (te_addr e Thr x)) + 1"
    using assms(4) x past_vars [OF past] by (auto simp: storage_def)
  ultimately show ?thesis using assms(4) m_read by (auto simp: storage_def)
qed (use assms(2,4) in \<open>auto simp: storage_def meeting_def exclusion_def\<close>)

lemma reachable_storage:
  assumes "tls_reachable e mem s" "apart e"
  shows "storage e mem s"
  using assms(1)
proof (induction rule: tls_reachable.induct)
  case start
  show ?case by (simp add: storage_def tls_start_def)
next
  case (step s s')
  from step(2) show ?case
  proof (cases rule: step_cases)
    case act
    then show ?thesis
      using storage_thread [OF _ reachable_pointers assms(2)] storage_main [OF _ reachable_meeting reachable_pointers] step(1,3) by (auto simp: tls_act_def)
  next
    case other
    then show ?thesis using step(3) by (simp add: storage_def)
  qed
qed

section \<open>The meeting\<close>

lemma tls_reachable_act: "(tls_act e)\<^sup>*\<^sup>* s t \<Longrightarrow> tls_reachable e mem s \<Longrightarrow> tls_reachable e mem t"
  by (induction rule: rtranclp_induct) (auto intro: tls_reachable.step tls_step.act)

lemma act_no_error: "tls_act e s t \<Longrightarrow> ts_error t = None"
  by (auto simp: tls_act_def elim!: main_step.cases thread_step.cases)

lemma acts_no_error: "(tls_act e)\<^sup>*\<^sup>* s t \<Longrightarrow> ts_error s = None \<Longrightarrow> ts_error t = None"
  by (induction rule: rtranclp_induct) (auto dest: act_no_error)

lemma reachable_stuck:
  assumes "tls_reachable e mem s" "ts_error s = None" "\<And>t. \<not> tls_act e s t"
  shows "ts_main s = M_Check \<and> ts_thread s = T_End"
proof (rule stuck_ends [OF reachable_meeting [OF assms(1)] assms(2,3)])
  fix x assume "x \<in> to_read e (ts_main s)" "\<not> before_set (ts_thread s)"
  then show "ts_thr s x \<noteq> None" using reachable_pointers [OF assms(1)] past_vars [of "ts_thread s"] by (auto simp: pointers_def)
qed

lemma acts_end:
  assumes "tls_reachable e mem s" "ts_error s = None"
  shows "\<exists>t. (tls_act e)\<^sup>*\<^sup>* s t \<and> ts_main t = M_Check \<and> ts_thread t = T_End"
  using assms
proof (induction "tls_left e s" arbitrary: s rule: less_induct)
  case less
  show ?case
  proof (cases "\<exists>t. tls_act e s t")
    case True
    then obtain u where u: "tls_act e s u" by blast
    then have "\<exists>t. (tls_act e)\<^sup>*\<^sup>* u t \<and> ts_main t = M_Check \<and> ts_thread t = T_End"
      using less(1) [OF act_decreases [OF u reachable_meeting [OF less(2)]]] less(2) act_no_error [OF u] tls_reachable.step tls_step.act by blast
    then show ?thesis using u by (meson converse_rtranclp_into_rtranclp)
  next
    case False
    then show ?thesis using reachable_stuck [OF less(2,3)] by blast
  qed
qed

text \<open>
  C39: The two threads meet. In whatever state they are, also after wake-ups for no reason: as long as no call has failed and nobody is woken
  for no reason from then on, they cannot go on for ever, and the only place where neither can go on is the end of both. So no wake-up is lost
  and no order of the steps ends in a deadlock.
\<close>

theorem tls_threads_meet:
  assumes "tls_reachable e mem s" "ts_error s = None"
  shows "(\<forall>f. f 0 = s \<longrightarrow> (\<exists>i. \<not> tls_act e (f i) (f (Suc i)))) \<and>
    (\<forall>t. (tls_act e)\<^sup>*\<^sup>* s t \<and> (\<nexists>u. tls_act e t u) \<longrightarrow> ts_main t = M_Check \<and> ts_thread t = T_End) \<and>
    (\<exists>t. (tls_act e)\<^sup>*\<^sup>* s t \<and> ts_main t = M_Check \<and> ts_thread t = T_End)"
proof (intro conjI allI impI)
  fix f :: "nat \<Rightarrow> tls_state" assume f: "f 0 = s"
  show "\<exists>i. \<not> tls_act e (f i) (f (Suc i))"
  proof (rule ccontr)
    assume "\<nexists>i. \<not> tls_act e (f i) (f (Suc i))"
    then have go: "tls_act e (f i) (f (Suc i))" for i by blast
    then have "tls_reachable e mem (f i)" for i
      by (induction i) (auto simp: f assms(1) intro: tls_reachable.step tls_step.act)
    then have "tls_left e (f (Suc i)) < tls_left e (f i)" for i by (rule act_decreases [OF go reachable_meeting])
    then have "tls_left e (f i) + i \<le> tls_left e (f 0)" for i
    proof (induction i)
      case (Suc i)
      then show ?case using Suc.prems [of i] Suc.IH [OF Suc.prems] by linarith
    qed simp
    from this [of "Suc (tls_left e (f 0))"] show False by simp
  qed
next
  fix t assume t: "(tls_act e)\<^sup>*\<^sup>* s t \<and> (\<nexists>u. tls_act e t u)"
  then have "ts_main t = M_Check \<and> ts_thread t = T_End"
    using reachable_stuck [OF tls_reachable_act [OF _ assms(1)] acts_no_error [OF _ assms(2)]] by blast
  then show "ts_main t = M_Check" "ts_thread t = T_End" by simp_all
qed (rule acts_end [OF assms])

definition tls_layout :: tls_env where
  "tls_layout = \<lparr>te_dynamic = True, te_exact = True, te_addr = (\<lambda>side x. let a = (case side of My \<Rightarrow> 0x1000 | Thr \<Rightarrow> 0x2000) + 4 * of_int (tls_init x) in
     \<lparr>cap_tag = True, cap_addr = a, cap_base = a, cap_len = 4, cap_perms = 0x36008, cap_otype = 0, cap_flags = 0\<rparr>)\<rparr>"

definition tls_image :: "ptraddr \<Rightarrow> int" where
  "tls_image a = (uint a mod 0x1000) div 4"

theorem tls_threads_meet_witness:
  "\<exists>t. (tls_act tls_layout)\<^sup>*\<^sup>* (tls_start tls_image) t \<and> ts_main t = M_Check \<and> ts_thread t = T_End"
  using tls_threads_meet [OF tls_reachable.start, of tls_image tls_layout] by (simp add: tls_start_def)

lemma success_my_value [passes_simps]:
  "declares_success (bindP (check_my_value pl e s x) f) w \<longleftrightarrow> ts_mem s (cap_addr (te_addr e My x)) = tls_init x \<and> declares_success (f ()) w"
  by (simp add: check_my_value_def Let_def passes_simps)

lemma success_thr_value [passes_simps]:
  "declares_success (bindP (check_thr_value pl s x) f) w \<longleftrightarrow> ts_vals s x = tls_init x + 1 \<and> declares_success (f ()) w"
  by (simp add: check_thr_value_def passes_simps)

definition room :: "cap \<Rightarrow> bool" where
  "room c \<longleftrightarrow> 0 < cap_len c \<and> cap_top c < 2 ^ 64"

lemma room_top:
  assumes "room c"
  shows "unat (cheri_base_get c + cheri_length_get c) = cap_top c" "unat (cheri_base_get c) = unat (cap_base c)" "unat (cheri_length_get c) = cap_len c"
proof -
  have "cap_len c < 2 ^ 64" using assms by (simp add: room_def cap_top_def)
  then show len: "unat (cheri_length_get c) = cap_len c" by (simp add: cheri_length_get_def unat_of_nat take_bit_nat_eq_self)
  show "unat (cheri_base_get c) = unat (cap_base c)" by (simp add: cheri_base_get_def)
  then show "unat (cheri_base_get c + cheri_length_get c) = cap_top c"
    using assms by (subst unat_add_lem [THEN iffD1]) (simp_all add: len room_def cap_top_def)
qed

lemma success_disjoint:
  assumes "room c" "room d"
  shows "declares_success (bindP (CHECK_DISJOINT pl nm c d) f) w \<longleftrightarrow>
    (cap_top c \<le> unat (cap_base d) \<or> cap_top d \<le> unat (cap_base c)) \<and> declares_success (f ()) w"
  using room_top [OF assms(1)] room_top [OF assms(2)] assms
  by (auto simp: CHECK_DISJOINT_def Let_def passes_simps word_le_nat_alt word_less_nat_alt room_def cap_top_def)

lemma success_bounds:
  assumes "room c"
  shows "declares_success (bindP (CHECK_BOUNDS pl nm c) f) w \<longleftrightarrow> cheri_offset_get c = 0 \<and> cap_len c = 4 \<and> declares_success (f ()) w"
proof -
  have "cheri_length_get c = 4 \<longleftrightarrow> cap_len c = 4" using room_top(3) [OF assms] by (simp add: word_unat_eq_iff)
  then show ?thesis by (simp add: CHECK_BOUNDS_def bindP_assoc passes_simps)
qed

text \<open>
  C40: Where both have met, with the instances of the variables at different addresses and initialised as declared, the checks declare success
  exactly when, in the pure-capability ABI, the capabilities of the two threads are disjoint and, where the bounds are exact, have the
  variable as their bounds. The pointers of the other thread are never read before they are set, and only one thread is inside the mutex.
\<close>

theorem tls_threads_verdict:
  assumes "tls_reachable e mem s" "apart e" "\<And>side x. mem (cap_addr (te_addr e side x)) = tls_init x" "p_ccsp w \<noteq> None" "\<And>side x. room (te_addr e side x)"
  shows "(ts_main s = M_Check \<longrightarrow> (declares_success (tls_checks pl e s) w \<longleftrightarrow>
      (is_purecap pl \<longrightarrow> (\<forall>x \<in> set (tls_vars e). cap_top (te_addr e My x) \<le> unat (cap_base (te_addr e Thr x)) \<or>
          cap_top (te_addr e Thr x) \<le> unat (cap_base (te_addr e My x))) \<and>
        (te_exact e \<longrightarrow> (\<forall>side. \<forall>x \<in> set (tls_vars e). cheri_offset_get (te_addr e side x) = 0 \<and> cap_len (te_addr e side x) = 4))))) \<and>
    (\<forall>x xs. ts_main s = M_Read (x # xs) \<longrightarrow> ts_thr s x = Some (te_addr e Thr x)) \<and>
    \<not> (main_inside (ts_main s) \<and> thread_inside (ts_thread s))"
proof (intro conjI allI impI)
  have inv: "exclusion s" "handshake s" "pointers e s" "storage e mem s"
    using reachable_meeting [OF assms(1)] reachable_pointers [OF assms(1)] reachable_storage [OF assms(1,2)] by (simp_all add: meeting_def)
  {
    assume check: "ts_main s = M_Check"
    then have past: "\<not> before_set (ts_thread s)" using inv(2) by (simp add: handshake_def)
    have thr: "ts_thr s x = Some (te_addr e Thr x)" "ts_mem s (cap_addr (te_addr e My x)) = tls_init x" "ts_vals s x = tls_init x + 1"
      if "x \<in> set (tls_vars e)" for x
      using that inv(3,4) check past_vars [OF past] assms(3) by (auto simp: pointers_def storage_def)
    have sides: "(\<forall>side. P side) \<longleftrightarrow> P My \<and> P Thr" for P by (metis tls_side.exhaust)
    show "declares_success (tls_checks pl e s) w \<longleftrightarrow>
      (is_purecap pl \<longrightarrow> (\<forall>x \<in> set (tls_vars e). cap_top (te_addr e My x) \<le> unat (cap_base (te_addr e Thr x)) \<or>
          cap_top (te_addr e Thr x) \<le> unat (cap_base (te_addr e My x))) \<and>
        (te_exact e \<longrightarrow> (\<forall>side. \<forall>x \<in> set (tls_vars e). cheri_offset_get (te_addr e side x) = 0 \<and> cap_len (te_addr e side x) = 4)))"
    proof (cases "te_dynamic e")
      case True
      then have v: "tls_vars e = [tls_gd, tls_ld, tls_ie, tls_le]" by (simp add: tls_vars_def)
      show ?thesis using assms(4) thr True
        by (simp add: tls_checks_def Let_def v sides passes_simps success_disjoint [OF assms(5,5)] success_bounds [OF assms(5)]) blast
    next
      case False
      then have v: "tls_vars e = [tls_ie, tls_le]" by (simp add: tls_vars_def)
      show ?thesis using assms(4) thr False
        by (simp add: tls_checks_def Let_def v sides passes_simps success_disjoint [OF assms(5,5)] success_bounds [OF assms(5)])
    qed
  next
    fix x xs assume read: "ts_main s = M_Read (x # xs)"
    then have "\<not> before_set (ts_thread s)" "x \<in> set (tls_vars e)" using inv(2,3) by (auto simp: handshake_def pointers_def)
    then show "ts_thr s x = Some (te_addr e Thr x)" using inv(3) past_vars [of "ts_thread s" e] by (auto simp: pointers_def)
  next
    show "\<not> (main_inside (ts_main s) \<and> thread_inside (ts_thread s))" using inv(1) by (simp add: exclusion_def)
  }
qed

lemma tls_layout_apart: "apart tls_layout"
  unfolding apart_def
proof (intro allI ballI impI)
  fix i j x y
  assume "cap_addr (te_addr tls_layout i x) = cap_addr (te_addr tls_layout j y)"
  then show "i = j \<and> x = y" by (cases i; cases j; cases x; cases y) (simp_all add: tls_layout_def)
qed

lemma tls_layout_image: "tls_image (cap_addr (te_addr tls_layout side x)) = tls_init x" "room (te_addr tls_layout side x)"
  by (cases side; cases x; simp add: tls_layout_def tls_image_def room_def cap_top_def)+

theorem tls_threads_verdict_witness:
  "\<exists>t. tls_reachable tls_layout tls_image t \<and> ts_main t = M_Check \<and>
     declares_success (tls_checks morello_purecap tls_layout t) (fresh_process morello_purecap ())"
proof -
  obtain t where t: "(tls_act tls_layout)\<^sup>*\<^sup>* (tls_start tls_image) t" "ts_main t = M_Check"
    using acts_end [OF tls_reachable.start, of tls_image tls_layout] by (auto simp: tls_start_def)
  then have r: "tls_reachable tls_layout tls_image t" using tls_reachable_act [OF t(1) tls_reachable.start] by simp
  have sides: "cap_top (te_addr tls_layout My x) \<le> unat (cap_base (te_addr tls_layout Thr x))"
    "cheri_offset_get (te_addr tls_layout side x) = 0" "cap_len (te_addr tls_layout side x) = 4" for side x
    by (cases x; cases side; simp add: tls_layout_def cap_top_def cheri_offset_get_def)+
  have ccsp: "p_ccsp (fresh_process morello_purecap ()) \<noteq> None" by simp
  have "declares_success (tls_checks morello_purecap tls_layout t) (fresh_process morello_purecap ())"
    by (rule tls_threads_verdict [OF r tls_layout_apart tls_layout_image(1) ccsp tls_layout_image(2), THEN conjunct1, THEN mp, OF t(2), THEN iffD2])
       (intro impI conjI allI ballI disjI1 sides)
  then show ?thesis using r t(2) by blast
qed

end
