(* ===== verification/Printf.thy ===== *)
theory Printf
  imports Strfcap
begin

text \<open>
  The test of \<^verbatim>\<open>cheriostest_printf.c\<close>: what \<^verbatim>\<open>printf\<close> prints for a capability under \<^verbatim>\<open>%lp\<close> and \<^verbatim>\<open>%#lp\<close>. The functions
  \<^verbatim>\<open>asprintf\<close> and \<^verbatim>\<open>snprintf\<close> with these conversions belong to the C library of the system under test and are arguments; \<^verbatim>\<open>sscanf\<close> is
  the one of theory \<^verbatim>\<open>Strfcap\<close>.
\<close>

section \<open>The test\<close>

text \<open>
  \<^verbatim>\<open>asprintf(&str, fmt, cap)\<close> gives the string, or \<open>None\<close> when it has no memory; \<^verbatim>\<open>snprintf(data, n, fmt, x)\<close> the string that is then
  in the buffer, for a capability and for a pointer of the hybrid ABI.
\<close>

record printf_env =
  pf_asprintf :: "string \<Rightarrow> cap \<Rightarrow> string option"
  pf_snprintf :: "nat \<Rightarrow> string \<Rightarrow> cap \<Rightarrow> string"
  pf_snprintf_ptr :: "nat \<Rightarrow> string \<Rightarrow> ptraddr \<Rightarrow> string"
  pf_abort :: siginfo
  pf_uninit :: c_fields
  pf_array :: cap \<comment> \<open>\<^verbatim>\<open>datap\<close>\<close>
  pf_retaddr :: cap

definition printf_perm_table :: "platform \<Rightarrow> (uintmax \<times> char \<times> char) list" where
  "printf_perm_table pl =
     [(CHERI_PERM_LOAD pl, CHR ''r'', CHR ''r''), (CHERI_PERM_STORE pl, CHR ''w'', CHR ''w''),
      (CHERI_PERM_EXECUTE pl, CHR ''x'', CHR ''x'')] @
     only_if (HAS_CHERI_PERM_LOAD_STORE_CAP pl)
       [(CHERI_PERM_LOAD_CAP pl, CHR ''R'', CHR ''R''), (CHERI_PERM_STORE_CAP pl, CHR ''W'', CHR ''W'')] @
     only_if (HAS_CHERI_PERM_CAP pl) [(CHERI_PERM_CAP pl, CHR ''C'', CHR ''C'')] @
     only_if (HAS_CHERI_PERM_LOAD_MUTABLE pl) [(CHERI_PERM_LOAD_MUTABLE pl, CHR ''M'', CHR ''l'')]"

definition check_printf_attr :: "platform \<Rightarrow> cap \<Rightarrow> string \<Rightarrow> string \<Rightarrow> ('w, unit) prog" where
  "check_printf_attr pl p descr attr = block (
     [(if cheri_tag_get p
       then fail_if pl (contains attr ''invalid'') ''Tagged cap marked invalid for %s'' [FStr descr]
       else fail_if pl (\<not> contains attr ''invalid'') ''Untagged cap not marked invalid for %s'' [FStr descr])] @
     (if cheri_type_get p = CHERI_OTYPE_UNSEALED pl then
        [fail_if pl (contains attr ''sealed'') ''Unsealed cap marked as sealed for %s'' [FStr descr],
         fail_if pl (contains attr ''sentry'') ''Unsealed cap marked as sentry for %s'' [FStr descr]]
      else if cheri_type_get p = CHERI_OTYPE_SENTRY pl then
        [fail_if pl (contains attr ''sealed'') ''Sentry cap marked as sealed for %s'' [FStr descr],
         fail_if pl (\<not> contains attr ''sentry'') ''Sentry cap not marked as sentry for %s'' [FStr descr]]
      else
        [fail_if pl (\<not> contains attr ''sealed'') ''Sealed cap not marked as sealed for %s'' [FStr descr],
         fail_if pl (contains attr ''sentry'') ''Sealed cap marked as sentry for %s'' [FStr descr]]))"

text \<open>The result of \<^verbatim>\<open>asprintf\<close> is not checked: when it fails \<^verbatim>\<open>str\<close> has no value that may be used.\<close>

definition test_printf_cap_one :: "platform \<Rightarrow> printf_env \<Rightarrow> cap \<Rightarrow> int \<Rightarrow> string \<Rightarrow> ('w, unit) prog" where
  "test_printf_cap_one pl pf p expected_tokens descr =
     (if expected_tokens \<notin> set [1, 4, 5] then trap (pf_abort pf)
      else case pf_asprintf pf ''%#lp'' p of None \<Rightarrow> (\<lambda>s. (Undefined, s)) | Some str \<Rightarrow>
      (case sscanf_C (pf_uninit pf) str of
        (tokens, f) \<Rightarrow> block
          [fail_if pl (tokens \<noteq> expected_tokens) ''Mismatched tokens for %s, expected %d got %d''
             [FStr descr, FInt expected_tokens, FInt tokens],
           fail_if pl (cf_addr f \<noteq> cheri_address_get p) ''Mismatched address for %s'' [FStr descr],
           (if tokens = 1 then ret () else block
             [check_C_perms pl p descr (printf_perm_table pl) (cf_perms f),
              fail_if pl (cf_base f \<noteq> cheri_base_get p) ''Mismatched base for %s'' [FStr descr],
              fail_if pl (cf_top f \<noteq> cheri_base_get p + cheri_length_get p) ''Mismatched top for %s'' [FStr descr],
              (if tokens = 4 then ret () else check_printf_attr pl p descr (cf_attr f))])]))"

definition printf_scalar_cases :: "(string \<times> string \<times> string) list" where
  "printf_scalar_cases =
     [(''%#lp'', ''0x4'', ''Wrong output for simple scalar''),
      (''%#.4lp'', ''0x0004'', ''Wrong output for simple scalar with precision''),
      (''%#8lp'', ''     0x4'', ''Wrong output for simple scalar with padding''),
      (''%#-8lp'', ''0x4     '', ''Wrong output for simple scalar with left adjust padding''),
      (''%#8.4lp'', ''  0x0004'', ''Wrong output for simple scalar with precision and padding'')]"

definition printf_cap :: "platform \<Rightarrow> printf_env \<Rightarrow> ('w, unit) prog" where
  "printf_cap pl pf = block (
     map (\<lambda>(fmt, expected, msg). fail_if pl (pf_snprintf pf 64 fmt (scalar_cap pl 4) \<noteq> expected) msg []) printf_scalar_cases @
     only_if (\<not> is_purecap pl)
       [(let lp = pf_snprintf pf 32 ''%lp'' (pf_array pf); p = pf_snprintf_ptr pf 32 ''%p'' (cap_addr (pf_array pf))
         in fail_if pl (lp \<noteq> p) ''Mismatched output for %%p (%s) and %%lp (%s)'' [FStr p, FStr lp])] @
     only_if (is_purecap pl) [test_printf_cap_one pl pf (pf_retaddr pf) 5 ''return address''] @
     [test_printf_cap_one pl pf (pf_array pf) 4 ''stack array'',
      test_printf_cap_one pl pf (cheri_tag_clear (pf_array pf)) 5 ''untagged stack array'',
      cheriostest_success])"

section \<open>What it establishes\<close>

definition printf_letters :: "platform \<Rightarrow> cap \<Rightarrow> string" where
  "printf_letters pl p = map (fst \<circ> snd) (filter (\<lambda>(pb, _). cap_perms p AND pb \<noteq> 0) (printf_perm_table pl))"

definition printf_attr_due :: "platform \<Rightarrow> cap \<Rightarrow> string \<Rightarrow> bool" where
  "printf_attr_due pl p attr \<longleftrightarrow>
     contains attr ''invalid'' = (\<not> cap_tag p) \<and>
     contains attr ''sealed'' = (cap_otype p \<noteq> CHERI_OTYPE_UNSEALED pl \<and> cap_otype p \<noteq> CHERI_OTYPE_SENTRY pl) \<and>
     contains attr ''sentry'' = (cap_otype p \<noteq> CHERI_OTYPE_UNSEALED pl \<and> cap_otype p = CHERI_OTYPE_SENTRY pl)"

lemma is_check_printf_attr: "is_check pl (check_printf_attr pl p descr attr) (printf_attr_due pl p attr)"
  unfolding check_printf_attr_def printf_attr_due_def
  by (auto simp: cap_simps is_check_def fail_if_def)

lemma is_check_printf_one:
  assumes "n \<in> {4, 5}" "pf_asprintf pf ''%#lp'' p = Some str" "sscanf_C (pf_uninit pf) str = (k, f)"
  shows "is_check pl (test_printf_cap_one pl pf p n descr)
    (k = n \<and> cf_addr f = cap_addr p \<and> cf_perms f = printf_letters pl p \<and> cf_base f = cap_base p \<and>
     cf_top f = cap_base p + cheri_length_get p \<and> (n = 5 \<longrightarrow> printf_attr_due pl p (cf_attr f)))"
proof -
  have n: "n \<notin> set [1, 4, 5] \<longleftrightarrow> False" using assms(1) by auto
  show ?thesis
    unfolding test_printf_cap_one_def assms(2,3) option.case prod.case n if_False
    by (intro is_check_parsed [OF assms(1)] is_check_printf_attr) (simp add: printf_letters_def is_check_C_perms)
qed

text \<open>The letters of \<^verbatim>\<open>printf\<close> are those of \<^verbatim>\<open>strfcap\<close> without the one for the Executive permission of Morello.\<close>

definition executive_letter :: "platform \<Rightarrow> cap \<Rightarrow> bool" where
  "executive_letter pl p \<longleftrightarrow> pl_arch pl = Morello \<and> cap_perms p AND ARM_CAP_PERMISSION_EXECUTIVE pl \<noteq> 0"

lemma C_letters_printf: "C_letters pl p = printf_letters pl p @ (if executive_letter pl p then ''E'' else [])"
  by (simp add: C_letters_def printf_letters_def C_perm_table_def printf_perm_table_def executive_letter_def only_if_def)

lemma due_for_printf: "attr_due pl sf p attr \<Longrightarrow> printf_attr_due pl p attr"
  by (simp add: attr_due_def printf_attr_due_def)

lemma is_check_eq: "is_check pl P b \<Longrightarrow> b = c \<Longrightarrow> is_check pl P c"
  by simp

text \<open>A number with its prefix \<^verbatim>\<open>0x\<close>, as the flag \<^verbatim>\<open>#\<close> asks for, is read like the one without.\<close>

definition prefixed :: "nat \<Rightarrow> string" where
  "prefixed n = ''0x'' @ hex_str n"

lemma reads_as_prefixed:
  assumes "n < 2 ^ 64"
  shows "reads_as (prefixed n) n"
  unfolding reads_as_def
proof (intro allI impI)
  fix rest assume rest: "not_hex rest"
  obtain c t where ct: "hex_str n = c # t" by (cases "hex_str n") auto
  then have c: "hex_digit c \<noteq> None" using hex_str_digits [of _ n] by auto
  have "skip_space (''0x'' @ hex_str n @ rest) = ''0x'' @ hex_str n @ rest" by (simp add: skip_space_def is_space_def)
  moreover have "skip_0x (''0x'' @ hex_str n @ rest) = hex_str n @ rest" using c by (simp add: skip_0x_def ct)
  ultimately show "scan_lx (prefixed n @ rest) = Some (of_nat n, rest)"
    using scan_hex_str [OF assms rest] by (simp add: scan_lx_def prefixed_def)
qed

text \<open>The text that is due: the one of \<^verbatim>\<open>%C\<close> with prefixes.\<close>

definition printf_text_due :: "platform \<Rightarrow> strf_env \<Rightarrow> cap \<Rightarrow> string" where
  "printf_text_due pl sf p =
     shape_of (prefixed (unat (cap_addr p))) (C_letters pl p) (prefixed (unat (cap_base p))) (prefixed (cap_top p)) (join_attrs (C_attrs pl sf p))"

lemma printf_one_checked:
  assumes "pf_asprintf pf ''%#lp'' p = Some (printf_text_due pl sf p)" "cap_top p < 2 ^ 64" "n \<in> {4, 5}"
  shows "is_check pl (test_printf_cap_one pl pf p n descr)
    (C_letters pl p \<noteq> [] \<and> \<not> executive_letter pl p \<and> n = (if C_attrs pl sf p = [] then 4 else 5))"
proof -
  have reads: "reads_as (prefixed (unat a)) (unat a)" for a :: uintmax using unsigned_less [of a] by (intro reads_as_prefixed) simp
  obtain k f where kf: "sscanf_C (pf_uninit pf) (printf_text_due pl sf p) = (k, f)" by fastforce
  note check = is_check_printf_one [OF assms(3,1) kf, of pl descr]
  show ?thesis
  proof (cases "C_letters pl p = []")
    case True
    then have "fst (sscanf_C (pf_uninit pf) (printf_text_due pl sf p)) = 1" by (simp add: printf_text_due_def sscanf_no_letters [OF reads])
    then have "k = 1" using kf by simp
    then show ?thesis using check assms(3) True by (auto simp: is_check_def)
  next
    case False
    have "k = (if C_attrs pl sf p = [] then 4 else 5) \<and> f = \<lparr>cf_addr = cap_addr p, cf_perms = C_letters pl p, cf_base = cap_base p,
        cf_top = of_nat (cap_top p), cf_attr = (if C_attrs pl sf p = [] then cf_attr (pf_uninit pf) else join_attrs (C_attrs pl sf p))\<rparr>"
      using sscanf_shape_of [OF reads reads reads_as_prefixed [OF assms(2)] C_text_shape_ok [OF assms(2) False], of "pf_uninit pf" sf] kf
      by (simp add: printf_text_due_def join_attrs_short(3) split: if_splits)
    then show ?thesis
      using assms(2) False due_for_printf [OF join_attrs_due [of pl sf p]] C_letters_printf [of pl p]
      by (intro is_check_eq [OF check]) (auto simp: of_nat_cap_top split: if_splits)
  qed
qed


text \<open>A \<^verbatim>\<open>printf\<close> that prints scalars as numbers and capabilities as \<^verbatim>\<open>strfcap\<close> does, with the prefixes.\<close>

definition documented_printf :: "platform \<Rightarrow> strf_env \<Rightarrow> printf_env \<Rightarrow> bool" where
  "documented_printf pl sf pf \<longleftrightarrow>
     list_all (\<lambda>(fmt, expected, _). pf_snprintf pf 64 fmt (scalar_cap pl 4) = expected) printf_scalar_cases \<and>
     pf_snprintf pf 32 ''%lp'' (pf_array pf) = pf_snprintf_ptr pf 32 ''%p'' (cap_addr (pf_array pf)) \<and>
     list_all (\<lambda>p. pf_asprintf pf ''%#lp'' p = Some (printf_text_due pl sf p)) [pf_retaddr pf, pf_array pf, cheri_tag_clear (pf_array pf)]"

lemma scalars_printed:
  assumes "list_all (\<lambda>(fmt, expected, _). out fmt = expected) cs"
  shows "block (map (\<lambda>(fmt, expected, msg). fail_if pl (out fmt \<noteq> expected) msg []) cs @ ps) = (block ps :: ('w, unit) prog)"
  using assms by (induction cs) (auto simp: fail_if_def)

text \<open>
  C22: With such a \<^verbatim>\<open>printf\<close>, and with capabilities that have a printed permission and the attributes of their role, \<^verbatim>\<open>printf_cap\<close>
  succeeds exactly when no capability it prints has the Executive permission of Morello: its table of letters lacks the one that
  \<^verbatim>\<open>strfcap_C\<close> expects there. The flag of capability mode is not looked at, unlike there.
\<close>

theorem printf_cap_verdict:
  assumes "documented_printf pl sf pf" "prints_as pl sf (pf_array pf) 4" "is_purecap pl \<Longrightarrow> prints_as pl sf (pf_retaddr pf) 5" "p_ccsp s \<noteq> None"
  shows "declares_success (printf_cap pl pf :: ('w, unit) prog) s \<longleftrightarrow>
    \<not> executive_letter pl (pf_array pf) \<and> (is_purecap pl \<longrightarrow> \<not> executive_letter pl (pf_retaddr pf))"
proof -
  have one: "is_check pl (test_printf_cap_one pl pf p n descr :: ('w, unit) prog) (\<not> executive_letter pl p)"
    if "prints_as pl sf p n" "pf_asprintf pf ''%#lp'' p = Some (printf_text_due pl sf p)" "n \<in> {4, 5}" for p n descr
    using printf_one_checked [OF that(2) _ that(3), of descr] that(1) by (simp add: prints_as_def)
  have printed: "pf_asprintf pf ''%#lp'' p = Some (printf_text_due pl sf p)" if "p \<in> {pf_retaddr pf, pf_array pf, cheri_tag_clear (pf_array pf)}" for p
    using assms(1) that by (auto simp: documented_printf_def)
  have clear: "executive_letter pl (cheri_tag_clear p) = executive_letter pl p" for p by (simp add: executive_letter_def cheri_tag_clear_def)
  note array = one [OF assms(2) printed] one [OF tag_clear_prints(1) [OF assms(2)] printed, unfolded clear]
  have scalars: "list_all (\<lambda>(fmt, expected, _). pf_snprintf pf 64 fmt (scalar_cap pl 4) = expected) printf_scalar_cases"
    and hybrid: "pf_snprintf pf 32 ''%lp'' (pf_array pf) = pf_snprintf_ptr pf 32 ''%p'' (cap_addr (pf_array pf))"
    using assms(1) by (simp_all add: documented_printf_def)
  show ?thesis
    unfolding printf_cap_def scalars_printed [OF scalars]
    using hybrid assms(4)
    by (cases "is_purecap pl")
      (auto simp: passes_simps only_if_def Let_def fail_if_def is_check_success [OF array(1)] is_check_success [OF array(2)] is_check_success [OF one [OF assms(3) printed]])
qed


definition printf_env_example :: "uintmax \<Rightarrow> printf_env" where
  "printf_env_example perms = (let c = (\<lambda>otype. (printed_cap otype)\<lparr>cap_perms := perms\<rparr>) in
     \<lparr>pf_asprintf = (\<lambda>_ p. Some (printf_text_due morello_purecap strf_env_example p)),
      pf_snprintf = (\<lambda>_ fmt _. the (map_of (map (\<lambda>(f, e, _). (f, e)) printf_scalar_cases @ [(''%lp'', ''4112'')]) fmt)),
      pf_snprintf_ptr = (\<lambda>_ _ _. ''4112''), pf_abort = sf_abort strf_env_example, pf_uninit = sf_uninit strf_env_example,
      pf_array = c 0, pf_retaddr = c 1\<rparr>)"

theorem printf_cap_verdict_witness:
  "declares_success (printf_cap morello_purecap (printf_env_example 0x28000)) (fresh_process morello_purecap ()) \<and>
   \<not> declares_success (printf_cap morello_purecap (printf_env_example (0x28000 OR ARM_CAP_PERMISSION_EXECUTIVE morello_purecap)))
      (fresh_process morello_purecap ())"
proof
  have "documented_printf morello_purecap strf_env_example (printf_env_example p)" for p
    by (simp add: documented_printf_def printf_env_example_def Let_def printf_scalar_cases_def)
  note verdict = printf_cap_verdict [OF this, of _ "fresh_process morello_purecap ()"]
  show "declares_success (printf_cap morello_purecap (printf_env_example 0x28000)) (fresh_process morello_purecap ())"
    by (subst verdict) (simp_all add: printf_env_example_def Let_def prints_as_def strf_env_example_def printed_cap_def cap_top_def C_letters_def C_perm_table_def
        C_attrs_def morello_purecap_def executive_letter_def)
  show "\<not> declares_success (printf_cap morello_purecap (printf_env_example (0x28000 OR ARM_CAP_PERMISSION_EXECUTIVE morello_purecap)))
      (fresh_process morello_purecap ())"
    by (subst verdict) (simp_all add: printf_env_example_def Let_def prints_as_def strf_env_example_def printed_cap_def cap_top_def C_letters_def C_perm_table_def
        C_attrs_def morello_purecap_def executive_letter_def)
qed

end
