(* ===== verification/Varargs.thy ===== *)
theory Varargs
  imports Signals_Proofs
begin

text \<open>
  The tests of \<^verbatim>\<open>cheriostest_bounds_varargs.c\<close>: a fetch behind the last variable argument, by \<^verbatim>\<open>va_arg\<close> itself or by
  \<^verbatim>\<open>printf\<close>, has to fault. Where the compiler puts the arguments, and so what a fetch does, is an argument of the tests.
\<close>

section \<open>Variable arguments\<close>

text \<open>
  \<open>va_fetch n k\<close> is the fetch of argument \<open>k\<close> of \<open>n\<close>, which may raise a signal; \<open>va_use\<close> what a conversion of \<^verbatim>\<open>printf\<close> does with what
  was fetched (\<^verbatim>\<open>%n\<close> stores through it); \<open>va_output\<close> what \<^verbatim>\<open>printf\<close> has printed when it returns.
\<close>

record 'w va_env =
  va_fetch :: "nat \<Rightarrow> nat \<Rightarrow> 'w \<Rightarrow> siginfo option \<times> 'w"
  va_use :: "char \<Rightarrow> nat \<Rightarrow> nat \<Rightarrow> 'w \<Rightarrow> siginfo option \<times> 'w"
  va_output :: "string \<Rightarrow> string"
  va_SIGPROT :: int
  va_SIGSEGV :: int
  va_PROT_CHERI_BOUNDS :: int
  va_PROT_CHERI_TAG :: int
  va_SEGV_CAPBOUNDSERR :: "int option" \<comment> \<open>\<open>None\<close>: the C library does not define it\<close>
  va_SEGV_CAPTAGERR :: "int option"
  va_TRAPNO_LOAD_STORE :: int

text \<open>The codes that the file defines itself, on Morello Linux, and the check whether it had to.\<close>

definition CAPBOUNDSERR :: "'w va_env \<Rightarrow> int" where
  "CAPBOUNDSERR va = (case va_SEGV_CAPBOUNDSERR va of Some c \<Rightarrow> c | None \<Rightarrow> 12)"

definition CAPTAGERR :: "'w va_env \<Rightarrow> int" where
  "CAPTAGERR va = (case va_SEGV_CAPTAGERR va of Some c \<Rightarrow> c | None \<Rightarrow> 10)"

definition def_missing :: "platform \<Rightarrow> int option \<Rightarrow> string \<Rightarrow> ('w, unit) prog list" where
  "def_missing pl code msg = only_if (is_linux pl \<and> pl_arch pl = Morello \<and> code = None) [cheriostest_failure_errx pl msg []]"

text \<open>The conversions of a format, each of which takes one argument.\<close>

fun conversions :: "string \<Rightarrow> char list" where
  "conversions (c # d # s) = (if c = CHR ''%'' then d # conversions s else conversions (d # s))"
| "conversions _ = []"

fun printf_from :: "'w va_env \<Rightarrow> nat \<Rightarrow> nat \<Rightarrow> char list \<Rightarrow> ('w, unit) prog" where
  "printf_from va n k [] = ret ()"
| "printf_from va n k (c # cs) = block [effect (va_fetch va n k), effect (va_use va c n k), printf_from va n (Suc k) cs]"

text \<open>\<^verbatim>\<open>printf(fmt, ...)\<close> with \<open>n\<close> variable arguments; what it prints is in the buffer of the stream until the process ends by \<^verbatim>\<open>exit\<close>.\<close>

definition printf_va :: "'w va_env \<Rightarrow> nat \<Rightarrow> string \<Rightarrow> ('w, unit) prog" where
  "printf_va va n fmt = block
     [printf_from va n 0 (conversions fmt), (\<lambda>s. (Return (), s\<lparr>p_stdout := p_stdout s @ va_output va fmt\<rparr>))]"

section \<open>The tests\<close>

definition varargs_test_onearg :: "platform \<Rightarrow> 'w va_env \<Rightarrow> ('w, unit) prog" where
  "varargs_test_onearg pl va = block
     [effect (va_fetch va 1 0), effect (va_fetch va 1 1), cheriostest_failure_errx pl ''va_arg() overran bounds without fault'' []]"

text \<open>
  The reason why the tests are expected to fail: \<^verbatim>\<open>riscv/cheriostest_md.h\<close> defines one in the pure-capability ABI, elsewhere
  \<^verbatim>\<open>cheriostest.h\<close> makes it \<^verbatim>\<open>NULL\<close>.
\<close>

definition XFAIL_VARARG_BOUNDS :: "platform \<Rightarrow> string option" where
  "XFAIL_VARARG_BOUNDS pl =
     (if pl_arch pl \<noteq> Morello \<and> is_purecap pl then Some ''varargs bounds known to be unimplemented'' else None)"

text \<open>The entries of the four tests differ in name, description, body and code.\<close>

definition va_entry :: "platform \<Rightarrow> 'w va_env \<Rightarrow> string \<Rightarrow> string \<Rightarrow> int \<Rightarrow> int \<Rightarrow> ('w, unit) prog \<Rightarrow> 'w cheri_test" where
  "va_entry pl va name desc prot_code segv_code body = \<lparr>
     ct_name = name, ct_desc = desc, ct_func = body, ct_child_func = None, ct_check_skip = None, ct_check_xfail = None,
     ct_flags = (if is_FreeBSD pl then CT_FLAG_SIGNAL OR CT_FLAG_SI_CODE OR CT_FLAG_SI_TRAPNO else CT_FLAG_SIGNAL OR CT_FLAG_SI_CODE),
     ct_signum = (if is_FreeBSD pl then va_SIGPROT va else va_SIGSEGV va), ct_si_code = (if is_FreeBSD pl then prot_code else segv_code),
     ct_si_trapno = va_TRAPNO_LOAD_STORE va, ct_stdin_string = [], ct_stdout_string = [], ct_xfail_reason = XFAIL_VARARG_BOUNDS pl, ct_flaky_reason = None\<rparr>"

definition bounds_varargs_vaarg_overflow :: "platform \<Rightarrow> 'w va_env \<Rightarrow> 'w cheri_test" where
  "bounds_varargs_vaarg_overflow pl va = va_entry pl va ''bounds_varargs_vaarg_overflow'' ''check that va_arg() triggers a fault on overrun''
     (va_PROT_CHERI_BOUNDS va) (CAPBOUNDSERR va) (block (
       def_missing pl (va_SEGV_CAPBOUNDSERR va) ''SEGV_CAPBOUNDSERR is not defined'' @ [varargs_test_onearg pl va]))"

definition bounds_varargs_empty_pointer_null :: "platform \<Rightarrow> 'w va_env \<Rightarrow> 'w cheri_test" where
  "bounds_varargs_empty_pointer_null pl va = va_entry pl va ''bounds_varargs_empty_pointer_null'' ''check that empty varargs gives a tag violation on load''
     (va_PROT_CHERI_TAG va) (CAPTAGERR va) (block (
       def_missing pl (va_SEGV_CAPTAGERR va) ''Signal code SEGV_CAPTAGERR missing'' @
       [printf_va va 0 ''%p'', cheriostest_failure_errx pl ''printf(\"%%p\") did not fault'' []]))"

definition bounds_varargs_printf_load :: "platform \<Rightarrow> 'w va_env \<Rightarrow> 'w cheri_test" where
  "bounds_varargs_printf_load pl va = va_entry pl va ''bounds_varargs_printf_load'' ''check that load via printf varargs overflow faults''
     (va_PROT_CHERI_BOUNDS va) (CAPBOUNDSERR va) (block (
       def_missing pl (va_SEGV_CAPBOUNDSERR va) ''SEGV_CAPBOUNDSERR is not defined'' @
       [printf_va va 1 ''%c%p'', cheriostest_failure_errx pl ''printf(\"%%c%%p\", 1) did not fault'' []]))"

definition bounds_varargs_printf_store :: "platform \<Rightarrow> 'w va_env \<Rightarrow> 'w cheri_test" where
  "bounds_varargs_printf_store pl va = va_entry pl va ''bounds_varargs_printf_store'' ''check that store via printf varargs overflow faults''
     (va_PROT_CHERI_BOUNDS va) (CAPBOUNDSERR va) (block (
       def_missing pl (va_SEGV_CAPBOUNDSERR va) ''SEGV_CAPBOUNDSERR is not defined'' @
       [printf_va va 1 ''%c%n'', cheriostest_failure_errx pl ''printf(\"%%c%%n\", 0) did not fault'' []]))"

section \<open>Their verdicts\<close>

lemma va_entry_sel [simp]:
  "ct_func (va_entry pl va n d p c b) = b" "ct_name (va_entry pl va n d p c b) = n" "xfail_of (va_entry pl va n d p c b) = XFAIL_VARARG_BOUNDS pl"
  "ct_flaky_reason (va_entry pl va n d p c b) = None" "ct_check_skip (va_entry pl va n d p c b) = None"
  "ct_signum (va_entry pl va n d p c b) = (if is_FreeBSD pl then va_SIGPROT va else va_SIGSEGV va)"
  "ct_si_code (va_entry pl va n d p c b) = (if is_FreeBSD pl then p else c)" "ct_si_trapno (va_entry pl va n d p c b) = va_TRAPNO_LOAD_STORE va"
  "ct_flags (va_entry pl va n d p c b) = (if is_FreeBSD pl then CT_FLAG_SIGNAL OR CT_FLAG_SI_CODE OR CT_FLAG_SI_TRAPNO else CT_FLAG_SIGNAL OR CT_FLAG_SI_CODE)"
  by (simp_all add: va_entry_def xfail_of_def)

text \<open>
  What a layout of the arguments is asked for: the fetch and the use of a passed argument succeed; a fetch behind the last one raises \<open>overrun n\<close>,
  and where it raises nothing, the use of what it yielded by a conversion raises \<open>stray\<close> (\<^verbatim>\<open>%n\<close> stores through it), in any state.
\<close>

definition va_layout :: "'w va_env \<Rightarrow> (nat \<Rightarrow> siginfo option) \<Rightarrow> (char \<Rightarrow> nat \<Rightarrow> siginfo option) \<Rightarrow> bool" where
  "va_layout va overrun stray \<longleftrightarrow>
     (\<forall>n k w. fst (va_fetch va n k w) = (if k < n then None else overrun n)) \<and>
     (\<forall>c n k w. fst (va_use va c n k w) = (if k < n then None else stray c n))"

text \<open>A statement that changes nothing but the world, and may end by a given signal.\<close>

definition raises :: "('w, unit) prog \<Rightarrow> siginfo option \<Rightarrow> bool" where
  "raises p answer \<longleftrightarrow> (\<forall>s. \<exists>w. p s = (case answer of None \<Rightarrow> Return () | Some i \<Rightarrow> Trapped i, s\<lparr>p_world := w\<rparr>))"

lemma raises_ret: "raises (ret ()) None"
  unfolding raises_def ret_def
proof
  show "\<exists>w. (Return (), s) = (case None of None \<Rightarrow> Return () | Some i \<Rightarrow> Trapped i, s\<lparr>p_world := w\<rparr>)" for s :: "'w pstate"
    by (intro exI [of _ "p_world s"]) simp
qed

lemma raises_effect: "(\<And>w. fst (f w) = answer) \<Longrightarrow> raises (effect f) answer"
  unfolding raises_def effect_def by (auto split: prod.splits option.splits) (metis fst_conv option.distinct(1) option.inject)+

lemma raises_block:
  assumes "raises p a" "a = None \<Longrightarrow> raises (block ps) b"
  shows "raises (block (p # ps)) (case a of None \<Rightarrow> b | Some i \<Rightarrow> Some i)"
  unfolding raises_def
proof
  fix s
  obtain w where w: "p s = (case a of None \<Rightarrow> Return () | Some i \<Rightarrow> Trapped i, s\<lparr>p_world := w\<rparr>)" using assms(1) by (auto simp: raises_def)
  show "\<exists>w. block (p # ps) s = (case case a of None \<Rightarrow> b | Some i \<Rightarrow> Some i of None \<Rightarrow> Return () | Some i \<Rightarrow> Trapped i, s\<lparr>p_world := w\<rparr>)"
  proof (cases a)
    case None
    from assms(2) [OF None] obtain w' where "block ps (s\<lparr>p_world := w\<rparr>) = (case b of None \<Rightarrow> Return () | Some i \<Rightarrow> Trapped i, s\<lparr>p_world := w\<rparr>\<lparr>p_world := w'\<rparr>)"
      unfolding raises_def by blast
    then show ?thesis using None w by (auto simp: bindP_def)
  qed (use w in \<open>auto simp: bindP_def\<close>)
qed

lemma fails_or_raises_bind:
  assumes "raises p a" "a = None \<Longrightarrow> fails_or_raises q b"
  shows "fails_or_raises (bindP p (\<lambda>_. q)) (case a of None \<Rightarrow> b | Some i \<Rightarrow> Some i)"
  unfolding fails_or_raises_def
proof (intro allI impI)
  fix s :: "'a pstate" assume s: "p_ccsp s \<noteq> None"
  obtain w where w: "p s = (case a of None \<Rightarrow> Return () | Some i \<Rightarrow> Trapped i, s\<lparr>p_world := w\<rparr>)" using assms(1) by (auto simp: raises_def)
  show "case (case a of None \<Rightarrow> b | Some i \<Rightarrow> Some i) of None \<Rightarrow> declares_failure (bindP p (\<lambda>_. q)) s
    | Some i \<Rightarrow> \<exists>w. bindP p (\<lambda>_. q) s = (Trapped i, s\<lparr>p_world := w\<rparr>)"
  proof (cases a)
    case None
    then have "case b of None \<Rightarrow> declares_failure q (s\<lparr>p_world := w\<rparr>) | Some i \<Rightarrow> \<exists>v. q (s\<lparr>p_world := w\<rparr>) = (Trapped i, s\<lparr>p_world := w\<rparr>\<lparr>p_world := v\<rparr>)"
      using assms(2) s by (auto simp: fails_or_raises_def split: option.splits)
    then show ?thesis using w None by (cases b) (auto simp: bindP_def declares_failure_def)
  qed (use w in \<open>auto simp: bindP_def\<close>)
qed

lemma fails_errx: "fails_or_raises (cheriostest_failure_errx pl m ap) None"
  by (auto simp: fails_or_raises_def declares_failure_errx)

lemma layout_raises:
  assumes "va_layout va overrun stray"
  shows "raises (effect (va_fetch va n k)) (if k < n then None else overrun n)"
    "raises (effect (va_use va c n k)) (if k < n then None else stray c n)"
  using assms by (auto simp: va_layout_def intro!: raises_effect)

text \<open>What \<^verbatim>\<open>printf\<close> raises: the first signal that the fetch or the use of an argument that was not passed raises.\<close>

definition or_else :: "'a option \<Rightarrow> 'a option \<Rightarrow> 'a option" where
  "or_else a b = (case a of None \<Rightarrow> b | Some x \<Rightarrow> Some x)"

lemma or_else_simps [simp]: "or_else None b = b" "or_else (Some x) b = Some x" "or_else a None = a"
  by (simp_all add: or_else_def split: option.splits)

fun printf_answer :: "(nat \<Rightarrow> siginfo option) \<Rightarrow> (char \<Rightarrow> nat \<Rightarrow> siginfo option) \<Rightarrow> nat \<Rightarrow> nat \<Rightarrow> char list \<Rightarrow> siginfo option" where
  "printf_answer overrun stray n k [] = None"
| "printf_answer overrun stray n k (c # cs) =
     (if k < n then printf_answer overrun stray n (Suc k) cs
      else or_else (overrun n) (or_else (stray c n) (printf_answer overrun stray n (Suc k) cs)))"

lemma printf_from_raises:
  assumes "va_layout va overrun stray"
  shows "raises (printf_from va n k cs) (printf_answer overrun stray n k cs)"
proof (induction cs arbitrary: k)
  case Nil
  then show ?case using raises_ret by simp
next
  case (Cons c cs)
  let ?rest = "printf_answer overrun stray n (Suc k) cs"
  have "raises (block [printf_from va n (Suc k) cs]) ?rest" using Cons.IH by (simp only: block_single)
  then have "raises (printf_from va n k (c # cs)) (case (if k < n then None else overrun n) of None \<Rightarrow>
      (case (if k < n then None else stray c n) of None \<Rightarrow> ?rest | Some i \<Rightarrow> Some i) | Some i \<Rightarrow> Some i)"
    unfolding printf_from.simps by (intro raises_block [OF layout_raises(1) [OF assms]] raises_block [OF layout_raises(2) [OF assms]])
  then show ?case by (simp add: or_else_def split: if_splits)
qed

lemma printf_fails_or_raises:
  assumes "va_layout va overrun stray"
  shows "fails_or_raises (block [printf_va va n fmt, cheriostest_failure_errx pl m []]) (printf_answer overrun stray n 0 (conversions fmt))"
proof -
  have print: "fails_or_raises (bindP (\<lambda>s. (Return (), s\<lparr>p_stdout := t s\<rparr>)) (\<lambda>_. cheriostest_failure_errx pl m [])) None" for t :: "'a pstate \<Rightarrow> string"
    unfolding fails_or_raises_def option.case
  proof (intro allI impI)
    fix s :: "'a pstate" assume "p_ccsp s \<noteq> None"
    then show "declares_failure (bindP (\<lambda>s. (Return (), s\<lparr>p_stdout := t s\<rparr>)) (\<lambda>_. cheriostest_failure_errx pl m [])) s"
      using declares_failure_errx [of pl m "[]" "s\<lparr>p_stdout := t s\<rparr>"] by (simp add: declares_failure_def bindP_def)
  qed
  from fails_or_raises_bind [OF printf_from_raises [OF assms, of n 0 "conversions fmt"] print] show ?thesis
    by (cases "printf_answer overrun stray n 0 (conversions fmt)") (simp_all add: printf_va_def bindP_assoc)
qed

lemma onearg_fails_or_raises:
  assumes "va_layout va overrun stray"
  shows "fails_or_raises (varargs_test_onearg pl va) (overrun 1)"
proof -
  have "fails_or_raises (bindP (effect (va_fetch va 1 0)) (\<lambda>_. bindP (effect (va_fetch va 1 1)) (\<lambda>_. cheriostest_failure_errx pl m [])))
      (case (if (0 :: nat) < 1 then None else overrun 1) of None \<Rightarrow> (case (if (1 :: nat) < 1 then None else overrun 1) of None \<Rightarrow> None | Some i \<Rightarrow> Some i) | Some i \<Rightarrow> Some i)" for m
    by (intro fails_or_raises_bind layout_raises [OF assms] fails_errx)
  then show ?thesis by (cases "overrun 1") (simp_all add: varargs_test_onearg_def)
qed

text \<open>With the check for a missing code in front: on Morello Linux without the code the body declares failure before it fetches anything.\<close>

definition code_missing :: "platform \<Rightarrow> int option \<Rightarrow> bool" where
  "code_missing pl code \<longleftrightarrow> is_linux pl \<and> pl_arch pl = Morello \<and> code = None"

lemma def_missing_fails_or_raises:
  assumes "fails_or_raises (block ps) answer"
  shows "fails_or_raises (block (def_missing pl code m @ ps)) (if code_missing pl code then None else answer)"
proof -
  have "fails_or_raises (block (cheriostest_failure_errx pl m [] # ps)) None"
    using fails_errx [of pl m "[]"] by simp
  then show ?thesis using assms by (cases "code_missing pl code") (simp_all add: def_missing_def code_missing_def [symmetric] del: block.simps)
qed

lemma va_entry_due: "find (begins_with n) disallowed_prefixes = None \<Longrightarrow> test_due opt (va_entry pl va n d p c b) w"
  by (auto simp: test_due_def disallowed_prefixes_def begins_with_def has_flag_def ct_flag_defs)

text \<open>The four tests, with what their body raises, if anything, and the code that they need.\<close>

definition varargs_tests ::
  "platform \<Rightarrow> 'w va_env \<Rightarrow> (nat \<Rightarrow> siginfo option) \<Rightarrow> (char \<Rightarrow> nat \<Rightarrow> siginfo option) \<Rightarrow> ('w cheri_test \<times> siginfo option \<times> int option) list" where
  "varargs_tests pl va overrun stray =
     [(bounds_varargs_vaarg_overflow pl va, overrun 1, va_SEGV_CAPBOUNDSERR va),
      (bounds_varargs_empty_pointer_null pl va, or_else (overrun 0) (stray (CHR ''p'') 0), va_SEGV_CAPTAGERR va),
      (bounds_varargs_printf_load pl va, or_else (overrun 1) (stray (CHR ''p'') 1), va_SEGV_CAPBOUNDSERR va),
      (bounds_varargs_printf_store pl va, or_else (overrun 1) (stray (CHR ''n'') 1), va_SEGV_CAPBOUNDSERR va)]"

text \<open>The raised signal is one that the harness handles, and the announced one, with its code and on CheriBSD its trap number.\<close>

definition raised_as_announced :: "platform \<Rightarrow> 'w os \<Rightarrow> 'w cheri_test \<Rightarrow> siginfo option \<Rightarrow> bool" where
  "raised_as_announced pl os ct raised \<longleftrightarrow> (\<exists>i. raised = Some i \<and> si_signo i \<in> set (harness_signals pl os) \<and>
     si_signo i = ct_signum ct \<and> si_code i = ct_si_code ct \<and> (is_FreeBSD pl \<longrightarrow> si_trapno i = ct_si_trapno ct))"

lemma raised_none [simp]: "\<not> raised_as_announced pl os ct None"
  by (simp add: raised_as_announced_def)

lemma va_entry_flags:
  "has_flag (va_entry pl va n d p c b) CT_FLAG_SIGNAL" "\<not> has_flag (va_entry pl va n d p c b) CT_FLAG_SIGEXIT"
  "has_flag (va_entry pl va n d p c b) CT_FLAG_SI_CODE" "\<not> has_flag (va_entry pl va n d p c b) CT_FLAG_SI_ADDR"
  "\<not> has_flag (va_entry pl va n d p c b) CT_FLAG_STDOUT_STRING"
  "is_FreeBSD pl \<Longrightarrow> has_flag (va_entry pl va n d p c b) CT_FLAG_SI_TRAPNO"
  by (auto simp: has_flag_def ct_flag_defs)

lemma excused_va_entry:
  "excused_verdict (va_entry pl va n d p c b) ok =
     (if pl_arch pl \<noteq> Morello \<and> is_purecap pl then (if ok then XPass else XFail) else (if ok then Pass else Fail))"
  by (simp add: excused_verdict_def XFAIL_VARARG_BOUNDS_def)

lemma va_entry_verdict:
  assumes "os_works opt os" "find (begins_with n) disallowed_prefixes = None" "0 < va_SIGPROT va" "0 < va_SIGSEGV va" "fails_or_raises b answer"
  shows "\<exists>r'. cheriostest_run_test pl os opt u (va_entry pl va n d p c b) r = Inr r' \<and> tally r' = record_verdict
    (excused_verdict (va_entry pl va n d p c b) (raised_as_announced pl os (va_entry pl va n d p c b) answer)) (tally r)"
proof (cases answer)
  case None
  let ?ct = "va_entry pl va n d p c b"
  have failed: "declares_failure (ct_func ?ct) (child_ready pl os (forked_world os ?ct (r_world r)))"
    using assms(5) None by (simp add: fails_or_raises_def)
  then show ?thesis
    using run_test_declared_failure [OF assms(1) va_entry_due [OF assms(2)] failed, of u] None
    by (simp add: excused_verdict_def)
next
  case (Some i)
  let ?ct = "va_entry pl va n d p c b"
  let ?s = "child_ready pl os (forked_world os ?ct (r_world r))"
  obtain w where w: "ct_func ?ct ?s = (Trapped i, ?s\<lparr>p_world := w\<rparr>)" using assms(5) Some by (fastforce simp: fails_or_raises_def)
  have out: "output_as_announced ?ct (Some [])" by (simp add: output_as_announced_def va_entry_flags)
  have page: "ccs_signum (ccs_zero pl) = 0" "ccs_testresult (ccs_zero pl) \<noteq> TESTRESULT_FAILURE" by (simp_all add: ccs_zero_def harness_consts)
  have pos: "0 < ct_signum ?ct" using assms(3,4) by simp
  have "raised_as_announced pl os ?ct answer \<longleftrightarrow>
      (\<exists>j. Trapped i = Trapped j \<and> p_sigaction (?s\<lparr>p_world := w\<rparr>) (si_signo j) = SigHarness \<and> signal_announced pl ?ct j (ccs_zero pl) \<and>
         ccs_testresult (ccs_zero pl) \<noteq> TESTRESULT_FAILURE \<and> output_as_announced ?ct (Some (take 1023 (p_stdout (?s\<lparr>p_world := w\<rparr>)))))"
    using Some out page va_entry_flags [of pl va n d p c b] by (auto simp: raised_as_announced_def signal_announced_def child_ready_def forked_state_def)
  then show ?thesis
    using run_test_announcing [OF assms(1) va_entry_due [OF assms(2)] va_entry_flags(1,2) pos w, of "ccs_zero pl" u] page(1) by simp
qed




text \<open>A layout with bounds on the arguments, and a null pointer where there are none.\<close>

definition bounded_varargs :: "unit va_env" where
  "bounded_varargs = (let raise = (\<lambda>code. \<lparr>si_signo = 34, si_code = code, si_trapno = 0x28, si_addr = cap_null morello_purecap\<rparr>) in
     \<lparr>va_fetch = (\<lambda>n k w. (if k < n then None else Some (raise (if n = 0 then 2 else 1)), w)), va_use = (\<lambda>_ _ _ w. (None, w)), va_output = (\<lambda>_. []),
      va_SIGPROT = 34, va_SIGSEGV = 11, va_PROT_CHERI_BOUNDS = 1, va_PROT_CHERI_TAG = 2, va_SEGV_CAPBOUNDSERR = None, va_SEGV_CAPTAGERR = None,
      va_TRAPNO_LOAD_STORE = 0x28\<rparr>)"

text \<open>The same test on the pure-capability ABIs of Morello and of RISC-V.\<close>

definition riscv_purecap :: platform where
  "riscv_purecap = morello_purecap\<lparr>pl_arch := RISCV_xcheri\<rparr>"


end
