(* ===== verification/Libc_Readers.thy ===== *)
theory Libc_Readers
  imports Statements Memory
begin

text \<open>
  The tests of \<^verbatim>\<open>cheriostest_cheriabi_libc.c\<close>: \<^verbatim>\<open>memchr\<close>, \<^verbatim>\<open>strchr\<close> and \<^verbatim>\<open>strchrnul\<close> have to behave as if they read one
  character after the other. The functions belong to the C library under test and are arguments; the contract that the tests
  quote from the standard is the locale \<^verbatim>\<open>sequential_readers\<close>.
\<close>

section \<open>The tests\<close>

text \<open>A reader gives the pointer found, or \<open>None\<close> for \<^verbatim>\<open>NULL\<close>, or runs into a signal. \<open>rd_string\<close> is the array \<^verbatim>\<open>string\<close> of the test.\<close>

record readers =
  rd_memchr :: "cap \<Rightarrow> byte \<Rightarrow> nat \<Rightarrow> mem \<Rightarrow> siginfo + cap option"
  rd_strchr :: "cap \<Rightarrow> byte \<Rightarrow> mem \<Rightarrow> siginfo + cap option"
  rd_strchrnul :: "cap \<Rightarrow> byte \<Rightarrow> mem \<Rightarrow> siginfo + cap option"
  rd_fault :: "cap option \<Rightarrow> siginfo" \<comment> \<open>of a load through a pointer\<close>

definition byte_of :: "char \<Rightarrow> byte" where
  "byte_of c = of_char c"

fun store_bytes :: "nat \<Rightarrow> byte list \<Rightarrow> mem \<Rightarrow> mem" where
  "store_bytes a [] m = m"
| "store_bytes a (b # bs) m = store_bytes (Suc a) bs (store_byte a b m)"

text \<open>\<^verbatim>\<open>char string[] = "..."\<close>, with its terminating byte.\<close>

definition c_string :: "string \<Rightarrow> byte list" where
  "c_string str = map byte_of str @ [0]"

definition init_string :: "cap \<Rightarrow> string \<Rightarrow> (mem, unit) prog" where
  "init_string a str = upd_world (store_bytes (unat (cap_addr a)) (c_string str))"

definition call_reader :: "(mem \<Rightarrow> siginfo + cap option) \<Rightarrow> (mem, cap option) prog" where
  "call_reader f = (\<lambda>s. case f (p_world s) of Inl i \<Rightarrow> (Trapped i, s) | Inr r \<Rightarrow> (Return r, s))"

text \<open>\<^verbatim>\<open>*(char *)p\<close>.\<close>

definition load_char :: "readers \<Rightarrow> cap option \<Rightarrow> (mem, byte) prog" where
  "load_char rd p = (\<lambda>s. case p of
     None \<Rightarrow> (Trapped (rd_fault rd p), s)
   | Some c \<Rightarrow> if cap_tag c \<and> access_in_bounds c 1 then (Return (m_byte (p_world s) (unat (cap_addr c))), s) else (Trapped (rd_fault rd p), s))"

definition ticked :: "char \<Rightarrow> string" where
  "ticked c = [CHR 0x27, c, CHR 0x27]"

text \<open>\<^verbatim>\<open>CHERIOSTEST_CHECK_EQ_INT(*(char *)f(...), c)\<close> and \<^verbatim>\<open>CHERIOSTEST_VERIFY(f(...) == NULL)\<close>.\<close>

definition check_found :: "platform \<Rightarrow> readers \<Rightarrow> string \<Rightarrow> (mem \<Rightarrow> siginfo + cap option) \<Rightarrow> char \<Rightarrow> string \<Rightarrow> (mem, unit) prog" where
  "check_found pl rd call_text f c c_text =
     bindP (call_reader f) (\<lambda>p. bindP (load_char rd p) (\<lambda>b.
     CHERIOSTEST_CHECK_EQ_INT pl (uint b) (uint (byte_of c)) (''*(char *)'' @ call_text) c_text))"

definition check_null :: "platform \<Rightarrow> string \<Rightarrow> (mem \<Rightarrow> siginfo + cap option) \<Rightarrow> (mem, unit) prog" where
  "check_null pl call_text f = bindP (call_reader f) (\<lambda>p. CHERIOSTEST_VERIFY pl (p = None) (call_text @ '' == NULL''))"

definition cheriabi_libc_memchr :: "platform \<Rightarrow> readers \<Rightarrow> cap \<Rightarrow> (mem, unit) prog" where
  "cheriabi_libc_memchr pl rd string = block
     [init_string string ''0123456789abcde'',
      check_found pl rd (''memchr(string, '' @ ticked (CHR ''e'') @ '', sizeof(string))'') (rd_memchr rd string (byte_of (CHR ''e'')) 16) (CHR ''e'') (ticked (CHR ''e'')),
      check_null pl (''memchr(string, '' @ ticked (CHR ''e'') @ '', sizeof(string) - 2)'') (rd_memchr rd string (byte_of (CHR ''e'')) 14),
      check_found pl rd (''memchr(cheri_bounds_set(string, sizeof(string) - 1), '' @ ticked (CHR ''e'') @ '', sizeof(string))'')
        (rd_memchr rd (cheri_bounds_set pl string 15) (byte_of (CHR ''e'')) 16) (CHR ''e'') (ticked (CHR ''e'')),
      cheriostest_success]"

definition cheriabi_libc_strchr :: "platform \<Rightarrow> readers \<Rightarrow> cap \<Rightarrow> (mem, unit) prog" where
  "cheriabi_libc_strchr pl rd string = block
     [init_string string ''0123456789abcdefghij'',
      check_found pl rd (''strchr(string, '' @ ticked (CHR ''e'') @ '')'') (rd_strchr rd string (byte_of (CHR ''e''))) (CHR ''e'') (ticked (CHR ''e'')),
      check_null pl (''strchr(string, '' @ ticked (CHR ''z'') @ '')'') (rd_strchr rd string (byte_of (CHR ''z''))),
      check_found pl rd (''strchr(string, '' @ ticked (CHR ''g'') @ '')'') (rd_strchr rd string (byte_of (CHR ''g''))) (CHR ''g'') (ticked (CHR ''g'')),
      cheriostest_success]"

definition cheriabi_libc_strchrnul :: "platform \<Rightarrow> readers \<Rightarrow> cap \<Rightarrow> (mem, unit) prog" where
  "cheriabi_libc_strchrnul pl rd string = block
     [init_string string ''0123456789abcdefghij'',
      check_found pl rd (''strchrnul(string, '' @ ticked (CHR ''e'') @ '')'') (rd_strchrnul rd string (byte_of (CHR ''e''))) (CHR ''e'') (ticked (CHR ''e'')),
      check_found pl rd (''strchrnul(string, '' @ ticked (CHR ''z'') @ '')'') (rd_strchrnul rd string (byte_of (CHR ''z''))) NUL ([CHR 0x27, CHR 0x5C] @ ''0'' @ [CHR 0x27]),
      check_found pl rd (''strchrnul(string, '' @ ticked (CHR ''g'') @ '')'') (rd_strchrnul rd string (byte_of (CHR ''g''))) (CHR ''g'') (ticked (CHR ''g'')),
      cheriostest_success]"

section \<open>Strings in memory\<close>

definition ahead :: "cap \<Rightarrow> nat \<Rightarrow> cap" where
  "ahead c k = c\<lparr>cap_addr := cap_addr c + of_nat k\<rparr>"

text \<open>The capability to an array of \<open>n\<close> bytes, and the bytes it holds.\<close>

definition array_cap :: "cap \<Rightarrow> nat \<Rightarrow> bool" where
  "array_cap c n \<longleftrightarrow> cap_tag c \<and> cap_base c = cap_addr c \<and> cap_len c = n \<and> unat (cap_addr c) + n < 2 ^ 64"

definition holds :: "cap \<Rightarrow> byte list \<Rightarrow> mem \<Rightarrow> bool" where
  "holds c bs m \<longleftrightarrow> (\<forall>k < length bs. m_byte m (unat (cap_addr c) + k) = bs ! k)"

lemma store_bytes_below: "x < a \<Longrightarrow> m_byte (store_bytes a bs m) x = m_byte m x"
  by (induction a bs m rule: store_bytes.induct) simp_all

lemma holds_stored: "holds c bs (store_bytes (unat (cap_addr c)) bs m)"
proof -
  have "m_byte (store_bytes a bs m) (a + k) = bs ! k" if "k < length bs" for a k
    using that
  proof (induction bs arbitrary: a m k)
    case (Cons b bs)
    show ?case
    proof (cases k)
      case 0
      then show ?thesis by (simp add: store_bytes_below)
    next
      case (Suc j)
      then show ?thesis using Cons.IH [of j "Suc a" "store_byte a b m"] Cons.prems by simp
    qed
  qed simp
  then show ?thesis by (simp add: holds_def)
qed

lemma unat_ahead:
  assumes "array_cap c n" "k \<le> n"
  shows "unat (cap_addr (ahead c k)) = unat (cap_addr c) + k"
proof -
  have "k < 2 ^ 64" "unat (cap_addr c) + k < 2 ^ 64" using assms by (simp_all add: array_cap_def)
  then show ?thesis by (simp add: ahead_def unat_word_ariths unat_of_nat)
qed

lemma ahead_in_bounds:
  assumes "array_cap c n" "k \<le> n"
  shows "cap_tag (ahead c k) \<and> access_in_bounds (ahead c k) w \<longleftrightarrow> k + w \<le> n"
  using assms unat_ahead [OF assms] by (auto simp: array_cap_def access_in_bounds_def cap_top_def ahead_def)

section \<open>The contract\<close>

text \<open>
  "The implementation shall behave as if it reads the characters sequentially and stops as soon as a matching character is found": what
  is behind the match, or behind the given length, need not be there.
\<close>

definition first_at :: "byte list \<Rightarrow> (byte \<Rightarrow> bool) \<Rightarrow> nat \<Rightarrow> bool" where
  "first_at bs P k \<longleftrightarrow> k < length bs \<and> P (bs ! k) \<and> list_all (\<lambda>j. \<not> P (bs ! j)) [0..<k]"

locale sequential_readers =
  fixes memchr :: "cap \<Rightarrow> byte \<Rightarrow> nat \<Rightarrow> mem \<Rightarrow> siginfo + cap option"
    and strchr strchrnul :: "cap \<Rightarrow> byte \<Rightarrow> mem \<Rightarrow> siginfo + cap option"
  assumes memchr_found: "array_cap c (length bs) \<Longrightarrow> holds c bs m \<Longrightarrow> first_at bs (\<lambda>x. x = b) k \<Longrightarrow> k < n \<Longrightarrow> memchr c b n m = Inr (Some (ahead c k))"
    and memchr_none: "array_cap c (length bs) \<Longrightarrow> holds c bs m \<Longrightarrow> n \<le> length bs \<Longrightarrow> b \<notin> set (take n bs) \<Longrightarrow> memchr c b n m = Inr None"
    and strchr_found: "array_cap c (length bs) \<Longrightarrow> holds c bs m \<Longrightarrow> first_at bs (\<lambda>x. x = b \<or> x = 0) k \<Longrightarrow>
      strchr c b m = Inr (if bs ! k = b then Some (ahead c k) else None)"
    and strchrnul_found: "array_cap c (length bs) \<Longrightarrow> holds c bs m \<Longrightarrow> first_at bs (\<lambda>x. x = b \<or> x = 0) k \<Longrightarrow> strchrnul c b m = Inr (Some (ahead c k))"


lemma bind_load_char:
  assumes "array_cap c (length bs)" "holds c bs (p_world s)" "k < length bs"
  shows "bindP (load_char rd (Some (ahead c k))) g s = g (bs ! k) s"
  using assms ahead_in_bounds [OF assms(1), of k 1] unat_ahead [OF assms(1), of k]
  by (simp add: load_char_def bindP_def holds_def)

lemma success_check_found:
  assumes "call_reader f s = (Return (Some (ahead c k)), s)" "array_cap c (length bs)" "holds c bs (p_world s)" "k < length bs"
  shows "declares_success (bindP (check_found pl rd t f ch t') g) s \<longleftrightarrow> bs ! k = byte_of ch \<and> declares_success (g ()) s"
proof -
  have "bindP (check_found pl rd t f ch t') g s =
      bindP (CHERIOSTEST_CHECK_EQ_INT pl (uint (bs ! k)) (uint (byte_of ch)) (''*(char *)'' @ t) t') g s"
    using assms(1) bind_load_char [OF assms(2-4)] by (simp add: check_found_def bindP_assoc) (simp add: bindP_def)
  then have "declares_success (bindP (check_found pl rd t f ch t') g) s \<longleftrightarrow>
      declares_success (bindP (CHERIOSTEST_CHECK_EQ_INT pl (uint (bs ! k)) (uint (byte_of ch)) (''*(char *)'' @ t) t') g) s"
    by (simp only: declares_success_def)
  then show ?thesis unfolding success_CHECK_EQ(1) word_uint_eq_iff .
qed

lemma success_check_null:
  assumes "call_reader f s = (Return p, s)"
  shows "declares_success (bindP (check_null pl t f) g) s \<longleftrightarrow> p = None \<and> declares_success (g ()) s"
proof -
  have "bindP (check_null pl t f) g s = bindP (CHERIOSTEST_VERIFY pl (p = None) (t @ '' == NULL'')) g s"
    using assms by (simp add: check_null_def bindP_assoc) (simp add: bindP_def)
  then show ?thesis by (simp add: declares_success_def declares_success_VERIFY [unfolded declares_success_def])
qed

lemma reader_returns: "f (p_world s) = Inr p \<Longrightarrow> call_reader f s = (Return p, s)"
  by (simp add: call_reader_def)

lemma fault_no_success:
  assumes "f (p_world s) = Inl i"
  shows "\<not> declares_success (bindP (check_found pl rd t f ch t') g) s" "\<not> declares_success (bindP (check_null pl t f) g) s"
  using assms by (simp_all add: declares_success_def check_found_def check_null_def call_reader_def bindP_def)

text \<open>The strings of the tests and what is to be found in them.\<close>

definition hex_digits :: "byte list" where "hex_digits = c_string ''0123456789abcde''"
definition to_j :: "byte list" where "to_j = c_string ''0123456789abcdefghij''"

lemma string_lengths: "length hex_digits = 16" "length to_j = 21" "length (take 15 hex_digits) = 15"
  by (simp_all add: hex_digits_def to_j_def c_string_def)

lemma first_positions:
  "first_at hex_digits (\<lambda>x. x = byte_of (CHR ''e'')) 14" "first_at (take 15 hex_digits) (\<lambda>x. x = byte_of (CHR ''e'')) 14"
  "first_at to_j (\<lambda>x. x = byte_of (CHR ''e'') \<or> x = 0) 14" "first_at to_j (\<lambda>x. x = byte_of (CHR ''z'') \<or> x = 0) 20"
  "first_at to_j (\<lambda>x. x = byte_of (CHR ''g'') \<or> x = 0) 16" "byte_of (CHR ''e'') \<notin> set (take 14 hex_digits)"
  "hex_digits ! 14 = byte_of (CHR ''e'')" "take 15 hex_digits ! 14 = byte_of (CHR ''e'')" "to_j ! 14 = byte_of (CHR ''e'')" "to_j ! 16 = byte_of (CHR ''g'')"
  "to_j ! 20 = byte_of NUL" "to_j ! 20 \<noteq> byte_of (CHR ''z'')"
  by code_simp+

definition string_ok :: "platform \<Rightarrow> cap \<Rightarrow> nat \<Rightarrow> bool" where
  "string_ok pl c n \<longleftrightarrow> array_cap c n \<and> \<not> cheri_is_sealed pl c \<and> arch_round_bounds pl (cap_addr c) 15 = (cap_addr c, 15)"

lemma shortened:
  assumes "string_ok pl c 16" "holds c hex_digits m"
  shows "array_cap (cheri_bounds_set pl c 15) 15" "holds (cheri_bounds_set pl c 15) (take 15 hex_digits) m"
  using assms by (auto simp: string_ok_def array_cap_def cheri_bounds_set_def access_in_bounds_def cap_top_def holds_def string_lengths)

lemma success_init:
  "declares_success (bindP (init_string c str) g) s \<longleftrightarrow> declares_success (g ()) (s\<lparr>p_world := store_bytes (unat (cap_addr c)) (c_string str) (p_world s)\<rparr>)"
  by (simp add: init_string_def success_upd_world)

context sequential_readers
begin

lemma memchr_passes:
  assumes "string_ok pl c 16" "p_ccsp s \<noteq> None" "rd_memchr rd = memchr"
  shows "declares_success (cheriabi_libc_memchr pl rd c) s"
proof -
  let ?s = "s\<lparr>p_world := store_bytes (unat (cap_addr c)) hex_digits (p_world s)\<rparr>"
  have c: "array_cap c (length hex_digits)" and h: "holds c hex_digits (p_world ?s)"
    using assms(1) by (simp_all add: string_ok_def string_lengths holds_stored)
  have c15: "array_cap (cheri_bounds_set pl c 15) (length (take 15 hex_digits))" and h15: "holds (cheri_bounds_set pl c 15) (take 15 hex_digits) (p_world ?s)"
    using shortened [OF assms(1) h] by (simp_all add: string_lengths)
  have full: "call_reader (memchr c (byte_of (CHR ''e'')) 16) ?s = (Return (Some (ahead c 14)), ?s)"
    by (intro reader_returns memchr_found [OF c h first_positions(1)]) simp
  have short: "call_reader (memchr (cheri_bounds_set pl c 15) (byte_of (CHR ''e'')) 16) ?s = (Return (Some (ahead (cheri_bounds_set pl c 15) 14)), ?s)"
    by (intro reader_returns memchr_found [OF c15 h15 first_positions(2)]) simp
  have none: "call_reader (memchr c (byte_of (CHR ''e'')) 14) ?s = (Return None, ?s)"
    by (intro reader_returns memchr_none [OF c h _ first_positions(6)]) (simp add: string_lengths)
  show ?thesis
    unfolding cheriabi_libc_memchr_def block.simps success_init hex_digits_def [symmetric] assms(3)
      success_check_found [OF full c h, unfolded string_lengths, simplified] success_check_null [OF none]
      success_check_found [OF short c15 h15, unfolded string_lengths, simplified]
    using assms(2) by (simp add: passes_simps first_positions)
qed

lemma strchr_passes:
  assumes "string_ok pl c 21" "p_ccsp s \<noteq> None" "rd_strchr rd = strchr"
  shows "declares_success (cheriabi_libc_strchr pl rd c) s"
proof -
  let ?s = "s\<lparr>p_world := store_bytes (unat (cap_addr c)) to_j (p_world s)\<rparr>"
  have c: "array_cap c (length to_j)" and h: "holds c to_j (p_world ?s)"
    using assms(1) by (simp_all add: string_ok_def string_lengths holds_stored)
  have found: "call_reader (strchr c b) ?s = (Return (if to_j ! k = b then Some (ahead c k) else None), ?s)"
    if "first_at to_j (\<lambda>x. x = b \<or> x = 0) k" for b k
    by (intro reader_returns strchr_found [OF c h that])
  have e: "call_reader (strchr c (byte_of (CHR ''e''))) ?s = (Return (Some (ahead c 14)), ?s)"
    and z: "call_reader (strchr c (byte_of (CHR ''z''))) ?s = (Return None, ?s)"
    and g: "call_reader (strchr c (byte_of (CHR ''g''))) ?s = (Return (Some (ahead c 16)), ?s)"
    using found [OF first_positions(3)] found [OF first_positions(4)] found [OF first_positions(5)] first_positions by simp_all
  show ?thesis
    unfolding cheriabi_libc_strchr_def block.simps success_init to_j_def [symmetric] assms(3)
      success_check_found [OF e c h, unfolded string_lengths, simplified] success_check_null [OF z]
      success_check_found [OF g c h, unfolded string_lengths, simplified]
    using assms(2) by (simp add: passes_simps first_positions)
qed

lemma strchrnul_passes:
  assumes "string_ok pl c 21" "p_ccsp s \<noteq> None" "rd_strchrnul rd = strchrnul"
  shows "declares_success (cheriabi_libc_strchrnul pl rd c) s"
proof -
  let ?s = "s\<lparr>p_world := store_bytes (unat (cap_addr c)) to_j (p_world s)\<rparr>"
  have c: "array_cap c (length to_j)" and h: "holds c to_j (p_world ?s)"
    using assms(1) by (simp_all add: string_ok_def string_lengths holds_stored)
  have found: "call_reader (strchrnul c b) ?s = (Return (Some (ahead c k)), ?s)" if "first_at to_j (\<lambda>x. x = b \<or> x = 0) k" for b k
    by (intro reader_returns strchrnul_found [OF c h that])
  show ?thesis
    unfolding cheriabi_libc_strchrnul_def block.simps success_init to_j_def [symmetric] assms(3)
      success_check_found [OF found [OF first_positions(3)] c h, unfolded string_lengths, simplified]
      success_check_found [OF found [OF first_positions(4)] c h, unfolded string_lengths, simplified]
      success_check_found [OF found [OF first_positions(5)] c h, unfolded string_lengths, simplified]
    using assms(2) by (simp add: passes_simps first_positions)
qed

end

section \<open>Readers that read in blocks\<close>

text \<open>
  Readers that load \<open>w\<close> bytes at a time, look for the first that is sought among them, and go on behind them; a block that is not within the
  bounds raises a signal. \<open>n\<close> is where the search ends, \<open>f\<close> a bound on the number of blocks.
\<close>

fun scan_blocks :: "siginfo \<Rightarrow> nat \<Rightarrow> cap \<Rightarrow> (byte \<Rightarrow> bool) \<Rightarrow> nat \<Rightarrow> mem \<Rightarrow> nat \<Rightarrow> nat \<Rightarrow> siginfo + nat option" where
  "scan_blocks i w c P n m 0 k = Inr None"
| "scan_blocks i w c P n m (Suc f) k =
     (if n \<le> k then Inr None
      else if \<not> (cap_tag (ahead c k) \<and> access_in_bounds (ahead c k) w) then Inl i
      else case find (\<lambda>j. P (m_byte m (unat (cap_addr c) + j)) \<and> j < n) [k..<k + w] of
          Some j \<Rightarrow> Inr (Some j)
        | None \<Rightarrow> scan_blocks i w c P n m f (k + w))"

definition block_memchr :: "siginfo \<Rightarrow> nat \<Rightarrow> cap \<Rightarrow> byte \<Rightarrow> nat \<Rightarrow> mem \<Rightarrow> siginfo + cap option" where
  "block_memchr i w c b n m = map_sum id (map_option (ahead c)) (scan_blocks i w c (\<lambda>x. x = b) n m n 0)"

definition block_strchr :: "siginfo \<Rightarrow> nat \<Rightarrow> cap \<Rightarrow> byte \<Rightarrow> mem \<Rightarrow> siginfo + cap option" where
  "block_strchr i w c b m = (case scan_blocks i w c (\<lambda>x. x = b \<or> x = 0) (Suc (cap_len c)) m (Suc (cap_len c)) 0 of
     Inl e \<Rightarrow> Inl e
   | Inr None \<Rightarrow> Inr None
   | Inr (Some k) \<Rightarrow> Inr (if m_byte m (unat (cap_addr c) + k) = b then Some (ahead c k) else None))"

definition block_strchrnul :: "siginfo \<Rightarrow> nat \<Rightarrow> cap \<Rightarrow> byte \<Rightarrow> mem \<Rightarrow> siginfo + cap option" where
  "block_strchrnul i w c b m = map_sum id (map_option (ahead c)) (scan_blocks i w c (\<lambda>x. x = b \<or> x = 0) (Suc (cap_len c)) m (Suc (cap_len c)) 0)"

definition block_readers :: "siginfo \<Rightarrow> nat \<Rightarrow> readers" where
  "block_readers i w = \<lparr>rd_memchr = block_memchr i w, rd_strchr = block_strchr i w, rd_strchrnul = block_strchrnul i w, rd_fault = (\<lambda>_. i)\<rparr>"

text \<open>The same search on the bytes of an array.\<close>

fun scan_list :: "nat \<Rightarrow> byte list \<Rightarrow> (byte \<Rightarrow> bool) \<Rightarrow> nat \<Rightarrow> nat \<Rightarrow> nat \<Rightarrow> unit + nat option" where
  "scan_list w bs P n 0 k = Inr None"
| "scan_list w bs P n (Suc f) k =
     (if n \<le> k then Inr None
      else if length bs < k + w then Inl ()
      else case find (\<lambda>j. P (bs ! j) \<and> j < n) [k..<k + w] of Some j \<Rightarrow> Inr (Some j) | None \<Rightarrow> scan_list w bs P n f (k + w))"

lemma scan_blocks_list:
  assumes "array_cap c (length bs)" "holds c bs m" "k \<le> length bs"
  shows "scan_blocks i w c P n m f k = map_sum (\<lambda>_. i) id (scan_list w bs P n f k)"
  using assms(3)
proof (induction f arbitrary: k)
  case (Suc f)
  have "find (\<lambda>j. P (m_byte m (unat (cap_addr c) + j)) \<and> j < n) [k..<k + w] = find (\<lambda>j. P (bs ! j) \<and> j < n) [k..<k + w]" if "k + w \<le> length bs"
    using that assms(2) by (intro find_cong refl) (auto simp: holds_def)
  then show ?case
    using Suc.IH [of "k + w"] ahead_in_bounds [OF assms(1) Suc.prems, of w] by (auto split: option.splits)
qed simp

text \<open>One byte at a time: the contract holds.\<close>

lemma scan_first:
  assumes "first_at bs P p" "k \<le> p" "p < n" "p < k + f"
  shows "scan_list 1 bs P n f k = Inr (Some p)"
  using assms(2,4)
proof (induction f arbitrary: k)
  case (Suc f)
  show ?case
  proof (cases "k = p")
    case True
    then show ?thesis using assms(1,3) by (simp add: first_at_def)
  next
    case False
    then have "k < p" using Suc.prems by simp
    then have "\<not> P (bs ! k)" "k < length bs" using assms(1) by (auto simp: first_at_def list_all_iff)
    then show ?thesis using Suc.IH [of "Suc k"] \<open>k < p\<close> Suc.prems assms(3) by simp
  qed
qed simp

lemma scan_nothing: "n \<le> length bs \<Longrightarrow> (\<And>j. j < n \<Longrightarrow> \<not> P (bs ! j)) \<Longrightarrow> scan_list 1 bs P n f k = Inr None"
  by (induction f arbitrary: k) auto

interpretation bytewise: sequential_readers "block_memchr i 1" "block_strchr i 1" "block_strchrnul i 1" for i
proof
  fix c bs m b k n
  assume c: "array_cap c (length bs)" and h: "holds c bs m"
  note scan = scan_blocks_list [OF c h le0]
  show "block_memchr i 1 c b n m = Inr (Some (ahead c k))" if "first_at bs (\<lambda>x. x = b) k" "k < n"
    using scan_first [OF that(1) le0 that(2), of n] that(2) by (simp add: block_memchr_def scan del: One_nat_def scan_blocks.simps)
  show "block_memchr i 1 c b n m = Inr None" if "n \<le> length bs" "b \<notin> set (take n bs)"
  proof -
    have "bs ! j \<noteq> b" if "j < n" for j using that \<open>b \<notin> set (take n bs)\<close> \<open>n \<le> length bs\<close> by (auto simp: in_set_conv_nth)
    then show ?thesis using scan_nothing [OF that(1), of "\<lambda>x. x = b"] by (simp add: block_memchr_def scan del: One_nat_def scan_blocks.simps)
  qed
  assume f: "first_at bs (\<lambda>x. x = b \<or> x = 0) k"
  then have k: "k < length bs" and len: "cap_len c = length bs" using c by (simp_all add: first_at_def array_cap_def)
  then have "scan_list 1 bs (\<lambda>x. x = b \<or> x = 0) (Suc (length bs)) (Suc (length bs)) 0 = Inr (Some k)" by (intro scan_first [OF f]) simp_all
  then show "block_strchr i 1 c b m = Inr (if bs ! k = b then Some (ahead c k) else None)" "block_strchrnul i 1 c b m = Inr (Some (ahead c k))"
    using h k by (simp_all add: block_strchr_def block_strchrnul_def scan len holds_def del: One_nat_def scan_list.simps scan_blocks.simps)
qed

text \<open>More than one at a time: the last block of the third search of \<^verbatim>\<open>memchr\<close>, and the one with the end of the other string, is not within the bounds.\<close>

lemma blocks_fault:
  assumes "w \<in> {2, 4, 8, 16}"
  shows "scan_list w (take 15 hex_digits) (\<lambda>x. x = byte_of (CHR ''e'')) 16 16 0 = Inl ()"
    "scan_list w to_j (\<lambda>x. x = byte_of (CHR ''z'') \<or> x = 0) 22 22 0 = Inl ()"
proof -
  have "list_all (\<lambda>w. scan_list w (take 15 hex_digits) (\<lambda>x. x = byte_of (CHR ''e'')) 16 16 0 = Inl () \<and>
      scan_list w to_j (\<lambda>x. x = byte_of (CHR ''z'') \<or> x = 0) 22 22 0 = Inl ()) [2, 4, 8, 16]" by code_simp
  then show "scan_list w (take 15 hex_digits) (\<lambda>x. x = byte_of (CHR ''e'')) 16 16 0 = Inl ()"
    "scan_list w to_j (\<lambda>x. x = byte_of (CHR ''z'') \<or> x = 0) 22 22 0 = Inl ()" using assms by auto
qed

text \<open>Checks change nothing: what follows one that returns starts in the same state.\<close>

lemma check_keeps:
  fixes g :: "unit \<Rightarrow> (mem, unit) prog"
  shows "declares_success (bindP (check_found pl rd t f ch t') g) s \<Longrightarrow> declares_success (g ()) s"
  "declares_success (bindP (check_null pl t f) g) s \<Longrightarrow> declares_success (g ()) s"
proof -
  assume found: "declares_success (bindP (check_found pl rd t f ch t') g) s"
  show "declares_success (g ()) s"
  proof (cases "call_reader f s")
    case (Pair r u)
    then obtain p where p: "r = Return p" "u = s" using found
      by (cases r) (auto simp: check_found_def bindP_assoc declares_success_def bindP_def call_reader_def split: sum.splits)
    then have load: "declares_success (bindP (load_char rd p) (\<lambda>b. bindP (CHERIOSTEST_CHECK_EQ_INT pl (uint b) (uint (byte_of ch)) (''*(char *)'' @ t) t') g)) s"
      using found Pair by (simp add: check_found_def bindP_assoc declares_success_def) (simp add: bindP_def)
    have "declares_success (bindP (load_char rd p) k) s \<Longrightarrow> \<exists>b. declares_success (k b) s" for k :: "byte \<Rightarrow> (mem, unit) prog"
      by (auto simp: load_char_def declares_success_def bindP_def split: option.splits if_splits)
    from this [OF load] obtain b :: byte where "declares_success (bindP (CHERIOSTEST_CHECK_EQ_INT pl (uint b) (uint (byte_of ch)) (''*(char *)'' @ t) t') g) s"
      by blast
    then show ?thesis by (simp add: success_CHECK_EQ)
  qed
next
  assume null: "declares_success (bindP (check_null pl t f) g) s"
  show "declares_success (g ()) s"
  proof (cases "f (p_world s)")
    case (Inl i)
    then show ?thesis using fault_no_success(2) [of f s i pl t g] null by simp
  next
    case (Inr p)
    then show ?thesis using success_check_null [OF reader_returns [of f s p]] null by blast
  qed
qed

lemma check_stops:
  fixes g :: "unit \<Rightarrow> (mem, unit) prog"
  shows "\<not> declares_success (g ()) s \<Longrightarrow> \<not> declares_success (bindP (check_found pl rd t f ch t') g) s"
  "\<not> declares_success (g ()) s \<Longrightarrow> \<not> declares_success (bindP (check_null pl t f) g) s"
  by (blast dest: check_keeps)+

text \<open>
  C34: Functions that read one byte after the other pass all three tests, wherever the strings are; functions that load two, four, eight or
  sixteen bytes at a time and trust that a block is there as a whole fail all three, although what is sought is within the bounds each time.
\<close>

theorem libc_readers_verdict:
  assumes "w \<in> {1, 2, 4, 8, 16}" "string_ok pl a 16" "string_ok pl b 21" "p_ccsp s \<noteq> None"
  shows "(declares_success (cheriabi_libc_memchr pl (block_readers i w) a) s \<longleftrightarrow> w = 1) \<and>
    (declares_success (cheriabi_libc_strchr pl (block_readers i w) b) s \<longleftrightarrow> w = 1) \<and>
    (declares_success (cheriabi_libc_strchrnul pl (block_readers i w) b) s \<longleftrightarrow> w = 1)"
proof (cases "w = 1")
  case True
  then show ?thesis
    using bytewise.memchr_passes [OF assms(2,4)] bytewise.strchr_passes [OF assms(3,4)] bytewise.strchrnul_passes [OF assms(3,4)]
    by (simp add: block_readers_def)
next
  case False
  then have w: "w \<in> {2, 4, 8, 16}" using assms(1) by simp
  let ?m = "store_bytes (unat (cap_addr a)) hex_digits (p_world s)" and ?n = "store_bytes (unat (cap_addr b)) to_j (p_world s)"
  have a15: "array_cap (cheri_bounds_set pl a 15) (length (take 15 hex_digits))" "holds (cheri_bounds_set pl a 15) (take 15 hex_digits) ?m"
    using shortened [OF assms(2) holds_stored] by (simp_all add: string_lengths)
  have b21: "array_cap b (length to_j)" "holds b to_j ?n" "cap_len b = 21"
    using assms(3) by (simp_all add: string_ok_def array_cap_def string_lengths holds_stored)
  have memchr: "rd_memchr (block_readers i w) (cheri_bounds_set pl a 15) (byte_of (CHR ''e'')) 16 ?m = Inl i"
    by (simp add: block_readers_def block_memchr_def scan_blocks_list [OF a15 le0] blocks_fault(1) [OF w] del: scan_blocks.simps)
  have strchr: "rd_strchr (block_readers i w) b (byte_of (CHR ''z'')) ?n = Inl i" "rd_strchrnul (block_readers i w) b (byte_of (CHR ''z'')) ?n = Inl i"
    by (simp_all add: block_readers_def block_strchr_def block_strchrnul_def b21(3) scan_blocks_list [OF b21(1,2) le0] blocks_fault(2) [OF w] del: scan_blocks.simps)
  have "\<not> declares_success (cheriabi_libc_memchr pl (block_readers i w) a) s"
    unfolding cheriabi_libc_memchr_def block.simps success_init hex_digits_def [symmetric]
    by (rule check_stops(1), rule check_stops(2), rule fault_no_success(1)) (simp add: memchr)
  moreover have "\<not> declares_success (cheriabi_libc_strchr pl (block_readers i w) b) s"
    unfolding cheriabi_libc_strchr_def block.simps success_init to_j_def [symmetric]
    by (rule check_stops(1), rule fault_no_success(2)) (simp add: strchr)
  moreover have "\<not> declares_success (cheriabi_libc_strchrnul pl (block_readers i w) b) s"
    unfolding cheriabi_libc_strchrnul_def block.simps success_init to_j_def [symmetric]
    by (rule check_stops(1), rule fault_no_success(1)) (simp add: strchr)
  ultimately show ?thesis using False by simp
qed

definition string_example :: "nat \<Rightarrow> cap" where
  "string_example n = \<lparr>cap_tag = True, cap_addr = 0x8000, cap_base = 0x8000, cap_len = n, cap_perms = 0x30000, cap_otype = 0, cap_flags = 0\<rparr>"

theorem libc_readers_verdict_witness:
  "\<not> declares_success (cheriabi_libc_strchr morello_purecap (block_readers \<lparr>si_signo = 34, si_code = 1, si_trapno = 0x28, si_addr = string_example 0\<rparr> 8) (string_example 21))
     (fresh_process morello_purecap \<lparr>m_byte = (\<lambda>_. 0), m_tagged = (\<lambda>_. None)\<rparr>)"
proof -
  have "string_ok morello_purecap (string_example 16) 16" "string_ok morello_purecap (string_example 21) 21"
    by (simp_all add: string_ok_def array_cap_def string_example_def morello_purecap_def cheri_is_sealed_def)
  then show ?thesis
    using libc_readers_verdict [of 8 morello_purecap "string_example 16" "string_example 21" "fresh_process morello_purecap \<lparr>m_byte = (\<lambda>_. 0), m_tagged = (\<lambda>_. None)\<rparr>"]
    by simp
qed

end
