(* ===== verification/Runtime_Tests.thy ===== *)
theory Runtime_Tests
  imports Statements
begin

text \<open>
  Tests of what the linker, the run-time loader and the C library provide: alignment of thread-local variables
  (\<^verbatim>\<open>cheriostest_tls.c\<close>), indirect functions (\<^verbatim>\<open>cheriostest_ifunc.c\<close>), canonical function pointers (\<^verbatim>\<open>cheriostest_fptr_canon.c\<close>), lazy binding
  (\<^verbatim>\<open>cheriostest_lazy_bind.c\<close>), the library \<^verbatim>\<open>libcheriostest_dynamic\<close>, \<^verbatim>\<open>setjmp\<close> (\<^verbatim>\<open>cheriostest_longjmp.c\<close>), contexts (\<^verbatim>\<open>cheriostest_context.c\<close>)
  and compression (\<^verbatim>\<open>cheriostest_zlib.c\<close>). The functions under test are arguments.
\<close>

section \<open>Alignment of thread-local variables\<close>

text \<open>\<^verbatim>\<open>ffsl\<close>: the number of the lowest bit that is set, from one; zero if there is none.\<close>

definition ffsl :: "uintmax \<Rightarrow> nat" where
  "ffsl a = (case find (bit a) [0..<64] of None \<Rightarrow> 0 | Some i \<Rightarrow> Suc i)"

text \<open>\<^verbatim>\<open>1 << (n - 1)\<close> in an \<^verbatim>\<open>int\<close>: without meaning for a negative distance and where the result does not fit.\<close>

definition int_shift_one :: "nat \<Rightarrow> int option" where
  "int_shift_one n = (if n = 0 \<or> 31 < n then None else Some (2 ^ (n - 1)))"

definition check_alignment :: "platform \<Rightarrow> ptraddr \<Rightarrow> int \<Rightarrow> string \<Rightarrow> ('w, unit) prog" where
  "check_alignment pl addr expected msg = (case int_shift_one (ffsl addr) of
     None \<Rightarrow> (\<lambda>s. (Undefined, s))
   | Some alignment \<Rightarrow> fail_if pl (alignment < expected) msg [FInt alignment, FInt expected])"

definition sizeof_pointer :: "platform \<Rightarrow> int" where
  "sizeof_pointer pl = (if is_purecap pl then 16 else 8)"

definition tls_align_ptr :: "platform \<Rightarrow> ptraddr \<Rightarrow> ptraddr \<Rightarrow> ('w, unit) prog" where
  "tls_align_ptr pl tls_ptr0 tls_ptr1 = block
     [check_alignment pl tls_ptr0 (sizeof_pointer pl) ''Underaligned TLS pointer 0 (got: %d; expected %d)'',
      check_alignment pl tls_ptr1 (sizeof_pointer pl) ''Underaligned TLS pointer 1 (got: %d; expected %d)'',
      cheriostest_success]"

text \<open>In the hybrid ABI.\<close>

definition tls_align_cap :: "platform \<Rightarrow> ptraddr \<Rightarrow> ptraddr \<Rightarrow> ('w, unit) prog" where
  "tls_align_cap pl tls_cap0 tls_cap1 = block
     [check_alignment pl tls_cap0 16 ''Underaligned TLS capability 0 (got: %d; expected %d)'',
      check_alignment pl tls_cap1 16 ''Underaligned TLS capability 1 (got: %d; expected %d)'',
      cheriostest_success]"

definition tls_align_4k :: "platform \<Rightarrow> ptraddr \<Rightarrow> ('w, unit) prog" where
  "tls_align_4k pl tls_array_4k = block
     [check_alignment pl tls_array_4k 4096 ''Underaligned TLS 4K array (got: %d; expected %d)'', cheriostest_success]"

section \<open>Symbols across objects\<close>

text \<open>
  What the loader makes of the symbols: the result of a look-up by name (\<open>None\<close> is \<^verbatim>\<open>NULL\<close>, with the text of \<^verbatim>\<open>dlerror\<close>), the two
  ways to a function pointer, the address a relocation puts into an integer, how an indirect function is called when its resolver gives a
  certain implementation, and what becomes of an argument of a call that is bound lazily.
\<close>

record loader =
  ld_dlsym :: "string \<Rightarrow> cap option"
  ld_dlfunc :: "string \<Rightarrow> cap option"
  ld_dlerror :: string
  ld_direct :: "string \<Rightarrow> cap" \<comment> \<open>\<^verbatim>\<open>&symbol\<close> in the program\<close>
  ld_inside :: "string \<Rightarrow> cap" \<comment> \<open>\<^verbatim>\<open>&symbol\<close> in the library\<close>
  ld_address :: "string \<Rightarrow> ptraddr" \<comment> \<open>\<^verbatim>\<open>(ptraddr_t)&symbol\<close> as an initialiser in the library\<close>
  ld_ifunc_call :: "(unit \<Rightarrow> int) \<Rightarrow> int"
  ld_ifunc_fptr :: "(unit \<Rightarrow> int) \<Rightarrow> int" \<comment> \<open>through a pointer that is initialised with the function\<close>
  ld_bound_call :: "(cap \<Rightarrow> cap) \<Rightarrow> cap \<Rightarrow> cap"
  IFUNC_SUPPORTED :: bool
  IFUNC_FAILURE_MESSAGE :: string

definition dummy_name :: string where
  "dummy_name = ''cheriostest_dynamic_dummy_func''"

text \<open>The library.\<close>

definition cheriostest_dynamic_get_dummy_fptr :: "loader \<Rightarrow> cap" where
  "cheriostest_dynamic_get_dummy_fptr ld = ld_inside ld dummy_name"

definition cheriostest_dynamic_get_dummy_fptr_addr :: "loader \<Rightarrow> ptraddr" where
  "cheriostest_dynamic_get_dummy_fptr_addr ld = ld_address ld dummy_name"

definition cheriostest_dynamic_ifunc_impl :: "unit \<Rightarrow> int" where
  "cheriostest_dynamic_ifunc_impl _ = 42"

definition cheriostest_dynamic_ifunc :: "loader \<Rightarrow> int" where
  "cheriostest_dynamic_ifunc ld = ld_ifunc_call ld cheriostest_dynamic_ifunc_impl"

definition cheriostest_dynamic_identity_cap :: "cap \<Rightarrow> cap" where
  "cheriostest_dynamic_identity_cap c = c"

text \<open>A pointer that may be \<^verbatim>\<open>NULL\<close>.\<close>

definition or_null :: "platform \<Rightarrow> cap option \<Rightarrow> cap" where
  "or_null pl p = (case p of None \<Rightarrow> cap_null pl | Some c \<Rightarrow> c)"

definition CHERIOSTEST_CHECK_EQ_PTR :: "platform \<Rightarrow> cap \<Rightarrow> cap \<Rightarrow> string \<Rightarrow> string \<Rightarrow> ('w, unit) prog" where
  "CHERIOSTEST_CHECK_EQ_PTR pl a b a_str b_str =
     (if is_purecap pl then cheriostest_check_cap_eq pl a b a_str b_str
      else CHERIOSTEST_VERIFY2 pl (ptr_eq a b) ''%s (%p) == %s (%p) failed!'' [FStr a_str, FPtr a, FStr b_str, FPtr b])"

definition tls_dlsym :: "platform \<Rightarrow> loader \<Rightarrow> ('w, unit) prog" where
  "tls_dlsym pl ld = (let p = ld_dlsym ld ''cheriostest_dynamic_tls_var'' in block
     [fail_if pl (p = None) ''dlsym(3) failed: %s'' [FStr (ld_dlerror ld)],
      CHERIOSTEST_CHECK_EQ_PTR pl (or_null pl p) (ld_direct ld ''cheriostest_dynamic_tls_var'') ''cheriostest_dynamic_tls_var_dlsym'' ''&cheriostest_dynamic_tls_var'',
      cheriostest_success])"

definition fptr_canon_cross :: "platform \<Rightarrow> loader \<Rightarrow> ('w, unit) prog" where
  "fptr_canon_cross pl ld = (let fptr_inside = cheriostest_dynamic_get_dummy_fptr ld; fptr_outside = ld_direct ld dummy_name in block
     [CHERIOSTEST_VERIFY2 pl (cheri_ptr_equal_exact pl fptr_inside fptr_outside) ''inside %#p differs from outside %#p'' [FPtr fptr_inside, FPtr fptr_outside],
      cheriostest_success])"

definition fptr_canon_dlsym :: "platform \<Rightarrow> loader \<Rightarrow> ('w, unit) prog" where
  "fptr_canon_dlsym pl ld = (let fptr_inside = cheriostest_dynamic_get_dummy_fptr ld; fptr_dlsym = or_null pl (ld_dlsym ld dummy_name) in block
     [CHERIOSTEST_VERIFY2 pl (cheri_ptr_equal_exact pl fptr_inside fptr_dlsym) ''inside %#p differs from dlsym %#p'' [FPtr fptr_inside, FPtr fptr_dlsym],
      cheriostest_success])"

definition fptr_canon_dlfunc :: "platform \<Rightarrow> loader \<Rightarrow> ('w, unit) prog" where
  "fptr_canon_dlfunc pl ld = (let fptr_inside = cheriostest_dynamic_get_dummy_fptr ld; fptr_dlfunc = or_null pl (ld_dlfunc ld dummy_name) in block
     [CHERIOSTEST_VERIFY2 pl (cheri_ptr_equal_exact pl fptr_inside fptr_dlfunc) ''inside %#p differs from dlfunc %#p'' [FPtr fptr_inside, FPtr fptr_dlfunc],
      cheriostest_success])"

definition fptr_canon_int :: "platform \<Rightarrow> loader \<Rightarrow> ('w, unit) prog" where
  "fptr_canon_int pl ld = (let fptr_int = cheriostest_dynamic_get_dummy_fptr_addr ld; fptr_dlsym = or_null pl (ld_dlsym ld dummy_name) in block
     [CHERIOSTEST_VERIFY2 pl (fptr_int = cap_addr fptr_dlsym) ''Integer address %p differs from dlsym %#p'' [FPtr (null_derived pl fptr_int), FPtr fptr_dlsym],
      cheriostest_success])"

definition lazy_bind_args :: "platform \<Rightarrow> loader \<Rightarrow> cap \<Rightarrow> ('w, unit) prog" where
  "lazy_bind_args pl ld cap = (let cap2 = ld_bound_call ld cheriostest_dynamic_identity_cap cap in block
     [cheriostest_check_cap_eq pl cap cap2 ''cap'' ''cap2'', cheriostest_success])"

definition simple_ifunc_impl :: "unit \<Rightarrow> int" where
  "simple_ifunc_impl _ = 42"

text \<open>The four tests of indirect functions differ in what is called and how: directly or through a pointer that was initialised with it.\<close>

definition ifunc_test :: "platform \<Rightarrow> loader \<Rightarrow> int \<Rightarrow> ('w, unit) prog" where
  "ifunc_test pl ld result = (if IFUNC_SUPPORTED ld
     then block [fail_if pl (result \<noteq> 42) ''Returned %d, expected 42'' [FInt result], cheriostest_success]
     else cheriostest_failure_errx pl (IFUNC_FAILURE_MESSAGE ld) [])"

definition call_ifunc :: "platform \<Rightarrow> loader \<Rightarrow> ('w, unit) prog" where
  "call_ifunc pl ld = ifunc_test pl ld (ld_ifunc_call ld simple_ifunc_impl)"

definition global_data_ifunc_fptr :: "platform \<Rightarrow> loader \<Rightarrow> ('w, unit) prog" where
  "global_data_ifunc_fptr pl ld = ifunc_test pl ld (ld_ifunc_fptr ld simple_ifunc_impl)"

definition dynamic_ifunc :: "platform \<Rightarrow> loader \<Rightarrow> ('w, unit) prog" where
  "dynamic_ifunc pl ld = ifunc_test pl ld (cheriostest_dynamic_ifunc ld)"

definition global_data_dynamic_ifunc_fptr :: "platform \<Rightarrow> loader \<Rightarrow> ('w, unit) prog" where
  "global_data_dynamic_ifunc_fptr pl ld = ifunc_test pl ld (ld_ifunc_fptr ld cheriostest_dynamic_ifunc_impl)"

section \<open>setjmp and longjmp\<close>

text \<open>\<^verbatim>\<open>longjmp\<close> makes \<^verbatim>\<open>setjmp\<close> return once more, or comes back itself.\<close>

datatype jump = Lands int | ComesBack

record jumps =
  sj_setjmp :: int
  sj_longjmp :: "int \<Rightarrow> jump"

definition libc_setjmp :: "platform \<Rightarrow> jumps \<Rightarrow> ('w, unit) prog" where
  "libc_setjmp pl sj = block [fail_if pl (sj_setjmp sj \<noteq> 0) ''setjmp returned non-zero value'' [], cheriostest_success]"

text \<open>What follows \<^verbatim>\<open>setjmp\<close>, each time it returns; \<open>None\<close> if it returns 0 for ever.\<close>

partial_function (option) after_setjmp :: "platform \<Rightarrow> jumps \<Rightarrow> int \<Rightarrow> ('w, unit) prog option" where
  "after_setjmp pl sj r =
     (if r = 0
      then (case sj_longjmp sj 123 of
              Lands r' \<Rightarrow> after_setjmp pl sj r'
            | ComesBack \<Rightarrow> Some (cheriostest_failure_errx pl ''longjmp returned'' []))
      else Some (block [fail_if pl (r \<noteq> 123) ''setjmp returned unexpected non-zero value'' [], cheriostest_success]))"

definition libc_setjmp_longjmp :: "platform \<Rightarrow> jumps \<Rightarrow> ('w, unit) prog option" where
  "libc_setjmp_longjmp pl sj = after_setjmp pl sj (sj_setjmp sj)"

section \<open>Contexts\<close>

text \<open>
  \<^verbatim>\<open>setcontext\<close> fails, comes back, or goes to the function of the context with its arguments; \<^verbatim>\<open>swapcontext\<close> calls the function, if it
  gets so far, with an argument, and gives a result.
\<close>

datatype entered = Ctx_fails int | Ctx_back | Ctx_enters int int

record contexts =
  cx_getcontext :: "int + unit"
  cx_SIGSTKSZ :: nat
  cx_mmap :: "nat \<Rightarrow> mapflag list \<Rightarrow> cap option"
  cx_setcontext :: "int \<Rightarrow> int \<Rightarrow> entered"
  cx_swapcontext :: "int \<Rightarrow> int option \<times> (int + int)"
  cx_musl :: bool

definition GET_AND_SETCONTEXT_FAILURE_MESSAGE :: string where
  "GET_AND_SETCONTEXT_FAILURE_MESSAGE = ''getcontext() and related functions are not supported by musl libc''"

definition SWAPCONTEXT_ARG1 :: int where "SWAPCONTEXT_ARG1 = 0x53574150"
definition SETCONTEXT_ARG1 :: int where "SETCONTEXT_ARG1 = 0x43485249"
definition SETCONTEXT_ARG2 :: int where "SETCONTEXT_ARG2 = 0x534554"

text \<open>The context itself is known to the functions under test only.\<close>

definition checked_result :: "platform \<Rightarrow> (int + 'a) \<Rightarrow> string \<Rightarrow> ('w, 'a) prog" where
  "checked_result pl r call_text = CHERIOSTEST_CHECK_SYSCALL pl (\<lambda>w. (r, w)) call_text"

definition ucontext_mmap_stack :: "platform \<Rightarrow> contexts \<Rightarrow> ('w, unit) prog" where
  "ucontext_mmap_stack pl cx = CHERIOSTEST_VERIFY2 pl (cx_mmap cx (cx_SIGSTKSZ cx) [MAP_ANON] \<noteq> None) ''failed to map new stack'' []"

definition setcontext_func :: "platform \<Rightarrow> int \<Rightarrow> int \<Rightarrow> ('w, unit) prog" where
  "setcontext_func pl arg1 arg2 = block
     [CHERIOSTEST_VERIFY pl (arg1 = SETCONTEXT_ARG1) ''arg1 == SETCONTEXT_ARG1'',
      CHERIOSTEST_VERIFY pl (arg2 = SETCONTEXT_ARG2) ''arg2 == SETCONTEXT_ARG2'', cheriostest_success]"

definition setcontext_basic :: "platform \<Rightarrow> contexts \<Rightarrow> ('w, unit) prog" where
  "setcontext_basic pl cx =
     (if cx_musl cx then cheriostest_failure_errx pl GET_AND_SETCONTEXT_FAILURE_MESSAGE []
      else bindP (checked_result pl (cx_getcontext cx) ''getcontext(&uc)'') (\<lambda>_.
           bindP (ucontext_mmap_stack pl cx) (\<lambda>_.
           (case cx_setcontext cx SETCONTEXT_ARG1 SETCONTEXT_ARG2 of
              Ctx_enters a b \<Rightarrow> setcontext_func pl a b
            | Ctx_fails e \<Rightarrow> bindP (checked_result pl (Inl e) ''setcontext(&uc)'') (\<lambda>_ :: unit. ret ())
            | Ctx_back \<Rightarrow> cheriostest_failure_errx pl ''returned from successful setcontext'' []))))"

text \<open>\<^verbatim>\<open>swapcontext_func\<close> puts its argument into \<^verbatim>\<open>swapcontext_arg1\<close>, which is 0 before.\<close>

definition swapcontext_func :: "int option \<Rightarrow> int" where
  "swapcontext_func called = (case called of None \<Rightarrow> 0 | Some arg1 \<Rightarrow> arg1)"

definition swapcontext_basic :: "platform \<Rightarrow> contexts \<Rightarrow> ('w, unit) prog" where
  "swapcontext_basic pl cx =
     (if cx_musl cx then cheriostest_failure_errx pl GET_AND_SETCONTEXT_FAILURE_MESSAGE []
      else bindP (checked_result pl (cx_getcontext cx) ''getcontext(&uc)'') (\<lambda>_.
           bindP (ucontext_mmap_stack pl cx) (\<lambda>_.
           (case cx_swapcontext cx SWAPCONTEXT_ARG1 of (called, r) \<Rightarrow>
           bindP (checked_result pl r ''swapcontext(&uc_link, &uc)'') (\<lambda>result. block
             [CHERIOSTEST_VERIFY2 pl (result = 0) ''unknown return value from swapcontext'' [],
              CHERIOSTEST_VERIFY pl (swapcontext_func called = SWAPCONTEXT_ARG1) ''swapcontext_arg1 == SWAPCONTEXT_ARG1'',
              cheriostest_success])))))"

section \<open>Compression\<close>

text \<open>The calls of zlib, with the room for the output: their results, and what was consumed and put out. \<open>z_malloc\<close> is \<^verbatim>\<open>malloc\<close>, with \<^verbatim>\<open>errno\<close>.\<close>

type_synonym byte8 = "8 word"

record zlib =
  z_malloc :: "nat \<Rightarrow> int option" \<comment> \<open>\<open>Some\<close> is a failure\<close>
  z_deflateInit :: int
  z_deflate :: "byte8 list \<Rightarrow> nat \<Rightarrow> int \<times> byte8 list"
  z_deflateEnd :: int
  z_inflateInit :: int
  z_inflate :: "byte8 list \<Rightarrow> nat \<Rightarrow> int \<times> nat \<times> byte8 list"
  z_inflateEnd :: int

definition checked_malloc :: "platform \<Rightarrow> int option \<Rightarrow> string \<Rightarrow> ('w, unit) prog" where
  "checked_malloc pl failed msg = (case failed of
     None \<Rightarrow> ret () | Some e \<Rightarrow> (\<lambda>s. cheriostest_failure_err pl msg [] (s\<lparr>p_errno := e\<rparr>)))"

definition INFLATE_BUFSIZE :: nat where "INFLATE_BUFSIZE = 10 * 1024"
definition Z_OK :: int where "Z_OK = 0"
definition Z_STREAM_END :: int where "Z_STREAM_END = 1"

definition uncompressed_zeroes :: "byte8 list" where
  "uncompressed_zeroes = replicate INFLATE_BUFSIZE 0"

definition compressed_zeroes :: "byte8 list" where
  "compressed_zeroes =
     [0x78, 0x9c, 0xed, 0xc1, 0x01, 0x0d, 0x00, 0x00,
      0x00, 0xc2, 0xa0, 0xf7, 0x4f, 0x6d, 0x0e, 0x37,
      0xa0, 0x00, 0x00, 0x00, 0x00, 0x00, 0x00, 0x00,
      0x00, 0x00, 0x80, 0x37, 0x03, 0x28, 0x00, 0x00,
      0x01]"

text \<open>The loop over the bytes stops at the first that is wrong; \<open>i\<close> is its number.\<close>

fun check_bytes :: "platform \<Rightarrow> string \<Rightarrow> nat \<Rightarrow> byte8 list \<Rightarrow> byte8 list \<Rightarrow> ('w, unit) prog" where
  "check_bytes pl msg i (d # ds) (e # es) =
     bindP (fail_if pl (d \<noteq> e) msg [FWord (of_nat i)]) (\<lambda>_. check_bytes pl msg (Suc i) ds es)"
| "check_bytes pl msg i _ _ = ret ()"

definition check_compressed_data :: "platform \<Rightarrow> byte8 list \<Rightarrow> ('w, unit) prog" where
  "check_compressed_data pl data = block
     [fail_if pl (length data \<noteq> length compressed_zeroes) ''compressed data length wrong (expected %zu, got %zu)''
        [FWord (of_nat (length compressed_zeroes)), FWord (of_nat (length data))],
      check_bytes pl ''compressed data wrong at byte %zu'' 0 data compressed_zeroes]"

definition check_uncompressed_data :: "platform \<Rightarrow> byte8 list \<Rightarrow> ('w, unit) prog" where
  "check_uncompressed_data pl data = block
     [fail_if pl (length data \<noteq> length uncompressed_zeroes) ''uncompressed data length wrong (expected %zu, got %zu)''
        [FWord (of_nat (length uncompressed_zeroes)), FWord (of_nat (length data))],
      check_bytes pl ''uncompressed data wrong at byte %zu'' 0 data uncompressed_zeroes]"

definition deflate_zeroes :: "platform \<Rightarrow> zlib \<Rightarrow> ('w, unit) prog" where
  "deflate_zeroes pl z =
     (let compsize = length uncompressed_zeroes * 2; (r, out) = z_deflate z uncompressed_zeroes compsize in
      bindP (checked_malloc pl (z_malloc z compsize) ''malloc compbuf'') (\<lambda>_. block
        [fail_if pl (z_deflateInit z \<noteq> Z_OK) ''deflateInit returned %d'' [FInt (z_deflateInit z)],
         fail_if pl (r \<noteq> Z_STREAM_END) ''deflate returned %d'' [FInt r],
         fail_if pl (z_deflateEnd z \<noteq> Z_OK) ''deflateEnd returned %d'' [FInt (z_deflateEnd z)],
         check_compressed_data pl out,
         cheriostest_success]))"

definition inflate_zeroes :: "platform \<Rightarrow> zlib \<Rightarrow> ('w, unit) prog" where
  "inflate_zeroes pl z =
     (let (r, total_in, out) = z_inflate z compressed_zeroes (length uncompressed_zeroes) in
      bindP (checked_malloc pl (z_malloc z (length uncompressed_zeroes)) ''malloc outbuf'') (\<lambda>_. block
        [fail_if pl (z_inflateInit z \<noteq> Z_OK) ''inflateInit returned %d'' [FInt (z_inflateInit z)],
         fail_if pl (r \<noteq> Z_STREAM_END) ''inflate returned %d'' [FInt r],
         fail_if pl (z_inflateEnd z \<noteq> Z_OK) ''inflateEnd returned %d'' [FInt (z_inflateEnd z)],
         fail_if pl (total_in \<noteq> length compressed_zeroes) ''expected to consume %zu bytes, got %zu''
           [FWord (of_nat (length compressed_zeroes)), FWord (of_nat total_in)],
         check_uncompressed_data pl out,
         cheriostest_success]))"

end
