(* ===== verification/Runtime_Proofs.thy ===== *)
theory Runtime_Proofs
  imports Runtime_Tests
begin

text \<open>
  When the tests of theory \<^verbatim>\<open>Runtime_Tests\<close> succeed: exact conditions on addresses, jumps, contexts, symbols and streams.
\<close>

section \<open>Alignment\<close>

lemma ffsl_lowest: "ffsl a = Suc i \<Longrightarrow> bit a i \<and> (\<forall>j < i. \<not> bit a j)"
  unfolding ffsl_def by (auto simp: find_Some_iff split: option.splits)

lemma ffsl_zero: "ffsl a = 0 \<longleftrightarrow> a = 0"
proof
  assume "ffsl a = 0"
  then have "\<not> bit a j" if "j < 64" for j using that by (auto simp: ffsl_def find_None_iff split: option.splits)
  then show "a = 0" by (intro bit_eqI) (auto dest: bit_imp_le_length)
next
  assume "a = 0"
  then show "ffsl a = 0" by (auto simp: ffsl_def find_Some_iff split: option.splits)
qed

lemma power_dvd_bits: "2 ^ k dvd unat (a :: uintmax) \<longleftrightarrow> (\<forall>j < k. \<not> bit a j)"
proof -
  have "2 ^ k dvd unat a \<longleftrightarrow> take_bit k (unat a) = 0" by (simp add: take_bit_eq_mod dvd_eq_mod_eq_0)
  also have "\<dots> \<longleftrightarrow> (\<forall>j. \<not> (j < k \<and> bit (unat a) j))" by (auto simp: bit_eq_iff bit_take_bit_iff)
  also have "\<dots> \<longleftrightarrow> (\<forall>j < k. \<not> bit a j)" by (auto simp: bit_unsigned_iff)
  finally show ?thesis .
qed

lemma power_dvd_ffsl: "ffsl a = Suc i \<Longrightarrow> 2 ^ k dvd unat a \<longleftrightarrow> k \<le> i"
  unfolding power_dvd_bits using ffsl_lowest [of a i] by (meson leI less_le_trans)

text \<open>The check as a condition on the address: \<^verbatim>\<open>None\<close> where C gives it no meaning.\<close>

lemma shift_alignment:
  "int_shift_one (ffsl a) = None \<longleftrightarrow> 2 ^ 31 dvd unat a"
  "int_shift_one (ffsl a) = Some n \<Longrightarrow> n < 2 ^ k \<longleftrightarrow> \<not> 2 ^ k dvd unat a"
proof -
  show "int_shift_one (ffsl a) = None \<longleftrightarrow> 2 ^ 31 dvd unat a"
  proof (cases "ffsl a")
    case 0
    then show ?thesis using ffsl_zero [of a] by (simp add: int_shift_one_def)
  next
    case (Suc i)
    then show ?thesis using power_dvd_ffsl [OF Suc, of 31] by (auto simp: int_shift_one_def)
  qed
  assume shift: "int_shift_one (ffsl a) = Some n"
  then obtain i where i: "ffsl a = Suc i" "n = 2 ^ i" by (cases "ffsl a") (auto simp: int_shift_one_def split: if_splits)
  then show "n < 2 ^ k \<longleftrightarrow> \<not> 2 ^ k dvd unat a" by (simp add: power_dvd_ffsl [OF i(1)] not_le)
qed

lemma success_alignment:
  "declares_success (bindP (check_alignment pl a (2 ^ k) m) f) s \<longleftrightarrow> 2 ^ k dvd unat a \<and> \<not> 2 ^ 31 dvd unat a \<and> declares_success (f ()) s"
proof (cases "int_shift_one (ffsl a)")
  case None
  then show ?thesis using shift_alignment(1) [of a] by (simp add: check_alignment_def declares_success_def bindP_def)
next
  case (Some n)
  then show ?thesis using shift_alignment(1) [of a] shift_alignment(2) [OF Some, of k] by (simp add: check_alignment_def declares_success_fail_if)
qed

lemma undefined_alignment: "2 ^ 31 dvd unat a \<Longrightarrow> bindP (check_alignment pl a e m) f s = (Undefined, s)"
  using shift_alignment(1) [of a] by (simp add: check_alignment_def bindP_def)

text \<open>
  C35: The tests of alignment succeed exactly for variables at multiples of the size of a pointer, of a capability, or of 4096 that are not
  at a multiple of \<open>2 ^ 31\<close>: there the shift of an \<^verbatim>\<open>int\<close> overflows, so that the best aligned address of all is the one the test has no answer for.
\<close>

theorem tls_align_verdict:
  assumes "p_ccsp s \<noteq> None"
  shows "(declares_success (tls_align_ptr pl a b) s \<longleftrightarrow>
      nat (sizeof_pointer pl) dvd unat a \<and> \<not> 2 ^ 31 dvd unat a \<and> nat (sizeof_pointer pl) dvd unat b \<and> \<not> 2 ^ 31 dvd unat b) \<and>
    (declares_success (tls_align_cap pl a b) s \<longleftrightarrow> 16 dvd unat a \<and> \<not> 2 ^ 31 dvd unat a \<and> 16 dvd unat b \<and> \<not> 2 ^ 31 dvd unat b) \<and>
    (declares_success (tls_align_4k pl a) s \<longleftrightarrow> 4096 dvd unat a \<and> \<not> 2 ^ 31 dvd unat a) \<and>
    (2 ^ 31 dvd unat a \<longrightarrow> tls_align_4k pl a s = (Undefined, s))"
proof (intro conjI impI)
  have size: "\<exists>k. sizeof_pointer pl = 2 ^ k \<and> nat (sizeof_pointer pl) = 2 ^ k"
    by (cases "is_purecap pl") (auto simp: sizeof_pointer_def intro: exI [of _ 4] exI [of _ 3])
  then obtain k where k: "sizeof_pointer pl = 2 ^ k" "nat (sizeof_pointer pl) = 2 ^ k" by blast
  show "declares_success (tls_align_ptr pl a b) s \<longleftrightarrow>
      nat (sizeof_pointer pl) dvd unat a \<and> \<not> 2 ^ 31 dvd unat a \<and> nat (sizeof_pointer pl) dvd unat b \<and> \<not> 2 ^ 31 dvd unat b"
    unfolding k(2) using assms by (simp add: tls_align_ptr_def k(1) success_alignment passes_simps)
  show "declares_success (tls_align_cap pl a b) s \<longleftrightarrow> 16 dvd unat a \<and> \<not> 2 ^ 31 dvd unat a \<and> 16 dvd unat b \<and> \<not> 2 ^ 31 dvd unat b"
    using assms by (simp add: tls_align_cap_def success_alignment [where k = 4, simplified] passes_simps)
  show "declares_success (tls_align_4k pl a) s \<longleftrightarrow> 4096 dvd unat a \<and> \<not> 2 ^ 31 dvd unat a"
    using assms by (simp add: tls_align_4k_def success_alignment [where k = 12, simplified] passes_simps)
  show "tls_align_4k pl a s = (Undefined, s)" if "2 ^ 31 dvd unat a"
    using undefined_alignment [OF that] by (simp add: tls_align_4k_def)
qed

theorem tls_align_verdict_witness:
  "declares_success (tls_align_4k morello_purecap 0x7FFF1000) (fresh_process morello_purecap ()) \<and>
   tls_align_4k morello_purecap 0x80000000 (fresh_process morello_purecap ()) = (Undefined, fresh_process morello_purecap ())"
  using tls_align_verdict [of "fresh_process morello_purecap ()" morello_purecap "0x7FFF1000"]
    tls_align_verdict [of "fresh_process morello_purecap ()" morello_purecap "0x80000000"] by simp

section \<open>Jumps\<close>

lemma after_setjmp_returns:
  assumes "after_setjmp pl sj r = Some p"
  shows "sj_longjmp sj 123 = Lands 0 \<longrightarrow> r \<noteq> 0"
proof (rule after_setjmp.raw_induct [where P = "\<lambda>pl sj r p. sj_longjmp sj 123 = Lands 0 \<longrightarrow> r \<noteq> 0", OF _ assms], intro impI notI)
  fix rec :: "platform \<Rightarrow> jumps \<Rightarrow> int \<Rightarrow> ('a, unit) prog option" and pl sj r p
  assume ih: "\<And>pl sj r p. rec pl sj r = Some p \<Longrightarrow> sj_longjmp sj 123 = Lands 0 \<longrightarrow> r \<noteq> 0"
    and body: "(if r = 0 then case sj_longjmp sj 123 of Lands r' \<Rightarrow> rec pl sj r' | ComesBack \<Rightarrow> Some (cheriostest_failure_errx pl ''longjmp returned'' [])
      else Some (block [fail_if pl (r \<noteq> 123) ''setjmp returned unexpected non-zero value'' [], cheriostest_success])) = Some p"
    and zero: "sj_longjmp sj 123 = Lands 0" "r = 0"
  then have "rec pl sj 0 = Some p" by simp
  from ih [OF this] zero(1) show False by simp
qed

text \<open>
  The test of \<^verbatim>\<open>longjmp\<close> comes to an end exactly when \<^verbatim>\<open>setjmp\<close> does not return 0 again and again, and it succeeds exactly when \<^verbatim>\<open>setjmp\<close>
  returns 123 in the end: after the jump, or, unnoticed, at once without any. A jump that delivers 0 makes it run for ever.
\<close>

theorem libc_setjmp_longjmp_verdict:
  fixes s :: "'w pstate"
  assumes "p_ccsp s \<noteq> None"
  shows "((\<exists>p. libc_setjmp_longjmp pl sj = Some p \<and> declares_success p s) \<longleftrightarrow>
      sj_setjmp sj = 123 \<or> sj_setjmp sj = 0 \<and> sj_longjmp sj 123 = Lands 123) \<and>
    (libc_setjmp_longjmp pl sj = (None :: ('w, unit) prog option) \<longleftrightarrow> sj_setjmp sj = 0 \<and> sj_longjmp sj 123 = Lands 0)"
proof -
  have nonzero: "after_setjmp pl sj r = Some (block [fail_if pl (r \<noteq> 123) ''setjmp returned unexpected non-zero value'' [], cheriostest_success] :: ('w, unit) prog)" if "r \<noteq> 0" for r
    using that by (subst after_setjmp.simps) simp
  have zero: "after_setjmp pl sj 0 = (case sj_longjmp sj 123 of Lands r \<Rightarrow> after_setjmp pl sj r
      | ComesBack \<Rightarrow> Some (cheriostest_failure_errx pl ''longjmp returned'' [] :: ('w, unit) prog))"
    by (subst after_setjmp.simps) simp
  have none: "after_setjmp pl sj 0 = (None :: ('w, unit) prog option)" if "sj_longjmp sj 123 = Lands 0"
    using after_setjmp_returns [of pl sj 0] that by (cases "after_setjmp pl sj 0 :: ('w, unit) prog option") auto
  show ?thesis
  proof (cases "sj_setjmp sj = 0")
    case False
    then show ?thesis using assms nonzero [OF False] by (simp add: libc_setjmp_longjmp_def passes_simps)
  next
    case True
    show ?thesis
    proof (cases "sj_longjmp sj 123")
      case (Lands r)
      show ?thesis
      proof (cases "r = 0")
        case True
        then show ?thesis using \<open>sj_setjmp sj = 0\<close> Lands none by (simp add: libc_setjmp_longjmp_def)
      next
        case False
        then show ?thesis using \<open>sj_setjmp sj = 0\<close> Lands zero nonzero [OF False] assms by (simp add: libc_setjmp_longjmp_def passes_simps)
      qed
    next
      case ComesBack
      then show ?thesis using True zero by (simp add: libc_setjmp_longjmp_def)
    qed
  qed
qed

theorem libc_setjmp_longjmp_verdict_witness:
  "\<exists>p. libc_setjmp_longjmp morello_purecap \<lparr>sj_setjmp = 0, sj_longjmp = Lands\<rparr> = Some p \<and> declares_success p (fresh_process morello_purecap ())"
  using libc_setjmp_longjmp_verdict [of "fresh_process morello_purecap ()" morello_purecap "\<lparr>sj_setjmp = 0, sj_longjmp = Lands\<rparr>"] by auto

section \<open>Contexts\<close>

lemma failed_result: "\<not> declares_success (checked_result pl (Inl e) t) s"
  by (simp add: checked_result_def CHERIOSTEST_CHECK_SYSCALL_def declares_success_def cheriostest_failure_err_def EX_SOFTWARE_def)

lemma success_checked_result:
  "declares_success (bindP (checked_result pl r t) f) s \<longleftrightarrow> (\<exists>x. r = Inr x \<and> declares_success (f x) s)"
  by (auto simp: checked_result_def declares_success_syscall)

text \<open>
  Outside of musl the tests of contexts succeed exactly when a context and a stack are to be had and the function is called with the
  arguments given; where \<^verbatim>\<open>mmap\<close> insists on a kind of mapping there is no stack, as the flags have none.
\<close>

theorem context_tests_verdict:
  assumes "p_ccsp s \<noteq> None"
  shows "(declares_success (setcontext_basic pl cx) s \<longleftrightarrow> \<not> cx_musl cx \<and> cx_getcontext cx = Inr () \<and> cx_mmap cx (cx_SIGSTKSZ cx) [MAP_ANON] \<noteq> None \<and>
      cx_setcontext cx SETCONTEXT_ARG1 SETCONTEXT_ARG2 = Ctx_enters SETCONTEXT_ARG1 SETCONTEXT_ARG2) \<and>
    (declares_success (swapcontext_basic pl cx) s \<longleftrightarrow> \<not> cx_musl cx \<and> cx_getcontext cx = Inr () \<and> cx_mmap cx (cx_SIGSTKSZ cx) [MAP_ANON] \<noteq> None \<and>
      cx_swapcontext cx SWAPCONTEXT_ARG1 = (Some SWAPCONTEXT_ARG1, Inr 0))"
proof
  show "declares_success (setcontext_basic pl cx) s \<longleftrightarrow> \<not> cx_musl cx \<and> cx_getcontext cx = Inr () \<and> cx_mmap cx (cx_SIGSTKSZ cx) [MAP_ANON] \<noteq> None \<and>
      cx_setcontext cx SETCONTEXT_ARG1 SETCONTEXT_ARG2 = Ctx_enters SETCONTEXT_ARG1 SETCONTEXT_ARG2"
    using assms by (auto simp: setcontext_basic_def success_checked_result failed_result ucontext_mmap_stack_def setcontext_func_def passes_simps split: entered.splits)
  show "declares_success (swapcontext_basic pl cx) s \<longleftrightarrow> \<not> cx_musl cx \<and> cx_getcontext cx = Inr () \<and> cx_mmap cx (cx_SIGSTKSZ cx) [MAP_ANON] \<noteq> None \<and>
      cx_swapcontext cx SWAPCONTEXT_ARG1 = (Some SWAPCONTEXT_ARG1, Inr 0)"
    using assms
    by (auto simp: swapcontext_basic_def success_checked_result ucontext_mmap_stack_def swapcontext_func_def SWAPCONTEXT_ARG1_def passes_simps split: prod.splits option.splits)
qed

section \<open>Symbols\<close>

text \<open>
  The tests of symbols across objects: pointers are compared with all their attributes in the pure-capability ABI, an argument of a lazily bound
  call has to arrive unchanged, and indirect functions have to give the result of the implementation.
\<close>

theorem symbol_tests_verdict:
  assumes "p_ccsp s \<noteq> None" "cap_len c < 2 ^ 64" "\<And>f. cap_len (ld_bound_call ld f c) < 2 ^ 64"
  shows "(declares_success (fptr_canon_cross pl ld) s \<longleftrightarrow> cheri_ptr_equal_exact pl (ld_inside ld dummy_name) (ld_direct ld dummy_name)) \<and>
    (declares_success (fptr_canon_dlsym pl ld) s \<longleftrightarrow> cheri_ptr_equal_exact pl (ld_inside ld dummy_name) (or_null pl (ld_dlsym ld dummy_name))) \<and>
    (declares_success (fptr_canon_dlfunc pl ld) s \<longleftrightarrow> cheri_ptr_equal_exact pl (ld_inside ld dummy_name) (or_null pl (ld_dlfunc ld dummy_name))) \<and>
    (declares_success (fptr_canon_int pl ld) s \<longleftrightarrow> ld_address ld dummy_name = cap_addr (or_null pl (ld_dlsym ld dummy_name))) \<and>
    (declares_success (lazy_bind_args pl ld c) s \<longleftrightarrow> ld_bound_call ld id c = c) \<and>
    (declares_success (call_ifunc pl ld) s \<longleftrightarrow> IFUNC_SUPPORTED ld \<and> ld_ifunc_call ld (\<lambda>_. 42) = 42) \<and>
    (declares_success (global_data_dynamic_ifunc_fptr pl ld) s \<longleftrightarrow> IFUNC_SUPPORTED ld \<and> ld_ifunc_fptr ld (\<lambda>_. 42) = 42)"
proof -
  have identity: "cheriostest_dynamic_identity_cap = id" "cheriostest_dynamic_ifunc_impl = (\<lambda>_. 42)" "simple_ifunc_impl = (\<lambda>_. 42)"
    by (simp_all add: fun_eq_iff cheriostest_dynamic_identity_cap_def cheriostest_dynamic_ifunc_impl_def simple_ifunc_impl_def)
  have "cap_attrs_eq a b \<longleftrightarrow> a = b" if "cap_len a < 2 ^ 64" "cap_len b < 2 ^ 64" for a b
  proof -
    have "cheri_length_get a = cheri_length_get b \<longleftrightarrow> cap_len a = cap_len b"
      using that by (simp add: cheri_length_get_def word_unat_eq_iff unat_of_nat)
    then show ?thesis by (cases a; cases b) (auto simp: cap_attrs_eq_def cheri_offset_get_def cap_simps)
  qed
  then have "cap_attrs_eq c (ld_bound_call ld id c) \<longleftrightarrow> ld_bound_call ld id c = c" using assms(2,3) by auto
  then show ?thesis
    using assms(1)
    by (simp add: fptr_canon_cross_def fptr_canon_dlsym_def fptr_canon_dlfunc_def fptr_canon_int_def lazy_bind_args_def call_ifunc_def ifunc_test_def
        global_data_dynamic_ifunc_fptr_def cheriostest_dynamic_get_dummy_fptr_def cheriostest_dynamic_get_dummy_fptr_addr_def identity Let_def passes_simps)
qed

section \<open>Compression\<close>

lemma success_check_bytes:
  "length ds = length es \<Longrightarrow> declares_success (bindP (check_bytes pl m i ds es) f) s \<longleftrightarrow> ds = es \<and> declares_success (f ()) s"
  by (induction pl m i ds es rule: check_bytes.induct) (auto simp: bindP_assoc declares_success_fail_if)

lemma success_check_compressed: "declares_success (bindP (check_compressed_data pl d) f) s \<longleftrightarrow> d = compressed_zeroes \<and> declares_success (f ()) s"
  by (cases "length d = length compressed_zeroes") (auto simp: check_compressed_data_def bindP_assoc declares_success_fail_if success_check_bytes simp del: check_bytes.simps)

lemma success_check_uncompressed: "declares_success (bindP (check_uncompressed_data pl d) f) s \<longleftrightarrow> d = uncompressed_zeroes \<and> declares_success (f ()) s"
  by (cases "length d = length uncompressed_zeroes") (auto simp: check_uncompressed_data_def bindP_assoc declares_success_fail_if success_check_bytes simp del: check_bytes.simps)

lemma success_checked_malloc: "declares_success (bindP (checked_malloc pl r m) f) s \<longleftrightarrow> r = None \<and> declares_success (f ()) s"
  by (auto simp: checked_malloc_def declares_success_def bindP_def cheriostest_failure_err_def EX_SOFTWARE_def ret_def split: option.splits)

lemma zlib_tests_iff:
  assumes "p_ccsp s \<noteq> None"
  shows "declares_success (deflate_zeroes pl z) s \<longleftrightarrow> z_malloc z (2 * INFLATE_BUFSIZE) = None \<and> z_deflateInit z = Z_OK \<and>
      z_deflate z uncompressed_zeroes (2 * INFLATE_BUFSIZE) = (Z_STREAM_END, compressed_zeroes) \<and> z_deflateEnd z = Z_OK"
    "declares_success (inflate_zeroes pl z) s \<longleftrightarrow> z_malloc z INFLATE_BUFSIZE = None \<and> z_inflateInit z = Z_OK \<and>
      z_inflate z compressed_zeroes INFLATE_BUFSIZE = (Z_STREAM_END, length compressed_zeroes, uncompressed_zeroes) \<and> z_inflateEnd z = Z_OK"
proof -
  have len: "length uncompressed_zeroes = INFLATE_BUFSIZE" by (simp add: uncompressed_zeroes_def)
  show "declares_success (deflate_zeroes pl z) s \<longleftrightarrow> z_malloc z (2 * INFLATE_BUFSIZE) = None \<and> z_deflateInit z = Z_OK \<and>
      z_deflate z uncompressed_zeroes (2 * INFLATE_BUFSIZE) = (Z_STREAM_END, compressed_zeroes) \<and> z_deflateEnd z = Z_OK"
    using assms by (auto simp: deflate_zeroes_def Let_def success_checked_malloc success_check_compressed len passes_simps mult.commute split: prod.splits)
  show "declares_success (inflate_zeroes pl z) s \<longleftrightarrow> z_malloc z INFLATE_BUFSIZE = None \<and> z_inflateInit z = Z_OK \<and>
      z_inflate z compressed_zeroes INFLATE_BUFSIZE = (Z_STREAM_END, length compressed_zeroes, uncompressed_zeroes) \<and> z_inflateEnd z = Z_OK"
    using assms by (auto simp: inflate_zeroes_def Let_def success_checked_malloc success_check_uncompressed len passes_simps split: prod.splits)
qed

text \<open>
  The two tests of compression agree on one stream: where compressing the buffer passes its test, decompressing passes the other exactly
  when it takes what compressing has put out back to the buffer, reading all of it. The stream is fixed, so a library that compresses otherwise
  fails the first test, however good it is.
\<close>

theorem zlib_roundtrip:
  assumes "p_ccsp s \<noteq> None" "declares_success (deflate_zeroes pl z) s" "\<And>n. z_malloc z n = None" "z_inflateInit z = Z_OK" "z_inflateEnd z = Z_OK"
  shows "declares_success (inflate_zeroes pl z) s \<longleftrightarrow> (case z_deflate z uncompressed_zeroes (2 * INFLATE_BUFSIZE) of
    (_, stream) \<Rightarrow> z_inflate z stream INFLATE_BUFSIZE = (Z_STREAM_END, length stream, uncompressed_zeroes))"
  using assms(2) zlib_tests_iff [OF assms(1), of pl z] assms(3-5) by simp

theorem zlib_roundtrip_witness:
  "declares_success (inflate_zeroes morello_purecap \<lparr>z_malloc = (\<lambda>_. None), z_deflateInit = 0, z_deflate = (\<lambda>_ _. (1, compressed_zeroes)), z_deflateEnd = 0,
     z_inflateInit = 0, z_inflate = (\<lambda>d _. (1, length d, uncompressed_zeroes)), z_inflateEnd = 0\<rparr>) (fresh_process morello_purecap ())"
proof -
  let ?z = "\<lparr>z_malloc = (\<lambda>_. None), z_deflateInit = 0, z_deflate = (\<lambda>_ _. (1, compressed_zeroes)), z_deflateEnd = 0,
     z_inflateInit = 0, z_inflate = (\<lambda>d _. (1, length d, uncompressed_zeroes)), z_inflateEnd = 0\<rparr>"
  have "declares_success (deflate_zeroes morello_purecap ?z) (fresh_process morello_purecap ())"
    by (subst zlib_tests_iff) (simp_all add: Z_OK_def Z_STREAM_END_def)
  from zlib_roundtrip [OF _ this] show ?thesis by (simp add: Z_OK_def Z_STREAM_END_def)
qed

text \<open>The stream carries the header of zlib and, at its end, the checksum Adler-32 of the buffer.\<close>

fun adler32 :: "nat \<Rightarrow> nat \<Rightarrow> byte8 list \<Rightarrow> nat" where
  "adler32 a b [] = b * 65536 + a"
| "adler32 a b (d # ds) = (let a' = (a + unat d) mod 65521 in adler32 a' ((b + a') mod 65521) ds)"

lemma adler32_replicate: "b < 65521 \<Longrightarrow> adler32 1 b (replicate n 0) = ((b + n) mod 65521) * 65536 + 1"
proof (induction n arbitrary: b)
  case (Suc n)
  have "((b + 1) mod 65521 + n) mod 65521 = (b + Suc n) mod 65521" by (simp add: mod_add_left_eq)
  then show ?case using Suc.IH [of "(b + 1) mod 65521"] by (simp add: Let_def)
qed simp

lemma zlib_stream_shape:
  "(unat (compressed_zeroes ! 0) * 256 + unat (compressed_zeroes ! 1)) mod 31 = 0"
  "foldl (\<lambda>n d. n * 256 + unat d) 0 (drop 29 compressed_zeroes) = adler32 1 0 uncompressed_zeroes"
proof -
  show "(unat (compressed_zeroes ! 0) * 256 + unat (compressed_zeroes ! 1)) mod 31 = 0"
    by (simp add: compressed_zeroes_def)
  have "drop 29 compressed_zeroes = [0x28, 0, 0, 1]" by (simp add: compressed_zeroes_def)
  then have "foldl (\<lambda>n d. n * 256 + unat d) 0 (drop 29 compressed_zeroes) = 0x28000001" by simp
  moreover have "adler32 1 0 uncompressed_zeroes = (0 + 10240) mod 65521 * 65536 + 1"
    unfolding uncompressed_zeroes_def INFLATE_BUFSIZE_def by (subst adler32_replicate) simp_all
  ultimately show "foldl (\<lambda>n d. n * 256 + unat d) 0 (drop 29 compressed_zeroes) = adler32 1 0 uncompressed_zeroes" by simp
qed

end
