(* ===== verification/Queue_Tests.thy ===== *)
theory Queue_Tests
  imports Statements
begin

text \<open>
  The four tests of \<^verbatim>\<open>cheriostest_bounds_subobject.c\<close> that use the lists of \<^verbatim>\<open>queue(3)\<close>: with bounds on members the macros have to be
  exempt where they go from a link to the entry it is in. The macros belong to the headers of the system; what an insertion and a step do to
  memory, and what signal they raise, is an argument.
\<close>

section \<open>The tests\<close>

datatype queue_kind = SLIST | STAILQ | LIST | TAILQ

record 'w queue_env =
  q_bzero :: "cap \<Rightarrow> 'w \<Rightarrow> 'w"
  q_set_i :: "cap \<Rightarrow> int \<Rightarrow> 'w \<Rightarrow> 'w" \<comment> \<open>\<^verbatim>\<open>entry.i = n\<close>\<close>
  q_insert_head :: "queue_kind \<Rightarrow> cap \<Rightarrow> cap \<Rightarrow> 'w \<Rightarrow> siginfo option \<times> 'w" \<comment> \<open>head, entry\<close>
  q_first :: "queue_kind \<Rightarrow> cap \<Rightarrow> 'w \<Rightarrow> (siginfo + cap option) \<times> 'w"
  q_next :: "queue_kind \<Rightarrow> cap \<Rightarrow> 'w \<Rightarrow> (siginfo + cap option) \<times> 'w"
  q_load_i :: "cap \<Rightarrow> 'w \<Rightarrow> (siginfo + int) \<times> 'w" \<comment> \<open>\<^verbatim>\<open>entryp->i\<close>\<close>
  q_add_side :: "int \<Rightarrow> 'w \<Rightarrow> 'w" \<comment> \<open>\<^verbatim>\<open>side_effect += n\<close>\<close>
  q_head :: cap
  q_entry1 :: cap
  q_entry2 :: cap

text \<open>An access that gives a value or raises a signal.\<close>

definition access :: "('w \<Rightarrow> (siginfo + 'a) \<times> 'w) \<Rightarrow> ('w, 'a) prog" where
  "access f = (\<lambda>s. case f (p_world s) of (Inl i, w) \<Rightarrow> (Trapped i, s\<lparr>p_world := w\<rparr>) | (Inr x, w) \<Rightarrow> (Return x, s\<lparr>p_world := w\<rparr>))"

text \<open>
  The body of \<^verbatim>\<open>FOREACH\<close> for \<open>entryp\<close> and what follows it. The links decide how long the loop is, so \<open>n\<close> bounds the number of rounds; a loop that
  is still running then has no meaning here.
\<close>

fun queue_loop :: "'w queue_env \<Rightarrow> queue_kind \<Rightarrow> nat \<Rightarrow> cap option \<Rightarrow> ('w, unit) prog" where
  "queue_loop q k n None = ret ()"
| "queue_loop q k 0 (Some entryp) = (\<lambda>s. (Undefined, s))"
| "queue_loop q k (Suc n) (Some entryp) =
     bindP (access (q_load_i q entryp)) (\<lambda>i. bindP (upd_world (q_add_side q i)) (\<lambda>_.
     bindP (access (q_next q k entryp)) (queue_loop q k n)))"

definition queue_test :: "'w queue_env \<Rightarrow> queue_kind \<Rightarrow> nat \<Rightarrow> ('w, unit) prog" where
  "queue_test q k n = block
     [upd_world (q_bzero q (q_head q)),
      upd_world (q_bzero q (q_entry1 q)), upd_world (q_set_i q (q_entry1 q) 1),
      upd_world (q_bzero q (q_entry2 q)), upd_world (q_set_i q (q_entry2 q) 2),
      effect (q_insert_head q k (q_head q) (q_entry1 q)),
      effect (q_insert_head q k (q_head q) (q_entry2 q)),
      bindP (access (q_first q k (q_head q))) (queue_loop q k n),
      cheriostest_success]"

definition bounds_subobject_struct_exempt_queue_slist :: "'w queue_env \<Rightarrow> nat \<Rightarrow> ('w, unit) prog" where
  "bounds_subobject_struct_exempt_queue_slist q n = queue_test q SLIST n"

definition bounds_subobject_struct_exempt_queue_stailq :: "'w queue_env \<Rightarrow> nat \<Rightarrow> ('w, unit) prog" where
  "bounds_subobject_struct_exempt_queue_stailq q n = queue_test q STAILQ n"

definition bounds_subobject_struct_exempt_queue_list :: "'w queue_env \<Rightarrow> nat \<Rightarrow> ('w, unit) prog" where
  "bounds_subobject_struct_exempt_queue_list q n = queue_test q LIST n"

definition bounds_subobject_struct_exempt_queue_tailq :: "'w queue_env \<Rightarrow> nat \<Rightarrow> ('w, unit) prog" where
  "bounds_subobject_struct_exempt_queue_tailq q n = queue_test q TAILQ n"

lemmas queue_tests = bounds_subobject_struct_exempt_queue_slist_def bounds_subobject_struct_exempt_queue_stailq_def
  bounds_subobject_struct_exempt_queue_list_def bounds_subobject_struct_exempt_queue_tailq_def

section \<open>Lists with bounds on their entries\<close>

text \<open>
  A system of lists: the order of the entries, the pointer by which an entry is reached from its link (with bounds on members and without an
  exemption that is the link only), and the sum of what was read.
\<close>

record list_world =
  lw_order :: "cap list"
  lw_i :: "ptraddr \<Rightarrow> int"
  lw_side :: int

definition entry_after :: "cap list \<Rightarrow> ptraddr \<Rightarrow> cap option" where
  "entry_after xs a = (case dropWhile (\<lambda>c. cap_addr c \<noteq> a) xs of _ # c # _ \<Rightarrow> Some c | _ \<Rightarrow> None)"

definition linked_lists :: "(queue_kind \<Rightarrow> cap \<Rightarrow> cap) \<Rightarrow> siginfo \<Rightarrow> cap \<Rightarrow> cap \<Rightarrow> cap \<Rightarrow> list_world queue_env" where
  "linked_lists reach fault head e1 e2 = \<lparr>
     q_bzero = (\<lambda>c w. if c = head then w\<lparr>lw_order := []\<rparr> else w\<lparr>lw_i := (lw_i w)(cap_addr c := 0)\<rparr>),
     q_set_i = (\<lambda>c i w. w\<lparr>lw_i := (lw_i w)(cap_addr c := i)\<rparr>),
     q_insert_head = (\<lambda>k h c w. (None, w\<lparr>lw_order := reach k c # lw_order w\<rparr>)),
     q_first = (\<lambda>k h w. (Inr (case lw_order w of [] \<Rightarrow> None | c # _ \<Rightarrow> Some c), w)),
     q_next = (\<lambda>k c w. (Inr (entry_after (lw_order w) (cap_addr c)), w)),
     q_load_i = (\<lambda>c w. (if cap_tag c \<and> access_in_bounds c 40 then Inr (lw_i w (cap_addr c)) else Inl fault, w)),
     q_add_side = (\<lambda>i w. w\<lparr>lw_side := lw_side w + i\<rparr>),
     q_head = head, q_entry1 = e1, q_entry2 = e2\<rparr>"

lemma bind_access: "bindP (access f) g s = (case f (p_world s) of (Inl i, w) \<Rightarrow> (Trapped i, s\<lparr>p_world := w\<rparr>) | (Inr x, w) \<Rightarrow> g x (s\<lparr>p_world := w\<rparr>))"
  by (simp add: bindP_def access_def split: prod.splits sum.splits)

lemma success_access:
  "declares_success (bindP (access f) g) s \<longleftrightarrow> (\<exists>x. fst (f (p_world s)) = Inr x \<and> declares_success (g x) (s\<lparr>p_world := snd (f (p_world s))\<rparr>))"
  by (auto simp: declares_success_def bind_access split: prod.splits sum.splits)

text \<open>
  Each test succeeds exactly when both entries can be used as a whole through the pointers found in the list; three rounds are enough.
\<close>

theorem queue_tests_iff:
  assumes "p_ccsp s \<noteq> None" "cap_addr e1 \<noteq> cap_addr e2" "e1 \<noteq> head" "e2 \<noteq> head" "\<And>k c. cap_addr (reach k c) = cap_addr c" "3 \<le> n"
  shows "declares_success (queue_test (linked_lists reach fault head e1 e2) k n) s \<longleftrightarrow>
    (\<forall>e \<in> {e1, e2}. cap_tag (reach k e) \<and> access_in_bounds (reach k e) 40)"
proof -
  obtain m where n: "n = Suc (Suc (Suc m))" using assms(6) by (metis Suc_le_D eval_nat_numeral(3) numeral_2_eq_2 Suc_le_mono)
  show ?thesis
    using assms(1-5) unfolding n queue_test_def linked_lists_def
    by (auto simp: bindP_assoc success_upd_world success_effect success_access entry_after_def passes_simps)
qed

end
