(* ===== verification/Page_Types.thy ===== *)
theory Page_Types
  imports Fault
begin

text \<open>
  The type of the shared page (\<^verbatim>\<open>struct cheriostest_child_state\<close>) as the controller relies on it, and that the
  programs of the suite respect it: the buffer of messages keeps its size and holds a C string, the result is
  one of three constants, and no tag is stored in the page, which lies in shared memory: the tags of addresses
  are kept beside them in \<^verbatim>\<open>ccs_si_addr_tag\<close> and \<^verbatim>\<open>ccs_si_addr_expected_tag\<close>. A typing relation on programs
  lists what writes the page; type soundness is by rule induction over it.
\<close>

section \<open>Typed pages and typed programs\<close>

definition page_typed :: "platform \<Rightarrow> child_state \<Rightarrow> bool" where
  "page_typed pl c \<longleftrightarrow>
     ccs_wf c \<and> NUL \<in> set (ccs_testresult_str c) \<and>
     ccs_testresult c \<in> {TESTRESULT_UNKNOWN, TESTRESULT_SUCCESS, TESTRESULT_FAILURE} \<and>
     (is_purecap pl \<longrightarrow> \<not> cheri_tag_get (ccs_si_addr c) \<and> \<not> cheri_tag_get (ccs_si_addr_expected c))"

text \<open>
  Programs made of the calls of \<^verbatim>\<open>cheriostest_util.c\<close>, of statements that leave the page alone and are
  defined, of sequences, and of choices that depend on the state.
\<close>

inductive harness_prog :: "platform \<Rightarrow> ('w, unit) prog \<Rightarrow> bool" for pl where
  fails: "harness_prog pl (cheriostest_failure_errx pl msg ap)"
| fails_code: "harness_prog pl (cheriostest_failure_errc pl code msg ap)"
| fails_errno: "harness_prog pl (cheriostest_failure_err pl msg ap)"
| succeeds: "harness_prog pl cheriostest_success"
| warns: "harness_prog pl (cheriostest_success_with_warn msg)"
| expects: "harness_prog pl (cheriostest_set_expected_si_addr pl addr)"
| other: "(\<And>s. fst (p s) \<noteq> Undefined \<and> p_ccsp (snd (p s)) = p_ccsp s) \<Longrightarrow> harness_prog pl p"
| seq: "harness_prog pl p \<Longrightarrow> harness_prog pl q \<Longrightarrow> harness_prog pl (bindP p (\<lambda>_. q))"
| choice: "(\<And>s. \<exists>q. harness_prog pl q \<and> p s = q s) \<Longrightarrow> harness_prog pl p"

lemmas harness_calls [intro, simp] = fails fails_code fails_errno succeeds warns expects

lemma harness_ret [simp]: "harness_prog pl (ret u)"
  by (rule other) (simp add: ret_def)

lemma harness_upd_world [simp]: "harness_prog pl (upd_world f)"
  by (rule other) (simp add: upd_world_def)

lemma harness_trap [simp]: "harness_prog pl (trap i)"
  by (rule other) (simp add: trap_def)

lemma harness_exitP [simp]: "harness_prog pl (exitP n)"
  by (rule other) (simp add: exitP_def)

lemma harness_ask: "(\<And>w. harness_prog pl (f w)) \<Longrightarrow> harness_prog pl (bindP get_world f)"
  by (rule choice) (auto simp: bindP_def get_world_def)

lemma harness_block: "(\<And>p. p \<in> set ps \<Longrightarrow> harness_prog pl p) \<Longrightarrow> harness_prog pl (block ps)"
  by (induction ps) (simp_all add: seq)

section \<open>The buffer\<close>

lemma NUL_in_snprintf_buf: "buf \<noteq> [] \<Longrightarrow> NUL \<in> set (snprintf_buf buf t)"
  by (simp add: snprintf_buf_def Let_def)

lemma NUL_in_vsnprintf_buf: "NUL \<in> set buf \<Longrightarrow> NUL \<in> set (vsnprintf_buf pl buf msg ap)"
  by (auto simp: vsnprintf_buf_def intro!: NUL_in_snprintf_buf split: option.splits)

lemma NUL_in_errc_buf: "NUL \<in> set buf \<Longrightarrow> NUL \<in> set (errc_buf pl code buf msg ap)"
  by (auto simp: errc_buf_def Let_def intro!: NUL_in_snprintf_buf split: option.splits)

lemma NUL_in_warn_buf: "NUL \<in> set buf \<Longrightarrow> NUL \<in> set (terminate_buf (strncpy_buf buf msg))"
  by (rule terminate_buf_NUL_mem) (metis length_0_conv length_strncpy_buf list.set(1) empty_iff)

lemmas page_intros = NUL_in_vsnprintf_buf NUL_in_errc_buf NUL_in_warn_buf

text \<open>What the controller reads as the message fits with its terminator.\<close>

lemma page_message_fits: "page_typed pl c \<Longrightarrow> length (c_str (ccs_testresult_str c)) < TESTRESULT_STR_LEN"
  using c_str_length_less [of "ccs_testresult_str c"] by (simp add: page_typed_def ccs_wf_def)

lemma page_typed_zero [simp]: "page_typed pl (ccs_zero pl)"
  by (simp add: page_typed_def ccs_zero_def ccs_wf_def cap_null_def cheri_tag_get_def harness_consts)

lemma page_typed_handler: "page_typed pl c \<Longrightarrow> page_typed pl (signal_handler pl i c)"
  by (simp add: page_typed_def signal_handler_def ccs_wf_def cheri_tag_clear_def cheri_tag_get_def Let_def)

section \<open>Type soundness\<close>

text \<open>A typed program does not get stuck and leaves a typed page.\<close>

lemma harness_prog_sound:
  assumes "harness_prog pl p" "p_ccsp s = Some c" "page_typed pl c"
  shows "fst (p s) \<noteq> Undefined \<and> (\<exists>d. p_ccsp (snd (p s)) = Some d \<and> page_typed pl d)"
  using assms
proof (induction arbitrary: s c rule: harness_prog.induct)
  case (seq p q)
  show ?case
  proof (cases "fst (p s)")
    case (Return u)
    then show ?thesis using seq.IH(1) [OF seq.prems] seq.IH(2) by (auto simp: bindP_def split: prod.splits)
  qed (use seq.IH(1) [OF seq.prems] in \<open>auto simp: bindP_def split: prod.splits\<close>)
next
  case (choice p)
  then show ?case by metis
qed (auto simp: page_typed_def ccs_wf_def cheriostest_failure_errx_def vcheriostest_failure_errx_def
    cheriostest_failure_errc_def cheriostest_failure_err_def vcheriostest_failure_errc_def cheriostest_success_def
    cheriostest_success_with_warn_def cheriostest_set_expected_si_addr_def cheri_tag_clear_def cheri_tag_get_def
    intro: page_intros)

lemma block_exitP: "fst (block (ps @ [exitP n]) s) \<noteq> Return u"
  by (induction ps arbitrary: s)
    (auto simp: exitP_def bindP_def ret_def split: prod.splits outcome.splits)

lemma harness_install [simp]: "harness_prog pl (install_handler os sig)"
  by (rule other) (simp add: install_handler_def)

lemma harness_dup2 [simp]: "harness_prog pl (dup2_or_err os fd)"
  by (rule other) (simp add: dup2_or_err_def)

lemma harness_tracing [simp]: "harness_prog pl (set_thread_tracing os)"
  by (rule other) (simp add: set_thread_tracing_def)

lemma child_main_typed: "harness_prog pl (ct_func ct) \<Longrightarrow> harness_prog pl (child_main pl os opt ct)"
  unfolding child_main_def
  by (rule harness_block) (auto simp: child_setup_def only_if_def split: if_splits)

lemma finish_typed:
  assumes "p_ccsp s = Some c" "page_typed pl c" "out \<noteq> Undefined" "\<And>u. out \<noteq> Return u"
  shows "fst (finish_process pl (out, s)) \<noteq> WOther \<and>
    (\<exists>d. p_ccsp (snd (finish_process pl (out, s))) = Some d \<and> page_typed pl d)"
  using assms by (cases out) (auto simp: finish_process_def page_typed_handler)

text \<open>
  C7: The page is well typed whenever the controller reads it, and the child never gets stuck: if the body of a
  test is made of the calls of \<^verbatim>\<open>cheriostest_util.c\<close>, of statements that leave the page alone, of sequences and of
  choices, then a child that starts from the cleared page exits or is killed by a signal, whatever the system calls
  of its set-up do; the buffer keeps its 1024 bytes and holds a string that ends within them, however
  long messages and error texts are and even where formatting fails; the result is one of the three constants; and on a
  pure-capability system the page holds no tagged capability.
\<close>

theorem child_page_typed:
  assumes "harness_prog pl (ct_func ct)" "run_child pl os opt ct (ccs_zero pl) w = (status, d, out, w')"
  shows "status \<noteq> WOther \<and> page_typed pl d \<and> length (c_str (ccs_testresult_str d)) < TESTRESULT_STR_LEN"
proof -
  let ?s = "forked_state (ccs_zero pl) w"
  obtain o' s' where run: "child_main pl os opt ct ?s = (o', s')" by fastforce
  have "p_ccsp ?s = Some (ccs_zero pl)" by (simp add: forked_state_def)
  from harness_prog_sound [OF child_main_typed [OF assms(1), of os opt] this] run
  obtain c where c: "o' \<noteq> Undefined" "p_ccsp s' = Some c" "page_typed pl c" by auto
  have "o' \<noteq> Return u" for u
    using block_exitP [of "child_setup pl os opt @ [ct_func ct]" 0 ?s u] run by (simp add: child_main_def)
  from finish_typed [OF c(2,3,1) this] have "status \<noteq> WOther \<and> page_typed pl d"
    using assms(2) run by (auto simp: run_child_def Let_def split: prod.splits)
  then show ?thesis using page_message_fits by blast
qed

section \<open>The tests of faults are typed\<close>

lemma harness_stores [simp]:
  "harness_prog pl (store_via pl fe c b)" "harness_prog pl (load_sink_via pl fe c)" "harness_prog pl (store_sink_via pl fe c)"
  by (auto simp: store_via_def load_sink_via_def store_sink_via_def intro!: harness_ask split: option.splits)

lemma harness_missing: "\<forall>p \<in> set (missing_code pl fe msg). harness_prog pl p"
  by (simp add: missing_code_def only_if_def)

lemma harness_after_missing:
  "(\<And>p. p \<in> set ps \<Longrightarrow> harness_prog pl p) \<Longrightarrow> harness_prog pl (block (missing_code pl fe msg @ ps))"
  using harness_missing by (intro harness_block) auto

lemma fault_tests_typed: "ct \<in> set (fault_tests pl fe) \<Longrightarrow> harness_prog pl (ct_func ct)"
  by (auto simp: fault_tests_def fault_bounds_test_def fault_perm_load_test_def fault_perm_store_test_def
      fault_tag_test_def fault_bounds_def fault_perm_load_def fault_perm_store_def fault_tag_def Let_def
      intro!: harness_after_missing)

text \<open>Both at work: a message of 3000 bytes, and a trap of a test of faults.\<close>

theorem child_page_typed_witness:
  "(case run_child morello_purecap quiet_os plain_opts
      (plain_test ''long'' (cheriostest_failure_errx morello_purecap (replicate 3000 (CHR ''x'')) [])) (ccs_zero morello_purecap) () of
     (status, d, _) \<Rightarrow> status \<noteq> WOther \<and> length (c_str (ccs_testresult_str d)) < TESTRESULT_STR_LEN) \<and>
   (\<forall>w. case run_child morello_purecap quiet_os plain_opts
      (fault_tag_test morello_purecap fault_env_example) (ccs_zero morello_purecap) w of
     (status, d, _) \<Rightarrow> status \<noteq> WOther \<and> page_typed morello_purecap d)"
proof -
  let ?ct = "plain_test ''long'' (cheriostest_failure_errx morello_purecap (replicate 3000 (CHR ''x'')) [])"
  have long: "harness_prog morello_purecap (ct_func ?ct)" by (simp add: plain_test_def)
  have tag: "harness_prog morello_purecap (ct_func (fault_tag_test morello_purecap fault_env_example))"
    by (rule fault_tests_typed [where fe = fault_env_example]) (simp add: fault_tests_def)
  show ?thesis using child_page_typed [OF long] child_page_typed [OF tag] by (clarsimp split: prod.splits)
qed

end
