(* ===== verification/Spec2Isabelle.thy ===== *)
theory Spec2Isabelle
  imports Registers Sealcap Driver Address_Gap String_Tests Bounds Globals Subobject
    Strfcap Vm_Tag_Proofs Vm_Reservations Cheriabi_Proofs Revoke_Async Vm_Quarantine Feature_Proofs Allocator_Ctl Open_Tests Ptrace_Proofs
    Signals_Proofs Kbounce Small_Proofs Syscalls Vm_Sharing_Proofs Tls_Threads_Proofs Printf Varargs
    Libc_Readers Runtime_Proofs Queue_Tests Page_Types
begin

text \<open>
  A verification development for \<^verbatim>\<open>cheriostest\<close>, the test suite for operating systems on CHERI processors
  (\<^verbatim>\<open>src/cheriostest/\<close>), and for the build tool \<^verbatim>\<open>set-feature-ctl-note\<close> (\<^verbatim>\<open>src/tools/\<close>) that prepares its helper programs.

  \<^bold>\<open>The program.\<close> One executable holds a controller and some hundreds of tests. The controller
  (\<^verbatim>\<open>cheriostest.c\<close>) reads its options, chooses tests of the registry, runs each of them in a forked child and
  judges the child by its wait status, by a page of memory both share, and by what it wrote on its standard
  output. A test is a function declared by \<^verbatim>\<open>CHERIOSTEST(...)\<close> with flags that announce how it should end; its
  body checks something about capabilities and ends with \<^verbatim>\<open>cheriostest_success\<close> or one of the failure
  functions of \<^verbatim>\<open>cheriostest_util.c\<close>, which write to the shared page and exit, or it traps, and the signal
  handler of the controller (which the child inherits) writes the page. Some tests start a copy of the
  executable, which finds its way back to a function of the test (\<^verbatim>\<open>-E\<close>).

  \<^bold>\<open>The model.\<close> A process is a state (\<^verbatim>\<open>pstate\<close>: the shared page, its output, and a world the component
  chooses) and a program is a function from a state to an outcome (returned, exited, trapped,
  undefined) and a state. The machine, the operating system and the C library are arguments: \<^verbatim>\<open>platform\<close> has the
  architecture, the ABI and the capability compression, \<^verbatim>\<open>os\<close> the system calls of the controller, \<^verbatim>\<open>main_env\<close>,
  \<^verbatim>\<open>exec_env\<close>, \<^verbatim>\<open>fault_env\<close> and the like what a component calls. A capability is a record of its fields, with 64-bit
  words for address, base and permissions. What a test relies on is a locale or a named hypothesis about these arguments.

  \<^bold>\<open>The harness.\<close>
  \<^item> \<open>Prelude\<close>: collections of facts, lists, options and words; prefixes, alignment, C string functions.
  \<^item> \<open>Platform\<close>, \<open>Capability\<close>: \<^verbatim>\<open>cheri/cherireg.h\<close>, \<^verbatim>\<open>cheri/cheric.h\<close>, \<^verbatim>\<open>cheriostest_md.h\<close>; the CHERI intrinsics as
    functions on the record of fields. \<open>Instances\<close>: concrete platforms and capabilities for the witnesses.
  \<^item> \<open>Process\<close>, \<open>Checks\<close>: \<^verbatim>\<open>cheriostest_util.c\<close> and the macros and inline functions of \<^verbatim>\<open>cheriostest.h\<close>; when a body
    declares success and when it declares failure. \<open>Statements\<close>: statements that several files of tests share (effects that may
    raise a signal, \<^verbatim>\<open>fork\<close>). \<open>Page_Types\<close>: the type of the shared page and that typed programs keep it.
  \<^item> \<open>Runner\<close>: \<^verbatim>\<open>cheriostest_run_test\<close> and the signal handlers, one definition per part of the function between its
    labels; errors of the controller are the exit status in the left summand.
  \<^item> \<open>Verdict\<close>: the abstract contract (a ledger of five verdicts) and that \<^verbatim>\<open>cheriostest_run_test\<close> implements it; the
    locale \<open>ledger\<close> of steps that keep the books, interpreted for one test, for a name and for a pattern.
  \<^item> \<open>Exec\<close>: \<^verbatim>\<open>mk_exec_args\<close>, \<^verbatim>\<open>cheriostest_spawn_child_args\<close> and the look-up of helper binaries. A store past the end of an
    array is a value of its own, so that its absence or presence is a theorem.
  \<^item> \<open>Driver\<close>: \<^verbatim>\<open>main\<close>, from the options to the exit status, and the listing of tests.
  \<^item> This theory: properties of the whole program.

  \<^bold>\<open>Tests of the processor, the compiler and the library.\<close>
  \<^item> \<open>Registers\<close>, \<open>Sealcap\<close>, \<open>Fault\<close>: the files of these names. \<open>Small_Tests\<close>, \<open>Small_Proofs\<close>: the short files on pipes, files, local
    capabilities, identifiers and bounds of compartments, captured flags, sentries and the start of copies.
  \<^item> \<open>Memory\<close>, \<open>String_Tests\<close>: memory of bytes with tagged granules, and \<^verbatim>\<open>cheriostest_string.c\<close>; the locale
    \<open>capability_copy\<close> is the contract of a copying function, interpreted for the copy that C prescribes.
  \<^item> \<open>Bounds\<close>: \<^verbatim>\<open>cheriostest_bounds_stack.c\<close>, \<^verbatim>\<open>cheriostest_bounds_heap.c\<close>; \<open>Globals\<close>: \<^verbatim>\<open>cheriostest_bounds_globals.c\<close> and
    \<^verbatim>\<open>cheriostest_bounds_globals_x.c\<close>; \<open>Varargs\<close>: \<^verbatim>\<open>cheriostest_bounds_varargs.c\<close>.
  \<^item> \<open>Subobject\<close>, \<open>Queue_Tests\<close>: \<^verbatim>\<open>cheriostest_bounds_subobject.c\<close>; structures as lists of members with sizes and alignments, the locale
    of a compiler that bounds members, and the loops through the lists of \<^verbatim>\<open>queue(3)\<close>.
  \<^item> \<open>Strfcap\<close>, \<open>Printf\<close>: \<^verbatim>\<open>cheriostest_strfcap.c\<close> and \<^verbatim>\<open>cheriostest_printf.c\<close>, with \<^verbatim>\<open>sscanf\<close> for the formats the tests use; the manual page
    of \<^verbatim>\<open>strfcap\<close> as the locale \<open>documented_strfcap\<close>, interpreted for a function that prints as it says.
  \<^item> \<open>Libc_Readers\<close>: \<^verbatim>\<open>cheriostest_cheriabi_libc.c\<close>; the locale \<open>sequential_readers\<close> of functions that read one byte after the other, and
    readers that load blocks.
  \<^item> \<open>Runtime_Tests\<close>, \<open>Runtime_Proofs\<close>: alignment of thread-local variables, indirect functions, function pointers, lazy binding, contexts
    and long jumps, compression. \<open>Tls_Threads\<close>, \<open>Tls_Threads_Proofs\<close>: \<^verbatim>\<open>cheriostest_tls_threads.c\<close> as an inductive step relation of two
    threads over a mutex, a condition and a flag, with spurious wake-ups and failing calls as steps.

  \<^bold>\<open>Tests of the kernel.\<close>
  \<^item> \<open>Address_Gap\<close>: \<^verbatim>\<open>cheriostest_util_vm.c\<close>; the locale \<open>gap_finder\<close> states what a search for a gap promises and is
    interpreted for the upward search of CheriBSD and the downward search of Linux.
  \<^item> \<open>Vm_System\<close>: the system calls of \<^verbatim>\<open>cheriostest_vm.c\<close> as the record \<^verbatim>\<open>vmk\<close> of functions over an arbitrary kernel state, and
    the helpers of the file (names of shared memory objects, temporary files, lengths, page sizes).
  \<^item> \<open>Vm_Tags\<close>: tags through mappings, shared memory, descriptors and copy-on-write. \<open>Vm_Contract\<close>: an abstract address space (objects with
    cells, mappings onto them, private copies, descriptors) and the locale \<open>vm_kernel\<close>: a kernel whose calls simulate it.
    \<open>Vm_Tag_Proofs\<close>: what the tests do under such a kernel, and the interpretation for a kernel built from the specification.
  \<^item> \<open>Vm_Reservations\<close>: reservations, invalid hints, and large pages on CheriBSD and on Linux. \<open>Vm_Sharing\<close>, \<open>Vm_Sharing_Proofs\<close>: the tests
    with two processes (a descriptor sent through a socket, a queue of events, a table of handlers) and those of capability hoards.
  \<^item> \<open>Revocation\<close>, \<open>Revoke_Lib\<close>, \<open>Vm_Quarantine\<close>: the tests of revocation, by system calls and by \<^verbatim>\<open>libcaprevoke\<close>, and of quarantined
    mappings. \<open>Revoke_Contract\<close>, \<open>Revoke_Proofs\<close>, \<open>Revoke_Async\<close>: the locales \<open>revoker\<close> and \<open>async_revoker\<close>, the verdicts under a revoker
    that overlooks the capabilities of a given set, and the interpretation on a model of memory with a shadow.
  \<^item> \<open>Allocator\<close>, \<open>Allocator_Proofs\<close>, \<open>Allocator_Ctl\<close>: \<^verbatim>\<open>cheriostest_malloc.c\<close>, the programs it starts and how the build marks them; the locales
    \<open>quarantining\<close> (an allocator that revokes what was freed) and \<open>revoke_kernel\<close> (the documented decision whether a process revokes).
  \<^item> \<open>Feature_Note\<close>, \<open>Feature_Proofs\<close>: the tool \<^verbatim>\<open>set-feature-ctl-note.cpp\<close> and its test program, on files as lists of bytes.
  \<^item> \<open>Cheriabi\<close>, \<open>Cheriabi_Proofs\<close>: \<^verbatim>\<open>cheriostest_cheriabi.c\<close>; the locale \<open>pointer_call\<close> is a system call that accepts or refuses a
    pointer and a length, \<open>pointer_checks\<close> a kernel with such calls, interpreted for one that checks capabilities. \<open>Open_Tests\<close>:
    \<^verbatim>\<open>cheriostest_cheriabi_open.c\<close>.
  \<^item> \<open>Ptrace\<close>, \<open>Ptrace_Proofs\<close>; \<open>Signals\<close>, \<open>Signals_Proofs\<close>; \<open>Syscalls\<close>; \<open>Kbounce\<close>: the files of these names.

  \<^bold>\<open>What is shown.\<close> Of the controller: every run of a test ends in exactly one verdict, the one the contract of
  the test gives; the page it reads is well typed; counters and name lists stay consistent; reported failures are never lost, up to the exit
  status of \<^verbatim>\<open>main\<close>; \<^verbatim>\<open>-a\<close> comes to an end and covers the registry; a copy started by a test reaches that test. Of
  the tests: exactly which capabilities they accept, that they pass on systems
  that behave as documented and fail on systems that do not, and which faults of a system they see: for most files the theorem is an
  equivalence between the verdict and a condition on the kernel, the compiler or the library, so that it also says what a test
  does not see. Concurrency: the threads meet under every schedule, and the waiting loop of
  asynchronous revocation ends under every revoker that gets on. Where the code does not do what it means to, the
  theorem says what it does: the argument array of \<^verbatim>\<open>mk_exec_args\<close>, the
  check of Morello code capabilities on Linux, the names of shared memory objects that are not random, the page sizes that overflow their
  array, the child that declares failure in place of forking, the decision that is wrong when \<^verbatim>\<open>procctl\<close> fails, the buffer that
  \<^verbatim>\<open>sys_kbounce\<close> does not check, the shift of an \<^verbatim>\<open>int\<close> in the tests of alignment, the status that is read when \<^verbatim>\<open>fork\<close> failed.

  \<^bold>\<open>Bounds and termination.\<close> Loops over lists and intervals are recursions over them; the search for an
  unrepresentable length counts up to the width of \<^verbatim>\<open>int\<close>, where the shift of the source stops having a meaning; the
  loop for a shared memory object makes ten attempts, as in the source; the notes of a file and the chunks of a block are walked with a measure.
  Loops that may run for ever have a value for it: the wait of \<^verbatim>\<open>cheri_revoke_async\<close> takes a number of turns, and a theorem says that
  from some number on it is enough; what follows \<^verbatim>\<open>setjmp\<close> is a \<^theory_text>\<open>partial_function\<close> with an exact theorem on when it ends; the loops over queues
  take fuel, and three turns are shown to be enough for their two elements; the runs of the two threads end by a measure on their states.
  The shared page has the sizes of the source (test results of 1024 bytes), the output that is compared is cut at
  1023 bytes, addresses wrap at 64 bits.

  \<^bold>\<open>Not modelled.\<close> Of the controller: the debugger option, the flushing of streams and the closing of descriptors, freeing memory, the text
  of the usage message, formatting of messages (a message is its format and its arguments). The macros that register tests in linker
  sets (the registry is a list) and the compatibility header, which renames functions. What the compiler, the linker, the loader, the
  kernel, the C library, \<^verbatim>\<open>libcaprevoke\<close> and zlib do is not code of the repository and is an argument throughout.
\<close>

section \<open>From the tests to the exit status\<close>

text \<open>A failure counted by one test of the registry is still there when the program ends.\<close>

lemma run_all_failure:
  assumes "os_works opt os" "run_all opt" "ct \<in> set (me_tests me)"
    and "\<And>r. \<exists>r'. cheriostest_run_test pl os opt u ct r = Inr r' \<and> 0 < tests_failed r'"
  shows "\<exists>r'. run_tests_main pl (cheriostest_run_test pl os opt u) me opt argv r0 = MainExit (- 1) r' \<and> 0 < tests_failed r'"
proof -
  let ?run = "cheriostest_run_test pl os opt u"
  obtain xs ys where split: "me_tests me = xs @ ct # ys" using assms(3) by (meson split_list)
  obtain r1 where r1: "run_seq ?run xs (xo (open_suites pl) r0) = Inr r1" using run_seq_total [OF assms(1)] by blast
  obtain r2 where r2: "?run ct r1 = Inr r2" "0 < tests_failed r2" using assms(4) by blast
  obtain r3 where r3: "run_seq ?run ys r2 = Inr r3" using run_seq_total [OF assms(1)] by blast
  have "0 < tests_failed r3" using run_test.seq_grows [OF r3] r2(2) by (simp add: runner_le_def)
  moreover have "run_seq ?run (me_tests me) (xo (open_suites pl) r0) = Inr r3"
    using split r1 r2(1) r3 by (simp add: run_seq_append)
  ultimately show ?thesis
    using assms(2) by (simp add: run_tests_main_def run_chosen_def xo_def Let_def)
qed

lemma run_all_pass:
  assumes "\<And>ct r. ct \<in> set cts \<Longrightarrow> \<exists>r'. step ct r = Inr r' \<and> tally r' = record_verdict Pass (tally r)"
  shows "\<exists>r'. run_seq step cts r = Inr r' \<and> tally r' = (tally r)(Pass := tally r Pass + length cts)"
  using assms
proof (induction cts arbitrary: r)
  case (Cons ct cts)
  obtain r1 where "step ct r = Inr r1" "tally r1 = record_verdict Pass (tally r)"
    using Cons.prems by (meson list.set_intros(1))
  moreover obtain r' where "run_seq step cts r1 = Inr r'" "tally r' = (tally r1)(Pass := tally r1 Pass + length cts)"
    using Cons.IH [of r1] Cons.prems by (meson list.set_intros(2))
  ultimately show ?case by (auto simp: record_verdict_def)
qed (simp add: fun_upd_idem)

text \<open>What \<^verbatim>\<open>main\<close> needs before the first test.\<close>

definition main_ready :: "'w main_env \<Rightarrow> string list \<Rightarrow> bool" where
  "main_ready me args \<longleftrightarrow> me_xo_parse_args me args = Some [''-a''] \<and> me_mmap_stack_ok me \<and> me_sigaltstack_ok me \<and>
     me_page_fits me \<and> me_mmap_page_ok me \<and> me_setrlimit_ok me"

text \<open>
  C1: No reported failure is lost on the way to the exit status: when the program is started with \<^verbatim>\<open>-a\<close> on a
  system whose calls succeed, and the body of a registered test that is due and has no \<^verbatim>\<open>xfail\<close> or \<^verbatim>\<open>flaky\<close>
  reason declares failure, the program ends with status \<^verbatim>\<open>-1\<close>, wherever the test is in the registry, whatever
  its flags and whatever the other tests do.
\<close>

theorem main_reports_failure:
  assumes "main_ready me args" "\<And>opt. os_works opt os" "ct \<in> set (me_tests me)"
    and "xfail_of ct = None" "ct_flaky_reason ct = None" "\<And>w. test_due (no_opts\<lparr>run_all := True\<rparr>) ct w"
    and "\<And>w. declares_failure (ct_func ct) (child_ready pl os w)"
  shows "\<exists>r'. main pl os me u args w = MainExit (- 1) r' \<and> 0 < tests_failed r'"
proof -
  have "\<exists>r'. cheriostest_run_test pl os (no_opts\<lparr>run_all := True\<rparr>) u ct r = Inr r' \<and> 0 < tests_failed r'" for r
  proof -
    obtain r' where "cheriostest_run_test pl os (no_opts\<lparr>run_all := True\<rparr>) u ct r = Inr r'"
      "tally r' = record_verdict Fail (tally r)"
      using run_test_declared_failure [OF assms(2) assms(6) assms(7)] assms(4,5) by fastforce
    then show ?thesis using tally.simps(3) [of r'] by (auto simp: record_verdict_def)
  qed
  then show ?thesis
    using run_all_failure [OF assms(2) _ assms(3)] main_all [of me args] assms(1) by (simp add: main_ready_def)
qed

theorem main_reports_failure_witness:
  "\<exists>r'. main morello_purecap quiet_os two_tests None [''-a''] () = MainExit (- 1) r' \<and> 0 < tests_failed r'"
proof -
  let ?bad = "plain_test ''bad'' (cheriostest_failure_errx morello_purecap ''no'' [])"
  have "main_ready two_tests [''-a'']" "?bad \<in> set (me_tests two_tests)"
    by (simp_all add: main_ready_def two_tests_def)
  moreover have "xfail_of ?bad = None" "ct_flaky_reason ?bad = None" "test_due (no_opts\<lparr>run_all := True\<rparr>) ?bad w" for w
    by (simp_all add: plain_test_def xfail_of_def test_due_def disallowed_prefixes_def begins_with_def no_opts_def)
  moreover have "declares_failure (ct_func ?bad) (child_ready morello_purecap quiet_os w)" for w
    by (simp add: plain_test_def declares_failure_errx)
  ultimately show ?thesis using main_reports_failure [of two_tests] by fastforce
qed

text \<open>
  C2: The program tells a working processor from a broken one: with the tests of faults as its registry, started
  with \<^verbatim>\<open>-a\<close> under a kernel that reports faults as documented, it ends with status 0 and four passed tests if
  accesses are checked as the architecture prescribes, and with status \<^verbatim>\<open>-1\<close> if they never fault.
\<close>

theorem main_fault_suite:
  assumes "main_ready me args" "\<And>opt. os_works opt os" "me_tests me = fault_tests pl fe"
    and "kernel_reports pl os fe" "array_ok pl (fe_array fe)" "\<not> SEGV_DEF_MISSING fe" "0 < SIGPROT fe" "0 < SIGSEGV fe"
  shows "(fe_check fe = access_fault pl \<longrightarrow>
      (\<exists>r'. main pl os me u args w = MainExit EX_OK r' \<and> tests_passed r' = 4)) \<and>
    (fe_check fe = (\<lambda>_ _ _. None) \<longrightarrow> (\<exists>r'. main pl os me u args w = MainExit (- 1) r'))"
proof (intro conjI impI)
  let ?o = "no_opts\<lparr>run_all := True\<rparr>" and ?r = "xo (open_suites pl) (initial_runner pl w)"
  let ?run = "cheriostest_run_test pl os ?o u"
  have main: "main pl os me u args w = run_tests_main pl ?run me ?o [] (initial_runner pl w)"
    using main_all [of me args] assms(1) by (simp add: main_ready_def)
  show "\<exists>r'. main pl os me u args w = MainExit EX_OK r' \<and> tests_passed r' = 4" if "fe_check fe = access_fault pl"
  proof -
    have "\<exists>r'. ?run ct r = Inr r' \<and> tally r' = record_verdict Pass (tally r)" if "ct \<in> set (me_tests me)" for ct r
      using fault_tests_end_in_pass [OF assms(2,4) \<open>fe_check fe = access_fault pl\<close> assms(5,6)] that assms(3) by auto
    from run_all_pass [of "me_tests me" ?run ?r, OF this]
    obtain r' where r': "run_seq ?run (me_tests me) ?r = Inr r'" "tally r' = (tally ?r)(Pass := tally ?r Pass + length (me_tests me))"
      by blast
    have "tests_failed r' = 0" "tests_passed r' = 4"
      using tally.simps(1,3) [of r'] assms(3) unfolding r'(2) by (simp_all add: initial_runner_def fault_tests_def)
    then show ?thesis using r'(1) by (simp add: main run_tests_main_def run_chosen_def xo_def Let_def)
  qed
  show "\<exists>r'. main pl os me u args w = MainExit (- 1) r'" if never: "fe_check fe = (\<lambda>_ _ _. None)"
  proof -
    have fails: "\<exists>r'. ?run (fault_tag_test pl fe) r = Inr r' \<and> 0 < tests_failed r'" for r
    proof -
      obtain r' where "?run (fault_tag_test pl fe) r = Inr r'" "tally r' = record_verdict Fail (tally r)"
        using fault_tests_end_in_fail [OF assms(2) never assms(7,8), of pl ?o u r] by (auto simp: fault_tests_def)
      then show ?thesis using tally.simps(3) [of r'] by (auto simp: record_verdict_def)
    qed
    have "fault_tag_test pl fe \<in> set (me_tests me)" using assms(3) by (simp add: fault_tests_def)
    from run_all_failure [OF assms(2) _ this fails] show ?thesis unfolding main by fastforce
  qed
qed

definition fault_main_env :: "fault_world main_env" where
  "fault_main_env = \<lparr>me_xo_parse_args = Some, me_qemu_trace_perthread = None,
     me_tests = fault_tests morello_linux fault_env_example, me_fnmatch = (\<lambda>p n. p = n),
     me_mmap_stack_ok = True, me_sigaltstack_ok = True, me_page_fits = True, me_mmap_page_ok = True, me_setrlimit_ok = True\<rparr>"

theorem main_fault_suite_witness:
  "\<forall>w. \<exists>r'. main morello_linux quiet_os fault_main_env None [''-a''] w = MainExit EX_OK r' \<and> tests_passed r' = 4"
proof -
  have "kernel_reports morello_linux (quiet_os :: fault_world os) fault_env_example"
    by (simp add: kernel_reports_def fault_env_example_def quiet_os_def is_FreeBSD_def morello_linux_def)
  moreover have "array_ok morello_linux (fe_array fault_env_example)"
    by (simp add: array_ok_def fault_env_example_def stack_example_def morello_linux_def morello_purecap_def
        cheri_is_sealed_def access_in_bounds_def cap_top_def)
  moreover have "fe_check fault_env_example = access_fault morello_linux" "\<not> SEGV_DEF_MISSING fault_env_example"
    "0 < SIGPROT fault_env_example" "0 < SIGSEGV fault_env_example" by (simp_all add: fault_env_example_def)
  moreover have "main_ready fault_main_env [''-a'']" "me_tests fault_main_env = fault_tests morello_linux fault_env_example"
    by (simp_all add: main_ready_def fault_main_env_def)
  ultimately show ?thesis
    using main_fault_suite [OF _ quiet_os_works, of fault_main_env "[''-a'']" morello_linux fault_env_example] by simp
qed

end
